(* ===== verification/Prelude.thy ===== *)
theory Prelude
  imports Main "HOL-Library.Word"
begin

unbundle bit_operations_syntax

text \<open>
  Shared vocabulary of the development: bytes and machine words, byte order, the byte
  representation of unsigned integers in memory, and the rule collections the component
  theories extend.

  \<^item> \<open>layout\<close> collects sizes and alignments of C types already computed, so that a struct
    that contains them is laid out without looking inside;
  \<^item> \<open>codec\<close> collects length and round-trip facts of byte encodings.
\<close>

type_synonym byte = "8 word"
type_synonym u8 = "8 word"
type_synonym u16 = "16 word"
type_synonym u32 = "32 word"
type_synonym u64 = "64 word"

named_theorems layout \<open>sizes and alignments of C types\<close>
named_theorems codec \<open>lengths and round trips of byte encodings\<close>

section \<open>Byte order\<close>

datatype endian = Little | Big

text \<open>The \<open>n\<close> low-order bytes of a number, least significant first, and back.\<close>

lemma unat_bound: "unat (w :: 'a::len word) < 2 ^ LENGTH('a)"
  by (rule unsigned_less)

fun le_bytes :: "nat \<Rightarrow> nat \<Rightarrow> byte list" where
  "le_bytes 0 v = []"
| "le_bytes (Suc n) v = word_of_nat v # le_bytes n (v div 256)"

fun le_val :: "byte list \<Rightarrow> nat" where
  "le_val [] = 0"
| "le_val (b # bs) = unat b + 256 * le_val bs"

definition enc :: "endian \<Rightarrow> nat \<Rightarrow> nat \<Rightarrow> byte list" where
  "enc e n v = (case e of Little \<Rightarrow> le_bytes n v | Big \<Rightarrow> rev (le_bytes n v))"

definition dec :: "endian \<Rightarrow> byte list \<Rightarrow> nat" where
  "dec e bs = (case e of Little \<Rightarrow> le_val bs | Big \<Rightarrow> le_val (rev bs))"

lemma length_le_bytes [simp]: "length (le_bytes n v) = n"
  by (induction n arbitrary: v) auto

lemma length_enc [simp, codec]: "length (enc e n v) = n"
  by (cases e) (simp_all add: enc_def)

lemma le_val_bound: "le_val bs < 256 ^ length bs"
proof (induction bs)
  case Nil
  then show ?case by simp
next
  case (Cons b bs)
  have "unat b < 256" using unat_bound [of b] by simp
  moreover have "Suc (le_val bs) * 256 \<le> 256 ^ length bs * 256"
    using Cons.IH by (intro mult_le_mono1) simp
  ultimately show ?case by simp
qed

lemma dec_bound: "dec e bs < 256 ^ length bs"
  using le_val_bound [of bs] le_val_bound [of "rev bs"] by (cases e) (simp_all add: dec_def)

lemma le_val_le_bytes: "le_val (le_bytes n v) = v mod 256 ^ n"
proof (induction n arbitrary: v)
  case 0
  then show ?case by simp
next
  case (Suc n)
  have "unat (word_of_nat v :: byte) = v mod 256"
    by (simp add: unat_of_nat)
  with Suc.IH [of "v div 256"] show ?case
    by (simp add: mod_mult2_eq)
qed

lemma le_bytes_le_val: "le_bytes (length bs) (le_val bs) = bs"
proof (induction bs)
  case Nil
  then show ?case by simp
next
  case (Cons b bs)
  have lt: "unat b < 256" using unat_bound [of b] by simp
  have "(unat b + 256 * le_val bs) div 256 = le_val bs"
    using lt by simp
  moreover have "word_of_nat (unat b + 256 * le_val bs) = b"
    by (rule word_unat_eq_iff [THEN iffD2], subst unat_of_nat) (use lt in simp)
  ultimately show ?case using Cons.IH by (simp del: of_nat_add)
qed

lemma dec_enc [codec]: "dec e (enc e n v) = v mod 256 ^ n"
  by (cases e) (simp_all add: dec_def enc_def le_val_le_bytes)

lemma enc_dec [codec]: "length bs = n \<Longrightarrow> enc e n (dec e bs) = bs"
  using le_bytes_le_val [of bs] le_bytes_le_val [of "rev bs"]
  by (cases e) (auto simp: dec_def enc_def)

lemma enc_flip: "enc Big n v = rev (enc Little n v)"
  by (simp add: enc_def)

text \<open>Evaluation at a literal length.\<close>

lemma le_bytes_numeral: "le_bytes (numeral k) v = word_of_nat v # le_bytes (pred_numeral k) (v div 256)"
  using le_bytes.simps(2) [of "pred_numeral k" v] by (simp only: numeral_eq_Suc [symmetric])

lemmas enc_eval = enc_def le_bytes_numeral

section \<open>Words in memory\<close>

text \<open>
  A \<open>u16\<close>, \<open>u32\<close> or \<open>u64\<close> object occupies 2, 4 or 8 bytes in the byte order of the host.
  \<open>rd\<close> reads such an object from its bytes, \<open>wr\<close> writes it.
\<close>

definition wr16 :: "endian \<Rightarrow> u16 \<Rightarrow> byte list" where
  "wr16 e w = enc e 2 (unat w)"

definition wr32 :: "endian \<Rightarrow> u32 \<Rightarrow> byte list" where
  "wr32 e w = enc e 4 (unat w)"

definition wr64 :: "endian \<Rightarrow> u64 \<Rightarrow> byte list" where
  "wr64 e w = enc e 8 (unat w)"

definition rd16 :: "endian \<Rightarrow> byte list \<Rightarrow> u16" where
  "rd16 e bs = word_of_nat (dec e bs)"

definition rd32 :: "endian \<Rightarrow> byte list \<Rightarrow> u32" where
  "rd32 e bs = word_of_nat (dec e bs)"

definition rd64 :: "endian \<Rightarrow> byte list \<Rightarrow> u64" where
  "rd64 e bs = word_of_nat (dec e bs)"

lemma length_wr [simp, codec]:
  "length (wr16 e a) = 2" "length (wr32 e b) = 4" "length (wr64 e c) = 8"
  by (simp_all add: wr16_def wr32_def wr64_def)

lemma rd_wr [simp, codec]:
  "rd16 e (wr16 e a) = a" "rd32 e (wr32 e b) = b" "rd64 e (wr64 e c) = c"
  using unat_bound [of a] unat_bound [of b] unat_bound [of c]
  by (simp_all add: rd16_def wr16_def rd32_def wr32_def rd64_def wr64_def dec_enc)

lemma wr16_rd16 [codec]: "length bs = 2 \<Longrightarrow> wr16 e (rd16 e bs) = bs"
  using dec_bound [of e bs] by (simp add: rd16_def wr16_def unat_of_nat enc_dec)

lemma wr32_rd32 [codec]: "length bs = 4 \<Longrightarrow> wr32 e (rd32 e bs) = bs"
  using dec_bound [of e bs] by (simp add: rd32_def wr32_def unat_of_nat enc_dec)

lemma wr64_rd64 [codec]: "length bs = 8 \<Longrightarrow> wr64 e (rd64 e bs) = bs"
  using dec_bound [of e bs] by (simp add: rd64_def wr64_def unat_of_nat enc_dec)

lemma wr16_inject [simp]: "wr16 e a = wr16 e a' \<longleftrightarrow> a = a'"
  by (metis rd_wr(1))

lemma wr32_inject [simp]: "wr32 e b = wr32 e b' \<longleftrightarrow> b = b'"
  by (metis rd_wr(2))

lemma wr64_inject [simp]: "wr64 e c = wr64 e c' \<longleftrightarrow> c = c'"
  by (metis rd_wr(3))

lemma rd32_zero: "length bs = 4 \<Longrightarrow> rd32 e bs = 0 \<longleftrightarrow> bs = [0, 0, 0, 0]"
proof -
  assume len: "length bs = 4"
  have "wr32 e 0 = [0, 0, 0, 0]"
    by (cases e) (simp_all add: wr32_def enc_eval)
  moreover have "rd32 e bs = 0 \<longleftrightarrow> wr32 e (rd32 e bs) = wr32 e 0" by (simp only: wr32_inject)
  ultimately show ?thesis using len by (simp add: wr32_rd32)
qed

text \<open>
  \<open>bswap16\<close> and \<open>bswap32\<close> are the compiler builtins: the value whose bytes are the
  argument's in reverse order.
\<close>

definition bswap16 :: "u16 \<Rightarrow> u16" where
  "bswap16 w = rd16 Big (wr16 Little w)"

definition bswap32 :: "u32 \<Rightarrow> u32" where
  "bswap32 w = rd32 Big (wr32 Little w)"

text \<open>The network-order conversions of the BPF endian header: a swap on little-endian hosts.\<close>

definition bpf_ntohs :: "endian \<Rightarrow> u16 \<Rightarrow> u16" where
  "bpf_ntohs e w = (case e of Little \<Rightarrow> bswap16 w | Big \<Rightarrow> w)"

definition bpf_htonl :: "endian \<Rightarrow> u32 \<Rightarrow> u32" where
  "bpf_htonl e w = (case e of Little \<Rightarrow> bswap32 w | Big \<Rightarrow> w)"

lemma bpf_ntohs_rd16: "length bs = 2 \<Longrightarrow> bpf_ntohs e (rd16 e bs) = rd16 Big bs"
  by (cases e) (simp_all add: bpf_ntohs_def bswap16_def wr16_rd16)

lemma bpf_htonl_wr: "wr32 e (bpf_htonl e w) = wr32 Big w"
proof (cases e)
  case Little
  have "wr32 Little (rd32 Big (wr32 Little w)) = rev (wr32 Little w)"
  proof -
    have "rd32 Big (wr32 Little w) = rd32 Little (rev (wr32 Little w))"
      by (simp add: rd32_def dec_def)
    then show ?thesis by (simp add: wr32_rd32)
  qed
  also have "\<dots> = wr32 Big w" by (simp add: wr32_def enc_flip)
  finally show ?thesis using Little by (simp add: bpf_htonl_def bswap32_def)
qed (simp add: bpf_htonl_def)

lemma rd32_eq_htonl:
  assumes "length bs = 4"
  shows "rd32 e bs = bpf_htonl e w \<longleftrightarrow> bs = wr32 Big w"
proof -
  have "rd32 e bs = bpf_htonl e w \<longleftrightarrow> wr32 e (rd32 e bs) = wr32 e (bpf_htonl e w)"
    by (simp only: wr32_inject)
  then show ?thesis using assms by (simp add: wr32_rd32 bpf_htonl_wr)
qed

section \<open>Arrays of four words\<close>

text \<open>
  \<open>__u32 a[4]\<close> filled by a 16-byte copy, as the address arrays of a connection key are.
\<close>

definition rd32x4 :: "endian \<Rightarrow> byte list \<Rightarrow> u32 list" where
  "rd32x4 e bs = [rd32 e (take 4 bs), rd32 e (take 4 (drop 4 bs)),
                  rd32 e (take 4 (drop 8 bs)), rd32 e (take 4 (drop 12 bs))]"

definition wr32s :: "endian \<Rightarrow> u32 list \<Rightarrow> byte list" where
  "wr32s e ws = concat (map (wr32 e) ws)"

lemma length_rd32x4 [simp, codec]: "length (rd32x4 e bs) = 4"
  by (simp add: rd32x4_def)

lemma length_wr32s [simp, codec]: "length (wr32s e ws) = 4 * length ws"
  by (induction ws) (simp_all add: wr32s_def)

lemma length4_cases:
  assumes "length xs = 4"
  obtains a b c d where "xs = [a, b, c, d]"
  using assms by (auto simp: eval_nat_numeral length_Suc_conv)

lemma rd32x4_wr32s [simp, codec]: "length ws = 4 \<Longrightarrow> rd32x4 e (wr32s e ws) = ws"
  by (erule length4_cases) (simp add: rd32x4_def wr32s_def)

lemma wr32s_rd32x4 [codec]: "length bs = 16 \<Longrightarrow> wr32s e (rd32x4 e bs) = bs"
proof -
  assume len: "length bs = 16"
  have split: "bs = take 4 bs @ take 4 (drop 4 bs) @ take 4 (drop 8 bs) @ take 4 (drop 12 bs)"
    using len append_take_drop_id [of 4 bs] append_take_drop_id [of 4 "drop 4 bs"]
      append_take_drop_id [of 4 "drop 8 bs"]
    by simp
  have "wr32s e (rd32x4 e bs)
      = take 4 bs @ take 4 (drop 4 bs) @ take 4 (drop 8 bs) @ take 4 (drop 12 bs)"
    using len by (simp add: wr32s_def rd32x4_def wr32_rd32)
  also have "\<dots> = bs" by (rule split [symmetric])
  finally show ?thesis .
qed

lemma wr32s_inject: "length ws = 4 \<Longrightarrow> length ws' = 4 \<Longrightarrow> wr32s e ws = wr32s e ws' \<longleftrightarrow> ws = ws'"
  by (auto dest: arg_cong [of _ _ "rd32x4 e"])

section \<open>Two words in one\<close>

text \<open>
  Two 32-bit values packed into 64 bits, \<open>hi\<close> in the upper half: how the BPF helpers return a
  pair of ids, and what two adjacent words of a little-endian host read as.
\<close>

definition pair64 :: "u32 \<Rightarrow> u32 \<Rightarrow> u64" where
  "pair64 hi lo = word_of_nat (unat hi * 2 ^ 32 + unat lo)"

lemma unat_pair64: "unat (pair64 hi lo) = unat hi * 2 ^ 32 + unat lo"
proof -
  have "Suc (unat hi) * 2 ^ 32 \<le> 2 ^ 32 * 2 ^ 32"
    using unat_bound [of hi] by (intro mult_le_mono1) simp
  then have "unat hi * 2 ^ 32 + unat lo < 2 ^ 64"
    using unat_bound [of lo] by simp
  then show ?thesis unfolding pair64_def by (subst unat_of_nat) simp
qed

lemma pair64_zero: "pair64 hi lo = 0 \<longleftrightarrow> lo = 0 \<and> hi = 0"
proof -
  have "pair64 hi lo = 0 \<longleftrightarrow> unat (pair64 hi lo) = 0" by (simp add: unat_eq_0)
  also have "\<dots> \<longleftrightarrow> lo = 0 \<and> hi = 0" by (auto simp: unat_pair64 unat_eq_0)
  finally show ?thesis .
qed

lemma pair64_halves:
  "(ucast (drop_bit 32 (pair64 hi lo)) :: u32) = hi" "(ucast (pair64 hi lo) :: u32) = lo"
proof -
  have lo: "unat lo < 4294967296" using unat_bound [of lo] by simp
  have hi: "unat hi < 4294967296" using unat_bound [of hi] by simp
  have "unat (drop_bit 32 (pair64 hi lo)) = unat hi"
    by (subst unat_drop_bit_eq) (use lo in \<open>simp add: drop_bit_eq_div unat_pair64\<close>)
  then have "unat (ucast (drop_bit 32 (pair64 hi lo)) :: u32) = unat hi"
    using hi by (simp only: unsigned_ucast_eq) (simp add: take_bit_eq_mod)
  then show "(ucast (drop_bit 32 (pair64 hi lo)) :: u32) = hi" by (simp only: word_unat_eq_iff)
  have "unat (ucast (pair64 hi lo) :: u32) = unat lo"
    using lo by (simp only: unsigned_ucast_eq unat_pair64) (simp add: take_bit_eq_mod)
  then show "(ucast (pair64 hi lo) :: u32) = lo" by (simp only: word_unat_eq_iff)
qed

lemma le_val_append: "le_val (xs @ ys) = le_val xs + 256 ^ length xs * le_val ys"
proof (induction xs)
  case (Cons x xs)
  show ?case
    by (simp only: append_Cons le_val.simps Cons.IH list.size power_Suc add_mult_distrib2
        mult.assoc add.assoc add_0_right add_Suc_right)
qed simp

lemma le_val_wr32: "le_val (wr32 Little w) = unat w"
  using dec_enc [of Little 4 "unat w"] unat_bound [of w] by (simp add: wr32_def dec_def)

lemma rd64_Little_pair: "rd64 Little (wr32 Little lo @ wr32 Little hi) = pair64 hi lo"
proof -
  have "dec Little (wr32 Little lo @ wr32 Little hi) = unat lo + 256 ^ 4 * unat hi"
    by (simp only: dec_def endian.case le_val_append le_val_wr32 length_wr)
  also have "\<dots> = unat hi * 2 ^ 32 + unat lo" by simp
  finally show ?thesis by (simp only: rd64_def pair64_def)
qed

end
