(* ===== verification/C_Layout.thy ===== *)
theory C_Layout
  imports Prelude
begin

text \<open>
  C object layout, the part of the language the kernel type header relies on: sizes,
  alignments, the placement of struct members (bit fields included), and the search for a
  member by name through anonymous structs and unions, which is how a CO-RE access such as
  \<open>sk->__sk_common.skc_num\<close> finds its offset.

  The data model (\<open>abi\<close>) is a parameter: the BPF target is LP64 whatever the host is, the
  running kernel has the model of its own architecture.
\<close>

section \<open>Data models and types\<close>

record abi =
  long_size :: nat
  ptr_size :: nat
  llong_align :: nat
  anon_bits_align :: bool  \<comment> \<open>an unnamed bit field raises the alignment of its struct\<close>

definition abi_bpf :: abi where
  "abi_bpf = \<lparr>long_size = 8, ptr_size = 8, llong_align = 8, anon_bits_align = False\<rparr>"

definition abi_x86 :: abi where
  "abi_x86 = \<lparr>long_size = 8, ptr_size = 8, llong_align = 8, anon_bits_align = False\<rparr>"

definition abi_aarch64 :: abi where
  "abi_aarch64 = \<lparr>long_size = 8, ptr_size = 8, llong_align = 8, anon_bits_align = True\<rparr>"

definition abi_arm :: abi where
  "abi_arm = \<lparr>long_size = 4, ptr_size = 4, llong_align = 8, anon_bits_align = True\<rparr>"

datatype scalar =
    TChar | TUChar | TBool | TShort | TUShort | TInt | TUInt | TLong | TULong
  | TLongLong | TULongLong | TInt128

text \<open>
  Pointers, functions pointers included, all have one representation; what they point to
  does not matter for layout and is not kept. An enumeration keeps its enumerators.
\<close>

datatype ctype =
    Scalar scalar
  | Pointer
  | Enum "(string \<times> int) list"
  | Array ctype nat
  | Struct "member list"
  | Union "member list"
and member =
    Field string ctype
  | Anonymous ctype
  | Bits string ctype nat
  | Padding ctype nat

section \<open>Alignment and size\<close>

definition align_up :: "nat \<Rightarrow> nat \<Rightarrow> nat" where
  "align_up n a = (if a = 0 then n else (n + a - 1) div a * a)"

definition larger :: "nat \<Rightarrow> nat \<Rightarrow> nat" where
  "larger a b = (if a \<le> b then b else a)"

fun scalar_size :: "abi \<Rightarrow> scalar \<Rightarrow> nat" where
  "scalar_size A TChar = 1"
| "scalar_size A TUChar = 1"
| "scalar_size A TBool = 1"
| "scalar_size A TShort = 2"
| "scalar_size A TUShort = 2"
| "scalar_size A TInt = 4"
| "scalar_size A TUInt = 4"
| "scalar_size A TLong = long_size A"
| "scalar_size A TULong = long_size A"
| "scalar_size A TLongLong = 8"
| "scalar_size A TULongLong = 8"
| "scalar_size A TInt128 = 16"

fun scalar_align :: "abi \<Rightarrow> scalar \<Rightarrow> nat" where
  "scalar_align A TLongLong = llong_align A"
| "scalar_align A TULongLong = llong_align A"
| "scalar_align A s = scalar_size A s"

fun align_of :: "abi \<Rightarrow> ctype \<Rightarrow> nat"
and member_align :: "abi \<Rightarrow> member \<Rightarrow> nat"
and members_align :: "abi \<Rightarrow> member list \<Rightarrow> nat" where
  "align_of A (Scalar s) = scalar_align A s"
| "align_of A Pointer = ptr_size A"
| "align_of A (Enum es) = 4"
| "align_of A (Array t n) = align_of A t"
| "align_of A (Struct ms) = members_align A ms"
| "align_of A (Union ms) = members_align A ms"
| "member_align A (Field f t) = align_of A t"
| "member_align A (Anonymous t) = align_of A t"
| "member_align A (Bits f t w) = align_of A t"
| "member_align A (Padding t w) = (if anon_bits_align A then align_of A t else 1)"
| "members_align A [] = 1"
| "members_align A (m # ms) = larger (member_align A m) (members_align A ms)"

text \<open>
  Positions inside a struct are counted in bits. A bit field shares the storage unit of the
  one before it unless it would cross the unit's boundary; a width of zero closes the unit.
\<close>

definition bits_start :: "nat \<Rightarrow> nat \<Rightarrow> nat \<Rightarrow> nat" where
  "bits_start pos w unit =
     (if w \<noteq> 0 \<and> pos div unit = (pos + w - 1) div unit then pos else align_up pos unit)"

fun size_of :: "abi \<Rightarrow> ctype \<Rightarrow> nat"
and member_bits :: "abi \<Rightarrow> member \<Rightarrow> nat"
and member_start :: "abi \<Rightarrow> nat \<Rightarrow> member \<Rightarrow> nat"
and struct_end :: "abi \<Rightarrow> nat \<Rightarrow> member list \<Rightarrow> nat"
and union_end :: "abi \<Rightarrow> member list \<Rightarrow> nat" where
  "size_of A (Scalar s) = scalar_size A s"
| "size_of A Pointer = ptr_size A"
| "size_of A (Enum es) = 4"
| "size_of A (Array t n) = size_of A t * n"
| "size_of A (Struct ms) =
     align_up (align_up (struct_end A 0 ms) 8 div 8) (members_align A ms)"
| "size_of A (Union ms) =
     align_up (align_up (union_end A ms) 8 div 8) (members_align A ms)"
| "member_bits A (Field f t) = 8 * size_of A t"
| "member_bits A (Anonymous t) = 8 * size_of A t"
| "member_bits A (Bits f t w) = w"
| "member_bits A (Padding t w) = w"
| "member_start A pos (Field f t) = align_up pos (8 * align_of A t)"
| "member_start A pos (Anonymous t) = align_up pos (8 * align_of A t)"
| "member_start A pos (Bits f t w) = bits_start pos w (8 * size_of A t)"
| "member_start A pos (Padding t w) = bits_start pos w (8 * size_of A t)"
| "struct_end A pos [] = pos"
| "struct_end A pos (m # ms) = struct_end A (member_start A pos m + member_bits A m) ms"
| "union_end A [] = 0"
| "union_end A (m # ms) = larger (member_bits A m) (union_end A ms)"

lemmas layout_eval = align_up_def bits_start_def larger_def

section \<open>Members by name\<close>

text \<open>
  The byte offset and the type of a named member. Members of anonymous structs and unions
  are members of the enclosing type; a bit field has no address.
\<close>

fun find_field :: "abi \<Rightarrow> ctype \<Rightarrow> string \<Rightarrow> (nat \<times> ctype) option"
and find_member :: "abi \<Rightarrow> nat \<Rightarrow> member \<Rightarrow> string \<Rightarrow> (nat \<times> ctype) option"
and find_in_struct :: "abi \<Rightarrow> nat \<Rightarrow> member list \<Rightarrow> string \<Rightarrow> (nat \<times> ctype) option"
and find_in_union :: "abi \<Rightarrow> member list \<Rightarrow> string \<Rightarrow> (nat \<times> ctype) option" where
  "find_field A (Struct ms) f = find_in_struct A 0 ms f"
| "find_field A (Union ms) f = find_in_union A ms f"
| "find_field A t f = None"
| "find_member A start (Field g t) f = (if g = f then Some (start, t) else None)"
| "find_member A start (Anonymous t) f =
     (case find_field A t f of None \<Rightarrow> None | Some (k, t') \<Rightarrow> Some (start + k, t'))"
| "find_member A start m f = None"
| "find_in_struct A pos [] f = None"
| "find_in_struct A pos (m # ms) f =
     (case find_member A (member_start A pos m div 8) m f of
        Some r \<Rightarrow> Some r
      | None \<Rightarrow> find_in_struct A (member_start A pos m + member_bits A m) ms f)"
| "find_in_union A [] f = None"
| "find_in_union A (m # ms) f =
     (case find_member A 0 m f of Some r \<Rightarrow> Some r | None \<Rightarrow> find_in_union A ms f)"

fun resolve :: "abi \<Rightarrow> ctype \<Rightarrow> string list \<Rightarrow> (nat \<times> ctype) option" where
  "resolve A t [] = Some (0, t)"
| "resolve A t (f # fs) =
     (case find_field A t f of
        None \<Rightarrow> None
      | Some (k, u) \<Rightarrow> map_option (\<lambda>(k', u'). (k + k', u')) (resolve A u fs))"

section \<open>The layout is sound\<close>

subsection \<open>Rounding up\<close>

lemma align_up_ge [simp]: "n \<le> align_up n a"
proof (cases "a = 0")
  case False
  have "n + a - 1 < (n + a - 1) div a * a + a"
    using False by (metis add.commute dividend_less_div_times neq0_conv)
  with False show ?thesis by (simp add: align_up_def)
qed (simp add: align_up_def)

lemma align_up_dvd [simp]: "a \<noteq> 0 \<Longrightarrow> a dvd align_up n a"
  by (simp add: align_up_def)

lemma bits_start_ge [simp]: "pos \<le> bits_start pos w unit"
  by (simp add: bits_start_def)

lemma member_start_ge [simp]: "pos \<le> member_start A pos m"
  by (cases m) simp_all

lemma struct_end_ge: "pos \<le> struct_end A pos ms"
proof (induction ms arbitrary: pos)
  case (Cons m ms)
  have "pos \<le> member_start A pos m + member_bits A m"
    using member_start_ge [of pos A m] by linarith
  also have "\<dots> \<le> struct_end A \<dots> ms" by (rule Cons.IH)
  finally show ?case by simp
qed simp

lemma larger_ge [simp]: "a \<le> larger a b" "b \<le> larger a b"
  by (simp_all add: larger_def)

lemma member_bits_le_union_end: "m \<in> set ms \<Longrightarrow> member_bits A m \<le> union_end A ms"
  by (induction ms) (auto intro: le_trans)

subsection \<open>Alignments are powers of two\<close>

text \<open>
  \<open>lp_abi\<close> holds of the LP64 and ILP32 models above. Under it every alignment is a power of
  two, so that of two alignments the smaller divides the larger.
\<close>

definition lp_abi :: "abi \<Rightarrow> bool" where
  "lp_abi A \<longleftrightarrow> long_size A \<in> {4, 8} \<and> ptr_size A \<in> {4, 8} \<and> llong_align A \<in> {4, 8}"

lemma lp_abis [simp]: "lp_abi abi_bpf" "lp_abi abi_x86" "lp_abi abi_aarch64" "lp_abi abi_arm"
  by (simp_all add: lp_abi_def abi_bpf_def abi_x86_def abi_aarch64_def abi_arm_def)

definition aligns :: "nat set" where
  "aligns = {1, 2, 4, 8, 16}"

lemma aligns_pos: "a \<in> aligns \<Longrightarrow> a \<noteq> 0"
  by (auto simp: aligns_def)

lemma aligns_max: "a \<in> aligns \<Longrightarrow> b \<in> aligns \<Longrightarrow> larger a b \<in> aligns"
  by (simp add: larger_def)

lemma aligns_dvd: "a \<in> aligns \<Longrightarrow> b \<in> aligns \<Longrightarrow> a \<le> b \<Longrightarrow> a dvd b"
  by (auto simp: aligns_def)

lemma scalar_align_aligns: "lp_abi A \<Longrightarrow> scalar_align A s \<in> aligns"
  by (cases s) (auto simp: lp_abi_def aligns_def)

lemma align_of_aligns:
  "lp_abi A \<Longrightarrow> align_of A t \<in> aligns"
  "lp_abi A \<Longrightarrow> member_align A m \<in> aligns"
  "lp_abi A \<Longrightarrow> members_align A ms \<in> aligns"
proof (induction A t and A m and A ms rule: align_of_member_align_members_align.induct)
qed (auto simp: scalar_align_aligns aligns_max, auto simp: lp_abi_def aligns_def)

lemma align_of_pos [simp]: "lp_abi A \<Longrightarrow> 0 < align_of A t"
  using aligns_pos [OF align_of_aligns(1)] by simp

lemma members_align_dvd_tail: "lp_abi A \<Longrightarrow> members_align A ms dvd members_align A (m # ms)"
  by (simp add: aligns_dvd align_of_aligns aligns_max)

lemma member_align_dvd: "lp_abi A \<Longrightarrow> m \<in> set ms \<Longrightarrow> member_align A m dvd members_align A ms"
proof (induction ms)
  case (Cons x ms)
  let ?a = "member_align A x" and ?b = "members_align A ms"
  have "?a dvd larger ?a ?b" "?b dvd larger ?a ?b"
    using Cons.prems(1) by (simp_all add: aligns_dvd align_of_aligns aligns_max)
  with Cons show ?case by (auto intro: dvd_trans)
qed simp

subsection \<open>Members found by name lie inside the object\<close>

lemma size_of_struct_ge: "struct_end A 0 ms \<le> 8 * size_of A (Struct ms)"
proof -
  have "struct_end A 0 ms \<le> align_up (struct_end A 0 ms) 8" by (rule align_up_ge)
  also have "\<dots> = 8 * (align_up (struct_end A 0 ms) 8 div 8)" by (simp add: align_up_def)
  also have "\<dots> \<le> 8 * size_of A (Struct ms)"
    unfolding size_of.simps by (intro mult_le_mono2 align_up_ge)
  finally show ?thesis .
qed

lemma size_of_union_ge: "union_end A ms \<le> 8 * size_of A (Union ms)"
proof -
  have "union_end A ms \<le> align_up (union_end A ms) 8" by (rule align_up_ge)
  also have "\<dots> = 8 * (align_up (union_end A ms) 8 div 8)" by (simp add: align_up_def)
  also have "\<dots> \<le> 8 * size_of A (Union ms)"
    unfolding size_of.simps by (intro mult_le_mono2 align_up_ge)
  finally show ?thesis .
qed

text \<open>
  A field or an anonymous member starts on a byte boundary, and the byte is a multiple of its
  alignment.
\<close>

definition addressable :: "member \<Rightarrow> bool" where
  "addressable m \<longleftrightarrow> (case m of Field f t \<Rightarrow> True | Anonymous t \<Rightarrow> True | _ \<Rightarrow> False)"

lemma member_start_byte:
  assumes "lp_abi A" "addressable m"
  shows "8 * (member_start A pos m div 8) = member_start A pos m"
    and "member_align A m dvd member_start A pos m div 8"
proof -
  have "8 * member_align A m dvd member_start A pos m"
    using assms align_of_pos [of A] by (cases m) (auto simp: addressable_def)
  then obtain k where "member_start A pos m = 8 * member_align A m * k" ..
  then show "8 * (member_start A pos m div 8) = member_start A pos m"
    and "member_align A m dvd member_start A pos m div 8" by simp_all
qed

lemma find_member_addressable: "find_member A p m f = Some r \<Longrightarrow> addressable m"
  by (cases m) (auto simp: addressable_def)

text \<open>What it means that a search in an object of alignment \<open>a\<close> ending at bit \<open>e\<close> found a member.\<close>

definition found_within :: "abi \<Rightarrow> nat \<Rightarrow> nat \<Rightarrow> nat \<times> ctype \<Rightarrow> bool" where
  "found_within A a e r \<longleftrightarrow> (case r of (k, u) \<Rightarrow>
     8 * (k + size_of A u) \<le> e \<and> align_of A u dvd k \<and> align_of A u dvd a)"

lemma found_within_mono: "found_within A a e r \<Longrightarrow> a dvd a' \<Longrightarrow> e \<le> e' \<Longrightarrow> found_within A a' e' r"
  by (auto simp: found_within_def intro: dvd_trans)

lemma find_field_sound:
  "lp_abi A \<Longrightarrow> find_field A t f = Some r \<Longrightarrow> found_within A (align_of A t) (8 * size_of A t) r"
  "lp_abi A \<Longrightarrow> member_align A m dvd p \<Longrightarrow> find_member A p m f = Some r \<Longrightarrow>
     found_within A (member_align A m) (8 * p + member_bits A m) r"
  "lp_abi A \<Longrightarrow> find_in_struct A pos ms f = Some r \<Longrightarrow>
     found_within A (members_align A ms) (struct_end A pos ms) r"
  "lp_abi A \<Longrightarrow> find_in_union A ms f = Some r \<Longrightarrow>
     found_within A (members_align A ms) (union_end A ms) r"
proof (induction A t f and A p m f and A pos ms f and A ms f arbitrary: r and r and r and r
    rule: find_field_find_member_find_in_struct_find_in_union.induct)
  case (1 A ms f)
  then show ?case
    using size_of_struct_ge [of A ms] by (auto intro: found_within_mono simp del: size_of.simps)
next
  case (2 A ms f)
  then show ?case
    using size_of_union_ge [of A ms] by (auto intro: found_within_mono simp del: size_of.simps)
next
  case (4 A start g t f)
  then show ?case by (auto simp: found_within_def split: if_splits)
next
  case (5 A start t f)
  then obtain k u where r: "find_field A t f = Some (k, u)" "r = (start + k, u)"
    by (auto split: option.splits)
  with 5 have "found_within A (align_of A t) (8 * size_of A t) (k, u)" by simp
  with 5 r show ?case by (auto simp: found_within_def intro: dvd_trans)
next
  case (8 A pos m ms f)
  let ?s = "member_start A pos m"
  show ?case
  proof (cases "find_member A (?s div 8) m f")
    case None
    with 8 have "found_within A (members_align A ms) (struct_end A pos (m # ms)) r" by simp
    then show ?thesis
      by (rule found_within_mono) (use 8(3) members_align_dvd_tail in \<open>simp_all del: members_align.simps\<close>)
  next
    case (Some q)
    note byte = member_start_byte [OF 8(3) find_member_addressable [OF Some]]
    have "found_within A (member_align A m) (?s + member_bits A m) q"
      using 8(1) [OF 8(3) byte(2) Some] byte(1) by simp
    moreover have "?s + member_bits A m \<le> struct_end A pos (m # ms)"
      by (simp add: struct_end_ge)
    moreover have "member_align A m dvd members_align A (m # ms)"
      using 8(3) by (intro member_align_dvd) simp_all
    ultimately show ?thesis using 8(4) Some by (auto intro: found_within_mono)
  qed
next
  case (10 A m ms f)
  show ?case
  proof (cases "find_member A 0 m f")
    case None
    with 10 have "found_within A (members_align A ms) (union_end A ms) r" by simp
    then show ?thesis
      by (rule found_within_mono) (use 10(3) members_align_dvd_tail in \<open>simp_all del: members_align.simps\<close>)
  next
    case (Some q)
    then have "found_within A (member_align A m) (member_bits A m) q"
      using 10(1) [OF 10(3) _ Some] by simp
    moreover have "member_align A m dvd members_align A (m # ms)"
      using 10(3) by (intro member_align_dvd) simp_all
    ultimately show ?thesis using 10(4) Some by (auto intro: found_within_mono)
  qed
qed (simp_all)

text \<open>The same for a path of names, as a chain of \<open>.\<close> accesses.\<close>

lemma resolve_sound:
  "lp_abi A \<Longrightarrow> resolve A t p = Some (k, u) \<Longrightarrow>
     k + size_of A u \<le> size_of A t \<and> align_of A u dvd k \<and> align_of A u dvd align_of A t"
proof (induction p arbitrary: t k)
  case Nil
  then show ?case by simp
next
  case (Cons f fs)
  then obtain i v j where f: "find_field A t f = Some (i, v)"
    and fs: "resolve A v fs = Some (j, u)" and k: "k = i + j"
    by (auto split: option.splits prod.splits)
  from find_field_sound(1) [OF Cons.prems(1) f]
  have "i + size_of A v \<le> size_of A t" "align_of A v dvd i" "align_of A v dvd align_of A t"
    by (auto simp: found_within_def)
  moreover note Cons.IH [OF Cons.prems(1) fs]
  ultimately show ?case using k by (auto intro: dvd_trans dvd_add)
qed

subsection \<open>Members do not overlap\<close>

text \<open>The members of a struct with the bits each occupies, first and one past the last.\<close>

fun place :: "abi \<Rightarrow> nat \<Rightarrow> member list \<Rightarrow> (member \<times> nat \<times> nat) list" where
  "place A pos [] = []"
| "place A pos (m # ms) =
     (let s = member_start A pos m; e = s + member_bits A m in (m, s, e) # place A e ms)"

lemma map_fst_place: "map fst (place A pos ms) = ms"
  by (induction ms arbitrary: pos) (simp_all add: Let_def)

lemma place_range:
  "(m, s, e) \<in> set (place A pos ms) \<Longrightarrow> pos \<le> s \<and> s \<le> e \<and> e \<le> struct_end A pos ms"
proof (induction ms arbitrary: pos)
  case (Cons x xs)
  let ?s = "member_start A pos x"
  from Cons.prems consider "(m, s, e) = (x, ?s, ?s + member_bits A x)"
    | "(m, s, e) \<in> set (place A (?s + member_bits A x) xs)"
    by (auto simp: Let_def)
  then show ?case
  proof cases
    case 1
    then show ?thesis using struct_end_ge [of "?s + member_bits A x" A xs] by simp
  next
    case 2
    from Cons.IH [OF this] have "?s + member_bits A x \<le> s" "s \<le> e" "e \<le> struct_end A pos (x # xs)"
      by simp_all
    moreover have "pos \<le> ?s" by (rule member_start_ge)
    ultimately show ?thesis by linarith
  qed
qed simp

lemma place_disjoint: "sorted_wrt (\<lambda>(_, _, e) (_, s, _). e \<le> s) (place A pos ms)"
proof (induction ms arbitrary: pos)
  case (Cons x xs)
  then show ?case by (fastforce simp: Let_def dest: place_range)
qed simp

text \<open>\<open>n\<close> bytes from \<open>i\<close> and \<open>m\<close> bytes from \<open>j\<close> share none.\<close>

definition apart :: "nat \<times> nat \<Rightarrow> nat \<times> nat \<Rightarrow> bool" where
  "apart x y \<longleftrightarrow> fst x + snd x \<le> fst y \<or> fst y + snd y \<le> fst x"

end
