(* ===== verification/Net_Addr.thy ===== *)
theory Net_Addr
  imports Prelude
begin

text \<open>
  Internet addresses as both sides of the map exchange them: an address is its numeric value,
  and its octets are the bytes of that value, most significant first, which is how packets,
  the kernel's socket fields and \<open>Ipv4Addr::octets\<close>, \<open>Ipv6Addr::octets\<close> all present it.
\<close>

type_synonym ipv4 = "32 word"
type_synonym ipv6 = "128 word"

datatype ip_addr = V4 ipv4 | V6 ipv6

definition octets4 :: "ipv4 \<Rightarrow> byte list" where
  "octets4 a = wr32 Big a"

definition octets6 :: "ipv6 \<Rightarrow> byte list" where
  "octets6 a = enc Big 16 (unat a)"

lemma length_octets [simp, codec]: "length (octets4 a) = 4" "length (octets6 b) = 16"
  by (simp_all add: octets4_def octets6_def)

lemma octets4_inject [simp]: "octets4 a = octets4 b \<longleftrightarrow> a = b"
  by (simp add: octets4_def)

lemma dec_octets6 [codec]: "dec Big (octets6 a) = unat a"
  using unat_bound [of a] by (simp add: octets6_def dec_enc)

lemma octets6_inject [simp]: "octets6 a = octets6 b \<longleftrightarrow> a = b"
  by (metis dec_octets6 word_unat_eq_iff)

lemma wr_ne_octets4 [simp, codec]: "wr32 e (rd32 e (octets4 a)) = octets4 a"
  by (simp add: wr32_rd32)

lemma wr_ne_octets6 [simp, codec]: "wr32s e (rd32x4 e (octets6 a)) = octets6 a"
  by (simp add: wr32s_rd32x4)

section \<open>Leading bytes of a big-endian encoding\<close>

lemma drop_le_bytes: "k \<le> n \<Longrightarrow> drop k (le_bytes n v) = le_bytes (n - k) (v div 256 ^ k)"
proof (induction k arbitrary: n v)
  case (Suc k)
  then obtain n' where "n = Suc n'" by (cases n) auto
  with Suc show ?case by (simp add: div_mult2_eq)
qed simp

lemma take_enc_Big: "k \<le> n \<Longrightarrow> take k (enc Big n v) = enc Big k (v div 256 ^ (n - k))"
  by (simp add: enc_def take_rev drop_le_bytes)

section \<open>IPv4-mapped addresses\<close>

text \<open>\<open>::ffff:a.b.c.d\<close>, that is the prefix \<open>::ffff:0:0/96\<close>.\<close>

definition v4_mapped :: "ipv6 \<Rightarrow> bool" where
  "v4_mapped a \<longleftrightarrow> drop_bit 32 a = 0xffff"

lemma v4_mapped_nat: "v4_mapped a \<longleftrightarrow> unat a div 2 ^ 32 = 0xffff"
proof -
  have "unat (drop_bit 32 a) = unat a div 2 ^ 32"
    by (subst unat_drop_bit_eq) (simp only: drop_bit_eq_div)
  then show ?thesis
    unfolding v4_mapped_def word_unat_eq_iff by simp
qed

lemma enc_Big_12_ffff: "enc Big 12 65535 = [0, 0, 0, 0] @ [0, 0, 0, 0] @ [0, 0, 255, 255]"
  by (simp add: enc_eval)

lemma wr32_Big_ffff: "wr32 Big 65535 = [0, 0, 255, 255]"
  by (simp add: wr32_def enc_eval)

text \<open>
  The test the tracker makes on an address in memory: the first two 32-bit words are zero
  and the third is \<open>0x0000ffff\<close> in network order.
\<close>

lemma mapped_words:
  fixes e :: endian and a :: ipv6
  defines "ws \<equiv> rd32x4 e (octets6 a)"
  shows "ws ! 0 = 0 \<and> ws ! 1 = 0 \<and> ws ! 2 = bpf_htonl e 0xffff \<longleftrightarrow> v4_mapped a"
proof -
  let ?bs = "octets6 a"
  have pre: "take 12 ?bs = enc Big 12 (unat a div 2 ^ 32)"
    by (simp add: octets6_def take_enc_Big)
  have parts: "take 12 ?bs = take 4 ?bs @ take 4 (drop 4 ?bs) @ take 4 (drop 8 ?bs)"
    using take_add [of 4 8 ?bs] take_add [of 4 4 "drop 4 ?bs"] by simp
  have "ws ! 0 = 0 \<and> ws ! 1 = 0 \<and> ws ! 2 = bpf_htonl e 0xffff \<longleftrightarrow>
      take 4 ?bs = [0, 0, 0, 0] \<and> take 4 (drop 4 ?bs) = [0, 0, 0, 0] \<and>
      take 4 (drop 8 ?bs) = [0, 0, 255, 255]"
    by (simp add: ws_def rd32x4_def rd32_zero rd32_eq_htonl wr32_Big_ffff)
  also have "\<dots> \<longleftrightarrow> take 12 ?bs = enc Big 12 65535"
    unfolding parts enc_Big_12_ffff
    by (subst append_eq_append_conv, simp, subst append_eq_append_conv, simp, rule refl)
  also have "\<dots> \<longleftrightarrow> unat a div 2 ^ 32 = 0xffff"
  proof
    assume "take 12 ?bs = enc Big 12 65535"
    then have "enc Big 12 (unat a div 2 ^ 32) = enc Big 12 65535" by (simp only: pre)
    then have "dec Big (enc Big 12 (unat a div 2 ^ 32)) = dec Big (enc Big 12 65535)" by simp
    moreover have "unat a div 2 ^ 32 < 256 ^ 12"
      using unat_bound [of a] by (simp add: less_mult_imp_div_less)
    ultimately show "unat a div 2 ^ 32 = 0xffff" by (simp add: dec_enc)
  qed (simp add: pre)
  finally show ?thesis by (simp only: v4_mapped_nat)
qed

end
