(* ===== verification/Tracker_Types.thy ===== *)
theory Tracker_Types
  imports C_Layout Net_Addr
begin

text \<open>
  \<^verbatim>\<open>socket_tracker_types.h\<close>: the constants, the key and the value of the socket map, their C
  layout, and the bytes a key or a value occupies. The map is shared with user space as raw
  bytes, so the byte image, not the record, is what a lookup compares.

  The locale \<open>abi_codec\<close> is the contract of such an image: fixed size, and decoding inverts
  encoding both ways. What it gives (injectivity, and that a map on images behaves as a map
  on values) is proved once and instantiated for keys and values here, and for the mirror
  structures of user space in \<open>Map_Abi\<close>.
\<close>

section \<open>Constants\<close>

definition MAX_ENTRIES :: nat where "MAX_ENTRIES = 32768"
definition TASK_COMM_LEN :: nat where "TASK_COMM_LEN = 16"
definition AF_INET :: nat where "AF_INET = 2"
definition AF_INET6 :: nat where "AF_INET6 = 10"
definition IPPROTO_ICMP :: nat where "IPPROTO_ICMP = 1"
definition IPPROTO_TCP :: nat where "IPPROTO_TCP = 6"
definition IPPROTO_UDP :: nat where "IPPROTO_UDP = 17"
definition IPPROTO_ICMPV6 :: nat where "IPPROTO_ICMPV6 = 58"
definition CONN_KEY_SIZE :: nat where "CONN_KEY_SIZE = 40"
definition CONN_INFO_SIZE :: nat where "CONN_INFO_SIZE = 40"

lemmas tracker_consts = MAX_ENTRIES_def TASK_COMM_LEN_def AF_INET_def AF_INET6_def
  IPPROTO_ICMP_def IPPROTO_TCP_def IPPROTO_UDP_def IPPROTO_ICMPV6_def
  CONN_KEY_SIZE_def CONN_INFO_SIZE_def

section \<open>Keys and values\<close>

text \<open>A C array is a list; \<open>wf_key\<close> and \<open>wf_info\<close> state the array lengths of the declaration.\<close>

record conn_key =
  saddr :: "u32 list"
  daddr :: "u32 list"
  sport :: u16
  dport :: u16
  proto :: u8
  family :: u8
  padding :: "u8 list"

record conn_info =
  tgid :: u32
  tid :: u32
  uid :: u32
  gid :: u32
  comm :: "byte list"
  timestamp :: u64

definition wf_key :: "conn_key \<Rightarrow> bool" where
  "wf_key k \<longleftrightarrow> length (saddr k) = 4 \<and> length (daddr k) = 4 \<and> length (padding k) = 2"

definition wf_info :: "conn_info \<Rightarrow> bool" where
  "wf_info i \<longleftrightarrow> length (comm i) = TASK_COMM_LEN"

text \<open>The C initialiser \<open>= {}\<close>: every member zero.\<close>

definition zero_key :: conn_key where
  "zero_key = \<lparr>saddr = [0, 0, 0, 0], daddr = [0, 0, 0, 0], sport = 0, dport = 0,
     proto = 0, family = 0, padding = [0, 0]\<rparr>"

definition zero_info :: conn_info where
  "zero_info = \<lparr>tgid = 0, tid = 0, uid = 0, gid = 0, comm = replicate TASK_COMM_LEN 0,
     timestamp = 0\<rparr>"

lemma wf_zero [simp]: "wf_key zero_key" "wf_info zero_info"
  by (simp_all add: wf_key_def wf_info_def zero_key_def zero_info_def)

section \<open>Declared layout\<close>

definition conn_key_type :: ctype where
  "conn_key_type = Struct [
     Field ''saddr'' (Array (Scalar TUInt) 4),
     Field ''daddr'' (Array (Scalar TUInt) 4),
     Field ''sport'' (Scalar TUShort),
     Field ''dport'' (Scalar TUShort),
     Field ''proto'' (Scalar TUChar),
     Field ''family'' (Scalar TUChar),
     Field ''padding'' (Array (Scalar TUChar) 2)]"

definition conn_info_type :: ctype where
  "conn_info_type = Struct [
     Field ''tgid'' (Scalar TUInt),
     Field ''tid'' (Scalar TUInt),
     Field ''uid'' (Scalar TUInt),
     Field ''gid'' (Scalar TUInt),
     Field ''comm'' (Array (Scalar TChar) TASK_COMM_LEN),
     Field ''timestamp'' (Scalar TULongLong)]"

text \<open>The bytes of the members in declaration order.\<close>

definition conn_key_fields :: "endian \<Rightarrow> conn_key \<Rightarrow> (string \<times> byte list) list" where
  "conn_key_fields e k =
     [(''saddr'', wr32s e (saddr k)), (''daddr'', wr32s e (daddr k)),
      (''sport'', wr16 e (sport k)), (''dport'', wr16 e (dport k)),
      (''proto'', [proto k]), (''family'', [family k]), (''padding'', padding k)]"

definition conn_info_fields :: "endian \<Rightarrow> conn_info \<Rightarrow> (string \<times> byte list) list" where
  "conn_info_fields e i =
     [(''tgid'', wr32 e (tgid i)), (''tid'', wr32 e (tid i)), (''uid'', wr32 e (uid i)),
      (''gid'', wr32 e (gid i)), (''comm'', comm i), (''timestamp'', wr64 e (timestamp i))]"

text \<open>
  The object in memory. Both structures are laid out without holes (\<open>conn_key_layout\<close>,
  \<open>conn_info_layout\<close>), so the image is the members' bytes one after the other.
\<close>

definition conn_key_bytes :: "endian \<Rightarrow> conn_key \<Rightarrow> byte list" where
  "conn_key_bytes e k = concat (map snd (conn_key_fields e k))"

definition conn_info_bytes :: "endian \<Rightarrow> conn_info \<Rightarrow> byte list" where
  "conn_info_bytes e i = concat (map snd (conn_info_fields e i))"

definition conn_key_of_bytes :: "endian \<Rightarrow> byte list \<Rightarrow> conn_key" where
  "conn_key_of_bytes e bs =
     \<lparr>saddr = rd32x4 e (take 16 bs), daddr = rd32x4 e (take 16 (drop 16 bs)),
      sport = rd16 e (take 2 (drop 32 bs)), dport = rd16 e (take 2 (drop 34 bs)),
      proto = hd (drop 36 bs), family = hd (drop 37 bs), padding = take 2 (drop 38 bs)\<rparr>"

definition conn_info_of_bytes :: "endian \<Rightarrow> byte list \<Rightarrow> conn_info" where
  "conn_info_of_bytes e bs =
     \<lparr>tgid = rd32 e (take 4 bs), tid = rd32 e (take 4 (drop 4 bs)),
      uid = rd32 e (take 4 (drop 8 bs)), gid = rd32 e (take 4 (drop 12 bs)),
      comm = take 16 (drop 16 bs), timestamp = rd64 e (take 8 (drop 32 bs))\<rparr>"

section \<open>The contract of a byte image\<close>

locale abi_codec =
  fixes image :: "'a \<Rightarrow> byte list"
    and value_of :: "byte list \<Rightarrow> 'a"
    and size :: nat
    and wf :: "'a \<Rightarrow> bool"
  assumes length_image: "wf x \<Longrightarrow> length (image x) = size"
    and value_image: "wf x \<Longrightarrow> value_of (image x) = x"
    and image_value: "length bs = size \<Longrightarrow> image (value_of bs) = bs"
    and wf_value: "length bs = size \<Longrightarrow> wf (value_of bs)"
begin

lemma image_inject: "wf x \<Longrightarrow> wf y \<Longrightarrow> image x = image y \<longleftrightarrow> x = y"
  by (metis value_image)

lemma image_surj: "length bs = size \<Longrightarrow> \<exists>x. wf x \<and> image x = bs"
  by (metis image_value wf_value)

lemma image_bij: "bij_betw image {x. wf x} {bs. length bs = size}"
  by (rule bij_betw_byWitness [where f' = value_of])
    (auto simp: length_image value_image image_value wf_value)

text \<open>A map on images, seen through the encoding, is a map on values.\<close>

lemma update_same: "(m(image x \<mapsto> v)) (image x) = Some v"
  by simp

lemma update_other: "wf x \<Longrightarrow> wf y \<Longrightarrow> x \<noteq> y \<Longrightarrow> (m(image x \<mapsto> v)) (image y) = m (image y)"
  by (simp add: image_inject)

end

section \<open>Keys and values satisfy it\<close>

lemma take_one_drop: "n < length bs \<Longrightarrow> take (Suc 0) (drop n bs) = [hd (drop n bs)]"
  by (cases "drop n bs") auto

interpretation key: abi_codec "conn_key_bytes e" "conn_key_of_bytes e" CONN_KEY_SIZE wf_key
  for e
proof
  fix x :: conn_key
  assume wf: "wf_key x"
  then show "length (conn_key_bytes e x) = CONN_KEY_SIZE"
    by (simp add: conn_key_bytes_def conn_key_fields_def wf_key_def tracker_consts)
  from wf show "conn_key_of_bytes e (conn_key_bytes e x) = x"
    by (simp add: conn_key_bytes_def conn_key_fields_def conn_key_of_bytes_def wf_key_def)
next
  fix bs :: "byte list"
  assume len: "length bs = CONN_KEY_SIZE"
  then show "wf_key (conn_key_of_bytes e bs)"
    by (simp add: conn_key_of_bytes_def wf_key_def tracker_consts)
  have "conn_key_bytes e (conn_key_of_bytes e bs)
      = take 16 bs @ take 16 (drop 16 bs) @ take 2 (drop 32 bs) @ take 2 (drop 34 bs)
          @ take 1 (drop 36 bs) @ take 1 (drop 37 bs) @ take 2 (drop 38 bs)"
    using len
    by (simp add: conn_key_bytes_def conn_key_fields_def conn_key_of_bytes_def tracker_consts
        wr32s_rd32x4 wr16_rd16 take_one_drop)
  also have "\<dots> = take (16 + 16 + 2 + 2 + 1 + 1 + 2) bs"
    by (simp only: take_add append_assoc) simp
  also have "\<dots> = bs" using len by (simp add: tracker_consts)
  finally show "conn_key_bytes e (conn_key_of_bytes e bs) = bs" .
qed

interpretation info: abi_codec "conn_info_bytes e" "conn_info_of_bytes e" CONN_INFO_SIZE wf_info
  for e
proof
  fix x :: conn_info
  assume wf: "wf_info x"
  then show "length (conn_info_bytes e x) = CONN_INFO_SIZE"
    by (simp add: conn_info_bytes_def conn_info_fields_def wf_info_def tracker_consts)
  from wf show "conn_info_of_bytes e (conn_info_bytes e x) = x"
    by (simp add: conn_info_bytes_def conn_info_fields_def conn_info_of_bytes_def wf_info_def
        tracker_consts)
next
  fix bs :: "byte list"
  assume len: "length bs = CONN_INFO_SIZE"
  then show "wf_info (conn_info_of_bytes e bs)"
    by (simp add: conn_info_of_bytes_def wf_info_def tracker_consts)
  have "conn_info_bytes e (conn_info_of_bytes e bs)
      = take 4 bs @ take 4 (drop 4 bs) @ take 4 (drop 8 bs) @ take 4 (drop 12 bs)
          @ take 16 (drop 16 bs) @ take 8 (drop 32 bs)"
    using len
    by (simp add: conn_info_bytes_def conn_info_fields_def conn_info_of_bytes_def tracker_consts
        wr32_rd32 wr64_rd64)
  also have "\<dots> = take (4 + 4 + 4 + 4 + 16 + 8) bs"
    by (simp only: take_add append_assoc) simp
  also have "\<dots> = bs" using len by (simp add: tracker_consts)
  finally show "conn_info_bytes e (conn_info_of_bytes e bs) = bs" .
qed

section \<open>The image is the C object\<close>

text \<open>
  \<open>member_at A t f bs img\<close>: in the layout of type \<open>t\<close> under data model \<open>A\<close>, member \<open>f\<close> has
  as many bytes as \<open>bs\<close> and they are \<open>bs\<close> in the image \<open>img\<close>.
\<close>

definition member_at :: "abi \<Rightarrow> ctype \<Rightarrow> string \<Rightarrow> byte list \<Rightarrow> byte list \<Rightarrow> bool" where
  "member_at A t f bs img \<longleftrightarrow> (case find_field A t f of
     None \<Rightarrow> False
   | Some (k, u) \<Rightarrow> size_of A u = length bs \<and> take (size_of A u) (drop k img) = bs)"

definition packed_exactly :: "abi \<Rightarrow> member list \<Rightarrow> bool" where
  "packed_exactly A ms \<longleftrightarrow> sum_list (map (member_bits A) ms) = 8 * size_of A (Struct ms)"

lemma conn_key_layout:
  assumes "lp_abi A"
  shows "size_of A conn_key_type = CONN_KEY_SIZE" "align_of A conn_key_type = 4"
    and "wf_key k \<Longrightarrow> list_all (\<lambda>(f, bs). member_at A conn_key_type f bs (conn_key_bytes e k))
           (conn_key_fields e k)"
proof -
  show "size_of A conn_key_type = CONN_KEY_SIZE" "align_of A conn_key_type = 4"
    by (simp_all add: conn_key_type_def layout_eval tracker_consts)
  assume "wf_key k"
  then show "list_all (\<lambda>(f, bs). member_at A conn_key_type f bs (conn_key_bytes e k))
      (conn_key_fields e k)"
    by (simp add: member_at_def conn_key_type_def conn_key_bytes_def conn_key_fields_def
        wf_key_def layout_eval)
qed

lemma conn_types_packed:
  assumes "lp_abi A"
  shows "\<exists>ms. conn_key_type = Struct ms \<and> packed_exactly A ms"
    and "\<exists>ms. conn_info_type = Struct ms \<and> packed_exactly A ms"
  using assms
  by (auto simp: conn_key_type_def conn_info_type_def packed_exactly_def lp_abi_def layout_eval
      tracker_consts)

lemma conn_info_layout:
  assumes "lp_abi A"
  shows "size_of A conn_info_type = CONN_INFO_SIZE" "align_of A conn_info_type = llong_align A"
    and "wf_info i \<Longrightarrow> list_all (\<lambda>(f, bs). member_at A conn_info_type f bs (conn_info_bytes e i))
           (conn_info_fields e i)"
proof -
  have A: "llong_align A = 4 \<or> llong_align A = 8"
    using assms by (auto simp: lp_abi_def)
  then show "size_of A conn_info_type = CONN_INFO_SIZE" "align_of A conn_info_type = llong_align A"
    by (auto simp: conn_info_type_def layout_eval tracker_consts)
  assume "wf_info i"
  then have len: "length (comm i) = 16" by (simp add: wf_info_def tracker_consts)
  from A have "find_field A conn_info_type ''timestamp'' = Some (32, Scalar TULongLong)"
    by (elim disjE) (simp_all add: conn_info_type_def layout_eval tracker_consts)
  moreover have "find_field A conn_info_type ''comm'' = Some (16, Array (Scalar TChar) 16)"
    and "find_field A conn_info_type ''gid'' = Some (12, Scalar TUInt)"
    and "find_field A conn_info_type ''uid'' = Some (8, Scalar TUInt)"
    and "find_field A conn_info_type ''tid'' = Some (4, Scalar TUInt)"
    and "find_field A conn_info_type ''tgid'' = Some (0, Scalar TUInt)"
    by (simp_all add: conn_info_type_def layout_eval tracker_consts)
  ultimately show "list_all (\<lambda>(f, bs). member_at A conn_info_type f bs (conn_info_bytes e i))
      (conn_info_fields e i)"
    using len by (simp add: member_at_def conn_info_bytes_def conn_info_fields_def)
qed

end
