(* ===== verification/Bpf_Core.thy ===== *)
theory Bpf_Core
  imports Tracker_Types
begin

text \<open>
  What a tracker program runs on: the types of the running kernel, the CO-RE relocation of the
  field accesses the programs make, and the BPF helpers they call.

  The helpers and the running kernel are not part of the repository. They are the fields of
  the record \<open>bpf_env\<close>, a parameter of every program; \<open>helper_laws\<close> and \<open>map_law\<close> state what
  their documentation promises and are hypotheses of the theorems that need them.
\<close>

section \<open>Relocation of field accesses\<close>

text \<open>
  The types of the running kernel, as its BTF describes them. The bundled \<^verbatim>\<open>vmlinux.h\<close> of an
  architecture is one such description (\<open>Kernels\<close>).
\<close>

record kernel_types =
  kt_abi :: abi
  kt_sock :: ctype
  kt_msghdr :: ctype
  kt_sockaddr_in :: ctype
  kt_sockaddr_in6 :: ctype
  kt_task :: ctype

text \<open>
  One offset per field access of \<^verbatim>\<open>socket_tracker_helpers.h\<close>. The compiler records each access
  by name and the loader patches the offset the running kernel's type gives it.
\<close>

record core_offsets =
  off_num :: nat
  off_dport :: nat
  off_rcv_saddr :: nat
  off_daddr :: nat
  off_v6_rcv_saddr :: nat
  off_v6_daddr :: nat
  off_family :: nat
  off_msg_name :: nat
  off_sin_addr :: nat
  off_sin_port :: nat
  off_sin6_addr :: nat
  off_sin6_port :: nat
  off_group_leader :: nat
  off_comm :: nat

definition offset_of :: "abi \<Rightarrow> ctype \<Rightarrow> string list \<Rightarrow> nat option" where
  "offset_of A t p = map_option fst (resolve A t p)"

text \<open>Loading fails when the running kernel lacks one of the fields.\<close>

definition relocate :: "kernel_types \<Rightarrow> core_offsets option" where
  "relocate K =
     (let A = kt_abi K;
          sk = (\<lambda>f. offset_of A (kt_sock K) [''__sk_common'', f])
      in case (sk ''skc_num'', sk ''skc_dport'', sk ''skc_rcv_saddr'', sk ''skc_daddr'',
               sk ''skc_v6_rcv_saddr'', sk ''skc_v6_daddr'', sk ''skc_family'') of
        (Some num, Some dp, Some rs, Some da, Some rs6, Some da6, Some fam) \<Rightarrow>
          (case (offset_of A (kt_msghdr K) [''msg_name''],
                 offset_of A (kt_sockaddr_in K) [''sin_addr'', ''s_addr''],
                 offset_of A (kt_sockaddr_in K) [''sin_port''],
                 offset_of A (kt_sockaddr_in6 K) [''sin6_addr''],
                 offset_of A (kt_sockaddr_in6 K) [''sin6_port''],
                 offset_of A (kt_task K) [''group_leader''],
                 offset_of A (kt_task K) [''comm'']) of
             (Some name, Some a4, Some p4, Some a6, Some p6, Some gl, Some cm) \<Rightarrow>
               Some \<lparr>off_num = num, off_dport = dp, off_rcv_saddr = rs, off_daddr = da,
                 off_v6_rcv_saddr = rs6, off_v6_daddr = da6, off_family = fam,
                 off_msg_name = name, off_sin_addr = a4, off_sin_port = p4,
                 off_sin6_addr = a6, off_sin6_port = p6,
                 off_group_leader = gl, off_comm = cm\<rparr>
           | _ \<Rightarrow> None)
      | _ \<Rightarrow> None)"

section \<open>The helpers\<close>

text \<open>The socket map, on the byte images of keys and values.\<close>

type_synonym socket_map = "byte list \<rightharpoonup> byte list"

text \<open>
  \<open>probe_read_kernel n p\<close> is the call \<open>bpf_probe_read_kernel(dst, n, p)\<close>: its return code and
  the \<open>n\<close> bytes it leaves in \<open>dst\<close> (the helper's destination is declared uninitialised memory,
  so it writes all of it, also when it fails). The string variant starts from the bytes already
  in the destination. \<open>map_update_elem\<close> returns the helper's code and the map after the call.
\<close>

record bpf_env =
  host :: endian
  offs :: core_offsets
  probe_read_kernel :: "nat \<Rightarrow> u64 \<Rightarrow> int \<times> byte list"
  probe_read_kernel_str :: "byte list \<Rightarrow> u64 \<Rightarrow> int \<times> byte list"
  get_current_pid_tgid :: u64
  get_current_uid_gid :: u64
  ktime_get_ns :: u64
  get_current_task :: u64
  get_current_comm :: "nat \<Rightarrow> int \<times> byte list"
  map_update_elem :: "socket_map \<Rightarrow> byte list \<Rightarrow> byte list \<Rightarrow> nat \<Rightarrow> int \<times> socket_map"

definition BPF_ANY :: nat where "BPF_ANY = 0"

text \<open>The helpers fill the buffer they are given, no more and no less.\<close>

definition helper_laws :: "bpf_env \<Rightarrow> bool" where
  "helper_laws E \<longleftrightarrow>
     (\<forall>n p. length (snd (probe_read_kernel E n p)) = n) \<and>
     (\<forall>bs p. length (snd (probe_read_kernel_str E bs p)) = length bs) \<and>
     (\<forall>n. length (snd (get_current_comm E n)) = n)"

text \<open>
  An update with \<open>BPF_ANY\<close> creates or replaces the element and returns 0, or returns a
  negative error and leaves the map alone.
\<close>

definition map_law :: "bpf_env \<Rightarrow> bool" where
  "map_law E \<longleftrightarrow> (\<forall>m k v.
     map_update_elem E m k v BPF_ANY = (0, m(k \<mapsto> v)) \<or>
     (\<exists>r < 0. map_update_elem E m k v BPF_ANY = (r, m)))"

text \<open>A hash map of \<open>cap\<close> preallocated elements rejects only a new key when it is full.\<close>

definition hash_map_update ::
  "nat \<Rightarrow> socket_map \<Rightarrow> byte list \<Rightarrow> byte list \<Rightarrow> nat \<Rightarrow> int \<times> socket_map" where
  "hash_map_update cap m k v flags =
     (if k \<in> dom m \<or> card (dom m) < cap then (0, m(k \<mapsto> v)) else (-7, m))"

lemma helper_lawsD:
  assumes "helper_laws E"
  shows "length (snd (probe_read_kernel E n p)) = n"
    and "length (snd (probe_read_kernel_str E bs p)) = length bs"
    and "length (snd (get_current_comm E n)) = n"
  using assms by (simp_all add: helper_laws_def)

lemma map_lawE:
  assumes "map_law E"
  obtains (stored) "map_update_elem E m k v BPF_ANY = (0, m(k \<mapsto> v))"
    | (failed) r where "r < 0" "map_update_elem E m k v BPF_ANY = (r, m)"
  using assms unfolding map_law_def by blast

section \<open>Reads through a kernel pointer\<close>

text \<open>
  \<open>BPF_CORE_READ(p, f)\<close> is \<open>bpf_probe_read_kernel\<close> of \<open>sizeof\<close> the field at the relocated
  address into a local, whose value it yields whatever the return code was. A pointer is 8
  bytes on the BPF target.
\<close>

definition field_addr :: "u64 \<Rightarrow> nat \<Rightarrow> u64" where
  "field_addr p off = p + word_of_nat off"

definition mem_read :: "bpf_env \<Rightarrow> u64 \<Rightarrow> byte list" where
  "mem_read E p = snd (probe_read_kernel E 8 p)"

definition core_read16 :: "bpf_env \<Rightarrow> u64 \<Rightarrow> nat \<Rightarrow> u16" where
  "core_read16 E p off = rd16 (host E) (snd (probe_read_kernel E 2 (field_addr p off)))"

definition core_read32 :: "bpf_env \<Rightarrow> u64 \<Rightarrow> nat \<Rightarrow> u32" where
  "core_read32 E p off = rd32 (host E) (snd (probe_read_kernel E 4 (field_addr p off)))"

definition core_read_ptr :: "bpf_env \<Rightarrow> u64 \<Rightarrow> nat \<Rightarrow> u64" where
  "core_read_ptr E p off = rd64 (host E) (snd (probe_read_kernel E 8 (field_addr p off)))"

text \<open>\<open>BPF_CORE_READ_INTO\<close> a \<open>struct in6_addr\<close>: 16 bytes.\<close>

definition core_read_in6 :: "bpf_env \<Rightarrow> u64 \<Rightarrow> nat \<Rightarrow> byte list" where
  "core_read_in6 E p off = snd (probe_read_kernel E 16 (field_addr p off))"

lemma length_core_read_in6 [simp]: "helper_laws E \<Longrightarrow> length (core_read_in6 E p off) = 16"
  by (simp add: core_read_in6_def helper_lawsD)

end
