(* ===== verification/Tracker_Spec.thy ===== *)
theory Tracker_Spec
  imports Tracker_Helpers
begin

unbundle bit_operations_syntax

text \<open>
  The promise of \<^verbatim>\<open>socket_tracker_helpers.h\<close>: a tracked operation stores the current process
  under the key of the connection that will be seen on the wire. Sockets and messages are
  described by what they hold (\<open>sock_view\<close>, a destination), related to kernel memory by
  \<open>sock_at\<close>, \<open>dest4_at\<close>, \<open>dest6_at\<close>; keys are built from addresses and ports (\<open>key_v4\<close>,
  \<open>key_v6\<close>). Each function of the helper header is shown to store exactly the key its
  specification names, or nothing.
\<close>

section \<open>Keys of flows\<close>

definition key_v4 :: "endian \<Rightarrow> ipv4 \<Rightarrow> ipv4 \<Rightarrow> u16 \<Rightarrow> u16 \<Rightarrow> nat \<Rightarrow> conn_key" where
  "key_v4 e src dst sp dp pr =
     \<lparr>saddr = [rd32 e (octets4 src), 0, 0, 0], daddr = [rd32 e (octets4 dst), 0, 0, 0],
      sport = sp, dport = dp, proto = word_of_nat pr, family = word_of_nat AF_INET,
      padding = [0, 0]\<rparr>"

definition key_v6 :: "endian \<Rightarrow> ipv6 \<Rightarrow> ipv6 \<Rightarrow> u16 \<Rightarrow> u16 \<Rightarrow> nat \<Rightarrow> conn_key" where
  "key_v6 e src dst sp dp pr =
     \<lparr>saddr = rd32x4 e (octets6 src), daddr = rd32x4 e (octets6 dst),
      sport = sp, dport = dp, proto = word_of_nat pr, family = word_of_nat AF_INET6,
      padding = [0, 0]\<rparr>"

lemma wf_keys [simp]: "wf_key (key_v4 e s d sp dp pr)" "wf_key (key_v6 e s6 d6 sp dp pr)"
  by (simp_all add: wf_key_def key_v4_def key_v6_def)

lemma wr32_zero [simp]: "wr32 e 0 = [0, 0, 0, 0]"
  using rd32_zero [of "wr32 e 0" e] by simp

text \<open>In memory the addresses appear as their octets, whatever the byte order of the host.\<close>

lemma key_v4_image:
  "conn_key_bytes e (key_v4 e s d sp dp pr) =
     octets4 s @ replicate 12 0 @ octets4 d @ replicate 12 0 @ wr16 e sp @ wr16 e dp
       @ [word_of_nat pr, 2, 0, 0]"
  by (simp add: conn_key_bytes_def conn_key_fields_def key_v4_def wr32s_def tracker_consts
      eval_nat_numeral)

lemma key_v6_image:
  "conn_key_bytes e (key_v6 e s d sp dp pr) =
     octets6 s @ octets6 d @ wr16 e sp @ wr16 e dp @ [word_of_nat pr, 10, 0, 0]"
  by (simp add: conn_key_bytes_def conn_key_fields_def key_v6_def tracker_consts)

section \<open>Sockets and destinations in kernel memory\<close>

definition mem_has :: "bpf_env \<Rightarrow> u64 \<Rightarrow> byte list \<Rightarrow> bool" where
  "mem_has E p bs \<longleftrightarrow> probe_read_kernel E (length bs) p = (0, bs)"

record sock_view =
  sv_family :: u16
  sv_num :: u16
  sv_dport :: u16
  sv_rcv_saddr :: ipv4
  sv_daddr :: ipv4
  sv_v6_rcv_saddr :: ipv6
  sv_v6_daddr :: ipv6

text \<open>
  The kernel keeps the local port in host order, the peer's port in network order and
  addresses as octets.
\<close>

definition sock_at :: "bpf_env \<Rightarrow> u64 \<Rightarrow> sock_view \<Rightarrow> bool" where
  "sock_at E sk s \<longleftrightarrow>
     mem_has E (field_addr sk (off_family (offs E))) (wr16 (host E) (sv_family s)) \<and>
     mem_has E (field_addr sk (off_num (offs E))) (wr16 (host E) (sv_num s)) \<and>
     mem_has E (field_addr sk (off_dport (offs E))) (wr16 Big (sv_dport s)) \<and>
     mem_has E (field_addr sk (off_rcv_saddr (offs E))) (octets4 (sv_rcv_saddr s)) \<and>
     mem_has E (field_addr sk (off_daddr (offs E))) (octets4 (sv_daddr s)) \<and>
     mem_has E (field_addr sk (off_v6_rcv_saddr (offs E))) (octets6 (sv_v6_rcv_saddr s)) \<and>
     mem_has E (field_addr sk (off_v6_daddr (offs E))) (octets6 (sv_v6_daddr s))"

fun dest4_at :: "bpf_env \<Rightarrow> u64 \<Rightarrow> (ipv4 \<times> u16) option \<Rightarrow> bool" where
  "dest4_at E msg None =
     mem_has E (field_addr msg (off_msg_name (offs E))) (wr64 (host E) 0)"
| "dest4_at E msg (Some (a, port)) =
     (\<exists>p. p \<noteq> 0 \<and> mem_has E (field_addr msg (off_msg_name (offs E))) (wr64 (host E) p) \<and>
        mem_has E (field_addr p (off_sin_addr (offs E))) (octets4 a) \<and>
        mem_has E (field_addr p (off_sin_port (offs E))) (wr16 Big port))"

fun dest6_at :: "bpf_env \<Rightarrow> u64 \<Rightarrow> (ipv6 \<times> u16) option \<Rightarrow> bool" where
  "dest6_at E msg None =
     mem_has E (field_addr msg (off_msg_name (offs E))) (wr64 (host E) 0)"
| "dest6_at E msg (Some (a, port)) =
     (\<exists>p. p \<noteq> 0 \<and> mem_has E (field_addr msg (off_msg_name (offs E))) (wr64 (host E) p) \<and>
        mem_has E (field_addr p (off_sin6_addr (offs E))) (octets6 a) \<and>
        mem_has E (field_addr p (off_sin6_port (offs E))) (wr16 Big port))"

lemma core_read_mem:
  "mem_has E (field_addr p off) (wr16 (host E) w) \<Longrightarrow> core_read16 E p off = w"
  "mem_has E (field_addr p off) (wr64 (host E) q) \<Longrightarrow> core_read_ptr E p off = q"
  "mem_has E (field_addr p off) (octets4 a) \<Longrightarrow> core_read32 E p off = rd32 (host E) (octets4 a)"
  "mem_has E (field_addr p off) (octets6 b) \<Longrightarrow> core_read_in6 E p off = octets6 b"
  by (simp_all add: mem_has_def core_read16_def core_read_ptr_def core_read32_def
      core_read_in6_def)

lemma core_read_port:
  "mem_has E (field_addr p off) (wr16 Big w) \<Longrightarrow> bpf_ntohs (host E) (core_read16 E p off) = w"
  by (simp add: mem_has_def core_read16_def bpf_ntohs_rd16)

text \<open>What each access of the programs yields on a socket that is there.\<close>

lemma sock_atD:
  assumes "sock_at E sk s"
  shows "core_read16 E sk (off_family (offs E)) = sv_family s"
    and "core_read16 E sk (off_num (offs E)) = sv_num s"
    and "bpf_ntohs (host E) (core_read16 E sk (off_dport (offs E))) = sv_dport s"
    and "core_read32 E sk (off_rcv_saddr (offs E)) = rd32 (host E) (octets4 (sv_rcv_saddr s))"
    and "core_read32 E sk (off_daddr (offs E)) = rd32 (host E) (octets4 (sv_daddr s))"
    and "core_read_in6 E sk (off_v6_rcv_saddr (offs E)) = octets6 (sv_v6_rcv_saddr s)"
    and "core_read_in6 E sk (off_v6_daddr (offs E)) = octets6 (sv_v6_daddr s)"
  using assms by (simp_all add: sock_at_def core_read_mem core_read_port)

lemma rd32_octets4_zero: "rd32 e (octets4 a) = 0 \<longleftrightarrow> a = 0"
proof -
  have "octets4 0 = [0, 0, 0, 0]" by (simp add: octets4_def)
  then have "rd32 e (octets4 a) = 0 \<longleftrightarrow> octets4 a = octets4 0"
    by (simp only: rd32_zero [OF length_octets(1)])
  then show ?thesis by simp
qed

section \<open>What is stored\<close>

text \<open>\<open>store_opt\<close>: store the current process under a key, or do nothing and return 0.\<close>

definition store_opt :: "bpf_env \<Rightarrow> conn_key option \<Rightarrow> socket_map \<Rightarrow> int \<times> socket_map" where
  "store_opt E k m = (case k of None \<Rightarrow> (0, m) | Some k \<Rightarrow> store_connection E k m)"

text \<open>
  A TCP socket: by its family, except that an IPv6 socket with an IPv4-mapped peer is seen on
  the wire as IPv4.
\<close>

definition tcp_key :: "endian \<Rightarrow> sock_view \<Rightarrow> conn_key option" where
  "tcp_key e s =
     (let v4 = key_v4 e (sv_rcv_saddr s) (sv_daddr s) (sv_num s) (sv_dport s) IPPROTO_TCP;
          v6 = key_v6 e (sv_v6_rcv_saddr s) (sv_v6_daddr s) (sv_num s) (sv_dport s) IPPROTO_TCP
      in if sv_family s = 10 then (if v4_mapped (sv_v6_daddr s) then Some v4 else Some v6)
         else if sv_family s = 2 then Some v4 else None)"

text \<open>A datagram: the destination of the message if it has one, else the connected peer.\<close>

definition udp4_key :: "endian \<Rightarrow> sock_view \<Rightarrow> (ipv4 \<times> u16) option \<Rightarrow> conn_key option" where
  "udp4_key e s d =
     (let (a, p) = (case d of Some ap \<Rightarrow> ap | None \<Rightarrow> (sv_daddr s, sv_dport s))
      in if a = 0 then None else Some (key_v4 e (sv_rcv_saddr s) a (sv_num s) p IPPROTO_UDP))"

definition udp6_key :: "endian \<Rightarrow> sock_view \<Rightarrow> (ipv6 \<times> u16) option \<Rightarrow> conn_key" where
  "udp6_key e s d =
     (let (a, p) = (case d of Some ap \<Rightarrow> ap | None \<Rightarrow> (sv_v6_daddr s, sv_dport s))
      in key_v6 e (sv_v6_rcv_saddr s) a (sv_num s) p IPPROTO_UDP)"

definition ping4_key :: "endian \<Rightarrow> sock_view \<Rightarrow> (ipv4 \<times> u16) option \<Rightarrow> conn_key option" where
  "ping4_key e s d =
     (let a = (case d of Some (a, _) \<Rightarrow> a | None \<Rightarrow> sv_daddr s)
      in if a = 0 then None else Some (key_v4 e (sv_rcv_saddr s) a (sv_num s) 0 IPPROTO_ICMP))"

definition ping6_key :: "endian \<Rightarrow> sock_view \<Rightarrow> (ipv6 \<times> u16) option \<Rightarrow> conn_key" where
  "ping6_key e s d =
     (let a = (case d of Some (a, _) \<Rightarrow> a | None \<Rightarrow> sv_v6_daddr s)
      in key_v6 e (sv_v6_rcv_saddr s) a (sv_num s) 0 IPPROTO_ICMPV6)"

lemmas flow_key_defs = key_v4_def key_v6_def fill_socket_ports_def fill_socket_v4_addresses_def
  fill_socket_v6_addresses_def zero_key_def

lemma track_tcp_v4_at:
  "sk \<noteq> 0 \<Longrightarrow> sock_at E sk s \<Longrightarrow> track_tcp_v4 E sk m =
     store_connection E (key_v4 (host E) (sv_rcv_saddr s) (sv_daddr s) (sv_num s) (sv_dport s)
       IPPROTO_TCP) m"
  by (simp add: track_tcp_v4_def flow_key_defs sock_atD)

lemma track_tcp_v6_at:
  "sk \<noteq> 0 \<Longrightarrow> sock_at E sk s \<Longrightarrow> track_tcp_v6 E sk m =
     store_connection E (key_v6 (host E) (sv_v6_rcv_saddr s) (sv_v6_daddr s) (sv_num s) (sv_dport s)
       IPPROTO_TCP) m"
  by (simp add: track_tcp_v6_def flow_key_defs sock_atD)

lemma tcp_socket_is_v4_mapped_at:
  "sock_at E sk s \<Longrightarrow> tcp_socket_is_v4_mapped E sk \<longleftrightarrow> v4_mapped (sv_v6_daddr s)"
  using mapped_words [of "host E" "sv_v6_daddr s"]
  by (simp add: tcp_socket_is_v4_mapped_def Let_def sock_atD)

lemma track_tcp_socket_at:
  assumes "sk \<noteq> 0" "sock_at E sk s"
  shows "track_tcp_socket E sk m = store_opt E (tcp_key (host E) s) m"
  using assms
  by (simp add: track_tcp_socket_def store_opt_def tcp_key_def Let_def sock_atD AF_INET_def
      AF_INET6_def tcp_socket_is_v4_mapped_at track_tcp_v4_at track_tcp_v6_at)

lemma dest4_atE:
  assumes "dest4_at E msg d"
  obtains (none) "d = None" "core_read_ptr E msg (off_msg_name (offs E)) = 0"
    | (some) a port p where "d = Some (a, port)" "p \<noteq> 0"
        "core_read_ptr E msg (off_msg_name (offs E)) = p"
        "core_read32 E p (off_sin_addr (offs E)) = rd32 (host E) (octets4 a)"
        "bpf_ntohs (host E) (core_read16 E p (off_sin_port (offs E))) = port"
  using assms by (cases d) (auto simp: core_read_mem core_read_port)

lemma dest6_atE:
  assumes "dest6_at E msg d"
  obtains (none) "d = None" "core_read_ptr E msg (off_msg_name (offs E)) = 0"
    | (some) a port p where "d = Some (a, port)" "p \<noteq> 0"
        "core_read_ptr E msg (off_msg_name (offs E)) = p"
        "core_read_in6 E p (off_sin6_addr (offs E)) = octets6 a"
        "bpf_ntohs (host E) (core_read16 E p (off_sin6_port (offs E))) = port"
  using assms by (cases d) (auto simp: core_read_mem core_read_port)

lemma track_udp_v4_at:
  assumes "sk \<noteq> 0" "msg \<noteq> 0" "sock_at E sk s" "dest4_at E msg d"
  shows "track_udp_v4 E sk msg m = store_opt E (udp4_key (host E) s d) m"
  using assms(4)
proof (cases rule: dest4_atE)
  case none
  with assms show ?thesis
    by (simp add: track_udp_v4_def store_opt_def udp4_key_def flow_key_defs sock_atD
        rd32_octets4_zero)
next
  case (some a port p)
  with assms show ?thesis
    by (simp add: track_udp_v4_def store_opt_def udp4_key_def flow_key_defs sock_atD
        rd32_octets4_zero)
qed

lemma track_udp_v6_at:
  assumes "sk \<noteq> 0" "msg \<noteq> 0" "sock_at E sk s" "dest6_at E msg d"
  shows "track_udp_v6 E sk msg m = store_connection E (udp6_key (host E) s d) m"
  using assms(4)
proof (cases rule: dest6_atE)
  case none
  with assms show ?thesis
    by (simp add: track_udp_v6_def udp6_key_def flow_key_defs sock_atD)
next
  case (some a port p)
  with assms show ?thesis
    by (simp add: track_udp_v6_def udp6_key_def flow_key_defs sock_atD)
qed

lemma track_ping_v4_at:
  assumes "sk \<noteq> 0" "msg \<noteq> 0" "sock_at E sk s" "dest4_at E msg d"
  shows "track_ping_v4 E sk msg m = store_opt E (ping4_key (host E) s d) m"
  using assms(4)
proof (cases rule: dest4_atE)
  case none
  with assms show ?thesis
    by (simp add: track_ping_v4_def store_opt_def ping4_key_def flow_key_defs sock_atD
        rd32_octets4_zero)
next
  case (some a port p)
  with assms show ?thesis
    by (simp add: track_ping_v4_def store_opt_def ping4_key_def flow_key_defs sock_atD
        rd32_octets4_zero)
qed

lemma track_ping_v6_at:
  assumes "sk \<noteq> 0" "msg \<noteq> 0" "sock_at E sk s" "dest6_at E msg d"
  shows "track_ping_v6 E sk msg m = store_connection E (ping6_key (host E) s d) m"
  using assms(4)
proof (cases rule: dest6_atE)
  case none
  with assms show ?thesis
    by (simp add: track_ping_v6_def ping6_key_def flow_key_defs sock_atD)
next
  case (some a port p)
  with assms show ?thesis
    by (simp add: track_ping_v6_def ping6_key_def flow_key_defs sock_atD)
qed

section \<open>The identity that is stored\<close>

lemma get_process_info_ids:
  assumes "get_current_pid_tgid E = pair64 g t" "get_current_uid_gid E = pair64 gd ud"
  defines "i \<equiv> get_process_info E zero_info"
  shows "tgid i = g" "tid i = t" "uid i = ud" "gid i = gd" "timestamp i = ktime_get_ns E"
  using assms by (simp_all add: get_process_info_def Let_def case_prod_beta pair64_halves)

lemma get_process_info_comm:
  assumes "mem_has E (field_addr (get_current_task E) (off_group_leader (offs E))) (wr64 (host E) leader)"
    and "probe_read_kernel_str E (replicate TASK_COMM_LEN 0) (field_addr leader (off_comm (offs E)))
           = (r, name)"
  shows "comm (get_process_info E zero_info) =
     (if 0 < r \<and> name ! 0 \<noteq> 0 then name else snd (get_current_comm E TASK_COMM_LEN))"
  using assms by (simp add: get_process_info_def zero_info_def core_read_mem Let_def)

lemma wf_get_process_info: "helper_laws E \<Longrightarrow> wf_info i \<Longrightarrow> wf_info (get_process_info E i)"
  by (simp add: get_process_info_def wf_info_def Let_def case_prod_beta helper_lawsD)

end
