(* ===== verification/Utf8.thy ===== *)
theory Utf8
  imports Prelude
begin

text \<open>
  \<open>String::from_utf8_lossy\<close>: a byte string becomes a string (a list of code points) by decoding
  UTF-8 and putting one replacement character for every maximal invalid piece. Task names are
  arbitrary bytes, so this is the conversion user space applies to them.
\<close>

type_synonym utf8_string = "nat list"

definition REPLACEMENT :: nat where "REPLACEMENT = 0xFFFD"

definition continuation :: "nat \<Rightarrow> bool" where
  "continuation b \<longleftrightarrow> 0x80 \<le> b \<and> b \<le> 0xBF"

text \<open>The second byte a three-byte or four-byte sequence allows after its first.\<close>

definition second3 :: "nat \<Rightarrow> nat \<Rightarrow> bool" where
  "second3 a b \<longleftrightarrow> (a = 0xE0 \<and> 0xA0 \<le> b \<and> b \<le> 0xBF) \<or>
     (0xE1 \<le> a \<and> a \<le> 0xEC \<and> continuation b) \<or>
     (a = 0xED \<and> 0x80 \<le> b \<and> b \<le> 0x9F) \<or>
     (0xEE \<le> a \<and> a \<le> 0xEF \<and> continuation b)"

definition second4 :: "nat \<Rightarrow> nat \<Rightarrow> bool" where
  "second4 a b \<longleftrightarrow> (a = 0xF0 \<and> 0x90 \<le> b \<and> b \<le> 0xBF) \<or>
     (0xF1 \<le> a \<and> a \<le> 0xF3 \<and> continuation b) \<or>
     (a = 0xF4 \<and> 0x80 \<le> b \<and> b \<le> 0x8F)"

text \<open>
  One step: the character the front of the string gives and how many bytes it takes. An
  invalid sequence ends before the first byte that cannot continue it.
\<close>

definition utf8_step :: "nat \<Rightarrow> nat list \<Rightarrow> nat \<times> nat" where
  "utf8_step a rest =
     (if a < 0x80 then (a, 0)
      else if 0xC2 \<le> a \<and> a \<le> 0xDF then
        (case rest of
           b # _ \<Rightarrow> if continuation b then ((a - 0xC0) * 64 + (b - 0x80), 1) else (REPLACEMENT, 0)
         | [] \<Rightarrow> (REPLACEMENT, 0))
      else if 0xE0 \<le> a \<and> a \<le> 0xEF then
        (case rest of
           b # c # _ \<Rightarrow>
             if \<not> second3 a b then (REPLACEMENT, 0)
             else if \<not> continuation c then (REPLACEMENT, 1)
             else ((a - 0xE0) * 4096 + (b - 0x80) * 64 + (c - 0x80), 2)
         | [b] \<Rightarrow> (REPLACEMENT, if second3 a b then 1 else 0)
         | [] \<Rightarrow> (REPLACEMENT, 0))
      else if 0xF0 \<le> a \<and> a \<le> 0xF4 then
        (case rest of
           b # c # d # _ \<Rightarrow>
             if \<not> second4 a b then (REPLACEMENT, 0)
             else if \<not> continuation c then (REPLACEMENT, 1)
             else if \<not> continuation d then (REPLACEMENT, 2)
             else ((a - 0xF0) * 262144 + (b - 0x80) * 4096 + (c - 0x80) * 64 + (d - 0x80), 3)
         | [b, c] \<Rightarrow>
             (REPLACEMENT, if \<not> second4 a b then 0 else if \<not> continuation c then 1 else 2)
         | [b] \<Rightarrow> (REPLACEMENT, if second4 a b then 1 else 0)
         | [] \<Rightarrow> (REPLACEMENT, 0))
      else (REPLACEMENT, 0))"

function utf8_lossy_nat :: "nat list \<Rightarrow> utf8_string" where
  "utf8_lossy_nat [] = []"
| "utf8_lossy_nat (a # rest) =
     (let (c, n) = utf8_step a rest in c # utf8_lossy_nat (drop n rest))"
  by pat_completeness auto
termination
  by (relation "measure length") auto

definition from_utf8_lossy :: "byte list \<Rightarrow> utf8_string" where
  "from_utf8_lossy bs = utf8_lossy_nat (map unat bs)"

lemma utf8_lossy_ascii_nat: "\<forall>b \<in> set bs. b < 0x80 \<Longrightarrow> utf8_lossy_nat bs = bs"
  by (induction bs rule: utf8_lossy_nat.induct) (auto simp: utf8_step_def)

text \<open>ASCII names come through unchanged.\<close>

lemma from_utf8_lossy_ascii: "\<forall>b \<in> set bs. unat b < 0x80 \<Longrightarrow> from_utf8_lossy bs = map unat bs"
  by (simp add: from_utf8_lossy_def utf8_lossy_ascii_nat)

text \<open>Every byte is consumed by one character: the string is no longer than its input.\<close>

lemma length_utf8_lossy_nat: "length (utf8_lossy_nat bs) \<le> length bs"
proof (induction bs rule: utf8_lossy_nat.induct)
  case (2 a rest)
  obtain c n where step: "utf8_step a rest = (c, n)" by (cases "utf8_step a rest")
  have "length (utf8_lossy_nat (drop n rest)) \<le> length (drop n rest)"
    by (rule "2.IH" [OF step [symmetric] refl])
  also have "\<dots> \<le> length rest" by simp
  finally show ?case by (simp add: step)
qed simp

lemma length_from_utf8_lossy: "length (from_utf8_lossy bs) \<le> length bs"
  using length_utf8_lossy_nat [of "map unat bs"] by (simp add: from_utf8_lossy_def)

end
