(* ===== verification/Map_Abi.thy ===== *)
theory Map_Abi
  imports Tracker_Spec Utf8
begin

text \<open>
  \<^verbatim>\<open>maps_libbpf.rs\<close>: the \<open>repr(C)\<close> mirror of the key and the value, the conversion of a value
  to the process it names, lookup, and the sweep that removes stale entries.

  The map itself lives in the kernel and is reached through libbpf: its calls are the fields of
  the record \<open>map_api\<close>, a parameter of every operation. The locale \<open>map_handle\<close> states what
  they promise and carries the lemmas that need it; \<open>hash_map_api\<close> provides it.
\<close>

section \<open>The mirror structures\<close>

record ConnKey =
  ck_saddr :: "u32 list"
  ck_daddr :: "u32 list"
  ck_sport :: u16
  ck_dport :: u16
  ck_proto :: u8
  ck_family :: u8
  ck_padding :: "u8 list"

record ConnInfo =
  ci_tgid :: u32
  ci_tid :: u32
  ci_uid :: u32
  ci_gid :: u32
  ci_comm :: "byte list"
  ci_timestamp :: u64

record ProcessInfo =
  pi_pid :: u32
  pi_tid :: u32
  pi_uid :: u32
  pi_gid :: u32
  pi_comm :: utf8_string
  pi_timestamp :: u64

text \<open>The \<open>repr(C)\<close> layout of the two structures.\<close>

definition ConnKey_type :: ctype where
  "ConnKey_type = Struct [
     Field ''saddr'' (Array (Scalar TUInt) 4), Field ''daddr'' (Array (Scalar TUInt) 4),
     Field ''sport'' (Scalar TUShort), Field ''dport'' (Scalar TUShort),
     Field ''proto'' (Scalar TUChar), Field ''family'' (Scalar TUChar),
     Field ''padding'' (Array (Scalar TUChar) 2)]"

definition ConnInfo_type :: ctype where
  "ConnInfo_type = Struct [
     Field ''tgid'' (Scalar TUInt), Field ''tid'' (Scalar TUInt),
     Field ''uid'' (Scalar TUInt), Field ''gid'' (Scalar TUInt),
     Field ''comm'' (Array (Scalar TUChar) TASK_COMM_LEN),
     Field ''timestamp'' (Scalar TULongLong)]"

section \<open>Building keys\<close>

definition empty_key :: "u16 \<Rightarrow> u16 \<Rightarrow> u8 \<Rightarrow> u8 \<Rightarrow> ConnKey" where
  "empty_key sp dp pr fam =
     \<lparr>ck_saddr = replicate 4 0, ck_daddr = replicate 4 0, ck_sport = sp, ck_dport = dp,
      ck_proto = pr, ck_family = fam, ck_padding = replicate 2 0\<rparr>"

definition empty_v4 :: "u16 \<Rightarrow> u16 \<Rightarrow> u8 \<Rightarrow> ConnKey" where
  "empty_v4 sp dp pr = empty_key sp dp pr (word_of_nat AF_INET)"

definition empty_v6 :: "u16 \<Rightarrow> u16 \<Rightarrow> u8 \<Rightarrow> ConnKey" where
  "empty_v6 sp dp pr = empty_key sp dp pr (word_of_nat AF_INET6)"

definition fill_v4 :: "endian \<Rightarrow> ipv4 \<Rightarrow> ipv4 \<Rightarrow> ConnKey \<Rightarrow> ConnKey" where
  "fill_v4 e src dst k =
     k\<lparr>ck_saddr := (ck_saddr k)[0 := rd32 e (octets4 src)],
       ck_daddr := (ck_daddr k)[0 := rd32 e (octets4 dst)]\<rparr>"

text \<open>The loop over the four words of each address.\<close>

definition fill_v6_word :: "endian \<Rightarrow> byte list \<Rightarrow> byte list \<Rightarrow> nat \<Rightarrow> ConnKey \<Rightarrow> ConnKey" where
  "fill_v6_word e src_bytes dst_bytes index k =
     (let start = index * 4
      in k\<lparr>ck_saddr := (ck_saddr k)[index := rd32 e (take 4 (drop start src_bytes))],
           ck_daddr := (ck_daddr k)[index := rd32 e (take 4 (drop start dst_bytes))]\<rparr>)"

definition fill_v6 :: "endian \<Rightarrow> ipv6 \<Rightarrow> ipv6 \<Rightarrow> ConnKey \<Rightarrow> ConnKey" where
  "fill_v6 e src dst k = fold (fill_v6_word e (octets6 src) (octets6 dst)) [0..<4] k"

definition transport :: "bool \<Rightarrow> nat" where
  "transport is_tcp = (if is_tcp then IPPROTO_TCP else IPPROTO_UDP)"

definition new_v4 :: "endian \<Rightarrow> ipv4 \<Rightarrow> ipv4 \<Rightarrow> u16 \<Rightarrow> u16 \<Rightarrow> bool \<Rightarrow> ConnKey" where
  "new_v4 e src dst sp dp is_tcp = fill_v4 e src dst (empty_v4 sp dp (word_of_nat (transport is_tcp)))"

definition new_v6 :: "endian \<Rightarrow> ipv6 \<Rightarrow> ipv6 \<Rightarrow> u16 \<Rightarrow> u16 \<Rightarrow> bool \<Rightarrow> ConnKey" where
  "new_v6 e src dst sp dp is_tcp = fill_v6 e src dst (empty_v6 sp dp (word_of_nat (transport is_tcp)))"

definition new_icmp_v4 :: "endian \<Rightarrow> ipv4 \<Rightarrow> ipv4 \<Rightarrow> u16 \<Rightarrow> ConnKey" where
  "new_icmp_v4 e src dst icmp_id = fill_v4 e src dst (empty_v4 icmp_id 0 (word_of_nat IPPROTO_ICMP))"

definition new_icmp_v6 :: "endian \<Rightarrow> ipv6 \<Rightarrow> ipv6 \<Rightarrow> u16 \<Rightarrow> ConnKey" where
  "new_icmp_v6 e src dst icmp_id = fill_v6 e src dst (empty_v6 icmp_id 0 (word_of_nat IPPROTO_ICMPV6))"

definition as_bytes :: "endian \<Rightarrow> ConnKey \<Rightarrow> byte list" where
  "as_bytes e k = wr32s e (ck_saddr k) @ wr32s e (ck_daddr k) @ wr16 e (ck_sport k) @
     wr16 e (ck_dport k) @ [ck_proto k, ck_family k] @ ck_padding k"

section \<open>Reading values\<close>

datatype map_error = Invalid_value_size nat | Clock_failed

definition from_bytes :: "endian \<Rightarrow> byte list \<Rightarrow> map_error + ConnInfo" where
  "from_bytes e bs =
     (if length bs \<noteq> CONN_INFO_SIZE then Inl (Invalid_value_size (length bs))
      else Inr \<lparr>ci_tgid = rd32 e (take 4 bs), ci_tid = rd32 e (take 4 (drop 4 bs)),
        ci_uid = rd32 e (take 4 (drop 8 bs)), ci_gid = rd32 e (take 4 (drop 12 bs)),
        ci_comm = take 16 (drop 16 bs), ci_timestamp = rd64 e (take 8 (drop 32 bs))\<rparr>)"

text \<open>
  \<open>position(|&byte| byte == 0)\<close>, with the array length when there is no NUL, cuts the name at
  the first NUL byte.
\<close>

definition process_info :: "ConnInfo \<Rightarrow> ProcessInfo" where
  "process_info i =
     \<lparr>pi_pid = ci_tgid i, pi_tid = ci_tid i, pi_uid = ci_uid i, pi_gid = ci_gid i,
      pi_comm = from_utf8_lossy (takeWhile (\<lambda>b. b \<noteq> 0) (ci_comm i)),
      pi_timestamp = ci_timestamp i\<rparr>"

section \<open>The map and the clock\<close>

text \<open>
  Lookup may fail; deletion returns whether it succeeded and the map afterwards. \<open>clock\<close> is the
  return code of \<open>clock_gettime\<close> and the seconds and nanoseconds it left.
\<close>

record map_api =
  ma_lookup :: "socket_map \<Rightarrow> byte list \<Rightarrow> unit + byte list option"
  ma_keys :: "socket_map \<Rightarrow> byte list list"
  ma_delete :: "socket_map \<Rightarrow> byte list \<Rightarrow> (unit + unit) \<times> socket_map"

type_synonym clock = "int \<times> u64 \<times> u64"

definition monotonic_time_ns :: "clock \<Rightarrow> map_error + u64" where
  "monotonic_time_ns c = (case c of (result, tv_sec, tv_nsec) \<Rightarrow>
     if result \<noteq> 0 then Inl Clock_failed else Inr (tv_sec * 1000000000 + tv_nsec))"

definition saturating_sub :: "u64 \<Rightarrow> u64 \<Rightarrow> u64" where
  "saturating_sub a b = (if b \<le> a then a - b else 0)"

definition lookup_connection ::
  "endian \<Rightarrow> map_api \<Rightarrow> socket_map \<Rightarrow> ConnKey \<Rightarrow> map_error + ProcessInfo option" where
  "lookup_connection e api m key = (case ma_lookup api m (as_bytes e key) of
     Inr (Some value_bytes) \<Rightarrow>
       (case from_bytes e value_bytes of
          Inl err \<Rightarrow> Inl err
        | Inr info \<Rightarrow> Inr (Some (process_info info)))
   | Inr None \<Rightarrow> Inr None
   | Inl _ \<Rightarrow> Inr None)"

text \<open>The first loop of the sweep keeps a key whose value is readable and too old.\<close>

definition is_stale :: "endian \<Rightarrow> map_api \<Rightarrow> u64 \<Rightarrow> u64 \<Rightarrow> socket_map \<Rightarrow> byte list \<Rightarrow> bool" where
  "is_stale e api now threshold m key = (case ma_lookup api m key of
     Inr (Some value_bytes) \<Rightarrow>
       (case from_bytes e value_bytes of
          Inr info \<Rightarrow> saturating_sub now (ci_timestamp info) > threshold
        | Inl _ \<Rightarrow> False)
   | Inr None \<Rightarrow> False
   | Inl _ \<Rightarrow> False)"

text \<open>The second loop deletes and counts what was deleted.\<close>

fun delete_all :: "map_api \<Rightarrow> byte list list \<Rightarrow> u32 \<times> socket_map \<Rightarrow> u32 \<times> socket_map" where
  "delete_all api [] (n, m) = (n, m)"
| "delete_all api (k # ks) (n, m) = (case ma_delete api m k of
     (Inr _, m') \<Rightarrow> delete_all api ks (n + 1, m')
   | (Inl _, m') \<Rightarrow> delete_all api ks (n, m'))"

text \<open>
  The kernel's programs go on storing while the sweep runs. \<open>between\<close> is what they do to the map
  between the two loops.
\<close>

definition cleanup_stale_entries ::
  "endian \<Rightarrow> map_api \<Rightarrow> clock \<Rightarrow> (socket_map \<Rightarrow> socket_map) \<Rightarrow> u64 \<Rightarrow> socket_map
     \<Rightarrow> map_error + u32 \<times> socket_map" where
  "cleanup_stale_entries e api c between threshold m = (case monotonic_time_ns c of
     Inl err \<Rightarrow> Inl err
   | Inr now \<Rightarrow>
       let keys_to_delete = filter (is_stale e api now threshold m) (ma_keys api m)
       in Inr (delete_all api keys_to_delete (0, between m)))"

section \<open>The mirror agrees with the C declarations\<close>

definition key_mirror :: "conn_key \<Rightarrow> ConnKey" where
  "key_mirror k = \<lparr>ck_saddr = saddr k, ck_daddr = daddr k, ck_sport = sport k, ck_dport = dport k,
     ck_proto = proto k, ck_family = family k, ck_padding = padding k\<rparr>"

definition info_mirror :: "conn_info \<Rightarrow> ConnInfo" where
  "info_mirror i = \<lparr>ci_tgid = tgid i, ci_tid = tid i, ci_uid = uid i, ci_gid = gid i,
     ci_comm = comm i, ci_timestamp = timestamp i\<rparr>"

lemma as_bytes_mirror: "as_bytes e (key_mirror k) = conn_key_bytes e k"
  by (simp add: as_bytes_def key_mirror_def conn_key_bytes_def conn_key_fields_def)

lemma from_bytes_of_bytes:
  "length bs = CONN_INFO_SIZE \<Longrightarrow> from_bytes e bs = Inr (info_mirror (conn_info_of_bytes e bs))"
  by (simp add: from_bytes_def info_mirror_def conn_info_of_bytes_def)

lemma from_bytes_image: "wf_info i \<Longrightarrow> from_bytes e (conn_info_bytes e i) = Inr (info_mirror i)"
  by (simp add: from_bytes_of_bytes info.length_image info.value_image)

lemma from_bytes_wrong_size:
  "length bs \<noteq> CONN_INFO_SIZE \<Longrightarrow> from_bytes e bs = Inl (Invalid_value_size (length bs))"
  by (simp add: from_bytes_def)

text \<open>The compile-time assertions on sizes and alignments, and equal offsets member by member.\<close>

lemma mirror_layout:
  assumes "lp_abi A"
  shows "size_of A ConnKey_type = 40" "align_of A ConnKey_type = 4"
    and "size_of A ConnInfo_type = 40" "align_of A ConnInfo_type = llong_align A"
    and "ConnKey_type = conn_key_type"
    and "map_option fst (find_field A ConnInfo_type f) = map_option fst (find_field A conn_info_type f)"
proof -
  have A: "llong_align A = 4 \<or> llong_align A = 8"
    using assms by (auto simp: lp_abi_def)
  show "size_of A ConnKey_type = 40" "align_of A ConnKey_type = 4"
    by (simp_all add: ConnKey_type_def layout_eval)
  from A show "size_of A ConnInfo_type = 40" "align_of A ConnInfo_type = llong_align A"
    by (auto simp: ConnInfo_type_def layout_eval tracker_consts)
  show "ConnKey_type = conn_key_type"
    by (simp add: ConnKey_type_def conn_key_type_def)
  from A show "map_option fst (find_field A ConnInfo_type f)
      = map_option fst (find_field A conn_info_type f)"
    by (elim disjE) (simp_all add: ConnInfo_type_def conn_info_type_def layout_eval tracker_consts)
qed

section \<open>User space builds the keys the programs store\<close>

lemma fill_v6_empty:
  "fill_v6 e src dst (empty_key sp dp pr fam) =
     \<lparr>ck_saddr = rd32x4 e (octets6 src), ck_daddr = rd32x4 e (octets6 dst), ck_sport = sp,
      ck_dport = dp, ck_proto = pr, ck_family = fam, ck_padding = [0, 0]\<rparr>"
  by (simp add: fill_v6_def fill_v6_word_def empty_key_def rd32x4_def numeral_nat upt_rec Let_def)

lemmas new_key_defs = new_v4_def new_v6_def new_icmp_v4_def new_icmp_v6_def empty_v4_def
  empty_v6_def transport_def

lemma new_keys_mirror:
  shows "new_v4 e src dst sp dp is_tcp = key_mirror (key_v4 e src dst sp dp (transport is_tcp))"
    and "new_icmp_v4 e src dst icmp_id = key_mirror (key_v4 e src dst icmp_id 0 IPPROTO_ICMP)"
    and "new_v6 e src6 dst6 sp dp is_tcp = key_mirror (key_v6 e src6 dst6 sp dp (transport is_tcp))"
    and "new_icmp_v6 e src6 dst6 icmp_id = key_mirror (key_v6 e src6 dst6 icmp_id 0 IPPROTO_ICMPV6)"
proof -
  show "new_v4 e src dst sp dp is_tcp = key_mirror (key_v4 e src dst sp dp (transport is_tcp))"
    and "new_icmp_v4 e src dst icmp_id = key_mirror (key_v4 e src dst icmp_id 0 IPPROTO_ICMP)"
    by (simp_all add: new_key_defs key_mirror_def key_v4_def fill_v4_def empty_key_def numeral_nat)
  show "new_v6 e src6 dst6 sp dp is_tcp = key_mirror (key_v6 e src6 dst6 sp dp (transport is_tcp))"
    and "new_icmp_v6 e src6 dst6 icmp_id = key_mirror (key_v6 e src6 dst6 icmp_id 0 IPPROTO_ICMPV6)"
    by (simp_all add: new_key_defs key_mirror_def key_v6_def fill_v6_empty)
qed

lemma new_keys_bytes [simp]:
  shows "as_bytes e (new_v4 e src dst sp dp is_tcp)
      = conn_key_bytes e (key_v4 e src dst sp dp (transport is_tcp))"
    and "as_bytes e (new_icmp_v4 e src dst icmp_id)
      = conn_key_bytes e (key_v4 e src dst icmp_id 0 IPPROTO_ICMP)"
    and "as_bytes e (new_v6 e src6 dst6 sp dp is_tcp)
      = conn_key_bytes e (key_v6 e src6 dst6 sp dp (transport is_tcp))"
    and "as_bytes e (new_icmp_v6 e src6 dst6 icmp_id)
      = conn_key_bytes e (key_v6 e src6 dst6 icmp_id 0 IPPROTO_ICMPV6)"
  by (simp_all only: new_keys_mirror as_bytes_mirror)

lemma key_v4_inject:
  "conn_key_bytes e (key_v4 e s d sp dp pr) = conn_key_bytes e (key_v4 e s' d' sp' dp' pr') \<longleftrightarrow>
     s = s' \<and> d = d' \<and> sp = sp' \<and> dp = dp' \<and> (word_of_nat pr :: u8) = word_of_nat pr'"
  by (simp add: key_v4_image)

lemma key_v6_inject:
  "conn_key_bytes e (key_v6 e s d sp dp pr) = conn_key_bytes e (key_v6 e s' d' sp' dp' pr') \<longleftrightarrow>
     s = s' \<and> d = d' \<and> sp = sp' \<and> dp = dp' \<and> (word_of_nat pr :: u8) = word_of_nat pr'"
  by (simp add: key_v6_image)

lemma key_v4_v6_distinct:
  "conn_key_bytes e (key_v4 e s d sp dp pr) \<noteq> conn_key_bytes e (key_v6 e s6 d6 sp' dp' pr')"
proof -
  have "key_v4 e s d sp dp pr \<noteq> key_v6 e s6 d6 sp' dp' pr'"
    by (simp add: key_v4_def key_v6_def tracker_consts)
  then show ?thesis by (simp add: key.image_inject)
qed

section \<open>Task names\<close>

text \<open>A NUL-terminated ASCII name comes back as it is, whatever follows the terminator.\<close>

lemma process_info_ascii:
  assumes "\<forall>b \<in> set name. b \<noteq> 0 \<and> unat b < 0x80" "ci_comm i = name @ rest"
    and "rest = [] \<or> hd rest = 0"
  shows "pi_comm (process_info i) = map unat name"
proof -
  have "takeWhile (\<lambda>b. b \<noteq> 0) (name @ rest) = name @ takeWhile (\<lambda>b. b \<noteq> 0) rest"
    using assms(1) by (simp add: takeWhile_append2)
  also have "takeWhile (\<lambda>b. b \<noteq> 0) rest = []"
    using assms(3) by (cases rest) auto
  finally show ?thesis
    using assms(1,2) by (simp add: process_info_def from_utf8_lossy_ascii)
qed

lemma process_info_comm_length: "length (pi_comm (process_info i)) \<le> length (ci_comm i)"
  using length_from_utf8_lossy [of "takeWhile (\<lambda>b. b \<noteq> 0) (ci_comm i)"]
    length_takeWhile_le [of "\<lambda>b. b \<noteq> 0" "ci_comm i"]
  by (simp add: process_info_def)

section \<open>What the map calls promise\<close>

text \<open>A value too old at time \<open>now\<close>.\<close>

definition stale_value :: "endian \<Rightarrow> u64 \<Rightarrow> u64 \<Rightarrow> byte list \<Rightarrow> bool" where
  "stale_value e now threshold v \<longleftrightarrow> length v = CONN_INFO_SIZE \<and>
     saturating_sub now (timestamp (conn_info_of_bytes e v)) > threshold"

text \<open>
  A lookup fails or is right. A deletion that succeeds has removed the element it names, one
  that fails has removed nothing.
\<close>

locale map_handle =
  fixes api :: map_api
  assumes lookup_cases: "ma_lookup api m k = Inl u \<or> ma_lookup api m k = Inr (m k)"
    and delete_ok: "ma_delete api m k = (Inr u, m') \<Longrightarrow> k \<in> dom m \<and> m' = m(k := None)"
    and delete_err: "ma_delete api m k = (Inl u, m') \<Longrightarrow> m' = m"
begin

lemma lookup_sound:
  assumes "lookup_connection e api m key = Inr (Some p)"
  shows "\<exists>v i. m (as_bytes e key) = Some v \<and> from_bytes e v = Inr i \<and> p = process_info i"
  using assms lookup_cases [of m "as_bytes e key"]
  by (auto simp: lookup_connection_def split: sum.splits option.splits)

lemma is_stale_sound:
  assumes "is_stale e api now threshold m k"
  shows "\<exists>v. m k = Some v \<and> stale_value e now threshold v"
  using assms lookup_cases [of m k]
  by (auto simp: is_stale_def stale_value_def from_bytes_def conn_info_of_bytes_def
      split: sum.splits option.splits if_splits)

lemma delete_all_effect:
  "delete_all api ks (n, m) = (n', m') \<Longrightarrow> m' k = m k \<or> k \<in> set ks \<and> m' k = None"
proof (induction ks arbitrary: n m)
  case (Cons x ks)
  obtain r m1 where del: "ma_delete api m x = (r, m1)" by (cases "ma_delete api m x")
  show ?case
  proof (cases r)
    case (Inl u)
    with del delete_err have "m1 = m" by blast
    with Cons del Inl show ?thesis by auto
  next
    case (Inr u)
    with del delete_ok have m1: "m1 = m(x := None)" by blast
    from Cons.prems del Inr have "delete_all api ks (n + 1, m1) = (n', m')" by simp
    then have "m' k = m1 k \<or> k \<in> set ks \<and> m' k = None" by (rule Cons.IH)
    with m1 show ?thesis by (auto split: if_splits)
  qed
qed simp

text \<open>The count is the number of entries that are gone.\<close>

lemma delete_all_count:
  "finite (dom m) \<Longrightarrow> delete_all api ks (n, m) = (n', m') \<Longrightarrow>
     n' = n + word_of_nat (card (dom m) - card (dom m')) \<and> card (dom m') \<le> card (dom m)"
proof (induction ks arbitrary: n m)
  case (Cons x ks)
  obtain r m1 where del: "ma_delete api m x = (r, m1)" by (cases "ma_delete api m x")
  show ?case
  proof (cases r)
    case (Inl u)
    with del delete_err have "m1 = m" by blast
    with Cons.prems del Inl have "delete_all api ks (n, m) = (n', m')" by simp
    with Cons.prems(1) show ?thesis by (rule Cons.IH)
  next
    case (Inr u)
    with del delete_ok have x: "x \<in> dom m" and m1: "m1 = m(x := None)" by blast+
    have fin: "finite (dom m1)" using Cons.prems(1) by (simp add: m1)
    have "card (dom m) = Suc (card (dom m - {x}))"
      using Cons.prems(1) x by (rule card.remove)
    then have card: "card (dom m) = Suc (card (dom m1))" by (simp add: m1)
    have "delete_all api ks (n + 1, m1) = (n', m')" using Cons.prems(2) del Inr by simp
    with fin have "n' = (n + 1) + word_of_nat (card (dom m1) - card (dom m')) \<and>
        card (dom m') \<le> card (dom m1)"
      by (rule Cons.IH)
    with card show ?thesis by (simp add: Suc_diff_le)
  qed
qed simp

lemma cleanup_removes_stale:
  assumes run: "cleanup_stale_entries e api c between threshold m = Inr (n, m')"
    and time: "monotonic_time_ns c = Inr now"
    and gone: "m' k \<noteq> between m k"
  shows "m' k = None \<and> (\<exists>v. m k = Some v \<and> stale_value e now threshold v)"
proof -
  have "delete_all api (filter (is_stale e api now threshold m) (ma_keys api m)) (0, between m) = (n, m')"
    using run time by (simp add: cleanup_stale_entries_def)
  from delete_all_effect [OF this, of k] gone is_stale_sound show ?thesis by auto
qed

lemma cleanup_count:
  assumes run: "cleanup_stale_entries e api c between threshold m = Inr (n, m')"
    and fin: "finite (dom (between m))" "card (dom (between m)) < 2 ^ 32"
  shows "unat n = card (dom (between m)) - card (dom m')"
proof -
  obtain now where "monotonic_time_ns c = Inr now"
    using run by (auto simp: cleanup_stale_entries_def split: sum.splits)
  with run have
    "delete_all api (filter (is_stale e api now threshold m) (ma_keys api m)) (0, between m) = (n, m')"
    by (simp add: cleanup_stale_entries_def)
  from delete_all_count [OF fin(1) this] have
    n: "n = word_of_nat (card (dom (between m)) - card (dom m'))" by simp
  have "card (dom (between m)) - card (dom m') < 2 ^ 32" using fin(2) by simp
  then show ?thesis by (simp add: n unat_of_nat)
qed

end

text \<open>
  A map nobody else is changing and whose calls do not fail: lookups find what is there,
  iteration lists every key of a map that fits, deletion removes what is there.
\<close>

locale quiet_map = map_handle +
  fixes fits :: "socket_map \<Rightarrow> bool"
  assumes lookup_ok: "ma_lookup api m k = Inr (m k)"
    and keys_complete: "fits m \<Longrightarrow> set (ma_keys api m) = dom m"
    and delete_present: "k \<in> dom m \<Longrightarrow> ma_delete api m k = (Inr (), m(k := None))"
    and delete_absent: "k \<notin> dom m \<Longrightarrow> ma_delete api m k = (Inl (), m)"
begin

lemma lookup_found:
  assumes "m (conn_key_bytes e k) = Some (conn_info_bytes e i)" "wf_info i"
    and "as_bytes e key = conn_key_bytes e k"
  shows "lookup_connection e api m key = Inr (Some (process_info (info_mirror i)))"
  using assms by (simp add: lookup_connection_def lookup_ok from_bytes_image)

lemma lookup_absent:
  "m (as_bytes e key) = None \<Longrightarrow> lookup_connection e api m key = Inr None"
  by (simp add: lookup_connection_def lookup_ok)

lemma is_stale_iff:
  "is_stale e api now threshold m k \<longleftrightarrow> (\<exists>v. m k = Some v \<and> stale_value e now threshold v)"
  by (auto simp: is_stale_def lookup_ok stale_value_def from_bytes_def conn_info_of_bytes_def
      split: option.splits)

lemma delete_all_quiet: "snd (delete_all api ks (n, m)) = m |` (- set ks)"
proof (induction ks arbitrary: n m)
  case (Cons x ks)
  show ?case
  proof (cases "x \<in> dom m")
    case True
    with Cons show ?thesis
      by (auto simp: delete_present restrict_map_def fun_eq_iff)
  next
    case False
    then have "snd (delete_all api (x # ks) (n, m)) = m |` (- set ks)"
      using Cons by (simp add: delete_absent)
    with False show ?thesis
      by (auto simp: restrict_map_def fun_eq_iff domIff)
  qed
qed (simp add: restrict_map_def)

text \<open>Nothing stale survives, everything else does.\<close>

lemma cleanup_complete:
  assumes "monotonic_time_ns c = Inr now" "fits m"
  shows "\<exists>n. cleanup_stale_entries e api c id threshold m =
     Inr (n, m |` {k. \<forall>v. m k = Some v \<longrightarrow> \<not> stale_value e now threshold v})"
proof -
  let ?ks = "filter (is_stale e api now threshold m) (ma_keys api m)"
  have "m |` (- set ?ks) = m |` {k. \<forall>v. m k = Some v \<longrightarrow> \<not> stale_value e now threshold v}"
    using keys_complete [OF assms(2)]
    by (auto simp: restrict_map_def fun_eq_iff is_stale_iff)
  moreover obtain n m' where r: "delete_all api ?ks (0, m) = (n, m')"
    by (cases "delete_all api ?ks (0, m)")
  ultimately have "m' = m |` {k. \<forall>v. m k = Some v \<longrightarrow> \<not> stale_value e now threshold v}"
    using delete_all_quiet [of ?ks 0 m] by simp
  with r assms(1) show ?thesis by (simp add: cleanup_stale_entries_def)
qed

end

text \<open>An instance, for keys out of a given list.\<close>

definition hash_map_api :: "byte list list \<Rightarrow> map_api" where
  "hash_map_api U =
     \<lparr>ma_lookup = \<lambda>m k. Inr (m k), ma_keys = \<lambda>m. filter (\<lambda>k. m k \<noteq> None) U,
      ma_delete = \<lambda>m k. if m k = None then (Inl (), m) else (Inr (), m(k := None))\<rparr>"

interpretation hash: quiet_map "hash_map_api U" "\<lambda>m. dom m \<subseteq> set U"
  for U
  by unfold_locales (auto simp: hash_map_api_def domIff split: if_splits)

end
