(* ===== verification/Attribution.thy ===== *)
theory Attribution
  imports Net_Addr
begin

text \<open>
  The vocabulary of process attribution: \<^verbatim>\<open>rustnet-host/src/lib.rs\<close> and the protocol and match
  quality of \<^verbatim>\<open>rustnet-core\<close>. Backends, capability sets, how closely a result matched, the rich
  attribution, connection keys, and the lookup that relaxes a key to the shapes wildcard sockets
  have in OS tables.
\<close>

section \<open>Backends and capabilities\<close>

datatype attribution_backend = EbpfFentry | EbpfKprobe | Procfs | Pktap | Lsof | PlatformNative

type_synonym capabilities = u32

definition TCP_V4_CONNECT :: capabilities where "TCP_V4_CONNECT = push_bit 0 1"
definition TCP_V6_CONNECT :: capabilities where "TCP_V6_CONNECT = push_bit 1 1"
definition TCP_ACCEPT :: capabilities where "TCP_ACCEPT = push_bit 2 1"
definition UDP_V4_SEND :: capabilities where "UDP_V4_SEND = push_bit 3 1"
definition UDP_V6_SEND :: capabilities where "UDP_V6_SEND = push_bit 4 1"
definition ICMP_V4_SEND :: capabilities where "ICMP_V4_SEND = push_bit 5 1"
definition ICMP_V6_SEND :: capabilities where "ICMP_V6_SEND = push_bit 6 1"

definition contains :: "capabilities \<Rightarrow> capabilities \<Rightarrow> bool" where
  "contains c r \<longleftrightarrow> and c r = r"

definition insert_caps :: "capabilities \<Rightarrow> capabilities \<Rightarrow> capabilities" where
  "insert_caps c r = or c r"

lemmas capability_defs = TCP_V4_CONNECT_def TCP_V6_CONNECT_def TCP_ACCEPT_def UDP_V4_SEND_def
  UDP_V6_SEND_def ICMP_V4_SEND_def ICMP_V6_SEND_def

lemma contains_insert [simp]: "contains (insert_caps c r) r"
  by (auto simp: contains_def insert_caps_def bit_eq_iff bit_simps)

lemma contains_mono: "contains c r \<Longrightarrow> contains (insert_caps c s) r"
  by (auto simp: contains_def insert_caps_def bit_eq_iff bit_simps)

lemma contains_or: "contains c (or r s) \<longleftrightarrow> contains c r \<and> contains c s"
  by (auto simp: contains_def bit_eq_iff bit_simps)

section \<open>Match quality\<close>

datatype match_quality =
    ExactTuple | WildcardLocalAddress | ListenerSocket | ProcfsExact | ProcfsRelaxed | Unspecified

definition is_exact :: "match_quality \<Rightarrow> bool" where
  "is_exact q = (case q of ExactTuple \<Rightarrow> True | ProcfsExact \<Rightarrow> True | _ \<Rightarrow> False)"

fun as_token :: "match_quality \<Rightarrow> string" where
  "as_token ExactTuple = ''exact-tuple''"
| "as_token WildcardLocalAddress = ''wildcard-local-address''"
| "as_token ListenerSocket = ''listener-socket''"
| "as_token ProcfsExact = ''procfs-exact''"
| "as_token ProcfsRelaxed = ''procfs-relaxed''"
| "as_token Unspecified = ''unspecified''"

lemma as_token_inject: "as_token p = as_token q \<longleftrightarrow> p = q"
  by (cases p; cases q) simp_all

lemma as_token_plain: "c \<in> set (as_token q) \<Longrightarrow> c \<in> set ''abcdefghijklmnopqrstuvwxyz-''"
  by (cases q) auto

section \<open>Attributions\<close>

type_synonym path = string
type_synonym name = "nat list"

record process_attribution =
  pa_tgid :: u32
  pa_ppid :: "u32 option"
  pa_tid :: "u32 option"
  pa_name :: name
  pa_uid :: "u32 option"
  pa_gid :: "u32 option"
  pa_executable :: "path option"
  pa_backend :: attribution_backend
  pa_quality :: match_quality
  pa_observed_at_ns :: "u64 option"

definition new_attribution ::
  "u32 \<Rightarrow> name \<Rightarrow> attribution_backend \<Rightarrow> match_quality \<Rightarrow> process_attribution" where
  "new_attribution tgid name backend quality =
     \<lparr>pa_tgid = tgid, pa_ppid = None, pa_tid = None, pa_name = name, pa_uid = None, pa_gid = None,
      pa_executable = None, pa_backend = backend, pa_quality = quality, pa_observed_at_ns = None\<rparr>"

definition with_parent_pid :: "u32 \<Rightarrow> process_attribution \<Rightarrow> process_attribution" where
  "with_parent_pid ppid a = a\<lparr>pa_ppid := Some ppid\<rparr>"

definition with_tid :: "u32 \<Rightarrow> process_attribution \<Rightarrow> process_attribution" where
  "with_tid tid a = a\<lparr>pa_tid := Some tid\<rparr>"

definition with_credentials :: "u32 \<Rightarrow> u32 \<Rightarrow> process_attribution \<Rightarrow> process_attribution" where
  "with_credentials uid gid a = a\<lparr>pa_uid := Some uid, pa_gid := Some gid\<rparr>"

definition with_executable :: "path option \<Rightarrow> process_attribution \<Rightarrow> process_attribution" where
  "with_executable exe a = a\<lparr>pa_executable := exe\<rparr>"

definition with_observed_at_ns :: "u64 \<Rightarrow> process_attribution \<Rightarrow> process_attribution" where
  "with_observed_at_ns t a = a\<lparr>pa_observed_at_ns := Some t\<rparr>"

definition into_pid_name :: "process_attribution \<Rightarrow> u32 \<times> name" where
  "into_pid_name a = (pa_tgid a, pa_name a)"

text \<open>
  The default \<open>get_process_attribution\<close> of a platform that only finds \<open>(pid, name)\<close>, on the
  result of its lookup.
\<close>

definition default_attribution ::
  "attribution_backend \<Rightarrow> (u32 \<times> name) option \<Rightarrow> process_attribution option" where
  "default_attribution backend found = (case found of
     None \<Rightarrow> None
   | Some (tgid, name) \<Rightarrow> Some (new_attribution tgid name backend Unspecified))"

section \<open>Connection keys\<close>

datatype protocol = Tcp | Udp | Icmp | Igmp | Arp

text \<open>The derived order of protocols is the order of their declaration.\<close>

fun protocol_rank :: "protocol \<Rightarrow> nat" where
  "protocol_rank Tcp = 0"
| "protocol_rank Udp = 1"
| "protocol_rank Icmp = 2"
| "protocol_rank Igmp = 3"
| "protocol_rank Arp = 4"

lemma protocol_rank_inject: "protocol_rank p = protocol_rank q \<longleftrightarrow> p = q"
  by (cases p; cases q) simp_all

instantiation protocol :: linorder
begin

definition less_eq_protocol :: "protocol \<Rightarrow> protocol \<Rightarrow> bool" where
  "less_eq_protocol p q \<longleftrightarrow> protocol_rank p \<le> protocol_rank q"

definition less_protocol :: "protocol \<Rightarrow> protocol \<Rightarrow> bool" where
  "less_protocol p q \<longleftrightarrow> protocol_rank p < protocol_rank q"

instance
  by standard (auto simp: less_eq_protocol_def less_protocol_def protocol_rank_inject [symmetric])

end

text \<open>An IPv6 socket address also has flow information and a scope, and they count in equality.\<close>

datatype socket_addr = SockV4 ipv4 u16 | SockV6 ipv6 u16 u32 u32

fun ip_of :: "socket_addr \<Rightarrow> ip_addr" where
  "ip_of (SockV4 a p) = V4 a"
| "ip_of (SockV6 a p fl sc) = V6 a"

fun port_of :: "socket_addr \<Rightarrow> u16" where
  "port_of (SockV4 a p) = p"
| "port_of (SockV6 a p fl sc) = p"

fun new_socket_addr :: "ip_addr \<Rightarrow> u16 \<Rightarrow> socket_addr" where
  "new_socket_addr (V4 a) p = SockV4 a p"
| "new_socket_addr (V6 a) p = SockV6 a p 0 0"

record connection_key =
  cn_protocol :: protocol
  cn_local :: socket_addr
  cn_remote :: socket_addr

section \<open>Relaxed lookup\<close>

fun zero_of :: "socket_addr \<Rightarrow> ip_addr" where
  "zero_of (SockV4 _ _) = V4 0"
| "zero_of (SockV6 _ _ _ _) = V6 0"

definition candidates :: "connection_key \<Rightarrow> (connection_key \<times> match_quality) list" where
  "candidates k =
     (let lip = ip_of (cn_local k); lport = port_of (cn_local k);
          rip = ip_of (cn_remote k); rport = port_of (cn_remote k);
          zlip = zero_of (cn_local k); zrip = zero_of (cn_remote k);
          at = (\<lambda>l lp r rp. \<lparr>cn_protocol = cn_protocol k, cn_local = new_socket_addr l lp,
                             cn_remote = new_socket_addr r rp\<rparr>)
      in [(at zlip lport rip rport, WildcardLocalAddress),
          (at lip lport zrip 0, ListenerSocket),
          (at zlip lport zrip 0, ListenerSocket)])"

text \<open>The loop, with its early return.\<close>

fun relaxed_scan ::
  "(connection_key \<rightharpoonup> 'v) \<Rightarrow> (connection_key \<times> match_quality) list \<Rightarrow> ('v \<times> match_quality) option
     \<Rightarrow> ('v \<times> match_quality) option" where
  "relaxed_scan m [] found = found"
| "relaxed_scan m ((c, quality) # cs) found = (case m c of
     None \<Rightarrow> relaxed_scan m cs found
   | Some entry \<Rightarrow>
       (case found of
          None \<Rightarrow> relaxed_scan m cs (Some (entry, quality))
        | Some (existing, q) \<Rightarrow> if existing = entry then relaxed_scan m cs found else None))"

definition relaxed_lookup ::
  "(connection_key \<rightharpoonup> 'v) \<Rightarrow> connection_key \<Rightarrow> ('v \<times> match_quality) option" where
  "relaxed_lookup m k =
     (if cn_protocol k \<notin> {Tcp, Udp} then None else relaxed_scan m (candidates k) None)"

definition fallback_lookup :: "(connection_key \<rightharpoonup> u32 \<times> name) \<Rightarrow> connection_key \<Rightarrow> (u32 \<times> name) option" where
  "fallback_lookup m k = map_option fst (relaxed_lookup m k)"

text \<open>The candidates that are in the table, with their owners, in the order they are tried.\<close>

fun hits :: "(connection_key \<rightharpoonup> 'v) \<Rightarrow> (connection_key \<times> match_quality) list \<Rightarrow> ('v \<times> match_quality) list" where
  "hits m [] = []"
| "hits m ((c, q) # cs) = (case m c of None \<Rightarrow> hits m cs | Some v \<Rightarrow> (v, q) # hits m cs)"

lemma hits_iff: "(v, q) \<in> set (hits m cs) \<longleftrightarrow> (\<exists>c. (c, q) \<in> set cs \<and> m c = Some v)"
  by (induction m cs rule: hits.induct) (auto split: option.splits)

lemma relaxed_scan_found:
  "relaxed_scan m cs (Some (v, q)) =
     (if \<forall>x \<in> set (hits m cs). fst x = v then Some (v, q) else None)"
  by (induction m cs rule: hits.induct) (simp_all split: option.split)

lemma relaxed_scan_none:
  "relaxed_scan m cs None = (case hits m cs of
     [] \<Rightarrow> None
   | (v, q) # rest \<Rightarrow> if \<forall>x \<in> set rest. fst x = v then Some (v, q) else None)"
  by (induction m cs rule: hits.induct)
    (simp_all add: relaxed_scan_found split: option.split)

text \<open>
  The owner every present candidate agrees on, at the quality of the tightest one; nothing when
  none is present or two name different owners.
\<close>

lemma relaxed_lookup_spec:
  "relaxed_lookup m k = (if cn_protocol k = Tcp \<or> cn_protocol k = Udp
     then (case hits m (candidates k) of
         [] \<Rightarrow> None
       | (v, q) # rest \<Rightarrow> if \<forall>x \<in> set rest. fst x = v then Some (v, q) else None)
     else None)"
  by (simp add: relaxed_lookup_def relaxed_scan_none)

lemma relaxed_lookup_sound:
  assumes "relaxed_lookup m k = Some (v, q)"
  shows "\<exists>c. (c, q) \<in> set (candidates k) \<and> m c = Some v"
    and "(c', q') \<in> set (candidates k) \<Longrightarrow> m c' = None \<or> m c' = Some v"
proof -
  from assms obtain rest where hits: "hits m (candidates k) = (v, q) # rest"
    and agree: "\<forall>x \<in> set rest. fst x = v"
    unfolding relaxed_lookup_spec by (auto split: if_splits list.splits)
  from hits have "(v, q) \<in> set (hits m (candidates k))" by simp
  then show "\<exists>c. (c, q) \<in> set (candidates k) \<and> m c = Some v"
    by (simp only: hits_iff)
  assume c': "(c', q') \<in> set (candidates k)"
  show "m c' = None \<or> m c' = Some v"
  proof (cases "m c'")
    case (Some w)
    with c' have "(w, q') \<in> set (hits m (candidates k))" by (auto simp: hits_iff)
    with hits agree Some show ?thesis by auto
  qed simp
qed

text \<open>A miss is a table without any of the shapes, or two of them with different owners.\<close>

lemma relaxed_lookup_none:
  assumes "relaxed_lookup m k = None" "cn_protocol k = Tcp \<or> cn_protocol k = Udp"
    and "(c, q) \<in> set (candidates k)" "m c = Some v"
  shows "\<exists>c' q' w. (c', q') \<in> set (candidates k) \<and> m c' = Some w \<and> w \<noteq> v"
proof -
  from assms(3,4) have v: "(v, q) \<in> set (hits m (candidates k))" by (auto simp: hits_iff)
  then obtain w r rest where hits: "hits m (candidates k) = (w, r) # rest"
    by (cases "hits m (candidates k)") auto
  with assms(1,2) obtain x where "x \<in> set rest" "fst x \<noteq> w"
    by (auto simp: relaxed_lookup_spec split: if_splits)
  with hits v have "\<exists>y \<in> set (hits m (candidates k)). fst y \<noteq> v"
    by (metis fst_conv list.set_intros)
  then obtain w' q' where "(w', q') \<in> set (hits m (candidates k))" "w' \<noteq> v" by auto
  then show ?thesis by (auto simp: hits_iff)
qed

lemma relaxed_never_exact: "relaxed_lookup m k = Some (v, q) \<Longrightarrow> \<not> is_exact q"
  by (drule relaxed_lookup_sound(1)) (auto simp: candidates_def Let_def is_exact_def)

end
