(* ===== verification/Tracker_Programs.thy ===== *)
theory Tracker_Programs
  imports Tracker_Spec
begin

text \<open>
  The probe programs of \<^verbatim>\<open>socket_tracker_fentry.bpf.c\<close> and \<^verbatim>\<open>socket_tracker_kprobe.bpf.c\<close>, one
  definition per program, and the sequences of probe hits a backend sees. The environment of
  every hit is its own: another task runs, kernel memory and the clock have moved on.

  The locale \<open>tracker_backend\<close> is what user space relies on in either backend; both program
  files interpret it.
\<close>

section \<open>Trampoline programs\<close>

text \<open>A \<open>fexit\<close> program sees the traced function's result after its arguments.\<close>

definition fentry_tcp_connect :: "bpf_env \<Rightarrow> u64 \<Rightarrow> int \<Rightarrow> socket_map \<Rightarrow> int \<times> socket_map" where
  "fentry_tcp_connect E sk result m =
     (0, if result = 0 then snd (track_tcp_socket E sk m) else m)"

definition fentry_tcp_v6_connect ::
  "bpf_env \<Rightarrow> u64 \<Rightarrow> u64 \<Rightarrow> int \<Rightarrow> int \<Rightarrow> socket_map \<Rightarrow> int \<times> socket_map" where
  "fentry_tcp_v6_connect E sk address address_length result m =
     (0, if result = 0 then snd (track_tcp_socket E sk m) else m)"

definition fentry_udp_sendmsg :: "bpf_env \<Rightarrow> u64 \<Rightarrow> u64 \<Rightarrow> u64 \<Rightarrow> socket_map \<Rightarrow> int \<times> socket_map" where
  "fentry_udp_sendmsg E sk msg len m = (0, snd (track_udp_v4 E sk msg m))"

definition fentry_udp_v6_sendmsg :: "bpf_env \<Rightarrow> u64 \<Rightarrow> u64 \<Rightarrow> u64 \<Rightarrow> socket_map \<Rightarrow> int \<times> socket_map" where
  "fentry_udp_v6_sendmsg E sk msg len m = (0, snd (track_udp_v6 E sk msg m))"

definition fentry_tcp_accept_legacy_signature ::
  "bpf_env \<Rightarrow> u64 \<Rightarrow> int \<Rightarrow> u64 \<Rightarrow> bool \<Rightarrow> u64 \<Rightarrow> socket_map \<Rightarrow> int \<times> socket_map" where
  "fentry_tcp_accept_legacy_signature E listener flags err kern accepted m =
     (0, snd (track_accepted_socket E accepted m))"

definition fentry_tcp_accept_proto_arg ::
  "bpf_env \<Rightarrow> u64 \<Rightarrow> u64 \<Rightarrow> u64 \<Rightarrow> socket_map \<Rightarrow> int \<times> socket_map" where
  "fentry_tcp_accept_proto_arg E listener arg accepted m =
     (0, snd (track_accepted_socket E accepted m))"

definition fentry_ping_v4_sendmsg :: "bpf_env \<Rightarrow> u64 \<Rightarrow> u64 \<Rightarrow> u64 \<Rightarrow> socket_map \<Rightarrow> int \<times> socket_map" where
  "fentry_ping_v4_sendmsg E sk msg len m = (0, snd (track_ping_v4 E sk msg m))"

definition fentry_ping_v6_sendmsg :: "bpf_env \<Rightarrow> u64 \<Rightarrow> u64 \<Rightarrow> u64 \<Rightarrow> socket_map \<Rightarrow> int \<times> socket_map" where
  "fentry_ping_v6_sendmsg E sk msg len m = (0, snd (track_ping_v6 E sk msg m))"

text \<open>A hit of one of the attached programs, with the arguments the trampoline passes.\<close>

datatype fentry_hit =
    F_tcp_connect u64 int
  | F_tcp_v6_connect u64 u64 int int
  | F_udp_sendmsg u64 u64 u64
  | F_udp_v6_sendmsg u64 u64 u64
  | F_accept_legacy u64 int u64 bool u64
  | F_accept_proto_arg u64 u64 u64
  | F_ping_v4_sendmsg u64 u64 u64
  | F_ping_v6_sendmsg u64 u64 u64

fun fentry_run :: "bpf_env \<Rightarrow> fentry_hit \<Rightarrow> socket_map \<Rightarrow> int \<times> socket_map" where
  "fentry_run E (F_tcp_connect sk r) m = fentry_tcp_connect E sk r m"
| "fentry_run E (F_tcp_v6_connect sk a n r) m = fentry_tcp_v6_connect E sk a n r m"
| "fentry_run E (F_udp_sendmsg sk msg n) m = fentry_udp_sendmsg E sk msg n m"
| "fentry_run E (F_udp_v6_sendmsg sk msg n) m = fentry_udp_v6_sendmsg E sk msg n m"
| "fentry_run E (F_accept_legacy l f err k sk) m = fentry_tcp_accept_legacy_signature E l f err k sk m"
| "fentry_run E (F_accept_proto_arg l arg sk) m = fentry_tcp_accept_proto_arg E l arg sk m"
| "fentry_run E (F_ping_v4_sendmsg sk msg n) m = fentry_ping_v4_sendmsg E sk msg n m"
| "fentry_run E (F_ping_v6_sendmsg sk msg n) m = fentry_ping_v6_sendmsg E sk msg n m"

section \<open>Kprobe programs\<close>

text \<open>
  A kprobe finds its arguments in the saved registers, a kretprobe the return value. Which
  registers those are is libbpf's knowledge of the architecture: the accessors are a
  parameter.
\<close>

record 'regs pt_access =
  PT_PARM1 :: "'regs \<Rightarrow> u64"
  PT_PARM2 :: "'regs \<Rightarrow> u64"
  PT_RC :: "'regs \<Rightarrow> u64"

definition kprobe_tcp_connect ::
  "'regs pt_access \<Rightarrow> bpf_env \<Rightarrow> 'regs \<Rightarrow> socket_map \<Rightarrow> int \<times> socket_map" where
  "kprobe_tcp_connect R E ctx m = (let sk = PT_PARM1 R ctx in (0, snd (track_tcp_socket E sk m)))"

definition kprobe_udp_sendmsg ::
  "'regs pt_access \<Rightarrow> bpf_env \<Rightarrow> 'regs \<Rightarrow> socket_map \<Rightarrow> int \<times> socket_map" where
  "kprobe_udp_sendmsg R E ctx m =
     (let sk = PT_PARM1 R ctx; msg = PT_PARM2 R ctx in (0, snd (track_udp_v4 E sk msg m)))"

definition kprobe_udp_v6_sendmsg ::
  "'regs pt_access \<Rightarrow> bpf_env \<Rightarrow> 'regs \<Rightarrow> socket_map \<Rightarrow> int \<times> socket_map" where
  "kprobe_udp_v6_sendmsg R E ctx m =
     (let sk = PT_PARM1 R ctx; msg = PT_PARM2 R ctx in (0, snd (track_udp_v6 E sk msg m)))"

definition kprobe_tcp_accept ::
  "'regs pt_access \<Rightarrow> bpf_env \<Rightarrow> 'regs \<Rightarrow> socket_map \<Rightarrow> int \<times> socket_map" where
  "kprobe_tcp_accept R E ctx m =
     (let accepted = PT_RC R ctx in (0, snd (track_accepted_socket E accepted m)))"

definition kprobe_ping_v4_sendmsg ::
  "'regs pt_access \<Rightarrow> bpf_env \<Rightarrow> 'regs \<Rightarrow> socket_map \<Rightarrow> int \<times> socket_map" where
  "kprobe_ping_v4_sendmsg R E ctx m =
     (let sk = PT_PARM1 R ctx; msg = PT_PARM2 R ctx in (0, snd (track_ping_v4 E sk msg m)))"

definition kprobe_ping_v6_sendmsg ::
  "'regs pt_access \<Rightarrow> bpf_env \<Rightarrow> 'regs \<Rightarrow> socket_map \<Rightarrow> int \<times> socket_map" where
  "kprobe_ping_v6_sendmsg R E ctx m =
     (let sk = PT_PARM1 R ctx; msg = PT_PARM2 R ctx in (0, snd (track_ping_v6 E sk msg m)))"

datatype 'regs kprobe_hit =
    K_tcp_connect 'regs
  | K_udp_sendmsg 'regs
  | K_udp_v6_sendmsg 'regs
  | K_tcp_accept 'regs
  | K_ping_v4_sendmsg 'regs
  | K_ping_v6_sendmsg 'regs

fun kprobe_run ::
  "'regs pt_access \<Rightarrow> bpf_env \<Rightarrow> 'regs kprobe_hit \<Rightarrow> socket_map \<Rightarrow> int \<times> socket_map" where
  "kprobe_run R E (K_tcp_connect ctx) m = kprobe_tcp_connect R E ctx m"
| "kprobe_run R E (K_udp_sendmsg ctx) m = kprobe_udp_sendmsg R E ctx m"
| "kprobe_run R E (K_udp_v6_sendmsg ctx) m = kprobe_udp_v6_sendmsg R E ctx m"
| "kprobe_run R E (K_tcp_accept ctx) m = kprobe_tcp_accept R E ctx m"
| "kprobe_run R E (K_ping_v4_sendmsg ctx) m = kprobe_ping_v4_sendmsg R E ctx m"
| "kprobe_run R E (K_ping_v6_sendmsg ctx) m = kprobe_ping_v6_sendmsg R E ctx m"

section \<open>What a program can do to the map\<close>

text \<open>The keys the programs produce: padding zero, IPv4 keys with empty upper words.\<close>

definition tracked_key :: "conn_key \<Rightarrow> bool" where
  "tracked_key k \<longleftrightarrow> wf_key k \<and> padding k = [0, 0] \<and>
     (family k = word_of_nat AF_INET \<and> tl (saddr k) = [0, 0, 0] \<and> tl (daddr k) = [0, 0, 0] \<and>
        (proto k = word_of_nat IPPROTO_TCP \<or>
         proto k = word_of_nat IPPROTO_UDP \<and> hd (daddr k) \<noteq> 0 \<or>
         proto k = word_of_nat IPPROTO_ICMP \<and> hd (daddr k) \<noteq> 0 \<and> dport k = 0) \<or>
      family k = word_of_nat AF_INET6 \<and>
        (proto k = word_of_nat IPPROTO_TCP \<or> proto k = word_of_nat IPPROTO_UDP \<or>
         proto k = word_of_nat IPPROTO_ICMPV6 \<and> dport k = 0))"

text \<open>
  \<open>tracks E f\<close>: as a function of the map, \<open>f\<close> does nothing or is one store under such a key. Which
  of the two, and under which key, is settled by the environment alone.
\<close>

definition tracks :: "bpf_env \<Rightarrow> (socket_map \<Rightarrow> int \<times> socket_map) \<Rightarrow> bool" where
  "tracks E f \<longleftrightarrow> (\<forall>m. f m = (0, m)) \<or> (\<exists>k. tracked_key k \<and> (\<forall>m. f m = store_connection E k m))"

lemma tracks_none: "tracks E (\<lambda>m. (0, m))"
  by (simp add: tracks_def)

lemma tracks_store: "tracked_key k \<Longrightarrow> tracks E (\<lambda>m. store_connection E k m)"
  by (auto simp: tracks_def)

lemma tracks_if: "(c \<Longrightarrow> tracks E f) \<Longrightarrow> (\<not> c \<Longrightarrow> tracks E g) \<Longrightarrow> tracks E (\<lambda>m. if c then f m else g m)"
  by (cases c) simp_all

lemmas tracked_key_eval = tracked_key_def wf_key_def flow_key_defs tracker_consts

lemma track_tcp_v4_tracks: "tracks E (track_tcp_v4 E sk)"
  unfolding track_tcp_v4_def Let_def
  by (intro tracks_if tracks_none tracks_store) (simp add: tracked_key_eval split: if_splits)

lemma track_tcp_v6_tracks: "tracks E (track_tcp_v6 E sk)"
  unfolding track_tcp_v6_def Let_def
  by (intro tracks_if tracks_none tracks_store) (simp add: tracked_key_eval split: if_splits)

lemma track_udp_v4_tracks: "tracks E (track_udp_v4 E sk msg)"
  unfolding track_udp_v4_def Let_def
  by (intro tracks_if tracks_none tracks_store) (simp add: tracked_key_eval split: if_splits)

lemma track_udp_v6_tracks: "tracks E (track_udp_v6 E sk msg)"
  unfolding track_udp_v6_def Let_def
  by (intro tracks_if tracks_none tracks_store) (simp add: tracked_key_eval split: if_splits)

lemma track_ping_v4_tracks: "tracks E (track_ping_v4 E sk msg)"
  unfolding track_ping_v4_def Let_def
  by (intro tracks_if tracks_none tracks_store) (simp add: tracked_key_eval split: if_splits)

lemma track_ping_v6_tracks: "tracks E (track_ping_v6 E sk msg)"
  unfolding track_ping_v6_def Let_def
  by (intro tracks_if tracks_none tracks_store) (simp add: tracked_key_eval split: if_splits)

lemma track_tcp_socket_tracks: "tracks E (track_tcp_socket E sk)"
  unfolding track_tcp_socket_def Let_def
  by (intro tracks_if tracks_none track_tcp_v4_tracks track_tcp_v6_tracks)

lemma track_accepted_socket_tracks: "tracks E (track_accepted_socket E sk)"
  using track_tcp_socket_tracks [of E sk] by (simp add: track_accepted_socket_def tracks_def)

lemmas track_tracks = track_udp_v4_tracks track_udp_v6_tracks track_ping_v4_tracks
  track_ping_v6_tracks track_tcp_socket_tracks track_accepted_socket_tracks

text \<open>An entry of the map: a tracked key and a value of the right size, as images.\<close>

definition entry_ok :: "endian \<Rightarrow> byte list \<Rightarrow> byte list \<Rightarrow> bool" where
  "entry_ok e k v \<longleftrightarrow> length k = CONN_KEY_SIZE \<and> tracked_key (conn_key_of_bytes e k) \<and>
     length v = CONN_INFO_SIZE"

definition map_ok :: "endian \<Rightarrow> socket_map \<Rightarrow> bool" where
  "map_ok e m \<longleftrightarrow> (\<forall>k v. m k = Some v \<longrightarrow> entry_ok e k v)"

lemma map_ok_empty [simp]: "map_ok e Map.empty"
  by (simp add: map_ok_def)

lemma entry_ok_image:
  "tracked_key k \<Longrightarrow> wf_info i \<Longrightarrow> entry_ok e (conn_key_bytes e k) (conn_info_bytes e i)"
  using key.value_image [of k e] key.length_image [of k e] info.length_image [of i e]
  by (simp add: entry_ok_def tracked_key_def)

section \<open>Runs\<close>

fun run_hits ::
  "(bpf_env \<Rightarrow> 'h \<Rightarrow> socket_map \<Rightarrow> int \<times> socket_map) \<Rightarrow> (bpf_env \<times> 'h) list \<Rightarrow> socket_map \<Rightarrow> socket_map"
where
  "run_hits step [] m = m"
| "run_hits step ((E, h) # hs) m = run_hits step hs (snd (step E h m))"

lemma run_hits_append: "run_hits step (hs @ hs') m = run_hits step hs' (run_hits step hs m)"
  by (induction step hs m rule: run_hits.induct) simp_all

text \<open>Every environment of a run obeys the helpers' laws on a host of byte order \<open>e\<close>.\<close>

definition envs_ok :: "endian \<Rightarrow> (bpf_env \<times> 'h) list \<Rightarrow> bool" where
  "envs_ok e hs \<longleftrightarrow> (\<forall>(E, h) \<in> set hs. host E = e \<and> helper_laws E \<and> map_law E)"

text \<open>The value a hit in environment \<open>E\<close> stores.\<close>

definition current_value :: "bpf_env \<Rightarrow> byte list" where
  "current_value E = conn_info_bytes (host E) (get_process_info E zero_info)"

lemma store_connection_cases:
  assumes "map_law E"
  obtains (stored) "store_connection E k m = (0, m(conn_key_bytes (host E) k \<mapsto> current_value E))"
    | (failed) r where "r < 0" "store_connection E k m = (r, m)"
  using assms unfolding store_connection_def current_value_def Let_def
  by (rule map_lawE) (auto intro: that)

text \<open>
  A hit of a program, as a function of the map it leaves: it is silent, or it stores under a key.
\<close>

definition silent :: "(bpf_env \<Rightarrow> 'h \<Rightarrow> socket_map \<Rightarrow> int \<times> socket_map) \<Rightarrow> bpf_env \<Rightarrow> 'h \<Rightarrow> bool" where
  "silent step E h \<longleftrightarrow> (\<forall>m. snd (step E h m) = m)"

definition hit_stores ::
  "(bpf_env \<Rightarrow> 'h \<Rightarrow> socket_map \<Rightarrow> int \<times> socket_map) \<Rightarrow> bpf_env \<Rightarrow> 'h \<Rightarrow> conn_key \<Rightarrow> bool" where
  "hit_stores step E h k \<longleftrightarrow>
     tracked_key k \<and> (\<forall>m. snd (step E h m) = snd (store_connection E k m))"

lemma tracks_effect:
  assumes "tracks E f" "\<And>m. snd (step E h m) = snd (f m)"
  shows "silent step E h \<or> (\<exists>k. hit_stores step E h k)"
  using assms by (auto simp: tracks_def silent_def hit_stores_def)

text \<open>The value \<open>v\<close> was stored under \<open>kb\<close> by one of the hits.\<close>

definition stored_in ::
  "(bpf_env \<Rightarrow> 'h \<Rightarrow> socket_map \<Rightarrow> int \<times> socket_map) \<Rightarrow> (bpf_env \<times> 'h) list \<Rightarrow>
     byte list \<Rightarrow> byte list \<Rightarrow> bool" where
  "stored_in step hs kb v \<longleftrightarrow> (\<exists>(E, h) \<in> set hs. v = current_value E \<and>
     (\<exists>k. hit_stores step E h k \<and> kb = conn_key_bytes (host E) k))"

locale tracker_backend =
  fixes step :: "bpf_env \<Rightarrow> 'h \<Rightarrow> socket_map \<Rightarrow> int \<times> socket_map"
  assumes returns_zero: "fst (step E h m) = 0"
    and effect: "silent step E h \<or> (\<exists>k. hit_stores step E h k)"
begin

lemma step_cases:
  assumes "map_law E"
  obtains (same) "snd (step E h m) = m"
    | (stored) k where "hit_stores step E h k" "tracked_key k"
        "snd (step E h m) = m(conn_key_bytes (host E) k \<mapsto> current_value E)"
proof -
  consider "silent step E h" | k where "hit_stores step E h k" using effect by blast
  then show thesis
  proof cases
    case 1
    then show thesis by (intro same) (simp add: silent_def)
  next
    case (2 k)
    from assms show thesis
      by (cases rule: store_connection_cases [of E k m])
        (use 2 same stored in \<open>auto simp: hit_stores_def\<close>)
  qed
qed

lemma step_map_ok:
  assumes "helper_laws E" "map_law E" "map_ok (host E) m"
  shows "map_ok (host E) (snd (step E h m))"
  using assms(2)
proof (cases rule: step_cases [of E h m])
  case (stored k)
  have "entry_ok (host E) (conn_key_bytes (host E) k) (current_value E)"
    unfolding current_value_def using stored(2) assms(1)
    by (intro entry_ok_image wf_get_process_info) simp_all
  with stored(3) assms(3) show ?thesis by (simp add: map_ok_def)
qed (use assms in simp)

lemma run_map_ok:
  "envs_ok e hs \<Longrightarrow> map_ok e m \<Longrightarrow> map_ok e (run_hits step hs m)"
  by (induction hs arbitrary: m) (auto simp: envs_ok_def step_map_ok)

text \<open>No hit removes an entry.\<close>

lemma step_dom_mono: "map_law E \<Longrightarrow> dom m \<subseteq> dom (snd (step E h m))"
  by (cases rule: step_cases [of E h m]) auto

lemma run_dom_mono: "envs_ok e hs \<Longrightarrow> dom m \<subseteq> dom (run_hits step hs m)"
proof (induction hs arbitrary: m)
  case (Cons p hs)
  obtain E h where p: "p = (E, h)" by (cases p)
  with Cons.prems have "dom m \<subseteq> dom (snd (step E h m))"
    by (intro step_dom_mono) (simp add: envs_ok_def)
  also have "\<dots> \<subseteq> dom (run_hits step hs (snd (step E h m)))"
    using Cons by (intro Cons.IH) (simp add: envs_ok_def)
  finally show ?case by (simp add: p)
qed simp

text \<open>
  A value in the map was there before, or a task stored it under that very key when it hit a
  probe.
\<close>

lemma step_provenance:
  "map_law E \<Longrightarrow> snd (step E h m) kb = Some v \<Longrightarrow> m kb = Some v \<or>
     (\<exists>k. hit_stores step E h k \<and> kb = conn_key_bytes (host E) k \<and> v = current_value E)"
  by (cases rule: step_cases [of E h m]) (auto split: if_splits)

lemma run_provenance:
  "envs_ok e hs \<Longrightarrow> run_hits step hs m kb = Some v \<Longrightarrow> m kb = Some v \<or> stored_in step hs kb v"
proof (induction hs arbitrary: m)
  case (Cons p hs)
  obtain E h where p: "p = (E, h)" by (cases p)
  from Cons.prems p have "map_law E" "envs_ok e hs"
    and "run_hits step hs (snd (step E h m)) kb = Some v"
    by (simp_all add: envs_ok_def)
  with Cons.IH [of "snd (step E h m)"] step_provenance [of E h m kb v]
  show ?case by (auto simp: p stored_in_def)
qed simp

end

lemmas fentry_program_defs = fentry_tcp_connect_def fentry_tcp_v6_connect_def fentry_udp_sendmsg_def
  fentry_udp_v6_sendmsg_def fentry_tcp_accept_legacy_signature_def
  fentry_tcp_accept_proto_arg_def fentry_ping_v4_sendmsg_def fentry_ping_v6_sendmsg_def

lemmas kprobe_program_defs = kprobe_tcp_connect_def kprobe_udp_sendmsg_def
  kprobe_udp_v6_sendmsg_def kprobe_tcp_accept_def kprobe_ping_v4_sendmsg_def
  kprobe_ping_v6_sendmsg_def

lemma tracks_connect: "tracks E (\<lambda>m. if r = 0 then track_tcp_socket E sk m else (0, m))"
  by (intro tracks_if tracks_none track_tcp_socket_tracks)

interpretation fentry: tracker_backend fentry_run
proof
  fix E h m
  show "fst (fentry_run E h m) = 0"
    by (cases h) (simp_all add: fentry_program_defs)
  show "silent fentry_run E h \<or> (\<exists>k. hit_stores fentry_run E h k)"
  proof (cases h)
    case (F_tcp_connect sk r)
    then show ?thesis
      by (intro tracks_effect [OF tracks_connect [of E r sk]]) (simp add: fentry_program_defs)
  next
    case (F_tcp_v6_connect sk a n r)
    then show ?thesis
      by (intro tracks_effect [OF tracks_connect [of E r sk]]) (simp add: fentry_program_defs)
  qed (simp add: fentry_program_defs tracks_effect [OF track_tracks(1)] tracks_effect [OF track_tracks(2)]
      tracks_effect [OF track_tracks(3)] tracks_effect [OF track_tracks(4)] tracks_effect [OF track_tracks(6)])+
qed

interpretation kprobe: tracker_backend "kprobe_run R"
  for R :: "'regs pt_access"
proof
  fix E h m
  show "fst (kprobe_run R E h m) = 0"
    by (cases h) (simp_all add: kprobe_program_defs Let_def)
  show "silent (kprobe_run R) E h \<or> (\<exists>k. hit_stores (kprobe_run R) E h k)"
    by (cases h) (rule tracks_effect, rule track_tracks, simp add: kprobe_program_defs Let_def)+
qed

end
