(* ===== verification/Socket_Tracker.thy ===== *)
theory Socket_Tracker
  imports Map_Abi Attribution Tracker_Programs
begin

text \<open>
  \<^verbatim>\<open>tracker_libbpf.rs\<close>: lookups by address pair, gated by the capabilities of the loaded backend,
  first for the exact tuple and then with the source address zeroed, and the periodic sweep.
  The second half connects them with the programs: what a probe has stored is what a lookup of
  the connection on the wire returns, and nothing else is ever returned.
\<close>

section \<open>The tracker\<close>

record socket_match =
  sm_info :: ProcessInfo
  sm_quality :: match_quality

record socket_tracker =
  st_host :: endian
  st_caps :: capabilities
  st_api :: map_api

definition read_map :: "socket_tracker \<Rightarrow> socket_map \<Rightarrow> ConnKey \<Rightarrow> map_error + ProcessInfo option" where
  "read_map T m key = lookup_connection (st_host T) (st_api T) m key"

text \<open>
  Every lookup tries its exact key and, unless that is a hit, the key with the zero source; an
  error is treated like a miss in both places.
\<close>

definition exact_or_zero_source ::
  "map_error + ProcessInfo option \<Rightarrow> map_error + ProcessInfo option \<Rightarrow> socket_match option" where
  "exact_or_zero_source exact zero = (case exact of
     Inr (Some result) \<Rightarrow> Some \<lparr>sm_info = result, sm_quality = ExactTuple\<rparr>
   | _ \<Rightarrow> (case zero of
       Inr (Some result) \<Rightarrow> Some \<lparr>sm_info = result, sm_quality = WildcardLocalAddress\<rparr>
     | Inr None \<Rightarrow> None
     | Inl _ \<Rightarrow> None))"

definition lookup_v4 ::
  "socket_tracker \<Rightarrow> socket_map \<Rightarrow> ipv4 \<Rightarrow> ipv4 \<Rightarrow> u16 \<Rightarrow> u16 \<Rightarrow> bool \<Rightarrow> socket_match option" where
  "lookup_v4 T m src dst sp dp is_tcp =
     (let required = if is_tcp then TCP_V4_CONNECT else UDP_V4_SEND
      in if \<not> contains (st_caps T) required then None
         else exact_or_zero_source
                (read_map T m (new_v4 (st_host T) src dst sp dp is_tcp))
                (read_map T m (new_v4 (st_host T) 0 dst sp dp is_tcp)))"

definition lookup_v6 ::
  "socket_tracker \<Rightarrow> socket_map \<Rightarrow> ipv6 \<Rightarrow> ipv6 \<Rightarrow> u16 \<Rightarrow> u16 \<Rightarrow> bool \<Rightarrow> socket_match option" where
  "lookup_v6 T m src dst sp dp is_tcp =
     (let required = if is_tcp then TCP_V6_CONNECT else UDP_V6_SEND
      in if \<not> contains (st_caps T) required then None
         else exact_or_zero_source
                (read_map T m (new_v6 (st_host T) src dst sp dp is_tcp))
                (read_map T m (new_v6 (st_host T) 0 dst sp dp is_tcp)))"

fun lookup ::
  "socket_tracker \<Rightarrow> socket_map \<Rightarrow> ip_addr \<Rightarrow> ip_addr \<Rightarrow> u16 \<Rightarrow> u16 \<Rightarrow> bool \<Rightarrow> socket_match option" where
  "lookup T m (V4 src) (V4 dst) sp dp is_tcp = lookup_v4 T m src dst sp dp is_tcp"
| "lookup T m (V6 src) (V6 dst) sp dp is_tcp = lookup_v6 T m src dst sp dp is_tcp"
| "lookup T m (V4 _) (V6 _) sp dp is_tcp = None"
| "lookup T m (V6 _) (V4 _) sp dp is_tcp = None"

definition lookup_icmp_v4 :: "socket_tracker \<Rightarrow> socket_map \<Rightarrow> ipv4 \<Rightarrow> ipv4 \<Rightarrow> u16 \<Rightarrow> socket_match option" where
  "lookup_icmp_v4 T m src dst icmp_id =
     exact_or_zero_source (read_map T m (new_icmp_v4 (st_host T) src dst icmp_id))
       (read_map T m (new_icmp_v4 (st_host T) 0 dst icmp_id))"

definition lookup_icmp_v6 :: "socket_tracker \<Rightarrow> socket_map \<Rightarrow> ipv6 \<Rightarrow> ipv6 \<Rightarrow> u16 \<Rightarrow> socket_match option" where
  "lookup_icmp_v6 T m src dst icmp_id =
     exact_or_zero_source (read_map T m (new_icmp_v6 (st_host T) src dst icmp_id))
       (read_map T m (new_icmp_v6 (st_host T) 0 dst icmp_id))"

fun lookup_icmp ::
  "socket_tracker \<Rightarrow> socket_map \<Rightarrow> ip_addr \<Rightarrow> ip_addr \<Rightarrow> u16 \<Rightarrow> socket_match option" where
  "lookup_icmp T m (V4 src) (V4 dst) icmp_id =
     (if contains (st_caps T) ICMP_V4_SEND then lookup_icmp_v4 T m src dst icmp_id else None)"
| "lookup_icmp T m (V6 src) (V6 dst) icmp_id =
     (if contains (st_caps T) ICMP_V6_SEND then lookup_icmp_v6 T m src dst icmp_id else None)"
| "lookup_icmp T m (V4 _) (V6 _) icmp_id = None"
| "lookup_icmp T m (V6 _) (V4 _) icmp_id = None"

text \<open>The sweep, with its threshold in seconds; a failing clock sweeps nothing.\<close>

definition tracker_cleanup ::
  "socket_tracker \<Rightarrow> clock \<Rightarrow> (socket_map \<Rightarrow> socket_map) \<Rightarrow> u64 \<Rightarrow> socket_map \<Rightarrow> u32 \<times> socket_map" where
  "tracker_cleanup T c between stale_threshold_secs m =
     (let stale_threshold_ns = stale_threshold_secs * 1000000000
      in case cleanup_stale_entries (st_host T) (st_api T) c between stale_threshold_ns m of
           Inr result \<Rightarrow> result
         | Inl _ \<Rightarrow> (0, between m))"

section \<open>Gating\<close>

text \<open>The operation a lookup relies on, and no answer when the backend does not cover it.\<close>

definition lookup_needs :: "ip_addr \<Rightarrow> bool \<Rightarrow> capabilities" where
  "lookup_needs src is_tcp = (case src of
     V4 _ \<Rightarrow> if is_tcp then TCP_V4_CONNECT else UDP_V4_SEND
   | V6 _ \<Rightarrow> if is_tcp then TCP_V6_CONNECT else UDP_V6_SEND)"

lemma lookup_gated: "lookup T m src dst sp dp is_tcp = Some r \<Longrightarrow> contains (st_caps T) (lookup_needs src is_tcp)"
  by (cases "(T, m, src, dst, sp, dp, is_tcp)" rule: lookup.cases)
    (auto simp: lookup_needs_def lookup_v4_def lookup_v6_def Let_def split: if_splits)

section \<open>Quality\<close>

lemma exact_or_zero_source_cases:
  assumes "exact_or_zero_source x z = Some r"
  obtains (exact) "x = Inr (Some (sm_info r))" "sm_quality r = ExactTuple"
    | (zero) "z = Inr (Some (sm_info r))" "sm_quality r = WildcardLocalAddress"
        "\<And>p. x \<noteq> Inr (Some p)"
  using assms by (auto simp: exact_or_zero_source_def split: sum.splits option.splits)

text \<open>
  The flow a lookup asks about, as the key the programs store it under, and the source address
  its answer was found with.
\<close>

fun flow_key :: "endian \<Rightarrow> ip_addr \<Rightarrow> ip_addr \<Rightarrow> u16 \<Rightarrow> u16 \<Rightarrow> bool \<Rightarrow> conn_key option" where
  "flow_key e (V4 src) (V4 dst) sp dp is_tcp = Some (key_v4 e src dst sp dp (transport is_tcp))"
| "flow_key e (V6 src) (V6 dst) sp dp is_tcp = Some (key_v6 e src dst sp dp (transport is_tcp))"
| "flow_key e (V4 _) (V6 _) sp dp is_tcp = None"
| "flow_key e (V6 _) (V4 _) sp dp is_tcp = None"

fun ping_key :: "endian \<Rightarrow> ip_addr \<Rightarrow> ip_addr \<Rightarrow> u16 \<Rightarrow> conn_key option" where
  "ping_key e (V4 src) (V4 dst) icmp_id = Some (key_v4 e src dst icmp_id 0 IPPROTO_ICMP)"
| "ping_key e (V6 src) (V6 dst) icmp_id = Some (key_v6 e src dst icmp_id 0 IPPROTO_ICMPV6)"
| "ping_key e (V4 _) (V6 _) icmp_id = None"
| "ping_key e (V6 _) (V4 _) icmp_id = None"

fun matched_source :: "match_quality \<Rightarrow> ip_addr \<Rightarrow> ip_addr" where
  "matched_source ExactTuple src = src"
| "matched_source _ (V4 _) = V4 0"
| "matched_source _ (V6 _) = V6 0"

lemma flow_key_wf: "flow_key e src dst sp dp is_tcp = Some k \<Longrightarrow> wf_key k"
  by (cases "(e, src, dst, sp, dp, is_tcp)" rule: flow_key.cases) auto

lemma ping_key_wf: "ping_key e src dst icmp_id = Some k \<Longrightarrow> wf_key k"
  by (cases "(e, src, dst, icmp_id)" rule: ping_key.cases) auto

text \<open>A hit was read from the map, under the key of its flow with the source it matched.\<close>

lemma lookup_cases:
  assumes "lookup T m src dst sp dp is_tcp = Some r"
  obtains k key where "flow_key (st_host T) (matched_source (sm_quality r) src) dst sp dp is_tcp = Some k"
    "as_bytes (st_host T) key = conn_key_bytes (st_host T) k"
    "read_map T m key = Inr (Some (sm_info r))"
  using assms
  by (cases "(T, m, src, dst, sp, dp, is_tcp)" rule: lookup.cases)
    (auto simp: lookup_v4_def lookup_v6_def Let_def split: if_splits elim!: exact_or_zero_source_cases
      intro: that new_keys_bytes)

lemma lookup_icmp_cases:
  assumes "lookup_icmp T m src dst icmp_id = Some r"
  obtains k key where "ping_key (st_host T) (matched_source (sm_quality r) src) dst icmp_id = Some k"
    "as_bytes (st_host T) key = conn_key_bytes (st_host T) k"
    "read_map T m key = Inr (Some (sm_info r))"
  using assms
  by (cases "(T, m, src, dst, icmp_id)" rule: lookup_icmp.cases)
    (auto simp: lookup_icmp_v4_def lookup_icmp_v6_def split: if_splits elim!: exact_or_zero_source_cases
      intro: that new_keys_bytes)

section \<open>From probe to lookup\<close>

text \<open>The process a probe hit in environment \<open>E\<close> records, as user space presents it.\<close>

definition current_process :: "bpf_env \<Rightarrow> ProcessInfo" where
  "current_process E = process_info (info_mirror (get_process_info E zero_info))"

lemma current_process_ids:
  assumes "get_current_pid_tgid E = pair64 g t" "get_current_uid_gid E = pair64 gd ud"
  shows "pi_pid (current_process E) = g" "pi_tid (current_process E) = t"
    and "pi_uid (current_process E) = ud" "pi_gid (current_process E) = gd"
    and "pi_timestamp (current_process E) = ktime_get_ns E"
  using assms by (simp_all add: current_process_def process_info_def info_mirror_def get_process_info_ids)

lemma from_bytes_current:
  "helper_laws E \<Longrightarrow> from_bytes (host E) (current_value E) = Inr (info_mirror (get_process_info E zero_info))"
  by (simp add: current_value_def from_bytes_image wf_get_process_info)

lemma store_ok:
  assumes "map_law E" "store_connection E k m = (0, m')"
  shows "m' = m(conn_key_bytes (host E) k \<mapsto> current_value E)"
  using assms(1)
  by (cases rule: store_connection_cases [of E k m]) (use assms(2) in auto)

text \<open>
  A tracker \<open>T\<close> reads the map of a host with byte order \<open>e\<close> through calls that do not fail.
\<close>

definition reads_host :: "socket_tracker \<Rightarrow> endian \<Rightarrow> bool" where
  "reads_host T e \<longleftrightarrow> st_host T = e \<and> (\<forall>m k. ma_lookup (st_api T) m k = Inr (m k))"

lemma read_map_current:
  assumes "helper_laws E" "reads_host T (host E)" "m (as_bytes (host E) key) = Some (current_value E)"
  shows "read_map T m key = Inr (Some (current_process E))"
  using assms by (simp add: read_map_def lookup_connection_def reads_host_def from_bytes_current
      current_process_def)

lemma read_map_absent:
  assumes "reads_host T e" "m (as_bytes e key) = None"
  shows "read_map T m key = Inr None"
  using assms by (simp add: read_map_def lookup_connection_def reads_host_def)

text \<open>Storing under the exact tuple, or under the wildcard source with no exact entry.\<close>

lemma lookup_v4_stored:
  assumes "helper_laws E" "reads_host T (host E)"
    and "contains (st_caps T) (lookup_needs (V4 src) is_tcp)"
    and "m (conn_key_bytes (host E) (key_v4 (host E) s dst sp dp (transport is_tcp))) = Some (current_value E)"
    and "s = src \<or> s = 0 \<and> m (conn_key_bytes (host E) (key_v4 (host E) src dst sp dp (transport is_tcp))) = None"
  shows "lookup T m (V4 src) (V4 dst) sp dp is_tcp =
     Some \<lparr>sm_info = current_process E,
           sm_quality = (if s = src then ExactTuple else WildcardLocalAddress)\<rparr>"
proof -
  have host: "st_host T = host E" using assms(2) by (simp add: reads_host_def)
  have hit: "read_map T m (new_v4 (host E) s dst sp dp is_tcp) = Inr (Some (current_process E))"
    using assms(1,2,4) by (intro read_map_current) simp_all
  show ?thesis
  proof (cases "s = src")
    case True
    with hit assms(3) show ?thesis
      by (simp add: lookup_v4_def lookup_needs_def host exact_or_zero_source_def)
  next
    case False
    with assms(5) have "s = 0" and none:
      "m (conn_key_bytes (host E) (key_v4 (host E) src dst sp dp (transport is_tcp))) = None" by auto
    have "read_map T m (new_v4 (host E) src dst sp dp is_tcp) = Inr None"
      by (rule read_map_absent [OF assms(2)]) (simp add: none)
    with hit False \<open>s = 0\<close> assms(3) show ?thesis
      by (simp add: lookup_v4_def lookup_needs_def host exact_or_zero_source_def)
  qed
qed

lemma lookup_v6_stored:
  assumes "helper_laws E" "reads_host T (host E)"
    and "contains (st_caps T) (lookup_needs (V6 src) is_tcp)"
    and "m (conn_key_bytes (host E) (key_v6 (host E) s dst sp dp (transport is_tcp))) = Some (current_value E)"
    and "s = src \<or> s = 0 \<and> m (conn_key_bytes (host E) (key_v6 (host E) src dst sp dp (transport is_tcp))) = None"
  shows "lookup T m (V6 src) (V6 dst) sp dp is_tcp =
     Some \<lparr>sm_info = current_process E,
           sm_quality = (if s = src then ExactTuple else WildcardLocalAddress)\<rparr>"
proof -
  have host: "st_host T = host E" using assms(2) by (simp add: reads_host_def)
  have hit: "read_map T m (new_v6 (host E) s dst sp dp is_tcp) = Inr (Some (current_process E))"
    using assms(1,2,4) by (intro read_map_current) simp_all
  show ?thesis
  proof (cases "s = src")
    case True
    with hit assms(3) show ?thesis
      by (simp add: lookup_v6_def lookup_needs_def host exact_or_zero_source_def)
  next
    case False
    with assms(5) have "s = 0" and none:
      "m (conn_key_bytes (host E) (key_v6 (host E) src dst sp dp (transport is_tcp))) = None" by auto
    have "read_map T m (new_v6 (host E) src dst sp dp is_tcp) = Inr None"
      by (rule read_map_absent [OF assms(2)]) (simp add: none)
    with hit False \<open>s = 0\<close> assms(3) show ?thesis
      by (simp add: lookup_v6_def lookup_needs_def host exact_or_zero_source_def)
  qed
qed

text \<open>The ICMP lookups, where the identifier stands for the source port.\<close>

lemma lookup_icmp_v4_stored:
  assumes "helper_laws E" "reads_host T (host E)" "contains (st_caps T) ICMP_V4_SEND"
    and "m (conn_key_bytes (host E) (key_v4 (host E) s dst icmp_id 0 IPPROTO_ICMP)) = Some (current_value E)"
    and "s = src \<or> s = 0 \<and> m (conn_key_bytes (host E) (key_v4 (host E) src dst icmp_id 0 IPPROTO_ICMP)) = None"
  shows "lookup_icmp T m (V4 src) (V4 dst) icmp_id =
     Some \<lparr>sm_info = current_process E,
           sm_quality = (if s = src then ExactTuple else WildcardLocalAddress)\<rparr>"
proof -
  have host: "st_host T = host E" using assms(2) by (simp add: reads_host_def)
  have hit: "read_map T m (new_icmp_v4 (host E) s dst icmp_id) = Inr (Some (current_process E))"
    using assms(1,2,4) by (intro read_map_current) simp_all
  show ?thesis
  proof (cases "s = src")
    case True
    with hit assms(3) show ?thesis
      by (simp add: lookup_icmp_v4_def host exact_or_zero_source_def)
  next
    case False
    with assms(5) have "s = 0" and none:
      "m (conn_key_bytes (host E) (key_v4 (host E) src dst icmp_id 0 IPPROTO_ICMP)) = None" by auto
    have "read_map T m (new_icmp_v4 (host E) src dst icmp_id) = Inr None"
      by (rule read_map_absent [OF assms(2)]) (simp add: none)
    with hit False \<open>s = 0\<close> assms(3) show ?thesis
      by (simp add: lookup_icmp_v4_def host exact_or_zero_source_def)
  qed
qed

section \<open>Soundness of what is read\<close>

text \<open>
  The process \<open>p\<close> is the one that was running in one of the hits, and that hit stores under the
  key \<open>k\<close>.
\<close>

definition recorded_by ::
  "(bpf_env \<Rightarrow> 'h \<Rightarrow> socket_map \<Rightarrow> int \<times> socket_map) \<Rightarrow> (bpf_env \<times> 'h) list \<Rightarrow>
     conn_key \<Rightarrow> ProcessInfo \<Rightarrow> bool" where
  "recorded_by step hs k p \<longleftrightarrow> (\<exists>(E, h) \<in> set hs. p = current_process E \<and> hit_stores step E h k)"

lemma read_map_recorded:
  assumes "map_handle (st_api T)" "envs_ok (st_host T) hs"
    and "\<And>kb v. m kb = Some v \<Longrightarrow> stored_in step hs kb v"
    and "wf_key k" "as_bytes (st_host T) key = conn_key_bytes (st_host T) k"
    and "read_map T m key = Inr (Some p)"
  shows "recorded_by step hs k p"
proof -
  let ?e = "st_host T"
  from map_handle.lookup_sound [OF assms(1), of ?e m key p] assms(6)
  obtain v i where v: "m (as_bytes ?e key) = Some v" "from_bytes ?e v = Inr i" "p = process_info i"
    by (auto simp: read_map_def)
  from assms(3) [OF v(1)] obtain E h k'
    where h: "(E, h) \<in> set hs" "v = current_value E" "hit_stores step E h k'"
      "as_bytes ?e key = conn_key_bytes (host E) k'"
    by (auto simp: stored_in_def)
  from h(1) assms(2) have E: "host E = ?e" "helper_laws E" by (auto simp: envs_ok_def)
  have "wf_key k'" using h(3) by (simp add: hit_stores_def tracked_key_def)
  with h(4) E(1) assms(4,5) have "k' = k" by (simp add: key.image_inject)
  moreover have "p = current_process E"
    using h(2) v E from_bytes_current [of E] by (simp add: current_process_def)
  ultimately show ?thesis using h(1,3) by (auto simp: recorded_by_def)
qed

lemma lookup_recorded:
  assumes "map_handle (st_api T)" "envs_ok (st_host T) hs"
    and "\<And>kb v. m kb = Some v \<Longrightarrow> stored_in step hs kb v"
    and "lookup T m src dst sp dp is_tcp = Some r"
  shows "\<exists>k. flow_key (st_host T) (matched_source (sm_quality r) src) dst sp dp is_tcp = Some k \<and>
    recorded_by step hs k (sm_info r)"
  using assms(4)
proof (cases rule: lookup_cases)
  case (1 k key)
  with read_map_recorded [OF assms(1-3) flow_key_wf] show ?thesis by blast
qed

lemma lookup_icmp_recorded:
  assumes "map_handle (st_api T)" "envs_ok (st_host T) hs"
    and "\<And>kb v. m kb = Some v \<Longrightarrow> stored_in step hs kb v"
    and "lookup_icmp T m src dst icmp_id = Some r"
  shows "\<exists>k. ping_key (st_host T) (matched_source (sm_quality r) src) dst icmp_id = Some k \<and>
    recorded_by step hs k (sm_info r)"
  using assms(4)
proof (cases rule: lookup_icmp_cases)
  case (1 k key)
  with read_map_recorded [OF assms(1-3) ping_key_wf] show ?thesis by blast
qed

section \<open>The sweep keeps what is recent\<close>

lemma current_value_stale:
  assumes "helper_laws E"
  shows "stale_value (host E) now threshold (current_value E) \<longleftrightarrow>
     saturating_sub now (ktime_get_ns E) > threshold"
proof -
  have "wf_info (get_process_info E zero_info)"
    using assms by (simp add: wf_get_process_info)
  moreover have "timestamp (get_process_info E zero_info) = ktime_get_ns E"
    by (simp add: get_process_info_def Let_def case_prod_beta)
  ultimately show ?thesis
    by (simp add: stale_value_def current_value_def info.length_image info.value_image)
qed

text \<open>The threshold in nanoseconds does not wrap for any number of seconds below \<open>2 ^ 34\<close>.\<close>

lemma threshold_exact:
  fixes secs :: u64
  assumes "unat secs < 2 ^ 34"
  shows "unat (secs * 1000000000) = unat secs * 1000000000"
proof -
  have "unat secs * 1000000000 < 2 ^ 64" using assms by simp
  then show ?thesis by (simp add: unat_word_ariths)
qed

lemma saturating_sub_nat: "unat (saturating_sub a b) = unat a - unat b"
  by (simp add: saturating_sub_def unat_sub word_le_nat_alt)

lemma tracker_cleanup_removes_stale:
  assumes "map_handle (st_api T)" "monotonic_time_ns c = Inr now"
    and "tracker_cleanup T c between secs m = (n, m')" "m' k \<noteq> between m k"
  shows "m' k = None \<and> (\<exists>v. m k = Some v \<and> stale_value (st_host T) now (secs * 1000000000) v)"
proof -
  from assms(2,3) have "cleanup_stale_entries (st_host T) (st_api T) c between (secs * 1000000000) m
      = Inr (n, m')"
    by (simp add: tracker_cleanup_def Let_def cleanup_stale_entries_def)
  from map_handle.cleanup_removes_stale [OF assms(1) this assms(2,4)] show ?thesis .
qed

end
