(* ===== verification/Loader.thy ===== *)
theory Loader
  imports Socket_Tracker "HOL-Library.Sublist"
begin

text \<open>
  \<^verbatim>\<open>loader.rs\<close>: which backend is loaded and what it covers. The running kernel's BTF, the
  outcomes of opening, loading and attaching programs, and the files under \<open>/proc\<close> are
  parameters; the decisions taken on them are the code's.

  Text read from \<open>/proc\<close> is a list of ASCII characters.
\<close>

section \<open>Reasons for degradation\<close>

datatype degradation_reason =
    NoDegradation
  | MissingCapBpf
  | MissingCapPerfmon
  | MissingBpfCapabilities
  | EbpfFeatureDisabled
  | KernelUnsupported
  | BpfPermissionDenied
  | KprobeAttachFailed utf8_string
  | BtfUnavailable
  | EbpfLoadFailed utf8_string
  | BinaryOnNosuidMount

definition unavailable_feature :: "degradation_reason \<Rightarrow> string option" where
  "unavailable_feature r = (case r of NoDegradation \<Rightarrow> None | _ \<Rightarrow> Some ''eBPF'')"

section \<open>Text\<close>

definition white :: "char \<Rightarrow> bool" where
  "white c \<longleftrightarrow> c \<in> {CHR '' '', CHR 0x09, CHR 0x0A, CHR 0x0B, CHR 0x0C, CHR 0x0D}"

text \<open>\<open>split\<close> on a character: a text without it is one piece, so the result is never empty.\<close>

fun split_on :: "char \<Rightarrow> string \<Rightarrow> string list" where
  "split_on c [] = [[]]"
| "split_on c (x # xs) =
     (if x = c then [] # split_on c xs
      else (case split_on c xs of [] \<Rightarrow> [[x]] | w # ws \<Rightarrow> (x # w) # ws))"

fun split_white_acc :: "string \<Rightarrow> string \<Rightarrow> string list" where
  "split_white_acc [] w = (if w = [] then [] else [w])"
| "split_white_acc (x # xs) w =
     (if white x then (if w = [] then split_white_acc xs [] else w # split_white_acc xs [])
      else split_white_acc xs (w @ [x]))"

definition split_whitespace :: "string \<Rightarrow> string list" where
  "split_whitespace s = split_white_acc s []"

text \<open>\<open>lines\<close>: terminators are newlines, a carriage return before one is dropped, and a final
  newline does not start another line.\<close>

definition strip_cr :: "string \<Rightarrow> string" where
  "strip_cr s = (if s \<noteq> [] \<and> last s = CHR 0x0D then butlast s else s)"

definition lines_of :: "string \<Rightarrow> string list" where
  "lines_of s = (let ps = split_on CHR 0x0A s
     in map strip_cr (butlast ps) @ (if last ps = [] then [] else [last ps]))"

fun starts_with :: "string \<Rightarrow> string \<Rightarrow> bool" where
  "starts_with [] s = True"
| "starts_with (p # ps) [] = False"
| "starts_with (p # ps) (x # xs) \<longleftrightarrow> p = x \<and> starts_with ps xs"

definition nth_opt :: "nat \<Rightarrow> 'a list \<Rightarrow> 'a option" where
  "nth_opt n xs = (if n < length xs then Some (xs ! n) else None)"

definition hex_digit :: "char \<Rightarrow> nat option" where
  "hex_digit c = (let v = of_char c :: nat in
     if 48 \<le> v \<and> v \<le> 57 then Some (v - 48)
     else if 97 \<le> v \<and> v \<le> 102 then Some (v - 87)
     else if 65 \<le> v \<and> v \<le> 70 then Some (v - 55) else None)"

text \<open>\<open>u64::from_str_radix(_, 16)\<close>: one optional plus, at least one digit, no overflow.\<close>

fun hex_value :: "string \<Rightarrow> nat \<Rightarrow> nat option" where
  "hex_value [] acc = Some acc"
| "hex_value (c # cs) acc = (case hex_digit c of
     None \<Rightarrow> None
   | Some d \<Rightarrow> if acc * 16 + d < 2 ^ 64 then hex_value cs (acc * 16 + d) else None)"

definition u64_from_hex :: "string \<Rightarrow> u64 option" where
  "u64_from_hex s = (case s of
     [] \<Rightarrow> None
   | c # cs \<Rightarrow>
       let digits = (if c = CHR ''+'' then cs else s)
       in if digits = [] then None else map_option word_of_nat (hex_value digits 0))"

section \<open>Capabilities of the process\<close>

definition CAP_SYS_ADMIN :: nat where "CAP_SYS_ADMIN = 21"
definition CAP_PERFMON :: nat where "CAP_PERFMON = 38"
definition CAP_BPF :: nat where "CAP_BPF = 39"

definition has_cap :: "u64 \<Rightarrow> nat \<Rightarrow> bool" where
  "has_cap cap_value n \<longleftrightarrow> and cap_value (push_bit n 1) \<noteq> 0"

text \<open>The effective set in \<open>/proc/self/status\<close>, if the file can be read and has one.\<close>

definition cap_eff :: "string option \<Rightarrow> u64 option" where
  "cap_eff status = Option.bind status (\<lambda>text.
     Option.bind (find (starts_with ''CapEff:'') (lines_of text)) (\<lambda>cap_line.
     Option.bind (nth_opt 1 (split_whitespace cap_line)) u64_from_hex))"

definition check_capabilities_detailed :: "u32 \<Rightarrow> string option \<Rightarrow> degradation_reason" where
  "check_capabilities_detailed euid status =
     (if euid = 0 then NoDegradation
      else case cap_eff status of
        Some cap_value \<Rightarrow>
          let has_bpf = has_cap cap_value CAP_BPF;
              has_perfmon = has_cap cap_value CAP_PERFMON;
              has_sys_admin = has_cap cap_value CAP_SYS_ADMIN
          in if has_bpf \<and> has_perfmon \<or> has_sys_admin then NoDegradation
             else if \<not> has_bpf \<and> \<not> has_perfmon then MissingBpfCapabilities
             else if \<not> has_bpf then MissingCapBpf
             else MissingCapPerfmon
      | None \<Rightarrow> MissingBpfCapabilities)"

lemma has_cap_bit: "has_cap v n \<longleftrightarrow> bit v n"
  by (simp add: has_cap_def bit_iff_and_push_bit_not_eq_0)

text \<open>Which processes may use eBPF, and what the others are told they lack.\<close>

lemma check_capabilities_iff:
  "check_capabilities_detailed euid status = NoDegradation \<longleftrightarrow>
     euid = 0 \<or> (\<exists>v. cap_eff status = Some v \<and> (bit v CAP_SYS_ADMIN \<or> bit v CAP_BPF \<and> bit v CAP_PERFMON))"
  by (auto simp: check_capabilities_detailed_def has_cap_bit CAP_SYS_ADMIN_def CAP_PERFMON_def
      CAP_BPF_def Let_def split: option.splits)

lemma check_capabilities_missing:
  assumes "euid \<noteq> 0" "cap_eff status = Some v" "\<not> bit v CAP_SYS_ADMIN"
  shows "check_capabilities_detailed euid status = MissingCapBpf \<longleftrightarrow>
           \<not> bit v CAP_BPF \<and> bit v CAP_PERFMON"
    and "check_capabilities_detailed euid status = MissingCapPerfmon \<longleftrightarrow>
           bit v CAP_BPF \<and> \<not> bit v CAP_PERFMON"
    and "check_capabilities_detailed euid status = MissingBpfCapabilities \<longleftrightarrow>
           \<not> bit v CAP_BPF \<and> \<not> bit v CAP_PERFMON"
  using assms
  by (auto simp: check_capabilities_detailed_def has_cap_bit CAP_SYS_ADMIN_def CAP_PERFMON_def
      CAP_BPF_def Let_def)

section \<open>Executables on a nosuid mount\<close>

datatype path_component = RootDir | CurDir | ParentDir | Normal string

text \<open>
  \<open>Path::components\<close>: repeated separators and dots inside a path vanish, a dot survives only at
  the start of a relative path.
\<close>

fun component_of :: "string \<Rightarrow> path_component" where
  "component_of s = (if s = ''..'' then ParentDir else Normal s)"

definition components :: "string \<Rightarrow> path_component list" where
  "components s =
     (let parts = split_on CHR ''/'' s;
          body = map component_of (filter (\<lambda>p. p \<noteq> [] \<and> p \<noteq> ''.'') parts)
      in if starts_with ''/'' s then RootDir # body
         else if hd parts = ''.'' then CurDir # body else body)"

fun is_ancestor_of_or_equal :: "path_component list \<Rightarrow> path_component list \<Rightarrow> bool" where
  "is_ancestor_of_or_equal (l # ls) (r # rs) = (if l = r then is_ancestor_of_or_equal ls rs else False)"
| "is_ancestor_of_or_equal [] _ = True"
| "is_ancestor_of_or_equal (l # ls) [] = False"

lemma is_ancestor_prefix: "is_ancestor_of_or_equal p q \<longleftrightarrow> prefix p q"
  by (induction p q rule: is_ancestor_of_or_equal.induct) auto

text \<open>A line of \<open>/proc/self/mountinfo\<close>: mount point and mount options are fields 5 and 6.\<close>

definition mount_fields :: "string \<Rightarrow> (string \<times> string) option" where
  "mount_fields line = (let fields = split_whitespace line in
     Option.bind (nth_opt 4 fields) (\<lambda>mountpoint.
     Option.bind (nth_opt 5 fields) (\<lambda>options. Some (mountpoint, options))))"

definition mount_step :: "string \<Rightarrow> string \<Rightarrow> (nat \<times> string) option \<Rightarrow> (nat \<times> string) option" where
  "mount_step exe line best = (case mount_fields line of
     None \<Rightarrow> best
   | Some (mountpoint, options) \<Rightarrow>
       if is_ancestor_of_or_equal (components mountpoint) (components exe)
       then (let len = length mountpoint
             in case best of
                  None \<Rightarrow> Some (len, options)
                | Some (current, _) \<Rightarrow> if len > current then Some (len, options) else best)
       else best)"

definition executable_on_nosuid_mount :: "string option \<Rightarrow> string option \<Rightarrow> bool" where
  "executable_on_nosuid_mount exe mountinfo = (case (exe, mountinfo) of
     (Some exe, Some mountinfo) \<Rightarrow>
       (case fold (mount_step exe) (lines_of mountinfo) None of
          None \<Rightarrow> False
        | Some (_, options) \<Rightarrow> list_ex (\<lambda>opt. opt = ''nosuid'') (split_on CHR '','' options))
   | _ \<Rightarrow> False)"

text \<open>The mounts the executable is below, in the order of the file.\<close>

definition mounts_above :: "string \<Rightarrow> string list \<Rightarrow> (string \<times> string) list" where
  "mounts_above exe ls = filter (\<lambda>(mp, _). prefix (components mp) (components exe))
     (List.map_filter mount_fields ls)"

text \<open>
  Of a list of mounts the first one with the longest mount point counts.
\<close>

definition longest_first :: "(string \<times> string) list \<Rightarrow> nat \<times> string \<Rightarrow> bool" where
  "longest_first ms b \<longleftrightarrow> (\<exists>i < length ms. length (fst (ms ! i)) = fst b \<and> snd (ms ! i) = snd b \<and>
     (\<forall>j < length ms. (if j < i then length (fst (ms ! j)) < fst b else length (fst (ms ! j)) \<le> fst b)))"

lemma mounts_above_snoc:
  "mounts_above exe (ls @ [l]) = mounts_above exe ls @
     (case mount_fields l of
        Some (mp, opts) \<Rightarrow> if prefix (components mp) (components exe) then [(mp, opts)] else []
      | None \<Rightarrow> [])"
  by (simp add: mounts_above_def List.map_filter_def split: option.split)

lemma longest_first_Nil [simp]: "\<not> longest_first [] b"
  by (simp add: longest_first_def)

lemma longest_firstE:
  assumes "longest_first ms b"
  obtains i where "i < length ms" "length (fst (ms ! i)) = fst b" "snd (ms ! i) = snd b"
    "\<forall>j < length ms. length (fst (ms ! j)) \<le> fst b" "\<forall>j < i. length (fst (ms ! j)) < fst b"
proof -
  from assms obtain i where i: "i < length ms" "length (fst (ms ! i)) = fst b" "snd (ms ! i) = snd b"
    and all: "\<forall>j < length ms.
      (if j < i then length (fst (ms ! j)) < fst b else length (fst (ms ! j)) \<le> fst b)"
    unfolding longest_first_def by (elim exE conjE)
  have "length (fst (ms ! j)) \<le> fst b" if "j < length ms" for j
    using all that by (cases "j < i") auto
  moreover have "length (fst (ms ! j)) < fst b" if "j < i" for j
    using all that i(1) by auto
  ultimately show thesis using that i by blast
qed

lemma longest_first_single: "longest_first [(mp, opts)] (length mp, opts)"
  by (simp add: longest_first_def)

lemma longest_first_snoc:
  assumes "longest_first ms (n, opts)"
  shows "length mp > n \<Longrightarrow> longest_first (ms @ [(mp, opts')]) (length mp, opts')"
    and "length mp \<le> n \<Longrightarrow> longest_first (ms @ [(mp, opts')]) (n, opts)"
proof -
  from assms obtain i where i: "i < length ms" "length (fst (ms ! i)) = n" "snd (ms ! i) = opts"
    and le: "\<forall>j < length ms. length (fst (ms ! j)) \<le> n" "\<forall>j < i. length (fst (ms ! j)) < n"
    by (rule longest_firstE) simp
  {
    assume "length mp > n"
    with le(1) have "\<forall>j < length ms. length (fst (ms ! j)) < length mp" by auto
    then show "longest_first (ms @ [(mp, opts')]) (length mp, opts')"
      unfolding longest_first_def
      by (intro exI [of _ "length ms"]) (auto simp: nth_append less_Suc_eq)
  next
    assume "length mp \<le> n"
    with i le show "longest_first (ms @ [(mp, opts')]) (n, opts)"
      unfolding longest_first_def
      by (intro exI [of _ i]) (auto simp: nth_append less_Suc_eq)
  }
qed

lemma longest_first_unique:
  assumes "longest_first ms b" "longest_first ms c"
  shows "b = c"
proof -
  obtain i where i: "i < length ms" "length (fst (ms ! i)) = fst b" "snd (ms ! i) = snd b"
    and b: "\<forall>j < length ms. length (fst (ms ! j)) \<le> fst b" "\<forall>j < i. length (fst (ms ! j)) < fst b"
    using assms(1) by (rule longest_firstE)
  obtain k where k: "k < length ms" "length (fst (ms ! k)) = fst c" "snd (ms ! k) = snd c"
    and c: "\<forall>j < length ms. length (fst (ms ! j)) \<le> fst c" "\<forall>j < k. length (fst (ms ! j)) < fst c"
    using assms(2) by (rule longest_firstE)
  have "fst c \<le> fst b" using b(1) k(1,2) by auto
  moreover have "fst b \<le> fst c" using c(1) i(1,2) by auto
  ultimately have len: "fst b = fst c" by simp
  with b(2) c(2) i(2) k(2) have "\<not> k < i" "\<not> i < k" by auto
  then have "i = k" by simp
  with i k show ?thesis by (simp add: prod_eq_iff)
qed

lemma mount_step_skip:
  "mount_fields l = None \<Longrightarrow> mount_step exe l best = best"
  "mount_fields l = Some (mp, opts) \<Longrightarrow> \<not> prefix (components mp) (components exe) \<Longrightarrow>
     mount_step exe l best = best"
  by (simp_all add: mount_step_def is_ancestor_prefix)

lemma mount_step_above:
  assumes "mount_fields l = Some (mp, opts)" "prefix (components mp) (components exe)"
  shows "mount_step exe l None = Some (length mp, opts)"
    and "mount_step exe l (Some (n, o')) = Some (if length mp > n then (length mp, opts) else (n, o'))"
  using assms by (simp_all add: mount_step_def is_ancestor_prefix)

definition scan_ok :: "(string \<times> string) list \<Rightarrow> (nat \<times> string) option \<Rightarrow> bool" where
  "scan_ok ms best \<longleftrightarrow> (best = None \<and> ms = [] \<or> (\<exists>b. best = Some b \<and> longest_first ms b))"

lemma mount_scan: "scan_ok (mounts_above exe ls) (fold (mount_step exe) ls None)"
proof (induction ls rule: rev_induct)
  case Nil
  show ?case by (simp add: mounts_above_def scan_ok_def)
next
  case (snoc l ls)
  let ?best = "fold (mount_step exe) ls None"
  consider "mount_fields l = None"
    | mp opts where "mount_fields l = Some (mp, opts)" "\<not> prefix (components mp) (components exe)"
    | (above) mp opts where "mount_fields l = Some (mp, opts)" "prefix (components mp) (components exe)"
    by (cases "mount_fields l") auto
  then show ?case
  proof cases
    case (above mp opts)
    from snoc consider "?best = None" "mounts_above exe ls = []"
      | (some) n o' where "?best = Some (n, o')" "longest_first (mounts_above exe ls) (n, o')"
      by (auto simp: scan_ok_def)
    then show ?thesis
    proof cases
      case (some n o')
      with longest_first_snoc [OF some(2), of mp opts] above show ?thesis
        by (simp add: scan_ok_def mounts_above_snoc mount_step_above)
    qed (use above in \<open>simp add: scan_ok_def mounts_above_snoc mount_step_above longest_first_single\<close>)
  qed (use snoc in \<open>simp_all add: mounts_above_snoc mount_step_skip\<close>)
qed

text \<open>The options of the mount that decides contain \<open>nosuid\<close>.\<close>

lemma nosuid_iff:
  "executable_on_nosuid_mount (Some exe) (Some info) \<longleftrightarrow>
     (\<exists>b. longest_first (mounts_above exe (lines_of info)) b \<and>
        ''nosuid'' \<in> set (split_on CHR '','' (snd b)))"
proof -
  let ?best = "fold (mount_step exe) (lines_of info) None"
  let ?ms = "mounts_above exe (lines_of info)"
  show ?thesis
  proof (cases ?best)
    case None
    with mount_scan [of exe "lines_of info"] have "?ms = []" by (simp only: scan_ok_def) simp
    with None show ?thesis
      by (simp add: executable_on_nosuid_mount_def)
  next
    case (Some b)
    with mount_scan [of exe "lines_of info"] have b: "longest_first ?ms b"
      by (simp only: scan_ok_def) simp
    then have "longest_first ?ms c \<longleftrightarrow> c = b" for c
      using longest_first_unique by blast
    with Some show ?thesis
      by (simp add: executable_on_nosuid_mount_def list_ex_iff case_prod_beta)
  qed
qed

end
