(* ===== verification/Backend_Loading.thy ===== *)
theory Backend_Loading
  imports Loader "HOL-Library.Sublist"
begin

text \<open>
  The second half of \<^verbatim>\<open>loader.rs\<close>: reading the prototypes of the functions to trace out of the
  kernel's BTF, loading one of the two program objects and attaching its programs, choosing
  between them, and turning a failure into a reason.

  An error is an \<open>anyhow\<close> chain, outermost message first. What BTF holds and what libbpf answers
  to open, load and attach are parameters (\<open>btf_view\<close>, \<open>bpf_object\<close>).
\<close>

section \<open>Errors\<close>

type_synonym error_chain = "utf8_string list"

definition ascii :: "string \<Rightarrow> utf8_string" where
  "ascii s = map of_char s"

definition with_context :: "string \<Rightarrow> error_chain + 'a \<Rightarrow> error_chain + 'a" where
  "with_context c r = (case r of Inl chain \<Rightarrow> Inl (ascii c # chain) | Inr x \<Rightarrow> Inr x)"

fun error_chain_text :: "error_chain \<Rightarrow> utf8_string" where
  "error_chain_text [] = []"
| "error_chain_text [m] = m"
| "error_chain_text (m # n # ms) = m @ ascii '': '' @ error_chain_text (n # ms)"

section \<open>Prototypes in BTF\<close>

datatype int_encoding = IntSigned | IntNone | IntChar | IntBool

text \<open>
  A type behind its modifiers and typedefs; for a pointer, the name of what it points to if that
  has a readable one.
\<close>

datatype btf_kind = KInt nat int_encoding | KPtr "string option" | KOther

datatype btf_func = No_prototype | Prototype nat "nat list"

record btf_view =
  bt_func :: "string \<Rightarrow> btf_func option"
  bt_ptr_size :: "nat option"
  bt_type :: "nat \<Rightarrow> btf_kind option"

datatype btf_type_shape = SignedInteger nat | UnsignedInteger nat | PointerTo string | OtherShape

record function_signature =
  fs_return :: btf_type_shape
  fs_parameters :: "btf_type_shape list"

definition btf_type_shape :: "btf_view \<Rightarrow> nat \<Rightarrow> btf_type_shape option" where
  "btf_type_shape B i = (case bt_type B i of
     None \<Rightarrow> None
   | Some (KInt sz coding) \<Rightarrow> (case coding of
         IntSigned \<Rightarrow> Some (SignedInteger sz)
       | IntNone \<Rightarrow> Some (UnsignedInteger sz)
       | _ \<Rightarrow> Some OtherShape)
   | Some (KPtr target) \<Rightarrow> map_option PointerTo target
   | Some KOther \<Rightarrow> Some OtherShape)"

text \<open>Collecting options stops at the first \<open>None\<close>.\<close>

fun collect_options :: "'a option list \<Rightarrow> 'a list option" where
  "collect_options [] = Some []"
| "collect_options (None # xs) = None"
| "collect_options (Some x # xs) = map_option (Cons x) (collect_options xs)"

definition btf_signature :: "btf_view \<Rightarrow> nat \<Rightarrow> nat list \<Rightarrow> function_signature option" where
  "btf_signature B ret params =
     Option.bind (btf_type_shape B ret) (\<lambda>r.
     Option.bind (collect_options (map (btf_type_shape B) params)) (\<lambda>ps.
     Some \<lparr>fs_return = r, fs_parameters = ps\<rparr>))"

definition expected_sendmsg_signature :: "nat \<Rightarrow> function_signature" where
  "expected_sendmsg_signature pointer_size =
     \<lparr>fs_return = SignedInteger 4,
      fs_parameters = [PointerTo ''sock'', PointerTo ''msghdr'', UnsignedInteger pointer_size]\<rparr>"

datatype compatibility = Missing | Compatible | Incompatible

definition optional_sendmsg_compatibility :: "btf_view \<Rightarrow> string \<Rightarrow> compatibility" where
  "optional_sendmsg_compatibility B name = (case bt_func B name of
     None \<Rightarrow> Missing
   | Some No_prototype \<Rightarrow> Incompatible
   | Some (Prototype ret params) \<Rightarrow> (case bt_ptr_size B of
         None \<Rightarrow> Incompatible
       | Some pointer_size \<Rightarrow> (case btf_signature B ret params of
             None \<Rightarrow> Incompatible
           | Some signature \<Rightarrow>
               if signature = expected_sendmsg_signature pointer_size then Compatible
               else Incompatible)))"

datatype accept_signature = LegacyFourArguments | ProtoAcceptArgument

fun decimal :: "nat \<Rightarrow> utf8_string" where
  "decimal n = (if n < 10 then [48 + n] else decimal (n div 10) @ [48 + n mod 10])"

definition detect_accept_signature :: "btf_view \<Rightarrow> error_chain + accept_signature" where
  "detect_accept_signature B = (case bt_func B ''inet_csk_accept'' of
     None \<Rightarrow> Inl [ascii ''inet_csk_accept is absent from kernel BTF'']
   | Some No_prototype \<Rightarrow> Inl [ascii ''inet_csk_accept BTF entry has no function prototype'']
   | Some (Prototype _ params) \<Rightarrow>
       if length params = 4 then Inr LegacyFourArguments
       else if length params = 2 then Inr ProtoAcceptArgument
       else Inl [ascii ''unsupported inet_csk_accept BTF signature with ''
                   @ decimal (length params) @ ascii '' arguments''])"

section \<open>Loading an object\<close>

text \<open>\<open>bo_load\<close> is given the programs whose autoload was switched off.\<close>

record bpf_object =
  bo_open :: "error_chain + unit"
  bo_load :: "string list \<Rightarrow> error_chain + unit"
  bo_attach :: "string \<Rightarrow> error_chain + unit"

record loader =
  ld_backend :: attribution_backend
  ld_links :: "string list"
  ld_caps :: capabilities

definition CORE_CAPABILITIES :: capabilities where
  "CORE_CAPABILITIES = or TCP_V4_CONNECT (or TCP_V6_CONNECT (or TCP_ACCEPT (or UDP_V4_SEND UDP_V6_SEND)))"

text \<open>The macro \<open>attach_required\<close>, one invocation after the other: program, message, capability.\<close>

fun attach_required ::
  "bpf_object \<Rightarrow> (string \<times> string \<times> capabilities) list \<Rightarrow> string list \<times> capabilities
     \<Rightarrow> error_chain + string list \<times> capabilities" where
  "attach_required Ob [] (links, caps) = Inr (links, caps)"
| "attach_required Ob ((program, message, cap) # ps) (links, caps) =
     (case with_context message (bo_attach Ob program) of
        Inl err \<Rightarrow> Inl err
      | Inr _ \<Rightarrow> attach_required Ob ps (links @ [program], insert_caps caps cap))"

definition attach_optional ::
  "bpf_object \<Rightarrow> string \<Rightarrow> capabilities \<Rightarrow> string list \<times> capabilities \<Rightarrow> string list \<times> capabilities" where
  "attach_optional Ob program cap s = (case s of (links, caps) \<Rightarrow>
     (case bo_attach Ob program of
        Inr _ \<Rightarrow> (links @ [program], insert_caps caps cap)
      | Inl _ \<Rightarrow> (links, caps)))"

text \<open>The two optional programs at the end of either load; \<open>v4\<close>, \<open>v6\<close>: whether to try them.\<close>

definition attach_pings ::
  "bpf_object \<Rightarrow> bool \<Rightarrow> bool \<Rightarrow> string list \<times> capabilities \<Rightarrow> string list \<times> capabilities" where
  "attach_pings Ob v4 v6 s =
     (let s = (if v4 then attach_optional Ob ''trace_ping_v4_sendmsg'' ICMP_V4_SEND s else s)
      in if v6 then attach_optional Ob ''trace_ping_v6_sendmsg'' ICMP_V6_SEND s else s)"

definition kprobe_required :: "(string \<times> string \<times> capabilities) list" where
  "kprobe_required =
     [(''trace_tcp_connect'', ''attach legacy probe kprobe/tcp_connect'', or TCP_V4_CONNECT TCP_V6_CONNECT),
      (''trace_udp_sendmsg'', ''attach legacy probe kprobe/udp_sendmsg'', UDP_V4_SEND),
      (''trace_udp_v6_sendmsg'', ''attach legacy probe kprobe/udpv6_sendmsg'', UDP_V6_SEND),
      (''trace_tcp_accept'', ''attach legacy probe kretprobe/inet_csk_accept'', TCP_ACCEPT)]"

definition load_kprobe :: "bpf_object \<Rightarrow> error_chain + loader" where
  "load_kprobe Ob = (case with_context ''open kprobe skeleton'' (bo_open Ob) of
     Inl err \<Rightarrow> Inl err
   | Inr _ \<Rightarrow> (case with_context ''load kprobe BPF object'' (bo_load Ob []) of
       Inl err \<Rightarrow> Inl err
     | Inr _ \<Rightarrow> (case attach_required Ob kprobe_required ([], 0) of
         Inl err \<Rightarrow> Inl err
       | Inr s \<Rightarrow>
           let s = attach_pings Ob True True s
           in Inr \<lparr>ld_backend = EbpfKprobe, ld_links = fst s, ld_caps = snd s\<rparr>)))"

definition fentry_accept_program :: "accept_signature \<Rightarrow> string" where
  "fentry_accept_program sig = (case sig of
     LegacyFourArguments \<Rightarrow> ''trace_tcp_accept_legacy_signature''
   | ProtoAcceptArgument \<Rightarrow> ''trace_tcp_accept_proto_arg'')"

definition fentry_required :: "accept_signature \<Rightarrow> (string \<times> string \<times> capabilities) list" where
  "fentry_required sig =
     [(''trace_tcp_connect'', ''attach fentry/fexit tcp_connect'', TCP_V4_CONNECT),
      (''trace_tcp_v6_connect'', ''attach fentry/fexit tcp_v6_connect'', TCP_V6_CONNECT),
      (''trace_udp_sendmsg'', ''attach fentry/fexit udp_sendmsg'', UDP_V4_SEND),
      (''trace_udp_v6_sendmsg'', ''attach fentry/fexit udpv6_sendmsg'', UDP_V6_SEND),
      (fentry_accept_program sig,
       ''attach fentry/fexit inet_csk_accept ('' @
         (case sig of LegacyFourArguments \<Rightarrow> ''legacy'' | ProtoAcceptArgument \<Rightarrow> ''proto_accept_arg'') @
         '' signature)'', TCP_ACCEPT)]"

definition fentry_disabled :: "accept_signature \<Rightarrow> compatibility \<Rightarrow> compatibility \<Rightarrow> string list" where
  "fentry_disabled sig ping_v4 ping_v6 =
     [case sig of LegacyFourArguments \<Rightarrow> ''trace_tcp_accept_proto_arg''
        | ProtoAcceptArgument \<Rightarrow> ''trace_tcp_accept_legacy_signature''] @
     (if ping_v4 \<noteq> Compatible then [''trace_ping_v4_sendmsg''] else []) @
     (if ping_v6 \<noteq> Compatible then [''trace_ping_v6_sendmsg''] else [])"

definition load_fentry :: "btf_view \<Rightarrow> bpf_object \<Rightarrow> error_chain + loader" where
  "load_fentry B Ob = (case detect_accept_signature B of
     Inl err \<Rightarrow> Inl err
   | Inr sig \<Rightarrow>
     let ping_v4 = optional_sendmsg_compatibility B ''ping_v4_sendmsg'';
         ping_v6 = optional_sendmsg_compatibility B ''ping_v6_sendmsg''
     in (case with_context ''open fentry skeleton'' (bo_open Ob) of
       Inl err \<Rightarrow> Inl err
     | Inr _ \<Rightarrow> (case with_context ''load fentry BPF object''
                        (bo_load Ob (fentry_disabled sig ping_v4 ping_v6)) of
         Inl err \<Rightarrow> Inl err
       | Inr _ \<Rightarrow> (case attach_required Ob (fentry_required sig) ([], 0) of
           Inl err \<Rightarrow> Inl err
         | Inr s \<Rightarrow>
             let s = attach_pings Ob (ping_v4 = Compatible) (ping_v6 = Compatible) s
             in Inr \<lparr>ld_backend = EbpfFentry, ld_links = fst s, ld_caps = snd s\<rparr>))))"

section \<open>What a loaded backend covers\<close>

lemma attach_required_Inr:
  assumes "attach_required Ob ps (links, caps) = Inr (links', caps')"
  shows "links' = links @ map fst ps"
    and "caps' = fold (\<lambda>(_, _, cap) c. insert_caps c cap) ps caps"
    and "\<forall>(p, _, _) \<in> set ps. bo_attach Ob p = Inr ()"
  using assms
  by (induction Ob ps "(links, caps)" arbitrary: links caps rule: attach_required.induct)
    (auto simp: with_context_def split: sum.splits)

text \<open>An error of a required program is the error of the load, under that program's message.\<close>

lemma attach_required_Inl:
  assumes "attach_required Ob ps s = Inl err"
  shows "\<exists>p msg cap chain. (p, msg, cap) \<in> set ps \<and> bo_attach Ob p = Inl chain \<and> err = ascii msg # chain"
  using assms
proof (induction ps arbitrary: s)
  case (Cons q ps)
  obtain p msg cap where q: "q = (p, msg, cap)" by (cases q)
  obtain l c where s: "s = (l, c)" by (cases s)
  show ?case
  proof (cases "bo_attach Ob p")
    case (Inl chain)
    with Cons.prems q s have "err = ascii msg # chain" by (simp add: with_context_def)
    with Inl q show ?thesis by auto
  next
    case (Inr u)
    with Cons.prems q s have "attach_required Ob ps (l @ [p], insert_caps c cap) = Inl err"
      by (simp add: with_context_def)
    from Cons.IH [OF this] show ?thesis by auto
  qed
next
  case Nil
  then show ?case by (cases s) simp
qed

text \<open>The bits of a set, by name.\<close>

definition caps_of :: "capabilities list \<Rightarrow> capabilities" where
  "caps_of cs = fold (\<lambda>cap c. insert_caps c cap) cs 0"

lemmas caps_eval = caps_of_def contains_def insert_caps_def capability_defs CORE_CAPABILITIES_def

lemma attach_optional_cases:
  "attach_optional Ob p cap (links, caps) =
     (if \<not> isl (bo_attach Ob p) then (links @ [p], insert_caps caps cap) else (links, caps))"
  by (simp add: attach_optional_def split: sum.split)

text \<open>31 is the set of the five core operations.\<close>

lemma attach_pings_caps:
  assumes "caps = 31"
  shows "contains (snd (attach_pings Ob v4 v6 (links, caps))) CORE_CAPABILITIES"
    and "contains (snd (attach_pings Ob v4 v6 (links, caps))) ICMP_V4_SEND \<longleftrightarrow>
      v4 \<and> \<not> isl (bo_attach Ob ''trace_ping_v4_sendmsg'')"
    and "contains (snd (attach_pings Ob v4 v6 (links, caps))) ICMP_V6_SEND \<longleftrightarrow>
      v6 \<and> \<not> isl (bo_attach Ob ''trace_ping_v6_sendmsg'')"
  using assms
  by (simp_all add: attach_pings_def attach_optional_cases caps_eval push_bit_of_1 Let_def)

lemma load_kprobe_caps:
  assumes "load_kprobe Ob = Inr L"
  shows "ld_backend L = EbpfKprobe" "contains (ld_caps L) CORE_CAPABILITIES"
    and "contains (ld_caps L) ICMP_V4_SEND \<longleftrightarrow> \<not> isl (bo_attach Ob ''trace_ping_v4_sendmsg'')"
    and "contains (ld_caps L) ICMP_V6_SEND \<longleftrightarrow> \<not> isl (bo_attach Ob ''trace_ping_v6_sendmsg'')"
proof -
  from assms obtain links caps where
    att: "attach_required Ob kprobe_required ([], 0) = Inr (links, caps)"
    and L: "L = \<lparr>ld_backend = EbpfKprobe, ld_links = fst (attach_pings Ob True True (links, caps)),
       ld_caps = snd (attach_pings Ob True True (links, caps))\<rparr>"
    by (auto simp: load_kprobe_def Let_def split: sum.splits)
  from attach_required_Inr(2) [OF att] have "caps = 31"
    by (simp add: kprobe_required_def caps_eval push_bit_of_1)
  note caps = attach_pings_caps [OF this, of Ob True True links]
  show "ld_backend L = EbpfKprobe" by (simp add: L)
  from caps show "contains (ld_caps L) CORE_CAPABILITIES"
    and "contains (ld_caps L) ICMP_V4_SEND \<longleftrightarrow> \<not> isl (bo_attach Ob ''trace_ping_v4_sendmsg'')"
    and "contains (ld_caps L) ICMP_V6_SEND \<longleftrightarrow> \<not> isl (bo_attach Ob ''trace_ping_v6_sendmsg'')"
    by (simp_all add: L)
qed

lemma load_fentry_caps:
  assumes "load_fentry B Ob = Inr L"
  shows "ld_backend L = EbpfFentry" "contains (ld_caps L) CORE_CAPABILITIES"
    and "contains (ld_caps L) ICMP_V4_SEND \<longleftrightarrow>
      optional_sendmsg_compatibility B ''ping_v4_sendmsg'' = Compatible \<and>
      \<not> isl (bo_attach Ob ''trace_ping_v4_sendmsg'')"
    and "contains (ld_caps L) ICMP_V6_SEND \<longleftrightarrow>
      optional_sendmsg_compatibility B ''ping_v6_sendmsg'' = Compatible \<and>
      \<not> isl (bo_attach Ob ''trace_ping_v6_sendmsg'')"
proof -
  let ?v4 = "optional_sendmsg_compatibility B ''ping_v4_sendmsg'' = Compatible"
  let ?v6 = "optional_sendmsg_compatibility B ''ping_v6_sendmsg'' = Compatible"
  from assms obtain sig links caps where
    att: "attach_required Ob (fentry_required sig) ([], 0) = Inr (links, caps)"
    and L: "L = \<lparr>ld_backend = EbpfFentry, ld_links = fst (attach_pings Ob ?v4 ?v6 (links, caps)),
       ld_caps = snd (attach_pings Ob ?v4 ?v6 (links, caps))\<rparr>"
    by (auto simp: load_fentry_def Let_def split: sum.splits)
  from attach_required_Inr(2) [OF att] have "caps = 31"
    by (cases sig) (simp_all add: fentry_required_def caps_eval push_bit_of_1)
  note caps = attach_pings_caps [OF this, of Ob ?v4 ?v6 links]
  show "ld_backend L = EbpfFentry" by (simp add: L)
  from caps show "contains (ld_caps L) CORE_CAPABILITIES"
    and "contains (ld_caps L) ICMP_V4_SEND \<longleftrightarrow> ?v4 \<and> \<not> isl (bo_attach Ob ''trace_ping_v4_sendmsg'')"
    and "contains (ld_caps L) ICMP_V6_SEND \<longleftrightarrow> ?v6 \<and> \<not> isl (bo_attach Ob ''trace_ping_v6_sendmsg'')"
    by (simp_all add: L)
qed

text \<open>A backend that loads answers every TCP and UDP lookup.\<close>

lemma core_covers: "contains c CORE_CAPABILITIES \<Longrightarrow> contains c (lookup_needs src is_tcp)"
  by (auto simp: lookup_needs_def CORE_CAPABILITIES_def contains_or split: ip_addr.split)

section \<open>Naming a failure\<close>

fun has_text :: "utf8_string \<Rightarrow> utf8_string \<Rightarrow> bool" where
  "has_text p [] \<longleftrightarrow> p = []"
| "has_text p (x # xs) \<longleftrightarrow> prefix p (x # xs) \<or> has_text p xs"

text \<open>The text before the first occurrence of \<open>p\<close>, and the text behind it if there is one.\<close>

fun cut_at :: "utf8_string \<Rightarrow> utf8_string \<Rightarrow> utf8_string \<times> utf8_string option" where
  "cut_at p [] = (if p = [] then ([], Some []) else ([], None))"
| "cut_at p (x # xs) =
     (if prefix p (x # xs) then ([], Some (drop (length p) (x # xs)))
      else (case cut_at p xs of (before, after) \<Rightarrow> (x # before, after)))"

text \<open>\<open>split(prefix).nth(1)\<close>: the piece between the first two occurrences.\<close>

definition second_piece :: "utf8_string \<Rightarrow> utf8_string \<Rightarrow> utf8_string option" where
  "second_piece p s = map_option (\<lambda>rest. fst (cut_at p rest)) (snd (cut_at p s))"

text \<open>Which characters are alphanumeric is the Unicode table of the standard library: a parameter.\<close>

fun extract_kprobe_symbol ::
  "(nat \<Rightarrow> bool) \<Rightarrow> string list \<Rightarrow> utf8_string \<Rightarrow> utf8_string option" where
  "extract_kprobe_symbol alnum [] blob = None"
| "extract_kprobe_symbol alnum (p # ps) blob = (case second_piece (ascii p) blob of
     None \<Rightarrow> extract_kprobe_symbol alnum ps blob
   | Some rest \<Rightarrow>
       let symbol = takeWhile (\<lambda>c. alnum c \<or> c = 95) rest
       in if symbol \<noteq> [] then Some symbol else extract_kprobe_symbol alnum ps blob)"

definition kprobe_prefixes :: "string list" where
  "kprobe_prefixes = [''attach kprobe '', ''kprobe/'', ''kprobe '' @ [CHR 0x27]]"

text \<open>The bytes a code point takes, and \<open>String::truncate\<close>, which panics inside a character.\<close>

definition utf8_width :: "nat \<Rightarrow> nat" where
  "utf8_width c = (if c < 0x80 then 1 else if c < 0x800 then 2 else if c < 0x10000 then 3 else 4)"

definition utf8_length :: "utf8_string \<Rightarrow> nat" where
  "utf8_length s = sum_list (map utf8_width s)"

fun truncate_at :: "nat \<Rightarrow> utf8_string \<Rightarrow> utf8_string option" where
  "truncate_at n [] = Some []"
| "truncate_at n (c # cs) =
     (if n = 0 then Some []
      else if utf8_width c \<le> n then map_option (Cons c) (truncate_at (n - utf8_width c) cs)
      else None)"

definition MAX_LEN :: nat where "MAX_LEN = 100"

text \<open>
  \<open>None\<close> is a panic. \<open>to_lower\<close> is the standard library's lower casing; \<open>err.to_string()\<close> is
  the outermost message.
\<close>

definition classify_libbpf_error ::
  "(utf8_string \<Rightarrow> utf8_string) \<Rightarrow> (nat \<Rightarrow> bool) \<Rightarrow> error_chain \<Rightarrow> degradation_reason option" where
  "classify_libbpf_error to_lower alnum err =
     (let blob = to_lower (error_chain_text err);
          has = (\<lambda>p. has_text (ascii p) blob)
      in if has ''btf'' \<or> has ''vmlinux'' \<or> has ''co-re'' then Some BtfUnavailable
         else if has ''function not implemented'' \<or> has ''enosys'' then Some KernelUnsupported
         else if has ''operation not permitted'' \<or> has ''permission denied'' \<or> has ''eperm'' \<or>
                 has ''eacces'' \<or> has ''-eacces''
         then Some BpfPermissionDenied
         else if has ''attach'' \<or> has ''kprobe'' \<or> has ''perf_event_open''
         then Some (KprobeAttachFailed
                (case extract_kprobe_symbol alnum kprobe_prefixes blob of Some s \<Rightarrow> s | None \<Rightarrow> []))
         else (let text = hd err
               in if utf8_length text > MAX_LEN
                  then map_option (\<lambda>t. EbpfLoadFailed (t @ [0x2026])) (truncate_at MAX_LEN text)
                  else Some (EbpfLoadFailed text)))"

section \<open>Choosing a backend\<close>

datatype ('t, 'e) backend_selection =
    Selected 't "'e option"
  | TargetBtfUnavailable 'e
  | BackendsFailed 'e 'e

definition select_backend_with_target_btf ::
  "'e + 'b \<Rightarrow> ('b \<Rightarrow> 'e + 't) \<Rightarrow> ('b \<Rightarrow> 'e + 't) \<Rightarrow> ('t, 'e) backend_selection" where
  "select_backend_with_target_btf target_btf fentry kprobe = (case target_btf of
     Inl err \<Rightarrow> TargetBtfUnavailable err
   | Inr btf \<Rightarrow> (case fentry btf of
       Inr loader \<Rightarrow> Selected loader None
     | Inl fentry_error \<Rightarrow> (case kprobe btf of
         Inr loader \<Rightarrow> Selected loader (Some fentry_error)
       | Inl kprobe_error \<Rightarrow> BackendsFailed fentry_error kprobe_error)))"

text \<open>Everything \<open>try_load\<close> finds out about the system it runs on.\<close>

record host_system =
  hs_euid :: u32
  hs_status :: "string option"
  hs_exe :: "string option"
  hs_mountinfo :: "string option"
  hs_btf :: "error_chain + btf_view"
  hs_fentry :: bpf_object
  hs_kprobe :: bpf_object
  hs_to_lower :: "utf8_string \<Rightarrow> utf8_string"
  hs_alnum :: "nat \<Rightarrow> bool"

text \<open>The result is \<open>None\<close> when the classification of the failure panics.\<close>

definition try_load :: "host_system \<Rightarrow> (loader option \<times> degradation_reason) option" where
  "try_load S =
     (let cap_result = check_capabilities_detailed (hs_euid S) (hs_status S)
      in if cap_result \<noteq> NoDegradation
         then (if cap_result \<in> {MissingCapBpf, MissingCapPerfmon, MissingBpfCapabilities} \<and>
                  executable_on_nosuid_mount (hs_exe S) (hs_mountinfo S)
               then Some (None, BinaryOnNosuidMount) else Some (None, cap_result))
         else (case select_backend_with_target_btf
                      (with_context ''load running kernel BTF'' (hs_btf S))
                      (\<lambda>B. load_fentry B (hs_fentry S)) (\<lambda>_. load_kprobe (hs_kprobe S)) of
             Selected loader None \<Rightarrow> Some (Some loader, NoDegradation)
           | Selected loader (Some _) \<Rightarrow> Some (Some loader, NoDegradation)
           | TargetBtfUnavailable _ \<Rightarrow> Some (None, BtfUnavailable)
           | BackendsFailed _ kprobe_error \<Rightarrow>
               map_option (Pair None) (classify_libbpf_error (hs_to_lower S) (hs_alnum S) kprobe_error)))"

section \<open>What becomes of a failure\<close>

lemma has_text_iff: "has_text p s \<longleftrightarrow> sublist p s"
  by (induction s) (simp_all add: sublist_Cons_right)

lemma has_text_append: "has_text p a \<Longrightarrow> has_text p (a @ b)"
  unfolding has_text_iff sublist_def by (metis append.assoc)

definition ascii_lower :: "nat \<Rightarrow> nat" where
  "ascii_lower c = (if 65 \<le> c \<and> c \<le> 90 then c + 32 else c)"

text \<open>Lower casing keeps the ASCII front of a text in front, letter by letter.\<close>

definition lower_law :: "(utf8_string \<Rightarrow> utf8_string) \<Rightarrow> bool" where
  "lower_law to_lower \<longleftrightarrow> (\<forall>a b. (\<forall>c \<in> set a. c < 128) \<longrightarrow>
     (\<exists>b'. to_lower (a @ b) = map ascii_lower a @ b'))"

lemma lower_law_ascii: "lower_law (map ascii_lower)"
  by (simp add: lower_law_def)

lemma error_chain_text_front: "\<exists>rest. error_chain_text (m # chain) = m @ rest"
  by (cases chain) simp_all

definition ascii_text :: "string \<Rightarrow> bool" where
  "ascii_text s = list_all (\<lambda>c. (of_char c :: nat) < 128) s"

lemma blob_has:
  assumes "lower_law to_lower" "ascii_text msg"
    and "has_text p (map ascii_lower (ascii msg))"
  shows "has_text p (to_lower (error_chain_text (ascii msg # chain)))"
proof -
  obtain rest where front: "error_chain_text (ascii msg # chain) = ascii msg @ rest"
    using error_chain_text_front by blast
  have "\<forall>c \<in> set (ascii msg). c < 128"
    using assms(2) by (auto simp: ascii_def ascii_text_def list_all_iff)
  with assms(1) obtain b where "to_lower (ascii msg @ rest) = map ascii_lower (ascii msg) @ b"
    unfolding lower_law_def by blast
  with assms(3) show ?thesis by (simp only: front has_text_append)
qed

text \<open>Every message the legacy loader puts around an error names a kprobe or an attachment.\<close>

definition kprobe_messages :: "string list" where
  "kprobe_messages = [''open kprobe skeleton'', ''load kprobe BPF object'',
     ''attach legacy probe kprobe/tcp_connect'', ''attach legacy probe kprobe/udp_sendmsg'',
     ''attach legacy probe kprobe/udpv6_sendmsg'', ''attach legacy probe kretprobe/inet_csk_accept'']"

lemma with_context_Inl: "with_context c r = Inl err \<Longrightarrow> \<exists>chain. err = ascii c # chain"
  by (auto simp: with_context_def split: sum.splits)

lemma load_kprobe_error:
  assumes "load_kprobe Ob = Inl err"
  shows "\<exists>msg chain. msg \<in> set kprobe_messages \<and> err = ascii msg # chain"
proof -
  from assms consider "with_context ''open kprobe skeleton'' (bo_open Ob) = Inl err"
    | "with_context ''load kprobe BPF object'' (bo_load Ob []) = Inl err"
    | "attach_required Ob kprobe_required ([], 0) = Inl err"
    by (auto simp: load_kprobe_def Let_def split: sum.splits)
  then show ?thesis
  proof cases
    case 3
    then obtain p msg cap chain where "(p, msg, cap) \<in> set kprobe_required" "err = ascii msg # chain"
      using attach_required_Inl by blast
    then show ?thesis by (auto simp: kprobe_required_def kprobe_messages_def)
  qed (auto simp: kprobe_messages_def dest!: with_context_Inl)
qed

lemma kprobe_messages_text:
  assumes "msg \<in> set kprobe_messages"
  shows "ascii_text msg"
    and "has_text (ascii ''attach'') (map ascii_lower (ascii msg)) \<or>
         has_text (ascii ''kprobe'') (map ascii_lower (ascii msg))"
  using assms
  by (auto simp: kprobe_messages_def ascii_text_def ascii_def ascii_lower_def)

text \<open>
  A failure of the legacy backend is always given one of four reasons; the generic one, whose
  text would be cut, is never reached.
\<close>

lemma classify_kprobe_error:
  assumes "lower_law to_lower" "load_kprobe Ob = Inl err"
  shows "\<exists>r. classify_libbpf_error to_lower alnum err = Some r \<and>
     (r \<in> {BtfUnavailable, KernelUnsupported, BpfPermissionDenied} \<or> (\<exists>sym. r = KprobeAttachFailed sym))"
proof -
  obtain msg chain where msg: "msg \<in> set kprobe_messages" and err: "err = ascii msg # chain"
    using load_kprobe_error [OF assms(2)] by blast
  let ?blob = "to_lower (error_chain_text err)"
  have "has_text (ascii ''attach'') ?blob \<or> has_text (ascii ''kprobe'') ?blob"
    unfolding err using kprobe_messages_text [OF msg] blob_has [OF assms(1)] by blast
  then show ?thesis
    unfolding classify_libbpf_error_def Let_def
    by (cases "has_text (ascii ''btf'') ?blob \<or> has_text (ascii ''vmlinux'') ?blob \<or>
          has_text (ascii ''co-re'') ?blob") auto
qed

text \<open>Loading ends with a backend and no reason, or with a reason and no backend.\<close>

lemma try_load_cases:
  assumes "lower_law (hs_to_lower S)"
  obtains (loaded) L where "try_load S = Some (Some L, NoDegradation)"
      "check_capabilities_detailed (hs_euid S) (hs_status S) = NoDegradation"
      "contains (ld_caps L) CORE_CAPABILITIES" "ld_backend L \<in> {EbpfFentry, EbpfKprobe}"
    | (degraded) r where "try_load S = Some (None, r)" "r \<noteq> NoDegradation"
proof -
  let ?cap = "check_capabilities_detailed (hs_euid S) (hs_status S)"
  show thesis
  proof (cases "?cap = NoDegradation")
    case False
    show thesis
    proof (cases "?cap \<in> {MissingCapBpf, MissingCapPerfmon, MissingBpfCapabilities} \<and>
        executable_on_nosuid_mount (hs_exe S) (hs_mountinfo S)")
      case True
      with False show thesis
        by (intro degraded [of BinaryOnNosuidMount]) (auto simp: try_load_def)
    next
      case no: False
      with False show thesis by (intro degraded [of ?cap]) (auto simp: try_load_def)
    qed
  next
    case cap: True
    show thesis
    proof (cases "with_context ''load running kernel BTF'' (hs_btf S)")
      case (Inl err)
      with cap show thesis
        by (intro degraded [of BtfUnavailable]) (simp_all add: try_load_def select_backend_with_target_btf_def)
    next
      case btf: (Inr B)
      show thesis
      proof (cases "load_fentry B (hs_fentry S)")
        case (Inr L)
        with cap btf load_fentry_caps [OF Inr] show thesis
          by (intro loaded [of L]) (simp_all add: try_load_def select_backend_with_target_btf_def)
      next
        case fentry: (Inl fe)
        show thesis
        proof (cases "load_kprobe (hs_kprobe S)")
          case (Inr L)
          with cap btf fentry load_kprobe_caps [OF Inr] show thesis
            by (intro loaded [of L]) (simp_all add: try_load_def select_backend_with_target_btf_def)
        next
          case (Inl ke)
          from classify_kprobe_error [OF assms Inl, of "hs_alnum S"] cap btf fentry Inl show thesis
            by (elim exE conjE, intro degraded)
              (auto simp: try_load_def select_backend_with_target_btf_def)
        qed
      qed
    qed
  qed
qed

end
