(* ===== verification/Vmlinux_x86.thy ===== *)
theory Vmlinux_x86
  imports C_Layout
begin

text \<open>
  The kernel types of the bundled header \<^verbatim>\<open>resources/ebpf/vmlinux/x86/vmlinux.h\<close>
  (x86-64) that the socket tracker reads, with every type they contain by value:
  the socket objects handed to the probes (\<open>struct tcp6_sock\<close>, \<open>udp6_sock\<close>, \<open>raw6_sock\<close>, all of
  which start with \<open>struct sock\<close>), \<open>struct msghdr\<close>, the two socket address types and
  \<open>struct task_struct\<close>. Each definition transcribes one declaration of the header, member by
  member and in its order; a comment gives the declaration. Pointer members are kept as
  \<open>Pointer\<close>, unnamed bit fields (the padding the header makes explicit) as \<open>Padding\<close>.
  After each type the \<open>layout\<close> collection gains its size and alignment in the data model
  \<open>abi_x86\<close>, computed by the kernel from the declaration.
\<close>

definition x86_t_uu_u64 :: ctype where
  \<comment> \<open>\<^verbatim>\<open>typedef __u64\<close>, lines 11692 to 11692\<close>
  "x86_t_uu_u64 =
    Scalar TULongLong"

lemma x86_t_uu_u64_layout [layout]:
  "size_of abi_x86 x86_t_uu_u64 = 8" "align_of abi_x86 x86_t_uu_u64 = 8"
  by (simp_all add: x86_t_uu_u64_def abi_x86_def layout_eval layout [unfolded abi_x86_def])

definition x86_t_uu_addrpair :: ctype where
  \<comment> \<open>\<^verbatim>\<open>typedef __addrpair\<close>, lines 11700 to 11700\<close>
  "x86_t_uu_addrpair =
    x86_t_uu_u64"

lemma x86_t_uu_addrpair_layout [layout]:
  "size_of abi_x86 x86_t_uu_addrpair = 8" "align_of abi_x86 x86_t_uu_addrpair = 8"
  by (simp_all add: x86_t_uu_addrpair_def abi_x86_def layout_eval layout [unfolded abi_x86_def])

definition x86_t_uu_u32 :: ctype where
  \<comment> \<open>\<^verbatim>\<open>typedef __u32\<close>, lines 11836 to 11836\<close>
  "x86_t_uu_u32 =
    Scalar TUInt"

lemma x86_t_uu_u32_layout [layout]:
  "size_of abi_x86 x86_t_uu_u32 = 4" "align_of abi_x86 x86_t_uu_u32 = 4"
  by (simp_all add: x86_t_uu_u32_def abi_x86_def layout_eval layout [unfolded abi_x86_def])

definition x86_t_uu_be32 :: ctype where
  \<comment> \<open>\<^verbatim>\<open>typedef __be32\<close>, lines 11846 to 11846\<close>
  "x86_t_uu_be32 =
    x86_t_uu_u32"

lemma x86_t_uu_be32_layout [layout]:
  "size_of abi_x86 x86_t_uu_be32 = 4" "align_of abi_x86 x86_t_uu_be32 = 4"
  by (simp_all add: x86_t_uu_be32_def abi_x86_def layout_eval layout [unfolded abi_x86_def])

definition x86_t_uu_u16 :: ctype where
  \<comment> \<open>\<^verbatim>\<open>typedef __u16\<close>, lines 11786 to 11786\<close>
  "x86_t_uu_u16 =
    Scalar TUShort"

lemma x86_t_uu_u16_layout [layout]:
  "size_of abi_x86 x86_t_uu_u16 = 2" "align_of abi_x86 x86_t_uu_u16 = 2"
  by (simp_all add: x86_t_uu_u16_def abi_x86_def layout_eval layout [unfolded abi_x86_def])

definition x86_t_uu_portpair :: ctype where
  \<comment> \<open>\<^verbatim>\<open>typedef __portpair\<close>, lines 11860 to 11860\<close>
  "x86_t_uu_portpair =
    x86_t_uu_u32"

lemma x86_t_uu_portpair_layout [layout]:
  "size_of abi_x86 x86_t_uu_portpair = 4" "align_of abi_x86 x86_t_uu_portpair = 4"
  by (simp_all add: x86_t_uu_portpair_def abi_x86_def layout_eval layout [unfolded abi_x86_def])

definition x86_t_uu_be16 :: ctype where
  \<comment> \<open>\<^verbatim>\<open>typedef __be16\<close>, lines 11792 to 11792\<close>
  "x86_t_uu_be16 =
    x86_t_uu_u16"

lemma x86_t_uu_be16_layout [layout]:
  "size_of abi_x86 x86_t_uu_be16 = 2" "align_of abi_x86 x86_t_uu_be16 = 2"
  by (simp_all add: x86_t_uu_be16_def abi_x86_def layout_eval layout [unfolded abi_x86_def])

definition x86_struct_hlist_node :: ctype where
  \<comment> \<open>\<^verbatim>\<open>struct hlist_node\<close>, lines 12453 to 12456\<close>
  "x86_struct_hlist_node =
    Struct [Field ''next'' Pointer,
    Field ''pprev'' Pointer]"

lemma x86_struct_hlist_node_layout [layout]:
  "size_of abi_x86 x86_struct_hlist_node = 16" "align_of abi_x86 x86_struct_hlist_node = 8"
  by (simp_all add: x86_struct_hlist_node_def abi_x86_def layout_eval layout [unfolded abi_x86_def])

definition x86_t_possible_net_t :: ctype where
  \<comment> \<open>\<^verbatim>\<open>typedef possible_net_t\<close>, lines 12235 to 12235\<close>
  "x86_t_possible_net_t =
    Struct []"

lemma x86_t_possible_net_t_layout [layout]:
  "size_of abi_x86 x86_t_possible_net_t = 0" "align_of abi_x86 x86_t_possible_net_t = 1"
  by (simp_all add: x86_t_possible_net_t_def abi_x86_def layout_eval layout [unfolded abi_x86_def])

definition x86_t_uu_u8 :: ctype where
  \<comment> \<open>\<^verbatim>\<open>typedef __u8\<close>, lines 11816 to 11816\<close>
  "x86_t_uu_u8 =
    Scalar TUChar"

lemma x86_t_uu_u8_layout [layout]:
  "size_of abi_x86 x86_t_uu_u8 = 1" "align_of abi_x86 x86_t_uu_u8 = 1"
  by (simp_all add: x86_t_uu_u8_def abi_x86_def layout_eval layout [unfolded abi_x86_def])

definition x86_struct_in6_addr :: ctype where
  \<comment> \<open>\<^verbatim>\<open>struct in6_addr\<close>, lines 12368 to 12374\<close>
  "x86_struct_in6_addr =
    Struct [Field ''in6_u'' (Union [Field ''u6_addr8'' (Array x86_t_uu_u8 16),
      Field ''u6_addr16'' (Array x86_t_uu_be16 8),
      Field ''u6_addr32'' (Array x86_t_uu_be32 4)])]"

lemma x86_struct_in6_addr_layout [layout]:
  "size_of abi_x86 x86_struct_in6_addr = 16" "align_of abi_x86 x86_struct_in6_addr = 4"
  by (simp_all add: x86_struct_in6_addr_def abi_x86_def layout_eval layout [unfolded abi_x86_def])

definition x86_t_uu_s64 :: ctype where
  \<comment> \<open>\<^verbatim>\<open>typedef __s64\<close>, lines 11672 to 11672\<close>
  "x86_t_uu_s64 =
    Scalar TLongLong"

lemma x86_t_uu_s64_layout [layout]:
  "size_of abi_x86 x86_t_uu_s64 = 8" "align_of abi_x86 x86_t_uu_s64 = 8"
  by (simp_all add: x86_t_uu_s64_def abi_x86_def layout_eval layout [unfolded abi_x86_def])

definition x86_t_s64 :: ctype where
  \<comment> \<open>\<^verbatim>\<open>typedef s64\<close>, lines 11680 to 11680\<close>
  "x86_t_s64 =
    x86_t_uu_s64"

lemma x86_t_s64_layout [layout]:
  "size_of abi_x86 x86_t_s64 = 8" "align_of abi_x86 x86_t_s64 = 8"
  by (simp_all add: x86_t_s64_def abi_x86_def layout_eval layout [unfolded abi_x86_def])

definition x86_t_atomic64_t :: ctype where
  \<comment> \<open>\<^verbatim>\<open>typedef atomic64_t\<close>, lines 11958 to 11960\<close>
  "x86_t_atomic64_t =
    Struct [Field ''counter'' x86_t_s64]"

lemma x86_t_atomic64_t_layout [layout]:
  "size_of abi_x86 x86_t_atomic64_t = 8" "align_of abi_x86 x86_t_atomic64_t = 8"
  by (simp_all add: x86_t_atomic64_t_def abi_x86_def layout_eval layout [unfolded abi_x86_def])

definition x86_struct_hlist_nulls_node :: ctype where
  \<comment> \<open>\<^verbatim>\<open>struct hlist_nulls_node\<close>, lines 29710 to 29713\<close>
  "x86_struct_hlist_nulls_node =
    Struct [Field ''next'' Pointer,
    Field ''pprev'' Pointer]"

lemma x86_struct_hlist_nulls_node_layout [layout]:
  "size_of abi_x86 x86_struct_hlist_nulls_node = 16" "align_of abi_x86 x86_struct_hlist_nulls_node = 8"
  by (simp_all add: x86_struct_hlist_nulls_node_def abi_x86_def layout_eval layout [unfolded abi_x86_def])

definition x86_t_u32 :: ctype where
  \<comment> \<open>\<^verbatim>\<open>typedef u32\<close>, lines 11848 to 11848\<close>
  "x86_t_u32 =
    x86_t_uu_u32"

lemma x86_t_u32_layout [layout]:
  "size_of abi_x86 x86_t_u32 = 4" "align_of abi_x86 x86_t_u32 = 4"
  by (simp_all add: x86_t_u32_def abi_x86_def layout_eval layout [unfolded abi_x86_def])

definition x86_t_atomic_t :: ctype where
  \<comment> \<open>\<^verbatim>\<open>typedef atomic_t\<close>, lines 11964 to 11966\<close>
  "x86_t_atomic_t =
    Struct [Field ''counter'' (Scalar TInt)]"

lemma x86_t_atomic_t_layout [layout]:
  "size_of abi_x86 x86_t_atomic_t = 4" "align_of abi_x86 x86_t_atomic_t = 4"
  by (simp_all add: x86_t_atomic_t_def abi_x86_def layout_eval layout [unfolded abi_x86_def])

definition x86_struct_refcount_struct :: ctype where
  \<comment> \<open>\<^verbatim>\<open>struct refcount_struct\<close>, lines 12458 to 12460\<close>
  "x86_struct_refcount_struct =
    Struct [Field ''refs'' x86_t_atomic_t]"

lemma x86_struct_refcount_struct_layout [layout]:
  "size_of abi_x86 x86_struct_refcount_struct = 4" "align_of abi_x86 x86_struct_refcount_struct = 4"
  by (simp_all add: x86_struct_refcount_struct_def abi_x86_def layout_eval layout [unfolded abi_x86_def])

definition x86_t_refcount_t :: ctype where
  \<comment> \<open>\<^verbatim>\<open>typedef refcount_t\<close>, lines 12462 to 12462\<close>
  "x86_t_refcount_t =
    x86_struct_refcount_struct"

lemma x86_t_refcount_t_layout [layout]:
  "size_of abi_x86 x86_t_refcount_t = 4" "align_of abi_x86 x86_t_refcount_t = 4"
  by (simp_all add: x86_t_refcount_t_def abi_x86_def layout_eval layout [unfolded abi_x86_def])

definition x86_struct_sock_common :: ctype where
  \<comment> \<open>\<^verbatim>\<open>struct sock_common\<close>, lines 30885 to 30943\<close>
  "x86_struct_sock_common =
    Struct [Anonymous (Union [Field ''skc_addrpair'' x86_t_uu_addrpair,
      Anonymous (Struct [Field ''skc_daddr'' x86_t_uu_be32,
        Field ''skc_rcv_saddr'' x86_t_uu_be32])]),
    Anonymous (Union [Field ''skc_hash'' (Scalar TUInt),
      Field ''skc_u16hashes'' (Array x86_t_uu_u16 2)]),
    Anonymous (Union [Field ''skc_portpair'' x86_t_uu_portpair,
      Anonymous (Struct [Field ''skc_dport'' x86_t_uu_be16,
        Field ''skc_num'' x86_t_uu_u16])]),
    Field ''skc_family'' (Scalar TUShort),
    Field ''skc_state'' (Scalar TUChar),
    Bits ''skc_reuse'' (Scalar TUChar) 4,
    Bits ''skc_reuseport'' (Scalar TUChar) 1,
    Bits ''skc_ipv6only'' (Scalar TUChar) 1,
    Bits ''skc_net_refcnt'' (Scalar TUChar) 1,
    Field ''skc_bound_dev_if'' (Scalar TInt),
    Anonymous (Union [Field ''skc_bind_node'' x86_struct_hlist_node,
      Field ''skc_portaddr_node'' x86_struct_hlist_node]),
    Field ''skc_prot'' Pointer,
    Field ''skc_net'' x86_t_possible_net_t,
    Field ''skc_v6_daddr'' x86_struct_in6_addr,
    Field ''skc_v6_rcv_saddr'' x86_struct_in6_addr,
    Field ''skc_cookie'' x86_t_atomic64_t,
    Anonymous (Union [Field ''skc_flags'' (Scalar TULong),
      Field ''skc_listener'' Pointer,
      Field ''skc_tw_dr'' Pointer]),
    Field ''skc_dontcopy_begin'' (Array (Scalar TInt) 0),
    Anonymous (Union [Field ''skc_node'' x86_struct_hlist_node,
      Field ''skc_nulls_node'' x86_struct_hlist_nulls_node]),
    Field ''skc_tx_queue_mapping'' (Scalar TUShort),
    Anonymous (Union [Field ''skc_incoming_cpu'' (Scalar TInt),
      Field ''skc_rcv_wnd'' x86_t_u32,
      Field ''skc_tw_rcv_nxt'' x86_t_u32]),
    Field ''skc_refcnt'' x86_t_refcount_t,
    Field ''skc_dontcopy_end'' (Array (Scalar TInt) 0),
    Anonymous (Union [Field ''skc_rxhash'' x86_t_u32,
      Field ''skc_window_clamp'' x86_t_u32,
      Field ''skc_tw_snd_nxt'' x86_t_u32])]"

lemma x86_struct_sock_common_layout [layout]:
  "size_of abi_x86 x86_struct_sock_common = 128" "align_of abi_x86 x86_struct_sock_common = 8"
  by (simp_all add: x86_struct_sock_common_def abi_x86_def layout_eval layout [unfolded abi_x86_def])

definition x86_t_uu_s32 :: ctype where
  \<comment> \<open>\<^verbatim>\<open>typedef __s32\<close>, lines 11612 to 11612\<close>
  "x86_t_uu_s32 =
    Scalar TInt"

lemma x86_t_uu_s32_layout [layout]:
  "size_of abi_x86 x86_t_uu_s32 = 4" "align_of abi_x86 x86_t_uu_s32 = 4"
  by (simp_all add: x86_t_uu_s32_def abi_x86_def layout_eval layout [unfolded abi_x86_def])

definition x86_struct_sk_buff_list :: ctype where
  \<comment> \<open>\<^verbatim>\<open>struct sk_buff_list\<close>, lines 12466 to 12469\<close>
  "x86_struct_sk_buff_list =
    Struct [Field ''next'' Pointer,
    Field ''prev'' Pointer]"

lemma x86_struct_sk_buff_list_layout [layout]:
  "size_of abi_x86 x86_struct_sk_buff_list = 16" "align_of abi_x86 x86_struct_sk_buff_list = 8"
  by (simp_all add: x86_struct_sk_buff_list_def abi_x86_def layout_eval layout [unfolded abi_x86_def])

definition x86_t_arch_spinlock_t :: ctype where
  \<comment> \<open>\<^verbatim>\<open>typedef arch_spinlock_t\<close>, lines 11956 to 11956\<close>
  "x86_t_arch_spinlock_t =
    Struct []"

lemma x86_t_arch_spinlock_t_layout [layout]:
  "size_of abi_x86 x86_t_arch_spinlock_t = 0" "align_of abi_x86 x86_t_arch_spinlock_t = 1"
  by (simp_all add: x86_t_arch_spinlock_t_def abi_x86_def layout_eval layout [unfolded abi_x86_def])

definition x86_struct_raw_spinlock :: ctype where
  \<comment> \<open>\<^verbatim>\<open>struct raw_spinlock\<close>, lines 12181 to 12183\<close>
  "x86_struct_raw_spinlock =
    Struct [Field ''raw_lock'' x86_t_arch_spinlock_t]"

lemma x86_struct_raw_spinlock_layout [layout]:
  "size_of abi_x86 x86_struct_raw_spinlock = 0" "align_of abi_x86 x86_struct_raw_spinlock = 1"
  by (simp_all add: x86_struct_raw_spinlock_def abi_x86_def layout_eval layout [unfolded abi_x86_def])

definition x86_struct_spinlock :: ctype where
  \<comment> \<open>\<^verbatim>\<open>struct spinlock\<close>, lines 12283 to 12287\<close>
  "x86_struct_spinlock =
    Struct [Anonymous (Union [Field ''rlock'' x86_struct_raw_spinlock])]"

lemma x86_struct_spinlock_layout [layout]:
  "size_of abi_x86 x86_struct_spinlock = 0" "align_of abi_x86 x86_struct_spinlock = 1"
  by (simp_all add: x86_struct_spinlock_def abi_x86_def layout_eval layout [unfolded abi_x86_def])

definition x86_t_spinlock_t :: ctype where
  \<comment> \<open>\<^verbatim>\<open>typedef spinlock_t\<close>, lines 12050 to 12050\<close>
  "x86_t_spinlock_t =
    x86_struct_spinlock"

lemma x86_t_spinlock_t_layout [layout]:
  "size_of abi_x86 x86_t_spinlock_t = 0" "align_of abi_x86 x86_t_spinlock_t = 1"
  by (simp_all add: x86_t_spinlock_t_def abi_x86_def layout_eval layout [unfolded abi_x86_def])

definition x86_struct_sk_buff_head :: ctype where
  \<comment> \<open>\<^verbatim>\<open>struct sk_buff_head\<close>, lines 12471 to 12481\<close>
  "x86_struct_sk_buff_head =
    Struct [Anonymous (Union [Anonymous (Struct [Field ''next'' Pointer,
        Field ''prev'' Pointer]),
      Field ''list'' x86_struct_sk_buff_list]),
    Field ''qlen'' x86_t_uu_u32,
    Field ''lock'' x86_t_spinlock_t]"

lemma x86_struct_sk_buff_head_layout [layout]:
  "size_of abi_x86 x86_struct_sk_buff_head = 24" "align_of abi_x86 x86_struct_sk_buff_head = 8"
  by (simp_all add: x86_struct_sk_buff_head_def abi_x86_def layout_eval layout [unfolded abi_x86_def])

definition x86_t_u16 :: ctype where
  \<comment> \<open>\<^verbatim>\<open>typedef u16\<close>, lines 11806 to 11806\<close>
  "x86_t_u16 =
    x86_t_uu_u16"

lemma x86_t_u16_layout [layout]:
  "size_of abi_x86 x86_t_u16 = 2" "align_of abi_x86 x86_t_u16 = 2"
  by (simp_all add: x86_t_u16_def abi_x86_def layout_eval layout [unfolded abi_x86_def])

definition x86_t_u8 :: ctype where
  \<comment> \<open>\<^verbatim>\<open>typedef u8\<close>, lines 11818 to 11818\<close>
  "x86_t_u8 =
    x86_t_uu_u8"

lemma x86_t_u8_layout [layout]:
  "size_of abi_x86 x86_t_u8 = 1" "align_of abi_x86 x86_t_u8 = 1"
  by (simp_all add: x86_t_u8_def abi_x86_def layout_eval layout [unfolded abi_x86_def])

definition x86_struct_list_head :: ctype where
  \<comment> \<open>\<^verbatim>\<open>struct list_head\<close>, lines 12185 to 12188\<close>
  "x86_struct_list_head =
    Struct [Field ''next'' Pointer,
    Field ''prev'' Pointer]"

lemma x86_struct_list_head_layout [layout]:
  "size_of abi_x86 x86_struct_list_head = 16" "align_of abi_x86 x86_struct_list_head = 8"
  by (simp_all add: x86_struct_list_head_def abi_x86_def layout_eval layout [unfolded abi_x86_def])

definition x86_struct_wait_queue_head :: ctype where
  \<comment> \<open>\<^verbatim>\<open>struct wait_queue_head\<close>, lines 12302 to 12305\<close>
  "x86_struct_wait_queue_head =
    Struct [Field ''lock'' x86_t_spinlock_t,
    Field ''head'' x86_struct_list_head]"

lemma x86_struct_wait_queue_head_layout [layout]:
  "size_of abi_x86 x86_struct_wait_queue_head = 16" "align_of abi_x86 x86_struct_wait_queue_head = 8"
  by (simp_all add: x86_struct_wait_queue_head_def abi_x86_def layout_eval layout [unfolded abi_x86_def])

definition x86_t_wait_queue_head_t :: ctype where
  \<comment> \<open>\<^verbatim>\<open>typedef wait_queue_head_t\<close>, lines 12307 to 12307\<close>
  "x86_t_wait_queue_head_t =
    x86_struct_wait_queue_head"

lemma x86_t_wait_queue_head_t_layout [layout]:
  "size_of abi_x86 x86_t_wait_queue_head_t = 16" "align_of abi_x86 x86_t_wait_queue_head_t = 8"
  by (simp_all add: x86_t_wait_queue_head_t_def abi_x86_def layout_eval layout [unfolded abi_x86_def])

definition x86_t_socket_lock_t :: ctype where
  \<comment> \<open>\<^verbatim>\<open>typedef socket_lock_t\<close>, lines 12309 to 12313\<close>
  "x86_t_socket_lock_t =
    Struct [Field ''slock'' x86_t_spinlock_t,
    Field ''owned'' (Scalar TInt),
    Field ''wq'' x86_t_wait_queue_head_t]"

lemma x86_t_socket_lock_t_layout [layout]:
  "size_of abi_x86 x86_t_socket_lock_t = 24" "align_of abi_x86 x86_t_socket_lock_t = 8"
  by (simp_all add: x86_t_socket_lock_t_def abi_x86_def layout_eval layout [unfolded abi_x86_def])

definition x86_struct_rb_root :: ctype where
  \<comment> \<open>\<^verbatim>\<open>struct rb_root\<close>, lines 13125 to 13127\<close>
  "x86_struct_rb_root =
    Struct [Field ''rb_node'' Pointer]"

lemma x86_struct_rb_root_layout [layout]:
  "size_of abi_x86 x86_struct_rb_root = 8" "align_of abi_x86 x86_struct_rb_root = 8"
  by (simp_all add: x86_struct_rb_root_def abi_x86_def layout_eval layout [unfolded abi_x86_def])

definition x86_struct_page_frag :: ctype where
  \<comment> \<open>\<^verbatim>\<open>struct page_frag\<close>, lines 30945 to 30949\<close>
  "x86_struct_page_frag =
    Struct [Field ''page'' Pointer,
    Field ''offset'' x86_t_uu_u32,
    Field ''size'' x86_t_uu_u32]"

lemma x86_struct_page_frag_layout [layout]:
  "size_of abi_x86 x86_struct_page_frag = 16" "align_of abi_x86 x86_struct_page_frag = 8"
  by (simp_all add: x86_struct_page_frag_def abi_x86_def layout_eval layout [unfolded abi_x86_def])

definition x86_struct_timer_list :: ctype where
  \<comment> \<open>\<^verbatim>\<open>struct timer_list\<close>, lines 13783 to 13788\<close>
  "x86_struct_timer_list =
    Struct [Field ''entry'' x86_struct_hlist_node,
    Field ''expires'' (Scalar TULong),
    Field ''function'' Pointer,
    Field ''flags'' x86_t_u32]"

lemma x86_struct_timer_list_layout [layout]:
  "size_of abi_x86 x86_struct_timer_list = 40" "align_of abi_x86 x86_struct_timer_list = 8"
  by (simp_all add: x86_struct_timer_list_def abi_x86_def layout_eval layout [unfolded abi_x86_def])

definition x86_t_u64 :: ctype where
  \<comment> \<open>\<^verbatim>\<open>typedef u64\<close>, lines 11706 to 11706\<close>
  "x86_t_u64 =
    x86_t_uu_u64"

lemma x86_t_u64_layout [layout]:
  "size_of abi_x86 x86_t_u64 = 8" "align_of abi_x86 x86_t_u64 = 8"
  by (simp_all add: x86_t_u64_def abi_x86_def layout_eval layout [unfolded abi_x86_def])

definition x86_t_netdev_features_t :: ctype where
  \<comment> \<open>\<^verbatim>\<open>typedef netdev_features_t\<close>, lines 11728 to 11728\<close>
  "x86_t_netdev_features_t =
    x86_t_u64"

lemma x86_t_netdev_features_t_layout [layout]:
  "size_of abi_x86 x86_t_netdev_features_t = 8" "align_of abi_x86 x86_t_netdev_features_t = 8"
  by (simp_all add: x86_t_netdev_features_t_def abi_x86_def layout_eval layout [unfolded abi_x86_def])

definition x86_t_gfp_t :: ctype where
  \<comment> \<open>\<^verbatim>\<open>typedef gfp_t\<close>, lines 11896 to 11896\<close>
  "x86_t_gfp_t =
    Scalar TUInt"

lemma x86_t_gfp_t_layout [layout]:
  "size_of abi_x86 x86_t_gfp_t = 4" "align_of abi_x86 x86_t_gfp_t = 4"
  by (simp_all add: x86_t_gfp_t_def abi_x86_def layout_eval layout [unfolded abi_x86_def])

definition x86_t_bool :: ctype where
  \<comment> \<open>\<^verbatim>\<open>typedef bool\<close>, lines 11592 to 11592\<close>
  "x86_t_bool =
    Scalar TBool"

lemma x86_t_bool_layout [layout]:
  "size_of abi_x86 x86_t_bool = 1" "align_of abi_x86 x86_t_bool = 1"
  by (simp_all add: x86_t_bool_def abi_x86_def layout_eval layout [unfolded abi_x86_def])

definition x86_t_arch_rwlock_t :: ctype where
  \<comment> \<open>\<^verbatim>\<open>typedef arch_rwlock_t\<close>, lines 11954 to 11954\<close>
  "x86_t_arch_rwlock_t =
    Struct []"

lemma x86_t_arch_rwlock_t_layout [layout]:
  "size_of abi_x86 x86_t_arch_rwlock_t = 0" "align_of abi_x86 x86_t_arch_rwlock_t = 1"
  by (simp_all add: x86_t_arch_rwlock_t_def abi_x86_def layout_eval layout [unfolded abi_x86_def])

definition x86_t_rwlock_t :: ctype where
  \<comment> \<open>\<^verbatim>\<open>typedef rwlock_t\<close>, lines 12076 to 12078\<close>
  "x86_t_rwlock_t =
    Struct [Field ''raw_lock'' x86_t_arch_rwlock_t]"

lemma x86_t_rwlock_t_layout [layout]:
  "size_of abi_x86 x86_t_rwlock_t = 0" "align_of abi_x86 x86_t_rwlock_t = 1"
  by (simp_all add: x86_t_rwlock_t_def abi_x86_def layout_eval layout [unfolded abi_x86_def])

definition x86_t_uu_kernel_uid32_t :: ctype where
  \<comment> \<open>\<^verbatim>\<open>typedef __kernel_uid32_t\<close>, lines 11854 to 11854\<close>
  "x86_t_uu_kernel_uid32_t =
    Scalar TUInt"

lemma x86_t_uu_kernel_uid32_t_layout [layout]:
  "size_of abi_x86 x86_t_uu_kernel_uid32_t = 4" "align_of abi_x86 x86_t_uu_kernel_uid32_t = 4"
  by (simp_all add: x86_t_uu_kernel_uid32_t_def abi_x86_def layout_eval layout [unfolded abi_x86_def])

definition x86_t_uid_t :: ctype where
  \<comment> \<open>\<^verbatim>\<open>typedef uid_t\<close>, lines 11932 to 11932\<close>
  "x86_t_uid_t =
    x86_t_uu_kernel_uid32_t"

lemma x86_t_uid_t_layout [layout]:
  "size_of abi_x86 x86_t_uid_t = 4" "align_of abi_x86 x86_t_uid_t = 4"
  by (simp_all add: x86_t_uid_t_def abi_x86_def layout_eval layout [unfolded abi_x86_def])

definition x86_t_kuid_t :: ctype where
  \<comment> \<open>\<^verbatim>\<open>typedef kuid_t\<close>, lines 12165 to 12167\<close>
  "x86_t_kuid_t =
    Struct [Field ''val'' x86_t_uid_t]"

lemma x86_t_kuid_t_layout [layout]:
  "size_of abi_x86 x86_t_kuid_t = 4" "align_of abi_x86 x86_t_kuid_t = 4"
  by (simp_all add: x86_t_kuid_t_def abi_x86_def layout_eval layout [unfolded abi_x86_def])

definition x86_t_ktime_t :: ctype where
  \<comment> \<open>\<^verbatim>\<open>typedef ktime_t\<close>, lines 11684 to 11684\<close>
  "x86_t_ktime_t =
    x86_t_s64"

lemma x86_t_ktime_t_layout [layout]:
  "size_of abi_x86 x86_t_ktime_t = 8" "align_of abi_x86 x86_t_ktime_t = 8"
  by (simp_all add: x86_t_ktime_t_def abi_x86_def layout_eval layout [unfolded abi_x86_def])

definition x86_struct_sock_cgroup_data :: ctype where
  \<comment> \<open>\<^verbatim>\<open>struct sock_cgroup_data\<close>, lines 30951 to 30951\<close>
  "x86_struct_sock_cgroup_data =
    Struct []"

lemma x86_struct_sock_cgroup_data_layout [layout]:
  "size_of abi_x86 x86_struct_sock_cgroup_data = 0" "align_of abi_x86 x86_struct_sock_cgroup_data = 1"
  by (simp_all add: x86_struct_sock_cgroup_data_def abi_x86_def layout_eval layout [unfolded abi_x86_def])

definition x86_struct_callback_head :: ctype where
  \<comment> \<open>\<^verbatim>\<open>struct callback_head\<close>, lines 12506 to 12509\<close>
  "x86_struct_callback_head =
    Struct [Field ''next'' Pointer,
    Field ''func'' Pointer]"

lemma x86_struct_callback_head_layout [layout]:
  "size_of abi_x86 x86_struct_callback_head = 16" "align_of abi_x86 x86_struct_callback_head = 8"
  by (simp_all add: x86_struct_callback_head_def abi_x86_def layout_eval layout [unfolded abi_x86_def])

definition x86_t_netns_tracker :: ctype where
  \<comment> \<open>\<^verbatim>\<open>typedef netns_tracker\<close>, lines 12213 to 12213\<close>
  "x86_t_netns_tracker =
    Struct []"

lemma x86_t_netns_tracker_layout [layout]:
  "size_of abi_x86 x86_t_netns_tracker = 0" "align_of abi_x86 x86_t_netns_tracker = 1"
  by (simp_all add: x86_t_netns_tracker_def abi_x86_def layout_eval layout [unfolded abi_x86_def])

definition x86_struct_xarray :: ctype where
  \<comment> \<open>\<^verbatim>\<open>struct xarray\<close>, lines 13110 to 13114\<close>
  "x86_struct_xarray =
    Struct [Field ''xa_lock'' x86_t_spinlock_t,
    Field ''xa_flags'' x86_t_gfp_t,
    Field ''xa_head'' Pointer]"

lemma x86_struct_xarray_layout [layout]:
  "size_of abi_x86 x86_struct_xarray = 16" "align_of abi_x86 x86_struct_xarray = 8"
  by (simp_all add: x86_struct_xarray_def abi_x86_def layout_eval layout [unfolded abi_x86_def])

definition x86_struct_sock :: ctype where
  \<comment> \<open>\<^verbatim>\<open>struct sock\<close>, lines 30961 to 31077\<close>
  "x86_struct_sock =
    Struct [Field ''__sk_common'' x86_struct_sock_common,
    Field ''__cacheline_group_begin__sock_write_rx'' (Array x86_t_uu_u8 0),
    Field ''sk_drops'' x86_t_atomic_t,
    Field ''sk_peek_off'' x86_t_uu_s32,
    Field ''sk_error_queue'' x86_struct_sk_buff_head,
    Field ''sk_receive_queue'' x86_struct_sk_buff_head,
    Field ''sk_backlog'' (Struct [Field ''rmem_alloc'' x86_t_atomic_t,
      Field ''len'' (Scalar TInt),
      Field ''head'' Pointer,
      Field ''tail'' Pointer]),
    Field ''__cacheline_group_end__sock_write_rx'' (Array x86_t_uu_u8 0),
    Field ''__cacheline_group_begin__sock_read_rx'' (Array x86_t_uu_u8 0),
    Field ''sk_rx_dst'' Pointer,
    Field ''sk_rx_dst_ifindex'' (Scalar TInt),
    Field ''sk_rx_dst_cookie'' x86_t_u32,
    Field ''sk_ll_usec'' (Scalar TUInt),
    Field ''sk_napi_id'' (Scalar TUInt),
    Field ''sk_busy_poll_budget'' x86_t_u16,
    Field ''sk_prefer_busy_poll'' x86_t_u8,
    Field ''sk_userlocks'' x86_t_u8,
    Field ''sk_rcvbuf'' (Scalar TInt),
    Field ''sk_filter'' Pointer,
    Anonymous (Union [Field ''sk_wq'' Pointer,
      Field ''sk_wq_raw'' Pointer]),
    Field ''sk_data_ready'' Pointer,
    Field ''sk_rcvtimeo'' (Scalar TLong),
    Field ''sk_rcvlowat'' (Scalar TInt),
    Field ''__cacheline_group_end__sock_read_rx'' (Array x86_t_uu_u8 0),
    Field ''__cacheline_group_begin__sock_read_rxtx'' (Array x86_t_uu_u8 0),
    Field ''sk_err'' (Scalar TInt),
    Field ''sk_socket'' Pointer,
    Field ''sk_memcg'' Pointer,
    Field ''__cacheline_group_end__sock_read_rxtx'' (Array x86_t_uu_u8 0),
    Field ''__cacheline_group_begin__sock_write_rxtx'' (Array x86_t_uu_u8 0),
    Field ''sk_lock'' x86_t_socket_lock_t,
    Field ''sk_reserved_mem'' x86_t_u32,
    Field ''sk_forward_alloc'' (Scalar TInt),
    Field ''sk_tsflags'' x86_t_u32,
    Field ''__cacheline_group_end__sock_write_rxtx'' (Array x86_t_uu_u8 0),
    Field ''__cacheline_group_begin__sock_write_tx'' (Array x86_t_uu_u8 0),
    Field ''sk_write_pending'' (Scalar TInt),
    Field ''sk_omem_alloc'' x86_t_atomic_t,
    Field ''sk_sndbuf'' (Scalar TInt),
    Field ''sk_wmem_queued'' (Scalar TInt),
    Field ''sk_wmem_alloc'' x86_t_refcount_t,
    Field ''sk_tsq_flags'' (Scalar TULong),
    Anonymous (Union [Field ''sk_send_head'' Pointer,
      Field ''tcp_rtx_queue'' x86_struct_rb_root]),
    Field ''sk_write_queue'' x86_struct_sk_buff_head,
    Field ''sk_dst_pending_confirm'' x86_t_u32,
    Field ''sk_pacing_status'' x86_t_u32,
    Field ''sk_frag'' x86_struct_page_frag,
    Field ''sk_timer'' x86_struct_timer_list,
    Field ''sk_pacing_rate'' (Scalar TULong),
    Field ''sk_zckey'' x86_t_atomic_t,
    Field ''sk_tskey'' x86_t_atomic_t,
    Field ''__cacheline_group_end__sock_write_tx'' (Array x86_t_uu_u8 0),
    Field ''__cacheline_group_begin__sock_read_tx'' (Array x86_t_uu_u8 0),
    Field ''sk_max_pacing_rate'' (Scalar TULong),
    Field ''sk_sndtimeo'' (Scalar TLong),
    Field ''sk_priority'' x86_t_u32,
    Field ''sk_mark'' x86_t_u32,
    Field ''sk_dst_cache'' Pointer,
    Field ''sk_route_caps'' x86_t_netdev_features_t,
    Field ''sk_gso_type'' x86_t_u16,
    Field ''sk_gso_max_segs'' x86_t_u16,
    Field ''sk_gso_max_size'' (Scalar TUInt),
    Field ''sk_allocation'' x86_t_gfp_t,
    Field ''sk_txhash'' x86_t_u32,
    Field ''sk_pacing_shift'' x86_t_u8,
    Field ''sk_use_task_frag'' x86_t_bool,
    Field ''__cacheline_group_end__sock_read_tx'' (Array x86_t_uu_u8 0),
    Bits ''sk_gso_disabled'' x86_t_u8 1,
    Bits ''sk_kern_sock'' x86_t_u8 1,
    Bits ''sk_no_check_tx'' x86_t_u8 1,
    Bits ''sk_no_check_rx'' x86_t_u8 1,
    Field ''sk_shutdown'' x86_t_u8,
    Field ''sk_type'' x86_t_u16,
    Field ''sk_protocol'' x86_t_u16,
    Field ''sk_lingertime'' (Scalar TULong),
    Field ''sk_prot_creator'' Pointer,
    Field ''sk_callback_lock'' x86_t_rwlock_t,
    Field ''sk_err_soft'' (Scalar TInt),
    Field ''sk_ack_backlog'' x86_t_u32,
    Field ''sk_max_ack_backlog'' x86_t_u32,
    Field ''sk_uid'' x86_t_kuid_t,
    Field ''sk_peer_lock'' x86_t_spinlock_t,
    Field ''sk_bind_phc'' (Scalar TInt),
    Field ''sk_peer_pid'' Pointer,
    Field ''sk_peer_cred'' Pointer,
    Field ''sk_stamp'' x86_t_ktime_t,
    Field ''sk_disconnects'' (Scalar TInt),
    Field ''sk_txrehash'' x86_t_u8,
    Field ''sk_clockid'' x86_t_u8,
    Bits ''sk_txtime_deadline_mode'' x86_t_u8 1,
    Bits ''sk_txtime_report_errors'' x86_t_u8 1,
    Bits ''sk_txtime_unused'' x86_t_u8 6,
    Field ''sk_user_data'' Pointer,
    Field ''sk_cgrp_data'' x86_struct_sock_cgroup_data,
    Field ''sk_state_change'' Pointer,
    Field ''sk_write_space'' Pointer,
    Field ''sk_error_report'' Pointer,
    Field ''sk_backlog_rcv'' Pointer,
    Field ''sk_destruct'' Pointer,
    Field ''sk_reuseport_cb'' Pointer,
    Field ''sk_bpf_storage'' Pointer,
    Field ''sk_rcu'' x86_struct_callback_head,
    Field ''ns_tracker'' x86_t_netns_tracker,
    Field ''sk_user_frags'' x86_struct_xarray]"

lemma x86_struct_sock_layout [layout]:
  "size_of abi_x86 x86_struct_sock = 704" "align_of abi_x86 x86_struct_sock = 8"
  by (simp_all add: x86_struct_sock_def abi_x86_def layout_eval layout [unfolded abi_x86_def])

definition x86_t_uu_s16 :: ctype where
  \<comment> \<open>\<^verbatim>\<open>typedef __s16\<close>, lines 11782 to 11782\<close>
  "x86_t_uu_s16 =
    Scalar TShort"

lemma x86_t_uu_s16_layout [layout]:
  "size_of abi_x86 x86_t_uu_s16 = 2" "align_of abi_x86 x86_t_uu_s16 = 2"
  by (simp_all add: x86_t_uu_s16_def abi_x86_def layout_eval layout [unfolded abi_x86_def])

definition x86_struct_inet_cork :: ctype where
  \<comment> \<open>\<^verbatim>\<open>struct inet_cork\<close>, lines 31079 to 31094\<close>
  "x86_struct_inet_cork =
    Struct [Field ''flags'' (Scalar TUInt),
    Field ''addr'' x86_t_uu_be32,
    Field ''opt'' Pointer,
    Field ''fragsize'' (Scalar TUInt),
    Field ''length'' (Scalar TInt),
    Field ''dst'' Pointer,
    Field ''tx_flags'' x86_t_u8,
    Field ''ttl'' x86_t_uu_u8,
    Field ''tos'' x86_t_uu_s16,
    Field ''priority'' x86_t_u32,
    Field ''gso_size'' x86_t_uu_u16,
    Field ''ts_opt_id'' x86_t_u32,
    Field ''transmit_time'' x86_t_u64,
    Field ''mark'' x86_t_u32]"

lemma x86_struct_inet_cork_layout [layout]:
  "size_of abi_x86 x86_struct_inet_cork = 64" "align_of abi_x86 x86_struct_inet_cork = 8"
  by (simp_all add: x86_struct_inet_cork_def abi_x86_def layout_eval layout [unfolded abi_x86_def])

definition x86_t_uu_be64 :: ctype where
  \<comment> \<open>\<^verbatim>\<open>typedef __be64\<close>, lines 11702 to 11702\<close>
  "x86_t_uu_be64 =
    x86_t_uu_u64"

lemma x86_t_uu_be64_layout [layout]:
  "size_of abi_x86 x86_t_uu_be64 = 8" "align_of abi_x86 x86_t_uu_be64 = 8"
  by (simp_all add: x86_t_uu_be64_def abi_x86_def layout_eval layout [unfolded abi_x86_def])

definition x86_struct_flowi_tunnel :: ctype where
  \<comment> \<open>\<^verbatim>\<open>struct flowi_tunnel\<close>, lines 27792 to 27794\<close>
  "x86_struct_flowi_tunnel =
    Struct [Field ''tun_id'' x86_t_uu_be64]"

lemma x86_struct_flowi_tunnel_layout [layout]:
  "size_of abi_x86 x86_struct_flowi_tunnel = 8" "align_of abi_x86 x86_struct_flowi_tunnel = 8"
  by (simp_all add: x86_struct_flowi_tunnel_def abi_x86_def layout_eval layout [unfolded abi_x86_def])

definition x86_struct_flowi_common :: ctype where
  \<comment> \<open>\<^verbatim>\<open>struct flowi_common\<close>, lines 27796 to 27809\<close>
  "x86_struct_flowi_common =
    Struct [Field ''flowic_oif'' (Scalar TInt),
    Field ''flowic_iif'' (Scalar TInt),
    Field ''flowic_l3mdev'' (Scalar TInt),
    Field ''flowic_mark'' x86_t_uu_u32,
    Field ''flowic_tos'' x86_t_uu_u8,
    Field ''flowic_scope'' x86_t_uu_u8,
    Field ''flowic_proto'' x86_t_uu_u8,
    Field ''flowic_flags'' x86_t_uu_u8,
    Field ''flowic_secid'' x86_t_uu_u32,
    Field ''flowic_uid'' x86_t_kuid_t,
    Field ''flowic_multipath_hash'' x86_t_uu_u32,
    Field ''flowic_tun_key'' x86_struct_flowi_tunnel]"

lemma x86_struct_flowi_common_layout [layout]:
  "size_of abi_x86 x86_struct_flowi_common = 40" "align_of abi_x86 x86_struct_flowi_common = 8"
  by (simp_all add: x86_struct_flowi_common_def abi_x86_def layout_eval layout [unfolded abi_x86_def])

definition x86_union_flowi_uli :: ctype where
  \<comment> \<open>\<^verbatim>\<open>union flowi_uli\<close>, lines 27811 to 27824\<close>
  "x86_union_flowi_uli =
    Union [Field ''ports'' (Struct [Field ''dport'' x86_t_uu_be16,
      Field ''sport'' x86_t_uu_be16]),
    Field ''icmpt'' (Struct [Field ''type'' x86_t_uu_u8,
      Field ''code'' x86_t_uu_u8]),
    Field ''gre_key'' x86_t_uu_be32,
    Field ''mht'' (Struct [Field ''type'' x86_t_uu_u8])]"

lemma x86_union_flowi_uli_layout [layout]:
  "size_of abi_x86 x86_union_flowi_uli = 4" "align_of abi_x86 x86_union_flowi_uli = 4"
  by (simp_all add: x86_union_flowi_uli_def abi_x86_def layout_eval layout [unfolded abi_x86_def])

definition x86_struct_flowi4 :: ctype where
  \<comment> \<open>\<^verbatim>\<open>struct flowi4\<close>, lines 27826 to 27831\<close>
  "x86_struct_flowi4 =
    Struct [Field ''__fl_common'' x86_struct_flowi_common,
    Field ''saddr'' x86_t_uu_be32,
    Field ''daddr'' x86_t_uu_be32,
    Field ''uli'' x86_union_flowi_uli]"

lemma x86_struct_flowi4_layout [layout]:
  "size_of abi_x86 x86_struct_flowi4 = 56" "align_of abi_x86 x86_struct_flowi4 = 8"
  by (simp_all add: x86_struct_flowi4_def abi_x86_def layout_eval layout [unfolded abi_x86_def])

definition x86_struct_flowi6 :: ctype where
  \<comment> \<open>\<^verbatim>\<open>struct flowi6\<close>, lines 27833 to 27840\<close>
  "x86_struct_flowi6 =
    Struct [Field ''__fl_common'' x86_struct_flowi_common,
    Field ''daddr'' x86_struct_in6_addr,
    Field ''saddr'' x86_struct_in6_addr,
    Field ''flowlabel'' x86_t_uu_be32,
    Field ''uli'' x86_union_flowi_uli,
    Field ''mp_hash'' x86_t_uu_u32]"

lemma x86_struct_flowi6_layout [layout]:
  "size_of abi_x86 x86_struct_flowi6 = 88" "align_of abi_x86 x86_struct_flowi6 = 8"
  by (simp_all add: x86_struct_flowi6_def abi_x86_def layout_eval layout [unfolded abi_x86_def])

definition x86_struct_flowi :: ctype where
  \<comment> \<open>\<^verbatim>\<open>struct flowi\<close>, lines 27842 to 27848\<close>
  "x86_struct_flowi =
    Struct [Field ''u'' (Union [Field ''__fl_common'' x86_struct_flowi_common,
      Field ''ip4'' x86_struct_flowi4,
      Field ''ip6'' x86_struct_flowi6])]"

lemma x86_struct_flowi_layout [layout]:
  "size_of abi_x86 x86_struct_flowi = 88" "align_of abi_x86 x86_struct_flowi = 8"
  by (simp_all add: x86_struct_flowi_def abi_x86_def layout_eval layout [unfolded abi_x86_def])

definition x86_struct_inet_cork_full :: ctype where
  \<comment> \<open>\<^verbatim>\<open>struct inet_cork_full\<close>, lines 31096 to 31099\<close>
  "x86_struct_inet_cork_full =
    Struct [Field ''base'' x86_struct_inet_cork,
    Field ''fl'' x86_struct_flowi]"

lemma x86_struct_inet_cork_full_layout [layout]:
  "size_of abi_x86 x86_struct_inet_cork_full = 152" "align_of abi_x86 x86_struct_inet_cork_full = 8"
  by (simp_all add: x86_struct_inet_cork_full_def abi_x86_def layout_eval layout [unfolded abi_x86_def])

definition x86_struct_inet_sock :: ctype where
  \<comment> \<open>\<^verbatim>\<open>struct inet_sock\<close>, lines 31105 to 31126\<close>
  "x86_struct_inet_sock =
    Struct [Field ''sk'' x86_struct_sock,
    Field ''pinet6'' Pointer,
    Field ''inet_flags'' (Scalar TULong),
    Field ''inet_saddr'' x86_t_uu_be32,
    Field ''uc_ttl'' x86_t_uu_s16,
    Field ''inet_sport'' x86_t_uu_be16,
    Field ''inet_opt'' Pointer,
    Field ''inet_id'' x86_t_atomic_t,
    Field ''tos'' x86_t_uu_u8,
    Field ''min_ttl'' x86_t_uu_u8,
    Field ''mc_ttl'' x86_t_uu_u8,
    Field ''pmtudisc'' x86_t_uu_u8,
    Field ''rcv_tos'' x86_t_uu_u8,
    Field ''convert_csum'' x86_t_uu_u8,
    Field ''uc_index'' (Scalar TInt),
    Field ''mc_index'' (Scalar TInt),
    Field ''mc_addr'' x86_t_uu_be32,
    Field ''local_port_range'' x86_t_u32,
    Field ''mc_list'' Pointer,
    Field ''cork'' x86_struct_inet_cork_full]"

lemma x86_struct_inet_sock_layout [layout]:
  "size_of abi_x86 x86_struct_inet_sock = 928" "align_of abi_x86 x86_struct_inet_sock = 8"
  by (simp_all add: x86_struct_inet_sock_def abi_x86_def layout_eval layout [unfolded abi_x86_def])

definition x86_struct_fastopen_queue :: ctype where
  \<comment> \<open>\<^verbatim>\<open>struct fastopen_queue\<close>, lines 26322 to 26329\<close>
  "x86_struct_fastopen_queue =
    Struct [Field ''rskq_rst_head'' Pointer,
    Field ''rskq_rst_tail'' Pointer,
    Field ''lock'' x86_t_spinlock_t,
    Field ''qlen'' (Scalar TInt),
    Field ''max_qlen'' (Scalar TInt),
    Field ''ctx'' Pointer]"

lemma x86_struct_fastopen_queue_layout [layout]:
  "size_of abi_x86 x86_struct_fastopen_queue = 32" "align_of abi_x86 x86_struct_fastopen_queue = 8"
  by (simp_all add: x86_struct_fastopen_queue_def abi_x86_def layout_eval layout [unfolded abi_x86_def])

definition x86_struct_request_sock_queue :: ctype where
  \<comment> \<open>\<^verbatim>\<open>struct request_sock_queue\<close>, lines 31128 to 31137\<close>
  "x86_struct_request_sock_queue =
    Struct [Field ''rskq_lock'' x86_t_spinlock_t,
    Field ''rskq_defer_accept'' x86_t_u8,
    Field ''synflood_warned'' x86_t_u32,
    Field ''qlen'' x86_t_atomic_t,
    Field ''young'' x86_t_atomic_t,
    Field ''rskq_accept_head'' Pointer,
    Field ''rskq_accept_tail'' Pointer,
    Field ''fastopenq'' x86_struct_fastopen_queue]"

lemma x86_struct_request_sock_queue_layout [layout]:
  "size_of abi_x86 x86_struct_request_sock_queue = 64" "align_of abi_x86 x86_struct_request_sock_queue = 8"
  by (simp_all add: x86_struct_request_sock_queue_def abi_x86_def layout_eval layout [unfolded abi_x86_def])

definition x86_struct_inet_connection_sock :: ctype where
  \<comment> \<open>\<^verbatim>\<open>struct inet_connection_sock\<close>, lines 31143 to 31194\<close>
  "x86_struct_inet_connection_sock =
    Struct [Field ''icsk_inet'' x86_struct_inet_sock,
    Field ''icsk_accept_queue'' x86_struct_request_sock_queue,
    Field ''icsk_bind_hash'' Pointer,
    Field ''icsk_bind2_hash'' Pointer,
    Field ''icsk_timeout'' (Scalar TULong),
    Field ''icsk_retransmit_timer'' x86_struct_timer_list,
    Field ''icsk_delack_timer'' x86_struct_timer_list,
    Field ''icsk_rto'' x86_t_uu_u32,
    Field ''icsk_rto_min'' x86_t_uu_u32,
    Field ''icsk_delack_max'' x86_t_uu_u32,
    Field ''icsk_pmtu_cookie'' x86_t_uu_u32,
    Field ''icsk_ca_ops'' Pointer,
    Field ''icsk_af_ops'' Pointer,
    Field ''icsk_ulp_ops'' Pointer,
    Field ''icsk_ulp_data'' Pointer,
    Field ''icsk_clean_acked'' Pointer,
    Field ''icsk_sync_mss'' Pointer,
    Bits ''icsk_ca_state'' x86_t_uu_u8 5,
    Bits ''icsk_ca_initialized'' x86_t_uu_u8 1,
    Bits ''icsk_ca_setsockopt'' x86_t_uu_u8 1,
    Bits ''icsk_ca_dst_locked'' x86_t_uu_u8 1,
    Field ''icsk_retransmits'' x86_t_uu_u8,
    Field ''icsk_pending'' x86_t_uu_u8,
    Field ''icsk_backoff'' x86_t_uu_u8,
    Field ''icsk_syn_retries'' x86_t_uu_u8,
    Field ''icsk_probes_out'' x86_t_uu_u8,
    Field ''icsk_ext_hdr_len'' x86_t_uu_u16,
    Field ''icsk_ack'' (Struct [Field ''pending'' x86_t_uu_u8,
      Field ''quick'' x86_t_uu_u8,
      Field ''pingpong'' x86_t_uu_u8,
      Field ''retry'' x86_t_uu_u8,
      Bits ''ato'' x86_t_uu_u32 8,
      Bits ''lrcv_flowlabel'' x86_t_uu_u32 20,
      Bits ''unused'' x86_t_uu_u32 4,
      Field ''timeout'' (Scalar TULong),
      Field ''lrcvtime'' x86_t_uu_u32,
      Field ''last_seg_size'' x86_t_uu_u16,
      Field ''rcv_mss'' x86_t_uu_u16]),
    Field ''icsk_mtup'' (Struct [Field ''search_high'' (Scalar TInt),
      Field ''search_low'' (Scalar TInt),
      Bits ''probe_size'' x86_t_u32 31,
      Bits ''enabled'' x86_t_u32 1,
      Field ''probe_timestamp'' x86_t_u32]),
    Field ''icsk_probes_tstamp'' x86_t_u32,
    Field ''icsk_user_timeout'' x86_t_u32,
    Field ''icsk_ca_priv'' (Array x86_t_u64 13)]"

lemma x86_struct_inet_connection_sock_layout [layout]:
  "size_of abi_x86 x86_struct_inet_connection_sock = 1320" "align_of abi_x86 x86_struct_inet_connection_sock = 8"
  by (simp_all add: x86_struct_inet_connection_sock_def abi_x86_def layout_eval layout [unfolded abi_x86_def])

definition x86_struct_minmax_sample :: ctype where
  \<comment> \<open>\<^verbatim>\<open>struct minmax_sample\<close>, lines 35835 to 35838\<close>
  "x86_struct_minmax_sample =
    Struct [Field ''t'' x86_t_u32,
    Field ''v'' x86_t_u32]"

lemma x86_struct_minmax_sample_layout [layout]:
  "size_of abi_x86 x86_struct_minmax_sample = 8" "align_of abi_x86 x86_struct_minmax_sample = 4"
  by (simp_all add: x86_struct_minmax_sample_def abi_x86_def layout_eval layout [unfolded abi_x86_def])

definition x86_struct_minmax :: ctype where
  \<comment> \<open>\<^verbatim>\<open>struct minmax\<close>, lines 35840 to 35842\<close>
  "x86_struct_minmax =
    Struct [Field ''s'' (Array x86_struct_minmax_sample 3)]"

lemma x86_struct_minmax_layout [layout]:
  "size_of abi_x86 x86_struct_minmax = 24" "align_of abi_x86 x86_struct_minmax = 4"
  by (simp_all add: x86_struct_minmax_def abi_x86_def layout_eval layout [unfolded abi_x86_def])

definition x86_struct_tcp_options_received :: ctype where
  \<comment> \<open>\<^verbatim>\<open>struct tcp_options_received\<close>, lines 44713 to 44731\<close>
  "x86_struct_tcp_options_received =
    Struct [Field ''ts_recent_stamp'' (Scalar TInt),
    Field ''ts_recent'' x86_t_u32,
    Field ''rcv_tsval'' x86_t_u32,
    Field ''rcv_tsecr'' x86_t_u32,
    Bits ''saw_tstamp'' x86_t_u16 1,
    Bits ''tstamp_ok'' x86_t_u16 1,
    Bits ''dsack'' x86_t_u16 1,
    Bits ''wscale_ok'' x86_t_u16 1,
    Bits ''sack_ok'' x86_t_u16 3,
    Bits ''smc_ok'' x86_t_u16 1,
    Bits ''snd_wscale'' x86_t_u16 4,
    Bits ''rcv_wscale'' x86_t_u16 4,
    Bits ''saw_unknown'' x86_t_u8 1,
    Bits ''unused'' x86_t_u8 7,
    Field ''num_sacks'' x86_t_u8,
    Field ''user_mss'' x86_t_u16,
    Field ''mss_clamp'' x86_t_u16]"

lemma x86_struct_tcp_options_received_layout [layout]:
  "size_of abi_x86 x86_struct_tcp_options_received = 24" "align_of abi_x86 x86_struct_tcp_options_received = 4"
  by (simp_all add: x86_struct_tcp_options_received_def abi_x86_def layout_eval layout [unfolded abi_x86_def])

definition x86_struct_tcp_rack :: ctype where
  \<comment> \<open>\<^verbatim>\<open>struct tcp_rack\<close>, lines 44733 to 44742\<close>
  "x86_struct_tcp_rack =
    Struct [Field ''mstamp'' x86_t_u64,
    Field ''rtt_us'' x86_t_u32,
    Field ''end_seq'' x86_t_u32,
    Field ''last_delivered'' x86_t_u32,
    Field ''reo_wnd_steps'' x86_t_u8,
    Bits ''reo_wnd_persist'' x86_t_u8 5,
    Bits ''dsack_seen'' x86_t_u8 1,
    Bits ''advanced'' x86_t_u8 1]"

lemma x86_struct_tcp_rack_layout [layout]:
  "size_of abi_x86 x86_struct_tcp_rack = 24" "align_of abi_x86 x86_struct_tcp_rack = 8"
  by (simp_all add: x86_struct_tcp_rack_def abi_x86_def layout_eval layout [unfolded abi_x86_def])

definition x86_struct_rb_node :: ctype where
  \<comment> \<open>\<^verbatim>\<open>struct rb_node\<close>, lines 13238 to 13242\<close>
  "x86_struct_rb_node =
    Struct [Field ''__rb_parent_color'' (Scalar TULong),
    Field ''rb_right'' Pointer,
    Field ''rb_left'' Pointer]"

lemma x86_struct_rb_node_layout [layout]:
  "size_of abi_x86 x86_struct_rb_node = 24" "align_of abi_x86 x86_struct_rb_node = 8"
  by (simp_all add: x86_struct_rb_node_def abi_x86_def layout_eval layout [unfolded abi_x86_def])

definition x86_struct_timerqueue_node :: ctype where
  \<comment> \<open>\<^verbatim>\<open>struct timerqueue_node\<close>, lines 13244 to 13247\<close>
  "x86_struct_timerqueue_node =
    Struct [Field ''node'' x86_struct_rb_node,
    Field ''expires'' x86_t_ktime_t]"

lemma x86_struct_timerqueue_node_layout [layout]:
  "size_of abi_x86 x86_struct_timerqueue_node = 32" "align_of abi_x86 x86_struct_timerqueue_node = 8"
  by (simp_all add: x86_struct_timerqueue_node_def abi_x86_def layout_eval layout [unfolded abi_x86_def])

definition x86_struct_hrtimer :: ctype where
  \<comment> \<open>\<^verbatim>\<open>struct hrtimer\<close>, lines 13251 to 13260\<close>
  "x86_struct_hrtimer =
    Struct [Field ''node'' x86_struct_timerqueue_node,
    Field ''_softexpires'' x86_t_ktime_t,
    Field ''function'' Pointer,
    Field ''base'' Pointer,
    Field ''state'' x86_t_u8,
    Field ''is_rel'' x86_t_u8,
    Field ''is_soft'' x86_t_u8,
    Field ''is_hard'' x86_t_u8]"

lemma x86_struct_hrtimer_layout [layout]:
  "size_of abi_x86 x86_struct_hrtimer = 64" "align_of abi_x86 x86_struct_hrtimer = 8"
  by (simp_all add: x86_struct_hrtimer_def abi_x86_def layout_eval layout [unfolded abi_x86_def])

definition x86_struct_tcp_sack_block :: ctype where
  \<comment> \<open>\<^verbatim>\<open>struct tcp_sack_block\<close>, lines 44744 to 44747\<close>
  "x86_struct_tcp_sack_block =
    Struct [Field ''start_seq'' x86_t_u32,
    Field ''end_seq'' x86_t_u32]"

lemma x86_struct_tcp_sack_block_layout [layout]:
  "size_of abi_x86 x86_struct_tcp_sack_block = 8" "align_of abi_x86 x86_struct_tcp_sack_block = 4"
  by (simp_all add: x86_struct_tcp_sack_block_def abi_x86_def layout_eval layout [unfolded abi_x86_def])

definition x86_struct_tcp_sock :: ctype where
  \<comment> \<open>\<^verbatim>\<open>struct tcp_sock\<close>, lines 44751 to 44922\<close>
  "x86_struct_tcp_sock =
    Struct [Field ''inet_conn'' x86_struct_inet_connection_sock,
    Field ''__cacheline_group_begin__tcp_sock_read_tx'' (Array x86_t_uu_u8 0),
    Field ''max_window'' x86_t_u32,
    Field ''rcv_ssthresh'' x86_t_u32,
    Field ''reordering'' x86_t_u32,
    Field ''notsent_lowat'' x86_t_u32,
    Field ''gso_segs'' x86_t_u16,
    Field ''lost_skb_hint'' Pointer,
    Field ''retransmit_skb_hint'' Pointer,
    Field ''__cacheline_group_end__tcp_sock_read_tx'' (Array x86_t_uu_u8 0),
    Field ''__cacheline_group_begin__tcp_sock_read_txrx'' (Array x86_t_uu_u8 0),
    Field ''tsoffset'' x86_t_u32,
    Field ''snd_wnd'' x86_t_u32,
    Field ''mss_cache'' x86_t_u32,
    Field ''snd_cwnd'' x86_t_u32,
    Field ''prr_out'' x86_t_u32,
    Field ''lost_out'' x86_t_u32,
    Field ''sacked_out'' x86_t_u32,
    Field ''tcp_header_len'' x86_t_u16,
    Field ''scaling_ratio'' x86_t_u8,
    Bits ''chrono_type'' x86_t_u8 2,
    Bits ''repair'' x86_t_u8 1,
    Bits ''tcp_usec_ts'' x86_t_u8 1,
    Bits ''is_sack_reneg'' x86_t_u8 1,
    Bits ''is_cwnd_limited'' x86_t_u8 1,
    Field ''__cacheline_group_end__tcp_sock_read_txrx'' (Array x86_t_uu_u8 0),
    Field ''__cacheline_group_begin__tcp_sock_read_rx'' (Array x86_t_uu_u8 0),
    Field ''copied_seq'' x86_t_u32,
    Field ''rcv_tstamp'' x86_t_u32,
    Field ''snd_wl1'' x86_t_u32,
    Field ''tlp_high_seq'' x86_t_u32,
    Field ''rttvar_us'' x86_t_u32,
    Field ''retrans_out'' x86_t_u32,
    Field ''advmss'' x86_t_u16,
    Field ''urg_data'' x86_t_u16,
    Field ''lost'' x86_t_u32,
    Field ''rtt_min'' x86_struct_minmax,
    Field ''out_of_order_queue'' x86_struct_rb_root,
    Field ''snd_ssthresh'' x86_t_u32,
    Bits ''recvmsg_inq'' x86_t_u8 1,
    Field ''__cacheline_group_end__tcp_sock_read_rx'' (Array x86_t_uu_u8 0),
    Padding (Scalar TLong) 64,
    Field ''__cacheline_group_begin__tcp_sock_write_tx'' (Array x86_t_uu_u8 0),
    Field ''segs_out'' x86_t_u32,
    Field ''data_segs_out'' x86_t_u32,
    Field ''bytes_sent'' x86_t_u64,
    Field ''snd_sml'' x86_t_u32,
    Field ''chrono_start'' x86_t_u32,
    Field ''chrono_stat'' (Array x86_t_u32 3),
    Field ''write_seq'' x86_t_u32,
    Field ''pushed_seq'' x86_t_u32,
    Field ''lsndtime'' x86_t_u32,
    Field ''mdev_us'' x86_t_u32,
    Field ''rtt_seq'' x86_t_u32,
    Field ''tcp_wstamp_ns'' x86_t_u64,
    Field ''tsorted_sent_queue'' x86_struct_list_head,
    Field ''highest_sack'' Pointer,
    Field ''ecn_flags'' x86_t_u8,
    Field ''__cacheline_group_end__tcp_sock_write_tx'' (Array x86_t_uu_u8 0),
    Field ''__cacheline_group_begin__tcp_sock_write_txrx'' (Array x86_t_uu_u8 0),
    Field ''pred_flags'' x86_t_uu_be32,
    Field ''tcp_clock_cache'' x86_t_u64,
    Field ''tcp_mstamp'' x86_t_u64,
    Field ''rcv_nxt'' x86_t_u32,
    Field ''snd_nxt'' x86_t_u32,
    Field ''snd_una'' x86_t_u32,
    Field ''window_clamp'' x86_t_u32,
    Field ''srtt_us'' x86_t_u32,
    Field ''packets_out'' x86_t_u32,
    Field ''snd_up'' x86_t_u32,
    Field ''delivered'' x86_t_u32,
    Field ''delivered_ce'' x86_t_u32,
    Field ''app_limited'' x86_t_u32,
    Field ''rcv_wnd'' x86_t_u32,
    Field ''rx_opt'' x86_struct_tcp_options_received,
    Bits ''nonagle'' x86_t_u8 4,
    Bits ''rate_app_limited'' x86_t_u8 1,
    Field ''__cacheline_group_end__tcp_sock_write_txrx'' (Array x86_t_uu_u8 0),
    Padding (Scalar TLong) 0,
    Field ''__cacheline_group_begin__tcp_sock_write_rx'' (Array x86_t_uu_u8 0),
    Field ''bytes_received'' x86_t_u64,
    Field ''segs_in'' x86_t_u32,
    Field ''data_segs_in'' x86_t_u32,
    Field ''rcv_wup'' x86_t_u32,
    Field ''max_packets_out'' x86_t_u32,
    Field ''cwnd_usage_seq'' x86_t_u32,
    Field ''rate_delivered'' x86_t_u32,
    Field ''rate_interval_us'' x86_t_u32,
    Field ''rcv_rtt_last_tsecr'' x86_t_u32,
    Field ''first_tx_mstamp'' x86_t_u64,
    Field ''delivered_mstamp'' x86_t_u64,
    Field ''bytes_acked'' x86_t_u64,
    Field ''rcv_rtt_est'' (Struct [Field ''rtt_us'' x86_t_u32,
      Field ''seq'' x86_t_u32,
      Field ''time'' x86_t_u64]),
    Field ''rcvq_space'' (Struct [Field ''space'' x86_t_u32,
      Field ''seq'' x86_t_u32,
      Field ''time'' x86_t_u64]),
    Field ''__cacheline_group_end__tcp_sock_write_rx'' (Array x86_t_uu_u8 0),
    Field ''dsack_dups'' x86_t_u32,
    Field ''compressed_ack_rcv_nxt'' x86_t_u32,
    Field ''tsq_node'' x86_struct_list_head,
    Field ''rack'' x86_struct_tcp_rack,
    Field ''compressed_ack'' x86_t_u8,
    Bits ''dup_ack_counter'' x86_t_u8 2,
    Bits ''tlp_retrans'' x86_t_u8 1,
    Bits ''unused'' x86_t_u8 5,
    Bits ''thin_lto'' x86_t_u8 1,
    Bits ''fastopen_connect'' x86_t_u8 1,
    Bits ''fastopen_no_cookie'' x86_t_u8 1,
    Bits ''fastopen_client_fail'' x86_t_u8 2,
    Bits ''frto'' x86_t_u8 1,
    Field ''repair_queue'' x86_t_u8,
    Bits ''save_syn'' x86_t_u8 2,
    Bits ''syn_data'' x86_t_u8 1,
    Bits ''syn_fastopen'' x86_t_u8 1,
    Bits ''syn_fastopen_exp'' x86_t_u8 1,
    Bits ''syn_fastopen_ch'' x86_t_u8 1,
    Bits ''syn_data_acked'' x86_t_u8 1,
    Field ''keepalive_probes'' x86_t_u8,
    Field ''tcp_tx_delay'' x86_t_u32,
    Field ''mdev_max_us'' x86_t_u32,
    Field ''reord_seen'' x86_t_u32,
    Field ''snd_cwnd_cnt'' x86_t_u32,
    Field ''snd_cwnd_clamp'' x86_t_u32,
    Field ''snd_cwnd_used'' x86_t_u32,
    Field ''snd_cwnd_stamp'' x86_t_u32,
    Field ''prior_cwnd'' x86_t_u32,
    Field ''prr_delivered'' x86_t_u32,
    Field ''last_oow_ack_time'' x86_t_u32,
    Field ''pacing_timer'' x86_struct_hrtimer,
    Field ''compressed_ack_timer'' x86_struct_hrtimer,
    Field ''ooo_last_skb'' Pointer,
    Field ''duplicate_sack'' (Array x86_struct_tcp_sack_block 1),
    Field ''selective_acks'' (Array x86_struct_tcp_sack_block 4),
    Field ''recv_sack_cache'' (Array x86_struct_tcp_sack_block 4),
    Field ''lost_cnt_hint'' (Scalar TInt),
    Field ''prior_ssthresh'' x86_t_u32,
    Field ''high_seq'' x86_t_u32,
    Field ''retrans_stamp'' x86_t_u32,
    Field ''undo_marker'' x86_t_u32,
    Field ''undo_retrans'' (Scalar TInt),
    Field ''bytes_retrans'' x86_t_u64,
    Field ''total_retrans'' x86_t_u32,
    Field ''rto_stamp'' x86_t_u32,
    Field ''total_rto'' x86_t_u16,
    Field ''total_rto_recoveries'' x86_t_u16,
    Field ''total_rto_time'' x86_t_u32,
    Field ''urg_seq'' x86_t_u32,
    Field ''keepalive_time'' (Scalar TUInt),
    Field ''keepalive_intvl'' (Scalar TUInt),
    Field ''linger2'' (Scalar TInt),
    Field ''bpf_sock_ops_cb_flags'' x86_t_u8,
    Bits ''bpf_chg_cc_inprogress'' x86_t_u8 1,
    Field ''timeout_rehash'' x86_t_u16,
    Field ''rcv_ooopack'' x86_t_u32,
    Field ''mtu_probe'' (Struct [Field ''probe_seq_start'' x86_t_u32,
      Field ''probe_seq_end'' x86_t_u32]),
    Field ''plb_rehash'' x86_t_u32,
    Field ''mtu_info'' x86_t_u32,
    Field ''fastopen_req'' Pointer,
    Field ''fastopen_rsk'' Pointer,
    Field ''saved_syn'' Pointer,
    Padding (Scalar TLong) 64]"

lemma x86_struct_tcp_sock_layout [layout]:
  "size_of abi_x86 x86_struct_tcp_sock = 2176" "align_of abi_x86 x86_struct_tcp_sock = 8"
  by (simp_all add: x86_struct_tcp_sock_def abi_x86_def layout_eval layout [unfolded abi_x86_def])

definition x86_struct_in6_pktinfo :: ctype where
  \<comment> \<open>\<^verbatim>\<open>struct in6_pktinfo\<close>, lines 30564 to 30567\<close>
  "x86_struct_in6_pktinfo =
    Struct [Field ''ipi6_addr'' x86_struct_in6_addr,
    Field ''ipi6_ifindex'' (Scalar TInt)]"

lemma x86_struct_in6_pktinfo_layout [layout]:
  "size_of abi_x86 x86_struct_in6_pktinfo = 20" "align_of abi_x86 x86_struct_in6_pktinfo = 4"
  by (simp_all add: x86_struct_in6_pktinfo_def abi_x86_def layout_eval layout [unfolded abi_x86_def])

definition x86_t_s16 :: ctype where
  \<comment> \<open>\<^verbatim>\<open>typedef s16\<close>, lines 11784 to 11784\<close>
  "x86_t_s16 =
    x86_t_uu_s16"

lemma x86_t_s16_layout [layout]:
  "size_of abi_x86 x86_t_s16 = 2" "align_of abi_x86 x86_t_s16 = 2"
  by (simp_all add: x86_t_s16_def abi_x86_def layout_eval layout [unfolded abi_x86_def])

definition x86_struct_inet6_cork :: ctype where
  \<comment> \<open>\<^verbatim>\<open>struct inet6_cork\<close>, lines 30661 to 30665\<close>
  "x86_struct_inet6_cork =
    Struct [Field ''opt'' Pointer,
    Field ''hop_limit'' x86_t_u8,
    Field ''tclass'' x86_t_u8]"

lemma x86_struct_inet6_cork_layout [layout]:
  "size_of abi_x86 x86_struct_inet6_cork = 16" "align_of abi_x86 x86_struct_inet6_cork = 8"
  by (simp_all add: x86_struct_inet6_cork_def abi_x86_def layout_eval layout [unfolded abi_x86_def])

definition x86_struct_ipv6_pinfo :: ctype where
  \<comment> \<open>\<^verbatim>\<open>struct ipv6_pinfo\<close>, lines 32470 to 32513\<close>
  "x86_struct_ipv6_pinfo =
    Struct [Field ''saddr'' x86_struct_in6_addr,
    Field ''sticky_pktinfo'' x86_struct_in6_pktinfo,
    Field ''daddr_cache'' Pointer,
    Field ''flow_label'' x86_t_uu_be32,
    Field ''frag_size'' x86_t_uu_u32,
    Field ''hop_limit'' x86_t_s16,
    Field ''mcast_hops'' x86_t_u8,
    Field ''ucast_oif'' (Scalar TInt),
    Field ''mcast_oif'' (Scalar TInt),
    Field ''rxopt'' (Union [Field ''bits'' (Struct [Bits ''srcrt'' x86_t_uu_u16 1,
        Bits ''osrcrt'' x86_t_uu_u16 1,
        Bits ''rxinfo'' x86_t_uu_u16 1,
        Bits ''rxoinfo'' x86_t_uu_u16 1,
        Bits ''rxhlim'' x86_t_uu_u16 1,
        Bits ''rxohlim'' x86_t_uu_u16 1,
        Bits ''hopopts'' x86_t_uu_u16 1,
        Bits ''ohopopts'' x86_t_uu_u16 1,
        Bits ''dstopts'' x86_t_uu_u16 1,
        Bits ''odstopts'' x86_t_uu_u16 1,
        Bits ''rxflow'' x86_t_uu_u16 1,
        Bits ''rxtclass'' x86_t_uu_u16 1,
        Bits ''rxpmtu'' x86_t_uu_u16 1,
        Bits ''rxorigdstaddr'' x86_t_uu_u16 1,
        Bits ''recvfragsize'' x86_t_uu_u16 1]),
      Field ''all'' x86_t_uu_u16]),
    Field ''srcprefs'' x86_t_uu_u8,
    Field ''pmtudisc'' x86_t_uu_u8,
    Field ''min_hopcount'' x86_t_uu_u8,
    Field ''tclass'' x86_t_uu_u8,
    Field ''rcv_flowinfo'' x86_t_uu_be32,
    Field ''dst_cookie'' x86_t_uu_u32,
    Field ''ipv6_mc_list'' Pointer,
    Field ''ipv6_ac_list'' Pointer,
    Field ''ipv6_fl_list'' Pointer,
    Field ''opt'' Pointer,
    Field ''pktoptions'' Pointer,
    Field ''rxpmtu'' Pointer,
    Field ''cork'' x86_struct_inet6_cork]"

lemma x86_struct_ipv6_pinfo_layout [layout]:
  "size_of abi_x86 x86_struct_ipv6_pinfo = 152" "align_of abi_x86 x86_struct_ipv6_pinfo = 8"
  by (simp_all add: x86_struct_ipv6_pinfo_def abi_x86_def layout_eval layout [unfolded abi_x86_def])

definition x86_struct_tcp6_sock :: ctype where
  \<comment> \<open>\<^verbatim>\<open>struct tcp6_sock\<close>, lines 44924 to 44932\<close>
  "x86_struct_tcp6_sock =
    Struct [Field ''tcp'' x86_struct_tcp_sock,
    Field ''inet6'' x86_struct_ipv6_pinfo,
    Padding (Scalar TLong) 64,
    Padding (Scalar TLong) 64,
    Padding (Scalar TLong) 64,
    Padding (Scalar TLong) 64,
    Padding (Scalar TLong) 64]"

lemma x86_struct_tcp6_sock_layout [layout]:
  "size_of abi_x86 x86_struct_tcp6_sock = 2368" "align_of abi_x86 x86_struct_tcp6_sock = 8"
  by (simp_all add: x86_struct_tcp6_sock_def abi_x86_def layout_eval layout [unfolded abi_x86_def])

definition x86_struct_udp_sock :: ctype where
  \<comment> \<open>\<^verbatim>\<open>struct udp_sock\<close>, lines 49689 to 49710\<close>
  "x86_struct_udp_sock =
    Struct [Field ''inet'' x86_struct_inet_sock,
    Field ''udp_flags'' (Scalar TULong),
    Field ''pending'' (Scalar TInt),
    Field ''encap_type'' x86_t_uu_u8,
    Field ''udp_lrpa_hash'' x86_t_uu_u16,
    Field ''udp_lrpa_node'' x86_struct_hlist_nulls_node,
    Field ''len'' x86_t_uu_u16,
    Field ''gso_size'' x86_t_uu_u16,
    Field ''pcslen'' x86_t_uu_u16,
    Field ''pcrlen'' x86_t_uu_u16,
    Field ''encap_rcv'' Pointer,
    Field ''encap_err_rcv'' Pointer,
    Field ''encap_err_lookup'' Pointer,
    Field ''encap_destroy'' Pointer,
    Field ''gro_receive'' Pointer,
    Field ''gro_complete'' Pointer,
    Field ''reader_queue'' x86_struct_sk_buff_head,
    Field ''forward_deficit'' (Scalar TInt),
    Field ''forward_threshold'' (Scalar TInt),
    Field ''peeking_with_offset'' x86_t_bool]"

lemma x86_struct_udp_sock_layout [layout]:
  "size_of abi_x86 x86_struct_udp_sock = 1056" "align_of abi_x86 x86_struct_udp_sock = 8"
  by (simp_all add: x86_struct_udp_sock_def abi_x86_def layout_eval layout [unfolded abi_x86_def])

definition x86_struct_udp6_sock :: ctype where
  \<comment> \<open>\<^verbatim>\<open>struct udp6_sock\<close>, lines 49712 to 49715\<close>
  "x86_struct_udp6_sock =
    Struct [Field ''udp'' x86_struct_udp_sock,
    Field ''inet6'' x86_struct_ipv6_pinfo]"

lemma x86_struct_udp6_sock_layout [layout]:
  "size_of abi_x86 x86_struct_udp6_sock = 1208" "align_of abi_x86 x86_struct_udp6_sock = 8"
  by (simp_all add: x86_struct_udp6_sock_def abi_x86_def layout_eval layout [unfolded abi_x86_def])

definition x86_struct_icmp6_filter :: ctype where
  \<comment> \<open>\<^verbatim>\<open>struct icmp6_filter\<close>, lines 30079 to 30081\<close>
  "x86_struct_icmp6_filter =
    Struct [Field ''data'' (Array x86_t_uu_u32 8)]"

lemma x86_struct_icmp6_filter_layout [layout]:
  "size_of abi_x86 x86_struct_icmp6_filter = 32" "align_of abi_x86 x86_struct_icmp6_filter = 4"
  by (simp_all add: x86_struct_icmp6_filter_def abi_x86_def layout_eval layout [unfolded abi_x86_def])

definition x86_struct_raw6_sock :: ctype where
  \<comment> \<open>\<^verbatim>\<open>struct raw6_sock\<close>, lines 41657 to 41664\<close>
  "x86_struct_raw6_sock =
    Struct [Field ''inet'' x86_struct_inet_sock,
    Field ''checksum'' x86_t_uu_u32,
    Field ''offset'' x86_t_uu_u32,
    Field ''filter'' x86_struct_icmp6_filter,
    Field ''ip6mr_table'' x86_t_uu_u32,
    Field ''inet6'' x86_struct_ipv6_pinfo]"

lemma x86_struct_raw6_sock_layout [layout]:
  "size_of abi_x86 x86_struct_raw6_sock = 1128" "align_of abi_x86 x86_struct_raw6_sock = 8"
  by (simp_all add: x86_struct_raw6_sock_def abi_x86_def layout_eval layout [unfolded abi_x86_def])

definition x86_t_uu_kernel_ulong_t :: ctype where
  \<comment> \<open>\<^verbatim>\<open>typedef __kernel_ulong_t\<close>, lines 11742 to 11742\<close>
  "x86_t_uu_kernel_ulong_t =
    Scalar TULong"

lemma x86_t_uu_kernel_ulong_t_layout [layout]:
  "size_of abi_x86 x86_t_uu_kernel_ulong_t = 8" "align_of abi_x86 x86_t_uu_kernel_ulong_t = 8"
  by (simp_all add: x86_t_uu_kernel_ulong_t_def abi_x86_def layout_eval layout [unfolded abi_x86_def])

definition x86_t_uu_kernel_size_t :: ctype where
  \<comment> \<open>\<^verbatim>\<open>typedef __kernel_size_t\<close>, lines 11744 to 11744\<close>
  "x86_t_uu_kernel_size_t =
    x86_t_uu_kernel_ulong_t"

lemma x86_t_uu_kernel_size_t_layout [layout]:
  "size_of abi_x86 x86_t_uu_kernel_size_t = 8" "align_of abi_x86 x86_t_uu_kernel_size_t = 8"
  by (simp_all add: x86_t_uu_kernel_size_t_def abi_x86_def layout_eval layout [unfolded abi_x86_def])

definition x86_t_size_t :: ctype where
  \<comment> \<open>\<^verbatim>\<open>typedef size_t\<close>, lines 11774 to 11774\<close>
  "x86_t_size_t =
    x86_t_uu_kernel_size_t"

lemma x86_t_size_t_layout [layout]:
  "size_of abi_x86 x86_t_size_t = 8" "align_of abi_x86 x86_t_size_t = 8"
  by (simp_all add: x86_t_size_t_def abi_x86_def layout_eval layout [unfolded abi_x86_def])

definition x86_struct_iovec :: ctype where
  \<comment> \<open>\<^verbatim>\<open>struct iovec\<close>, lines 31900 to 31903\<close>
  "x86_struct_iovec =
    Struct [Field ''iov_base'' Pointer,
    Field ''iov_len'' x86_t_uu_kernel_size_t]"

lemma x86_struct_iovec_layout [layout]:
  "size_of abi_x86 x86_struct_iovec = 16" "align_of abi_x86 x86_struct_iovec = 8"
  by (simp_all add: x86_struct_iovec_def abi_x86_def layout_eval layout [unfolded abi_x86_def])

definition x86_t_uu_kernel_loff_t :: ctype where
  \<comment> \<open>\<^verbatim>\<open>typedef __kernel_loff_t\<close>, lines 11676 to 11676\<close>
  "x86_t_uu_kernel_loff_t =
    Scalar TLongLong"

lemma x86_t_uu_kernel_loff_t_layout [layout]:
  "size_of abi_x86 x86_t_uu_kernel_loff_t = 8" "align_of abi_x86 x86_t_uu_kernel_loff_t = 8"
  by (simp_all add: x86_t_uu_kernel_loff_t_def abi_x86_def layout_eval layout [unfolded abi_x86_def])

definition x86_t_loff_t :: ctype where
  \<comment> \<open>\<^verbatim>\<open>typedef loff_t\<close>, lines 11686 to 11686\<close>
  "x86_t_loff_t =
    x86_t_uu_kernel_loff_t"

lemma x86_t_loff_t_layout [layout]:
  "size_of abi_x86 x86_t_loff_t = 8" "align_of abi_x86 x86_t_loff_t = 8"
  by (simp_all add: x86_t_loff_t_def abi_x86_def layout_eval layout [unfolded abi_x86_def])

definition x86_struct_iov_iter :: ctype where
  \<comment> \<open>\<^verbatim>\<open>struct iov_iter\<close>, lines 31907 to 31931\<close>
  "x86_struct_iov_iter =
    Struct [Field ''iter_type'' x86_t_u8,
    Field ''nofault'' x86_t_bool,
    Field ''data_source'' x86_t_bool,
    Field ''iov_offset'' x86_t_size_t,
    Anonymous (Union [Field ''__ubuf_iovec'' x86_struct_iovec,
      Anonymous (Struct [Anonymous (Union [Field ''__iov'' Pointer,
          Field ''kvec'' Pointer,
          Field ''bvec'' Pointer,
          Field ''folioq'' Pointer,
          Field ''xarray'' Pointer,
          Field ''ubuf'' Pointer]),
        Field ''count'' x86_t_size_t])]),
    Anonymous (Union [Field ''nr_segs'' (Scalar TULong),
      Field ''folioq_slot'' x86_t_u8,
      Field ''xarray_start'' x86_t_loff_t])]"

lemma x86_struct_iov_iter_layout [layout]:
  "size_of abi_x86 x86_struct_iov_iter = 40" "align_of abi_x86 x86_struct_iov_iter = 8"
  by (simp_all add: x86_struct_iov_iter_def abi_x86_def layout_eval layout [unfolded abi_x86_def])

definition x86_struct_msghdr :: ctype where
  \<comment> \<open>\<^verbatim>\<open>struct msghdr\<close>, lines 36468 to 36484\<close>
  "x86_struct_msghdr =
    Struct [Field ''msg_name'' Pointer,
    Field ''msg_namelen'' (Scalar TInt),
    Field ''msg_inq'' (Scalar TInt),
    Field ''msg_iter'' x86_struct_iov_iter,
    Anonymous (Union [Field ''msg_control'' Pointer,
      Field ''msg_control_user'' Pointer]),
    Bits ''msg_control_is_user'' x86_t_bool 1,
    Bits ''msg_get_inq'' x86_t_bool 1,
    Field ''msg_flags'' (Scalar TUInt),
    Field ''msg_controllen'' x86_t_uu_kernel_size_t,
    Field ''msg_iocb'' Pointer,
    Field ''msg_ubuf'' Pointer,
    Field ''sg_from_iter'' Pointer]"

lemma x86_struct_msghdr_layout [layout]:
  "size_of abi_x86 x86_struct_msghdr = 104" "align_of abi_x86 x86_struct_msghdr = 8"
  by (simp_all add: x86_struct_msghdr_def abi_x86_def layout_eval layout [unfolded abi_x86_def])

definition x86_t_uu_kernel_sa_family_t :: ctype where
  \<comment> \<open>\<^verbatim>\<open>typedef __kernel_sa_family_t\<close>, lines 11794 to 11794\<close>
  "x86_t_uu_kernel_sa_family_t =
    Scalar TUShort"

lemma x86_t_uu_kernel_sa_family_t_layout [layout]:
  "size_of abi_x86 x86_t_uu_kernel_sa_family_t = 2" "align_of abi_x86 x86_t_uu_kernel_sa_family_t = 2"
  by (simp_all add: x86_t_uu_kernel_sa_family_t_def abi_x86_def layout_eval layout [unfolded abi_x86_def])

definition x86_struct_in_addr :: ctype where
  \<comment> \<open>\<^verbatim>\<open>struct in_addr\<close>, lines 24700 to 24702\<close>
  "x86_struct_in_addr =
    Struct [Field ''s_addr'' x86_t_uu_be32]"

lemma x86_struct_in_addr_layout [layout]:
  "size_of abi_x86 x86_struct_in_addr = 4" "align_of abi_x86 x86_struct_in_addr = 4"
  by (simp_all add: x86_struct_in_addr_def abi_x86_def layout_eval layout [unfolded abi_x86_def])

definition x86_struct_sockaddr_in :: ctype where
  \<comment> \<open>\<^verbatim>\<open>struct sockaddr_in\<close>, lines 43605 to 43610\<close>
  "x86_struct_sockaddr_in =
    Struct [Field ''sin_family'' x86_t_uu_kernel_sa_family_t,
    Field ''sin_port'' x86_t_uu_be16,
    Field ''sin_addr'' x86_struct_in_addr,
    Field ''__pad'' (Array (Scalar TUChar) 8)]"

lemma x86_struct_sockaddr_in_layout [layout]:
  "size_of abi_x86 x86_struct_sockaddr_in = 16" "align_of abi_x86 x86_struct_sockaddr_in = 4"
  by (simp_all add: x86_struct_sockaddr_in_def abi_x86_def layout_eval layout [unfolded abi_x86_def])

definition x86_struct_sockaddr_in6 :: ctype where
  \<comment> \<open>\<^verbatim>\<open>struct sockaddr_in6\<close>, lines 31981 to 31987\<close>
  "x86_struct_sockaddr_in6 =
    Struct [Field ''sin6_family'' (Scalar TUShort),
    Field ''sin6_port'' x86_t_uu_be16,
    Field ''sin6_flowinfo'' x86_t_uu_be32,
    Field ''sin6_addr'' x86_struct_in6_addr,
    Field ''sin6_scope_id'' x86_t_uu_u32]"

lemma x86_struct_sockaddr_in6_layout [layout]:
  "size_of abi_x86 x86_struct_sockaddr_in6 = 28" "align_of abi_x86 x86_struct_sockaddr_in6 = 4"
  by (simp_all add: x86_struct_sockaddr_in6_def abi_x86_def layout_eval layout [unfolded abi_x86_def])

definition x86_struct_thread_info :: ctype where
  \<comment> \<open>\<^verbatim>\<open>struct thread_info\<close>, lines 44305 to 44309\<close>
  "x86_struct_thread_info =
    Struct [Field ''flags'' (Scalar TULong),
    Field ''syscall_work'' (Scalar TULong),
    Field ''status'' x86_t_u32]"

lemma x86_struct_thread_info_layout [layout]:
  "size_of abi_x86 x86_struct_thread_info = 24" "align_of abi_x86 x86_struct_thread_info = 8"
  by (simp_all add: x86_struct_thread_info_def abi_x86_def layout_eval layout [unfolded abi_x86_def])

definition x86_struct_load_weight :: ctype where
  \<comment> \<open>\<^verbatim>\<open>struct load_weight\<close>, lines 21932 to 21935\<close>
  "x86_struct_load_weight =
    Struct [Field ''weight'' (Scalar TULong),
    Field ''inv_weight'' x86_t_u32]"

lemma x86_struct_load_weight_layout [layout]:
  "size_of abi_x86 x86_struct_load_weight = 16" "align_of abi_x86 x86_struct_load_weight = 8"
  by (simp_all add: x86_struct_load_weight_def abi_x86_def layout_eval layout [unfolded abi_x86_def])

definition x86_struct_sched_entity :: ctype where
  \<comment> \<open>\<^verbatim>\<open>struct sched_entity\<close>, lines 42932 to 42950\<close>
  "x86_struct_sched_entity =
    Struct [Field ''load'' x86_struct_load_weight,
    Field ''run_node'' x86_struct_rb_node,
    Field ''deadline'' x86_t_u64,
    Field ''min_vruntime'' x86_t_u64,
    Field ''min_slice'' x86_t_u64,
    Field ''group_node'' x86_struct_list_head,
    Field ''on_rq'' (Scalar TUChar),
    Field ''sched_delayed'' (Scalar TUChar),
    Field ''rel_deadline'' (Scalar TUChar),
    Field ''custom_slice'' (Scalar TUChar),
    Field ''exec_start'' x86_t_u64,
    Field ''sum_exec_runtime'' x86_t_u64,
    Field ''prev_sum_exec_runtime'' x86_t_u64,
    Field ''vruntime'' x86_t_u64,
    Field ''vlag'' x86_t_s64,
    Field ''slice'' x86_t_u64,
    Field ''nr_migrations'' x86_t_u64]"

lemma x86_struct_sched_entity_layout [layout]:
  "size_of abi_x86 x86_struct_sched_entity = 144" "align_of abi_x86 x86_struct_sched_entity = 8"
  by (simp_all add: x86_struct_sched_entity_def abi_x86_def layout_eval layout [unfolded abi_x86_def])

definition x86_struct_sched_rt_entity :: ctype where
  \<comment> \<open>\<^verbatim>\<open>struct sched_rt_entity\<close>, lines 42958 to 42966\<close>
  "x86_struct_sched_rt_entity =
    Struct [Field ''run_list'' x86_struct_list_head,
    Field ''timeout'' (Scalar TULong),
    Field ''watchdog_stamp'' (Scalar TULong),
    Field ''time_slice'' (Scalar TUInt),
    Field ''on_rq'' (Scalar TUShort),
    Field ''on_list'' (Scalar TUShort),
    Field ''back'' Pointer]"

lemma x86_struct_sched_rt_entity_layout [layout]:
  "size_of abi_x86 x86_struct_sched_rt_entity = 48" "align_of abi_x86 x86_struct_sched_rt_entity = 8"
  by (simp_all add: x86_struct_sched_rt_entity_def abi_x86_def layout_eval layout [unfolded abi_x86_def])

definition x86_t_dl_server_has_tasks_f :: ctype where
  \<comment> \<open>\<^verbatim>\<open>typedef dl_server_has_tasks_f\<close>, lines 42294 to 42294\<close>
  "x86_t_dl_server_has_tasks_f =
    Pointer"

lemma x86_t_dl_server_has_tasks_f_layout [layout]:
  "size_of abi_x86 x86_t_dl_server_has_tasks_f = 8" "align_of abi_x86 x86_t_dl_server_has_tasks_f = 8"
  by (simp_all add: x86_t_dl_server_has_tasks_f_def abi_x86_def layout_eval layout [unfolded abi_x86_def])

definition x86_t_dl_server_pick_f :: ctype where
  \<comment> \<open>\<^verbatim>\<open>typedef dl_server_pick_f\<close>, lines 42296 to 42296\<close>
  "x86_t_dl_server_pick_f =
    Pointer"

lemma x86_t_dl_server_pick_f_layout [layout]:
  "size_of abi_x86 x86_t_dl_server_pick_f = 8" "align_of abi_x86 x86_t_dl_server_pick_f = 8"
  by (simp_all add: x86_t_dl_server_pick_f_def abi_x86_def layout_eval layout [unfolded abi_x86_def])

definition x86_struct_sched_dl_entity :: ctype where
  \<comment> \<open>\<^verbatim>\<open>struct sched_dl_entity\<close>, lines 42298 to 42322\<close>
  "x86_struct_sched_dl_entity =
    Struct [Field ''rb_node'' x86_struct_rb_node,
    Field ''dl_runtime'' x86_t_u64,
    Field ''dl_deadline'' x86_t_u64,
    Field ''dl_period'' x86_t_u64,
    Field ''dl_bw'' x86_t_u64,
    Field ''dl_density'' x86_t_u64,
    Field ''runtime'' x86_t_s64,
    Field ''deadline'' x86_t_u64,
    Field ''flags'' (Scalar TUInt),
    Bits ''dl_throttled'' (Scalar TUInt) 1,
    Bits ''dl_yielded'' (Scalar TUInt) 1,
    Bits ''dl_non_contending'' (Scalar TUInt) 1,
    Bits ''dl_overrun'' (Scalar TUInt) 1,
    Bits ''dl_server'' (Scalar TUInt) 1,
    Bits ''dl_server_active'' (Scalar TUInt) 1,
    Bits ''dl_defer'' (Scalar TUInt) 1,
    Bits ''dl_defer_armed'' (Scalar TUInt) 1,
    Bits ''dl_defer_running'' (Scalar TUInt) 1,
    Field ''dl_timer'' x86_struct_hrtimer,
    Field ''inactive_timer'' x86_struct_hrtimer,
    Field ''rq'' Pointer,
    Field ''server_has_tasks'' x86_t_dl_server_has_tasks_f,
    Field ''server_pick_task'' x86_t_dl_server_pick_f]"

lemma x86_struct_sched_dl_entity_layout [layout]:
  "size_of abi_x86 x86_struct_sched_dl_entity = 240" "align_of abi_x86 x86_struct_sched_dl_entity = 8"
  by (simp_all add: x86_struct_sched_dl_entity_def abi_x86_def layout_eval layout [unfolded abi_x86_def])

definition x86_struct_sched_statistics :: ctype where
  \<comment> \<open>\<^verbatim>\<open>struct sched_statistics\<close>, lines 42968 to 42968\<close>
  "x86_struct_sched_statistics =
    Struct []"

lemma x86_struct_sched_statistics_layout [layout]:
  "size_of abi_x86 x86_struct_sched_statistics = 0" "align_of abi_x86 x86_struct_sched_statistics = 1"
  by (simp_all add: x86_struct_sched_statistics_def abi_x86_def layout_eval layout [unfolded abi_x86_def])

definition x86_struct_cpumask :: ctype where
  \<comment> \<open>\<^verbatim>\<open>struct cpumask\<close>, lines 13619 to 13621\<close>
  "x86_struct_cpumask =
    Struct [Field ''bits'' (Array (Scalar TULong) 1)]"

lemma x86_struct_cpumask_layout [layout]:
  "size_of abi_x86 x86_struct_cpumask = 8" "align_of abi_x86 x86_struct_cpumask = 8"
  by (simp_all add: x86_struct_cpumask_def abi_x86_def layout_eval layout [unfolded abi_x86_def])

definition x86_t_cpumask_t :: ctype where
  \<comment> \<open>\<^verbatim>\<open>typedef cpumask_t\<close>, lines 15230 to 15230\<close>
  "x86_t_cpumask_t =
    x86_struct_cpumask"

lemma x86_t_cpumask_t_layout [layout]:
  "size_of abi_x86 x86_t_cpumask_t = 8" "align_of abi_x86 x86_t_cpumask_t = 8"
  by (simp_all add: x86_t_cpumask_t_def abi_x86_def layout_eval layout [unfolded abi_x86_def])

definition x86_union_rcu_special :: ctype where
  \<comment> \<open>\<^verbatim>\<open>union rcu_special\<close>, lines 41757 to 41765\<close>
  "x86_union_rcu_special =
    Union [Field ''b'' (Struct [Field ''blocked'' x86_t_u8,
      Field ''need_qs'' x86_t_u8,
      Field ''exp_hint'' x86_t_u8,
      Field ''need_mb'' x86_t_u8]),
    Field ''s'' x86_t_u32]"

lemma x86_union_rcu_special_layout [layout]:
  "size_of abi_x86 x86_union_rcu_special = 4" "align_of abi_x86 x86_union_rcu_special = 4"
  by (simp_all add: x86_union_rcu_special_def abi_x86_def layout_eval layout [unfolded abi_x86_def])

definition x86_struct_sched_info :: ctype where
  \<comment> \<open>\<^verbatim>\<open>struct sched_info\<close>, lines 42952 to 42952\<close>
  "x86_struct_sched_info =
    Struct []"

lemma x86_struct_sched_info_layout [layout]:
  "size_of abi_x86 x86_struct_sched_info = 0" "align_of abi_x86 x86_struct_sched_info = 1"
  by (simp_all add: x86_struct_sched_info_def abi_x86_def layout_eval layout [unfolded abi_x86_def])

definition x86_t_uu_kernel_clockid_t :: ctype where
  \<comment> \<open>\<^verbatim>\<open>typedef __kernel_clockid_t\<close>, lines 11602 to 11602\<close>
  "x86_t_uu_kernel_clockid_t =
    Scalar TInt"

lemma x86_t_uu_kernel_clockid_t_layout [layout]:
  "size_of abi_x86 x86_t_uu_kernel_clockid_t = 4" "align_of abi_x86 x86_t_uu_kernel_clockid_t = 4"
  by (simp_all add: x86_t_uu_kernel_clockid_t_def abi_x86_def layout_eval layout [unfolded abi_x86_def])

definition x86_t_clockid_t :: ctype where
  \<comment> \<open>\<^verbatim>\<open>typedef clockid_t\<close>, lines 11616 to 11616\<close>
  "x86_t_clockid_t =
    x86_t_uu_kernel_clockid_t"

lemma x86_t_clockid_t_layout [layout]:
  "size_of abi_x86 x86_t_clockid_t = 4" "align_of abi_x86 x86_t_clockid_t = 4"
  by (simp_all add: x86_t_clockid_t_def abi_x86_def layout_eval layout [unfolded abi_x86_def])

definition x86_enum_timespec_type :: ctype where
  \<comment> \<open>\<^verbatim>\<open>enum timespec_type\<close>, lines 10732 to 10736\<close>
  "x86_enum_timespec_type =
    Enum [(''TT_NONE'', 0), (''TT_NATIVE'', 1), (''TT_COMPAT'', 2)]"

lemma x86_enum_timespec_type_layout [layout]:
  "size_of abi_x86 x86_enum_timespec_type = 4" "align_of abi_x86 x86_enum_timespec_type = 4"
  by (simp_all add: x86_enum_timespec_type_def abi_x86_def layout_eval layout [unfolded abi_x86_def])

definition x86_struct_restart_block :: ctype where
  \<comment> \<open>\<^verbatim>\<open>struct restart_block\<close>, lines 42065 to 42094\<close>
  "x86_struct_restart_block =
    Struct [Field ''arch_data'' (Scalar TULong),
    Field ''fn'' Pointer,
    Anonymous (Union [Field ''futex'' (Struct [Field ''uaddr'' Pointer,
        Field ''val'' x86_t_u32,
        Field ''flags'' x86_t_u32,
        Field ''bitset'' x86_t_u32,
        Field ''time'' x86_t_u64,
        Field ''uaddr2'' Pointer]),
      Field ''nanosleep'' (Struct [Field ''clockid'' x86_t_clockid_t,
        Field ''type'' x86_enum_timespec_type,
        Anonymous (Union [Field ''rmtp'' Pointer,
          Field ''compat_rmtp'' Pointer]),
        Field ''expires'' x86_t_u64]),
      Field ''poll'' (Struct [Field ''ufds'' Pointer,
        Field ''nfds'' (Scalar TInt),
        Field ''has_timeout'' (Scalar TInt),
        Field ''tv_sec'' (Scalar TULong),
        Field ''tv_nsec'' (Scalar TULong)])])]"

lemma x86_struct_restart_block_layout [layout]:
  "size_of abi_x86 x86_struct_restart_block = 56" "align_of abi_x86 x86_struct_restart_block = 8"
  by (simp_all add: x86_struct_restart_block_def abi_x86_def layout_eval layout [unfolded abi_x86_def])

definition x86_t_uu_kernel_pid_t :: ctype where
  \<comment> \<open>\<^verbatim>\<open>typedef __kernel_pid_t\<close>, lines 11606 to 11606\<close>
  "x86_t_uu_kernel_pid_t =
    Scalar TInt"

lemma x86_t_uu_kernel_pid_t_layout [layout]:
  "size_of abi_x86 x86_t_uu_kernel_pid_t = 4" "align_of abi_x86 x86_t_uu_kernel_pid_t = 4"
  by (simp_all add: x86_t_uu_kernel_pid_t_def abi_x86_def layout_eval layout [unfolded abi_x86_def])

definition x86_t_pid_t :: ctype where
  \<comment> \<open>\<^verbatim>\<open>typedef pid_t\<close>, lines 11640 to 11640\<close>
  "x86_t_pid_t =
    x86_t_uu_kernel_pid_t"

lemma x86_t_pid_t_layout [layout]:
  "size_of abi_x86 x86_t_pid_t = 4" "align_of abi_x86 x86_t_pid_t = 4"
  by (simp_all add: x86_t_pid_t_def abi_x86_def layout_eval layout [unfolded abi_x86_def])

definition x86_t_raw_spinlock_t :: ctype where
  \<comment> \<open>\<^verbatim>\<open>typedef raw_spinlock_t\<close>, lines 12013 to 12013\<close>
  "x86_t_raw_spinlock_t =
    x86_struct_raw_spinlock"

lemma x86_t_raw_spinlock_t_layout [layout]:
  "size_of abi_x86 x86_t_raw_spinlock_t = 0" "align_of abi_x86 x86_t_raw_spinlock_t = 1"
  by (simp_all add: x86_t_raw_spinlock_t_def abi_x86_def layout_eval layout [unfolded abi_x86_def])

definition x86_struct_prev_cputime :: ctype where
  \<comment> \<open>\<^verbatim>\<open>struct prev_cputime\<close>, lines 40985 to 40989\<close>
  "x86_struct_prev_cputime =
    Struct [Field ''utime'' x86_t_u64,
    Field ''stime'' x86_t_u64,
    Field ''lock'' x86_t_raw_spinlock_t]"

lemma x86_struct_prev_cputime_layout [layout]:
  "size_of abi_x86 x86_struct_prev_cputime = 16" "align_of abi_x86 x86_struct_prev_cputime = 8"
  by (simp_all add: x86_struct_prev_cputime_def abi_x86_def layout_eval layout [unfolded abi_x86_def])

definition x86_struct_posix_cputimers :: ctype where
  \<comment> \<open>\<^verbatim>\<open>struct posix_cputimers\<close>, lines 40890 to 40890\<close>
  "x86_struct_posix_cputimers =
    Struct []"

lemma x86_struct_posix_cputimers_layout [layout]:
  "size_of abi_x86 x86_struct_posix_cputimers = 0" "align_of abi_x86 x86_struct_posix_cputimers = 1"
  by (simp_all add: x86_struct_posix_cputimers_def abi_x86_def layout_eval layout [unfolded abi_x86_def])

definition x86_t_sigset_t :: ctype where
  \<comment> \<open>\<^verbatim>\<open>typedef sigset_t\<close>, lines 12294 to 12296\<close>
  "x86_t_sigset_t =
    Struct [Field ''sig'' (Array (Scalar TULong) 1)]"

lemma x86_t_sigset_t_layout [layout]:
  "size_of abi_x86 x86_t_sigset_t = 8" "align_of abi_x86 x86_t_sigset_t = 8"
  by (simp_all add: x86_t_sigset_t_def abi_x86_def layout_eval layout [unfolded abi_x86_def])

definition x86_struct_sigpending :: ctype where
  \<comment> \<open>\<^verbatim>\<open>struct sigpending\<close>, lines 43188 to 43191\<close>
  "x86_struct_sigpending =
    Struct [Field ''list'' x86_struct_list_head,
    Field ''signal'' x86_t_sigset_t]"

lemma x86_struct_sigpending_layout [layout]:
  "size_of abi_x86 x86_struct_sigpending = 24" "align_of abi_x86 x86_struct_sigpending = 8"
  by (simp_all add: x86_struct_sigpending_def abi_x86_def layout_eval layout [unfolded abi_x86_def])

definition x86_struct_seccomp :: ctype where
  \<comment> \<open>\<^verbatim>\<open>struct seccomp\<close>, lines 43031 to 43031\<close>
  "x86_struct_seccomp =
    Struct []"

lemma x86_struct_seccomp_layout [layout]:
  "size_of abi_x86 x86_struct_seccomp = 0" "align_of abi_x86 x86_struct_seccomp = 1"
  by (simp_all add: x86_struct_seccomp_def abi_x86_def layout_eval layout [unfolded abi_x86_def])

definition x86_struct_syscall_user_dispatch :: ctype where
  \<comment> \<open>\<^verbatim>\<open>struct syscall_user_dispatch\<close>, lines 44224 to 44229\<close>
  "x86_struct_syscall_user_dispatch =
    Struct [Field ''selector'' Pointer,
    Field ''offset'' (Scalar TULong),
    Field ''len'' (Scalar TULong),
    Field ''on_dispatch'' x86_t_bool]"

lemma x86_struct_syscall_user_dispatch_layout [layout]:
  "size_of abi_x86 x86_struct_syscall_user_dispatch = 32" "align_of abi_x86 x86_struct_syscall_user_dispatch = 8"
  by (simp_all add: x86_struct_syscall_user_dispatch_def abi_x86_def layout_eval layout [unfolded abi_x86_def])

definition x86_struct_wake_q_node :: ctype where
  \<comment> \<open>\<^verbatim>\<open>struct wake_q_node\<close>, lines 44311 to 44313\<close>
  "x86_struct_wake_q_node =
    Struct [Field ''next'' Pointer]"

lemma x86_struct_wake_q_node_layout [layout]:
  "size_of abi_x86 x86_struct_wake_q_node = 8" "align_of abi_x86 x86_struct_wake_q_node = 8"
  by (simp_all add: x86_struct_wake_q_node_def abi_x86_def layout_eval layout [unfolded abi_x86_def])

definition x86_struct_task_io_accounting :: ctype where
  \<comment> \<open>\<^verbatim>\<open>struct task_io_accounting\<close>, lines 43193 to 43193\<close>
  "x86_struct_task_io_accounting =
    Struct []"

lemma x86_struct_task_io_accounting_layout [layout]:
  "size_of abi_x86 x86_struct_task_io_accounting = 0" "align_of abi_x86 x86_struct_task_io_accounting = 1"
  by (simp_all add: x86_struct_task_io_accounting_def abi_x86_def layout_eval layout [unfolded abi_x86_def])

definition x86_t_atomic_long_t :: ctype where
  \<comment> \<open>\<^verbatim>\<open>typedef atomic_long_t\<close>, lines 11962 to 11962\<close>
  "x86_t_atomic_long_t =
    x86_t_atomic64_t"

lemma x86_t_atomic_long_t_layout [layout]:
  "size_of abi_x86 x86_t_atomic_long_t = 8" "align_of abi_x86 x86_t_atomic_long_t = 8"
  by (simp_all add: x86_t_atomic_long_t_def abi_x86_def layout_eval layout [unfolded abi_x86_def])

definition x86_struct_mutex :: ctype where
  \<comment> \<open>\<^verbatim>\<open>struct mutex\<close>, lines 12190 to 12194\<close>
  "x86_struct_mutex =
    Struct [Field ''owner'' x86_t_atomic_long_t,
    Field ''wait_lock'' x86_t_raw_spinlock_t,
    Field ''wait_list'' x86_struct_list_head]"

lemma x86_struct_mutex_layout [layout]:
  "size_of abi_x86 x86_struct_mutex = 24" "align_of abi_x86 x86_struct_mutex = 8"
  by (simp_all add: x86_struct_mutex_def abi_x86_def layout_eval layout [unfolded abi_x86_def])

definition x86_struct_arch_tlbflush_unmap_batch :: ctype where
  \<comment> \<open>\<^verbatim>\<open>struct arch_tlbflush_unmap_batch\<close>, lines 13623 to 13625\<close>
  "x86_struct_arch_tlbflush_unmap_batch =
    Struct [Field ''cpumask'' x86_struct_cpumask]"

lemma x86_struct_arch_tlbflush_unmap_batch_layout [layout]:
  "size_of abi_x86 x86_struct_arch_tlbflush_unmap_batch = 8" "align_of abi_x86 x86_struct_arch_tlbflush_unmap_batch = 8"
  by (simp_all add: x86_struct_arch_tlbflush_unmap_batch_def abi_x86_def layout_eval layout [unfolded abi_x86_def])

definition x86_struct_tlbflush_unmap_batch :: ctype where
  \<comment> \<open>\<^verbatim>\<open>struct tlbflush_unmap_batch\<close>, lines 44315 to 44319\<close>
  "x86_struct_tlbflush_unmap_batch =
    Struct [Field ''arch'' x86_struct_arch_tlbflush_unmap_batch,
    Field ''flush_required'' x86_t_bool,
    Field ''writable'' x86_t_bool]"

lemma x86_struct_tlbflush_unmap_batch_layout [layout]:
  "size_of abi_x86 x86_struct_tlbflush_unmap_batch = 16" "align_of abi_x86 x86_struct_tlbflush_unmap_batch = 8"
  by (simp_all add: x86_struct_tlbflush_unmap_batch_def abi_x86_def layout_eval layout [unfolded abi_x86_def])

definition x86_struct_kmap_ctrl :: ctype where
  \<comment> \<open>\<^verbatim>\<open>struct kmap_ctrl\<close>, lines 33317 to 33317\<close>
  "x86_struct_kmap_ctrl =
    Struct []"

lemma x86_struct_kmap_ctrl_layout [layout]:
  "size_of abi_x86 x86_struct_kmap_ctrl = 0" "align_of abi_x86 x86_struct_kmap_ctrl = 1"
  by (simp_all add: x86_struct_kmap_ctrl_def abi_x86_def layout_eval layout [unfolded abi_x86_def])

definition x86_struct_llist_head :: ctype where
  \<comment> \<open>\<^verbatim>\<open>struct llist_head\<close>, lines 17075 to 17077\<close>
  "x86_struct_llist_head =
    Struct [Field ''first'' Pointer]"

lemma x86_struct_llist_head_layout [layout]:
  "size_of abi_x86 x86_struct_llist_head = 8" "align_of abi_x86 x86_struct_llist_head = 8"
  by (simp_all add: x86_struct_llist_head_def abi_x86_def layout_eval layout [unfolded abi_x86_def])

definition x86_struct_desc_struct :: ctype where
  \<comment> \<open>\<^verbatim>\<open>struct desc_struct\<close>, lines 24002 to 24016\<close>
  "x86_struct_desc_struct =
    Struct [Field ''limit0'' x86_t_u16,
    Field ''base0'' x86_t_u16,
    Bits ''base1'' x86_t_u16 8,
    Bits ''type'' x86_t_u16 4,
    Bits ''s'' x86_t_u16 1,
    Bits ''dpl'' x86_t_u16 2,
    Bits ''p'' x86_t_u16 1,
    Bits ''limit1'' x86_t_u16 4,
    Bits ''avl'' x86_t_u16 1,
    Bits ''l'' x86_t_u16 1,
    Bits ''d'' x86_t_u16 1,
    Bits ''g'' x86_t_u16 1,
    Bits ''base2'' x86_t_u16 8]"

lemma x86_struct_desc_struct_layout [layout]:
  "size_of abi_x86 x86_struct_desc_struct = 8" "align_of abi_x86 x86_struct_desc_struct = 2"
  by (simp_all add: x86_struct_desc_struct_def abi_x86_def layout_eval layout [unfolded abi_x86_def])

definition x86_struct_fpu_state_perm :: ctype where
  \<comment> \<open>\<^verbatim>\<open>struct fpu_state_perm\<close>, lines 28179 to 28183\<close>
  "x86_struct_fpu_state_perm =
    Struct [Field ''__state_perm'' x86_t_u64,
    Field ''__state_size'' (Scalar TUInt),
    Field ''__user_state_size'' (Scalar TUInt)]"

lemma x86_struct_fpu_state_perm_layout [layout]:
  "size_of abi_x86 x86_struct_fpu_state_perm = 16" "align_of abi_x86 x86_struct_fpu_state_perm = 8"
  by (simp_all add: x86_struct_fpu_state_perm_def abi_x86_def layout_eval layout [unfolded abi_x86_def])

definition x86_struct_fregs_state :: ctype where
  \<comment> \<open>\<^verbatim>\<open>struct fregs_state\<close>, lines 28062 to 28072\<close>
  "x86_struct_fregs_state =
    Struct [Field ''cwd'' x86_t_u32,
    Field ''swd'' x86_t_u32,
    Field ''twd'' x86_t_u32,
    Field ''fip'' x86_t_u32,
    Field ''fcs'' x86_t_u32,
    Field ''foo'' x86_t_u32,
    Field ''fos'' x86_t_u32,
    Field ''st_space'' (Array x86_t_u32 20),
    Field ''status'' x86_t_u32]"

lemma x86_struct_fregs_state_layout [layout]:
  "size_of abi_x86 x86_struct_fregs_state = 112" "align_of abi_x86 x86_struct_fregs_state = 4"
  by (simp_all add: x86_struct_fregs_state_def abi_x86_def layout_eval layout [unfolded abi_x86_def])

definition x86_struct_fxregs_state :: ctype where
  \<comment> \<open>\<^verbatim>\<open>struct fxregs_state\<close>, lines 28074 to 28100\<close>
  "x86_struct_fxregs_state =
    Struct [Field ''cwd'' x86_t_u16,
    Field ''swd'' x86_t_u16,
    Field ''twd'' x86_t_u16,
    Field ''fop'' x86_t_u16,
    Anonymous (Union [Anonymous (Struct [Field ''rip'' x86_t_u64,
        Field ''rdp'' x86_t_u64]),
      Anonymous (Struct [Field ''fip'' x86_t_u32,
        Field ''fcs'' x86_t_u32,
        Field ''foo'' x86_t_u32,
        Field ''fos'' x86_t_u32])]),
    Field ''mxcsr'' x86_t_u32,
    Field ''mxcsr_mask'' x86_t_u32,
    Field ''st_space'' (Array x86_t_u32 32),
    Field ''xmm_space'' (Array x86_t_u32 64),
    Field ''padding'' (Array x86_t_u32 12),
    Anonymous (Union [Field ''padding1'' (Array x86_t_u32 12),
      Field ''sw_reserved'' (Array x86_t_u32 12)])]"

lemma x86_struct_fxregs_state_layout [layout]:
  "size_of abi_x86 x86_struct_fxregs_state = 512" "align_of abi_x86 x86_struct_fxregs_state = 8"
  by (simp_all add: x86_struct_fxregs_state_def abi_x86_def layout_eval layout [unfolded abi_x86_def])

definition x86_struct_swregs_state :: ctype where
  \<comment> \<open>\<^verbatim>\<open>struct swregs_state\<close>, lines 28104 to 28121\<close>
  "x86_struct_swregs_state =
    Struct [Field ''cwd'' x86_t_u32,
    Field ''swd'' x86_t_u32,
    Field ''twd'' x86_t_u32,
    Field ''fip'' x86_t_u32,
    Field ''fcs'' x86_t_u32,
    Field ''foo'' x86_t_u32,
    Field ''fos'' x86_t_u32,
    Field ''st_space'' (Array x86_t_u32 20),
    Field ''ftop'' x86_t_u8,
    Field ''changed'' x86_t_u8,
    Field ''lookahead'' x86_t_u8,
    Field ''no_update'' x86_t_u8,
    Field ''rm'' x86_t_u8,
    Field ''alimit'' x86_t_u8,
    Field ''info'' Pointer,
    Field ''entry_eip'' x86_t_u32]"

lemma x86_struct_swregs_state_layout [layout]:
  "size_of abi_x86 x86_struct_swregs_state = 136" "align_of abi_x86 x86_struct_swregs_state = 8"
  by (simp_all add: x86_struct_swregs_state_def abi_x86_def layout_eval layout [unfolded abi_x86_def])

definition x86_struct_xstate_header :: ctype where
  \<comment> \<open>\<^verbatim>\<open>struct xstate_header\<close>, lines 28123 to 28127\<close>
  "x86_struct_xstate_header =
    Struct [Field ''xfeatures'' x86_t_u64,
    Field ''xcomp_bv'' x86_t_u64,
    Field ''reserved'' (Array x86_t_u64 6)]"

lemma x86_struct_xstate_header_layout [layout]:
  "size_of abi_x86 x86_struct_xstate_header = 64" "align_of abi_x86 x86_struct_xstate_header = 8"
  by (simp_all add: x86_struct_xstate_header_def abi_x86_def layout_eval layout [unfolded abi_x86_def])

definition x86_struct_xregs_state :: ctype where
  \<comment> \<open>\<^verbatim>\<open>struct xregs_state\<close>, lines 28129 to 28133\<close>
  "x86_struct_xregs_state =
    Struct [Field ''i387'' x86_struct_fxregs_state,
    Field ''header'' x86_struct_xstate_header,
    Field ''extended_state_area'' (Array x86_t_u8 0)]"

lemma x86_struct_xregs_state_layout [layout]:
  "size_of abi_x86 x86_struct_xregs_state = 576" "align_of abi_x86 x86_struct_xregs_state = 8"
  by (simp_all add: x86_struct_xregs_state_def abi_x86_def layout_eval layout [unfolded abi_x86_def])

definition x86_union_fpregs_state :: ctype where
  \<comment> \<open>\<^verbatim>\<open>union fpregs_state\<close>, lines 28135 to 28141\<close>
  "x86_union_fpregs_state =
    Union [Field ''fsave'' x86_struct_fregs_state,
    Field ''fxsave'' x86_struct_fxregs_state,
    Field ''soft'' x86_struct_swregs_state,
    Field ''xsave'' x86_struct_xregs_state,
    Field ''__padding'' (Array x86_t_u8 4096)]"

lemma x86_union_fpregs_state_layout [layout]:
  "size_of abi_x86 x86_union_fpregs_state = 4096" "align_of abi_x86 x86_union_fpregs_state = 8"
  by (simp_all add: x86_union_fpregs_state_def abi_x86_def layout_eval layout [unfolded abi_x86_def])

definition x86_struct_fpstate :: ctype where
  \<comment> \<open>\<^verbatim>\<open>struct fpstate\<close>, lines 28163 to 28177\<close>
  "x86_struct_fpstate =
    Struct [Field ''size'' (Scalar TUInt),
    Field ''user_size'' (Scalar TUInt),
    Field ''xfeatures'' x86_t_u64,
    Field ''user_xfeatures'' x86_t_u64,
    Field ''xfd'' x86_t_u64,
    Bits ''is_valloc'' (Scalar TUInt) 1,
    Bits ''is_guest'' (Scalar TUInt) 1,
    Bits ''is_confidential'' (Scalar TUInt) 1,
    Bits ''in_use'' (Scalar TUInt) 1,
    Padding (Scalar TLong) 64,
    Padding (Scalar TLong) 64,
    Padding (Scalar TLong) 64,
    Field ''regs'' x86_union_fpregs_state]"

lemma x86_struct_fpstate_layout [layout]:
  "size_of abi_x86 x86_struct_fpstate = 4160" "align_of abi_x86 x86_struct_fpstate = 8"
  by (simp_all add: x86_struct_fpstate_def abi_x86_def layout_eval layout [unfolded abi_x86_def])

definition x86_struct_fpu :: ctype where
  \<comment> \<open>\<^verbatim>\<open>struct fpu\<close>, lines 28185 to 28193\<close>
  "x86_struct_fpu =
    Struct [Field ''last_cpu'' (Scalar TUInt),
    Field ''avx512_timestamp'' (Scalar TULong),
    Field ''fpstate'' Pointer,
    Field ''__task_fpstate'' Pointer,
    Field ''perm'' x86_struct_fpu_state_perm,
    Field ''guest_perm'' x86_struct_fpu_state_perm,
    Field ''__fpstate'' x86_struct_fpstate]"

lemma x86_struct_fpu_layout [layout]:
  "size_of abi_x86 x86_struct_fpu = 4224" "align_of abi_x86 x86_struct_fpu = 8"
  by (simp_all add: x86_struct_fpu_def abi_x86_def layout_eval layout [unfolded abi_x86_def])

definition x86_struct_thread_struct :: ctype where
  \<comment> \<open>\<^verbatim>\<open>struct thread_struct\<close>, lines 44321 to 44346\<close>
  "x86_struct_thread_struct =
    Struct [Field ''tls_array'' (Array x86_struct_desc_struct 3),
    Field ''sp'' (Scalar TULong),
    Field ''es'' (Scalar TUShort),
    Field ''ds'' (Scalar TUShort),
    Field ''fsindex'' (Scalar TUShort),
    Field ''gsindex'' (Scalar TUShort),
    Field ''fsbase'' (Scalar TULong),
    Field ''gsbase'' (Scalar TULong),
    Field ''ptrace_bps'' (Array Pointer 4),
    Field ''virtual_dr6'' (Scalar TULong),
    Field ''ptrace_dr7'' (Scalar TULong),
    Field ''cr2'' (Scalar TULong),
    Field ''trap_nr'' (Scalar TULong),
    Field ''error_code'' (Scalar TULong),
    Field ''io_bitmap'' Pointer,
    Field ''iopl_emul'' (Scalar TULong),
    Bits ''iopl_warn'' (Scalar TUInt) 1,
    Field ''pkru'' x86_t_u32,
    Padding (Scalar TLong) 64,
    Padding (Scalar TLong) 64,
    Padding (Scalar TLong) 64,
    Padding (Scalar TLong) 64,
    Padding (Scalar TLong) 64,
    Field ''fpu'' x86_struct_fpu]"

lemma x86_struct_thread_struct_layout [layout]:
  "size_of abi_x86 x86_struct_thread_struct = 4416" "align_of abi_x86 x86_struct_thread_struct = 8"
  by (simp_all add: x86_struct_thread_struct_def abi_x86_def layout_eval layout [unfolded abi_x86_def])

definition x86_struct_task_struct :: ctype where
  \<comment> \<open>\<^verbatim>\<open>struct task_struct\<close>, lines 44350 to 44514\<close>
  "x86_struct_task_struct =
    Struct [Field ''thread_info'' x86_struct_thread_info,
    Field ''__state'' (Scalar TUInt),
    Field ''saved_state'' (Scalar TUInt),
    Field ''stack'' Pointer,
    Field ''usage'' x86_t_refcount_t,
    Field ''flags'' (Scalar TUInt),
    Field ''ptrace'' (Scalar TUInt),
    Field ''on_rq'' (Scalar TInt),
    Field ''prio'' (Scalar TInt),
    Field ''static_prio'' (Scalar TInt),
    Field ''normal_prio'' (Scalar TInt),
    Field ''rt_priority'' (Scalar TUInt),
    Field ''se'' x86_struct_sched_entity,
    Field ''rt'' x86_struct_sched_rt_entity,
    Field ''dl'' x86_struct_sched_dl_entity,
    Field ''dl_server'' Pointer,
    Field ''sched_class'' Pointer,
    Padding (Scalar TLong) 64,
    Padding (Scalar TLong) 64,
    Padding (Scalar TLong) 64,
    Padding (Scalar TLong) 64,
    Padding (Scalar TLong) 64,
    Padding (Scalar TLong) 64,
    Padding (Scalar TLong) 64,
    Field ''stats'' x86_struct_sched_statistics,
    Field ''policy'' (Scalar TUInt),
    Field ''max_allowed_capacity'' (Scalar TULong),
    Field ''nr_cpus_allowed'' (Scalar TInt),
    Field ''cpus_ptr'' Pointer,
    Field ''user_cpus_ptr'' Pointer,
    Field ''cpus_mask'' x86_t_cpumask_t,
    Field ''migration_pending'' Pointer,
    Field ''migration_flags'' (Scalar TUShort),
    Field ''trc_reader_nesting'' (Scalar TInt),
    Field ''trc_ipi_to_cpu'' (Scalar TInt),
    Field ''trc_reader_special'' x86_union_rcu_special,
    Field ''trc_holdout_list'' x86_struct_list_head,
    Field ''trc_blkd_node'' x86_struct_list_head,
    Field ''trc_blkd_cpu'' (Scalar TInt),
    Field ''sched_info'' x86_struct_sched_info,
    Field ''tasks'' x86_struct_list_head,
    Field ''mm'' Pointer,
    Field ''active_mm'' Pointer,
    Field ''faults_disabled_mapping'' Pointer,
    Field ''exit_state'' (Scalar TInt),
    Field ''exit_code'' (Scalar TInt),
    Field ''exit_signal'' (Scalar TInt),
    Field ''pdeath_signal'' (Scalar TInt),
    Field ''jobctl'' (Scalar TULong),
    Field ''personality'' (Scalar TUInt),
    Bits ''sched_reset_on_fork'' (Scalar TUInt) 1,
    Bits ''sched_contributes_to_load'' (Scalar TUInt) 1,
    Bits ''sched_migrated'' (Scalar TUInt) 1,
    Bits ''sched_task_hot'' (Scalar TUInt) 1,
    Padding (Scalar TLong) 28,
    Bits ''sched_remote_wakeup'' (Scalar TUInt) 1,
    Bits ''in_execve'' (Scalar TUInt) 1,
    Bits ''in_iowait'' (Scalar TUInt) 1,
    Bits ''restore_sigmask'' (Scalar TUInt) 1,
    Field ''atomic_flags'' (Scalar TULong),
    Field ''restart_block'' x86_struct_restart_block,
    Field ''pid'' x86_t_pid_t,
    Field ''tgid'' x86_t_pid_t,
    Field ''real_parent'' Pointer,
    Field ''parent'' Pointer,
    Field ''children'' x86_struct_list_head,
    Field ''sibling'' x86_struct_list_head,
    Field ''group_leader'' Pointer,
    Field ''ptraced'' x86_struct_list_head,
    Field ''ptrace_entry'' x86_struct_list_head,
    Field ''thread_pid'' Pointer,
    Field ''pid_links'' (Array x86_struct_hlist_node 4),
    Field ''thread_node'' x86_struct_list_head,
    Field ''vfork_done'' Pointer,
    Field ''set_child_tid'' Pointer,
    Field ''clear_child_tid'' Pointer,
    Field ''worker_private'' Pointer,
    Field ''utime'' x86_t_u64,
    Field ''stime'' x86_t_u64,
    Field ''gtime'' x86_t_u64,
    Field ''prev_cputime'' x86_struct_prev_cputime,
    Field ''nvcsw'' (Scalar TULong),
    Field ''nivcsw'' (Scalar TULong),
    Field ''start_time'' x86_t_u64,
    Field ''start_boottime'' x86_t_u64,
    Field ''min_flt'' (Scalar TULong),
    Field ''maj_flt'' (Scalar TULong),
    Field ''posix_cputimers'' x86_struct_posix_cputimers,
    Field ''ptracer_cred'' Pointer,
    Field ''real_cred'' Pointer,
    Field ''cred'' Pointer,
    Field ''comm'' (Array (Scalar TChar) 16),
    Field ''nameidata'' Pointer,
    Field ''fs'' Pointer,
    Field ''files'' Pointer,
    Field ''nsproxy'' Pointer,
    Field ''signal'' Pointer,
    Field ''sighand'' Pointer,
    Field ''blocked'' x86_t_sigset_t,
    Field ''real_blocked'' x86_t_sigset_t,
    Field ''saved_sigmask'' x86_t_sigset_t,
    Field ''pending'' x86_struct_sigpending,
    Field ''sas_ss_sp'' (Scalar TULong),
    Field ''sas_ss_size'' x86_t_size_t,
    Field ''sas_ss_flags'' (Scalar TUInt),
    Field ''task_works'' Pointer,
    Field ''seccomp'' x86_struct_seccomp,
    Field ''syscall_dispatch'' x86_struct_syscall_user_dispatch,
    Field ''parent_exec_id'' x86_t_u64,
    Field ''self_exec_id'' x86_t_u64,
    Field ''alloc_lock'' x86_t_spinlock_t,
    Field ''pi_lock'' x86_t_raw_spinlock_t,
    Field ''wake_q'' x86_struct_wake_q_node,
    Field ''journal_info'' Pointer,
    Field ''bio_list'' Pointer,
    Field ''plug'' Pointer,
    Field ''reclaim_state'' Pointer,
    Field ''io_context'' Pointer,
    Field ''ptrace_message'' (Scalar TULong),
    Field ''last_siginfo'' Pointer,
    Field ''ioac'' x86_struct_task_io_accounting,
    Field ''perf_recursion'' (Array x86_t_u8 4),
    Field ''perf_event_ctxp'' Pointer,
    Field ''perf_event_mutex'' x86_struct_mutex,
    Field ''perf_event_list'' x86_struct_list_head,
    Field ''tlb_ubc'' x86_struct_tlbflush_unmap_batch,
    Field ''splice_pipe'' Pointer,
    Field ''task_frag'' x86_struct_page_frag,
    Field ''nr_dirtied'' (Scalar TInt),
    Field ''nr_dirtied_pause'' (Scalar TInt),
    Field ''dirty_paused_when'' (Scalar TULong),
    Field ''timer_slack_ns'' x86_t_u64,
    Field ''default_timer_slack_ns'' x86_t_u64,
    Field ''curr_ret_stack'' (Scalar TInt),
    Field ''curr_ret_depth'' (Scalar TInt),
    Field ''ret_stack'' Pointer,
    Field ''ftrace_timestamp'' (Scalar TULongLong),
    Field ''ftrace_sleeptime'' (Scalar TULongLong),
    Field ''trace_overrun'' x86_t_atomic_t,
    Field ''tracing_graph_pause'' x86_t_atomic_t,
    Field ''trace_recursion'' (Scalar TULong),
    Field ''utask'' Pointer,
    Field ''kmap_ctrl'' x86_struct_kmap_ctrl,
    Field ''rcu'' x86_struct_callback_head,
    Field ''rcu_users'' x86_t_refcount_t,
    Field ''pagefault_disabled'' (Scalar TInt),
    Field ''oom_reaper_list'' Pointer,
    Field ''oom_reaper_timer'' x86_struct_timer_list,
    Field ''stack_vm_area'' Pointer,
    Field ''stack_refcount'' x86_t_refcount_t,
    Field ''bpf_storage'' Pointer,
    Field ''bpf_ctx'' Pointer,
    Field ''bpf_net_context'' Pointer,
    Field ''kretprobe_instances'' x86_struct_llist_head,
    Field ''rethooks'' x86_struct_llist_head,
    Field ''l1d_flush_kill'' x86_struct_callback_head,
    Padding (Scalar TLong) 64,
    Padding (Scalar TLong) 64,
    Padding (Scalar TLong) 64,
    Padding (Scalar TLong) 64,
    Padding (Scalar TLong) 64,
    Padding (Scalar TLong) 64,
    Field ''thread'' x86_struct_thread_struct]"

lemma x86_struct_task_struct_layout [layout]:
  "size_of abi_x86 x86_struct_task_struct = 6208" "align_of abi_x86 x86_struct_task_struct = 8"
  by (simp_all add: x86_struct_task_struct_def abi_x86_def layout_eval layout [unfolded abi_x86_def])

end
