(* ===== verification/Vmlinux_aarch64.thy ===== *)
theory Vmlinux_aarch64
  imports C_Layout
begin

text \<open>
  The kernel types of the bundled header \<^verbatim>\<open>resources/ebpf/vmlinux/aarch64/vmlinux.h\<close>
  (AArch64) that the socket tracker reads, with every type they contain by value:
  the socket objects handed to the probes (\<open>struct tcp6_sock\<close>, \<open>udp6_sock\<close>, \<open>raw6_sock\<close>, all of
  which start with \<open>struct sock\<close>), \<open>struct msghdr\<close>, the two socket address types and
  \<open>struct task_struct\<close>. Each definition transcribes one declaration of the header, member by
  member and in its order; a comment gives the declaration. Pointer members are kept as
  \<open>Pointer\<close>, unnamed bit fields (the padding the header makes explicit) as \<open>Padding\<close>.
  After each type the \<open>layout\<close> collection gains its size and alignment in the data model
  \<open>abi_aarch64\<close>, computed by the kernel from the declaration.
\<close>

definition aarch64_t_uu_u64 :: ctype where
  \<comment> \<open>\<^verbatim>\<open>typedef __u64\<close>, lines 11400 to 11400\<close>
  "aarch64_t_uu_u64 =
    Scalar TULongLong"

lemma aarch64_t_uu_u64_layout [layout]:
  "size_of abi_aarch64 aarch64_t_uu_u64 = 8" "align_of abi_aarch64 aarch64_t_uu_u64 = 8"
  by (simp_all add: aarch64_t_uu_u64_def abi_aarch64_def layout_eval layout [unfolded abi_aarch64_def])

definition aarch64_t_uu_addrpair :: ctype where
  \<comment> \<open>\<^verbatim>\<open>typedef __addrpair\<close>, lines 11408 to 11408\<close>
  "aarch64_t_uu_addrpair =
    aarch64_t_uu_u64"

lemma aarch64_t_uu_addrpair_layout [layout]:
  "size_of abi_aarch64 aarch64_t_uu_addrpair = 8" "align_of abi_aarch64 aarch64_t_uu_addrpair = 8"
  by (simp_all add: aarch64_t_uu_addrpair_def abi_aarch64_def layout_eval layout [unfolded abi_aarch64_def])

definition aarch64_t_uu_u32 :: ctype where
  \<comment> \<open>\<^verbatim>\<open>typedef __u32\<close>, lines 11524 to 11524\<close>
  "aarch64_t_uu_u32 =
    Scalar TUInt"

lemma aarch64_t_uu_u32_layout [layout]:
  "size_of abi_aarch64 aarch64_t_uu_u32 = 4" "align_of abi_aarch64 aarch64_t_uu_u32 = 4"
  by (simp_all add: aarch64_t_uu_u32_def abi_aarch64_def layout_eval layout [unfolded abi_aarch64_def])

definition aarch64_t_uu_be32 :: ctype where
  \<comment> \<open>\<^verbatim>\<open>typedef __be32\<close>, lines 11534 to 11534\<close>
  "aarch64_t_uu_be32 =
    aarch64_t_uu_u32"

lemma aarch64_t_uu_be32_layout [layout]:
  "size_of abi_aarch64 aarch64_t_uu_be32 = 4" "align_of abi_aarch64 aarch64_t_uu_be32 = 4"
  by (simp_all add: aarch64_t_uu_be32_def abi_aarch64_def layout_eval layout [unfolded abi_aarch64_def])

definition aarch64_t_uu_u16 :: ctype where
  \<comment> \<open>\<^verbatim>\<open>typedef __u16\<close>, lines 11480 to 11480\<close>
  "aarch64_t_uu_u16 =
    Scalar TUShort"

lemma aarch64_t_uu_u16_layout [layout]:
  "size_of abi_aarch64 aarch64_t_uu_u16 = 2" "align_of abi_aarch64 aarch64_t_uu_u16 = 2"
  by (simp_all add: aarch64_t_uu_u16_def abi_aarch64_def layout_eval layout [unfolded abi_aarch64_def])

definition aarch64_t_uu_portpair :: ctype where
  \<comment> \<open>\<^verbatim>\<open>typedef __portpair\<close>, lines 11548 to 11548\<close>
  "aarch64_t_uu_portpair =
    aarch64_t_uu_u32"

lemma aarch64_t_uu_portpair_layout [layout]:
  "size_of abi_aarch64 aarch64_t_uu_portpair = 4" "align_of abi_aarch64 aarch64_t_uu_portpair = 4"
  by (simp_all add: aarch64_t_uu_portpair_def abi_aarch64_def layout_eval layout [unfolded abi_aarch64_def])

definition aarch64_t_uu_be16 :: ctype where
  \<comment> \<open>\<^verbatim>\<open>typedef __be16\<close>, lines 11486 to 11486\<close>
  "aarch64_t_uu_be16 =
    aarch64_t_uu_u16"

lemma aarch64_t_uu_be16_layout [layout]:
  "size_of abi_aarch64 aarch64_t_uu_be16 = 2" "align_of abi_aarch64 aarch64_t_uu_be16 = 2"
  by (simp_all add: aarch64_t_uu_be16_def abi_aarch64_def layout_eval layout [unfolded abi_aarch64_def])

definition aarch64_struct_hlist_node :: ctype where
  \<comment> \<open>\<^verbatim>\<open>struct hlist_node\<close>, lines 12087 to 12090\<close>
  "aarch64_struct_hlist_node =
    Struct [Field ''next'' Pointer,
    Field ''pprev'' Pointer]"

lemma aarch64_struct_hlist_node_layout [layout]:
  "size_of abi_aarch64 aarch64_struct_hlist_node = 16" "align_of abi_aarch64 aarch64_struct_hlist_node = 8"
  by (simp_all add: aarch64_struct_hlist_node_def abi_aarch64_def layout_eval layout [unfolded abi_aarch64_def])

definition aarch64_t_possible_net_t :: ctype where
  \<comment> \<open>\<^verbatim>\<open>typedef possible_net_t\<close>, lines 11937 to 11937\<close>
  "aarch64_t_possible_net_t =
    Struct []"

lemma aarch64_t_possible_net_t_layout [layout]:
  "size_of abi_aarch64 aarch64_t_possible_net_t = 0" "align_of abi_aarch64 aarch64_t_possible_net_t = 1"
  by (simp_all add: aarch64_t_possible_net_t_def abi_aarch64_def layout_eval layout [unfolded abi_aarch64_def])

definition aarch64_t_uu_u8 :: ctype where
  \<comment> \<open>\<^verbatim>\<open>typedef __u8\<close>, lines 11510 to 11510\<close>
  "aarch64_t_uu_u8 =
    Scalar TUChar"

lemma aarch64_t_uu_u8_layout [layout]:
  "size_of abi_aarch64 aarch64_t_uu_u8 = 1" "align_of abi_aarch64 aarch64_t_uu_u8 = 1"
  by (simp_all add: aarch64_t_uu_u8_def abi_aarch64_def layout_eval layout [unfolded abi_aarch64_def])

definition aarch64_struct_in6_addr :: ctype where
  \<comment> \<open>\<^verbatim>\<open>struct in6_addr\<close>, lines 12073 to 12079\<close>
  "aarch64_struct_in6_addr =
    Struct [Field ''in6_u'' (Union [Field ''u6_addr8'' (Array aarch64_t_uu_u8 16),
      Field ''u6_addr16'' (Array aarch64_t_uu_be16 8),
      Field ''u6_addr32'' (Array aarch64_t_uu_be32 4)])]"

lemma aarch64_struct_in6_addr_layout [layout]:
  "size_of abi_aarch64 aarch64_struct_in6_addr = 16" "align_of abi_aarch64 aarch64_struct_in6_addr = 4"
  by (simp_all add: aarch64_struct_in6_addr_def abi_aarch64_def layout_eval layout [unfolded abi_aarch64_def])

definition aarch64_t_uu_s64 :: ctype where
  \<comment> \<open>\<^verbatim>\<open>typedef __s64\<close>, lines 11380 to 11380\<close>
  "aarch64_t_uu_s64 =
    Scalar TLongLong"

lemma aarch64_t_uu_s64_layout [layout]:
  "size_of abi_aarch64 aarch64_t_uu_s64 = 8" "align_of abi_aarch64 aarch64_t_uu_s64 = 8"
  by (simp_all add: aarch64_t_uu_s64_def abi_aarch64_def layout_eval layout [unfolded abi_aarch64_def])

definition aarch64_t_s64 :: ctype where
  \<comment> \<open>\<^verbatim>\<open>typedef s64\<close>, lines 11388 to 11388\<close>
  "aarch64_t_s64 =
    aarch64_t_uu_s64"

lemma aarch64_t_s64_layout [layout]:
  "size_of abi_aarch64 aarch64_t_s64 = 8" "align_of abi_aarch64 aarch64_t_s64 = 8"
  by (simp_all add: aarch64_t_s64_def abi_aarch64_def layout_eval layout [unfolded abi_aarch64_def])

definition aarch64_t_atomic64_t :: ctype where
  \<comment> \<open>\<^verbatim>\<open>typedef atomic64_t\<close>, lines 11642 to 11644\<close>
  "aarch64_t_atomic64_t =
    Struct [Field ''counter'' aarch64_t_s64]"

lemma aarch64_t_atomic64_t_layout [layout]:
  "size_of abi_aarch64 aarch64_t_atomic64_t = 8" "align_of abi_aarch64 aarch64_t_atomic64_t = 8"
  by (simp_all add: aarch64_t_atomic64_t_def abi_aarch64_def layout_eval layout [unfolded abi_aarch64_def])

definition aarch64_struct_hlist_nulls_node :: ctype where
  \<comment> \<open>\<^verbatim>\<open>struct hlist_nulls_node\<close>, lines 26738 to 26741\<close>
  "aarch64_struct_hlist_nulls_node =
    Struct [Field ''next'' Pointer,
    Field ''pprev'' Pointer]"

lemma aarch64_struct_hlist_nulls_node_layout [layout]:
  "size_of abi_aarch64 aarch64_struct_hlist_nulls_node = 16" "align_of abi_aarch64 aarch64_struct_hlist_nulls_node = 8"
  by (simp_all add: aarch64_struct_hlist_nulls_node_def abi_aarch64_def layout_eval layout [unfolded abi_aarch64_def])

definition aarch64_t_u32 :: ctype where
  \<comment> \<open>\<^verbatim>\<open>typedef u32\<close>, lines 11536 to 11536\<close>
  "aarch64_t_u32 =
    aarch64_t_uu_u32"

lemma aarch64_t_u32_layout [layout]:
  "size_of abi_aarch64 aarch64_t_u32 = 4" "align_of abi_aarch64 aarch64_t_u32 = 4"
  by (simp_all add: aarch64_t_u32_def abi_aarch64_def layout_eval layout [unfolded abi_aarch64_def])

definition aarch64_t_atomic_t :: ctype where
  \<comment> \<open>\<^verbatim>\<open>typedef atomic_t\<close>, lines 11648 to 11650\<close>
  "aarch64_t_atomic_t =
    Struct [Field ''counter'' (Scalar TInt)]"

lemma aarch64_t_atomic_t_layout [layout]:
  "size_of abi_aarch64 aarch64_t_atomic_t = 4" "align_of abi_aarch64 aarch64_t_atomic_t = 4"
  by (simp_all add: aarch64_t_atomic_t_def abi_aarch64_def layout_eval layout [unfolded abi_aarch64_def])

definition aarch64_struct_refcount_struct :: ctype where
  \<comment> \<open>\<^verbatim>\<open>struct refcount_struct\<close>, lines 11895 to 11897\<close>
  "aarch64_struct_refcount_struct =
    Struct [Field ''refs'' aarch64_t_atomic_t]"

lemma aarch64_struct_refcount_struct_layout [layout]:
  "size_of abi_aarch64 aarch64_struct_refcount_struct = 4" "align_of abi_aarch64 aarch64_struct_refcount_struct = 4"
  by (simp_all add: aarch64_struct_refcount_struct_def abi_aarch64_def layout_eval layout [unfolded abi_aarch64_def])

definition aarch64_t_refcount_t :: ctype where
  \<comment> \<open>\<^verbatim>\<open>typedef refcount_t\<close>, lines 11899 to 11899\<close>
  "aarch64_t_refcount_t =
    aarch64_struct_refcount_struct"

lemma aarch64_t_refcount_t_layout [layout]:
  "size_of abi_aarch64 aarch64_t_refcount_t = 4" "align_of abi_aarch64 aarch64_t_refcount_t = 4"
  by (simp_all add: aarch64_t_refcount_t_def abi_aarch64_def layout_eval layout [unfolded abi_aarch64_def])

definition aarch64_struct_sock_common :: ctype where
  \<comment> \<open>\<^verbatim>\<open>struct sock_common\<close>, lines 27771 to 27830\<close>
  "aarch64_struct_sock_common =
    Struct [Anonymous (Union [Field ''skc_addrpair'' aarch64_t_uu_addrpair,
      Anonymous (Struct [Field ''skc_daddr'' aarch64_t_uu_be32,
        Field ''skc_rcv_saddr'' aarch64_t_uu_be32])]),
    Anonymous (Union [Field ''skc_hash'' (Scalar TUInt),
      Field ''skc_u16hashes'' (Array aarch64_t_uu_u16 2)]),
    Anonymous (Union [Field ''skc_portpair'' aarch64_t_uu_portpair,
      Anonymous (Struct [Field ''skc_dport'' aarch64_t_uu_be16,
        Field ''skc_num'' aarch64_t_uu_u16])]),
    Field ''skc_family'' (Scalar TUShort),
    Field ''skc_state'' (Scalar TUChar),
    Bits ''skc_reuse'' (Scalar TUChar) 4,
    Bits ''skc_reuseport'' (Scalar TUChar) 1,
    Bits ''skc_ipv6only'' (Scalar TUChar) 1,
    Bits ''skc_net_refcnt'' (Scalar TUChar) 1,
    Field ''skc_bound_dev_if'' (Scalar TInt),
    Anonymous (Union [Field ''skc_bind_node'' aarch64_struct_hlist_node,
      Field ''skc_portaddr_node'' aarch64_struct_hlist_node]),
    Field ''skc_prot'' Pointer,
    Field ''skc_net'' aarch64_t_possible_net_t,
    Field ''skc_v6_daddr'' aarch64_struct_in6_addr,
    Field ''skc_v6_rcv_saddr'' aarch64_struct_in6_addr,
    Field ''skc_cookie'' aarch64_t_atomic64_t,
    Anonymous (Union [Field ''skc_flags'' (Scalar TULong),
      Field ''skc_listener'' Pointer,
      Field ''skc_tw_dr'' Pointer]),
    Field ''skc_dontcopy_begin'' (Array (Scalar TInt) 0),
    Anonymous (Union [Field ''skc_node'' aarch64_struct_hlist_node,
      Field ''skc_nulls_node'' aarch64_struct_hlist_nulls_node]),
    Field ''skc_tx_queue_mapping'' (Scalar TUShort),
    Field ''skc_rx_queue_mapping'' (Scalar TUShort),
    Anonymous (Union [Field ''skc_incoming_cpu'' (Scalar TInt),
      Field ''skc_rcv_wnd'' aarch64_t_u32,
      Field ''skc_tw_rcv_nxt'' aarch64_t_u32]),
    Field ''skc_refcnt'' aarch64_t_refcount_t,
    Field ''skc_dontcopy_end'' (Array (Scalar TInt) 0),
    Anonymous (Union [Field ''skc_rxhash'' aarch64_t_u32,
      Field ''skc_window_clamp'' aarch64_t_u32,
      Field ''skc_tw_snd_nxt'' aarch64_t_u32])]"

lemma aarch64_struct_sock_common_layout [layout]:
  "size_of abi_aarch64 aarch64_struct_sock_common = 128" "align_of abi_aarch64 aarch64_struct_sock_common = 8"
  by (simp_all add: aarch64_struct_sock_common_def abi_aarch64_def layout_eval layout [unfolded abi_aarch64_def])

definition aarch64_t_uu_s32 :: ctype where
  \<comment> \<open>\<^verbatim>\<open>typedef __s32\<close>, lines 11318 to 11318\<close>
  "aarch64_t_uu_s32 =
    Scalar TInt"

lemma aarch64_t_uu_s32_layout [layout]:
  "size_of abi_aarch64 aarch64_t_uu_s32 = 4" "align_of abi_aarch64 aarch64_t_uu_s32 = 4"
  by (simp_all add: aarch64_t_uu_s32_def abi_aarch64_def layout_eval layout [unfolded abi_aarch64_def])

definition aarch64_struct_sk_buff_list :: ctype where
  \<comment> \<open>\<^verbatim>\<open>struct sk_buff_list\<close>, lines 12094 to 12097\<close>
  "aarch64_struct_sk_buff_list =
    Struct [Field ''next'' Pointer,
    Field ''prev'' Pointer]"

lemma aarch64_struct_sk_buff_list_layout [layout]:
  "size_of abi_aarch64 aarch64_struct_sk_buff_list = 16" "align_of abi_aarch64 aarch64_struct_sk_buff_list = 8"
  by (simp_all add: aarch64_struct_sk_buff_list_def abi_aarch64_def layout_eval layout [unfolded abi_aarch64_def])

definition aarch64_t_u8 :: ctype where
  \<comment> \<open>\<^verbatim>\<open>typedef u8\<close>, lines 11512 to 11512\<close>
  "aarch64_t_u8 =
    aarch64_t_uu_u8"

lemma aarch64_t_u8_layout [layout]:
  "size_of abi_aarch64 aarch64_t_u8 = 1" "align_of abi_aarch64 aarch64_t_u8 = 1"
  by (simp_all add: aarch64_t_u8_def abi_aarch64_def layout_eval layout [unfolded abi_aarch64_def])

definition aarch64_t_u16 :: ctype where
  \<comment> \<open>\<^verbatim>\<open>typedef u16\<close>, lines 11500 to 11500\<close>
  "aarch64_t_u16 =
    aarch64_t_uu_u16"

lemma aarch64_t_u16_layout [layout]:
  "size_of abi_aarch64 aarch64_t_u16 = 2" "align_of abi_aarch64 aarch64_t_u16 = 2"
  by (simp_all add: aarch64_t_u16_def abi_aarch64_def layout_eval layout [unfolded abi_aarch64_def])

definition aarch64_struct_qspinlock :: ctype where
  \<comment> \<open>\<^verbatim>\<open>struct qspinlock\<close>, lines 11765 to 11777\<close>
  "aarch64_struct_qspinlock =
    Struct [Anonymous (Union [Field ''val'' aarch64_t_atomic_t,
      Anonymous (Struct [Field ''locked'' aarch64_t_u8,
        Field ''pending'' aarch64_t_u8]),
      Anonymous (Struct [Field ''locked_pending'' aarch64_t_u16,
        Field ''tail'' aarch64_t_u16])])]"

lemma aarch64_struct_qspinlock_layout [layout]:
  "size_of abi_aarch64 aarch64_struct_qspinlock = 4" "align_of abi_aarch64 aarch64_struct_qspinlock = 4"
  by (simp_all add: aarch64_struct_qspinlock_def abi_aarch64_def layout_eval layout [unfolded abi_aarch64_def])

definition aarch64_t_arch_spinlock_t :: ctype where
  \<comment> \<open>\<^verbatim>\<open>typedef arch_spinlock_t\<close>, lines 11779 to 11779\<close>
  "aarch64_t_arch_spinlock_t =
    aarch64_struct_qspinlock"

lemma aarch64_t_arch_spinlock_t_layout [layout]:
  "size_of abi_aarch64 aarch64_t_arch_spinlock_t = 4" "align_of abi_aarch64 aarch64_t_arch_spinlock_t = 4"
  by (simp_all add: aarch64_t_arch_spinlock_t_def abi_aarch64_def layout_eval layout [unfolded abi_aarch64_def])

definition aarch64_struct_raw_spinlock :: ctype where
  \<comment> \<open>\<^verbatim>\<open>struct raw_spinlock\<close>, lines 11985 to 11987\<close>
  "aarch64_struct_raw_spinlock =
    Struct [Field ''raw_lock'' aarch64_t_arch_spinlock_t]"

lemma aarch64_struct_raw_spinlock_layout [layout]:
  "size_of abi_aarch64 aarch64_struct_raw_spinlock = 4" "align_of abi_aarch64 aarch64_struct_raw_spinlock = 4"
  by (simp_all add: aarch64_struct_raw_spinlock_def abi_aarch64_def layout_eval layout [unfolded abi_aarch64_def])

definition aarch64_struct_spinlock :: ctype where
  \<comment> \<open>\<^verbatim>\<open>struct spinlock\<close>, lines 11989 to 11993\<close>
  "aarch64_struct_spinlock =
    Struct [Anonymous (Union [Field ''rlock'' aarch64_struct_raw_spinlock])]"

lemma aarch64_struct_spinlock_layout [layout]:
  "size_of abi_aarch64 aarch64_struct_spinlock = 4" "align_of abi_aarch64 aarch64_struct_spinlock = 4"
  by (simp_all add: aarch64_struct_spinlock_def abi_aarch64_def layout_eval layout [unfolded abi_aarch64_def])

definition aarch64_t_spinlock_t :: ctype where
  \<comment> \<open>\<^verbatim>\<open>typedef spinlock_t\<close>, lines 11739 to 11739\<close>
  "aarch64_t_spinlock_t =
    aarch64_struct_spinlock"

lemma aarch64_t_spinlock_t_layout [layout]:
  "size_of abi_aarch64 aarch64_t_spinlock_t = 4" "align_of abi_aarch64 aarch64_t_spinlock_t = 4"
  by (simp_all add: aarch64_t_spinlock_t_def abi_aarch64_def layout_eval layout [unfolded abi_aarch64_def])

definition aarch64_struct_sk_buff_head :: ctype where
  \<comment> \<open>\<^verbatim>\<open>struct sk_buff_head\<close>, lines 12099 to 12109\<close>
  "aarch64_struct_sk_buff_head =
    Struct [Anonymous (Union [Anonymous (Struct [Field ''next'' Pointer,
        Field ''prev'' Pointer]),
      Field ''list'' aarch64_struct_sk_buff_list]),
    Field ''qlen'' aarch64_t_uu_u32,
    Field ''lock'' aarch64_t_spinlock_t]"

lemma aarch64_struct_sk_buff_head_layout [layout]:
  "size_of abi_aarch64 aarch64_struct_sk_buff_head = 24" "align_of abi_aarch64 aarch64_struct_sk_buff_head = 8"
  by (simp_all add: aarch64_struct_sk_buff_head_def abi_aarch64_def layout_eval layout [unfolded abi_aarch64_def])

definition aarch64_struct_list_head :: ctype where
  \<comment> \<open>\<^verbatim>\<open>struct list_head\<close>, lines 12008 to 12011\<close>
  "aarch64_struct_list_head =
    Struct [Field ''next'' Pointer,
    Field ''prev'' Pointer]"

lemma aarch64_struct_list_head_layout [layout]:
  "size_of abi_aarch64 aarch64_struct_list_head = 16" "align_of abi_aarch64 aarch64_struct_list_head = 8"
  by (simp_all add: aarch64_struct_list_head_def abi_aarch64_def layout_eval layout [unfolded abi_aarch64_def])

definition aarch64_struct_wait_queue_head :: ctype where
  \<comment> \<open>\<^verbatim>\<open>struct wait_queue_head\<close>, lines 12013 to 12016\<close>
  "aarch64_struct_wait_queue_head =
    Struct [Field ''lock'' aarch64_t_spinlock_t,
    Field ''head'' aarch64_struct_list_head]"

lemma aarch64_struct_wait_queue_head_layout [layout]:
  "size_of abi_aarch64 aarch64_struct_wait_queue_head = 24" "align_of abi_aarch64 aarch64_struct_wait_queue_head = 8"
  by (simp_all add: aarch64_struct_wait_queue_head_def abi_aarch64_def layout_eval layout [unfolded abi_aarch64_def])

definition aarch64_t_wait_queue_head_t :: ctype where
  \<comment> \<open>\<^verbatim>\<open>typedef wait_queue_head_t\<close>, lines 12018 to 12018\<close>
  "aarch64_t_wait_queue_head_t =
    aarch64_struct_wait_queue_head"

lemma aarch64_t_wait_queue_head_t_layout [layout]:
  "size_of abi_aarch64 aarch64_t_wait_queue_head_t = 24" "align_of abi_aarch64 aarch64_t_wait_queue_head_t = 8"
  by (simp_all add: aarch64_t_wait_queue_head_t_def abi_aarch64_def layout_eval layout [unfolded abi_aarch64_def])

definition aarch64_t_socket_lock_t :: ctype where
  \<comment> \<open>\<^verbatim>\<open>typedef socket_lock_t\<close>, lines 12020 to 12024\<close>
  "aarch64_t_socket_lock_t =
    Struct [Field ''slock'' aarch64_t_spinlock_t,
    Field ''owned'' (Scalar TInt),
    Field ''wq'' aarch64_t_wait_queue_head_t]"

lemma aarch64_t_socket_lock_t_layout [layout]:
  "size_of abi_aarch64 aarch64_t_socket_lock_t = 32" "align_of abi_aarch64 aarch64_t_socket_lock_t = 8"
  by (simp_all add: aarch64_t_socket_lock_t_def abi_aarch64_def layout_eval layout [unfolded abi_aarch64_def])

definition aarch64_struct_rb_root :: ctype where
  \<comment> \<open>\<^verbatim>\<open>struct rb_root\<close>, lines 12596 to 12598\<close>
  "aarch64_struct_rb_root =
    Struct [Field ''rb_node'' Pointer]"

lemma aarch64_struct_rb_root_layout [layout]:
  "size_of abi_aarch64 aarch64_struct_rb_root = 8" "align_of abi_aarch64 aarch64_struct_rb_root = 8"
  by (simp_all add: aarch64_struct_rb_root_def abi_aarch64_def layout_eval layout [unfolded abi_aarch64_def])

definition aarch64_struct_page_frag :: ctype where
  \<comment> \<open>\<^verbatim>\<open>struct page_frag\<close>, lines 27832 to 27836\<close>
  "aarch64_struct_page_frag =
    Struct [Field ''page'' Pointer,
    Field ''offset'' aarch64_t_uu_u32,
    Field ''size'' aarch64_t_uu_u32]"

lemma aarch64_struct_page_frag_layout [layout]:
  "size_of abi_aarch64 aarch64_struct_page_frag = 16" "align_of abi_aarch64 aarch64_struct_page_frag = 8"
  by (simp_all add: aarch64_struct_page_frag_def abi_aarch64_def layout_eval layout [unfolded abi_aarch64_def])

definition aarch64_struct_timer_list :: ctype where
  \<comment> \<open>\<^verbatim>\<open>struct timer_list\<close>, lines 13647 to 13652\<close>
  "aarch64_struct_timer_list =
    Struct [Field ''entry'' aarch64_struct_hlist_node,
    Field ''expires'' (Scalar TULong),
    Field ''function'' Pointer,
    Field ''flags'' aarch64_t_u32]"

lemma aarch64_struct_timer_list_layout [layout]:
  "size_of abi_aarch64 aarch64_struct_timer_list = 40" "align_of abi_aarch64 aarch64_struct_timer_list = 8"
  by (simp_all add: aarch64_struct_timer_list_def abi_aarch64_def layout_eval layout [unfolded abi_aarch64_def])

definition aarch64_t_u64 :: ctype where
  \<comment> \<open>\<^verbatim>\<open>typedef u64\<close>, lines 11414 to 11414\<close>
  "aarch64_t_u64 =
    aarch64_t_uu_u64"

lemma aarch64_t_u64_layout [layout]:
  "size_of abi_aarch64 aarch64_t_u64 = 8" "align_of abi_aarch64 aarch64_t_u64 = 8"
  by (simp_all add: aarch64_t_u64_def abi_aarch64_def layout_eval layout [unfolded abi_aarch64_def])

definition aarch64_t_netdev_features_t :: ctype where
  \<comment> \<open>\<^verbatim>\<open>typedef netdev_features_t\<close>, lines 11426 to 11426\<close>
  "aarch64_t_netdev_features_t =
    aarch64_t_u64"

lemma aarch64_t_netdev_features_t_layout [layout]:
  "size_of abi_aarch64 aarch64_t_netdev_features_t = 8" "align_of abi_aarch64 aarch64_t_netdev_features_t = 8"
  by (simp_all add: aarch64_t_netdev_features_t_def abi_aarch64_def layout_eval layout [unfolded abi_aarch64_def])

definition aarch64_t_gfp_t :: ctype where
  \<comment> \<open>\<^verbatim>\<open>typedef gfp_t\<close>, lines 11586 to 11586\<close>
  "aarch64_t_gfp_t =
    Scalar TUInt"

lemma aarch64_t_gfp_t_layout [layout]:
  "size_of abi_aarch64 aarch64_t_gfp_t = 4" "align_of abi_aarch64 aarch64_t_gfp_t = 4"
  by (simp_all add: aarch64_t_gfp_t_def abi_aarch64_def layout_eval layout [unfolded abi_aarch64_def])

definition aarch64_t_bool :: ctype where
  \<comment> \<open>\<^verbatim>\<open>typedef bool\<close>, lines 11298 to 11298\<close>
  "aarch64_t_bool =
    Scalar TBool"

lemma aarch64_t_bool_layout [layout]:
  "size_of abi_aarch64 aarch64_t_bool = 1" "align_of abi_aarch64 aarch64_t_bool = 1"
  by (simp_all add: aarch64_t_bool_def abi_aarch64_def layout_eval layout [unfolded abi_aarch64_def])

definition aarch64_struct_qrwlock :: ctype where
  \<comment> \<open>\<^verbatim>\<open>struct qrwlock\<close>, lines 11781 to 11790\<close>
  "aarch64_struct_qrwlock =
    Struct [Anonymous (Union [Field ''cnts'' aarch64_t_atomic_t,
      Anonymous (Struct [Field ''wlocked'' aarch64_t_u8,
        Field ''__lstate'' (Array aarch64_t_u8 3)])]),
    Field ''wait_lock'' aarch64_t_arch_spinlock_t]"

lemma aarch64_struct_qrwlock_layout [layout]:
  "size_of abi_aarch64 aarch64_struct_qrwlock = 8" "align_of abi_aarch64 aarch64_struct_qrwlock = 4"
  by (simp_all add: aarch64_struct_qrwlock_def abi_aarch64_def layout_eval layout [unfolded abi_aarch64_def])

definition aarch64_t_arch_rwlock_t :: ctype where
  \<comment> \<open>\<^verbatim>\<open>typedef arch_rwlock_t\<close>, lines 11792 to 11792\<close>
  "aarch64_t_arch_rwlock_t =
    aarch64_struct_qrwlock"

lemma aarch64_t_arch_rwlock_t_layout [layout]:
  "size_of abi_aarch64 aarch64_t_arch_rwlock_t = 8" "align_of abi_aarch64 aarch64_t_arch_rwlock_t = 4"
  by (simp_all add: aarch64_t_arch_rwlock_t_def abi_aarch64_def layout_eval layout [unfolded abi_aarch64_def])

definition aarch64_t_rwlock_t :: ctype where
  \<comment> \<open>\<^verbatim>\<open>typedef rwlock_t\<close>, lines 11794 to 11796\<close>
  "aarch64_t_rwlock_t =
    Struct [Field ''raw_lock'' aarch64_t_arch_rwlock_t]"

lemma aarch64_t_rwlock_t_layout [layout]:
  "size_of abi_aarch64 aarch64_t_rwlock_t = 8" "align_of abi_aarch64 aarch64_t_rwlock_t = 4"
  by (simp_all add: aarch64_t_rwlock_t_def abi_aarch64_def layout_eval layout [unfolded abi_aarch64_def])

definition aarch64_t_uu_kernel_uid32_t :: ctype where
  \<comment> \<open>\<^verbatim>\<open>typedef __kernel_uid32_t\<close>, lines 11542 to 11542\<close>
  "aarch64_t_uu_kernel_uid32_t =
    Scalar TUInt"

lemma aarch64_t_uu_kernel_uid32_t_layout [layout]:
  "size_of abi_aarch64 aarch64_t_uu_kernel_uid32_t = 4" "align_of abi_aarch64 aarch64_t_uu_kernel_uid32_t = 4"
  by (simp_all add: aarch64_t_uu_kernel_uid32_t_def abi_aarch64_def layout_eval layout [unfolded abi_aarch64_def])

definition aarch64_t_uid_t :: ctype where
  \<comment> \<open>\<^verbatim>\<open>typedef uid_t\<close>, lines 11618 to 11618\<close>
  "aarch64_t_uid_t =
    aarch64_t_uu_kernel_uid32_t"

lemma aarch64_t_uid_t_layout [layout]:
  "size_of abi_aarch64 aarch64_t_uid_t = 4" "align_of abi_aarch64 aarch64_t_uid_t = 4"
  by (simp_all add: aarch64_t_uid_t_def abi_aarch64_def layout_eval layout [unfolded abi_aarch64_def])

definition aarch64_t_kuid_t :: ctype where
  \<comment> \<open>\<^verbatim>\<open>typedef kuid_t\<close>, lines 11879 to 11881\<close>
  "aarch64_t_kuid_t =
    Struct [Field ''val'' aarch64_t_uid_t]"

lemma aarch64_t_kuid_t_layout [layout]:
  "size_of abi_aarch64 aarch64_t_kuid_t = 4" "align_of abi_aarch64 aarch64_t_kuid_t = 4"
  by (simp_all add: aarch64_t_kuid_t_def abi_aarch64_def layout_eval layout [unfolded abi_aarch64_def])

definition aarch64_t_ktime_t :: ctype where
  \<comment> \<open>\<^verbatim>\<open>typedef ktime_t\<close>, lines 11392 to 11392\<close>
  "aarch64_t_ktime_t =
    aarch64_t_s64"

lemma aarch64_t_ktime_t_layout [layout]:
  "size_of abi_aarch64 aarch64_t_ktime_t = 8" "align_of abi_aarch64 aarch64_t_ktime_t = 8"
  by (simp_all add: aarch64_t_ktime_t_def abi_aarch64_def layout_eval layout [unfolded abi_aarch64_def])

definition aarch64_struct_sock_cgroup_data :: ctype where
  \<comment> \<open>\<^verbatim>\<open>struct sock_cgroup_data\<close>, lines 27838 to 27838\<close>
  "aarch64_struct_sock_cgroup_data =
    Struct []"

lemma aarch64_struct_sock_cgroup_data_layout [layout]:
  "size_of abi_aarch64 aarch64_struct_sock_cgroup_data = 0" "align_of abi_aarch64 aarch64_struct_sock_cgroup_data = 1"
  by (simp_all add: aarch64_struct_sock_cgroup_data_def abi_aarch64_def layout_eval layout [unfolded abi_aarch64_def])

definition aarch64_struct_callback_head :: ctype where
  \<comment> \<open>\<^verbatim>\<open>struct callback_head\<close>, lines 12134 to 12137\<close>
  "aarch64_struct_callback_head =
    Struct [Field ''next'' Pointer,
    Field ''func'' Pointer]"

lemma aarch64_struct_callback_head_layout [layout]:
  "size_of abi_aarch64 aarch64_struct_callback_head = 16" "align_of abi_aarch64 aarch64_struct_callback_head = 8"
  by (simp_all add: aarch64_struct_callback_head_def abi_aarch64_def layout_eval layout [unfolded abi_aarch64_def])

definition aarch64_t_netns_tracker :: ctype where
  \<comment> \<open>\<^verbatim>\<open>typedef netns_tracker\<close>, lines 11911 to 11911\<close>
  "aarch64_t_netns_tracker =
    Struct []"

lemma aarch64_t_netns_tracker_layout [layout]:
  "size_of abi_aarch64 aarch64_t_netns_tracker = 0" "align_of abi_aarch64 aarch64_t_netns_tracker = 1"
  by (simp_all add: aarch64_t_netns_tracker_def abi_aarch64_def layout_eval layout [unfolded abi_aarch64_def])

definition aarch64_struct_xarray :: ctype where
  \<comment> \<open>\<^verbatim>\<open>struct xarray\<close>, lines 12576 to 12580\<close>
  "aarch64_struct_xarray =
    Struct [Field ''xa_lock'' aarch64_t_spinlock_t,
    Field ''xa_flags'' aarch64_t_gfp_t,
    Field ''xa_head'' Pointer]"

lemma aarch64_struct_xarray_layout [layout]:
  "size_of abi_aarch64 aarch64_struct_xarray = 16" "align_of abi_aarch64 aarch64_struct_xarray = 8"
  by (simp_all add: aarch64_struct_xarray_def abi_aarch64_def layout_eval layout [unfolded abi_aarch64_def])

definition aarch64_struct_sock :: ctype where
  \<comment> \<open>\<^verbatim>\<open>struct sock\<close>, lines 27848 to 27964\<close>
  "aarch64_struct_sock =
    Struct [Field ''__sk_common'' aarch64_struct_sock_common,
    Field ''__cacheline_group_begin__sock_write_rx'' (Array aarch64_t_uu_u8 0),
    Field ''sk_drops'' aarch64_t_atomic_t,
    Field ''sk_peek_off'' aarch64_t_uu_s32,
    Field ''sk_error_queue'' aarch64_struct_sk_buff_head,
    Field ''sk_receive_queue'' aarch64_struct_sk_buff_head,
    Field ''sk_backlog'' (Struct [Field ''rmem_alloc'' aarch64_t_atomic_t,
      Field ''len'' (Scalar TInt),
      Field ''head'' Pointer,
      Field ''tail'' Pointer]),
    Field ''__cacheline_group_end__sock_write_rx'' (Array aarch64_t_uu_u8 0),
    Field ''__cacheline_group_begin__sock_read_rx'' (Array aarch64_t_uu_u8 0),
    Field ''sk_rx_dst'' Pointer,
    Field ''sk_rx_dst_ifindex'' (Scalar TInt),
    Field ''sk_rx_dst_cookie'' aarch64_t_u32,
    Field ''sk_ll_usec'' (Scalar TUInt),
    Field ''sk_napi_id'' (Scalar TUInt),
    Field ''sk_busy_poll_budget'' aarch64_t_u16,
    Field ''sk_prefer_busy_poll'' aarch64_t_u8,
    Field ''sk_userlocks'' aarch64_t_u8,
    Field ''sk_rcvbuf'' (Scalar TInt),
    Field ''sk_filter'' Pointer,
    Anonymous (Union [Field ''sk_wq'' Pointer,
      Field ''sk_wq_raw'' Pointer]),
    Field ''sk_data_ready'' Pointer,
    Field ''sk_rcvtimeo'' (Scalar TLong),
    Field ''sk_rcvlowat'' (Scalar TInt),
    Field ''__cacheline_group_end__sock_read_rx'' (Array aarch64_t_uu_u8 0),
    Field ''__cacheline_group_begin__sock_read_rxtx'' (Array aarch64_t_uu_u8 0),
    Field ''sk_err'' (Scalar TInt),
    Field ''sk_socket'' Pointer,
    Field ''sk_memcg'' Pointer,
    Field ''__cacheline_group_end__sock_read_rxtx'' (Array aarch64_t_uu_u8 0),
    Field ''__cacheline_group_begin__sock_write_rxtx'' (Array aarch64_t_uu_u8 0),
    Field ''sk_lock'' aarch64_t_socket_lock_t,
    Field ''sk_reserved_mem'' aarch64_t_u32,
    Field ''sk_forward_alloc'' (Scalar TInt),
    Field ''sk_tsflags'' aarch64_t_u32,
    Field ''__cacheline_group_end__sock_write_rxtx'' (Array aarch64_t_uu_u8 0),
    Field ''__cacheline_group_begin__sock_write_tx'' (Array aarch64_t_uu_u8 0),
    Field ''sk_write_pending'' (Scalar TInt),
    Field ''sk_omem_alloc'' aarch64_t_atomic_t,
    Field ''sk_sndbuf'' (Scalar TInt),
    Field ''sk_wmem_queued'' (Scalar TInt),
    Field ''sk_wmem_alloc'' aarch64_t_refcount_t,
    Field ''sk_tsq_flags'' (Scalar TULong),
    Anonymous (Union [Field ''sk_send_head'' Pointer,
      Field ''tcp_rtx_queue'' aarch64_struct_rb_root]),
    Field ''sk_write_queue'' aarch64_struct_sk_buff_head,
    Field ''sk_dst_pending_confirm'' aarch64_t_u32,
    Field ''sk_pacing_status'' aarch64_t_u32,
    Field ''sk_frag'' aarch64_struct_page_frag,
    Field ''sk_timer'' aarch64_struct_timer_list,
    Field ''sk_pacing_rate'' (Scalar TULong),
    Field ''sk_zckey'' aarch64_t_atomic_t,
    Field ''sk_tskey'' aarch64_t_atomic_t,
    Field ''__cacheline_group_end__sock_write_tx'' (Array aarch64_t_uu_u8 0),
    Field ''__cacheline_group_begin__sock_read_tx'' (Array aarch64_t_uu_u8 0),
    Field ''sk_max_pacing_rate'' (Scalar TULong),
    Field ''sk_sndtimeo'' (Scalar TLong),
    Field ''sk_priority'' aarch64_t_u32,
    Field ''sk_mark'' aarch64_t_u32,
    Field ''sk_dst_cache'' Pointer,
    Field ''sk_route_caps'' aarch64_t_netdev_features_t,
    Field ''sk_gso_type'' aarch64_t_u16,
    Field ''sk_gso_max_segs'' aarch64_t_u16,
    Field ''sk_gso_max_size'' (Scalar TUInt),
    Field ''sk_allocation'' aarch64_t_gfp_t,
    Field ''sk_txhash'' aarch64_t_u32,
    Field ''sk_pacing_shift'' aarch64_t_u8,
    Field ''sk_use_task_frag'' aarch64_t_bool,
    Field ''__cacheline_group_end__sock_read_tx'' (Array aarch64_t_uu_u8 0),
    Bits ''sk_gso_disabled'' aarch64_t_u8 1,
    Bits ''sk_kern_sock'' aarch64_t_u8 1,
    Bits ''sk_no_check_tx'' aarch64_t_u8 1,
    Bits ''sk_no_check_rx'' aarch64_t_u8 1,
    Field ''sk_shutdown'' aarch64_t_u8,
    Field ''sk_type'' aarch64_t_u16,
    Field ''sk_protocol'' aarch64_t_u16,
    Field ''sk_lingertime'' (Scalar TULong),
    Field ''sk_prot_creator'' Pointer,
    Field ''sk_callback_lock'' aarch64_t_rwlock_t,
    Field ''sk_err_soft'' (Scalar TInt),
    Field ''sk_ack_backlog'' aarch64_t_u32,
    Field ''sk_max_ack_backlog'' aarch64_t_u32,
    Field ''sk_uid'' aarch64_t_kuid_t,
    Field ''sk_peer_lock'' aarch64_t_spinlock_t,
    Field ''sk_bind_phc'' (Scalar TInt),
    Field ''sk_peer_pid'' Pointer,
    Field ''sk_peer_cred'' Pointer,
    Field ''sk_stamp'' aarch64_t_ktime_t,
    Field ''sk_disconnects'' (Scalar TInt),
    Field ''sk_txrehash'' aarch64_t_u8,
    Field ''sk_clockid'' aarch64_t_u8,
    Bits ''sk_txtime_deadline_mode'' aarch64_t_u8 1,
    Bits ''sk_txtime_report_errors'' aarch64_t_u8 1,
    Bits ''sk_txtime_unused'' aarch64_t_u8 6,
    Field ''sk_user_data'' Pointer,
    Field ''sk_cgrp_data'' aarch64_struct_sock_cgroup_data,
    Field ''sk_state_change'' Pointer,
    Field ''sk_write_space'' Pointer,
    Field ''sk_error_report'' Pointer,
    Field ''sk_backlog_rcv'' Pointer,
    Field ''sk_destruct'' Pointer,
    Field ''sk_reuseport_cb'' Pointer,
    Field ''sk_bpf_storage'' Pointer,
    Field ''sk_rcu'' aarch64_struct_callback_head,
    Field ''ns_tracker'' aarch64_t_netns_tracker,
    Field ''sk_user_frags'' aarch64_struct_xarray]"

lemma aarch64_struct_sock_layout [layout]:
  "size_of abi_aarch64 aarch64_struct_sock = 720" "align_of abi_aarch64 aarch64_struct_sock = 8"
  by (simp_all add: aarch64_struct_sock_def abi_aarch64_def layout_eval layout [unfolded abi_aarch64_def])

definition aarch64_t_uu_s16 :: ctype where
  \<comment> \<open>\<^verbatim>\<open>typedef __s16\<close>, lines 11476 to 11476\<close>
  "aarch64_t_uu_s16 =
    Scalar TShort"

lemma aarch64_t_uu_s16_layout [layout]:
  "size_of abi_aarch64 aarch64_t_uu_s16 = 2" "align_of abi_aarch64 aarch64_t_uu_s16 = 2"
  by (simp_all add: aarch64_t_uu_s16_def abi_aarch64_def layout_eval layout [unfolded abi_aarch64_def])

definition aarch64_struct_inet_cork :: ctype where
  \<comment> \<open>\<^verbatim>\<open>struct inet_cork\<close>, lines 27966 to 27981\<close>
  "aarch64_struct_inet_cork =
    Struct [Field ''flags'' (Scalar TUInt),
    Field ''addr'' aarch64_t_uu_be32,
    Field ''opt'' Pointer,
    Field ''fragsize'' (Scalar TUInt),
    Field ''length'' (Scalar TInt),
    Field ''dst'' Pointer,
    Field ''tx_flags'' aarch64_t_u8,
    Field ''ttl'' aarch64_t_uu_u8,
    Field ''tos'' aarch64_t_uu_s16,
    Field ''priority'' aarch64_t_u32,
    Field ''gso_size'' aarch64_t_uu_u16,
    Field ''ts_opt_id'' aarch64_t_u32,
    Field ''transmit_time'' aarch64_t_u64,
    Field ''mark'' aarch64_t_u32]"

lemma aarch64_struct_inet_cork_layout [layout]:
  "size_of abi_aarch64 aarch64_struct_inet_cork = 64" "align_of abi_aarch64 aarch64_struct_inet_cork = 8"
  by (simp_all add: aarch64_struct_inet_cork_def abi_aarch64_def layout_eval layout [unfolded abi_aarch64_def])

definition aarch64_t_uu_be64 :: ctype where
  \<comment> \<open>\<^verbatim>\<open>typedef __be64\<close>, lines 11410 to 11410\<close>
  "aarch64_t_uu_be64 =
    aarch64_t_uu_u64"

lemma aarch64_t_uu_be64_layout [layout]:
  "size_of abi_aarch64 aarch64_t_uu_be64 = 8" "align_of abi_aarch64 aarch64_t_uu_be64 = 8"
  by (simp_all add: aarch64_t_uu_be64_def abi_aarch64_def layout_eval layout [unfolded abi_aarch64_def])

definition aarch64_struct_flowi_tunnel :: ctype where
  \<comment> \<open>\<^verbatim>\<open>struct flowi_tunnel\<close>, lines 25362 to 25364\<close>
  "aarch64_struct_flowi_tunnel =
    Struct [Field ''tun_id'' aarch64_t_uu_be64]"

lemma aarch64_struct_flowi_tunnel_layout [layout]:
  "size_of abi_aarch64 aarch64_struct_flowi_tunnel = 8" "align_of abi_aarch64 aarch64_struct_flowi_tunnel = 8"
  by (simp_all add: aarch64_struct_flowi_tunnel_def abi_aarch64_def layout_eval layout [unfolded abi_aarch64_def])

definition aarch64_struct_flowi_common :: ctype where
  \<comment> \<open>\<^verbatim>\<open>struct flowi_common\<close>, lines 25366 to 25379\<close>
  "aarch64_struct_flowi_common =
    Struct [Field ''flowic_oif'' (Scalar TInt),
    Field ''flowic_iif'' (Scalar TInt),
    Field ''flowic_l3mdev'' (Scalar TInt),
    Field ''flowic_mark'' aarch64_t_uu_u32,
    Field ''flowic_tos'' aarch64_t_uu_u8,
    Field ''flowic_scope'' aarch64_t_uu_u8,
    Field ''flowic_proto'' aarch64_t_uu_u8,
    Field ''flowic_flags'' aarch64_t_uu_u8,
    Field ''flowic_secid'' aarch64_t_uu_u32,
    Field ''flowic_uid'' aarch64_t_kuid_t,
    Field ''flowic_multipath_hash'' aarch64_t_uu_u32,
    Field ''flowic_tun_key'' aarch64_struct_flowi_tunnel]"

lemma aarch64_struct_flowi_common_layout [layout]:
  "size_of abi_aarch64 aarch64_struct_flowi_common = 40" "align_of abi_aarch64 aarch64_struct_flowi_common = 8"
  by (simp_all add: aarch64_struct_flowi_common_def abi_aarch64_def layout_eval layout [unfolded abi_aarch64_def])

definition aarch64_union_flowi_uli :: ctype where
  \<comment> \<open>\<^verbatim>\<open>union flowi_uli\<close>, lines 25381 to 25394\<close>
  "aarch64_union_flowi_uli =
    Union [Field ''ports'' (Struct [Field ''dport'' aarch64_t_uu_be16,
      Field ''sport'' aarch64_t_uu_be16]),
    Field ''icmpt'' (Struct [Field ''type'' aarch64_t_uu_u8,
      Field ''code'' aarch64_t_uu_u8]),
    Field ''gre_key'' aarch64_t_uu_be32,
    Field ''mht'' (Struct [Field ''type'' aarch64_t_uu_u8])]"

lemma aarch64_union_flowi_uli_layout [layout]:
  "size_of abi_aarch64 aarch64_union_flowi_uli = 4" "align_of abi_aarch64 aarch64_union_flowi_uli = 4"
  by (simp_all add: aarch64_union_flowi_uli_def abi_aarch64_def layout_eval layout [unfolded abi_aarch64_def])

definition aarch64_struct_flowi4 :: ctype where
  \<comment> \<open>\<^verbatim>\<open>struct flowi4\<close>, lines 25396 to 25401\<close>
  "aarch64_struct_flowi4 =
    Struct [Field ''__fl_common'' aarch64_struct_flowi_common,
    Field ''saddr'' aarch64_t_uu_be32,
    Field ''daddr'' aarch64_t_uu_be32,
    Field ''uli'' aarch64_union_flowi_uli]"

lemma aarch64_struct_flowi4_layout [layout]:
  "size_of abi_aarch64 aarch64_struct_flowi4 = 56" "align_of abi_aarch64 aarch64_struct_flowi4 = 8"
  by (simp_all add: aarch64_struct_flowi4_def abi_aarch64_def layout_eval layout [unfolded abi_aarch64_def])

definition aarch64_struct_flowi6 :: ctype where
  \<comment> \<open>\<^verbatim>\<open>struct flowi6\<close>, lines 25403 to 25410\<close>
  "aarch64_struct_flowi6 =
    Struct [Field ''__fl_common'' aarch64_struct_flowi_common,
    Field ''daddr'' aarch64_struct_in6_addr,
    Field ''saddr'' aarch64_struct_in6_addr,
    Field ''flowlabel'' aarch64_t_uu_be32,
    Field ''uli'' aarch64_union_flowi_uli,
    Field ''mp_hash'' aarch64_t_uu_u32]"

lemma aarch64_struct_flowi6_layout [layout]:
  "size_of abi_aarch64 aarch64_struct_flowi6 = 88" "align_of abi_aarch64 aarch64_struct_flowi6 = 8"
  by (simp_all add: aarch64_struct_flowi6_def abi_aarch64_def layout_eval layout [unfolded abi_aarch64_def])

definition aarch64_struct_flowi :: ctype where
  \<comment> \<open>\<^verbatim>\<open>struct flowi\<close>, lines 25412 to 25418\<close>
  "aarch64_struct_flowi =
    Struct [Field ''u'' (Union [Field ''__fl_common'' aarch64_struct_flowi_common,
      Field ''ip4'' aarch64_struct_flowi4,
      Field ''ip6'' aarch64_struct_flowi6])]"

lemma aarch64_struct_flowi_layout [layout]:
  "size_of abi_aarch64 aarch64_struct_flowi = 88" "align_of abi_aarch64 aarch64_struct_flowi = 8"
  by (simp_all add: aarch64_struct_flowi_def abi_aarch64_def layout_eval layout [unfolded abi_aarch64_def])

definition aarch64_struct_inet_cork_full :: ctype where
  \<comment> \<open>\<^verbatim>\<open>struct inet_cork_full\<close>, lines 27983 to 27986\<close>
  "aarch64_struct_inet_cork_full =
    Struct [Field ''base'' aarch64_struct_inet_cork,
    Field ''fl'' aarch64_struct_flowi]"

lemma aarch64_struct_inet_cork_full_layout [layout]:
  "size_of abi_aarch64 aarch64_struct_inet_cork_full = 152" "align_of abi_aarch64 aarch64_struct_inet_cork_full = 8"
  by (simp_all add: aarch64_struct_inet_cork_full_def abi_aarch64_def layout_eval layout [unfolded abi_aarch64_def])

definition aarch64_struct_inet_sock :: ctype where
  \<comment> \<open>\<^verbatim>\<open>struct inet_sock\<close>, lines 27992 to 28013\<close>
  "aarch64_struct_inet_sock =
    Struct [Field ''sk'' aarch64_struct_sock,
    Field ''pinet6'' Pointer,
    Field ''inet_flags'' (Scalar TULong),
    Field ''inet_saddr'' aarch64_t_uu_be32,
    Field ''uc_ttl'' aarch64_t_uu_s16,
    Field ''inet_sport'' aarch64_t_uu_be16,
    Field ''inet_opt'' Pointer,
    Field ''inet_id'' aarch64_t_atomic_t,
    Field ''tos'' aarch64_t_uu_u8,
    Field ''min_ttl'' aarch64_t_uu_u8,
    Field ''mc_ttl'' aarch64_t_uu_u8,
    Field ''pmtudisc'' aarch64_t_uu_u8,
    Field ''rcv_tos'' aarch64_t_uu_u8,
    Field ''convert_csum'' aarch64_t_uu_u8,
    Field ''uc_index'' (Scalar TInt),
    Field ''mc_index'' (Scalar TInt),
    Field ''mc_addr'' aarch64_t_uu_be32,
    Field ''local_port_range'' aarch64_t_u32,
    Field ''mc_list'' Pointer,
    Field ''cork'' aarch64_struct_inet_cork_full]"

lemma aarch64_struct_inet_sock_layout [layout]:
  "size_of abi_aarch64 aarch64_struct_inet_sock = 944" "align_of abi_aarch64 aarch64_struct_inet_sock = 8"
  by (simp_all add: aarch64_struct_inet_sock_def abi_aarch64_def layout_eval layout [unfolded abi_aarch64_def])

definition aarch64_struct_fastopen_queue :: ctype where
  \<comment> \<open>\<^verbatim>\<open>struct fastopen_queue\<close>, lines 23849 to 23856\<close>
  "aarch64_struct_fastopen_queue =
    Struct [Field ''rskq_rst_head'' Pointer,
    Field ''rskq_rst_tail'' Pointer,
    Field ''lock'' aarch64_t_spinlock_t,
    Field ''qlen'' (Scalar TInt),
    Field ''max_qlen'' (Scalar TInt),
    Field ''ctx'' Pointer]"

lemma aarch64_struct_fastopen_queue_layout [layout]:
  "size_of abi_aarch64 aarch64_struct_fastopen_queue = 40" "align_of abi_aarch64 aarch64_struct_fastopen_queue = 8"
  by (simp_all add: aarch64_struct_fastopen_queue_def abi_aarch64_def layout_eval layout [unfolded abi_aarch64_def])

definition aarch64_struct_request_sock_queue :: ctype where
  \<comment> \<open>\<^verbatim>\<open>struct request_sock_queue\<close>, lines 28015 to 28024\<close>
  "aarch64_struct_request_sock_queue =
    Struct [Field ''rskq_lock'' aarch64_t_spinlock_t,
    Field ''rskq_defer_accept'' aarch64_t_u8,
    Field ''synflood_warned'' aarch64_t_u32,
    Field ''qlen'' aarch64_t_atomic_t,
    Field ''young'' aarch64_t_atomic_t,
    Field ''rskq_accept_head'' Pointer,
    Field ''rskq_accept_tail'' Pointer,
    Field ''fastopenq'' aarch64_struct_fastopen_queue]"

lemma aarch64_struct_request_sock_queue_layout [layout]:
  "size_of abi_aarch64 aarch64_struct_request_sock_queue = 80" "align_of abi_aarch64 aarch64_struct_request_sock_queue = 8"
  by (simp_all add: aarch64_struct_request_sock_queue_def abi_aarch64_def layout_eval layout [unfolded abi_aarch64_def])

definition aarch64_struct_inet_connection_sock :: ctype where
  \<comment> \<open>\<^verbatim>\<open>struct inet_connection_sock\<close>, lines 28030 to 28081\<close>
  "aarch64_struct_inet_connection_sock =
    Struct [Field ''icsk_inet'' aarch64_struct_inet_sock,
    Field ''icsk_accept_queue'' aarch64_struct_request_sock_queue,
    Field ''icsk_bind_hash'' Pointer,
    Field ''icsk_bind2_hash'' Pointer,
    Field ''icsk_timeout'' (Scalar TULong),
    Field ''icsk_retransmit_timer'' aarch64_struct_timer_list,
    Field ''icsk_delack_timer'' aarch64_struct_timer_list,
    Field ''icsk_rto'' aarch64_t_uu_u32,
    Field ''icsk_rto_min'' aarch64_t_uu_u32,
    Field ''icsk_delack_max'' aarch64_t_uu_u32,
    Field ''icsk_pmtu_cookie'' aarch64_t_uu_u32,
    Field ''icsk_ca_ops'' Pointer,
    Field ''icsk_af_ops'' Pointer,
    Field ''icsk_ulp_ops'' Pointer,
    Field ''icsk_ulp_data'' Pointer,
    Field ''icsk_clean_acked'' Pointer,
    Field ''icsk_sync_mss'' Pointer,
    Bits ''icsk_ca_state'' aarch64_t_uu_u8 5,
    Bits ''icsk_ca_initialized'' aarch64_t_uu_u8 1,
    Bits ''icsk_ca_setsockopt'' aarch64_t_uu_u8 1,
    Bits ''icsk_ca_dst_locked'' aarch64_t_uu_u8 1,
    Field ''icsk_retransmits'' aarch64_t_uu_u8,
    Field ''icsk_pending'' aarch64_t_uu_u8,
    Field ''icsk_backoff'' aarch64_t_uu_u8,
    Field ''icsk_syn_retries'' aarch64_t_uu_u8,
    Field ''icsk_probes_out'' aarch64_t_uu_u8,
    Field ''icsk_ext_hdr_len'' aarch64_t_uu_u16,
    Field ''icsk_ack'' (Struct [Field ''pending'' aarch64_t_uu_u8,
      Field ''quick'' aarch64_t_uu_u8,
      Field ''pingpong'' aarch64_t_uu_u8,
      Field ''retry'' aarch64_t_uu_u8,
      Bits ''ato'' aarch64_t_uu_u32 8,
      Bits ''lrcv_flowlabel'' aarch64_t_uu_u32 20,
      Bits ''unused'' aarch64_t_uu_u32 4,
      Field ''timeout'' (Scalar TULong),
      Field ''lrcvtime'' aarch64_t_uu_u32,
      Field ''last_seg_size'' aarch64_t_uu_u16,
      Field ''rcv_mss'' aarch64_t_uu_u16]),
    Field ''icsk_mtup'' (Struct [Field ''search_high'' (Scalar TInt),
      Field ''search_low'' (Scalar TInt),
      Bits ''probe_size'' aarch64_t_u32 31,
      Bits ''enabled'' aarch64_t_u32 1,
      Field ''probe_timestamp'' aarch64_t_u32]),
    Field ''icsk_probes_tstamp'' aarch64_t_u32,
    Field ''icsk_user_timeout'' aarch64_t_u32,
    Field ''icsk_ca_priv'' (Array aarch64_t_u64 13)]"

lemma aarch64_struct_inet_connection_sock_layout [layout]:
  "size_of abi_aarch64 aarch64_struct_inet_connection_sock = 1352" "align_of abi_aarch64 aarch64_struct_inet_connection_sock = 8"
  by (simp_all add: aarch64_struct_inet_connection_sock_def abi_aarch64_def layout_eval layout [unfolded abi_aarch64_def])

definition aarch64_struct_minmax_sample :: ctype where
  \<comment> \<open>\<^verbatim>\<open>struct minmax_sample\<close>, lines 31378 to 31381\<close>
  "aarch64_struct_minmax_sample =
    Struct [Field ''t'' aarch64_t_u32,
    Field ''v'' aarch64_t_u32]"

lemma aarch64_struct_minmax_sample_layout [layout]:
  "size_of abi_aarch64 aarch64_struct_minmax_sample = 8" "align_of abi_aarch64 aarch64_struct_minmax_sample = 4"
  by (simp_all add: aarch64_struct_minmax_sample_def abi_aarch64_def layout_eval layout [unfolded abi_aarch64_def])

definition aarch64_struct_minmax :: ctype where
  \<comment> \<open>\<^verbatim>\<open>struct minmax\<close>, lines 31383 to 31385\<close>
  "aarch64_struct_minmax =
    Struct [Field ''s'' (Array aarch64_struct_minmax_sample 3)]"

lemma aarch64_struct_minmax_layout [layout]:
  "size_of abi_aarch64 aarch64_struct_minmax = 24" "align_of abi_aarch64 aarch64_struct_minmax = 4"
  by (simp_all add: aarch64_struct_minmax_def abi_aarch64_def layout_eval layout [unfolded abi_aarch64_def])

definition aarch64_struct_tcp_options_received :: ctype where
  \<comment> \<open>\<^verbatim>\<open>struct tcp_options_received\<close>, lines 40818 to 40836\<close>
  "aarch64_struct_tcp_options_received =
    Struct [Field ''ts_recent_stamp'' (Scalar TInt),
    Field ''ts_recent'' aarch64_t_u32,
    Field ''rcv_tsval'' aarch64_t_u32,
    Field ''rcv_tsecr'' aarch64_t_u32,
    Bits ''saw_tstamp'' aarch64_t_u16 1,
    Bits ''tstamp_ok'' aarch64_t_u16 1,
    Bits ''dsack'' aarch64_t_u16 1,
    Bits ''wscale_ok'' aarch64_t_u16 1,
    Bits ''sack_ok'' aarch64_t_u16 3,
    Bits ''smc_ok'' aarch64_t_u16 1,
    Bits ''snd_wscale'' aarch64_t_u16 4,
    Bits ''rcv_wscale'' aarch64_t_u16 4,
    Bits ''saw_unknown'' aarch64_t_u8 1,
    Bits ''unused'' aarch64_t_u8 7,
    Field ''num_sacks'' aarch64_t_u8,
    Field ''user_mss'' aarch64_t_u16,
    Field ''mss_clamp'' aarch64_t_u16]"

lemma aarch64_struct_tcp_options_received_layout [layout]:
  "size_of abi_aarch64 aarch64_struct_tcp_options_received = 24" "align_of abi_aarch64 aarch64_struct_tcp_options_received = 4"
  by (simp_all add: aarch64_struct_tcp_options_received_def abi_aarch64_def layout_eval layout [unfolded abi_aarch64_def])

definition aarch64_struct_tcp_rack :: ctype where
  \<comment> \<open>\<^verbatim>\<open>struct tcp_rack\<close>, lines 40838 to 40847\<close>
  "aarch64_struct_tcp_rack =
    Struct [Field ''mstamp'' aarch64_t_u64,
    Field ''rtt_us'' aarch64_t_u32,
    Field ''end_seq'' aarch64_t_u32,
    Field ''last_delivered'' aarch64_t_u32,
    Field ''reo_wnd_steps'' aarch64_t_u8,
    Bits ''reo_wnd_persist'' aarch64_t_u8 5,
    Bits ''dsack_seen'' aarch64_t_u8 1,
    Bits ''advanced'' aarch64_t_u8 1]"

lemma aarch64_struct_tcp_rack_layout [layout]:
  "size_of abi_aarch64 aarch64_struct_tcp_rack = 24" "align_of abi_aarch64 aarch64_struct_tcp_rack = 8"
  by (simp_all add: aarch64_struct_tcp_rack_def abi_aarch64_def layout_eval layout [unfolded abi_aarch64_def])

definition aarch64_struct_rb_node :: ctype where
  \<comment> \<open>\<^verbatim>\<open>struct rb_node\<close>, lines 12709 to 12713\<close>
  "aarch64_struct_rb_node =
    Struct [Field ''__rb_parent_color'' (Scalar TULong),
    Field ''rb_right'' Pointer,
    Field ''rb_left'' Pointer]"

lemma aarch64_struct_rb_node_layout [layout]:
  "size_of abi_aarch64 aarch64_struct_rb_node = 24" "align_of abi_aarch64 aarch64_struct_rb_node = 8"
  by (simp_all add: aarch64_struct_rb_node_def abi_aarch64_def layout_eval layout [unfolded abi_aarch64_def])

definition aarch64_struct_timerqueue_node :: ctype where
  \<comment> \<open>\<^verbatim>\<open>struct timerqueue_node\<close>, lines 12715 to 12718\<close>
  "aarch64_struct_timerqueue_node =
    Struct [Field ''node'' aarch64_struct_rb_node,
    Field ''expires'' aarch64_t_ktime_t]"

lemma aarch64_struct_timerqueue_node_layout [layout]:
  "size_of abi_aarch64 aarch64_struct_timerqueue_node = 32" "align_of abi_aarch64 aarch64_struct_timerqueue_node = 8"
  by (simp_all add: aarch64_struct_timerqueue_node_def abi_aarch64_def layout_eval layout [unfolded abi_aarch64_def])

definition aarch64_struct_hrtimer :: ctype where
  \<comment> \<open>\<^verbatim>\<open>struct hrtimer\<close>, lines 12722 to 12731\<close>
  "aarch64_struct_hrtimer =
    Struct [Field ''node'' aarch64_struct_timerqueue_node,
    Field ''_softexpires'' aarch64_t_ktime_t,
    Field ''function'' Pointer,
    Field ''base'' Pointer,
    Field ''state'' aarch64_t_u8,
    Field ''is_rel'' aarch64_t_u8,
    Field ''is_soft'' aarch64_t_u8,
    Field ''is_hard'' aarch64_t_u8]"

lemma aarch64_struct_hrtimer_layout [layout]:
  "size_of abi_aarch64 aarch64_struct_hrtimer = 64" "align_of abi_aarch64 aarch64_struct_hrtimer = 8"
  by (simp_all add: aarch64_struct_hrtimer_def abi_aarch64_def layout_eval layout [unfolded abi_aarch64_def])

definition aarch64_struct_tcp_sack_block :: ctype where
  \<comment> \<open>\<^verbatim>\<open>struct tcp_sack_block\<close>, lines 40849 to 40852\<close>
  "aarch64_struct_tcp_sack_block =
    Struct [Field ''start_seq'' aarch64_t_u32,
    Field ''end_seq'' aarch64_t_u32]"

lemma aarch64_struct_tcp_sack_block_layout [layout]:
  "size_of abi_aarch64 aarch64_struct_tcp_sack_block = 8" "align_of abi_aarch64 aarch64_struct_tcp_sack_block = 4"
  by (simp_all add: aarch64_struct_tcp_sack_block_def abi_aarch64_def layout_eval layout [unfolded abi_aarch64_def])

definition aarch64_struct_tcp_sock :: ctype where
  \<comment> \<open>\<^verbatim>\<open>struct tcp_sock\<close>, lines 40856 to 41031\<close>
  "aarch64_struct_tcp_sock =
    Struct [Field ''inet_conn'' aarch64_struct_inet_connection_sock,
    Field ''__cacheline_group_begin__tcp_sock_read_tx'' (Array aarch64_t_uu_u8 0),
    Field ''max_window'' aarch64_t_u32,
    Field ''rcv_ssthresh'' aarch64_t_u32,
    Field ''reordering'' aarch64_t_u32,
    Field ''notsent_lowat'' aarch64_t_u32,
    Field ''gso_segs'' aarch64_t_u16,
    Field ''lost_skb_hint'' Pointer,
    Field ''retransmit_skb_hint'' Pointer,
    Field ''__cacheline_group_end__tcp_sock_read_tx'' (Array aarch64_t_uu_u8 0),
    Field ''__cacheline_group_begin__tcp_sock_read_txrx'' (Array aarch64_t_uu_u8 0),
    Field ''tsoffset'' aarch64_t_u32,
    Field ''snd_wnd'' aarch64_t_u32,
    Field ''mss_cache'' aarch64_t_u32,
    Field ''snd_cwnd'' aarch64_t_u32,
    Field ''prr_out'' aarch64_t_u32,
    Field ''lost_out'' aarch64_t_u32,
    Field ''sacked_out'' aarch64_t_u32,
    Field ''tcp_header_len'' aarch64_t_u16,
    Field ''scaling_ratio'' aarch64_t_u8,
    Bits ''chrono_type'' aarch64_t_u8 2,
    Bits ''repair'' aarch64_t_u8 1,
    Bits ''tcp_usec_ts'' aarch64_t_u8 1,
    Bits ''is_sack_reneg'' aarch64_t_u8 1,
    Bits ''is_cwnd_limited'' aarch64_t_u8 1,
    Field ''__cacheline_group_end__tcp_sock_read_txrx'' (Array aarch64_t_uu_u8 0),
    Field ''__cacheline_group_begin__tcp_sock_read_rx'' (Array aarch64_t_uu_u8 0),
    Field ''copied_seq'' aarch64_t_u32,
    Field ''rcv_tstamp'' aarch64_t_u32,
    Field ''snd_wl1'' aarch64_t_u32,
    Field ''tlp_high_seq'' aarch64_t_u32,
    Field ''rttvar_us'' aarch64_t_u32,
    Field ''retrans_out'' aarch64_t_u32,
    Field ''advmss'' aarch64_t_u16,
    Field ''urg_data'' aarch64_t_u16,
    Field ''lost'' aarch64_t_u32,
    Field ''rtt_min'' aarch64_struct_minmax,
    Field ''out_of_order_queue'' aarch64_struct_rb_root,
    Field ''snd_ssthresh'' aarch64_t_u32,
    Bits ''recvmsg_inq'' aarch64_t_u8 1,
    Field ''__cacheline_group_end__tcp_sock_read_rx'' (Array aarch64_t_uu_u8 0),
    Padding (Scalar TLong) 64,
    Padding (Scalar TLong) 64,
    Padding (Scalar TLong) 64,
    Padding (Scalar TLong) 64,
    Padding (Scalar TLong) 64,
    Field ''__cacheline_group_begin__tcp_sock_write_tx'' (Array aarch64_t_uu_u8 0),
    Field ''segs_out'' aarch64_t_u32,
    Field ''data_segs_out'' aarch64_t_u32,
    Field ''bytes_sent'' aarch64_t_u64,
    Field ''snd_sml'' aarch64_t_u32,
    Field ''chrono_start'' aarch64_t_u32,
    Field ''chrono_stat'' (Array aarch64_t_u32 3),
    Field ''write_seq'' aarch64_t_u32,
    Field ''pushed_seq'' aarch64_t_u32,
    Field ''lsndtime'' aarch64_t_u32,
    Field ''mdev_us'' aarch64_t_u32,
    Field ''rtt_seq'' aarch64_t_u32,
    Field ''tcp_wstamp_ns'' aarch64_t_u64,
    Field ''tsorted_sent_queue'' aarch64_struct_list_head,
    Field ''highest_sack'' Pointer,
    Field ''ecn_flags'' aarch64_t_u8,
    Field ''__cacheline_group_end__tcp_sock_write_tx'' (Array aarch64_t_uu_u8 0),
    Field ''__cacheline_group_begin__tcp_sock_write_txrx'' (Array aarch64_t_uu_u8 0),
    Field ''pred_flags'' aarch64_t_uu_be32,
    Field ''tcp_clock_cache'' aarch64_t_u64,
    Field ''tcp_mstamp'' aarch64_t_u64,
    Field ''rcv_nxt'' aarch64_t_u32,
    Field ''snd_nxt'' aarch64_t_u32,
    Field ''snd_una'' aarch64_t_u32,
    Field ''window_clamp'' aarch64_t_u32,
    Field ''srtt_us'' aarch64_t_u32,
    Field ''packets_out'' aarch64_t_u32,
    Field ''snd_up'' aarch64_t_u32,
    Field ''delivered'' aarch64_t_u32,
    Field ''delivered_ce'' aarch64_t_u32,
    Field ''app_limited'' aarch64_t_u32,
    Field ''rcv_wnd'' aarch64_t_u32,
    Field ''rx_opt'' aarch64_struct_tcp_options_received,
    Bits ''nonagle'' aarch64_t_u8 4,
    Bits ''rate_app_limited'' aarch64_t_u8 1,
    Field ''__cacheline_group_end__tcp_sock_write_txrx'' (Array aarch64_t_uu_u8 0),
    Padding (Scalar TLong) 0,
    Field ''__cacheline_group_begin__tcp_sock_write_rx'' (Array aarch64_t_uu_u8 0),
    Field ''bytes_received'' aarch64_t_u64,
    Field ''segs_in'' aarch64_t_u32,
    Field ''data_segs_in'' aarch64_t_u32,
    Field ''rcv_wup'' aarch64_t_u32,
    Field ''max_packets_out'' aarch64_t_u32,
    Field ''cwnd_usage_seq'' aarch64_t_u32,
    Field ''rate_delivered'' aarch64_t_u32,
    Field ''rate_interval_us'' aarch64_t_u32,
    Field ''rcv_rtt_last_tsecr'' aarch64_t_u32,
    Field ''first_tx_mstamp'' aarch64_t_u64,
    Field ''delivered_mstamp'' aarch64_t_u64,
    Field ''bytes_acked'' aarch64_t_u64,
    Field ''rcv_rtt_est'' (Struct [Field ''rtt_us'' aarch64_t_u32,
      Field ''seq'' aarch64_t_u32,
      Field ''time'' aarch64_t_u64]),
    Field ''rcvq_space'' (Struct [Field ''space'' aarch64_t_u32,
      Field ''seq'' aarch64_t_u32,
      Field ''time'' aarch64_t_u64]),
    Field ''__cacheline_group_end__tcp_sock_write_rx'' (Array aarch64_t_uu_u8 0),
    Field ''dsack_dups'' aarch64_t_u32,
    Field ''compressed_ack_rcv_nxt'' aarch64_t_u32,
    Field ''tsq_node'' aarch64_struct_list_head,
    Field ''rack'' aarch64_struct_tcp_rack,
    Field ''compressed_ack'' aarch64_t_u8,
    Bits ''dup_ack_counter'' aarch64_t_u8 2,
    Bits ''tlp_retrans'' aarch64_t_u8 1,
    Bits ''unused'' aarch64_t_u8 5,
    Bits ''thin_lto'' aarch64_t_u8 1,
    Bits ''fastopen_connect'' aarch64_t_u8 1,
    Bits ''fastopen_no_cookie'' aarch64_t_u8 1,
    Bits ''fastopen_client_fail'' aarch64_t_u8 2,
    Bits ''frto'' aarch64_t_u8 1,
    Field ''repair_queue'' aarch64_t_u8,
    Bits ''save_syn'' aarch64_t_u8 2,
    Bits ''syn_data'' aarch64_t_u8 1,
    Bits ''syn_fastopen'' aarch64_t_u8 1,
    Bits ''syn_fastopen_exp'' aarch64_t_u8 1,
    Bits ''syn_fastopen_ch'' aarch64_t_u8 1,
    Bits ''syn_data_acked'' aarch64_t_u8 1,
    Field ''keepalive_probes'' aarch64_t_u8,
    Field ''tcp_tx_delay'' aarch64_t_u32,
    Field ''mdev_max_us'' aarch64_t_u32,
    Field ''reord_seen'' aarch64_t_u32,
    Field ''snd_cwnd_cnt'' aarch64_t_u32,
    Field ''snd_cwnd_clamp'' aarch64_t_u32,
    Field ''snd_cwnd_used'' aarch64_t_u32,
    Field ''snd_cwnd_stamp'' aarch64_t_u32,
    Field ''prior_cwnd'' aarch64_t_u32,
    Field ''prr_delivered'' aarch64_t_u32,
    Field ''last_oow_ack_time'' aarch64_t_u32,
    Field ''pacing_timer'' aarch64_struct_hrtimer,
    Field ''compressed_ack_timer'' aarch64_struct_hrtimer,
    Field ''ooo_last_skb'' Pointer,
    Field ''duplicate_sack'' (Array aarch64_struct_tcp_sack_block 1),
    Field ''selective_acks'' (Array aarch64_struct_tcp_sack_block 4),
    Field ''recv_sack_cache'' (Array aarch64_struct_tcp_sack_block 4),
    Field ''lost_cnt_hint'' (Scalar TInt),
    Field ''prior_ssthresh'' aarch64_t_u32,
    Field ''high_seq'' aarch64_t_u32,
    Field ''retrans_stamp'' aarch64_t_u32,
    Field ''undo_marker'' aarch64_t_u32,
    Field ''undo_retrans'' (Scalar TInt),
    Field ''bytes_retrans'' aarch64_t_u64,
    Field ''total_retrans'' aarch64_t_u32,
    Field ''rto_stamp'' aarch64_t_u32,
    Field ''total_rto'' aarch64_t_u16,
    Field ''total_rto_recoveries'' aarch64_t_u16,
    Field ''total_rto_time'' aarch64_t_u32,
    Field ''urg_seq'' aarch64_t_u32,
    Field ''keepalive_time'' (Scalar TUInt),
    Field ''keepalive_intvl'' (Scalar TUInt),
    Field ''linger2'' (Scalar TInt),
    Field ''bpf_sock_ops_cb_flags'' aarch64_t_u8,
    Bits ''bpf_chg_cc_inprogress'' aarch64_t_u8 1,
    Field ''timeout_rehash'' aarch64_t_u16,
    Field ''rcv_ooopack'' aarch64_t_u32,
    Field ''mtu_probe'' (Struct [Field ''probe_seq_start'' aarch64_t_u32,
      Field ''probe_seq_end'' aarch64_t_u32]),
    Field ''plb_rehash'' aarch64_t_u32,
    Field ''mtu_info'' aarch64_t_u32,
    Field ''fastopen_req'' Pointer,
    Field ''fastopen_rsk'' Pointer,
    Field ''saved_syn'' Pointer,
    Padding (Scalar TLong) 64]"

lemma aarch64_struct_tcp_sock_layout [layout]:
  "size_of abi_aarch64 aarch64_struct_tcp_sock = 2240" "align_of abi_aarch64 aarch64_struct_tcp_sock = 8"
  by (simp_all add: aarch64_struct_tcp_sock_def abi_aarch64_def layout_eval layout [unfolded abi_aarch64_def])

definition aarch64_struct_in6_pktinfo :: ctype where
  \<comment> \<open>\<^verbatim>\<open>struct in6_pktinfo\<close>, lines 27450 to 27453\<close>
  "aarch64_struct_in6_pktinfo =
    Struct [Field ''ipi6_addr'' aarch64_struct_in6_addr,
    Field ''ipi6_ifindex'' (Scalar TInt)]"

lemma aarch64_struct_in6_pktinfo_layout [layout]:
  "size_of abi_aarch64 aarch64_struct_in6_pktinfo = 20" "align_of abi_aarch64 aarch64_struct_in6_pktinfo = 4"
  by (simp_all add: aarch64_struct_in6_pktinfo_def abi_aarch64_def layout_eval layout [unfolded abi_aarch64_def])

definition aarch64_t_s16 :: ctype where
  \<comment> \<open>\<^verbatim>\<open>typedef s16\<close>, lines 11478 to 11478\<close>
  "aarch64_t_s16 =
    aarch64_t_uu_s16"

lemma aarch64_t_s16_layout [layout]:
  "size_of abi_aarch64 aarch64_t_s16 = 2" "align_of abi_aarch64 aarch64_t_s16 = 2"
  by (simp_all add: aarch64_t_s16_def abi_aarch64_def layout_eval layout [unfolded abi_aarch64_def])

definition aarch64_struct_inet6_cork :: ctype where
  \<comment> \<open>\<^verbatim>\<open>struct inet6_cork\<close>, lines 27547 to 27551\<close>
  "aarch64_struct_inet6_cork =
    Struct [Field ''opt'' Pointer,
    Field ''hop_limit'' aarch64_t_u8,
    Field ''tclass'' aarch64_t_u8]"

lemma aarch64_struct_inet6_cork_layout [layout]:
  "size_of abi_aarch64 aarch64_struct_inet6_cork = 16" "align_of abi_aarch64 aarch64_struct_inet6_cork = 8"
  by (simp_all add: aarch64_struct_inet6_cork_def abi_aarch64_def layout_eval layout [unfolded abi_aarch64_def])

definition aarch64_struct_ipv6_pinfo :: ctype where
  \<comment> \<open>\<^verbatim>\<open>struct ipv6_pinfo\<close>, lines 29207 to 29250\<close>
  "aarch64_struct_ipv6_pinfo =
    Struct [Field ''saddr'' aarch64_struct_in6_addr,
    Field ''sticky_pktinfo'' aarch64_struct_in6_pktinfo,
    Field ''daddr_cache'' Pointer,
    Field ''flow_label'' aarch64_t_uu_be32,
    Field ''frag_size'' aarch64_t_uu_u32,
    Field ''hop_limit'' aarch64_t_s16,
    Field ''mcast_hops'' aarch64_t_u8,
    Field ''ucast_oif'' (Scalar TInt),
    Field ''mcast_oif'' (Scalar TInt),
    Field ''rxopt'' (Union [Field ''bits'' (Struct [Bits ''srcrt'' aarch64_t_uu_u16 1,
        Bits ''osrcrt'' aarch64_t_uu_u16 1,
        Bits ''rxinfo'' aarch64_t_uu_u16 1,
        Bits ''rxoinfo'' aarch64_t_uu_u16 1,
        Bits ''rxhlim'' aarch64_t_uu_u16 1,
        Bits ''rxohlim'' aarch64_t_uu_u16 1,
        Bits ''hopopts'' aarch64_t_uu_u16 1,
        Bits ''ohopopts'' aarch64_t_uu_u16 1,
        Bits ''dstopts'' aarch64_t_uu_u16 1,
        Bits ''odstopts'' aarch64_t_uu_u16 1,
        Bits ''rxflow'' aarch64_t_uu_u16 1,
        Bits ''rxtclass'' aarch64_t_uu_u16 1,
        Bits ''rxpmtu'' aarch64_t_uu_u16 1,
        Bits ''rxorigdstaddr'' aarch64_t_uu_u16 1,
        Bits ''recvfragsize'' aarch64_t_uu_u16 1]),
      Field ''all'' aarch64_t_uu_u16]),
    Field ''srcprefs'' aarch64_t_uu_u8,
    Field ''pmtudisc'' aarch64_t_uu_u8,
    Field ''min_hopcount'' aarch64_t_uu_u8,
    Field ''tclass'' aarch64_t_uu_u8,
    Field ''rcv_flowinfo'' aarch64_t_uu_be32,
    Field ''dst_cookie'' aarch64_t_uu_u32,
    Field ''ipv6_mc_list'' Pointer,
    Field ''ipv6_ac_list'' Pointer,
    Field ''ipv6_fl_list'' Pointer,
    Field ''opt'' Pointer,
    Field ''pktoptions'' Pointer,
    Field ''rxpmtu'' Pointer,
    Field ''cork'' aarch64_struct_inet6_cork]"

lemma aarch64_struct_ipv6_pinfo_layout [layout]:
  "size_of abi_aarch64 aarch64_struct_ipv6_pinfo = 152" "align_of abi_aarch64 aarch64_struct_ipv6_pinfo = 8"
  by (simp_all add: aarch64_struct_ipv6_pinfo_def abi_aarch64_def layout_eval layout [unfolded abi_aarch64_def])

definition aarch64_struct_tcp6_sock :: ctype where
  \<comment> \<open>\<^verbatim>\<open>struct tcp6_sock\<close>, lines 41033 to 41041\<close>
  "aarch64_struct_tcp6_sock =
    Struct [Field ''tcp'' aarch64_struct_tcp_sock,
    Field ''inet6'' aarch64_struct_ipv6_pinfo,
    Padding (Scalar TLong) 64,
    Padding (Scalar TLong) 64,
    Padding (Scalar TLong) 64,
    Padding (Scalar TLong) 64,
    Padding (Scalar TLong) 64]"

lemma aarch64_struct_tcp6_sock_layout [layout]:
  "size_of abi_aarch64 aarch64_struct_tcp6_sock = 2432" "align_of abi_aarch64 aarch64_struct_tcp6_sock = 8"
  by (simp_all add: aarch64_struct_tcp6_sock_def abi_aarch64_def layout_eval layout [unfolded abi_aarch64_def])

definition aarch64_struct_udp_sock :: ctype where
  \<comment> \<open>\<^verbatim>\<open>struct udp_sock\<close>, lines 45648 to 45679\<close>
  "aarch64_struct_udp_sock =
    Struct [Field ''inet'' aarch64_struct_inet_sock,
    Field ''udp_flags'' (Scalar TULong),
    Field ''pending'' (Scalar TInt),
    Field ''encap_type'' aarch64_t_uu_u8,
    Field ''udp_lrpa_hash'' aarch64_t_uu_u16,
    Field ''udp_lrpa_node'' aarch64_struct_hlist_nulls_node,
    Field ''len'' aarch64_t_uu_u16,
    Field ''gso_size'' aarch64_t_uu_u16,
    Field ''pcslen'' aarch64_t_uu_u16,
    Field ''pcrlen'' aarch64_t_uu_u16,
    Field ''encap_rcv'' Pointer,
    Field ''encap_err_rcv'' Pointer,
    Field ''encap_err_lookup'' Pointer,
    Field ''encap_destroy'' Pointer,
    Field ''gro_receive'' Pointer,
    Field ''gro_complete'' Pointer,
    Padding (Scalar TLong) 64,
    Padding (Scalar TLong) 64,
    Padding (Scalar TLong) 64,
    Padding (Scalar TLong) 64,
    Padding (Scalar TLong) 64,
    Padding (Scalar TLong) 64,
    Padding (Scalar TLong) 64,
    Field ''reader_queue'' aarch64_struct_sk_buff_head,
    Field ''forward_deficit'' (Scalar TInt),
    Field ''forward_threshold'' (Scalar TInt),
    Field ''peeking_with_offset'' aarch64_t_bool,
    Padding (Scalar TLong) 64,
    Padding (Scalar TLong) 64,
    Padding (Scalar TLong) 64]"

lemma aarch64_struct_udp_sock_layout [layout]:
  "size_of abi_aarch64 aarch64_struct_udp_sock = 1152" "align_of abi_aarch64 aarch64_struct_udp_sock = 8"
  by (simp_all add: aarch64_struct_udp_sock_def abi_aarch64_def layout_eval layout [unfolded abi_aarch64_def])

definition aarch64_struct_udp6_sock :: ctype where
  \<comment> \<open>\<^verbatim>\<open>struct udp6_sock\<close>, lines 45681 to 45689\<close>
  "aarch64_struct_udp6_sock =
    Struct [Field ''udp'' aarch64_struct_udp_sock,
    Field ''inet6'' aarch64_struct_ipv6_pinfo,
    Padding (Scalar TLong) 64,
    Padding (Scalar TLong) 64,
    Padding (Scalar TLong) 64,
    Padding (Scalar TLong) 64,
    Padding (Scalar TLong) 64]"

lemma aarch64_struct_udp6_sock_layout [layout]:
  "size_of abi_aarch64 aarch64_struct_udp6_sock = 1344" "align_of abi_aarch64 aarch64_struct_udp6_sock = 8"
  by (simp_all add: aarch64_struct_udp6_sock_def abi_aarch64_def layout_eval layout [unfolded abi_aarch64_def])

definition aarch64_struct_icmp6_filter :: ctype where
  \<comment> \<open>\<^verbatim>\<open>struct icmp6_filter\<close>, lines 26972 to 26974\<close>
  "aarch64_struct_icmp6_filter =
    Struct [Field ''data'' (Array aarch64_t_uu_u32 8)]"

lemma aarch64_struct_icmp6_filter_layout [layout]:
  "size_of abi_aarch64 aarch64_struct_icmp6_filter = 32" "align_of abi_aarch64 aarch64_struct_icmp6_filter = 4"
  by (simp_all add: aarch64_struct_icmp6_filter_def abi_aarch64_def layout_eval layout [unfolded abi_aarch64_def])

definition aarch64_struct_raw6_sock :: ctype where
  \<comment> \<open>\<^verbatim>\<open>struct raw6_sock\<close>, lines 37244 to 37251\<close>
  "aarch64_struct_raw6_sock =
    Struct [Field ''inet'' aarch64_struct_inet_sock,
    Field ''checksum'' aarch64_t_uu_u32,
    Field ''offset'' aarch64_t_uu_u32,
    Field ''filter'' aarch64_struct_icmp6_filter,
    Field ''ip6mr_table'' aarch64_t_uu_u32,
    Field ''inet6'' aarch64_struct_ipv6_pinfo]"

lemma aarch64_struct_raw6_sock_layout [layout]:
  "size_of abi_aarch64 aarch64_struct_raw6_sock = 1144" "align_of abi_aarch64 aarch64_struct_raw6_sock = 8"
  by (simp_all add: aarch64_struct_raw6_sock_def abi_aarch64_def layout_eval layout [unfolded abi_aarch64_def])

definition aarch64_t_uu_kernel_ulong_t :: ctype where
  \<comment> \<open>\<^verbatim>\<open>typedef __kernel_ulong_t\<close>, lines 11450 to 11450\<close>
  "aarch64_t_uu_kernel_ulong_t =
    Scalar TULong"

lemma aarch64_t_uu_kernel_ulong_t_layout [layout]:
  "size_of abi_aarch64 aarch64_t_uu_kernel_ulong_t = 8" "align_of abi_aarch64 aarch64_t_uu_kernel_ulong_t = 8"
  by (simp_all add: aarch64_t_uu_kernel_ulong_t_def abi_aarch64_def layout_eval layout [unfolded abi_aarch64_def])

definition aarch64_t_uu_kernel_size_t :: ctype where
  \<comment> \<open>\<^verbatim>\<open>typedef __kernel_size_t\<close>, lines 11452 to 11452\<close>
  "aarch64_t_uu_kernel_size_t =
    aarch64_t_uu_kernel_ulong_t"

lemma aarch64_t_uu_kernel_size_t_layout [layout]:
  "size_of abi_aarch64 aarch64_t_uu_kernel_size_t = 8" "align_of abi_aarch64 aarch64_t_uu_kernel_size_t = 8"
  by (simp_all add: aarch64_t_uu_kernel_size_t_def abi_aarch64_def layout_eval layout [unfolded abi_aarch64_def])

definition aarch64_t_size_t :: ctype where
  \<comment> \<open>\<^verbatim>\<open>typedef size_t\<close>, lines 11468 to 11468\<close>
  "aarch64_t_size_t =
    aarch64_t_uu_kernel_size_t"

lemma aarch64_t_size_t_layout [layout]:
  "size_of abi_aarch64 aarch64_t_size_t = 8" "align_of abi_aarch64 aarch64_t_size_t = 8"
  by (simp_all add: aarch64_t_size_t_def abi_aarch64_def layout_eval layout [unfolded abi_aarch64_def])

definition aarch64_struct_iovec :: ctype where
  \<comment> \<open>\<^verbatim>\<open>struct iovec\<close>, lines 28637 to 28640\<close>
  "aarch64_struct_iovec =
    Struct [Field ''iov_base'' Pointer,
    Field ''iov_len'' aarch64_t_uu_kernel_size_t]"

lemma aarch64_struct_iovec_layout [layout]:
  "size_of abi_aarch64 aarch64_struct_iovec = 16" "align_of abi_aarch64 aarch64_struct_iovec = 8"
  by (simp_all add: aarch64_struct_iovec_def abi_aarch64_def layout_eval layout [unfolded abi_aarch64_def])

definition aarch64_t_uu_kernel_loff_t :: ctype where
  \<comment> \<open>\<^verbatim>\<open>typedef __kernel_loff_t\<close>, lines 11384 to 11384\<close>
  "aarch64_t_uu_kernel_loff_t =
    Scalar TLongLong"

lemma aarch64_t_uu_kernel_loff_t_layout [layout]:
  "size_of abi_aarch64 aarch64_t_uu_kernel_loff_t = 8" "align_of abi_aarch64 aarch64_t_uu_kernel_loff_t = 8"
  by (simp_all add: aarch64_t_uu_kernel_loff_t_def abi_aarch64_def layout_eval layout [unfolded abi_aarch64_def])

definition aarch64_t_loff_t :: ctype where
  \<comment> \<open>\<^verbatim>\<open>typedef loff_t\<close>, lines 11394 to 11394\<close>
  "aarch64_t_loff_t =
    aarch64_t_uu_kernel_loff_t"

lemma aarch64_t_loff_t_layout [layout]:
  "size_of abi_aarch64 aarch64_t_loff_t = 8" "align_of abi_aarch64 aarch64_t_loff_t = 8"
  by (simp_all add: aarch64_t_loff_t_def abi_aarch64_def layout_eval layout [unfolded abi_aarch64_def])

definition aarch64_struct_iov_iter :: ctype where
  \<comment> \<open>\<^verbatim>\<open>struct iov_iter\<close>, lines 28644 to 28668\<close>
  "aarch64_struct_iov_iter =
    Struct [Field ''iter_type'' aarch64_t_u8,
    Field ''nofault'' aarch64_t_bool,
    Field ''data_source'' aarch64_t_bool,
    Field ''iov_offset'' aarch64_t_size_t,
    Anonymous (Union [Field ''__ubuf_iovec'' aarch64_struct_iovec,
      Anonymous (Struct [Anonymous (Union [Field ''__iov'' Pointer,
          Field ''kvec'' Pointer,
          Field ''bvec'' Pointer,
          Field ''folioq'' Pointer,
          Field ''xarray'' Pointer,
          Field ''ubuf'' Pointer]),
        Field ''count'' aarch64_t_size_t])]),
    Anonymous (Union [Field ''nr_segs'' (Scalar TULong),
      Field ''folioq_slot'' aarch64_t_u8,
      Field ''xarray_start'' aarch64_t_loff_t])]"

lemma aarch64_struct_iov_iter_layout [layout]:
  "size_of abi_aarch64 aarch64_struct_iov_iter = 40" "align_of abi_aarch64 aarch64_struct_iov_iter = 8"
  by (simp_all add: aarch64_struct_iov_iter_def abi_aarch64_def layout_eval layout [unfolded abi_aarch64_def])

definition aarch64_struct_msghdr :: ctype where
  \<comment> \<open>\<^verbatim>\<open>struct msghdr\<close>, lines 31984 to 32000\<close>
  "aarch64_struct_msghdr =
    Struct [Field ''msg_name'' Pointer,
    Field ''msg_namelen'' (Scalar TInt),
    Field ''msg_inq'' (Scalar TInt),
    Field ''msg_iter'' aarch64_struct_iov_iter,
    Anonymous (Union [Field ''msg_control'' Pointer,
      Field ''msg_control_user'' Pointer]),
    Bits ''msg_control_is_user'' aarch64_t_bool 1,
    Bits ''msg_get_inq'' aarch64_t_bool 1,
    Field ''msg_flags'' (Scalar TUInt),
    Field ''msg_controllen'' aarch64_t_uu_kernel_size_t,
    Field ''msg_iocb'' Pointer,
    Field ''msg_ubuf'' Pointer,
    Field ''sg_from_iter'' Pointer]"

lemma aarch64_struct_msghdr_layout [layout]:
  "size_of abi_aarch64 aarch64_struct_msghdr = 104" "align_of abi_aarch64 aarch64_struct_msghdr = 8"
  by (simp_all add: aarch64_struct_msghdr_def abi_aarch64_def layout_eval layout [unfolded abi_aarch64_def])

definition aarch64_t_uu_kernel_sa_family_t :: ctype where
  \<comment> \<open>\<^verbatim>\<open>typedef __kernel_sa_family_t\<close>, lines 11488 to 11488\<close>
  "aarch64_t_uu_kernel_sa_family_t =
    Scalar TUShort"

lemma aarch64_t_uu_kernel_sa_family_t_layout [layout]:
  "size_of abi_aarch64 aarch64_t_uu_kernel_sa_family_t = 2" "align_of abi_aarch64 aarch64_t_uu_kernel_sa_family_t = 2"
  by (simp_all add: aarch64_t_uu_kernel_sa_family_t_def abi_aarch64_def layout_eval layout [unfolded abi_aarch64_def])

definition aarch64_struct_in_addr :: ctype where
  \<comment> \<open>\<^verbatim>\<open>struct in_addr\<close>, lines 22242 to 22244\<close>
  "aarch64_struct_in_addr =
    Struct [Field ''s_addr'' aarch64_t_uu_be32]"

lemma aarch64_struct_in_addr_layout [layout]:
  "size_of abi_aarch64 aarch64_struct_in_addr = 4" "align_of abi_aarch64 aarch64_struct_in_addr = 4"
  by (simp_all add: aarch64_struct_in_addr_def abi_aarch64_def layout_eval layout [unfolded abi_aarch64_def])

definition aarch64_struct_sockaddr_in :: ctype where
  \<comment> \<open>\<^verbatim>\<open>struct sockaddr_in\<close>, lines 39648 to 39653\<close>
  "aarch64_struct_sockaddr_in =
    Struct [Field ''sin_family'' aarch64_t_uu_kernel_sa_family_t,
    Field ''sin_port'' aarch64_t_uu_be16,
    Field ''sin_addr'' aarch64_struct_in_addr,
    Field ''__pad'' (Array (Scalar TUChar) 8)]"

lemma aarch64_struct_sockaddr_in_layout [layout]:
  "size_of abi_aarch64 aarch64_struct_sockaddr_in = 16" "align_of abi_aarch64 aarch64_struct_sockaddr_in = 4"
  by (simp_all add: aarch64_struct_sockaddr_in_def abi_aarch64_def layout_eval layout [unfolded abi_aarch64_def])

definition aarch64_struct_sockaddr_in6 :: ctype where
  \<comment> \<open>\<^verbatim>\<open>struct sockaddr_in6\<close>, lines 28718 to 28724\<close>
  "aarch64_struct_sockaddr_in6 =
    Struct [Field ''sin6_family'' (Scalar TUShort),
    Field ''sin6_port'' aarch64_t_uu_be16,
    Field ''sin6_flowinfo'' aarch64_t_uu_be32,
    Field ''sin6_addr'' aarch64_struct_in6_addr,
    Field ''sin6_scope_id'' aarch64_t_uu_u32]"

lemma aarch64_struct_sockaddr_in6_layout [layout]:
  "size_of abi_aarch64 aarch64_struct_sockaddr_in6 = 28" "align_of abi_aarch64 aarch64_struct_sockaddr_in6 = 4"
  by (simp_all add: aarch64_struct_sockaddr_in6_def abi_aarch64_def layout_eval layout [unfolded abi_aarch64_def])

definition aarch64_struct_thread_info :: ctype where
  \<comment> \<open>\<^verbatim>\<open>struct thread_info\<close>, lines 40393 to 40403\<close>
  "aarch64_struct_thread_info =
    Struct [Field ''flags'' (Scalar TULong),
    Anonymous (Union [Field ''preempt_count'' aarch64_t_u64,
      Field ''preempt'' (Struct [Field ''count'' aarch64_t_u32,
        Field ''need_resched'' aarch64_t_u32])]),
    Field ''cpu'' aarch64_t_u32]"

lemma aarch64_struct_thread_info_layout [layout]:
  "size_of abi_aarch64 aarch64_struct_thread_info = 24" "align_of abi_aarch64 aarch64_struct_thread_info = 8"
  by (simp_all add: aarch64_struct_thread_info_def abi_aarch64_def layout_eval layout [unfolded abi_aarch64_def])

definition aarch64_struct_llist_node :: ctype where
  \<comment> \<open>\<^verbatim>\<open>struct llist_node\<close>, lines 12262 to 12264\<close>
  "aarch64_struct_llist_node =
    Struct [Field ''next'' Pointer]"

lemma aarch64_struct_llist_node_layout [layout]:
  "size_of abi_aarch64 aarch64_struct_llist_node = 8" "align_of abi_aarch64 aarch64_struct_llist_node = 8"
  by (simp_all add: aarch64_struct_llist_node_def abi_aarch64_def layout_eval layout [unfolded abi_aarch64_def])

definition aarch64_struct_uu_call_single_node :: ctype where
  \<comment> \<open>\<^verbatim>\<open>struct __call_single_node\<close>, lines 12266 to 12274\<close>
  "aarch64_struct_uu_call_single_node =
    Struct [Field ''llist'' aarch64_struct_llist_node,
    Anonymous (Union [Field ''u_flags'' (Scalar TUInt),
      Field ''a_flags'' aarch64_t_atomic_t]),
    Field ''src'' aarch64_t_u16,
    Field ''dst'' aarch64_t_u16]"

lemma aarch64_struct_uu_call_single_node_layout [layout]:
  "size_of abi_aarch64 aarch64_struct_uu_call_single_node = 16" "align_of abi_aarch64 aarch64_struct_uu_call_single_node = 8"
  by (simp_all add: aarch64_struct_uu_call_single_node_def abi_aarch64_def layout_eval layout [unfolded abi_aarch64_def])

definition aarch64_struct_load_weight :: ctype where
  \<comment> \<open>\<^verbatim>\<open>struct load_weight\<close>, lines 19923 to 19926\<close>
  "aarch64_struct_load_weight =
    Struct [Field ''weight'' (Scalar TULong),
    Field ''inv_weight'' aarch64_t_u32]"

lemma aarch64_struct_load_weight_layout [layout]:
  "size_of abi_aarch64 aarch64_struct_load_weight = 16" "align_of abi_aarch64 aarch64_struct_load_weight = 8"
  by (simp_all add: aarch64_struct_load_weight_def abi_aarch64_def layout_eval layout [unfolded abi_aarch64_def])

definition aarch64_struct_sched_avg :: ctype where
  \<comment> \<open>\<^verbatim>\<open>struct sched_avg\<close>, lines 19928 to 19938\<close>
  "aarch64_struct_sched_avg =
    Struct [Field ''last_update_time'' aarch64_t_u64,
    Field ''load_sum'' aarch64_t_u64,
    Field ''runnable_sum'' aarch64_t_u64,
    Field ''util_sum'' aarch64_t_u32,
    Field ''period_contrib'' aarch64_t_u32,
    Field ''load_avg'' (Scalar TULong),
    Field ''runnable_avg'' (Scalar TULong),
    Field ''util_avg'' (Scalar TULong),
    Field ''util_est'' (Scalar TUInt)]"

lemma aarch64_struct_sched_avg_layout [layout]:
  "size_of abi_aarch64 aarch64_struct_sched_avg = 64" "align_of abi_aarch64 aarch64_struct_sched_avg = 8"
  by (simp_all add: aarch64_struct_sched_avg_def abi_aarch64_def layout_eval layout [unfolded abi_aarch64_def])

definition aarch64_struct_sched_entity :: ctype where
  \<comment> \<open>\<^verbatim>\<open>struct sched_entity\<close>, lines 38890 to 38915\<close>
  "aarch64_struct_sched_entity =
    Struct [Field ''load'' aarch64_struct_load_weight,
    Field ''run_node'' aarch64_struct_rb_node,
    Field ''deadline'' aarch64_t_u64,
    Field ''min_vruntime'' aarch64_t_u64,
    Field ''min_slice'' aarch64_t_u64,
    Field ''group_node'' aarch64_struct_list_head,
    Field ''on_rq'' (Scalar TUChar),
    Field ''sched_delayed'' (Scalar TUChar),
    Field ''rel_deadline'' (Scalar TUChar),
    Field ''custom_slice'' (Scalar TUChar),
    Field ''exec_start'' aarch64_t_u64,
    Field ''sum_exec_runtime'' aarch64_t_u64,
    Field ''prev_sum_exec_runtime'' aarch64_t_u64,
    Field ''vruntime'' aarch64_t_u64,
    Field ''vlag'' aarch64_t_s64,
    Field ''slice'' aarch64_t_u64,
    Field ''nr_migrations'' aarch64_t_u64,
    Padding (Scalar TLong) 64,
    Padding (Scalar TLong) 64,
    Padding (Scalar TLong) 64,
    Padding (Scalar TLong) 64,
    Padding (Scalar TLong) 64,
    Padding (Scalar TLong) 64,
    Field ''avg'' aarch64_struct_sched_avg]"

lemma aarch64_struct_sched_entity_layout [layout]:
  "size_of abi_aarch64 aarch64_struct_sched_entity = 256" "align_of abi_aarch64 aarch64_struct_sched_entity = 8"
  by (simp_all add: aarch64_struct_sched_entity_def abi_aarch64_def layout_eval layout [unfolded abi_aarch64_def])

definition aarch64_struct_sched_rt_entity :: ctype where
  \<comment> \<open>\<^verbatim>\<open>struct sched_rt_entity\<close>, lines 38944 to 38952\<close>
  "aarch64_struct_sched_rt_entity =
    Struct [Field ''run_list'' aarch64_struct_list_head,
    Field ''timeout'' (Scalar TULong),
    Field ''watchdog_stamp'' (Scalar TULong),
    Field ''time_slice'' (Scalar TUInt),
    Field ''on_rq'' (Scalar TUShort),
    Field ''on_list'' (Scalar TUShort),
    Field ''back'' Pointer]"

lemma aarch64_struct_sched_rt_entity_layout [layout]:
  "size_of abi_aarch64 aarch64_struct_sched_rt_entity = 48" "align_of abi_aarch64 aarch64_struct_sched_rt_entity = 8"
  by (simp_all add: aarch64_struct_sched_rt_entity_def abi_aarch64_def layout_eval layout [unfolded abi_aarch64_def])

definition aarch64_t_dl_server_has_tasks_f :: ctype where
  \<comment> \<open>\<^verbatim>\<open>typedef dl_server_has_tasks_f\<close>, lines 38148 to 38148\<close>
  "aarch64_t_dl_server_has_tasks_f =
    Pointer"

lemma aarch64_t_dl_server_has_tasks_f_layout [layout]:
  "size_of abi_aarch64 aarch64_t_dl_server_has_tasks_f = 8" "align_of abi_aarch64 aarch64_t_dl_server_has_tasks_f = 8"
  by (simp_all add: aarch64_t_dl_server_has_tasks_f_def abi_aarch64_def layout_eval layout [unfolded abi_aarch64_def])

definition aarch64_t_dl_server_pick_f :: ctype where
  \<comment> \<open>\<^verbatim>\<open>typedef dl_server_pick_f\<close>, lines 38150 to 38150\<close>
  "aarch64_t_dl_server_pick_f =
    Pointer"

lemma aarch64_t_dl_server_pick_f_layout [layout]:
  "size_of abi_aarch64 aarch64_t_dl_server_pick_f = 8" "align_of abi_aarch64 aarch64_t_dl_server_pick_f = 8"
  by (simp_all add: aarch64_t_dl_server_pick_f_def abi_aarch64_def layout_eval layout [unfolded abi_aarch64_def])

definition aarch64_struct_sched_dl_entity :: ctype where
  \<comment> \<open>\<^verbatim>\<open>struct sched_dl_entity\<close>, lines 38152 to 38176\<close>
  "aarch64_struct_sched_dl_entity =
    Struct [Field ''rb_node'' aarch64_struct_rb_node,
    Field ''dl_runtime'' aarch64_t_u64,
    Field ''dl_deadline'' aarch64_t_u64,
    Field ''dl_period'' aarch64_t_u64,
    Field ''dl_bw'' aarch64_t_u64,
    Field ''dl_density'' aarch64_t_u64,
    Field ''runtime'' aarch64_t_s64,
    Field ''deadline'' aarch64_t_u64,
    Field ''flags'' (Scalar TUInt),
    Bits ''dl_throttled'' (Scalar TUInt) 1,
    Bits ''dl_yielded'' (Scalar TUInt) 1,
    Bits ''dl_non_contending'' (Scalar TUInt) 1,
    Bits ''dl_overrun'' (Scalar TUInt) 1,
    Bits ''dl_server'' (Scalar TUInt) 1,
    Bits ''dl_server_active'' (Scalar TUInt) 1,
    Bits ''dl_defer'' (Scalar TUInt) 1,
    Bits ''dl_defer_armed'' (Scalar TUInt) 1,
    Bits ''dl_defer_running'' (Scalar TUInt) 1,
    Field ''dl_timer'' aarch64_struct_hrtimer,
    Field ''inactive_timer'' aarch64_struct_hrtimer,
    Field ''rq'' Pointer,
    Field ''server_has_tasks'' aarch64_t_dl_server_has_tasks_f,
    Field ''server_pick_task'' aarch64_t_dl_server_pick_f]"

lemma aarch64_struct_sched_dl_entity_layout [layout]:
  "size_of abi_aarch64 aarch64_struct_sched_dl_entity = 240" "align_of abi_aarch64 aarch64_struct_sched_dl_entity = 8"
  by (simp_all add: aarch64_struct_sched_dl_entity_def abi_aarch64_def layout_eval layout [unfolded abi_aarch64_def])

definition aarch64_struct_sched_statistics :: ctype where
  \<comment> \<open>\<^verbatim>\<open>struct sched_statistics\<close>, lines 38954 to 38954\<close>
  "aarch64_struct_sched_statistics =
    Struct []"

lemma aarch64_struct_sched_statistics_layout [layout]:
  "size_of abi_aarch64 aarch64_struct_sched_statistics = 0" "align_of abi_aarch64 aarch64_struct_sched_statistics = 1"
  by (simp_all add: aarch64_struct_sched_statistics_def abi_aarch64_def layout_eval layout [unfolded abi_aarch64_def])

definition aarch64_struct_cpumask :: ctype where
  \<comment> \<open>\<^verbatim>\<open>struct cpumask\<close>, lines 13461 to 13463\<close>
  "aarch64_struct_cpumask =
    Struct [Field ''bits'' (Array (Scalar TULong) 8)]"

lemma aarch64_struct_cpumask_layout [layout]:
  "size_of abi_aarch64 aarch64_struct_cpumask = 64" "align_of abi_aarch64 aarch64_struct_cpumask = 8"
  by (simp_all add: aarch64_struct_cpumask_def abi_aarch64_def layout_eval layout [unfolded abi_aarch64_def])

definition aarch64_t_cpumask_t :: ctype where
  \<comment> \<open>\<^verbatim>\<open>typedef cpumask_t\<close>, lines 13465 to 13465\<close>
  "aarch64_t_cpumask_t =
    aarch64_struct_cpumask"

lemma aarch64_t_cpumask_t_layout [layout]:
  "size_of abi_aarch64 aarch64_t_cpumask_t = 64" "align_of abi_aarch64 aarch64_t_cpumask_t = 8"
  by (simp_all add: aarch64_t_cpumask_t_def abi_aarch64_def layout_eval layout [unfolded abi_aarch64_def])

definition aarch64_union_rcu_special :: ctype where
  \<comment> \<open>\<^verbatim>\<open>union rcu_special\<close>, lines 37487 to 37495\<close>
  "aarch64_union_rcu_special =
    Union [Field ''b'' (Struct [Field ''blocked'' aarch64_t_u8,
      Field ''need_qs'' aarch64_t_u8,
      Field ''exp_hint'' aarch64_t_u8,
      Field ''need_mb'' aarch64_t_u8]),
    Field ''s'' aarch64_t_u32]"

lemma aarch64_union_rcu_special_layout [layout]:
  "size_of abi_aarch64 aarch64_union_rcu_special = 4" "align_of abi_aarch64 aarch64_union_rcu_special = 4"
  by (simp_all add: aarch64_union_rcu_special_def abi_aarch64_def layout_eval layout [unfolded abi_aarch64_def])

definition aarch64_struct_sched_info :: ctype where
  \<comment> \<open>\<^verbatim>\<open>struct sched_info\<close>, lines 38938 to 38938\<close>
  "aarch64_struct_sched_info =
    Struct []"

lemma aarch64_struct_sched_info_layout [layout]:
  "size_of abi_aarch64 aarch64_struct_sched_info = 0" "align_of abi_aarch64 aarch64_struct_sched_info = 1"
  by (simp_all add: aarch64_struct_sched_info_def abi_aarch64_def layout_eval layout [unfolded abi_aarch64_def])

definition aarch64_struct_plist_node :: ctype where
  \<comment> \<open>\<^verbatim>\<open>struct plist_node\<close>, lines 21700 to 21704\<close>
  "aarch64_struct_plist_node =
    Struct [Field ''prio'' (Scalar TInt),
    Field ''prio_list'' aarch64_struct_list_head,
    Field ''node_list'' aarch64_struct_list_head]"

lemma aarch64_struct_plist_node_layout [layout]:
  "size_of abi_aarch64 aarch64_struct_plist_node = 40" "align_of abi_aarch64 aarch64_struct_plist_node = 8"
  by (simp_all add: aarch64_struct_plist_node_def abi_aarch64_def layout_eval layout [unfolded abi_aarch64_def])

definition aarch64_t_uu_kernel_clockid_t :: ctype where
  \<comment> \<open>\<^verbatim>\<open>typedef __kernel_clockid_t\<close>, lines 11308 to 11308\<close>
  "aarch64_t_uu_kernel_clockid_t =
    Scalar TInt"

lemma aarch64_t_uu_kernel_clockid_t_layout [layout]:
  "size_of abi_aarch64 aarch64_t_uu_kernel_clockid_t = 4" "align_of abi_aarch64 aarch64_t_uu_kernel_clockid_t = 4"
  by (simp_all add: aarch64_t_uu_kernel_clockid_t_def abi_aarch64_def layout_eval layout [unfolded abi_aarch64_def])

definition aarch64_t_clockid_t :: ctype where
  \<comment> \<open>\<^verbatim>\<open>typedef clockid_t\<close>, lines 11322 to 11322\<close>
  "aarch64_t_clockid_t =
    aarch64_t_uu_kernel_clockid_t"

lemma aarch64_t_clockid_t_layout [layout]:
  "size_of abi_aarch64 aarch64_t_clockid_t = 4" "align_of abi_aarch64 aarch64_t_clockid_t = 4"
  by (simp_all add: aarch64_t_clockid_t_def abi_aarch64_def layout_eval layout [unfolded abi_aarch64_def])

definition aarch64_enum_timespec_type :: ctype where
  \<comment> \<open>\<^verbatim>\<open>enum timespec_type\<close>, lines 10369 to 10373\<close>
  "aarch64_enum_timespec_type =
    Enum [(''TT_NONE'', 0), (''TT_NATIVE'', 1), (''TT_COMPAT'', 2)]"

lemma aarch64_enum_timespec_type_layout [layout]:
  "size_of abi_aarch64 aarch64_enum_timespec_type = 4" "align_of abi_aarch64 aarch64_enum_timespec_type = 4"
  by (simp_all add: aarch64_enum_timespec_type_def abi_aarch64_def layout_eval layout [unfolded abi_aarch64_def])

definition aarch64_struct_restart_block :: ctype where
  \<comment> \<open>\<^verbatim>\<open>struct restart_block\<close>, lines 37885 to 37914\<close>
  "aarch64_struct_restart_block =
    Struct [Field ''arch_data'' (Scalar TULong),
    Field ''fn'' Pointer,
    Anonymous (Union [Field ''futex'' (Struct [Field ''uaddr'' Pointer,
        Field ''val'' aarch64_t_u32,
        Field ''flags'' aarch64_t_u32,
        Field ''bitset'' aarch64_t_u32,
        Field ''time'' aarch64_t_u64,
        Field ''uaddr2'' Pointer]),
      Field ''nanosleep'' (Struct [Field ''clockid'' aarch64_t_clockid_t,
        Field ''type'' aarch64_enum_timespec_type,
        Anonymous (Union [Field ''rmtp'' Pointer,
          Field ''compat_rmtp'' Pointer]),
        Field ''expires'' aarch64_t_u64]),
      Field ''poll'' (Struct [Field ''ufds'' Pointer,
        Field ''nfds'' (Scalar TInt),
        Field ''has_timeout'' (Scalar TInt),
        Field ''tv_sec'' (Scalar TULong),
        Field ''tv_nsec'' (Scalar TULong)])])]"

lemma aarch64_struct_restart_block_layout [layout]:
  "size_of abi_aarch64 aarch64_struct_restart_block = 56" "align_of abi_aarch64 aarch64_struct_restart_block = 8"
  by (simp_all add: aarch64_struct_restart_block_def abi_aarch64_def layout_eval layout [unfolded abi_aarch64_def])

definition aarch64_t_uu_kernel_pid_t :: ctype where
  \<comment> \<open>\<^verbatim>\<open>typedef __kernel_pid_t\<close>, lines 11312 to 11312\<close>
  "aarch64_t_uu_kernel_pid_t =
    Scalar TInt"

lemma aarch64_t_uu_kernel_pid_t_layout [layout]:
  "size_of abi_aarch64 aarch64_t_uu_kernel_pid_t = 4" "align_of abi_aarch64 aarch64_t_uu_kernel_pid_t = 4"
  by (simp_all add: aarch64_t_uu_kernel_pid_t_def abi_aarch64_def layout_eval layout [unfolded abi_aarch64_def])

definition aarch64_t_pid_t :: ctype where
  \<comment> \<open>\<^verbatim>\<open>typedef pid_t\<close>, lines 11344 to 11344\<close>
  "aarch64_t_pid_t =
    aarch64_t_uu_kernel_pid_t"

lemma aarch64_t_pid_t_layout [layout]:
  "size_of abi_aarch64 aarch64_t_pid_t = 4" "align_of abi_aarch64 aarch64_t_pid_t = 4"
  by (simp_all add: aarch64_t_pid_t_def abi_aarch64_def layout_eval layout [unfolded abi_aarch64_def])

definition aarch64_t_raw_spinlock_t :: ctype where
  \<comment> \<open>\<^verbatim>\<open>typedef raw_spinlock_t\<close>, lines 11697 to 11697\<close>
  "aarch64_t_raw_spinlock_t =
    aarch64_struct_raw_spinlock"

lemma aarch64_t_raw_spinlock_t_layout [layout]:
  "size_of abi_aarch64 aarch64_t_raw_spinlock_t = 4" "align_of abi_aarch64 aarch64_t_raw_spinlock_t = 4"
  by (simp_all add: aarch64_t_raw_spinlock_t_def abi_aarch64_def layout_eval layout [unfolded abi_aarch64_def])

definition aarch64_struct_prev_cputime :: ctype where
  \<comment> \<open>\<^verbatim>\<open>struct prev_cputime\<close>, lines 36611 to 36615\<close>
  "aarch64_struct_prev_cputime =
    Struct [Field ''utime'' aarch64_t_u64,
    Field ''stime'' aarch64_t_u64,
    Field ''lock'' aarch64_t_raw_spinlock_t]"

lemma aarch64_struct_prev_cputime_layout [layout]:
  "size_of abi_aarch64 aarch64_struct_prev_cputime = 24" "align_of abi_aarch64 aarch64_struct_prev_cputime = 8"
  by (simp_all add: aarch64_struct_prev_cputime_def abi_aarch64_def layout_eval layout [unfolded abi_aarch64_def])

definition aarch64_struct_posix_cputimers :: ctype where
  \<comment> \<open>\<^verbatim>\<open>struct posix_cputimers\<close>, lines 36375 to 36375\<close>
  "aarch64_struct_posix_cputimers =
    Struct []"

lemma aarch64_struct_posix_cputimers_layout [layout]:
  "size_of abi_aarch64 aarch64_struct_posix_cputimers = 0" "align_of abi_aarch64 aarch64_struct_posix_cputimers = 1"
  by (simp_all add: aarch64_struct_posix_cputimers_def abi_aarch64_def layout_eval layout [unfolded abi_aarch64_def])

definition aarch64_t_sigset_t :: ctype where
  \<comment> \<open>\<^verbatim>\<open>typedef sigset_t\<close>, lines 12000 to 12002\<close>
  "aarch64_t_sigset_t =
    Struct [Field ''sig'' (Array (Scalar TULong) 1)]"

lemma aarch64_t_sigset_t_layout [layout]:
  "size_of abi_aarch64 aarch64_t_sigset_t = 8" "align_of abi_aarch64 aarch64_t_sigset_t = 8"
  by (simp_all add: aarch64_t_sigset_t_def abi_aarch64_def layout_eval layout [unfolded abi_aarch64_def])

definition aarch64_struct_sigpending :: ctype where
  \<comment> \<open>\<^verbatim>\<open>struct sigpending\<close>, lines 39223 to 39226\<close>
  "aarch64_struct_sigpending =
    Struct [Field ''list'' aarch64_struct_list_head,
    Field ''signal'' aarch64_t_sigset_t]"

lemma aarch64_struct_sigpending_layout [layout]:
  "size_of abi_aarch64 aarch64_struct_sigpending = 24" "align_of abi_aarch64 aarch64_struct_sigpending = 8"
  by (simp_all add: aarch64_struct_sigpending_def abi_aarch64_def layout_eval layout [unfolded abi_aarch64_def])

definition aarch64_struct_seccomp :: ctype where
  \<comment> \<open>\<^verbatim>\<open>struct seccomp\<close>, lines 39044 to 39044\<close>
  "aarch64_struct_seccomp =
    Struct []"

lemma aarch64_struct_seccomp_layout [layout]:
  "size_of abi_aarch64 aarch64_struct_seccomp = 0" "align_of abi_aarch64 aarch64_struct_seccomp = 1"
  by (simp_all add: aarch64_struct_seccomp_def abi_aarch64_def layout_eval layout [unfolded abi_aarch64_def])

definition aarch64_struct_syscall_user_dispatch :: ctype where
  \<comment> \<open>\<^verbatim>\<open>struct syscall_user_dispatch\<close>, lines 40310 to 40310\<close>
  "aarch64_struct_syscall_user_dispatch =
    Struct []"

lemma aarch64_struct_syscall_user_dispatch_layout [layout]:
  "size_of abi_aarch64 aarch64_struct_syscall_user_dispatch = 0" "align_of abi_aarch64 aarch64_struct_syscall_user_dispatch = 1"
  by (simp_all add: aarch64_struct_syscall_user_dispatch_def abi_aarch64_def layout_eval layout [unfolded abi_aarch64_def])

definition aarch64_struct_wake_q_node :: ctype where
  \<comment> \<open>\<^verbatim>\<open>struct wake_q_node\<close>, lines 40405 to 40407\<close>
  "aarch64_struct_wake_q_node =
    Struct [Field ''next'' Pointer]"

lemma aarch64_struct_wake_q_node_layout [layout]:
  "size_of abi_aarch64 aarch64_struct_wake_q_node = 8" "align_of abi_aarch64 aarch64_struct_wake_q_node = 8"
  by (simp_all add: aarch64_struct_wake_q_node_def abi_aarch64_def layout_eval layout [unfolded abi_aarch64_def])

definition aarch64_struct_task_io_accounting :: ctype where
  \<comment> \<open>\<^verbatim>\<open>struct task_io_accounting\<close>, lines 39228 to 39228\<close>
  "aarch64_struct_task_io_accounting =
    Struct []"

lemma aarch64_struct_task_io_accounting_layout [layout]:
  "size_of abi_aarch64 aarch64_struct_task_io_accounting = 0" "align_of abi_aarch64 aarch64_struct_task_io_accounting = 1"
  by (simp_all add: aarch64_struct_task_io_accounting_def abi_aarch64_def layout_eval layout [unfolded abi_aarch64_def])

definition aarch64_t_atomic_long_t :: ctype where
  \<comment> \<open>\<^verbatim>\<open>typedef atomic_long_t\<close>, lines 11646 to 11646\<close>
  "aarch64_t_atomic_long_t =
    aarch64_t_atomic64_t"

lemma aarch64_t_atomic_long_t_layout [layout]:
  "size_of abi_aarch64 aarch64_t_atomic_long_t = 8" "align_of abi_aarch64 aarch64_t_atomic_long_t = 8"
  by (simp_all add: aarch64_t_atomic_long_t_def abi_aarch64_def layout_eval layout [unfolded abi_aarch64_def])

definition aarch64_struct_optimistic_spin_queue :: ctype where
  \<comment> \<open>\<^verbatim>\<open>struct optimistic_spin_queue\<close>, lines 12582 to 12584\<close>
  "aarch64_struct_optimistic_spin_queue =
    Struct [Field ''tail'' aarch64_t_atomic_t]"

lemma aarch64_struct_optimistic_spin_queue_layout [layout]:
  "size_of abi_aarch64 aarch64_struct_optimistic_spin_queue = 4" "align_of abi_aarch64 aarch64_struct_optimistic_spin_queue = 4"
  by (simp_all add: aarch64_struct_optimistic_spin_queue_def abi_aarch64_def layout_eval layout [unfolded abi_aarch64_def])

definition aarch64_struct_mutex :: ctype where
  \<comment> \<open>\<^verbatim>\<open>struct mutex\<close>, lines 12844 to 12849\<close>
  "aarch64_struct_mutex =
    Struct [Field ''owner'' aarch64_t_atomic_long_t,
    Field ''wait_lock'' aarch64_t_raw_spinlock_t,
    Field ''osq'' aarch64_struct_optimistic_spin_queue,
    Field ''wait_list'' aarch64_struct_list_head]"

lemma aarch64_struct_mutex_layout [layout]:
  "size_of abi_aarch64 aarch64_struct_mutex = 32" "align_of abi_aarch64 aarch64_struct_mutex = 8"
  by (simp_all add: aarch64_struct_mutex_def abi_aarch64_def layout_eval layout [unfolded abi_aarch64_def])

definition aarch64_struct_arch_tlbflush_unmap_batch :: ctype where
  \<comment> \<open>\<^verbatim>\<open>struct arch_tlbflush_unmap_batch\<close>, lines 13275 to 13275\<close>
  "aarch64_struct_arch_tlbflush_unmap_batch =
    Struct []"

lemma aarch64_struct_arch_tlbflush_unmap_batch_layout [layout]:
  "size_of abi_aarch64 aarch64_struct_arch_tlbflush_unmap_batch = 0" "align_of abi_aarch64 aarch64_struct_arch_tlbflush_unmap_batch = 1"
  by (simp_all add: aarch64_struct_arch_tlbflush_unmap_batch_def abi_aarch64_def layout_eval layout [unfolded abi_aarch64_def])

definition aarch64_struct_tlbflush_unmap_batch :: ctype where
  \<comment> \<open>\<^verbatim>\<open>struct tlbflush_unmap_batch\<close>, lines 40409 to 40413\<close>
  "aarch64_struct_tlbflush_unmap_batch =
    Struct [Field ''arch'' aarch64_struct_arch_tlbflush_unmap_batch,
    Field ''flush_required'' aarch64_t_bool,
    Field ''writable'' aarch64_t_bool]"

lemma aarch64_struct_tlbflush_unmap_batch_layout [layout]:
  "size_of abi_aarch64 aarch64_struct_tlbflush_unmap_batch = 2" "align_of abi_aarch64 aarch64_struct_tlbflush_unmap_batch = 1"
  by (simp_all add: aarch64_struct_tlbflush_unmap_batch_def abi_aarch64_def layout_eval layout [unfolded abi_aarch64_def])

definition aarch64_struct_kmap_ctrl :: ctype where
  \<comment> \<open>\<^verbatim>\<open>struct kmap_ctrl\<close>, lines 30215 to 30215\<close>
  "aarch64_struct_kmap_ctrl =
    Struct []"

lemma aarch64_struct_kmap_ctrl_layout [layout]:
  "size_of abi_aarch64 aarch64_struct_kmap_ctrl = 0" "align_of abi_aarch64 aarch64_struct_kmap_ctrl = 1"
  by (simp_all add: aarch64_struct_kmap_ctrl_def abi_aarch64_def layout_eval layout [unfolded abi_aarch64_def])

definition aarch64_struct_llist_head :: ctype where
  \<comment> \<open>\<^verbatim>\<open>struct llist_head\<close>, lines 16578 to 16580\<close>
  "aarch64_struct_llist_head =
    Struct [Field ''first'' Pointer]"

lemma aarch64_struct_llist_head_layout [layout]:
  "size_of abi_aarch64 aarch64_struct_llist_head = 8" "align_of abi_aarch64 aarch64_struct_llist_head = 8"
  by (simp_all add: aarch64_struct_llist_head_def abi_aarch64_def layout_eval layout [unfolded abi_aarch64_def])

definition aarch64_struct_cpu_context :: ctype where
  \<comment> \<open>\<^verbatim>\<open>struct cpu_context\<close>, lines 20890 to 20904\<close>
  "aarch64_struct_cpu_context =
    Struct [Field ''x19'' (Scalar TULong),
    Field ''x20'' (Scalar TULong),
    Field ''x21'' (Scalar TULong),
    Field ''x22'' (Scalar TULong),
    Field ''x23'' (Scalar TULong),
    Field ''x24'' (Scalar TULong),
    Field ''x25'' (Scalar TULong),
    Field ''x26'' (Scalar TULong),
    Field ''x27'' (Scalar TULong),
    Field ''x28'' (Scalar TULong),
    Field ''fp'' (Scalar TULong),
    Field ''sp'' (Scalar TULong),
    Field ''pc'' (Scalar TULong)]"

lemma aarch64_struct_cpu_context_layout [layout]:
  "size_of abi_aarch64 aarch64_struct_cpu_context = 104" "align_of abi_aarch64 aarch64_struct_cpu_context = 8"
  by (simp_all add: aarch64_struct_cpu_context_def abi_aarch64_def layout_eval layout [unfolded abi_aarch64_def])

definition aarch64_struct_user_fpsimd_state :: ctype where
  \<comment> \<open>\<^verbatim>\<open>struct user_fpsimd_state\<close>, lines 40415 to 40420\<close>
  "aarch64_struct_user_fpsimd_state =
    Struct [Field ''vregs'' (Array (Scalar TInt128) 32),
    Field ''fpsr'' aarch64_t_uu_u32,
    Field ''fpcr'' aarch64_t_uu_u32,
    Field ''__reserved'' (Array aarch64_t_uu_u32 2)]"

lemma aarch64_struct_user_fpsimd_state_layout [layout]:
  "size_of abi_aarch64 aarch64_struct_user_fpsimd_state = 528" "align_of abi_aarch64 aarch64_struct_user_fpsimd_state = 16"
  by (simp_all add: aarch64_struct_user_fpsimd_state_def abi_aarch64_def layout_eval layout [unfolded abi_aarch64_def])

definition aarch64_enum_fp_type :: ctype where
  \<comment> \<open>\<^verbatim>\<open>enum fp_type\<close>, lines 7436 to 7440\<close>
  "aarch64_enum_fp_type =
    Enum [(''FP_STATE_CURRENT'', 0), (''FP_STATE_FPSIMD'', 1), (''FP_STATE_SVE'', 2)]"

lemma aarch64_enum_fp_type_layout [layout]:
  "size_of abi_aarch64 aarch64_enum_fp_type = 4" "align_of abi_aarch64 aarch64_enum_fp_type = 4"
  by (simp_all add: aarch64_enum_fp_type_def abi_aarch64_def layout_eval layout [unfolded abi_aarch64_def])

definition aarch64_struct_debug_info :: ctype where
  \<comment> \<open>\<^verbatim>\<open>struct debug_info\<close>, lines 21471 to 21477\<close>
  "aarch64_struct_debug_info =
    Struct [Field ''suspended_step'' (Scalar TInt),
    Field ''bps_disabled'' (Scalar TInt),
    Field ''wps_disabled'' (Scalar TInt),
    Field ''hbp_break'' (Array Pointer 16),
    Field ''hbp_watch'' (Array Pointer 16)]"

lemma aarch64_struct_debug_info_layout [layout]:
  "size_of abi_aarch64 aarch64_struct_debug_info = 272" "align_of abi_aarch64 aarch64_struct_debug_info = 8"
  by (simp_all add: aarch64_struct_debug_info_def abi_aarch64_def layout_eval layout [unfolded abi_aarch64_def])

definition aarch64_struct_thread_struct :: ctype where
  \<comment> \<open>\<^verbatim>\<open>struct thread_struct\<close>, lines 40422 to 40449\<close>
  "aarch64_struct_thread_struct =
    Struct [Field ''cpu_context'' aarch64_struct_cpu_context,
    Padding (Scalar TLong) 64,
    Field ''uw'' (Struct [Field ''tp_value'' (Scalar TULong),
      Field ''tp2_value'' (Scalar TULong),
      Field ''fpmr'' aarch64_t_u64,
      Field ''pad'' (Scalar TULong),
      Field ''fpsimd_state'' aarch64_struct_user_fpsimd_state]),
    Field ''fp_type'' aarch64_enum_fp_type,
    Field ''fpsimd_cpu'' (Scalar TUInt),
    Field ''sve_state'' Pointer,
    Field ''sme_state'' Pointer,
    Field ''vl'' (Array (Scalar TUInt) 2),
    Field ''vl_onexec'' (Array (Scalar TUInt) 2),
    Field ''fault_address'' (Scalar TULong),
    Field ''fault_code'' (Scalar TULong),
    Field ''debug'' aarch64_struct_debug_info,
    Padding (Scalar TLong) 64,
    Field ''kernel_fpsimd_state'' aarch64_struct_user_fpsimd_state,
    Field ''kernel_fpsimd_cpu'' (Scalar TUInt),
    Field ''sctlr_user'' aarch64_t_u64,
    Field ''svcr'' aarch64_t_u64,
    Field ''tpidr2_el0'' aarch64_t_u64,
    Field ''por_el0'' aarch64_t_u64,
    Padding (Scalar TLong) 64]"

lemma aarch64_struct_thread_struct_layout [layout]:
  "size_of abi_aarch64 aarch64_struct_thread_struct = 1584" "align_of abi_aarch64 aarch64_struct_thread_struct = 16"
  by (simp_all add: aarch64_struct_thread_struct_def abi_aarch64_def layout_eval layout [unfolded abi_aarch64_def])

definition aarch64_struct_task_struct :: ctype where
  \<comment> \<open>\<^verbatim>\<open>struct task_struct\<close>, lines 40453 to 40619\<close>
  "aarch64_struct_task_struct =
    Struct [Field ''thread_info'' aarch64_struct_thread_info,
    Field ''__state'' (Scalar TUInt),
    Field ''saved_state'' (Scalar TUInt),
    Field ''stack'' Pointer,
    Field ''usage'' aarch64_t_refcount_t,
    Field ''flags'' (Scalar TUInt),
    Field ''ptrace'' (Scalar TUInt),
    Field ''on_cpu'' (Scalar TInt),
    Field ''wake_entry'' aarch64_struct_uu_call_single_node,
    Field ''wakee_flips'' (Scalar TUInt),
    Field ''wakee_flip_decay_ts'' (Scalar TULong),
    Field ''last_wakee'' Pointer,
    Field ''recent_used_cpu'' (Scalar TInt),
    Field ''wake_cpu'' (Scalar TInt),
    Field ''on_rq'' (Scalar TInt),
    Field ''prio'' (Scalar TInt),
    Field ''static_prio'' (Scalar TInt),
    Field ''normal_prio'' (Scalar TInt),
    Field ''rt_priority'' (Scalar TUInt),
    Field ''se'' aarch64_struct_sched_entity,
    Field ''rt'' aarch64_struct_sched_rt_entity,
    Field ''dl'' aarch64_struct_sched_dl_entity,
    Field ''dl_server'' Pointer,
    Field ''sched_class'' Pointer,
    Padding (Scalar TLong) 64,
    Padding (Scalar TLong) 64,
    Field ''stats'' aarch64_struct_sched_statistics,
    Field ''policy'' (Scalar TUInt),
    Field ''max_allowed_capacity'' (Scalar TULong),
    Field ''nr_cpus_allowed'' (Scalar TInt),
    Field ''cpus_ptr'' Pointer,
    Field ''user_cpus_ptr'' Pointer,
    Field ''cpus_mask'' aarch64_t_cpumask_t,
    Field ''migration_pending'' Pointer,
    Field ''migration_disabled'' (Scalar TUShort),
    Field ''migration_flags'' (Scalar TUShort),
    Field ''trc_reader_nesting'' (Scalar TInt),
    Field ''trc_ipi_to_cpu'' (Scalar TInt),
    Field ''trc_reader_special'' aarch64_union_rcu_special,
    Field ''trc_holdout_list'' aarch64_struct_list_head,
    Field ''trc_blkd_node'' aarch64_struct_list_head,
    Field ''trc_blkd_cpu'' (Scalar TInt),
    Field ''sched_info'' aarch64_struct_sched_info,
    Field ''tasks'' aarch64_struct_list_head,
    Field ''pushable_tasks'' aarch64_struct_plist_node,
    Field ''pushable_dl_tasks'' aarch64_struct_rb_node,
    Field ''mm'' Pointer,
    Field ''active_mm'' Pointer,
    Field ''faults_disabled_mapping'' Pointer,
    Field ''exit_state'' (Scalar TInt),
    Field ''exit_code'' (Scalar TInt),
    Field ''exit_signal'' (Scalar TInt),
    Field ''pdeath_signal'' (Scalar TInt),
    Field ''jobctl'' (Scalar TULong),
    Field ''personality'' (Scalar TUInt),
    Bits ''sched_reset_on_fork'' (Scalar TUInt) 1,
    Bits ''sched_contributes_to_load'' (Scalar TUInt) 1,
    Bits ''sched_migrated'' (Scalar TUInt) 1,
    Bits ''sched_task_hot'' (Scalar TUInt) 1,
    Padding (Scalar TLong) 28,
    Bits ''sched_remote_wakeup'' (Scalar TUInt) 1,
    Bits ''in_execve'' (Scalar TUInt) 1,
    Bits ''in_iowait'' (Scalar TUInt) 1,
    Field ''atomic_flags'' (Scalar TULong),
    Field ''restart_block'' aarch64_struct_restart_block,
    Field ''pid'' aarch64_t_pid_t,
    Field ''tgid'' aarch64_t_pid_t,
    Field ''real_parent'' Pointer,
    Field ''parent'' Pointer,
    Field ''children'' aarch64_struct_list_head,
    Field ''sibling'' aarch64_struct_list_head,
    Field ''group_leader'' Pointer,
    Field ''ptraced'' aarch64_struct_list_head,
    Field ''ptrace_entry'' aarch64_struct_list_head,
    Field ''thread_pid'' Pointer,
    Field ''pid_links'' (Array aarch64_struct_hlist_node 4),
    Field ''thread_node'' aarch64_struct_list_head,
    Field ''vfork_done'' Pointer,
    Field ''set_child_tid'' Pointer,
    Field ''clear_child_tid'' Pointer,
    Field ''worker_private'' Pointer,
    Field ''utime'' aarch64_t_u64,
    Field ''stime'' aarch64_t_u64,
    Field ''gtime'' aarch64_t_u64,
    Field ''prev_cputime'' aarch64_struct_prev_cputime,
    Field ''nvcsw'' (Scalar TULong),
    Field ''nivcsw'' (Scalar TULong),
    Field ''start_time'' aarch64_t_u64,
    Field ''start_boottime'' aarch64_t_u64,
    Field ''min_flt'' (Scalar TULong),
    Field ''maj_flt'' (Scalar TULong),
    Field ''posix_cputimers'' aarch64_struct_posix_cputimers,
    Field ''ptracer_cred'' Pointer,
    Field ''real_cred'' Pointer,
    Field ''cred'' Pointer,
    Field ''comm'' (Array (Scalar TChar) 16),
    Field ''nameidata'' Pointer,
    Field ''fs'' Pointer,
    Field ''files'' Pointer,
    Field ''nsproxy'' Pointer,
    Field ''signal'' Pointer,
    Field ''sighand'' Pointer,
    Field ''blocked'' aarch64_t_sigset_t,
    Field ''real_blocked'' aarch64_t_sigset_t,
    Field ''saved_sigmask'' aarch64_t_sigset_t,
    Field ''pending'' aarch64_struct_sigpending,
    Field ''sas_ss_sp'' (Scalar TULong),
    Field ''sas_ss_size'' aarch64_t_size_t,
    Field ''sas_ss_flags'' (Scalar TUInt),
    Field ''task_works'' Pointer,
    Field ''seccomp'' aarch64_struct_seccomp,
    Field ''syscall_dispatch'' aarch64_struct_syscall_user_dispatch,
    Field ''parent_exec_id'' aarch64_t_u64,
    Field ''self_exec_id'' aarch64_t_u64,
    Field ''alloc_lock'' aarch64_t_spinlock_t,
    Field ''pi_lock'' aarch64_t_raw_spinlock_t,
    Field ''wake_q'' aarch64_struct_wake_q_node,
    Field ''journal_info'' Pointer,
    Field ''bio_list'' Pointer,
    Field ''plug'' Pointer,
    Field ''reclaim_state'' Pointer,
    Field ''io_context'' Pointer,
    Field ''ptrace_message'' (Scalar TULong),
    Field ''last_siginfo'' Pointer,
    Field ''ioac'' aarch64_struct_task_io_accounting,
    Field ''perf_recursion'' (Array aarch64_t_u8 4),
    Field ''perf_event_ctxp'' Pointer,
    Field ''perf_event_mutex'' aarch64_struct_mutex,
    Field ''perf_event_list'' aarch64_struct_list_head,
    Field ''tlb_ubc'' aarch64_struct_tlbflush_unmap_batch,
    Field ''splice_pipe'' Pointer,
    Field ''task_frag'' aarch64_struct_page_frag,
    Field ''nr_dirtied'' (Scalar TInt),
    Field ''nr_dirtied_pause'' (Scalar TInt),
    Field ''dirty_paused_when'' (Scalar TULong),
    Field ''timer_slack_ns'' aarch64_t_u64,
    Field ''default_timer_slack_ns'' aarch64_t_u64,
    Field ''curr_ret_stack'' (Scalar TInt),
    Field ''curr_ret_depth'' (Scalar TInt),
    Field ''ret_stack'' Pointer,
    Field ''ftrace_timestamp'' (Scalar TULongLong),
    Field ''ftrace_sleeptime'' (Scalar TULongLong),
    Field ''trace_overrun'' aarch64_t_atomic_t,
    Field ''tracing_graph_pause'' aarch64_t_atomic_t,
    Field ''trace_recursion'' (Scalar TULong),
    Field ''utask'' Pointer,
    Field ''kmap_ctrl'' aarch64_struct_kmap_ctrl,
    Field ''rcu'' aarch64_struct_callback_head,
    Field ''rcu_users'' aarch64_t_refcount_t,
    Field ''pagefault_disabled'' (Scalar TInt),
    Field ''oom_reaper_list'' Pointer,
    Field ''oom_reaper_timer'' aarch64_struct_timer_list,
    Field ''stack_refcount'' aarch64_t_refcount_t,
    Field ''bpf_storage'' Pointer,
    Field ''bpf_ctx'' Pointer,
    Field ''bpf_net_context'' Pointer,
    Field ''kretprobe_instances'' aarch64_struct_llist_head,
    Padding (Scalar TLong) 64,
    Field ''thread'' aarch64_struct_thread_struct,
    Padding (Scalar TLong) 64,
    Padding (Scalar TLong) 64,
    Padding (Scalar TLong) 64,
    Padding (Scalar TLong) 64,
    Padding (Scalar TLong) 64,
    Padding (Scalar TLong) 64]"

lemma aarch64_struct_task_struct_layout [layout]:
  "size_of abi_aarch64 aarch64_struct_task_struct = 3584" "align_of abi_aarch64 aarch64_struct_task_struct = 16"
  by (simp_all add: aarch64_struct_task_struct_def abi_aarch64_def layout_eval layout [unfolded abi_aarch64_def])

end
