(* ===== verification/Vmlinux_arm.thy ===== *)
theory Vmlinux_arm
  imports C_Layout
begin

text \<open>
  The kernel types of the bundled header \<^verbatim>\<open>resources/ebpf/vmlinux/arm/vmlinux.h\<close>
  (32-bit ARM) that the socket tracker reads, with every type they contain by value:
  the socket objects handed to the probes (\<open>struct tcp6_sock\<close>, \<open>udp6_sock\<close>, \<open>raw6_sock\<close>, all of
  which start with \<open>struct sock\<close>), \<open>struct msghdr\<close>, the two socket address types and
  \<open>struct task_struct\<close>. Each definition transcribes one declaration of the header, member by
  member and in its order; a comment gives the declaration. Pointer members are kept as
  \<open>Pointer\<close>, unnamed bit fields (the padding the header makes explicit) as \<open>Padding\<close>.
  After each type the \<open>layout\<close> collection gains its size and alignment in the data model
  \<open>abi_arm\<close>, computed by the kernel from the declaration.
\<close>

definition arm_t_uu_u64 :: ctype where
  \<comment> \<open>\<^verbatim>\<open>typedef __u64\<close>, lines 10615 to 10615\<close>
  "arm_t_uu_u64 =
    Scalar TULongLong"

lemma arm_t_uu_u64_layout [layout]:
  "size_of abi_arm arm_t_uu_u64 = 8" "align_of abi_arm arm_t_uu_u64 = 8"
  by (simp_all add: arm_t_uu_u64_def abi_arm_def layout_eval layout [unfolded abi_arm_def])

definition arm_t_uu_addrpair :: ctype where
  \<comment> \<open>\<^verbatim>\<open>typedef __addrpair\<close>, lines 10623 to 10623\<close>
  "arm_t_uu_addrpair =
    arm_t_uu_u64"

lemma arm_t_uu_addrpair_layout [layout]:
  "size_of abi_arm arm_t_uu_addrpair = 8" "align_of abi_arm arm_t_uu_addrpair = 8"
  by (simp_all add: arm_t_uu_addrpair_def abi_arm_def layout_eval layout [unfolded abi_arm_def])

definition arm_t_uu_u32 :: ctype where
  \<comment> \<open>\<^verbatim>\<open>typedef __u32\<close>, lines 10721 to 10721\<close>
  "arm_t_uu_u32 =
    Scalar TUInt"

lemma arm_t_uu_u32_layout [layout]:
  "size_of abi_arm arm_t_uu_u32 = 4" "align_of abi_arm arm_t_uu_u32 = 4"
  by (simp_all add: arm_t_uu_u32_def abi_arm_def layout_eval layout [unfolded abi_arm_def])

definition arm_t_uu_be32 :: ctype where
  \<comment> \<open>\<^verbatim>\<open>typedef __be32\<close>, lines 10731 to 10731\<close>
  "arm_t_uu_be32 =
    arm_t_uu_u32"

lemma arm_t_uu_be32_layout [layout]:
  "size_of abi_arm arm_t_uu_be32 = 4" "align_of abi_arm arm_t_uu_be32 = 4"
  by (simp_all add: arm_t_uu_be32_def abi_arm_def layout_eval layout [unfolded abi_arm_def])

definition arm_t_uu_u16 :: ctype where
  \<comment> \<open>\<^verbatim>\<open>typedef __u16\<close>, lines 10677 to 10677\<close>
  "arm_t_uu_u16 =
    Scalar TUShort"

lemma arm_t_uu_u16_layout [layout]:
  "size_of abi_arm arm_t_uu_u16 = 2" "align_of abi_arm arm_t_uu_u16 = 2"
  by (simp_all add: arm_t_uu_u16_def abi_arm_def layout_eval layout [unfolded abi_arm_def])

definition arm_t_uu_portpair :: ctype where
  \<comment> \<open>\<^verbatim>\<open>typedef __portpair\<close>, lines 10747 to 10747\<close>
  "arm_t_uu_portpair =
    arm_t_uu_u32"

lemma arm_t_uu_portpair_layout [layout]:
  "size_of abi_arm arm_t_uu_portpair = 4" "align_of abi_arm arm_t_uu_portpair = 4"
  by (simp_all add: arm_t_uu_portpair_def abi_arm_def layout_eval layout [unfolded abi_arm_def])

definition arm_t_uu_be16 :: ctype where
  \<comment> \<open>\<^verbatim>\<open>typedef __be16\<close>, lines 10683 to 10683\<close>
  "arm_t_uu_be16 =
    arm_t_uu_u16"

lemma arm_t_uu_be16_layout [layout]:
  "size_of abi_arm arm_t_uu_be16 = 2" "align_of abi_arm arm_t_uu_be16 = 2"
  by (simp_all add: arm_t_uu_be16_def abi_arm_def layout_eval layout [unfolded abi_arm_def])

definition arm_struct_hlist_node :: ctype where
  \<comment> \<open>\<^verbatim>\<open>struct hlist_node\<close>, lines 11248 to 11251\<close>
  "arm_struct_hlist_node =
    Struct [Field ''next'' Pointer,
    Field ''pprev'' Pointer]"

lemma arm_struct_hlist_node_layout [layout]:
  "size_of abi_arm arm_struct_hlist_node = 8" "align_of abi_arm arm_struct_hlist_node = 4"
  by (simp_all add: arm_struct_hlist_node_def abi_arm_def layout_eval layout [unfolded abi_arm_def])

definition arm_t_possible_net_t :: ctype where
  \<comment> \<open>\<^verbatim>\<open>typedef possible_net_t\<close>, lines 11102 to 11102\<close>
  "arm_t_possible_net_t =
    Struct []"

lemma arm_t_possible_net_t_layout [layout]:
  "size_of abi_arm arm_t_possible_net_t = 0" "align_of abi_arm arm_t_possible_net_t = 1"
  by (simp_all add: arm_t_possible_net_t_def abi_arm_def layout_eval layout [unfolded abi_arm_def])

definition arm_t_uu_u8 :: ctype where
  \<comment> \<open>\<^verbatim>\<open>typedef __u8\<close>, lines 10705 to 10705\<close>
  "arm_t_uu_u8 =
    Scalar TUChar"

lemma arm_t_uu_u8_layout [layout]:
  "size_of abi_arm arm_t_uu_u8 = 1" "align_of abi_arm arm_t_uu_u8 = 1"
  by (simp_all add: arm_t_uu_u8_def abi_arm_def layout_eval layout [unfolded abi_arm_def])

definition arm_struct_in6_addr :: ctype where
  \<comment> \<open>\<^verbatim>\<open>struct in6_addr\<close>, lines 11234 to 11240\<close>
  "arm_struct_in6_addr =
    Struct [Field ''in6_u'' (Union [Field ''u6_addr8'' (Array arm_t_uu_u8 16),
      Field ''u6_addr16'' (Array arm_t_uu_be16 8),
      Field ''u6_addr32'' (Array arm_t_uu_be32 4)])]"

lemma arm_struct_in6_addr_layout [layout]:
  "size_of abi_arm arm_struct_in6_addr = 16" "align_of abi_arm arm_struct_in6_addr = 4"
  by (simp_all add: arm_struct_in6_addr_def abi_arm_def layout_eval layout [unfolded abi_arm_def])

definition arm_t_uu_s64 :: ctype where
  \<comment> \<open>\<^verbatim>\<open>typedef __s64\<close>, lines 10601 to 10601\<close>
  "arm_t_uu_s64 =
    Scalar TLongLong"

lemma arm_t_uu_s64_layout [layout]:
  "size_of abi_arm arm_t_uu_s64 = 8" "align_of abi_arm arm_t_uu_s64 = 8"
  by (simp_all add: arm_t_uu_s64_def abi_arm_def layout_eval layout [unfolded abi_arm_def])

definition arm_t_s64 :: ctype where
  \<comment> \<open>\<^verbatim>\<open>typedef s64\<close>, lines 10603 to 10603\<close>
  "arm_t_s64 =
    arm_t_uu_s64"

lemma arm_t_s64_layout [layout]:
  "size_of abi_arm arm_t_s64 = 8" "align_of abi_arm arm_t_s64 = 8"
  by (simp_all add: arm_t_s64_def abi_arm_def layout_eval layout [unfolded abi_arm_def])

definition arm_t_atomic64_t :: ctype where
  \<comment> \<open>\<^verbatim>\<open>typedef atomic64_t\<close>, lines 10861 to 10863\<close>
  "arm_t_atomic64_t =
    Struct [Field ''counter'' arm_t_s64]"

lemma arm_t_atomic64_t_layout [layout]:
  "size_of abi_arm arm_t_atomic64_t = 8" "align_of abi_arm arm_t_atomic64_t = 8"
  by (simp_all add: arm_t_atomic64_t_def abi_arm_def layout_eval layout [unfolded abi_arm_def])

definition arm_struct_hlist_nulls_node :: ctype where
  \<comment> \<open>\<^verbatim>\<open>struct hlist_nulls_node\<close>, lines 27033 to 27036\<close>
  "arm_struct_hlist_nulls_node =
    Struct [Field ''next'' Pointer,
    Field ''pprev'' Pointer]"

lemma arm_struct_hlist_nulls_node_layout [layout]:
  "size_of abi_arm arm_struct_hlist_nulls_node = 8" "align_of abi_arm arm_struct_hlist_nulls_node = 4"
  by (simp_all add: arm_struct_hlist_nulls_node_def abi_arm_def layout_eval layout [unfolded abi_arm_def])

definition arm_t_u32 :: ctype where
  \<comment> \<open>\<^verbatim>\<open>typedef u32\<close>, lines 10733 to 10733\<close>
  "arm_t_u32 =
    arm_t_uu_u32"

lemma arm_t_u32_layout [layout]:
  "size_of abi_arm arm_t_u32 = 4" "align_of abi_arm arm_t_u32 = 4"
  by (simp_all add: arm_t_u32_def abi_arm_def layout_eval layout [unfolded abi_arm_def])

definition arm_t_atomic_t :: ctype where
  \<comment> \<open>\<^verbatim>\<open>typedef atomic_t\<close>, lines 10865 to 10867\<close>
  "arm_t_atomic_t =
    Struct [Field ''counter'' (Scalar TInt)]"

lemma arm_t_atomic_t_layout [layout]:
  "size_of abi_arm arm_t_atomic_t = 4" "align_of abi_arm arm_t_atomic_t = 4"
  by (simp_all add: arm_t_atomic_t_def abi_arm_def layout_eval layout [unfolded abi_arm_def])

definition arm_struct_refcount_struct :: ctype where
  \<comment> \<open>\<^verbatim>\<open>struct refcount_struct\<close>, lines 11253 to 11255\<close>
  "arm_struct_refcount_struct =
    Struct [Field ''refs'' arm_t_atomic_t]"

lemma arm_struct_refcount_struct_layout [layout]:
  "size_of abi_arm arm_struct_refcount_struct = 4" "align_of abi_arm arm_struct_refcount_struct = 4"
  by (simp_all add: arm_struct_refcount_struct_def abi_arm_def layout_eval layout [unfolded abi_arm_def])

definition arm_t_refcount_t :: ctype where
  \<comment> \<open>\<^verbatim>\<open>typedef refcount_t\<close>, lines 11257 to 11257\<close>
  "arm_t_refcount_t =
    arm_struct_refcount_struct"

lemma arm_t_refcount_t_layout [layout]:
  "size_of abi_arm arm_t_refcount_t = 4" "align_of abi_arm arm_t_refcount_t = 4"
  by (simp_all add: arm_t_refcount_t_def abi_arm_def layout_eval layout [unfolded abi_arm_def])

definition arm_struct_sock_common :: ctype where
  \<comment> \<open>\<^verbatim>\<open>struct sock_common\<close>, lines 28071 to 28131\<close>
  "arm_struct_sock_common =
    Struct [Anonymous (Union [Field ''skc_addrpair'' arm_t_uu_addrpair,
      Anonymous (Struct [Field ''skc_daddr'' arm_t_uu_be32,
        Field ''skc_rcv_saddr'' arm_t_uu_be32])]),
    Anonymous (Union [Field ''skc_hash'' (Scalar TUInt),
      Field ''skc_u16hashes'' (Array arm_t_uu_u16 2)]),
    Anonymous (Union [Field ''skc_portpair'' arm_t_uu_portpair,
      Anonymous (Struct [Field ''skc_dport'' arm_t_uu_be16,
        Field ''skc_num'' arm_t_uu_u16])]),
    Field ''skc_family'' (Scalar TUShort),
    Field ''skc_state'' (Scalar TUChar),
    Bits ''skc_reuse'' (Scalar TUChar) 4,
    Bits ''skc_reuseport'' (Scalar TUChar) 1,
    Bits ''skc_ipv6only'' (Scalar TUChar) 1,
    Bits ''skc_net_refcnt'' (Scalar TUChar) 1,
    Field ''skc_bound_dev_if'' (Scalar TInt),
    Anonymous (Union [Field ''skc_bind_node'' arm_struct_hlist_node,
      Field ''skc_portaddr_node'' arm_struct_hlist_node]),
    Field ''skc_prot'' Pointer,
    Field ''skc_net'' arm_t_possible_net_t,
    Field ''skc_v6_daddr'' arm_struct_in6_addr,
    Field ''skc_v6_rcv_saddr'' arm_struct_in6_addr,
    Padding (Scalar TLong) 32,
    Field ''skc_cookie'' arm_t_atomic64_t,
    Anonymous (Union [Field ''skc_flags'' (Scalar TULong),
      Field ''skc_listener'' Pointer,
      Field ''skc_tw_dr'' Pointer]),
    Field ''skc_dontcopy_begin'' (Array (Scalar TInt) 0),
    Anonymous (Union [Field ''skc_node'' arm_struct_hlist_node,
      Field ''skc_nulls_node'' arm_struct_hlist_nulls_node]),
    Field ''skc_tx_queue_mapping'' (Scalar TUShort),
    Anonymous (Union [Field ''skc_incoming_cpu'' (Scalar TInt),
      Field ''skc_rcv_wnd'' arm_t_u32,
      Field ''skc_tw_rcv_nxt'' arm_t_u32]),
    Field ''skc_refcnt'' arm_t_refcount_t,
    Field ''skc_dontcopy_end'' (Array (Scalar TInt) 0),
    Anonymous (Union [Field ''skc_rxhash'' arm_t_u32,
      Field ''skc_window_clamp'' arm_t_u32,
      Field ''skc_tw_snd_nxt'' arm_t_u32]),
    Padding (Scalar TLong) 32]"

lemma arm_struct_sock_common_layout [layout]:
  "size_of abi_arm arm_struct_sock_common = 112" "align_of abi_arm arm_struct_sock_common = 8"
  by (simp_all add: arm_struct_sock_common_def abi_arm_def layout_eval layout [unfolded abi_arm_def])

definition arm_t_uu_s32 :: ctype where
  \<comment> \<open>\<^verbatim>\<open>typedef __s32\<close>, lines 10549 to 10549\<close>
  "arm_t_uu_s32 =
    Scalar TInt"

lemma arm_t_uu_s32_layout [layout]:
  "size_of abi_arm arm_t_uu_s32 = 4" "align_of abi_arm arm_t_uu_s32 = 4"
  by (simp_all add: arm_t_uu_s32_def abi_arm_def layout_eval layout [unfolded abi_arm_def])

definition arm_struct_sk_buff_list :: ctype where
  \<comment> \<open>\<^verbatim>\<open>struct sk_buff_list\<close>, lines 11261 to 11264\<close>
  "arm_struct_sk_buff_list =
    Struct [Field ''next'' Pointer,
    Field ''prev'' Pointer]"

lemma arm_struct_sk_buff_list_layout [layout]:
  "size_of abi_arm arm_struct_sk_buff_list = 8" "align_of abi_arm arm_struct_sk_buff_list = 4"
  by (simp_all add: arm_struct_sk_buff_list_def abi_arm_def layout_eval layout [unfolded abi_arm_def])

definition arm_t_arch_spinlock_t :: ctype where
  \<comment> \<open>\<^verbatim>\<open>typedef arch_spinlock_t\<close>, lines 10859 to 10859\<close>
  "arm_t_arch_spinlock_t =
    Struct []"

lemma arm_t_arch_spinlock_t_layout [layout]:
  "size_of abi_arm arm_t_arch_spinlock_t = 0" "align_of abi_arm arm_t_arch_spinlock_t = 1"
  by (simp_all add: arm_t_arch_spinlock_t_def abi_arm_def layout_eval layout [unfolded abi_arm_def])

definition arm_struct_raw_spinlock :: ctype where
  \<comment> \<open>\<^verbatim>\<open>struct raw_spinlock\<close>, lines 11146 to 11148\<close>
  "arm_struct_raw_spinlock =
    Struct [Field ''raw_lock'' arm_t_arch_spinlock_t]"

lemma arm_struct_raw_spinlock_layout [layout]:
  "size_of abi_arm arm_struct_raw_spinlock = 0" "align_of abi_arm arm_struct_raw_spinlock = 1"
  by (simp_all add: arm_struct_raw_spinlock_def abi_arm_def layout_eval layout [unfolded abi_arm_def])

definition arm_struct_spinlock :: ctype where
  \<comment> \<open>\<^verbatim>\<open>struct spinlock\<close>, lines 11150 to 11154\<close>
  "arm_struct_spinlock =
    Struct [Anonymous (Union [Field ''rlock'' arm_struct_raw_spinlock])]"

lemma arm_struct_spinlock_layout [layout]:
  "size_of abi_arm arm_struct_spinlock = 0" "align_of abi_arm arm_struct_spinlock = 1"
  by (simp_all add: arm_struct_spinlock_def abi_arm_def layout_eval layout [unfolded abi_arm_def])

definition arm_t_spinlock_t :: ctype where
  \<comment> \<open>\<^verbatim>\<open>typedef spinlock_t\<close>, lines 10953 to 10953\<close>
  "arm_t_spinlock_t =
    arm_struct_spinlock"

lemma arm_t_spinlock_t_layout [layout]:
  "size_of abi_arm arm_t_spinlock_t = 0" "align_of abi_arm arm_t_spinlock_t = 1"
  by (simp_all add: arm_t_spinlock_t_def abi_arm_def layout_eval layout [unfolded abi_arm_def])

definition arm_struct_sk_buff_head :: ctype where
  \<comment> \<open>\<^verbatim>\<open>struct sk_buff_head\<close>, lines 11266 to 11276\<close>
  "arm_struct_sk_buff_head =
    Struct [Anonymous (Union [Anonymous (Struct [Field ''next'' Pointer,
        Field ''prev'' Pointer]),
      Field ''list'' arm_struct_sk_buff_list]),
    Field ''qlen'' arm_t_uu_u32,
    Field ''lock'' arm_t_spinlock_t]"

lemma arm_struct_sk_buff_head_layout [layout]:
  "size_of abi_arm arm_struct_sk_buff_head = 12" "align_of abi_arm arm_struct_sk_buff_head = 4"
  by (simp_all add: arm_struct_sk_buff_head_def abi_arm_def layout_eval layout [unfolded abi_arm_def])

definition arm_t_u16 :: ctype where
  \<comment> \<open>\<^verbatim>\<open>typedef u16\<close>, lines 10695 to 10695\<close>
  "arm_t_u16 =
    arm_t_uu_u16"

lemma arm_t_u16_layout [layout]:
  "size_of abi_arm arm_t_u16 = 2" "align_of abi_arm arm_t_u16 = 2"
  by (simp_all add: arm_t_u16_def abi_arm_def layout_eval layout [unfolded abi_arm_def])

definition arm_t_u8 :: ctype where
  \<comment> \<open>\<^verbatim>\<open>typedef u8\<close>, lines 10707 to 10707\<close>
  "arm_t_u8 =
    arm_t_uu_u8"

lemma arm_t_u8_layout [layout]:
  "size_of abi_arm arm_t_u8 = 1" "align_of abi_arm arm_t_u8 = 1"
  by (simp_all add: arm_t_u8_def abi_arm_def layout_eval layout [unfolded abi_arm_def])

definition arm_struct_list_head :: ctype where
  \<comment> \<open>\<^verbatim>\<open>struct list_head\<close>, lines 11169 to 11172\<close>
  "arm_struct_list_head =
    Struct [Field ''next'' Pointer,
    Field ''prev'' Pointer]"

lemma arm_struct_list_head_layout [layout]:
  "size_of abi_arm arm_struct_list_head = 8" "align_of abi_arm arm_struct_list_head = 4"
  by (simp_all add: arm_struct_list_head_def abi_arm_def layout_eval layout [unfolded abi_arm_def])

definition arm_struct_wait_queue_head :: ctype where
  \<comment> \<open>\<^verbatim>\<open>struct wait_queue_head\<close>, lines 11174 to 11177\<close>
  "arm_struct_wait_queue_head =
    Struct [Field ''lock'' arm_t_spinlock_t,
    Field ''head'' arm_struct_list_head]"

lemma arm_struct_wait_queue_head_layout [layout]:
  "size_of abi_arm arm_struct_wait_queue_head = 8" "align_of abi_arm arm_struct_wait_queue_head = 4"
  by (simp_all add: arm_struct_wait_queue_head_def abi_arm_def layout_eval layout [unfolded abi_arm_def])

definition arm_t_wait_queue_head_t :: ctype where
  \<comment> \<open>\<^verbatim>\<open>typedef wait_queue_head_t\<close>, lines 11179 to 11179\<close>
  "arm_t_wait_queue_head_t =
    arm_struct_wait_queue_head"

lemma arm_t_wait_queue_head_t_layout [layout]:
  "size_of abi_arm arm_t_wait_queue_head_t = 8" "align_of abi_arm arm_t_wait_queue_head_t = 4"
  by (simp_all add: arm_t_wait_queue_head_t_def abi_arm_def layout_eval layout [unfolded abi_arm_def])

definition arm_t_socket_lock_t :: ctype where
  \<comment> \<open>\<^verbatim>\<open>typedef socket_lock_t\<close>, lines 11181 to 11185\<close>
  "arm_t_socket_lock_t =
    Struct [Field ''slock'' arm_t_spinlock_t,
    Field ''owned'' (Scalar TInt),
    Field ''wq'' arm_t_wait_queue_head_t]"

lemma arm_t_socket_lock_t_layout [layout]:
  "size_of abi_arm arm_t_socket_lock_t = 12" "align_of abi_arm arm_t_socket_lock_t = 4"
  by (simp_all add: arm_t_socket_lock_t_def abi_arm_def layout_eval layout [unfolded abi_arm_def])

definition arm_struct_rb_root :: ctype where
  \<comment> \<open>\<^verbatim>\<open>struct rb_root\<close>, lines 11728 to 11730\<close>
  "arm_struct_rb_root =
    Struct [Field ''rb_node'' Pointer]"

lemma arm_struct_rb_root_layout [layout]:
  "size_of abi_arm arm_struct_rb_root = 4" "align_of abi_arm arm_struct_rb_root = 4"
  by (simp_all add: arm_struct_rb_root_def abi_arm_def layout_eval layout [unfolded abi_arm_def])

definition arm_struct_page_frag :: ctype where
  \<comment> \<open>\<^verbatim>\<open>struct page_frag\<close>, lines 28133 to 28137\<close>
  "arm_struct_page_frag =
    Struct [Field ''page'' Pointer,
    Field ''offset'' arm_t_uu_u16,
    Field ''size'' arm_t_uu_u16]"

lemma arm_struct_page_frag_layout [layout]:
  "size_of abi_arm arm_struct_page_frag = 8" "align_of abi_arm arm_struct_page_frag = 4"
  by (simp_all add: arm_struct_page_frag_def abi_arm_def layout_eval layout [unfolded abi_arm_def])

definition arm_struct_timer_list :: ctype where
  \<comment> \<open>\<^verbatim>\<open>struct timer_list\<close>, lines 12601 to 12606\<close>
  "arm_struct_timer_list =
    Struct [Field ''entry'' arm_struct_hlist_node,
    Field ''expires'' (Scalar TULong),
    Field ''function'' Pointer,
    Field ''flags'' arm_t_u32]"

lemma arm_struct_timer_list_layout [layout]:
  "size_of abi_arm arm_struct_timer_list = 20" "align_of abi_arm arm_struct_timer_list = 4"
  by (simp_all add: arm_struct_timer_list_def abi_arm_def layout_eval layout [unfolded abi_arm_def])

definition arm_t_u64 :: ctype where
  \<comment> \<open>\<^verbatim>\<open>typedef u64\<close>, lines 10629 to 10629\<close>
  "arm_t_u64 =
    arm_t_uu_u64"

lemma arm_t_u64_layout [layout]:
  "size_of abi_arm arm_t_u64 = 8" "align_of abi_arm arm_t_u64 = 8"
  by (simp_all add: arm_t_u64_def abi_arm_def layout_eval layout [unfolded abi_arm_def])

definition arm_t_netdev_features_t :: ctype where
  \<comment> \<open>\<^verbatim>\<open>typedef netdev_features_t\<close>, lines 10639 to 10639\<close>
  "arm_t_netdev_features_t =
    arm_t_u64"

lemma arm_t_netdev_features_t_layout [layout]:
  "size_of abi_arm arm_t_netdev_features_t = 8" "align_of abi_arm arm_t_netdev_features_t = 8"
  by (simp_all add: arm_t_netdev_features_t_def abi_arm_def layout_eval layout [unfolded abi_arm_def])

definition arm_t_gfp_t :: ctype where
  \<comment> \<open>\<^verbatim>\<open>typedef gfp_t\<close>, lines 10787 to 10787\<close>
  "arm_t_gfp_t =
    Scalar TUInt"

lemma arm_t_gfp_t_layout [layout]:
  "size_of abi_arm arm_t_gfp_t = 4" "align_of abi_arm arm_t_gfp_t = 4"
  by (simp_all add: arm_t_gfp_t_def abi_arm_def layout_eval layout [unfolded abi_arm_def])

definition arm_t_bool :: ctype where
  \<comment> \<open>\<^verbatim>\<open>typedef bool\<close>, lines 10531 to 10531\<close>
  "arm_t_bool =
    Scalar TBool"

lemma arm_t_bool_layout [layout]:
  "size_of abi_arm arm_t_bool = 1" "align_of abi_arm arm_t_bool = 1"
  by (simp_all add: arm_t_bool_def abi_arm_def layout_eval layout [unfolded abi_arm_def])

definition arm_t_arch_rwlock_t :: ctype where
  \<comment> \<open>\<^verbatim>\<open>typedef arch_rwlock_t\<close>, lines 10857 to 10857\<close>
  "arm_t_arch_rwlock_t =
    Struct []"

lemma arm_t_arch_rwlock_t_layout [layout]:
  "size_of abi_arm arm_t_arch_rwlock_t = 0" "align_of abi_arm arm_t_arch_rwlock_t = 1"
  by (simp_all add: arm_t_arch_rwlock_t_def abi_arm_def layout_eval layout [unfolded abi_arm_def])

definition arm_t_rwlock_t :: ctype where
  \<comment> \<open>\<^verbatim>\<open>typedef rwlock_t\<close>, lines 10979 to 10981\<close>
  "arm_t_rwlock_t =
    Struct [Field ''raw_lock'' arm_t_arch_rwlock_t]"

lemma arm_t_rwlock_t_layout [layout]:
  "size_of abi_arm arm_t_rwlock_t = 0" "align_of abi_arm arm_t_rwlock_t = 1"
  by (simp_all add: arm_t_rwlock_t_def abi_arm_def layout_eval layout [unfolded abi_arm_def])

definition arm_t_uu_kernel_uid32_t :: ctype where
  \<comment> \<open>\<^verbatim>\<open>typedef __kernel_uid32_t\<close>, lines 10741 to 10741\<close>
  "arm_t_uu_kernel_uid32_t =
    Scalar TUInt"

lemma arm_t_uu_kernel_uid32_t_layout [layout]:
  "size_of abi_arm arm_t_uu_kernel_uid32_t = 4" "align_of abi_arm arm_t_uu_kernel_uid32_t = 4"
  by (simp_all add: arm_t_uu_kernel_uid32_t_def abi_arm_def layout_eval layout [unfolded abi_arm_def])

definition arm_t_uid_t :: ctype where
  \<comment> \<open>\<^verbatim>\<open>typedef uid_t\<close>, lines 10833 to 10833\<close>
  "arm_t_uid_t =
    arm_t_uu_kernel_uid32_t"

lemma arm_t_uid_t_layout [layout]:
  "size_of abi_arm arm_t_uid_t = 4" "align_of abi_arm arm_t_uid_t = 4"
  by (simp_all add: arm_t_uid_t_def abi_arm_def layout_eval layout [unfolded abi_arm_def])

definition arm_t_kuid_t :: ctype where
  \<comment> \<open>\<^verbatim>\<open>typedef kuid_t\<close>, lines 11064 to 11066\<close>
  "arm_t_kuid_t =
    Struct [Field ''val'' arm_t_uid_t]"

lemma arm_t_kuid_t_layout [layout]:
  "size_of abi_arm arm_t_kuid_t = 4" "align_of abi_arm arm_t_kuid_t = 4"
  by (simp_all add: arm_t_kuid_t_def abi_arm_def layout_eval layout [unfolded abi_arm_def])

definition arm_t_ktime_t :: ctype where
  \<comment> \<open>\<^verbatim>\<open>typedef ktime_t\<close>, lines 10607 to 10607\<close>
  "arm_t_ktime_t =
    arm_t_s64"

lemma arm_t_ktime_t_layout [layout]:
  "size_of abi_arm arm_t_ktime_t = 8" "align_of abi_arm arm_t_ktime_t = 8"
  by (simp_all add: arm_t_ktime_t_def abi_arm_def layout_eval layout [unfolded abi_arm_def])

definition arm_struct_seqcount :: ctype where
  \<comment> \<open>\<^verbatim>\<open>struct seqcount\<close>, lines 11130 to 11132\<close>
  "arm_struct_seqcount =
    Struct [Field ''sequence'' (Scalar TUInt)]"

lemma arm_struct_seqcount_layout [layout]:
  "size_of abi_arm arm_struct_seqcount = 4" "align_of abi_arm arm_struct_seqcount = 4"
  by (simp_all add: arm_struct_seqcount_def abi_arm_def layout_eval layout [unfolded abi_arm_def])

definition arm_t_seqcount_t :: ctype where
  \<comment> \<open>\<^verbatim>\<open>typedef seqcount_t\<close>, lines 11134 to 11134\<close>
  "arm_t_seqcount_t =
    arm_struct_seqcount"

lemma arm_t_seqcount_t_layout [layout]:
  "size_of abi_arm arm_t_seqcount_t = 4" "align_of abi_arm arm_t_seqcount_t = 4"
  by (simp_all add: arm_t_seqcount_t_def abi_arm_def layout_eval layout [unfolded abi_arm_def])

definition arm_struct_seqcount_spinlock :: ctype where
  \<comment> \<open>\<^verbatim>\<open>struct seqcount_spinlock\<close>, lines 11140 to 11142\<close>
  "arm_struct_seqcount_spinlock =
    Struct [Field ''seqcount'' arm_t_seqcount_t]"

lemma arm_struct_seqcount_spinlock_layout [layout]:
  "size_of abi_arm arm_struct_seqcount_spinlock = 4" "align_of abi_arm arm_struct_seqcount_spinlock = 4"
  by (simp_all add: arm_struct_seqcount_spinlock_def abi_arm_def layout_eval layout [unfolded abi_arm_def])

definition arm_t_seqcount_spinlock_t :: ctype where
  \<comment> \<open>\<^verbatim>\<open>typedef seqcount_spinlock_t\<close>, lines 11144 to 11144\<close>
  "arm_t_seqcount_spinlock_t =
    arm_struct_seqcount_spinlock"

lemma arm_t_seqcount_spinlock_t_layout [layout]:
  "size_of abi_arm arm_t_seqcount_spinlock_t = 4" "align_of abi_arm arm_t_seqcount_spinlock_t = 4"
  by (simp_all add: arm_t_seqcount_spinlock_t_def abi_arm_def layout_eval layout [unfolded abi_arm_def])

definition arm_t_seqlock_t :: ctype where
  \<comment> \<open>\<^verbatim>\<open>typedef seqlock_t\<close>, lines 11156 to 11159\<close>
  "arm_t_seqlock_t =
    Struct [Field ''seqcount'' arm_t_seqcount_spinlock_t,
    Field ''lock'' arm_t_spinlock_t]"

lemma arm_t_seqlock_t_layout [layout]:
  "size_of abi_arm arm_t_seqlock_t = 4" "align_of abi_arm arm_t_seqlock_t = 4"
  by (simp_all add: arm_t_seqlock_t_def abi_arm_def layout_eval layout [unfolded abi_arm_def])

definition arm_struct_sock_cgroup_data :: ctype where
  \<comment> \<open>\<^verbatim>\<open>struct sock_cgroup_data\<close>, lines 28139 to 28139\<close>
  "arm_struct_sock_cgroup_data =
    Struct []"

lemma arm_struct_sock_cgroup_data_layout [layout]:
  "size_of abi_arm arm_struct_sock_cgroup_data = 0" "align_of abi_arm arm_struct_sock_cgroup_data = 1"
  by (simp_all add: arm_struct_sock_cgroup_data_def abi_arm_def layout_eval layout [unfolded abi_arm_def])

definition arm_struct_callback_head :: ctype where
  \<comment> \<open>\<^verbatim>\<open>struct callback_head\<close>, lines 11306 to 11309\<close>
  "arm_struct_callback_head =
    Struct [Field ''next'' Pointer,
    Field ''func'' Pointer]"

lemma arm_struct_callback_head_layout [layout]:
  "size_of abi_arm arm_struct_callback_head = 8" "align_of abi_arm arm_struct_callback_head = 4"
  by (simp_all add: arm_struct_callback_head_def abi_arm_def layout_eval layout [unfolded abi_arm_def])

definition arm_t_netns_tracker :: ctype where
  \<comment> \<open>\<^verbatim>\<open>typedef netns_tracker\<close>, lines 11088 to 11088\<close>
  "arm_t_netns_tracker =
    Struct []"

lemma arm_t_netns_tracker_layout [layout]:
  "size_of abi_arm arm_t_netns_tracker = 0" "align_of abi_arm arm_t_netns_tracker = 1"
  by (simp_all add: arm_t_netns_tracker_def abi_arm_def layout_eval layout [unfolded abi_arm_def])

definition arm_struct_xarray :: ctype where
  \<comment> \<open>\<^verbatim>\<open>struct xarray\<close>, lines 11713 to 11717\<close>
  "arm_struct_xarray =
    Struct [Field ''xa_lock'' arm_t_spinlock_t,
    Field ''xa_flags'' arm_t_gfp_t,
    Field ''xa_head'' Pointer]"

lemma arm_struct_xarray_layout [layout]:
  "size_of abi_arm arm_struct_xarray = 8" "align_of abi_arm arm_struct_xarray = 4"
  by (simp_all add: arm_struct_xarray_def abi_arm_def layout_eval layout [unfolded abi_arm_def])

definition arm_struct_sock :: ctype where
  \<comment> \<open>\<^verbatim>\<open>struct sock\<close>, lines 28149 to 28268\<close>
  "arm_struct_sock =
    Struct [Field ''__sk_common'' arm_struct_sock_common,
    Field ''__cacheline_group_begin__sock_write_rx'' (Array arm_t_uu_u8 0),
    Field ''sk_drops'' arm_t_atomic_t,
    Field ''sk_peek_off'' arm_t_uu_s32,
    Field ''sk_error_queue'' arm_struct_sk_buff_head,
    Field ''sk_receive_queue'' arm_struct_sk_buff_head,
    Field ''sk_backlog'' (Struct [Field ''rmem_alloc'' arm_t_atomic_t,
      Field ''len'' (Scalar TInt),
      Field ''head'' Pointer,
      Field ''tail'' Pointer]),
    Field ''__cacheline_group_end__sock_write_rx'' (Array arm_t_uu_u8 0),
    Field ''__cacheline_group_begin__sock_read_rx'' (Array arm_t_uu_u8 0),
    Field ''sk_rx_dst'' Pointer,
    Field ''sk_rx_dst_ifindex'' (Scalar TInt),
    Field ''sk_rx_dst_cookie'' arm_t_u32,
    Field ''sk_ll_usec'' (Scalar TUInt),
    Field ''sk_napi_id'' (Scalar TUInt),
    Field ''sk_busy_poll_budget'' arm_t_u16,
    Field ''sk_prefer_busy_poll'' arm_t_u8,
    Field ''sk_userlocks'' arm_t_u8,
    Field ''sk_rcvbuf'' (Scalar TInt),
    Field ''sk_filter'' Pointer,
    Anonymous (Union [Field ''sk_wq'' Pointer,
      Field ''sk_wq_raw'' Pointer]),
    Field ''sk_data_ready'' Pointer,
    Field ''sk_rcvtimeo'' (Scalar TLong),
    Field ''sk_rcvlowat'' (Scalar TInt),
    Field ''__cacheline_group_end__sock_read_rx'' (Array arm_t_uu_u8 0),
    Field ''__cacheline_group_begin__sock_read_rxtx'' (Array arm_t_uu_u8 0),
    Field ''sk_err'' (Scalar TInt),
    Field ''sk_socket'' Pointer,
    Field ''sk_memcg'' Pointer,
    Field ''__cacheline_group_end__sock_read_rxtx'' (Array arm_t_uu_u8 0),
    Field ''__cacheline_group_begin__sock_write_rxtx'' (Array arm_t_uu_u8 0),
    Field ''sk_lock'' arm_t_socket_lock_t,
    Field ''sk_reserved_mem'' arm_t_u32,
    Field ''sk_forward_alloc'' (Scalar TInt),
    Field ''sk_tsflags'' arm_t_u32,
    Field ''__cacheline_group_end__sock_write_rxtx'' (Array arm_t_uu_u8 0),
    Field ''__cacheline_group_begin__sock_write_tx'' (Array arm_t_uu_u8 0),
    Field ''sk_write_pending'' (Scalar TInt),
    Field ''sk_omem_alloc'' arm_t_atomic_t,
    Field ''sk_sndbuf'' (Scalar TInt),
    Field ''sk_wmem_queued'' (Scalar TInt),
    Field ''sk_wmem_alloc'' arm_t_refcount_t,
    Field ''sk_tsq_flags'' (Scalar TULong),
    Anonymous (Union [Field ''sk_send_head'' Pointer,
      Field ''tcp_rtx_queue'' arm_struct_rb_root]),
    Field ''sk_write_queue'' arm_struct_sk_buff_head,
    Field ''sk_dst_pending_confirm'' arm_t_u32,
    Field ''sk_pacing_status'' arm_t_u32,
    Field ''sk_frag'' arm_struct_page_frag,
    Field ''sk_timer'' arm_struct_timer_list,
    Field ''sk_pacing_rate'' (Scalar TULong),
    Field ''sk_zckey'' arm_t_atomic_t,
    Field ''sk_tskey'' arm_t_atomic_t,
    Field ''__cacheline_group_end__sock_write_tx'' (Array arm_t_uu_u8 0),
    Field ''__cacheline_group_begin__sock_read_tx'' (Array arm_t_uu_u8 0),
    Field ''sk_max_pacing_rate'' (Scalar TULong),
    Field ''sk_sndtimeo'' (Scalar TLong),
    Field ''sk_priority'' arm_t_u32,
    Field ''sk_mark'' arm_t_u32,
    Field ''sk_dst_cache'' Pointer,
    Field ''sk_route_caps'' arm_t_netdev_features_t,
    Field ''sk_gso_type'' arm_t_u16,
    Field ''sk_gso_max_segs'' arm_t_u16,
    Field ''sk_gso_max_size'' (Scalar TUInt),
    Field ''sk_allocation'' arm_t_gfp_t,
    Field ''sk_txhash'' arm_t_u32,
    Field ''sk_pacing_shift'' arm_t_u8,
    Field ''sk_use_task_frag'' arm_t_bool,
    Field ''__cacheline_group_end__sock_read_tx'' (Array arm_t_uu_u8 0),
    Bits ''sk_gso_disabled'' arm_t_u8 1,
    Bits ''sk_kern_sock'' arm_t_u8 1,
    Bits ''sk_no_check_tx'' arm_t_u8 1,
    Bits ''sk_no_check_rx'' arm_t_u8 1,
    Field ''sk_shutdown'' arm_t_u8,
    Field ''sk_type'' arm_t_u16,
    Field ''sk_protocol'' arm_t_u16,
    Field ''sk_lingertime'' (Scalar TULong),
    Field ''sk_prot_creator'' Pointer,
    Field ''sk_callback_lock'' arm_t_rwlock_t,
    Field ''sk_err_soft'' (Scalar TInt),
    Field ''sk_ack_backlog'' arm_t_u32,
    Field ''sk_max_ack_backlog'' arm_t_u32,
    Field ''sk_uid'' arm_t_kuid_t,
    Field ''sk_peer_lock'' arm_t_spinlock_t,
    Field ''sk_bind_phc'' (Scalar TInt),
    Field ''sk_peer_pid'' Pointer,
    Field ''sk_peer_cred'' Pointer,
    Padding (Scalar TLong) 32,
    Field ''sk_stamp'' arm_t_ktime_t,
    Field ''sk_stamp_seq'' arm_t_seqlock_t,
    Field ''sk_disconnects'' (Scalar TInt),
    Field ''sk_txrehash'' arm_t_u8,
    Field ''sk_clockid'' arm_t_u8,
    Bits ''sk_txtime_deadline_mode'' arm_t_u8 1,
    Bits ''sk_txtime_report_errors'' arm_t_u8 1,
    Bits ''sk_txtime_unused'' arm_t_u8 6,
    Field ''sk_user_data'' Pointer,
    Field ''sk_cgrp_data'' arm_struct_sock_cgroup_data,
    Field ''sk_state_change'' Pointer,
    Field ''sk_write_space'' Pointer,
    Field ''sk_error_report'' Pointer,
    Field ''sk_backlog_rcv'' Pointer,
    Field ''sk_destruct'' Pointer,
    Field ''sk_reuseport_cb'' Pointer,
    Field ''sk_bpf_storage'' Pointer,
    Field ''sk_rcu'' arm_struct_callback_head,
    Field ''ns_tracker'' arm_t_netns_tracker,
    Field ''sk_user_frags'' arm_struct_xarray,
    Padding (Scalar TLong) 32]"

lemma arm_struct_sock_layout [layout]:
  "size_of abi_arm arm_struct_sock = 496" "align_of abi_arm arm_struct_sock = 8"
  by (simp_all add: arm_struct_sock_def abi_arm_def layout_eval layout [unfolded abi_arm_def])

definition arm_t_uu_s16 :: ctype where
  \<comment> \<open>\<^verbatim>\<open>typedef __s16\<close>, lines 10673 to 10673\<close>
  "arm_t_uu_s16 =
    Scalar TShort"

lemma arm_t_uu_s16_layout [layout]:
  "size_of abi_arm arm_t_uu_s16 = 2" "align_of abi_arm arm_t_uu_s16 = 2"
  by (simp_all add: arm_t_uu_s16_def abi_arm_def layout_eval layout [unfolded abi_arm_def])

definition arm_struct_inet_cork :: ctype where
  \<comment> \<open>\<^verbatim>\<open>struct inet_cork\<close>, lines 28270 to 28286\<close>
  "arm_struct_inet_cork =
    Struct [Field ''flags'' (Scalar TUInt),
    Field ''addr'' arm_t_uu_be32,
    Field ''opt'' Pointer,
    Field ''fragsize'' (Scalar TUInt),
    Field ''length'' (Scalar TInt),
    Field ''dst'' Pointer,
    Field ''tx_flags'' arm_t_u8,
    Field ''ttl'' arm_t_uu_u8,
    Field ''tos'' arm_t_uu_s16,
    Field ''priority'' arm_t_u32,
    Field ''gso_size'' arm_t_uu_u16,
    Field ''ts_opt_id'' arm_t_u32,
    Field ''transmit_time'' arm_t_u64,
    Field ''mark'' arm_t_u32,
    Padding (Scalar TLong) 32]"

lemma arm_struct_inet_cork_layout [layout]:
  "size_of abi_arm arm_struct_inet_cork = 56" "align_of abi_arm arm_struct_inet_cork = 8"
  by (simp_all add: arm_struct_inet_cork_def abi_arm_def layout_eval layout [unfolded abi_arm_def])

definition arm_t_uu_be64 :: ctype where
  \<comment> \<open>\<^verbatim>\<open>typedef __be64\<close>, lines 10625 to 10625\<close>
  "arm_t_uu_be64 =
    arm_t_uu_u64"

lemma arm_t_uu_be64_layout [layout]:
  "size_of abi_arm arm_t_uu_be64 = 8" "align_of abi_arm arm_t_uu_be64 = 8"
  by (simp_all add: arm_t_uu_be64_def abi_arm_def layout_eval layout [unfolded abi_arm_def])

definition arm_struct_flowi_tunnel :: ctype where
  \<comment> \<open>\<^verbatim>\<open>struct flowi_tunnel\<close>, lines 25779 to 25781\<close>
  "arm_struct_flowi_tunnel =
    Struct [Field ''tun_id'' arm_t_uu_be64]"

lemma arm_struct_flowi_tunnel_layout [layout]:
  "size_of abi_arm arm_struct_flowi_tunnel = 8" "align_of abi_arm arm_struct_flowi_tunnel = 8"
  by (simp_all add: arm_struct_flowi_tunnel_def abi_arm_def layout_eval layout [unfolded abi_arm_def])

definition arm_struct_flowi_common :: ctype where
  \<comment> \<open>\<^verbatim>\<open>struct flowi_common\<close>, lines 25783 to 25796\<close>
  "arm_struct_flowi_common =
    Struct [Field ''flowic_oif'' (Scalar TInt),
    Field ''flowic_iif'' (Scalar TInt),
    Field ''flowic_l3mdev'' (Scalar TInt),
    Field ''flowic_mark'' arm_t_uu_u32,
    Field ''flowic_tos'' arm_t_uu_u8,
    Field ''flowic_scope'' arm_t_uu_u8,
    Field ''flowic_proto'' arm_t_uu_u8,
    Field ''flowic_flags'' arm_t_uu_u8,
    Field ''flowic_secid'' arm_t_uu_u32,
    Field ''flowic_uid'' arm_t_kuid_t,
    Field ''flowic_multipath_hash'' arm_t_uu_u32,
    Field ''flowic_tun_key'' arm_struct_flowi_tunnel]"

lemma arm_struct_flowi_common_layout [layout]:
  "size_of abi_arm arm_struct_flowi_common = 40" "align_of abi_arm arm_struct_flowi_common = 8"
  by (simp_all add: arm_struct_flowi_common_def abi_arm_def layout_eval layout [unfolded abi_arm_def])

definition arm_union_flowi_uli :: ctype where
  \<comment> \<open>\<^verbatim>\<open>union flowi_uli\<close>, lines 25798 to 25811\<close>
  "arm_union_flowi_uli =
    Union [Field ''ports'' (Struct [Field ''dport'' arm_t_uu_be16,
      Field ''sport'' arm_t_uu_be16]),
    Field ''icmpt'' (Struct [Field ''type'' arm_t_uu_u8,
      Field ''code'' arm_t_uu_u8]),
    Field ''gre_key'' arm_t_uu_be32,
    Field ''mht'' (Struct [Field ''type'' arm_t_uu_u8])]"

lemma arm_union_flowi_uli_layout [layout]:
  "size_of abi_arm arm_union_flowi_uli = 4" "align_of abi_arm arm_union_flowi_uli = 4"
  by (simp_all add: arm_union_flowi_uli_def abi_arm_def layout_eval layout [unfolded abi_arm_def])

definition arm_struct_flowi4 :: ctype where
  \<comment> \<open>\<^verbatim>\<open>struct flowi4\<close>, lines 25813 to 25819\<close>
  "arm_struct_flowi4 =
    Struct [Field ''__fl_common'' arm_struct_flowi_common,
    Field ''saddr'' arm_t_uu_be32,
    Field ''daddr'' arm_t_uu_be32,
    Field ''uli'' arm_union_flowi_uli,
    Padding (Scalar TLong) 32]"

lemma arm_struct_flowi4_layout [layout]:
  "size_of abi_arm arm_struct_flowi4 = 56" "align_of abi_arm arm_struct_flowi4 = 8"
  by (simp_all add: arm_struct_flowi4_def abi_arm_def layout_eval layout [unfolded abi_arm_def])

definition arm_struct_flowi6 :: ctype where
  \<comment> \<open>\<^verbatim>\<open>struct flowi6\<close>, lines 25821 to 25829\<close>
  "arm_struct_flowi6 =
    Struct [Field ''__fl_common'' arm_struct_flowi_common,
    Field ''daddr'' arm_struct_in6_addr,
    Field ''saddr'' arm_struct_in6_addr,
    Field ''flowlabel'' arm_t_uu_be32,
    Field ''uli'' arm_union_flowi_uli,
    Field ''mp_hash'' arm_t_uu_u32,
    Padding (Scalar TLong) 32]"

lemma arm_struct_flowi6_layout [layout]:
  "size_of abi_arm arm_struct_flowi6 = 88" "align_of abi_arm arm_struct_flowi6 = 8"
  by (simp_all add: arm_struct_flowi6_def abi_arm_def layout_eval layout [unfolded abi_arm_def])

definition arm_struct_flowi :: ctype where
  \<comment> \<open>\<^verbatim>\<open>struct flowi\<close>, lines 25831 to 25837\<close>
  "arm_struct_flowi =
    Struct [Field ''u'' (Union [Field ''__fl_common'' arm_struct_flowi_common,
      Field ''ip4'' arm_struct_flowi4,
      Field ''ip6'' arm_struct_flowi6])]"

lemma arm_struct_flowi_layout [layout]:
  "size_of abi_arm arm_struct_flowi = 88" "align_of abi_arm arm_struct_flowi = 8"
  by (simp_all add: arm_struct_flowi_def abi_arm_def layout_eval layout [unfolded abi_arm_def])

definition arm_struct_inet_cork_full :: ctype where
  \<comment> \<open>\<^verbatim>\<open>struct inet_cork_full\<close>, lines 28288 to 28291\<close>
  "arm_struct_inet_cork_full =
    Struct [Field ''base'' arm_struct_inet_cork,
    Field ''fl'' arm_struct_flowi]"

lemma arm_struct_inet_cork_full_layout [layout]:
  "size_of abi_arm arm_struct_inet_cork_full = 144" "align_of abi_arm arm_struct_inet_cork_full = 8"
  by (simp_all add: arm_struct_inet_cork_full_def abi_arm_def layout_eval layout [unfolded abi_arm_def])

definition arm_struct_inet_sock :: ctype where
  \<comment> \<open>\<^verbatim>\<open>struct inet_sock\<close>, lines 28297 to 28319\<close>
  "arm_struct_inet_sock =
    Struct [Field ''sk'' arm_struct_sock,
    Field ''pinet6'' Pointer,
    Field ''inet_flags'' (Scalar TULong),
    Field ''inet_saddr'' arm_t_uu_be32,
    Field ''uc_ttl'' arm_t_uu_s16,
    Field ''inet_sport'' arm_t_uu_be16,
    Field ''inet_opt'' Pointer,
    Field ''inet_id'' arm_t_atomic_t,
    Field ''tos'' arm_t_uu_u8,
    Field ''min_ttl'' arm_t_uu_u8,
    Field ''mc_ttl'' arm_t_uu_u8,
    Field ''pmtudisc'' arm_t_uu_u8,
    Field ''rcv_tos'' arm_t_uu_u8,
    Field ''convert_csum'' arm_t_uu_u8,
    Field ''uc_index'' (Scalar TInt),
    Field ''mc_index'' (Scalar TInt),
    Field ''mc_addr'' arm_t_uu_be32,
    Field ''local_port_range'' arm_t_u32,
    Field ''mc_list'' Pointer,
    Padding (Scalar TLong) 32,
    Field ''cork'' arm_struct_inet_cork_full]"

lemma arm_struct_inet_sock_layout [layout]:
  "size_of abi_arm arm_struct_inet_sock = 696" "align_of abi_arm arm_struct_inet_sock = 8"
  by (simp_all add: arm_struct_inet_sock_def abi_arm_def layout_eval layout [unfolded abi_arm_def])

definition arm_struct_fastopen_queue :: ctype where
  \<comment> \<open>\<^verbatim>\<open>struct fastopen_queue\<close>, lines 24265 to 24272\<close>
  "arm_struct_fastopen_queue =
    Struct [Field ''rskq_rst_head'' Pointer,
    Field ''rskq_rst_tail'' Pointer,
    Field ''lock'' arm_t_spinlock_t,
    Field ''qlen'' (Scalar TInt),
    Field ''max_qlen'' (Scalar TInt),
    Field ''ctx'' Pointer]"

lemma arm_struct_fastopen_queue_layout [layout]:
  "size_of abi_arm arm_struct_fastopen_queue = 20" "align_of abi_arm arm_struct_fastopen_queue = 4"
  by (simp_all add: arm_struct_fastopen_queue_def abi_arm_def layout_eval layout [unfolded abi_arm_def])

definition arm_struct_request_sock_queue :: ctype where
  \<comment> \<open>\<^verbatim>\<open>struct request_sock_queue\<close>, lines 28321 to 28330\<close>
  "arm_struct_request_sock_queue =
    Struct [Field ''rskq_lock'' arm_t_spinlock_t,
    Field ''rskq_defer_accept'' arm_t_u8,
    Field ''synflood_warned'' arm_t_u32,
    Field ''qlen'' arm_t_atomic_t,
    Field ''young'' arm_t_atomic_t,
    Field ''rskq_accept_head'' Pointer,
    Field ''rskq_accept_tail'' Pointer,
    Field ''fastopenq'' arm_struct_fastopen_queue]"

lemma arm_struct_request_sock_queue_layout [layout]:
  "size_of abi_arm arm_struct_request_sock_queue = 44" "align_of abi_arm arm_struct_request_sock_queue = 4"
  by (simp_all add: arm_struct_request_sock_queue_def abi_arm_def layout_eval layout [unfolded abi_arm_def])

definition arm_struct_inet_connection_sock :: ctype where
  \<comment> \<open>\<^verbatim>\<open>struct inet_connection_sock\<close>, lines 28336 to 28388\<close>
  "arm_struct_inet_connection_sock =
    Struct [Field ''icsk_inet'' arm_struct_inet_sock,
    Field ''icsk_accept_queue'' arm_struct_request_sock_queue,
    Field ''icsk_bind_hash'' Pointer,
    Field ''icsk_bind2_hash'' Pointer,
    Field ''icsk_timeout'' (Scalar TULong),
    Field ''icsk_retransmit_timer'' arm_struct_timer_list,
    Field ''icsk_delack_timer'' arm_struct_timer_list,
    Field ''icsk_rto'' arm_t_uu_u32,
    Field ''icsk_rto_min'' arm_t_uu_u32,
    Field ''icsk_delack_max'' arm_t_uu_u32,
    Field ''icsk_pmtu_cookie'' arm_t_uu_u32,
    Field ''icsk_ca_ops'' Pointer,
    Field ''icsk_af_ops'' Pointer,
    Field ''icsk_ulp_ops'' Pointer,
    Field ''icsk_ulp_data'' Pointer,
    Field ''icsk_clean_acked'' Pointer,
    Field ''icsk_sync_mss'' Pointer,
    Bits ''icsk_ca_state'' arm_t_uu_u8 5,
    Bits ''icsk_ca_initialized'' arm_t_uu_u8 1,
    Bits ''icsk_ca_setsockopt'' arm_t_uu_u8 1,
    Bits ''icsk_ca_dst_locked'' arm_t_uu_u8 1,
    Field ''icsk_retransmits'' arm_t_uu_u8,
    Field ''icsk_pending'' arm_t_uu_u8,
    Field ''icsk_backoff'' arm_t_uu_u8,
    Field ''icsk_syn_retries'' arm_t_uu_u8,
    Field ''icsk_probes_out'' arm_t_uu_u8,
    Field ''icsk_ext_hdr_len'' arm_t_uu_u16,
    Field ''icsk_ack'' (Struct [Field ''pending'' arm_t_uu_u8,
      Field ''quick'' arm_t_uu_u8,
      Field ''pingpong'' arm_t_uu_u8,
      Field ''retry'' arm_t_uu_u8,
      Bits ''ato'' arm_t_uu_u32 8,
      Bits ''lrcv_flowlabel'' arm_t_uu_u32 20,
      Bits ''unused'' arm_t_uu_u32 4,
      Field ''timeout'' (Scalar TULong),
      Field ''lrcvtime'' arm_t_uu_u32,
      Field ''last_seg_size'' arm_t_uu_u16,
      Field ''rcv_mss'' arm_t_uu_u16]),
    Field ''icsk_mtup'' (Struct [Field ''search_high'' (Scalar TInt),
      Field ''search_low'' (Scalar TInt),
      Bits ''probe_size'' arm_t_u32 31,
      Bits ''enabled'' arm_t_u32 1,
      Field ''probe_timestamp'' arm_t_u32]),
    Field ''icsk_probes_tstamp'' arm_t_u32,
    Field ''icsk_user_timeout'' arm_t_u32,
    Padding (Scalar TLong) 32,
    Field ''icsk_ca_priv'' (Array arm_t_u64 13)]"

lemma arm_struct_inet_connection_sock_layout [layout]:
  "size_of abi_arm arm_struct_inet_connection_sock = 992" "align_of abi_arm arm_struct_inet_connection_sock = 8"
  by (simp_all add: arm_struct_inet_connection_sock_def abi_arm_def layout_eval layout [unfolded abi_arm_def])

definition arm_struct_minmax_sample :: ctype where
  \<comment> \<open>\<^verbatim>\<open>struct minmax_sample\<close>, lines 31416 to 31419\<close>
  "arm_struct_minmax_sample =
    Struct [Field ''t'' arm_t_u32,
    Field ''v'' arm_t_u32]"

lemma arm_struct_minmax_sample_layout [layout]:
  "size_of abi_arm arm_struct_minmax_sample = 8" "align_of abi_arm arm_struct_minmax_sample = 4"
  by (simp_all add: arm_struct_minmax_sample_def abi_arm_def layout_eval layout [unfolded abi_arm_def])

definition arm_struct_minmax :: ctype where
  \<comment> \<open>\<^verbatim>\<open>struct minmax\<close>, lines 31421 to 31423\<close>
  "arm_struct_minmax =
    Struct [Field ''s'' (Array arm_struct_minmax_sample 3)]"

lemma arm_struct_minmax_layout [layout]:
  "size_of abi_arm arm_struct_minmax = 24" "align_of abi_arm arm_struct_minmax = 4"
  by (simp_all add: arm_struct_minmax_def abi_arm_def layout_eval layout [unfolded abi_arm_def])

definition arm_struct_tcp_options_received :: ctype where
  \<comment> \<open>\<^verbatim>\<open>struct tcp_options_received\<close>, lines 40031 to 40049\<close>
  "arm_struct_tcp_options_received =
    Struct [Field ''ts_recent_stamp'' (Scalar TInt),
    Field ''ts_recent'' arm_t_u32,
    Field ''rcv_tsval'' arm_t_u32,
    Field ''rcv_tsecr'' arm_t_u32,
    Bits ''saw_tstamp'' arm_t_u16 1,
    Bits ''tstamp_ok'' arm_t_u16 1,
    Bits ''dsack'' arm_t_u16 1,
    Bits ''wscale_ok'' arm_t_u16 1,
    Bits ''sack_ok'' arm_t_u16 3,
    Bits ''smc_ok'' arm_t_u16 1,
    Bits ''snd_wscale'' arm_t_u16 4,
    Bits ''rcv_wscale'' arm_t_u16 4,
    Bits ''saw_unknown'' arm_t_u8 1,
    Bits ''unused'' arm_t_u8 7,
    Field ''num_sacks'' arm_t_u8,
    Field ''user_mss'' arm_t_u16,
    Field ''mss_clamp'' arm_t_u16]"

lemma arm_struct_tcp_options_received_layout [layout]:
  "size_of abi_arm arm_struct_tcp_options_received = 24" "align_of abi_arm arm_struct_tcp_options_received = 4"
  by (simp_all add: arm_struct_tcp_options_received_def abi_arm_def layout_eval layout [unfolded abi_arm_def])

definition arm_struct_tcp_rack :: ctype where
  \<comment> \<open>\<^verbatim>\<open>struct tcp_rack\<close>, lines 40051 to 40060\<close>
  "arm_struct_tcp_rack =
    Struct [Field ''mstamp'' arm_t_u64,
    Field ''rtt_us'' arm_t_u32,
    Field ''end_seq'' arm_t_u32,
    Field ''last_delivered'' arm_t_u32,
    Field ''reo_wnd_steps'' arm_t_u8,
    Bits ''reo_wnd_persist'' arm_t_u8 5,
    Bits ''dsack_seen'' arm_t_u8 1,
    Bits ''advanced'' arm_t_u8 1]"

lemma arm_struct_tcp_rack_layout [layout]:
  "size_of abi_arm arm_struct_tcp_rack = 24" "align_of abi_arm arm_struct_tcp_rack = 8"
  by (simp_all add: arm_struct_tcp_rack_def abi_arm_def layout_eval layout [unfolded abi_arm_def])

definition arm_struct_rb_node :: ctype where
  \<comment> \<open>\<^verbatim>\<open>struct rb_node\<close>, lines 11847 to 11851\<close>
  "arm_struct_rb_node =
    Struct [Field ''__rb_parent_color'' (Scalar TULong),
    Field ''rb_right'' Pointer,
    Field ''rb_left'' Pointer]"

lemma arm_struct_rb_node_layout [layout]:
  "size_of abi_arm arm_struct_rb_node = 12" "align_of abi_arm arm_struct_rb_node = 4"
  by (simp_all add: arm_struct_rb_node_def abi_arm_def layout_eval layout [unfolded abi_arm_def])

definition arm_struct_timerqueue_node :: ctype where
  \<comment> \<open>\<^verbatim>\<open>struct timerqueue_node\<close>, lines 11853 to 11857\<close>
  "arm_struct_timerqueue_node =
    Struct [Field ''node'' arm_struct_rb_node,
    Padding (Scalar TLong) 32,
    Field ''expires'' arm_t_ktime_t]"

lemma arm_struct_timerqueue_node_layout [layout]:
  "size_of abi_arm arm_struct_timerqueue_node = 24" "align_of abi_arm arm_struct_timerqueue_node = 8"
  by (simp_all add: arm_struct_timerqueue_node_def abi_arm_def layout_eval layout [unfolded abi_arm_def])

definition arm_struct_hrtimer :: ctype where
  \<comment> \<open>\<^verbatim>\<open>struct hrtimer\<close>, lines 11861 to 11871\<close>
  "arm_struct_hrtimer =
    Struct [Field ''node'' arm_struct_timerqueue_node,
    Field ''_softexpires'' arm_t_ktime_t,
    Field ''function'' Pointer,
    Field ''base'' Pointer,
    Field ''state'' arm_t_u8,
    Field ''is_rel'' arm_t_u8,
    Field ''is_soft'' arm_t_u8,
    Field ''is_hard'' arm_t_u8,
    Padding (Scalar TLong) 32]"

lemma arm_struct_hrtimer_layout [layout]:
  "size_of abi_arm arm_struct_hrtimer = 48" "align_of abi_arm arm_struct_hrtimer = 8"
  by (simp_all add: arm_struct_hrtimer_def abi_arm_def layout_eval layout [unfolded abi_arm_def])

definition arm_struct_tcp_sack_block :: ctype where
  \<comment> \<open>\<^verbatim>\<open>struct tcp_sack_block\<close>, lines 40062 to 40065\<close>
  "arm_struct_tcp_sack_block =
    Struct [Field ''start_seq'' arm_t_u32,
    Field ''end_seq'' arm_t_u32]"

lemma arm_struct_tcp_sack_block_layout [layout]:
  "size_of abi_arm arm_struct_tcp_sack_block = 8" "align_of abi_arm arm_struct_tcp_sack_block = 4"
  by (simp_all add: arm_struct_tcp_sack_block_def abi_arm_def layout_eval layout [unfolded abi_arm_def])

definition arm_struct_tcp_sock :: ctype where
  \<comment> \<open>\<^verbatim>\<open>struct tcp_sock\<close>, lines 40069 to 40249\<close>
  "arm_struct_tcp_sock =
    Struct [Field ''inet_conn'' arm_struct_inet_connection_sock,
    Field ''__cacheline_group_begin__tcp_sock_read_tx'' (Array arm_t_uu_u8 0),
    Field ''max_window'' arm_t_u32,
    Field ''rcv_ssthresh'' arm_t_u32,
    Field ''reordering'' arm_t_u32,
    Field ''notsent_lowat'' arm_t_u32,
    Field ''gso_segs'' arm_t_u16,
    Field ''lost_skb_hint'' Pointer,
    Field ''retransmit_skb_hint'' Pointer,
    Field ''__cacheline_group_end__tcp_sock_read_tx'' (Array arm_t_uu_u8 0),
    Field ''__cacheline_group_begin__tcp_sock_read_txrx'' (Array arm_t_uu_u8 0),
    Field ''tsoffset'' arm_t_u32,
    Field ''snd_wnd'' arm_t_u32,
    Field ''mss_cache'' arm_t_u32,
    Field ''snd_cwnd'' arm_t_u32,
    Field ''prr_out'' arm_t_u32,
    Field ''lost_out'' arm_t_u32,
    Field ''sacked_out'' arm_t_u32,
    Field ''tcp_header_len'' arm_t_u16,
    Field ''scaling_ratio'' arm_t_u8,
    Bits ''chrono_type'' arm_t_u8 2,
    Bits ''repair'' arm_t_u8 1,
    Bits ''tcp_usec_ts'' arm_t_u8 1,
    Bits ''is_sack_reneg'' arm_t_u8 1,
    Bits ''is_cwnd_limited'' arm_t_u8 1,
    Field ''__cacheline_group_end__tcp_sock_read_txrx'' (Array arm_t_uu_u8 0),
    Field ''__cacheline_group_begin__tcp_sock_read_rx'' (Array arm_t_uu_u8 0),
    Field ''copied_seq'' arm_t_u32,
    Field ''rcv_tstamp'' arm_t_u32,
    Field ''snd_wl1'' arm_t_u32,
    Field ''tlp_high_seq'' arm_t_u32,
    Field ''rttvar_us'' arm_t_u32,
    Field ''retrans_out'' arm_t_u32,
    Field ''advmss'' arm_t_u16,
    Field ''urg_data'' arm_t_u16,
    Field ''lost'' arm_t_u32,
    Field ''rtt_min'' arm_struct_minmax,
    Field ''out_of_order_queue'' arm_struct_rb_root,
    Field ''snd_ssthresh'' arm_t_u32,
    Bits ''recvmsg_inq'' arm_t_u8 1,
    Field ''__cacheline_group_end__tcp_sock_read_rx'' (Array arm_t_uu_u8 0),
    Padding (Scalar TLong) 32,
    Padding (Scalar TLong) 32,
    Padding (Scalar TLong) 32,
    Padding (Scalar TLong) 32,
    Padding (Scalar TLong) 32,
    Padding (Scalar TLong) 32,
    Padding (Scalar TLong) 32,
    Padding (Scalar TLong) 32,
    Field ''__cacheline_group_begin__tcp_sock_write_tx'' (Array arm_t_uu_u8 0),
    Field ''segs_out'' arm_t_u32,
    Field ''data_segs_out'' arm_t_u32,
    Field ''bytes_sent'' arm_t_u64,
    Field ''snd_sml'' arm_t_u32,
    Field ''chrono_start'' arm_t_u32,
    Field ''chrono_stat'' (Array arm_t_u32 3),
    Field ''write_seq'' arm_t_u32,
    Field ''pushed_seq'' arm_t_u32,
    Field ''lsndtime'' arm_t_u32,
    Field ''mdev_us'' arm_t_u32,
    Field ''rtt_seq'' arm_t_u32,
    Field ''tcp_wstamp_ns'' arm_t_u64,
    Field ''tsorted_sent_queue'' arm_struct_list_head,
    Field ''highest_sack'' Pointer,
    Field ''ecn_flags'' arm_t_u8,
    Field ''__cacheline_group_end__tcp_sock_write_tx'' (Array arm_t_uu_u8 0),
    Field ''__cacheline_group_begin__tcp_sock_write_txrx'' (Array arm_t_uu_u8 0),
    Field ''pred_flags'' arm_t_uu_be32,
    Padding (Scalar TLong) 32,
    Field ''tcp_clock_cache'' arm_t_u64,
    Field ''tcp_mstamp'' arm_t_u64,
    Field ''rcv_nxt'' arm_t_u32,
    Field ''snd_nxt'' arm_t_u32,
    Field ''snd_una'' arm_t_u32,
    Field ''window_clamp'' arm_t_u32,
    Field ''srtt_us'' arm_t_u32,
    Field ''packets_out'' arm_t_u32,
    Field ''snd_up'' arm_t_u32,
    Field ''delivered'' arm_t_u32,
    Field ''delivered_ce'' arm_t_u32,
    Field ''app_limited'' arm_t_u32,
    Field ''rcv_wnd'' arm_t_u32,
    Field ''rx_opt'' arm_struct_tcp_options_received,
    Bits ''nonagle'' arm_t_u8 4,
    Bits ''rate_app_limited'' arm_t_u8 1,
    Field ''__cacheline_group_end__tcp_sock_write_txrx'' (Array arm_t_uu_u8 0),
    Padding (Scalar TLong) 0,
    Field ''__cacheline_group_begin__tcp_sock_write_rx'' (Array arm_t_uu_u8 0),
    Field ''bytes_received'' arm_t_u64,
    Field ''segs_in'' arm_t_u32,
    Field ''data_segs_in'' arm_t_u32,
    Field ''rcv_wup'' arm_t_u32,
    Field ''max_packets_out'' arm_t_u32,
    Field ''cwnd_usage_seq'' arm_t_u32,
    Field ''rate_delivered'' arm_t_u32,
    Field ''rate_interval_us'' arm_t_u32,
    Field ''rcv_rtt_last_tsecr'' arm_t_u32,
    Field ''first_tx_mstamp'' arm_t_u64,
    Field ''delivered_mstamp'' arm_t_u64,
    Field ''bytes_acked'' arm_t_u64,
    Field ''rcv_rtt_est'' (Struct [Field ''rtt_us'' arm_t_u32,
      Field ''seq'' arm_t_u32,
      Field ''time'' arm_t_u64]),
    Field ''rcvq_space'' (Struct [Field ''space'' arm_t_u32,
      Field ''seq'' arm_t_u32,
      Field ''time'' arm_t_u64]),
    Field ''__cacheline_group_end__tcp_sock_write_rx'' (Array arm_t_uu_u8 0),
    Field ''dsack_dups'' arm_t_u32,
    Field ''compressed_ack_rcv_nxt'' arm_t_u32,
    Field ''tsq_node'' arm_struct_list_head,
    Field ''rack'' arm_struct_tcp_rack,
    Field ''compressed_ack'' arm_t_u8,
    Bits ''dup_ack_counter'' arm_t_u8 2,
    Bits ''tlp_retrans'' arm_t_u8 1,
    Bits ''unused'' arm_t_u8 5,
    Bits ''thin_lto'' arm_t_u8 1,
    Bits ''fastopen_connect'' arm_t_u8 1,
    Bits ''fastopen_no_cookie'' arm_t_u8 1,
    Bits ''fastopen_client_fail'' arm_t_u8 2,
    Bits ''frto'' arm_t_u8 1,
    Field ''repair_queue'' arm_t_u8,
    Bits ''save_syn'' arm_t_u8 2,
    Bits ''syn_data'' arm_t_u8 1,
    Bits ''syn_fastopen'' arm_t_u8 1,
    Bits ''syn_fastopen_exp'' arm_t_u8 1,
    Bits ''syn_fastopen_ch'' arm_t_u8 1,
    Bits ''syn_data_acked'' arm_t_u8 1,
    Field ''keepalive_probes'' arm_t_u8,
    Field ''tcp_tx_delay'' arm_t_u32,
    Field ''mdev_max_us'' arm_t_u32,
    Field ''reord_seen'' arm_t_u32,
    Field ''snd_cwnd_cnt'' arm_t_u32,
    Field ''snd_cwnd_clamp'' arm_t_u32,
    Field ''snd_cwnd_used'' arm_t_u32,
    Field ''snd_cwnd_stamp'' arm_t_u32,
    Field ''prior_cwnd'' arm_t_u32,
    Field ''prr_delivered'' arm_t_u32,
    Field ''last_oow_ack_time'' arm_t_u32,
    Field ''pacing_timer'' arm_struct_hrtimer,
    Field ''compressed_ack_timer'' arm_struct_hrtimer,
    Field ''ooo_last_skb'' Pointer,
    Field ''duplicate_sack'' (Array arm_struct_tcp_sack_block 1),
    Field ''selective_acks'' (Array arm_struct_tcp_sack_block 4),
    Field ''recv_sack_cache'' (Array arm_struct_tcp_sack_block 4),
    Field ''lost_cnt_hint'' (Scalar TInt),
    Field ''prior_ssthresh'' arm_t_u32,
    Field ''high_seq'' arm_t_u32,
    Field ''retrans_stamp'' arm_t_u32,
    Field ''undo_marker'' arm_t_u32,
    Field ''undo_retrans'' (Scalar TInt),
    Padding (Scalar TLong) 32,
    Field ''bytes_retrans'' arm_t_u64,
    Field ''total_retrans'' arm_t_u32,
    Field ''rto_stamp'' arm_t_u32,
    Field ''total_rto'' arm_t_u16,
    Field ''total_rto_recoveries'' arm_t_u16,
    Field ''total_rto_time'' arm_t_u32,
    Field ''urg_seq'' arm_t_u32,
    Field ''keepalive_time'' (Scalar TUInt),
    Field ''keepalive_intvl'' (Scalar TUInt),
    Field ''linger2'' (Scalar TInt),
    Field ''bpf_sock_ops_cb_flags'' arm_t_u8,
    Bits ''bpf_chg_cc_inprogress'' arm_t_u8 1,
    Field ''timeout_rehash'' arm_t_u16,
    Field ''rcv_ooopack'' arm_t_u32,
    Field ''mtu_probe'' (Struct [Field ''probe_seq_start'' arm_t_u32,
      Field ''probe_seq_end'' arm_t_u32]),
    Field ''plb_rehash'' arm_t_u32,
    Field ''mtu_info'' arm_t_u32,
    Field ''fastopen_req'' Pointer,
    Field ''fastopen_rsk'' Pointer,
    Field ''saved_syn'' Pointer,
    Padding (Scalar TLong) 32]"

lemma arm_struct_tcp_sock_layout [layout]:
  "size_of abi_arm arm_struct_tcp_sock = 1792" "align_of abi_arm arm_struct_tcp_sock = 8"
  by (simp_all add: arm_struct_tcp_sock_def abi_arm_def layout_eval layout [unfolded abi_arm_def])

definition arm_struct_in6_pktinfo :: ctype where
  \<comment> \<open>\<^verbatim>\<open>struct in6_pktinfo\<close>, lines 27750 to 27753\<close>
  "arm_struct_in6_pktinfo =
    Struct [Field ''ipi6_addr'' arm_struct_in6_addr,
    Field ''ipi6_ifindex'' (Scalar TInt)]"

lemma arm_struct_in6_pktinfo_layout [layout]:
  "size_of abi_arm arm_struct_in6_pktinfo = 20" "align_of abi_arm arm_struct_in6_pktinfo = 4"
  by (simp_all add: arm_struct_in6_pktinfo_def abi_arm_def layout_eval layout [unfolded abi_arm_def])

definition arm_t_s16 :: ctype where
  \<comment> \<open>\<^verbatim>\<open>typedef s16\<close>, lines 10675 to 10675\<close>
  "arm_t_s16 =
    arm_t_uu_s16"

lemma arm_t_s16_layout [layout]:
  "size_of abi_arm arm_t_s16 = 2" "align_of abi_arm arm_t_s16 = 2"
  by (simp_all add: arm_t_s16_def abi_arm_def layout_eval layout [unfolded abi_arm_def])

definition arm_struct_inet6_cork :: ctype where
  \<comment> \<open>\<^verbatim>\<open>struct inet6_cork\<close>, lines 27847 to 27851\<close>
  "arm_struct_inet6_cork =
    Struct [Field ''opt'' Pointer,
    Field ''hop_limit'' arm_t_u8,
    Field ''tclass'' arm_t_u8]"

lemma arm_struct_inet6_cork_layout [layout]:
  "size_of abi_arm arm_struct_inet6_cork = 8" "align_of abi_arm arm_struct_inet6_cork = 4"
  by (simp_all add: arm_struct_inet6_cork_def abi_arm_def layout_eval layout [unfolded abi_arm_def])

definition arm_struct_ipv6_pinfo :: ctype where
  \<comment> \<open>\<^verbatim>\<open>struct ipv6_pinfo\<close>, lines 29470 to 29513\<close>
  "arm_struct_ipv6_pinfo =
    Struct [Field ''saddr'' arm_struct_in6_addr,
    Field ''sticky_pktinfo'' arm_struct_in6_pktinfo,
    Field ''daddr_cache'' Pointer,
    Field ''flow_label'' arm_t_uu_be32,
    Field ''frag_size'' arm_t_uu_u32,
    Field ''hop_limit'' arm_t_s16,
    Field ''mcast_hops'' arm_t_u8,
    Field ''ucast_oif'' (Scalar TInt),
    Field ''mcast_oif'' (Scalar TInt),
    Field ''rxopt'' (Union [Field ''bits'' (Struct [Bits ''srcrt'' arm_t_uu_u16 1,
        Bits ''osrcrt'' arm_t_uu_u16 1,
        Bits ''rxinfo'' arm_t_uu_u16 1,
        Bits ''rxoinfo'' arm_t_uu_u16 1,
        Bits ''rxhlim'' arm_t_uu_u16 1,
        Bits ''rxohlim'' arm_t_uu_u16 1,
        Bits ''hopopts'' arm_t_uu_u16 1,
        Bits ''ohopopts'' arm_t_uu_u16 1,
        Bits ''dstopts'' arm_t_uu_u16 1,
        Bits ''odstopts'' arm_t_uu_u16 1,
        Bits ''rxflow'' arm_t_uu_u16 1,
        Bits ''rxtclass'' arm_t_uu_u16 1,
        Bits ''rxpmtu'' arm_t_uu_u16 1,
        Bits ''rxorigdstaddr'' arm_t_uu_u16 1,
        Bits ''recvfragsize'' arm_t_uu_u16 1]),
      Field ''all'' arm_t_uu_u16]),
    Field ''srcprefs'' arm_t_uu_u8,
    Field ''pmtudisc'' arm_t_uu_u8,
    Field ''min_hopcount'' arm_t_uu_u8,
    Field ''tclass'' arm_t_uu_u8,
    Field ''rcv_flowinfo'' arm_t_uu_be32,
    Field ''dst_cookie'' arm_t_uu_u32,
    Field ''ipv6_mc_list'' Pointer,
    Field ''ipv6_ac_list'' Pointer,
    Field ''ipv6_fl_list'' Pointer,
    Field ''opt'' Pointer,
    Field ''pktoptions'' Pointer,
    Field ''rxpmtu'' Pointer,
    Field ''cork'' arm_struct_inet6_cork]"

lemma arm_struct_ipv6_pinfo_layout [layout]:
  "size_of abi_arm arm_struct_ipv6_pinfo = 108" "align_of abi_arm arm_struct_ipv6_pinfo = 4"
  by (simp_all add: arm_struct_ipv6_pinfo_def abi_arm_def layout_eval layout [unfolded abi_arm_def])

definition arm_struct_tcp6_sock :: ctype where
  \<comment> \<open>\<^verbatim>\<open>struct tcp6_sock\<close>, lines 40251 to 40259\<close>
  "arm_struct_tcp6_sock =
    Struct [Field ''tcp'' arm_struct_tcp_sock,
    Field ''inet6'' arm_struct_ipv6_pinfo,
    Padding (Scalar TLong) 32,
    Padding (Scalar TLong) 32,
    Padding (Scalar TLong) 32,
    Padding (Scalar TLong) 32,
    Padding (Scalar TLong) 32]"

lemma arm_struct_tcp6_sock_layout [layout]:
  "size_of abi_arm arm_struct_tcp6_sock = 1920" "align_of abi_arm arm_struct_tcp6_sock = 8"
  by (simp_all add: arm_struct_tcp6_sock_def abi_arm_def layout_eval layout [unfolded abi_arm_def])

definition arm_struct_udp_sock :: ctype where
  \<comment> \<open>\<^verbatim>\<open>struct udp_sock\<close>, lines 44984 to 45006\<close>
  "arm_struct_udp_sock =
    Struct [Field ''inet'' arm_struct_inet_sock,
    Field ''udp_flags'' (Scalar TULong),
    Field ''pending'' (Scalar TInt),
    Field ''encap_type'' arm_t_uu_u8,
    Field ''udp_lrpa_hash'' arm_t_uu_u16,
    Field ''udp_lrpa_node'' arm_struct_hlist_nulls_node,
    Field ''len'' arm_t_uu_u16,
    Field ''gso_size'' arm_t_uu_u16,
    Field ''pcslen'' arm_t_uu_u16,
    Field ''pcrlen'' arm_t_uu_u16,
    Field ''encap_rcv'' Pointer,
    Field ''encap_err_rcv'' Pointer,
    Field ''encap_err_lookup'' Pointer,
    Field ''encap_destroy'' Pointer,
    Field ''gro_receive'' Pointer,
    Field ''gro_complete'' Pointer,
    Field ''reader_queue'' arm_struct_sk_buff_head,
    Field ''forward_deficit'' (Scalar TInt),
    Field ''forward_threshold'' (Scalar TInt),
    Field ''peeking_with_offset'' arm_t_bool,
    Padding (Scalar TLong) 32]"

lemma arm_struct_udp_sock_layout [layout]:
  "size_of abi_arm arm_struct_udp_sock = 776" "align_of abi_arm arm_struct_udp_sock = 8"
  by (simp_all add: arm_struct_udp_sock_def abi_arm_def layout_eval layout [unfolded abi_arm_def])

definition arm_struct_udp6_sock :: ctype where
  \<comment> \<open>\<^verbatim>\<open>struct udp6_sock\<close>, lines 45008 to 45012\<close>
  "arm_struct_udp6_sock =
    Struct [Field ''udp'' arm_struct_udp_sock,
    Field ''inet6'' arm_struct_ipv6_pinfo,
    Padding (Scalar TLong) 32]"

lemma arm_struct_udp6_sock_layout [layout]:
  "size_of abi_arm arm_struct_udp6_sock = 888" "align_of abi_arm arm_struct_udp6_sock = 8"
  by (simp_all add: arm_struct_udp6_sock_def abi_arm_def layout_eval layout [unfolded abi_arm_def])

definition arm_struct_icmp6_filter :: ctype where
  \<comment> \<open>\<^verbatim>\<open>struct icmp6_filter\<close>, lines 27270 to 27272\<close>
  "arm_struct_icmp6_filter =
    Struct [Field ''data'' (Array arm_t_uu_u32 8)]"

lemma arm_struct_icmp6_filter_layout [layout]:
  "size_of abi_arm arm_struct_icmp6_filter = 32" "align_of abi_arm arm_struct_icmp6_filter = 4"
  by (simp_all add: arm_struct_icmp6_filter_def abi_arm_def layout_eval layout [unfolded abi_arm_def])

definition arm_struct_raw6_sock :: ctype where
  \<comment> \<open>\<^verbatim>\<open>struct raw6_sock\<close>, lines 36737 to 36744\<close>
  "arm_struct_raw6_sock =
    Struct [Field ''inet'' arm_struct_inet_sock,
    Field ''checksum'' arm_t_uu_u32,
    Field ''offset'' arm_t_uu_u32,
    Field ''filter'' arm_struct_icmp6_filter,
    Field ''ip6mr_table'' arm_t_uu_u32,
    Field ''inet6'' arm_struct_ipv6_pinfo]"

lemma arm_struct_raw6_sock_layout [layout]:
  "size_of abi_arm arm_struct_raw6_sock = 848" "align_of abi_arm arm_struct_raw6_sock = 8"
  by (simp_all add: arm_struct_raw6_sock_def abi_arm_def layout_eval layout [unfolded abi_arm_def])

definition arm_t_uu_kernel_size_t :: ctype where
  \<comment> \<open>\<^verbatim>\<open>typedef __kernel_size_t\<close>, lines 10739 to 10739\<close>
  "arm_t_uu_kernel_size_t =
    Scalar TUInt"

lemma arm_t_uu_kernel_size_t_layout [layout]:
  "size_of abi_arm arm_t_uu_kernel_size_t = 4" "align_of abi_arm arm_t_uu_kernel_size_t = 4"
  by (simp_all add: arm_t_uu_kernel_size_t_def abi_arm_def layout_eval layout [unfolded abi_arm_def])

definition arm_t_size_t :: ctype where
  \<comment> \<open>\<^verbatim>\<open>typedef size_t\<close>, lines 10823 to 10823\<close>
  "arm_t_size_t =
    arm_t_uu_kernel_size_t"

lemma arm_t_size_t_layout [layout]:
  "size_of abi_arm arm_t_size_t = 4" "align_of abi_arm arm_t_size_t = 4"
  by (simp_all add: arm_t_size_t_def abi_arm_def layout_eval layout [unfolded abi_arm_def])

definition arm_struct_iovec :: ctype where
  \<comment> \<open>\<^verbatim>\<open>struct iovec\<close>, lines 28894 to 28897\<close>
  "arm_struct_iovec =
    Struct [Field ''iov_base'' Pointer,
    Field ''iov_len'' arm_t_uu_kernel_size_t]"

lemma arm_struct_iovec_layout [layout]:
  "size_of abi_arm arm_struct_iovec = 8" "align_of abi_arm arm_struct_iovec = 4"
  by (simp_all add: arm_struct_iovec_def abi_arm_def layout_eval layout [unfolded abi_arm_def])

definition arm_t_uu_kernel_loff_t :: ctype where
  \<comment> \<open>\<^verbatim>\<open>typedef __kernel_loff_t\<close>, lines 10597 to 10597\<close>
  "arm_t_uu_kernel_loff_t =
    Scalar TLongLong"

lemma arm_t_uu_kernel_loff_t_layout [layout]:
  "size_of abi_arm arm_t_uu_kernel_loff_t = 8" "align_of abi_arm arm_t_uu_kernel_loff_t = 8"
  by (simp_all add: arm_t_uu_kernel_loff_t_def abi_arm_def layout_eval layout [unfolded abi_arm_def])

definition arm_t_loff_t :: ctype where
  \<comment> \<open>\<^verbatim>\<open>typedef loff_t\<close>, lines 10609 to 10609\<close>
  "arm_t_loff_t =
    arm_t_uu_kernel_loff_t"

lemma arm_t_loff_t_layout [layout]:
  "size_of abi_arm arm_t_loff_t = 8" "align_of abi_arm arm_t_loff_t = 8"
  by (simp_all add: arm_t_loff_t_def abi_arm_def layout_eval layout [unfolded abi_arm_def])

definition arm_struct_iov_iter :: ctype where
  \<comment> \<open>\<^verbatim>\<open>struct iov_iter\<close>, lines 28901 to 28925\<close>
  "arm_struct_iov_iter =
    Struct [Field ''iter_type'' arm_t_u8,
    Field ''nofault'' arm_t_bool,
    Field ''data_source'' arm_t_bool,
    Field ''iov_offset'' arm_t_size_t,
    Anonymous (Union [Field ''__ubuf_iovec'' arm_struct_iovec,
      Anonymous (Struct [Anonymous (Union [Field ''__iov'' Pointer,
          Field ''kvec'' Pointer,
          Field ''bvec'' Pointer,
          Field ''folioq'' Pointer,
          Field ''xarray'' Pointer,
          Field ''ubuf'' Pointer]),
        Field ''count'' arm_t_size_t])]),
    Anonymous (Union [Field ''nr_segs'' (Scalar TULong),
      Field ''folioq_slot'' arm_t_u8,
      Field ''xarray_start'' arm_t_loff_t])]"

lemma arm_struct_iov_iter_layout [layout]:
  "size_of abi_arm arm_struct_iov_iter = 24" "align_of abi_arm arm_struct_iov_iter = 8"
  by (simp_all add: arm_struct_iov_iter_def abi_arm_def layout_eval layout [unfolded abi_arm_def])

definition arm_struct_msghdr :: ctype where
  \<comment> \<open>\<^verbatim>\<open>struct msghdr\<close>, lines 32010 to 32028\<close>
  "arm_struct_msghdr =
    Struct [Field ''msg_name'' Pointer,
    Field ''msg_namelen'' (Scalar TInt),
    Field ''msg_inq'' (Scalar TInt),
    Padding (Scalar TLong) 32,
    Field ''msg_iter'' arm_struct_iov_iter,
    Anonymous (Union [Field ''msg_control'' Pointer,
      Field ''msg_control_user'' Pointer]),
    Bits ''msg_control_is_user'' arm_t_bool 1,
    Bits ''msg_get_inq'' arm_t_bool 1,
    Field ''msg_flags'' (Scalar TUInt),
    Field ''msg_controllen'' arm_t_uu_kernel_size_t,
    Field ''msg_iocb'' Pointer,
    Field ''msg_ubuf'' Pointer,
    Field ''sg_from_iter'' Pointer,
    Padding (Scalar TLong) 32]"

lemma arm_struct_msghdr_layout [layout]:
  "size_of abi_arm arm_struct_msghdr = 72" "align_of abi_arm arm_struct_msghdr = 8"
  by (simp_all add: arm_struct_msghdr_def abi_arm_def layout_eval layout [unfolded abi_arm_def])

definition arm_t_uu_kernel_sa_family_t :: ctype where
  \<comment> \<open>\<^verbatim>\<open>typedef __kernel_sa_family_t\<close>, lines 10685 to 10685\<close>
  "arm_t_uu_kernel_sa_family_t =
    Scalar TUShort"

lemma arm_t_uu_kernel_sa_family_t_layout [layout]:
  "size_of abi_arm arm_t_uu_kernel_sa_family_t = 2" "align_of abi_arm arm_t_uu_kernel_sa_family_t = 2"
  by (simp_all add: arm_t_uu_kernel_sa_family_t_def abi_arm_def layout_eval layout [unfolded abi_arm_def])

definition arm_struct_in_addr :: ctype where
  \<comment> \<open>\<^verbatim>\<open>struct in_addr\<close>, lines 22714 to 22716\<close>
  "arm_struct_in_addr =
    Struct [Field ''s_addr'' arm_t_uu_be32]"

lemma arm_struct_in_addr_layout [layout]:
  "size_of abi_arm arm_struct_in_addr = 4" "align_of abi_arm arm_struct_in_addr = 4"
  by (simp_all add: arm_struct_in_addr_def abi_arm_def layout_eval layout [unfolded abi_arm_def])

definition arm_struct_sockaddr_in :: ctype where
  \<comment> \<open>\<^verbatim>\<open>struct sockaddr_in\<close>, lines 38814 to 38819\<close>
  "arm_struct_sockaddr_in =
    Struct [Field ''sin_family'' arm_t_uu_kernel_sa_family_t,
    Field ''sin_port'' arm_t_uu_be16,
    Field ''sin_addr'' arm_struct_in_addr,
    Field ''__pad'' (Array (Scalar TUChar) 8)]"

lemma arm_struct_sockaddr_in_layout [layout]:
  "size_of abi_arm arm_struct_sockaddr_in = 16" "align_of abi_arm arm_struct_sockaddr_in = 4"
  by (simp_all add: arm_struct_sockaddr_in_def abi_arm_def layout_eval layout [unfolded abi_arm_def])

definition arm_struct_sockaddr_in6 :: ctype where
  \<comment> \<open>\<^verbatim>\<open>struct sockaddr_in6\<close>, lines 28975 to 28981\<close>
  "arm_struct_sockaddr_in6 =
    Struct [Field ''sin6_family'' (Scalar TUShort),
    Field ''sin6_port'' arm_t_uu_be16,
    Field ''sin6_flowinfo'' arm_t_uu_be32,
    Field ''sin6_addr'' arm_struct_in6_addr,
    Field ''sin6_scope_id'' arm_t_uu_u32]"

lemma arm_struct_sockaddr_in6_layout [layout]:
  "size_of abi_arm arm_struct_sockaddr_in6 = 28" "align_of abi_arm arm_struct_sockaddr_in6 = 4"
  by (simp_all add: arm_struct_sockaddr_in6_def abi_arm_def layout_eval layout [unfolded abi_arm_def])

definition arm_struct_cpu_context_save :: ctype where
  \<comment> \<open>\<^verbatim>\<open>struct cpu_context_save\<close>, lines 21381 to 21393\<close>
  "arm_struct_cpu_context_save =
    Struct [Field ''r4'' arm_t_uu_u32,
    Field ''r5'' arm_t_uu_u32,
    Field ''r6'' arm_t_uu_u32,
    Field ''r7'' arm_t_uu_u32,
    Field ''r8'' arm_t_uu_u32,
    Field ''r9'' arm_t_uu_u32,
    Field ''sl'' arm_t_uu_u32,
    Field ''fp'' arm_t_uu_u32,
    Field ''sp'' arm_t_uu_u32,
    Field ''pc'' arm_t_uu_u32,
    Field ''extra'' (Array arm_t_uu_u32 2)]"

lemma arm_struct_cpu_context_save_layout [layout]:
  "size_of abi_arm arm_struct_cpu_context_save = 48" "align_of abi_arm arm_struct_cpu_context_save = 4"
  by (simp_all add: arm_struct_cpu_context_save_def abi_arm_def layout_eval layout [unfolded abi_arm_def])

definition arm_struct_fp_hard_struct :: ctype where
  \<comment> \<open>\<^verbatim>\<open>struct fp_hard_struct\<close>, lines 26023 to 26025\<close>
  "arm_struct_fp_hard_struct =
    Struct [Field ''save'' (Array (Scalar TUInt) 35)]"

lemma arm_struct_fp_hard_struct_layout [layout]:
  "size_of abi_arm arm_struct_fp_hard_struct = 140" "align_of abi_arm arm_struct_fp_hard_struct = 4"
  by (simp_all add: arm_struct_fp_hard_struct_def abi_arm_def layout_eval layout [unfolded abi_arm_def])

definition arm_struct_fp_soft_struct :: ctype where
  \<comment> \<open>\<^verbatim>\<open>struct fp_soft_struct\<close>, lines 26027 to 26029\<close>
  "arm_struct_fp_soft_struct =
    Struct [Field ''save'' (Array (Scalar TUInt) 35)]"

lemma arm_struct_fp_soft_struct_layout [layout]:
  "size_of abi_arm arm_struct_fp_soft_struct = 140" "align_of abi_arm arm_struct_fp_soft_struct = 4"
  by (simp_all add: arm_struct_fp_soft_struct_def abi_arm_def layout_eval layout [unfolded abi_arm_def])

definition arm_union_fp_state :: ctype where
  \<comment> \<open>\<^verbatim>\<open>union fp_state\<close>, lines 26031 to 26034\<close>
  "arm_union_fp_state =
    Union [Field ''hard'' arm_struct_fp_hard_struct,
    Field ''soft'' arm_struct_fp_soft_struct]"

lemma arm_union_fp_state_layout [layout]:
  "size_of abi_arm arm_union_fp_state = 140" "align_of abi_arm arm_union_fp_state = 4"
  by (simp_all add: arm_union_fp_state_def abi_arm_def layout_eval layout [unfolded abi_arm_def])

definition arm_struct_vfp_hard_struct :: ctype where
  \<comment> \<open>\<^verbatim>\<open>struct vfp_hard_struct\<close>, lines 39637 to 39643\<close>
  "arm_struct_vfp_hard_struct =
    Struct [Field ''fpregs'' (Array arm_t_uu_u64 16),
    Field ''fpexc'' arm_t_uu_u32,
    Field ''fpscr'' arm_t_uu_u32,
    Field ''fpinst'' arm_t_uu_u32,
    Field ''fpinst2'' arm_t_uu_u32]"

lemma arm_struct_vfp_hard_struct_layout [layout]:
  "size_of abi_arm arm_struct_vfp_hard_struct = 144" "align_of abi_arm arm_struct_vfp_hard_struct = 8"
  by (simp_all add: arm_struct_vfp_hard_struct_def abi_arm_def layout_eval layout [unfolded abi_arm_def])

definition arm_union_vfp_state :: ctype where
  \<comment> \<open>\<^verbatim>\<open>union vfp_state\<close>, lines 39645 to 39647\<close>
  "arm_union_vfp_state =
    Union [Field ''hard'' arm_struct_vfp_hard_struct]"

lemma arm_union_vfp_state_layout [layout]:
  "size_of abi_arm arm_union_vfp_state = 144" "align_of abi_arm arm_union_vfp_state = 8"
  by (simp_all add: arm_union_vfp_state_def abi_arm_def layout_eval layout [unfolded abi_arm_def])

definition arm_struct_thread_info :: ctype where
  \<comment> \<open>\<^verbatim>\<open>struct thread_info\<close>, lines 39649 to 39661\<close>
  "arm_struct_thread_info =
    Struct [Field ''flags'' (Scalar TULong),
    Field ''preempt_count'' (Scalar TInt),
    Field ''cpu'' arm_t_uu_u32,
    Field ''cpu_domain'' arm_t_uu_u32,
    Field ''cpu_context'' arm_struct_cpu_context_save,
    Field ''abi_syscall'' arm_t_uu_u32,
    Field ''tp_value'' (Array (Scalar TULong) 2),
    Padding (Scalar TLong) 32,
    Field ''fpstate'' arm_union_fp_state,
    Padding (Scalar TLong) 32,
    Field ''vfpstate'' arm_union_vfp_state]"

lemma arm_struct_thread_info_layout [layout]:
  "size_of abi_arm arm_struct_thread_info = 368" "align_of abi_arm arm_struct_thread_info = 8"
  by (simp_all add: arm_struct_thread_info_def abi_arm_def layout_eval layout [unfolded abi_arm_def])

definition arm_struct_load_weight :: ctype where
  \<comment> \<open>\<^verbatim>\<open>struct load_weight\<close>, lines 20367 to 20370\<close>
  "arm_struct_load_weight =
    Struct [Field ''weight'' (Scalar TULong),
    Field ''inv_weight'' arm_t_u32]"

lemma arm_struct_load_weight_layout [layout]:
  "size_of abi_arm arm_struct_load_weight = 8" "align_of abi_arm arm_struct_load_weight = 4"
  by (simp_all add: arm_struct_load_weight_def abi_arm_def layout_eval layout [unfolded abi_arm_def])

definition arm_struct_sched_entity :: ctype where
  \<comment> \<open>\<^verbatim>\<open>struct sched_entity\<close>, lines 38036 to 38056\<close>
  "arm_struct_sched_entity =
    Struct [Field ''load'' arm_struct_load_weight,
    Field ''run_node'' arm_struct_rb_node,
    Padding (Scalar TLong) 32,
    Field ''deadline'' arm_t_u64,
    Field ''min_vruntime'' arm_t_u64,
    Field ''min_slice'' arm_t_u64,
    Field ''group_node'' arm_struct_list_head,
    Field ''on_rq'' (Scalar TUChar),
    Field ''sched_delayed'' (Scalar TUChar),
    Field ''rel_deadline'' (Scalar TUChar),
    Field ''custom_slice'' (Scalar TUChar),
    Padding (Scalar TLong) 32,
    Field ''exec_start'' arm_t_u64,
    Field ''sum_exec_runtime'' arm_t_u64,
    Field ''prev_sum_exec_runtime'' arm_t_u64,
    Field ''vruntime'' arm_t_u64,
    Field ''vlag'' arm_t_s64,
    Field ''slice'' arm_t_u64,
    Field ''nr_migrations'' arm_t_u64]"

lemma arm_struct_sched_entity_layout [layout]:
  "size_of abi_arm arm_struct_sched_entity = 120" "align_of abi_arm arm_struct_sched_entity = 8"
  by (simp_all add: arm_struct_sched_entity_def abi_arm_def layout_eval layout [unfolded abi_arm_def])

definition arm_struct_sched_rt_entity :: ctype where
  \<comment> \<open>\<^verbatim>\<open>struct sched_rt_entity\<close>, lines 38064 to 38072\<close>
  "arm_struct_sched_rt_entity =
    Struct [Field ''run_list'' arm_struct_list_head,
    Field ''timeout'' (Scalar TULong),
    Field ''watchdog_stamp'' (Scalar TULong),
    Field ''time_slice'' (Scalar TUInt),
    Field ''on_rq'' (Scalar TUShort),
    Field ''on_list'' (Scalar TUShort),
    Field ''back'' Pointer]"

lemma arm_struct_sched_rt_entity_layout [layout]:
  "size_of abi_arm arm_struct_sched_rt_entity = 28" "align_of abi_arm arm_struct_sched_rt_entity = 4"
  by (simp_all add: arm_struct_sched_rt_entity_def abi_arm_def layout_eval layout [unfolded abi_arm_def])

definition arm_t_dl_server_has_tasks_f :: ctype where
  \<comment> \<open>\<^verbatim>\<open>typedef dl_server_has_tasks_f\<close>, lines 37396 to 37396\<close>
  "arm_t_dl_server_has_tasks_f =
    Pointer"

lemma arm_t_dl_server_has_tasks_f_layout [layout]:
  "size_of abi_arm arm_t_dl_server_has_tasks_f = 4" "align_of abi_arm arm_t_dl_server_has_tasks_f = 4"
  by (simp_all add: arm_t_dl_server_has_tasks_f_def abi_arm_def layout_eval layout [unfolded abi_arm_def])

definition arm_t_dl_server_pick_f :: ctype where
  \<comment> \<open>\<^verbatim>\<open>typedef dl_server_pick_f\<close>, lines 37398 to 37398\<close>
  "arm_t_dl_server_pick_f =
    Pointer"

lemma arm_t_dl_server_pick_f_layout [layout]:
  "size_of abi_arm arm_t_dl_server_pick_f = 4" "align_of abi_arm arm_t_dl_server_pick_f = 4"
  by (simp_all add: arm_t_dl_server_pick_f_def abi_arm_def layout_eval layout [unfolded abi_arm_def])

definition arm_struct_sched_dl_entity :: ctype where
  \<comment> \<open>\<^verbatim>\<open>struct sched_dl_entity\<close>, lines 37400 to 37426\<close>
  "arm_struct_sched_dl_entity =
    Struct [Field ''rb_node'' arm_struct_rb_node,
    Padding (Scalar TLong) 32,
    Field ''dl_runtime'' arm_t_u64,
    Field ''dl_deadline'' arm_t_u64,
    Field ''dl_period'' arm_t_u64,
    Field ''dl_bw'' arm_t_u64,
    Field ''dl_density'' arm_t_u64,
    Field ''runtime'' arm_t_s64,
    Field ''deadline'' arm_t_u64,
    Field ''flags'' (Scalar TUInt),
    Bits ''dl_throttled'' (Scalar TUInt) 1,
    Bits ''dl_yielded'' (Scalar TUInt) 1,
    Bits ''dl_non_contending'' (Scalar TUInt) 1,
    Bits ''dl_overrun'' (Scalar TUInt) 1,
    Bits ''dl_server'' (Scalar TUInt) 1,
    Bits ''dl_server_active'' (Scalar TUInt) 1,
    Bits ''dl_defer'' (Scalar TUInt) 1,
    Bits ''dl_defer_armed'' (Scalar TUInt) 1,
    Bits ''dl_defer_running'' (Scalar TUInt) 1,
    Field ''dl_timer'' arm_struct_hrtimer,
    Field ''inactive_timer'' arm_struct_hrtimer,
    Field ''rq'' Pointer,
    Field ''server_has_tasks'' arm_t_dl_server_has_tasks_f,
    Field ''server_pick_task'' arm_t_dl_server_pick_f,
    Padding (Scalar TLong) 32]"

lemma arm_struct_sched_dl_entity_layout [layout]:
  "size_of abi_arm arm_struct_sched_dl_entity = 192" "align_of abi_arm arm_struct_sched_dl_entity = 8"
  by (simp_all add: arm_struct_sched_dl_entity_def abi_arm_def layout_eval layout [unfolded abi_arm_def])

definition arm_struct_sched_statistics :: ctype where
  \<comment> \<open>\<^verbatim>\<open>struct sched_statistics\<close>, lines 38074 to 38074\<close>
  "arm_struct_sched_statistics =
    Struct []"

lemma arm_struct_sched_statistics_layout [layout]:
  "size_of abi_arm arm_struct_sched_statistics = 0" "align_of abi_arm arm_struct_sched_statistics = 1"
  by (simp_all add: arm_struct_sched_statistics_def abi_arm_def layout_eval layout [unfolded abi_arm_def])

definition arm_struct_cpumask :: ctype where
  \<comment> \<open>\<^verbatim>\<open>struct cpumask\<close>, lines 12418 to 12420\<close>
  "arm_struct_cpumask =
    Struct [Field ''bits'' (Array (Scalar TULong) 1)]"

lemma arm_struct_cpumask_layout [layout]:
  "size_of abi_arm arm_struct_cpumask = 4" "align_of abi_arm arm_struct_cpumask = 4"
  by (simp_all add: arm_struct_cpumask_def abi_arm_def layout_eval layout [unfolded abi_arm_def])

definition arm_t_cpumask_t :: ctype where
  \<comment> \<open>\<^verbatim>\<open>typedef cpumask_t\<close>, lines 12422 to 12422\<close>
  "arm_t_cpumask_t =
    arm_struct_cpumask"

lemma arm_t_cpumask_t_layout [layout]:
  "size_of abi_arm arm_t_cpumask_t = 4" "align_of abi_arm arm_t_cpumask_t = 4"
  by (simp_all add: arm_t_cpumask_t_def abi_arm_def layout_eval layout [unfolded abi_arm_def])

definition arm_union_rcu_special :: ctype where
  \<comment> \<open>\<^verbatim>\<open>union rcu_special\<close>, lines 36838 to 36846\<close>
  "arm_union_rcu_special =
    Union [Field ''b'' (Struct [Field ''blocked'' arm_t_u8,
      Field ''need_qs'' arm_t_u8,
      Field ''exp_hint'' arm_t_u8,
      Field ''need_mb'' arm_t_u8]),
    Field ''s'' arm_t_u32]"

lemma arm_union_rcu_special_layout [layout]:
  "size_of abi_arm arm_union_rcu_special = 4" "align_of abi_arm arm_union_rcu_special = 4"
  by (simp_all add: arm_union_rcu_special_def abi_arm_def layout_eval layout [unfolded abi_arm_def])

definition arm_struct_sched_info :: ctype where
  \<comment> \<open>\<^verbatim>\<open>struct sched_info\<close>, lines 38058 to 38058\<close>
  "arm_struct_sched_info =
    Struct []"

lemma arm_struct_sched_info_layout [layout]:
  "size_of abi_arm arm_struct_sched_info = 0" "align_of abi_arm arm_struct_sched_info = 1"
  by (simp_all add: arm_struct_sched_info_def abi_arm_def layout_eval layout [unfolded abi_arm_def])

definition arm_t_uu_kernel_clockid_t :: ctype where
  \<comment> \<open>\<^verbatim>\<open>typedef __kernel_clockid_t\<close>, lines 10535 to 10535\<close>
  "arm_t_uu_kernel_clockid_t =
    Scalar TInt"

lemma arm_t_uu_kernel_clockid_t_layout [layout]:
  "size_of abi_arm arm_t_uu_kernel_clockid_t = 4" "align_of abi_arm arm_t_uu_kernel_clockid_t = 4"
  by (simp_all add: arm_t_uu_kernel_clockid_t_def abi_arm_def layout_eval layout [unfolded abi_arm_def])

definition arm_t_clockid_t :: ctype where
  \<comment> \<open>\<^verbatim>\<open>typedef clockid_t\<close>, lines 10553 to 10553\<close>
  "arm_t_clockid_t =
    arm_t_uu_kernel_clockid_t"

lemma arm_t_clockid_t_layout [layout]:
  "size_of abi_arm arm_t_clockid_t = 4" "align_of abi_arm arm_t_clockid_t = 4"
  by (simp_all add: arm_t_clockid_t_def abi_arm_def layout_eval layout [unfolded abi_arm_def])

definition arm_enum_timespec_type :: ctype where
  \<comment> \<open>\<^verbatim>\<open>enum timespec_type\<close>, lines 9828 to 9832\<close>
  "arm_enum_timespec_type =
    Enum [(''TT_NONE'', 0), (''TT_NATIVE'', 1), (''TT_COMPAT'', 2)]"

lemma arm_enum_timespec_type_layout [layout]:
  "size_of abi_arm arm_enum_timespec_type = 4" "align_of abi_arm arm_enum_timespec_type = 4"
  by (simp_all add: arm_enum_timespec_type_def abi_arm_def layout_eval layout [unfolded abi_arm_def])

definition arm_struct_restart_block :: ctype where
  \<comment> \<open>\<^verbatim>\<open>struct restart_block\<close>, lines 37145 to 37176\<close>
  "arm_struct_restart_block =
    Struct [Field ''arch_data'' (Scalar TULong),
    Field ''fn'' Pointer,
    Anonymous (Union [Field ''futex'' (Struct [Field ''uaddr'' Pointer,
        Field ''val'' arm_t_u32,
        Field ''flags'' arm_t_u32,
        Field ''bitset'' arm_t_u32,
        Field ''time'' arm_t_u64,
        Field ''uaddr2'' Pointer,
        Padding (Scalar TLong) 32]),
      Field ''nanosleep'' (Struct [Field ''clockid'' arm_t_clockid_t,
        Field ''type'' arm_enum_timespec_type,
        Anonymous (Union [Field ''rmtp'' Pointer,
          Field ''compat_rmtp'' Pointer]),
        Padding (Scalar TLong) 32,
        Field ''expires'' arm_t_u64]),
      Field ''poll'' (Struct [Field ''ufds'' Pointer,
        Field ''nfds'' (Scalar TInt),
        Field ''has_timeout'' (Scalar TInt),
        Field ''tv_sec'' (Scalar TULong),
        Field ''tv_nsec'' (Scalar TULong)])])]"

lemma arm_struct_restart_block_layout [layout]:
  "size_of abi_arm arm_struct_restart_block = 40" "align_of abi_arm arm_struct_restart_block = 8"
  by (simp_all add: arm_struct_restart_block_def abi_arm_def layout_eval layout [unfolded abi_arm_def])

definition arm_t_uu_kernel_pid_t :: ctype where
  \<comment> \<open>\<^verbatim>\<open>typedef __kernel_pid_t\<close>, lines 10539 to 10539\<close>
  "arm_t_uu_kernel_pid_t =
    Scalar TInt"

lemma arm_t_uu_kernel_pid_t_layout [layout]:
  "size_of abi_arm arm_t_uu_kernel_pid_t = 4" "align_of abi_arm arm_t_uu_kernel_pid_t = 4"
  by (simp_all add: arm_t_uu_kernel_pid_t_def abi_arm_def layout_eval layout [unfolded abi_arm_def])

definition arm_t_pid_t :: ctype where
  \<comment> \<open>\<^verbatim>\<open>typedef pid_t\<close>, lines 10571 to 10571\<close>
  "arm_t_pid_t =
    arm_t_uu_kernel_pid_t"

lemma arm_t_pid_t_layout [layout]:
  "size_of abi_arm arm_t_pid_t = 4" "align_of abi_arm arm_t_pid_t = 4"
  by (simp_all add: arm_t_pid_t_def abi_arm_def layout_eval layout [unfolded abi_arm_def])

definition arm_t_raw_spinlock_t :: ctype where
  \<comment> \<open>\<^verbatim>\<open>typedef raw_spinlock_t\<close>, lines 10916 to 10916\<close>
  "arm_t_raw_spinlock_t =
    arm_struct_raw_spinlock"

lemma arm_t_raw_spinlock_t_layout [layout]:
  "size_of abi_arm arm_t_raw_spinlock_t = 0" "align_of abi_arm arm_t_raw_spinlock_t = 1"
  by (simp_all add: arm_t_raw_spinlock_t_def abi_arm_def layout_eval layout [unfolded abi_arm_def])

definition arm_struct_prev_cputime :: ctype where
  \<comment> \<open>\<^verbatim>\<open>struct prev_cputime\<close>, lines 36106 to 36110\<close>
  "arm_struct_prev_cputime =
    Struct [Field ''utime'' arm_t_u64,
    Field ''stime'' arm_t_u64,
    Field ''lock'' arm_t_raw_spinlock_t]"

lemma arm_struct_prev_cputime_layout [layout]:
  "size_of abi_arm arm_struct_prev_cputime = 16" "align_of abi_arm arm_struct_prev_cputime = 8"
  by (simp_all add: arm_struct_prev_cputime_def abi_arm_def layout_eval layout [unfolded abi_arm_def])

definition arm_struct_posix_cputimers :: ctype where
  \<comment> \<open>\<^verbatim>\<open>struct posix_cputimers\<close>, lines 36016 to 36016\<close>
  "arm_struct_posix_cputimers =
    Struct []"

lemma arm_struct_posix_cputimers_layout [layout]:
  "size_of abi_arm arm_struct_posix_cputimers = 0" "align_of abi_arm arm_struct_posix_cputimers = 1"
  by (simp_all add: arm_struct_posix_cputimers_def abi_arm_def layout_eval layout [unfolded abi_arm_def])

definition arm_t_sigset_t :: ctype where
  \<comment> \<open>\<^verbatim>\<open>typedef sigset_t\<close>, lines 11161 to 11163\<close>
  "arm_t_sigset_t =
    Struct [Field ''sig'' (Array (Scalar TULong) 2)]"

lemma arm_t_sigset_t_layout [layout]:
  "size_of abi_arm arm_t_sigset_t = 8" "align_of abi_arm arm_t_sigset_t = 4"
  by (simp_all add: arm_t_sigset_t_def abi_arm_def layout_eval layout [unfolded abi_arm_def])

definition arm_struct_sigpending :: ctype where
  \<comment> \<open>\<^verbatim>\<open>struct sigpending\<close>, lines 38402 to 38405\<close>
  "arm_struct_sigpending =
    Struct [Field ''list'' arm_struct_list_head,
    Field ''signal'' arm_t_sigset_t]"

lemma arm_struct_sigpending_layout [layout]:
  "size_of abi_arm arm_struct_sigpending = 16" "align_of abi_arm arm_struct_sigpending = 4"
  by (simp_all add: arm_struct_sigpending_def abi_arm_def layout_eval layout [unfolded abi_arm_def])

definition arm_struct_seccomp :: ctype where
  \<comment> \<open>\<^verbatim>\<open>struct seccomp\<close>, lines 38137 to 38137\<close>
  "arm_struct_seccomp =
    Struct []"

lemma arm_struct_seccomp_layout [layout]:
  "size_of abi_arm arm_struct_seccomp = 0" "align_of abi_arm arm_struct_seccomp = 1"
  by (simp_all add: arm_struct_seccomp_def abi_arm_def layout_eval layout [unfolded abi_arm_def])

definition arm_struct_syscall_user_dispatch :: ctype where
  \<comment> \<open>\<^verbatim>\<open>struct syscall_user_dispatch\<close>, lines 39463 to 39463\<close>
  "arm_struct_syscall_user_dispatch =
    Struct []"

lemma arm_struct_syscall_user_dispatch_layout [layout]:
  "size_of abi_arm arm_struct_syscall_user_dispatch = 0" "align_of abi_arm arm_struct_syscall_user_dispatch = 1"
  by (simp_all add: arm_struct_syscall_user_dispatch_def abi_arm_def layout_eval layout [unfolded abi_arm_def])

definition arm_struct_wake_q_node :: ctype where
  \<comment> \<open>\<^verbatim>\<open>struct wake_q_node\<close>, lines 39663 to 39665\<close>
  "arm_struct_wake_q_node =
    Struct [Field ''next'' Pointer]"

lemma arm_struct_wake_q_node_layout [layout]:
  "size_of abi_arm arm_struct_wake_q_node = 4" "align_of abi_arm arm_struct_wake_q_node = 4"
  by (simp_all add: arm_struct_wake_q_node_def abi_arm_def layout_eval layout [unfolded abi_arm_def])

definition arm_struct_task_io_accounting :: ctype where
  \<comment> \<open>\<^verbatim>\<open>struct task_io_accounting\<close>, lines 38407 to 38407\<close>
  "arm_struct_task_io_accounting =
    Struct []"

lemma arm_struct_task_io_accounting_layout [layout]:
  "size_of abi_arm arm_struct_task_io_accounting = 0" "align_of abi_arm arm_struct_task_io_accounting = 1"
  by (simp_all add: arm_struct_task_io_accounting_def abi_arm_def layout_eval layout [unfolded abi_arm_def])

definition arm_t_atomic_long_t :: ctype where
  \<comment> \<open>\<^verbatim>\<open>typedef atomic_long_t\<close>, lines 10869 to 10869\<close>
  "arm_t_atomic_long_t =
    arm_t_atomic_t"

lemma arm_t_atomic_long_t_layout [layout]:
  "size_of abi_arm arm_t_atomic_long_t = 4" "align_of abi_arm arm_t_atomic_long_t = 4"
  by (simp_all add: arm_t_atomic_long_t_def abi_arm_def layout_eval layout [unfolded abi_arm_def])

definition arm_struct_mutex :: ctype where
  \<comment> \<open>\<^verbatim>\<open>struct mutex\<close>, lines 11973 to 11977\<close>
  "arm_struct_mutex =
    Struct [Field ''owner'' arm_t_atomic_long_t,
    Field ''wait_lock'' arm_t_raw_spinlock_t,
    Field ''wait_list'' arm_struct_list_head]"

lemma arm_struct_mutex_layout [layout]:
  "size_of abi_arm arm_struct_mutex = 12" "align_of abi_arm arm_struct_mutex = 4"
  by (simp_all add: arm_struct_mutex_def abi_arm_def layout_eval layout [unfolded abi_arm_def])

definition arm_struct_tlbflush_unmap_batch :: ctype where
  \<comment> \<open>\<^verbatim>\<open>struct tlbflush_unmap_batch\<close>, lines 39667 to 39667\<close>
  "arm_struct_tlbflush_unmap_batch =
    Struct []"

lemma arm_struct_tlbflush_unmap_batch_layout [layout]:
  "size_of abi_arm arm_struct_tlbflush_unmap_batch = 0" "align_of abi_arm arm_struct_tlbflush_unmap_batch = 1"
  by (simp_all add: arm_struct_tlbflush_unmap_batch_def abi_arm_def layout_eval layout [unfolded abi_arm_def])

definition arm_struct_kmap_ctrl :: ctype where
  \<comment> \<open>\<^verbatim>\<open>struct kmap_ctrl\<close>, lines 30246 to 30246\<close>
  "arm_struct_kmap_ctrl =
    Struct []"

lemma arm_struct_kmap_ctrl_layout [layout]:
  "size_of abi_arm arm_struct_kmap_ctrl = 0" "align_of abi_arm arm_struct_kmap_ctrl = 1"
  by (simp_all add: arm_struct_kmap_ctrl_def abi_arm_def layout_eval layout [unfolded abi_arm_def])

definition arm_struct_llist_head :: ctype where
  \<comment> \<open>\<^verbatim>\<open>struct llist_head\<close>, lines 15484 to 15486\<close>
  "arm_struct_llist_head =
    Struct [Field ''first'' Pointer]"

lemma arm_struct_llist_head_layout [layout]:
  "size_of abi_arm arm_struct_llist_head = 4" "align_of abi_arm arm_struct_llist_head = 4"
  by (simp_all add: arm_struct_llist_head_def abi_arm_def layout_eval layout [unfolded abi_arm_def])

definition arm_struct_debug_info :: ctype where
  \<comment> \<open>\<^verbatim>\<open>struct debug_info\<close>, lines 21865 to 21867\<close>
  "arm_struct_debug_info =
    Struct [Field ''hbp'' (Array Pointer 32)]"

lemma arm_struct_debug_info_layout [layout]:
  "size_of abi_arm arm_struct_debug_info = 128" "align_of abi_arm arm_struct_debug_info = 4"
  by (simp_all add: arm_struct_debug_info_def abi_arm_def layout_eval layout [unfolded abi_arm_def])

definition arm_struct_thread_struct :: ctype where
  \<comment> \<open>\<^verbatim>\<open>struct thread_struct\<close>, lines 39669 to 39674\<close>
  "arm_struct_thread_struct =
    Struct [Field ''address'' (Scalar TULong),
    Field ''trap_no'' (Scalar TULong),
    Field ''error_code'' (Scalar TULong),
    Field ''debug'' arm_struct_debug_info]"

lemma arm_struct_thread_struct_layout [layout]:
  "size_of abi_arm arm_struct_thread_struct = 140" "align_of abi_arm arm_struct_thread_struct = 4"
  by (simp_all add: arm_struct_thread_struct_def abi_arm_def layout_eval layout [unfolded abi_arm_def])

definition arm_struct_task_struct :: ctype where
  \<comment> \<open>\<^verbatim>\<open>struct task_struct\<close>, lines 39678 to 39832\<close>
  "arm_struct_task_struct =
    Struct [Field ''thread_info'' arm_struct_thread_info,
    Field ''__state'' (Scalar TUInt),
    Field ''saved_state'' (Scalar TUInt),
    Field ''stack'' Pointer,
    Field ''usage'' arm_t_refcount_t,
    Field ''flags'' (Scalar TUInt),
    Field ''ptrace'' (Scalar TUInt),
    Field ''on_rq'' (Scalar TInt),
    Field ''prio'' (Scalar TInt),
    Field ''static_prio'' (Scalar TInt),
    Field ''normal_prio'' (Scalar TInt),
    Field ''rt_priority'' (Scalar TUInt),
    Padding (Scalar TLong) 32,
    Field ''se'' arm_struct_sched_entity,
    Field ''rt'' arm_struct_sched_rt_entity,
    Padding (Scalar TLong) 32,
    Field ''dl'' arm_struct_sched_dl_entity,
    Field ''dl_server'' Pointer,
    Field ''sched_class'' Pointer,
    Field ''stats'' arm_struct_sched_statistics,
    Field ''policy'' (Scalar TUInt),
    Field ''max_allowed_capacity'' (Scalar TULong),
    Field ''nr_cpus_allowed'' (Scalar TInt),
    Field ''cpus_ptr'' Pointer,
    Field ''user_cpus_ptr'' Pointer,
    Field ''cpus_mask'' arm_t_cpumask_t,
    Field ''migration_pending'' Pointer,
    Field ''migration_flags'' (Scalar TUShort),
    Field ''trc_reader_nesting'' (Scalar TInt),
    Field ''trc_ipi_to_cpu'' (Scalar TInt),
    Field ''trc_reader_special'' arm_union_rcu_special,
    Field ''trc_holdout_list'' arm_struct_list_head,
    Field ''trc_blkd_node'' arm_struct_list_head,
    Field ''trc_blkd_cpu'' (Scalar TInt),
    Field ''sched_info'' arm_struct_sched_info,
    Field ''tasks'' arm_struct_list_head,
    Field ''mm'' Pointer,
    Field ''active_mm'' Pointer,
    Field ''faults_disabled_mapping'' Pointer,
    Field ''exit_state'' (Scalar TInt),
    Field ''exit_code'' (Scalar TInt),
    Field ''exit_signal'' (Scalar TInt),
    Field ''pdeath_signal'' (Scalar TInt),
    Field ''jobctl'' (Scalar TULong),
    Field ''personality'' (Scalar TUInt),
    Bits ''sched_reset_on_fork'' (Scalar TUInt) 1,
    Bits ''sched_contributes_to_load'' (Scalar TUInt) 1,
    Bits ''sched_migrated'' (Scalar TUInt) 1,
    Bits ''sched_task_hot'' (Scalar TUInt) 1,
    Padding (Scalar TLong) 28,
    Bits ''sched_remote_wakeup'' (Scalar TUInt) 1,
    Bits ''in_execve'' (Scalar TUInt) 1,
    Bits ''in_iowait'' (Scalar TUInt) 1,
    Field ''atomic_flags'' (Scalar TULong),
    Field ''restart_block'' arm_struct_restart_block,
    Field ''pid'' arm_t_pid_t,
    Field ''tgid'' arm_t_pid_t,
    Field ''real_parent'' Pointer,
    Field ''parent'' Pointer,
    Field ''children'' arm_struct_list_head,
    Field ''sibling'' arm_struct_list_head,
    Field ''group_leader'' Pointer,
    Field ''ptraced'' arm_struct_list_head,
    Field ''ptrace_entry'' arm_struct_list_head,
    Field ''thread_pid'' Pointer,
    Field ''pid_links'' (Array arm_struct_hlist_node 4),
    Field ''thread_node'' arm_struct_list_head,
    Field ''vfork_done'' Pointer,
    Field ''set_child_tid'' Pointer,
    Field ''clear_child_tid'' Pointer,
    Field ''worker_private'' Pointer,
    Field ''utime'' arm_t_u64,
    Field ''stime'' arm_t_u64,
    Field ''gtime'' arm_t_u64,
    Field ''prev_cputime'' arm_struct_prev_cputime,
    Field ''nvcsw'' (Scalar TULong),
    Field ''nivcsw'' (Scalar TULong),
    Field ''start_time'' arm_t_u64,
    Field ''start_boottime'' arm_t_u64,
    Field ''min_flt'' (Scalar TULong),
    Field ''maj_flt'' (Scalar TULong),
    Field ''posix_cputimers'' arm_struct_posix_cputimers,
    Field ''ptracer_cred'' Pointer,
    Field ''real_cred'' Pointer,
    Field ''cred'' Pointer,
    Field ''comm'' (Array (Scalar TChar) 16),
    Field ''nameidata'' Pointer,
    Field ''fs'' Pointer,
    Field ''files'' Pointer,
    Field ''nsproxy'' Pointer,
    Field ''signal'' Pointer,
    Field ''sighand'' Pointer,
    Field ''blocked'' arm_t_sigset_t,
    Field ''real_blocked'' arm_t_sigset_t,
    Field ''saved_sigmask'' arm_t_sigset_t,
    Field ''pending'' arm_struct_sigpending,
    Field ''sas_ss_sp'' (Scalar TULong),
    Field ''sas_ss_size'' arm_t_size_t,
    Field ''sas_ss_flags'' (Scalar TUInt),
    Field ''task_works'' Pointer,
    Field ''seccomp'' arm_struct_seccomp,
    Field ''syscall_dispatch'' arm_struct_syscall_user_dispatch,
    Padding (Scalar TLong) 32,
    Field ''parent_exec_id'' arm_t_u64,
    Field ''self_exec_id'' arm_t_u64,
    Field ''alloc_lock'' arm_t_spinlock_t,
    Field ''pi_lock'' arm_t_raw_spinlock_t,
    Field ''wake_q'' arm_struct_wake_q_node,
    Field ''journal_info'' Pointer,
    Field ''bio_list'' Pointer,
    Field ''plug'' Pointer,
    Field ''reclaim_state'' Pointer,
    Field ''io_context'' Pointer,
    Field ''capture_control'' Pointer,
    Field ''ptrace_message'' (Scalar TULong),
    Field ''last_siginfo'' Pointer,
    Field ''ioac'' arm_struct_task_io_accounting,
    Field ''perf_recursion'' (Array arm_t_u8 4),
    Field ''perf_event_ctxp'' Pointer,
    Field ''perf_event_mutex'' arm_struct_mutex,
    Field ''perf_event_list'' arm_struct_list_head,
    Field ''tlb_ubc'' arm_struct_tlbflush_unmap_batch,
    Field ''splice_pipe'' Pointer,
    Field ''task_frag'' arm_struct_page_frag,
    Field ''nr_dirtied'' (Scalar TInt),
    Field ''nr_dirtied_pause'' (Scalar TInt),
    Field ''dirty_paused_when'' (Scalar TULong),
    Field ''timer_slack_ns'' arm_t_u64,
    Field ''default_timer_slack_ns'' arm_t_u64,
    Field ''curr_ret_stack'' (Scalar TInt),
    Field ''curr_ret_depth'' (Scalar TInt),
    Field ''ret_stack'' Pointer,
    Padding (Scalar TLong) 32,
    Field ''ftrace_timestamp'' (Scalar TULongLong),
    Field ''ftrace_sleeptime'' (Scalar TULongLong),
    Field ''trace_overrun'' arm_t_atomic_t,
    Field ''tracing_graph_pause'' arm_t_atomic_t,
    Field ''trace_recursion'' (Scalar TULong),
    Field ''utask'' Pointer,
    Field ''kmap_ctrl'' arm_struct_kmap_ctrl,
    Field ''rcu'' arm_struct_callback_head,
    Field ''rcu_users'' arm_t_refcount_t,
    Field ''pagefault_disabled'' (Scalar TInt),
    Field ''oom_reaper_list'' Pointer,
    Field ''oom_reaper_timer'' arm_struct_timer_list,
    Field ''stack_vm_area'' Pointer,
    Field ''stack_refcount'' arm_t_refcount_t,
    Field ''bpf_storage'' Pointer,
    Field ''bpf_ctx'' Pointer,
    Field ''bpf_net_context'' Pointer,
    Field ''kretprobe_instances'' arm_struct_llist_head,
    Field ''thread'' arm_struct_thread_struct,
    Padding (Scalar TLong) 32]"

lemma arm_struct_task_struct_layout [layout]:
  "size_of abi_arm arm_struct_task_struct = 1600" "align_of abi_arm arm_struct_task_struct = 8"
  by (simp_all add: arm_struct_task_struct_def abi_arm_def layout_eval layout [unfolded abi_arm_def])

end
