(* ===== verification/Kernels.thy ===== *)
theory Kernels
  imports Bpf_Core Vmlinux_x86 Vmlinux_aarch64 Vmlinux_arm
begin

text \<open>
  The three kernels whose types the repository bundles, as targets of the tracker's CO-RE
  relocations: the offsets the loader patches in, that every read stays inside the object it
  reads from, that the fields read from one socket do not overlap, and that every socket type
  the probes receive starts with the common header.
\<close>

definition kernel_x86 :: kernel_types where
  "kernel_x86 = \<lparr>kt_abi = abi_x86, kt_sock = x86_struct_sock, kt_msghdr = x86_struct_msghdr,
     kt_sockaddr_in = x86_struct_sockaddr_in, kt_sockaddr_in6 = x86_struct_sockaddr_in6,
     kt_task = x86_struct_task_struct\<rparr>"

definition kernel_aarch64 :: kernel_types where
  "kernel_aarch64 = \<lparr>kt_abi = abi_aarch64, kt_sock = aarch64_struct_sock,
     kt_msghdr = aarch64_struct_msghdr, kt_sockaddr_in = aarch64_struct_sockaddr_in,
     kt_sockaddr_in6 = aarch64_struct_sockaddr_in6, kt_task = aarch64_struct_task_struct\<rparr>"

definition kernel_arm :: kernel_types where
  "kernel_arm = \<lparr>kt_abi = abi_arm, kt_sock = arm_struct_sock, kt_msghdr = arm_struct_msghdr,
     kt_sockaddr_in = arm_struct_sockaddr_in, kt_sockaddr_in6 = arm_struct_sockaddr_in6,
     kt_task = arm_struct_task_struct\<rparr>"

definition bundled :: "kernel_types list" where
  "bundled = [kernel_x86, kernel_aarch64, kernel_arm]"

section \<open>Offsets\<close>

text \<open>
  The head of \<open>struct sock_common\<close> is the same everywhere; the IPv6 addresses come after
  pointers and move with their size.
\<close>

definition offsets_64 :: "nat \<Rightarrow> nat \<Rightarrow> core_offsets" where
  "offsets_64 leader cm =
     \<lparr>off_num = 14, off_dport = 12, off_rcv_saddr = 4, off_daddr = 0,
      off_v6_rcv_saddr = 64, off_v6_daddr = 48, off_family = 16, off_msg_name = 0,
      off_sin_addr = 4, off_sin_port = 2, off_sin6_addr = 8, off_sin6_port = 2,
      off_group_leader = leader, off_comm = cm\<rparr>"

definition offsets_x86 :: core_offsets where "offsets_x86 = offsets_64 888 1160"
definition offsets_aarch64 :: core_offsets where "offsets_aarch64 = offsets_64 1136 1416"
definition offsets_arm :: core_offsets where
  "offsets_arm = (offsets_64 960 1124)\<lparr>off_v6_rcv_saddr := 52, off_v6_daddr := 36\<rparr>"

lemmas x86_objects = x86_struct_sock_def x86_struct_sock_common_def x86_struct_msghdr_def
  x86_struct_sockaddr_in_def x86_struct_sockaddr_in6_def x86_struct_in_addr_def
lemmas aarch64_objects = aarch64_struct_sock_def aarch64_struct_sock_common_def
  aarch64_struct_msghdr_def aarch64_struct_sockaddr_in_def aarch64_struct_sockaddr_in6_def
  aarch64_struct_in_addr_def
lemmas arm_objects = arm_struct_sock_def arm_struct_sock_common_def arm_struct_msghdr_def
  arm_struct_sockaddr_in_def arm_struct_sockaddr_in6_def arm_struct_in_addr_def

lemmas x86_layout = layout_eval abi_x86_def layout [unfolded abi_x86_def]
lemmas aarch64_layout = layout_eval abi_aarch64_def layout [unfolded abi_aarch64_def]
lemmas arm_layout = layout_eval abi_arm_def layout [unfolded abi_arm_def]

text \<open>The objects the programs read, field by field, with the type of the field.\<close>

lemma x86_sock_fields:
  "resolve abi_x86 x86_struct_sock [''__sk_common'', ''skc_num''] = Some (14, x86_t_uu_u16)"
  "resolve abi_x86 x86_struct_sock [''__sk_common'', ''skc_dport''] = Some (12, x86_t_uu_be16)"
  "resolve abi_x86 x86_struct_sock [''__sk_common'', ''skc_rcv_saddr''] = Some (4, x86_t_uu_be32)"
  "resolve abi_x86 x86_struct_sock [''__sk_common'', ''skc_daddr''] = Some (0, x86_t_uu_be32)"
  "resolve abi_x86 x86_struct_sock [''__sk_common'', ''skc_v6_rcv_saddr''] =
     Some (64, x86_struct_in6_addr)"
  "resolve abi_x86 x86_struct_sock [''__sk_common'', ''skc_v6_daddr''] =
     Some (48, x86_struct_in6_addr)"
  "resolve abi_x86 x86_struct_sock [''__sk_common'', ''skc_family''] = Some (16, Scalar TUShort)"
  by (simp_all add: x86_objects x86_layout)

lemma aarch64_sock_fields:
  "resolve abi_aarch64 aarch64_struct_sock [''__sk_common'', ''skc_num''] = Some (14, aarch64_t_uu_u16)"
  "resolve abi_aarch64 aarch64_struct_sock [''__sk_common'', ''skc_dport''] = Some (12, aarch64_t_uu_be16)"
  "resolve abi_aarch64 aarch64_struct_sock [''__sk_common'', ''skc_rcv_saddr''] = Some (4, aarch64_t_uu_be32)"
  "resolve abi_aarch64 aarch64_struct_sock [''__sk_common'', ''skc_daddr''] = Some (0, aarch64_t_uu_be32)"
  "resolve abi_aarch64 aarch64_struct_sock [''__sk_common'', ''skc_v6_rcv_saddr''] =
     Some (64, aarch64_struct_in6_addr)"
  "resolve abi_aarch64 aarch64_struct_sock [''__sk_common'', ''skc_v6_daddr''] =
     Some (48, aarch64_struct_in6_addr)"
  "resolve abi_aarch64 aarch64_struct_sock [''__sk_common'', ''skc_family''] = Some (16, Scalar TUShort)"
  by (simp_all add: aarch64_objects aarch64_layout)

lemma arm_sock_fields:
  "resolve abi_arm arm_struct_sock [''__sk_common'', ''skc_num''] = Some (14, arm_t_uu_u16)"
  "resolve abi_arm arm_struct_sock [''__sk_common'', ''skc_dport''] = Some (12, arm_t_uu_be16)"
  "resolve abi_arm arm_struct_sock [''__sk_common'', ''skc_rcv_saddr''] = Some (4, arm_t_uu_be32)"
  "resolve abi_arm arm_struct_sock [''__sk_common'', ''skc_daddr''] = Some (0, arm_t_uu_be32)"
  "resolve abi_arm arm_struct_sock [''__sk_common'', ''skc_v6_rcv_saddr''] =
     Some (52, arm_struct_in6_addr)"
  "resolve abi_arm arm_struct_sock [''__sk_common'', ''skc_v6_daddr''] =
     Some (36, arm_struct_in6_addr)"
  "resolve abi_arm arm_struct_sock [''__sk_common'', ''skc_family''] = Some (16, Scalar TUShort)"
  by (simp_all add: arm_objects arm_layout)

lemma x86_other_fields:
  "resolve abi_x86 x86_struct_msghdr [''msg_name''] = Some (0, Pointer)"
  "resolve abi_x86 x86_struct_sockaddr_in [''sin_addr'', ''s_addr''] = Some (4, x86_t_uu_be32)"
  "resolve abi_x86 x86_struct_sockaddr_in [''sin_port''] = Some (2, x86_t_uu_be16)"
  "resolve abi_x86 x86_struct_sockaddr_in6 [''sin6_addr''] = Some (8, x86_struct_in6_addr)"
  "resolve abi_x86 x86_struct_sockaddr_in6 [''sin6_port''] = Some (2, x86_t_uu_be16)"
  "resolve abi_x86 x86_struct_task_struct [''group_leader''] = Some (888, Pointer)"
  "resolve abi_x86 x86_struct_task_struct [''comm''] = Some (1160, Array (Scalar TChar) 16)"
  by (simp_all add: x86_objects x86_struct_task_struct_def x86_layout)

lemma aarch64_other_fields:
  "resolve abi_aarch64 aarch64_struct_msghdr [''msg_name''] = Some (0, Pointer)"
  "resolve abi_aarch64 aarch64_struct_sockaddr_in [''sin_addr'', ''s_addr''] = Some (4, aarch64_t_uu_be32)"
  "resolve abi_aarch64 aarch64_struct_sockaddr_in [''sin_port''] = Some (2, aarch64_t_uu_be16)"
  "resolve abi_aarch64 aarch64_struct_sockaddr_in6 [''sin6_addr''] = Some (8, aarch64_struct_in6_addr)"
  "resolve abi_aarch64 aarch64_struct_sockaddr_in6 [''sin6_port''] = Some (2, aarch64_t_uu_be16)"
  "resolve abi_aarch64 aarch64_struct_task_struct [''group_leader''] = Some (1136, Pointer)"
  "resolve abi_aarch64 aarch64_struct_task_struct [''comm''] = Some (1416, Array (Scalar TChar) 16)"
  by (simp_all add: aarch64_objects aarch64_struct_task_struct_def aarch64_layout)

lemma arm_other_fields:
  "resolve abi_arm arm_struct_msghdr [''msg_name''] = Some (0, Pointer)"
  "resolve abi_arm arm_struct_sockaddr_in [''sin_addr'', ''s_addr''] = Some (4, arm_t_uu_be32)"
  "resolve abi_arm arm_struct_sockaddr_in [''sin_port''] = Some (2, arm_t_uu_be16)"
  "resolve abi_arm arm_struct_sockaddr_in6 [''sin6_addr''] = Some (8, arm_struct_in6_addr)"
  "resolve abi_arm arm_struct_sockaddr_in6 [''sin6_port''] = Some (2, arm_t_uu_be16)"
  "resolve abi_arm arm_struct_task_struct [''group_leader''] = Some (960, Pointer)"
  "resolve abi_arm arm_struct_task_struct [''comm''] = Some (1124, Array (Scalar TChar) 16)"
  by (simp_all add: arm_objects arm_struct_task_struct_def arm_layout)

lemma relocate_bundled:
  "relocate kernel_x86 = Some offsets_x86"
  "relocate kernel_aarch64 = Some offsets_aarch64"
  "relocate kernel_arm = Some offsets_arm"
  by (simp_all only: relocate_def offset_of_def Let_def kernel_x86_def kernel_aarch64_def
      kernel_arm_def kernel_types.simps x86_sock_fields aarch64_sock_fields arm_sock_fields
      x86_other_fields aarch64_other_fields arm_other_fields option.simps fst_conv prod.case
      offsets_x86_def offsets_aarch64_def offsets_arm_def offsets_64_def core_offsets.simps)

section \<open>The reads stay inside the objects\<close>

text \<open>The members of a socket the programs read, with the number of bytes each read asks for.\<close>

definition sock_reads :: "(string \<times> nat) list" where
  "sock_reads = [(''skc_num'', 2), (''skc_dport'', 2), (''skc_rcv_saddr'', 4), (''skc_daddr'', 4),
     (''skc_v6_rcv_saddr'', 16), (''skc_v6_daddr'', 16), (''skc_family'', 2)]"

text \<open>The offsets at which \<open>n\<close> bytes of member \<open>f\<close> are read from a socket of kernel \<open>K\<close>.\<close>

definition sock_read_range :: "kernel_types \<Rightarrow> string \<times> nat \<Rightarrow> nat \<times> nat" where
  "sock_read_range K r = (case r of (f, n) \<Rightarrow>
     (case offset_of (kt_abi K) (kt_sock K) [''__sk_common'', f] of
        Some k \<Rightarrow> (k, n) | None \<Rightarrow> (size_of (kt_abi K) (kt_sock K), n)))"

definition reads_whole_field :: "kernel_types \<Rightarrow> string \<times> nat \<Rightarrow> bool" where
  "reads_whole_field K r = (case r of (f, n) \<Rightarrow>
     (case resolve (kt_abi K) (kt_sock K) [''__sk_common'', f] of
        Some (k, t) \<Rightarrow> size_of (kt_abi K) t = n | None \<Rightarrow> False))"

lemma kernel_sel [simp]:
  "kt_abi kernel_x86 = abi_x86" "kt_sock kernel_x86 = x86_struct_sock"
  "kt_abi kernel_aarch64 = abi_aarch64" "kt_sock kernel_aarch64 = aarch64_struct_sock"
  "kt_abi kernel_arm = abi_arm" "kt_sock kernel_arm = arm_struct_sock"
  by (simp_all add: kernel_x86_def kernel_aarch64_def kernel_arm_def)

lemma bundled_cases:
  assumes "K \<in> set bundled"
  obtains "K = kernel_x86" | "K = kernel_aarch64" | "K = kernel_arm"
  using assms by (auto simp: bundled_def)

lemma sock_reads_whole: "K \<in> set bundled \<Longrightarrow> list_all (reads_whole_field K) sock_reads"
  by (erule bundled_cases)
    (simp_all add: sock_reads_def reads_whole_field_def x86_sock_fields aarch64_sock_fields
      arm_sock_fields layout del: resolve.simps)

lemma sock_read_ranges:
  "map (sock_read_range kernel_x86) sock_reads =
     [(14, 2), (12, 2), (4, 4), (0, 4), (64, 16), (48, 16), (16, 2)]"
  "map (sock_read_range kernel_aarch64) sock_reads =
     [(14, 2), (12, 2), (4, 4), (0, 4), (64, 16), (48, 16), (16, 2)]"
  "map (sock_read_range kernel_arm) sock_reads =
     [(14, 2), (12, 2), (4, 4), (0, 4), (52, 16), (36, 16), (16, 2)]"
  by (simp_all add: sock_reads_def sock_read_range_def offset_of_def x86_sock_fields
      aarch64_sock_fields arm_sock_fields del: resolve.simps)

text \<open>
  The reads are whole fields, inside the socket, and no two of them share a byte.
\<close>

definition reads_sound :: "kernel_types \<Rightarrow> bool" where
  "reads_sound K \<longleftrightarrow> list_all (reads_whole_field K) sock_reads \<and>
     list_all (\<lambda>(k, n). k + n \<le> size_of (kt_abi K) (kt_sock K)) (map (sock_read_range K) sock_reads) \<and>
     sorted_wrt apart (map (sock_read_range K) sock_reads)"

lemma reads_sound_bundled: "K \<in> set bundled \<Longrightarrow> reads_sound K"
  by (erule bundled_cases)
    (simp_all add: reads_sound_def sock_reads_whole sock_read_ranges layout apart_def bundled_def)

section \<open>Sockets of every protocol start with the common header\<close>

text \<open>
  The probes are handed a \<open>struct sock *\<close> that points to a larger protocol socket. Embedding
  at offset 0 all the way down is what makes the cast sound.
\<close>

definition tcp6_path :: "string list" where
  "tcp6_path = [''tcp'', ''inet_conn'', ''icsk_inet'', ''sk'']"
definition udp6_path :: "string list" where
  "udp6_path = [''udp'', ''inet'', ''sk'']"
definition raw6_path :: "string list" where
  "raw6_path = [''inet'', ''sk'']"

lemma x86_embeds:
  "resolve abi_x86 x86_struct_tcp6_sock tcp6_path = Some (0, x86_struct_sock)"
  "resolve abi_x86 x86_struct_udp6_sock udp6_path = Some (0, x86_struct_sock)"
  "resolve abi_x86 x86_struct_raw6_sock raw6_path = Some (0, x86_struct_sock)"
  by (simp_all add: tcp6_path_def udp6_path_def raw6_path_def x86_struct_tcp6_sock_def
      x86_struct_tcp_sock_def x86_struct_inet_connection_sock_def x86_struct_inet_sock_def
      x86_struct_udp6_sock_def x86_struct_udp_sock_def x86_struct_raw6_sock_def x86_layout)

lemma aarch64_embeds:
  "resolve abi_aarch64 aarch64_struct_tcp6_sock tcp6_path = Some (0, aarch64_struct_sock)"
  "resolve abi_aarch64 aarch64_struct_udp6_sock udp6_path = Some (0, aarch64_struct_sock)"
  "resolve abi_aarch64 aarch64_struct_raw6_sock raw6_path = Some (0, aarch64_struct_sock)"
  by (simp_all add: tcp6_path_def udp6_path_def raw6_path_def aarch64_struct_tcp6_sock_def
      aarch64_struct_tcp_sock_def aarch64_struct_inet_connection_sock_def
      aarch64_struct_inet_sock_def aarch64_struct_udp6_sock_def aarch64_struct_udp_sock_def
      aarch64_struct_raw6_sock_def aarch64_layout)

lemma arm_embeds:
  "resolve abi_arm arm_struct_tcp6_sock tcp6_path = Some (0, arm_struct_sock)"
  "resolve abi_arm arm_struct_udp6_sock udp6_path = Some (0, arm_struct_sock)"
  "resolve abi_arm arm_struct_raw6_sock raw6_path = Some (0, arm_struct_sock)"
  by (simp_all add: tcp6_path_def udp6_path_def raw6_path_def arm_struct_tcp6_sock_def
      arm_struct_tcp_sock_def arm_struct_inet_connection_sock_def arm_struct_inet_sock_def
      arm_struct_udp6_sock_def arm_struct_udp_sock_def arm_struct_raw6_sock_def arm_layout)

text \<open>A path continues inside the object another path reached.\<close>

lemma resolve_append:
  "resolve A t p = Some (k, u) \<Longrightarrow> resolve A u q = Some (j, v) \<Longrightarrow> resolve A t (p @ q) = Some (k + j, v)"
proof (induction p arbitrary: t k)
  case Nil
  then show ?case by simp
next
  case (Cons f p)
  then obtain i w n where "find_field A t f = Some (i, w)" "resolve A w p = Some (n, u)" "k = i + n"
    by (auto split: option.splits prod.splits)
  with Cons.IH [of w n] Cons.prems(2) show ?case by simp
qed

section \<open>Pointers of a 32-bit kernel\<close>

text \<open>
  A pointer is 8 bytes on the BPF target, so on a 32-bit ARM kernel \<open>BPF_CORE_READ(msg, msg_name)\<close>
  reads the 4-byte pointer together with the member behind it, \<open>msg_namelen\<close>: the value the
  program gets has the length in its upper half. The helpers truncate the addresses they are
  passed, but the test \<open>if (dest)\<close> sees both halves.
\<close>

lemma arm_msg_namelen:
  "resolve abi_arm arm_struct_msghdr [''msg_namelen''] = Some (4, Scalar TInt)"
  "size_of abi_arm Pointer = 4" "size_of abi_bpf Pointer = 8"
  by (simp_all add: arm_objects arm_layout abi_bpf_def)

text \<open>The value such a read gives on a little-endian host: \<open>pair64 namelen name\<close>.\<close>

lemma pointer_read_takes_next_word:
  assumes "host E = Little"
    and "mem_read E (field_addr p off) = wr32 Little name @ wr32 Little len"
  shows "core_read_ptr E p off = pair64 len name"
  using assms by (simp add: core_read_ptr_def mem_read_def rd64_Little_pair)

end
