(* ===== verification/Backends.thy ===== *)
theory Backends
  imports Tracker_Programs
begin

text \<open>
  The two program files as implementations of one thing. A socket operation the kernel
  completes successfully makes different probes fire in the two backends: both address
  families of TCP connect pass through \<open>tcp_connect\<close>, the trampoline backend also hooks
  \<open>tcp_v6_connect\<close>, and the accept hook has two signatures. The socket map ends up the same.
\<close>

section \<open>Operations and the probes they hit\<close>

datatype sock_op =
    Op_tcp_v4_connect u64
  | Op_tcp_v6_connect u64 u64 int
  | Op_accept u64 u64 u64
  | Op_udp_sendmsg u64 u64 u64
  | Op_udp_v6_sendmsg u64 u64 u64
  | Op_ping_v4_sendmsg u64 u64 u64
  | Op_ping_v6_sendmsg u64 u64 u64

text \<open>\<open>legacy\<close>: the running kernel's \<open>inet_csk_accept\<close> has four parameters.\<close>

fun fentry_hits :: "bool \<Rightarrow> sock_op \<Rightarrow> fentry_hit list" where
  "fentry_hits legacy (Op_tcp_v4_connect sk) = [F_tcp_connect sk 0]"
| "fentry_hits legacy (Op_tcp_v6_connect sk a n) = [F_tcp_connect sk 0, F_tcp_v6_connect sk a n 0]"
| "fentry_hits legacy (Op_accept l arg sk) =
     (if legacy then [F_accept_legacy l 0 arg False sk] else [F_accept_proto_arg l arg sk])"
| "fentry_hits legacy (Op_udp_sendmsg sk msg n) = [F_udp_sendmsg sk msg n]"
| "fentry_hits legacy (Op_udp_v6_sendmsg sk msg n) = [F_udp_v6_sendmsg sk msg n]"
| "fentry_hits legacy (Op_ping_v4_sendmsg sk msg n) = [F_ping_v4_sendmsg sk msg n]"
| "fentry_hits legacy (Op_ping_v6_sendmsg sk msg n) = [F_ping_v6_sendmsg sk msg n]"

text \<open>\<open>mk a b r\<close>: registers with arguments \<open>a\<close>, \<open>b\<close> on entry or return value \<open>r\<close> on exit.\<close>

fun kprobe_hits :: "(u64 \<Rightarrow> u64 \<Rightarrow> u64 \<Rightarrow> 'regs) \<Rightarrow> sock_op \<Rightarrow> 'regs kprobe_hit list" where
  "kprobe_hits mk (Op_tcp_v4_connect sk) = [K_tcp_connect (mk sk 0 0)]"
| "kprobe_hits mk (Op_tcp_v6_connect sk a n) = [K_tcp_connect (mk sk 0 0)]"
| "kprobe_hits mk (Op_accept l arg sk) = [K_tcp_accept (mk l arg sk)]"
| "kprobe_hits mk (Op_udp_sendmsg sk msg n) = [K_udp_sendmsg (mk sk msg 0)]"
| "kprobe_hits mk (Op_udp_v6_sendmsg sk msg n) = [K_udp_v6_sendmsg (mk sk msg 0)]"
| "kprobe_hits mk (Op_ping_v4_sendmsg sk msg n) = [K_ping_v4_sendmsg (mk sk msg 0)]"
| "kprobe_hits mk (Op_ping_v6_sendmsg sk msg n) = [K_ping_v6_sendmsg (mk sk msg 0)]"

definition regs_law :: "'regs pt_access \<Rightarrow> (u64 \<Rightarrow> u64 \<Rightarrow> u64 \<Rightarrow> 'regs) \<Rightarrow> bool" where
  "regs_law R mk \<longleftrightarrow>
     (\<forall>a b r. PT_PARM1 R (mk a b r) = a \<and> PT_PARM2 R (mk a b r) = b \<and> PT_RC R (mk a b r) = r)"

text \<open>All probes of one operation fire in the environment of the task that performs it.\<close>

definition spread :: "('o \<Rightarrow> 'h list) \<Rightarrow> (bpf_env \<times> 'o) list \<Rightarrow> (bpf_env \<times> 'h) list" where
  "spread f ops = concat (map (\<lambda>(E, op). map (Pair E) (f op)) ops)"

section \<open>Storing twice is storing once\<close>

lemma store_connection_idem:
  assumes "map_law E"
  shows "snd (store_connection E k (snd (store_connection E k m))) = snd (store_connection E k m)"
  using assms
proof (cases rule: store_connection_cases [of E k m])
  case stored
  from assms show ?thesis
    by (cases rule: store_connection_cases [of E k "m(conn_key_bytes (host E) k \<mapsto> current_value E)"])
      (simp_all add: stored)
qed simp

text \<open>What a TCP hook stores does not depend on the map.\<close>

lemma track_tcp_socket_const: "\<exists>k. \<forall>m. track_tcp_socket E sk m = store_opt E k m"
proof -
  from track_tcp_socket_tracks [of E sk] consider "\<forall>m. track_tcp_socket E sk m = (0, m)"
    | k where "\<forall>m. track_tcp_socket E sk m = store_connection E k m"
    by (auto simp: tracks_def)
  then show ?thesis
  proof cases
    case 1
    then show ?thesis by (intro exI [of _ None]) (simp add: store_opt_def)
  next
    case (2 k)
    then show ?thesis by (intro exI [of _ "Some k"]) (simp add: store_opt_def)
  qed
qed

lemma track_tcp_socket_idem:
  assumes "map_law E"
  shows "snd (track_tcp_socket E sk (snd (track_tcp_socket E sk m))) = snd (track_tcp_socket E sk m)"
proof -
  obtain k where "\<And>m. track_tcp_socket E sk m = store_opt E k m"
    using track_tcp_socket_const by blast
  then show ?thesis
    by (cases k) (simp_all add: store_opt_def store_connection_idem [OF assms])
qed

section \<open>The backends agree\<close>

lemmas program_defs = fentry_program_defs kprobe_program_defs

lemma op_agree:
  assumes "regs_law R mk" "map_law E"
  shows "run_hits fentry_run (map (Pair E) (fentry_hits legacy op)) m =
     run_hits (kprobe_run R) (map (Pair E) (kprobe_hits mk op)) m"
  using assms
  by (cases op) (simp_all add: regs_law_def program_defs Let_def track_tcp_socket_idem)

lemma backends_agree:
  assumes "regs_law R mk" "\<forall>(E, op) \<in> set ops. map_law E"
  shows "run_hits fentry_run (spread (fentry_hits legacy) ops) m =
     run_hits (kprobe_run R) (spread (kprobe_hits mk) ops) m"
  using assms(2)
proof (induction ops arbitrary: m)
  case (Cons p ops)
  obtain E op where "p = (E, op)" by (cases p)
  with Cons op_agree [OF assms(1), of E legacy op m] show ?case
    by (simp add: spread_def run_hits_append)
qed (simp add: spread_def)

end
