(* ===== verification/Sample_Host.thy ===== *)
theory Sample_Host
  imports Backend_Loading Kernels Backends
begin

text \<open>
  A concrete host on which the hypotheses of the theorems hold: helpers that serve a few regions
  of kernel memory, one socket, one message with a destination, and a hash map of the declared
  size. It shows that the documented behaviour the theorems assume can be had, and the
  examples evaluate the programs on it.
\<close>

section \<open>Memory and helpers\<close>

text \<open>A read is served from the region that starts at its address; elsewhere it fails with zeros.\<close>

definition region_read :: "(u64 \<times> byte list) list \<Rightarrow> nat \<Rightarrow> u64 \<Rightarrow> int \<times> byte list" where
  "region_read rs n p = (case map_of rs p of
     Some bs \<Rightarrow> (0, take n (bs @ replicate n 0))
   | None \<Rightarrow> (- 14, replicate n 0))"

definition SK :: u64 where "SK = 4096"
definition MSG :: u64 where "MSG = 8192"
definition DEST :: u64 where "DEST = 12288"
definition TASK :: u64 where "TASK = 16384"
definition LEADER :: u64 where "LEADER = 20480"

lemmas sample_addrs = SK_def MSG_def DEST_def TASK_def LEADER_def

text \<open>\<open>to4\<close>, \<open>to6\<close>: the destination the message names, if any, as the two socket address shapes.\<close>

definition sample_regions ::
  "endian \<Rightarrow> sock_view \<Rightarrow> byte list \<Rightarrow> u16 \<Rightarrow> nat \<Rightarrow> u64 \<Rightarrow> (u64 \<times> byte list) list" where
  "sample_regions e s addr port addr_off name =
     [(4112, wr16 e (sv_family s)), (4110, wr16 e (sv_num s)), (4108, wr16 Big (sv_dport s)),
      (4100, octets4 (sv_rcv_saddr s)), (4096, octets4 (sv_daddr s)),
      (4160, octets6 (sv_v6_rcv_saddr s)), (4144, octets6 (sv_v6_daddr s)),
      (8192, wr64 e name), (DEST + word_of_nat addr_off, addr), (12290, wr16 Big port),
      (17272, wr64 e LEADER)]"

definition sample_env ::
  "endian \<Rightarrow> (u64 \<times> byte list) list \<Rightarrow> byte list \<Rightarrow> bpf_env" where
  "sample_env e rs task_name =
     \<lparr>host = e, offs = offsets_x86, probe_read_kernel = region_read rs,
      probe_read_kernel_str = \<lambda>bs p. (int (length task_name), take (length bs) (task_name @ replicate (length bs) 0)),
      get_current_pid_tgid = pair64 1200 1201, get_current_uid_gid = pair64 100 1000,
      ktime_get_ns = 5000000000, get_current_task = TASK,
      get_current_comm = \<lambda>n. (0, replicate n 0),
      map_update_elem = hash_map_update MAX_ENTRIES\<rparr>"

definition curl_name :: "byte list" where "curl_name = [99, 117, 114, 108, 0]"

definition env4 :: "sock_view \<Rightarrow> (ipv4 \<times> u16) option \<Rightarrow> bpf_env" where
  "env4 s d = sample_env Little
     (case d of
        None \<Rightarrow> sample_regions Little s [] 0 4 0
      | Some (a, p) \<Rightarrow> sample_regions Little s (octets4 a) p 4 DEST) curl_name"

definition env6 :: "sock_view \<Rightarrow> (ipv6 \<times> u16) option \<Rightarrow> bpf_env" where
  "env6 s d = sample_env Little
     (case d of
        None \<Rightarrow> sample_regions Little s [] 0 8 0
      | Some (a, p) \<Rightarrow> sample_regions Little s (octets6 a) p 8 DEST) curl_name"

lemma region_read_length [simp]: "length (snd (region_read rs n p)) = n"
  by (auto simp: region_read_def min_def split: option.split)

lemma sample_env_sel [simp]:
  "host (sample_env e rs nm) = e" "offs (sample_env e rs nm) = offsets_x86"
  "probe_read_kernel (sample_env e rs nm) = region_read rs"
  "map_update_elem (sample_env e rs nm) = hash_map_update MAX_ENTRIES"
  "get_current_pid_tgid (sample_env e rs nm) = pair64 1200 1201"
  "get_current_uid_gid (sample_env e rs nm) = pair64 100 1000"
  "ktime_get_ns (sample_env e rs nm) = 5000000000"
  by (simp_all add: sample_env_def)

lemma sample_helper_laws: "helper_laws (sample_env e rs nm)"
  by (simp add: helper_laws_def) (auto simp: sample_env_def min_def)

lemma hash_map_law:
  assumes "map_update_elem E = hash_map_update cap"
  shows "map_law E"
proof -
  have "(0::int) > - 7" by simp
  then show ?thesis by (auto simp: map_law_def assms hash_map_update_def)
qed

lemma sample_map_law: "map_law (sample_env e rs nm)"
  by (rule hash_map_law) simp

lemma sample_store_empty:
  "store_connection (sample_env e rs nm) k Map.empty =
     (0, [conn_key_bytes e k \<mapsto> current_value (sample_env e rs nm)])"
  by (simp add: store_connection_def hash_map_update_def current_value_def MAX_ENTRIES_def Let_def)

section \<open>The socket and the destination are there\<close>

lemma region_read_hit:
  "map_of rs p = Some bs \<Longrightarrow> length bs = n \<Longrightarrow> region_read rs n p = (0, bs)"
  by (simp add: region_read_def)

lemmas sample_offsets = offsets_x86_def offsets_64_def field_addr_def sample_addrs

lemma sample_sock_at:
  "a \<in> {4, 8} \<Longrightarrow> sock_at (sample_env e (sample_regions e s addr port a name) nm) SK s"
  by (auto simp: sock_at_def mem_has_def sample_offsets sample_regions_def region_read_def)

lemma env_sock_at: "sock_at (env4 s d) SK s" "sock_at (env6 s d') SK s"
  by (auto simp: env4_def env6_def sample_sock_at split: option.split)

lemma env_dest4_at: "dest4_at (env4 s d) MSG d"
  by (cases d)
    (auto simp: env4_def mem_has_def sample_offsets sample_regions_def region_read_def
      intro!: exI [of _ "12288 :: 64 word"])

lemma env_dest6_at: "dest6_at (env6 s d) MSG d"
  by (cases d)
    (auto simp: env6_def mem_has_def sample_offsets sample_regions_def region_read_def
      intro!: exI [of _ "12288 :: 64 word"])

lemma env_laws [simp]:
  "helper_laws (env4 s d)" "helper_laws (env6 s d')" "map_law (env4 s d)" "map_law (env6 s d')"
  "host (env4 s d) = Little" "host (env6 s d') = Little"
  by (simp_all add: env4_def env6_def sample_helper_laws sample_map_law split: option.split)

lemma env_store_empty:
  "store_connection (env4 s d) k Map.empty =
     (0, [conn_key_bytes Little k \<mapsto> current_value (env4 s d)])"
  "store_connection (env6 s d') k Map.empty =
     (0, [conn_key_bytes Little k \<mapsto> current_value (env6 s d')])"
  by (simp_all add: env4_def env6_def sample_store_empty split: option.split)

lemma env_store_opt:
  "store_opt (env4 s d) k Map.empty = (0, snd (store_opt (env4 s d) k Map.empty))"
  "store_opt (env6 s d') k Map.empty = (0, snd (store_opt (env6 s d') k Map.empty))"
  by (cases k; simp add: store_opt_def env_store_empty)+

lemma addrs_nonzero [simp]: "SK \<noteq> 0" "MSG \<noteq> 0"
  by (simp_all add: sample_addrs)

section \<open>A tracker on the other side\<close>

definition sample_tracker :: "byte list list \<Rightarrow> socket_tracker" where
  "sample_tracker U = \<lparr>st_host = Little, st_caps = 127, st_api = hash_map_api U\<rparr>"

lemma sample_tracker_reads: "reads_host (sample_tracker U) Little"
  by (simp add: reads_host_def sample_tracker_def hash_map_api_def)

lemma sample_tracker_sel [simp]:
  "st_host (sample_tracker U) = Little" "st_api (sample_tracker U) = hash_map_api U"
  by (simp_all add: sample_tracker_def)

lemma sample_caps:
  "contains (st_caps (sample_tracker U)) TCP_V4_CONNECT"
  "contains (st_caps (sample_tracker U)) TCP_V6_CONNECT"
  "contains (st_caps (sample_tracker U)) UDP_V4_SEND"
  "contains (st_caps (sample_tracker U)) UDP_V6_SEND"
  "contains (st_caps (sample_tracker U)) ICMP_V4_SEND"
  by (simp_all add: sample_tracker_def contains_def capability_defs push_bit_of_1)

text \<open>Two sockets: one connected over IPv4, one dual-stack with an IPv4-mapped peer.\<close>

definition sock4 :: sock_view where
  "sock4 = \<lparr>sv_family = 2, sv_num = 40000, sv_dport = 443, sv_rcv_saddr = 0x0A000001,
     sv_daddr = 0x5DB8D822, sv_v6_rcv_saddr = 0, sv_v6_daddr = 0\<rparr>"

definition sock6 :: sock_view where
  "sock6 = \<lparr>sv_family = 10, sv_num = 40001, sv_dport = 443, sv_rcv_saddr = 0, sv_daddr = 0,
     sv_v6_rcv_saddr = 0x20010DB8000000000000000000000001,
     sv_v6_daddr = 0x20010DB8000000000000000000000002\<rparr>"

definition sock_mapped :: sock_view where
  "sock_mapped = \<lparr>sv_family = 10, sv_num = 40002, sv_dport = 80, sv_rcv_saddr = 0x0A000001,
     sv_daddr = 0x5DB8D822, sv_v6_rcv_saddr = 0xFFFF0A000001, sv_v6_daddr = 0xFFFF5DB8D822\<rparr>"

text \<open>A socket bound to the wildcard address, as an unconnected datagram socket is.\<close>

definition sock_unbound :: sock_view where
  "sock_unbound = \<lparr>sv_family = 2, sv_num = 40003, sv_dport = 0, sv_rcv_saddr = 0,
     sv_daddr = 0, sv_v6_rcv_saddr = 0, sv_v6_daddr = 0\<rparr>"

lemmas sample_socks = sock_unbound_def sock4_def sock6_def sock_mapped_def

section \<open>Runs\<close>

text \<open>Saved registers that are just the two arguments and the return value.\<close>

definition sample_regs :: "(u64 \<times> u64 \<times> u64) pt_access" where
  "sample_regs = \<lparr>PT_PARM1 = fst, PT_PARM2 = \<lambda>r. fst (snd r), PT_RC = \<lambda>r. snd (snd r)\<rparr>"

lemma sample_regs_law: "regs_law sample_regs (\<lambda>a b r. (a, b, r))"
  by (simp add: regs_law_def sample_regs_def)

definition sample_connect :: "(bpf_env \<times> fentry_hit) list" where
  "sample_connect = [(env4 sock4 None, F_tcp_connect SK 0)]"

definition sample_kconnect :: "(bpf_env \<times> (u64 \<times> u64 \<times> u64) kprobe_hit) list" where
  "sample_kconnect = [(env4 sock4 None, K_tcp_connect (SK, 0, 0))]"

lemma sample_envs_ok: "envs_ok Little sample_connect" "envs_ok Little sample_kconnect"
  by (simp_all add: envs_ok_def sample_connect_def sample_kconnect_def)

lemma track_sock4:
  "track_tcp_socket (env4 sock4 None) SK Map.empty =
     (0, [conn_key_bytes Little (key_v4 Little 0x0A000001 0x5DB8D822 40000 443 IPPROTO_TCP)
            \<mapsto> current_value (env4 sock4 None)])"
  by (simp only: track_tcp_socket_at [OF addrs_nonzero(1) env_sock_at(1)])
    (simp add: tcp_key_def sock4_def store_opt_def env_store_empty)

definition sample_map :: socket_map where
  "sample_map = [conn_key_bytes Little (key_v4 Little 0x0A000001 0x5DB8D822 40000 443 IPPROTO_TCP)
     \<mapsto> current_value (env4 sock4 None)]"

lemma sample_runs:
  "run_hits fentry_run sample_connect Map.empty = sample_map"
  "run_hits (kprobe_run sample_regs) sample_kconnect Map.empty = sample_map"
  by (simp_all add: sample_connect_def sample_kconnect_def fentry_tcp_connect_def
      kprobe_tcp_connect_def sample_regs_def track_sock4 sample_map_def)

definition sample_match :: socket_match where
  "sample_match = \<lparr>sm_info = current_process (env4 sock4 None), sm_quality = ExactTuple\<rparr>"

lemma sample_lookup:
  "lookup (sample_tracker U) sample_map (V4 0x0A000001) (V4 0x5DB8D822) 40000 443 True = Some sample_match"
proof -
  have "lookup (sample_tracker U) sample_map (V4 0x0A000001) (V4 0x5DB8D822) 40000 443 True =
      Some \<lparr>sm_info = current_process (env4 sock4 None),
        sm_quality = (if (0x0A000001 :: ipv4) = 0x0A000001 then ExactTuple else WildcardLocalAddress)\<rparr>"
    by (rule lookup_v4_stored)
      (simp_all add: sample_tracker_reads sample_caps lookup_needs_def transport_def sample_map_def)
  then show ?thesis by (simp add: sample_match_def)
qed

lemma sample_handle: "map_handle (st_api (sample_tracker U))"
  using hash.map_handle_axioms by simp

lemma sample_answer:
  "lookup (sample_tracker U) (run_hits fentry_run sample_connect Map.empty)
     (V4 0x0A000001) (V4 0x5DB8D822) 40000 443 True = Some sample_match"
  "lookup (sample_tracker U) (run_hits (kprobe_run sample_regs) sample_kconnect Map.empty)
     (V4 0x0A000001) (V4 0x5DB8D822) 40000 443 True = Some sample_match"
  by (simp_all only: sample_runs sample_lookup)

text \<open>A sweep 65 seconds after the entry was recorded.\<close>

definition sweep_clock :: clock where "sweep_clock = (0, 70, 1)"

definition sample_key :: "byte list" where
  "sample_key = conn_key_bytes Little (key_v4 Little 0x0A000001 0x5DB8D822 40000 443 IPPROTO_TCP)"

lemma sweep_time: "monotonic_time_ns sweep_clock = Inr 70000000001"
  by (simp add: monotonic_time_ns_def sweep_clock_def)

lemma sample_value_stale:
  "stale_value Little 70000000001 60000000000 (current_value (env4 sock4 None))"
  using current_value_stale [of "env4 sock4 None" 70000000001 60000000000]
  by (simp add: saturating_sub_def) (simp add: env4_def)

lemma sample_map_key: "sample_map sample_key = Some (current_value (env4 sock4 None))"
  by (simp add: sample_map_def sample_key_def)

lemma sample_sweep:
  "tracker_cleanup (sample_tracker [sample_key]) sweep_clock id 60 sample_map = (1, Map.empty)"
proof -
  have stale: "is_stale Little (hash_map_api [sample_key]) 70000000001 60000000000 sample_map sample_key"
    by (simp add: hash.is_stale_iff sample_map_key sample_value_stale)
  have "ma_keys (hash_map_api [sample_key]) sample_map = [sample_key]"
    by (simp add: hash_map_api_def sample_map_key)
  moreover have "ma_delete (hash_map_api [sample_key]) sample_map sample_key = (Inr (), Map.empty)"
    by (simp add: hash_map_api_def sample_map_key) (simp add: sample_map_def sample_key_def)
  ultimately show ?thesis
    using stale by (simp add: tracker_cleanup_def cleanup_stale_entries_def sweep_time)
qed

end
