(* ===== verification/App_Protocols.thy ===== *)
theory App_Protocols
  imports Net_Addr
begin

text \<open>
  What packet inspection can say about a connection: \<^verbatim>\<open>ApplicationProtocol\<close> of
  \<^verbatim>\<open>rustnet-core/src/network/types.rs\<close> with the structure each variant carries. Strings are lists
  of code points, vectors are lists, and a time span is its number of nanoseconds.
\<close>

type_synonym unicode = "nat list"
type_synonym duration = nat

definition from_secs :: "nat \<Rightarrow> duration" where
  "from_secs s = s * 1000000000"

section \<open>HTTP and TLS\<close>

datatype HttpVersion = Http10 | Http11 | Http2

record HttpInfo =
  ht_version :: HttpVersion
  ht_method :: "unicode option"
  ht_host :: "unicode option"
  ht_path :: "unicode option"
  ht_status_code :: "u16 option"
  ht_user_agent :: "unicode option"

datatype TlsVersion = Tls10 | Tls11 | Tls12 | Tls13

record TlsInfo =
  tls_version :: "TlsVersion option"
  tls_sni :: "unicode option"
  tls_alpn :: "unicode list"
  tls_cipher_suite :: "u16 option"

record HttpsInfo =
  hs_tls_info :: "TlsInfo option"

section \<open>Names and addresses\<close>

datatype DnsQueryType =
    DnsA | DnsNS | DnsCNAME | DnsSOA | DnsPTR | DnsHINFO | DnsMX | DnsTXT | DnsRP | DnsAFSDB
  | DnsSIG | DnsKEY | DnsAAAA | DnsLOC | DnsSRV | DnsNAPTR | DnsKX | DnsCERT | DnsDNAME | DnsAPL
  | DnsDS | DnsSSHFP | DnsIPSECKEY | DnsRRSIG | DnsNSEC | DnsDNSKEY | DnsDHCID | DnsNSEC3
  | DnsNSEC3PARAM | DnsTLSA | DnsSMIMEA | DnsHIP | DnsCDS | DnsCDNSKEY | DnsOPENPGPKEY | DnsCSYNC
  | DnsZONEMD | DnsSVCB | DnsHTTPS | DnsEUI48 | DnsEUI64 | DnsTKEY | DnsTSIG | DnsURI | DnsCAA
  | DnsTA | DnsDLV | DnsOther u16

record DnsInfo =
  dns_query_name :: "unicode option"
  dns_query_type :: "DnsQueryType option"
  dns_response_ips :: "ip_addr list"
  dns_is_response :: bool

record MdnsInfo =
  mdns_query_name :: "unicode option"
  mdns_query_type :: "DnsQueryType option"
  mdns_is_response :: bool
  mdns_response_ips :: "ip_addr list"

record LlmnrInfo =
  llmnr_query_name :: "unicode option"
  llmnr_query_type :: "DnsQueryType option"
  llmnr_is_response :: bool
  llmnr_response_ips :: "ip_addr list"

datatype NetBiosService = NameService | DatagramService

datatype NetBiosOpcode =
    NbQuery | NbRegistration | NbRelease | NbWack | NbRefresh | NbResponse | NbDatagram | NbError
  | NbUnknown u8

record NetBiosInfo =
  nb_service :: NetBiosService
  nb_opcode :: NetBiosOpcode
  nb_name :: "unicode option"

section \<open>SSH, FTP, MQTT, BitTorrent\<close>

datatype SshConnectionState = Banner | KeyExchange | Authentication | SshEstablished

datatype SshVersion = SshV1 | SshV2

record SshInfo =
  ssh_version :: "SshVersion option"
  ssh_client_software :: "unicode option"
  ssh_server_software :: "unicode option"
  ssh_connection_state :: SshConnectionState
  ssh_algorithms :: "unicode list"
  ssh_auth_method :: "unicode option"

datatype FtpMessageType = FtpRequest | FtpResponse

record FtpInfo =
  ftp_message_type :: FtpMessageType
  ftp_command :: "unicode option"
  ftp_args :: "unicode option"
  ftp_response_code :: "u16 option"
  ftp_response_message :: "unicode option"
  ftp_username :: "unicode option"
  ftp_server_software :: "unicode option"
  ftp_system_type :: "unicode option"

datatype MqttPacketType =
    MqConnect | MqConnack | MqPublish | MqPuback | MqPubrec | MqPubrel | MqPubcomp | MqSubscribe
  | MqSuback | MqUnsubscribe | MqUnsuback | MqPingreq | MqPingresp | MqDisconnect | MqAuth

datatype MqttVersion = MqttV31 | MqttV311 | MqttV50

record MqttInfo =
  mq_version :: "MqttVersion option"
  mq_packet_type :: MqttPacketType
  mq_client_id :: "unicode option"
  mq_topic :: "unicode option"
  mq_qos :: "u8 option"

datatype BitTorrentType = BtPeer | BtDht | BtUtp

record BitTorrentInfo =
  bt_protocol_type :: BitTorrentType
  bt_info_hash :: "unicode option"
  bt_client :: "unicode option"
  bt_dht_method :: "unicode option"
  bt_supports_dht :: bool
  bt_supports_extension :: bool
  bt_supports_fast :: bool

section \<open>The small protocols\<close>

datatype NtpMode =
  NtpReserved | SymmetricActive | SymmetricPassive | NtpClient | NtpServer | NtpBroadcast | NtpControl | NtpPrivate

record NtpInfo =
  ntp_version :: u8
  ntp_mode :: NtpMode
  ntp_stratum :: u8

datatype DhcpMessageType =
    Discover | Offer | DhcpRequest | Decline | DhcpAck | DhcpNak | DhcpRelease | Inform | DhcpUnknown u8

record DhcpInfo =
  dhcp_message_type :: DhcpMessageType
  dhcp_hostname :: "unicode option"
  dhcp_client_mac :: "unicode option"

datatype SnmpVersion = SnmpV1 | SnmpV2c | SnmpV3

datatype SnmpPduType =
    GetRequest | GetNextRequest | GetResponse | SetRequest | SnmpTrap | GetBulkRequest
  | InformRequest | TrapV2 | SnmpReport | SnmpEncrypted

record SnmpInfo =
  snmp_version :: SnmpVersion
  snmp_community :: "unicode option"
  snmp_pdu_type :: SnmpPduType

datatype SsdpMethod = MSearch | Notify | SsdpResponse

record SsdpInfo =
  ssdp_method :: SsdpMethod
  ssdp_service_type :: "unicode option"

datatype StunMessageClass = StunRequest | Indication | SuccessResponse | ErrorResponse

datatype StunMethod = Binding | StunUnknown u16

record StunInfo =
  stun_message_class :: StunMessageClass
  stun_method :: StunMethod
  stun_transaction_id :: "byte list"
  stun_software :: "unicode option"

end
