(* ===== verification/Crypto_Reassembler.thy ===== *)
theory Crypto_Reassembler
  imports App_Protocols
begin

text \<open>
  The reassembly of QUIC CRYPTO frames: \<^verbatim>\<open>CryptoFrameReassembler\<close> of \<^verbatim>\<open>types.rs\<close>.
  Fragments are kept by offset in a B-tree, here an association list in ascending order
  of offsets; a fragment that overlaps one already kept is dropped. The abstraction of a
  reassembler is the partial function from stream positions to the bytes it knows
  (\<open>known\<close>), and the invariant \<open>reassembler_ok\<close> ties the counters to it.
\<close>

section \<open>The reassembler\<close>

type_synonym fragment = "u64 \<times> byte list"

record reassembler =
  fragments :: "fragment list"
  contiguous_offset :: u64
  has_complete_tls_info :: bool
  cached_tls_info :: "TlsInfo option"
  max_buffer_size :: nat
  current_buffer_size :: nat

definition new_reassembler :: reassembler where
  "new_reassembler = \<lparr>fragments = [], contiguous_offset = 0, has_complete_tls_info = False,
     cached_tls_info = None, max_buffer_size = 64 * 1024, current_buffer_size = 0\<rparr>"

fun btree_insert :: "u64 \<Rightarrow> byte list \<Rightarrow> fragment list \<Rightarrow> fragment list" where
  "btree_insert k v [] = [(k, v)]"
| "btree_insert k v ((k', v') # fs) =
     (if k < k' then (k, v) # (k', v') # fs
      else if k = k' then (k, v) # fs
      else (k', v') # btree_insert k v fs)"

definition data_end :: "u64 \<Rightarrow> byte list \<Rightarrow> u64" where
  "data_end offset data = offset + word_of_nat (length data)"

text \<open>The loop that looks for a fragment already there, with its two early returns.\<close>

fun conflicts :: "u64 \<Rightarrow> u64 \<Rightarrow> fragment list \<Rightarrow> bool" where
  "conflicts offset dend [] = False"
| "conflicts offset dend ((frag_offset, frag_data) # fs) =
     (let frag_end = data_end frag_offset frag_data
      in if offset = frag_offset \<and> dend = frag_end then True
         else if offset < frag_end \<and> dend > frag_offset then True
         else conflicts offset dend fs)"

fun advance :: "u64 \<Rightarrow> fragment list \<Rightarrow> u64" where
  "advance current [] = current"
| "advance current ((offset, data) # fs) =
     (if offset \<le> current
      then let fragment_end = data_end offset data
           in advance (if fragment_end > current then fragment_end else current) fs
      else current)"

definition update_contiguous_offset :: "reassembler \<Rightarrow> reassembler" where
  "update_contiguous_offset r =
     r\<lparr>contiguous_offset := advance (contiguous_offset r) (fragments r)\<rparr>"

datatype reassembly_error = Exceeds_maximum_buffer_size

definition add_fragment ::
  "reassembler \<Rightarrow> u64 \<Rightarrow> byte list \<Rightarrow> (reassembly_error + unit) \<times> reassembler" where
  "add_fragment r offset data =
     (if current_buffer_size r + length data > max_buffer_size r
      then (Inl Exceeds_maximum_buffer_size, r)
      else if conflicts offset (data_end offset data) (fragments r) then (Inr (), r)
      else (Inr (), update_contiguous_offset
              (r\<lparr>current_buffer_size := current_buffer_size r + length data,
                 fragments := btree_insert offset data (fragments r)\<rparr>)))"

fun collect_contiguous :: "u64 \<Rightarrow> u64 \<Rightarrow> fragment list \<Rightarrow> byte list" where
  "collect_contiguous target current [] = []"
| "collect_contiguous target current ((offset, data) # fs) =
     (let skip = unat (current - offset);
          takes = offset \<le> current \<and> skip < length data;
          part = (if takes then drop skip data else []);
          current = (if takes then data_end offset data else current)
      in if current \<ge> target then part else part @ collect_contiguous target current fs)"

definition get_contiguous_data :: "reassembler \<Rightarrow> byte list option" where
  "get_contiguous_data r =
     (if contiguous_offset r = 0 then None
      else let result = collect_contiguous (contiguous_offset r) 0 (fragments r)
           in if result = [] then None else Some result)"

definition set_complete_tls_info :: "TlsInfo \<Rightarrow> reassembler \<Rightarrow> reassembler" where
  "set_complete_tls_info t r = r\<lparr>has_complete_tls_info := True, cached_tls_info := Some t\<rparr>"

definition get_cached_tls_info :: "reassembler \<Rightarrow> TlsInfo option" where
  "get_cached_tls_info r = (if has_complete_tls_info r then cached_tls_info r else None)"

text \<open>Adding a list of fragments, as the merge of two reassemblers does; errors are only logged.\<close>

definition add_fragments :: "fragment list \<Rightarrow> reassembler \<Rightarrow> reassembler" where
  "add_fragments fs r = fold (\<lambda>(offset, data) r. snd (add_fragment r offset data)) fs r"

section \<open>The stream a reassembler knows\<close>

fun known :: "fragment list \<Rightarrow> nat \<rightharpoonup> byte" where
  "known [] p = None"
| "known ((offset, data) # fs) p =
     (if unat offset \<le> p \<and> p < unat offset + length data then Some (data ! (p - unat offset))
      else known fs p)"

definition piece :: "u64 \<Rightarrow> byte list \<Rightarrow> nat \<rightharpoonup> byte" where
  "piece offset data = known [(offset, data)]"

text \<open>A fragment with content that ends within the 64-bit offset space.\<close>

definition frag_ok :: "fragment \<Rightarrow> bool" where
  "frag_ok f \<longleftrightarrow> snd f \<noteq> [] \<and> unat (fst f) + length (snd f) < 2 ^ 64"

definition before :: "fragment \<Rightarrow> fragment \<Rightarrow> bool" where
  "before f g \<longleftrightarrow> unat (fst f) + length (snd f) \<le> unat (fst g)"

definition frags_ok :: "fragment list \<Rightarrow> bool" where
  "frags_ok fs \<longleftrightarrow> list_all frag_ok fs \<and> sorted_wrt before fs"

lemma frags_ok_simps [simp]:
  "frags_ok []"
  "frags_ok (f # fs) \<longleftrightarrow> frag_ok f \<and> frags_ok fs \<and> (\<forall>g \<in> set fs. before f g)"
  by (auto simp: frags_ok_def)

lemma unat_data_end: "frag_ok (o', d) \<Longrightarrow> unat (data_end o' d) = unat o' + length d"
  by (simp add: frag_ok_def data_end_def unat_word_ariths unat_of_nat)

lemma known_Nil [simp]: "known [] = Map.empty"
  by (simp add: fun_eq_iff)

lemma known_iff:
  "known fs p \<noteq> None \<longleftrightarrow> (\<exists>g \<in> set fs. unat (fst g) \<le> p \<and> p < unat (fst g) + length (snd g))"
  by (induction fs) auto

lemma known_below: "(\<And>g. g \<in> set fs \<Longrightarrow> p < unat (fst g)) \<Longrightarrow> known fs p = None"
  using known_iff [of fs p] by (meson not_le)

lemma conflicts_iff:
  assumes "frag_ok (offset, data)" "frags_ok fs"
  shows "conflicts offset (data_end offset data) fs \<longleftrightarrow>
    (\<exists>g \<in> set fs. \<not> before (offset, data) g \<and> \<not> before g (offset, data))"
  using assms(2)
proof (induction fs)
  case (Cons g fs)
  obtain o' d where g: "g = (o', d)" by (cases g)
  have ends: "unat (data_end o' d) = unat o' + length d"
    "unat (data_end offset data) = unat offset + length data"
    using Cons.prems assms(1) by (simp_all add: g unat_data_end)
  have "(offset = o' \<and> data_end offset data = data_end o' d) \<or>
      (offset < data_end o' d \<and> data_end offset data > o') \<longleftrightarrow>
      \<not> before (offset, data) g \<and> \<not> before g (offset, data)"
    using assms(1) Cons.prems ends
    by (auto simp: g before_def word_less_nat_alt word_unat_eq_iff frag_ok_def not_le)
  with Cons show ?case by (auto simp: g Let_def)
qed simp

lemma set_btree_insert: "set (btree_insert k v fs) \<subseteq> insert (k, v) (set fs)"
  by (induction fs) (auto split: if_splits)

lemma frags_ok_insert:
  assumes "frag_ok (k, v)" "frags_ok fs"
    and "\<And>g. g \<in> set fs \<Longrightarrow> before (k, v) g \<or> before g (k, v)"
  shows "frags_ok (btree_insert k v fs)"
  using assms(2,3)
proof (induction fs)
  case (Cons g fs)
  obtain k' v' where g: "g = (k', v')" by (cases g)
  have sep: "before (k, v) g \<or> before g (k, v)" using Cons.prems by simp
  have neq: "k \<noteq> k'"
    using sep assms(1) Cons.prems(1) by (auto simp: g before_def frag_ok_def)
  show ?case
  proof (cases "k < k'")
    case True
    then have "before (k, v) g"
      using sep Cons.prems(1) by (auto simp: g before_def word_less_nat_alt)
    then have "before (k, v) h" if "h \<in> set fs" for h
      using that Cons.prems(1) by (fastforce simp: before_def)
    with True \<open>before (k, v) g\<close> assms(1) Cons.prems(1) show ?thesis by (simp add: g)
  next
    case False
    then have "before g (k, v)"
      using sep neq assms(1) by (cases v) (auto simp: g before_def word_less_nat_alt frag_ok_def)
    then have "before g h" if "h \<in> set (btree_insert k v fs)" for h
      using that set_btree_insert [of k v fs] Cons.prems(1) by auto
    with False neq Cons show ?thesis by (simp add: g)
  qed
qed (use assms(1) in simp)

lemma known_insert:
  assumes "frag_ok (k, v)" "frags_ok fs"
    and "\<And>g. g \<in> set fs \<Longrightarrow> before (k, v) g \<or> before g (k, v)"
  shows "known (btree_insert k v fs) = known fs ++ piece k v"
  using assms(2,3)
proof (induction fs)
  case (Cons g fs)
  obtain k' v' where g: "g = (k', v')" by (cases g)
  have sep: "before (k, v) g \<or> before g (k, v)" using Cons.prems by simp
  have neq: "k \<noteq> k'"
    using sep assms(1) Cons.prems(1) by (auto simp: g before_def frag_ok_def)
  from Cons have IH: "known (btree_insert k v fs) = known fs ++ piece k v" by simp
  show ?case
    using sep neq by (auto simp: g IH piece_def before_def map_add_def fun_eq_iff split: option.splits)
qed (simp add: piece_def)

section \<open>The contiguous prefix\<close>

lemma advance_spec:
  assumes "frags_ok fs"
  shows "current \<le> advance current fs \<and>
    (\<forall>p. unat current \<le> p \<and> p < unat (advance current fs) \<longrightarrow> known fs p \<noteq> None) \<and>
    known fs (unat (advance current fs)) = None"
  using assms
proof (induction fs arbitrary: current)
  case (Cons g fs)
  obtain o' d where g: "g = (o', d)" by (cases g)
  have e: "unat (data_end o' d) = unat o' + length d"
    using Cons.prems by (simp add: g unat_data_end)
  show ?case
  proof (cases "o' \<le> current")
    case True
    let ?c = "if data_end o' d > current then data_end o' d else current"
    have "current \<le> ?c" "unat o' + length d \<le> unat ?c"
      using e by (auto simp: word_less_nat_alt word_le_nat_alt)
    moreover have "\<forall>p. unat current \<le> p \<and> p < unat ?c \<longrightarrow> p < unat o' + length d"
      using e by auto
    moreover have "unat o' \<le> unat current" using True by (simp add: word_le_nat_alt)
    ultimately show ?thesis
      using Cons.IH [of ?c] Cons.prems True
      by (auto simp: g Let_def word_le_nat_alt split del: if_split intro: order_trans)
        (metis leI)+
  next
    case False
    then have "known (g # fs) (unat current) = None"
      using Cons.prems
      by (intro known_below) (auto simp: g before_def word_le_nat_alt not_le)
    with False show ?thesis by (simp add: g)
  qed
qed simp

lemma collect_contiguous_spec:
  assumes "frags_ok fs" "current < target"
    and "\<And>p. unat current \<le> p \<Longrightarrow> p < unat target \<Longrightarrow> known fs p \<noteq> None"
    and "known fs (unat target) = None"
  shows "collect_contiguous target current fs = map (the \<circ> known fs) [unat current ..< unat target]"
  using assms
proof (induction fs arbitrary: current)
  case Nil
  then have "known [] (unat current) \<noteq> None" by (intro Nil.prems(3)) (auto simp: word_less_nat_alt)
  then show ?case by simp
next
  case (Cons g fs)
  obtain o' d where g: "g = (o', d)" by (cases g)
  have e: "unat (data_end o' d) = unat o' + length d"
    using Cons.prems(1) by (simp add: g unat_data_end)
  have lt: "unat current < unat target" using Cons.prems(2) by (simp add: word_less_nat_alt)
  have "known (g # fs) (unat current) \<noteq> None" by (rule Cons.prems(3)) (use lt in simp_all)
  then obtain h where h: "h \<in> set (g # fs)" "unat (fst h) \<le> unat current"
    unfolding known_iff by blast
  then have le: "unat o' \<le> unat current"
    using Cons.prems(1) by (auto simp: g before_def)
  then have skip: "unat (current - o') = unat current - unat o'"
    by (simp add: unat_sub word_le_nat_alt)
  show ?case
  proof (cases "unat current < unat o' + length d")
    case takes: True
    have tgt: "unat o' + length d \<le> unat target"
      using Cons.prems(4) le lt by (auto simp: g split: if_splits)
    have part: "drop (unat current - unat o') d =
        map (the \<circ> known (g # fs)) [unat current ..< unat o' + length d]"
      using le takes by (intro nth_equalityI) (auto simp: g)
    show ?thesis
    proof (cases "unat o' + length d = unat target")
      case True
      moreover have "unat current - unat o' < length d" using takes le by simp
      ultimately show ?thesis using le skip e part
        by (simp add: g word_le_nat_alt Let_def)
    next
      case False
      let ?e = "data_end o' d"
      have "collect_contiguous target ?e fs = map (the \<circ> known fs) [unat ?e ..< unat target]"
      proof (rule Cons.IH)
        fix p assume p: "unat ?e \<le> p" "p < unat target"
        with Cons.prems(3) [of p] e takes show "known fs p \<noteq> None" by (simp add: g)
      qed (use Cons.prems False tgt e in \<open>auto simp: g word_less_nat_alt split: if_splits\<close>)
      also have "\<dots> = map (the \<circ> known (g # fs)) [unat ?e ..< unat target]"
        using e by (auto simp: g)
      finally have rest: "collect_contiguous target ?e fs =
          map (the \<circ> known (g # fs)) [unat o' + length d ..< unat target]" by (simp only: e)
      have "[unat current ..< unat target] =
          [unat current ..< unat o' + length d] @ [unat o' + length d ..< unat target]"
        using takes tgt by (metis less_imp_le upt_add_eq_append le_Suc_ex)
      then have joined: "map (the \<circ> known (g # fs)) [unat current ..< unat target] =
          drop (unat current - unat o') d @ collect_contiguous target ?e fs"
        by (simp only: map_append part rest)
      have "\<not> ?e \<ge> target" using False tgt e by (simp add: word_le_nat_alt)
      moreover have "unat current - unat o' < length d" using takes le by simp
      ultimately have "collect_contiguous target current (g # fs) =
          drop (unat current - unat o') d @ collect_contiguous target ?e fs"
        using le skip by (simp add: g word_le_nat_alt Let_def)
      with joined show ?thesis by (simp only:)
    qed
  next
    case False
    have "collect_contiguous target current fs = map (the \<circ> known fs) [unat current ..< unat target]"
    proof (rule Cons.IH)
      fix p assume p: "unat current \<le> p" "p < unat target"
      from Cons.prems(3) [OF this] p False show "known fs p \<noteq> None" by (simp add: g)
    qed (use Cons.prems False lt in \<open>simp_all add: g\<close>)
    also have "\<dots> = map (the \<circ> known (g # fs)) [unat current ..< unat target]"
      using False by (auto simp: g)
    finally have rest: "collect_contiguous target current fs =
        map (the \<circ> known (g # fs)) [unat current ..< unat target]" .
    have "\<not> unat current - unat o' < length d" using False le by simp
    then have "collect_contiguous target current (g # fs) = collect_contiguous target current fs"
      using skip lt by (simp add: g word_le_nat_alt Let_def)
    with rest show ?thesis by (simp only:)
  qed
qed

section \<open>The invariant\<close>

definition buffered :: "fragment list \<Rightarrow> nat" where
  "buffered fs = sum_list (map (length \<circ> snd) fs)"

definition reassembler_ok :: "reassembler \<Rightarrow> bool" where
  "reassembler_ok r \<longleftrightarrow> frags_ok (fragments r) \<and> max_buffer_size r = 64 * 1024 \<and>
     current_buffer_size r = buffered (fragments r) \<and> current_buffer_size r \<le> max_buffer_size r \<and>
     (\<forall>p < unat (contiguous_offset r). known (fragments r) p \<noteq> None) \<and>
     known (fragments r) (unat (contiguous_offset r)) = None"

lemma reassembler_ok_new [simp]: "reassembler_ok new_reassembler"
  by (simp add: reassembler_ok_def new_reassembler_def buffered_def)

lemma buffered_insert:
  assumes "k \<notin> fst ` set fs"
  shows "buffered (btree_insert k v fs) = buffered fs + length v"
  using assms by (induction fs) (auto simp: buffered_def)

lemma piece_dom: "dom (piece offset data) = {unat offset ..< unat offset + length data}"
  by (auto simp: piece_def split: if_splits)

lemma separate_iff:
  assumes "frag_ok (offset, data)" "frags_ok fs"
  shows "(\<forall>g \<in> set fs. before (offset, data) g \<or> before g (offset, data)) \<longleftrightarrow>
    dom (piece offset data) \<inter> dom (known fs) = {}"
proof -
  let ?I = "{unat offset ..< unat offset + length data}"
  let ?J = "\<lambda>g. {unat (fst g) ..< unat (fst g) + length (snd g)} :: nat set"
  have "before (offset, data) g \<or> before g (offset, data) \<longleftrightarrow> ?I \<inter> ?J g = {}" if "g \<in> set fs" for g
  proof -
    have "data \<noteq> []" "snd g \<noteq> []"
      using assms that by (auto simp: frags_ok_def frag_ok_def list_all_iff)
    then show ?thesis by (auto simp: before_def disjoint_iff)
  qed
  then have "(\<forall>g \<in> set fs. before (offset, data) g \<or> before g (offset, data)) \<longleftrightarrow>
      ?I \<inter> (\<Union>g \<in> set fs. ?J g) = {}" by blast
  moreover have "dom (known fs) = (\<Union>g \<in> set fs. ?J g)"
    by (rule set_eqI) (simp add: domIff known_iff del: not_None_eq)
  ultimately show ?thesis by (simp only: piece_dom)
qed

lemma conflicts_overlap:
  assumes "frag_ok (offset, data)" "frags_ok fs"
  shows "conflicts offset (data_end offset data) fs \<longleftrightarrow>
    dom (piece offset data) \<inter> dom (known fs) \<noteq> {}"
  using conflicts_iff [OF assms] separate_iff [OF assms] by blast

lemma update_contiguous_ok:
  assumes "frags_ok (fragments r)" "max_buffer_size r = 64 * 1024"
    and "current_buffer_size r = buffered (fragments r)" "current_buffer_size r \<le> max_buffer_size r"
    and "\<forall>p < unat (contiguous_offset r). known (fragments r) p \<noteq> None"
  shows "reassembler_ok (update_contiguous_offset r)"
  using assms advance_spec [OF assms(1), of "contiguous_offset r"]
  by (auto simp: reassembler_ok_def update_contiguous_offset_def) (meson not_le)

text \<open>
  A fragment is refused when it does not fit the buffer; otherwise it is added if it is disjoint
  from what is known, and dropped whole if it is not.
\<close>

definition has_room :: "reassembler \<Rightarrow> byte list \<Rightarrow> bool" where
  "has_room r data \<longleftrightarrow> current_buffer_size r + length data \<le> max_buffer_size r"

lemma add_fragment_spec:
  assumes "reassembler_ok r" "data \<noteq> []" "unat offset < 2 ^ 62" "has_room r data"
  shows "fst (add_fragment r offset data) = Inr ()"
    and "reassembler_ok (snd (add_fragment r offset data))"
    and "known (fragments (snd (add_fragment r offset data))) =
      (if dom (piece offset data) \<inter> dom (known (fragments r)) = {}
       then known (fragments r) ++ piece offset data else known (fragments r))"
proof -
  have f: "frag_ok (offset, data)" "frags_ok (fragments r)"
    using assms by (auto simp: frag_ok_def reassembler_ok_def has_room_def)
  let ?sep = "dom (piece offset data) \<inter> dom (known (fragments r)) = {}"
  let ?r = "r\<lparr>current_buffer_size := current_buffer_size r + length data,
              fragments := btree_insert offset data (fragments r)\<rparr>"
  have new: "reassembler_ok (update_contiguous_offset ?r) \<and>
      known (fragments (update_contiguous_offset ?r)) = known (fragments r) ++ piece offset data" if ?sep
  proof -
    have sep: "\<And>g. g \<in> set (fragments r) \<Longrightarrow> before (offset, data) g \<or> before g (offset, data)"
      using that separate_iff [OF f] by blast
    then have "offset \<notin> fst ` set (fragments r)"
      using f by (fastforce simp: before_def frag_ok_def frags_ok_def list_all_iff)
    then have "reassembler_ok (update_contiguous_offset ?r)"
      using assms(1,4) frags_ok_insert [OF f sep] known_insert [OF f sep]
      by (intro update_contiguous_ok) (auto simp: reassembler_ok_def has_room_def buffered_insert)
    moreover have "fragments (update_contiguous_offset ?r) = fragments ?r"
      by (simp add: update_contiguous_offset_def)
    ultimately show ?thesis using known_insert [OF f sep] by simp
  qed
  have add: "add_fragment r offset data =
      (if ?sep then (Inr (), update_contiguous_offset ?r) else (Inr (), r))"
    using assms(4) conflicts_overlap [OF f] by (simp add: add_fragment_def has_room_def)
  then show "fst (add_fragment r offset data) = Inr ()" by simp
  show "reassembler_ok (snd (add_fragment r offset data))" using add new assms(1) by simp
  show "known (fragments (snd (add_fragment r offset data))) =
      (if ?sep then known (fragments r) ++ piece offset data else known (fragments r))"
    using add new by simp
qed

lemma add_fragment_refused:
  "\<not> has_room r data \<Longrightarrow> add_fragment r offset data = (Inl Exceeds_maximum_buffer_size, r)"
  by (simp add: add_fragment_def has_room_def)

lemma add_fragment_ok:
  assumes "reassembler_ok r" "data \<noteq> []" "unat offset < 2 ^ 62"
  shows "reassembler_ok (snd (add_fragment r offset data))"
  using add_fragment_spec(2) [OF assms] add_fragment_refused [of r data offset] assms(1)
  by (cases "has_room r data") auto

lemma add_fragment_extends:
  assumes "reassembler_ok r" "data \<noteq> []" "unat offset < 2 ^ 62"
  shows "known (fragments r) \<subseteq>\<^sub>m known (fragments (snd (add_fragment r offset data)))"
proof (cases "has_room r data")
  case True
  show ?thesis
    unfolding add_fragment_spec(3) [OF assms True]
    by (auto simp: map_le_def map_add_dom_app_simps disjoint_iff) (metis domI map_add_dom_app_simps(3) domIff)
qed (simp add: add_fragment_refused)

section \<open>Reading the prefix\<close>

definition first_gap :: "reassembler \<Rightarrow> nat" where
  "first_gap r = (LEAST p. known (fragments r) p = None)"

lemma first_gap_contiguous: "reassembler_ok r \<Longrightarrow> first_gap r = unat (contiguous_offset r)"
  unfolding first_gap_def reassembler_ok_def
  by (intro Least_equality) (auto simp: not_le intro: leI)

lemma get_contiguous_data_spec:
  assumes "reassembler_ok r"
  shows "get_contiguous_data r =
    (if first_gap r = 0 then None else Some (map (the \<circ> known (fragments r)) [0 ..< first_gap r]))"
proof (cases "contiguous_offset r = 0")
  case True
  with assms show ?thesis by (simp add: first_gap_contiguous get_contiguous_data_def)
next
  case False
  then have "unat (contiguous_offset r) \<noteq> 0" by (simp add: unat_eq_0)
  moreover have "collect_contiguous (contiguous_offset r) 0 (fragments r) =
      map (the \<circ> known (fragments r)) [unat (0 :: u64) ..< unat (contiguous_offset r)]"
    using assms False by (intro collect_contiguous_spec) (auto simp: reassembler_ok_def word_gt_0)
  ultimately show ?thesis
    using assms False by (simp add: first_gap_contiguous get_contiguous_data_def)
qed

section \<open>Reassembling a stream\<close>

text \<open>A fragment cut from the stream \<open>S\<close>, and the bytes of \<open>S\<close> by position.\<close>

definition from_stream :: "byte list \<Rightarrow> fragment \<Rightarrow> bool" where
  "from_stream S f \<longleftrightarrow> snd f \<noteq> [] \<and> unat (fst f) + length (snd f) \<le> length S \<and>
     snd f = take (length (snd f)) (drop (unat (fst f)) S)"

definition stream_map :: "byte list \<Rightarrow> nat \<rightharpoonup> byte" where
  "stream_map S p = (if p < length S then Some (S ! p) else None)"

lemma piece_from_stream:
  assumes "from_stream S (k, d)"
  shows "piece k d \<subseteq>\<^sub>m stream_map S"
proof -
  have "d ! i = S ! (unat k + i)" if "i < length d" for i
  proof -
    have "unat k + length d \<le> length S" "d = take (length d) (drop (unat k) S)"
      using assms by (simp_all add: from_stream_def)
    then have "d ! i = take (length d) (drop (unat k) S) ! i" by simp
    also have "\<dots> = S ! (unat k + i)" using that \<open>unat k + length d \<le> length S\<close> by simp
    finally show ?thesis .
  qed
  with assms show ?thesis
    by (auto simp: map_le_def piece_def stream_map_def from_stream_def split: if_splits)
qed

lemma card_dom_known: "frags_ok fs \<Longrightarrow> finite (dom (known fs)) \<and> card (dom (known fs)) = buffered fs"
proof (induction fs)
  case (Cons g fs)
  obtain k d where g: "g = (k, d)" by (cases g)
  have dom: "dom (known (g # fs)) = dom (piece k d) \<union> dom (known fs)"
    by (auto simp: g piece_def split: if_splits)
  have "dom (piece k d) \<inter> dom (known fs) = {}"
    using Cons.prems separate_iff [of k d fs] by (auto simp: g)
  with Cons show ?case
    unfolding dom by (simp add: card_Un_disjoint piece_dom buffered_def g)
qed (simp add: buffered_def)

lemma buffered_bound:
  assumes "reassembler_ok r" "dom (known (fragments r)) \<subseteq> A" "finite A"
  shows "current_buffer_size r \<le> card A"
  using assms card_dom_known [of "fragments r"] card_mono [OF assms(3,2)]
  by (simp add: reassembler_ok_def)

text \<open>Every fragment cut from one stream: the reassembler knows nothing but that stream.\<close>

lemma add_fragments_sound:
  assumes "reassembler_ok r" "known (fragments r) \<subseteq>\<^sub>m stream_map S"
    and "\<forall>f \<in> set fs. from_stream S f" "length S \<le> 2 ^ 62"
  shows "reassembler_ok (add_fragments fs r) \<and> known (fragments (add_fragments fs r)) \<subseteq>\<^sub>m stream_map S"
  using assms(1-3)
proof (induction fs arbitrary: r)
  case (Cons f fs)
  obtain k d where f: "f = (k, d)" by (cases f)
  have fs: "from_stream S (k, d)" using Cons.prems(3) by (simp add: f)
  then have kd: "d \<noteq> []" "unat k < 2 ^ 62"
    using assms(4) by (auto simp: from_stream_def intro: le_less_trans) (cases d; simp)
  let ?r = "snd (add_fragment r k d)"
  have "known (fragments ?r) \<subseteq>\<^sub>m stream_map S"
  proof (cases "has_room r d")
    case True
    with add_fragment_spec(3) [OF Cons.prems(1) kd True] piece_from_stream [OF fs] Cons.prems(2)
    show ?thesis by (simp add: map_add_le_mapI)
  qed (use Cons.prems(2) in \<open>simp add: add_fragment_refused\<close>)
  then have "reassembler_ok (add_fragments fs ?r) \<and>
      known (fragments (add_fragments fs ?r)) \<subseteq>\<^sub>m stream_map S"
    by (intro Cons.IH add_fragment_ok) (use Cons.prems kd in simp_all)
  then show ?case by (simp add: add_fragments_def f)
qed (simp add: add_fragments_def)

text \<open>Fragments that are pairwise equal or disjoint are all kept, whatever their order.\<close>

lemma add_fragments_complete:
  assumes "reassembler_ok r" "known (fragments r) \<subseteq>\<^sub>m stream_map S"
    and "\<forall>f \<in> set fs. from_stream S f" "length S \<le> 64 * 1024"
    and "\<And>k d. (k, d) \<in> set fs \<Longrightarrow> dom (piece k d) \<subseteq> dom (known (fragments r)) \<or>
      dom (piece k d) \<inter> dom (known (fragments r)) = {}"
    and "\<And>k d k' d'. (k, d) \<in> set fs \<Longrightarrow> (k', d') \<in> set fs \<Longrightarrow>
      dom (piece k d) = dom (piece k' d') \<or> dom (piece k d) \<inter> dom (piece k' d') = {}"
  shows "dom (known (fragments (add_fragments fs r))) =
    dom (known (fragments r)) \<union> (\<Union>(k, d) \<in> set fs. dom (piece k d))"
  using assms(1-3,5,6)
proof (induction fs arbitrary: r)
  case (Cons f fs)
  obtain k d where f: "f = (k, d)" by (cases f)
  have fs: "from_stream S (k, d)" using Cons.prems(3) by (simp add: f)
  then have kd: "d \<noteq> []" "unat k < 2 ^ 62"
    using assms(4) by (auto simp: from_stream_def)
  let ?r = "snd (add_fragment r k d)"
  have dom': "dom (known (fragments ?r)) = dom (known (fragments r)) \<union> dom (piece k d)"
  proof (cases "dom (piece k d) \<subseteq> dom (known (fragments r))")
    case True
    moreover have "dom (piece k d) \<noteq> {}" using kd by (simp add: piece_dom)
    ultimately have "dom (piece k d) \<inter> dom (known (fragments r)) \<noteq> {}" by blast
    then have "known (fragments ?r) = known (fragments r)"
      using add_fragment_spec(3) [OF Cons.prems(1) kd] add_fragment_refused [of r d k]
      by (cases "has_room r d") auto
    with True show ?thesis by auto
  next
    case False
    with Cons.prems(4) have disj: "dom (piece k d) \<inter> dom (known (fragments r)) = {}"
      by (auto simp: f)
    have fin: "finite (dom (known (fragments r)))"
      using Cons.prems(1) card_dom_known by (simp add: reassembler_ok_def)
    have "dom (known (fragments r)) \<union> dom (piece k d) \<subseteq> {..< length S}"
      using Cons.prems(2) piece_from_stream [OF fs]
      by (auto simp: map_le_def stream_map_def split: if_splits)
    then have "card (dom (known (fragments r)) \<union> dom (piece k d)) \<le> length S"
      by (metis card_lessThan card_mono finite_lessThan)
    then have "current_buffer_size r + length d \<le> length S"
      using disj fin card_dom_known [of "fragments r"] Cons.prems(1)
      by (subst (asm) card_Un_disjoint) (auto simp: piece_dom reassembler_ok_def)
    then have "has_room r d" using assms(4) Cons.prems(1) by (simp add: has_room_def reassembler_ok_def)
    with add_fragment_spec(3) [OF Cons.prems(1) kd] disj show ?thesis by auto
  qed
  have "dom (known (fragments (add_fragments fs ?r))) =
      dom (known (fragments ?r)) \<union> (\<Union>(k, d) \<in> set fs. dom (piece k d))"
  proof (rule Cons.IH)
    show "reassembler_ok ?r" by (rule add_fragment_ok [OF Cons.prems(1) kd])
    show "known (fragments ?r) \<subseteq>\<^sub>m stream_map S"
      using add_fragments_sound [OF Cons.prems(1,2), of "[f]"] Cons.prems(3) assms(4)
      by (simp add: add_fragments_def f)
    fix k' d' assume k': "(k', d') \<in> set fs"
    with Cons.prems(4) [of k' d'] Cons.prems(5) [of k d k' d']
    show "dom (piece k' d') \<subseteq> dom (known (fragments ?r)) \<or>
        dom (piece k' d') \<inter> dom (known (fragments ?r)) = {}"
      unfolding dom' by (auto simp: f)
  qed (use Cons.prems in \<open>auto simp: f\<close>)
  then show ?case using dom' by (auto simp: add_fragments_def f)
qed (simp add: add_fragments_def)

lemma reassembly_complete:
  assumes "S \<noteq> []" "length S \<le> 64 * 1024" "\<forall>f \<in> set fs. from_stream S f"
    and "\<And>k d k' d'. (k, d) \<in> set fs \<Longrightarrow> (k', d') \<in> set fs \<Longrightarrow>
      dom (piece k d) = dom (piece k' d') \<or> dom (piece k d) \<inter> dom (piece k' d') = {}"
    and "(\<Union>(k, d) \<in> set fs. dom (piece k d)) = {..< length S}"
  shows "get_contiguous_data (add_fragments fs new_reassembler) = Some S"
proof -
  let ?r = "add_fragments fs new_reassembler"
  have new: "known (fragments new_reassembler) = Map.empty" by (simp add: new_reassembler_def)
  have ok: "reassembler_ok ?r" "known (fragments ?r) \<subseteq>\<^sub>m stream_map S"
    using add_fragments_sound [OF reassembler_ok_new _ assms(3)] assms(2) by (simp_all add: new)
  have "dom (known (fragments ?r)) =
      dom (known (fragments new_reassembler)) \<union> (\<Union>(k, d) \<in> set fs. dom (piece k d))"
    by (rule add_fragments_complete [OF reassembler_ok_new _ assms(3,2)])
      (use assms(4) in \<open>auto simp: new\<close>)
  then have dom: "dom (known (fragments ?r)) = {..< length S}" by (simp only: new assms(5)) simp
  have gap: "first_gap ?r = length S"
    unfolding first_gap_def
  proof (rule Least_equality)
    show "known (fragments ?r) (length S) = None" using dom by (metis domIff lessThan_iff less_irrefl)
    show "length S \<le> p" if "known (fragments ?r) p = None" for p
      using dom that by (metis domIff lessThan_iff not_le)
  qed
  have "known (fragments ?r) p = Some (S ! p)" if "p < length S" for p
    using ok(2) dom that by (auto simp: map_le_def stream_map_def)
  then have "map (the \<circ> known (fragments ?r)) [0 ..< length S] = S"
    by (intro nth_equalityI) simp_all
  with assms(1) show ?thesis by (simp add: get_contiguous_data_spec [OF ok(1)] gap)
qed

lemma reassembly_sound:
  assumes "length S \<le> 2 ^ 62" "\<forall>f \<in> set fs. from_stream S f"
    and "get_contiguous_data (add_fragments fs new_reassembler) = Some data"
  shows "\<exists>rest. S = data @ rest"
proof -
  let ?r = "add_fragments fs new_reassembler"
  have ok: "reassembler_ok ?r" "known (fragments ?r) \<subseteq>\<^sub>m stream_map S"
    using add_fragments_sound [OF reassembler_ok_new _ assms(2,1)]
    by (simp_all add: new_reassembler_def)
  have known: "known (fragments ?r) p = stream_map S p \<and> p < length S" if "p < first_gap ?r" for p
  proof -
    have "known (fragments ?r) p \<noteq> None" using not_less_Least that by (auto simp: first_gap_def)
    then have "p \<in> dom (known (fragments ?r))" by blast
    with ok(2) show ?thesis by (auto simp: map_le_def stream_map_def split: if_splits)
  qed
  have data: "data = map (the \<circ> known (fragments ?r)) [0 ..< first_gap ?r]"
    using assms(3) by (simp add: get_contiguous_data_spec [OF ok(1)] split: if_splits)
  have "first_gap ?r \<le> length S"
    by (rule ccontr) (use known [of "length S"] in simp)
  then have "map (the \<circ> known (fragments ?r)) [0 ..< first_gap ?r] = take (first_gap ?r) S"
    by (intro nth_equalityI) (auto simp: stream_map_def known)
  with data show ?thesis using append_take_drop_id by metis
qed

text \<open>A retransmission cut at other boundaries is dropped whole, the new bytes with the old.\<close>

lemma overlapping_tail_lost:
  "get_contiguous_data (add_fragments [(0, [1, 2, 3]), (2, [3, 4, 5])] new_reassembler) = Some [1, 2, 3]"
  by (simp add: add_fragments_def new_reassembler_def add_fragment_def update_contiguous_offset_def
      get_contiguous_data_def data_end_def)

end
