(* ===== verification/Core_Types.thy ===== *)
theory Core_Types
  imports Crypto_Reassembler Attribution
begin

text \<open>
  The connection model of \<^verbatim>\<open>rustnet-core/src/network/types.rs\<close>: TCP and QUIC states, the per
  connection analytics, the connection itself, and the questions the tracker asks of it (is it
  terminal, when does it expire). Also \<^verbatim>\<open>ParsedPacket\<close> of \<^verbatim>\<open>parser.rs\<close>.

  Time: a \<^verbatim>\<open>SystemTime\<close> is a number of nanoseconds from the epoch, possibly negative; a
  \<^verbatim>\<open>Duration\<close> is a number of nanoseconds; an \<^verbatim>\<open>Instant\<close> is a number of nanoseconds of the
  monotonic clock. \<^verbatim>\<open>duration_since\<close> fails when the other time is later. A cached rate, an
  \<^verbatim>\<open>f64\<close>, is kept as its bits, and \<open>0\<close> is \<open>0.0\<close>.
\<close>

section \<open>Time\<close>

type_synonym system_time = int
type_synonym instant = int

definition duration_since :: "system_time \<Rightarrow> system_time \<Rightarrow> duration option" where
  "duration_since t u = (if u \<le> t then Some (nat (t - u)) else None)"

definition duration_since_or_default :: "system_time \<Rightarrow> system_time \<Rightarrow> duration" where
  "duration_since_or_default t u = (case duration_since t u of Some d \<Rightarrow> d | None \<Rightarrow> 0)"

text \<open>The extreme values of a \<^verbatim>\<open>SystemTime\<close>, whose seconds are 64-bit.\<close>

definition SYSTEM_TIME_MAX :: system_time where
  "SYSTEM_TIME_MAX = (2 ^ 63 - 1) * 1000000000 + 999999999"

definition SYSTEM_TIME_MIN :: system_time where
  "SYSTEM_TIME_MIN = - (2 ^ 63) * 1000000000"

definition checked_add :: "system_time \<Rightarrow> duration \<Rightarrow> system_time option" where
  "checked_add t d = (let u = t + int d in if u \<le> SYSTEM_TIME_MAX then Some u else None)"

definition checked_sub :: "system_time \<Rightarrow> duration \<Rightarrow> system_time option" where
  "checked_sub t d = (let u = t - int d in if SYSTEM_TIME_MIN \<le> u then Some u else None)"

lemma duration_since_or_default_nat [simp]: "duration_since_or_default t u = nat (t - u)"
  by (simp add: duration_since_or_default_def duration_since_def)

section \<open>Protocol states\<close>

datatype tcp_state =
    SynSent | SynReceived | Established | FinWait1 | FinWait2 | CloseWait | LastAck | TimeWait
  | Closing | Closed | Unknown

datatype arp_operation = ArpRequest | ArpReply

record arp_info =
  arp_op :: arp_operation
  arp_sender_mac :: unicode
  arp_sender_ip :: ip_addr
  arp_target_mac :: unicode
  arp_target_ip :: ip_addr
  arp_sender_vendor :: "unicode option"
  arp_target_vendor :: "unicode option"

datatype protocol_state =
    PS_Tcp tcp_state
  | PS_Udp
  | PS_Icmp u8 "u16 option"
  | PS_Igmp u8 "ipv4 option"
  | PS_Arp arp_info

section \<open>QUIC\<close>

datatype quic_packet_type =
  Initial | ZeroRtt | Handshake | Retry | VersionNegotiation | OneRtt | UnknownPacket

datatype quic_connection_state =
  QuicInitial | QuicHandshaking | QuicConnected | QuicDraining | QuicClosed | QuicUnknown

fun quic_priority :: "quic_connection_state \<Rightarrow> nat" where
  "quic_priority QuicUnknown = 0"
| "quic_priority QuicInitial = 1"
| "quic_priority QuicHandshaking = 2"
| "quic_priority QuicConnected = 3"
| "quic_priority QuicDraining = 4"
| "quic_priority QuicClosed = 5"

record quic_close_info =
  close_frame_type :: u8
  close_error_code :: u64

record QuicInfo =
  qi_version_string :: "unicode option"
  qi_packet_type :: quic_packet_type
  qi_connection_id :: "byte list"
  qi_connection_id_hex :: "unicode option"
  qi_connection_state :: quic_connection_state
  qi_tls_info :: "TlsInfo option"
  qi_has_crypto_frame :: bool
  qi_crypto_reassembler :: "reassembler option"
  qi_connection_close :: "quic_close_info option"
  qi_idle_timeout :: "duration option"

section \<open>Application protocols\<close>

datatype application_protocol =
    AppHttp HttpInfo | AppHttps HttpsInfo | AppDns DnsInfo | AppSsh SshInfo | AppQuic QuicInfo
  | AppNtp NtpInfo | AppMdns MdnsInfo | AppLlmnr LlmnrInfo | AppDhcp DhcpInfo | AppSnmp SnmpInfo
  | AppSsdp SsdpInfo | AppNetBios NetBiosInfo | AppBitTorrent BitTorrentInfo | AppStun StunInfo
  | AppMqtt MqttInfo | AppFtp FtpInfo

record dpi_info =
  di_application :: application_protocol
  di_last_update_time :: instant

section \<open>Analytics of a TCP connection\<close>

record tcp_analytics =
  highest_seq_outbound :: u32
  highest_seq_inbound :: u32
  seen_outbound :: bool
  seen_inbound :: bool
  last_ack_received :: u32
  seen_ack :: bool
  dup_ack_run :: u32
  duplicate_ack_count :: u64
  retransmit_count :: u64
  out_of_order_count :: u64
  fast_retransmit_count :: u64
  last_window_size :: u16
  rtt_probe :: "(u32 \<times> system_time) option"
  smoothed_rtt :: "duration option"
  last_rtt :: "duration option"
  rtt_samples :: u64

definition new_tcp_analytics :: tcp_analytics where
  "new_tcp_analytics = \<lparr>highest_seq_outbound = 0, highest_seq_inbound = 0, seen_outbound = False,
     seen_inbound = False, last_ack_received = 0, seen_ack = False, dup_ack_run = 0,
     duplicate_ack_count = 0, retransmit_count = 0, out_of_order_count = 0,
     fast_retransmit_count = 0, last_window_size = 0, rtt_probe = None, smoothed_rtt = None,
     last_rtt = None, rtt_samples = 0\<rparr>"

section \<open>Rates\<close>

record rate_sample =
  rs_timestamp :: instant
  rs_delta_sent :: u64
  rs_delta_received :: u64

record rate_tracker =
  rt_samples :: "rate_sample list"
  rt_window_duration :: duration
  rt_last_update :: instant
  rt_max_samples :: nat
  rt_last_bytes_sent :: u64
  rt_last_bytes_received :: u64
  rt_window_sent_total :: u64
  rt_window_received_total :: u64

section \<open>Packets\<close>

record tcp_flags =
  fl_fin :: bool
  fl_syn :: bool
  fl_rst :: bool
  fl_psh :: bool
  fl_ack :: bool
  fl_urg :: bool

record tcp_header =
  th_seq :: u32
  th_ack :: u32
  th_window :: u16
  th_flags :: tcp_flags
  th_payload_len :: u32

record parsed_packet =
  pk_protocol :: protocol
  pk_local_addr :: socket_addr
  pk_remote_addr :: socket_addr
  pk_tcp_header :: "tcp_header option"
  pk_protocol_state :: protocol_state
  pk_is_outgoing :: bool
  pk_packet_len :: u64
  pk_dpi_result :: "application_protocol option"
  pk_process_name :: "unicode option"
  pk_process_id :: "u32 option"

definition packet_key :: "parsed_packet \<Rightarrow> connection_key" where
  "packet_key p =
     \<lparr>cn_protocol = pk_protocol p, cn_local = pk_local_addr p, cn_remote = pk_remote_addr p\<rparr>"

section \<open>Connections\<close>

record geo_ip_info =
  geo_country_code :: "unicode option"
  geo_country_name :: "unicode option"
  geo_asn :: "u32 option"
  geo_as_org :: "unicode option"
  geo_postal_code :: "unicode option"
  geo_city :: "unicode option"

record connection =
  co_protocol :: protocol
  co_local_addr :: socket_addr
  co_remote_addr :: socket_addr
  co_protocol_state :: protocol_state
  co_pid :: "u32 option"
  co_process_ppid :: "u32 option"
  co_process_name :: "unicode option"
  co_executable :: "path option"
  co_process_uid :: "u32 option"
  co_process_gid :: "u32 option"
  co_attribution_quality :: "match_quality option"
  co_connection_direction :: "bool option"
  co_bytes_sent :: u64
  co_bytes_received :: u64
  co_packets_sent :: u64
  co_packets_received :: u64
  co_created_at :: system_time
  co_last_activity :: system_time
  co_terminal_since :: "system_time option"
  co_service_name :: "unicode option"
  co_dpi_info :: "dpi_info option"
  co_rate_tracker :: rate_tracker
  co_current_incoming_rate_bps :: u64
  co_current_outgoing_rate_bps :: u64
  co_tcp_analytics :: "tcp_analytics option"
  co_initial_rtt :: "duration option"
  co_geoip_info :: "geo_ip_info option"
  co_is_historic :: bool
  co_closed_at :: "system_time option"

text \<open>Whether a datagram flow has been seen to close.\<close>

definition quic_terminal :: "QuicInfo \<Rightarrow> bool" where
  "quic_terminal q \<longleftrightarrow> qi_connection_close q \<noteq> None \<or>
     qi_connection_state q \<in> {QuicDraining, QuicClosed}"

definition terminal_state :: "protocol_state \<Rightarrow> dpi_info option \<Rightarrow> bool" where
  "terminal_state s dpi = (case s of
     PS_Tcp s \<Rightarrow> s \<in> {TimeWait, Closed}
   | PS_Udp \<Rightarrow> (case dpi of
        None \<Rightarrow> False
      | Some d \<Rightarrow> (case di_application d of AppQuic q \<Rightarrow> quic_terminal q | _ \<Rightarrow> False))
   | _ \<Rightarrow> False)"

definition is_terminal :: "connection \<Rightarrow> bool" where
  "is_terminal c = terminal_state (co_protocol_state c) (co_dpi_info c)"

definition is_closing_or_terminal :: "connection \<Rightarrow> bool" where
  "is_closing_or_terminal c = (case co_protocol_state c of
     PS_Tcp s \<Rightarrow> s \<in> {FinWait1, FinWait2, CloseWait, LastAck, TimeWait, Closing, Closed}
   | PS_Udp \<Rightarrow> is_terminal c
   | _ \<Rightarrow> False)"

definition cleanup_reference_time :: "connection \<Rightarrow> system_time" where
  "cleanup_reference_time c =
     (if is_terminal c
      then (case co_terminal_since c of Some t \<Rightarrow> t | None \<Rightarrow> co_last_activity c)
      else co_last_activity c)"

definition cleanup_age :: "connection \<Rightarrow> system_time \<Rightarrow> duration" where
  "cleanup_age c now = duration_since_or_default now (cleanup_reference_time c)"

section \<open>Timeouts\<close>

definition TERMINAL_ARCHIVE_GRACE :: duration where
  "TERMINAL_ARCHIVE_GRACE = from_secs 15"

definition get_tcp_timeout :: "connection \<Rightarrow> tcp_state \<Rightarrow> duration" where
  "get_tcp_timeout c s = (case s of
     Established \<Rightarrow> (case map_option di_application (co_dpi_info c) of
         Some (AppSsh _) \<Rightarrow> from_secs 1800
       | Some (AppHttp _) \<Rightarrow> from_secs 600
       | Some (AppHttps _) \<Rightarrow> from_secs 600
       | _ \<Rightarrow> from_secs 300)
   | TimeWait \<Rightarrow> from_secs 30
   | Closed \<Rightarrow> TERMINAL_ARCHIVE_GRACE
   | FinWait1 \<Rightarrow> from_secs 60
   | FinWait2 \<Rightarrow> from_secs 60
   | CloseWait \<Rightarrow> from_secs 60
   | LastAck \<Rightarrow> from_secs 60
   | SynSent \<Rightarrow> from_secs 60
   | SynReceived \<Rightarrow> from_secs 60
   | Closing \<Rightarrow> from_secs 30
   | Unknown \<Rightarrow> from_secs 120)"

definition get_quic_timeout :: "QuicInfo \<Rightarrow> duration" where
  "get_quic_timeout q =
     (if qi_connection_close q \<noteq> None then TERMINAL_ARCHIVE_GRACE
      else (case qi_connection_state q of
         QuicInitial \<Rightarrow> from_secs 60
       | QuicHandshaking \<Rightarrow> from_secs 60
       | QuicConnected \<Rightarrow> (case qi_idle_timeout q of Some t \<Rightarrow> t | None \<Rightarrow> from_secs 180)
       | QuicDraining \<Rightarrow> TERMINAL_ARCHIVE_GRACE
       | QuicClosed \<Rightarrow> TERMINAL_ARCHIVE_GRACE
       | QuicUnknown \<Rightarrow> from_secs 120))"

fun get_app_timeout :: "application_protocol \<Rightarrow> duration" where
  "get_app_timeout (AppQuic q) = get_quic_timeout q"
| "get_app_timeout (AppDns _) = from_secs 30"
| "get_app_timeout (AppHttp _) = from_secs 600"
| "get_app_timeout (AppHttps _) = from_secs 600"
| "get_app_timeout (AppSsh _) = from_secs 1800"
| "get_app_timeout (AppNtp _) = from_secs 30"
| "get_app_timeout (AppMdns _) = from_secs 30"
| "get_app_timeout (AppLlmnr _) = from_secs 30"
| "get_app_timeout (AppDhcp _) = from_secs 60"
| "get_app_timeout (AppSnmp _) = from_secs 60"
| "get_app_timeout (AppSsdp _) = from_secs 30"
| "get_app_timeout (AppNetBios _) = from_secs 60"
| "get_app_timeout (AppBitTorrent _) = from_secs 60"
| "get_app_timeout (AppStun _) = from_secs 30"
| "get_app_timeout (AppMqtt _) = from_secs 120"
| "get_app_timeout (AppFtp _) = from_secs 60"

definition get_timeout :: "connection \<Rightarrow> duration" where
  "get_timeout c = (case co_protocol_state c of
     PS_Tcp s \<Rightarrow> get_tcp_timeout c s
   | PS_Udp \<Rightarrow> (case co_dpi_info c of
        Some d \<Rightarrow> get_app_timeout (di_application d)
      | None \<Rightarrow> from_secs 60)
   | PS_Icmp _ _ \<Rightarrow> from_secs 10
   | PS_Igmp _ _ \<Rightarrow> from_secs 10
   | PS_Arp _ \<Rightarrow> from_secs 30)"

definition should_cleanup :: "connection \<Rightarrow> system_time \<Rightarrow> bool" where
  "should_cleanup c now \<longleftrightarrow> cleanup_age c now > get_timeout c"

definition current_rtt :: "connection \<Rightarrow> duration option" where
  "current_rtt c = (case Option.bind (co_tcp_analytics c) smoothed_rtt of
     Some r \<Rightarrow> Some r
   | None \<Rightarrow> co_initial_rtt c)"

text \<open>
  A closed connection without a negotiated idle timeout leaves the table within half an hour of
  its reference time.
\<close>

lemma should_cleanup_iff:
  "should_cleanup c now \<longleftrightarrow> cleanup_reference_time c + int (get_timeout c) < now"
  by (auto simp: should_cleanup_def cleanup_age_def)

lemma closing_of_terminal: "is_terminal c \<Longrightarrow> is_closing_or_terminal c"
  by (auto simp: is_terminal_def terminal_state_def is_closing_or_terminal_def split: protocol_state.splits)

lemma terminal_timeout:
  assumes "is_terminal c"
  shows "get_timeout c \<le> from_secs 30"
  using assms
  by (auto simp: is_terminal_def terminal_state_def quic_terminal_def get_timeout_def get_tcp_timeout_def
      get_quic_timeout_def TERMINAL_ARCHIVE_GRACE_def from_secs_def
      split: protocol_state.splits option.splits application_protocol.splits)

end
