(* ===== verification/Tcp_Machine.thy ===== *)
theory Tcp_Machine
  imports Core_Types
begin

text \<open>
  The TCP state the observer keeps per connection: \<^verbatim>\<open>update_tcp_state\<close> of \<^verbatim>\<open>merge.rs\<close>, a function
  of the flags of a segment and of its direction (\<open>True\<close> is outgoing). The arms of its match are
  the branches below, in the source's order. \<open>tcp_edge\<close> is the state diagram they stay within.
\<close>

definition update_tcp_state :: "tcp_state \<Rightarrow> tcp_flags \<Rightarrow> bool \<Rightarrow> tcp_state" where
  "update_tcp_state current flags out =
     (let syn = fl_syn flags; ack = fl_ack flags; fin = fl_fin flags; rst = fl_rst flags in
      if current = Unknown \<and> syn \<and> \<not> ack \<and> \<not> fin \<and> \<not> rst \<and> \<not> out then SynReceived
      else if current = Unknown \<and> syn \<and> \<not> ack \<and> \<not> fin \<and> \<not> rst \<and> out then SynSent
      else if current = SynSent \<and> syn \<and> ack \<and> \<not> fin \<and> \<not> rst \<and> \<not> out then Established
      else if current = SynReceived \<and> \<not> syn \<and> ack \<and> \<not> fin \<and> \<not> rst \<and> out then Established
      else if current = Unknown \<and> \<not> syn \<and> ack \<and> \<not> fin \<and> \<not> rst then Established
      else if current = Unknown \<and> \<not> syn \<and> ack \<and> fin \<and> \<not> rst then Established
      else if current = Established \<and> \<not> syn \<and> fin \<and> \<not> rst \<and> out then FinWait1
      else if current = Established \<and> \<not> syn \<and> fin \<and> \<not> rst \<and> \<not> out then CloseWait
      else if current = FinWait1 \<and> \<not> syn \<and> ack \<and> \<not> fin \<and> \<not> rst \<and> \<not> out then FinWait2
      else if current = FinWait1 \<and> \<not> syn \<and> fin \<and> \<not> rst \<and> \<not> out then Closing
      else if current = FinWait2 \<and> \<not> syn \<and> fin \<and> \<not> rst \<and> \<not> out then TimeWait
      else if current = CloseWait \<and> \<not> syn \<and> fin \<and> \<not> rst \<and> out then LastAck
      else if current = LastAck \<and> \<not> syn \<and> ack \<and> \<not> fin \<and> \<not> rst \<and> \<not> out then Closed
      else if current = Closing \<and> \<not> syn \<and> ack \<and> \<not> fin \<and> \<not> rst \<and> \<not> out then TimeWait
      else if rst then Closed
      else current)"

type_synonym segment_flags = "tcp_flags \<times> bool"

definition tcp_trace :: "tcp_state \<Rightarrow> segment_flags list \<Rightarrow> tcp_state" where
  "tcp_trace s segs = fold (\<lambda>(f, out) s. update_tcp_state s f out) segs s"

lemma tcp_trace_simps [simp]:
  "tcp_trace s [] = s"
  "tcp_trace s ((f, out) # segs) = tcp_trace (update_tcp_state s f out) segs"
  "tcp_trace s (xs @ ys) = tcp_trace (tcp_trace s xs) ys"
  by (simp_all add: tcp_trace_def)

section \<open>The diagram\<close>

inductive tcp_edge :: "tcp_state \<Rightarrow> tcp_state \<Rightarrow> bool" where
  passive_open: "tcp_edge Unknown SynReceived"
| active_open: "tcp_edge Unknown SynSent"
| midstream: "tcp_edge Unknown Established"
| opened: "s \<in> {SynSent, SynReceived} \<Longrightarrow> tcp_edge s Established"
| close_first: "tcp_edge Established FinWait1"
| closed_by_peer: "tcp_edge Established CloseWait"
| fin_acked: "tcp_edge FinWait1 FinWait2"
| simultaneous: "tcp_edge FinWait1 Closing"
| peer_closes: "tcp_edge FinWait2 TimeWait"
| close_second: "tcp_edge CloseWait LastAck"
| last_acked: "tcp_edge LastAck Closed"
| closing_acked: "tcp_edge Closing TimeWait"
| reset: "tcp_edge s Closed"

inductive_cases edge_from_TimeWait: "tcp_edge TimeWait s"
inductive_cases edge_from_Closed: "tcp_edge Closed s"

fun tcp_rank :: "tcp_state \<Rightarrow> nat" where
  "tcp_rank Unknown = 0"
| "tcp_rank SynSent = 1"
| "tcp_rank SynReceived = 1"
| "tcp_rank Established = 2"
| "tcp_rank FinWait1 = 3"
| "tcp_rank CloseWait = 3"
| "tcp_rank FinWait2 = 4"
| "tcp_rank Closing = 4"
| "tcp_rank LastAck = 4"
| "tcp_rank TimeWait = 5"
| "tcp_rank Closed = 6"

lemma rank_Closed: "s \<noteq> Closed \<Longrightarrow> tcp_rank s < 6"
  by (cases s) simp_all

lemma edge_rank: "tcp_edge s t \<Longrightarrow> tcp_rank s < tcp_rank t \<or> s = Closed \<and> t = Closed"
  by (induction rule: tcp_edge.induct) (auto dest: rank_Closed)

lemma update_edge: "update_tcp_state s f out = s \<or> tcp_edge s (update_tcp_state s f out)"
  by (simp add: update_tcp_state_def Let_def tcp_edge.intros)

lemma update_rst: "fl_rst f \<Longrightarrow> update_tcp_state s f out = Closed"
  by (simp add: update_tcp_state_def)

lemma trace_edges: "tcp_edge\<^sup>*\<^sup>* s (tcp_trace s segs)"
proof (induction segs arbitrary: s)
  case (Cons a segs)
  obtain f out where a: "a = (f, out)" by (cases a)
  show ?case
    using update_edge [of s f out] Cons.IH [of "update_tcp_state s f out"]
    by (auto simp: a intro: converse_rtranclp_into_rtranclp)
qed simp

lemma edges_rank: "tcp_edge\<^sup>*\<^sup>* s t \<Longrightarrow> s = t \<or> tcp_rank s < tcp_rank t"
  by (induction rule: rtranclp_induct) (auto dest: edge_rank)

lemma trace_rank: "tcp_trace s segs = s \<or> tcp_rank s < tcp_rank (tcp_trace s segs)"
  using edges_rank [OF trace_edges] by metis

lemma trace_Closed [simp]: "tcp_trace Closed segs = Closed"
  using trace_rank [of Closed segs] by (cases "tcp_trace Closed segs") auto

section \<open>Conversations\<close>

text \<open>Segments without control flags, and those that only the local host sends.\<close>

definition plain :: "segment_flags \<Rightarrow> bool" where
  "plain p \<longleftrightarrow> \<not> fl_syn (fst p) \<and> \<not> fl_fin (fst p) \<and> \<not> fl_rst (fst p)"

definition no_reset :: "segment_flags \<Rightarrow> bool" where
  "no_reset p \<longleftrightarrow> \<not> fl_rst (fst p)"

text \<open>The control segments of a conversation: SYN, SYN with ACK, FIN, and a plain ACK.\<close>

definition is_syn :: "tcp_flags \<Rightarrow> bool" where
  "is_syn f \<longleftrightarrow> fl_syn f \<and> \<not> fl_ack f \<and> \<not> fl_fin f \<and> \<not> fl_rst f"

definition is_syn_ack :: "tcp_flags \<Rightarrow> bool" where
  "is_syn_ack f \<longleftrightarrow> fl_syn f \<and> fl_ack f \<and> \<not> fl_fin f \<and> \<not> fl_rst f"

definition is_fin :: "tcp_flags \<Rightarrow> bool" where
  "is_fin f \<longleftrightarrow> \<not> fl_syn f \<and> fl_fin f \<and> \<not> fl_rst f"

definition is_ack :: "tcp_flags \<Rightarrow> bool" where
  "is_ack f \<longleftrightarrow> \<not> fl_syn f \<and> fl_ack f \<and> \<not> fl_fin f \<and> \<not> fl_rst f"

lemmas segment_defs = plain_def no_reset_def is_syn_def is_syn_ack_def is_fin_def is_ack_def

lemma trace_stays:
  assumes "\<And>f out. (f, out) \<in> set segs \<Longrightarrow> update_tcp_state s f out = s"
  shows "tcp_trace s segs = s"
  using assms
proof (induction segs)
  case (Cons p segs)
  then show ?case by (cases p) simp
qed simp

lemma update_plain:
  assumes "plain (f, out)"
  shows "update_tcp_state Established f out = Established" "update_tcp_state FinWait2 f out = FinWait2"
    and "update_tcp_state CloseWait f out = CloseWait" "update_tcp_state TimeWait f out = TimeWait"
    and "out \<Longrightarrow> update_tcp_state FinWait1 f out = FinWait1"
    and "out \<Longrightarrow> update_tcp_state LastAck f out = LastAck"
    and "out \<Longrightarrow> update_tcp_state Closing f out = Closing"
    and "\<not> out \<Longrightarrow> update_tcp_state SynReceived f out = SynReceived"
  using assms by (simp_all add: update_tcp_state_def plain_def)

lemma trace_plain:
  assumes "\<forall>p \<in> set segs. plain p" "s \<in> {Established, FinWait2, CloseWait, TimeWait}"
  shows "tcp_trace s segs = s"
  using assms update_plain by (intro trace_stays) blast

lemma trace_plain_out:
  assumes "\<forall>p \<in> set segs. plain p \<and> snd p" "s \<in> {FinWait1, LastAck, Closing}"
  shows "tcp_trace s segs = s"
  using assms update_plain by (intro trace_stays) fastforce

lemma trace_plain_in:
  assumes "\<forall>p \<in> set segs. plain p \<and> \<not> snd p"
  shows "tcp_trace SynReceived segs = SynReceived"
  using assms update_plain by (intro trace_stays) fastforce

lemma trace_TimeWait:
  assumes "\<forall>p \<in> set segs. no_reset p"
  shows "tcp_trace TimeWait segs = TimeWait"
  using assms by (intro trace_stays) (auto simp: update_tcp_state_def no_reset_def)

lemma update_conversation:
  "is_syn f \<Longrightarrow> update_tcp_state Unknown f True = SynSent"
  "is_syn f \<Longrightarrow> update_tcp_state Unknown f False = SynReceived"
  "is_syn_ack f \<Longrightarrow> update_tcp_state SynSent f False = Established"
  "is_syn_ack f \<Longrightarrow> update_tcp_state SynReceived f True = SynReceived"
  "is_ack f \<Longrightarrow> update_tcp_state SynReceived f True = Established"
  "is_fin f \<Longrightarrow> update_tcp_state Established f True = FinWait1"
  "is_fin f \<Longrightarrow> update_tcp_state Established f False = CloseWait"
  "is_ack f \<Longrightarrow> update_tcp_state FinWait1 f False = FinWait2"
  "is_fin f \<Longrightarrow> update_tcp_state FinWait1 f False = Closing"
  "is_fin f \<Longrightarrow> update_tcp_state FinWait2 f False = TimeWait"
  "is_fin f \<Longrightarrow> update_tcp_state CloseWait f True = LastAck"
  "is_ack f \<Longrightarrow> update_tcp_state LastAck f False = Closed"
  "is_ack f \<Longrightarrow> update_tcp_state Closing f False = TimeWait"
  by (auto simp: update_tcp_state_def segment_defs)

end
