(* ===== verification/Tcp_Analysis.thy ===== *)
theory Tcp_Analysis
  imports Core_Types
begin

text \<open>
  Loss and round-trip analysis of one TCP connection: \<^verbatim>\<open>analyze_tcp_segment\<close> and its helpers in
  \<^verbatim>\<open>merge.rs\<close>. Sequence numbers are 32-bit and wrap; the reference the analysis is compared with
  counts stream positions without a bound.
\<close>

definition seq_lt :: "u32 \<Rightarrow> u32 \<Rightarrow> bool" where
  "seq_lt a b \<longleftrightarrow> sint (a - b) < 0"

record tcp_merge_events =
  ev_retransmits :: u64
  ev_out_of_order :: u64
  ev_fast_retransmits :: u64
  ev_rtt_sample :: "duration option"

definition no_events :: tcp_merge_events where
  "no_events = \<lparr>ev_retransmits = 0, ev_out_of_order = 0, ev_fast_retransmits = 0, ev_rtt_sample = None\<rparr>"

definition RTT_PROBE_TIMEOUT :: duration where
  "RTT_PROBE_TIMEOUT = from_secs 10"

record tcp_segment =
  sg_seq :: u32
  sg_ack :: u32
  sg_window :: u16
  sg_payload_len :: u32
  sg_is_outgoing :: bool
  sg_has_ack_flag :: bool

definition seq_end :: "tcp_segment \<Rightarrow> u32" where
  "seq_end s = sg_seq s + sg_payload_len s"

definition arm_rtt_probe :: "u32 \<Rightarrow> system_time \<Rightarrow> tcp_analytics \<Rightarrow> tcp_analytics" where
  "arm_rtt_probe send at a =
     (let stale = (case rtt_probe a of
            None \<Rightarrow> True
          | Some (_, sent_at) \<Rightarrow> (case duration_since at sent_at of
              Some age \<Rightarrow> age > RTT_PROBE_TIMEOUT
            | None \<Rightarrow> True))
      in if stale then a\<lparr>rtt_probe := Some (send, at)\<rparr> else a)"

text \<open>The outgoing branch.\<close>

definition analyze_outbound ::
  "tcp_segment \<Rightarrow> system_time \<Rightarrow> tcp_analytics \<Rightarrow> tcp_analytics \<times> tcp_merge_events" where
  "analyze_outbound s at a =
     (if sg_payload_len s > 0
      then if \<not> seen_outbound a
           then (arm_rtt_probe (seq_end s) at
                   (a\<lparr>seen_outbound := True, highest_seq_outbound := seq_end s\<rparr>), no_events)
           else if \<not> seq_lt (highest_seq_outbound a) (seq_end s)
           then (a\<lparr>retransmit_count := retransmit_count a + 1, rtt_probe := None\<rparr>,
                 no_events\<lparr>ev_retransmits := 1\<rparr>)
           else (arm_rtt_probe (seq_end s) at (a\<lparr>highest_seq_outbound := seq_end s\<rparr>), no_events)
      else (a, no_events))"

text \<open>The incoming branch: its three parts, each on the analytics the part before leaves.\<close>

definition analyze_inbound_data ::
  "tcp_segment \<Rightarrow> tcp_analytics \<times> tcp_merge_events \<Rightarrow> tcp_analytics \<times> tcp_merge_events" where
  "analyze_inbound_data s r = (case r of (a, ev) \<Rightarrow>
     if sg_payload_len s > 0
     then if \<not> seen_inbound a
          then (a\<lparr>seen_inbound := True, highest_seq_inbound := seq_end s\<rparr>, ev)
          else if \<not> seq_lt (highest_seq_inbound a) (seq_end s)
          then (a\<lparr>out_of_order_count := out_of_order_count a + 1\<rparr>,
                ev\<lparr>ev_out_of_order := ev_out_of_order ev + 1\<rparr>)
          else (a\<lparr>highest_seq_inbound := seq_end s\<rparr>, ev)
     else (a, ev))"

definition smooth_rtt :: "duration option \<Rightarrow> duration \<Rightarrow> duration" where
  "smooth_rtt srtt rtt = (case srtt of Some srtt \<Rightarrow> (srtt * 7 + rtt) div 8 | None \<Rightarrow> rtt)"

definition complete_rtt_probe ::
  "tcp_segment \<Rightarrow> system_time \<Rightarrow> tcp_analytics \<times> tcp_merge_events \<Rightarrow> tcp_analytics \<times> tcp_merge_events" where
  "complete_rtt_probe s at r = (case r of (a, ev) \<Rightarrow>
     if sg_has_ack_flag s
     then (case rtt_probe a of
         Some (probe_seq, sent_at) \<Rightarrow>
           if \<not> seq_lt (sg_ack s) probe_seq
           then (case duration_since at sent_at of
               Some rtt \<Rightarrow> (a\<lparr>last_rtt := Some rtt, smoothed_rtt := Some (smooth_rtt (smoothed_rtt a) rtt),
                             rtt_samples := rtt_samples a + 1, rtt_probe := None\<rparr>,
                           ev\<lparr>ev_rtt_sample := Some rtt\<rparr>)
             | None \<Rightarrow> (a\<lparr>rtt_probe := None\<rparr>, ev))
           else (a, ev)
       | None \<Rightarrow> (a, ev))
     else (a, ev))"

definition count_duplicate_ack ::
  "tcp_segment \<Rightarrow> tcp_analytics \<times> tcp_merge_events \<Rightarrow> tcp_analytics \<times> tcp_merge_events" where
  "count_duplicate_ack s r = (case r of (a, ev) \<Rightarrow>
     if sg_has_ack_flag s \<and> sg_payload_len s = 0
     then if \<not> seen_ack a
          then (a\<lparr>seen_ack := True, last_ack_received := sg_ack s\<rparr>, ev)
          else if sg_ack s = last_ack_received a
          then (let a = a\<lparr>dup_ack_run := dup_ack_run a + 1,
                          duplicate_ack_count := duplicate_ack_count a + 1\<rparr>
                in if dup_ack_run a = 3
                   then (a\<lparr>fast_retransmit_count := fast_retransmit_count a + 1\<rparr>,
                         ev\<lparr>ev_fast_retransmits := ev_fast_retransmits ev + 1\<rparr>)
                   else (a, ev))
          else if seq_lt (last_ack_received a) (sg_ack s)
          then (a\<lparr>last_ack_received := sg_ack s, dup_ack_run := 0\<rparr>, ev)
          else (a, ev)
     else (a, ev))"

definition analyze_tcp_segment ::
  "tcp_segment \<Rightarrow> system_time \<Rightarrow> tcp_analytics \<Rightarrow> tcp_analytics \<times> tcp_merge_events" where
  "analyze_tcp_segment s at a =
     (let a = a\<lparr>last_window_size := sg_window s\<rparr>
      in if sg_is_outgoing s then analyze_outbound s at a
         else count_duplicate_ack s (complete_rtt_probe s at (analyze_inbound_data s (a, no_events))))"

text \<open>A run over segments with their capture times, and the events of each.\<close>

fun analyze_all ::
  "(tcp_segment \<times> system_time) list \<Rightarrow> tcp_analytics \<Rightarrow> tcp_analytics \<times> tcp_merge_events list" where
  "analyze_all [] a = (a, [])"
| "analyze_all ((s, at) # h) a =
     (let (a', ev) = analyze_tcp_segment s at a; (a'', evs) = analyze_all h a' in (a'', ev # evs))"

lemma analyze_all_Cons:
  "analyze_all ((s, at) # h) a =
     (let (a', ev) = analyze_tcp_segment s at a
      in (fst (analyze_all h a'), ev # snd (analyze_all h a')))"
  by (simp add: Let_def split: prod.split)

lemma analyze_all_append:
  "analyze_all (h @ h') a =
     (let (a', evs) = analyze_all h a; (a'', evs') = analyze_all h' a' in (a'', evs @ evs'))"
  by (induction h a rule: analyze_all.induct) (auto simp: Let_def split: prod.splits)

lemma analyze_all_snoc:
  "fst (analyze_all (h @ [(s, at)]) a) = fst (analyze_tcp_segment s at (fst (analyze_all h a)))"
  "snd (analyze_all (h @ [(s, at)]) a) =
     snd (analyze_all h a) @ [snd (analyze_tcp_segment s at (fst (analyze_all h a)))]"
  by (simp_all add: analyze_all_append Let_def split: prod.split)

lemma length_analyze_all [simp]: "length (snd (analyze_all h a)) = length h"
  by (induction h a rule: analyze_all.induct) (auto simp: Let_def split: prod.split)

section \<open>Sequence space\<close>

text \<open>The comparison agrees with the order of positions less than \<open>2 ^ 31\<close> apart.\<close>

lemma seq_lt_positions:
  assumes "\<bar>p - q\<bar> < 2 ^ 31"
  shows "seq_lt (word_of_int p) (word_of_int q) \<longleftrightarrow> p < q"
proof -
  have "sint (word_of_int (p - q) :: u32) = p - q"
    using assms
    by (simp add: sint_sbintrunc' signed_take_bit_int_eq_self abs_less_iff del: of_int_diff)
  then show ?thesis by (simp add: seq_lt_def)
qed

lemma seq_lt_irrefl [simp]: "\<not> seq_lt a a"
  by (simp add: seq_lt_def)

section \<open>Loss\<close>

text \<open>
  The reference for data sent: the stream has positions without bound, a segment covers
  \<open>[start, start + len)\<close>, and \<open>hi\<close> is the first position not sent yet. It is a resend if it
  ends at or before \<open>hi\<close>.
\<close>

fun resends :: "int option \<Rightarrow> (int \<times> int) list \<Rightarrow> bool list" where
  "resends hi [] = []"
| "resends None ((start, len) # segs) = False # resends (Some (start + len)) segs"
| "resends (Some hi) ((start, len) # segs) =
     (if start + len \<le> hi then True # resends (Some hi) segs
      else False # resends (Some (start + len)) segs)"

text \<open>Every segment ends within \<open>2 ^ 31\<close> of what has been sent, on either side.\<close>

fun in_window :: "int option \<Rightarrow> (int \<times> int) list \<Rightarrow> bool" where
  "in_window hi [] = True"
| "in_window None ((start, len) # segs) \<longleftrightarrow> in_window (Some (start + len)) segs"
| "in_window (Some hi) ((start, len) # segs) \<longleftrightarrow>
     \<bar>start + len - hi\<bar> < 2 ^ 31 \<and> in_window (Some (max hi (start + len))) segs"

text \<open>A segment on the wire and its position in the stream.\<close>

definition carries :: "tcp_segment \<Rightarrow> int \<times> int \<Rightarrow> bool" where
  "carries s p \<longleftrightarrow> sg_seq s = word_of_int (fst p) \<and> 0 < snd p \<and> snd p < 2 ^ 32 \<and>
     sg_payload_len s = word_of_int (snd p)"

definition outbound_top :: "tcp_analytics \<Rightarrow> int option \<Rightarrow> bool" where
  "outbound_top a hi \<longleftrightarrow> (case hi of
     None \<Rightarrow> \<not> seen_outbound a
   | Some t \<Rightarrow> seen_outbound a \<and> highest_seq_outbound a = word_of_int t)"

lemma carries_seq_end: "carries s p \<Longrightarrow> seq_end s = word_of_int (fst p + snd p)"
  by (simp add: carries_def seq_end_def)

lemma carries_payload: "carries s p \<Longrightarrow> sg_payload_len s > 0"
proof -
  assume c: "carries s p"
  then have "uint (sg_payload_len s) = snd p"
    by (simp add: carries_def uint_word_of_int)
  with c have "uint (sg_payload_len s) \<noteq> 0" by (simp add: carries_def)
  then show ?thesis by (simp add: word_gt_0 uint_0_iff)
qed

lemma arm_rtt_probe_frame [simp]:
  "seen_outbound (arm_rtt_probe q t a) = seen_outbound a"
  "highest_seq_outbound (arm_rtt_probe q t a) = highest_seq_outbound a"
  "retransmit_count (arm_rtt_probe q t a) = retransmit_count a"
  by (simp_all add: arm_rtt_probe_def Let_def)

text \<open>What is received leaves the outgoing side alone.\<close>

definition outbound_view :: "tcp_analytics \<times> tcp_merge_events \<Rightarrow> bool \<times> u32 \<times> u64 \<times> u64" where
  "outbound_view r = (seen_outbound (fst r), highest_seq_outbound (fst r), retransmit_count (fst r),
     ev_retransmits (snd r))"

lemma outbound_view_frame:
  "outbound_view (analyze_inbound_data s r) = outbound_view r"
  "outbound_view (complete_rtt_probe s at r) = outbound_view r"
  "outbound_view (count_duplicate_ack s r) = outbound_view r"
  by (cases r; simp add: outbound_view_def analyze_inbound_data_def complete_rtt_probe_def
      count_duplicate_ack_def Let_def split: option.split)+

lemma outbound_frame:
  assumes "\<not> sg_is_outgoing s"
  shows "seen_outbound (fst (analyze_tcp_segment s at a)) = seen_outbound a"
    and "highest_seq_outbound (fst (analyze_tcp_segment s at a)) = highest_seq_outbound a"
    and "ev_retransmits (snd (analyze_tcp_segment s at a)) = 0"
    and "retransmit_count (fst (analyze_tcp_segment s at a)) = retransmit_count a"
proof -
  have "outbound_view (analyze_tcp_segment s at a) =
      (seen_outbound a, highest_seq_outbound a, retransmit_count a, 0)"
    using assms
    by (simp add: analyze_tcp_segment_def outbound_view_frame) (simp add: outbound_view_def no_events_def)
  then show "seen_outbound (fst (analyze_tcp_segment s at a)) = seen_outbound a"
    and "highest_seq_outbound (fst (analyze_tcp_segment s at a)) = highest_seq_outbound a"
    and "ev_retransmits (snd (analyze_tcp_segment s at a)) = 0"
    and "retransmit_count (fst (analyze_tcp_segment s at a)) = retransmit_count a"
    by (simp_all add: outbound_view_def)
qed

text \<open>One data segment sent: the analysis sees a retransmission when the reference does.\<close>

lemma analyze_outbound_step:
  assumes "sg_is_outgoing s" "carries s p" "outbound_top a hi" "in_window hi [p]"
  shows "ev_retransmits (snd (analyze_tcp_segment s at a)) = of_bool (hd (resends hi [p]))"
    and "outbound_top (fst (analyze_tcp_segment s at a))
      (Some (case hi of None \<Rightarrow> fst p + snd p | Some h \<Rightarrow> max h (fst p + snd p)))"
proof -
  obtain start len where p: "p = (start, len)" by (cases p)
  have pay: "sg_payload_len s > 0" by (rule carries_payload [OF assms(2)])
  have e: "seq_end s = word_of_int (start + len)" using carries_seq_end [OF assms(2)] by (simp add: p)
  have "ev_retransmits (snd (analyze_tcp_segment s at a)) = of_bool (hd (resends hi [p])) \<and>
    outbound_top (fst (analyze_tcp_segment s at a))
      (Some (case hi of None \<Rightarrow> fst p + snd p | Some h \<Rightarrow> max h (fst p + snd p)))"
  proof (cases hi)
    case None
    with assms(1,3) pay e show ?thesis
      by (simp add: p analyze_tcp_segment_def analyze_outbound_def outbound_top_def no_events_def)
  next
    case (Some h)
    have "seq_lt (word_of_int h) (word_of_int (start + len)) \<longleftrightarrow> h < start + len"
      by (rule seq_lt_positions) (use assms(4) in \<open>auto simp: p Some\<close>)
    with Some assms(1,3) pay e show ?thesis
      by (auto simp: p analyze_tcp_segment_def analyze_outbound_def outbound_top_def no_events_def
          max_def)
  qed
  then show "ev_retransmits (snd (analyze_tcp_segment s at a)) = of_bool (hd (resends hi [p]))"
    and "outbound_top (fst (analyze_tcp_segment s at a))
      (Some (case hi of None \<Rightarrow> fst p + snd p | Some h \<Rightarrow> max h (fst p + snd p)))" by simp_all
qed

text \<open>
  A history in which each data segment sent has its position in \<open>ps\<close>, in order; everything received
  in between, and segments sent that carry nothing, are arbitrary.
\<close>

fun sends :: "(tcp_segment \<times> system_time) list \<Rightarrow> (int \<times> int) list \<Rightarrow> bool" where
  "sends [] ps \<longleftrightarrow> ps = []"
| "sends ((s, at) # h) ps \<longleftrightarrow>
     (if sg_is_outgoing s \<and> sg_payload_len s > 0
      then ps \<noteq> [] \<and> carries s (hd ps) \<and> sends h (tl ps) else sends h ps)"

fun sent_events :: "(tcp_segment \<times> system_time) list \<Rightarrow> tcp_merge_events list \<Rightarrow> tcp_merge_events list" where
  "sent_events ((s, at) # h) (ev # evs) =
     (if sg_is_outgoing s \<and> sg_payload_len s > 0 then ev # sent_events h evs else sent_events h evs)"
| "sent_events _ _ = []"

lemma outbound_empty:
  assumes "sg_is_outgoing s" "\<not> sg_payload_len s > 0"
  shows "seen_outbound (fst (analyze_tcp_segment s at a)) = seen_outbound a"
    and "highest_seq_outbound (fst (analyze_tcp_segment s at a)) = highest_seq_outbound a"
  using assms by (simp_all add: analyze_tcp_segment_def analyze_outbound_def)

lemma resends_Cons:
  "resends hi (p # ps) = hd (resends hi [p]) #
     resends (Some (case hi of None \<Rightarrow> fst p + snd p | Some h \<Rightarrow> max h (fst p + snd p))) ps"
  by (cases p; cases hi) (auto simp: max_def)

lemma in_window_Cons:
  "in_window hi (p # ps) \<longleftrightarrow> in_window hi [p] \<and>
     in_window (Some (case hi of None \<Rightarrow> fst p + snd p | Some h \<Rightarrow> max h (fst p + snd p))) ps"
  by (cases p; cases hi) auto

lemma retransmissions_refine:
  assumes "sends h ps" "outbound_top a hi" "in_window hi ps"
  shows "map ev_retransmits (sent_events h (snd (analyze_all h a))) = map of_bool (resends hi ps)"
  using assms
proof (induction h arbitrary: ps a hi)
  case (Cons x h)
  obtain s at where x: "x = (s, at)" by (cases x)
  let ?a = "fst (analyze_tcp_segment s at a)"
  show ?case
  proof (cases "sg_is_outgoing s \<and> sg_payload_len s > 0")
    case True
    with Cons.prems(1) obtain p ps' where ps: "ps = p # ps'" "carries s p" "sends h ps'"
      by (cases ps) (auto simp: x)
    have "in_window hi (p # ps')" using Cons.prems(3) by (simp only: ps(1))
    note window = this [THEN iffD1 [OF in_window_Cons]]
    note step = analyze_outbound_step [OF conjunct1 [OF True] ps(2) Cons.prems(2) conjunct1 [OF window], of at]
    from Cons.IH [OF ps(3) step(2) conjunct2 [OF window]] step(1) True show ?thesis
      by (simp add: x ps(1) resends_Cons [of hi p ps'] analyze_all_Cons case_prod_beta del: analyze_all.simps)
  next
    case False
    then have "outbound_top ?a hi"
      using Cons.prems(2) outbound_frame(1,2) [of s at a] outbound_empty [of s at a]
      by (cases "sg_is_outgoing s") (auto simp: outbound_top_def split: option.splits)
    from Cons.IH [OF _ this Cons.prems(3)] Cons.prems(1) False show ?thesis
      by (simp add: x analyze_all_Cons case_prod_beta del: analyze_all.simps)
  qed
qed (simp add: outbound_top_def)

section \<open>Round trips\<close>

text \<open>
  Where a pending probe comes from: a data segment sent at that time, ending at that sequence
  number, that moved the stream forward, and after which no retransmission was seen.
\<close>

definition probe_origin ::
  "tcp_analytics \<Rightarrow> (tcp_segment \<times> system_time) list \<Rightarrow> u32 \<Rightarrow> system_time \<Rightarrow> bool" where
  "probe_origin a0 h q t \<longleftrightarrow> (\<exists>xs s ys. h = xs @ (s, t) # ys \<and> sg_is_outgoing s \<and>
     sg_payload_len s > 0 \<and> q = seq_end s \<and>
     (\<forall>ev \<in> set (drop (length xs) (snd (analyze_all h a0))). ev_retransmits ev = 0))"

lemma probe_origin_snoc:
  assumes "probe_origin a0 h q t"
    and "ev_retransmits (snd (analyze_tcp_segment s at (fst (analyze_all h a0)))) = 0"
  shows "probe_origin a0 (h @ [(s, at)]) q t"
proof -
  from assms(1) obtain xs s' ys where h: "h = xs @ (s', t) # ys" "sg_is_outgoing s'"
    "sg_payload_len s' > 0" "q = seq_end s'"
    "\<forall>ev \<in> set (drop (length xs) (snd (analyze_all h a0))). ev_retransmits ev = 0"
    unfolding probe_origin_def by blast
  have "\<forall>ev \<in> set (drop (length xs) (snd (analyze_all (h @ [(s, at)]) a0))). ev_retransmits ev = 0"
    using h(5) assms(2) by (auto simp: analyze_all_snoc dest: in_set_dropD)
  moreover have "h @ [(s, at)] = xs @ (s', t) # (ys @ [(s, at)])" by (simp add: h(1))
  ultimately show ?thesis using h(2-4) unfolding probe_origin_def by blast
qed

lemma probe_origin_new:
  assumes "sg_is_outgoing s" "sg_payload_len s > 0"
    and "ev_retransmits (snd (analyze_tcp_segment s at (fst (analyze_all h a0)))) = 0"
  shows "probe_origin a0 (h @ [(s, at)]) (seq_end s) at"
  unfolding probe_origin_def
proof (intro exI conjI)
  show "h @ [(s, at)] = h @ (s, at) # []" by simp
  show "\<forall>ev \<in> set (drop (length h) (snd (analyze_all (h @ [(s, at)]) a0))). ev_retransmits ev = 0"
    using assms(3) by (simp add: analyze_all_snoc)
qed (use assms in simp_all)

text \<open>How one segment changes the probe.\<close>

lemma probe_outbound:
  assumes "sg_is_outgoing s"
  shows "rtt_probe (fst (analyze_tcp_segment s at a)) = rtt_probe a \<and>
      ev_retransmits (snd (analyze_tcp_segment s at a)) = 0 \<or>
    rtt_probe (fst (analyze_tcp_segment s at a)) = None \<or>
    rtt_probe (fst (analyze_tcp_segment s at a)) = Some (seq_end s, at) \<and> sg_payload_len s > 0 \<and>
      ev_retransmits (snd (analyze_tcp_segment s at a)) = 0"
  using assms by (auto simp: analyze_tcp_segment_def analyze_outbound_def arm_rtt_probe_def no_events_def Let_def)

lemma rtt_view_frame:
  "rtt_probe (fst (analyze_inbound_data s r)) = rtt_probe (fst r)"
  "rtt_probe (fst (count_duplicate_ack s r)) = rtt_probe (fst r)"
  "ev_rtt_sample (snd (analyze_inbound_data s r)) = ev_rtt_sample (snd r)"
  "ev_rtt_sample (snd (count_duplicate_ack s r)) = ev_rtt_sample (snd r)"
  by (cases r; simp add: analyze_inbound_data_def count_duplicate_ack_def Let_def)+

lemma probe_inbound:
  assumes "\<not> sg_is_outgoing s"
  shows "rtt_probe (fst (analyze_tcp_segment s at a)) \<in> {rtt_probe a, None}"
    and "ev_rtt_sample (snd (analyze_tcp_segment s at a)) = Some rtt \<Longrightarrow>
      \<exists>q t. rtt_probe a = Some (q, t) \<and> sg_has_ack_flag s \<and> \<not> seq_lt (sg_ack s) q \<and>
        t \<le> at \<and> rtt = nat (at - t)"
proof -
  obtain a' ev where ae: "analyze_inbound_data s (a\<lparr>last_window_size := sg_window s\<rparr>, no_events) = (a', ev)"
    by (cases "analyze_inbound_data s (a\<lparr>last_window_size := sg_window s\<rparr>, no_events)")
  with rtt_view_frame(1,3) [of s "(a\<lparr>last_window_size := sg_window s\<rparr>, no_events)"]
  have a': "rtt_probe a' = rtt_probe a" "ev_rtt_sample ev = None" by (simp_all add: no_events_def)
  show "rtt_probe (fst (analyze_tcp_segment s at a)) \<in> {rtt_probe a, None}"
    using assms a'
    by (simp add: analyze_tcp_segment_def rtt_view_frame ae complete_rtt_probe_def split: option.split)
  show "\<exists>q t. rtt_probe a = Some (q, t) \<and> sg_has_ack_flag s \<and> \<not> seq_lt (sg_ack s) q \<and>
        t \<le> at \<and> rtt = nat (at - t)"
    if "ev_rtt_sample (snd (analyze_tcp_segment s at a)) = Some rtt"
    using that assms a'
    by (cases "rtt_probe a") (auto simp: analyze_tcp_segment_def rtt_view_frame ae complete_rtt_probe_def duration_since_def
        split: option.splits if_splits)
qed

lemma probe_has_origin:
  assumes "rtt_probe a0 = None" "rtt_probe (fst (analyze_all h a0)) = Some (q, t)"
  shows "probe_origin a0 h q t"
  using assms(2)
proof (induction h arbitrary: q t rule: rev_induct)
  case Nil
  with assms(1) show ?case by simp
next
  case (snoc x h)
  obtain s at where x: "x = (s, at)" by (cases x)
  let ?a = "fst (analyze_all h a0)"
  have probe: "rtt_probe (fst (analyze_tcp_segment s at ?a)) = Some (q, t)"
    using snoc.prems by (simp add: x analyze_all_snoc)
  show ?case
  proof (cases "sg_is_outgoing s")
    case True
    with probe_outbound [OF True, of at ?a] probe snoc.IH [of q t] show ?thesis
      by (auto simp: x intro: probe_origin_snoc probe_origin_new)
  next
    case False
    with probe_inbound(1) [OF False, of at ?a] probe snoc.IH [of q t] outbound_frame(3) [OF False]
    show ?thesis by (auto simp: x intro: probe_origin_snoc)
  qed
qed

text \<open>A sample is the time from such a segment to the acknowledgement that covers it.\<close>

lemma outbound_no_sample:
  "sg_is_outgoing s \<Longrightarrow> ev_rtt_sample (snd (analyze_tcp_segment s at a)) = None"
  by (simp add: analyze_tcp_segment_def analyze_outbound_def no_events_def Let_def)

lemma rtt_sample_sound:
  assumes "rtt_probe a0 = None"
    and "ev_rtt_sample (snd (analyze_tcp_segment s at (fst (analyze_all h a0)))) = Some rtt"
  shows "\<not> sg_is_outgoing s \<and> (\<exists>q t. probe_origin a0 h q t \<and> sg_has_ack_flag s \<and>
    \<not> seq_lt (sg_ack s) q \<and> t \<le> at \<and> rtt = nat (at - t))"
proof -
  have inb: "\<not> sg_is_outgoing s" using assms(2) outbound_no_sample [of s at] by auto
  from probe_inbound(2) [OF this assms(2)] probe_has_origin [OF assms(1)] inb show ?thesis by blast
qed

text \<open>Smoothing stays between the previous estimate and the sample.\<close>

lemma smooth_rtt_bounds: "min s r \<le> smooth_rtt (Some s) r \<and> smooth_rtt (Some s) r \<le> max s r"
  by (auto simp: smooth_rtt_def min_def max_def)

section \<open>Duplicate acknowledgements\<close>

text \<open>
  A run of \<open>n\<close> pure acknowledgements that repeat the last one counts one fast retransmit if it
  reaches three, however long it gets.
\<close>

definition dup_ack :: "u32 \<Rightarrow> tcp_segment \<Rightarrow> bool" where
  "dup_ack a s \<longleftrightarrow> \<not> sg_is_outgoing s \<and> sg_has_ack_flag s \<and> sg_payload_len s = 0 \<and> sg_ack s = a"

lemma ack_view_frame:
  "seen_ack (fst (complete_rtt_probe s at r)) = seen_ack (fst r)"
  "last_ack_received (fst (complete_rtt_probe s at r)) = last_ack_received (fst r)"
  "dup_ack_run (fst (complete_rtt_probe s at r)) = dup_ack_run (fst r)"
  "ev_fast_retransmits (snd (complete_rtt_probe s at r)) = ev_fast_retransmits (snd r)"
  by (cases r; simp add: complete_rtt_probe_def split: option.split)+

lemma dup_ack_step:
  assumes "dup_ack k s" "seen_ack a" "last_ack_received a = k"
  shows "seen_ack (fst (analyze_tcp_segment s at a))"
    and "last_ack_received (fst (analyze_tcp_segment s at a)) = k"
    and "dup_ack_run (fst (analyze_tcp_segment s at a)) = dup_ack_run a + 1"
    and "ev_fast_retransmits (snd (analyze_tcp_segment s at a)) = of_bool (dup_ack_run a + 1 = 3)"
proof -
  let ?r = "complete_rtt_probe s at (a\<lparr>last_window_size := sg_window s\<rparr>, no_events)"
  have "analyze_tcp_segment s at a = count_duplicate_ack s ?r"
    using assms(1) by (simp add: analyze_tcp_segment_def analyze_inbound_data_def dup_ack_def)
  moreover obtain a' ev where "?r = (a', ev)" by (cases ?r)
  moreover from this ack_view_frame [of s at "(a\<lparr>last_window_size := sg_window s\<rparr>, no_events)"]
  have "seen_ack a' = seen_ack a" "last_ack_received a' = last_ack_received a"
    "dup_ack_run a' = dup_ack_run a" "ev_fast_retransmits ev = 0" by (simp_all add: no_events_def)
  ultimately show "seen_ack (fst (analyze_tcp_segment s at a))"
    and "last_ack_received (fst (analyze_tcp_segment s at a)) = k"
    and "dup_ack_run (fst (analyze_tcp_segment s at a)) = dup_ack_run a + 1"
    and "ev_fast_retransmits (snd (analyze_tcp_segment s at a)) = of_bool (dup_ack_run a + 1 = 3)"
    using assms by (simp_all add: count_duplicate_ack_def dup_ack_def Let_def)
qed

lemma dup_ack_run_events:
  assumes "\<forall>(s, at) \<in> set h. dup_ack k s" "seen_ack a" "last_ack_received a = k"
  shows "map ev_fast_retransmits (snd (analyze_all h a)) =
    map (\<lambda>i. of_bool (dup_ack_run a + word_of_nat (Suc i) = 3)) [0 ..< length h]"
  using assms
proof (induction h arbitrary: a)
  case (Cons x h)
  obtain s at where x: "x = (s, at)" by (cases x)
  have d: "dup_ack k s" using Cons.prems(1) by (simp add: x)
  note step = dup_ack_step [OF d Cons.prems(2,3), of at]
  have "map ev_fast_retransmits (snd (analyze_all h (fst (analyze_tcp_segment s at a)))) =
      map (\<lambda>i. of_bool (dup_ack_run a + 1 + word_of_nat (Suc i) = 3)) [0 ..< length h]"
    using Cons.IH [OF _ step(1,2)] Cons.prems(1) by (simp add: step(3))
  then show ?case
    by (simp add: x analyze_all_Cons case_prod_beta step(4) upt_conv_Cons map_Suc_upt [symmetric]
        o_def algebra_simps del: analyze_all.simps upt.simps)
qed simp

end
