(* ===== verification/Rate_Tracking.thy ===== *)
theory Rate_Tracking
  imports Core_Types "HOL-Library.While_Combinator"
begin

text \<open>
  The sliding window of byte counts behind the displayed rates: \<^verbatim>\<open>RateTracker\<close> of \<^verbatim>\<open>types.rs\<close>.
  The oldest sample is the head of the list. The invariant \<open>rates_ok\<close> says that the running
  totals are the sums of the window, which is what makes the constant-time rate correct; the
  final division, in floating point, is not modelled.
\<close>

definition rate_saturating_sub :: "u64 \<Rightarrow> u64 \<Rightarrow> u64" where
  "rate_saturating_sub a b = (if b \<le> a then a - b else 0)"

definition new_rate_tracker :: "instant \<Rightarrow> rate_tracker" where
  "new_rate_tracker now = \<lparr>rt_samples = [], rt_window_duration = from_secs 10, rt_last_update = now,
     rt_max_samples = 20000, rt_last_bytes_sent = 0, rt_last_bytes_received = 0,
     rt_window_sent_total = 0, rt_window_received_total = 0\<rparr>"

definition initialize_with_counts :: "u64 \<Rightarrow> u64 \<Rightarrow> rate_tracker \<Rightarrow> rate_tracker" where
  "initialize_with_counts sent received t =
     t\<lparr>rt_last_bytes_sent := sent, rt_last_bytes_received := received\<rparr>"

text \<open>Popping the oldest sample, with its deltas leaving the totals.\<close>

definition pop_oldest :: "rate_tracker \<Rightarrow> rate_tracker" where
  "pop_oldest t = (case rt_samples t of
     [] \<Rightarrow> t
   | old # rest \<Rightarrow> t\<lparr>rt_samples := rest,
       rt_window_sent_total := rate_saturating_sub (rt_window_sent_total t) (rs_delta_sent old),
       rt_window_received_total :=
         rate_saturating_sub (rt_window_received_total t) (rs_delta_received old)\<rparr>)"

text \<open>The two loops of the code: down to the cap, and past the samples before the cutoff.\<close>

function pop_to_cap :: "rate_tracker \<Rightarrow> rate_tracker" where
  "pop_to_cap t =
     (if length (rt_samples t) > rt_max_samples t then pop_to_cap (pop_oldest t) else t)"
  by auto

termination
  by (relation "measure (\<lambda>t. length (rt_samples t))") (auto simp: pop_oldest_def split: list.split)

function pop_before :: "instant \<Rightarrow> rate_tracker \<Rightarrow> rate_tracker" where
  "pop_before cutoff t = (case rt_samples t of
     [] \<Rightarrow> t
   | oldest # _ \<Rightarrow> if rs_timestamp oldest \<ge> cutoff then t else pop_before cutoff (pop_oldest t))"
  by auto

termination
  by (relation "measure (\<lambda>(_, t). length (rt_samples t))") (auto simp: pop_oldest_def split: list.split)

declare pop_to_cap.simps [simp del] pop_before.simps [simp del]

definition rate_update_at :: "instant \<Rightarrow> u64 \<Rightarrow> u64 \<Rightarrow> rate_tracker \<Rightarrow> rate_tracker" where
  "rate_update_at now sent received t =
     (let delta_sent = rate_saturating_sub sent (rt_last_bytes_sent t);
          delta_received = rate_saturating_sub received (rt_last_bytes_received t);
          t = t\<lparr>rt_samples := rt_samples t @ [\<lparr>rs_timestamp = now, rs_delta_sent = delta_sent,
                                            rs_delta_received = delta_received\<rparr>],
                rt_window_sent_total := rt_window_sent_total t + delta_sent,
                rt_window_received_total := rt_window_received_total t + delta_received\<rparr>;
          t = pop_to_cap t
      in t\<lparr>rt_last_bytes_sent := sent, rt_last_bytes_received := received, rt_last_update := now\<rparr>)"

definition rate_prune :: "rate_tracker \<Rightarrow> rate_tracker" where
  "rate_prune t =
     (let cutoff = rt_last_update t - int (rt_window_duration t);
          needs_prune = length (rt_samples t) > rt_max_samples t \<or>
            (case rt_samples t of [] \<Rightarrow> False | oldest # _ \<Rightarrow> rs_timestamp oldest < cutoff)
      in if \<not> needs_prune then t else pop_to_cap (pop_before cutoff t))"

definition clone_without_samples :: "rate_tracker \<Rightarrow> rate_tracker" where
  "clone_without_samples t =
     t\<lparr>rt_samples := [], rt_window_sent_total := 0, rt_window_received_total := 0\<rparr>"

section \<open>The invariant\<close>

definition sum_sent :: "rate_sample list \<Rightarrow> nat" where
  "sum_sent xs = sum_list (map (unat \<circ> rs_delta_sent) xs)"

definition sum_received :: "rate_sample list \<Rightarrow> nat" where
  "sum_received xs = sum_list (map (unat \<circ> rs_delta_received) xs)"

text \<open>
  The totals are the sums of the window, and the window is part of the bytes counted so far, so
  the 64-bit additions do not wrap.
\<close>

definition totals_ok :: "rate_tracker \<Rightarrow> bool" where
  "totals_ok t \<longleftrightarrow> unat (rt_window_sent_total t) = sum_sent (rt_samples t) \<and>
     unat (rt_window_received_total t) = sum_received (rt_samples t)"

definition rates_ok :: "rate_tracker \<Rightarrow> bool" where
  "rates_ok t \<longleftrightarrow> totals_ok t \<and> length (rt_samples t) \<le> rt_max_samples t \<and>
     sum_sent (rt_samples t) \<le> unat (rt_last_bytes_sent t) \<and>
     sum_received (rt_samples t) \<le> unat (rt_last_bytes_received t)"

lemma unat_rate_saturating_sub: "unat (rate_saturating_sub a b) = unat a - unat b"
  by (simp add: rate_saturating_sub_def unat_sub word_le_nat_alt)

lemma totals_ok_pop: "totals_ok t \<Longrightarrow> totals_ok (pop_oldest t)"
  by (cases "rt_samples t")
    (simp_all add: totals_ok_def pop_oldest_def sum_sent_def sum_received_def unat_rate_saturating_sub)

lemma pop_oldest_samples [simp]: "rt_samples (pop_oldest t) = tl (rt_samples t)"
  by (simp add: pop_oldest_def split: list.split)

lemma pop_oldest_frame [simp]:
  "rt_max_samples (pop_oldest t) = rt_max_samples t"
  "rt_window_duration (pop_oldest t) = rt_window_duration t"
  "rt_last_update (pop_oldest t) = rt_last_update t"
  "rt_last_bytes_sent (pop_oldest t) = rt_last_bytes_sent t"
  "rt_last_bytes_received (pop_oldest t) = rt_last_bytes_received t"
  by (simp_all add: pop_oldest_def split: list.split)

lemma pop_to_cap_spec:
  assumes "totals_ok t"
  shows "totals_ok (pop_to_cap t) \<and>
    rt_samples (pop_to_cap t) = drop (length (rt_samples t) - rt_max_samples t) (rt_samples t) \<and>
    rt_max_samples (pop_to_cap t) = rt_max_samples t \<and>
    rt_window_duration (pop_to_cap t) = rt_window_duration t \<and>
    rt_last_update (pop_to_cap t) = rt_last_update t \<and>
    rt_last_bytes_sent (pop_to_cap t) = rt_last_bytes_sent t \<and>
    rt_last_bytes_received (pop_to_cap t) = rt_last_bytes_received t"
  using assms
proof (induction t rule: pop_to_cap.induct)
  case (1 t)
  show ?case
  proof (cases "length (rt_samples t) > rt_max_samples t")
    case True
    note IH = "1.IH" [OF True totals_ok_pop [OF "1.prems"]]
    have "drop (length (rt_samples t) - rt_max_samples t) (rt_samples t) =
        drop (length (tl (rt_samples t)) - rt_max_samples t) (tl (rt_samples t))"
      using True by (cases "rt_samples t") (simp_all add: Suc_diff_le)
    moreover have "pop_to_cap t = pop_to_cap (pop_oldest t)"
      using True by (simp add: pop_to_cap.simps [of t])
    ultimately show ?thesis using IH by simp
  qed (use "1.prems" in \<open>simp add: pop_to_cap.simps [of t]\<close>)
qed

lemma pop_before_spec:
  assumes "totals_ok t"
  shows "totals_ok (pop_before cutoff t) \<and>
    rt_samples (pop_before cutoff t) = dropWhile (\<lambda>s. rs_timestamp s < cutoff) (rt_samples t) \<and>
    rt_max_samples (pop_before cutoff t) = rt_max_samples t \<and>
    rt_window_duration (pop_before cutoff t) = rt_window_duration t \<and>
    rt_last_update (pop_before cutoff t) = rt_last_update t \<and>
    rt_last_bytes_sent (pop_before cutoff t) = rt_last_bytes_sent t \<and>
    rt_last_bytes_received (pop_before cutoff t) = rt_last_bytes_received t"
  using assms
proof (induction cutoff t rule: pop_before.induct)
  case (1 cutoff t)
  show ?case
  proof (cases "rt_samples t")
    case Nil
    with "1.prems" show ?thesis by (simp add: pop_before.simps [of cutoff t])
  next
    case (Cons s rest)
    with "1.IH" [OF Cons _ totals_ok_pop [OF "1.prems"]] "1.prems" show ?thesis
      by (simp add: pop_before.simps [of cutoff t])
  qed
qed

lemma sum_drop_le: "sum_sent (drop n xs) \<le> sum_sent xs" "sum_received (drop n xs) \<le> sum_received xs"
proof -
  have "sum_sent (take n xs @ drop n xs) = sum_sent (take n xs) + sum_sent (drop n xs)"
    "sum_received (take n xs @ drop n xs) = sum_received (take n xs) + sum_received (drop n xs)"
    by (simp_all add: sum_sent_def sum_received_def del: append_take_drop_id)
  then show "sum_sent (drop n xs) \<le> sum_sent xs" "sum_received (drop n xs) \<le> sum_received xs"
    by simp_all
qed

text \<open>
  Byte counts of a connection only grow; then an update keeps the invariant, with the samples it
  should have: the newest \<open>rt_max_samples\<close>, the new one last.
\<close>

lemma rate_update_ok:
  assumes "rates_ok t" "rt_last_bytes_sent t \<le> sent" "rt_last_bytes_received t \<le> received"
  shows "rates_ok (rate_update_at now sent received t)"
proof -
  let ?ds = "rate_saturating_sub sent (rt_last_bytes_sent t)"
  let ?dr = "rate_saturating_sub received (rt_last_bytes_received t)"
  let ?s = "\<lparr>rs_timestamp = now, rs_delta_sent = ?ds, rs_delta_received = ?dr\<rparr>"
  let ?t = "t\<lparr>rt_samples := rt_samples t @ [?s], rt_window_sent_total := rt_window_sent_total t + ?ds,
              rt_window_received_total := rt_window_received_total t + ?dr\<rparr>"
  have sums: "sum_sent (rt_samples t @ [?s]) = sum_sent (rt_samples t) + (unat sent - unat (rt_last_bytes_sent t))"
    "sum_received (rt_samples t @ [?s]) =
      sum_received (rt_samples t) + (unat received - unat (rt_last_bytes_received t))"
    by (simp_all add: sum_sent_def sum_received_def unat_rate_saturating_sub)
  have le: "sum_sent (rt_samples t @ [?s]) \<le> unat sent" "sum_received (rt_samples t @ [?s]) \<le> unat received"
    using assms unfolding sums rates_ok_def word_le_nat_alt by linarith+
  moreover have "unat (rt_window_sent_total t + ?ds) = sum_sent (rt_samples t @ [?s])"
    using assms(1) le(1) unat_bound [of sent]
    by (simp add: unat_word_ariths sums unat_rate_saturating_sub rates_ok_def totals_ok_def)
  moreover have "unat (rt_window_received_total t + ?dr) = sum_received (rt_samples t @ [?s])"
    using assms(1) le(2) unat_bound [of received]
    by (simp add: unat_word_ariths sums unat_rate_saturating_sub rates_ok_def totals_ok_def)
  ultimately have "totals_ok ?t" by (simp add: totals_ok_def)
  note cap = pop_to_cap_spec [OF this]
  have "rate_update_at now sent received t = (pop_to_cap ?t)\<lparr>rt_last_bytes_sent := sent,
      rt_last_bytes_received := received, rt_last_update := now\<rparr>"
    by (simp add: rate_update_at_def Let_def)
  moreover have "length (rt_samples (pop_to_cap ?t)) \<le> rt_max_samples t"
    using cap by simp
  moreover have samples: "rt_samples (pop_to_cap ?t) =
      drop (length (rt_samples ?t) - rt_max_samples ?t) (rt_samples t @ [?s])"
    using cap by simp
  have "sum_sent (rt_samples (pop_to_cap ?t)) \<le> unat sent"
    unfolding samples by (rule order_trans [OF sum_drop_le(1) le(1)])
  moreover have "sum_received (rt_samples (pop_to_cap ?t)) \<le> unat received"
    unfolding samples by (rule order_trans [OF sum_drop_le(2) le(2)])
  ultimately show ?thesis using cap by (simp add: rates_ok_def totals_ok_def)
qed

lemma rate_prune_ok:
  assumes "rates_ok t"
  shows "rates_ok (rate_prune t)"
proof -
  let ?cut = "rt_last_update t - int (rt_window_duration t)"
  have t: "totals_ok t" using assms by (simp add: rates_ok_def)
  note before = pop_before_spec [OF t, of ?cut]
  note cap = pop_to_cap_spec [OF conjunct1 [OF before]]
  obtain n where n: "dropWhile (\<lambda>s. rs_timestamp s < ?cut) (rt_samples t) = drop n (rt_samples t)"
    using dropWhile_eq_drop by blast
  have "rates_ok (pop_to_cap (pop_before ?cut t))"
    using cap before assms sum_drop_le [of _ "rt_samples t"]
    by (auto simp: rates_ok_def n drop_drop intro: order_trans)
  with assms show ?thesis by (simp add: rate_prune_def Let_def)
qed

section \<open>The loops end\<close>

text \<open>
  The two loops as the code writes them, \<^verbatim>\<open>while\<close> with a test and a body: both end on every
  tracker, with what the recursive definitions compute.
\<close>

definition over_cap :: "rate_tracker \<Rightarrow> bool" where
  "over_cap t \<longleftrightarrow> length (rt_samples t) > rt_max_samples t"

definition starts_before :: "instant \<Rightarrow> rate_tracker \<Rightarrow> bool" where
  "starts_before cutoff t \<longleftrightarrow> (case rt_samples t of
     [] \<Rightarrow> False
   | oldest # _ \<Rightarrow> rs_timestamp oldest < cutoff)"

lemma while_over_cap: "while_option over_cap pop_oldest t = Some (pop_to_cap t)"
proof (induction t rule: pop_to_cap.induct)
  case (1 t)
  show ?case
  proof (cases "over_cap t")
    case True
    then have "while_option over_cap pop_oldest (pop_oldest t) = Some (pop_to_cap (pop_oldest t))"
      by (intro 1) (simp add: over_cap_def)
    moreover from True have "pop_to_cap t = pop_to_cap (pop_oldest t)"
      by (simp add: over_cap_def pop_to_cap.simps [of t])
    ultimately show ?thesis using True by (subst while_option_unfold) simp
  next
    case False
    then have "pop_to_cap t = t" by (simp add: over_cap_def pop_to_cap.simps [of t])
    with False show ?thesis by (subst while_option_unfold) simp
  qed
qed

lemma while_starts_before: "while_option (starts_before cutoff) pop_oldest t = Some (pop_before cutoff t)"
proof (induction cutoff t rule: pop_before.induct)
  case (1 cutoff t)
  show ?case
  proof (cases "starts_before cutoff t")
    case True
    then obtain s rest where s: "rt_samples t = s # rest" "\<not> rs_timestamp s \<ge> cutoff"
      by (auto simp: starts_before_def split: list.splits)
    then have "while_option (starts_before cutoff) pop_oldest (pop_oldest t) = Some (pop_before cutoff (pop_oldest t))"
      by (rule 1)
    moreover from s have "pop_before cutoff t = pop_before cutoff (pop_oldest t)"
      by (simp add: pop_before.simps [of cutoff t])
    ultimately show ?thesis using True by (subst while_option_unfold) simp
  next
    case False
    then have "pop_before cutoff t = t"
      by (auto simp: starts_before_def pop_before.simps [of cutoff t] split: list.splits)
    with False show ?thesis by (subst while_option_unfold) simp
  qed
qed

end
