(* ===== verification/App_Merge.thy ===== *)
theory App_Merge
  imports Core_Types "HOL-Library.Sublist" "HOL-Library.Char_ord"
begin

text \<open>
  How what one packet says about the application is folded into what is known of its connection:
  \<^verbatim>\<open>merge_dpi_info\<close> of \<^verbatim>\<open>merge.rs\<close> and the function per protocol it calls. The extraction of TLS
  data from reassembled QUIC frames (\<^verbatim>\<open>try_extract_tls_from_reassembler\<close> of \<^verbatim>\<open>dpi/quic.rs\<close>) is an
  argument, \<open>extract\<close>: from a reassembler and whether partial names are allowed to a result and
  the reassembler it leaves. Everything proved here holds whatever it does; \<open>Packet_Merge\<close> gives it
  \<open>extract_tls\<close>.
\<close>

type_synonym tls_extractor = "reassembler \<Rightarrow> bool \<Rightarrow> TlsInfo option \<times> reassembler"

definition PARTIAL_SNI_MARKER :: unicode where
  "PARTIAL_SNI_MARKER = map of_char ''[PARTIAL]''"

definition is_partial_sni :: "unicode \<Rightarrow> bool" where
  "is_partial_sni sni \<longleftrightarrow> suffix PARTIAL_SNI_MARKER sni"

definition MAX_MERGED_RESPONSE_IPS :: nat where
  "MAX_MERGED_RESPONSE_IPS = 64"

text \<open>\<^verbatim>\<open>if old.is_none() && new.is_some() { old = new }\<close>, and \<^verbatim>\<open>if new.is_some() { old = new }\<close>.\<close>

definition set_once :: "'a option \<Rightarrow> 'a option \<Rightarrow> 'a option" where
  "set_once old new = (if old = None \<and> new \<noteq> None then new else old)"

definition set_latest :: "'a option \<Rightarrow> 'a option \<Rightarrow> 'a option" where
  "set_latest old new = (if new \<noteq> None then new else old)"

lemma set_once_simps [simp]: "set_once None new = new" "set_once (Some x) new = Some x"
  by (simp_all add: set_once_def)

section \<open>One function per protocol\<close>

definition merge_http_info :: "HttpInfo \<Rightarrow> HttpInfo \<Rightarrow> HttpInfo" where
  "merge_http_info old new =
     old\<lparr>ht_method := set_once (ht_method old) (ht_method new),
         ht_path := set_once (ht_path old) (ht_path new),
         ht_host := set_once (ht_host old) (ht_host new),
         ht_user_agent := set_once (ht_user_agent old) (ht_user_agent new),
         ht_status_code := set_once (ht_status_code old) (ht_status_code new)\<rparr>"

definition merge_tls :: "TlsInfo \<Rightarrow> TlsInfo \<Rightarrow> TlsInfo" where
  "merge_tls old new =
     old\<lparr>tls_version := set_once (tls_version old) (tls_version new),
         tls_sni := set_once (tls_sni old) (tls_sni new),
         tls_alpn := (if tls_alpn old = [] \<and> tls_alpn new \<noteq> [] then tls_alpn new else tls_alpn old),
         tls_cipher_suite := set_once (tls_cipher_suite old) (tls_cipher_suite new)\<rparr>"

definition merge_https_info :: "HttpsInfo \<Rightarrow> HttpsInfo \<Rightarrow> HttpsInfo" where
  "merge_https_info old new =
     (case (hs_tls_info old, hs_tls_info new) of
        (None, Some t) \<Rightarrow> old\<lparr>hs_tls_info := Some t\<rparr>
      | (Some o', Some n) \<Rightarrow> old\<lparr>hs_tls_info := Some (merge_tls o' n)\<rparr>
      | _ \<Rightarrow> old)"

text \<open>DNS: the loop over the new addresses, with its \<^verbatim>\<open>break\<close> at the cap.\<close>

fun merge_response_ips :: "ip_addr list \<Rightarrow> ip_addr list \<Rightarrow> ip_addr list" where
  "merge_response_ips old [] = old"
| "merge_response_ips old (ip # ips) =
     (if length old \<ge> MAX_MERGED_RESPONSE_IPS then old
      else if ip \<notin> set old then merge_response_ips (old @ [ip]) ips
      else merge_response_ips old ips)"

definition merge_dns_info :: "DnsInfo \<Rightarrow> DnsInfo \<Rightarrow> DnsInfo" where
  "merge_dns_info old new =
     old\<lparr>dns_query_name := set_once (dns_query_name old) (dns_query_name new),
         dns_query_type := set_once (dns_query_type old) (dns_query_type new),
         dns_response_ips := merge_response_ips (dns_response_ips old) (dns_response_ips new),
         dns_is_response := (if dns_is_response new then True else dns_is_response old)\<rparr>"

fun merge_ssh_state :: "SshConnectionState \<Rightarrow> SshConnectionState \<Rightarrow> SshConnectionState" where
  "merge_ssh_state Banner new = new"
| "merge_ssh_state KeyExchange Authentication = Authentication"
| "merge_ssh_state KeyExchange SshEstablished = SshEstablished"
| "merge_ssh_state Authentication SshEstablished = SshEstablished"
| "merge_ssh_state old _ = old"

fun add_missing :: "unicode list \<Rightarrow> unicode list \<Rightarrow> unicode list" where
  "add_missing old [] = old"
| "add_missing old (a # as) = (if a \<notin> set old then add_missing (old @ [a]) as else add_missing old as)"

definition merge_ssh_info :: "SshInfo \<Rightarrow> SshInfo \<Rightarrow> SshInfo" where
  "merge_ssh_info old new =
     old\<lparr>ssh_version := set_once (ssh_version old) (ssh_version new),
         ssh_client_software := set_once (ssh_client_software old) (ssh_client_software new),
         ssh_server_software := set_once (ssh_server_software old) (ssh_server_software new),
         ssh_connection_state := merge_ssh_state (ssh_connection_state old) (ssh_connection_state new),
         ssh_algorithms :=
           (if ssh_connection_state new = SshEstablished \<and> ssh_algorithms new \<noteq> []
            then ssh_algorithms new else add_missing (ssh_algorithms old) (ssh_algorithms new)),
         ssh_auth_method := set_once (ssh_auth_method old) (ssh_auth_method new)\<rparr>"

definition merge_ftp_info :: "FtpInfo \<Rightarrow> FtpInfo \<Rightarrow> FtpInfo" where
  "merge_ftp_info old new =
     old\<lparr>ftp_username := set_once (ftp_username old) (ftp_username new),
         ftp_server_software := set_once (ftp_server_software old) (ftp_server_software new),
         ftp_system_type := set_once (ftp_system_type old) (ftp_system_type new),
         ftp_message_type := ftp_message_type new,
         ftp_command := set_latest (ftp_command old) (ftp_command new),
         ftp_args := set_latest (ftp_args old) (ftp_args new),
         ftp_response_code := set_latest (ftp_response_code old) (ftp_response_code new),
         ftp_response_message := set_latest (ftp_response_message old) (ftp_response_message new)\<rparr>"

definition merge_mqtt_info :: "MqttInfo \<Rightarrow> MqttInfo \<Rightarrow> MqttInfo" where
  "merge_mqtt_info old new =
     old\<lparr>mq_version := set_once (mq_version old) (mq_version new),
         mq_client_id := set_once (mq_client_id old) (mq_client_id new),
         mq_topic := set_once (mq_topic old) (mq_topic new),
         mq_qos := set_once (mq_qos old) (mq_qos new),
         mq_packet_type := mq_packet_type new\<rparr>"

definition merge_bittorrent_info :: "BitTorrentInfo \<Rightarrow> BitTorrentInfo \<Rightarrow> BitTorrentInfo" where
  "merge_bittorrent_info old new =
     old\<lparr>bt_client := (if bt_client old = None then bt_client new else bt_client old),
         bt_info_hash := (if bt_info_hash old = None then bt_info_hash new else bt_info_hash old)\<rparr>"

section \<open>QUIC\<close>

text \<open>The state, the packet type, the identifier and the version.\<close>

definition merge_quic_header :: "QuicInfo \<Rightarrow> QuicInfo \<Rightarrow> QuicInfo" where
  "merge_quic_header new old =
     old\<lparr>qi_connection_state :=
           (if quic_priority (qi_connection_state new) > quic_priority (qi_connection_state old)
            then qi_connection_state new else qi_connection_state old),
         qi_packet_type := qi_packet_type new,
         qi_connection_id :=
           (if qi_connection_id old = [] \<and> qi_connection_id new \<noteq> [] then qi_connection_id new
            else qi_connection_id old),
         qi_connection_id_hex :=
           (if qi_connection_id old = [] \<and> qi_connection_id new \<noteq> [] then qi_connection_id_hex new
            else qi_connection_id_hex old),
         qi_version_string := set_once (qi_version_string old) (qi_version_string new)\<rparr>"

definition sni_partial :: "TlsInfo \<Rightarrow> bool" where
  "sni_partial t \<longleftrightarrow> (case tls_sni t of None \<Rightarrow> False | Some s \<Rightarrow> is_partial_sni s)"

definition sni_complete :: "TlsInfo \<Rightarrow> bool" where
  "sni_complete t \<longleftrightarrow> (case tls_sni t of None \<Rightarrow> False | Some s \<Rightarrow> \<not> is_partial_sni s)"

text \<open>The fragments of the packet join those of the connection, and the name is looked for again.\<close>

definition merge_quic_fragments ::
  "tls_extractor \<Rightarrow> QuicInfo \<Rightarrow> reassembler \<Rightarrow> reassembler \<Rightarrow> QuicInfo \<Rightarrow> QuicInfo" where
  "merge_quic_fragments extract new new_r old_r old =
     (let old_r = add_fragments (fragments new_r) old_r;
          should_retry = (case qi_tls_info old of
              None \<Rightarrow> True
            | Some tls \<Rightarrow> tls_sni tls = None \<or> sni_partial tls);
          (tls, old_r) =
            (if should_retry
             then (case extract old_r False of
                 (Some t, r) \<Rightarrow> (Some t, r)
               | (None, r) \<Rightarrow> (case extract r True of
                   (Some t, r) \<Rightarrow> (Some t, r)
                 | (None, r) \<Rightarrow> (qi_tls_info old, r)))
             else (qi_tls_info old, old_r));
          tls = (case get_cached_tls_info new_r of
              None \<Rightarrow> tls
            | Some t \<Rightarrow>
                (case tls of
                   None \<Rightarrow> Some t
                 | Some o' \<Rightarrow> if tls_sni o' = None \<or> sni_partial o' \<and> sni_complete t then Some t
                             else tls))
      in old\<lparr>qi_crypto_reassembler := Some old_r, qi_tls_info := tls\<rparr>)"

definition merge_quic_crypto :: "tls_extractor \<Rightarrow> QuicInfo \<Rightarrow> QuicInfo \<Rightarrow> QuicInfo" where
  "merge_quic_crypto extract new old = (case qi_crypto_reassembler new of
     None \<Rightarrow> old
   | Some new_r \<Rightarrow> (case qi_crypto_reassembler old of
        None \<Rightarrow> old\<lparr>qi_crypto_reassembler := Some new_r\<rparr>
      | Some old_r \<Rightarrow> merge_quic_fragments extract new new_r old_r old))"

definition merge_quic_tls :: "QuicInfo \<Rightarrow> QuicInfo \<Rightarrow> QuicInfo" where
  "merge_quic_tls new old = (case (qi_tls_info old, qi_tls_info new) of
     (None, Some t) \<Rightarrow> old\<lparr>qi_tls_info := Some t\<rparr>
   | (Some o', Some n) \<Rightarrow>
       old\<lparr>qi_tls_info := Some (o'\<lparr>
         tls_sni := (if tls_sni o' = None \<and> tls_sni n \<noteq> None then tls_sni n
                     else if sni_partial o' \<and> tls_sni n \<noteq> None \<and> \<not> sni_partial n then tls_sni n
                     else tls_sni o'),
         tls_alpn := (if tls_alpn o' = [] \<and> tls_alpn n \<noteq> [] then tls_alpn n else tls_alpn o'),
         tls_version := set_once (tls_version o') (tls_version n),
         tls_cipher_suite := set_once (tls_cipher_suite o') (tls_cipher_suite n)\<rparr>)\<rparr>
   | _ \<Rightarrow> old)"

definition quic_close_state :: "quic_close_info \<Rightarrow> quic_connection_state" where
  "quic_close_state c =
     (if close_frame_type c = 0x1c \<and> close_error_code c = 0 then QuicDraining
      else if close_frame_type c = 0x1c then QuicClosed
      else if close_frame_type c = 0x1d then QuicClosed
      else QuicClosed)"

definition merge_quic_close :: "QuicInfo \<Rightarrow> QuicInfo \<Rightarrow> QuicInfo" where
  "merge_quic_close new old = (case qi_connection_close new of
     None \<Rightarrow> old
   | Some c \<Rightarrow> old\<lparr>qi_connection_close := Some c, qi_connection_state := quic_close_state c\<rparr>)"

definition merge_quic_info :: "tls_extractor \<Rightarrow> QuicInfo \<Rightarrow> QuicInfo \<Rightarrow> QuicInfo" where
  "merge_quic_info extract old new =
     (let old = merge_quic_header new old;
          old = merge_quic_crypto extract new old;
          old = merge_quic_tls new old;
          old = (if qi_has_crypto_frame new then old\<lparr>qi_has_crypto_frame := True\<rparr> else old);
          old = merge_quic_close new old
      in old\<lparr>qi_idle_timeout := set_latest (qi_idle_timeout old) (qi_idle_timeout new)\<rparr>)"

section \<open>Dispatch\<close>

definition merge_application ::
  "tls_extractor \<Rightarrow> application_protocol \<Rightarrow> application_protocol \<Rightarrow> application_protocol" where
  "merge_application x old new = (case old of
       AppHttp o' \<Rightarrow> (case new of AppHttp n \<Rightarrow> AppHttp (merge_http_info o' n) | _ \<Rightarrow> old)
     | AppHttps o' \<Rightarrow> (case new of AppHttps n \<Rightarrow> AppHttps (merge_https_info o' n) | _ \<Rightarrow> old)
     | AppQuic o' \<Rightarrow> (case new of AppQuic n \<Rightarrow> AppQuic (merge_quic_info x o' n) | _ \<Rightarrow> old)
     | AppDns o' \<Rightarrow> (case new of AppDns n \<Rightarrow> AppDns (merge_dns_info o' n) | _ \<Rightarrow> old)
     | AppSsh o' \<Rightarrow> (case new of AppSsh n \<Rightarrow> AppSsh (merge_ssh_info o' n) | _ \<Rightarrow> old)
     | AppBitTorrent o' \<Rightarrow> (case new of AppBitTorrent n \<Rightarrow> AppBitTorrent (merge_bittorrent_info o' n) | _ \<Rightarrow> old)
     | AppMqtt o' \<Rightarrow> (case new of AppMqtt n \<Rightarrow> AppMqtt (merge_mqtt_info o' n) | _ \<Rightarrow> old)
     | AppFtp o' \<Rightarrow> (case new of AppFtp n \<Rightarrow> AppFtp (merge_ftp_info o' n) | _ \<Rightarrow> old)
     | _ \<Rightarrow> old)"

definition merge_dpi_info ::
  "tls_extractor \<Rightarrow> instant \<Rightarrow> application_protocol \<Rightarrow> dpi_info option \<Rightarrow> dpi_info option" where
  "merge_dpi_info extract inst app d = (case d of
     None \<Rightarrow> Some \<lparr>di_application = app, di_last_update_time = inst\<rparr>
   | Some d \<Rightarrow> Some (d\<lparr>di_last_update_time := inst,
       di_application := merge_application extract (di_application d) app\<rparr>))"

section \<open>DNS answers stay bounded\<close>

lemma merge_response_ips_bound:
  "length old \<le> MAX_MERGED_RESPONSE_IPS \<Longrightarrow> length (merge_response_ips old ips) \<le> MAX_MERGED_RESPONSE_IPS"
  by (induction old ips rule: merge_response_ips.induct) auto

lemma merge_response_ips_distinct:
  "distinct old \<Longrightarrow> distinct (merge_response_ips old ips)"
  by (induction old ips rule: merge_response_ips.induct) auto

lemma merge_response_ips_mono: "set old \<subseteq> set (merge_response_ips old ips)"
  by (induction old ips rule: merge_response_ips.induct) auto

lemma merge_response_ips_sound: "set (merge_response_ips old ips) \<subseteq> set old \<union> set ips"
  by (induction old ips rule: merge_response_ips.induct) auto

lemma merge_response_ips_complete:
  "length (merge_response_ips old ips) < MAX_MERGED_RESPONSE_IPS \<Longrightarrow>
     set ips \<subseteq> set (merge_response_ips old ips)"
proof (induction old ips rule: merge_response_ips.induct)
  case (2 old ip ips)
  then show ?case
    using merge_response_ips_mono [of "old @ [ip]" ips] merge_response_ips_mono [of old ips]
    by (auto split: if_splits)
qed simp

section \<open>A closed QUIC connection stays closed\<close>

lemma merge_quic_frame:
  "qi_connection_close (merge_quic_header new old) = qi_connection_close old"
  "qi_connection_close (merge_quic_crypto x new old) = qi_connection_close old"
  "qi_connection_close (merge_quic_tls new old) = qi_connection_close old"
  "qi_connection_state (merge_quic_crypto x new old) = qi_connection_state old"
  "qi_connection_state (merge_quic_tls new old) = qi_connection_state old"
  by (simp_all add: merge_quic_header_def merge_quic_crypto_def merge_quic_fragments_def
      merge_quic_tls_def Let_def split: option.split prod.split)

lemma merge_quic_close_frame:
  "qi_connection_close (merge_quic_info x old new) =
     (case qi_connection_close new of None \<Rightarrow> qi_connection_close old | Some c \<Rightarrow> Some c)"
  by (simp add: merge_quic_info_def merge_quic_close_def merge_quic_frame Let_def split: option.split)

lemma merge_quic_state:
  "qi_connection_state (merge_quic_info x old new) =
     (case qi_connection_close new of
        Some c \<Rightarrow> quic_close_state c
      | None \<Rightarrow> if quic_priority (qi_connection_state new) > quic_priority (qi_connection_state old)
               then qi_connection_state new else qi_connection_state old)"
  by (simp add: merge_quic_info_def merge_quic_close_def merge_quic_frame merge_quic_header_def
      Let_def split: option.split)

lemma quic_priority_terminal: "s \<in> {QuicDraining, QuicClosed} \<longleftrightarrow> quic_priority s \<ge> 4"
  by (cases s) simp_all

lemma quic_close_state_terminal: "quic_close_state c \<in> {QuicDraining, QuicClosed}"
  by (simp add: quic_close_state_def)

lemma quic_terminal_merge:
  assumes "quic_terminal old"
  shows "quic_terminal (merge_quic_info x old new)"
proof (cases "qi_connection_close new")
  case None
  then show ?thesis
    using assms unfolding quic_terminal_def quic_priority_terminal
    by (auto simp: merge_quic_close_frame merge_quic_state)
qed (use quic_close_state_terminal in \<open>simp add: quic_terminal_def merge_quic_close_frame\<close>)

text \<open>Without a close frame the state only moves forward; a later close frame can move it back.\<close>

lemma quic_state_forward:
  "qi_connection_close new = None \<Longrightarrow>
     quic_priority (qi_connection_state old) \<le> quic_priority (qi_connection_state (merge_quic_info x old new))"
  by (simp add: merge_quic_state)

lemma merge_application_quic:
  "merge_application x (AppQuic q) n = (case n of AppQuic q' \<Rightarrow> AppQuic (merge_quic_info x q q') | _ \<Rightarrow> AppQuic q)"
  by (cases n) (simp_all add: merge_application_def)

lemma merge_application_not_quic:
  "(\<forall>q. a \<noteq> AppQuic q) \<Longrightarrow> merge_application x a n \<noteq> AppQuic q"
  by (cases a) (auto simp: merge_application_def split: application_protocol.split)

section \<open>A complete server name is never replaced\<close>

lemma merge_quic_complete_sni:
  assumes "qi_tls_info old = Some t" "sni_complete t"
  shows "\<exists>t'. qi_tls_info (merge_quic_info x old new) = Some t' \<and> tls_sni t' = tls_sni t"
proof -
  obtain n where sni: "tls_sni t = Some n" "\<not> sni_partial t"
    using assms(2) by (auto simp: sni_complete_def sni_partial_def split: option.splits)
  have "qi_tls_info (merge_quic_header new old) = Some t"
    using assms(1) by (simp add: merge_quic_header_def)
  then have "qi_tls_info (merge_quic_crypto x new (merge_quic_header new old)) = Some t"
    using sni by (simp add: merge_quic_crypto_def merge_quic_fragments_def Let_def split: option.split)
  then have "\<exists>t'. qi_tls_info (merge_quic_tls new (merge_quic_crypto x new (merge_quic_header new old)))
      = Some t' \<and> tls_sni t' = tls_sni t"
    using sni by (auto simp: merge_quic_tls_def split: option.split)
  then show ?thesis
    by (simp add: merge_quic_info_def Let_def merge_quic_close_def split: option.split)
qed

end
