(* ===== verification/Slices.thy ===== *)
theory Slices
  imports Net_Addr "HOL-Library.Monad_Syntax"
begin

text \<open>
  Byte slices as Rust has them. An index or a slice out of bounds panics: an expression that
  may panic has type \<open>'a option\<close>, \<open>None\<close> being the panic, and the code is written in \<^verbatim>\<open>do\<close>
  notation. A Rust \<^verbatim>\<open>Option\<close> is the option inside. The rules of \<open>inbounds\<close> discharge accesses
  whose bounds have been checked.
\<close>

type_synonym bytes = "byte list"

named_theorems inbounds \<open>accesses within bounds\<close>

definition byte_at :: "bytes \<Rightarrow> nat \<Rightarrow> byte option" where
  "byte_at d i = (if i < length d then Some (d ! i) else None)"

text \<open>\<^verbatim>\<open>&d[i..]\<close>, \<^verbatim>\<open>&d[..n]\<close> and \<^verbatim>\<open>&d[i..j]\<close>.\<close>

definition slice_from :: "'a list \<Rightarrow> nat \<Rightarrow> 'a list option" where
  "slice_from d i = (if i \<le> length d then Some (drop i d) else None)"

definition slice_to :: "'a list \<Rightarrow> nat \<Rightarrow> 'a list option" where
  "slice_to d n = (if n \<le> length d then Some (take n d) else None)"

definition subslice :: "'a list \<Rightarrow> nat \<Rightarrow> nat \<Rightarrow> 'a list option" where
  "subslice d i j = (if i \<le> j \<and> j \<le> length d then Some (take (j - i) (drop i d)) else None)"

text \<open>\<^verbatim>\<open>u16::from_be_bytes([d[i], d[i + 1]])\<close> and the like.\<close>

definition be16_at :: "bytes \<Rightarrow> nat \<Rightarrow> u16 option" where
  "be16_at d i = do { a \<leftarrow> byte_at d i; b \<leftarrow> byte_at d (i + 1); Some (rd16 Big [a, b]) }"

definition be32_at :: "bytes \<Rightarrow> nat \<Rightarrow> u32 option" where
  "be32_at d i = do {
     a \<leftarrow> byte_at d i; b \<leftarrow> byte_at d (i + 1); c \<leftarrow> byte_at d (i + 2); e \<leftarrow> byte_at d (i + 3);
     Some (rd32 Big [a, b, c, e]) }"

text \<open>\<^verbatim>\<open>Ipv4Addr::new\<close> of four octets, \<^verbatim>\<open>Ipv6Addr::new\<close> of eight segments.\<close>

definition ipv4_at :: "bytes \<Rightarrow> nat \<Rightarrow> ip_addr option" where
  "ipv4_at d i = do {
     a \<leftarrow> byte_at d i; b \<leftarrow> byte_at d (i + 1); c \<leftarrow> byte_at d (i + 2); e \<leftarrow> byte_at d (i + 3);
     Some (V4 (rd32 Big [a, b, c, e])) }"

definition ipv6_of_segments :: "u16 list \<Rightarrow> ipv6" where
  "ipv6_of_segments ss = word_of_nat (dec Big (concat (map (wr16 Big) ss)))"

definition ipv6_at :: "bytes \<Rightarrow> nat \<Rightarrow> ip_addr option" where
  "ipv6_at d i = do {
     s0 \<leftarrow> be16_at d i; s1 \<leftarrow> be16_at d (i + 2); s2 \<leftarrow> be16_at d (i + 4); s3 \<leftarrow> be16_at d (i + 6);
     s4 \<leftarrow> be16_at d (i + 8); s5 \<leftarrow> be16_at d (i + 10); s6 \<leftarrow> be16_at d (i + 12); s7 \<leftarrow> be16_at d (i + 14);
     Some (V6 (ipv6_of_segments [s0, s1, s2, s3, s4, s5, s6, s7])) }"

section \<open>Accesses within bounds\<close>

lemma byte_at_in [inbounds]: "i < length d \<Longrightarrow> byte_at d i = Some (d ! i)"
  by (simp add: byte_at_def)

lemma slice_from_in [inbounds]: "i \<le> length d \<Longrightarrow> slice_from d i = Some (drop i d)"
  by (simp add: slice_from_def)

lemma slice_to_in [inbounds]: "n \<le> length d \<Longrightarrow> slice_to d n = Some (take n d)"
  by (simp add: slice_to_def)

lemma subslice_in [inbounds]:
  "i \<le> j \<Longrightarrow> j \<le> length d \<Longrightarrow> subslice d i j = Some (take (j - i) (drop i d))"
  by (simp add: subslice_def)

lemma take_nths:
  "i + 1 < length d \<Longrightarrow> take 2 (drop i d) = [d ! i, d ! (i + 1)]"
  "i + 3 < length d \<Longrightarrow> take 4 (drop i d) = [d ! i, d ! (i + 1), d ! (i + 2), d ! (i + 3)]"
  by (simp_all add: Cons_nth_drop_Suc [symmetric] numeral_eq_Suc)

lemma be16_at_in [inbounds]: "i + 1 < length d \<Longrightarrow> be16_at d i = Some (rd16 Big (take 2 (drop i d)))"
  by (simp add: be16_at_def inbounds take_nths)

lemma be32_at_in [inbounds]: "i + 3 < length d \<Longrightarrow> be32_at d i = Some (rd32 Big (take 4 (drop i d)))"
  by (simp add: be32_at_def inbounds take_nths)

lemma ipv4_at_in [inbounds]: "i + 3 < length d \<Longrightarrow> ipv4_at d i = Some (V4 (rd32 Big (take 4 (drop i d))))"
  by (simp add: ipv4_at_def inbounds take_nths)

lemma wr16_rd16_take: "i + 1 < length d \<Longrightarrow> wr16 Big (rd16 Big (take 2 (drop i d))) = take 2 (drop i d)"
  by (simp add: wr16_rd16)

lemma ipv6_at_in [inbounds]:
  assumes "i + 15 < length d"
  shows "ipv6_at d i = Some (V6 (word_of_nat (dec Big (take 16 (drop i d)))))"
proof -
  have t: "take (2 + n) (drop k d) = take 2 (drop k d) @ take n (drop (k + 2) d)" for n k
    by (simp only: take_add drop_drop) (simp add: add.commute)
  have "take 16 (drop i d) = take (2 + (2 + (2 + (2 + (2 + (2 + (2 + (2 + 0)))))))) (drop i d)" by simp
  also have "\<dots> = concat (map (\<lambda>k. take 2 (drop (i + k) d)) [0, 2, 4, 6, 8, 10, 12, 14])"
    by (simp only: t) (simp add: numeral_eq_Suc)
  finally show ?thesis
    using assms by (simp add: ipv6_at_def inbounds ipv6_of_segments_def wr16_rd16_take)
qed

section \<open>Computations that do not panic\<close>

text \<open>
  \<open>yields m P\<close>: \<open>m\<close> does not panic, and its result satisfies \<open>P\<close>. The rules \<open>wp\<close> compute what
  that takes.
\<close>

definition yields :: "'a option \<Rightarrow> ('a \<Rightarrow> bool) \<Rightarrow> bool" where
  "yields m P \<longleftrightarrow> (case m of Some x \<Rightarrow> P x | None \<Rightarrow> False)"

named_theorems wp \<open>what a computation needs in order to yield\<close>

lemma yields_simps [wp, simp]:
  "yields (Some x) P \<longleftrightarrow> P x"
  "yields None P \<longleftrightarrow> False"
  by (simp_all add: yields_def)

lemma yields_bind [wp]: "yields (m \<bind> f) P \<longleftrightarrow> yields m (\<lambda>x. yields (f x) P)"
  by (cases m) simp_all

lemma yields_if [wp]: "yields (if b then m else n) P \<longleftrightarrow> (b \<longrightarrow> yields m P) \<and> (\<not> b \<longrightarrow> yields n P)"
  by simp

lemma yields_option [wp]:
  "yields (case r of None \<Rightarrow> m | Some x \<Rightarrow> f x) P \<longleftrightarrow>
     (r = None \<longrightarrow> yields m P) \<and> (\<forall>x. r = Some x \<longrightarrow> yields (f x) P)"
  by (cases r) simp_all

lemma yields_pair [wp]: "yields (case x of (a, b) \<Rightarrow> f a b) P \<longleftrightarrow> yields (f (fst x) (snd x)) P"
  by (cases x) simp

lemma yields_let [wp]: "yields (Let x f) P \<longleftrightarrow> yields (f x) P"
  by (simp add: Let_def)

lemma yields_mono: "yields m P \<Longrightarrow> (\<And>x. P x \<Longrightarrow> Q x) \<Longrightarrow> yields m Q"
  by (cases m) simp_all

lemma yields_conj: "yields m (\<lambda>x. P x \<and> Q x) \<longleftrightarrow> yields m P \<and> yields m Q"
  by (cases m) auto

lemma yields_not_None: "yields m P \<Longrightarrow> m \<noteq> None"
  by (cases m) simp_all

lemma yieldsE: "yields m P \<Longrightarrow> (\<And>x. m = Some x \<Longrightarrow> P x \<Longrightarrow> thesis) \<Longrightarrow> thesis"
  by (cases m) simp_all

lemma yields_access [wp]:
  "yields (byte_at d i) P \<longleftrightarrow> i < length d \<and> P (d ! i)"
  "yields (slice_from xs i) Q \<longleftrightarrow> i \<le> length xs \<and> Q (drop i xs)"
  "yields (slice_to xs n) Q \<longleftrightarrow> n \<le> length xs \<and> Q (take n xs)"
  "yields (subslice xs i j) Q \<longleftrightarrow> i \<le> j \<and> j \<le> length xs \<and> Q (take (j - i) (drop i xs))"
  by (auto simp: byte_at_def slice_from_def slice_to_def subslice_def)

lemma yields_word [wp]:
  "yields (be16_at d i) P \<longleftrightarrow> i + 1 < length d \<and> P (rd16 Big (take 2 (drop i d)))"
  "yields (be32_at d i) Q \<longleftrightarrow> i + 3 < length d \<and> Q (rd32 Big (take 4 (drop i d)))"
  "yields (ipv4_at d i) R \<longleftrightarrow> i + 3 < length d \<and> R (V4 (rd32 Big (take 4 (drop i d))))"
  by (auto simp: be16_at_def be32_at_def ipv4_at_def wp take_nths)

lemma yields_ipv6 [wp]:
  "yields (ipv6_at d i) R \<longleftrightarrow> i + 15 < length d \<and> R (V6 (word_of_nat (dec Big (take 16 (drop i d)))))"
proof (cases "i + 15 < length d")
  case False
  then have "\<not> yields (ipv6_at d i) R"
    by (simp add: ipv6_at_def wp)
  with False show ?thesis by simp
qed (simp add: ipv6_at_in)

section \<open>Encodings at the front of a slice\<close>

text \<open>What has been written is read back.\<close>

lemma be16_at_wr [simp]: "be16_at (wr16 Big w @ d) 0 = Some w"
  by (simp add: be16_at_in)

lemma be32_at_wr [simp]: "be32_at (wr32 Big w @ d) 0 = Some w"
  by (simp add: be32_at_in)

text \<open>An access by what the slice holds from there on.\<close>

lemma drop_further: "drop i d = p @ r \<Longrightarrow> j = i + length p \<Longrightarrow> drop j d = r"
  by (metis add.commute append_eq_conv_conj drop_drop)

lemma byte_at_drop: "drop i d = b # r \<Longrightarrow> byte_at d i = Some b"
  by (metis byte_at_in drop_eq_Nil list.distinct(1) not_le nth_via_drop)

lemma be16_at_drop:
  assumes "drop i d = wr16 Big w @ r"
  shows "be16_at d i = Some w"
proof -
  from assms have "length d - i = 2 + length r" by (metis length_append length_drop length_wr(1))
  with assms show ?thesis by (simp add: be16_at_in)
qed

lemma subslice_drop:
  assumes "drop i d = p @ r" "i \<le> length d" "j = i + length p"
  shows "subslice d i j = Some p"
proof -
  from assms(1) have "length d - i = length p + length r" by (metis length_append length_drop)
  with assms show ?thesis by (simp add: subslice_def)
qed

lemma ipv6_of_octets [simp]: "(word_of_nat (dec Big (octets6 a)) :: ipv6) = a"
  by (simp add: dec_octets6)

end
