(* ===== verification/Rust_Strings.thy ===== *)
theory Rust_Strings
  imports Slices Utf8 App_Protocols
begin

text \<open>
  Rust strings: lists of code points, with the operations of \<^verbatim>\<open>str\<close> and \<^verbatim>\<open>char\<close> the parsers use.
  Positions and lengths of a Rust string count the bytes of its UTF-8 encoding.
\<close>

section \<open>UTF-8\<close>

fun char_len :: "nat \<Rightarrow> nat" where
  "char_len c = (if c < 0x80 then 1 else if c < 0x800 then 2 else if c < 0x10000 then 3 else 4)"

definition str_len :: "unicode \<Rightarrow> nat" where
  "str_len s = sum_list (map char_len s)"

fun encode_char :: "nat \<Rightarrow> nat list" where
  "encode_char c =
     (if c < 0x80 then [c]
      else if c < 0x800 then [0xC0 + c div 64, 0x80 + c mod 64]
      else if c < 0x10000 then [0xE0 + c div 4096, 0x80 + c div 64 mod 64, 0x80 + c mod 64]
      else [0xF0 + c div 262144, 0x80 + c div 4096 mod 64, 0x80 + c div 64 mod 64, 0x80 + c mod 64])"

definition utf8_bytes :: "unicode \<Rightarrow> byte list" where
  "utf8_bytes s = map word_of_nat (concat (map encode_char s))"

text \<open>
  \<^verbatim>\<open>str::from_utf8\<close> fails where the lossy decoding would have to replace something: the bytes are
  valid exactly if they are the encoding of what they decode to.
\<close>

definition from_utf8 :: "bytes \<Rightarrow> unicode option" where
  "from_utf8 bs = (let s = from_utf8_lossy bs in if utf8_bytes s = bs then Some s else None)"

lemma str_len_append [simp]: "str_len (s @ t) = str_len s + str_len t" "str_len (c # s) = char_len c + str_len s"
    "str_len [] = 0"
  by (simp_all add: str_len_def)

lemma length_le_str_len: "length s \<le> str_len s"
  by (induction s) auto

lemma length_encode_char: "length (encode_char c) = char_len c"
  by simp

lemma length_utf8_bytes: "length (utf8_bytes s) = str_len s"
  by (induction s) (simp_all add: utf8_bytes_def length_encode_char del: encode_char.simps char_len.simps)

lemma from_utf8_len: "from_utf8 bs = Some s \<Longrightarrow> str_len s = length bs"
  by (auto simp: from_utf8_def Let_def length_utf8_bytes [symmetric] split: if_splits)

lemma utf8_bytes_ascii: "\<forall>c \<in> set s. c < 0x80 \<Longrightarrow> utf8_bytes s = map word_of_nat s"
  by (induction s) (auto simp: utf8_bytes_def)

lemma str_len_ascii: "\<forall>c \<in> set s. c < 0x80 \<Longrightarrow> str_len s = length s"
  by (induction s) auto

text \<open>ASCII bytes are valid and decode to themselves.\<close>

lemma from_utf8_ascii:
  assumes "\<forall>b \<in> set bs. unat b < 0x80"
  shows "from_utf8 bs = Some (map unat bs)"
  using assms by (simp add: from_utf8_def from_utf8_lossy_ascii utf8_bytes_ascii comp_def)

section \<open>Characters\<close>

text \<open>The characters of the Unicode property \<open>White_Space\<close>.\<close>

definition is_whitespace :: "nat \<Rightarrow> bool" where
  "is_whitespace c \<longleftrightarrow> c \<in> {0x9, 0xA, 0xB, 0xC, 0xD, 0x20, 0x85, 0xA0, 0x1680, 0x2028, 0x2029, 0x202F, 0x205F, 0x3000} \<or>
     0x2000 \<le> c \<and> c \<le> 0x200A"

definition is_ascii_digit :: "nat \<Rightarrow> bool" where
  "is_ascii_digit c \<longleftrightarrow> 48 \<le> c \<and> c \<le> 57"

definition is_ascii_alphabetic :: "nat \<Rightarrow> bool" where
  "is_ascii_alphabetic c \<longleftrightarrow> 65 \<le> c \<and> c \<le> 90 \<or> 97 \<le> c \<and> c \<le> 122"

definition to_ascii_lowercase :: "nat \<Rightarrow> nat" where
  "to_ascii_lowercase c = (if 65 \<le> c \<and> c \<le> 90 then c + 32 else c)"

definition to_ascii_uppercase :: "nat \<Rightarrow> nat" where
  "to_ascii_uppercase c = (if 97 \<le> c \<and> c \<le> 122 then c - 32 else c)"

text \<open>A literal of the source.\<close>

definition str :: "string \<Rightarrow> unicode" where
  "str s = map of_char s"

section \<open>Trimming and splitting\<close>

definition trim_start :: "unicode \<Rightarrow> unicode" where
  "trim_start s = dropWhile is_whitespace s"

definition trim_end :: "unicode \<Rightarrow> unicode" where
  "trim_end s = rev (dropWhile is_whitespace (rev s))"

definition trim :: "unicode \<Rightarrow> unicode" where
  "trim s = trim_end (trim_start s)"

text \<open>\<^verbatim>\<open>split\<close> at a character: one piece more than the character occurs.\<close>

fun split_char :: "nat \<Rightarrow> unicode \<Rightarrow> unicode list" where
  "split_char c [] = [[]]"
| "split_char c (x # xs) =
     (if x = c then [] # split_char c xs
      else (case split_char c xs of p # ps \<Rightarrow> (x # p) # ps | [] \<Rightarrow> [[x]]))"

lemma split_char_nonempty [simp]: "split_char c s \<noteq> []"
  by (induction s) (auto split: list.splits)

definition split_once :: "nat \<Rightarrow> unicode \<Rightarrow> (unicode \<times> unicode) option" where
  "split_once c s = (if c \<in> set s
     then Some (takeWhile (\<lambda>x. x \<noteq> c) s, drop 1 (dropWhile (\<lambda>x. x \<noteq> c) s)) else None)"

text \<open>A slice of a string panics off its end and inside a character.\<close>

fun str_skip :: "nat \<Rightarrow> unicode \<Rightarrow> unicode option" where
  "str_skip n [] = (if n = 0 then Some [] else None)"
| "str_skip n (c # s) =
     (if n = 0 then Some (c # s) else if char_len c \<le> n then str_skip (n - char_len c) s else None)"

definition str_slice :: "unicode \<Rightarrow> nat \<Rightarrow> nat \<Rightarrow> unicode option" where
  "str_slice s i j = (if i \<le> j
     then do { t \<leftarrow> str_skip i s; u \<leftarrow> str_skip j s; Some (take (length t - length u) t) } else None)"

lemma str_skip_ascii:
  "\<forall>c \<in> set s. c < 0x80 \<Longrightarrow> n \<le> length s \<Longrightarrow> str_skip n s = Some (drop n s)"
  by (induction n s rule: str_skip.induct) (auto simp: drop_Cons')

lemma str_slice_ascii:
  "\<forall>c \<in> set s. c < 0x80 \<Longrightarrow> i \<le> j \<Longrightarrow> j \<le> length s \<Longrightarrow> str_slice s i j = Some (take (j - i) (drop i s))"
  by (simp add: str_slice_def str_skip_ascii)

section \<open>Numbers\<close>

definition digit_value :: "nat \<Rightarrow> nat option" where
  "digit_value c =
     (if 48 \<le> c \<and> c \<le> 57 then Some (c - 48)
      else if 97 \<le> c \<and> c \<le> 122 then Some (c - 87)
      else if 65 \<le> c \<and> c \<le> 90 then Some (c - 55)
      else None)"

fun digits_value :: "nat \<Rightarrow> nat \<Rightarrow> unicode \<Rightarrow> nat \<Rightarrow> nat option" where
  "digits_value radix bound [] acc = Some acc"
| "digits_value radix bound (c # cs) acc = (case digit_value c of
     None \<Rightarrow> None
   | Some d \<Rightarrow> if d < radix \<and> acc * radix + d < bound then digits_value radix bound cs (acc * radix + d) else None)"

text \<open>\<^verbatim>\<open>from_str_radix\<close> of an unsigned type with values below \<open>bound\<close>; one plus sign is allowed.\<close>

definition from_str_radix :: "nat \<Rightarrow> nat \<Rightarrow> unicode \<Rightarrow> nat option" where
  "from_str_radix radix bound s = (case s of
     [] \<Rightarrow> None
   | c # cs \<Rightarrow> (let digits = (if c = 43 then cs else s) in
       if digits = [] then None else digits_value radix bound digits 0))"

definition u8_from_hex :: "unicode \<Rightarrow> byte option" where
  "u8_from_hex s = map_option word_of_nat (from_str_radix 16 256 s)"

definition hex_char :: "nat \<Rightarrow> nat" where
  "hex_char n = (if n < 10 then 48 + n else 87 + n)"

text \<open>\<^verbatim>\<open>{:02x}\<close> of a byte.\<close>

definition hex2 :: "byte \<Rightarrow> unicode" where
  "hex2 b = [hex_char (unat b div 16), hex_char (unat b mod 16)]"

lemma digit_value_hex: "n < 16 \<Longrightarrow> digit_value (hex_char n) = Some n"
  by (simp add: digit_value_def hex_char_def)

lemma hex_digit_range: "n < 16 \<Longrightarrow> 48 \<le> hex_char n \<and> hex_char n < 103 \<and> hex_char n \<noteq> 58"
  by (auto simp: hex_char_def)

lemma u8_from_hex2 [simp]: "u8_from_hex (hex2 b) = Some b"
proof -
  have b: "unat b < 256" using unat_bound [of b] by simp
  then have "hex_char (unat b div 16) \<noteq> 43"
    using hex_digit_range [of "unat b div 16"] by (simp add: less_mult_imp_div_less)
  with b show ?thesis
    by (simp add: u8_from_hex_def from_str_radix_def hex2_def digit_value_hex less_mult_imp_div_less)
qed

section \<open>Lines and words\<close>

text \<open>
  Lines, words and literals of text, as the text protocols are inspected: iterators of \<^verbatim>\<open>str\<close> are
  the lists they run through.
\<close>

section \<open>Bytes\<close>

text \<open>A byte-string literal.\<close>

definition bstr :: "string \<Rightarrow> bytes" where
  "bstr s = map of_char s"

definition starts_with_seq :: "'a list \<Rightarrow> 'a list \<Rightarrow> bool" where
  "starts_with_seq s p \<longleftrightarrow> take (length p) s = p"

text \<open>\<^verbatim>\<open>windows(n).position(..)\<close> of a needle that is not empty, and \<^verbatim>\<open>contains\<close>.\<close>

fun find_subsequence :: "'a list \<Rightarrow> 'a list \<Rightarrow> nat option" where
  "find_subsequence h n = (if starts_with_seq h n then Some 0
     else (case h of [] \<Rightarrow> None | x # t \<Rightarrow> map_option Suc (find_subsequence t n)))"

declare find_subsequence.simps [simp del]

definition contains_seq :: "'a list \<Rightarrow> 'a list \<Rightarrow> bool" where
  "contains_seq h n \<longleftrightarrow> find_subsequence h n \<noteq> None"

text \<open>\<^verbatim>\<open>iter().position(p)\<close>\<close>

fun position :: "('a \<Rightarrow> bool) \<Rightarrow> 'a list \<Rightarrow> nat option" where
  "position P [] = None"
| "position P (x # xs) = (if P x then Some 0 else map_option Suc (position P xs))"

lemma starts_with_append [simp]: "starts_with_seq (p @ s) p"
  by (simp add: starts_with_seq_def)

lemma starts_withD: "starts_with_seq s p \<Longrightarrow> s = p @ drop (length p) s"
  by (metis append_take_drop_id starts_with_seq_def)

lemma starts_with_length: "starts_with_seq s p \<Longrightarrow> length p \<le> length s"
  by (auto simp: starts_with_seq_def dest: arg_cong [where f = length])

lemma find_subsequence_bound: "find_subsequence h n = Some i \<Longrightarrow> i + length n \<le> length h"
proof (induction h arbitrary: i)
  case Nil
  then show ?case
    by (subst (asm) find_subsequence.simps) (auto dest: starts_with_length split: if_splits)
next
  case (Cons x h)
  then show ?case
    by (subst (asm) find_subsequence.simps) (auto dest: starts_with_length split: if_splits)
qed

lemma find_subsequence_at: "find_subsequence h n = Some i \<Longrightarrow> starts_with_seq (drop i h) n"
proof (induction h arbitrary: i)
  case Nil
  then show ?case by (subst (asm) find_subsequence.simps) (auto split: if_splits)
next
  case (Cons x h)
  then show ?case by (subst (asm) find_subsequence.simps) (auto split: if_splits)
qed

lemma position_bound: "position P xs = Some i \<Longrightarrow> i < length xs"
  by (induction xs arbitrary: i) (auto split: if_splits)

lemma position_at: "position P xs = Some i \<Longrightarrow> P (xs ! i)"
  by (induction xs arbitrary: i) (auto split: if_splits)

lemma position_before: "position P xs = Some i \<Longrightarrow> j < i \<Longrightarrow> \<not> P (xs ! j)"
  by (induction xs arbitrary: i j) (auto simp: nth_Cons' split: if_splits)

lemma position_append:
  "\<forall>x \<in> set xs. \<not> P x \<Longrightarrow> P y \<Longrightarrow> position P (xs @ y # ys) = Some (length xs)"
  "\<forall>x \<in> set xs. \<not> P x \<Longrightarrow> position P xs = None"
  by (induction xs) auto

section \<open>Lines and words\<close>

text \<open>A line ends with a newline, perhaps after a carriage return; the end of the text ends the last.\<close>

definition strip_cr_char :: "unicode \<Rightarrow> unicode" where
  "strip_cr_char s = (if s \<noteq> [] \<and> last s = 13 then butlast s else s)"

function text_lines :: "unicode \<Rightarrow> unicode list" where
  "text_lines s = (if s = [] then []
     else if 10 \<in> set s
     then strip_cr_char (takeWhile (\<lambda>c. c \<noteq> 10) s) # text_lines (drop 1 (dropWhile (\<lambda>c. c \<noteq> 10) s))
     else [s])"
  by pat_completeness auto
termination
proof (relation "measure length", goal_cases)
  case (2 s)
  have "length (dropWhile (\<lambda>c. c \<noteq> 10) s) \<le> length s" by (rule length_dropWhile_le)
  moreover have "0 < length s" using 2 by simp
  ultimately show ?case by (simp only: in_measure length_drop)
qed simp

declare text_lines.simps [simp del]

function split_words :: "unicode \<Rightarrow> unicode list" where
  "split_words s = (case dropWhile is_whitespace s of
     [] \<Rightarrow> []
   | c # t \<Rightarrow> takeWhile (\<lambda>c. \<not> is_whitespace c) (c # t) # split_words (dropWhile (\<lambda>c. \<not> is_whitespace c) (c # t)))"
  by pat_completeness auto
termination
proof (relation "measure length", goal_cases)
  case (2 s c t)
  then have "\<not> is_whitespace c" using hd_dropWhile [of is_whitespace s] by simp
  moreover have "length (c # t) \<le> length s" using 2 length_dropWhile_le [of is_whitespace s] by simp
  moreover have "length (dropWhile (\<lambda>c. \<not> is_whitespace c) t) \<le> length t" by (rule length_dropWhile_le)
  ultimately show ?case by simp
qed simp

declare split_words.simps [simp del]

text \<open>\<^verbatim>\<open>split_once\<close> at a character that satisfies a predicate.\<close>

definition split_once_at :: "(nat \<Rightarrow> bool) \<Rightarrow> unicode \<Rightarrow> (unicode \<times> unicode) option" where
  "split_once_at P s = (if \<exists>c \<in> set s. P c
     then Some (takeWhile (\<lambda>x. \<not> P x) s, drop 1 (dropWhile (\<lambda>x. \<not> P x) s)) else None)"

definition trim_matches :: "(nat \<Rightarrow> bool) \<Rightarrow> unicode \<Rightarrow> unicode" where
  "trim_matches P s = rev (dropWhile P (rev (dropWhile P s)))"

definition trim_end_matches :: "(nat \<Rightarrow> bool) \<Rightarrow> unicode \<Rightarrow> unicode" where
  "trim_end_matches P s = rev (dropWhile P (rev s))"

definition eq_ignore_ascii_case :: "unicode \<Rightarrow> unicode \<Rightarrow> bool" where
  "eq_ignore_ascii_case s t \<longleftrightarrow> map to_ascii_lowercase s = map to_ascii_lowercase t"

definition is_ascii_alphanumeric :: "nat \<Rightarrow> bool" where
  "is_ascii_alphanumeric c \<longleftrightarrow> is_ascii_digit c \<or> is_ascii_alphabetic c"

definition is_ascii_graphic :: "nat \<Rightarrow> bool" where
  "is_ascii_graphic c \<longleftrightarrow> 0x21 \<le> c \<and> c \<le> 0x7E"

text \<open>\<^verbatim>\<open>s.get(..n)\<close> and \<^verbatim>\<open>s.get(n..)\<close>, which fail where a slice would panic.\<close>

definition str_get_to :: "unicode \<Rightarrow> nat \<Rightarrow> unicode option" where
  "str_get_to s n = str_slice s 0 n"

definition str_get_from :: "unicode \<Rightarrow> nat \<Rightarrow> unicode option" where
  "str_get_from s n = str_skip n s"

text \<open>\<^verbatim>\<open>parse::<u16>()\<close> and \<^verbatim>\<open>parse::<usize>()\<close>, where a \<^verbatim>\<open>usize\<close> has \<open>w\<close> bits.\<close>

definition parse_u16 :: "unicode \<Rightarrow> u16 option" where
  "parse_u16 s = map_option word_of_nat (from_str_radix 10 65536 s)"

definition parse_usize :: "nat \<Rightarrow> unicode \<Rightarrow> nat option" where
  "parse_usize w s = from_str_radix 10 (2 ^ w) s"

end
