(* ===== verification/Dpi_Tls.thy ===== *)
theory Dpi_Tls
  imports Rust_Strings
begin

text \<open>
  The hello messages of TLS, parsed as far as a packet holds them, and the names of cipher suites:
  \<^verbatim>\<open>dpi/https.rs\<close> and \<^verbatim>\<open>dpi/cipher_suites.rs\<close>.
\<close>

definition MAX_TLS_EXTENSIONS :: nat where "MAX_TLS_EXTENSIONS = 100"

definition new_tls_info :: TlsInfo where
  "new_tls_info = \<lparr>tls_version = None, tls_sni = None, tls_alpn = [], tls_cipher_suite = None\<rparr>"

definition is_tls_handshake :: "bytes \<Rightarrow> bool option" where
  "is_tls_handshake payload =
     (if length payload < 5 then Some False
      else do {
        b0 \<leftarrow> byte_at payload 0; b1 \<leftarrow> byte_at payload 1; b2 \<leftarrow> byte_at payload 2;
        Some (b0 = 0x16 \<and> b1 = 0x03 \<and> 1 \<le> b2 \<and> b2 \<le> 4) })"

definition version_from_bytes :: "u8 \<Rightarrow> u8 \<Rightarrow> TlsVersion option" where
  "version_from_bytes major minor =
     map_of [((3, 1), Tls10), ((3, 2), Tls11), ((3, 3), Tls12), ((3, 4), Tls13)] (major, minor)"

fun version_to_priority :: "TlsVersion \<Rightarrow> nat" where
  "version_to_priority Tls10 = 1"
| "version_to_priority Tls11 = 2"
| "version_to_priority Tls12 = 3"
| "version_to_priority Tls13 = 4"

section \<open>Extensions\<close>

definition partial_suffix :: unicode where
  "partial_suffix = str ''[PARTIAL]''"

definition parse_sni_extension_resilient :: "bytes \<Rightarrow> unicode option option" where
  "parse_sni_extension_resilient data =
     (if length data < 5 then Some None
      else do {
        name_type \<leftarrow> byte_at data 2;
        if name_type \<noteq> 0 then Some None
        else do {
          name_len \<leftarrow> be16_at data 3;
          let actual_len = min (unat name_len) (length data - 5);
          if actual_len > 0
          then do {
            hostname_bytes \<leftarrow> subslice data 5 (5 + actual_len);
            Some (case from_utf8 hostname_bytes of
                None \<Rightarrow> None
              | Some hostname \<Rightarrow>
                  if list_all (\<lambda>c. is_ascii_graphic c \<or> c = 46) hostname
                  then Some (if actual_len < unat name_len then hostname @ partial_suffix else hostname)
                  else None) }
          else Some None } })"

function alpn_loop :: "bytes \<Rightarrow> nat \<Rightarrow> nat \<Rightarrow> unicode list \<Rightarrow> unicode list option" where
  "alpn_loop data list_end offset protocols =
     (if offset < list_end \<and> offset < length data
      then do {
        proto_len \<leftarrow> byte_at data offset;
        let start = offset + 1;
        let actual_len = min (unat proto_len) (min (list_end - start) (length data - start));
        protocols \<leftarrow> (if actual_len > 0
          then do {
            proto \<leftarrow> subslice data start (start + actual_len);
            Some (case from_utf8 proto of
                None \<Rightarrow> protocols
              | Some proto \<Rightarrow> protocols @ [if actual_len < unat proto_len then proto @ partial_suffix else proto]) }
          else Some protocols);
        if start + unat proto_len \<ge> length data then Some protocols
        else alpn_loop data list_end (start + unat proto_len) protocols }
      else Some protocols)"
  by pat_completeness auto
termination by (relation "measure (\<lambda>(d, e, i, ps). length d - i)") auto

declare alpn_loop.simps [simp del]

definition parse_alpn_extension_resilient :: "bytes \<Rightarrow> unicode list option option" where
  "parse_alpn_extension_resilient data =
     (if length data < 2 then Some None
      else do {
        alpn_len \<leftarrow> be16_at data 0;
        protocols \<leftarrow> alpn_loop data (2 + min (unat alpn_len) (length data - 2)) 2 [];
        Some (if protocols = [] then None else Some protocols) })"

definition better_version :: "TlsVersion option \<Rightarrow> TlsVersion \<Rightarrow> TlsVersion" where
  "better_version best v2 = (case best of
     None \<Rightarrow> v2
   | Some v1 \<Rightarrow> if version_to_priority v2 > version_to_priority v1 then v2 else v1)"

function client_versions :: "bytes \<Rightarrow> nat \<Rightarrow> nat \<Rightarrow> TlsVersion option \<Rightarrow> TlsVersion option option" where
  "client_versions data list_len offset best_version =
     (if offset + 1 < length data \<and> offset < 1 + list_len
      then do {
        a \<leftarrow> byte_at data offset;
        b \<leftarrow> byte_at data (offset + 1);
        client_versions data list_len (offset + 2) (case version_from_bytes a b of
            Some version \<Rightarrow> Some (better_version best_version version)
          | None \<Rightarrow> best_version) }
      else Some best_version)"
  by pat_completeness auto
termination by (relation "measure (\<lambda>(d, l, i, b). length d - i)") auto

declare client_versions.simps [simp del]

definition parse_supported_versions_resilient :: "bytes \<Rightarrow> bool \<Rightarrow> TlsVersion option option" where
  "parse_supported_versions_resilient data is_client_hello =
     (if is_client_hello
      then if data = [] then Some None
           else do { list_len \<leftarrow> byte_at data 0; client_versions data (unat list_len) 1 None }
      else if length data < 2 then Some None
      else do { a \<leftarrow> byte_at data 0; b \<leftarrow> byte_at data 1; Some (version_from_bytes a b) })"

definition tls_extension :: "bool \<Rightarrow> u16 \<Rightarrow> bytes \<Rightarrow> TlsInfo \<Rightarrow> TlsInfo option" where
  "tls_extension is_client_hello ext_type ext_data info =
     (if ext_type = 0x0000 \<and> is_client_hello
      then do {
        sni \<leftarrow> parse_sni_extension_resilient ext_data;
        Some (case sni of Some sni \<Rightarrow> info\<lparr>tls_sni := Some sni\<rparr> | None \<Rightarrow> info) }
      else if ext_type = 0x0010
      then do {
        alpn \<leftarrow> parse_alpn_extension_resilient ext_data;
        Some (case alpn of Some alpn \<Rightarrow> if alpn \<noteq> [] then info\<lparr>tls_alpn := alpn\<rparr> else info | None \<Rightarrow> info) }
      else if ext_type = 0x002b
      then do {
        version \<leftarrow> parse_supported_versions_resilient ext_data is_client_hello;
        Some (case version of Some v \<Rightarrow> info\<lparr>tls_version := Some v\<rparr> | None \<Rightarrow> info) }
      else Some info)"

function extensions_loop :: "bytes \<Rightarrow> bool \<Rightarrow> nat \<Rightarrow> nat \<Rightarrow> TlsInfo \<Rightarrow> TlsInfo option" where
  "extensions_loop data is_client_hello offset extensions_parsed info =
     (if offset + 4 \<le> length data
      then if extensions_parsed + 1 > MAX_TLS_EXTENSIONS then Some info
           else do {
             ext_type \<leftarrow> be16_at data offset;
             ext_len \<leftarrow> be16_at data (offset + 2);
             let ext_data_len = min (unat ext_len) (length data - (offset + 4));
             info \<leftarrow> (if ext_data_len > 0
               then do {
                 ext_data \<leftarrow> subslice data (offset + 4) (offset + 4 + ext_data_len);
                 tls_extension is_client_hello ext_type ext_data info }
               else Some info);
             if offset + (4 + unat ext_len) > length data then Some info
             else extensions_loop data is_client_hello (offset + (4 + unat ext_len)) (extensions_parsed + 1) info }
      else Some info)"
  by pat_completeness auto
termination by (relation "measure (\<lambda>(d, c, i, n, t). length d - i)") auto

declare extensions_loop.simps [simp del]

definition parse_extensions :: "bytes \<Rightarrow> bool \<Rightarrow> TlsInfo \<Rightarrow> TlsInfo option" where
  "parse_extensions data is_client_hello info = extensions_loop data is_client_hello 0 0 info"

section \<open>Hello messages\<close>

text \<open>The extensions of either hello, whose length is at \<open>offset\<close>.\<close>

definition hello_extensions :: "bytes \<Rightarrow> nat \<Rightarrow> bool \<Rightarrow> TlsInfo \<Rightarrow> TlsInfo option" where
  "hello_extensions data offset is_client_hello info =
     (if offset + 2 > length data then Some info
      else do {
        extensions_len \<leftarrow> be16_at data offset;
        let offset = offset + 2;
        if offset < length data
        then do {
          available_ext_data \<leftarrow> subslice data offset (min (length data) (offset + unat extensions_len));
          if available_ext_data \<noteq> [] then parse_extensions available_ext_data is_client_hello info else Some info }
        else Some info })"

definition parse_client_hello :: "bytes \<Rightarrow> TlsVersion option \<Rightarrow> TlsInfo \<Rightarrow> TlsInfo option" where
  "parse_client_hello data record_version info =
     (if length data < 2 then Some info
      else do {
        a \<leftarrow> byte_at data 0;
        b \<leftarrow> byte_at data 1;
        let info = info\<lparr>tls_version := (case version_from_bytes a b of Some v \<Rightarrow> Some v | None \<Rightarrow> record_version)\<rparr>;
        if length data < 34 then Some info
        else if 34 \<ge> length data then Some info
        else do {
          session_id_len \<leftarrow> byte_at data 34;
          let offset = 34 + (1 + unat session_id_len);
          if offset \<ge> length data then Some info
          else if offset + 2 > length data then Some info
          else do {
            cipher_suites_len \<leftarrow> be16_at data offset;
            let offset = offset + (2 + unat cipher_suites_len);
            if offset \<ge> length data then Some info
            else do {
              compression_len \<leftarrow> byte_at data offset;
              let offset = offset + (1 + unat compression_len);
              if offset \<ge> length data then Some info
              else hello_extensions data offset True info } } } })"

definition parse_server_hello :: "bytes \<Rightarrow> TlsInfo \<Rightarrow> TlsInfo option" where
  "parse_server_hello data info =
     (if length data < 2 then Some info
      else do {
        a \<leftarrow> byte_at data 0;
        b \<leftarrow> byte_at data 1;
        let info = info\<lparr>tls_version := version_from_bytes a b\<rparr>;
        if length data < 34 then Some info
        else if 34 \<ge> length data then Some info
        else do {
          session_id_len \<leftarrow> byte_at data 34;
          let offset = 34 + (1 + unat session_id_len);
          if offset \<ge> length data then Some info
          else if offset + 2 > length data then Some info
          else do {
            cipher \<leftarrow> be16_at data offset;
            let info = info\<lparr>tls_cipher_suite := Some cipher\<rparr>;
            let offset = offset + 2;
            if offset \<ge> length data then Some info
            else hello_extensions data (offset + 1) False info } } })"

section \<open>Records\<close>

text \<open>The first handshake message of a record, as far as \<open>handshake_data\<close> has it.\<close>

definition parse_handshake :: "bytes \<Rightarrow> TlsVersion option \<Rightarrow> TlsInfo \<Rightarrow> TlsInfo option" where
  "parse_handshake handshake_data record_version info = do {
     handshake_type \<leftarrow> byte_at handshake_data 0;
     if \<not> (handshake_type \<le> 0x18 \<or> handshake_type = 0xfe) then Some info
     else do {
       h1 \<leftarrow> byte_at handshake_data 1; h2 \<leftarrow> byte_at handshake_data 2; h3 \<leftarrow> byte_at handshake_data 3;
       let handshake_length = unat (rd32 Big [0, h1, h2, h3]);
       if handshake_length > 16384 then Some info
       else do {
         let handshake_available = min (length handshake_data - 4) handshake_length;
         if handshake_available = 0 then Some info
         else if handshake_type = 0x01
         then do {
           body \<leftarrow> subslice handshake_data 4 (4 + handshake_available);
           parse_client_hello body record_version info }
         else if handshake_type = 0x02
         then do {
           body \<leftarrow> subslice handshake_data 4 (4 + handshake_available);
           parse_server_hello body info }
         else Some info } } }"

definition analyze_https :: "bytes \<Rightarrow> HttpsInfo option option" where
  "analyze_https payload =
     (if length payload < 5 then Some None
      else do {
        content_type \<leftarrow> byte_at payload 0;
        b1 \<leftarrow> byte_at payload 1;
        b2 \<leftarrow> byte_at payload 2;
        let record_version = version_from_bytes b1 b2;
        let info = new_tls_info\<lparr>tls_version := record_version\<rparr>;
        info \<leftarrow> (if content_type \<noteq> 0x16 then Some info
          else do {
            record_length \<leftarrow> be16_at payload 3;
            if unat record_length > 16384 + 2048 then Some info
            else do {
              let available_data = min (length payload - 5) (unat record_length);
              if available_data < 4 then Some info
              else do {
                handshake_data \<leftarrow> subslice payload 5 (5 + available_data);
                parse_handshake handshake_data record_version info } } });
        Some (Some \<lparr>hs_tls_info = Some info\<rparr>) })"

section \<open>Cipher suites\<close>

definition CIPHER_SUITE_MAP :: "(u16 \<times> string) list" where
  "CIPHER_SUITE_MAP = [
    (0x1301, ''TLS_AES_128_GCM_SHA256''), (0x1302, ''TLS_AES_256_GCM_SHA384''),
    (0x1303, ''TLS_CHACHA20_POLY1305_SHA256''), (0x1304, ''TLS_AES_128_CCM_SHA256''),
    (0x1305, ''TLS_AES_128_CCM_8_SHA256''), (0xc02b, ''TLS_ECDHE_ECDSA_WITH_AES_128_GCM_SHA256''),
    (0xc02c, ''TLS_ECDHE_ECDSA_WITH_AES_256_GCM_SHA384''), (0xc02f, ''TLS_ECDHE_RSA_WITH_AES_128_GCM_SHA256''),
    (0xc030, ''TLS_ECDHE_RSA_WITH_AES_256_GCM_SHA384''), (0xc009, ''TLS_ECDHE_ECDSA_WITH_AES_128_CBC_SHA''),
    (0xc00a, ''TLS_ECDHE_ECDSA_WITH_AES_256_CBC_SHA''), (0xc013, ''TLS_ECDHE_RSA_WITH_AES_128_CBC_SHA''),
    (0xc014, ''TLS_ECDHE_RSA_WITH_AES_256_CBC_SHA''), (0xc023, ''TLS_ECDHE_ECDSA_WITH_AES_128_CBC_SHA256''),
    (0xc024, ''TLS_ECDHE_ECDSA_WITH_AES_256_CBC_SHA384''), (0xc027, ''TLS_ECDHE_RSA_WITH_AES_128_CBC_SHA256''),
    (0xc028, ''TLS_ECDHE_RSA_WITH_AES_256_CBC_SHA384''),
    (0xcca9, ''TLS_ECDHE_ECDSA_WITH_CHACHA20_POLY1305_SHA256''),
    (0xcca8, ''TLS_ECDHE_RSA_WITH_CHACHA20_POLY1305_SHA256''),
    (0xccaa, ''TLS_DHE_RSA_WITH_CHACHA20_POLY1305_SHA256''), (0x009e, ''TLS_DHE_RSA_WITH_AES_128_GCM_SHA256''),
    (0x009f, ''TLS_DHE_RSA_WITH_AES_256_GCM_SHA384''), (0x0033, ''TLS_DHE_RSA_WITH_AES_128_CBC_SHA''),
    (0x0039, ''TLS_DHE_RSA_WITH_AES_256_CBC_SHA''), (0x0067, ''TLS_DHE_RSA_WITH_AES_128_CBC_SHA256''),
    (0x006b, ''TLS_DHE_RSA_WITH_AES_256_CBC_SHA256''), (0x009c, ''TLS_RSA_WITH_AES_128_GCM_SHA256''),
    (0x009d, ''TLS_RSA_WITH_AES_256_GCM_SHA384''), (0x002f, ''TLS_RSA_WITH_AES_128_CBC_SHA''),
    (0x0035, ''TLS_RSA_WITH_AES_256_CBC_SHA''), (0x003c, ''TLS_RSA_WITH_AES_128_CBC_SHA256''),
    (0x003d, ''TLS_RSA_WITH_AES_256_CBC_SHA256''), (0x000a, ''TLS_RSA_WITH_3DES_EDE_CBC_SHA''),
    (0x0016, ''TLS_DHE_RSA_WITH_3DES_EDE_CBC_SHA''), (0xc008, ''TLS_ECDHE_ECDSA_WITH_3DES_EDE_CBC_SHA''),
    (0xc012, ''TLS_ECDHE_RSA_WITH_3DES_EDE_CBC_SHA''), (0x0004, ''TLS_RSA_WITH_RC4_128_MD5''),
    (0x0005, ''TLS_RSA_WITH_RC4_128_SHA''), (0xc007, ''TLS_ECDHE_ECDSA_WITH_RC4_128_SHA''),
    (0xc011, ''TLS_ECDHE_RSA_WITH_RC4_128_SHA''), (0x008c, ''TLS_PSK_WITH_AES_128_CBC_SHA''),
    (0x008d, ''TLS_PSK_WITH_AES_256_CBC_SHA''), (0x00a8, ''TLS_PSK_WITH_AES_128_GCM_SHA256''),
    (0x00a9, ''TLS_PSK_WITH_AES_256_GCM_SHA384''), (0xc035, ''TLS_ECDHE_PSK_WITH_AES_128_CBC_SHA''),
    (0xc036, ''TLS_ECDHE_PSK_WITH_AES_256_CBC_SHA''), (0xc037, ''TLS_ECDHE_PSK_WITH_AES_128_CBC_SHA256''),
    (0xc038, ''TLS_ECDHE_PSK_WITH_AES_256_CBC_SHA384''), (0xc03c, ''TLS_RSA_WITH_ARIA_128_CBC_SHA256''),
    (0xc03d, ''TLS_RSA_WITH_ARIA_256_CBC_SHA384''), (0xc060, ''TLS_ECDHE_RSA_WITH_ARIA_128_GCM_SHA256''),
    (0xc061, ''TLS_ECDHE_RSA_WITH_ARIA_256_GCM_SHA384''),
    (0xc072, ''TLS_ECDHE_ECDSA_WITH_CAMELLIA_128_CBC_SHA256''),
    (0xc073, ''TLS_ECDHE_ECDSA_WITH_CAMELLIA_256_CBC_SHA384''),
    (0xc076, ''TLS_ECDHE_RSA_WITH_CAMELLIA_128_CBC_SHA256''),
    (0xc077, ''TLS_ECDHE_RSA_WITH_CAMELLIA_256_CBC_SHA384''), (0x0001, ''TLS_RSA_WITH_NULL_MD5''),
    (0x0002, ''TLS_RSA_WITH_NULL_SHA''), (0x003b, ''TLS_RSA_WITH_NULL_SHA256'')]"

definition get_cipher_suite_name :: "u16 \<Rightarrow> unicode option" where
  "get_cipher_suite_name code = map_option str (map_of CIPHER_SUITE_MAP code)"

definition hex_digit_upper :: "nat \<Rightarrow> nat" where
  "hex_digit_upper n = (if n < 10 then 48 + n else 55 + n)"

text \<open>\<^verbatim>\<open>{:04X}\<close>\<close>

definition hex4_upper :: "u16 \<Rightarrow> unicode" where
  "hex4_upper w = map hex_digit_upper [unat w div 4096, unat w div 256 mod 16, unat w div 16 mod 16, unat w mod 16]"

definition format_cipher_suite :: "u16 \<Rightarrow> unicode" where
  "format_cipher_suite code = (case get_cipher_suite_name code of
     Some name \<Rightarrow> name @ str '' (0x'' @ hex4_upper code @ str '')''
   | None \<Rightarrow> str ''0x'' @ hex4_upper code)"

definition is_secure_cipher_suite :: "u16 \<Rightarrow> bool" where
  "is_secure_cipher_suite code \<longleftrightarrow> 0x1301 \<le> code \<and> code \<le> 0x1305 \<or> code \<in> {0xc02b, 0xc02c, 0xc02f, 0xc030} \<or>
     0xcca8 \<le> code \<and> code \<le> 0xccaa \<or> code \<in> {0x009e, 0x009f}"

end
