(* ===== verification/Quic_Tls.thy ===== *)
theory Quic_Tls
  imports Dpi_Tls App_Merge "HOL-Library.Product_Lexorder"
begin

text \<open>
  The TLS data of a QUIC handshake: host names, the SNI extension, the hello messages and the search
  for an SNI extension in raw bytes, from \<^verbatim>\<open>dpi/quic.rs\<close>. The parsers here take only complete and
  plausible host names, unlike those of \<^verbatim>\<open>dpi/https.rs\<close>; a name cut short is marked, where a
  caller allows it.
\<close>

text \<open>A loop over indices that returns at the first that gives something.\<close>

primrec first_hit :: "('i \<Rightarrow> 'a option option) \<Rightarrow> 'i list \<Rightarrow> 'a option option" where
  "first_hit f [] = Some None"
| "first_hit f (i # is) = do {
     r \<leftarrow> f i;
     (case r of Some x \<Rightarrow> Some (Some x) | None \<Rightarrow> first_hit f is) }"

lemma yields_first_hit:
  "(\<And>i. i \<in> set is \<Longrightarrow> yields (f i) (\<lambda>r. \<forall>x. r = Some x \<longrightarrow> P x)) \<Longrightarrow>
    yields (first_hit f is) (\<lambda>r. \<forall>x. r = Some x \<longrightarrow> P x)"
proof (induction "is")
  case (Cons i "is")
  have IH: "yields (first_hit f is) (\<lambda>r. \<forall>x. r = Some x \<longrightarrow> P x)"
    by (rule Cons.IH) (rule Cons.prems, simp)
  have "yields (f i) (\<lambda>r. \<forall>x. r = Some x \<longrightarrow> P x)" by (rule Cons.prems) simp
  then show ?case
    by (rule yieldsE) (auto simp: IH split: option.split)
qed simp

section \<open>Host names\<close>

definition PARTIAL_SNI_MIN_LENGTH :: nat where "PARTIAL_SNI_MIN_LENGTH = 3"

text \<open>\<^verbatim>\<open>c.is_ascii_alphanumeric() || c == '.' || c == '-'\<close>\<close>

definition host_char :: "nat \<Rightarrow> bool" where
  "host_char c \<longleftrightarrow> is_ascii_alphanumeric c \<or> c = 46 \<or> c = 45"

definition is_valid_hostname :: "unicode \<Rightarrow> bool" where
  "is_valid_hostname hostname =
     (if str_len hostname < 4 \<or> str_len hostname > 253 then False
      else if \<not> 46 \<in> set hostname then False
      else if \<not> list_all host_char hostname then False
      else if starts_with_seq hostname [46] \<or> suffix [46] hostname \<or>
        starts_with_seq hostname [45] \<or> suffix [45] hostname then False
      else if contains_seq hostname [46, 46] then False
      else if \<not> list_ex is_ascii_alphabetic hostname then False
      else (let parts = split_char 46 hostname in
        if length parts < 2 then False
        else if \<not> list_all (\<lambda>part. part \<noteq> [] \<and> str_len part \<le> 63) parts then False
        else True))"

definition is_valid_partial_hostname :: "unicode \<Rightarrow> bool" where
  "is_valid_partial_hostname hostname =
     (if str_len hostname < PARTIAL_SNI_MIN_LENGTH then False
      else if \<not> list_all host_char hostname then False
      else if \<not> list_ex is_ascii_alphabetic hostname then False
      else if starts_with_seq hostname [46] \<or> starts_with_seq hostname [45] then False
      else True)"

definition mark_partial_sni :: "unicode \<Rightarrow> unicode" where
  "mark_partial_sni hostname = hostname @ PARTIAL_SNI_MARKER"

section \<open>Extensions\<close>

record SniHeader =
  sni_list_len :: u16
  sni_name_len :: u16

definition parse_sni_header :: "bytes \<Rightarrow> SniHeader option option" where
  "parse_sni_header data =
     (if length data < 5 then Some None
      else do {
        ll \<leftarrow> be16_at data 0;
        name_type \<leftarrow> byte_at data 2;
        nl \<leftarrow> be16_at data 3;
        Some (if name_type \<noteq> 0 then None
          else if nl = 0 \<or> nl > 253 then None
          else Some \<lparr>sni_list_len = ll, sni_name_len = nl\<rparr>) })"

definition parse_sni_extension :: "bytes \<Rightarrow> bool \<Rightarrow> unicode option option" where
  "parse_sni_extension data allow_partial = do {
     header \<leftarrow> parse_sni_header data;
     (case header of
        None \<Rightarrow> Some None
      | Some h \<Rightarrow>
          if 5 + unat (sni_name_len h) \<le> length data
          then do {
            sni_data \<leftarrow> subslice data 5 (5 + unat (sni_name_len h));
            Some (case from_utf8 sni_data of
                Some sni \<Rightarrow> if is_valid_hostname sni then Some sni else None
              | None \<Rightarrow> None) }
          else if allow_partial \<and> length data > 5
          then do {
            available \<leftarrow> slice_from data 5;
            Some (case from_utf8 available of
                Some partial \<Rightarrow> if is_valid_partial_hostname partial then Some (mark_partial_sni partial) else None
              | None \<Rightarrow> None) }
          else Some None) }"

function alpn_protocols :: "bytes \<Rightarrow> nat \<Rightarrow> nat \<Rightarrow> unicode list \<Rightarrow> unicode list option" where
  "alpn_protocols data list_end offset protocols =
     (if offset < list_end \<and> offset < length data
      then do {
        proto_len \<leftarrow> byte_at data offset;
        let start = offset + 1;
        protocols \<leftarrow> (if start + unat proto_len \<le> length data
          then do {
            proto \<leftarrow> subslice data start (start + unat proto_len);
            Some (case from_utf8 proto of Some proto \<Rightarrow> protocols @ [proto] | None \<Rightarrow> protocols) }
          else Some protocols);
        alpn_protocols data list_end (start + unat proto_len) protocols }
      else Some protocols)"
  by pat_completeness auto
termination by (relation "measure (\<lambda>(d, e, i, ps). length d - i)") auto

declare alpn_protocols.simps [simp del]

definition parse_alpn_extension :: "bytes \<Rightarrow> unicode list option option" where
  "parse_alpn_extension data =
     (if length data < 2 then Some None
      else do {
        alpn_len \<leftarrow> be16_at data 0;
        protocols \<leftarrow> alpn_protocols data (2 + min (unat alpn_len) (length data - 2)) 2 [];
        Some (if protocols = [] then None else Some protocols) })"

function offered_versions :: "bytes \<Rightarrow> nat \<Rightarrow> nat \<Rightarrow> TlsVersion option option" where
  "offered_versions data len offset =
     (if offset + 1 < length data \<and> offset < 1 + len
      then do {
        a \<leftarrow> byte_at data offset;
        b \<leftarrow> byte_at data (offset + 1);
        if a = 3 \<and> b = 4 then Some (Some Tls13) else offered_versions data len (offset + 2) }
      else Some (Some Tls13))"
  by pat_completeness auto
termination by (relation "measure (\<lambda>(d, l, i). length d - i)") auto

declare offered_versions.simps [simp del]

definition parse_supported_versions :: "bytes \<Rightarrow> bool \<Rightarrow> TlsVersion option option" where
  "parse_supported_versions data is_client =
     (if is_client
      then if data = [] then Some None
           else do { len \<leftarrow> byte_at data 0; offered_versions data (unat len) 1 }
      else if length data \<ge> 2
      then do {
        a \<leftarrow> byte_at data 0;
        b \<leftarrow> byte_at data 1;
        Some (if a = 3 \<and> b = 4 then Some Tls13 else Some Tls13) }
      else Some (Some Tls13))"

text \<open>The match on the type of an extension that is there in full.\<close>

definition quic_tls_extension :: "bool \<Rightarrow> bool \<Rightarrow> u16 \<Rightarrow> bytes \<Rightarrow> TlsInfo \<Rightarrow> TlsInfo option" where
  "quic_tls_extension is_client allow_partial ext_type ext_data info =
     (if ext_type = 0 \<and> is_client
      then do {
        sni \<leftarrow> parse_sni_extension ext_data allow_partial;
        Some (case sni of Some s \<Rightarrow> info\<lparr>tls_sni := Some s\<rparr> | None \<Rightarrow> info) }
      else if ext_type = 0x10
      then do {
        alpn \<leftarrow> parse_alpn_extension ext_data;
        Some (case alpn of Some a \<Rightarrow> info\<lparr>tls_alpn := a\<rparr> | None \<Rightarrow> info) }
      else if ext_type = 0x2b
      then do {
        version \<leftarrow> parse_supported_versions ext_data is_client;
        Some (case version of Some v \<Rightarrow> info\<lparr>tls_version := Some v\<rparr> | None \<Rightarrow> info) }
      else Some info)"

function parse_tls_extensions :: "bytes \<Rightarrow> nat \<Rightarrow> TlsInfo \<Rightarrow> bool \<Rightarrow> bool \<Rightarrow> TlsInfo option" where
  "parse_tls_extensions data offset info is_client allow_partial =
     (if offset + 4 \<le> length data
      then do {
        ext_type \<leftarrow> be16_at data offset;
        ext_len \<leftarrow> be16_at data (offset + 2);
        if offset + 4 + unat ext_len > length data
        then if allow_partial \<and> ext_type = 0 \<and> is_client \<and> length data - offset - 4 > 5
             then do {
               ext_data \<leftarrow> slice_from data (offset + 4);
               sni \<leftarrow> parse_sni_extension ext_data True;
               Some (case sni of Some s \<Rightarrow> info\<lparr>tls_sni := Some s\<rparr> | None \<Rightarrow> info) }
             else Some info
        else do {
          ext_data \<leftarrow> subslice data (offset + 4) (offset + 4 + unat ext_len);
          info \<leftarrow> quic_tls_extension is_client allow_partial ext_type ext_data info;
          parse_tls_extensions data (offset + (4 + unat ext_len)) info is_client allow_partial } }
      else Some info)"
  by pat_completeness auto
termination by (relation "measure (\<lambda>(d, i, t, c, p). length d - i)") auto

declare parse_tls_extensions.simps [simp del]

section \<open>The hello messages\<close>

text \<open>The end of both: as much of the extensions as there is.\<close>

definition available_extensions :: "bytes \<Rightarrow> nat \<Rightarrow> TlsInfo \<Rightarrow> bool \<Rightarrow> bool \<Rightarrow> TlsInfo option" where
  "available_extensions data offset info is_client allow_partial = do {
     extensions_len \<leftarrow> be16_at data offset;
     let offset = offset + 2;
     let available_ext_len = min (length data - offset) (unat extensions_len);
     if available_ext_len > 0
     then do {
       extensions \<leftarrow> subslice data offset (offset + available_ext_len);
       parse_tls_extensions extensions 0 info is_client allow_partial }
     else Some info }"

definition parse_partial_client_hello :: "bytes \<Rightarrow> TlsInfo \<Rightarrow> bool \<Rightarrow> TlsInfo option" where
  "parse_partial_client_hello data info allow_partial =
     (if length data < 34 then Some info
      else if 34 \<ge> length data then Some info
      else do {
        session_id_len \<leftarrow> byte_at data 34;
        let offset = 34 + (1 + unat session_id_len);
        if offset + 2 > length data then Some info
        else do {
          cipher_suites_len \<leftarrow> be16_at data offset;
          let offset = offset + (2 + unat cipher_suites_len);
          if offset \<ge> length data then Some info
          else do {
            compression_len \<leftarrow> byte_at data offset;
            let offset = offset + (1 + unat compression_len);
            if offset + 2 > length data then Some info
            else available_extensions data offset info True allow_partial } } })"

definition parse_partial_server_hello :: "bytes \<Rightarrow> TlsInfo \<Rightarrow> TlsInfo option" where
  "parse_partial_server_hello data info =
     (if length data < 34 then Some info
      else if 34 \<ge> length data then Some info
      else do {
        session_id_len \<leftarrow> byte_at data 34;
        let offset = 34 + (1 + unat session_id_len);
        if offset + 2 > length data then Some info
        else do {
          cipher \<leftarrow> be16_at data offset;
          let info = info\<lparr>tls_cipher_suite := Some cipher\<rparr>;
          let offset = offset + 2;
          if offset \<ge> length data then Some info
          else do {
            let offset = offset + 1;
            if offset + 2 > length data then Some info
            else available_extensions data offset info False False } } })"

definition parse_partial_tls_handshake :: "bytes \<Rightarrow> bool \<Rightarrow> TlsInfo option option" where
  "parse_partial_tls_handshake data allow_partial =
     (if length data < 4 then Some None
      else do {
        handshake_type \<leftarrow> byte_at data 0;
        h1 \<leftarrow> byte_at data 1; h2 \<leftarrow> byte_at data 2; h3 \<leftarrow> byte_at data 3;
        let handshake_length = unat (rd32 Big [0, h1, h2, h3]);
        available_data \<leftarrow> slice_from data 4;
        let parse_length = min handshake_length (length available_data);
        if handshake_length > 65536 then Some None
        else do {
          r \<leftarrow> (if handshake_type = 1
            then do {
              body \<leftarrow> slice_to available_data parse_length;
              info \<leftarrow> parse_partial_client_hello body new_tls_info allow_partial;
              Some (Some info) }
            else if handshake_type = 2
            then do {
              body \<leftarrow> slice_to available_data parse_length;
              info \<leftarrow> parse_partial_server_hello body new_tls_info;
              Some (Some info) }
            else Some None);
          Some (case r of
              None \<Rightarrow> None
            | Some info \<Rightarrow> if tls_sni info \<noteq> None \<or> tls_alpn info \<noteq> [] \<or> tls_version info \<noteq> None
                then Some info else None) } })"

section \<open>Raw bytes\<close>

text \<open>One index of the scan for an SNI extension; \<open>None\<close> continues it.\<close>

definition sni_greedy_at :: "bytes \<Rightarrow> bool \<Rightarrow> nat \<Rightarrow> unicode option option" where
  "sni_greedy_at data allow_partial i = do {
     a \<leftarrow> byte_at data i;
     b \<leftarrow> byte_at data (i + 1);
     if a = 0 \<and> b = 0
     then if i + 4 > length data then Some None
       else do {
         ext_len \<leftarrow> be16_at data (i + 2);
         if \<not> (5 \<le> unat ext_len \<and> unat ext_len \<le> 300) then Some None
         else do {
           sni_data \<leftarrow> slice_from data (i + 4);
           header \<leftarrow> parse_sni_header sni_data;
           (case header of
              None \<Rightarrow> Some None
            | Some h \<Rightarrow>
                if unat (sni_list_len h) > unat ext_len then Some None
                else (let hostname_start = i + 9; hostname_end = hostname_start + unat (sni_name_len h) in
                  if hostname_end \<le> length data
                  then do {
                    hostname \<leftarrow> subslice data hostname_start hostname_end;
                    Some (case from_utf8 hostname of
                        Some s \<Rightarrow> if is_valid_hostname s then Some s else None
                      | None \<Rightarrow> None) }
                  else if allow_partial \<and> hostname_start < length data
                  then do {
                    partial \<leftarrow> slice_from data hostname_start;
                    Some (case from_utf8 partial of
                        Some s \<Rightarrow> if is_valid_partial_hostname s then Some (mark_partial_sni s) else None
                      | None \<Rightarrow> None) }
                  else Some None)) } }
     else Some None }"

definition try_extract_sni_greedy :: "bytes \<Rightarrow> bool \<Rightarrow> unicode option option" where
  "try_extract_sni_greedy data allow_partial =
     (if length data < 9 then Some None
      else first_hit (sni_greedy_at data allow_partial) [0 ..< length data - 9])"

section \<open>The search for TLS data\<close>

text \<open>
  The search for TLS data in the CRYPTO fragments of a connection, in the order of preference of
  \<^verbatim>\<open>try_extract_tls_from_reassembler\<close> in \<^verbatim>\<open>dpi/quic.rs\<close>: what is cached, the contiguous data, each
  fragment, a host name put together from fragments, and any bytes that look like an SNI extension.
\<close>

section \<open>TLS data anywhere in a payload\<close>

text \<open>One offset of the scan, its four patterns in turn.\<close>

definition tls_record_at :: "bytes \<Rightarrow> nat \<Rightarrow> TlsInfo option option" where
  "tls_record_at payload offset = do {
     b0 \<leftarrow> byte_at payload offset;
     if b0 = 0x16 \<and> offset + 5 < length payload
     then do {
       major \<leftarrow> byte_at payload (offset + 1);
       minor \<leftarrow> byte_at payload (offset + 2);
       if major = 3 \<and> 1 \<le> minor \<and> minor \<le> 4
       then do {
         record_length \<leftarrow> be16_at payload (offset + 3);
         if offset + 5 + unat record_length \<le> length payload
         then do {
           handshake_data \<leftarrow> subslice payload (offset + 5) (offset + 5 + unat record_length);
           if handshake_data = [] then Some None
           else do {
             h \<leftarrow> byte_at handshake_data 0;
             if h = 1 then parse_partial_tls_handshake handshake_data False else Some None } }
         else Some None }
       else Some None }
     else Some None }"

definition direct_handshake_at :: "bytes \<Rightarrow> nat \<Rightarrow> TlsInfo option option" where
  "direct_handshake_at payload offset = do {
     b0 \<leftarrow> byte_at payload offset;
     if b0 = 1 \<and> offset + 4 < length payload
     then do {
       h1 \<leftarrow> byte_at payload (offset + 1);
       h2 \<leftarrow> byte_at payload (offset + 2);
       h3 \<leftarrow> byte_at payload (offset + 3);
       let handshake_length = unat (rd32 Big [0, h1, h2, h3]);
       if handshake_length > 0 \<and> handshake_length < 65536 \<and> offset + 4 + handshake_length \<le> length payload
       then do {
         handshake \<leftarrow> subslice payload offset (offset + 4 + handshake_length);
         parse_partial_tls_handshake handshake False }
       else Some None }
     else Some None }"

definition sni_pattern_at :: "bytes \<Rightarrow> nat \<Rightarrow> TlsInfo option option" where
  "sni_pattern_at payload offset =
     (if offset + 20 < length payload
      then do {
        a \<leftarrow> byte_at payload offset;
        b \<leftarrow> byte_at payload (offset + 1);
        if a = 0 \<and> b = 0
        then do {
          ext_len \<leftarrow> be16_at payload (offset + 2);
          if 5 \<le> unat ext_len \<and> unat ext_len \<le> 300 \<and> offset + 4 + unat ext_len \<le> length payload
          then do {
            ext_data \<leftarrow> subslice payload (offset + 4) (offset + 4 + unat ext_len);
            if length ext_data \<ge> 5
            then do {
              ll \<leftarrow> be16_at ext_data 0;
              sni_type \<leftarrow> byte_at ext_data 2;
              nl \<leftarrow> be16_at ext_data 3;
              if sni_type = 0 \<and> unat nl > 0 \<and> unat nl \<le> 253 \<and> 3 \<le> unat ll \<and> unat ll \<le> 256 \<and>
                unat ll = unat nl + 3
              then do {
                sni \<leftarrow> parse_sni_extension ext_data False;
                Some (case sni of Some s \<Rightarrow> Some (new_tls_info\<lparr>tls_sni := Some s\<rparr>) | None \<Rightarrow> None) }
              else Some None }
            else Some None }
          else Some None }
        else Some None }
      else Some None)"

definition alpn_pattern_at :: "bytes \<Rightarrow> nat \<Rightarrow> TlsInfo option option" where
  "alpn_pattern_at payload offset =
     (if offset + 10 < length payload
      then do {
        a \<leftarrow> byte_at payload offset;
        b \<leftarrow> byte_at payload (offset + 1);
        if a = 0 \<and> b = 0x10
        then do {
          ext_len \<leftarrow> be16_at payload (offset + 2);
          if unat ext_len > 2 \<and> offset + 4 + unat ext_len \<le> length payload
          then do {
            ext_data \<leftarrow> subslice payload (offset + 4) (offset + 4 + unat ext_len);
            alpn \<leftarrow> parse_alpn_extension ext_data;
            Some (case alpn of Some a \<Rightarrow> Some (new_tls_info\<lparr>tls_alpn := a\<rparr>) | None \<Rightarrow> None) }
          else Some None }
        else Some None }
      else Some None)"

text \<open>Each pattern returns from the function if it gives something.\<close>

definition unencrypted_at :: "bytes \<Rightarrow> nat \<Rightarrow> TlsInfo option option" where
  "unencrypted_at payload offset =
     first_hit (\<lambda>pattern. pattern payload offset)
       [tls_record_at, direct_handshake_at, sni_pattern_at, alpn_pattern_at]"

definition try_parse_unencrypted_crypto_frames :: "bytes \<Rightarrow> TlsInfo option option" where
  "try_parse_unencrypted_crypto_frames payload =
     first_hit (unencrypted_at payload) [0 ..< length payload - 10]"

section \<open>Host names in combined fragments\<close>

text \<open>\<^verbatim>\<open>join(".")\<close>\<close>

fun join_dots :: "unicode list \<Rightarrow> unicode" where
  "join_dots [] = []"
| "join_dots [p] = p"
| "join_dots (p # ps) = p @ 46 # join_dots ps"

text \<open>The runs of two or more labels inside a name of more than two.\<close>

definition sub_candidates :: "unicode \<Rightarrow> unicode list" where
  "sub_candidates cleaned =
     (let parts = split_char 46 cleaned in
      if length parts > 2
      then concat (map (\<lambda>start_idx. concat (map (\<lambda>end_idx.
          let sub_candidate = join_dots (take (end_idx - start_idx) (drop start_idx parts)) in
          if sub_candidate \<noteq> cleaned \<and> str_len sub_candidate \<ge> 4 then [sub_candidate] else [])
        [start_idx + 2 ..< length parts + 1])) [0 ..< length parts])
      else [])"

text \<open>What one run of host name characters contributes.\<close>

definition run_candidates :: "bytes \<Rightarrow> unicode list" where
  "run_candidates run =
     (let dot_count = length (filter (\<lambda>b. b = 46) run); has_dot = dot_count > 0 in
      if length run > 3 \<and> has_dot \<and> dot_count \<le> 10
      then (case from_utf8 run of
          None \<Rightarrow> []
        | Some candidate \<Rightarrow>
            (let cleaned = trim_matches (\<lambda>c. \<not> is_ascii_alphanumeric c \<and> c \<noteq> 46 \<and> c \<noteq> 45) candidate in
             if cleaned \<noteq> [] \<and> \<not> starts_with_seq cleaned [46] \<and> \<not> suffix [46] cleaned \<and>
               \<not> contains_seq cleaned [46, 46]
             then cleaned # sub_candidates cleaned
             else []))
      else [])"

function hostname_runs :: "bytes \<Rightarrow> nat \<Rightarrow> unicode list \<Rightarrow> unicode list option" where
  "hostname_runs data i hosts =
     (if i < length data
      then do {
        b \<leftarrow> byte_at data i;
        if is_ascii_alphanumeric (unat b)
        then do {
          let end' = i + length (takeWhile (\<lambda>b. host_char (unat b)) (drop i data));
          run \<leftarrow> subslice data i end';
          hostname_runs data end' (hosts @ run_candidates run) }
        else hostname_runs data (i + 1) hosts }
      else Some hosts)"
  by pat_completeness auto
termination
proof (relation "measure (\<lambda>(d, i, cs). length d - i)", goal_cases)
  case (2 data i hosts b run)
  then have "host_char (unat (data ! i))" by (simp add: byte_at_in host_char_def)
  with 2(1) have "takeWhile (\<lambda>b. host_char (unat b)) (drop i data) \<noteq> []"
    by (simp add: Cons_nth_drop_Suc [symmetric])
  then have "0 < length (takeWhile (\<lambda>b. host_char (unat b)) (drop i data))" by simp
  with 2 show ?case by (simp only: in_measure prod.case)
qed auto

declare hostname_runs.simps [simp del]

definition unique_candidates :: "unicode list \<Rightarrow> unicode list" where
  "unique_candidates hosts = fold (\<lambda>c u. if c \<in> set u then u else u @ [c]) hosts []"

definition find_hostname_candidates :: "bytes \<Rightarrow> unicode list option" where
  "find_hostname_candidates data = do {
     hosts \<leftarrow> hostname_runs data 0 [];
     Some (unique_candidates hosts) }"

section \<open>Reconstruction from fragments\<close>

text \<open>The scan of one fragment near the start of the ClientHello.\<close>

definition fragment_sni_at :: "bytes \<Rightarrow> nat \<Rightarrow> unicode option option" where
  "fragment_sni_at data i = do {
     a \<leftarrow> byte_at data i;
     b \<leftarrow> byte_at data (i + 1);
     if a = 0 \<and> b = 0
     then do {
       ext_len \<leftarrow> be16_at data (i + 2);
       if 5 \<le> unat ext_len \<and> unat ext_len \<le> 300
       then do {
         available_ext_data \<leftarrow> (if i + 4 + unat ext_len \<le> length data
           then subslice data (i + 4) (i + 4 + unat ext_len)
           else slice_from data (i + 4));
         header \<leftarrow> parse_sni_header available_ext_data;
         (case header of
            None \<Rightarrow> Some None
          | Some h \<Rightarrow>
              if 3 \<le> unat (sni_list_len h) \<and> unat (sni_list_len h) \<le> 256
              then parse_sni_extension available_ext_data True
              else Some None) }
       else Some None }
     else Some None }"

definition fragment_sni :: "fragment list \<Rightarrow> u64 \<Rightarrow> unicode option option" where
  "fragment_sni frags offset =
     (if offset > 200 then Some None
      else (case map_of frags offset of
          None \<Rightarrow> Some None
        | Some data \<Rightarrow> first_hit (fragment_sni_at data) [0 ..< length data - 10]))"

text \<open>The data put together so far, the offset expected next, and whether a gap is significant.\<close>

definition combine_fragment :: "u64 \<times> bytes \<Rightarrow> bytes \<times> u64 \<times> bool \<Rightarrow> bytes \<times> u64 \<times> bool" where
  "combine_fragment fragment combined =
     (let (offset, data) = fragment;
          (all_data, expected_offset, gaps) = combined;
          (all_data, gaps) =
            (if offset > expected_offset
             then let gap_size = offset - expected_offset in
               (if gap_size \<le> 100 \<and> all_data \<noteq> [] then all_data @ replicate (unat gap_size) 0 else all_data,
                gaps \<or> expected_offset < 100 \<and> gap_size > 50 \<or> gap_size > 300)
             else (all_data, gaps))
      in (all_data @ data, data_end offset data, gaps))"

text \<open>\<^verbatim>\<open>sort_by\<close> is stable: unmarked names first, longer ones first among equals.\<close>

definition looks_partial :: "unicode \<Rightarrow> bool" where
  "looks_partial a \<longleftrightarrow> is_partial_sni a \<or> contains_seq a [46, 46, 46]"

definition sort_candidates :: "unicode list \<Rightarrow> unicode list" where
  "sort_candidates = sort_key (\<lambda>a. (looks_partial a, - int (str_len a)))"

definition accepted_candidates :: "bool \<Rightarrow> unicode list \<Rightarrow> unicode list" where
  "accepted_candidates gaps hosts =
     (if gaps
      then filter (\<lambda>c. str_len c \<ge> 15 \<and> length (filter (\<lambda>x. x = 46) c) \<ge> 2 \<and> is_valid_hostname c) hosts
      else filter is_valid_hostname hosts)"

definition try_reconstruct_sni_from_fragments :: "reassembler \<Rightarrow> unicode option option" where
  "try_reconstruct_sni_from_fragments r =
     (let sorted_offsets = sort (map fst (fragments r)) in do {
      found \<leftarrow> first_hit (fragment_sni (fragments r)) sorted_offsets;
      (case found of
         Some sni \<Rightarrow> Some (Some sni)
       | None \<Rightarrow>
           if \<not> list_ex (\<lambda>offset. offset \<le> 10) sorted_offsets then Some None
           else (let (all_data, expected_offset, gaps) = fold (\<lambda>offset c. case map_of (fragments r) offset of
                     Some data \<Rightarrow> combine_fragment (offset, data) c | None \<Rightarrow> c) sorted_offsets ([], 0, False) in
             if length all_data < 10 then Some None
             else do {
               hosts \<leftarrow> find_hostname_candidates all_data;
               Some (case sort_candidates (accepted_candidates gaps hosts) of
                   [] \<Rightarrow> None
                 | candidate # _ \<Rightarrow> Some candidate) })) })"

section \<open>The strategies\<close>

definition is_complete_sni :: "unicode option \<Rightarrow> bool" where
  "is_complete_sni sni = (case sni of Some s \<Rightarrow> \<not> is_partial_sni s | None \<Rightarrow> False)"

text \<open>\<^verbatim>\<open>tls_info.sni.is_some() || !tls_info.alpn.is_empty()\<close>\<close>

definition essential :: "TlsInfo \<Rightarrow> bool" where
  "essential t \<longleftrightarrow> tls_sni t \<noteq> None \<or> tls_alpn t \<noteq> []"

definition try_extract_from_contiguous :: "reassembler \<Rightarrow> bool \<Rightarrow> TlsInfo option option" where
  "try_extract_from_contiguous r allow_partial = (case get_contiguous_data r of
     None \<Rightarrow> Some None
   | Some reassembled \<Rightarrow>
       if length reassembled < (if allow_partial then 50 else 100) then Some None
       else do {
         tls_info \<leftarrow> parse_partial_tls_handshake reassembled allow_partial;
         Some (case tls_info of
             None \<Rightarrow> None
           | Some t \<Rightarrow> if tls_sni t = None \<and> tls_alpn t = [] then None else Some t) })"

text \<open>A fragment that starts like a handshake message, or like a TLS record.\<close>

definition tls_record_in_fragment :: "bytes \<Rightarrow> TlsInfo option option" where
  "tls_record_in_fragment fragment_data =
     (if length fragment_data \<ge> 6
      then do {
        b \<leftarrow> byte_at fragment_data 0;
        if b = 0x16
        then do {
          tls_info \<leftarrow> try_parse_unencrypted_crypto_frames fragment_data;
          Some (case tls_info of Some t \<Rightarrow> if essential t then Some t else None | None \<Rightarrow> None) }
        else Some None }
      else Some None)"

definition tls_in_fragment :: "bool \<Rightarrow> bytes \<Rightarrow> TlsInfo option option" where
  "tls_in_fragment allow_partial fragment_data = do {
     handshake \<leftarrow> (if length fragment_data \<ge> 4
       then do {
         b \<leftarrow> byte_at fragment_data 0;
         if b = 1 then parse_partial_tls_handshake fragment_data allow_partial else Some None }
       else Some None);
     (case handshake of
        Some t \<Rightarrow> if essential t then Some (Some t) else tls_record_in_fragment fragment_data
      | None \<Rightarrow> tls_record_in_fragment fragment_data) }"

definition try_extract_from_fragments :: "reassembler \<Rightarrow> bool \<Rightarrow> TlsInfo option option" where
  "try_extract_from_fragments r allow_partial =
     first_hit (tls_in_fragment allow_partial) (map snd (fragments r))"

definition named_tls :: "unicode \<Rightarrow> TlsInfo" where
  "named_tls sni = new_tls_info\<lparr>tls_sni := Some sni\<rparr>"

definition try_extract_greedy_from_reassembler :: "reassembler \<Rightarrow> TlsInfo option option" where
  "try_extract_greedy_from_reassembler r = do {
     from_fragment \<leftarrow> first_hit (\<lambda>data. try_extract_sni_greedy data True) (map snd (fragments r));
     (case from_fragment of
        Some sni \<Rightarrow> Some (Some (named_tls sni))
      | None \<Rightarrow> (case get_contiguous_data r of
            None \<Rightarrow> Some None
          | Some contiguous \<Rightarrow> do {
              sni \<leftarrow> try_extract_sni_greedy contiguous True;
              Some (case sni of Some s \<Rightarrow> Some (named_tls s) | None \<Rightarrow> None) })) }"

text \<open>Return what was found, and keep it if its name is complete.\<close>

definition keep_complete :: "TlsInfo \<Rightarrow> reassembler \<Rightarrow> TlsInfo option \<times> reassembler" where
  "keep_complete t r = (Some t, if is_complete_sni (tls_sni t) then set_complete_tls_info t r else r)"

definition reconstructed_tls :: "reassembler \<Rightarrow> TlsInfo option option" where
  "reconstructed_tls r =
     (if sum_list (map (length \<circ> snd) (fragments r)) \<ge> 100
      then do {
        sni \<leftarrow> try_reconstruct_sni_from_fragments r;
        Some (case sni of Some s \<Rightarrow> Some (named_tls s) | None \<Rightarrow> None) }
      else Some None)"

text \<open>Strategies one to three, each of which keeps a complete name, then the fallback, which keeps any.\<close>

definition extraction_strategies :: "reassembler \<Rightarrow> bool \<Rightarrow> (TlsInfo option \<times> reassembler) option" where
  "extraction_strategies r allow_partial = do {
     found \<leftarrow> first_hit (\<lambda>strategy. strategy)
       [try_extract_from_contiguous r allow_partial, try_extract_from_fragments r allow_partial, reconstructed_tls r];
     (case found of
        Some t \<Rightarrow> Some (keep_complete t r)
      | None \<Rightarrow> do {
          greedy \<leftarrow> try_extract_greedy_from_reassembler r;
          Some (case greedy of
              Some t \<Rightarrow> (Some t, set_complete_tls_info t r)
            | None \<Rightarrow> (None, r)) }) }"

definition try_extract_tls_from_reassembler :: "reassembler \<Rightarrow> bool \<Rightarrow> (TlsInfo option \<times> reassembler) option" where
  "try_extract_tls_from_reassembler r allow_partial = (case get_cached_tls_info r of
     Some t \<Rightarrow> if is_complete_sni (tls_sni t) then Some (Some t, r) else extraction_strategies r allow_partial
   | None \<Rightarrow> extraction_strategies r allow_partial)"

text \<open>The extraction as the merge calls it. It never panics (\<open>extract_tls_Some\<close> of \<open>Quic_Safety\<close>).\<close>

definition extract_tls :: tls_extractor where
  "extract_tls r allow_partial = the (try_extract_tls_from_reassembler r allow_partial)"

end
