(* ===== verification/Packet_Merge.thy ===== *)
theory Packet_Merge
  imports Tcp_Machine Tcp_Analysis Rate_Tracking App_Merge Quic_Tls
begin

text \<open>
  Folding a packet into its connection: \<^verbatim>\<open>merge_packet_into_connection\<close> and
  \<^verbatim>\<open>create_connection_from_packet\<close> of \<^verbatim>\<open>merge.rs\<close>. What the code reads beside its arguments, the
  monotonic clock, is in the record \<open>merge_env\<close>.
\<close>

record merge_env =
  me_now :: instant

section \<open>Creating a connection\<close>

text \<open>\<^verbatim>\<open>Connection::new\<close>, at the time \<open>now\<close> its clock reads.\<close>

definition new_connection ::
  "instant \<Rightarrow> system_time \<Rightarrow> protocol \<Rightarrow> socket_addr \<Rightarrow> socket_addr \<Rightarrow> protocol_state \<Rightarrow> connection" where
  "new_connection inst now protocol local remote state =
     \<lparr>co_protocol = protocol, co_local_addr = local, co_remote_addr = remote,
      co_protocol_state = state, co_pid = None, co_process_ppid = None, co_process_name = None,
      co_executable = None, co_process_uid = None, co_process_gid = None,
      co_attribution_quality = None, co_connection_direction = None, co_bytes_sent = 0,
      co_bytes_received = 0, co_packets_sent = 0, co_packets_received = 0, co_created_at = now,
      co_last_activity = now,
      co_terminal_since = (if state \<in> {PS_Tcp TimeWait, PS_Tcp Closed} then Some now else None),
      co_service_name = None, co_dpi_info = None, co_rate_tracker = new_rate_tracker inst,
      co_current_incoming_rate_bps = 0, co_current_outgoing_rate_bps = 0,
      co_tcp_analytics = (if protocol = Tcp then Some new_tcp_analytics else None),
      co_initial_rtt = None, co_geoip_info = None, co_is_historic = False, co_closed_at = None\<rparr>"

definition create_direction :: "tcp_state \<Rightarrow> tcp_flags \<Rightarrow> bool \<Rightarrow> bool option" where
  "create_direction s flags out = (case s of
     SynSent \<Rightarrow> Some True
   | SynReceived \<Rightarrow> Some False
   | _ \<Rightarrow> if fl_syn flags \<and> fl_ack flags then Some (\<not> out) else None)"

definition create_connection_from_packet ::
  "merge_env \<Rightarrow> parsed_packet \<Rightarrow> system_time \<Rightarrow> connection" where
  "create_connection_from_packet E p now =
     (let c = new_connection (me_now E) now (pk_protocol p) (pk_local_addr p) (pk_remote_addr p)
                (pk_protocol_state p);
          c = (case pk_tcp_header p of
                 Some h \<Rightarrow>
                   (let s = update_tcp_state Unknown (th_flags h) (pk_is_outgoing p)
                    in c\<lparr>co_protocol_state := PS_Tcp s,
                         co_connection_direction := create_direction s (th_flags h) (pk_is_outgoing p)\<rparr>)
               | None \<Rightarrow> c\<lparr>co_protocol_state := pk_protocol_state p\<rparr>);
          c = (if pk_is_outgoing p
               then c\<lparr>co_packets_sent := 1, co_bytes_sent := pk_packet_len p,
                      co_packets_received := 0, co_bytes_received := 0\<rparr>
               else c\<lparr>co_packets_sent := 0, co_bytes_sent := 0,
                      co_packets_received := 1, co_bytes_received := pk_packet_len p\<rparr>);
          c = (case pk_dpi_result p of
                 Some app \<Rightarrow> c\<lparr>co_dpi_info := Some \<lparr>di_application = app, di_last_update_time = me_now E\<rparr>\<rparr>
               | None \<Rightarrow> c);
          c = (case pk_process_name p of Some n \<Rightarrow> c\<lparr>co_process_name := Some n\<rparr> | None \<Rightarrow> c);
          c = (case pk_process_id p of Some i \<Rightarrow> c\<lparr>co_pid := Some i\<rparr> | None \<Rightarrow> c);
          c = c\<lparr>co_created_at := now, co_last_activity := now\<rparr>;
          c = c\<lparr>co_terminal_since := (if is_terminal c then Some now else None)\<rparr>
      in c\<lparr>co_rate_tracker :=
             initialize_with_counts (co_bytes_sent c) (co_bytes_received c) (co_rate_tracker c)\<rparr>)"

section \<open>Merging a packet\<close>

definition count_packet :: "parsed_packet \<Rightarrow> connection \<Rightarrow> connection" where
  "count_packet p c =
     (if pk_is_outgoing p
      then c\<lparr>co_packets_sent := co_packets_sent c + 1, co_bytes_sent := co_bytes_sent c + pk_packet_len p\<rparr>
      else c\<lparr>co_packets_received := co_packets_received c + 1,
             co_bytes_received := co_bytes_received c + pk_packet_len p\<rparr>)"

definition segment_of :: "tcp_header \<Rightarrow> bool \<Rightarrow> tcp_segment" where
  "segment_of h out =
     \<lparr>sg_seq = th_seq h, sg_ack = th_ack h, sg_window = th_window h,
      sg_payload_len = th_payload_len h + (if fl_syn (th_flags h) then 1 else 0)
        + (if fl_fin (th_flags h) then 1 else 0),
      sg_is_outgoing = out, sg_has_ack_flag = fl_ack (th_flags h)\<rparr>"

text \<open>The protocol state and, for TCP, the analytics.\<close>

definition merge_protocol ::
  "parsed_packet \<Rightarrow> system_time \<Rightarrow> connection \<Rightarrow> connection \<times> tcp_merge_events" where
  "merge_protocol p now c = (case pk_tcp_header p of
     Some h \<Rightarrow>
       (let current = (case co_protocol_state c of PS_Tcp s \<Rightarrow> s | _ \<Rightarrow> Unknown);
            c = c\<lparr>co_protocol_state :=
                    PS_Tcp (update_tcp_state current (th_flags h) (pk_is_outgoing p))\<rparr>
        in (case co_tcp_analytics c of
              Some a \<Rightarrow>
                (let (a', ev) = analyze_tcp_segment (segment_of h (pk_is_outgoing p)) now a
                 in (c\<lparr>co_tcp_analytics := Some a'\<rparr>, ev))
            | None \<Rightarrow> (c, no_events)))
   | None \<Rightarrow>
       ((case co_protocol_state c of
           PS_Tcp _ \<Rightarrow> c
         | _ \<Rightarrow> c\<lparr>co_protocol_state := pk_protocol_state p\<rparr>), no_events))"

definition merge_process :: "parsed_packet \<Rightarrow> connection \<Rightarrow> connection" where
  "merge_process p c =
     (let c = (case pk_process_name p of
                 Some n \<Rightarrow> (case co_process_name c of
                    None \<Rightarrow> c\<lparr>co_process_name := Some n\<rparr>
                  | Some _ \<Rightarrow> c)
               | None \<Rightarrow> c)
      in (case pk_process_id p of
            Some i \<Rightarrow> (case co_pid c of None \<Rightarrow> c\<lparr>co_pid := Some i\<rparr> | Some _ \<Rightarrow> c)
          | None \<Rightarrow> c))"

definition merge_packet_into_connection ::
  "merge_env \<Rightarrow> parsed_packet \<Rightarrow> system_time \<Rightarrow> connection \<Rightarrow> connection \<times> tcp_merge_events" where
  "merge_packet_into_connection E p now c =
     (let was_terminal = is_terminal c;
          observation_time = max (co_last_activity c) now;
          c = c\<lparr>co_last_activity := observation_time\<rparr>;
          c = count_packet p c;
          (c, ev) = merge_protocol p now c;
          c = (case pk_dpi_result p of
                 Some app \<Rightarrow> c\<lparr>co_dpi_info :=
                   merge_dpi_info (extract_tls) (me_now E) app (co_dpi_info c)\<rparr>
               | None \<Rightarrow> c);
          c = merge_process p c;
          c = (if is_terminal c
               then if \<not> was_terminal \<or> co_terminal_since c = None
                    then c\<lparr>co_terminal_since := Some observation_time\<rparr> else c
               else c\<lparr>co_terminal_since := None\<rparr>);
          c = c\<lparr>co_rate_tracker :=
                  rate_update_at (me_now E) (co_bytes_sent c) (co_bytes_received c) (co_rate_tracker c)\<rparr>
      in (c, ev))"

section \<open>What a merge does to each field\<close>

text \<open>The protocol state and the inspection result after the packet.\<close>

definition next_protocol_state :: "parsed_packet \<Rightarrow> protocol_state \<Rightarrow> protocol_state" where
  "next_protocol_state p s = (case pk_tcp_header p of
     Some h \<Rightarrow> PS_Tcp (update_tcp_state (case s of PS_Tcp t \<Rightarrow> t | _ \<Rightarrow> Unknown) (th_flags h) (pk_is_outgoing p))
   | None \<Rightarrow> (case s of PS_Tcp t \<Rightarrow> PS_Tcp t | _ \<Rightarrow> pk_protocol_state p))"

definition next_dpi :: "merge_env \<Rightarrow> parsed_packet \<Rightarrow> dpi_info option \<Rightarrow> dpi_info option" where
  "next_dpi E p d = (case pk_dpi_result p of
     Some app \<Rightarrow> merge_dpi_info (extract_tls) (me_now E) app d
   | None \<Rightarrow> d)"

abbreviation merged :: "merge_env \<Rightarrow> parsed_packet \<Rightarrow> system_time \<Rightarrow> connection \<Rightarrow> connection" where
  "merged E p now c \<equiv> fst (merge_packet_into_connection E p now c)"

definition merge_core :: "merge_env \<Rightarrow> parsed_packet \<Rightarrow> system_time \<Rightarrow> connection \<Rightarrow> connection" where
  "merge_core E p now c = merge_process p
     ((fst (merge_protocol p now (count_packet p (c\<lparr>co_last_activity := max (co_last_activity c) now\<rparr>))))
        \<lparr>co_dpi_info := next_dpi E p (co_dpi_info c)\<rparr>)"

lemma merge_process_fields [simp]:
  "co_process_name (merge_process p c) = set_once (co_process_name c) (pk_process_name p)"
  "co_pid (merge_process p c) = set_once (co_pid c) (pk_process_id p)"
  "co_protocol_state (merge_process p c) = co_protocol_state c"
  "co_dpi_info (merge_process p c) = co_dpi_info c"
  "co_tcp_analytics (merge_process p c) = co_tcp_analytics c"
  "co_last_activity (merge_process p c) = co_last_activity c"
  "co_created_at (merge_process p c) = co_created_at c"
  "co_terminal_since (merge_process p c) = co_terminal_since c"
  "co_packets_sent (merge_process p c) = co_packets_sent c"
  "co_packets_received (merge_process p c) = co_packets_received c"
  "co_bytes_sent (merge_process p c) = co_bytes_sent c"
  "co_bytes_received (merge_process p c) = co_bytes_received c"
  "co_rate_tracker (merge_process p c) = co_rate_tracker c"
  "co_initial_rtt (merge_process p c) = co_initial_rtt c"
  "co_protocol (merge_process p c) = co_protocol c"
  "co_local_addr (merge_process p c) = co_local_addr c"
  "co_remote_addr (merge_process p c) = co_remote_addr c"
  "co_is_historic (merge_process p c) = co_is_historic c"
  "co_connection_direction (merge_process p c) = co_connection_direction c"
  by (simp_all add: merge_process_def Let_def set_once_def split: option.split)

lemma merge_protocol_fields [simp]:
  "co_process_name (fst (merge_protocol p now c)) = co_process_name c"
  "co_pid (fst (merge_protocol p now c)) = co_pid c"
  "co_protocol_state (fst (merge_protocol p now c)) = next_protocol_state p (co_protocol_state c)"
  "co_dpi_info (fst (merge_protocol p now c)) = co_dpi_info c"
  "co_last_activity (fst (merge_protocol p now c)) = co_last_activity c"
  "co_created_at (fst (merge_protocol p now c)) = co_created_at c"
  "co_terminal_since (fst (merge_protocol p now c)) = co_terminal_since c"
  "co_packets_sent (fst (merge_protocol p now c)) = co_packets_sent c"
  "co_packets_received (fst (merge_protocol p now c)) = co_packets_received c"
  "co_bytes_sent (fst (merge_protocol p now c)) = co_bytes_sent c"
  "co_bytes_received (fst (merge_protocol p now c)) = co_bytes_received c"
  "co_rate_tracker (fst (merge_protocol p now c)) = co_rate_tracker c"
  "co_initial_rtt (fst (merge_protocol p now c)) = co_initial_rtt c"
  "co_protocol (fst (merge_protocol p now c)) = co_protocol c"
  "co_local_addr (fst (merge_protocol p now c)) = co_local_addr c"
  "co_remote_addr (fst (merge_protocol p now c)) = co_remote_addr c"
  "co_is_historic (fst (merge_protocol p now c)) = co_is_historic c"
  "co_connection_direction (fst (merge_protocol p now c)) = co_connection_direction c"
  by (simp_all add: merge_protocol_def next_protocol_state_def Let_def case_prod_beta
      split: option.split protocol_state.split)

lemma count_packet_fields [simp]:
  "co_process_name (count_packet p c) = co_process_name c"
  "co_pid (count_packet p c) = co_pid c"
  "co_protocol_state (count_packet p c) = co_protocol_state c"
  "co_dpi_info (count_packet p c) = co_dpi_info c"
  "co_last_activity (count_packet p c) = co_last_activity c"
  "co_created_at (count_packet p c) = co_created_at c"
  "co_terminal_since (count_packet p c) = co_terminal_since c"
  "co_tcp_analytics (count_packet p c) = co_tcp_analytics c"
  "co_rate_tracker (count_packet p c) = co_rate_tracker c"
  "co_initial_rtt (count_packet p c) = co_initial_rtt c"
  "co_protocol (count_packet p c) = co_protocol c"
  "co_local_addr (count_packet p c) = co_local_addr c"
  "co_remote_addr (count_packet p c) = co_remote_addr c"
  "co_is_historic (count_packet p c) = co_is_historic c"
  "co_connection_direction (count_packet p c) = co_connection_direction c"
  by (simp_all add: count_packet_def)

text \<open>The merge is its core followed by the terminal clock and the rate sample.\<close>

definition merge_terminal :: "parsed_packet \<Rightarrow> system_time \<Rightarrow> connection \<Rightarrow> connection \<Rightarrow> connection" where
  "merge_terminal p now c d =
     d\<lparr>co_terminal_since :=
         (if is_terminal d
          then if \<not> is_terminal c \<or> co_terminal_since c = None
               then Some (max (co_last_activity c) now) else co_terminal_since c
          else None)\<rparr>"

lemma merged_core:
  "merged E p now c =
     (let d = merge_terminal p now c (merge_core E p now c)
      in d\<lparr>co_rate_tracker :=
             rate_update_at (me_now E) (co_bytes_sent d) (co_bytes_received d) (co_rate_tracker c)\<rparr>)"
proof -
  let ?c = "count_packet p (c\<lparr>co_last_activity := max (co_last_activity c) now\<rparr>)"
  have "(case pk_dpi_result p of
           Some app \<Rightarrow> d\<lparr>co_dpi_info := merge_dpi_info (extract_tls) (me_now E) app (co_dpi_info d)\<rparr>
         | None \<Rightarrow> d) = d\<lparr>co_dpi_info := next_dpi E p (co_dpi_info d)\<rparr>" for d :: connection
    by (simp add: next_dpi_def split: option.split)
  then show ?thesis
    by (simp add: merge_packet_into_connection_def merge_core_def merge_terminal_def Let_def case_prod_beta)
qed

lemmas merge_fields = merged_core merge_terminal_def merge_core_def Let_def

lemma merged_fields [simp]:
  "co_process_name (merged E p now c) = set_once (co_process_name c) (pk_process_name p)"
  "co_pid (merged E p now c) = set_once (co_pid c) (pk_process_id p)"
  "co_protocol_state (merged E p now c) = next_protocol_state p (co_protocol_state c)"
  "co_dpi_info (merged E p now c) = next_dpi E p (co_dpi_info c)"
  "co_last_activity (merged E p now c) = max (co_last_activity c) now"
  "co_created_at (merged E p now c) = co_created_at c"
  "co_initial_rtt (merged E p now c) = co_initial_rtt c"
  "co_protocol (merged E p now c) = co_protocol c"
  "co_local_addr (merged E p now c) = co_local_addr c"
  "co_remote_addr (merged E p now c) = co_remote_addr c"
  "co_is_historic (merged E p now c) = co_is_historic c"
  "co_connection_direction (merged E p now c) = co_connection_direction c"
  by (simp_all add: merge_fields)

lemma merged_counters:
  "co_packets_sent (merged E p now c) = co_packets_sent c + of_bool (pk_is_outgoing p)"
  "co_packets_received (merged E p now c) = co_packets_received c + of_bool (\<not> pk_is_outgoing p)"
  "co_bytes_sent (merged E p now c) = co_bytes_sent c + (if pk_is_outgoing p then pk_packet_len p else 0)"
  "co_bytes_received (merged E p now c) =
     co_bytes_received c + (if pk_is_outgoing p then 0 else pk_packet_len p)"
  by (simp_all add: merge_fields) (simp_all add: count_packet_def)

lemma merged_rates:
  "co_rate_tracker (merged E p now c) =
     rate_update_at (me_now E) (co_bytes_sent (merged E p now c)) (co_bytes_received (merged E p now c))
       (co_rate_tracker c)"
  by (simp add: merge_fields)

lemma merged_is_terminal:
  "is_terminal (merged E p now c) =
     terminal_state (next_protocol_state p (co_protocol_state c)) (next_dpi E p (co_dpi_info c))"
  by (simp add: is_terminal_def)

lemma merged_terminal_since:
  "co_terminal_since (merged E p now c) =
     (if is_terminal (merged E p now c)
      then if \<not> is_terminal c \<or> co_terminal_since c = None
           then Some (max (co_last_activity c) now) else co_terminal_since c
      else None)"
  by (simp add: merged_is_terminal) (simp add: merge_fields is_terminal_def)

end
