(* ===== verification/Connection_Life.thy ===== *)
theory Connection_Life
  imports Packet_Merge
begin

text \<open>
  The life of one connection: the packet that creates it and those merged into it. The
  invariant \<open>conn_ok\<close> relates the terminal clock, the activity times and the analytics to the
  protocol state; the lemmas say what a sequence of packets cannot change.
\<close>

section \<open>Packets and connections that fit\<close>

text \<open>
  What the parsers produce: the header and the state of the packet's protocol, and QUIC on UDP
  only.
\<close>

fun state_of_protocol :: "protocol \<Rightarrow> protocol_state \<Rightarrow> bool" where
  "state_of_protocol Tcp s = (\<exists>t. s = PS_Tcp t)"
| "state_of_protocol Udp s = (s = PS_Udp)"
| "state_of_protocol Icmp s = (\<exists>t i. s = PS_Icmp t i)"
| "state_of_protocol Igmp s = (\<exists>t g. s = PS_Igmp t g)"
| "state_of_protocol Arp s = (\<exists>a. s = PS_Arp a)"

definition packet_ok :: "parsed_packet \<Rightarrow> bool" where
  "packet_ok p \<longleftrightarrow> state_of_protocol (pk_protocol p) (pk_protocol_state p) \<and>
     (pk_tcp_header p \<noteq> None \<longleftrightarrow> pk_protocol p = Tcp) \<and>
     (case pk_dpi_result p of Some (AppQuic _) \<Rightarrow> pk_protocol p = Udp | _ \<Rightarrow> True)"

definition conn_ok :: "connection \<Rightarrow> bool" where
  "conn_ok c \<longleftrightarrow> state_of_protocol (co_protocol c) (co_protocol_state c) \<and>
     (co_terminal_since c \<noteq> None \<longleftrightarrow> is_terminal c) \<and>
     co_created_at c \<le> co_last_activity c \<and>
     (\<forall>t. co_terminal_since c = Some t \<longrightarrow> co_created_at c \<le> t \<and> t \<le> co_last_activity c) \<and>
     (co_tcp_analytics c \<noteq> None \<longleftrightarrow> co_protocol c = Tcp)"

lemma create_fields [simp]:
  "co_protocol (create_connection_from_packet E p now) = pk_protocol p"
  "co_local_addr (create_connection_from_packet E p now) = pk_local_addr p"
  "co_remote_addr (create_connection_from_packet E p now) = pk_remote_addr p"
  "co_created_at (create_connection_from_packet E p now) = now"
  "co_last_activity (create_connection_from_packet E p now) = now"
  "co_pid (create_connection_from_packet E p now) = pk_process_id p"
  "co_process_name (create_connection_from_packet E p now) = pk_process_name p"
  "co_is_historic (create_connection_from_packet E p now) = False"
  "co_packets_sent (create_connection_from_packet E p now) = of_bool (pk_is_outgoing p)"
  "co_packets_received (create_connection_from_packet E p now) = of_bool (\<not> pk_is_outgoing p)"
  "co_bytes_sent (create_connection_from_packet E p now) = (if pk_is_outgoing p then pk_packet_len p else 0)"
  "co_bytes_received (create_connection_from_packet E p now) = (if pk_is_outgoing p then 0 else pk_packet_len p)"
  "co_tcp_analytics (create_connection_from_packet E p now) =
     (if pk_protocol p = Tcp then Some new_tcp_analytics else None)"
  "co_protocol_state (create_connection_from_packet E p now) = (case pk_tcp_header p of
     Some h \<Rightarrow> PS_Tcp (update_tcp_state Unknown (th_flags h) (pk_is_outgoing p))
   | None \<Rightarrow> pk_protocol_state p)"
  "co_terminal_since (create_connection_from_packet E p now) =
     (if is_terminal (create_connection_from_packet E p now) then Some now else None)"
  by (simp_all add: create_connection_from_packet_def new_connection_def is_terminal_def Let_def
      split: option.split)

lemma conn_ok_create: "packet_ok p \<Longrightarrow> conn_ok (create_connection_from_packet E p now)"
  by (cases "pk_protocol p") (auto simp: conn_ok_def packet_ok_def split: option.split)

lemma merged_analytics: "co_tcp_analytics (merged E p now c) = None \<longleftrightarrow> co_tcp_analytics c = None"
  by (simp add: merge_fields)
    (auto simp: merge_protocol_def Let_def case_prod_beta split: option.split protocol_state.split)

lemma next_state_of_protocol:
  "packet_ok p \<Longrightarrow> pk_protocol p = q \<Longrightarrow> state_of_protocol q s \<Longrightarrow>
     state_of_protocol q (next_protocol_state p s)"
  by (cases q) (auto simp: packet_ok_def next_protocol_state_def split: option.split)

lemma conn_ok_merge:
  assumes "conn_ok c" "packet_ok p" "pk_protocol p = co_protocol c"
  shows "conn_ok (merged E p now c)"
  using assms next_state_of_protocol [OF assms(2,3), of "co_protocol_state c"]
  by (auto simp: conn_ok_def merged_terminal_since merged_analytics split: if_splits)

section \<open>A terminal connection stays terminal\<close>

lemma update_terminal: "s \<in> {TimeWait, Closed} \<Longrightarrow> update_tcp_state s f out \<in> {TimeWait, Closed}"
  by (auto simp: update_tcp_state_def)

lemma next_dpi_terminal:
  assumes "terminal_state PS_Udp d"
  shows "terminal_state PS_Udp (next_dpi E p d)"
proof -
  from assms obtain i q where d: "d = Some i" "di_application i = AppQuic q" "quic_terminal q"
    by (auto simp: terminal_state_def split: option.splits application_protocol.splits)
  then show ?thesis
    by (auto simp: terminal_state_def next_dpi_def merge_dpi_info_def merge_application_quic
        intro: quic_terminal_merge split: option.split application_protocol.split)
qed

lemma merge_stays_terminal:
  assumes "conn_ok c" "packet_ok p" "pk_protocol p = co_protocol c" "is_terminal c"
  shows "is_terminal (merged E p now c)" "co_terminal_since (merged E p now c) = co_terminal_since c"
proof -
  show t: "is_terminal (merged E p now c)"
  proof (cases "co_protocol c")
    case Tcp
    with assms obtain s h where "co_protocol_state c = PS_Tcp s" "pk_tcp_header p = Some h"
      by (auto simp: conn_ok_def packet_ok_def)
    with assms(4) show ?thesis
      using update_terminal [of s "th_flags h" "pk_is_outgoing p"]
      by (simp add: merged_is_terminal is_terminal_def terminal_state_def next_protocol_state_def)
  next
    case Udp
    with assms have "co_protocol_state c = PS_Udp" "pk_tcp_header p = None" "pk_protocol_state p = PS_Udp"
      by (auto simp: conn_ok_def packet_ok_def)
    with assms(4) show ?thesis
      using next_dpi_terminal [of "co_dpi_info c" E p]
      by (simp add: merged_is_terminal is_terminal_def next_protocol_state_def)
  qed (use assms in \<open>auto simp: conn_ok_def is_terminal_def terminal_state_def\<close>)
  show "co_terminal_since (merged E p now c) = co_terminal_since c"
    using t assms by (simp add: merged_terminal_since conn_ok_def del: merged_fields)
qed

section \<open>Sequences of packets\<close>

text \<open>Each packet with the environment and the time it is merged under.\<close>

type_synonym arrival = "merge_env \<times> parsed_packet \<times> system_time"

definition merge_all :: "arrival list \<Rightarrow> connection \<Rightarrow> connection" where
  "merge_all ps c = fold (\<lambda>(E, p, now) c. merged E p now c) ps c"

lemma merge_all_simps [simp]:
  "merge_all [] c = c"
  "merge_all ((E, p, now) # ps) c = merge_all ps (merged E p now c)"
  by (simp_all add: merge_all_def)

text \<open>All packets of a flow are of its protocol.\<close>

definition arrivals_ok :: "protocol \<Rightarrow> arrival list \<Rightarrow> bool" where
  "arrivals_ok q ps \<longleftrightarrow> (\<forall>(E, p, now) \<in> set ps. packet_ok p \<and> pk_protocol p = q)"

lemma arrivals_ok_simps [simp]:
  "arrivals_ok q []"
  "arrivals_ok q ((E, p, now) # ps) \<longleftrightarrow> packet_ok p \<and> pk_protocol p = q \<and> arrivals_ok q ps"
  by (auto simp: arrivals_ok_def)

lemma merge_all_ok:
  "conn_ok c \<Longrightarrow> arrivals_ok (co_protocol c) ps \<Longrightarrow>
     conn_ok (merge_all ps c) \<and> co_protocol (merge_all ps c) = co_protocol c"
  by (induction ps arbitrary: c) (auto simp: conn_ok_merge)

lemma merge_all_fields:
  "co_local_addr (merge_all ps c) = co_local_addr c" "co_remote_addr (merge_all ps c) = co_remote_addr c"
  "co_created_at (merge_all ps c) = co_created_at c"
  by (induction ps arbitrary: c) auto

lemma merge_all_terminal:
  assumes "conn_ok c" "arrivals_ok (co_protocol c) ps" "is_terminal c"
  shows "is_terminal (merge_all ps c) \<and> co_terminal_since (merge_all ps c) = co_terminal_since c"
  using assms
proof (induction ps arbitrary: c)
  case (Cons x ps)
  obtain E p now where x: "x = (E, p, now)" by (cases x)
  with Cons.prems have p: "packet_ok p" "pk_protocol p = co_protocol c" by simp_all
  from Cons.IH [of "merged E p now c"] Cons.prems p
    merge_stays_terminal [OF Cons.prems(1) p Cons.prems(3), of E now] conn_ok_merge [OF Cons.prems(1) p]
  show ?case by (simp add: x)
qed simp

text \<open>The TCP state after a sequence is the machine run on the flags and directions.\<close>

fun flags_of :: "arrival list \<Rightarrow> segment_flags list" where
  "flags_of [] = []"
| "flags_of ((E, p, now) # ps) = (case pk_tcp_header p of
     Some h \<Rightarrow> (th_flags h, pk_is_outgoing p) # flags_of ps
   | None \<Rightarrow> flags_of ps)"

lemma merge_all_tcp_state:
  "co_protocol_state c = PS_Tcp s \<Longrightarrow> co_protocol_state (merge_all ps c) = PS_Tcp (tcp_trace s (flags_of ps))"
  by (induction ps arbitrary: c s rule: flags_of.induct)
    (auto simp: next_protocol_state_def split: option.split)

text \<open>The process of a connection is the first one any source named.\<close>

definition first_some :: "'a option list \<Rightarrow> 'a option" where
  "first_some xs = foldl set_once None xs"

lemma foldl_set_once_Some [simp]: "foldl set_once (Some x) xs = Some x"
  by (induction xs) simp_all

lemma merge_all_process:
  "co_pid (merge_all ps c) = foldl set_once (co_pid c) (map (\<lambda>(E, p, now). pk_process_id p) ps)"
  "co_process_name (merge_all ps c) =
     foldl set_once (co_process_name c) (map (\<lambda>(E, p, now). pk_process_name p) ps)"
  by (induction ps arbitrary: c) auto

text \<open>Packets and bytes, counted modulo \<open>2 ^ 64\<close> as the code does.\<close>

definition sent_of :: "(parsed_packet \<Rightarrow> u64) \<Rightarrow> arrival \<Rightarrow> u64" where
  "sent_of f x = (case x of (E, p, now) \<Rightarrow> if pk_is_outgoing p then f p else 0)"

definition received_of :: "(parsed_packet \<Rightarrow> u64) \<Rightarrow> arrival \<Rightarrow> u64" where
  "received_of f x = (case x of (E, p, now) \<Rightarrow> if pk_is_outgoing p then 0 else f p)"

lemma merge_all_counters:
  "co_packets_sent (merge_all ps c) = co_packets_sent c + sum_list (map (sent_of (\<lambda>_. 1)) ps)"
  "co_packets_received (merge_all ps c) = co_packets_received c + sum_list (map (received_of (\<lambda>_. 1)) ps)"
  "co_bytes_sent (merge_all ps c) = co_bytes_sent c + sum_list (map (sent_of pk_packet_len) ps)"
  "co_bytes_received (merge_all ps c) = co_bytes_received c + sum_list (map (received_of pk_packet_len) ps)"
  by (induction ps arbitrary: c) (auto simp: merged_counters sent_of_def received_of_def)

section \<open>Times\<close>

lemma terminal_reference:
  assumes "is_terminal c" "co_terminal_since c = Some t"
  shows "cleanup_reference_time c = t"
    and "t + int (from_secs 30) < now \<Longrightarrow> should_cleanup c now"
  using assms terminal_timeout [OF assms(1)]
  by (simp_all add: cleanup_reference_time_def should_cleanup_iff)

text \<open>
  A connection in any other state has its clock at the last packet, and a timeout that, a QUIC
  idle timeout of the peers' own aside, is half an hour at most.
\<close>

definition negotiated_idle :: "connection \<Rightarrow> bool" where
  "negotiated_idle c \<longleftrightarrow> (\<exists>d q t. co_dpi_info c = Some d \<and> di_application d = AppQuic q \<and>
     qi_idle_timeout q = Some t)"

lemma timeout_bound:
  assumes "\<not> negotiated_idle c"
  shows "get_timeout c \<le> from_secs 1800"
proof (cases "co_protocol_state c")
  case (PS_Tcp s)
  then show ?thesis
    by (cases s) (simp_all add: get_timeout_def get_tcp_timeout_def TERMINAL_ARCHIVE_GRACE_def
        from_secs_def split: option.split application_protocol.split)
next
  case PS_Udp
  show ?thesis
  proof (cases "co_dpi_info c")
    case (Some d)
    have "get_app_timeout (di_application d) \<le> from_secs 1800"
    proof (cases "di_application d")
      case (AppQuic q)
      with assms Some have "qi_idle_timeout q = None" by (auto simp: negotiated_idle_def)
      with AppQuic show ?thesis
        by (simp add: get_quic_timeout_def TERMINAL_ARCHIVE_GRACE_def from_secs_def
            split: quic_connection_state.split)
    qed (simp_all add: from_secs_def)
    with PS_Udp Some show ?thesis by (simp add: get_timeout_def)
  qed (use PS_Udp in \<open>simp add: get_timeout_def from_secs_def\<close>)
qed (simp_all add: get_timeout_def from_secs_def)

lemma reference_le_activity: "conn_ok c \<Longrightarrow> cleanup_reference_time c \<le> co_last_activity c"
  by (auto simp: conn_ok_def cleanup_reference_time_def split: option.split)

lemma created_le_reference: "conn_ok c \<Longrightarrow> co_created_at c \<le> cleanup_reference_time c"
  by (auto simp: conn_ok_def cleanup_reference_time_def split: option.split)

lemma cleanup_after_created: "conn_ok c \<Longrightarrow> should_cleanup c now \<Longrightarrow> co_created_at c < now"
  using created_le_reference [of c] by (simp add: should_cleanup_iff)

section \<open>The rate window follows the counters\<close>

definition conn_rates_ok :: "connection \<Rightarrow> bool" where
  "conn_rates_ok c \<longleftrightarrow> rates_ok (co_rate_tracker c) \<and>
     rt_last_bytes_sent (co_rate_tracker c) = co_bytes_sent c \<and>
     rt_last_bytes_received (co_rate_tracker c) = co_bytes_received c"

lemma conn_rates_create: "conn_rates_ok (create_connection_from_packet E p now)"
  by (simp add: conn_rates_ok_def create_connection_from_packet_def new_connection_def Let_def
      initialize_with_counts_def new_rate_tracker_def rates_ok_def totals_ok_def sum_sent_def
      sum_received_def split: option.split)

lemma conn_rates_merge:
  assumes "conn_rates_ok c"
    and "unat (co_bytes_sent c) + unat (pk_packet_len p) < 2 ^ 64"
    and "unat (co_bytes_received c) + unat (pk_packet_len p) < 2 ^ 64"
  shows "conn_rates_ok (merged E p now c)"
proof -
  let ?s = "co_bytes_sent (merged E p now c)" and ?r = "co_bytes_received (merged E p now c)"
  have "co_bytes_sent c \<le> ?s" "co_bytes_received c \<le> ?r"
    using assms(2,3) by (auto simp: merged_counters word_le_nat_alt unat_word_ariths)
  with assms(1) have "rates_ok (rate_update_at (me_now E) ?s ?r (co_rate_tracker c))"
    by (intro rate_update_ok) (simp_all add: conn_rates_ok_def)
  then show ?thesis
    unfolding conn_rates_ok_def merged_rates by (simp add: rate_update_at_def Let_def)
qed

end
