(* ===== verification/Rtt_Tracking.thy ===== *)
theory Rtt_Tracking
  imports Core_Types
begin

text \<open>
  Handshake round trips: \<^verbatim>\<open>RttTracker\<close> of \<^verbatim>\<open>types.rs\<close>. A SYN, or an outgoing QUIC handshake packet,
  is remembered under its flow with its capture time and matched by the answer. The hash tables
  are maps. The time stamp of a recent sample is the clock at processing, an argument here.
\<close>

record rtt_tracker =
  pending_syns :: "connection_key \<rightharpoonup> system_time"
  pending_quic_handshakes :: "connection_key \<rightharpoonup> system_time"
  recent_rtts :: "(instant \<times> duration) list"
  max_pending_age :: duration
  max_recent_rtts :: nat

definition new_rtt_tracker :: rtt_tracker where
  "new_rtt_tracker = \<lparr>pending_syns = Map.empty, pending_quic_handshakes = Map.empty,
     recent_rtts = [], max_pending_age = from_secs 30, max_recent_rtts = 100\<rparr>"

definition retain_after :: "system_time \<Rightarrow> ('k \<rightharpoonup> system_time) \<Rightarrow> 'k \<rightharpoonup> system_time" where
  "retain_after cutoff m k = (case m k of Some t \<Rightarrow> if t > cutoff then Some t else None | None \<Rightarrow> None)"

definition cleanup_stale :: "system_time \<Rightarrow> rtt_tracker \<Rightarrow> rtt_tracker" where
  "cleanup_stale now t = (case checked_sub now (max_pending_age t) of
     None \<Rightarrow> t
   | Some cutoff \<Rightarrow> t\<lparr>pending_syns := retain_after cutoff (pending_syns t),
       pending_quic_handshakes := retain_after cutoff (pending_quic_handshakes t)\<rparr>)"

definition add_rtt_sample :: "instant \<Rightarrow> duration \<Rightarrow> rtt_tracker \<Rightarrow> rtt_tracker" where
  "add_rtt_sample inst rtt t =
     (let recent = (if length (recent_rtts t) \<ge> max_recent_rtts t then tl (recent_rtts t)
                    else recent_rtts t)
      in t\<lparr>recent_rtts := recent @ [(inst, rtt)]\<rparr>)"

definition record_syn :: "connection_key \<Rightarrow> system_time \<Rightarrow> rtt_tracker \<Rightarrow> rtt_tracker" where
  "record_syn key at t = cleanup_stale at (t\<lparr>pending_syns := (pending_syns t)(key \<mapsto> at)\<rparr>)"

definition record_syn_ack ::
  "instant \<Rightarrow> connection_key \<Rightarrow> system_time \<Rightarrow> rtt_tracker \<Rightarrow> duration option \<times> rtt_tracker" where
  "record_syn_ack inst key at t = (case pending_syns t key of
     Some syn_time \<Rightarrow>
       (let rtt = duration_since_or_default at syn_time
        in (Some rtt, add_rtt_sample inst rtt (t\<lparr>pending_syns := (pending_syns t)(key := None)\<rparr>)))
   | None \<Rightarrow> (None, t))"

definition record_quic_handshake ::
  "instant \<Rightarrow> connection_key \<Rightarrow> bool \<Rightarrow> system_time \<Rightarrow> rtt_tracker \<Rightarrow> duration option \<times> rtt_tracker" where
  "record_quic_handshake inst key is_outgoing at t =
     (let t = cleanup_stale at t
      in if is_outgoing
         then (None, t\<lparr>pending_quic_handshakes := (pending_quic_handshakes t)(key \<mapsto> at)\<rparr>)
         else (case pending_quic_handshakes t key of
             None \<Rightarrow> (None, t)
           | Some sent_at \<Rightarrow>
               (let rtt = duration_since_or_default at sent_at
                in (Some rtt, add_rtt_sample inst rtt
                      (t\<lparr>pending_quic_handshakes := (pending_quic_handshakes t)(key := None)\<rparr>)))))"

definition record_data_rtt :: "instant \<Rightarrow> duration \<Rightarrow> rtt_tracker \<Rightarrow> rtt_tracker" where
  "record_data_rtt inst rtt t = add_rtt_sample inst rtt t"

text \<open>
  The samples whose mean \<^verbatim>\<open>take_average_rtt\<close> returns (the mean itself is floating point), and the
  tracker it leaves.
\<close>

definition take_average_rtt :: "instant \<Rightarrow> nat \<Rightarrow> rtt_tracker \<Rightarrow> duration list option \<times> rtt_tracker" where
  "take_average_rtt inst window_secs t =
     (let cutoff = inst - int (from_secs window_secs);
          samples = map snd (filter (\<lambda>(ts, _). ts \<ge> cutoff) (recent_rtts t))
      in (if samples = [] then None else Some samples, t))"

definition clear_rtt :: "rtt_tracker \<Rightarrow> rtt_tracker" where
  "clear_rtt t =
     t\<lparr>pending_syns := Map.empty, pending_quic_handshakes := Map.empty, recent_rtts := []\<rparr>"

section \<open>Histories\<close>

datatype rtt_event =
    Syn connection_key system_time
  | SynAck instant connection_key system_time
  | QuicHandshake instant connection_key bool system_time
  | DataRtt instant duration

fun rtt_step :: "rtt_event \<Rightarrow> rtt_tracker \<Rightarrow> duration option \<times> rtt_tracker" where
  "rtt_step (Syn k at) t = (None, record_syn k at t)"
| "rtt_step (SynAck i k at) t = record_syn_ack i k at t"
| "rtt_step (QuicHandshake i k out at) t = record_quic_handshake i k out at t"
| "rtt_step (DataRtt i d) t = (None, record_data_rtt i d t)"

definition rtt_run :: "rtt_event list \<Rightarrow> rtt_tracker \<Rightarrow> rtt_tracker" where
  "rtt_run evs t = fold (\<lambda>e t. snd (rtt_step e t)) evs t"

lemma rtt_run_simps [simp]:
  "rtt_run [] t = t"
  "rtt_run (evs @ [e]) t = snd (rtt_step e (rtt_run evs t))"
  by (simp_all add: rtt_run_def)

text \<open>
  The last unanswered SYN of a flow in a history, and the last unanswered outgoing handshake
  packet: what an answer should be measured against.
\<close>

definition open_syn :: "rtt_event list \<Rightarrow> connection_key \<Rightarrow> system_time \<Rightarrow> bool" where
  "open_syn evs k t \<longleftrightarrow> (\<exists>xs ys. evs = xs @ Syn k t # ys \<and>
     (\<forall>e \<in> set ys. (\<forall>t'. e \<noteq> Syn k t') \<and> (\<forall>i t'. e \<noteq> SynAck i k t')))"

definition open_quic :: "rtt_event list \<Rightarrow> connection_key \<Rightarrow> system_time \<Rightarrow> bool" where
  "open_quic evs k t \<longleftrightarrow> (\<exists>xs i ys. evs = xs @ QuicHandshake i k True t # ys \<and>
     (\<forall>e \<in> set ys. \<forall>i out t'. e \<noteq> QuicHandshake i k out t'))"

lemma open_syn_snoc_new: "open_syn (evs @ [Syn k t]) k t"
  unfolding open_syn_def by (intro exI [of _ evs] exI [of _ "[]"]) simp

lemma open_syn_snoc:
  assumes "open_syn evs k t" "\<forall>t'. e \<noteq> Syn k t'" "\<forall>i t'. e \<noteq> SynAck i k t'"
  shows "open_syn (evs @ [e]) k t"
proof -
  from assms(1) obtain xs ys where "evs = xs @ Syn k t # ys"
    "\<forall>e \<in> set ys. (\<forall>t'. e \<noteq> Syn k t') \<and> (\<forall>i t'. e \<noteq> SynAck i k t')" by (auto simp: open_syn_def)
  with assms(2,3) show ?thesis
    unfolding open_syn_def by (intro exI [of _ xs] exI [of _ "ys @ [e]"]) auto
qed

lemma open_quic_snoc_new: "open_quic (evs @ [QuicHandshake i k True t]) k t"
  unfolding open_quic_def by (intro exI [of _ evs] exI [of _ i] exI [of _ "[]"]) simp

lemma open_quic_snoc:
  assumes "open_quic evs k t" "\<forall>i out t'. e \<noteq> QuicHandshake i k out t'"
  shows "open_quic (evs @ [e]) k t"
proof -
  from assms(1) obtain xs i ys where "evs = xs @ QuicHandshake i k True t # ys"
    "\<forall>e \<in> set ys. \<forall>i out t'. e \<noteq> QuicHandshake i k out t'" by (auto simp: open_quic_def)
  with assms(2) show ?thesis
    unfolding open_quic_def by (intro exI [of _ xs] exI [of _ i] exI [of _ "ys @ [e]"]) auto
qed

lemma retain_after_SomeD: "retain_after c m k = Some t \<Longrightarrow> m k = Some t"
  by (auto simp: retain_after_def split: option.splits if_splits)

lemma cleanup_stale_pendingD:
  "pending_syns (cleanup_stale now r) k = Some t \<Longrightarrow> pending_syns r k = Some t"
  "pending_quic_handshakes (cleanup_stale now r) k = Some t \<Longrightarrow> pending_quic_handshakes r k = Some t"
  by (auto simp: cleanup_stale_def dest: retain_after_SomeD split: option.splits)

lemma add_rtt_sample_frame [simp]:
  "pending_syns (add_rtt_sample i d r) = pending_syns r"
  "pending_quic_handshakes (add_rtt_sample i d r) = pending_quic_handshakes r"
  by (simp_all add: add_rtt_sample_def Let_def)

lemma cleanup_stale_recent [simp]:
  "recent_rtts (cleanup_stale now r) = recent_rtts r"
  "max_recent_rtts (cleanup_stale now r) = max_recent_rtts r"
  by (simp_all add: cleanup_stale_def split: option.split)

text \<open>What a step leaves pending was pending before or is what the step is about.\<close>

lemma step_pending_syn:
  assumes "pending_syns (snd (rtt_step e r)) k = Some t"
  shows "e = Syn k t \<or> pending_syns r k = Some t \<and> (\<forall>t'. e \<noteq> Syn k t') \<and> (\<forall>i t'. e \<noteq> SynAck i k t')"
proof (cases e)
  case (Syn k' t')
  with assms show ?thesis
    by (auto simp: record_syn_def dest: cleanup_stale_pendingD split: if_splits)
next
  case (SynAck i k' t')
  with assms show ?thesis
    by (auto simp: record_syn_ack_def Let_def split: option.splits if_splits)
next
  case (QuicHandshake i k' out t')
  with assms show ?thesis
    by (auto simp: record_quic_handshake_def Let_def dest: cleanup_stale_pendingD
        split: option.splits if_splits)
qed (use assms in \<open>simp add: record_data_rtt_def\<close>)

lemma step_pending_quic:
  assumes "pending_quic_handshakes (snd (rtt_step e r)) k = Some t"
  shows "(\<exists>i. e = QuicHandshake i k True t) \<or>
    pending_quic_handshakes r k = Some t \<and> (\<forall>i out t'. e \<noteq> QuicHandshake i k out t')"
proof (cases e)
  case (Syn k' t')
  with assms show ?thesis
    by (auto simp: record_syn_def dest: cleanup_stale_pendingD)
next
  case (SynAck i k' t')
  with assms show ?thesis
    by (auto simp: record_syn_ack_def Let_def split: option.splits)
next
  case (QuicHandshake i k' out t')
  with assms show ?thesis
    by (auto simp: record_quic_handshake_def Let_def dest: cleanup_stale_pendingD
        split: option.splits if_splits)
qed (use assms in \<open>simp add: record_data_rtt_def\<close>)

lemma run_pending_syn:
  "pending_syns (rtt_run evs new_rtt_tracker) k = Some t \<Longrightarrow> open_syn evs k t"
proof (induction evs arbitrary: t rule: rev_induct)
  case (snoc e evs)
  from step_pending_syn [OF snoc.prems [unfolded rtt_run_simps]] snoc.IH show ?case
    by (auto intro: open_syn_snoc open_syn_snoc_new)
qed (simp add: new_rtt_tracker_def)

lemma run_pending_quic:
  "pending_quic_handshakes (rtt_run evs new_rtt_tracker) k = Some t \<Longrightarrow> open_quic evs k t"
proof (induction evs arbitrary: t rule: rev_induct)
  case (snoc e evs)
  from step_pending_quic [OF snoc.prems [unfolded rtt_run_simps]] snoc.IH show ?case
    by (auto intro: open_quic_snoc open_quic_snoc_new)
qed (simp add: new_rtt_tracker_def)

section \<open>Bounds and matching\<close>

lemma run_recent_bound:
  "length (recent_rtts (rtt_run evs new_rtt_tracker)) \<le> 100 \<and>
   max_recent_rtts (rtt_run evs new_rtt_tracker) = 100 \<and>
   max_pending_age (rtt_run evs new_rtt_tracker) = from_secs 30"
proof (induction evs rule: rev_induct)
  case (snoc e evs)
  then show ?case
    by (cases e) (auto simp: record_syn_def record_syn_ack_def record_quic_handshake_def
        record_data_rtt_def add_rtt_sample_def cleanup_stale_def Let_def split: option.split)
qed (simp add: new_rtt_tracker_def)

text \<open>A SYN less than thirty seconds old is still there to be answered.\<close>

lemma cleanup_stale_keeps:
  assumes "max_pending_age r = from_secs 30" "now < t + int (from_secs 30)"
  shows "pending_syns r k = Some t \<Longrightarrow> pending_syns (cleanup_stale now r) k = Some t"
    and "pending_quic_handshakes r k = Some t \<Longrightarrow>
      pending_quic_handshakes (cleanup_stale now r) k = Some t"
  using assms
  by (auto simp: cleanup_stale_def checked_sub_def retain_after_def Let_def split: option.split)

text \<open>And it is, if its answer is the next thing its flow sends and comes in time.\<close>

definition about :: "connection_key \<Rightarrow> rtt_event \<Rightarrow> bool" where
  "about k e \<longleftrightarrow> (case e of
     Syn k' t \<Rightarrow> k' = k | SynAck i k' t \<Rightarrow> k' = k | QuicHandshake i k' out t \<Rightarrow> k' = k
   | DataRtt i d \<Rightarrow> False)"

definition event_time :: "rtt_event \<Rightarrow> system_time option" where
  "event_time e = (case e of
     Syn k t \<Rightarrow> Some t | SynAck i k t \<Rightarrow> Some t | QuicHandshake i k out t \<Rightarrow> Some t | DataRtt i d \<Rightarrow> None)"

lemma step_keeps_syn:
  assumes "pending_syns r k = Some t" "max_pending_age r = from_secs 30" "\<not> about k e"
    and "\<And>at. event_time e = Some at \<Longrightarrow> at < t + int (from_secs 30)"
  shows "pending_syns (snd (rtt_step e r)) k = Some t"
proof (cases e)
  case (Syn k' at)
  with assms cleanup_stale_keeps(1) [of "r\<lparr>pending_syns := (pending_syns r)(k' \<mapsto> at)\<rparr>" at t k]
  show ?thesis by (simp add: record_syn_def about_def event_time_def)
next
  case (SynAck i k' at)
  with assms show ?thesis by (simp add: record_syn_ack_def about_def Let_def split: option.split)
next
  case (QuicHandshake i k' out at)
  with assms cleanup_stale_keeps(1) [of r at t k] show ?thesis
    by (simp add: record_quic_handshake_def about_def event_time_def Let_def split: option.split)
qed (use assms in \<open>simp add: record_data_rtt_def\<close>)

lemma run_keeps_syn:
  assumes "\<forall>e \<in> set ys. \<not> about k e \<and> (\<forall>at. event_time e = Some at \<longrightarrow> at < t + int (from_secs 30))"
  shows "pending_syns (rtt_run (xs @ Syn k t # ys) new_rtt_tracker) k = Some t"
  using assms
proof (induction ys rule: rev_induct)
  case Nil
  have "max_pending_age (rtt_run xs new_rtt_tracker) = from_secs 30"
    using run_recent_bound by simp
  with cleanup_stale_keeps(1) [of "(rtt_run xs new_rtt_tracker)\<lparr>pending_syns :=
      (pending_syns (rtt_run xs new_rtt_tracker))(k \<mapsto> t)\<rparr>" t t k]
  show ?case by (simp add: record_syn_def from_secs_def)
next
  case (snoc e ys)
  let ?r = "rtt_run (xs @ Syn k t # ys) new_rtt_tracker"
  have "rtt_run (xs @ Syn k t # ys @ [e]) new_rtt_tracker = snd (rtt_step e ?r)"
    using rtt_run_simps(2) [of "xs @ Syn k t # ys" e] by simp
  with step_keeps_syn [of ?r k t e] snoc run_recent_bound [of "xs @ Syn k t # ys"] show ?case by simp
qed

end
