(* ===== verification/Tables.thy ===== *)
theory Tables
  imports Prelude "HOL-Library.AList" "HOL-Library.Multiset"
begin

text \<open>
  Hash tables whose entries are counted and iterated, as association lists with distinct keys.
  A hash map iterates in an order of its own: \<open>iterate rank\<close> sorts by an arbitrary rank of the
  keys, and every order of a table is that of some rank. \<open>evict_oldest\<close> is the loop with which
  the tracker bounds its tables. The locale \<open>retention\<close> is what its users rely on.
\<close>

section \<open>Tables\<close>

definition table_ok :: "('k \<times> 'v) list \<Rightarrow> bool" where
  "table_ok t \<longleftrightarrow> distinct (map fst t)"

lemma table_ok_Nil [simp]: "table_ok []"
  by (simp add: table_ok_def)

lemma table_ok_update [simp]: "table_ok t \<Longrightarrow> table_ok (AList.update k v t)"
  by (simp add: table_ok_def distinct_update)

lemma table_ok_delete [simp]: "table_ok t \<Longrightarrow> table_ok (AList.delete k t)"
  by (simp add: table_ok_def distinct_delete)

lemma table_ok_filter [simp]: "table_ok t \<Longrightarrow> table_ok (filter P t)"
  by (simp add: table_ok_def distinct_map_filter)

lemma table_ok_distinct: "table_ok t \<Longrightarrow> distinct t"
  by (simp add: table_ok_def distinct_map)

lemma table_lookup [simp]: "table_ok t \<Longrightarrow> map_of t k = Some v \<longleftrightarrow> (k, v) \<in> set t"
  by (simp add: table_ok_def map_of_eq_Some_iff)

lemma table_unique: "table_ok t \<Longrightarrow> (k, v) \<in> set t \<Longrightarrow> (k, w) \<in> set t \<Longrightarrow> v = w"
  by (metis option.inject table_lookup)

lemma in_delete [simp]: "x \<in> set (AList.delete k t) \<longleftrightarrow> x \<in> set t \<and> fst x \<noteq> k"
  by (auto simp: AList.delete_eq)

lemma in_update:
  "table_ok t \<Longrightarrow> x \<in> set (AList.update k v t) \<longleftrightarrow> x = (k, v) \<or> x \<in> set t \<and> fst x \<noteq> k"
  by (cases x) (auto simp: table_lookup [symmetric] update_conv' simp del: table_lookup)

lemma length_update_new: "map_of t k = None \<Longrightarrow> length (AList.update k v t) = Suc (length t)"
  by (induction t) (auto split: if_splits)

lemma length_update_old: "map_of t k \<noteq> None \<Longrightarrow> length (AList.update k v t) = length t"
  by (induction t) (auto split: if_splits)

lemma length_update_le: "length (AList.update k v t) \<le> Suc (length t)"
  by (cases "map_of t k") (simp_all add: length_update_new length_update_old)

lemma delete_absent: "map_of t k = None \<Longrightarrow> AList.delete k t = t"
  by (induction t) (auto simp: AList.delete_eq split: if_splits)

lemma length_delete_old: "table_ok t \<Longrightarrow> map_of t k \<noteq> None \<Longrightarrow> length t = Suc (length (AList.delete k t))"
proof (induction t)
  case (Cons x t)
  then show ?case
    by (cases "fst x = k") (auto simp: delete_absent table_ok_def map_of_eq_None_iff)
qed simp

lemma length_delete_le': "length (AList.delete k t) \<le> length t"
  by (simp add: AList.delete_eq)

text \<open>Sums over a table when one entry changes.\<close>

lemma sum_list_delete:
  fixes f :: "'k \<times> 'v \<Rightarrow> 'a::ab_group_add"
  assumes "table_ok t" "(k, v) \<in> set t"
  shows "sum_list (map f t) = f (k, v) + sum_list (map f (AList.delete k t))"
  using assms
proof (induction t)
  case (Cons x t)
  then show ?case
  proof (cases "fst x = k")
    case True
    with Cons.prems have "map_of t k = None"
      by (auto simp: table_ok_def map_of_eq_None_iff)
    with Cons.prems True show ?thesis
      by (auto simp: delete_absent table_ok_def)
  qed (auto simp: table_ok_def algebra_simps)
qed simp

lemma sum_list_update_new:
  fixes f :: "'k \<times> 'v \<Rightarrow> 'a::ab_group_add"
  shows "map_of t k = None \<Longrightarrow> sum_list (map f (AList.update k v t)) = f (k, v) + sum_list (map f t)"
  by (induction t) (auto simp: algebra_simps split: if_splits)

lemma sum_list_update_old:
  fixes f :: "'k \<times> 'v \<Rightarrow> 'a::ab_group_add"
  shows "map_of t k = Some w \<Longrightarrow>
    sum_list (map f (AList.update k v t)) = f (k, v) - f (k, w) + sum_list (map f t)"
  by (induction t) (auto simp: algebra_simps split: if_splits)

section \<open>Eviction of the oldest entries\<close>

definition iterate :: "('k \<Rightarrow> nat) \<Rightarrow> ('k \<times> 'v) list \<Rightarrow> ('k \<times> 'v) list" where
  "iterate rank t = sort_key (rank \<circ> fst) t"

definition evict_oldest ::
  "('k \<Rightarrow> nat) \<Rightarrow> ('v \<Rightarrow> int) \<Rightarrow> nat \<Rightarrow> ('k \<times> 'v) list \<Rightarrow> ('k \<times> 'v) list" where
  "evict_oldest rank stamp n t =
     (let entries = map (\<lambda>(k, v). (k, stamp v)) (iterate rank t);
          entries = sort_key snd entries;
          to_remove = length t - n
      in fold (\<lambda>(k, _) m. AList.delete k m) (take to_remove entries) t)"

text \<open>The entries in the order of removal, and those removed.\<close>

definition by_age :: "('k \<Rightarrow> nat) \<Rightarrow> ('v \<Rightarrow> int) \<Rightarrow> ('k \<times> 'v) list \<Rightarrow> ('k \<times> int) list" where
  "by_age rank stamp t = sort_key snd (map (\<lambda>(k, v). (k, stamp v)) (iterate rank t))"

definition victims :: "('k \<Rightarrow> nat) \<Rightarrow> ('v \<Rightarrow> int) \<Rightarrow> nat \<Rightarrow> ('k \<times> 'v) list \<Rightarrow> 'k set" where
  "victims rank stamp n t = fst ` set (take (length t - n) (by_age rank stamp t))"

lemma fold_delete: "fold (\<lambda>(k, _) m. AList.delete k m) vs t = filter (\<lambda>x. fst x \<notin> fst ` set vs) t"
  by (induction vs arbitrary: t) (auto simp: AList.delete_eq case_prod_beta intro!: filter_cong)

lemma evict_filter: "evict_oldest rank stamp n t = filter (\<lambda>x. fst x \<notin> victims rank stamp n t) t"
  by (simp add: evict_oldest_def victims_def by_age_def Let_def fold_delete)

lemma length_by_age [simp]: "length (by_age rank stamp t) = length t"
  by (simp add: by_age_def iterate_def)

lemma set_by_age: "(k, s) \<in> set (by_age rank stamp t) \<longleftrightarrow> (\<exists>v. (k, v) \<in> set t \<and> s = stamp v)"
  by (force simp: by_age_def iterate_def image_iff case_prod_beta)

lemma distinct_by_age: "table_ok t \<Longrightarrow> distinct (map fst (by_age rank stamp t))"
proof -
  have "mset (map fst (by_age rank stamp t)) = mset (map fst t)"
    by (simp add: by_age_def iterate_def multiset.map_comp comp_def case_prod_beta)
  then show "table_ok t \<Longrightarrow> ?thesis"
    by (metis mset_eq_imp_distinct_iff table_ok_def)
qed

lemma sorted_by_age: "sorted (map snd (by_age rank stamp t))"
  by (simp add: by_age_def)

lemma card_victims:
  assumes "table_ok t"
  shows "card (victims rank stamp n t) = length t - n"
proof -
  have "distinct (take (length t - n) (map fst (by_age rank stamp t)))"
    using distinct_by_age [OF assms] by (rule distinct_take)
  from distinct_card [OF this] show ?thesis
    by (simp add: victims_def take_map)
qed

lemma victims_subset: "victims rank stamp n t \<subseteq> fst ` set t"
  unfolding victims_def
proof
  fix k assume "k \<in> fst ` set (take (length t - n) (by_age rank stamp t))"
  then obtain s where "(k, s) \<in> set (by_age rank stamp t)"
    by (auto dest: in_set_takeD)
  then show "k \<in> fst ` set t" by (force simp: set_by_age)
qed

lemma evict_ok: "table_ok t \<Longrightarrow> table_ok (evict_oldest rank stamp n t)"
  by (simp add: evict_filter)

lemma evict_subset: "set (evict_oldest rank stamp n t) \<subseteq> set t"
  by (auto simp: evict_filter)

lemma evict_length:
  assumes "table_ok t"
  shows "length (evict_oldest rank stamp n t) = min (length t) n"
proof -
  let ?e = "evict_oldest rank stamp n t" and ?v = "victims rank stamp n t"
  have "length ?e = card (fst ` set ?e)"
    using evict_ok [OF assms, of rank stamp n] by (metis distinct_card length_map list.set_map table_ok_def)
  also have "fst ` set ?e = fst ` set t - ?v"
    by (auto simp: evict_filter)
  also have "card \<dots> = card (fst ` set t) - card ?v"
    by (rule card_Diff_subset) (use victims_subset [of rank stamp n t] finite_subset in auto)
  also have "card (fst ` set t) = length t"
    using assms by (metis distinct_card length_map list.set_map table_ok_def)
  finally show ?thesis using card_victims [OF assms, of rank stamp n] by simp
qed

lemma evict_age:
  assumes ok: "table_ok t" and kv: "(k, v) \<in> set t" "(k, v) \<notin> set (evict_oldest rank stamp n t)"
    and kw: "(k', w) \<in> set (evict_oldest rank stamp n t)"
  shows "stamp v \<le> stamp w"
proof -
  let ?b = "by_age rank stamp t" and ?m = "length t - n"
  have split: "sorted (map snd (take ?m ?b) @ map snd (drop ?m ?b))"
    using sorted_by_age [of rank stamp t] by (simp flip: map_append)
  from kv obtain s where s: "(k, s) \<in> set (take ?m ?b)"
    by (auto simp: evict_filter victims_def)
  then have "s = stamp v"
    using in_set_takeD [OF s] table_unique [OF ok kv(1)] by (auto simp: set_by_age)
  moreover from kw have "(k', stamp w) \<in> set ?b" "k' \<notin> fst ` set (take ?m ?b)"
    by (auto simp: evict_filter victims_def set_by_age)
  then have "(k', stamp w) \<in> set (drop ?m ?b)"
    by (metis Un_iff append_take_drop_id fst_conv image_eqI set_append)
  ultimately show ?thesis
    using split s by (auto simp: sorted_append dest!: bspec)
qed

section \<open>What the users of a bounded table rely on\<close>

locale retention =
  fixes stamp :: "'v \<Rightarrow> int"
    and evict :: "nat \<Rightarrow> ('k \<times> 'v) list \<Rightarrow> ('k \<times> 'v) list"
  assumes keeps_table: "table_ok t \<Longrightarrow> table_ok (evict n t)"
    and only_old: "set (evict n t) \<subseteq> set t"
    and bounded: "table_ok t \<Longrightarrow> length (evict n t) = min (length t) n"
    and oldest_first: "table_ok t \<Longrightarrow> (k, v) \<in> set t \<Longrightarrow> (k, v) \<notin> set (evict n t) \<Longrightarrow>
      (k', w) \<in> set (evict n t) \<Longrightarrow> stamp v \<le> stamp w"
begin

lemma bound: "table_ok t \<Longrightarrow> length (evict n t) \<le> n"
  by (simp add: bounded)

text \<open>An entry stays as long as the entries at least as recent fit, itself counted.\<close>

lemma survives:
  assumes ok: "table_ok t" and kv: "(k, v) \<in> set t"
    and room: "length (filter (\<lambda>x. stamp v \<le> stamp (snd x)) t) \<le> n"
  shows "(k, v) \<in> set (evict n t)"
proof (rule ccontr)
  assume gone: "(k, v) \<notin> set (evict n t)"
  let ?r = "filter (\<lambda>x. stamp v \<le> stamp (snd x)) t"
  have sub: "set (evict n t) \<subseteq> set ?r - {(k, v)}"
  proof (clarify)
    fix k' w assume w: "(k', w) \<in> set (evict n t)"
    with oldest_first [OF ok kv gone w] only_old [of n t] gone
    show "(k', w) \<in> set ?r - {(k, v)}" by auto
  qed
  have "length (evict n t) = card (set (evict n t))"
    by (rule distinct_card [OF table_ok_distinct [OF keeps_table [OF ok]], symmetric])
  also have "\<dots> \<le> card (set ?r - {(k, v)})"
    by (rule card_mono [OF _ sub]) simp
  also have "\<dots> < card (set ?r)"
    by (rule card_Diff1_less) (use kv in simp_all)
  also have "\<dots> = length ?r"
    by (rule distinct_card [OF distinct_filter [OF table_ok_distinct [OF ok]]])
  finally have "length (evict n t) < length ?r" .
  with room bounded [OF ok, of n] length_filter_le [of "\<lambda>x. stamp v \<le> stamp (snd x)" t]
  show False by linarith
qed

lemma untouched:
  assumes "table_ok t" "length t \<le> n"
  shows "set (evict n t) = set t"
proof
  show "set t \<subseteq> set (evict n t)"
  proof (clarify)
    fix k v assume "(k, v) \<in> set t"
    with assms show "(k, v) \<in> set (evict n t)"
      by (intro survives) (auto intro: order_trans [OF length_filter_le])
  qed
qed (rule only_old)

end

interpretation aged: retention stamp "evict_oldest rank stamp" for stamp rank
  by unfold_locales (rule evict_ok, assumption, rule evict_subset, rule evict_length, assumption, rule evict_age)

end
