(* ===== verification/Conn_Tracker.thy ===== *)
theory Conn_Tracker
  imports Connection_Life Rtt_Tracking Tables
begin

text \<open>
  The table of live connections: \<^verbatim>\<open>ConnectionTracker\<close> of \<^verbatim>\<open>tracker.rs\<close>. Its hash tables are
  association lists with distinct keys (theory \<open>Tables\<close>), its sizes are the values of the
  \<^verbatim>\<open>usize\<close> fields, and the counter of active connections is the 64-bit atomic it is, wrapping as
  \<^verbatim>\<open>fetch_add\<close> and \<^verbatim>\<open>fetch_sub\<close> do. A lock of the code is never poisoned here: no operation
  panics. Every operation is one step, as the guards of \<^verbatim>\<open>lifecycle\<close> make it in the code;
  \<open>ingest_new_generation\<close> is a separate operation because the code lets go of the guard before it.
\<close>

section \<open>State\<close>

record tracker_config =
  max_connections :: nat
  max_historic :: nat
  max_quic_mappings :: nat
  keep_historic :: bool

definition default_config :: tracker_config where
  "default_config = \<lparr>max_connections = 50000, max_historic = 5000, max_quic_mappings = 10000,
     keep_historic = True\<rparr>"

record historic_key =
  hk_key :: connection_key
  hk_created_nanos :: nat

record conn_tracker =
  tr_connections :: "(connection_key \<times> connection) list"
  tr_historic :: "(historic_key \<times> connection) list"
  tr_rtt :: rtt_tracker
  tr_quic_map :: "(unicode \<times> connection_key) list"
  tr_recently_closed :: "(connection_key \<times> system_time) list"
  tr_config :: tracker_config
  tr_active_count :: u64

definition RECENTLY_CLOSED_TTL :: duration where
  "RECENTLY_CLOSED_TTL = from_secs 30"

definition RECENTLY_CLOSED_MIN_ENTRIES :: nat where
  "RECENTLY_CLOSED_MIN_ENTRIES = 1024"

definition with_config :: "tracker_config \<Rightarrow> conn_tracker" where
  "with_config config = \<lparr>tr_connections = [], tr_historic = [], tr_rtt = new_rtt_tracker,
     tr_quic_map = [], tr_recently_closed = [], tr_config = config, tr_active_count = 0\<rparr>"

text \<open>
  What an operation reads beside its arguments: the clocks and the TLS extraction of the merge,
  the clock at each of the two places a round trip is recorded, and the iteration orders of the
  two tables that are sorted by age.
\<close>

record track_env =
  te_merge :: merge_env
  te_handshake_clock :: instant
  te_data_clock :: instant
  te_historic_rank :: "historic_key \<Rightarrow> nat"
  te_closed_rank :: "connection_key \<Rightarrow> nat"

record ingest_outcome =
  io_key :: connection_key
  io_created :: bool
  io_dropped :: bool
  io_ignored_late :: bool
  io_archived :: "connection option"
  io_retransmits :: u64
  io_out_of_order :: u64
  io_fast_retransmits :: u64
  io_measured_rtt :: "duration option"

section \<open>Recognising packets\<close>

definition is_quic_handshake_packet :: "quic_packet_type \<Rightarrow> bool" where
  "is_quic_handshake_packet t \<longleftrightarrow> t \<in> {Initial, Handshake, Retry, VersionNegotiation}"

definition parsed_quic_id :: "parsed_packet \<Rightarrow> unicode option" where
  "parsed_quic_id p = (case pk_dpi_result p of
     Some (AppQuic q) \<Rightarrow> qi_connection_id_hex q
   | _ \<Rightarrow> None)"

definition packet_starts_new_generation :: "connection \<Rightarrow> parsed_packet \<Rightarrow> bool" where
  "packet_starts_new_generation c p =
     (if \<not> is_closing_or_terminal c then False
      else (case pk_protocol p of
         Tcp \<Rightarrow> (case pk_tcp_header p of Some h \<Rightarrow> fl_syn (th_flags h) | None \<Rightarrow> False)
       | Udp \<Rightarrow> (case parsed_quic_id p of
            None \<Rightarrow> False
          | Some new_id \<Rightarrow> (case co_dpi_info c of
               None \<Rightarrow> False
             | Some d \<Rightarrow> (case di_application d of
                  AppQuic old_quic \<Rightarrow> (case qi_connection_id_hex old_quic of
                      Some old_id \<Rightarrow> old_id \<noteq> new_id
                    | None \<Rightarrow> False)
                | _ \<Rightarrow> False)))
       | _ \<Rightarrow> False))"

definition within_ttl :: "system_time \<Rightarrow> system_time \<Rightarrow> bool" where
  "within_ttl now closed_at \<longleftrightarrow> duration_since_or_default now closed_at \<le> RECENTLY_CLOSED_TTL"

definition is_teardown_only :: "tcp_header \<Rightarrow> bool" where
  "is_teardown_only h \<longleftrightarrow> \<not> fl_syn (th_flags h) \<and>
     (fl_fin (th_flags h) \<or> fl_rst (th_flags h) \<or> (fl_ack (th_flags h) \<and> th_payload_len h = 0))"

definition is_recent_late_packet ::
  "connection_key \<Rightarrow> parsed_packet \<Rightarrow> system_time \<Rightarrow> conn_tracker \<Rightarrow> bool" where
  "is_recent_late_packet key p now t =
     (if pk_protocol p \<noteq> Tcp then False
      else (case pk_tcp_header p of
         None \<Rightarrow> False
       | Some h \<Rightarrow>
           if \<not> is_teardown_only h then False
           else (case map_of (tr_recently_closed t) key of
              Some closed_at \<Rightarrow> within_ttl now closed_at
            | None \<Rightarrow> False)))"

section \<open>QUIC connection identifiers\<close>

definition map_quic_id :: "unicode \<Rightarrow> connection_key \<Rightarrow> conn_tracker \<Rightarrow> conn_tracker" where
  "map_quic_id i key t =
     (let m = (if length (tr_quic_map t) \<ge> max_quic_mappings (tr_config t) then [] else tr_quic_map t)
      in t\<lparr>tr_quic_map := AList.update i key m\<rparr>)"

definition resolve_connection_key :: "parsed_packet \<Rightarrow> conn_tracker \<Rightarrow> connection_key \<times> conn_tracker" where
  "resolve_connection_key p t =
     (let key = packet_key p
      in (case parsed_quic_id p of
            None \<Rightarrow> (key, t)
          | Some i \<Rightarrow> (case map_of (tr_quic_map t) i of
               Some existing_key \<Rightarrow> (existing_key, t)
             | None \<Rightarrow> (key, map_quic_id i key t))))"

definition associate_quic_id :: "parsed_packet \<Rightarrow> connection_key \<Rightarrow> conn_tracker \<Rightarrow> conn_tracker" where
  "associate_quic_id p key t = (case parsed_quic_id p of
     None \<Rightarrow> t
   | Some i \<Rightarrow> map_quic_id i key t)"

definition remove_quic_mappings_for_key :: "connection_key \<Rightarrow> conn_tracker \<Rightarrow> conn_tracker" where
  "remove_quic_mappings_for_key key t =
     t\<lparr>tr_quic_map := filter (\<lambda>(_, k). k \<noteq> key) (tr_quic_map t)\<rparr>"

section \<open>The archive and the tombstones\<close>

definition snapshot_clone :: "connection \<Rightarrow> connection" where
  "snapshot_clone c = c\<lparr>co_rate_tracker := clone_without_samples (co_rate_tracker c)\<rparr>"

definition historic_key_of :: "connection_key \<Rightarrow> connection \<Rightarrow> historic_key" where
  "historic_key_of key c =
     \<lparr>hk_key = key, hk_created_nanos = duration_since_or_default (co_created_at c) 0\<rparr>"

definition archive_snapshot ::
  "connection_key \<Rightarrow> connection \<Rightarrow> system_time \<Rightarrow> conn_tracker \<Rightarrow> conn_tracker" where
  "archive_snapshot key c now t =
     (if \<not> keep_historic (tr_config t) then t
      else (let historic = (snapshot_clone c)\<lparr>co_is_historic := True, co_closed_at := Some now\<rparr>
            in t\<lparr>tr_historic := AList.update (historic_key_of key c) historic (tr_historic t)\<rparr>))"

definition closed_stamp :: "connection \<Rightarrow> system_time" where
  "closed_stamp c = (case co_closed_at c of Some at \<Rightarrow> at | None \<Rightarrow> co_created_at c)"

definition enforce_historic_limit :: "track_env \<Rightarrow> conn_tracker \<Rightarrow> conn_tracker" where
  "enforce_historic_limit E t =
     (if length (tr_historic t) \<le> max_historic (tr_config t) then t
      else t\<lparr>tr_historic := evict_oldest (te_historic_rank E) closed_stamp
               (max_historic (tr_config t)) (tr_historic t)\<rparr>)"

definition record_recently_closed ::
  "connection_key \<Rightarrow> connection \<Rightarrow> system_time \<Rightarrow> conn_tracker \<Rightarrow> conn_tracker" where
  "record_recently_closed key c now t =
     (if \<not> is_terminal c then t
      else t\<lparr>tr_recently_closed := AList.update key now (tr_recently_closed t)\<rparr>)"

definition max_tombstones :: "conn_tracker \<Rightarrow> nat" where
  "max_tombstones t = max (max_historic (tr_config t)) RECENTLY_CLOSED_MIN_ENTRIES"

definition prune_recently_closed :: "track_env \<Rightarrow> system_time \<Rightarrow> conn_tracker \<Rightarrow> conn_tracker" where
  "prune_recently_closed E now t =
     (let closed = filter (\<lambda>(_, closed_at). within_ttl now closed_at) (tr_recently_closed t);
          closed = (if length closed > max_tombstones t
                    then evict_oldest (te_closed_rank E) id (max_tombstones t) closed else closed)
      in t\<lparr>tr_recently_closed := closed\<rparr>)"

section \<open>Ingesting a packet\<close>

text \<open>The handshake round trip a packet completes, if any.\<close>

definition observe_rtt ::
  "track_env \<Rightarrow> parsed_packet \<Rightarrow> system_time \<Rightarrow> conn_tracker \<Rightarrow> duration option \<times> conn_tracker" where
  "observe_rtt E p now t =
     (let base_key = packet_key p
      in (case (pk_protocol p, pk_tcp_header p) of
            (Tcp, Some h) \<Rightarrow>
              (if fl_syn (th_flags h) \<and> \<not> fl_ack (th_flags h)
               then (None, t\<lparr>tr_rtt := record_syn base_key now (tr_rtt t)\<rparr>)
               else if fl_syn (th_flags h) \<and> fl_ack (th_flags h)
               then (let (m, r) = record_syn_ack (te_handshake_clock E) base_key now (tr_rtt t)
                     in (m, t\<lparr>tr_rtt := r\<rparr>))
               else (None, t))
          | (Udp, _) \<Rightarrow> (case pk_dpi_result p of
               Some (AppQuic q) \<Rightarrow>
                 (if is_quic_handshake_packet (qi_packet_type q)
                  then (let (m, r) = record_quic_handshake (te_handshake_clock E) base_key
                                       (pk_is_outgoing p) now (tr_rtt t)
                        in (m, t\<lparr>tr_rtt := r\<rparr>))
                  else (None, t))
             | _ \<Rightarrow> (None, t))
          | _ \<Rightarrow> (None, t)))"

definition plain_outcome :: "connection_key \<Rightarrow> duration option \<Rightarrow> ingest_outcome" where
  "plain_outcome key measured =
     \<lparr>io_key = key, io_created = False, io_dropped = False, io_ignored_late = False,
      io_archived = None, io_retransmits = 0, io_out_of_order = 0, io_fast_retransmits = 0,
      io_measured_rtt = measured\<rparr>"

definition at_capacity :: "connection_key \<Rightarrow> conn_tracker \<Rightarrow> bool" where
  "at_capacity key t \<longleftrightarrow> unat (tr_active_count t) \<ge> max_connections (tr_config t) \<and>
     map_of (tr_connections t) key = None"

text \<open>The entry of the table: updated in place, or created.\<close>

definition upsert_connection ::
  "track_env \<Rightarrow> parsed_packet \<Rightarrow> system_time \<Rightarrow> connection_key \<Rightarrow> duration option \<Rightarrow>
     (connection_key \<times> connection) list \<Rightarrow> (connection_key \<times> connection) list \<times> bool \<times> tcp_merge_events" where
  "upsert_connection E p now key measured conns = (case map_of conns key of
     Some c \<Rightarrow>
       (let (c, deltas) = merge_packet_into_connection (te_merge E) p now c;
            c = (if measured \<noteq> None \<and> co_initial_rtt c = None then c\<lparr>co_initial_rtt := measured\<rparr> else c)
        in (AList.update key c conns, False, deltas))
   | None \<Rightarrow>
       (let c = create_connection_from_packet (te_merge E) p now;
            c = (if measured \<noteq> None then c\<lparr>co_initial_rtt := measured\<rparr> else c)
        in (AList.update key c conns, True, no_events)))"

definition ingest_into_active ::
  "track_env \<Rightarrow> parsed_packet \<Rightarrow> system_time \<Rightarrow> connection_key \<Rightarrow> duration option \<Rightarrow> conn_tracker \<Rightarrow>
     ingest_outcome \<times> conn_tracker" where
  "ingest_into_active E p now key measured t =
     (if at_capacity key t then ((plain_outcome key measured)\<lparr>io_dropped := True\<rparr>, t)
      else (let (conns, created, deltas) = upsert_connection E p now key measured (tr_connections t);
                t = t\<lparr>tr_connections := conns\<rparr>;
                t = (if created then t\<lparr>tr_active_count := tr_active_count t + 1\<rparr> else t);
                t = (case ev_rtt_sample deltas of
                       Some rtt \<Rightarrow> t\<lparr>tr_rtt := record_data_rtt (te_data_clock E) rtt (tr_rtt t)\<rparr>
                     | None \<Rightarrow> t)
            in ((plain_outcome key measured)
                  \<lparr>io_created := created, io_retransmits := ev_retransmits deltas,
                   io_out_of_order := ev_out_of_order deltas,
                   io_fast_retransmits := ev_fast_retransmits deltas\<rparr>, t)))"

definition needs_split :: "parsed_packet \<Rightarrow> connection_key \<Rightarrow> conn_tracker \<Rightarrow> bool" where
  "needs_split p key t = (case map_of (tr_connections t) key of
     Some c \<Rightarrow> packet_starts_new_generation c p
   | None \<Rightarrow> False)"

text \<open>The old generation leaves the table.\<close>

definition retire_generation ::
  "system_time \<Rightarrow> connection_key \<Rightarrow> connection \<Rightarrow> conn_tracker \<Rightarrow> conn_tracker" where
  "retire_generation now key c t =
     (let t = t\<lparr>tr_connections := AList.delete key (tr_connections t)\<rparr>;
          t = t\<lparr>tr_active_count := tr_active_count t - 1\<rparr>;
          t = archive_snapshot key c now t;
          t = record_recently_closed key c now t
      in remove_quic_mappings_for_key key t)"

definition replacement_time :: "system_time \<Rightarrow> connection \<Rightarrow> system_time" where
  "replacement_time now c =
     (if now \<le> co_created_at c
      then (case checked_add (co_created_at c) 1 of Some u \<Rightarrow> u | None \<Rightarrow> now) else now)"

definition ingest_new_generation ::
  "track_env \<Rightarrow> parsed_packet \<Rightarrow> system_time \<Rightarrow> connection_key \<Rightarrow> duration option \<Rightarrow> conn_tracker \<Rightarrow>
     ingest_outcome \<times> conn_tracker" where
  "ingest_new_generation E p now key measured t =
     (let archived = (if needs_split p key t then map_of (tr_connections t) key else None);
          replacement_now = (case archived of Some c \<Rightarrow> replacement_time now c | None \<Rightarrow> now);
          t = (case archived of Some c \<Rightarrow> retire_generation now key c t | None \<Rightarrow> t);
          t = associate_quic_id p key t;
          (outcome, t) = ingest_into_active E p replacement_now key measured t;
          t = enforce_historic_limit E t
      in (outcome\<lparr>io_archived := archived\<rparr>, prune_recently_closed E now t))"

text \<open>
  \<^verbatim>\<open>ingest_at\<close> up to where it lets go of the guard: either done, or asking for a new generation
  with what it has found out.
\<close>

datatype ingest_phase =
    Done ingest_outcome
  | Split connection_key "duration option"

definition ingest_shared ::
  "track_env \<Rightarrow> parsed_packet \<Rightarrow> system_time \<Rightarrow> conn_tracker \<Rightarrow> ingest_phase \<times> conn_tracker" where
  "ingest_shared E p now t =
     (let (measured, t) = observe_rtt E p now t;
          (key, t) = resolve_connection_key p t
      in if map_of (tr_connections t) key = None \<and> is_recent_late_packet key p now t
         then (Done ((plain_outcome key measured)\<lparr>io_ignored_late := True\<rparr>), t)
         else if needs_split p key t then (Split key measured, t)
         else (let (outcome, t) = ingest_into_active E p now key measured t in (Done outcome, t)))"

definition ingest_at ::
  "track_env \<Rightarrow> parsed_packet \<Rightarrow> system_time \<Rightarrow> conn_tracker \<Rightarrow> ingest_outcome \<times> conn_tracker" where
  "ingest_at E p now t = (case ingest_shared E p now t of
     (Done outcome, t) \<Rightarrow> (outcome, t)
   | (Split key measured, t) \<Rightarrow> ingest_new_generation E p now key measured t)"

section \<open>Cleanup\<close>

definition archive_closed ::
  "system_time \<Rightarrow> connection_key \<times> connection \<Rightarrow> conn_tracker \<Rightarrow> conn_tracker" where
  "archive_closed now x t = (case x of (key, c) \<Rightarrow>
     (let historic = (snapshot_clone c)\<lparr>co_is_historic := True, co_closed_at := Some now,
                       co_current_incoming_rate_bps := 0, co_current_outgoing_rate_bps := 0\<rparr>
      in t\<lparr>tr_historic := AList.update (historic_key_of key c) historic (tr_historic t)\<rparr>))"

definition expired :: "system_time \<Rightarrow> conn_tracker \<Rightarrow> (connection_key \<times> connection) list" where
  "expired now t = filter (\<lambda>(_, c). should_cleanup c now) (tr_connections t)"

definition cleanup :: "track_env \<Rightarrow> system_time \<Rightarrow> conn_tracker \<Rightarrow> connection list \<times> conn_tracker" where
  "cleanup E now t =
     (let removed = expired now t;
          t = t\<lparr>tr_connections := filter (\<lambda>(_, c). \<not> should_cleanup c now) (tr_connections t)\<rparr>;
          t = t\<lparr>tr_active_count := tr_active_count t - of_nat (length removed)\<rparr>;
          t = fold (\<lambda>(key, c). record_recently_closed key c now) removed t;
          t = (if keep_historic (tr_config t)
               then enforce_historic_limit E (fold (archive_closed now) removed t) else t);
          t = t\<lparr>tr_quic_map := filter (\<lambda>(_, k). k \<notin> fst ` set removed) (tr_quic_map t)\<rparr>
      in (map snd removed, prune_recently_closed E now t))"

definition clear_tracker :: "conn_tracker \<Rightarrow> conn_tracker" where
  "clear_tracker t = t\<lparr>tr_connections := [], tr_active_count := 0, tr_historic := [],
     tr_rtt := clear_rtt (tr_rtt t), tr_quic_map := [], tr_recently_closed := []\<rparr>"

definition snapshot :: "conn_tracker \<Rightarrow> connection list" where
  "snapshot t = map snd (tr_connections t)"

definition historic_snapshot :: "conn_tracker \<Rightarrow> connection list" where
  "historic_snapshot t = map snd (tr_historic t)"

section \<open>Histories of operations\<close>

datatype tracker_op =
    Ingest track_env parsed_packet system_time
  | Cleanup track_env system_time
  | Clear

fun tracker_step :: "tracker_op \<Rightarrow> conn_tracker \<Rightarrow> conn_tracker" where
  "tracker_step (Ingest E p now) t = snd (ingest_at E p now t)"
| "tracker_step (Cleanup E now) t = snd (cleanup E now t)"
| "tracker_step Clear t = clear_tracker t"

definition tracker_run :: "tracker_op list \<Rightarrow> conn_tracker \<Rightarrow> conn_tracker" where
  "tracker_run ops t = fold tracker_step ops t"

lemma tracker_run_simps [simp]:
  "tracker_run [] t = t"
  "tracker_run (op # ops) t = tracker_run ops (tracker_step op t)"
  "tracker_run (ops @ ops') t = tracker_run ops' (tracker_run ops t)"
  by (simp_all add: tracker_run_def)

end
