(* ===== verification/Tracker_Invariant.thy ===== *)
theory Tracker_Invariant
  imports Conn_Tracker
begin

text \<open>
  The invariant of the connection tracker and its preservation by every operation: the tables
  are tables, every entry is well formed under a key of its protocol, the atomic counter is the
  number of active connections, and the four tables are bounded.
\<close>

section \<open>The invariant\<close>

definition entry_ok :: "connection_key \<times> connection \<Rightarrow> bool" where
  "entry_ok x \<longleftrightarrow> conn_ok (snd x) \<and> cn_protocol (fst x) = co_protocol (snd x) \<and>
     \<not> co_is_historic (snd x)"

definition historic_entry_ok :: "historic_key \<times> connection \<Rightarrow> bool" where
  "historic_entry_ok x \<longleftrightarrow> conn_ok (snd x) \<and> cn_protocol (hk_key (fst x)) = co_protocol (snd x) \<and>
     co_is_historic (snd x) \<and> co_closed_at (snd x) \<noteq> None \<and>
     hk_created_nanos (fst x) = nat (co_created_at (snd x))"

definition tables_ok :: "conn_tracker \<Rightarrow> bool" where
  "tables_ok t \<longleftrightarrow> table_ok (tr_connections t) \<and> table_ok (tr_historic t) \<and>
     table_ok (tr_quic_map t) \<and> table_ok (tr_recently_closed t)"

definition core_ok :: "conn_tracker \<Rightarrow> bool" where
  "core_ok t \<longleftrightarrow> tables_ok t \<and> max_connections (tr_config t) < 2 ^ 64 \<and>
     (\<forall>x \<in> set (tr_connections t). entry_ok x) \<and>
     (\<forall>x \<in> set (tr_historic t). historic_entry_ok x) \<and>
     (\<forall>x \<in> set (tr_quic_map t). cn_protocol (snd x) = Udp) \<and>
     unat (tr_active_count t) = length (tr_connections t) \<and>
     length (tr_connections t) \<le> max_connections (tr_config t) \<and>
     length (tr_quic_map t) \<le> max 1 (max_quic_mappings (tr_config t))"

text \<open>The two bounds that hold between operations and not within them.\<close>

definition archive_bounded :: "conn_tracker \<Rightarrow> bool" where
  "archive_bounded t \<longleftrightarrow> length (tr_historic t) \<le> max_historic (tr_config t) \<and>
     length (tr_recently_closed t) \<le> max_tombstones t"

definition tracker_ok :: "conn_tracker \<Rightarrow> bool" where
  "tracker_ok t \<longleftrightarrow> core_ok t \<and> archive_bounded t"

definition op_ok :: "tracker_op \<Rightarrow> bool" where
  "op_ok op = (case op of Ingest E p now \<Rightarrow> packet_ok p | _ \<Rightarrow> True)"

section \<open>What the operations leave alone\<close>

lemma tables_ok_rtt [simp]: "tables_ok (t\<lparr>tr_rtt := r\<rparr>) = tables_ok t"
  by (simp add: tables_ok_def)

lemma core_ok_rtt [simp]: "core_ok (t\<lparr>tr_rtt := r\<rparr>) = core_ok t"
  by (simp add: core_ok_def)

lemma archive_bounded_rtt [simp]: "archive_bounded (t\<lparr>tr_rtt := r\<rparr>) = archive_bounded t"
  by (simp add: archive_bounded_def max_tombstones_def)

text \<open>Watching for a round trip changes the round trips only.\<close>

lemma observe_rtt_frame: "\<exists>r. snd (observe_rtt E p now t) = t\<lparr>tr_rtt := r\<rparr>"
proof -
  have "\<exists>r. t = t\<lparr>tr_rtt := r\<rparr>" by (rule exI [of _ "tr_rtt t"]) simp
  then show ?thesis
    by (auto simp: observe_rtt_def Let_def case_prod_beta split: protocol.split option.split
        application_protocol.split)
qed

lemma observe_rtt_fields [simp]:
  "tr_connections (snd (observe_rtt E p now t)) = tr_connections t"
  "tr_historic (snd (observe_rtt E p now t)) = tr_historic t"
  "tr_quic_map (snd (observe_rtt E p now t)) = tr_quic_map t"
  "tr_recently_closed (snd (observe_rtt E p now t)) = tr_recently_closed t"
  "tr_config (snd (observe_rtt E p now t)) = tr_config t"
  "tr_active_count (snd (observe_rtt E p now t)) = tr_active_count t"
  "core_ok (snd (observe_rtt E p now t)) = core_ok t"
  "archive_bounded (snd (observe_rtt E p now t)) = archive_bounded t"
  using observe_rtt_frame [of E p now t] by auto

lemma map_quic_id_fields [simp]:
  "tr_connections (map_quic_id i k t) = tr_connections t"
  "tr_historic (map_quic_id i k t) = tr_historic t"
  "tr_rtt (map_quic_id i k t) = tr_rtt t"
  "tr_recently_closed (map_quic_id i k t) = tr_recently_closed t"
  "tr_config (map_quic_id i k t) = tr_config t"
  "tr_active_count (map_quic_id i k t) = tr_active_count t"
  "archive_bounded (map_quic_id i k t) = archive_bounded t"
  by (simp_all add: map_quic_id_def Let_def archive_bounded_def max_tombstones_def)

lemma resolve_fields [simp]:
  "tr_connections (snd (resolve_connection_key p t)) = tr_connections t"
  "tr_historic (snd (resolve_connection_key p t)) = tr_historic t"
  "tr_rtt (snd (resolve_connection_key p t)) = tr_rtt t"
  "tr_recently_closed (snd (resolve_connection_key p t)) = tr_recently_closed t"
  "tr_config (snd (resolve_connection_key p t)) = tr_config t"
  "tr_active_count (snd (resolve_connection_key p t)) = tr_active_count t"
  "archive_bounded (snd (resolve_connection_key p t)) = archive_bounded t"
  by (simp_all add: resolve_connection_key_def Let_def split: option.split)

lemma associate_fields [simp]:
  "tr_connections (associate_quic_id p k t) = tr_connections t"
  "tr_historic (associate_quic_id p k t) = tr_historic t"
  "tr_rtt (associate_quic_id p k t) = tr_rtt t"
  "tr_recently_closed (associate_quic_id p k t) = tr_recently_closed t"
  "tr_config (associate_quic_id p k t) = tr_config t"
  "tr_active_count (associate_quic_id p k t) = tr_active_count t"
  "archive_bounded (associate_quic_id p k t) = archive_bounded t"
  by (simp_all add: associate_quic_id_def split: option.split)

lemma enforce_fields [simp]:
  "tr_connections (enforce_historic_limit E t) = tr_connections t"
  "tr_quic_map (enforce_historic_limit E t) = tr_quic_map t"
  "tr_rtt (enforce_historic_limit E t) = tr_rtt t"
  "tr_recently_closed (enforce_historic_limit E t) = tr_recently_closed t"
  "tr_config (enforce_historic_limit E t) = tr_config t"
  "tr_active_count (enforce_historic_limit E t) = tr_active_count t"
  by (simp_all add: enforce_historic_limit_def)

lemma prune_fields [simp]:
  "tr_connections (prune_recently_closed E now t) = tr_connections t"
  "tr_historic (prune_recently_closed E now t) = tr_historic t"
  "tr_quic_map (prune_recently_closed E now t) = tr_quic_map t"
  "tr_rtt (prune_recently_closed E now t) = tr_rtt t"
  "tr_config (prune_recently_closed E now t) = tr_config t"
  "tr_active_count (prune_recently_closed E now t) = tr_active_count t"
  by (simp_all add: prune_recently_closed_def Let_def)

lemma into_active_fields [simp]:
  "tr_historic (snd (ingest_into_active E p now k m t)) = tr_historic t"
  "tr_quic_map (snd (ingest_into_active E p now k m t)) = tr_quic_map t"
  "tr_recently_closed (snd (ingest_into_active E p now k m t)) = tr_recently_closed t"
  "tr_config (snd (ingest_into_active E p now k m t)) = tr_config t"
  by (simp_all add: ingest_into_active_def Let_def case_prod_beta split: option.split)

lemma retire_fields [simp]:
  "tr_config (retire_generation now k c t) = tr_config t"
  "tr_rtt (retire_generation now k c t) = tr_rtt t"
  "tr_connections (retire_generation now k c t) = AList.delete k (tr_connections t)"
  "tr_active_count (retire_generation now k c t) = tr_active_count t - 1"
  "tr_quic_map (retire_generation now k c t) = filter (\<lambda>(_, k'). k' \<noteq> k) (tr_quic_map t)"
  "tr_historic (retire_generation now k c t) = tr_historic (archive_snapshot k c now t)"
  "tr_recently_closed (retire_generation now k c t) =
     tr_recently_closed (record_recently_closed k c now t)"
  by (simp_all add: retire_generation_def archive_snapshot_def record_recently_closed_def
      remove_quic_mappings_for_key_def Let_def)

section \<open>Preservation\<close>

lemma parsed_quic_id_udp: "packet_ok p \<Longrightarrow> parsed_quic_id p = Some i \<Longrightarrow> pk_protocol p = Udp"
  by (auto simp: parsed_quic_id_def packet_ok_def split: option.splits application_protocol.splits)

lemma core_ok_map_quic_id:
  assumes "core_ok t" "cn_protocol k = Udp"
  shows "core_ok (map_quic_id i k t)"
proof -
  let ?m = "if length (tr_quic_map t) \<ge> max_quic_mappings (tr_config t) then [] else tr_quic_map t"
  have "table_ok ?m" "\<forall>x \<in> set ?m. cn_protocol (snd x) = Udp"
    and "Suc (length ?m) \<le> max 1 (max_quic_mappings (tr_config t))"
    using assms by (auto simp: core_ok_def tables_ok_def)
  then have "\<forall>x \<in> set (AList.update i k ?m). cn_protocol (snd x) = Udp" "table_ok (AList.update i k ?m)"
    and "length (AList.update i k ?m) \<le> max 1 (max_quic_mappings (tr_config t))"
    using assms(2) length_update_le [of i k ?m] by (auto simp: in_update simp del: length_update_le)
  with assms(1) show ?thesis
    by (simp add: core_ok_def tables_ok_def map_quic_id_def Let_def)
qed

lemma core_ok_resolve:
  assumes "core_ok t" "packet_ok p"
  shows "core_ok (snd (resolve_connection_key p t))"
    and "cn_protocol (fst (resolve_connection_key p t)) = pk_protocol p"
  using assms parsed_quic_id_udp [OF assms(2)] core_ok_map_quic_id [OF assms(1), of "packet_key p"]
  by (auto simp: resolve_connection_key_def Let_def packet_key_def core_ok_def tables_ok_def
      split: option.split)

lemma core_ok_associate:
  "core_ok t \<Longrightarrow> packet_ok p \<Longrightarrow> cn_protocol k = pk_protocol p \<Longrightarrow> core_ok (associate_quic_id p k t)"
  using parsed_quic_id_udp [of p] by (auto simp: associate_quic_id_def core_ok_map_quic_id split: option.split)

lemma conn_ok_initial_rtt [simp]: "conn_ok (c\<lparr>co_initial_rtt := r\<rparr>) = conn_ok c"
  by (simp add: conn_ok_def is_terminal_def)

text \<open>The entry after a packet, whatever the table held.\<close>

definition upserted ::
  "track_env \<Rightarrow> parsed_packet \<Rightarrow> system_time \<Rightarrow> duration option \<Rightarrow> connection option \<Rightarrow> connection" where
  "upserted E p now m old = (case old of
     Some c \<Rightarrow> (let c = merged (te_merge E) p now c
                in if m \<noteq> None \<and> co_initial_rtt c = None then c\<lparr>co_initial_rtt := m\<rparr> else c)
   | None \<Rightarrow> (let c = create_connection_from_packet (te_merge E) p now
              in if m \<noteq> None then c\<lparr>co_initial_rtt := m\<rparr> else c))"

lemma upsert_connection_eq:
  "fst (upsert_connection E p now k m conns) = AList.update k (upserted E p now m (map_of conns k)) conns"
  "fst (snd (upsert_connection E p now k m conns)) \<longleftrightarrow> map_of conns k = None"
  by (simp_all add: upsert_connection_def upserted_def Let_def case_prod_beta split: option.split)

lemma upserted_entry_ok:
  assumes "packet_ok p" "cn_protocol k = pk_protocol p" "\<forall>c. old = Some c \<longrightarrow> entry_ok (k, c)"
  shows "entry_ok (k, upserted E p now m old)"
proof (cases old)
  case None
  with assms conn_ok_create [OF assms(1)] show ?thesis
    by (simp add: upserted_def entry_ok_def Let_def)
next
  case (Some c)
  with assms(3) have c: "conn_ok c" "cn_protocol k = co_protocol c" "\<not> co_is_historic c"
    by (simp_all add: entry_ok_def)
  with conn_ok_merge [OF c(1) assms(1)] assms(2) Some show ?thesis
    by (simp add: upserted_def entry_ok_def Let_def)
qed

lemma into_active_connections:
  "tr_connections (snd (ingest_into_active E p now k m t)) =
     (if at_capacity k t then tr_connections t
      else AList.update k (upserted E p now m (map_of (tr_connections t) k)) (tr_connections t))"
  "tr_active_count (snd (ingest_into_active E p now k m t)) =
     (if at_capacity k t \<or> map_of (tr_connections t) k \<noteq> None then tr_active_count t
      else tr_active_count t + 1)"
  by (simp_all add: ingest_into_active_def Let_def case_prod_beta upsert_connection_eq split: option.split)

lemma core_ok_into_active:
  assumes "core_ok t" "packet_ok p" "cn_protocol k = pk_protocol p"
  shows "core_ok (snd (ingest_into_active E p now k m t))"
proof (cases "at_capacity k t")
  case False
  let ?c = "upserted E p now m (map_of (tr_connections t) k)"
  have ok: "table_ok (tr_connections t)" using assms(1) by (simp add: core_ok_def tables_ok_def)
  then have "entry_ok (k, ?c)"
    using assms by (intro upserted_entry_ok) (auto simp: core_ok_def)
  then have entries: "\<forall>x \<in> set (AList.update k ?c (tr_connections t)). entry_ok x"
    using assms(1) ok by (auto simp: in_update core_ok_def)
  show ?thesis
  proof (cases "map_of (tr_connections t) k")
    case None
    with False assms(1) have lt: "length (tr_connections t) < max_connections (tr_config t)"
      by (auto simp: at_capacity_def core_ok_def)
    with assms(1) have "unat (tr_active_count t + 1) = Suc (length (tr_connections t))"
      by (auto simp: core_ok_def unat_word_ariths)
    with None False lt entries assms(1) show ?thesis
      by (simp add: core_ok_def tables_ok_def into_active_connections length_update_new)
  next
    case (Some c)
    with False entries assms(1) show ?thesis
      by (simp add: core_ok_def tables_ok_def into_active_connections length_update_old del: table_lookup)
  qed
qed (use assms in \<open>simp add: ingest_into_active_def\<close>)

lemma conn_ok_snapshot [simp]:
  "conn_ok (snapshot_clone c) = conn_ok c"
  "conn_ok (c\<lparr>co_is_historic := b\<rparr>) = conn_ok c"
  "conn_ok (c\<lparr>co_closed_at := a\<rparr>) = conn_ok c"
  "conn_ok (c\<lparr>co_current_incoming_rate_bps := r\<rparr>) = conn_ok c"
  "conn_ok (c\<lparr>co_current_outgoing_rate_bps := r\<rparr>) = conn_ok c"
  by (simp_all add: conn_ok_def is_terminal_def snapshot_clone_def)

lemma snapshot_fields [simp]:
  "co_protocol (snapshot_clone c) = co_protocol c"
  "co_created_at (snapshot_clone c) = co_created_at c"
  by (simp_all add: snapshot_clone_def)


text \<open>An update of the archive keeps it, and grows it by one at most.\<close>

lemma historic_key_of_fields [simp]:
  "hk_key (historic_key_of k c) = k"
  "hk_created_nanos (historic_key_of k c) = nat (co_created_at c)"
  by (simp_all add: historic_key_of_def)

lemma historic_update:
  assumes "table_ok h" "\<forall>x \<in> set h. historic_entry_ok x" "historic_entry_ok y"
  shows "table_ok (AList.update (fst y) (snd y) h) \<and>
    (\<forall>x \<in> set (AList.update (fst y) (snd y) h). historic_entry_ok x)"
  using assms by (auto simp: in_update)

lemma entry_tables:
  assumes "core_ok t" "map_of (tr_connections t) k = Some c"
  shows "conn_ok c" "cn_protocol k = co_protocol c" "(k, c) \<in> set (tr_connections t)"
proof -
  show "(k, c) \<in> set (tr_connections t)" using assms(2) by (rule map_of_SomeD)
  with assms(1) show "conn_ok c" "cn_protocol k = co_protocol c"
    by (auto simp: core_ok_def entry_ok_def)
qed

lemma core_ok_retire:
  assumes "core_ok t" "map_of (tr_connections t) k = Some c"
  shows "core_ok (retire_generation now k c t)"
proof -
  note entry = entry_tables [OF assms]
  have ok: "table_ok (tr_connections t)" using assms(1) by (simp add: core_ok_def tables_ok_def)
  have len: "length (tr_connections t) = Suc (length (AList.delete k (tr_connections t)))"
    using length_delete_old [OF ok] assms(2) by simp
  with assms(1) have "tr_active_count t \<noteq> 0" by (auto simp: core_ok_def)
  with assms(1) len have count: "unat (tr_active_count t - 1) = length (AList.delete k (tr_connections t))"
    by (simp add: core_ok_def unat_minus_one)
  let ?h = "(snapshot_clone c)\<lparr>co_is_historic := True, co_closed_at := Some now\<rparr>"
  have "historic_entry_ok (historic_key_of k c, ?h)"
    using entry by (simp add: historic_entry_ok_def)
  with historic_update [of "tr_historic t" "(historic_key_of k c, ?h)"] assms(1)
  have hist: "table_ok (tr_historic (archive_snapshot k c now t))"
    "\<forall>x \<in> set (tr_historic (archive_snapshot k c now t)). historic_entry_ok x"
    by (auto simp: archive_snapshot_def core_ok_def tables_ok_def Let_def)
  have closed: "table_ok (tr_recently_closed (record_recently_closed k c now t))"
    using assms(1) by (simp add: record_recently_closed_def core_ok_def tables_ok_def)
  have quic: "length (filter P (tr_quic_map t)) \<le> max 1 (max_quic_mappings (tr_config t))" for P
    using assms(1) by (intro order_trans [OF length_filter_le]) (simp add: core_ok_def)
  from assms(1) len count hist closed quic show ?thesis
    by (auto simp: core_ok_def tables_ok_def)
qed

lemma core_ok_enforce: "core_ok t \<Longrightarrow> core_ok (enforce_historic_limit E t)"
  using aged.only_old [of "te_historic_rank E" closed_stamp "max_historic (tr_config t)" "tr_historic t"]
  by (auto simp: enforce_historic_limit_def core_ok_def tables_ok_def aged.keeps_table)

lemma enforce_bound:
  "table_ok (tr_historic t) \<Longrightarrow>
     length (tr_historic (enforce_historic_limit E t)) \<le> max_historic (tr_config t)"
  by (simp add: enforce_historic_limit_def aged.bound)

lemma core_ok_prune: "core_ok t \<Longrightarrow> core_ok (prune_recently_closed E now t)"
  by (simp add: prune_recently_closed_def Let_def core_ok_def tables_ok_def aged.keeps_table)

lemma prune_bound:
  "table_ok (tr_recently_closed t) \<Longrightarrow>
     length (tr_recently_closed (prune_recently_closed E now t)) \<le> max_tombstones t"
  by (simp add: prune_recently_closed_def Let_def aged.bound)

lemma max_tombstones_config: "tr_config t = tr_config u \<Longrightarrow> max_tombstones t = max_tombstones u"
  by (simp add: max_tombstones_def)

lemma bounded_after_prune:
  assumes "core_ok t" "length (tr_historic t) \<le> max_historic (tr_config t)"
  shows "tracker_ok (prune_recently_closed E now t)"
  using assms core_ok_prune [OF assms(1), of E now] prune_bound [of t E now]
    max_tombstones_config [of "prune_recently_closed E now t" t]
  by (simp add: tracker_ok_def archive_bounded_def core_ok_def tables_ok_def)

lemma needs_split_entry:
  "needs_split p k t \<Longrightarrow> \<exists>c. map_of (tr_connections t) k = Some c \<and> packet_starts_new_generation c p"
  by (simp add: needs_split_def split: option.splits)

lemma new_generation_connections:
  "tr_connections (snd (ingest_new_generation E p now k m t)) =
     (let a = (if needs_split p k t then map_of (tr_connections t) k else None)
      in tr_connections (snd (ingest_into_active E p
           (case a of Some c \<Rightarrow> replacement_time now c | None \<Rightarrow> now) k m
           (associate_quic_id p k (case a of Some c \<Rightarrow> retire_generation now k c t | None \<Rightarrow> t)))))"
  by (simp add: ingest_new_generation_def Let_def case_prod_beta)

lemma tracker_ok_new_generation:
  assumes "core_ok t" "packet_ok p" "cn_protocol k = pk_protocol p"
  shows "tracker_ok (snd (ingest_new_generation E p now k m t))"
proof -
  let ?a = "if needs_split p k t then map_of (tr_connections t) k else None"
  let ?r = "case ?a of Some c \<Rightarrow> replacement_time now c | None \<Rightarrow> now"
  let ?t = "case ?a of Some c \<Rightarrow> retire_generation now k c t | None \<Rightarrow> t"
  let ?u = "snd (ingest_into_active E p ?r k m (associate_quic_id p k ?t))"
  have "core_ok ?t"
    using assms(1) by (auto simp: core_ok_retire split: option.split if_splits dest: needs_split_entry)
  with assms(2,3) have "core_ok ?u"
    by (intro core_ok_into_active core_ok_associate)
  moreover from this have "length (tr_historic (enforce_historic_limit E ?u)) \<le> max_historic (tr_config ?u)"
    by (intro enforce_bound) (simp add: core_ok_def tables_ok_def)
  ultimately have "tracker_ok (prune_recently_closed E now (enforce_historic_limit E ?u))"
    by (intro bounded_after_prune core_ok_enforce) simp_all
  then show ?thesis
    by (simp add: ingest_new_generation_def Let_def case_prod_beta)
qed

lemma tracker_ok_shared:
  assumes "tracker_ok t" "packet_ok p"
  shows "tracker_ok (snd (ingest_shared E p now t))"
    and "fst (ingest_shared E p now t) = Split k m \<Longrightarrow> cn_protocol k = pk_protocol p"
proof -
  let ?t = "snd (resolve_connection_key p (snd (observe_rtt E p now t)))"
  have core: "core_ok ?t" and b: "archive_bounded ?t"
    using assms by (simp_all add: core_ok_resolve tracker_ok_def)
  have key: "cn_protocol (fst (resolve_connection_key p (snd (observe_rtt E p now t)))) = pk_protocol p"
    using assms by (intro core_ok_resolve) (simp_all add: tracker_ok_def)
  have "archive_bounded (snd (ingest_into_active E p now k' m' ?t)) = archive_bounded ?t" for k' m'
    by (simp add: archive_bounded_def max_tombstones_def)
  with core b core_ok_into_active [OF core assms(2) key] show "tracker_ok (snd (ingest_shared E p now t))"
    by (simp add: ingest_shared_def Let_def case_prod_beta tracker_ok_def)
  show "fst (ingest_shared E p now t) = Split k m \<Longrightarrow> cn_protocol k = pk_protocol p"
    using key by (auto simp: ingest_shared_def Let_def case_prod_beta split: if_splits)
qed

text \<open>Where a packet goes, and the tracker by then: a round trip watched for, an identifier mapped.\<close>

definition target :: "track_env \<Rightarrow> parsed_packet \<Rightarrow> system_time \<Rightarrow> conn_tracker \<Rightarrow> connection_key" where
  "target E p now t = fst (resolve_connection_key p (snd (observe_rtt E p now t)))"

definition prepared :: "track_env \<Rightarrow> parsed_packet \<Rightarrow> system_time \<Rightarrow> conn_tracker \<Rightarrow> conn_tracker" where
  "prepared E p now t = snd (resolve_connection_key p (snd (observe_rtt E p now t)))"

lemma prepared_fields [simp]:
  "tr_connections (prepared E p now t) = tr_connections t"
  "tr_historic (prepared E p now t) = tr_historic t"
  "tr_recently_closed (prepared E p now t) = tr_recently_closed t"
  "tr_config (prepared E p now t) = tr_config t"
  "tr_active_count (prepared E p now t) = tr_active_count t"
  "archive_bounded (prepared E p now t) = archive_bounded t"
  by (simp_all add: prepared_def)

lemma core_ok_prepared:
  assumes "core_ok t" "packet_ok p"
  shows "core_ok (prepared E p now t)" "cn_protocol (target E p now t) = pk_protocol p"
  using assms by (simp_all add: prepared_def target_def core_ok_resolve)

lemma ingest_at_eq:
  "ingest_at E p now t =
     (let k = target E p now t; m = fst (observe_rtt E p now t); u = prepared E p now t
      in if map_of (tr_connections t) k = None \<and> is_recent_late_packet k p now u
         then ((plain_outcome k m)\<lparr>io_ignored_late := True\<rparr>, u)
         else if needs_split p k u then ingest_new_generation E p now k m u
         else ingest_into_active E p now k m u)"
  by (simp add: ingest_at_def ingest_shared_def target_def prepared_def Let_def case_prod_beta)

lemma tracker_ok_ingest:
  assumes "tracker_ok t" "packet_ok p"
  shows "tracker_ok (snd (ingest_at E p now t))"
proof (cases "ingest_shared E p now t")
  case (Pair ph u)
  with tracker_ok_shared [OF assms, of E now] have "tracker_ok u" by simp
  with Pair tracker_ok_shared(2) [OF assms, of E now] tracker_ok_new_generation [of u p _ E now] assms(2)
  show ?thesis by (cases ph) (auto simp: ingest_at_def tracker_ok_def)
qed

section \<open>Cleanup\<close>

lemma fold_record_fields [simp]:
  fixes t :: conn_tracker
  shows
  "tr_connections (fold (\<lambda>(k, c). record_recently_closed k c now) xs t) = tr_connections t"
  "tr_historic (fold (\<lambda>(k, c). record_recently_closed k c now) xs t) = tr_historic t"
  "tr_rtt (fold (\<lambda>(k, c). record_recently_closed k c now) xs t) = tr_rtt t"
  "tr_quic_map (fold (\<lambda>(k, c). record_recently_closed k c now) xs t) = tr_quic_map t"
  "tr_config (fold (\<lambda>(k, c). record_recently_closed k c now) xs t) = tr_config t"
  "tr_active_count (fold (\<lambda>(k, c). record_recently_closed k c now) xs t) = tr_active_count t"
  by (induction xs arbitrary: t) (auto simp: record_recently_closed_def)

lemma fold_record_table:
  fixes t :: conn_tracker
  shows "table_ok (tr_recently_closed t) \<Longrightarrow>
    table_ok (tr_recently_closed (fold (\<lambda>(k, c). record_recently_closed k c now) xs t))"
  by (induction xs arbitrary: t) (auto simp: record_recently_closed_def)

lemma fold_archive_fields [simp]:
  fixes t :: conn_tracker
  shows
  "tr_connections (fold (archive_closed now) xs t) = tr_connections t"
  "tr_recently_closed (fold (archive_closed now) xs t) = tr_recently_closed t"
  "tr_rtt (fold (archive_closed now) xs t) = tr_rtt t"
  "tr_quic_map (fold (archive_closed now) xs t) = tr_quic_map t"
  "tr_config (fold (archive_closed now) xs t) = tr_config t"
  "tr_active_count (fold (archive_closed now) xs t) = tr_active_count t"
  by (induction xs arbitrary: t) (auto simp: archive_closed_def)

lemma archive_closed_historic:
  assumes "table_ok (tr_historic t)" "\<forall>y \<in> set (tr_historic t). historic_entry_ok y" "entry_ok x"
  shows "table_ok (tr_historic (archive_closed now x t)) \<and>
    (\<forall>y \<in> set (tr_historic (archive_closed now x t)). historic_entry_ok y)"
proof -
  obtain k c where x: "x = (k, c)" by (cases x)
  let ?h = "(snapshot_clone c)\<lparr>co_is_historic := True, co_closed_at := Some now,
    co_current_incoming_rate_bps := 0, co_current_outgoing_rate_bps := 0\<rparr>"
  have "historic_entry_ok (historic_key_of k c, ?h)"
    using assms(3) by (simp add: historic_entry_ok_def entry_ok_def x)
  from historic_update [OF assms(1,2) this] show ?thesis
    by (simp add: archive_closed_def x)
qed

lemma fold_archive_historic:
  fixes t :: conn_tracker
  assumes "table_ok (tr_historic t)" "\<forall>y \<in> set (tr_historic t). historic_entry_ok y"
    "\<forall>x \<in> set xs. entry_ok x"
  shows "table_ok (tr_historic (fold (archive_closed now) xs t)) \<and>
    (\<forall>y \<in> set (tr_historic (fold (archive_closed now) xs t)). historic_entry_ok y)"
  using assms
proof (induction xs arbitrary: t)
  case (Cons x xs)
  from archive_closed_historic [OF Cons.prems(1,2), of x now] Cons.prems(3)
    Cons.IH [of "archive_closed now x t"] show ?case by simp
qed simp

text \<open>Cleanup before its last step, the pruning of the tombstones.\<close>

definition cleaned :: "track_env \<Rightarrow> system_time \<Rightarrow> conn_tracker \<Rightarrow> conn_tracker" where
  "cleaned E now t =
     (let removed = expired now t;
          t = t\<lparr>tr_connections := filter (\<lambda>(_, c). \<not> should_cleanup c now) (tr_connections t)\<rparr>;
          t = t\<lparr>tr_active_count := tr_active_count t - of_nat (length removed)\<rparr>;
          t = fold (\<lambda>(key, c). record_recently_closed key c now) removed t;
          t = (if keep_historic (tr_config t)
               then enforce_historic_limit E (fold (archive_closed now) removed t) else t)
      in t\<lparr>tr_quic_map := filter (\<lambda>(_, k). k \<notin> fst ` set removed) (tr_quic_map t)\<rparr>)"

lemma cleanup_eq:
  "cleanup E now t = (map snd (expired now t), prune_recently_closed E now (cleaned E now t))"
  by (simp add: cleanup_def cleaned_def Let_def)

lemma cleaned_fields [simp]:
  "tr_connections (cleaned E now t) = filter (\<lambda>(_, c). \<not> should_cleanup c now) (tr_connections t)"
  "tr_active_count (cleaned E now t) = tr_active_count t - of_nat (length (expired now t))"
  "tr_quic_map (cleaned E now t) = filter (\<lambda>(_, k). k \<notin> fst ` set (expired now t)) (tr_quic_map t)"
  "tr_config (cleaned E now t) = tr_config t"
  "tr_rtt (cleaned E now t) = tr_rtt t"
  by (simp_all add: cleaned_def Let_def)

lemma unat_count_minus:
  fixes w :: u64
  shows "n \<le> unat w \<Longrightarrow> unat (w - of_nat n) = unat w - n"
proof -
  assume "n \<le> unat w"
  moreover from this have "unat (of_nat n :: u64) = n"
    using unat_bound [of w] by (simp add: unat_of_nat)
  ultimately show ?thesis by (simp add: unat_sub word_le_nat_alt)
qed

lemma expired_split:
  "length (expired now t) + length (filter (\<lambda>(_, c). \<not> should_cleanup c now) (tr_connections t)) =
     length (tr_connections t)"
  using sum_length_filter_compl [of "\<lambda>x. should_cleanup (snd x) now" "tr_connections t"]
  by (simp add: expired_def case_prod_beta')

lemma core_ok_cleaned:
  assumes "tracker_ok t"
  shows "core_ok (cleaned E now t)"
    and "length (tr_historic (cleaned E now t)) \<le> max_historic (tr_config t)"
proof -
  have t: "core_ok t" "archive_bounded t" using assms by (simp_all add: tracker_ok_def)
  let ?r = "expired now t"
  let ?u = "fold (\<lambda>(key, c). record_recently_closed key c now) ?r
    (t\<lparr>tr_connections := filter (\<lambda>(_, c). \<not> should_cleanup c now) (tr_connections t),
       tr_active_count := tr_active_count t - of_nat (length ?r)\<rparr>)"
  let ?v = "fold (archive_closed now) ?r ?u"
  have "\<forall>x \<in> set ?r. entry_ok x" using t by (auto simp: expired_def core_ok_def)
  with t fold_archive_historic [of ?u ?r now]
  have v: "table_ok (tr_historic ?v)" "\<forall>y \<in> set (tr_historic ?v). historic_entry_ok y"
    by (simp_all add: core_ok_def tables_ok_def)
  have h: "tr_historic (cleaned E now t) =
      (if keep_historic (tr_config t) then tr_historic (enforce_historic_limit E ?v) else tr_historic t)"
    by (simp add: cleaned_def Let_def)
  show "length (tr_historic (cleaned E now t)) \<le> max_historic (tr_config t)"
    using enforce_bound [OF v(1), of E] t by (auto simp: h archive_bounded_def)
  have hist: "table_ok (tr_historic (cleaned E now t))"
    "\<forall>y \<in> set (tr_historic (cleaned E now t)). historic_entry_ok y"
    using v t aged.only_old [of "te_historic_rank E" closed_stamp "max_historic (tr_config t)" "tr_historic ?v"]
    by (auto simp: h enforce_historic_limit_def aged.keeps_table core_ok_def tables_ok_def)
  have "tr_recently_closed (cleaned E now t) = tr_recently_closed ?u"
    by (simp add: cleaned_def Let_def)
  with t have closed: "table_ok (tr_recently_closed (cleaned E now t))"
    by (auto intro!: fold_record_table simp: core_ok_def tables_ok_def)
  have quic: "length (filter P (tr_quic_map t)) \<le> max 1 (max_quic_mappings (tr_config t))" for P
    using t by (intro order_trans [OF length_filter_le]) (simp add: core_ok_def)
  from t expired_split [of now t]
  have count: "unat (tr_active_count (cleaned E now t)) = length (tr_connections (cleaned E now t))"
    by (simp add: unat_count_minus core_ok_def)
  from t hist closed quic count expired_split [of now t] show "core_ok (cleaned E now t)"
    by (auto simp: core_ok_def tables_ok_def)
qed

lemma tracker_ok_cleanup: "tracker_ok t \<Longrightarrow> tracker_ok (snd (cleanup E now t))"
  using core_ok_cleaned [of t E now] by (simp add: cleanup_eq bounded_after_prune)

lemma tracker_ok_clear: "tracker_ok t \<Longrightarrow> tracker_ok (clear_tracker t)"
  by (simp add: tracker_ok_def core_ok_def tables_ok_def archive_bounded_def clear_tracker_def)

lemma tracker_ok_new: "max_connections config < 2 ^ 64 \<Longrightarrow> tracker_ok (with_config config)"
  by (simp add: tracker_ok_def core_ok_def tables_ok_def archive_bounded_def with_config_def)

lemma tracker_ok_step: "tracker_ok t \<Longrightarrow> op_ok op \<Longrightarrow> tracker_ok (tracker_step op t)"
  by (cases op) (simp_all add: op_ok_def tracker_ok_ingest tracker_ok_cleanup tracker_ok_clear)

lemma tracker_ok_run: "tracker_ok t \<Longrightarrow> list_all op_ok ops \<Longrightarrow> tracker_ok (tracker_run ops t)"
  by (induction ops arbitrary: t) (simp_all add: tracker_ok_step)

section \<open>The branches of ingesting\<close>

lemma ingest_at_late:
  "map_of (tr_connections t) (target E p now t) = None \<Longrightarrow>
     is_recent_late_packet (target E p now t) p now (prepared E p now t) \<Longrightarrow>
     ingest_at E p now t =
       ((plain_outcome (target E p now t) (fst (observe_rtt E p now t)))\<lparr>io_ignored_late := True\<rparr>,
        prepared E p now t)"
  by (simp add: ingest_at_eq Let_def)

lemma ingest_at_split:
  "needs_split p (target E p now t) (prepared E p now t) \<Longrightarrow>
     ingest_at E p now t = ingest_new_generation E p now (target E p now t) (fst (observe_rtt E p now t))
       (prepared E p now t)"
  by (auto simp: ingest_at_eq Let_def needs_split_def split: option.splits)

lemma ingest_at_active:
  "\<not> needs_split p (target E p now t) (prepared E p now t) \<Longrightarrow>
     \<not> (map_of (tr_connections t) (target E p now t) = None \<and>
        is_recent_late_packet (target E p now t) p now (prepared E p now t)) \<Longrightarrow>
     ingest_at E p now t = ingest_into_active E p now (target E p now t) (fst (observe_rtt E p now t))
       (prepared E p now t)"
  by (auto simp: ingest_at_eq Let_def)

text \<open>A packet of a flow the table does not have makes its connection.\<close>

lemma ingest_creates:
  assumes "target E p now t = k" "map_of (tr_connections t) k = None"
    and "\<not> is_recent_late_packet k p now (prepared E p now t)" "\<not> at_capacity k t"
  shows "tr_connections (snd (ingest_at E p now t)) =
    AList.update k (upserted E p now (fst (observe_rtt E p now t)) None) (tr_connections t)"
proof -
  have "\<not> needs_split p k (prepared E p now t)" "\<not> at_capacity k (prepared E p now t)"
    using assms by (simp_all add: needs_split_def at_capacity_def)
  with assms show ?thesis by (simp add: ingest_at_active into_active_connections)
qed

text \<open>A packet of a flow it has is merged into it, whatever the limit, unless it opens a new session.\<close>

lemma ingest_merges:
  assumes "target E p now t = k" "map_of (tr_connections t) k = Some c"
    and "\<not> packet_starts_new_generation c p"
  shows "tr_connections (snd (ingest_at E p now t)) =
    AList.update k (upserted E p now (fst (observe_rtt E p now t)) (Some c)) (tr_connections t)"
proof -
  have "\<not> needs_split p k (prepared E p now t)" "\<not> at_capacity k (prepared E p now t)"
    using assms(2,3) by (simp_all add: needs_split_def at_capacity_def del: table_lookup)
  with assms show ?thesis by (simp add: ingest_at_active into_active_connections del: table_lookup)
qed

lemma target_tcp:
  assumes "pk_protocol p = Tcp" "packet_ok p"
  shows "target E p now t = packet_key p" "tr_quic_map (prepared E p now t) = tr_quic_map t"
  using parsed_quic_id_udp [OF assms(2)] assms(1)
  by (auto simp: target_def prepared_def resolve_connection_key_def Let_def split: option.split)

text \<open>The configuration stays as it was given.\<close>

lemma config_new_generation [simp]: "tr_config (snd (ingest_new_generation E p now k m t)) = tr_config t"
  by (simp add: ingest_new_generation_def Let_def case_prod_beta split: option.split)

lemma config_ingest [simp]: "tr_config (snd (ingest_at E p now t)) = tr_config t"
  by (simp add: ingest_at_eq Let_def)

lemma config_run [simp]: "tr_config (tracker_run ops t) = tr_config t"
proof (induction ops arbitrary: t)
  case (Cons op ops)
  then show ?case by (cases op) (simp_all add: cleanup_eq clear_tracker_def)
qed simp

end
