(* ===== verification/Tracker_Lifecycle.thy ===== *)
theory Tracker_Lifecycle
  imports Tracker_Invariant
begin

text \<open>
  The end of a connection: what a cleanup removes and where it goes, why a delayed teardown
  segment does not bring a closed TCP connection back, why an archived generation is never
  overwritten by a later one, and that a terminal connection leaves whatever traffic follows.
\<close>

section \<open>What a cleanup removes\<close>

lemma cleanup_active:
  "tr_connections (snd (cleanup E now t)) = filter (\<lambda>(_, c). \<not> should_cleanup c now) (tr_connections t)"
  "tr_quic_map (snd (cleanup E now t)) =
     filter (\<lambda>(_, k). k \<notin> fst ` set (expired now t)) (tr_quic_map t)"
  "tr_rtt (snd (cleanup E now t)) = tr_rtt t"
  "tr_config (snd (cleanup E now t)) = tr_config t"
  "fst (cleanup E now t) = map snd (expired now t)"
  by (simp_all add: cleanup_eq)

lemma expired_iff: "(k, c) \<in> set (expired now t) \<longleftrightarrow> (k, c) \<in> set (tr_connections t) \<and> should_cleanup c now"
  by (auto simp: expired_def)

lemma expired_distinct: "tracker_ok t \<Longrightarrow> distinct (map fst (expired now t))"
  using table_ok_filter [of "tr_connections t"]
  by (simp add: tracker_ok_def core_ok_def tables_ok_def expired_def table_ok_def)

text \<open>The record a removed connection leaves.\<close>

definition closed_record :: "system_time \<Rightarrow> connection \<Rightarrow> connection" where
  "closed_record now c = (snapshot_clone c)\<lparr>co_is_historic := True, co_closed_at := Some now,
     co_current_incoming_rate_bps := 0, co_current_outgoing_rate_bps := 0\<rparr>"

lemma archive_closed_eq:
  "tr_historic (archive_closed now (k, c) t) =
     AList.update (historic_key_of k c) (closed_record now c) (tr_historic t)"
  by (simp add: archive_closed_def closed_record_def)

lemma fold_archive_keeps:
  assumes "h \<notin> (\<lambda>(k, c). historic_key_of k c) ` set xs"
  shows "map_of (tr_historic (fold (archive_closed now) xs t)) h = map_of (tr_historic t) h"
  using assms
  by (induction xs arbitrary: t) (auto simp: archive_closed_eq update_conv' simp del: table_lookup)

lemma fold_archive_stores:
  fixes t :: conn_tracker
  assumes "distinct (map fst xs)" "(k, c) \<in> set xs"
  shows "map_of (tr_historic (fold (archive_closed now) xs t)) (historic_key_of k c) = Some (closed_record now c)"
  using assms
proof (induction xs arbitrary: t)
  case (Cons x xs)
  show ?case
  proof (cases "x = (k, c)")
    case True
    with Cons.prems have "historic_key_of k c \<notin> (\<lambda>(k, c). historic_key_of k c) ` set xs"
      by (force simp: historic_key_of_def)
    with True show ?thesis
      by (simp add: fold_archive_keeps archive_closed_eq update_conv' del: table_lookup)
  qed (use Cons in auto)
qed simp

lemma length_fold_archive:
  "length (tr_historic (fold (archive_closed now) xs t)) \<le> length (tr_historic t) + length xs"
proof (induction xs arbitrary: t)
  case (Cons x xs)
  obtain k c where x: "x = (k, c)" by (cases x)
  have "length (tr_historic (archive_closed now x t)) \<le> Suc (length (tr_historic t))"
    by (simp add: x archive_closed_eq length_update_le)
  with Cons.IH [of "archive_closed now x t"] show ?case by simp
qed simp

text \<open>With room in the archive, every removed connection is in it.\<close>

lemma cleanup_archives:
  assumes ok: "tracker_ok t" and keep: "keep_historic (tr_config t)"
    and room: "length (tr_historic t) + length (expired now t) \<le> max_historic (tr_config t)"
    and kc: "(k, c) \<in> set (tr_connections t)" "should_cleanup c now"
  shows "map_of (tr_historic (snd (cleanup E now t))) (historic_key_of k c) = Some (closed_record now c)"
proof -
  let ?r = "expired now t"
  let ?u = "fold (\<lambda>(key, c). record_recently_closed key c now) ?r
    (t\<lparr>tr_connections := filter (\<lambda>(_, c). \<not> should_cleanup c now) (tr_connections t),
       tr_active_count := tr_active_count t - of_nat (length ?r)\<rparr>)"
  let ?v = "fold (archive_closed now) ?r ?u"
  have "length (tr_historic ?v) \<le> max_historic (tr_config t)"
    using length_fold_archive [of now ?r ?u] room by simp
  then have "tr_historic (snd (cleanup E now t)) = tr_historic ?v"
    by (simp add: cleanup_eq cleaned_def Let_def keep enforce_historic_limit_def)
  with fold_archive_stores [OF expired_distinct [OF ok], of k c now now ?u] kc show ?thesis
    by (simp add: expired_iff del: table_lookup)
qed

text \<open>The archive gives up its oldest entries, and only when it is full.\<close>

lemma enforce_oldest:
  assumes "table_ok (tr_historic t)" "(h, c) \<in> set (tr_historic t)"
    "(h, c) \<notin> set (tr_historic (enforce_historic_limit E t))"
    "(h', c') \<in> set (tr_historic (enforce_historic_limit E t))"
  shows "closed_stamp c \<le> closed_stamp c'"
    and "max_historic (tr_config t) < length (tr_historic t)"
  using assms aged.oldest_first [OF assms(1,2)]
  by (auto simp: enforce_historic_limit_def split: if_splits)

lemma cleanup_evicts:
  assumes ok: "tracker_ok t" and hc: "(h, c) \<in> set (tr_historic t)"
    and other: "h \<notin> (\<lambda>(k, c). historic_key_of k c) ` set (expired now t)"
    and gone: "(h, c) \<notin> set (tr_historic (snd (cleanup E now t)))"
    and kept: "(h', c') \<in> set (tr_historic (snd (cleanup E now t)))"
  shows "closed_stamp c \<le> closed_stamp c'"
proof -
  let ?r = "expired now t"
  let ?u = "fold (\<lambda>(key, c). record_recently_closed key c now) ?r
    (t\<lparr>tr_connections := filter (\<lambda>(_, c). \<not> should_cleanup c now) (tr_connections t),
       tr_active_count := tr_active_count t - of_nat (length ?r)\<rparr>)"
  let ?v = "fold (archive_closed now) ?r ?u"
  have h: "tr_historic (snd (cleanup E now t)) =
      (if keep_historic (tr_config t) then tr_historic (enforce_historic_limit E ?v) else tr_historic t)"
    by (simp add: cleanup_eq cleaned_def Let_def)
  with gone hc have eq: "tr_historic (snd (cleanup E now t)) = tr_historic (enforce_historic_limit E ?v)"
    by (simp split: if_splits)
  have "\<forall>x \<in> set ?r. entry_ok x" using ok by (auto simp: expired_def tracker_ok_def core_ok_def)
  with ok fold_archive_historic [of ?u ?r now] have v: "table_ok (tr_historic ?v)"
    by (simp add: tracker_ok_def core_ok_def tables_ok_def)
  have "map_of (tr_historic t) h = Some c"
    using ok hc by (simp add: tracker_ok_def core_ok_def tables_ok_def)
  then have "map_of (tr_historic ?v) h = Some c"
    by (simp add: fold_archive_keeps [OF other] del: table_lookup)
  with v have "(h, c) \<in> set (tr_historic ?v)" by simp
  from enforce_oldest(1) [OF v this] gone kept show ?thesis by (simp add: eq)
qed

section \<open>Tombstones\<close>

definition late_teardown :: "connection_key \<Rightarrow> parsed_packet \<Rightarrow> bool" where
  "late_teardown k p \<longleftrightarrow> packet_ok p \<and> packet_key p = k \<and> pk_protocol p = Tcp \<and>
     (\<exists>h. pk_tcp_header p = Some h \<and> is_teardown_only h)"

text \<open>A packet that only tears down finds the tombstone and changes nothing at all.\<close>

lemma late_ignored:
  assumes p: "late_teardown k p"
    and gone: "map_of (tr_connections t) k = None"
    and tomb: "map_of (tr_recently_closed t) k = Some at" "now \<le> at + int RECENTLY_CLOSED_TTL"
  shows "ingest_at E p now t = ((plain_outcome k None)\<lparr>io_ignored_late := True\<rparr>, t)"
proof -
  from p obtain h where h: "pk_tcp_header p = Some h" "is_teardown_only h" "\<not> fl_syn (th_flags h)"
    by (auto simp: late_teardown_def is_teardown_only_def)
  have tcp: "pk_protocol p = Tcp" "packet_key p = k" using p by (simp_all add: late_teardown_def)
  have obs: "observe_rtt E p now t = (None, t)"
    using h tcp by (simp add: observe_rtt_def)
  have res: "resolve_connection_key p t = (k, t)"
    using p parsed_quic_id_udp [of p] tcp
    by (auto simp: resolve_connection_key_def late_teardown_def split: option.split)
  have "is_recent_late_packet k p now t"
    using h tcp tomb by (simp add: is_recent_late_packet_def within_ttl_def)
  with gone obs res show ?thesis
    by (simp add: ingest_at_eq target_def prepared_def)
qed

text \<open>A cleanup leaves the tombstone of every terminal connection it removes.\<close>

lemma record_lookup:
  "map_of (tr_recently_closed (record_recently_closed k c now t)) k' =
     (if k' = k \<and> is_terminal c then Some now else map_of (tr_recently_closed t) k')"
  by (simp add: record_recently_closed_def update_conv' del: table_lookup)

lemma fold_record_stores:
  fixes t :: conn_tracker
  assumes "distinct (map fst xs)" "(k, c) \<in> set xs" "is_terminal c"
  shows "map_of (tr_recently_closed (fold (\<lambda>(k, c). record_recently_closed k c now) xs t)) k = Some now"
proof -
  have keeps: "k \<notin> fst ` set ys \<Longrightarrow>
      map_of (tr_recently_closed (fold (\<lambda>(k, c). record_recently_closed k c now) ys u)) k =
      map_of (tr_recently_closed u) k" for ys and u :: conn_tracker
    by (induction ys arbitrary: u) (auto simp: record_lookup simp del: table_lookup)
  from assms show ?thesis
  proof (induction xs arbitrary: t)
    case (Cons x xs)
    show ?case
    proof (cases "x = (k, c)")
      case True
      with Cons.prems have "k \<notin> fst ` set xs" by auto
      with True Cons.prems(3) show ?thesis
        by (simp add: keeps record_lookup del: table_lookup)
    qed (use Cons in auto)
  qed simp
qed

lemma length_fold_record:
  fixes t :: conn_tracker
  shows "length (tr_recently_closed (fold (\<lambda>(k, c). record_recently_closed k c now) xs t)) \<le>
    length (tr_recently_closed t) + length xs"
proof (induction xs arbitrary: t)
  case (Cons x xs)
  obtain k c where x: "x = (k, c)" by (cases x)
  have "length (tr_recently_closed (record_recently_closed k c now t)) \<le> Suc (length (tr_recently_closed t))"
    by (simp add: record_recently_closed_def length_update_le)
  with Cons.IH [of "record_recently_closed k c now t"] show ?case by (simp add: x)
qed simp

lemma cleaned_closed:
  "tr_recently_closed (cleaned E now t) =
     tr_recently_closed (fold (\<lambda>(k, c). record_recently_closed k c now) (expired now t)
       (t\<lparr>tr_connections := filter (\<lambda>(_, c). \<not> should_cleanup c now) (tr_connections t),
          tr_active_count := tr_active_count t - of_nat (length (expired now t))\<rparr>))"
  by (simp add: cleaned_def Let_def)

lemma cleanup_tombstone:
  assumes ok: "tracker_ok t" and kc: "(k, c) \<in> set (tr_connections t)" "should_cleanup c now" "is_terminal c"
    and room: "length (tr_recently_closed t) + length (expired now t) \<le> max_tombstones t"
  shows "map_of (tr_recently_closed (snd (cleanup E now t))) k = Some now"
    and "map_of (tr_connections (snd (cleanup E now t))) k = None"
proof -
  let ?c = "cleaned E now t"
  let ?f = "filter (\<lambda>(_, closed_at). within_ttl now closed_at) (tr_recently_closed ?c)"
  have tbl: "table_ok (tr_recently_closed ?c)"
    using core_ok_cleaned(1) [OF ok, of E now] by (simp add: core_ok_def tables_ok_def)
  have "map_of (tr_recently_closed ?c) k = Some now"
    using fold_record_stores [OF expired_distinct [OF ok], of k c now now] kc
    by (simp add: cleaned_closed expired_iff del: table_lookup)
  with tbl have "(k, now) \<in> set ?f" by (simp add: within_ttl_def)
  moreover have "length ?f \<le> max_tombstones ?c"
    using room length_fold_record [of now "expired now t"
        "t\<lparr>tr_connections := filter (\<lambda>(_, c). \<not> should_cleanup c now) (tr_connections t),
           tr_active_count := tr_active_count t - of_nat (length (expired now t))\<rparr>"]
    by (intro order_trans [OF length_filter_le]) (simp add: cleaned_closed max_tombstones_config [of ?c t])
  ultimately have "(k, now) \<in> set (tr_recently_closed (snd (cleanup E now t)))"
    by (simp add: cleanup_eq prune_recently_closed_def Let_def)
  with tracker_ok_cleanup [OF ok, of E now]
  show "map_of (tr_recently_closed (snd (cleanup E now t))) k = Some now"
    by (simp add: tracker_ok_def core_ok_def tables_ok_def)
  have "table_ok (tr_connections t)" using ok by (simp add: tracker_ok_def core_ok_def tables_ok_def)
  from table_unique [OF this kc(1)] kc(2)
  show "map_of (tr_connections (snd (cleanup E now t))) k = None"
    by (auto simp: cleanup_active map_of_eq_None_iff)
qed

definition late_op :: "connection_key \<Rightarrow> system_time \<Rightarrow> tracker_op \<Rightarrow> bool" where
  "late_op k limit op = (case op of
     Ingest E p now \<Rightarrow> late_teardown k p \<and> now \<le> limit
   | _ \<Rightarrow> False)"

lemma late_run:
  assumes "map_of (tr_connections t) k = None" "map_of (tr_recently_closed t) k = Some at"
    and "list_all (late_op k (at + int RECENTLY_CLOSED_TTL)) ops"
  shows "tracker_run ops t = t"
  using assms(3)
proof (induction ops)
  case (Cons op ops)
  then show ?case
    by (cases op) (simp_all add: late_op_def late_ignored [OF _ assms(1,2)])
qed simp

end
