(* ===== verification/Tracker_Generations.thy ===== *)
theory Tracker_Generations
  imports Tracker_Lifecycle
begin

text \<open>
  Generations of one flow in time: a tuple used again gives a younger connection, so the key of
  an archived record, the tuple with the time of creation, is never used twice; and a terminal
  connection is gone after the first cleanup that finds its timeout passed, whatever packets
  arrive in between.
\<close>

section \<open>Operations in the order of time\<close>

fun in_order :: "system_time \<Rightarrow> tracker_op list \<Rightarrow> bool" where
  "in_order T [] = True"
| "in_order T (Ingest E p now # ops) = (T \<le> now \<and> in_order now ops)"
| "in_order T (Cleanup E now # ops) = (T \<le> now \<and> in_order now ops)"
| "in_order T (Clear # ops) = in_order T ops"

definition op_time :: "system_time \<Rightarrow> tracker_op \<Rightarrow> system_time" where
  "op_time T op = (case op of Ingest E p now \<Rightarrow> now | Cleanup E now \<Rightarrow> now | Clear \<Rightarrow> T)"

fun last_time :: "system_time \<Rightarrow> tracker_op list \<Rightarrow> system_time" where
  "last_time T [] = T"
| "last_time T (op # ops) = last_time (op_time T op) ops"

lemma in_order_Cons: "in_order T (op # ops) \<longleftrightarrow> T \<le> op_time T op \<and> in_order (op_time T op) ops"
  by (cases op) (simp_all add: op_time_def)

lemma in_order_last: "in_order T ops \<Longrightarrow> T \<le> last_time T ops"
proof (induction ops arbitrary: T)
  case (Cons op ops)
  then show ?case by (simp add: in_order_Cons) (meson order_trans)
qed simp

lemma in_order_append:
  "in_order T (ops @ ops') \<longleftrightarrow> in_order T ops \<and> in_order (last_time T ops) ops'"
proof (induction ops arbitrary: T)
  case (Cons op ops)
  then show ?case by (simp add: in_order_Cons conj_assoc del: in_order.simps)
qed simp

section \<open>Creation times\<close>

definition born :: "conn_tracker \<Rightarrow> connection_key \<Rightarrow> system_time option" where
  "born t k = map_option co_created_at (map_of (tr_connections t) k)"

definition archived_keys :: "conn_tracker \<Rightarrow> historic_key set" where
  "archived_keys t = fst ` set (tr_historic t)"

text \<open>
  Before \<open>T\<close> and after at most \<open>n\<close> packets: every active connection is younger than the archived
  ones of its tuple, and the archived ones of an idle tuple are from before \<open>T\<close>.
\<close>

definition older :: "conn_tracker \<Rightarrow> system_time \<Rightarrow> historic_key \<Rightarrow> bool" where
  "older t T h \<longleftrightarrow> (case born t (hk_key h) of
     Some b \<Rightarrow> int (hk_created_nanos h) < b
   | None \<Rightarrow> int (hk_created_nanos h) < T)"

definition chrono :: "system_time \<Rightarrow> nat \<Rightarrow> conn_tracker \<Rightarrow> bool" where
  "chrono T n t \<longleftrightarrow> (\<forall>k b. born t k = Some b \<longrightarrow> 0 \<le> b \<and> b \<le> T + int n) \<and>
     (\<forall>h \<in> archived_keys t. older t T h)"

lemma born_cong: "tr_connections t = tr_connections u \<Longrightarrow> born t = born u"
  by (simp add: born_def fun_eq_iff)

lemma upserted_created:
  "co_created_at (upserted E p now m old) = (case old of Some c \<Rightarrow> co_created_at c | None \<Rightarrow> now)"
  by (simp add: upserted_def Let_def split: option.split)

lemma born_into_active:
  "born (snd (ingest_into_active E p now k m t)) =
     (if at_capacity k t \<or> born t k \<noteq> None then born t else (born t)(k \<mapsto> now))"
  by (auto simp: born_def fun_eq_iff into_active_connections update_conv' upserted_created
      simp del: table_lookup split: option.split)

lemma born_retire: "born (retire_generation now k c t) = (born t)(k := None)"
  by (simp add: born_def fun_eq_iff delete_conv' del: table_lookup)

lemma replacement_later:
  assumes "co_created_at c < SYSTEM_TIME_MAX"
  shows "co_created_at c < replacement_time now c" "now \<le> replacement_time now c"
    "replacement_time now c = now \<or> replacement_time now c = co_created_at c + 1"
  using assms by (auto simp: replacement_time_def checked_add_def Let_def)

lemma not_at_capacity_after_retire:
  assumes "core_ok t" "map_of (tr_connections t) k = Some c"
  shows "\<not> at_capacity k (associate_quic_id p k (retire_generation now k c t))"
proof -
  have ok: "table_ok (tr_connections t)" using assms(1) by (simp add: core_ok_def tables_ok_def)
  have len: "length (tr_connections t) = Suc (length (AList.delete k (tr_connections t)))"
    using length_delete_old [OF ok] assms(2) by simp
  from core_ok_retire [OF assms, of now] len assms(1) show ?thesis
    by (simp add: at_capacity_def core_ok_def)
qed

text \<open>After a generation split the tuple has the younger connection.\<close>

lemma born_new_generation:
  assumes "core_ok t"
  shows "born (snd (ingest_new_generation E p now k m t)) =
    (case (if needs_split p k t then map_of (tr_connections t) k else None) of
       Some c \<Rightarrow> (born t)(k \<mapsto> replacement_time now c)
     | None \<Rightarrow> if at_capacity k (associate_quic_id p k t) \<or> born t k \<noteq> None then born t
               else (born t)(k \<mapsto> now))"
proof (cases "if needs_split p k t then map_of (tr_connections t) k else None")
  case None
  have "born (snd (ingest_new_generation E p now k m t)) =
      born (snd (ingest_into_active E p now k m (associate_quic_id p k t)))"
    by (rule born_cong) (simp add: new_generation_connections None)
  with None show ?thesis
    by (simp add: born_into_active born_cong [OF associate_fields(1)])
next
  case (Some c)
  then have c: "map_of (tr_connections t) k = Some c" by (simp split: if_splits)
  have "born (snd (ingest_new_generation E p now k m t)) =
      born (snd (ingest_into_active E p (replacement_time now c) k m
        (associate_quic_id p k (retire_generation now k c t))))"
    by (rule born_cong) (simp add: new_generation_connections Some)
  with not_at_capacity_after_retire [OF assms c] Some show ?thesis
    by (simp add: born_into_active born_cong [OF associate_fields(1)] born_retire)
qed

section \<open>Archived keys\<close>

lemma archived_keys_cong: "tr_historic t = tr_historic u \<Longrightarrow> archived_keys t = archived_keys u"
  by (simp add: archived_keys_def)

lemma archived_keys_enforce: "archived_keys (enforce_historic_limit E t) \<subseteq> archived_keys t"
  using aged.only_old [of "te_historic_rank E" closed_stamp "max_historic (tr_config t)" "tr_historic t"]
  by (auto simp: archived_keys_def enforce_historic_limit_def)

lemma archived_keys_retire:
  "archived_keys (retire_generation now k c t) \<subseteq> insert (historic_key_of k c) (archived_keys t)"
  by (simp add: archived_keys_def archive_snapshot_def Let_def dom_update subset_insertI)

lemma archived_keys_new_generation:
  "archived_keys (snd (ingest_new_generation E p now k m t)) \<subseteq>
     (case (if needs_split p k t then map_of (tr_connections t) k else None) of
        Some c \<Rightarrow> insert (historic_key_of k c) (archived_keys t)
      | None \<Rightarrow> archived_keys t)"
proof -
  let ?a = "if needs_split p k t then map_of (tr_connections t) k else None"
  let ?t = "case ?a of Some c \<Rightarrow> retire_generation now k c t | None \<Rightarrow> t"
  let ?u = "snd (ingest_into_active E p (case ?a of Some c \<Rightarrow> replacement_time now c | None \<Rightarrow> now) k m
    (associate_quic_id p k ?t))"
  have "archived_keys (snd (ingest_new_generation E p now k m t)) = archived_keys (enforce_historic_limit E ?u)"
    by (rule archived_keys_cong) (simp add: ingest_new_generation_def Let_def case_prod_beta)
  also have "\<dots> \<subseteq> archived_keys ?u" by (rule archived_keys_enforce)
  also have "archived_keys ?u = archived_keys ?t" by (rule archived_keys_cong) simp
  also have "\<dots> \<subseteq> (case ?a of Some c \<Rightarrow> insert (historic_key_of k c) (archived_keys t) | None \<Rightarrow> archived_keys t)"
    using archived_keys_retire by (auto split: option.split)
  finally show ?thesis .
qed

lemma archived_keys_fold:
  "archived_keys (fold (archive_closed now) xs t) = (\<lambda>(k, c). historic_key_of k c) ` set xs \<union> archived_keys t"
proof (induction xs arbitrary: t)
  case (Cons x xs)
  obtain k c where x: "x = (k, c)" by (cases x)
  have "archived_keys (archive_closed now x t) = insert (historic_key_of k c) (archived_keys t)"
    by (simp add: archived_keys_def x archive_closed_eq dom_update)
  then show ?case by (simp add: Cons.IH x)
qed simp

lemma archived_keys_cleanup:
  "archived_keys (snd (cleanup E now t)) \<subseteq>
     (\<lambda>(k, c). historic_key_of k c) ` set (expired now t) \<union> archived_keys t"
proof -
  let ?u = "fold (\<lambda>(key, c). record_recently_closed key c now) (expired now t)
    (t\<lparr>tr_connections := filter (\<lambda>(_, c). \<not> should_cleanup c now) (tr_connections t),
       tr_active_count := tr_active_count t - of_nat (length (expired now t))\<rparr>)"
  have u: "archived_keys ?u = archived_keys t" by (rule archived_keys_cong) simp
  have "archived_keys (snd (cleanup E now t)) = (if keep_historic (tr_config t)
      then archived_keys (enforce_historic_limit E (fold (archive_closed now) (expired now t) ?u))
      else archived_keys ?u)"
    by (simp add: archived_keys_def cleanup_eq cleaned_def Let_def)
  with u archived_keys_fold [of now "expired now t" ?u]
    archived_keys_enforce [of E "fold (archive_closed now) (expired now t) ?u"]
  show ?thesis by auto
qed

lemma lookup_cleanup:
  assumes "tracker_ok t"
  shows "map_of (tr_connections (snd (cleanup E now t))) k = (case map_of (tr_connections t) k of
     Some c \<Rightarrow> if should_cleanup c now then None else Some c
   | None \<Rightarrow> None)"
proof -
  have ok: "table_ok (tr_connections t)" using assms by (simp add: tracker_ok_def core_ok_def tables_ok_def)
  let ?f = "filter (\<lambda>(_, c). \<not> should_cleanup c now) (tr_connections t)"
  have some: "map_of ?f k = Some c \<longleftrightarrow> map_of (tr_connections t) k = Some c \<and> \<not> should_cleanup c now" for c
    using ok by simp
  show ?thesis
  proof (cases "map_of (tr_connections t) k")
    case None
    with some have "map_of ?f k = None" by (metis not_None_eq)
    with None show ?thesis by (simp add: cleanup_active)
  next
    case (Some c)
    with some have "map_of ?f k = (if should_cleanup c now then None else Some c)"
      by (metis not_None_eq option.inject)
    with Some show ?thesis by (simp add: cleanup_active del: table_lookup)
  qed
qed

lemma born_cleanup:
  assumes "tracker_ok t"
  shows "born (snd (cleanup E now t)) k = (case map_of (tr_connections t) k of
     Some c \<Rightarrow> if should_cleanup c now then None else Some (co_created_at c)
   | None \<Rightarrow> None)"
  by (simp add: born_def lookup_cleanup [OF assms] split: option.split)

section \<open>The order of creation is kept\<close>

lemma chrono_later: "chrono T n t \<Longrightarrow> T \<le> T' \<Longrightarrow> n \<le> n' \<Longrightarrow> chrono T' n' t"
  by (force simp: chrono_def older_def split: option.splits)

lemma chrono_cong:
  "tr_connections t = tr_connections u \<Longrightarrow> tr_historic t = tr_historic u \<Longrightarrow> chrono T n t = chrono T n u"
  by (simp add: chrono_def older_def born_cong [of t u] archived_keys_cong [of t u])

text \<open>Giving an idle tuple, or a tuple anew, a connection younger than all before it.\<close>

lemma chrono_born:
  assumes c: "chrono T n t" and T: "0 \<le> T"
    and b: "born u = (born t)(k \<mapsto> b)" "T \<le> b" "b \<le> T + int n'" "n \<le> n'"
    and old: "\<And>a. born t k = Some a \<Longrightarrow> a < b"
    and keys: "\<And>h. h \<in> archived_keys u \<Longrightarrow> h \<in> archived_keys t \<or>
      hk_key h = k \<and> (\<exists>a. born t k = Some a \<and> hk_created_nanos h = nat a)"
  shows "chrono T n' u"
  unfolding chrono_def
proof (intro conjI allI impI ballI)
  fix k' b'
  assume "born u k' = Some b'"
  then have "b' = b \<or> born t k' = Some b'" unfolding b(1) by (cases "k' = k") simp_all
  then have "0 \<le> b' \<and> b' \<le> T + int n'"
  proof
    assume "born t k' = Some b'"
    with c have "0 \<le> b'" "b' \<le> T + int n" by (simp_all add: chrono_def)
    with b(4) show ?thesis by simp
  next
    assume "b' = b"
    with b(2,3) T show ?thesis by simp
  qed
  then show "0 \<le> b'" "b' \<le> T + int n'" by simp_all
next
  fix h assume "h \<in> archived_keys u"
  from keys [OF this] show "older u T h"
  proof
    assume "h \<in> archived_keys t"
    with c have o: "older t T h" by (simp add: chrono_def)
    show ?thesis
    proof (cases "hk_key h = k")
      case True
      with o b old show ?thesis by (auto simp: older_def split: option.splits dest: order_less_trans)
    qed (use o b in \<open>simp add: older_def\<close>)
  next
    assume "hk_key h = k \<and> (\<exists>a. born t k = Some a \<and> hk_created_nanos h = nat a)"
    with c b old show ?thesis by (auto simp: older_def chrono_def)
  qed
qed

lemma chrono_ingest:
  assumes ok: "tracker_ok t" "packet_ok p" and c: "chrono T n t" and T: "0 \<le> T"
    and now: "T \<le> now" "now + int n < SYSTEM_TIME_MAX"
  shows "chrono now (Suc n) (snd (ingest_at E p now t))"
proof -
  let ?k = "target E p now t" and ?u = "prepared E p now t" and ?m = "fst (observe_rtt E p now t)"
  have core: "core_ok ?u" using ok by (simp add: core_ok_prepared tracker_ok_def)
  have c': "chrono now n ?u"
    using chrono_later [OF c now(1) order_refl] chrono_cong [of ?u t] by simp
  then have cs: "chrono now (Suc n) ?u" by (rule chrono_later) simp_all
  have now0: "0 \<le> now" using T now by simp
  have active: "chrono now (Suc n) v"
    if "born v = born ?u \<or> born v = (born ?u)(?k \<mapsto> now) \<and> born ?u ?k = None"
      "archived_keys v \<subseteq> archived_keys ?u" for v
  proof (use that(1) in \<open>elim disjE conjE\<close>)
    assume "born v = born ?u"
    with cs that(2) show ?thesis by (auto simp: chrono_def older_def)
  next
    assume b: "born v = (born ?u)(?k \<mapsto> now)" "born ?u ?k = None"
    show ?thesis
      by (rule chrono_born [OF c' now0 b(1)]) (use b that(2) in auto)
  qed
  have split: "chrono now (Suc n) (snd (ingest_new_generation E p now ?k ?m ?u))"
  proof (cases "if needs_split p ?k ?u then map_of (tr_connections ?u) ?k else None")
    case None
    with archived_keys_new_generation [of E p now ?k ?m ?u] born_new_generation [OF core, of E p now ?k ?m]
    show ?thesis by (intro active) auto
  next
    case (Some a)
    then have b: "born ?u ?k = Some (co_created_at a)" by (simp add: born_def split: if_splits)
    with c' have le: "co_created_at a \<le> now + int n" by (simp add: chrono_def)
    with now(2) have lt: "co_created_at a < SYSTEM_TIME_MAX" "co_created_at a \<le> now + int n" by simp_all
    show ?thesis
    proof (rule chrono_born [OF c' now0])
      show "born (snd (ingest_new_generation E p now ?k ?m ?u)) = (born ?u)(?k \<mapsto> replacement_time now a)"
        using born_new_generation [OF core, of E p now ?k ?m] Some by simp
      show "now \<le> replacement_time now a" "replacement_time now a \<le> now + int (Suc n)"
        "\<And>a'. born ?u ?k = Some a' \<Longrightarrow> a' < replacement_time now a"
        using replacement_later [OF lt(1), of now] lt(2) b by auto
    qed (use archived_keys_new_generation [of E p now ?k ?m ?u] Some b in \<open>auto split: if_splits\<close>)
  qed
  have plain: "chrono now (Suc n) (snd (ingest_into_active E p now ?k ?m ?u))"
    by (intro active) (auto simp: born_into_active archived_keys_def)
  show ?thesis
    using split plain cs by (simp add: ingest_at_eq Let_def)
qed

lemma chrono_cleanup:
  assumes ok: "tracker_ok t" and c: "chrono T n t" and now: "T \<le> now"
  shows "chrono now n (snd (cleanup E now t))"
  unfolding chrono_def
proof (intro conjI allI impI ballI)
  have c': "chrono now n t" using c now by (rule chrono_later) simp
  fix k b
  assume "born (snd (cleanup E now t)) k = Some b"
  then have "born t k = Some b"
    by (subst (asm) born_cleanup [OF ok]) (auto simp: born_def simp del: table_lookup split: option.splits if_splits)
  with c' show "0 \<le> b" "b \<le> now + int n" by (auto simp: chrono_def)
next
  have c': "chrono now n t" using c now by (rule chrono_later) simp
  fix h assume "h \<in> archived_keys (snd (cleanup E now t))"
  with archived_keys_cleanup [of E now t]
  consider "h \<in> archived_keys t" | k a where "(k, a) \<in> set (expired now t)" "h = historic_key_of k a"
    by auto
  then show "older (snd (cleanup E now t)) now h"
  proof cases
    case 1
    with c' have o: "older t now h" by (simp add: chrono_def)
    show ?thesis
    proof (cases "map_of (tr_connections t) (hk_key h)")
      case (Some a)
      with ok have "conn_ok a" by (auto simp: tracker_ok_def dest: entry_tables)
      moreover from Some have "born t (hk_key h) = Some (co_created_at a)" by (simp add: born_def)
      ultimately show ?thesis
        using o Some cleanup_after_created [of a now]
        by (auto simp: older_def born_cleanup [OF ok] simp del: table_lookup)
    next
      case None
      moreover from None have "born t (hk_key h) = None" by (simp add: born_def)
      ultimately show ?thesis using o by (simp add: older_def born_cleanup [OF ok])
    qed
  next
    case 2
    then have "(k, a) \<in> set (tr_connections t)" "should_cleanup a now" by (simp_all add: expired_iff)
    moreover from this ok have m: "map_of (tr_connections t) k = Some a"
      by (simp add: tracker_ok_def core_ok_def tables_ok_def)
    moreover from this ok have "conn_ok a" by (auto simp: tracker_ok_def dest: entry_tables)
    moreover from m c' have "0 \<le> co_created_at a" by (auto simp: chrono_def born_def)
    ultimately show ?thesis
      using 2 cleanup_after_created [of a now]
      by (simp add: older_def born_cleanup [OF ok] del: table_lookup)
  qed
qed

lemma chrono_run:
  assumes "tracker_ok t" "list_all op_ok ops" "chrono T n t" "0 \<le> T" "in_order T ops"
    and "last_time T ops + int n + int (length ops) < SYSTEM_TIME_MAX"
  shows "chrono (last_time T ops) (n + length ops) (tracker_run ops t)"
  using assms
proof (induction ops arbitrary: t T n)
  case (Cons op ops)
  let ?T = "op_time T op"
  have ok: "tracker_ok t" "op_ok op" "list_all op_ok ops" "T \<le> ?T" "in_order ?T ops"
    using Cons.prems by (simp_all add: in_order_Cons)
  have "?T \<le> last_time ?T ops" by (rule in_order_last [OF ok(5)])
  with Cons.prems have lim: "?T + int n < SYSTEM_TIME_MAX" by simp
  have "chrono ?T (Suc n) (tracker_step op t)"
  proof (cases op)
    case (Ingest E p now)
    with chrono_ingest [OF ok(1) _ Cons.prems(3,4), of p now E] ok lim show ?thesis
      by (simp add: op_ok_def op_time_def)
  next
    case (Cleanup E now)
    with chrono_cleanup [OF ok(1) Cons.prems(3), of now E] ok show ?thesis
      by (auto simp: op_time_def intro: chrono_later)
  next
    case Clear
    then show ?thesis
      by (simp add: chrono_def clear_tracker_def born_def archived_keys_def)
  qed
  from Cons.IH [OF tracker_ok_step [OF ok(1,2)] ok(3) this _ ok(5)] Cons.prems ok
  show ?case by (simp add: add.assoc)
qed simp

lemma chrono_new: "chrono T n (with_config config)"
  by (simp add: chrono_def with_config_def born_def archived_keys_def)

text \<open>So the key under which an active connection would be archived is free.\<close>

lemma chrono_fresh:
  assumes "chrono T n t" "map_of (tr_connections t) k = Some c"
  shows "historic_key_of k c \<notin> archived_keys t"
proof
  assume "historic_key_of k c \<in> archived_keys t"
  with assms have "older t T (historic_key_of k c)" "0 \<le> co_created_at c"
    by (auto simp: chrono_def born_def)
  with assms(2) show False by (simp add: older_def born_def)
qed

section \<open>A terminal connection leaves\<close>

text \<open>
  A terminal connection leaves: packets merged into it neither revive it nor restart its clock,
  a new session on its tuple is a younger generation, and the first cleanup more than thirty
  seconds after it became terminal removes it.
\<close>

definition same_generation :: "connection \<Rightarrow> connection \<Rightarrow> bool" where
  "same_generation c d \<longleftrightarrow> co_created_at d = co_created_at c \<and> is_terminal d \<and>
     co_terminal_since d = co_terminal_since c"

text \<open>The tuple holds that generation, or a younger one, or nothing any more.\<close>

definition leaving :: "connection_key \<Rightarrow> connection \<Rightarrow> system_time \<Rightarrow> conn_tracker \<Rightarrow> bool" where
  "leaving k c T t \<longleftrightarrow> (case map_of (tr_connections t) k of
     Some d \<Rightarrow> same_generation c d \<or> co_created_at c < co_created_at d
   | None \<Rightarrow> co_created_at c < T)"

lemma lookup_into_active:
  "map_of (tr_connections (snd (ingest_into_active E p now k m t))) =
     (if at_capacity k t then map_of (tr_connections t)
      else (map_of (tr_connections t))(k \<mapsto> upserted E p now m (map_of (tr_connections t) k)))"
  by (simp add: into_active_connections update_conv' fun_eq_iff del: table_lookup)

lemma lookup_new_generation_split:
  assumes "core_ok t" "needs_split p k t" "map_of (tr_connections t) k = Some c"
  shows "map_of (tr_connections (snd (ingest_new_generation E p now k m t))) =
    (map_of (tr_connections t))(k \<mapsto> upserted E p (replacement_time now c) m None)"
  using not_at_capacity_after_retire [OF assms(1,3), of p now] assms(2,3)
  by (simp add: new_generation_connections lookup_into_active delete_conv' fun_eq_iff del: table_lookup)

lemma upserted_same_generation:
  assumes "conn_ok d" "packet_ok p" "pk_protocol p = co_protocol d" "same_generation c d"
  shows "same_generation c (upserted E p now m (Some d))"
proof -
  have d: "is_terminal d" "co_created_at d = co_created_at c" "co_terminal_since d = co_terminal_since c"
    using assms(4) by (simp_all add: same_generation_def)
  have r: "same_generation c (e\<lparr>co_initial_rtt := r\<rparr>) = same_generation c e" for e r
    by (simp add: same_generation_def is_terminal_def)
  from merge_stays_terminal [OF assms(1-3) d(1), of "te_merge E" now] d
  have "same_generation c (merged (te_merge E) p now d)" by (simp add: same_generation_def)
  then show ?thesis by (simp add: upserted_def Let_def r)
qed

lemma leaving_ingest:
  assumes ok: "tracker_ok t" "packet_ok p" and l: "leaving k c T t" and T: "T \<le> now"
    and lim: "\<And>d. map_of (tr_connections t) k = Some d \<Longrightarrow> co_created_at d < SYSTEM_TIME_MAX"
  shows "leaving k c now (snd (ingest_at E p now t))"
proof -
  let ?k = "target E p now t" and ?u = "prepared E p now t" and ?m = "fst (observe_rtt E p now t)"
  have core: "core_ok ?u" and key: "cn_protocol ?k = pk_protocol p"
    using ok by (simp_all add: core_ok_prepared tracker_ok_def)
  have l': "leaving k c now ?u"
    using l T by (auto simp: leaving_def split: option.splits)
  have stays: "leaving k c now v" if "map_of (tr_connections v) k = map_of (tr_connections ?u) k" for v
    using l' that by (simp add: leaving_def)
  have active: "leaving k c now (snd (ingest_into_active E p now ?k ?m v))"
    if v: "tr_connections v = tr_connections ?u" for v
  proof (cases "k = ?k \<and> \<not> at_capacity ?k v")
    case True
    show ?thesis
    proof (cases "map_of (tr_connections ?u) k")
      case None
      with True v l' show ?thesis by (simp add: leaving_def lookup_into_active upserted_created)
    next
      case (Some d)
      with core True key entry_tables [OF core, of k d] ok(2)
        upserted_same_generation [of d p c E now ?m]
      have "same_generation c d \<longrightarrow> same_generation c (upserted E p now ?m (Some d))" by auto
      with True v l' Some show ?thesis
        by (auto simp: leaving_def lookup_into_active upserted_created)
    qed
  qed (auto simp: lookup_into_active v intro!: stays)
  have split: "leaving k c now (snd (ingest_new_generation E p now ?k ?m ?u))"
    if "needs_split p ?k ?u"
  proof -
    from needs_split_entry [OF that] obtain a where a: "map_of (tr_connections ?u) ?k = Some a" by auto
    note look = lookup_new_generation_split [OF core that a, of E now ?m]
    show ?thesis
    proof (cases "k = ?k")
      case True
      with a lim replacement_later(1) [of a now] have "co_created_at a < replacement_time now a"
        by simp
      with True a l' show ?thesis
        by (auto simp: leaving_def look upserted_created same_generation_def)
    qed (auto simp: look intro!: stays)
  qed
  show ?thesis
    using active [of ?u] split stays [of ?u] by (simp add: ingest_at_eq Let_def)
qed

lemma leaving_cleanup:
  assumes ok: "tracker_ok t" and l: "leaving k c T t" and T: "T \<le> now"
  shows "leaving k c now (snd (cleanup E now t))"
proof (cases "map_of (tr_connections t) k")
  case (Some d)
  with ok have "conn_ok d" by (auto simp: tracker_ok_def dest: entry_tables)
  with cleanup_after_created [of d now] Some l show ?thesis
    by (auto simp: leaving_def lookup_cleanup [OF ok] same_generation_def)
qed (use l T in \<open>simp add: leaving_def lookup_cleanup [OF ok]\<close>)

definition keeps_history :: "tracker_op \<Rightarrow> bool" where
  "keeps_history op = (case op of Clear \<Rightarrow> False | _ \<Rightarrow> True)"

lemma leaving_run:
  assumes "tracker_ok t" "list_all op_ok ops" "list_all keeps_history ops" "leaving k c T t"
    and "chrono T n t" "0 \<le> T" "in_order T ops"
    and "last_time T ops + int n + int (length ops) < SYSTEM_TIME_MAX"
  shows "leaving k c (last_time T ops) (tracker_run ops t)"
  using assms
proof (induction ops arbitrary: t T n)
  case (Cons op ops)
  let ?T = "op_time T op"
  have ok: "tracker_ok t" "op_ok op" "list_all op_ok ops" "list_all keeps_history ops"
    "T \<le> ?T" "in_order ?T ops" "?T \<le> last_time ?T ops"
    using Cons.prems in_order_last [of ?T ops] by (simp_all add: in_order_Cons)
  have ch: "chrono ?T (n + 1) (tracker_step op t)"
    using chrono_run [of t "[op]" T n] Cons.prems ok by (simp add: in_order_Cons del: in_order.simps(2-4))
  have lim: "co_created_at d < SYSTEM_TIME_MAX" if "map_of (tr_connections t) k = Some d" for d
  proof -
    from that have "born t k = Some (co_created_at d)" by (simp add: born_def)
    with Cons.prems(5) have "co_created_at d \<le> T + int n" by (simp add: chrono_def)
    with Cons.prems(8) ok show ?thesis by simp
  qed
  have "leaving k c ?T (tracker_step op t)"
  proof (cases op)
    case (Ingest E p now)
    with leaving_ingest [OF ok(1) _ Cons.prems(4) _ lim, of p now E] ok show ?thesis
      by (simp add: op_ok_def op_time_def)
  next
    case (Cleanup E now)
    with leaving_cleanup [OF ok(1) Cons.prems(4), of now E] ok show ?thesis
      by (simp add: op_time_def)
  qed (use Cons.prems in \<open>simp add: keeps_history_def\<close>)
  from Cons.IH [OF tracker_ok_step [OF ok(1,2)] ok(3,4) this ch _ ok(6)] Cons.prems ok
  show ?case by simp
qed simp

text \<open>The cleanup that finds the timeout of a terminal connection passed removes it.\<close>

lemma leaving_gone:
  assumes ok: "tracker_ok t" and l: "leaving k c T t"
    and since: "co_terminal_since c = Some s" "s + int (from_secs 30) < now"
    and d: "map_of (tr_connections (snd (cleanup E now t))) k = Some d"
  shows "co_created_at c < co_created_at d"
proof -
  from d have t: "map_of (tr_connections t) k = Some d" "\<not> should_cleanup d now"
    by (auto simp: lookup_cleanup [OF ok] simp del: table_lookup split: option.splits if_splits)
  with terminal_reference(2) [of d s now] since have "\<not> same_generation c d"
    by (auto simp: same_generation_def)
  with l t(1) show ?thesis by (simp add: leaving_def)
qed

end
