(* ===== verification/Tracker_Accounts.thy ===== *)
theory Tracker_Accounts
  imports Tracker_Invariant
begin

text \<open>
  Where the packets go: a counter of a connection that starts with the first packet and grows by
  each further one is conserved by the tracker, that is, what the active connections hold and
  what the departed ones took with them adds up to what was accepted. The locale \<open>flow_counter\<close>
  states it once; it is interpreted on the packet and on the byte counters. Sums are those of
  the 64-bit counters, so the statements hold modulo \<open>2 ^ 64\<close>.
\<close>

section \<open>What an operation accepts and what leaves\<close>

definition accepted :: "ingest_outcome \<Rightarrow> bool" where
  "accepted r \<longleftrightarrow> \<not> io_dropped r \<and> \<not> io_ignored_late r"

text \<open>The connections that leave the active table in a step.\<close>

fun departed :: "tracker_op \<Rightarrow> conn_tracker \<Rightarrow> connection list" where
  "departed (Ingest E p now) t = (case io_archived (fst (ingest_at E p now t)) of
     Some c \<Rightarrow> [c]
   | None \<Rightarrow> [])"
| "departed (Cleanup E now) t = fst (cleanup E now t)"
| "departed Clear t = snapshot t"

text \<open>The packets a step counts.\<close>

fun counted :: "tracker_op \<Rightarrow> conn_tracker \<Rightarrow> parsed_packet list" where
  "counted (Ingest E p now) t = (if accepted (fst (ingest_at E p now t)) then [p] else [])"
| "counted _ t = []"

fun departures :: "tracker_op list \<Rightarrow> conn_tracker \<Rightarrow> connection list" where
  "departures [] t = []"
| "departures (op # ops) t = departed op t @ departures ops (tracker_step op t)"

fun counted_all :: "tracker_op list \<Rightarrow> conn_tracker \<Rightarrow> parsed_packet list" where
  "counted_all [] t = []"
| "counted_all (op # ops) t = counted op t @ counted_all ops (tracker_step op t)"

lemma new_generation_archived:
  "io_archived (fst (ingest_new_generation E p now k m t)) =
     (if needs_split p k t then map_of (tr_connections t) k else None)"
  by (simp add: ingest_new_generation_def Let_def case_prod_beta)

lemma into_active_archived [simp]: "io_archived (fst (ingest_into_active E p now k m t)) = None"
  by (simp add: ingest_into_active_def plain_outcome_def Let_def case_prod_beta)

lemma into_active_accepted [simp]:
  "accepted (fst (ingest_into_active E p now k m t)) \<longleftrightarrow> \<not> at_capacity k t"
  by (simp add: ingest_into_active_def plain_outcome_def accepted_def Let_def case_prod_beta)

lemma accepted_archived [simp]: "accepted (r\<lparr>io_archived := a\<rparr>) = accepted r"
  by (simp add: accepted_def)

lemma late_outcome [simp]:
  "accepted ((plain_outcome k m)\<lparr>io_ignored_late := True\<rparr>) = False"
  "io_archived ((plain_outcome k m)\<lparr>io_ignored_late := True\<rparr>) = None"
  by (simp_all add: accepted_def plain_outcome_def)

lemma new_generation_accepted:
  "accepted (fst (ingest_new_generation E p now k m t)) =
     (\<not> at_capacity k (associate_quic_id p k
        (case (if needs_split p k t then map_of (tr_connections t) k else None) of
           Some c \<Rightarrow> retire_generation now k c t | None \<Rightarrow> t)))"
  by (simp_all add: ingest_new_generation_def Let_def case_prod_beta)

section \<open>Counters\<close>

locale flow_counter =
  fixes held :: "connection \<Rightarrow> u64" and brings :: "parsed_packet \<Rightarrow> u64"
  assumes held_create: "held (create_connection_from_packet M p now) = brings p"
    and held_merge: "held (merged M p now c) = held c + brings p"
    and held_initial_rtt: "held (c\<lparr>co_initial_rtt := r\<rparr>) = held c"
begin

definition total :: "conn_tracker \<Rightarrow> u64" where
  "total t = sum_list (map (\<lambda>x. held (snd x)) (tr_connections t))"

lemma held_upserted:
  "held (upserted E p now m old) = (case old of Some c \<Rightarrow> held c | None \<Rightarrow> 0) + brings p"
  by (simp add: upserted_def Let_def held_create held_merge held_initial_rtt split: option.split)

lemma total_into_active:
  "total (snd (ingest_into_active E p now k m t)) =
     total t + (if at_capacity k t then 0 else brings p)"
  by (cases "map_of (tr_connections t) k")
    (simp_all add: total_def into_active_connections sum_list_update_new sum_list_update_old held_upserted
      del: table_lookup)

lemma total_upsert:
  "upsert_connection E p now k m (tr_connections t) = (conns, created, deltas) \<Longrightarrow>
     total (t\<lparr>tr_connections := conns\<rparr>) = total t + brings p"
  using upsert_connection_eq [of E p now k m "tr_connections t"]
  by (cases "map_of (tr_connections t) k")
    (simp_all add: total_def sum_list_update_new sum_list_update_old held_upserted del: table_lookup)

lemma total_fields: "tr_connections t = tr_connections u \<Longrightarrow> total t = total u"
  by (simp add: total_def)

lemma total_retire:
  assumes "table_ok (tr_connections t)" "map_of (tr_connections t) k = Some c"
  shows "total (retire_generation now k c t) + held c = total t"
  using sum_list_delete [OF assms(1) map_of_SomeD [OF assms(2)], of "\<lambda>x. held (snd x)"] by (simp add: total_def)

lemma total_new_generation:
  assumes "table_ok (tr_connections t)"
  shows "total (snd (ingest_new_generation E p now k m t)) +
      sum_list (map held (case io_archived (fst (ingest_new_generation E p now k m t)) of
        Some c \<Rightarrow> [c] | None \<Rightarrow> [])) =
    total t + (if accepted (fst (ingest_new_generation E p now k m t)) then brings p else 0)"
proof -
  let ?a = "if needs_split p k t then map_of (tr_connections t) k else None"
  let ?r = "case ?a of Some c \<Rightarrow> replacement_time now c | None \<Rightarrow> now"
  let ?t = "case ?a of Some c \<Rightarrow> retire_generation now k c t | None \<Rightarrow> t"
  have "total (snd (ingest_new_generation E p now k m t)) =
      total (snd (ingest_into_active E p ?r k m (associate_quic_id p k ?t)))"
    by (rule total_fields) (simp add: new_generation_connections Let_def)
  also have "\<dots> = total ?t + (if at_capacity k (associate_quic_id p k ?t) then 0 else brings p)"
    by (simp add: total_into_active total_fields [OF associate_fields(1)])
  finally have "total (snd (ingest_new_generation E p now k m t)) =
      total ?t + (if accepted (fst (ingest_new_generation E p now k m t)) then brings p else 0)"
    by (simp add: new_generation_accepted)
  moreover have "total ?t + sum_list (map held (case ?a of Some c \<Rightarrow> [c] | None \<Rightarrow> [])) = total t"
    using total_retire [OF assms, of k] by (simp split: option.split)
  ultimately show ?thesis
    by (simp add: new_generation_archived algebra_simps)
qed

lemma total_ingest:
  assumes "tracker_ok t" "packet_ok p"
  shows "total (snd (ingest_at E p now t)) +
      sum_list (map held (departed (Ingest E p now) t)) =
    total t + sum_list (map brings (counted (Ingest E p now) t))"
proof -
  let ?u = "prepared E p now t"
  have "core_ok ?u" using assms by (simp add: core_ok_prepared tracker_ok_def)
  then have "table_ok (tr_connections ?u)" by (simp add: core_ok_def tables_ok_def)
  moreover have "total ?u = total t" by (rule total_fields) simp
  ultimately show ?thesis
    using total_new_generation [of ?u E p now "target E p now t" "fst (observe_rtt E p now t)"]
      total_into_active [of E p now "target E p now t" "fst (observe_rtt E p now t)" ?u]
    by (simp add: ingest_at_eq Let_def)
qed

lemma total_cleanup:
  "total (snd (cleanup E now t)) + sum_list (map held (fst (cleanup E now t))) = total t"
proof -
  have "sum_list (map f (filter P xs)) + sum_list (map f (filter (\<lambda>x. \<not> P x) xs)) = sum_list (map f xs)"
    for f :: "connection_key \<times> connection \<Rightarrow> u64" and P xs
    by (induction xs) (auto simp: algebra_simps)
  from this [of "\<lambda>x. held (snd x)" "\<lambda>x. should_cleanup (snd x) now" "tr_connections t"] show ?thesis
    by (simp add: total_def cleanup_eq expired_def case_prod_beta' comp_def add.commute)
qed

lemma total_step:
  assumes "tracker_ok t" "op_ok op"
  shows "total (tracker_step op t) + sum_list (map held (departed op t)) =
    total t + sum_list (map brings (counted op t))"
proof (cases op)
  case (Ingest E p now)
  with assms total_ingest [of t p E now] show ?thesis by (simp add: op_ok_def)
next
  case (Cleanup E now)
  with total_cleanup [of E now t] show ?thesis by simp
next
  case Clear
  then show ?thesis by (simp add: clear_tracker_def snapshot_def total_def comp_def)
qed

lemma conserved:
  assumes "tracker_ok t" "list_all op_ok ops"
  shows "total (tracker_run ops t) + sum_list (map held (departures ops t)) =
    total t + sum_list (map brings (counted_all ops t))"
  using assms
proof (induction ops arbitrary: t)
  case (Cons op ops)
  then have ok: "tracker_ok t" "op_ok op" "list_all op_ok ops" by simp_all
  from Cons.IH [OF tracker_ok_step [OF ok(1,2)] ok(3)] total_step [OF ok(1,2)] show ?case
    by (simp add: algebra_simps)
qed simp

end

definition packets_of :: "connection \<Rightarrow> u64" where
  "packets_of c = co_packets_sent c + co_packets_received c"

definition bytes_of :: "connection \<Rightarrow> u64" where
  "bytes_of c = co_bytes_sent c + co_bytes_received c"

interpretation packets: flow_counter packets_of "\<lambda>_. 1"
  by unfold_locales (simp_all add: packets_of_def merged_counters)

interpretation octets: flow_counter bytes_of pk_packet_len
  by unfold_locales (simp_all add: bytes_of_def merged_counters)

end
