(* ===== verification/Tracker_Threads.thy ===== *)
theory Tracker_Threads
  imports Tracker_Accounts "HOL-Library.Multiset"
begin

text \<open>
  The tracker shared by threads. An ingesting thread holds the \<^verbatim>\<open>lifecycle\<close> guard for reading
  from the resolution of its key to the end, and each access to a table, a map behind a mutex
  or the atomic counter is a step of its own, so the accesses of several threads interleave.
  What the code does under the guard for writing, cleaning up, clearing and splitting a
  generation, is one step that waits until no thread holds it for reading.

  The limit on connections is checked against the counter, which a thread increments only after
  it has inserted its connection: the invariant \<open>shared_ok\<close> shows how far the two can drift. A
  history of the shared tracker (\<open>history\<close>) records which packets came, which were refused and
  which connections left; whatever the interleaving, the accounts balance.
\<close>

section \<open>Threads\<close>

type_synonym job = "track_env \<times> parsed_packet \<times> system_time \<times> connection_key \<times> duration option"

datatype thread =
    Idle
  | Timed track_env parsed_packet system_time "duration option"
  | Resolved job
  | Current job
  | Splitting job
  | Entering job
  | Loaded bool job
  | Admitted bool job
  | Entered track_env bool tcp_merge_events
  | Counted track_env tcp_merge_events

fun holds_guard :: "thread \<Rightarrow> bool" where
  "holds_guard Idle = False"
| "holds_guard (Timed E p now m) = False"
| "holds_guard (Splitting j) = False"
| "holds_guard _ = True"

inductive thread_step :: "thread \<Rightarrow> conn_tracker \<Rightarrow> thread \<Rightarrow> conn_tracker \<Rightarrow> bool" where
  arrive: "packet_ok p \<Longrightarrow> observe_rtt E p now t = (m, t') \<Longrightarrow> thread_step Idle t (Timed E p now m) t'"
| resolve: "resolve_connection_key p t = (k, t') \<Longrightarrow>
    thread_step (Timed E p now m) t (Resolved (E, p, now, k, m)) t'"
| late: "map_of (tr_connections t) k = None \<Longrightarrow> is_recent_late_packet k p now t \<Longrightarrow>
    thread_step (Resolved (E, p, now, k, m)) t Idle t"
| current: "\<not> (map_of (tr_connections t) k = None \<and> is_recent_late_packet k p now t) \<Longrightarrow>
    thread_step (Resolved (E, p, now, k, m)) t (Current (E, p, now, k, m)) t"
| split: "needs_split p k t \<Longrightarrow> thread_step (Current (E, p, now, k, m)) t (Splitting (E, p, now, k, m)) t"
| enter: "\<not> needs_split p k t \<Longrightarrow>
    thread_step (Current (E, p, now, k, m)) t (Entering (E, p, now, k, m)) t"
| load: "full \<longleftrightarrow> unat (tr_active_count t) \<ge> max_connections (tr_config t) \<Longrightarrow>
    thread_step (Entering j) t (Loaded full j) t"
| reject: "map_of (tr_connections t) k = None \<Longrightarrow> thread_step (Loaded True (E, p, now, k, m)) t Idle t"
| admit: "\<not> full \<or> map_of (tr_connections t) k \<noteq> None \<Longrightarrow>
    thread_step (Loaded full (E, p, now, k, m)) t (Admitted full (E, p, now, k, m)) t"
| upsert: "upsert_connection E p now k m (tr_connections t) = (conns, created, deltas) \<Longrightarrow>
    thread_step (Admitted full (E, p, now, k, m)) t (Entered E created deltas) (t\<lparr>tr_connections := conns\<rparr>)"
| count: "thread_step (Entered E created deltas) t (Counted E deltas)
    (if created then t\<lparr>tr_active_count := tr_active_count t + 1\<rparr> else t)"
| finish: "thread_step (Counted E deltas) t Idle (case ev_rtt_sample deltas of
      Some rtt \<Rightarrow> t\<lparr>tr_rtt := record_data_rtt (te_data_clock E) rtt (tr_rtt t)\<rparr>
    | None \<Rightarrow> t)"

inductive_cases thread_stepE: "thread_step th t th' t'"

type_synonym shared = "thread list \<times> conn_tracker"

definition unguarded :: "thread list \<Rightarrow> bool" where
  "unguarded ts \<longleftrightarrow> (\<forall>th \<in> set ts. \<not> holds_guard th)"

inductive shared_step :: "shared \<Rightarrow> shared \<Rightarrow> bool" where
  some_thread: "i < length ts \<Longrightarrow> thread_step (ts ! i) t th t' \<Longrightarrow> shared_step (ts, t) (ts[i := th], t')"
| new_generation: "i < length ts \<Longrightarrow> ts ! i = Splitting (E, p, now, k, m) \<Longrightarrow> unguarded ts \<Longrightarrow>
    shared_step (ts, t) (ts[i := Idle], snd (ingest_new_generation E p now k m t))"
| sweep: "unguarded ts \<Longrightarrow> shared_step (ts, t) (ts, snd (cleanup E now t))"
| reset: "unguarded ts \<Longrightarrow> shared_step (ts, t) (ts, clear_tracker t)"

section \<open>The invariant\<close>

text \<open>What holds of the tables whatever the counter says.\<close>

definition loose_ok :: "conn_tracker \<Rightarrow> bool" where
  "loose_ok t \<longleftrightarrow> table_ok (tr_connections t) \<and> table_ok (tr_quic_map t) \<and>
     (\<forall>x \<in> set (tr_connections t). entry_ok x) \<and>
     (\<forall>x \<in> set (tr_quic_map t). cn_protocol (snd x) = Udp)"

definition job_ok :: "job \<Rightarrow> bool" where
  "job_ok j = (case j of (E, p, now, k, m) \<Rightarrow> packet_ok p \<and> cn_protocol k = pk_protocol p)"

definition job_key :: "job \<Rightarrow> connection_key" where
  "job_key j = (case j of (E, p, now, k, m) \<Rightarrow> k)"

fun thread_ok :: "conn_tracker \<Rightarrow> thread \<Rightarrow> bool" where
  "thread_ok t (Timed E p now m) = packet_ok p"
| "thread_ok t (Resolved j) = job_ok j"
| "thread_ok t (Current j) = job_ok j"
| "thread_ok t (Splitting j) = job_ok j"
| "thread_ok t (Entering j) = job_ok j"
| "thread_ok t (Loaded full j) = job_ok j"
| "thread_ok t (Admitted full j) = (job_ok j \<and> (full \<longrightarrow> map_of (tr_connections t) (job_key j) \<noteq> None))"
| "thread_ok t _ = True"

text \<open>A thread that has inserted and not counted, and one that may still insert.\<close>

fun owes :: "thread \<Rightarrow> bool" where
  "owes (Entered E created deltas) = created"
| "owes _ = False"

fun may_insert :: "thread \<Rightarrow> bool" where
  "may_insert (Loaded full j) = (\<not> full)"
| "may_insert (Admitted full j) = (\<not> full)"
| "may_insert _ = False"

definition tally :: "(thread \<Rightarrow> bool) \<Rightarrow> thread list \<Rightarrow> nat" where
  "tally P ts = length (filter P ts)"

lemma tally_update:
  "i < length ts \<Longrightarrow> tally P (ts[i := th]) + of_bool (P (ts ! i)) = tally P ts + of_bool (P th)"
proof (induction ts arbitrary: i)
  case (Cons x ts)
  then show ?case by (cases i) (auto simp: tally_def split: if_splits)
qed simp

lemma tally_disjoint: "tally owes ts + tally may_insert ts \<le> length ts"
proof (induction ts)
  case (Cons x ts)
  then show ?case by (cases x) (auto simp: tally_def)
qed (simp add: tally_def)

lemma tally_unguarded: "unguarded ts \<Longrightarrow> tally owes ts = 0 \<and> tally may_insert ts = 0"
proof (induction ts)
  case (Cons x ts)
  then show ?case by (cases x) (auto simp: tally_def unguarded_def)
qed (simp add: tally_def)

definition shared_ok :: "shared \<Rightarrow> bool" where
  "shared_ok s = (case s of (ts, t) \<Rightarrow>
     loose_ok t \<and> (\<forall>th \<in> set ts. thread_ok t th) \<and>
     max_connections (tr_config t) + length ts < 2 ^ 64 \<and>
     length (tr_connections t) = unat (tr_active_count t) + tally owes ts \<and>
     unat (tr_active_count t) + tally owes ts + tally may_insert ts < max_connections (tr_config t) + length ts)"


section \<open>Steps keep the invariant\<close>

lemma loose_ok_fields [simp]:
  "loose_ok (t\<lparr>tr_rtt := r\<rparr>) = loose_ok t"
  "loose_ok (t\<lparr>tr_active_count := n\<rparr>) = loose_ok t"
  by (simp_all add: loose_ok_def)

lemma loose_ok_observe [simp]: "loose_ok (snd (observe_rtt E p now t)) = loose_ok t"
  by (simp add: loose_ok_def)

lemma loose_ok_map_quic_id:
  assumes "loose_ok t" "cn_protocol k = Udp"
  shows "loose_ok (map_quic_id i k t)"
proof -
  let ?m = "if length (tr_quic_map t) \<ge> max_quic_mappings (tr_config t) then [] else tr_quic_map t"
  have "table_ok ?m" "\<forall>x \<in> set ?m. cn_protocol (snd x) = Udp"
    using assms by (simp_all add: loose_ok_def)
  then have "table_ok (AList.update i k ?m)" "\<forall>x \<in> set (AList.update i k ?m). cn_protocol (snd x) = Udp"
    using assms(2) by (auto simp: in_update)
  with assms(1) show ?thesis by (simp add: loose_ok_def map_quic_id_def Let_def)
qed

lemma loose_ok_resolve:
  assumes "loose_ok t" "packet_ok p"
  shows "loose_ok (snd (resolve_connection_key p t))"
    and "cn_protocol (fst (resolve_connection_key p t)) = pk_protocol p"
  using assms parsed_quic_id_udp [OF assms(2)] loose_ok_map_quic_id [OF assms(1), of "packet_key p"]
  by (auto simp: resolve_connection_key_def Let_def packet_key_def loose_ok_def split: option.split)

lemma loose_ok_upsert:
  assumes "loose_ok t" "packet_ok p" "cn_protocol k = pk_protocol p"
  shows "loose_ok (t\<lparr>tr_connections :=
    AList.update k (upserted E p now m (map_of (tr_connections t) k)) (tr_connections t)\<rparr>)"
proof -
  have "entry_ok (k, upserted E p now m (map_of (tr_connections t) k))"
    using assms by (intro upserted_entry_ok) (auto simp: loose_ok_def)
  with assms(1) show ?thesis by (auto simp: loose_ok_def in_update)
qed

lemma thread_ok_mono:
  "thread_ok t th \<Longrightarrow>
     (\<And>k. map_of (tr_connections t) k \<noteq> None \<Longrightarrow> map_of (tr_connections t') k \<noteq> None) \<Longrightarrow> thread_ok t' th"
  by (cases th) auto

text \<open>A thread's step, seen from the tables and the counter.\<close>

definition grows :: "conn_tracker \<Rightarrow> conn_tracker \<Rightarrow> bool" where
  "grows t t' \<longleftrightarrow> tr_config t' = tr_config t \<and>
     (\<forall>k. map_of (tr_connections t) k \<noteq> None \<longrightarrow> map_of (tr_connections t') k \<noteq> None)"

definition balanced :: "thread \<Rightarrow> conn_tracker \<Rightarrow> thread \<Rightarrow> conn_tracker \<Rightarrow> bool" where
  "balanced th t th' t' \<longleftrightarrow>
     length (tr_connections t') + unat (tr_active_count t) + of_bool (owes th) =
       length (tr_connections t) + unat (tr_active_count t') + of_bool (owes th')"

definition permitted :: "thread \<Rightarrow> conn_tracker \<Rightarrow> thread \<Rightarrow> conn_tracker \<Rightarrow> bool" where
  "permitted th t th' t' \<longleftrightarrow>
     unat (tr_active_count t') + of_bool (owes th') + of_bool (may_insert th') \<le>
       unat (tr_active_count t) + of_bool (owes th) + of_bool (may_insert th) \<or>
     unat (tr_active_count t') < max_connections (tr_config t')"

lemmas step_effects = grows_def balanced_def permitted_def job_ok_def job_key_def

lemma thread_step_ok:
  assumes ok: "loose_ok t" "thread_ok t th" and step: "thread_step th t th' t'"
    and room: "owes th \<Longrightarrow> unat (tr_active_count t) + 1 < 2 ^ 64"
  shows "loose_ok t' \<and> thread_ok t' th' \<and> grows t t' \<and> balanced th t th' t' \<and> permitted th t th' t'"
  using step
proof cases
  case (arrive p E now m)
  have "loose_ok t'" "tr_config t' = tr_config t" "tr_connections t' = tr_connections t"
    "tr_active_count t' = tr_active_count t"
    using loose_ok_observe [of E p now t] observe_rtt_fields [of E p now t] ok by (simp_all add: arrive)
  with arrive show ?thesis by (simp add: step_effects)
next
  case (resolve p k E now m)
  have "loose_ok t'" "cn_protocol k = pk_protocol p" "tr_config t' = tr_config t"
    "tr_connections t' = tr_connections t" "tr_active_count t' = tr_active_count t"
    using loose_ok_resolve [of t p] resolve_fields [of p t] ok by (simp_all add: resolve)
  with resolve ok show ?thesis by (simp add: step_effects)
next
  case (upsert E p now k m conns created deltas full)
  then have c: "conns = AList.update k (upserted E p now m (map_of (tr_connections t) k)) (tr_connections t)"
    "created \<longleftrightarrow> map_of (tr_connections t) k = None"
    using upsert_connection_eq [of E p now k m "tr_connections t"] by simp_all
  have "loose_ok t'"
    using loose_ok_upsert [of t p k E now m] ok upsert c by (simp add: job_ok_def)
  moreover have "length conns = length (tr_connections t) + of_bool created"
    by (simp add: c length_update_new length_update_old)
  moreover have "of_bool created \<le> (of_bool (\<not> full) :: nat)"
    using ok upsert c by (cases full) (simp_all add: job_key_def)
  moreover have "grows t t'" by (simp add: upsert c grows_def update_conv' del: table_lookup)
  ultimately show ?thesis using upsert by (simp add: balanced_def permitted_def)
next
  case (count E created deltas)
  show ?thesis
  proof (cases created)
    case True
    with room count have "unat (tr_active_count t + 1) = unat (tr_active_count t) + 1"
      by (simp add: unat_word_ariths)
    with True count ok show ?thesis by (simp add: step_effects)
  qed (use count ok in \<open>simp add: step_effects\<close>)
next
  case (finish E deltas)
  with ok show ?thesis by (simp add: step_effects split: option.split)
qed (use ok in \<open>auto simp: step_effects\<close>)

lemma shared_ok_thread:
  assumes ok: "shared_ok (ts, t)" and i: "i < length ts" and step: "thread_step (ts ! i) t th t'"
  shows "shared_ok (ts[i := th], t')"
proof -
  have loose: "loose_ok t" "\<forall>th \<in> set ts. thread_ok t th" and lim: "max_connections (tr_config t) + length ts < 2 ^ 64"
    and len: "length (tr_connections t) = unat (tr_active_count t) + tally owes ts"
    and bound: "unat (tr_active_count t) + tally owes ts + tally may_insert ts <
      max_connections (tr_config t) + length ts"
    using ok by (simp_all add: shared_ok_def)
  have owe: "owes (ts ! i) \<Longrightarrow> 1 \<le> tally owes ts"
    using tally_update [OF i, of owes Idle] by simp
  have "loose_ok t' \<and> thread_ok t' th \<and> grows t t' \<and> balanced (ts ! i) t th t' \<and> permitted (ts ! i) t th t'"
    using loose i lim bound owe by (intro thread_step_ok [OF _ _ step]) auto
  note eff = this tally_update [OF i, of owes th] tally_update [OF i, of may_insert th]
  have "\<forall>th' \<in> set (ts[i := th]). thread_ok t' th'"
  proof
    fix th' assume "th' \<in> set (ts[i := th])"
    then have "th' = th \<or> thread_ok t th'"
      using loose(2) set_update_subset_insert [of ts i th] by auto
    then show "thread_ok t' th'" using eff thread_ok_mono [of t th' t'] by (auto simp: grows_def)
  qed
  moreover have "length (tr_connections t') = unat (tr_active_count t') + tally owes (ts[i := th])"
    using eff len by (simp add: balanced_def)
  moreover have "unat (tr_active_count t') + tally owes (ts[i := th]) + tally may_insert (ts[i := th]) <
      max_connections (tr_config t') + length ts"
    using eff bound tally_disjoint [of "ts[i := th]"] by (auto simp: permitted_def grows_def)
  ultimately show ?thesis
    using eff lim by (simp add: shared_ok_def grows_def)
qed

lemma shared_ok_quiet:
  assumes "unguarded ts" "\<forall>th \<in> set ts. thread_ok t th"
  shows "\<forall>th \<in> set ts. thread_ok t' th"
  using assms by (auto simp: unguarded_def) (metis holds_guard.elims(3) thread_ok.simps(1,4,8))

lemma loose_ok_into_active:
  assumes "loose_ok t" "packet_ok p" "cn_protocol k = pk_protocol p"
  shows "loose_ok (snd (ingest_into_active E p now k m t))"
proof (cases "at_capacity k t")
  case False
  with loose_ok_upsert [OF assms, of E now m] show ?thesis
    by (simp add: loose_ok_def into_active_connections)
qed (use assms in \<open>simp add: ingest_into_active_def\<close>)

text \<open>Under the guard for writing the counter is exact.\<close>

definition exact :: "conn_tracker \<Rightarrow> bool" where
  "exact t \<longleftrightarrow> unat (tr_active_count t) = length (tr_connections t)"

lemma exact_into_active:
  assumes "exact t" "unat (tr_active_count t) + 1 < 2 ^ 64"
  shows "exact (snd (ingest_into_active E p now k m t))"
    and "unat (tr_active_count (snd (ingest_into_active E p now k m t))) \<le>
      max (unat (tr_active_count t)) (max_connections (tr_config t))"
proof -
  have "unat (tr_active_count t + 1) = unat (tr_active_count t) + 1"
    using assms(2) by (simp add: unat_word_ariths)
  with assms(1) show "exact (snd (ingest_into_active E p now k m t))"
    by (auto simp: exact_def into_active_connections length_update_new length_update_old)
  from \<open>unat (tr_active_count t + 1) = unat (tr_active_count t) + 1\<close>
  show "unat (tr_active_count (snd (ingest_into_active E p now k m t))) \<le>
      max (unat (tr_active_count t)) (max_connections (tr_config t))"
    by (auto simp: into_active_connections at_capacity_def)
qed

lemma exact_retire:
  assumes "exact t" "table_ok (tr_connections t)" "map_of (tr_connections t) k = Some c"
  shows "exact (retire_generation now k c t)"
    and "unat (tr_active_count (retire_generation now k c t)) \<le> unat (tr_active_count t)"
proof -
  have "length (tr_connections t) = Suc (length (AList.delete k (tr_connections t)))"
    using length_delete_old [OF assms(2)] assms(3) by simp
  moreover from this assms(1) have "tr_active_count t \<noteq> 0" by (auto simp: exact_def)
  ultimately show "exact (retire_generation now k c t)"
    and "unat (tr_active_count (retire_generation now k c t)) \<le> unat (tr_active_count t)"
    using assms(1) by (simp_all add: exact_def unat_minus_one)
qed

lemma loose_ok_retire: "loose_ok t \<Longrightarrow> loose_ok (retire_generation now k c t)"
  by (auto simp: loose_ok_def)

lemma loose_ok_associate:
  "loose_ok t \<Longrightarrow> packet_ok p \<Longrightarrow> cn_protocol k = pk_protocol p \<Longrightarrow> loose_ok (associate_quic_id p k t)"
  using parsed_quic_id_udp [of p] by (auto simp: associate_quic_id_def loose_ok_map_quic_id split: option.split)

lemma new_generation_tail:
  "snd (ingest_new_generation E p now k m t) =
     (let a = (if needs_split p k t then map_of (tr_connections t) k else None)
      in prune_recently_closed E now (enforce_historic_limit E (snd (ingest_into_active E p
           (case a of Some c \<Rightarrow> replacement_time now c | None \<Rightarrow> now) k m
           (associate_quic_id p k (case a of Some c \<Rightarrow> retire_generation now k c t | None \<Rightarrow> t))))))"
  by (simp add: ingest_new_generation_def Let_def case_prod_beta)

lemma quiet_new_generation:
  assumes "loose_ok t" "exact t" "unat (tr_active_count t) + 1 < 2 ^ 64"
    and "packet_ok p" "cn_protocol k = pk_protocol p"
  shows "loose_ok (snd (ingest_new_generation E p now k m t)) \<and>
    exact (snd (ingest_new_generation E p now k m t)) \<and>
    tr_config (snd (ingest_new_generation E p now k m t)) = tr_config t \<and>
    unat (tr_active_count (snd (ingest_new_generation E p now k m t))) \<le>
      max (unat (tr_active_count t)) (max_connections (tr_config t))"
proof -
  let ?a = "if needs_split p k t then map_of (tr_connections t) k else None"
  let ?t = "case ?a of Some c \<Rightarrow> retire_generation now k c t | None \<Rightarrow> t"
  let ?v = "associate_quic_id p k ?t"
  let ?n = "case ?a of Some c \<Rightarrow> replacement_time now c | None \<Rightarrow> now"
  let ?u = "snd (ingest_into_active E p ?n k m ?v)"
  have t: "loose_ok ?t" "exact ?t" "tr_config ?t = tr_config t"
    "unat (tr_active_count ?t) \<le> unat (tr_active_count t)"
    using assms(1,2) exact_retire [OF assms(2), of k] loose_ok_retire [OF assms(1)]
    by (auto simp: loose_ok_def split: option.split)
  then have v: "loose_ok ?v" "exact ?v" "unat (tr_active_count ?v) \<le> unat (tr_active_count t)"
    using assms(4,5) by (simp_all add: loose_ok_associate exact_def)
  with assms(3) have "unat (tr_active_count ?v) + 1 < 2 ^ 64" by simp
  from loose_ok_into_active [OF v(1) assms(4,5), of E ?n m] exact_into_active [OF v(2) this, of E p ?n k m]
    v(3) t(3)
  show ?thesis
    unfolding new_generation_tail Let_def by (auto simp: loose_ok_def exact_def)
qed

lemma quiet_cleanup:
  assumes "loose_ok t" "exact t"
  shows "loose_ok (snd (cleanup E now t)) \<and> exact (snd (cleanup E now t)) \<and>
    tr_config (snd (cleanup E now t)) = tr_config t \<and>
    unat (tr_active_count (snd (cleanup E now t))) \<le> unat (tr_active_count t)"
proof -
  have "unat (tr_active_count t - of_nat (length (expired now t))) =
      unat (tr_active_count t) - length (expired now t)"
    using assms(2) expired_split [of now t] by (intro unat_count_minus) (simp add: exact_def)
  with assms expired_split [of now t] show ?thesis
    by (auto simp: cleanup_eq loose_ok_def exact_def)
qed

lemma shared_ok_quiescent:
  assumes "unguarded ts"
  shows "shared_ok (ts, t) \<longleftrightarrow> loose_ok t \<and> (\<forall>th \<in> set ts. thread_ok t th) \<and>
    max_connections (tr_config t) + length ts < 2 ^ 64 \<and> exact t \<and>
    unat (tr_active_count t) < max_connections (tr_config t) + length ts"
  using tally_unguarded [OF assms] by (auto simp: shared_ok_def exact_def)

lemma shared_ok_step:
  assumes "shared_step s s'" "shared_ok s"
  shows "shared_ok s'"
  using assms
proof cases
  case (some_thread i ts t th t')
  with assms(2) shared_ok_thread show ?thesis by simp
next
  case (new_generation i ts E p now k m t)
  from new_generation assms(2) have s: "loose_ok t" "\<forall>th \<in> set ts. thread_ok t th" "exact t"
    "max_connections (tr_config t) + length ts < 2 ^ 64"
    "unat (tr_active_count t) < max_connections (tr_config t) + length ts"
    by (simp_all add: shared_ok_quiescent)
  from s(2) new_generation have j: "packet_ok p" "cn_protocol k = pk_protocol p"
    by (auto simp: job_ok_def dest!: bspec [OF _ nth_mem])
  have ts: "unguarded (ts[i := Idle])"
    using new_generation(5) set_update_subset_insert [of ts i Idle] by (auto simp: unguarded_def)
  let ?t = "snd (ingest_new_generation E p now k m t)"
  have "\<forall>th \<in> set (ts[i := Idle]). thread_ok t th"
    using s(2) set_update_subset_insert [of ts i Idle] by auto
  from shared_ok_quiet [OF ts this] have "\<forall>th \<in> set (ts[i := Idle]). thread_ok ?t th" .
  with quiet_new_generation [OF s(1,3) _ j, of E now m] s ts new_generation show ?thesis
    by (auto simp: shared_ok_quiescent)
next
  case (sweep ts t E now)
  with assms(2) quiet_cleanup [of t E now] shared_ok_quiet [of ts t "snd (cleanup E now t)"] show ?thesis
    by (auto simp: shared_ok_quiescent)
next
  case (reset ts t)
  with assms(2) shared_ok_quiet [of ts t "clear_tracker t"] show ?thesis
    by (auto simp: shared_ok_quiescent loose_ok_def exact_def clear_tracker_def)
qed

lemma shared_ok_start:
  assumes "0 < n" "max_connections config + n < 2 ^ 64"
  shows "shared_ok (replicate n Idle, with_config config)"
proof -
  have "unguarded (replicate n Idle)" by (simp add: unguarded_def)
  with assms show ?thesis
    by (simp add: shared_ok_quiescent loose_ok_def exact_def with_config_def)
qed

lemma shared_ok_reachable: "shared_step\<^sup>*\<^sup>* s s' \<Longrightarrow> shared_ok s \<Longrightarrow> shared_ok s'"
  by (induction rule: rtranclp_induct) (auto intro: shared_ok_step)

lemma shared_step_length: "shared_step s s' \<Longrightarrow> length (fst s') = length (fst s)"
  by (auto elim: shared_step.cases)

lemma shared_length: "shared_step\<^sup>*\<^sup>* s s' \<Longrightarrow> length (fst s') = length (fst s)"
  by (induction rule: rtranclp_induct) (auto dest: shared_step_length)

section \<open>Accounts under interleaving\<close>

text \<open>The packet a thread has taken up and neither counted nor refused.\<close>

fun in_hand :: "thread \<Rightarrow> parsed_packet list" where
  "in_hand (Timed E p now m) = [p]"
| "in_hand (Resolved (E, p, now, k, m)) = [p]"
| "in_hand (Current (E, p, now, k, m)) = [p]"
| "in_hand (Splitting (E, p, now, k, m)) = [p]"
| "in_hand (Entering (E, p, now, k, m)) = [p]"
| "in_hand (Loaded full (E, p, now, k, m)) = [p]"
| "in_hand (Admitted full (E, p, now, k, m)) = [p]"
| "in_hand _ = []"

definition in_flight :: "thread list \<Rightarrow> parsed_packet list" where
  "in_flight ts = concat (map in_hand ts)"

text \<open>An idle thread takes up a packet; one that becomes idle with the packet in hand has refused it.\<close>

definition taken :: "thread \<Rightarrow> thread \<Rightarrow> parsed_packet list" where
  "taken th th' = (if th = Idle then in_hand th' else [])"

definition refused :: "thread \<Rightarrow> thread \<Rightarrow> parsed_packet list" where
  "refused th th' = (if th' = Idle then in_hand th else [])"

text \<open>The packets that came, those that were refused, and the connections that left the active table.\<close>

inductive history :: "shared \<Rightarrow> parsed_packet list \<Rightarrow> parsed_packet list \<Rightarrow> connection list \<Rightarrow> shared \<Rightarrow> bool"
  for s where
  start: "history s [] [] [] s"
| by_thread: "history s came refs left (ts, t) \<Longrightarrow> i < length ts \<Longrightarrow> thread_step (ts ! i) t th t' \<Longrightarrow>
    history s (came @ taken (ts ! i) th) (refs @ refused (ts ! i) th) left (ts[i := th], t')"
| by_split: "history s came refs left (ts, t) \<Longrightarrow> i < length ts \<Longrightarrow> ts ! i = Splitting (E, p, now, k, m) \<Longrightarrow>
    unguarded ts \<Longrightarrow> ingest_new_generation E p now k m t = (r, t') \<Longrightarrow>
    history s came (refs @ (if accepted r then [] else [p]))
      (left @ (case io_archived r of Some c \<Rightarrow> [c] | None \<Rightarrow> [])) (ts[i := Idle], t')"
| by_sweep: "history s came refs left (ts, t) \<Longrightarrow> unguarded ts \<Longrightarrow> cleanup E now t = (removed, t') \<Longrightarrow>
    history s came refs (left @ removed) (ts, t')"
| by_reset: "history s came refs left (ts, t) \<Longrightarrow> unguarded ts \<Longrightarrow>
    history s came refs (left @ snapshot t) (ts, clear_tracker t)"

text \<open>Histories are the runs of the shared tracker.\<close>

lemma history_run: "history s came refs left s' \<Longrightarrow> shared_step\<^sup>*\<^sup>* s s'"
proof (induction rule: history.induct)
  case (by_thread came refs left ts t i th t')
  then show ?case by (meson some_thread rtranclp.rtrancl_into_rtrancl)
next
  case (by_split came refs left ts t i E p now k m r t')
  then have "shared_step (ts, t) (ts[i := Idle], t')" using new_generation [of i ts E p now k m t] by simp
  with by_split.IH show ?case by (rule rtranclp.rtrancl_into_rtrancl)
next
  case (by_sweep came refs left ts t E now removed t')
  then have "shared_step (ts, t) (ts, t')" using sweep [of ts t E now] by simp
  with by_sweep.IH show ?case by (rule rtranclp.rtrancl_into_rtrancl)
next
  case (by_reset came refs left ts t)
  then show ?case by (meson reset rtranclp.rtrancl_into_rtrancl)
qed simp

lemma run_history: "shared_step\<^sup>*\<^sup>* s s' \<Longrightarrow> \<exists>came refs left. history s came refs left s'"
proof (induction rule: rtranclp_induct)
  case base
  then show ?case by (blast intro: history.start)
next
  case (step s' s'')
  then obtain came refs left where h: "history s came refs left s'" by blast
  from step(2) show ?case
  proof cases
    case (some_thread i ts t th t')
    with h by_thread [of s came refs left ts t i th t'] show ?thesis by blast
  next
    case (new_generation i ts E p now k m t)
    with h by_split [of s came refs left ts t i E p now k m] show ?thesis by (metis prod.collapse)
  next
    case (sweep ts t E now)
    with h by_sweep [of s came refs left ts t E now] show ?thesis by (metis prod.collapse)
  next
    case (reset ts t)
    with h by_reset [of s came refs left ts t] show ?thesis by blast
  qed
qed

lemma sum_in_flight:
  fixes f :: "parsed_packet \<Rightarrow> u64"
  shows "i < length ts \<Longrightarrow> sum_list (map f (in_flight (ts[i := th]))) + sum_list (map f (in_hand (ts ! i))) =
    sum_list (map f (in_flight ts)) + sum_list (map f (in_hand th))"
proof (induction ts arbitrary: i)
  case (Cons x ts)
  then show ?case by (cases i) (auto simp: in_flight_def algebra_simps)
qed simp

text \<open>What was refused and what is in hand are packets that came, each of them once.\<close>

lemma in_flight_update:
  "i < length ts \<Longrightarrow> mset (in_flight (ts[i := th])) + mset (in_hand (ts ! i)) = mset (in_flight ts) + mset (in_hand th)"
proof (induction ts arbitrary: i)
  case (Cons x ts)
  then show ?case by (cases i) (auto simp: in_flight_def)
qed simp

lemma thread_step_keeps:
  "thread_step th t th' t' \<Longrightarrow> mset (refused th th') + mset (in_hand th') \<subseteq># mset (taken th th') + mset (in_hand th)"
proof (induction rule: thread_step.induct)
  case (load full t j)
  then show ?case by (cases j) (simp add: taken_def refused_def)
qed (simp_all add: taken_def refused_def)

lemma history_came:
  "history s came refs left s' \<Longrightarrow> in_flight (fst s) = [] \<Longrightarrow> mset refs + mset (in_flight (fst s')) \<subseteq># mset came"
proof (induction rule: history.induct)
  case (by_thread came refs left ts t i th t')
  have "mset (refs @ refused (ts ! i) th) + mset (in_flight (ts[i := th])) + mset (in_hand (ts ! i)) =
      mset refs + mset (in_flight ts) + (mset (refused (ts ! i) th) + mset (in_hand th))"
    using in_flight_update [OF by_thread.hyps(2), of th] by (simp add: ac_simps)
  also have "\<dots> \<subseteq># mset came + (mset (taken (ts ! i) th) + mset (in_hand (ts ! i)))"
    using by_thread.IH by_thread.prems by (intro subset_mset.add_mono [OF _ thread_step_keeps [OF by_thread.hyps(3)]]) simp
  finally show ?case by (simp add: add.assoc [symmetric])
next
  case (by_split came refs left ts t i E p now k m r t')
  have "mset (in_flight (ts[i := Idle])) + {#p#} = mset (in_flight ts)"
    using in_flight_update [OF by_split.hyps(2), of Idle] by_split.hyps(3) by simp
  with by_split.IH by_split.prems have "mset refs + (mset (in_flight (ts[i := Idle])) + {#p#}) \<subseteq># mset came" by simp
  then show ?case by (auto elim: subset_mset.order_trans [rotated])
qed simp_all

context flow_counter begin

text \<open>Packets of the first list were taken, those of the second refused, and the rest is in a table or in hand.\<close>

definition accounted :: "parsed_packet list \<Rightarrow> parsed_packet list \<Rightarrow> connection list \<Rightarrow> shared \<Rightarrow> bool" where
  "accounted came refs left s \<longleftrightarrow> sum_list (map brings came) =
     total (snd s) + sum_list (map held left) + sum_list (map brings refs) + sum_list (map brings (in_flight (fst s)))"

lemma thread_step_balance:
  assumes "thread_step th t th' t'"
  shows "sum_list (map brings (taken th th')) + total t + sum_list (map brings (in_hand th)) =
    total t' + sum_list (map brings (refused th th')) + sum_list (map brings (in_hand th'))"
  using assms
proof cases
  case (arrive p E now m)
  have "total t' = total t" using observe_rtt_fields [of E p now t] arrive by (intro total_fields) simp
  with arrive show ?thesis by (simp add: taken_def refused_def)
next
  case (resolve p k E now m)
  have "total t' = total t" using resolve_fields [of p t] resolve by (intro total_fields) simp
  with resolve show ?thesis by (simp add: taken_def refused_def)
next
  case (upsert E p now k m conns created deltas full)
  then show ?thesis using total_upsert [of E p now k m t conns created deltas] by (simp add: taken_def refused_def)
next
  case (count E created deltas)
  then have "total t' = total t" by (intro total_fields) simp
  with count show ?thesis by (simp add: taken_def refused_def)
next
  case (finish E deltas)
  then have "total t' = total t" by (intro total_fields) (simp split: option.split)
  with finish show ?thesis by (simp add: taken_def refused_def)
next
  case (load full j)
  then show ?thesis by (cases j) (simp add: taken_def refused_def)
qed (auto simp: taken_def refused_def)

lemma accounts_add_up:
  fixes came :: "'a :: ab_group_add"
  assumes "came = t + l + r + f" "k + t + h = t' + x + h'" "f' + h = f + h'"
  shows "came + k = t' + l + (r + x) + f'"
proof -
  have k: "k = t' + x + h' - h - t" and f: "f' = f + h' - h" using assms(2,3) by (simp_all add: eq_diff_eq)
  show ?thesis unfolding assms(1) k f by (simp add: algebra_simps)
qed

lemma history_accounted:
  assumes "history s came refs left s'" "shared_ok s" "accounted [] [] [] s"
  shows "accounted came refs left s'"
  using assms(1)
proof (induction rule: history.induct)
  case start
  show ?case by (rule assms(3))
next
  case (by_thread came refs left ts t i th t')
  from by_thread.IH have "sum_list (map brings came) = total t + sum_list (map held left) + sum_list (map brings refs) +
      sum_list (map brings (in_flight ts))" by (simp add: accounted_def)
  from accounts_add_up [OF this thread_step_balance [OF by_thread.hyps(3)] sum_in_flight [OF by_thread.hyps(2)]]
  show ?case by (simp add: accounted_def)
next
  case (by_split came refs left ts t i E p now k m r t')
  have "shared_ok (ts, t)" using shared_ok_reachable [OF history_run [OF by_split.hyps(1)] assms(2)] .
  then have "table_ok (tr_connections t)" by (simp add: shared_ok_def loose_ok_def)
  from total_new_generation [OF this, of E p now k m] by_split.hyps(5)
  have "0 + total t + brings p = total t' + sum_list (map held (case io_archived r of Some c \<Rightarrow> [c] | None \<Rightarrow> [])) +
      (if accepted r then 0 else brings p) + 0" by simp
  moreover have "sum_list (map brings came) = total t + sum_list (map held left) + sum_list (map brings refs) +
      sum_list (map brings (in_flight ts))" using by_split.IH by (simp add: accounted_def)
  moreover have "sum_list (map brings (in_flight (ts[i := Idle]))) + brings p = sum_list (map brings (in_flight ts)) + 0"
    using sum_in_flight [OF by_split.hyps(2), of brings Idle] by_split.hyps(3) by simp
  ultimately have "sum_list (map brings came) + 0 =
      total t' + sum_list (map held (case io_archived r of Some c \<Rightarrow> [c] | None \<Rightarrow> [])) + sum_list (map held left) +
      (sum_list (map brings refs) + (if accepted r then 0 else brings p)) + sum_list (map brings (in_flight (ts[i := Idle])))"
    by (intro accounts_add_up)
  then show ?case by (simp add: accounted_def add_ac)
next
  case (by_sweep came refs left ts t E now removed t')
  with total_cleanup [of E now t] show ?case by (simp add: accounted_def algebra_simps)
next
  case (by_reset came refs left ts t)
  then show ?case by (simp add: accounted_def clear_tracker_def snapshot_def total_def comp_def)
qed

end

section \<open>A thread alone\<close>

text \<open>Without interference the steps of a thread are \<open>ingest_at\<close>.\<close>

definition solo :: "thread \<times> conn_tracker \<Rightarrow> thread \<times> conn_tracker \<Rightarrow> bool" where
  "solo x y \<longleftrightarrow> thread_step (fst x) (snd x) (fst y) (snd y)"

lemma solo_step: "thread_step th t th' t' \<Longrightarrow> solo\<^sup>*\<^sup>* (th', t') y \<Longrightarrow> solo\<^sup>*\<^sup>* (th, t) y"
  by (rule converse_rtranclp_into_rtranclp [of solo "(th, t)" "(th', t')"]) (simp_all add: solo_def)

lemma solo_shared:
  assumes "solo\<^sup>*\<^sup>* x y" "i < length ts" "ts ! i = fst x"
  shows "shared_step\<^sup>*\<^sup>* (ts, snd x) (ts[i := fst y], snd y)"
  using assms
proof (induction arbitrary: ts rule: converse_rtranclp_induct)
  case base
  then show ?case by (metis list_update_id rtranclp.rtrancl_refl)
next
  case (step x z)
  then have "shared_step (ts, snd x) (ts[i := fst z], snd z)"
    by (simp add: solo_def some_thread)
  moreover have "shared_step\<^sup>*\<^sup>* (ts[i := fst z], snd z) (ts[i := fst z, i := fst y], snd y)"
    using step by (intro step.IH) simp_all
  ultimately show ?case by (simp add: converse_rtranclp_into_rtranclp)
qed

text \<open>Once a packet is in hand, the step of a thread is determined by the tracker it meets.\<close>

lemma thread_step_determined:
  "thread_step th t th' t' \<Longrightarrow> th \<noteq> Idle \<Longrightarrow> thread_step th t th'' t'' \<Longrightarrow> th'' = th' \<and> t'' = t'"
proof (induction rule: thread_step.induct)
  case (load full t j)
  from load(3) load(1) show ?case by cases simp_all
qed (erule thread_stepE; simp)+

lemma solo_into_active:
  "solo\<^sup>*\<^sup>* (Entering (E, p, now, k, m), t) (Idle, snd (ingest_into_active E p now k m t))"
proof -
  define full where "full \<longleftrightarrow> unat (tr_active_count t) \<ge> max_connections (tr_config t)"
  have load: "thread_step (Entering (E, p, now, k, m)) t (Loaded full (E, p, now, k, m)) t"
    by (rule load) (simp add: full_def)
  show ?thesis
  proof (cases "at_capacity k t")
    case True
    then have "thread_step (Loaded full (E, p, now, k, m)) t Idle t"
      by (simp add: full_def at_capacity_def reject)
    with True load show ?thesis
      by (simp add: ingest_into_active_def) (metis rtranclp.rtrancl_refl solo_step)
  next
    case False
    obtain conns created deltas where u: "upsert_connection E p now k m (tr_connections t) = (conns, created, deltas)"
      by (cases "upsert_connection E p now k m (tr_connections t)") auto
    let ?t = "t\<lparr>tr_connections := conns\<rparr>"
    let ?u = "if created then ?t\<lparr>tr_active_count := tr_active_count ?t + 1\<rparr> else ?t"
    have "thread_step (Loaded full (E, p, now, k, m)) t (Admitted full (E, p, now, k, m)) t"
      using False by (intro admit) (auto simp: full_def at_capacity_def)
    note steps = this upsert [OF u, of full] count [of E created deltas ?t] finish [of E deltas ?u]
    have "snd (ingest_into_active E p now k m t) = (case ev_rtt_sample deltas of
        Some rtt \<Rightarrow> ?u\<lparr>tr_rtt := record_data_rtt (te_data_clock E) rtt (tr_rtt ?u)\<rparr> | None \<Rightarrow> ?u)"
      using False by (simp add: ingest_into_active_def u Let_def)
    with steps load show ?thesis by (metis rtranclp.rtrancl_refl solo_step)
  qed
qed

lemma ingest_is_run:
  assumes "packet_ok p" "unguarded ts" "i < length ts" "ts ! i = Idle"
  shows "shared_step\<^sup>*\<^sup>* (ts, t) (ts, snd (ingest_at E p now t))"
proof -
  let ?o = "observe_rtt E p now t" and ?k = "target E p now t" and ?u = "prepared E p now t"
  let ?j = "(E, p, now, ?k, fst ?o)"
  have "thread_step Idle t (Timed E p now (fst ?o)) (snd ?o)"
    using assms(1) by (intro arrive) simp_all
  moreover have "thread_step (Timed E p now (fst ?o)) (snd ?o) (Resolved ?j) ?u"
    by (rule resolve) (simp add: target_def prepared_def)
  ultimately have start: "solo\<^sup>*\<^sup>* (Resolved ?j, ?u) y \<Longrightarrow> solo\<^sup>*\<^sup>* (Idle, t) y" for y
    by (blast intro: solo_step)
  have whole: "shared_step\<^sup>*\<^sup>* (ts, t) (ts[i := fst y], snd y)" if "solo\<^sup>*\<^sup>* (Resolved ?j, ?u) y" for y
    using solo_shared [OF start [OF that] assms(3)] assms(4) by simp
  have same: "ts[i := Idle] = ts" using assms(3,4) by (metis list_update_id)
  show ?thesis
  proof (cases "map_of (tr_connections ?u) ?k = None \<and> is_recent_late_packet ?k p now ?u")
    case True
    then have "solo\<^sup>*\<^sup>* (Resolved ?j, ?u) (Idle, ?u)"
      by (intro solo_step [OF _ rtranclp.rtrancl_refl] late) simp_all
    with True whole [of "(Idle, ?u)"] same show ?thesis by (simp add: ingest_at_eq Let_def)
  next
    case False
    then have cur: "thread_step (Resolved ?j) ?u (Current ?j) ?u" by (rule current)
    show ?thesis
    proof (cases "needs_split p ?k ?u")
      case True
      then have "solo\<^sup>*\<^sup>* (Resolved ?j, ?u) (Splitting ?j, ?u)"
        by (intro solo_step [OF cur] solo_step [OF _ rtranclp.rtrancl_refl] split)
      from whole [OF this] have "shared_step\<^sup>*\<^sup>* (ts, t) (ts[i := Splitting ?j], ?u)" by simp
      moreover have "unguarded (ts[i := Splitting ?j])"
        using assms(2) set_update_subset_insert [of ts i "Splitting ?j"] by (auto simp: unguarded_def)
      then have "shared_step (ts[i := Splitting ?j], ?u)
          (ts[i := Splitting ?j, i := Idle], snd (ingest_new_generation E p now ?k (fst ?o) ?u))"
        using assms(3) by (intro new_generation) simp_all
      ultimately have "shared_step\<^sup>*\<^sup>* (ts, t) (ts, snd (ingest_new_generation E p now ?k (fst ?o) ?u))"
        by (simp add: same rtranclp.rtrancl_into_rtrancl)
      with True False show ?thesis by (auto simp: ingest_at_eq Let_def)
    next
      case ns: False
      have "solo\<^sup>*\<^sup>* (Resolved ?j, ?u) (Idle, snd (ingest_into_active E p now ?k (fst ?o) ?u))"
        by (intro solo_step [OF cur] solo_step [OF enter [OF ns]] solo_into_active)
      from whole [OF this] ns False same show ?thesis by (auto simp: ingest_at_eq Let_def)
    qed
  qed
qed

lemma thread_step_config: "thread_step th t th' t' \<Longrightarrow> tr_config t' = tr_config t"
proof (induction rule: thread_step.induct)
  case (arrive p E now t m t')
  then show ?case using observe_rtt_fields(5) [of E p now t] by simp
next
  case (resolve p t k t' E now m)
  then show ?case using resolve_fields(5) [of p t] by simp
qed (simp_all split: option.split)

lemma shared_config: "shared_step\<^sup>*\<^sup>* s s' \<Longrightarrow> tr_config (snd s') = tr_config (snd s)"
proof (induction rule: rtranclp_induct)
  case (step y z)
  from step(2) have "tr_config (snd z) = tr_config (snd y)"
    by cases (simp_all add: thread_step_config cleanup_eq clear_tracker_def)
  with step(3) show ?case by simp
qed simp

end
