(* ===== verification/Sample_Traffic.thy ===== *)
theory Sample_Traffic
  imports Tracker_Generations Tracker_Accounts Tracker_Threads
begin

text \<open>
  Concrete traffic for the witnesses: a TCP connection that is opened and reset, seen by a
  tracker that started empty, and the segments that come too late.
\<close>

definition no_tls :: tls_extractor where
  "no_tls r complete = (None, r)"

definition sample_merge :: merge_env where
  "sample_merge = \<lparr>me_now = 0\<rparr>"

definition sample_track :: track_env where
  "sample_track = \<lparr>te_merge = sample_merge, te_handshake_clock = 0, te_data_clock = 0,
     te_historic_rank = (\<lambda>_. 0), te_closed_rank = (\<lambda>_. 0)\<rparr>"

lemma sample_track_merge [simp]: "te_merge sample_track = sample_merge"
  by (simp add: sample_track_def)

definition flags :: "bool \<Rightarrow> bool \<Rightarrow> bool \<Rightarrow> bool \<Rightarrow> tcp_flags" where
  "flags syn ack fin rst =
     \<lparr>fl_fin = fin, fl_syn = syn, fl_rst = rst, fl_psh = False, fl_ack = ack, fl_urg = False\<rparr>"

definition sample_packet :: "tcp_flags \<Rightarrow> bool \<Rightarrow> parsed_packet" where
  "sample_packet f out = \<lparr>pk_protocol = Tcp, pk_local_addr = SockV4 0x0A000001 40000,
     pk_remote_addr = SockV4 0x5DB8D822 443,
     pk_tcp_header = Some \<lparr>th_seq = 1, th_ack = 0, th_window = 100, th_flags = f, th_payload_len = 0\<rparr>,
     pk_protocol_state = PS_Tcp Unknown, pk_is_outgoing = out, pk_packet_len = 60,
     pk_dpi_result = None, pk_process_name = None, pk_process_id = None\<rparr>"

definition sample_flow :: connection_key where
  "sample_flow = \<lparr>cn_protocol = Tcp, cn_local = SockV4 0x0A000001 40000, cn_remote = SockV4 0x5DB8D822 443\<rparr>"

abbreviation syn_packet :: parsed_packet where
  "syn_packet \<equiv> sample_packet (flags True False False False) True"

abbreviation rst_packet :: parsed_packet where
  "rst_packet \<equiv> sample_packet (flags False True False True) False"

abbreviation fin_packet :: parsed_packet where
  "fin_packet \<equiv> sample_packet (flags False True True False) False"

text \<open>Single segments and findings, for the properties of one flow.\<close>

definition data_segment :: "int \<Rightarrow> tcp_segment" where
  "data_segment q = \<lparr>sg_seq = word_of_int q, sg_ack = 0, sg_window = 0, sg_payload_len = 100,
     sg_is_outgoing = True, sg_has_ack_flag = True\<rparr>"

definition ack_segment :: tcp_segment where
  "ack_segment = \<lparr>sg_seq = 1, sg_ack = 200, sg_window = 0, sg_payload_len = 0, sg_is_outgoing = False,
     sg_has_ack_flag = True\<rparr>"

definition sample_dns :: "ip_addr list \<Rightarrow> DnsInfo" where
  "sample_dns ips = \<lparr>dns_query_name = None, dns_query_type = None, dns_response_ips = ips, dns_is_response = True\<rparr>"

definition sample_quic :: "quic_connection_state \<Rightarrow> quic_close_info option \<Rightarrow> QuicInfo" where
  "sample_quic s cl = \<lparr>qi_version_string = None, qi_packet_type = Handshake, qi_connection_id = [1],
     qi_connection_id_hex = None, qi_connection_state = s, qi_tls_info = None, qi_has_crypto_frame = False,
     qi_crypto_reassembler = None, qi_connection_close = cl, qi_idle_timeout = None\<rparr>"

lemma sample_packet_fields [simp]:
  "pk_protocol (sample_packet f out) = Tcp" "pk_dpi_result (sample_packet f out) = None"
  "pk_is_outgoing (sample_packet f out) = out" "packet_key (sample_packet f out) = sample_flow"
  "pk_process_name (sample_packet f out) = None" "pk_process_id (sample_packet f out) = None"
  "pk_packet_len (sample_packet f out) = 60"
  "pk_tcp_header (sample_packet f out) =
     Some \<lparr>th_seq = 1, th_ack = 0, th_window = 100, th_flags = f, th_payload_len = 0\<rparr>"
  by (simp_all add: sample_packet_def packet_key_def sample_flow_def)

lemma flags_fields [simp]:
  "fl_syn (flags s a f r) = s" "fl_ack (flags s a f r) = a" "fl_fin (flags s a f r) = f"
  "fl_rst (flags s a f r) = r"
  by (simp_all add: flags_def)

lemma sample_packet_ok [simp]: "packet_ok (sample_packet f out)"
  by (simp add: packet_ok_def) (simp add: sample_packet_def)

lemma sample_target [simp]: "target E (sample_packet f out) now t = sample_flow"
  by (simp add: target_tcp)

section \<open>The connection opened and reset\<close>

definition sample_start :: conn_tracker where
  "sample_start = with_config default_config"

definition sample_ops :: "tracker_op list" where
  "sample_ops = [Ingest sample_track syn_packet 1000000000, Ingest sample_track rst_packet 2000000000]"

definition sample_state :: conn_tracker where
  "sample_state = tracker_run sample_ops sample_start"

definition opened :: connection where
  "opened = create_connection_from_packet sample_merge syn_packet 1000000000"

definition reset_conn :: connection where
  "reset_conn = merged sample_merge rst_packet 2000000000 opened"

lemma sample_ops_ok: "list_all op_ok sample_ops"
  by (simp add: sample_ops_def op_ok_def)

lemma sample_first:
  "tr_connections (snd (ingest_at sample_track syn_packet 1000000000 sample_start)) = [(sample_flow, opened)]"
proof -
  let ?t = "prepared sample_track syn_packet 1000000000 sample_start"
  have "fst (observe_rtt sample_track syn_packet 1000000000 sample_start) = None"
    by (simp add: observe_rtt_def)
  moreover have "\<not> is_recent_late_packet sample_flow syn_packet 1000000000 ?t"
    by (simp add: is_recent_late_packet_def is_teardown_only_def)
  moreover have "\<not> at_capacity sample_flow sample_start" "tr_connections sample_start = []"
    by (simp_all add: at_capacity_def sample_start_def with_config_def default_config_def)
  ultimately show ?thesis
    by (simp add: ingest_creates [of _ _ _ _ sample_flow] upserted_def opened_def)
qed

lemma sample_connections: "tr_connections sample_state = [(sample_flow, reset_conn)]"
proof -
  let ?t = "snd (ingest_at sample_track syn_packet 1000000000 sample_start)"
  have "fst (observe_rtt sample_track rst_packet 2000000000 ?t) = None"
    by (simp add: observe_rtt_def)
  moreover have "\<not> packet_starts_new_generation opened rst_packet"
    by (simp add: packet_starts_new_generation_def)
  ultimately have "tr_connections (snd (ingest_at sample_track rst_packet 2000000000 ?t)) =
      [(sample_flow, reset_conn)]"
    by (simp add: ingest_merges [of _ _ _ _ sample_flow opened] sample_first upserted_def reset_conn_def)
  then show ?thesis by (simp add: sample_state_def sample_ops_def)
qed

lemma reset_fields:
  "co_protocol_state reset_conn = PS_Tcp Closed" "is_terminal reset_conn"
  "co_created_at reset_conn = 1000000000" "co_terminal_since reset_conn = Some 2000000000"
proof -
  have o: "co_protocol_state opened = PS_Tcp SynSent" "\<not> is_terminal opened" "co_last_activity opened = 1000000000"
    by (simp_all add: opened_def is_terminal_def terminal_state_def update_tcp_state_def)
  show s: "co_protocol_state reset_conn = PS_Tcp Closed"
    by (simp add: reset_conn_def next_protocol_state_def o update_rst)
  then show t: "is_terminal reset_conn" by (simp add: is_terminal_def terminal_state_def)
  show "co_created_at reset_conn = 1000000000" by (simp add: reset_conn_def opened_def)
  from t show "co_terminal_since reset_conn = Some 2000000000"
    unfolding reset_conn_def merged_terminal_since by (simp add: o del: merged_fields)
qed

lemma reset_expires: "should_cleanup reset_conn 40000000000"
  by (rule terminal_reference(2) [OF reset_fields(2,4)]) (simp add: from_secs_def)

lemma sample_state_ok: "tracker_ok sample_state"
  unfolding sample_state_def sample_start_def
  by (rule tracker_ok_run [OF tracker_ok_new sample_ops_ok]) (simp add: default_config_def)

lemma sample_closed: "tr_recently_closed sample_state = []"
proof -
  have keep: "tr_recently_closed (snd (ingest_at E p now t)) = tr_recently_closed t"
    if "\<not> needs_split p (target E p now t) (prepared E p now t)" for E p now t
    using that by (simp add: ingest_at_eq Let_def)
  let ?t = "snd (ingest_at sample_track syn_packet 1000000000 sample_start)"
  have "tr_recently_closed ?t = []"
    by (simp add: keep needs_split_def sample_start_def with_config_def)
  then show ?thesis
    by (simp add: sample_state_def sample_ops_def keep needs_split_def sample_first
        packet_starts_new_generation_def)
qed

end
