(* ===== verification/Tracker_Properties.thy ===== *)
theory Tracker_Properties
  imports Sample_Traffic
begin

text \<open>
  What the connection tracker guarantees: its invariant, that no packet is lost or counted
  twice, what a cleanup does, that closed connections do not come back, that archived
  generations are never overwritten, that terminal connections leave, and what several threads
  can do to the limit and to the accounts. Witnesses run the tracker on the traffic of \<open>Sample_Traffic\<close>.
\<close>

text \<open>
  C2. Whatever sequence of packets, cleanups and resets a tracker that started empty has seen:
  each table has one entry per key; the atomic counter is the number of active connections and
  stays within the limit; the archive, the tombstones and the QUIC identifiers stay within
  theirs (an identifier map of size 0 still holds one); and every active connection is well
  formed, live and stored under a key of its own protocol.
\<close>

theorem tracker_invariant:
  assumes "max_connections config < 2 ^ 64" "list_all op_ok ops"
    and "t = tracker_run ops (with_config config)"
  shows "distinct (map fst (tr_connections t)) \<and> distinct (map fst (tr_historic t)) \<and>
    distinct (map fst (tr_quic_map t)) \<and> distinct (map fst (tr_recently_closed t)) \<and>
    unat (tr_active_count t) = length (tr_connections t) \<and>
    length (tr_connections t) \<le> max_connections config \<and>
    length (tr_historic t) \<le> max_historic config \<and>
    length (tr_recently_closed t) \<le> max (max_historic config) 1024 \<and>
    length (tr_quic_map t) \<le> max 1 (max_quic_mappings config) \<and>
    (\<forall>(k, c) \<in> set (tr_connections t). conn_ok c \<and> cn_protocol k = co_protocol c \<and> \<not> co_is_historic c) \<and>
    (\<forall>(h, c) \<in> set (tr_historic t). co_is_historic c \<and> co_closed_at c \<noteq> None)"
proof -
  have "tracker_ok t"
    unfolding assms(3) by (rule tracker_ok_run [OF tracker_ok_new [OF assms(1)] assms(2)])
  moreover have "tr_config t = config" by (simp add: assms(3)) (simp add: with_config_def)
  ultimately show ?thesis
    by (auto simp: tracker_ok_def core_ok_def tables_ok_def table_ok_def archive_bounded_def
        max_tombstones_def RECENTLY_CLOSED_MIN_ENTRIES_def entry_ok_def historic_entry_ok_def)
qed

lemma tracker_invariant_witness:
  "unat (tr_active_count sample_state) = length (tr_connections sample_state) \<and>
   length (tr_connections sample_state) = 1"
proof -
  have "max_connections default_config < 2 ^ 64" by (simp add: default_config_def)
  from tracker_invariant [OF this sample_ops_ok, of sample_state] show ?thesis
    by (simp add: sample_state_def [unfolded sample_start_def, symmetric] sample_connections)
qed

text \<open>
  C6. No packet is lost and none counted twice: at any time the packets held by the active
  connections and by those that have left (returned by a cleanup, replaced by a new session, or
  dropped by a reset) are exactly those accepted, that is neither refused at the limit nor
  ignored as late; and so for the bytes. The sums are those of the 64-bit counters.
\<close>

theorem packets_conserved:
  assumes "max_connections config < 2 ^ 64" "list_all op_ok ops" "t0 = with_config config"
  shows "sum_list (map packets_of (snapshot (tracker_run ops t0))) +
      sum_list (map packets_of (departures ops t0)) = of_nat (length (counted_all ops t0)) \<and>
    sum_list (map bytes_of (snapshot (tracker_run ops t0))) +
      sum_list (map bytes_of (departures ops t0)) = sum_list (map pk_packet_len (counted_all ops t0))"
proof -
  have ok: "tracker_ok t0" by (simp add: assms(3) tracker_ok_new [OF assms(1)])
  have start: "packets.total t0 = 0" "octets.total t0 = 0"
    by (simp_all add: packets.total_def octets.total_def assms(3) with_config_def)
  have "sum_list (map (\<lambda>_. 1 :: u64) xs) = of_nat (length xs)" for xs :: "parsed_packet list"
    by (induction xs) simp_all
  with packets.conserved [OF ok assms(2)] octets.conserved [OF ok assms(2)] start show ?thesis
    by (simp add: packets.total_def octets.total_def snapshot_def comp_def)
qed

lemma packets_conserved_witness:
  "sum_list (map packets_of (snapshot sample_state)) +
     sum_list (map packets_of (departures sample_ops sample_start)) =
   of_nat (length (counted_all sample_ops sample_start))"
proof -
  have "max_connections default_config < 2 ^ 64" by (simp add: default_config_def)
  from packets_conserved [OF this sample_ops_ok sample_start_def] show ?thesis
    by (simp add: sample_state_def)
qed

text \<open>
  C12. A terminal connection leaves. Once a connection is terminal, whatever packets follow on its
  flow or on others, and whatever cleanups, the first cleanup more than thirty seconds after
  the moment it became terminal leaves no trace of it in the active table: what the tuple then
  holds, if anything, is a younger connection. Times are those of the packets, in order, and
  far enough from the end of the clock.
\<close>

theorem terminal_connection_leaves:
  assumes "max_connections config < 2 ^ 64" "list_all op_ok (ops @ ops')" "list_all keeps_history ops'"
    and "in_order 0 (ops @ ops' @ [Cleanup E now])"
    and "now + int (length ops + length ops') < SYSTEM_TIME_MAX"
    and "(k, c) \<in> set (tr_connections (tracker_run ops (with_config config)))"
    and "is_terminal c" "co_terminal_since c = Some s" "s + int (from_secs 30) < now"
    and "(k, d) \<in> set (tr_connections (tracker_run (ops @ ops' @ [Cleanup E now]) (with_config config)))"
  shows "co_created_at c < co_created_at d"
proof -
  let ?T = "last_time 0 ops" and ?t = "tracker_run ops (with_config config)"
  have ord: "in_order 0 ops" "in_order ?T ops'" "last_time ?T ops' \<le> now" "0 \<le> ?T" "?T \<le> last_time ?T ops'"
    using assms(4) in_order_last by (auto simp: in_order_append)
  have ops: "list_all op_ok ops" "list_all op_ok ops'" using assms(2) by simp_all
  then have ok: "tracker_ok ?t" by (intro tracker_ok_run tracker_ok_new [OF assms(1)])
  then have ok': "tracker_ok (tracker_run ops' ?t)" by (rule tracker_ok_run [OF _ ops(2)])
  have "chrono ?T (0 + length ops) ?t"
    by (rule chrono_run [OF tracker_ok_new [OF assms(1)] ops(1) chrono_new order_refl ord(1)])
      (use ord assms(5) in simp)
  moreover have "leaving k c ?T ?t"
    using assms(6-8) ok
    by (simp add: leaving_def same_generation_def tracker_ok_def core_ok_def tables_ok_def
        table_lookup [THEN iffD2] del: table_lookup)
  ultimately have "leaving k c (last_time ?T ops') (tracker_run ops' ?t)"
    using ok ops(2) assms(3,5) ord by (intro leaving_run [of ?t ops' k c ?T "0 + length ops"]) simp_all
  moreover have "map_of (tr_connections (snd (cleanup E now (tracker_run ops' ?t)))) k = Some d"
    using assms(10) tracker_ok_cleanup [OF ok', of E now]
    by (simp add: tracker_ok_def core_ok_def tables_ok_def)
  ultimately show ?thesis by (rule leaving_gone [OF ok' _ assms(8,9)])
qed

lemma terminal_connection_leaves_witness:
  "tr_connections (tracker_run (sample_ops @ [] @ [Cleanup sample_track 40000000000]) sample_start) = []"
proof -
  let ?final = "tracker_run (sample_ops @ [] @ [Cleanup sample_track 40000000000]) sample_start"
  have "co_created_at reset_conn < co_created_at d" if "(sample_flow, d) \<in> set (tr_connections ?final)" for d
    using that unfolding sample_start_def
    by (intro terminal_connection_leaves [of default_config sample_ops "[]" sample_track 40000000000 sample_flow
          reset_conn 2000000000 d])
      (simp_all add: sample_ops_ok reset_fields default_config_def from_secs_def SYSTEM_TIME_MAX_def
        sample_connections [unfolded sample_state_def sample_start_def default_config_def],
       simp_all add: sample_ops_def)
  moreover have "set (tr_connections ?final) \<subseteq> {(sample_flow, reset_conn)}"
    using sample_connections by (auto simp: cleanup_active sample_state_def)
  ultimately have "set (tr_connections ?final) = {}" by (metis less_irrefl singletonD subset_singletonD insertI1)
  then show ?thesis by simp
qed

text \<open>
  C13. Late teardown traffic does not bring a closed connection back: after a cleanup at \<open>at\<close>
  removed a terminal TCP connection, with room for its tombstone, segments of its flow that only
  tear down (a FIN, a RST or an empty ACK, without SYN) within thirty seconds of \<open>at\<close> are
  ignored, each and all of them, and leave the tracker exactly as it was.
\<close>

theorem late_teardown_ignored:
  assumes "tracker_ok t" "(k, c) \<in> set (tr_connections t)" "should_cleanup c at" "is_terminal c"
    and "length (tr_recently_closed t) + length (expired at t) \<le> max_tombstones t"
    and "list_all (late_op k (at + int (from_secs 30))) ops"
    and "t' = snd (cleanup E at t)"
  shows "tracker_run ops t' = t' \<and>
    (\<forall>E' p now. late_op k (at + int (from_secs 30)) (Ingest E' p now) \<longrightarrow>
      io_ignored_late (fst (ingest_at E' p now t')))"
proof -
  note tomb = cleanup_tombstone [OF assms(1-5), of E, folded assms(7)]
  from late_run [OF tomb(2,1)] late_ignored [OF _ tomb(2,1)] assms(6) show ?thesis
    by (simp add: late_op_def RECENTLY_CLOSED_TTL_def plain_outcome_def)
qed

lemma late_teardown_ignored_witness:
  "tracker_run [Ingest sample_track fin_packet 65000000000] (snd (cleanup sample_track 40000000000 sample_state)) =
     snd (cleanup sample_track 40000000000 sample_state)"
proof -
  have "late_op sample_flow (40000000000 + int (from_secs 30)) (Ingest sample_track fin_packet 65000000000)"
    by (simp add: late_op_def late_teardown_def is_teardown_only_def from_secs_def)
  moreover have "expired 40000000000 sample_state = [(sample_flow, reset_conn)]"
    by (simp add: expired_def sample_connections reset_expires)
  ultimately show ?thesis
    using late_teardown_ignored [THEN conjunct1, OF sample_state_ok _ reset_expires reset_fields(2),
        of sample_flow "[Ingest sample_track fin_packet 65000000000]" _ sample_track]
    by (simp add: sample_connections sample_closed max_tombstones_def RECENTLY_CLOSED_MIN_ENTRIES_def)
qed

text \<open>
  An archived record is never overwritten: with times in order, the archive key of every
  active connection, its tuple and time of creation, is not yet in the archive, although the
  clock may stand still between two sessions of one tuple.
\<close>

theorem archive_keys_fresh:
  assumes "max_connections config < 2 ^ 64" "list_all op_ok ops" "in_order 0 ops"
    and "last_time 0 ops + int (length ops) < SYSTEM_TIME_MAX"
    and "t = tracker_run ops (with_config config)" "(k, c) \<in> set (tr_connections t)"
  shows "historic_key_of k c \<notin> fst ` set (tr_historic t)"
proof -
  have ok: "tracker_ok t"
    unfolding assms(5) by (rule tracker_ok_run [OF tracker_ok_new [OF assms(1)] assms(2)])
  have "chrono (last_time 0 ops) (0 + length ops) t"
    unfolding assms(5)
    by (rule chrono_run [OF tracker_ok_new [OF assms(1)] assms(2) chrono_new order_refl assms(3)])
      (use assms(4) in simp)
  moreover have "map_of (tr_connections t) k = Some c"
    using ok assms(6) by (simp add: tracker_ok_def core_ok_def tables_ok_def)
  ultimately show ?thesis using chrono_fresh by (simp add: archived_keys_def)
qed

lemma archive_keys_fresh_witness:
  "historic_key_of sample_flow reset_conn \<notin> fst ` set (tr_historic sample_state)"
proof (rule archive_keys_fresh [of default_config sample_ops])
  show "in_order 0 sample_ops" "last_time 0 sample_ops + int (length sample_ops) < SYSTEM_TIME_MAX"
    by (simp_all add: sample_ops_def op_time_def SYSTEM_TIME_MAX_def)
  show "sample_state = tracker_run sample_ops (with_config default_config)"
    by (simp add: sample_state_def sample_start_def)
qed (simp_all add: sample_ops_ok sample_connections, simp add: default_config_def)

text \<open>
  C15. The limit under threads. However the accesses of \<open>n\<close> ingesting threads interleave with one
  another and with cleanups and resets, the table holds fewer than the limit plus \<open>n\<close>
  connections, one thread alone respects it exactly, and the counter lags behind the table by
  the threads that have inserted and not counted yet, so it is exact whenever no thread is in
  the middle of an update.
\<close>

theorem shared_limit:
  assumes "0 < n" "max_connections config + n < 2 ^ 64"
    and "shared_step\<^sup>*\<^sup>* (replicate n Idle, with_config config) (ts, t)"
  shows "length (tr_connections t) < max_connections config + n \<and>
    length (tr_connections t) = unat (tr_active_count t) + length (filter owes ts) \<and>
    (unguarded ts \<longrightarrow> unat (tr_active_count t) = length (tr_connections t)) \<and>
    distinct (map fst (tr_connections t)) \<and>
    (\<forall>(k, c) \<in> set (tr_connections t). conn_ok c \<and> cn_protocol k = co_protocol c)"
proof -
  have "shared_ok (ts, t)" by (rule shared_ok_reachable [OF assms(3) shared_ok_start [OF assms(1,2)]])
  moreover have "length ts = n" using shared_length [OF assms(3)] by simp
  moreover have "tr_config t = config" using shared_config [OF assms(3)] by (simp add: with_config_def)
  moreover have "unguarded ts \<Longrightarrow> length (filter owes ts) = 0" using tally_unguarded by (simp add: tally_def)
  ultimately show ?thesis
    by (auto simp: shared_ok_def loose_ok_def table_ok_def tally_def entry_ok_def)
qed

lemma shared_limit_witness:
  "length (tr_connections (snd (ingest_at sample_track syn_packet 1000000000 (with_config default_config)))) <
     max_connections default_config + 2"
proof -
  let ?ts = "replicate 2 Idle" and ?t = "with_config default_config"
  have "shared_step\<^sup>*\<^sup>* (?ts, ?t) (?ts, snd (ingest_at sample_track syn_packet 1000000000 ?t))"
    by (rule ingest_is_run [of _ _ 0]) (simp_all add: unguarded_def)
  from shared_limit [THEN conjunct1, OF _ _ this] show ?thesis by (simp add: default_config_def)
qed

text \<open>
  C16. The accounts under threads. However the accesses of \<open>n\<close> ingesting threads interleave with one
  another and with cleanups, resets and new generations, the packets that came are as many as the
  active connections have counted, plus those the connections that left had counted, those refused
  (late, or at the limit) and those in the hands of threads that have not merged them yet; and so
  their bytes. Those refused and in hand are packets that came, each once. When every thread is idle
  nothing is in hand, so no interleaving loses an update or counts it twice. The sums are those of the
  64-bit counters.
\<close>

theorem threads_conserve:
  assumes "0 < n" "max_connections config + n < 2 ^ 64"
    and "history (replicate n Idle, with_config config) came refs left (ts, t)"
  shows "of_nat (length came) = sum_list (map packets_of (snapshot t)) + sum_list (map packets_of left) +
      of_nat (length refs) + of_nat (length (in_flight ts)) \<and>
    sum_list (map pk_packet_len came) = sum_list (map bytes_of (snapshot t)) + sum_list (map bytes_of left) +
      sum_list (map pk_packet_len refs) + sum_list (map pk_packet_len (in_flight ts)) \<and>
    mset refs + mset (in_flight ts) \<subseteq># mset came \<and>
    ((\<forall>th \<in> set ts. th = Idle) \<longrightarrow> in_flight ts = [])"
proof -
  let ?s = "(replicate n Idle, with_config config)"
  have idle: "in_flight ts = []" if "\<forall>th \<in> set ts. th = Idle" for ts
    using that by (induction ts) (simp_all add: in_flight_def)
  then have none: "in_flight (fst ?s) = []" by simp
  then have start: "packets.accounted [] [] [] ?s" "octets.accounted [] [] [] ?s"
    by (simp_all add: packets.accounted_def octets.accounted_def packets.total_def octets.total_def with_config_def)
  have ok: "shared_ok ?s" by (rule shared_ok_start [OF assms(1,2)])
  have "sum_list (map (\<lambda>_. 1 :: u64) xs) = of_nat (length xs)" for xs :: "parsed_packet list"
    by (induction xs) simp_all
  with packets.history_accounted [OF assms(3) ok start(1)] octets.history_accounted [OF assms(3) ok start(2)]
    history_came [OF assms(3) none] idle show ?thesis
    by (simp add: packets.accounted_def octets.accounted_def packets.total_def octets.total_def snapshot_def comp_def)
qed

lemma threads_conserve_witness:
  "\<exists>came refs left. history ([Idle, Idle], with_config default_config) came refs left
       ([Idle, Idle], snd (ingest_at sample_track syn_packet 1000000000 (with_config default_config))) \<and>
     of_nat (length came) = sum_list (map packets_of (snapshot (snd (ingest_at sample_track syn_packet 1000000000
       (with_config default_config))))) + sum_list (map packets_of left) + of_nat (length refs)"
proof -
  let ?ts = "replicate 2 Idle" and ?t = "with_config default_config"
  have "shared_step\<^sup>*\<^sup>* (?ts, ?t) (?ts, snd (ingest_at sample_track syn_packet 1000000000 ?t))"
    by (rule ingest_is_run [of _ _ 0]) (simp_all add: unguarded_def)
  then obtain came refs left where h: "history (?ts, ?t) came refs left
      (?ts, snd (ingest_at sample_track syn_packet 1000000000 ?t))"
    using run_history by blast
  have limit: "max_connections default_config + 2 < 2 ^ 64" by (simp add: default_config_def)
  have h': "history ([Idle, Idle], ?t) came refs left ([Idle, Idle], snd (ingest_at sample_track syn_packet 1000000000 ?t))"
    using h by (simp add: numeral_2_eq_2)
  have "of_nat (length came) = sum_list (map packets_of (snapshot (snd (ingest_at sample_track syn_packet 1000000000 ?t)))) +
      sum_list (map packets_of left) + of_nat (length refs)"
    using threads_conserve [OF _ limit h] by (simp add: in_flight_def)
  with h' show ?thesis by blast
qed

text \<open>
  The steps of a thread are those of \<open>ingest_at\<close>: from any state in which no thread holds the guard,
  an idle thread has a run that ingests the packet, leaves the tracker as \<open>ingest_at\<close> does, on every
  branch of it, and ends idle. (Without interference it is the only one, by \<open>thread_step_determined\<close>.)
\<close>

theorem threads_refine_ingest:
  assumes "packet_ok p" "unguarded ts" "i < length ts" "ts ! i = Idle"
  shows "shared_step\<^sup>*\<^sup>* (ts, t) (ts, snd (ingest_at E p now t))"
  by (rule ingest_is_run [OF assms])

lemma threads_refine_ingest_witness:
  "shared_step\<^sup>*\<^sup>* ([Idle], sample_state) ([Idle], snd (ingest_at sample_track syn_packet 3000000000 sample_state))"
  by (rule threads_refine_ingest [of _ _ 0]) (simp_all add: unguarded_def)

text \<open>
  C17. A cleanup removes exactly the connections whose timeout has passed and returns them as they
  were, keeps the others untouched, forgets the QUIC identifiers of the removed ones only, and,
  with the archive on and room in it, keeps a closed record of each; a second cleanup at
  the same time finds nothing to do. A record given up because the archive overflows was closed
  no later than any of those kept.
\<close>

theorem cleanup_exact:
  assumes "tracker_ok t" "cleanup E now t = (removed, t')"
  shows "removed = map snd (filter (\<lambda>(k, c). should_cleanup c now) (tr_connections t)) \<and>
    tr_connections t' = filter (\<lambda>(k, c). \<not> should_cleanup c now) (tr_connections t) \<and>
    unat (tr_active_count t') = length (tr_connections t) - length removed \<and>
    (\<forall>i k. (i, k) \<in> set (tr_quic_map t') \<longleftrightarrow> (i, k) \<in> set (tr_quic_map t) \<and>
      (\<forall>c. (k, c) \<in> set (tr_connections t) \<longrightarrow> \<not> should_cleanup c now)) \<and>
    (keep_historic (tr_config t) \<and> length (tr_historic t) + length removed \<le> max_historic (tr_config t) \<longrightarrow>
      (\<forall>(k, c) \<in> set (tr_connections t). should_cleanup c now \<longrightarrow>
        (historic_key_of k c, closed_record now c) \<in> set (tr_historic t'))) \<and>
    fst (cleanup E now t') = [] \<and>
    (\<forall>(h, c) \<in> set (tr_historic t) - set (tr_historic t').
      (\<forall>(k, d) \<in> set (tr_connections t). should_cleanup d now \<longrightarrow> historic_key_of k d \<noteq> h) \<longrightarrow>
      (\<forall>(h', c') \<in> set (tr_historic t'). closed_stamp c \<le> closed_stamp c'))"
proof -
  have r: "removed = map snd (expired now t)" and t': "t' = snd (cleanup E now t)"
    using assms(2) cleanup_active(5) [of E now t] by simp_all
  have ok: "tracker_ok t'" using tracker_ok_cleanup [OF assms(1)] by (simp add: t')
  have conns: "tr_connections t' = filter (\<lambda>(k, c). \<not> should_cleanup c now) (tr_connections t)"
    by (simp add: t' cleanup_active)
  have count: "unat (tr_active_count t') = length (tr_connections t) - length removed"
    using ok expired_split [of now t] by (simp add: tracker_ok_def core_ok_def conns r)
  have archive: "(historic_key_of k c, closed_record now c) \<in> set (tr_historic t')"
    if "keep_historic (tr_config t)" "length (tr_historic t) + length removed \<le> max_historic (tr_config t)"
      "(k, c) \<in> set (tr_connections t)" "should_cleanup c now" for k c
    using cleanup_archives [OF assms(1) that(1) _ that(3,4), of E] that(2) by (simp add: r t' map_of_SomeD)
  have quic: "(i, k) \<in> set (tr_quic_map t') \<longleftrightarrow> (i, k) \<in> set (tr_quic_map t) \<and>
      (\<forall>c. (k, c) \<in> set (tr_connections t) \<longrightarrow> \<not> should_cleanup c now)" for i k
    by (force simp: t' cleanup_active expired_def)
  have evicts: "closed_stamp c \<le> closed_stamp c'"
    if "(h, c) \<in> set (tr_historic t)" "(h, c) \<notin> set (tr_historic t')" "(h', c') \<in> set (tr_historic t')"
      "\<forall>(k, d) \<in> set (tr_connections t). should_cleanup d now \<longrightarrow> historic_key_of k d \<noteq> h" for h c h' c'
    by (rule cleanup_evicts [OF assms(1) that(1) _ that(2,3) [unfolded t']])
      (use that(4) in \<open>auto simp: expired_def\<close>)
  have again: "fst (cleanup E now t') = []"
    by (auto simp: cleanup_active expired_def conns filter_empty_conv)
  show ?thesis
    using conns count archive quic again evicts
    by (intro conjI) (simp add: r expired_def, assumption+, blast+)
qed

lemma cleanup_exact_witness:
  "fst (cleanup sample_track 40000000000 sample_state) = [reset_conn] \<and>
   tr_connections (snd (cleanup sample_track 40000000000 sample_state)) = []"
  using cleanup_exact [OF sample_state_ok prod.collapse [symmetric], of sample_track 40000000000]
  by (simp add: sample_connections reset_expires)

end
