(* ===== verification/Flow_Properties.thy ===== *)
theory Flow_Properties
  imports Sample_Traffic
begin

text \<open>
  What the packets of one flow amount to: its TCP state, its loss and round-trip counts, the
  reassembled handshake, the counters and rates, and the merged findings of the inspection.
\<close>

section \<open>TCP\<close>

text \<open>
  C26. The TCP state of a connection only moves along the edges of the diagram, whatever packets
  are merged into it: it stays or its rank grows, so it changes at most six times, a state once
  left is never entered again, and a closed connection stays closed.
\<close>

theorem tcp_diagram:
  assumes "co_protocol_state c = PS_Tcp s"
  shows "\<exists>s'. co_protocol_state (merge_all ps c) = PS_Tcp s' \<and> tcp_edge\<^sup>*\<^sup>* s s' \<and>
    (s' = s \<or> tcp_rank s < tcp_rank s' \<and> tcp_rank s' \<le> 6) \<and> (s = Closed \<longrightarrow> s' = Closed)"
proof -
  let ?s = "tcp_trace s (flags_of ps)"
  have "tcp_rank ?s \<le> 6" by (cases ?s) simp_all
  with merge_all_tcp_state [OF assms, of ps] trace_edges [of s "flags_of ps"] trace_rank [of s "flags_of ps"]
  show ?thesis by auto
qed

lemma tcp_diagram_witness:
  "\<exists>s'. co_protocol_state (merge_all [(sample_merge, fin_packet, 3000000000)] reset_conn) = PS_Tcp s' \<and>
     tcp_edge\<^sup>*\<^sup>* Closed s' \<and> (s' = Closed \<or> tcp_rank Closed < tcp_rank s' \<and> tcp_rank s' \<le> 6) \<and>
     (Closed = Closed \<longrightarrow> s' = Closed)"
  by (rule tcp_diagram [OF reset_fields(1)])

text \<open>
  C27. Orderly conversations are followed to their end: a client that opens, exchanges data and
  closes first ends in TIME_WAIT and stays there; one that the peer closes first is forgotten
  on the last acknowledgement; with both closing at once it is TIME_WAIT again. A
  connection opened by the peer is established only by a segment the local host sends: the
  acknowledgement that completes the peer's handshake does not do it.
\<close>

theorem orderly_conversations:
  assumes "is_syn syn" "is_syn_ack sa" "is_ack a" "is_fin f" "is_fin f'"
    and "\<forall>p \<in> set data. plain p" "\<forall>p \<in> set half. plain p" "\<forall>p \<in> set out. plain p \<and> snd p"
    and "\<forall>p \<in> set inb. plain p \<and> \<not> snd p" "\<forall>p \<in> set rest. no_reset p"
  shows "tcp_trace Unknown ([(syn, True), (sa, False)] @ data @ [(f, True)] @ out @ [(a, False)] @
      half @ [(f', False)] @ rest) = TimeWait \<and>
    tcp_trace Unknown ([(syn, True), (sa, False)] @ data @ [(f', False)] @ half @ [(f, True)] @ out @
      [(a, False)]) = Closed \<and>
    tcp_trace Unknown ([(syn, True), (sa, False)] @ data @ [(f, True)] @ out @ [(f', False)] @ out @
      [(a, False)] @ rest) = TimeWait \<and>
    tcp_trace Unknown ([(syn, False), (sa, True)] @ inb) = SynReceived \<and>
    tcp_trace Unknown ([(syn, False), (sa, True)] @ inb @ [(a, True)] @ data @ [(f', False)] @ half @
      [(f, True)] @ out @ [(a, False)]) = Closed"
  using assms
  by (simp add: update_conversation trace_plain trace_plain_out trace_plain_in trace_TimeWait)

lemma orderly_conversations_witness:
  "tcp_trace Unknown ([(flags True False False False, True), (flags True True False False, False)] @
     [(flags False True False False, True)] @ [(flags False True True False, True)] @ [] @
     [(flags False True False False, False)] @ [] @ [(flags False True True False, False)] @ []) = TimeWait"
  by (rule orderly_conversations [where inb = "[(flags False True False False, False)]", THEN conjunct1])
    (simp_all add: segment_defs)

text \<open>
  C28. Retransmissions are counted as a sender with unbounded sequence numbers would: for segments
  that cover positions of the stream, each ending within \<open>2 ^ 31\<close> of what has been sent, the
  packets flagged are exactly those that end at or before the highest position sent, although the
  code compares 32-bit numbers that wrap.
\<close>

theorem retransmissions_exact:
  assumes "sends h ps" "outbound_top a hi" "in_window hi ps"
  shows "map ev_retransmits (sent_events h (snd (analyze_all h a))) = map of_bool (resends hi ps)"
  by (rule retransmissions_refine [OF assms])

lemma retransmissions_exact_witness:
  "map ev_retransmits (sent_events [(data_segment 4294967200, 0), (data_segment 4294967300, 1), (data_segment 4294967200, 2)]
     (snd (analyze_all [(data_segment 4294967200, 0), (data_segment 4294967300, 1), (data_segment 4294967200, 2)]
       new_tcp_analytics))) = [0, 0, 1]"
proof -
  have c: "carries (data_segment q) (q, 100)" for q by (simp add: carries_def data_segment_def)
  have "sends [(data_segment 4294967200, 0), (data_segment 4294967300, 1), (data_segment 4294967200, 2)]
      [(4294967200, 100), (4294967300, 100), (4294967200, 100)]"
    by (simp add: c) (simp add: data_segment_def)
  from retransmissions_exact [OF this, of new_tcp_analytics None] show ?thesis
    by (simp add: outbound_top_def new_tcp_analytics_def)
qed

text \<open>
  C29. A round-trip sample is sound: it is taken on a received acknowledgement, it is the time
  since an outgoing data segment that the acknowledgement covers, and nothing was retransmitted
  since that segment (Karn's rule). The smoothed estimate stays between the old one and the
  sample.
\<close>

theorem rtt_samples_sound:
  assumes "rtt_probe a0 = None"
    and "ev_rtt_sample (snd (analyze_tcp_segment s at (fst (analyze_all h a0)))) = Some rtt"
  shows "\<not> sg_is_outgoing s \<and>
    (\<exists>q t. probe_origin a0 h q t \<and> sg_has_ack_flag s \<and> \<not> seq_lt (sg_ack s) q \<and> t \<le> at \<and> rtt = nat (at - t)) \<and>
    min old rtt \<le> smooth_rtt (Some old) rtt \<and> smooth_rtt (Some old) rtt \<le> max old rtt"
  using rtt_sample_sound [OF assms] smooth_rtt_bounds by blast

lemma rtt_samples_sound_witness:
  "\<exists>q t. probe_origin new_tcp_analytics [(data_segment 100, 5)] q t \<and> sg_has_ack_flag ack_segment \<and>
     \<not> seq_lt (sg_ack ack_segment) q \<and> t \<le> 35 \<and> (30 :: nat) = nat (35 - t)"
proof -
  have "ev_rtt_sample (snd (analyze_tcp_segment ack_segment 35
      (fst (analyze_all [(data_segment 100, 5)] new_tcp_analytics)))) = Some 30"
    by (simp add: analyze_tcp_segment_def analyze_outbound_def analyze_inbound_data_def complete_rtt_probe_def
        count_duplicate_ack_def arm_rtt_probe_def new_tcp_analytics_def data_segment_def ack_segment_def
        seq_end_def no_events_def duration_since_def smooth_rtt_def)
  from rtt_samples_sound [THEN conjunct2, THEN conjunct1, OF _ this] show ?thesis
    by (simp add: new_tcp_analytics_def)
qed

text \<open>
  A handshake round trip is the time between the two packets that make it: a SYN-ACK is
  measured against the last SYN of its flow that had no answer yet, an incoming QUIC handshake
  packet against the last outgoing one, and nothing else is measured. A SYN answered within
  thirty seconds, with nothing of its flow in between, is always measured, whatever other flows
  do. The recent samples never exceed a hundred.
\<close>

theorem handshake_rtt:
  shows "(\<forall>rtt. fst (record_syn_ack i k at (rtt_run evs new_rtt_tracker)) = Some rtt \<longrightarrow>
      (\<exists>t. open_syn evs k t \<and> rtt = nat (at - t))) \<and>
    (\<forall>rtt. fst (record_quic_handshake i k out at (rtt_run evs new_rtt_tracker)) = Some rtt \<longrightarrow>
      \<not> out \<and> (\<exists>t. open_quic evs k t \<and> rtt = nat (at - t))) \<and>
    (\<forall>xs t ys. evs = xs @ Syn k t # ys \<longrightarrow>
      (\<forall>e \<in> set ys. \<not> about k e \<and> (\<forall>u. event_time e = Some u \<longrightarrow> u < t + int (from_secs 30))) \<longrightarrow>
      fst (record_syn_ack i k at (rtt_run evs new_rtt_tracker)) = Some (nat (at - t))) \<and>
    length (recent_rtts (rtt_run evs new_rtt_tracker)) \<le> 100"
proof (intro conjI allI impI)
  fix rtt assume "fst (record_syn_ack i k at (rtt_run evs new_rtt_tracker)) = Some rtt"
  then show "\<exists>t. open_syn evs k t \<and> rtt = nat (at - t)"
    by (auto simp: record_syn_ack_def Let_def dest: run_pending_syn split: option.splits)
next
  fix rtt assume "fst (record_quic_handshake i k out at (rtt_run evs new_rtt_tracker)) = Some rtt"
  then show "\<not> out" "\<exists>t. open_quic evs k t \<and> rtt = nat (at - t)"
    by (auto simp: record_quic_handshake_def Let_def dest!: cleanup_stale_pendingD(2) run_pending_quic
        split: option.splits if_splits)
next
  fix xs t ys
  assume "evs = xs @ Syn k t # ys"
    "\<forall>e \<in> set ys. \<not> about k e \<and> (\<forall>u. event_time e = Some u \<longrightarrow> u < t + int (from_secs 30))"
  with run_keeps_syn [of ys k t xs]
  show "fst (record_syn_ack i k at (rtt_run evs new_rtt_tracker)) = Some (nat (at - t))"
    by (simp add: record_syn_ack_def Let_def)
qed (use run_recent_bound in blast)

lemma handshake_rtt_witness:
  "fst (record_syn_ack 0 sample_flow 25 (rtt_run ([] @ Syn sample_flow 10 # []) new_rtt_tracker)) = Some 15"
  using handshake_rtt [THEN conjunct2, THEN conjunct2, THEN conjunct1, rule_format,
      of "[] @ Syn sample_flow 10 # []" "[]" sample_flow 10 "[]" 0 25] by simp

section \<open>The QUIC handshake\<close>

text \<open>
  C30. The CRYPTO reassembler returns the stream: from fragments of one stream, in any order and
  with repetitions, it never returns anything but a prefix of the stream; and if the fragments
  are disjoint or equal, cover the stream, and it has at most 64 KiB, it returns all of it.
\<close>

theorem reassembly_faithful:
  assumes "length S \<le> 2 ^ 62" "\<forall>f \<in> set fs. from_stream S f"
  shows "(\<forall>data. get_contiguous_data (add_fragments fs new_reassembler) = Some data \<longrightarrow>
      (\<exists>rest. S = data @ rest)) \<and>
    (S \<noteq> [] \<and> length S \<le> 64 * 1024 \<and>
      (\<forall>(k, d) \<in> set fs. \<forall>(k', d') \<in> set fs.
        dom (piece k d) = dom (piece k' d') \<or> dom (piece k d) \<inter> dom (piece k' d') = {}) \<and>
      (\<Union>(k, d) \<in> set fs. dom (piece k d)) = {..< length S} \<longrightarrow>
      get_contiguous_data (add_fragments fs new_reassembler) = Some S)"
proof (intro conjI allI impI)
  show "\<exists>rest. S = data @ rest" if "get_contiguous_data (add_fragments fs new_reassembler) = Some data" for data
    by (rule reassembly_sound [OF assms that])
next
  assume a: "S \<noteq> [] \<and> length S \<le> 64 * 1024 \<and>
      (\<forall>(k, d) \<in> set fs. \<forall>(k', d') \<in> set fs.
        dom (piece k d) = dom (piece k' d') \<or> dom (piece k d) \<inter> dom (piece k' d') = {}) \<and>
      (\<Union>(k, d) \<in> set fs. dom (piece k d)) = {..< length S}"
  show "get_contiguous_data (add_fragments fs new_reassembler) = Some S"
    by (rule reassembly_complete [OF conjunct1 [OF a] conjunct1 [OF conjunct2 [OF a]] assms(2) _
          conjunct2 [OF conjunct2 [OF conjunct2 [OF a]]]]) (use a in blast)
qed

lemma reassembly_faithful_witness:
  "get_contiguous_data (add_fragments [(3, [4, 5]), (0, [1, 2, 3]), (3, [4, 5])] new_reassembler) =
     Some [1, 2, 3, 4, 5]"
proof -
  let ?fs = "[(3, [4, 5]), (0, [1, 2, 3]), (3, [4, 5])] :: fragment list"
  have f: "\<forall>f \<in> set ?fs. from_stream [1, 2, 3, 4, 5] f" by (simp add: from_stream_def)
  have cover: "(\<Union>(k, d) \<in> set ?fs. dom (piece k d)) = {..< length [1, 2, 3, 4, 5 :: byte]}"
    by (auto simp: piece_dom)
  have "\<forall>(k, d) \<in> set ?fs. \<forall>(k', d') \<in> set ?fs.
      dom (piece k d) = dom (piece k' d') \<or> dom (piece k d) \<inter> dom (piece k' d') = {}"
    by (auto simp: piece_dom)
  with cover show ?thesis by (intro reassembly_faithful [THEN conjunct2, THEN mp, OF _ f]) simp_all
qed

text \<open>
  What the reassembler buffers is bounded whatever is sent: a fragment that would take it over
  64 KiB is refused with an error and no change, any other leaves it well formed, and bytes once
  known are neither lost nor replaced.
\<close>

theorem reassembler_bounded:
  assumes "reassembler_ok r" "data \<noteq> []" "unat offset < 2 ^ 62" "add_fragment r offset data = (res, r')"
  shows "(res = Inl Exceeds_maximum_buffer_size \<longleftrightarrow> current_buffer_size r + length data > 64 * 1024) \<and>
    (isl res \<longrightarrow> r' = r) \<and> reassembler_ok r' \<and> current_buffer_size r' \<le> 64 * 1024 \<and>
    card (dom (known (fragments r'))) = current_buffer_size r' \<and>
    known (fragments r) \<subseteq>\<^sub>m known (fragments r')"
proof -
  have ok: "reassembler_ok r'" using add_fragment_ok [OF assms(1-3)] assms(4) by simp
  then have "card (dom (known (fragments r'))) = current_buffer_size r'" "current_buffer_size r' \<le> 64 * 1024"
    using card_dom_known [of "fragments r'"] by (simp_all add: reassembler_ok_def)
  moreover have "known (fragments r) \<subseteq>\<^sub>m known (fragments r')"
    using add_fragment_extends [OF assms(1-3)] assms(4) by simp
  moreover have "max_buffer_size r = 64 * 1024" using assms(1) by (simp add: reassembler_ok_def)
  then have "(res = Inl Exceeds_maximum_buffer_size \<longleftrightarrow> current_buffer_size r + length data > 64 * 1024) \<and>
      (isl res \<longrightarrow> r' = r)"
    using assms(4) by (auto simp: add_fragment_def split: if_splits)
  ultimately show ?thesis using ok by simp
qed

lemma reassembler_bounded_witness:
  "reassembler_ok (snd (add_fragment new_reassembler 7 [1, 2]))"
  using reassembler_bounded [OF reassembler_ok_new, of "[1, 2]" 7, OF _ _ prod.collapse [symmetric]] by simp

section \<open>Accounting\<close>

text \<open>
  What merging packets does to the identity and the accounts of a connection: it stays well
  formed, of its protocol and between its addresses; its process, once named by any packet, is
  never renamed; each counter grows by exactly what the packets of its direction carry, modulo
  \<open>2 ^ 64\<close>; and once terminal it stays terminal, with the clock of its end standing.
\<close>

theorem merge_accounts:
  assumes "conn_ok c" "arrivals_ok (co_protocol c) ps" "d = merge_all ps c"
  shows "conn_ok d \<and> co_protocol d = co_protocol c \<and> co_local_addr d = co_local_addr c \<and>
    co_remote_addr d = co_remote_addr c \<and> co_created_at d = co_created_at c \<and>
    co_pid d = foldl set_once (co_pid c) (map (\<lambda>(E, p, now). pk_process_id p) ps) \<and>
    (co_pid c \<noteq> None \<longrightarrow> co_pid d = co_pid c) \<and>
    co_packets_sent d = co_packets_sent c + sum_list (map (sent_of (\<lambda>_. 1)) ps) \<and>
    co_packets_received d = co_packets_received c + sum_list (map (received_of (\<lambda>_. 1)) ps) \<and>
    co_bytes_sent d = co_bytes_sent c + sum_list (map (sent_of pk_packet_len) ps) \<and>
    co_bytes_received d = co_bytes_received c + sum_list (map (received_of pk_packet_len) ps) \<and>
    (is_terminal c \<longrightarrow> is_terminal d \<and> co_terminal_since d = co_terminal_since c)"
  using merge_all_ok [OF assms(1,2)] merge_all_fields [of ps c] merge_all_process(1) [of ps c]
    merge_all_counters [of ps c] merge_all_terminal [OF assms(1,2)]
  by (auto simp: assms(3))

lemma merge_accounts_witness:
  "co_packets_sent (merge_all [(sample_merge, rst_packet, 2000000000)] opened) =
     co_packets_sent opened + sum_list (map (sent_of (\<lambda>_. 1)) [(sample_merge, rst_packet, 2000000000)])"
proof -
  have "conn_ok opened" "co_protocol opened = Tcp" by (simp_all add: opened_def conn_ok_create)
  with merge_accounts [OF _ _ refl, of opened "[(sample_merge, rst_packet, 2000000000)]"] show ?thesis by simp
qed

text \<open>
  C32. The loops over the rate window end, on every tracker, as the code writes them. What they
  leave is the newest samples up to the cap, and the samples from the first one within the
  window on; the constant-time totals are then still the exact sums of the window, and so they
  are after every update with growing counters, without wrapping.
\<close>

theorem rate_loops_end:
  shows "while_option over_cap pop_oldest t = Some (pop_to_cap t) \<and>
    while_option (starts_before cutoff) pop_oldest t = Some (pop_before cutoff t) \<and>
    (rates_ok t \<longrightarrow>
      rt_samples (pop_to_cap t) = drop (length (rt_samples t) - rt_max_samples t) (rt_samples t) \<and>
      rt_samples (pop_before cutoff t) = dropWhile (\<lambda>s. rs_timestamp s < cutoff) (rt_samples t) \<and>
      unat (rt_window_sent_total (rate_prune t)) = sum_sent (rt_samples (rate_prune t)) \<and>
      unat (rt_window_received_total (rate_prune t)) = sum_received (rt_samples (rate_prune t))) \<and>
    (rates_ok t \<and> rt_last_bytes_sent t \<le> sent \<and> rt_last_bytes_received t \<le> received \<longrightarrow>
      rates_ok (rate_update_at now sent received t))"
  using while_over_cap [of t] while_starts_before [of cutoff t] pop_to_cap_spec [of t]
    pop_before_spec [of t cutoff] rate_prune_ok [of t] rate_update_ok [of t sent received now]
  by (auto simp: rates_ok_def totals_ok_def)

lemma rate_loops_end_witness: "rates_ok (rate_update_at 5 100 200 (new_rate_tracker 0))"
proof -
  have "rates_ok (new_rate_tracker 0)"
    by (simp add: rates_ok_def totals_ok_def new_rate_tracker_def sum_sent_def sum_received_def)
  with rate_loops_end [THEN conjunct2, THEN conjunct2, THEN conjunct2, of "new_rate_tracker 0" 100 200 5]
  show ?thesis by (simp add: new_rate_tracker_def)
qed

section \<open>Inspection\<close>

text \<open>
  The addresses a DNS flow resolved to are merged without loss within the bound: the list has
  no duplicates and at most 64 entries whatever the answers hold, keeps what it had, takes
  nothing that was not answered, and takes all of an answer as long as it is not full.
\<close>

theorem dns_answers_merged:
  assumes "distinct (dns_response_ips old)" "length (dns_response_ips old) \<le> 64"
    and "ips = dns_response_ips (merge_dns_info old new)"
  shows "distinct ips \<and> length ips \<le> 64 \<and> set (dns_response_ips old) \<subseteq> set ips \<and>
    set ips \<subseteq> set (dns_response_ips old) \<union> set (dns_response_ips new) \<and>
    (length ips < 64 \<longrightarrow> set ips = set (dns_response_ips old) \<union> set (dns_response_ips new))"
  using merge_response_ips_distinct [OF assms(1), of "dns_response_ips new"]
    merge_response_ips_bound [of "dns_response_ips old" "dns_response_ips new"]
    merge_response_ips_mono [of "dns_response_ips old" "dns_response_ips new"]
    merge_response_ips_sound [of "dns_response_ips old" "dns_response_ips new"]
    merge_response_ips_complete [of "dns_response_ips old" "dns_response_ips new"] assms(2,3)
  by (auto simp: merge_dns_info_def MAX_MERGED_RESPONSE_IPS_def)

lemma dns_answers_merged_witness:
  "set (dns_response_ips (merge_dns_info (sample_dns [V4 1, V4 2]) (sample_dns [V4 2, V4 3]))) = {V4 1, V4 2, V4 3}"
proof -
  let ?ips = "dns_response_ips (merge_dns_info (sample_dns [V4 1, V4 2]) (sample_dns [V4 2, V4 3]))"
  have "length ?ips < 64"
    by (simp add: merge_dns_info_def sample_dns_def MAX_MERGED_RESPONSE_IPS_def)
  with dns_answers_merged [OF _ _ refl, of "sample_dns [V4 1, V4 2]" "sample_dns [V4 2, V4 3]"] show ?thesis
    by (auto simp: sample_dns_def)
qed

text \<open>
  Merging QUIC packets, whatever the extraction of TLS data finds: the state only moves forward
  unless the packet closes the connection, a connection seen to close stays so, and a complete
  server name is never replaced. A packet that closes sets the state of its own frame, also
  backwards: a closed connection is draining again after a second, clean close.
\<close>

theorem quic_merge_forward:
  shows "(qi_connection_close new = None \<longrightarrow>
      quic_priority (qi_connection_state old) \<le> quic_priority (qi_connection_state (merge_quic_info x old new))) \<and>
    (quic_terminal old \<longrightarrow> quic_terminal (merge_quic_info x old new)) \<and>
    (\<forall>i. qi_tls_info old = Some i \<and> sni_complete i \<longrightarrow>
      (\<exists>i'. qi_tls_info (merge_quic_info x old new) = Some i' \<and> tls_sni i' = tls_sni i)) \<and>
    (qi_connection_close new = Some \<lparr>close_frame_type = 0x1c, close_error_code = 0\<rparr> \<longrightarrow>
      qi_connection_state (merge_quic_info x old new) = QuicDraining)"
  using quic_state_forward [of new old x] quic_terminal_merge [of old x new] merge_quic_complete_sni [of old _ x new]
    merge_quic_state [of x old new]
  by (auto simp: quic_close_state_def)

lemma quic_merge_forward_witness:
  "qi_connection_state (merge_quic_info no_tls (sample_quic QuicClosed None)
     (sample_quic QuicHandshaking (Some \<lparr>close_frame_type = 0x1c, close_error_code = 0\<rparr>))) = QuicDraining"
  using quic_merge_forward [THEN conjunct2, THEN conjunct2, THEN conjunct2, of
      "sample_quic QuicHandshaking (Some \<lparr>close_frame_type = 0x1c, close_error_code = 0\<rparr>)" no_tls "sample_quic QuicClosed None"]
  by (simp add: sample_quic_def)

end
