(* ===== verification/Oui.thy ===== *)
theory Oui
  imports Rust_Strings
begin

text \<open>
  Vendors of network cards: \<^verbatim>\<open>rustnet-core/src/network/oui.rs\<close>. The text of the embedded, compressed
  database, as lines, is an argument of \<open>load_lines\<close>.
\<close>

record oui_lookup =
  vendors :: "byte list \<rightharpoonup> unicode"

text \<open>The lines of the database, \<open>AABBCC\<close>, a tab, the vendor; what has another form is skipped. Collecting
  into a \<^verbatim>\<open>Result\<close> stops at the first pair that is not a number, before the next slice.\<close>

definition oui_prefix :: "unicode \<Rightarrow> byte list option option" where
  "oui_prefix prefix_str =
     (if str_len prefix_str \<noteq> 6 then Some None
      else do {
        a \<leftarrow> str_slice prefix_str 0 2;
        (case u8_from_hex a of
           None \<Rightarrow> Some None
         | Some a \<Rightarrow> do {
             b \<leftarrow> str_slice prefix_str 2 4;
             (case u8_from_hex b of
                None \<Rightarrow> Some None
              | Some b \<Rightarrow> do {
                  c \<leftarrow> str_slice prefix_str 4 6;
                  Some (map_option (\<lambda>c. [a, b, c]) (u8_from_hex c)) }) }) })"

definition load_line :: "unicode \<Rightarrow> (byte list \<rightharpoonup> unicode) \<Rightarrow> (byte list \<rightharpoonup> unicode) option" where
  "load_line line m =
     (let line = trim line in
      if line = [] then Some m
      else (case split_once 9 line of
          None \<Rightarrow> Some m
        | Some (prefix_str, vendor) \<Rightarrow> do {
            prefix \<leftarrow> oui_prefix prefix_str;
            Some (case prefix of
                None \<Rightarrow> m
              | Some p \<Rightarrow> (case m p of None \<Rightarrow> m(p \<mapsto> vendor) | Some _ \<Rightarrow> m)) }))"

fun load_lines :: "unicode list \<Rightarrow> (byte list \<rightharpoonup> unicode) \<Rightarrow> (byte list \<rightharpoonup> unicode) option" where
  "load_lines [] m = Some m"
| "load_lines (l # ls) m = do { m \<leftarrow> load_line l m; load_lines ls m }"

text \<open>
  \<^verbatim>\<open>parse_mac_prefix\<close>: the first three octets of an address, separated by colons or hyphens or
  not at all.
\<close>

definition three_octets :: "unicode list \<Rightarrow> byte list option" where
  "three_octets parts =
     (if length parts < 3 then None
      else do { a \<leftarrow> u8_from_hex (parts ! 0); b \<leftarrow> u8_from_hex (parts ! 1); c \<leftarrow> u8_from_hex (parts ! 2);
                Some [a, b, c] })"

definition unseparated :: "unicode \<Rightarrow> byte list option option" where
  "unseparated mac = do {
     a \<leftarrow> str_slice mac 0 2;
     (case u8_from_hex a of
        None \<Rightarrow> Some None
      | Some a \<Rightarrow> do {
          b \<leftarrow> str_slice mac 2 4;
          (case u8_from_hex b of
             None \<Rightarrow> Some None
           | Some b \<Rightarrow> do {
               c \<leftarrow> str_slice mac 4 6;
               Some (map_option (\<lambda>c. [a, b, c]) (u8_from_hex c)) }) }) }"

definition parse_mac_prefix :: "unicode \<Rightarrow> byte list option option" where
  "parse_mac_prefix mac =
     (let mac = trim mac in
      if 58 \<in> set mac then Some (three_octets (split_char 58 mac))
      else if 45 \<in> set mac then Some (three_octets (split_char 45 mac))
      else if str_len mac \<ge> 6 then unseparated mac
      else Some None)"

definition oui_find :: "oui_lookup \<Rightarrow> unicode \<Rightarrow> unicode option option" where
  "oui_find oui mac = do {
     prefix \<leftarrow> parse_mac_prefix mac;
     Some (case prefix of None \<Rightarrow> None | Some p \<Rightarrow> vendors oui p) }"

section \<open>Formatted addresses\<close>

text \<open>A hardware address as the ARP parser writes it, six pairs of digits between colons.\<close>

definition mac_text :: "byte list \<Rightarrow> unicode" where
  "mac_text bs = concat (map (\<lambda>b. 58 # hex2 b) bs)"

definition format_mac :: "byte list \<Rightarrow> unicode" where
  "format_mac bs = (case bs of [] \<Rightarrow> [] | b # bs \<Rightarrow> hex2 b @ mac_text bs)"

lemma hex2_range: "c \<in> set (hex2 b) \<Longrightarrow> 48 \<le> c \<and> c < 103 \<and> c \<noteq> 58"
proof -
  have "unat b div 16 < 16" "unat b mod 16 < 16"
    using unat_bound [of b] by (simp_all add: less_mult_imp_div_less)
  then show "c \<in> set (hex2 b) \<Longrightarrow> 48 \<le> c \<and> c < 103 \<and> c \<noteq> 58"
    using hex_digit_range by (auto simp: hex2_def)
qed

lemma format_mac_range: "c \<in> set (format_mac bs) \<Longrightarrow> 48 \<le> c \<and> c < 103"
  by (auto simp: format_mac_def mac_text_def dest!: hex2_range split: list.splits if_splits)

lemma format_mac_no_space: "c \<in> set (format_mac bs) \<Longrightarrow> \<not> is_whitespace c"
  by (drule format_mac_range) (auto simp: is_whitespace_def)

lemma trim_id: "\<forall>c \<in> set s. \<not> is_whitespace c \<Longrightarrow> trim s = s"
proof -
  assume s: "\<forall>c \<in> set s. \<not> is_whitespace c"
  then have "dropWhile is_whitespace s = s" by (cases s) simp_all
  moreover have "dropWhile is_whitespace (rev s) = rev s" using s by (cases "rev s") (auto simp: rev_eq_Cons_iff)
  ultimately show ?thesis by (simp add: trim_def trim_end_def trim_start_def)
qed

lemma split_char_prefix: "c \<notin> set p \<Longrightarrow> split_char c (p @ c # s) = p # split_char c s"
  by (induction p) auto

text \<open>The vendor of a formatted address is that of its first three octets.\<close>

lemma oui_find_format:
  assumes "length bs = 6"
  shows "oui_find oui (format_mac bs) = Some (vendors oui (take 3 bs))"
proof -
  obtain a b c rest where bs: "bs = a # b # c # rest"
    using assms by (auto simp: numeral_eq_Suc length_Suc_conv)
  have d: "58 \<notin> set (hex2 x)" for x using hex2_range by blast
  obtain d' rest' where "rest = d' # rest'"
    using assms bs by (cases rest) auto
  with bs have f: "format_mac bs = hex2 a @ 58 # hex2 b @ 58 # hex2 c @ 58 # hex2 d' @ mac_text rest'"
    by (simp add: format_mac_def mac_text_def)
  have "trim (format_mac bs) = format_mac bs"
    by (rule trim_id) (use format_mac_no_space in blast)
  then show ?thesis
    by (simp add: oui_find_def parse_mac_prefix_def f [unfolded bs] split_char_prefix d three_octets_def Let_def bs)
qed

end
