(* ===== verification/Packet_Parser.thy ===== *)
theory Packet_Parser
  imports Oui Core_Types
begin

text \<open>
  From the bytes of an IP packet to a \<open>parsed_packet\<close>: \<^verbatim>\<open>protocol/{tcp,udp,icmp,igmp}.rs\<close> and the
  network-layer half of \<^verbatim>\<open>parser.rs\<close>. A function returns \<open>None\<close> if the code would panic,
  \<open>Some None\<close> if it rejects the bytes. The packet inspection it calls is an argument, an
  \<open>inspector\<close>.
\<close>

record inspector =
  inspect_tcp :: "bytes \<Rightarrow> u16 \<Rightarrow> u16 \<Rightarrow> bool \<Rightarrow> application_protocol option option"
  inspect_udp :: "bytes \<Rightarrow> u16 \<Rightarrow> u16 \<Rightarrow> bool \<Rightarrow> application_protocol option option"

record parser_config =
  pc_enable_dpi :: bool
  pc_dpi_packet_limit :: nat

definition default_parser_config :: parser_config where
  "default_parser_config = \<lparr>pc_enable_dpi = True, pc_dpi_packet_limit = 10\<rparr>"

definition should_perform_dpi :: "parser_config \<Rightarrow> nat \<Rightarrow> bool" where
  "should_perform_dpi c packet_count \<longleftrightarrow> pc_enable_dpi c \<and> packet_count < pc_dpi_packet_limit c"

record packet_parser =
  pp_local_ips :: "ip_addr set"
  pp_last_local_ip_refresh :: instant
  pp_last_ambiguous_endpoint_refresh :: "instant option"
  pp_unchanged_ambiguous_refreshes :: u32
  pp_config :: parser_config
  pp_linktype :: "int option"
  pp_oui_lookup :: "oui_lookup option"

record transport_params =
  tp_src_ip :: ip_addr
  tp_dst_ip :: ip_addr
  tp_packet_len :: nat
  tp_process_name :: "unicode option"
  tp_process_id :: "u32 option"

section \<open>Transport\<close>

text \<open>Which end is local: the source, if it is an address of the host, and else the destination.\<close>

definition orient :: "ip_addr set \<Rightarrow> transport_params \<Rightarrow> u16 \<Rightarrow> u16 \<Rightarrow> bool \<times> socket_addr \<times> socket_addr" where
  "orient local_ips ps src_port dst_port =
     (let is_outgoing = tp_src_ip ps \<in> local_ips in
      if is_outgoing
      then (is_outgoing, new_socket_addr (tp_src_ip ps) src_port, new_socket_addr (tp_dst_ip ps) dst_port)
      else (is_outgoing, new_socket_addr (tp_dst_ip ps) dst_port, new_socket_addr (tp_src_ip ps) src_port))"

text \<open>The packet the transport parsers return.\<close>

definition transport_packet ::
  "protocol \<Rightarrow> transport_params \<Rightarrow> bool \<times> socket_addr \<times> socket_addr \<Rightarrow> tcp_header option \<Rightarrow> protocol_state \<Rightarrow>
     application_protocol option \<Rightarrow> parsed_packet" where
  "transport_packet protocol ps ends header state dpi = (case ends of (out, local_addr, remote_addr) \<Rightarrow>
     \<lparr>pk_protocol = protocol, pk_local_addr = local_addr, pk_remote_addr = remote_addr,
      pk_tcp_header = header, pk_protocol_state = state, pk_is_outgoing = out,
      pk_packet_len = of_nat (tp_packet_len ps), pk_dpi_result = dpi,
      pk_process_name = tp_process_name ps, pk_process_id = tp_process_id ps\<rparr>)"

lemma transport_packet_fields [simp]:
  "pk_protocol (transport_packet pr ps ends h st dpi) = pr"
  "pk_local_addr (transport_packet pr ps ends h st dpi) = fst (snd ends)"
  "pk_remote_addr (transport_packet pr ps ends h st dpi) = snd (snd ends)"
  "pk_tcp_header (transport_packet pr ps ends h st dpi) = h"
  "pk_protocol_state (transport_packet pr ps ends h st dpi) = st"
  "pk_is_outgoing (transport_packet pr ps ends h st dpi) = fst ends"
  "pk_packet_len (transport_packet pr ps ends h st dpi) = of_nat (tp_packet_len ps)"
  "pk_dpi_result (transport_packet pr ps ends h st dpi) = dpi"
  "pk_process_name (transport_packet pr ps ends h st dpi) = tp_process_name ps"
  "pk_process_id (transport_packet pr ps ends h st dpi) = tp_process_id ps"
  by (cases ends; simp add: transport_packet_def)+

definition parse_tcp_flags :: "u8 \<Rightarrow> tcp_flags" where
  "parse_tcp_flags flags =
     \<lparr>fl_fin = flags AND 0x01 \<noteq> 0, fl_syn = flags AND 0x02 \<noteq> 0, fl_rst = flags AND 0x04 \<noteq> 0,
      fl_psh = flags AND 0x08 \<noteq> 0, fl_ack = flags AND 0x10 \<noteq> 0, fl_urg = flags AND 0x20 \<noteq> 0\<rparr>"

definition parse_tcp ::
  "inspector \<Rightarrow> bytes \<Rightarrow> transport_params \<Rightarrow> parser_config \<Rightarrow> ip_addr set \<Rightarrow> parsed_packet option option" where
  "parse_tcp X transport_data ps config local_ips =
     (if length transport_data < 20 then Some None
      else do {
        src_port \<leftarrow> be16_at transport_data 0;
        dst_port \<leftarrow> be16_at transport_data 2;
        seq \<leftarrow> be32_at transport_data 4;
        ack \<leftarrow> be32_at transport_data 8;
        window \<leftarrow> be16_at transport_data 14;
        flags \<leftarrow> byte_at transport_data 13;
        data_offset \<leftarrow> byte_at transport_data 12;
        let tcp_header_len = unat (drop_bit 4 data_offset) * 4;
        if tcp_header_len < 20 then Some None
        else do {
          let tcp_header = \<lparr>th_seq = seq, th_ack = ack, th_window = window, th_flags = parse_tcp_flags flags,
            th_payload_len = of_nat (length transport_data - tcp_header_len)\<rparr>;
          let ends = orient local_ips ps src_port dst_port;
          dpi_result \<leftarrow> (if pc_enable_dpi config \<and> length transport_data > tcp_header_len
            then do {
              payload \<leftarrow> slice_from transport_data tcp_header_len;
              inspect_tcp X payload (port_of (fst (snd ends))) (port_of (snd (snd ends))) (fst ends) }
            else Some None);
          Some (Some (transport_packet Tcp ps ends (Some tcp_header) (PS_Tcp Unknown) dpi_result)) } })"

definition parse_udp ::
  "inspector \<Rightarrow> bytes \<Rightarrow> transport_params \<Rightarrow> parser_config \<Rightarrow> ip_addr set \<Rightarrow> parsed_packet option option" where
  "parse_udp X transport_data ps config local_ips =
     (if length transport_data < 8 then Some None
      else do {
        src_port \<leftarrow> be16_at transport_data 0;
        dst_port \<leftarrow> be16_at transport_data 2;
        let ends = orient local_ips ps src_port dst_port;
        dpi_result \<leftarrow> (if pc_enable_dpi config \<and> length transport_data > 8
          then do {
            payload \<leftarrow> slice_from transport_data 8;
            inspect_udp X payload (port_of (fst (snd ends))) (port_of (snd (snd ends))) (fst ends) }
          else Some None);
        Some (Some (transport_packet Udp ps ends None PS_Udp dpi_result)) })"

text \<open>ICMP: \<open>request\<close> and \<open>reply\<close> are the types of an echo, 8 and 0, for IPv6 128 and 129.\<close>

definition parse_icmp_with ::
  "u8 \<Rightarrow> u8 \<Rightarrow> bytes \<Rightarrow> transport_params \<Rightarrow> ip_addr set \<Rightarrow> parsed_packet option option" where
  "parse_icmp_with request reply transport_data ps local_ips =
     (if transport_data = [] then Some None
      else do {
        icmp_type \<leftarrow> byte_at transport_data 0;
        icmp_id \<leftarrow> (if length transport_data \<ge> 6 \<and> (icmp_type = request \<or> icmp_type = reply)
          then do { i \<leftarrow> be16_at transport_data 4; Some (Some i) } else Some None);
        let ends = orient local_ips ps 0 0;
        Some (Some (transport_packet Icmp ps ends None (PS_Icmp icmp_type icmp_id) None)) })"

definition parse_icmp :: "bytes \<Rightarrow> transport_params \<Rightarrow> ip_addr set \<Rightarrow> parsed_packet option option" where
  "parse_icmp = parse_icmp_with 8 0"

definition parse_icmp_v6 :: "bytes \<Rightarrow> transport_params \<Rightarrow> ip_addr set \<Rightarrow> parsed_packet option option" where
  "parse_icmp_v6 = parse_icmp_with 128 129"

definition parse_igmp :: "bytes \<Rightarrow> transport_params \<Rightarrow> ip_addr set \<Rightarrow> parsed_packet option option" where
  "parse_igmp transport_data ps local_ips =
     (if transport_data = [] then Some None
      else do {
        igmp_type \<leftarrow> byte_at transport_data 0;
        group_addr \<leftarrow> (if igmp_type \<noteq> 0x22 \<and> length transport_data \<ge> 8
          then do { a \<leftarrow> be32_at transport_data 4; Some (Some a) } else Some None);
        let ends = orient local_ips ps 0 0;
        Some (Some (transport_packet Igmp ps ends None (PS_Igmp igmp_type group_addr) None)) })"

section \<open>IPv4\<close>

text \<open>The transport parsers a protocol number of IPv4 and a next-header value of IPv6 select.\<close>

definition dispatch_v4 ::
  "inspector \<Rightarrow> packet_parser \<Rightarrow> u8 \<Rightarrow> bytes \<Rightarrow> transport_params \<Rightarrow> parsed_packet option option" where
  "dispatch_v4 X P protocol_num transport_data ps =
     (if protocol_num = 1 then parse_icmp transport_data ps (pp_local_ips P)
      else if protocol_num = 2 then parse_igmp transport_data ps (pp_local_ips P)
      else if protocol_num = 6 then parse_tcp X transport_data ps (pp_config P) (pp_local_ips P)
      else if protocol_num = 17 then parse_udp X transport_data ps (pp_config P) (pp_local_ips P)
      else Some None)"

definition dispatch_v6 ::
  "inspector \<Rightarrow> packet_parser \<Rightarrow> u8 \<Rightarrow> bytes \<Rightarrow> transport_params \<Rightarrow> parsed_packet option option" where
  "dispatch_v6 X P next_header transport_data ps =
     (if next_header = 58 then parse_icmp_v6 transport_data ps (pp_local_ips P)
      else if next_header = 6 then parse_tcp X transport_data ps (pp_config P) (pp_local_ips P)
      else if next_header = 17 then parse_udp X transport_data ps (pp_config P) (pp_local_ips P)
      else Some None)"

text \<open>
  A raw packet, and one behind \<open>offset\<close> bytes of link-layer header. The source has a body for each;
  that they agree is a lemma (\<open>ipv4_inner_behind\<close> and \<open>ipv6_inner_behind\<close> of \<open>Frame_Laws\<close>).
\<close>

definition parse_raw_ipv4_packet ::
  "inspector \<Rightarrow> packet_parser \<Rightarrow> bytes \<Rightarrow> unicode option \<Rightarrow> u32 option \<Rightarrow> parsed_packet option option" where
  "parse_raw_ipv4_packet X P data process_name process_id =
     (if length data < 20 then Some None
      else do {
        b0 \<leftarrow> byte_at data 0;
        if drop_bit 4 b0 \<noteq> 4 then Some None
        else do {
          total_length \<leftarrow> be16_at data 2;
          let actual_packet_len = unat total_length;
          fragment \<leftarrow> be16_at data 6;
          if fragment AND 0x1FFF \<noteq> 0 then Some None
          else do {
            protocol_num \<leftarrow> byte_at data 9;
            src_ip \<leftarrow> ipv4_at data 12;
            dst_ip \<leftarrow> ipv4_at data 16;
            let ihl = b0 AND 0x0F;
            if ihl < 5 then Some None
            else do {
              let ip_header_len = unat ihl * 4;
              if length data < ip_header_len then Some None
              else do {
                transport_data \<leftarrow> slice_from data ip_header_len;
                transport_data \<leftarrow> (if ip_header_len \<le> actual_packet_len
                  then slice_to transport_data (min (actual_packet_len - ip_header_len) (length transport_data))
                  else Some transport_data);
                dispatch_v4 X P protocol_num transport_data
                  \<lparr>tp_src_ip = src_ip, tp_dst_ip = dst_ip, tp_packet_len = actual_packet_len,
                   tp_process_name = process_name, tp_process_id = process_id\<rparr> } } } } })"

definition parse_ipv4_packet_inner ::
  "inspector \<Rightarrow> packet_parser \<Rightarrow> bytes \<Rightarrow> nat \<Rightarrow> unicode option \<Rightarrow> u32 option \<Rightarrow> parsed_packet option option" where
  "parse_ipv4_packet_inner X P data offset process_name process_id = do {
     ip_data \<leftarrow> slice_from data offset;
     (if length ip_data < 20 then Some None
        else do {
          b0 \<leftarrow> byte_at ip_data 0;
          if drop_bit 4 b0 \<noteq> 4 then Some None
          else do {
            ip_total_length \<leftarrow> be16_at ip_data 2;
            let actual_packet_len = offset + unat ip_total_length;
            fragment \<leftarrow> be16_at ip_data 6;
            if fragment AND 0x1FFF \<noteq> 0 then Some None
            else do {
              protocol_num \<leftarrow> byte_at ip_data 9;
              src_ip \<leftarrow> ipv4_at ip_data 12;
              dst_ip \<leftarrow> ipv4_at ip_data 16;
              let ihl = b0 AND 0x0F;
              if ihl < 5 then Some None
              else do {
                let ip_header_len = unat ihl * 4;
                if length ip_data < ip_header_len then Some None
                else do {
                  transport_data \<leftarrow> slice_from ip_data ip_header_len;
                  transport_data \<leftarrow> (if ip_header_len \<le> unat ip_total_length
                    then slice_to transport_data (min (unat ip_total_length - ip_header_len) (length transport_data))
                    else Some transport_data);
                  dispatch_v4 X P protocol_num transport_data
                    \<lparr>tp_src_ip = src_ip, tp_dst_ip = dst_ip, tp_packet_len = actual_packet_len,
                     tp_process_name = process_name, tp_process_id = process_id\<rparr> } } } } }) }"

section \<open>IPv6\<close>

text \<open>
  One extension header: the walk ends, with the transport protocol and its offset or with
  nothing for a fragment that is not the first, or goes on at the next header.
\<close>

definition extension_step :: "u8 \<Rightarrow> bytes \<Rightarrow> nat \<Rightarrow> ((u8 \<times> nat) option + u8 \<times> nat) option" where
  "extension_step next_header data offset =
     (if next_header = 0 \<or> next_header = 43 \<or> next_header = 60
      then if length data < offset + 2 then Some (Inl (Some (next_header, offset)))
           else do {
             n \<leftarrow> byte_at data offset;
             l \<leftarrow> byte_at data (offset + 1);
             Some (Inr (n, offset + (unat l + 1) * 8)) }
      else if next_header = 44
      then if length data < offset + 8 then Some (Inl (Some (next_header, offset)))
           else do {
             fragment \<leftarrow> be16_at data (offset + 2);
             if drop_bit 3 fragment \<noteq> 0 then Some (Inl None)
             else do { n \<leftarrow> byte_at data offset; Some (Inr (n, offset + 8)) } }
      else if next_header = 51
      then if length data < offset + 2 then Some (Inl (Some (next_header, offset)))
           else do {
             n \<leftarrow> byte_at data offset;
             l \<leftarrow> byte_at data (offset + 1);
             Some (Inr (n, offset + (unat l + 2) * 4)) }
      else Some (Inl (Some (next_header, offset))))"

lemma extension_step_grows:
  "extension_step n d i = Some (Inr (n', i')) \<Longrightarrow> i + 8 \<le> i'"
  by (auto simp: extension_step_def Option.bind_eq_Some_conv split: if_splits)

function walk_extensions :: "u8 \<Rightarrow> bytes \<Rightarrow> nat \<Rightarrow> (u8 \<times> nat) option option" where
  "walk_extensions next_header data offset = (case extension_step next_header data offset of
     None \<Rightarrow> None
   | Some (Inl r) \<Rightarrow> Some r
   | Some (Inr (n, i)) \<Rightarrow> if i \<ge> length data then Some (Some (n, i)) else walk_extensions n data i)"
  by pat_completeness auto
termination
  by (relation "measure (\<lambda>(n, d, i). length d - i)") (auto dest!: extension_step_grows)

declare walk_extensions.simps [simp del]

definition parse_ipv6_extension_headers :: "u8 \<Rightarrow> bytes \<Rightarrow> (u8 \<times> nat) option option" where
  "parse_ipv6_extension_headers next_header data = walk_extensions next_header data 0"

definition parse_raw_ipv6_packet ::
  "inspector \<Rightarrow> packet_parser \<Rightarrow> bytes \<Rightarrow> unicode option \<Rightarrow> u32 option \<Rightarrow> parsed_packet option option" where
  "parse_raw_ipv6_packet X P data process_name process_id =
     (if length data < 40 then Some None
      else do {
        b0 \<leftarrow> byte_at data 0;
        if drop_bit 4 b0 \<noteq> 6 then Some None
        else do {
          payload_length \<leftarrow> be16_at data 4;
          let actual_packet_len = 40 + unat payload_length;
          next_header \<leftarrow> byte_at data 6;
          src_ip \<leftarrow> ipv6_at data 8;
          dst_ip \<leftarrow> ipv6_at data 24;
          transport_data \<leftarrow> slice_from data 40;
          transport_data \<leftarrow> (if payload_length = 0 then Some transport_data
            else slice_to transport_data (min (unat payload_length) (length transport_data)));
          found \<leftarrow> parse_ipv6_extension_headers next_header transport_data;
          (case found of
             None \<Rightarrow> Some None
           | Some (final_next_header, transport_offset) \<Rightarrow> do {
               final \<leftarrow> slice_from transport_data (min transport_offset (length transport_data));
               dispatch_v6 X P final_next_header final
                 \<lparr>tp_src_ip = src_ip, tp_dst_ip = dst_ip, tp_packet_len = actual_packet_len,
                  tp_process_name = process_name, tp_process_id = process_id\<rparr> }) } })"

definition parse_ipv6_packet_inner ::
  "inspector \<Rightarrow> packet_parser \<Rightarrow> bytes \<Rightarrow> nat \<Rightarrow> unicode option \<Rightarrow> u32 option \<Rightarrow> parsed_packet option option" where
  "parse_ipv6_packet_inner X P data offset process_name process_id = do {
     ip_data \<leftarrow> slice_from data offset;
     (if length ip_data < 40 then Some None
        else do {
          b0 \<leftarrow> byte_at ip_data 0;
          if drop_bit 4 b0 \<noteq> 6 then Some None
          else do {
            payload_length \<leftarrow> be16_at ip_data 4;
            let actual_packet_len = offset + 40 + unat payload_length;
            next_header \<leftarrow> byte_at ip_data 6;
            src_ip \<leftarrow> ipv6_at ip_data 8;
            dst_ip \<leftarrow> ipv6_at ip_data 24;
            transport_data \<leftarrow> slice_from ip_data 40;
            transport_data \<leftarrow> (if payload_length = 0 then Some transport_data
              else slice_to transport_data (min (unat payload_length) (length transport_data)));
            found \<leftarrow> parse_ipv6_extension_headers next_header transport_data;
            (case found of
               None \<Rightarrow> Some None
             | Some (final_next_header, transport_offset) \<Rightarrow> do {
                 final \<leftarrow> slice_from transport_data (min transport_offset (length transport_data));
                 dispatch_v6 X P final_next_header final
                   \<lparr>tp_src_ip = src_ip, tp_dst_ip = dst_ip, tp_packet_len = actual_packet_len,
                    tp_process_name = process_name, tp_process_id = process_id\<rparr> }) } }) }"

section \<open>ARP\<close>

definition vendor_of :: "packet_parser \<Rightarrow> unicode \<Rightarrow> unicode option option" where
  "vendor_of P mac = (case pp_oui_lookup P of None \<Rightarrow> Some None | Some oui \<Rightarrow> oui_find oui mac)"

definition parse_arp_packet_with_offset ::
  "packet_parser \<Rightarrow> bytes \<Rightarrow> nat \<Rightarrow> unicode option \<Rightarrow> u32 option \<Rightarrow> parsed_packet option option" where
  "parse_arp_packet_with_offset P data header_len process_name process_id = do {
     arp_data \<leftarrow> slice_from data header_len;
     if length arp_data < 28 then Some None
     else do {
       hardware_type \<leftarrow> be16_at arp_data 0;
       protocol_type \<leftarrow> be16_at arp_data 2;
       opcode \<leftarrow> be16_at arp_data 6;
       if hardware_type \<noteq> 1 \<or> protocol_type \<noteq> 0x0800 then Some None
       else do {
         sender \<leftarrow> subslice arp_data 8 14;
         target \<leftarrow> subslice arp_data 18 24;
         sender_ip \<leftarrow> ipv4_at arp_data 14;
         target_ip \<leftarrow> ipv4_at arp_data 24;
         (case (if opcode = 1 then Some ArpRequest else if opcode = 2 then Some ArpReply else None) of
            None \<Rightarrow> Some None
          | Some operation \<Rightarrow> do {
              sender_vendor \<leftarrow> vendor_of P (format_mac sender);
              target_vendor \<leftarrow> vendor_of P (format_mac target);
              let is_outgoing = sender_ip \<in> pp_local_ips P;
              let near = (if is_outgoing then sender_ip else target_ip);
              let far = (if is_outgoing then target_ip else sender_ip);
              Some (Some \<lparr>pk_protocol = Arp, pk_local_addr = new_socket_addr near 0,
                pk_remote_addr = new_socket_addr far 0, pk_tcp_header = None,
                pk_protocol_state = PS_Arp \<lparr>arp_op = operation, arp_sender_mac = format_mac sender,
                  arp_sender_ip = sender_ip, arp_target_mac = format_mac target, arp_target_ip = target_ip,
                  arp_sender_vendor = sender_vendor, arp_target_vendor = target_vendor\<rparr>,
                pk_is_outgoing = is_outgoing, pk_packet_len = of_nat (length data), pk_dpi_result = None,
                pk_process_name = process_name, pk_process_id = process_id\<rparr>) }) } } }"

end
