(* ===== verification/Link_Layer.thy ===== *)
theory Link_Layer
  imports Packet_Parser
begin

text \<open>
  From a captured frame to the IP or ARP packet in it: \<^verbatim>\<open>link_layer/*.rs\<close> and
  \<^verbatim>\<open>PacketParser::parse_packet\<close>, on the platforms without PKTAP. The process that the PKTAP
  of macOS knows is absent, but the parsers take it, as the code's do.
\<close>

section \<open>Ethernet\<close>

definition extract_ethertype :: "bytes \<Rightarrow> (u16 \<times> nat) option option" where
  "extract_ethertype data = do {
     ethertype \<leftarrow> be16_at data 12;
     if ethertype = 0x8100
     then if length data < 18 then Some None
          else do {
            vlan \<leftarrow> be16_at data 14;
            inner \<leftarrow> be16_at data 16;
            Some (Some (inner, 18)) }
     else Some (Some (ethertype, 14)) }"

definition parse_ethernet ::
  "inspector \<Rightarrow> packet_parser \<Rightarrow> bytes \<Rightarrow> unicode option \<Rightarrow> u32 option \<Rightarrow> parsed_packet option option" where
  "parse_ethernet X P data name pid =
     (if length data < 14 then Some None
      else do {
        found \<leftarrow> extract_ethertype data;
        (case found of
           None \<Rightarrow> Some None
         | Some (ethertype, offset) \<Rightarrow>
             if ethertype = 0x0800 then parse_ipv4_packet_inner X P data offset name pid
             else if ethertype = 0x86dd then parse_ipv6_packet_inner X P data offset name pid
             else if ethertype = 0x0806 then parse_arp_packet_with_offset P data offset name pid
             else Some None) })"

section \<open>Linux cooked capture\<close>

text \<open>The payload of a cooked packet, by its protocol, behind \<open>offset\<close> bytes.\<close>

definition cooked_payload ::
  "inspector \<Rightarrow> packet_parser \<Rightarrow> u16 \<Rightarrow> bytes \<Rightarrow> nat \<Rightarrow> unicode option \<Rightarrow> u32 option \<Rightarrow> parsed_packet option option" where
  "cooked_payload X P protocol data offset name pid =
     (if protocol = 0x0800
      then do { ip_data \<leftarrow> slice_from data offset; parse_raw_ipv4_packet X P ip_data name pid }
      else if protocol = 0x86dd
      then do { ip_data \<leftarrow> slice_from data offset; parse_raw_ipv6_packet X P ip_data name pid }
      else if protocol = 0x0806 then parse_arp_packet_with_offset P data offset name pid
      else Some None)"

definition parse_sll ::
  "inspector \<Rightarrow> packet_parser \<Rightarrow> bytes \<Rightarrow> unicode option \<Rightarrow> u32 option \<Rightarrow> parsed_packet option option" where
  "parse_sll X P data name pid =
     (if length data < 16 then Some None
      else do {
        protocol \<leftarrow> be16_at data 14;
        if protocol = 0x8100
        then if length data < 20 then Some None
             else do { inner_proto \<leftarrow> be16_at data 18; cooked_payload X P inner_proto data 20 name pid }
        else cooked_payload X P protocol data 16 name pid })"

definition parse_sll2 ::
  "inspector \<Rightarrow> packet_parser \<Rightarrow> bytes \<Rightarrow> unicode option \<Rightarrow> u32 option \<Rightarrow> parsed_packet option option" where
  "parse_sll2 X P data name pid =
     (if length data < 20 then Some None
      else do {
        protocol \<leftarrow> be16_at data 0;
        if protocol = 0x8100
        then if length data < 24 then Some None
             else do { inner_proto \<leftarrow> be16_at data 22; cooked_payload X P inner_proto data 24 name pid }
        else cooked_payload X P protocol data 20 name pid })"

section \<open>Raw IP and tunnels\<close>

definition parse_raw_ip ::
  "inspector \<Rightarrow> packet_parser \<Rightarrow> bytes \<Rightarrow> unicode option \<Rightarrow> u32 option \<Rightarrow> parsed_packet option option" where
  "parse_raw_ip X P data name pid =
     (if data = [] then Some None
      else do {
        b0 \<leftarrow> byte_at data 0;
        let version = drop_bit 4 b0;
        if version = 4 then parse_raw_ipv4_packet X P data name pid
        else if version = 6 then parse_raw_ipv6_packet X P data name pid
        else Some None })"

definition parse_ipv4_only ::
  "inspector \<Rightarrow> packet_parser \<Rightarrow> bytes \<Rightarrow> unicode option \<Rightarrow> u32 option \<Rightarrow> parsed_packet option option" where
  "parse_ipv4_only X P data name pid =
     (if data = [] \<or> length data < 20 then Some None
      else do {
        b0 \<leftarrow> byte_at data 0;
        if drop_bit 4 b0 \<noteq> 4 then Some None else parse_raw_ipv4_packet X P data name pid })"

definition parse_ipv6_only ::
  "inspector \<Rightarrow> packet_parser \<Rightarrow> bytes \<Rightarrow> unicode option \<Rightarrow> u32 option \<Rightarrow> parsed_packet option option" where
  "parse_ipv6_only X P data name pid =
     (if data = [] \<or> length data < 40 then Some None
      else do {
        b0 \<leftarrow> byte_at data 0;
        if drop_bit 4 b0 \<noteq> 6 then Some None else parse_raw_ipv6_packet X P data name pid })"

text \<open>\<^verbatim>\<open>parse_by_dlt\<close>: the types are those of libpcap.\<close>

definition parse_by_dlt ::
  "inspector \<Rightarrow> packet_parser \<Rightarrow> bytes \<Rightarrow> int \<Rightarrow> unicode option \<Rightarrow> u32 option \<Rightarrow> parsed_packet option option" where
  "parse_by_dlt X P data dlt name pid =
     (if dlt = 0
      then if length data < 4 then Some None
           else do { inner \<leftarrow> slice_from data 4; parse_raw_ip X P inner name pid }
      else if dlt = 1 then parse_ethernet X P data name pid
      else if dlt = 12 \<or> dlt = 101 then parse_raw_ip X P data name pid
      else if dlt = 228 then parse_ipv4_only X P data name pid
      else if dlt = 229 then parse_ipv6_only X P data name pid
      else Some None)"

section \<open>Link types\<close>

datatype link_layer_type =
    LinkEthernet | LinkRawIP | LinkLinuxSLL | LinkLinuxSLL2 | LinkPktap | LinkTun | LinkTap | LinkUnknown

definition from_dlt :: "int \<Rightarrow> link_layer_type" where
  "from_dlt dlt =
     (if dlt = 1 then LinkEthernet
      else if dlt = 12 \<or> dlt = 0 \<or> dlt = 101 \<or> dlt = 228 \<or> dlt = 229 then LinkRawIP
      else if dlt = 113 then LinkLinuxSLL
      else if dlt = 276 then LinkLinuxSLL2
      else if dlt = 149 \<or> dlt = 258 then LinkPktap
      else LinkUnknown)"

definition starts_with_str :: "unicode \<Rightarrow> unicode \<Rightarrow> bool" where
  "starts_with_str s p \<longleftrightarrow> take (length p) s = p"

definition is_tun_interface :: "unicode \<Rightarrow> bool" where
  "is_tun_interface name \<longleftrightarrow> starts_with_str name (str ''tun'') \<or> starts_with_str name (str ''utun'')"

definition is_tap_interface :: "unicode \<Rightarrow> bool" where
  "is_tap_interface name \<longleftrightarrow> starts_with_str name (str ''tap'')"

definition is_tunnel_interface :: "unicode \<Rightarrow> bool" where
  "is_tunnel_interface name \<longleftrightarrow> is_tun_interface name \<or> is_tap_interface name"

definition from_dlt_and_name :: "int \<Rightarrow> unicode \<Rightarrow> link_layer_type" where
  "from_dlt_and_name dlt interface_name =
     (if is_tun_interface interface_name then LinkTun
      else if is_tap_interface interface_name then LinkTap
      else from_dlt dlt)"

definition is_tunnel :: "link_layer_type \<Rightarrow> bool" where
  "is_tunnel t \<longleftrightarrow> t = LinkTun \<or> t = LinkTap"

section \<open>Frames\<close>

definition parse_packet :: "inspector \<Rightarrow> packet_parser \<Rightarrow> bytes \<Rightarrow> parsed_packet option option" where
  "parse_packet X P data = (case pp_linktype P of
     Some linktype \<Rightarrow>
       if linktype = 113 then parse_sll X P data None None
       else if linktype = 276 then parse_sll2 X P data None None
       else if linktype \<in> {0, 1, 12, 101, 228, 229} then parse_by_dlt X P data linktype None None
       else parse_ethernet X P data None None
   | None \<Rightarrow> parse_ethernet X P data None None)"

end
