(* ===== verification/Endpoint_Refresh.thy ===== *)
theory Endpoint_Refresh
  imports Link_Layer
begin

text \<open>
  The addresses of the host change while it runs: \<^verbatim>\<open>PacketParser\<close>'s refreshes, periodic and on a
  packet with no local end. The addresses the operating system reports, and the readings of the
  monotonic clock, are arguments.
\<close>

definition AMBIGUOUS_ENDPOINT_REFRESH_INTERVAL :: duration where
  "AMBIGUOUS_ENDPOINT_REFRESH_INTERVAL = from_secs 1"

definition AMBIGUOUS_ENDPOINT_REFRESH_MAX_INTERVAL :: duration where
  "AMBIGUOUS_ENDPOINT_REFRESH_MAX_INTERVAL = from_secs 60"

fun is_unicast_endpoint :: "ip_addr \<Rightarrow> bool" where
  "is_unicast_endpoint (V4 ip) = (ip \<noteq> 0 \<and> drop_bit 28 ip \<noteq> 0xe \<and> ip \<noteq> 0xffffffff)"
| "is_unicast_endpoint (V6 ip) = (ip \<noteq> 0 \<and> drop_bit 120 ip \<noteq> 0xff)"

text \<open>\<^verbatim>\<open>1u32 << n.min(6)\<close> seconds, at most a minute.\<close>

definition ambiguous_refresh_interval :: "packet_parser \<Rightarrow> duration" where
  "ambiguous_refresh_interval P =
     (let factor = unat (push_bit (min (unat (pp_unchanged_ambiguous_refreshes P)) 6) (1 :: u32))
      in min (AMBIGUOUS_ENDPOINT_REFRESH_INTERVAL * factor) AMBIGUOUS_ENDPOINT_REFRESH_MAX_INTERVAL)"

definition refresh_local_ips_with :: "ip_addr set \<Rightarrow> instant \<Rightarrow> packet_parser \<Rightarrow> bool \<times> packet_parser" where
  "refresh_local_ips_with refreshed now P =
     (let P = P\<lparr>pp_last_local_ip_refresh := now\<rparr> in
      if refreshed = pp_local_ips P then (False, P)
      else (True, P\<lparr>pp_local_ips := refreshed, pp_unchanged_ambiguous_refreshes := 0\<rparr>))"

definition refresh_local_ips_if_due ::
  "ip_addr set \<Rightarrow> instant \<Rightarrow> instant \<Rightarrow> duration \<Rightarrow> packet_parser \<Rightarrow> bool \<times> packet_parser" where
  "refresh_local_ips_if_due refreshed asked now interval P =
     (if nat (asked - pp_last_local_ip_refresh P) < interval then (False, P)
      else refresh_local_ips_with refreshed now P)"

definition has_known_end :: "packet_parser \<Rightarrow> parsed_packet \<Rightarrow> bool" where
  "has_known_end P p \<longleftrightarrow> ip_of (pk_local_addr p) \<in> pp_local_ips P \<or> ip_of (pk_remote_addr p) \<in> pp_local_ips P \<or>
     \<not> is_unicast_endpoint (ip_of (pk_local_addr p)) \<or> \<not> is_unicast_endpoint (ip_of (pk_remote_addr p))"

definition saturating_succ :: "u32 \<Rightarrow> u32" where
  "saturating_succ n = (if n = - 1 then n else n + 1)"

text \<open>
  \<open>now\<close> is the time the code asks for before it decides, \<open>later\<close> the one the refresh records.
\<close>

definition parse_packet_with_local_ip_collector ::
  "inspector \<Rightarrow> ip_addr set \<Rightarrow> instant \<Rightarrow> instant \<Rightarrow> bytes \<Rightarrow> packet_parser \<Rightarrow>
     (parsed_packet option \<times> packet_parser) option" where
  "parse_packet_with_local_ip_collector X collected now later data P = do {
     found \<leftarrow> parse_packet X P data;
     (case found of
        None \<Rightarrow> Some (None, P)
      | Some parsed \<Rightarrow>
          if has_known_end P parsed then Some (Some parsed, P)
          else if (case pp_last_ambiguous_endpoint_refresh P of
              None \<Rightarrow> False
            | Some previous \<Rightarrow> nat (now - previous) < ambiguous_refresh_interval P)
          then Some (Some parsed, P)
          else do {
            let P = P\<lparr>pp_last_ambiguous_endpoint_refresh := Some now\<rparr>;
            (case refresh_local_ips_with collected later P of
               (True, P) \<Rightarrow> do { p \<leftarrow> parse_packet X P data; Some (p, P) }
             | (False, P) \<Rightarrow> Some (Some parsed,
                 P\<lparr>pp_unchanged_ambiguous_refreshes := saturating_succ (pp_unchanged_ambiguous_refreshes P)\<rparr>)) }) }"

end
