(* ===== verification/Parser_Safety.thy ===== *)
theory Parser_Safety
  imports Endpoint_Refresh Connection_Life
begin

text \<open>
  Parsing is total: no frame makes it panic, as long as the packet inspection does not, and what
  it returns is what the connection tracker expects. The inspection is the interface
  \<open>inspection\<close>. A capture gives the length of a frame in 32 bits.
\<close>

lemma packet_ok_transport:
  "packet_ok (transport_packet Tcp ps ends (Some h) (PS_Tcp s) dpi) \<longleftrightarrow> (\<forall>q. dpi \<noteq> Some (AppQuic q))"
  "packet_ok (transport_packet Udp ps ends None PS_Udp dpi)"
  "packet_ok (transport_packet Icmp ps ends None (PS_Icmp t i) None)"
  "packet_ok (transport_packet Igmp ps ends None (PS_Igmp t g) None)"
  by (auto simp: packet_ok_def split: option.splits application_protocol.splits)

lemma extension_step_total: "yields (extension_step n d i) (\<lambda>r. True)"
  by (simp add: extension_step_def wp)

lemma walk_extensions_total: "yields (walk_extensions n d i) (\<lambda>r. True)"
proof (induction n d i rule: walk_extensions.induct)
  case (1 n d i)
  then show ?case
    using yields_not_None [OF extension_step_total, of n d i]
    by (subst walk_extensions.simps) (auto split: option.splits sum.splits prod.splits)
qed

lemma vendor_of_format:
  "length bs = 6 \<Longrightarrow> vendor_of P (format_mac bs) =
     Some (case pp_oui_lookup P of None \<Rightarrow> None | Some oui \<Rightarrow> vendors oui (take 3 bs))"
  by (simp add: vendor_of_def oui_find_format split: option.split)

text \<open>A parser's result: no panic, and a well-formed packet if there is one.\<close>

definition small :: "bytes \<Rightarrow> bool" where
  "small d \<longleftrightarrow> length d < 2 ^ 32"

lemma small_sub [simp]: "small d \<Longrightarrow> small (drop i d)" "small d \<Longrightarrow> small (take i d)"
  by (auto simp: small_def)

definition sound :: "parsed_packet option option \<Rightarrow> bool" where
  "sound m \<longleftrightarrow> yields m (\<lambda>r. \<forall>p. r = Some p \<longrightarrow> packet_ok p)"

lemma sound_None [simp]: "sound (Some None)"
  by (simp add: sound_def)

locale inspection =
  fixes X :: inspector
  assumes tcp_inspected: "small payload \<Longrightarrow> yields (inspect_tcp X payload local_port remote_port out) (\<lambda>r. \<forall>q. r \<noteq> Some (AppQuic q))"
    and udp_inspected: "small payload \<Longrightarrow> yields (inspect_udp X payload local_port remote_port out) (\<lambda>r. True)"
begin

lemma parse_tcp_sound: "small d \<Longrightarrow> sound (parse_tcp X d ps c ips)"
  by (auto simp: sound_def parse_tcp_def wp packet_ok_transport intro!: yields_mono [OF tcp_inspected])

lemma parse_udp_sound: "small d \<Longrightarrow> sound (parse_udp X d ps c ips)"
  by (auto simp: sound_def parse_udp_def wp packet_ok_transport intro!: yields_mono [OF udp_inspected])

lemma parse_icmp_sound: "sound (parse_icmp_with q r d ps ips)"
  by (auto simp: sound_def parse_icmp_with_def wp packet_ok_transport)

lemma parse_igmp_sound: "sound (parse_igmp d ps ips)"
  by (auto simp: sound_def parse_igmp_def wp packet_ok_transport)

lemma dispatch_sound: "small d \<Longrightarrow> sound (dispatch_v4 X P n d ps)" "small d \<Longrightarrow> sound (dispatch_v6 X P n d ps)"
  by (simp_all add: dispatch_v4_def dispatch_v6_def parse_tcp_sound parse_udp_sound parse_icmp_def
      parse_icmp_v6_def parse_icmp_sound parse_igmp_sound)

lemmas dispatch_yields = dispatch_sound [unfolded sound_def]

lemma raw_ipv4_sound: "small d \<Longrightarrow> sound (parse_raw_ipv4_packet X P d name pid)"
  by (auto simp: sound_def parse_raw_ipv4_packet_def wp dispatch_yields)

lemma ipv4_inner_sound: "small d \<Longrightarrow> i \<le> length d \<Longrightarrow> sound (parse_ipv4_packet_inner X P d i name pid)"
  by (auto simp: sound_def parse_ipv4_packet_inner_def wp dispatch_yields)

lemma raw_ipv6_sound: "small d \<Longrightarrow> sound (parse_raw_ipv6_packet X P d name pid)"
  by (auto simp: sound_def parse_raw_ipv6_packet_def parse_ipv6_extension_headers_def wp dispatch_yields
      intro!: yields_mono [OF walk_extensions_total])

lemma ipv6_inner_sound: "small d \<Longrightarrow> i \<le> length d \<Longrightarrow> sound (parse_ipv6_packet_inner X P d i name pid)"
  by (auto simp: sound_def parse_ipv6_packet_inner_def parse_ipv6_extension_headers_def wp dispatch_yields
      intro!: yields_mono [OF walk_extensions_total])

lemma arp_sound: "i \<le> length d \<Longrightarrow> sound (parse_arp_packet_with_offset P d i name pid)"
  by (auto simp: sound_def parse_arp_packet_with_offset_def wp vendor_of_format packet_ok_def)

lemmas network_yields = raw_ipv4_sound [unfolded sound_def] raw_ipv6_sound [unfolded sound_def]
  ipv4_inner_sound [unfolded sound_def] ipv6_inner_sound [unfolded sound_def] arp_sound [unfolded sound_def]

lemma ethernet_sound: "small d \<Longrightarrow> sound (parse_ethernet X P d name pid)"
  by (auto simp: sound_def parse_ethernet_def extract_ethertype_def wp network_yields)

lemma cooked_sound: "small d \<Longrightarrow> i \<le> length d \<Longrightarrow> sound (cooked_payload X P n d i name pid)"
  by (auto simp: sound_def cooked_payload_def wp network_yields)

lemma sll_sound: "small d \<Longrightarrow> sound (parse_sll X P d name pid)" "small d \<Longrightarrow> sound (parse_sll2 X P d name pid)"
  by (auto simp: sound_def parse_sll_def parse_sll2_def wp cooked_sound [unfolded sound_def])

lemma raw_ip_sound: "small d \<Longrightarrow> sound (parse_raw_ip X P d name pid)" "small d \<Longrightarrow> sound (parse_ipv4_only X P d name pid)"
    "small d \<Longrightarrow> sound (parse_ipv6_only X P d name pid)"
  by (auto simp: sound_def parse_raw_ip_def parse_ipv4_only_def parse_ipv6_only_def wp network_yields)

lemma by_dlt_sound: "small d \<Longrightarrow> sound (parse_by_dlt X P d dlt name pid)"
  by (auto simp: sound_def parse_by_dlt_def wp raw_ip_sound [unfolded sound_def] ethernet_sound [unfolded sound_def])

lemma parse_packet_sound: "small d \<Longrightarrow> sound (parse_packet X P d)"
  by (simp add: parse_packet_def sll_sound by_dlt_sound ethernet_sound split: option.split)

lemma refresh_sound:
  "small d \<Longrightarrow> yields (parse_packet_with_local_ip_collector X collected now later d P) (\<lambda>r. \<forall>p. fst r = Some p \<longrightarrow> packet_ok p)"
  by (auto simp: parse_packet_with_local_ip_collector_def wp split: prod.splits bool.splits
      intro!: yields_mono [OF parse_packet_sound [unfolded sound_def]])

end

end
