(* ===== verification/Wire_Formats.thy ===== *)
theory Wire_Formats
  imports Parser_Safety
begin

text \<open>
  What senders put on the wire: the headers of the RFCs, with every field a parameter. The parser
  is then shown to read them back.
\<close>

section \<open>Headers\<close>

definition tcp_wire ::
  "u16 \<Rightarrow> u16 \<Rightarrow> u32 \<Rightarrow> u32 \<Rightarrow> byte \<Rightarrow> u16 \<Rightarrow> bytes \<Rightarrow> bytes \<Rightarrow> bytes \<Rightarrow> bytes" where
  "tcp_wire sp dp seq ack flags window sum_urg opts payload =
     wr16 Big sp @ wr16 Big dp @ wr32 Big seq @ wr32 Big ack @
     [of_nat ((5 + length opts div 4) * 16), flags] @ wr16 Big window @ sum_urg @ opts @ payload"

definition udp_wire :: "u16 \<Rightarrow> u16 \<Rightarrow> bytes \<Rightarrow> bytes \<Rightarrow> bytes" where
  "udp_wire sp dp len_sum payload = wr16 Big sp @ wr16 Big dp @ len_sum @ payload"

text \<open>
  An IPv4 packet that is not a fragment, or the first of one, with the three flags \<open>fl\<close>.
\<close>

definition ipv4_wire ::
  "byte \<Rightarrow> u16 \<Rightarrow> nat \<Rightarrow> byte \<Rightarrow> byte \<Rightarrow> u16 \<Rightarrow> ipv4 \<Rightarrow> ipv4 \<Rightarrow> bytes \<Rightarrow> bytes \<Rightarrow> bytes" where
  "ipv4_wire tos ident fl ttl proto csum src dst opts payload =
     [of_nat (69 + length opts div 4), tos] @ wr16 Big (of_nat (20 + length opts + length payload)) @
     wr16 Big ident @ [of_nat (32 * fl), 0, ttl, proto] @ wr16 Big csum @ octets4 src @ octets4 dst @ opts @ payload"

definition opts_ok :: "bytes \<Rightarrow> bool" where
  "opts_ok opts \<longleftrightarrow> length opts mod 4 = 0 \<and> length opts \<le> 40"

definition ipv6_wire :: "nat \<Rightarrow> bytes \<Rightarrow> byte \<Rightarrow> byte \<Rightarrow> ipv6 \<Rightarrow> ipv6 \<Rightarrow> bytes \<Rightarrow> bytes" where
  "ipv6_wire cl flow next hops src dst payload =
     [of_nat (96 + cl)] @ flow @ wr16 Big (of_nat (length payload)) @ [next, hops] @
     octets6 src @ octets6 dst @ payload"

lemma length_wires [simp]:
  "length (tcp_wire sp dp seq ack fl w su opts payload) = 16 + length su + length opts + length payload"
  "length (udp_wire sp dp ls payload) = 4 + length ls + length payload"
  "length (ipv4_wire tos i f ttl proto cs src dst opts payload) = 20 + length opts + length payload"
  "length (ipv6_wire cl flow next hops src6 dst6 payload) = 37 + length flow + length payload"
  by (simp_all add: tcp_wire_def udp_wire_def ipv4_wire_def ipv6_wire_def)

section \<open>Reading them back\<close>

text \<open>The fields that are parts of a byte.\<close>

lemma low_nibble: "(b :: byte) AND 0x0F = take_bit 4 b"
  by (simp add: take_bit_eq_mask mask_eq_exp_minus_1)

lemma low_13: "(w :: u16) AND 0x1FFF = take_bit 13 w"
  by (simp add: take_bit_eq_mask mask_eq_exp_minus_1)

lemma unat_small [simp]: "k < 256 \<Longrightarrow> unat (of_nat k :: byte) = k"
  by (simp add: unat_of_nat)

lemma unat_high_nibble: "k < 256 \<Longrightarrow> unat (drop_bit 4 (of_nat k :: byte)) = k div 16"
  by (simp only: unsigned_drop_bit_eq) (simp add: drop_bit_eq_div take_bit_nat_eq_self)

lemma header_lengths:
  assumes "n \<le> 10"
  shows "unat (drop_bit 4 (of_nat ((5 + n) * 16) :: byte)) = 5 + n"
    and "drop_bit 4 (of_nat (69 + n) :: byte) = 4"
    and "unat (of_nat (69 + n) AND 0x0F :: byte) = 5 + n"
proof -
  show "unat (drop_bit 4 (of_nat ((5 + n) * 16) :: byte)) = 5 + n"
    using assms by (subst unat_high_nibble) simp_all
  have "unat (drop_bit 4 (of_nat (69 + n) :: byte)) = unat (4 :: byte)"
    using assms by (subst unat_high_nibble) simp_all
  then show "drop_bit 4 (of_nat (69 + n) :: byte) = 4" by (simp only: word_unat_eq_iff)
  have m: "(69 + n) mod 16 = 5 + n" using assms by presburger
  show "unat (of_nat (69 + n) AND 0x0F :: byte) = 5 + n"
    unfolding low_nibble using m assms
    by (simp only: unsigned_take_bit_eq) (simp add: take_bit_eq_mod del: of_nat_add)
qed

lemma no_fragment:
  assumes "fl < 8"
  shows "rd16 Big [of_nat (32 * fl), 0] AND 0x1FFF = 0"
proof -
  have "unat (rd16 Big [of_nat (32 * fl), 0]) = 8192 * fl"
    using assms by (simp add: rd16_def dec_def unat_of_nat del: of_nat_mult)
  then have "unat (take_bit 13 (rd16 Big [of_nat (32 * fl), 0])) = 0"
    by (simp only: unsigned_take_bit_eq) (simp add: take_bit_eq_mod)
  then show ?thesis unfolding low_13 by (simp only: unat_eq_0)
qed

lemma version6:
  assumes "cl < 16"
  shows "drop_bit 4 (of_nat (96 + cl) :: byte) = 6"
proof -
  have "unat (drop_bit 4 (of_nat (96 + cl) :: byte)) = unat (6 :: byte)"
    using assms by (subst unat_high_nibble) simp_all
  then show ?thesis by (simp only: word_unat_eq_iff)
qed

lemma slice_from_append: "length h = n \<Longrightarrow> slice_from (h @ p) n = Some p"
  by (simp add: inbounds)

lemma opts_okE:
  assumes "opts_ok opts"
  obtains n where "length opts = 4 * n" "n \<le> 10"
  using assms by (auto simp: opts_ok_def mod_eq_0_iff_dvd elim!: dvdE)

text \<open>A TCP segment is read field by field, its payload without what follows the segment.\<close>

lemma parse_tcp_wire:
  assumes "length su = 4" "opts_ok opts"
  shows "parse_tcp X (tcp_wire sp dp seq ack fl w su opts payload) ps config ips =
    (let ends = orient ips ps sp dp in
     (if pc_enable_dpi config \<and> payload \<noteq> []
      then inspect_tcp X payload (port_of (fst (snd ends))) (port_of (snd (snd ends))) (fst ends)
      else Some None) \<bind>
     (\<lambda>dpi. Some (Some (transport_packet Tcp ps ends
       (Some \<lparr>th_seq = seq, th_ack = ack, th_window = w, th_flags = parse_tcp_flags fl,
              th_payload_len = of_nat (length payload)\<rparr>) (PS_Tcp Unknown) dpi))))"
proof -
  let ?d = "tcp_wire sp dp seq ack fl w su opts payload"
  define lenb :: byte where "lenb = of_nat ((5 + length opts div 4) * 16)"
  have f: "be16_at ?d 0 = Some sp" "be16_at ?d 2 = Some dp" "be32_at ?d 4 = Some seq" "be32_at ?d 8 = Some ack"
    "be16_at ?d 14 = Some w" "byte_at ?d 13 = Some fl" "byte_at ?d 12 = Some lenb"
    by (simp_all add: inbounds assms) (simp_all add: tcp_wire_def nth_append lenb_def)
  obtain n where n: "length opts = 4 * n" "n \<le> 10" by (rule opts_okE [OF assms(2)])
  have h: "unat (drop_bit 4 lenb) = 5 + length opts div 4" "(5 + length opts div 4) * 4 = 20 + length opts"
    using header_lengths(1) [OF n(2)] n(1) by (simp_all add: lenb_def del: of_nat_add of_nat_mult)
  have p: "slice_from ?d (20 + length opts) = Some payload"
    using slice_from_append [of "wr16 Big sp @ wr16 Big dp @ wr32 Big seq @ wr32 Big ack @
        [of_nat ((5 + length opts div 4) * 16), fl] @ wr16 Big w @ su @ opts" _ payload] assms(1)
    by (simp add: tcp_wire_def)
  show ?thesis
    using assms(1) by (simp add: parse_tcp_def f h p Let_def del: distrib_right_numeral)
qed

lemma parse_udp_wire:
  assumes "length ls = 4"
  shows "parse_udp X (udp_wire sp dp ls payload) ps config ips =
    (let ends = orient ips ps sp dp in
     (if pc_enable_dpi config \<and> payload \<noteq> []
      then inspect_udp X payload (port_of (fst (snd ends))) (port_of (snd (snd ends))) (fst ends)
      else Some None) \<bind>
     (\<lambda>dpi. Some (Some (transport_packet Udp ps ends None PS_Udp dpi))))"
proof -
  let ?d = "udp_wire sp dp ls payload"
  have f: "be16_at ?d 0 = Some sp" "be16_at ?d 2 = Some dp" "slice_from ?d 8 = Some payload"
    using assms by (simp_all add: inbounds) (simp_all add: udp_wire_def)
  show ?thesis using assms by (simp add: parse_udp_def f Let_def)
qed

text \<open>
  An IPv4 packet, with whatever follows it in the frame: its transport parser gets its payload and
  its addresses.
\<close>

lemma parse_ipv4_wire:
  assumes "opts_ok opts" "length opts + length payload < 65516" "fl < 8"
  shows "parse_raw_ipv4_packet X P (ipv4_wire tos ident fl ttl proto cs src dst opts payload @ trailer) name pid =
    dispatch_v4 X P proto payload
      \<lparr>tp_src_ip = V4 src, tp_dst_ip = V4 dst, tp_packet_len = 20 + length opts + length payload,
       tp_process_name = name, tp_process_id = pid\<rparr>"
proof -
  let ?d = "ipv4_wire tos ident fl ttl proto cs src dst opts payload @ trailer"
  let ?b = "of_nat (69 + length opts div 4) :: byte" and ?len = "of_nat (20 + length opts + length payload) :: u16"
  obtain n where n: "length opts = 4 * n" "n \<le> 10" by (rule opts_okE [OF assms(1)])
  have b: "drop_bit 4 ?b = 4" "unat (?b AND 0x0F) = 5 + length opts div 4"
    using header_lengths(2,3) [OF n(2)] n(1) by simp_all
  then have ihl: "\<not> ?b AND 0x0F < 5" "unat (?b AND 0x0F) * 4 = 20 + length opts"
    using n(1) by (simp_all add: word_less_nat_alt)
  have len: "unat ?len = 20 + length opts + length payload"
    using assms(2) by (simp add: unat_of_nat del: of_nat_add)
  have f: "byte_at ?d 0 = Some ?b" "be16_at ?d 2 = Some ?len" "be16_at ?d 6 = Some (rd16 Big [of_nat (32 * fl), 0])"
    "byte_at ?d 9 = Some proto" "ipv4_at ?d 12 = Some (V4 src)" "ipv4_at ?d 16 = Some (V4 dst)"
    by (simp_all add: inbounds del: of_nat_add) (simp_all add: ipv4_wire_def nth_append octets4_def)
  have p: "slice_from ?d (20 + length opts) = Some (payload @ trailer)"
    using slice_from_append [of "[?b, tos] @ wr16 Big ?len @ wr16 Big ident @ [of_nat (32 * fl), 0, ttl, proto] @
        wr16 Big cs @ octets4 src @ octets4 dst @ opts" _ "payload @ trailer"]
    by (simp add: ipv4_wire_def)
  show ?thesis
    using no_fragment [OF assms(3)]
    by (simp add: parse_raw_ipv4_packet_def f b(1) ihl len p slice_to_in Let_def del: of_nat_add)
qed

section \<open>IPv6 and its extension headers\<close>

text \<open>
  Extension headers are pairs of a header's type and what follows its next-header byte. The last
  one names the transport protocol.
\<close>

definition is_extension :: "u8 \<Rightarrow> bool" where
  "is_extension k \<longleftrightarrow> k \<in> {0, 43, 60, 44, 51}"

definition extension_ok :: "u8 \<times> bytes \<Rightarrow> bool" where
  "extension_ok h = (case h of (k, body) \<Rightarrow>
     if k = 0 \<or> k = 43 \<or> k = 60 then length body = 7 + 8 * unat (hd body)
     else if k = 44 then length body = 7 \<and> drop_bit 3 (rd16 Big [body ! 1, body ! 2]) = 0
     else k = 51 \<and> length body = 7 + 4 * unat (hd body))"

fun chain_next :: "(u8 \<times> bytes) list \<Rightarrow> u8 \<Rightarrow> u8" where
  "chain_next [] proto = proto"
| "chain_next ((k, body) # hs) proto = k"

fun chain_wire :: "(u8 \<times> bytes) list \<Rightarrow> u8 \<Rightarrow> bytes" where
  "chain_wire [] proto = []"
| "chain_wire ((k, body) # hs) proto = chain_next hs proto # body @ chain_wire hs proto"

lemma step_over_extension:
  assumes "extension_ok (k, body)"
  shows "extension_step k (pre @ n # body @ rest) (length pre) = Some (Inr (n, length pre + 1 + length body))"
proof -
  obtain l body' where body: "body = l # body'" using assms by (cases body) (auto simp: extension_ok_def split: if_splits)
  let ?d = "pre @ n # body @ rest"
  have f: "byte_at ?d (length pre) = Some n" "byte_at ?d (length pre + 1) = Some l"
    by (simp_all add: inbounds body nth_append)
  have g: "be16_at ?d (length pre + 2) = Some (rd16 Big [body ! 1, body ! 2])" if "length body = 7"
    using that by (simp add: inbounds) (simp add: body length_Suc_conv numeral_eq_Suc, auto)
  show ?thesis
    using assms f g by (auto simp: extension_ok_def extension_step_def body algebra_simps split: if_splits)
qed

lemma step_at_transport: "\<not> is_extension k \<Longrightarrow> extension_step k d i = Some (Inl (Some (k, i)))"
  by (simp add: extension_step_def is_extension_def)

lemma walk_chain:
  assumes "\<forall>h \<in> set hs. extension_ok h" "\<not> is_extension proto"
  shows "walk_extensions (chain_next hs proto) (pre @ chain_wire hs proto @ payload) (length pre) =
    Some (Some (proto, length pre + length (chain_wire hs proto)))"
  using assms(1)
proof (induction hs arbitrary: pre)
  case Nil
  then show ?case by (subst walk_extensions.simps) (simp add: step_at_transport [OF assms(2)])
next
  case (Cons h hs)
  obtain k body where h: "h = (k, body)" by (cases h)
  have s: "extension_step k (pre @ chain_next hs proto # body @ chain_wire hs proto @ payload) (length pre) =
      Some (Inr (chain_next hs proto, length pre + 1 + length body))"
    using Cons.prems by (intro step_over_extension) (simp add: h)
  have r: "walk_extensions (chain_next hs proto) (pre @ chain_next hs proto # body @ chain_wire hs proto @ payload)
      (length pre + 1 + length body) =
      Some (Some (proto, length pre + 1 + length body + length (chain_wire hs proto)))"
    using Cons.IH [of "pre @ chain_next hs proto # body"] Cons.prems by simp
  have e: "chain_next hs proto = proto" "chain_wire hs proto = []" if "chain_wire hs proto = []"
    using that by (cases hs; force)+
  show ?case
    by (subst walk_extensions.simps) (use s r e in \<open>auto simp: h\<close>)
qed

text \<open>A fragment that is not the first has no transport header: the walk rejects it wherever it is.\<close>

lemma walk_fragment:
  assumes "\<forall>h \<in> set hs. extension_ok h" "length body = 7" "drop_bit 3 (rd16 Big [body ! 1, body ! 2]) \<noteq> 0"
  shows "walk_extensions (chain_next hs 44) (pre @ chain_wire hs 44 @ n # body @ payload) (length pre) = Some None"
  using assms(1)
proof (induction hs arbitrary: pre)
  case Nil
  let ?d = "pre @ n # body @ payload"
  have "be16_at ?d (length pre + 2) = Some (rd16 Big [body ! 1, body ! 2])"
    using assms(2) by (simp add: inbounds) (auto simp: length_Suc_conv numeral_eq_Suc)
  then have "extension_step 44 ?d (length pre) = Some (Inl None)"
    using assms(2,3) by (simp add: extension_step_def)
  then show ?case by (subst walk_extensions.simps) simp
next
  case (Cons h hs)
  obtain k b where h: "h = (k, b)" by (cases h)
  have s: "extension_step k (pre @ chain_next hs 44 # b @ chain_wire hs 44 @ n # body @ payload) (length pre) =
      Some (Inr (chain_next hs 44, length pre + 1 + length b))"
    using Cons.prems by (intro step_over_extension) (simp add: h)
  have r: "walk_extensions (chain_next hs 44) (pre @ chain_next hs 44 # b @ chain_wire hs 44 @ n # body @ payload)
      (length pre + 1 + length b) = Some None"
    using Cons.IH [of "pre @ chain_next hs 44 # b"] Cons.prems by simp
  show ?case
    by (subst walk_extensions.simps) (use s r in \<open>simp add: h\<close>)
qed

text \<open>
  An IPv6 packet with its extension headers, with whatever follows it in the frame: the transport
  parser of the protocol the last header names gets the payload. An IPv6 packet that is empty
  has no end of its own, as the length 0 also stands for a jumbogram.
\<close>

lemma ipv6_fields:
  fixes n :: byte and payload trailer :: bytes
  assumes "length flow = 3" "cl < 16"
    and d: "d = ipv6_wire cl flow n hops src dst payload @ trailer"
  shows "byte_at d 0 = Some (of_nat (96 + cl))" "be16_at d 4 = Some (of_nat (length payload))"
    "byte_at d 6 = Some n" "ipv6_at d 8 = Some (V6 src)" "ipv6_at d 24 = Some (V6 dst)"
    "slice_from d 40 = Some (payload @ trailer)" "40 \<le> length d"
proof -
  obtain a b c where flow: "flow = [a, b, c]" using assms(1) by (auto simp: length_Suc_conv numeral_eq_Suc)
  show "byte_at d 0 = Some (of_nat (96 + cl))" "be16_at d 4 = Some (of_nat (length payload))"
    "byte_at d 6 = Some n"
    by (simp_all add: d flow inbounds) (simp_all add: ipv6_wire_def nth_append)
  show "ipv6_at d 8 = Some (V6 src)" "ipv6_at d 24 = Some (V6 dst)"
    by (simp_all add: d flow inbounds) (simp_all add: ipv6_wire_def)
  show "slice_from d 40 = Some (payload @ trailer)" "40 \<le> length d"
    by (simp_all add: d flow inbounds) (simp add: ipv6_wire_def)
qed

lemma ipv6_payload_length:
  assumes "length p < 65536" "p \<noteq> [] \<or> trailer = []"
  shows "(if (of_nat (length p) :: u16) = 0 then Some (p @ trailer)
     else slice_to (p @ trailer) (min (unat (of_nat (length p) :: u16)) (length (p @ trailer)))) = Some p"
proof -
  have u: "unat (of_nat (length p) :: u16) = length p"
    using assms(1) by (simp add: unat_of_nat)
  then have z: "(of_nat (length p) :: u16) = 0 \<longleftrightarrow> p = []"
    by (metis length_0_conv unat_eq_0)
  show ?thesis using assms(2) unfolding z u by (auto simp: slice_to_in)
qed

lemma parse_ipv6_wire:
  assumes "length flow = 3" "cl < 16" "\<forall>h \<in> set hs. extension_ok h" "\<not> is_extension proto"
    "length (chain_wire hs proto @ payload) < 65536" "chain_wire hs proto @ payload \<noteq> [] \<or> trailer = []"
  shows "parse_raw_ipv6_packet X P
      (ipv6_wire cl flow (chain_next hs proto) hops src dst (chain_wire hs proto @ payload) @ trailer) name pid =
    dispatch_v6 X P proto payload
      \<lparr>tp_src_ip = V6 src, tp_dst_ip = V6 dst,
       tp_packet_len = 40 + length (chain_wire hs proto @ payload),
       tp_process_name = name, tp_process_id = pid\<rparr>"
proof -
  let ?p = "chain_wire hs proto @ payload"
  note f = ipv6_fields [OF assms(1,2) refl, of "chain_next hs proto" hops src dst ?p trailer]
  have w: "parse_ipv6_extension_headers (chain_next hs proto) ?p = Some (Some (proto, length (chain_wire hs proto)))"
    using walk_chain [OF assms(3,4), of "[]" payload] by (simp add: parse_ipv6_extension_headers_def)
  have s: "slice_from ?p (min (length (chain_wire hs proto)) (length ?p)) = Some payload"
    by (simp add: slice_from_in)
  have u: "unat (of_nat (length ?p) :: u16) = length ?p" using assms(5) by (simp add: unat_of_nat del: length_append)
  note l = ipv6_payload_length [OF assms(5,6), unfolded u]
  show ?thesis
    unfolding parse_raw_ipv6_packet_def
    using f(7) by (simp only: f version6 [OF assms(2)] l w s u
        Let_def bind.bind_lunit option.case prod.case not_less [symmetric] if_False if_True simp_thms)
qed

end
