(* ===== verification/Dpi_Dns.thy ===== *)
theory Dpi_Dns
  imports Rust_Strings
begin

text \<open>
  DNS messages, and the two protocols that share their format: \<^verbatim>\<open>dpi/dns.rs\<close>, \<^verbatim>\<open>dpi/mdns.rs\<close> and
  \<^verbatim>\<open>dpi/llmnr.rs\<close>. \<open>None\<close> is a panic, as in the parser of packets.
\<close>

definition MAX_DNS_NAME_LEN :: nat where "MAX_DNS_NAME_LEN = 253"
definition MAX_ANSWERS_TO_PARSE :: nat where "MAX_ANSWERS_TO_PARSE = 64"
definition MAX_RESPONSE_IPS_PER_PACKET :: nat where "MAX_RESPONSE_IPS_PER_PACKET = 16"
definition MAX_NAME_POINTER_HOPS :: nat where "MAX_NAME_POINTER_HOPS = 16"

section \<open>Names\<close>

function skip_name_loop :: "bytes \<Rightarrow> nat \<Rightarrow> nat \<Rightarrow> nat option option" where
  "skip_name_loop payload offset hops =
     (if offset \<ge> length payload then Some None
      else do {
        label_len \<leftarrow> byte_at payload offset;
        if label_len = 0 then Some (Some (offset + 1))
        else if label_len AND 0xC0 = 0xC0
        then if offset + 1 \<ge> length payload then Some None
             else if hops + 1 > MAX_NAME_POINTER_HOPS then Some None
             else Some (Some (offset + 2))
        else if label_len AND 0xC0 \<noteq> 0 then Some None
        else if offset + 1 + unat label_len > length payload then Some None
        else skip_name_loop payload (offset + 1 + unat label_len) hops })"
  by pat_completeness auto
termination by (relation "measure (\<lambda>(p, i, h). length p - i)") auto

declare skip_name_loop.simps [simp del]

definition skip_dns_name :: "bytes \<Rightarrow> nat \<Rightarrow> nat option option" where
  "skip_dns_name payload start = skip_name_loop payload start 0"

definition push_label :: "unicode \<Rightarrow> bytes \<Rightarrow> unicode" where
  "push_label name label =
     (let name = (if name \<noteq> [] then name @ [46] else name) in
      case from_utf8 label of Some s \<Rightarrow> name @ s | None \<Rightarrow> name)"

text \<open>The name of a question: what the loop has collected and where it stops.\<close>

function question_name :: "bytes \<Rightarrow> nat \<Rightarrow> unicode \<Rightarrow> bool \<Rightarrow> (unicode \<times> nat) option" where
  "question_name payload offset name name_over_limit =
     (if offset \<ge> length payload then Some (name, offset)
      else do {
        label_len \<leftarrow> byte_at payload offset;
        if label_len = 0 then Some (name, offset + 1)
        else if label_len AND 0xC0 = 0xC0 then Some (name, offset + 2)
        else if label_len AND 0xC0 \<noteq> 0 then Some (name, offset)
        else if offset + 1 + unat label_len > length payload then Some (name, offset)
        else do {
          label \<leftarrow> subslice payload (offset + 1) (offset + 1 + unat label_len);
          let name = (if name_over_limit then name else push_label name label);
          question_name payload (offset + (1 + unat label_len)) name
            (name_over_limit \<or> str_len name > MAX_DNS_NAME_LEN) } })"
  by pat_completeness auto
termination by (relation "measure (\<lambda>(p, i, n, ov). length p - i)") auto

declare question_name.simps [simp del]

definition dns_query_types :: "(u16 \<times> DnsQueryType) list" where
  "dns_query_types = [(1, DnsA), (2, DnsNS), (5, DnsCNAME), (6, DnsSOA), (12, DnsPTR), (13, DnsHINFO),
     (15, DnsMX), (16, DnsTXT), (17, DnsRP), (18, DnsAFSDB), (24, DnsSIG), (25, DnsKEY), (28, DnsAAAA),
     (29, DnsLOC), (33, DnsSRV), (35, DnsNAPTR), (36, DnsKX), (37, DnsCERT), (39, DnsDNAME), (42, DnsAPL),
     (43, DnsDS), (44, DnsSSHFP), (45, DnsIPSECKEY), (46, DnsRRSIG), (47, DnsNSEC), (48, DnsDNSKEY),
     (49, DnsDHCID), (50, DnsNSEC3), (51, DnsNSEC3PARAM), (52, DnsTLSA), (53, DnsSMIMEA), (55, DnsHIP),
     (59, DnsCDS), (60, DnsCDNSKEY), (61, DnsOPENPGPKEY), (62, DnsCSYNC), (63, DnsZONEMD), (64, DnsSVCB),
     (65, DnsHTTPS), (108, DnsEUI48), (109, DnsEUI64), (249, DnsTKEY), (250, DnsTSIG), (256, DnsURI),
     (257, DnsCAA), (32768, DnsTA), (32769, DnsDLV)]"

definition dns_query_type_of :: "u16 \<Rightarrow> DnsQueryType" where
  "dns_query_type_of qtype = (case map_of dns_query_types qtype of Some t \<Rightarrow> t | None \<Rightarrow> DnsOther qtype)"

definition parse_question :: "bytes \<Rightarrow> nat \<Rightarrow> (unicode option \<times> DnsQueryType option \<times> nat) option" where
  "parse_question payload start = do {
     (name, offset) \<leftarrow> question_name payload start [] False;
     query_type \<leftarrow> (if offset + 2 \<le> length payload
       then do { qtype \<leftarrow> be16_at payload offset; Some (Some (dns_query_type_of qtype)) } else Some None);
     Some (if name = [] then None else Some name, query_type, offset + 4) }"

section \<open>Records\<close>

definition collect_ip :: "bytes \<Rightarrow> u16 \<Rightarrow> nat \<Rightarrow> nat \<Rightarrow> ip_addr list \<Rightarrow> ip_addr list option" where
  "collect_ip payload atype rdata_start rdlength ips =
     (if length ips < MAX_RESPONSE_IPS_PER_PACKET
      then if atype = 1 \<and> rdlength = 4
           then do { ip \<leftarrow> ipv4_at payload rdata_start; Some (ips @ [ip]) }
           else if atype = 28 \<and> rdlength = 16
           then do { ip \<leftarrow> ipv6_at payload rdata_start; Some (ips @ [ip]) }
           else Some ips
      else Some ips)"

text \<open>\<^verbatim>\<open>walk_a_aaaa_records\<close>: \<open>n\<close> records are left.\<close>

fun walk_records :: "bytes \<Rightarrow> nat \<Rightarrow> nat \<Rightarrow> ip_addr list \<Rightarrow> (nat \<times> ip_addr list) option" where
  "walk_records payload offset 0 ips = Some (offset, ips)"
| "walk_records payload offset (Suc n) ips = do {
     skipped \<leftarrow> skip_dns_name payload offset;
     (case skipped of
        None \<Rightarrow> Some (offset, ips)
      | Some after_name \<Rightarrow>
          if after_name + 10 > length payload then Some (offset, ips)
          else do {
            atype \<leftarrow> be16_at payload after_name;
            rdlength \<leftarrow> be16_at payload (after_name + 8);
            let rdata_start = after_name + 10;
            let rdata_end = rdata_start + unat rdlength;
            if rdata_end > length payload then Some (offset, ips)
            else do {
              ips \<leftarrow> collect_ip payload atype rdata_start (unat rdlength) ips;
              walk_records payload rdata_end n ips } }) }"

definition walk_a_aaaa_records :: "bytes \<Rightarrow> nat \<Rightarrow> nat \<Rightarrow> ip_addr list \<Rightarrow> (nat \<times> ip_addr list) option" where
  "walk_a_aaaa_records payload start count ips =
     walk_records payload start (min count MAX_ANSWERS_TO_PARSE) ips"

fun skip_record_loop :: "bytes \<Rightarrow> nat \<Rightarrow> nat \<Rightarrow> nat option option" where
  "skip_record_loop payload offset 0 = Some (Some offset)"
| "skip_record_loop payload offset (Suc n) = do {
     skipped \<leftarrow> skip_dns_name payload offset;
     (case skipped of
        None \<Rightarrow> Some None
      | Some after_name \<Rightarrow>
          if after_name + 10 > length payload then Some None
          else do {
            rdlength \<leftarrow> be16_at payload (after_name + 8);
            let rdata_end = after_name + 10 + unat rdlength;
            if rdata_end > length payload then Some None else skip_record_loop payload rdata_end n }) }"

definition skip_records :: "bytes \<Rightarrow> nat \<Rightarrow> u16 \<Rightarrow> nat option option" where
  "skip_records payload start count = skip_record_loop payload start (min (unat count) MAX_ANSWERS_TO_PARSE)"

section \<open>Messages\<close>

record dns_header =
  dh_is_response :: bool
  dh_qdcount :: u16
  dh_ancount :: u16
  dh_arcount :: u16

definition dns_header_counts :: "bytes \<Rightarrow> dns_header option option" where
  "dns_header_counts payload =
     (if length payload < 12 then Some None
      else do {
        flags \<leftarrow> be16_at payload 2;
        qd \<leftarrow> be16_at payload 4;
        an \<leftarrow> be16_at payload 6;
        ar \<leftarrow> be16_at payload 10;
        Some (Some \<lparr>dh_is_response = flags AND 0x8000 \<noteq> 0, dh_qdcount = qd, dh_ancount = an, dh_arcount = ar\<rparr>) })"

text \<open>The questions after the first: only where they end matters.\<close>

fun skip_questions :: "bytes \<Rightarrow> nat \<Rightarrow> nat \<Rightarrow> nat option" where
  "skip_questions payload offset 0 = Some offset"
| "skip_questions payload offset (Suc n) =
     (if offset > length payload then Some offset
      else do { (name, qtype, offset) \<leftarrow> parse_question payload offset; skip_questions payload offset n })"

definition parse_questions_starting_at_header ::
  "bytes \<Rightarrow> u16 \<Rightarrow> (unicode option \<times> DnsQueryType option \<times> nat) option" where
  "parse_questions_starting_at_header payload qdcount =
     (if qdcount = 0 then Some (None, None, 12)
      else do {
        (name, qtype, offset) \<leftarrow> parse_question payload 12;
        offset \<leftarrow> skip_questions payload offset (unat qdcount - 1);
        Some (name, qtype, offset) })"

definition analyze_dns :: "bytes \<Rightarrow> DnsInfo option option" where
  "analyze_dns payload = do {
     header \<leftarrow> dns_header_counts payload;
     (case header of
        None \<Rightarrow> Some None
      | Some header \<Rightarrow> do {
          (name, qtype, offset) \<leftarrow> parse_questions_starting_at_header payload (dh_qdcount header);
          (offset, ips) \<leftarrow> (if dh_is_response header
            then walk_a_aaaa_records payload offset (unat (dh_ancount header)) [] else Some (offset, []));
          Some (Some \<lparr>dns_query_name = name, dns_query_type = qtype, dns_response_ips = ips,
            dns_is_response = dh_is_response header\<rparr>) }) }"

definition header_nscount :: "bytes \<Rightarrow> u16 option" where
  "header_nscount payload = (if length payload < 12 then Some 0 else be16_at payload 8)"

definition analyze_dns_for_mdns :: "bytes \<Rightarrow> DnsInfo option option" where
  "analyze_dns_for_mdns payload = do {
     header \<leftarrow> dns_header_counts payload;
     (case header of
        None \<Rightarrow> Some None
      | Some header \<Rightarrow> do {
          (name, qtype, offset) \<leftarrow> parse_questions_starting_at_header payload (dh_qdcount header);
          ips \<leftarrow> (if dh_is_response header
            then do {
              (offset, ips) \<leftarrow> walk_a_aaaa_records payload offset (unat (dh_ancount header)) [];
              nscount \<leftarrow> header_nscount payload;
              skipped \<leftarrow> skip_records payload offset nscount;
              (case skipped of
                 None \<Rightarrow> Some ips
               | Some after_authority \<Rightarrow> do {
                   (offset, ips) \<leftarrow> walk_a_aaaa_records payload after_authority (unat (dh_arcount header)) ips;
                   Some ips }) }
            else Some []);
          Some (Some \<lparr>dns_query_name = name, dns_query_type = qtype, dns_response_ips = ips,
            dns_is_response = dh_is_response header\<rparr>) }) }"

definition analyze_mdns :: "bytes \<Rightarrow> MdnsInfo option option" where
  "analyze_mdns payload = do {
     found \<leftarrow> analyze_dns_for_mdns payload;
     Some (map_option (\<lambda>i. \<lparr>mdns_query_name = dns_query_name i, mdns_query_type = dns_query_type i,
       mdns_is_response = dns_is_response i, mdns_response_ips = dns_response_ips i\<rparr>) found) }"

definition analyze_llmnr :: "bytes \<Rightarrow> LlmnrInfo option option" where
  "analyze_llmnr payload = do {
     found \<leftarrow> analyze_dns payload;
     Some (map_option (\<lambda>i. \<lparr>llmnr_query_name = dns_query_name i, llmnr_query_type = dns_query_type i,
       llmnr_is_response = dns_is_response i, llmnr_response_ips = dns_response_ips i\<rparr>) found) }"

end
