(* ===== verification/Dpi_Binary.thy ===== *)
theory Dpi_Binary
  imports Rust_Strings Oui
begin

text \<open>
  The binary protocols of one datagram: \<^verbatim>\<open>dpi/ntp.rs\<close>, \<^verbatim>\<open>dpi/dhcp.rs\<close>, \<^verbatim>\<open>dpi/stun.rs\<close> and
  \<^verbatim>\<open>dpi/netbios.rs\<close>.
\<close>

section \<open>NTP\<close>

definition ntp_mode_of :: "u8 \<Rightarrow> NtpMode" where
  "ntp_mode_of value =
     (if value = 0 then NtpReserved else if value = 1 then SymmetricActive
      else if value = 2 then SymmetricPassive else if value = 3 then NtpClient
      else if value = 4 then NtpServer else if value = 5 then NtpBroadcast
      else if value = 6 then NtpControl else if value = 7 then NtpPrivate
      else NtpReserved)"

definition analyze_ntp :: "bytes \<Rightarrow> NtpInfo option option" where
  "analyze_ntp payload =
     (if length payload < 48 then Some None
      else do {
        first_byte \<leftarrow> byte_at payload 0;
        let version = drop_bit 3 first_byte AND 0x07;
        let mode = first_byte AND 0x07;
        stratum \<leftarrow> byte_at payload 1;
        if \<not> (1 \<le> version \<and> version \<le> 4) then Some None
        else Some (Some \<lparr>ntp_version = version, ntp_mode = ntp_mode_of mode, ntp_stratum = stratum\<rparr>) })"

section \<open>DHCP\<close>

definition MIN_DHCP_SIZE :: nat where "MIN_DHCP_SIZE = 240"
definition DHCP_MAGIC_COOKIE :: bytes where "DHCP_MAGIC_COOKIE = [0x63, 0x82, 0x53, 0x63]"

definition parse_message_type :: "u8 \<Rightarrow> DhcpMessageType" where
  "parse_message_type value =
     (if value = 1 then Discover else if value = 2 then Offer else if value = 3 then DhcpRequest
      else if value = 4 then Decline else if value = 5 then DhcpAck else if value = 6 then DhcpNak
      else if value = 7 then DhcpRelease else if value = 8 then Inform else DhcpUnknown value)"

definition dhcp_option ::
  "u8 \<Rightarrow> bytes \<Rightarrow> DhcpMessageType option \<times> unicode option \<Rightarrow> (DhcpMessageType option \<times> unicode option) option" where
  "dhcp_option opt_code opt_data found = (case found of (message_type, hostname) \<Rightarrow>
     if opt_code = 53 \<and> length opt_data \<ge> 1
     then do { b \<leftarrow> byte_at opt_data 0; Some (Some (parse_message_type b), hostname) }
     else if opt_code = 12
     then Some (message_type, (case from_utf8 opt_data of Some name \<Rightarrow> Some name | None \<Rightarrow> hostname))
     else Some found)"

function dhcp_options_loop ::
  "bytes \<Rightarrow> nat \<Rightarrow> DhcpMessageType option \<times> unicode option \<Rightarrow> (DhcpMessageType option \<times> unicode option) option" where
  "dhcp_options_loop options offset found =
     (if offset \<ge> length options then Some found
      else do {
        opt_code \<leftarrow> byte_at options offset;
        if opt_code = 255 then Some found
        else if opt_code = 0 then dhcp_options_loop options (offset + 1) found
        else if offset + 1 \<ge> length options then Some found
        else do {
          opt_len \<leftarrow> byte_at options (offset + 1);
          if offset + 2 + unat opt_len > length options then Some found
          else do {
            opt_data \<leftarrow> subslice options (offset + 2) (offset + 2 + unat opt_len);
            found \<leftarrow> dhcp_option opt_code opt_data found;
            dhcp_options_loop options (offset + (2 + unat opt_len)) found } } })"
  by pat_completeness auto
termination by (relation "measure (\<lambda>(os, i, f). length os - i)") auto

declare dhcp_options_loop.simps [simp del]

definition parse_dhcp_options :: "bytes \<Rightarrow> (DhcpMessageType \<times> unicode option) option option" where
  "parse_dhcp_options options = do {
     (message_type, hostname) \<leftarrow> dhcp_options_loop options 0 (None, None);
     Some (map_option (\<lambda>t. (t, hostname)) message_type) }"

definition analyze_dhcp :: "bytes \<Rightarrow> DhcpInfo option option" where
  "analyze_dhcp payload =
     (if length payload < MIN_DHCP_SIZE then Some None
      else do {
        cookie \<leftarrow> subslice payload 236 240;
        if cookie \<noteq> DHCP_MAGIC_COOKIE then Some None
        else do {
          chaddr \<leftarrow> subslice payload 28 34;
          options \<leftarrow> slice_from payload 240;
          parsed \<leftarrow> parse_dhcp_options options;
          (case parsed of
             None \<Rightarrow> Some None
           | Some (message_type, hostname) \<Rightarrow>
               Some (Some \<lparr>dhcp_message_type = message_type, dhcp_hostname = hostname,
                 dhcp_client_mac = Some (format_mac chaddr)\<rparr>)) } })"

section \<open>STUN\<close>

definition STUN_HEADER_SIZE :: nat where "STUN_HEADER_SIZE = 20"
definition STUN_MAGIC_COOKIE :: u32 where "STUN_MAGIC_COOKIE = 0x2112A442"
definition MAX_SOFTWARE_LEN :: nat where "MAX_SOFTWARE_LEN = 128"

definition is_likely_stun :: "bytes \<Rightarrow> bool option" where
  "is_likely_stun payload =
     (if length payload < STUN_HEADER_SIZE then Some False
      else do {
        b0 \<leftarrow> byte_at payload 0;
        if b0 AND 0xC0 \<noteq> 0 then Some False
        else do { cookie \<leftarrow> be32_at payload 4; Some (cookie = STUN_MAGIC_COOKIE) } })"

text \<open>\<^verbatim>\<open>(attr_length + 3) & !3\<close>\<close>

definition padded_length :: "nat \<Rightarrow> nat" where
  "padded_length n = (n + 3) div 4 * 4"

function software_loop :: "bytes \<Rightarrow> nat \<Rightarrow> nat \<Rightarrow> unicode option option" where
  "software_loop payload attrs_end offset =
     (if offset + 4 \<le> attrs_end
      then do {
        attr_type \<leftarrow> be16_at payload offset;
        attr_length \<leftarrow> be16_at payload (offset + 2);
        if offset + 4 + unat attr_length > attrs_end then Some None
        else if attr_type = 0x8022
        then do {
          text \<leftarrow> subslice payload (offset + 4) (offset + 4 + min (unat attr_length) MAX_SOFTWARE_LEN);
          Some (map_option (trim_end_matches (\<lambda>c. c = 0)) (from_utf8 text)) }
        else software_loop payload attrs_end (offset + 4 + padded_length (unat attr_length)) }
      else Some None)"
  by pat_completeness auto
termination by (relation "measure (\<lambda>(p, e, i). e - i)") auto

declare software_loop.simps [simp del]

definition parse_software_attribute :: "bytes \<Rightarrow> nat \<Rightarrow> unicode option option" where
  "parse_software_attribute payload message_length =
     software_loop payload (STUN_HEADER_SIZE + message_length) STUN_HEADER_SIZE"

text \<open>The class and the method are interleaved in the fourteen bits of the message type.\<close>

definition stun_class :: "u16 \<Rightarrow> StunMessageClass" where
  "stun_class msg_type =
     (let c0 = drop_bit 4 msg_type AND 1; c1 = drop_bit 8 msg_type AND 1; class_bits = push_bit 1 c1 OR c0 in
      if class_bits = 0 then StunRequest else if class_bits = 1 then Indication
      else if class_bits = 2 then SuccessResponse else ErrorResponse)"

definition stun_method_value :: "u16 \<Rightarrow> u16" where
  "stun_method_value msg_type =
     (drop_bit 2 msg_type AND 0x0F80) OR (drop_bit 1 msg_type AND 0x0070) OR (msg_type AND 0x000F)"

definition stun_method_of :: "u16 \<Rightarrow> StunMethod" where
  "stun_method_of value = (if value = 1 then Binding else StunUnknown value)"

definition analyze_stun :: "bytes \<Rightarrow> StunInfo option option" where
  "analyze_stun payload =
     (if length payload < STUN_HEADER_SIZE then Some None
      else do {
        b0 \<leftarrow> byte_at payload 0;
        if b0 AND 0xC0 \<noteq> 0 then Some None
        else do {
          cookie \<leftarrow> be32_at payload 4;
          if cookie \<noteq> STUN_MAGIC_COOKIE then Some None
          else do {
            message_length \<leftarrow> be16_at payload 2;
            if unat message_length mod 4 \<noteq> 0 then Some None
            else if length payload < STUN_HEADER_SIZE + unat message_length then Some None
            else do {
              b1 \<leftarrow> byte_at payload 1;
              let msg_type = rd16 Big [b0 AND 0x3F, b1];
              transaction_id \<leftarrow> subslice payload 8 20;
              software \<leftarrow> parse_software_attribute payload (unat message_length);
              Some (Some \<lparr>stun_message_class = stun_class msg_type,
                stun_method = stun_method_of (stun_method_value msg_type),
                stun_transaction_id = transaction_id, stun_software = software\<rparr>) } } } })"

section \<open>NetBIOS\<close>

definition parse_opcode :: "u8 \<Rightarrow> NetBiosOpcode" where
  "parse_opcode value =
     (if value = 0 then NbQuery else if value = 5 then NbRegistration else if value = 6 then NbRelease
      else if value = 7 then NbWack else if value = 8 then NbRefresh else NbUnknown value)"

text \<open>The sixteen characters, two bytes each: \<open>i\<close> to go. \<open>Some None\<close> is an invalid encoding.\<close>

fun netbios_chars :: "bytes \<Rightarrow> nat \<Rightarrow> nat \<Rightarrow> unicode \<Rightarrow> unicode option option" where
  "netbios_chars data idx 0 name = Some (Some name)"
| "netbios_chars data idx (Suc n) name =
     (if idx + 1 \<ge> length data then Some (Some name)
      else do {
        hi \<leftarrow> byte_at data idx;
        lo \<leftarrow> byte_at data (idx + 1);
        if \<not> (0x41 \<le> hi \<and> hi \<le> 0x50) \<or> \<not> (0x41 \<le> lo \<and> lo \<le> 0x50) then Some None
        else do {
          let c = push_bit 4 (hi - 0x41) OR (lo - 0x41);
          netbios_chars data (idx + 2) n (if is_ascii_graphic (unat c) then name @ [unat c] else name) } })"

definition decode_netbios_name :: "bytes \<Rightarrow> unicode option option" where
  "decode_netbios_name data =
     (if data = [] then Some None
      else do {
        name_len \<leftarrow> byte_at data 0;
        if name_len \<noteq> 32 \<or> length data < 33 then Some None
        else do {
          name \<leftarrow> netbios_chars data 1 16 [];
          Some (case name of None \<Rightarrow> None | Some name \<Rightarrow> if name = [] then None else Some name) } })"

definition analyze_netbios_ns :: "bytes \<Rightarrow> NetBiosInfo option option" where
  "analyze_netbios_ns payload =
     (if length payload < 12 then Some None
      else do {
        flags \<leftarrow> be16_at payload 2;
        let opcode = (if flags AND 0x8000 \<noteq> 0 then NbResponse
          else parse_opcode (ucast (drop_bit 11 flags AND 0x0F)));
        name \<leftarrow> (if length payload > 12
          then do { data \<leftarrow> slice_from payload 12; decode_netbios_name data } else Some None);
        Some (Some \<lparr>nb_service = NameService, nb_opcode = opcode, nb_name = name\<rparr>) })"

text \<open>What a datagram's type says: the opcode, the least size, and where the name is.\<close>

definition dgm_layout :: "u8 \<Rightarrow> NetBiosOpcode \<times> nat \<times> nat option" where
  "dgm_layout msg_type =
     (if 0x10 \<le> msg_type \<and> msg_type \<le> 0x12 then (NbDatagram, 14, Some 14)
      else if msg_type = 0x13 then (NbError, 11, None)
      else if msg_type = 0x14 then (NbQuery, 10, Some 10)
      else if msg_type = 0x15 \<or> msg_type = 0x16 then (NbResponse, 10, Some 10)
      else (NbUnknown msg_type, 10, None))"

definition analyze_netbios_dgm :: "bytes \<Rightarrow> NetBiosInfo option option" where
  "analyze_netbios_dgm payload = (case payload of
     [] \<Rightarrow> Some None
   | msg_type # _ \<Rightarrow> (case dgm_layout msg_type of (opcode, min_size, name_offset) \<Rightarrow>
       if length payload < min_size then Some None
       else do {
         name \<leftarrow> (case name_offset of
             None \<Rightarrow> Some None
           | Some off \<Rightarrow> if off \<le> length payload then decode_netbios_name (drop off payload) else Some None);
         Some (Some \<lparr>nb_service = DatagramService, nb_opcode = opcode, nb_name = name\<rparr>) }))"

section \<open>SNMP\<close>

text \<open>
  SNMP messages: \<^verbatim>\<open>dpi/snmp.rs\<close>. A length of BER fills four bytes, all the bits of a \<^verbatim>\<open>usize\<close> on
  the 32-bit targets, so the width \<open>w\<close> of that type is an argument here. Additions wrap around as
  they do in a release build.
\<close>

definition usize_add :: "nat \<Rightarrow> nat \<Rightarrow> nat \<Rightarrow> nat" where
  "usize_add w a b = (a + b) mod 2 ^ w"

lemma usize_add_small: "a + b < 2 ^ w \<Longrightarrow> usize_add w a b = a + b"
  by (simp add: usize_add_def)

definition MIN_SNMP_SIZE :: nat where "MIN_SNMP_SIZE = 10"
definition BER_SEQUENCE :: u8 where "BER_SEQUENCE = 0x30"
definition BER_INTEGER :: u8 where "BER_INTEGER = 0x02"
definition BER_OCTET_STRING :: u8 where "BER_OCTET_STRING = 0x04"

section \<open>BER\<close>

fun ber_length_loop :: "nat \<Rightarrow> bytes \<Rightarrow> nat \<Rightarrow> nat \<Rightarrow> nat \<Rightarrow> nat option" where
  "ber_length_loop w data i 0 len = Some len"
| "ber_length_loop w data i (Suc n) len = do {
     b \<leftarrow> byte_at data (1 + i);
     ber_length_loop w data (i + 1) n (len * 256 mod 2 ^ w + unat b) }"

lemma ber_length_loop_numeral [simp]:
  "ber_length_loop w data i (numeral k) len = do {
     b \<leftarrow> byte_at data (1 + i);
     ber_length_loop w data (i + 1) (pred_numeral k) (len * 256 mod 2 ^ w + unat b) }"
  by (simp add: numeral_eq_Suc)

definition parse_ber_length :: "nat \<Rightarrow> bytes \<Rightarrow> (nat \<times> nat) option option" where
  "parse_ber_length w data =
     (if data = [] then Some None
      else do {
        first \<leftarrow> byte_at data 0;
        if first < 0x80 then Some (Some (unat first, 1))
        else if first = 0x80 then Some None
        else do {
          let num_bytes = unat (first AND 0x7F);
          if num_bytes > 4 \<or> length data < 1 + num_bytes then Some None
          else do {
            len \<leftarrow> ber_length_loop w data 0 num_bytes 0;
            Some (Some (len, 1 + num_bytes)) } } })"

text \<open>\<^verbatim>\<open>?\<close> on an \<^verbatim>\<open>Option\<close> in a function that returns one.\<close>

definition try_some :: "'a option option \<Rightarrow> ('a \<Rightarrow> 'b option option) \<Rightarrow> 'b option option" where
  "try_some m f = do { r \<leftarrow> m; (case r of None \<Rightarrow> Some None | Some x \<Rightarrow> f x) }"

lemma yields_try [wp]: "yields (try_some m f) P \<longleftrightarrow>
    yields m (\<lambda>r. (r = None \<longrightarrow> P None) \<and> (\<forall>x. r = Some x \<longrightarrow> yields (f x) P))"
  by (simp add: try_some_def wp)

lemma try_some_simps [simp]:
  "try_some (Some None) f = Some None" "try_some (Some (Some x)) f = f x" "try_some None f = None"
  by (simp_all add: try_some_def)

text \<open>\<^verbatim>\<open>payload.get(offset)\<close>\<close>

definition get_at :: "bytes \<Rightarrow> nat \<Rightarrow> byte option option" where
  "get_at d i = Some (if i < length d then Some (d ! i) else None)"

lemma yields_get [wp]: "yields (get_at d i) P \<longleftrightarrow> (i < length d \<longrightarrow> P (Some (d ! i))) \<and> (\<not> i < length d \<longrightarrow> P None)"
  by (simp add: get_at_def)

definition skip_tlv :: "nat \<Rightarrow> bytes \<Rightarrow> nat \<Rightarrow> u8 \<Rightarrow> nat option option" where
  "skip_tlv w payload offset expected_tag = try_some (get_at payload offset) (\<lambda>tag.
     if tag \<noteq> expected_tag then Some None
     else do {
       rest \<leftarrow> slice_from payload (offset + 1);
       try_some (parse_ber_length w rest) (\<lambda>(len, len_bytes).
         if offset + 1 + len_bytes + len \<ge> 2 ^ w then Some None
         else Some (if offset + 1 + len_bytes + len \<le> length payload then Some (offset + 1 + len_bytes + len) else None)) })"

section \<open>Messages\<close>

definition parse_version :: "bytes \<Rightarrow> SnmpVersion option option" where
  "parse_version data =
     (if data = [] then Some None
      else do {
        v \<leftarrow> byte_at data (length data - 1);
        Some (if v = 0 then Some SnmpV1 else if v = 1 then Some SnmpV2c else if v = 3 then Some SnmpV3 else None) })"

definition pdu_types :: "(u8 \<times> SnmpPduType) list" where
  "pdu_types = [(0xA0, GetRequest), (0xA1, GetNextRequest), (0xA2, GetResponse), (0xA3, SetRequest), (0xA4, SnmpTrap),
     (0xA5, GetBulkRequest), (0xA6, InformRequest), (0xA7, TrapV2), (0xA8, SnmpReport)]"

definition pdu_type_at :: "bytes \<Rightarrow> nat \<Rightarrow> SnmpPduType option option" where
  "pdu_type_at payload offset = try_some (get_at payload offset) (\<lambda>tag. Some (map_of pdu_types tag))"

definition v3_pdu_type :: "nat \<Rightarrow> bytes \<Rightarrow> nat \<Rightarrow> SnmpPduType option option" where
  "v3_pdu_type w payload offset =
     try_some (skip_tlv w payload offset BER_SEQUENCE) (\<lambda>offset.
     try_some (skip_tlv w payload offset BER_OCTET_STRING) (\<lambda>offset.
     try_some (get_at payload offset) (\<lambda>tag.
       if tag = BER_SEQUENCE
       then do {
         rest \<leftarrow> slice_from payload (offset + 1);
         try_some (parse_ber_length w rest) (\<lambda>(len, len_bytes).
         try_some (skip_tlv w payload (offset + 1 + len_bytes) BER_OCTET_STRING) (\<lambda>offset.
         try_some (skip_tlv w payload offset BER_OCTET_STRING) (\<lambda>offset.
         pdu_type_at payload offset))) }
       else if tag = BER_OCTET_STRING then Some (Some SnmpEncrypted)
       else Some None)))"

text \<open>
  The element at \<open>offset\<close>, if it has the tag: its bytes and where it ends, with the additions of
  \<^verbatim>\<open>analyze_snmp\<close>, which are not checked.
\<close>

definition unchecked_tlv :: "nat \<Rightarrow> bytes \<Rightarrow> nat \<Rightarrow> u8 \<Rightarrow> (bytes \<times> nat) option option" where
  "unchecked_tlv w payload offset tag =
     (if offset \<ge> length payload then Some None
      else do {
        t \<leftarrow> byte_at payload offset;
        if t \<noteq> tag then Some None
        else do {
          rest \<leftarrow> slice_from payload (offset + 1);
          try_some (parse_ber_length w rest) (\<lambda>(len, len_bytes). do {
            let offset = offset + 1 + len_bytes;
            if usize_add w offset len > length payload then Some None
            else do {
              value \<leftarrow> subslice payload offset (usize_add w offset len);
              Some (Some (value, usize_add w offset len)) } }) } })"

definition analyze_snmp :: "nat \<Rightarrow> bytes \<Rightarrow> SnmpInfo option option" where
  "analyze_snmp w payload =
     (if length payload < MIN_SNMP_SIZE then Some None
      else do {
        b0 \<leftarrow> byte_at payload 0;
        if b0 \<noteq> BER_SEQUENCE then Some None
        else do {
          rest \<leftarrow> slice_from payload 1;
          try_some (parse_ber_length w rest) (\<lambda>(seq_len, len_bytes). do {
            let offset = len_bytes + 1;
            if usize_add w offset seq_len > length payload then Some None
            else try_some (unchecked_tlv w payload offset BER_INTEGER) (\<lambda>(value, offset).
              try_some (parse_version value) (\<lambda>version.
                if version = SnmpV3
                then try_some (v3_pdu_type w payload offset) (\<lambda>pdu.
                  Some (Some \<lparr>snmp_version = version, snmp_community = None, snmp_pdu_type = pdu\<rparr>))
                else try_some (unchecked_tlv w payload offset BER_OCTET_STRING) (\<lambda>(community, offset).
                  try_some (pdu_type_at payload offset) (\<lambda>pdu.
                    Some (Some \<lparr>snmp_version = version, snmp_community = from_utf8 community,
                      snmp_pdu_type = pdu\<rparr>))))) }) } })"

text \<open>A message that makes a 32-bit build panic: a version of \<open>2^32 - 1\<close> bytes.\<close>

definition crafted_snmp :: bytes where
  "crafted_snmp = [0x30, 8, 0x02, 0x84, 0xFF, 0xFF, 0xFF, 0xFF, 0, 0]"

lemma crafted_snmp_panics: "analyze_snmp 32 crafted_snmp = None"
  by (simp add: analyze_snmp_def crafted_snmp_def MIN_SNMP_SIZE_def BER_SEQUENCE_def BER_INTEGER_def
      parse_ber_length_def unchecked_tlv_def inbounds usize_add_def subslice_def nth_Cons')

section \<open>MQTT\<close>

text \<open>
  MQTT control packets: \<^verbatim>\<open>dpi/mqtt.rs\<close>. A remaining length has at most four bytes, so its sums
  with offsets fit a \<^verbatim>\<open>usize\<close> of 32 bits.
\<close>

section \<open>Lengths\<close>

text \<open>\<open>n\<close> of the four bytes are left.\<close>

fun remaining_length_loop :: "bytes \<Rightarrow> nat \<Rightarrow> nat \<Rightarrow> nat \<Rightarrow> nat \<Rightarrow> nat \<Rightarrow> (nat \<times> nat) option option" where
  "remaining_length_loop payload offset i 0 multiplier value = Some None"
| "remaining_length_loop payload offset i (Suc n) multiplier value =
     (if offset + i \<ge> length payload then Some None
      else do {
        byte \<leftarrow> byte_at payload (offset + i);
        let value = value + unat (byte AND 0x7F) * multiplier;
        if byte AND 0x80 = 0 then Some (Some (value, i + 1))
        else remaining_length_loop payload offset (i + 1) n (multiplier * 128) value })"

definition decode_remaining_length :: "bytes \<Rightarrow> nat \<Rightarrow> (nat \<times> nat) option option" where
  "decode_remaining_length payload offset = remaining_length_loop payload offset 0 4 1 0"

section \<open>Detection\<close>

definition has_mqtt_protocol_name :: "bytes \<Rightarrow> bool option" where
  "has_mqtt_protocol_name payload =
     (if length payload < 8 then Some False
      else do {
        decoded \<leftarrow> decode_remaining_length payload 1;
        let header_len = (case decoded of Some (len, n) \<Rightarrow> n | None \<Rightarrow> 1);
        let var_start = 1 + header_len;
        if var_start + 2 > length payload then Some False
        else do {
          name_len \<leftarrow> be16_at payload var_start;
          let name_start = var_start + 2;
          let name_end = name_start + unat name_len;
          if name_end > length payload then Some False
          else do {
            name \<leftarrow> subslice payload name_start name_end;
            Some (name = bstr ''MQTT'' \<or> name = bstr ''MQIsdp'') } } })"

definition is_mqtt_packet :: "bytes \<Rightarrow> bool option" where
  "is_mqtt_packet payload =
     (if length payload < 2 then Some False
      else do {
        b0 \<leftarrow> byte_at payload 0;
        let packet_type = drop_bit 4 b0;
        let flags = b0 AND 0x0F;
        if \<not> (1 \<le> packet_type \<and> packet_type \<le> 15) then Some False
        else if packet_type \<noteq> 3 \<and> flags \<noteq> (if packet_type \<in> {6, 8, 10} then 0x02 else 0) then Some False
        else do {
          decoded \<leftarrow> decode_remaining_length payload 1;
          (case decoded of
             None \<Rightarrow> Some False
           | Some (remaining_len, header_bytes) \<Rightarrow>
               if 1 + header_bytes + remaining_len > length payload + 4 then Some False
               else if packet_type = 1 then has_mqtt_protocol_name payload else Some False) } })"

section \<open>Packets\<close>

definition skip_mqtt5_properties :: "bytes \<Rightarrow> nat \<Rightarrow> nat option" where
  "skip_mqtt5_properties payload offset = do {
     decoded \<leftarrow> decode_remaining_length payload offset;
     Some (case decoded of Some (prop_len, consumed) \<Rightarrow> offset + consumed + prop_len | None \<Rightarrow> offset) }"

text \<open>The string behind its length at \<open>start\<close>, as both parsers take it: valid and not empty.\<close>

definition mqtt_string :: "bytes \<Rightarrow> nat \<Rightarrow> unicode option option" where
  "mqtt_string payload start =
     (if start + 2 > length payload then Some None
      else do {
        len \<leftarrow> be16_at payload start;
        if start + 2 + unat len > length payload then Some None
        else do {
          text \<leftarrow> subslice payload (start + 2) (start + 2 + unat len);
          Some (case from_utf8 text of Some s \<Rightarrow> if s = [] then None else Some s | None \<Rightarrow> None) } })"

definition parse_connect :: "bytes \<Rightarrow> nat \<Rightarrow> MqttInfo \<Rightarrow> MqttInfo option" where
  "parse_connect payload var_start info =
     (if var_start + 2 > length payload then Some info
      else do {
        name_len \<leftarrow> be16_at payload var_start;
        let after_name = var_start + 2 + unat name_len;
        if after_name \<ge> length payload then Some info
        else do {
          level \<leftarrow> byte_at payload after_name;
          let info = info\<lparr>mq_version := (if level = 3 then Some MqttV31 else if level = 4 then Some MqttV311
            else if level = 5 then Some MqttV50 else None)\<rparr>;
          payload_start \<leftarrow> (if level = 5 then skip_mqtt5_properties payload (after_name + 4)
            else Some (after_name + 4));
          client_id \<leftarrow> mqtt_string payload payload_start;
          Some (case client_id of Some s \<Rightarrow> info\<lparr>mq_client_id := Some s\<rparr> | None \<Rightarrow> info) } })"

definition parse_publish_topic :: "bytes \<Rightarrow> nat \<Rightarrow> MqttInfo \<Rightarrow> MqttInfo option" where
  "parse_publish_topic payload var_start info = do {
     topic \<leftarrow> mqtt_string payload var_start;
     Some (case topic of Some s \<Rightarrow> info\<lparr>mq_topic := Some s\<rparr> | None \<Rightarrow> info) }"

definition mqtt_packet_types :: "(u8 \<times> MqttPacketType) list" where
  "mqtt_packet_types = [(1, MqConnect), (2, MqConnack), (3, MqPublish), (4, MqPuback), (5, MqPubrec), (6, MqPubrel),
     (7, MqPubcomp), (8, MqSubscribe), (9, MqSuback), (10, MqUnsubscribe), (11, MqUnsuback), (12, MqPingreq),
     (13, MqPingresp), (14, MqDisconnect), (15, MqAuth)]"

definition analyze_mqtt :: "bytes \<Rightarrow> MqttInfo option option" where
  "analyze_mqtt payload =
     (if length payload < 2 then Some None
      else do {
        b0 \<leftarrow> byte_at payload 0;
        decoded \<leftarrow> decode_remaining_length payload 1;
        (case decoded of
           None \<Rightarrow> Some None
         | Some (remaining_len, header_len) \<Rightarrow>
             (case map_of mqtt_packet_types (drop_bit 4 b0) of
                None \<Rightarrow> Some None
              | Some packet_type \<Rightarrow> do {
                  let var_start = 1 + header_len;
                  available \<leftarrow> slice_to payload (min (length payload) (var_start + remaining_len));
                  let info = \<lparr>mq_version = None, mq_packet_type = packet_type, mq_client_id = None,
                    mq_topic = None, mq_qos = None\<rparr>;
                  info \<leftarrow> (case packet_type of
                      MqConnect \<Rightarrow> parse_connect available var_start info
                    | MqPublish \<Rightarrow> parse_publish_topic available var_start
                        (info\<lparr>mq_qos := Some (drop_bit 1 (b0 AND 0x0F) AND 0x03)\<rparr>)
                    | MqSubscribe \<Rightarrow> Some (info\<lparr>mq_qos := Some 1\<rparr>)
                    | _ \<Rightarrow> Some info);
                  Some (Some info) })) })"

section \<open>BitTorrent\<close>

text \<open>
  BitTorrent: the handshake of peers over TCP, and over UDP the messages of the distributed hash
  table and the transport uTP. From \<^verbatim>\<open>dpi/bittorrent.rs\<close>.
\<close>

definition BT_HANDSHAKE_PREFIX :: bytes where
  "BT_HANDSHAKE_PREFIX = 0x13 # bstr ''BitTorrent protocol''"

definition is_bittorrent_handshake :: "bytes \<Rightarrow> bool" where
  "is_bittorrent_handshake payload \<longleftrightarrow> starts_with_seq payload BT_HANDSHAKE_PREFIX"

section \<open>Peers\<close>

definition bt_clients :: "(unicode \<times> unicode) list" where
  "bt_clients = [(str ''qB'', str ''qBittorrent''), (str ''TR'', str ''Transmission''), (str ''DE'', str ''Deluge''),
     (str ''UT'', str ''uTorrent''), (str ''lt'', str ''libtorrent''), (str ''LT'', str ''libtorrent''),
     (str ''AZ'', str ''Azureus''), (str ''BT'', str ''BitTorrent''), (str ''BI'', str ''BiglyBT''),
     (str ''FD'', str ''Free Download Manager''), (str ''KT'', str ''KTorrent''), (str ''RB'', str ''rtorrent''),
     (str ''WW'', str ''WebTorrent''), (str ''FL'', str ''Flud''), (str ''SD'', str ''Xunlei''), (str ''TL'', str ''Tribler'')]"

text \<open>A decimal digit is printed as the number it is, another letter as itself.\<close>

definition version_part :: "byte \<Rightarrow> unicode option" where
  "version_part b = (if is_ascii_digit (unat b) then Some [48 + (unat b - 48)]
     else if is_ascii_alphanumeric (unat b) then Some [unat b] else None)"

fun join :: "unicode \<Rightarrow> unicode list \<Rightarrow> unicode" where
  "join sep [] = []"
| "join sep [s] = s"
| "join sep (s # t # ts) = s @ sep @ join sep (t # ts)"

definition format_version :: "bytes \<Rightarrow> unicode" where
  "format_version bs = join [46] (List.map_filter version_part bs)"

definition hex_encode :: "bytes \<Rightarrow> unicode" where
  "hex_encode bs = concat (map hex2 bs)"

definition decode_client_name :: "bytes \<Rightarrow> unicode option option" where
  "decode_client_name peer_id = do {
     b0 \<leftarrow> byte_at peer_id 0;
     azureus \<leftarrow> (if length peer_id \<ge> 8 \<and> b0 = 0x2D
       then do { b7 \<leftarrow> byte_at peer_id 7; Some (b7 = 0x2D) } else Some False);
     if azureus
     then do {
       id_bytes \<leftarrow> subslice peer_id 1 3;
       version_bytes \<leftarrow> subslice peer_id 3 7;
       (case from_utf8 id_bytes of
          None \<Rightarrow> Some None
        | Some client_id \<Rightarrow>
            (let name = (case map_of bt_clients client_id of Some n \<Rightarrow> n | None \<Rightarrow> client_id) in
             Some (Some (name @ [32] @ format_version version_bytes)))) }
     else if is_ascii_alphanumeric (unat b0)
     then Some (map_of [(0x4D, str ''Mainline''), (0x53, str ''Shadow''), (0x54, str ''BitTornado''), (0x41, str ''ABC'')] b0)
     else Some None }"

definition analyze_bittorrent :: "bytes \<Rightarrow> BitTorrentInfo option option" where
  "analyze_bittorrent payload =
     (if \<not> is_bittorrent_handshake payload then Some None
      else do {
        reserved \<leftarrow> (if length payload \<ge> 28
          then do { r \<leftarrow> subslice payload 20 28; Some (Some r) } else Some None);
        (r5, r7) \<leftarrow> (case reserved of
            None \<Rightarrow> Some (0, 0)
          | Some r \<Rightarrow> do { r7 \<leftarrow> byte_at r 7; r5 \<leftarrow> byte_at r 5; Some (r5, r7) });
        info_hash \<leftarrow> (if length payload \<ge> 48
          then do { h \<leftarrow> subslice payload 28 48; Some (Some (hex_encode h)) } else Some None);
        client \<leftarrow> (if length payload \<ge> 68
          then do { peer_id \<leftarrow> subslice payload 48 68; decode_client_name peer_id } else Some None);
        Some (Some \<lparr>bt_protocol_type = BtPeer, bt_info_hash = info_hash, bt_client = client,
          bt_dht_method = None, bt_supports_dht = r7 AND 0x01 \<noteq> 0, bt_supports_extension = r5 AND 0x10 \<noteq> 0,
          bt_supports_fast = r7 AND 0x04 \<noteq> 0\<rparr>) })"

section \<open>The distributed hash table\<close>

definition MAX_DHT_METHOD_LEN :: nat where "MAX_DHT_METHOD_LEN = 64"

text \<open>The first offset from \<open>i\<close> on that holds no digit.\<close>

definition skip_digits :: "bytes \<Rightarrow> nat \<Rightarrow> nat" where
  "skip_digits payload i = i + length (takeWhile (\<lambda>b. is_ascii_digit (unat b)) (drop i payload))"

text \<open>\<open>w\<close> is the width of a \<^verbatim>\<open>usize\<close>.\<close>

definition extract_dht_method :: "nat \<Rightarrow> bytes \<Rightarrow> unicode option option" where
  "extract_dht_method w payload = (case find_subsequence payload (bstr ''1:q'') of
     None \<Rightarrow> Some None
   | Some pos \<Rightarrow>
       let after = pos + 3 in
       if after \<ge> length payload then Some None
       else let len_end = skip_digits payload after in
       if len_end = after \<or> len_end \<ge> length payload then Some None
       else do {
         colon \<leftarrow> byte_at payload len_end;
         if colon \<noteq> 0x3A then Some None
         else do {
           digits \<leftarrow> subslice payload after len_end;
           (case from_utf8 digits \<bind> parse_usize w of
              None \<Rightarrow> Some None
            | Some n \<Rightarrow>
                if n > MAX_DHT_METHOD_LEN then Some None
                else if len_end + 1 + n > length payload then Some None
                else do {
                  text \<leftarrow> subslice payload (len_end + 1) (len_end + 1 + n);
                  Some (from_utf8 text) }) } })"

definition bt_datagram :: "BitTorrentType \<Rightarrow> unicode option \<Rightarrow> BitTorrentInfo" where
  "bt_datagram t method = \<lparr>bt_protocol_type = t, bt_info_hash = None, bt_client = None, bt_dht_method = method,
     bt_supports_dht = False, bt_supports_extension = False, bt_supports_fast = False\<rparr>"

definition analyze_dht :: "nat \<Rightarrow> bytes \<Rightarrow> BitTorrentInfo option option" where
  "analyze_dht w payload =
     (if length payload < 10 then Some None
      else do {
        opening \<leftarrow> byte_at payload 0;
        closing \<leftarrow> byte_at payload (length payload - 1);
        if opening \<noteq> 0x64 \<or> closing \<noteq> 0x65 then Some None
        else (case find_subsequence payload (bstr ''1:y1:'') of
            None \<Rightarrow> Some None
          | Some pos \<Rightarrow>
              if pos + 6 > length payload then Some None
              else do {
                msg_type \<leftarrow> byte_at payload (pos + 5);
                if msg_type \<noteq> 0x71 \<and> msg_type \<noteq> 0x72 \<and> msg_type \<noteq> 0x65 then Some None
                else do {
                  dht_method \<leftarrow> (if msg_type = 0x71 then extract_dht_method w payload
                    else if msg_type = 0x72 then Some (Some (str ''response''))
                    else Some (Some (str ''error'')));
                  Some (Some (bt_datagram BtDht dht_method)) } }) })"

section \<open>uTP\<close>

definition UTP_HEADER_LEN :: nat where "UTP_HEADER_LEN = 20"

definition analyze_utp :: "bytes \<Rightarrow> BitTorrentInfo option option" where
  "analyze_utp payload =
     (if length payload < UTP_HEADER_LEN then Some None
      else do {
        first_byte \<leftarrow> byte_at payload 0;
        let version = first_byte AND 0x0F;
        let pkt_type = drop_bit 4 first_byte AND 0x0F;
        extension \<leftarrow> byte_at payload 1;
        if version \<noteq> 1 then Some None
        else if pkt_type > 4 then Some None
        else if extension > 2 then Some None
        else do {
          connection_id \<leftarrow> be16_at payload 2;
          if connection_id = 0 then Some None
          else do {
            wnd_size \<leftarrow> be32_at payload 12;
            if pkt_type \<noteq> 3 \<and> wnd_size = 0 then Some None
            else Some (Some (bt_datagram BtUtp None)) } } })"

definition analyze_udp_bittorrent :: "nat \<Rightarrow> bytes \<Rightarrow> BitTorrentInfo option option" where
  "analyze_udp_bittorrent w payload = do {
     dht \<leftarrow> analyze_dht w payload;
     (case dht of Some info \<Rightarrow> Some (Some info) | None \<Rightarrow> analyze_utp payload) }"

end
