(* ===== verification/Dpi_Text.thy ===== *)
theory Dpi_Text
  imports Rust_Strings
begin

text \<open>
  The text protocols: HTTP, SSDP, FTP and SSH, from \<^verbatim>\<open>dpi/http.rs\<close>, \<^verbatim>\<open>dpi/ssdp.rs\<close>, \<^verbatim>\<open>dpi/ftp.rs\<close>
  and \<^verbatim>\<open>dpi/ssh.rs\<close>.
\<close>

section \<open>HTTP\<close>

definition is_likely_http :: "bytes \<Rightarrow> bool" where
  "is_likely_http payload \<longleftrightarrow> \<not> length payload < 4 \<and>
     list_ex (starts_with_seq payload)
       (map bstr [''GET '', ''POST '', ''PUT '', ''DELETE '', ''HEAD '', ''OPTIONS '', ''CONNECT '', ''TRACE '', ''PATCH '',
          ''HTTP/1.0 '', ''HTTP/1.1 '', ''HTTP/2 ''])"

definition is_http_method :: "unicode \<Rightarrow> bool" where
  "is_http_method s \<longleftrightarrow> s \<in> set (map str [''GET'', ''POST'', ''PUT'', ''DELETE'', ''HEAD'', ''OPTIONS'', ''CONNECT'',
     ''TRACE'', ''PATCH''])"

definition parse_http_version :: "unicode \<Rightarrow> HttpVersion option" where
  "parse_http_version s = map_of [(str ''HTTP/1.0'', Http10), (str ''HTTP/1.1'', Http11), (str ''HTTP/2'', Http2)] s"

text \<open>The request or status line.\<close>

definition http_start :: "unicode \<Rightarrow> HttpInfo \<Rightarrow> HttpInfo option" where
  "http_start first_line info = (case split_words first_line of
     tok0 # tok1 # tokens \<Rightarrow>
       if starts_with_seq first_line (str ''HTTP/'')
       then do {
         version \<leftarrow> parse_http_version tok0;
         code \<leftarrow> parse_u16 tok1;
         if 100 \<le> code \<and> code \<le> 599 then Some (info\<lparr>ht_version := version, ht_status_code := Some code\<rparr>) else None }
       else if is_http_method tok0
       then (case tokens of
           [] \<Rightarrow> None
         | tok2 # _ \<Rightarrow> do {
             version \<leftarrow> parse_http_version tok2;
             Some (info\<lparr>ht_version := version, ht_method := Some tok0, ht_path := Some tok1\<rparr>) })
       else None
   | _ \<Rightarrow> None)"

definition http_header :: "unicode \<Rightarrow> HttpInfo \<Rightarrow> HttpInfo" where
  "http_header line info = (case split_once 58 line of
     None \<Rightarrow> info
   | Some (key, value) \<Rightarrow>
       if eq_ignore_ascii_case (trim key) (str ''host'') then info\<lparr>ht_host := Some (trim value)\<rparr>
       else if eq_ignore_ascii_case (trim key) (str ''user-agent'') then info\<lparr>ht_user_agent := Some (trim value)\<rparr>
       else info)"

fun http_headers :: "unicode list \<Rightarrow> HttpInfo \<Rightarrow> HttpInfo" where
  "http_headers [] info = info"
| "http_headers (line # lines) info = (if line = [] then info else http_headers lines (http_header line info))"

definition analyze_http :: "bytes \<Rightarrow> HttpInfo option" where
  "analyze_http payload =
     (if \<not> is_likely_http payload then None
      else (case text_lines (from_utf8_lossy payload) of
          [] \<Rightarrow> None
        | first_line # lines \<Rightarrow> map_option (http_headers lines)
            (http_start first_line \<lparr>ht_version = Http11, ht_method = None, ht_host = None, ht_path = None,
               ht_status_code = None, ht_user_agent = None\<rparr>)))"

section \<open>SSDP\<close>

definition MIN_SSDP_SIZE :: nat where "MIN_SSDP_SIZE = 10"

definition ssdp_method_of :: "unicode \<Rightarrow> SsdpMethod option" where
  "ssdp_method_of first_line =
     (if starts_with_seq first_line (str ''M-SEARCH'') then Some MSearch
      else if starts_with_seq first_line (str ''NOTIFY'') then Some Notify
      else if starts_with_seq first_line (str ''HTTP/1.1 200'') \<or> starts_with_seq first_line (str ''HTTP/1.0 200'')
      then Some SsdpResponse
      else None)"

fun ssdp_service :: "unicode list \<Rightarrow> unicode option" where
  "ssdp_service [] = None"
| "ssdp_service (line # lines) =
     (let is_st_or_nt = (case str_get_to line 3 of
          None \<Rightarrow> False
        | Some prefix \<Rightarrow> eq_ignore_ascii_case prefix (str ''st:'') \<or> eq_ignore_ascii_case prefix (str ''nt:''))
      in if is_st_or_nt
         then (case str_get_from line 3 of
             None \<Rightarrow> ssdp_service lines
           | Some value \<Rightarrow> if trim value \<noteq> [] then Some (trim value) else ssdp_service lines)
         else ssdp_service lines)"

definition analyze_ssdp :: "bytes \<Rightarrow> SsdpInfo option" where
  "analyze_ssdp payload =
     (if length payload < MIN_SSDP_SIZE then None
      else if \<not> list_all (\<lambda>b. unat b < 0x80) (take 20 payload) then None
      else do {
        text \<leftarrow> from_utf8 payload;
        (case text_lines text of
           [] \<Rightarrow> None
         | first_line # lines \<Rightarrow> do {
             method \<leftarrow> ssdp_method_of first_line;
             Some \<lparr>ssdp_method = method, ssdp_service_type = ssdp_service lines\<rparr> }) })"

section \<open>FTP\<close>

definition MAX_SNIFF_BYTES :: nat where "MAX_SNIFF_BYTES = 1024"

definition FTP_COMMANDS :: "bytes list" where
  "FTP_COMMANDS = map bstr
     [''USER'', ''PASS'', ''ACCT'', ''CWD'', ''CDUP'', ''SMNT'', ''QUIT'', ''REIN'', ''PORT'', ''PASV'', ''TYPE'', ''STRU'', ''MODE'',
      ''RETR'', ''STOR'', ''STOU'', ''APPE'', ''ALLO'', ''REST'', ''RNFR'', ''RNTO'', ''ABOR'', ''DELE'', ''RMD'', ''MKD'',
      ''PWD'', ''LIST'', ''NLST'', ''SITE'', ''SYST'', ''STAT'', ''HELP'', ''NOOP'', ''FEAT'', ''OPTS'', ''EPSV'', ''EPRT'',
      ''AUTH'', ''PBSZ'', ''PROT'', ''CCC'', ''SIZE'', ''MDTM'', ''MLSD'', ''MLST'']"

definition FTP_DISTINCTIVE_COMMANDS :: "bytes list" where
  "FTP_DISTINCTIVE_COMMANDS = map bstr
     [''ACCT'', ''CWD'', ''CDUP'', ''SMNT'', ''REIN'', ''PORT'', ''PASV'', ''TYPE'', ''STRU'', ''STOR'', ''STOU'', ''APPE'',
      ''ALLO'', ''REST'', ''RNFR'', ''RNTO'', ''ABOR'', ''RMD'', ''MKD'', ''PWD'', ''NLST'', ''SITE'', ''SYST'', ''FEAT'',
      ''OPTS'', ''EPSV'', ''EPRT'', ''PBSZ'', ''PROT'', ''CCC'', ''SIZE'', ''MDTM'', ''MLSD'', ''MLST'']"

definition ftp_first_line :: "bytes \<Rightarrow> bytes option" where
  "ftp_first_line payload = do {
     sniff \<leftarrow> slice_to payload (min (length payload) MAX_SNIFF_BYTES);
     (case position (\<lambda>b. b = 10) sniff of
        Some e \<Rightarrow>
          if e > 0
          then do { b \<leftarrow> byte_at sniff (e - 1); if b = 13 then slice_to sniff (e - 1) else slice_to sniff e }
          else slice_to sniff e
      | None \<Rightarrow> Some sniff) }"

definition byte_upper :: "byte \<Rightarrow> byte" where
  "byte_upper b = word_of_nat (to_ascii_uppercase (unat b))"

definition first_token_upper :: "bytes \<Rightarrow> bytes option" where
  "first_token_upper line = do {
     token \<leftarrow> slice_to line (case position (\<lambda>b. b = 32 \<or> b = 9 \<or> b = 13) line of Some i \<Rightarrow> i | None \<Rightarrow> length line);
     if token = [] \<or> length token > 6 then Some []
     else if \<not> list_all (\<lambda>b. is_ascii_alphabetic (unat b)) token then Some []
     else Some (map byte_upper token) }"

definition is_ftp :: "bytes \<Rightarrow> bool option" where
  "is_ftp payload = do {
     line \<leftarrow> ftp_first_line payload;
     if line = [] then Some False
     else do {
       upper \<leftarrow> first_token_upper line;
       Some (upper \<noteq> [] \<and> upper \<in> set FTP_DISTINCTIVE_COMMANDS) } }"

definition extract_software_token :: "unicode \<Rightarrow> unicode" where
  "extract_software_token message =
     (case find (list_ex is_ascii_alphabetic)
        (map (trim_matches (\<lambda>c. \<not> is_ascii_alphanumeric c)) (split_words message)) of
        Some token \<Rightarrow> token | None \<Rightarrow> message)"

text \<open>A server's reply, whose line begins with \<open>code_text\<close> and \<open>sep\<close>.\<close>

definition ftp_reply :: "bytes \<Rightarrow> bytes \<Rightarrow> byte \<Rightarrow> FtpInfo option option" where
  "ftp_reply line code_text sep = (case from_utf8 code_text \<bind> parse_u16 of
     None \<Rightarrow> Some None
   | Some code \<Rightarrow>
       if \<not> (1 \<le> code div 100 \<and> code div 100 \<le> 5) \<or> code div 10 mod 10 > 5 then Some None
       else do {
         rest \<leftarrow> slice_from line 4;
         let message = map_option trim (from_utf8 rest);
         let is_continuation = (sep = 0x2D);
         Some (Some \<lparr>ftp_message_type = FtpResponse, ftp_command = None, ftp_args = None,
           ftp_response_code = Some code, ftp_response_message = message, ftp_username = None,
           ftp_server_software = (if code = 220 \<and> \<not> is_continuation then map_option extract_software_token message else None),
           ftp_system_type = (if code = 215 \<and> \<not> is_continuation then map_option extract_software_token message else None)\<rparr>) })"

definition ftp_arguments :: "bytes \<Rightarrow> unicode option" where
  "ftp_arguments line = do {
     s \<leftarrow> from_utf8 line;
     (command, rest) \<leftarrow> split_once_at is_whitespace (trim s);
     if trim rest \<noteq> [] then Some (trim rest) else None }"

definition ftp_request :: "bytes \<Rightarrow> FtpInfo option option" where
  "ftp_request line = do {
     upper \<leftarrow> first_token_upper line;
     if upper = [] then Some None
     else if upper \<notin> set FTP_COMMANDS then Some None
     else (case from_utf8 upper of
         None \<Rightarrow> Some None
       | Some command \<Rightarrow>
           Some (Some \<lparr>ftp_message_type = FtpRequest, ftp_command = Some command, ftp_args = ftp_arguments line,
             ftp_response_code = None, ftp_response_message = None,
             ftp_username = (if command = str ''USER'' then ftp_arguments line else None),
             ftp_server_software = None, ftp_system_type = None\<rparr>)) }"

definition analyze_ftp :: "bytes \<Rightarrow> FtpInfo option option" where
  "analyze_ftp payload = do {
     line \<leftarrow> ftp_first_line payload;
     if line = [] then Some None
     else do {
       is_reply \<leftarrow> (if length line \<ge> 4
         then do {
           d0 \<leftarrow> byte_at line 0; d1 \<leftarrow> byte_at line 1; d2 \<leftarrow> byte_at line 2; sep \<leftarrow> byte_at line 3;
           Some (is_ascii_digit (unat d0) \<and> is_ascii_digit (unat d1) \<and> is_ascii_digit (unat d2) \<and> (sep = 32 \<or> sep = 0x2D)) }
         else Some False);
       if is_reply
       then do { code_text \<leftarrow> subslice line 0 3; sep \<leftarrow> byte_at line 3; ftp_reply line code_text sep }
       else ftp_request line } }"

section \<open>SSH\<close>

definition is_valid_ssh_packet_at_offset :: "bytes \<Rightarrow> nat \<Rightarrow> bool option" where
  "is_valid_ssh_packet_at_offset payload offset =
     (if length payload < offset + 6 then Some False
      else do {
        packet_length \<leftarrow> be32_at payload offset;
        padding \<leftarrow> byte_at payload (offset + 4);
        msg_type \<leftarrow> byte_at payload (offset + 5);
        let padding_length = (ucast padding :: u32);
        if \<not> (8 \<le> packet_length \<and> packet_length \<le> 35000) then Some False
        else if padding_length < 4 then Some False
        else if padding_length + 1 \<ge> packet_length then Some False
        else Some (1 \<le> msg_type \<and> msg_type \<le> 4 \<or> 20 \<le> msg_type \<and> msg_type \<le> 21 \<or>
          50 \<le> msg_type \<and> msg_type \<le> 52 \<or> msg_type = 80 \<or> 90 \<le> msg_type \<and> msg_type \<le> 100) })"

definition is_ssh_packet_structure :: "bytes \<Rightarrow> bool option" where
  "is_ssh_packet_structure payload =
     (if length payload < 6 then Some False else is_valid_ssh_packet_at_offset payload 0)"

definition is_likely_ssh :: "bytes \<Rightarrow> bool option" where
  "is_likely_ssh payload =
     (if length payload < 4 then Some False
      else if starts_with_seq payload (bstr ''SSH-1.'') \<or> starts_with_seq payload (bstr ''SSH-2.'') then Some True
      else is_ssh_packet_structure payload)"

text \<open>The version and the software a banner names.\<close>

definition parse_ssh_banner :: "unicode \<Rightarrow> (SshVersion \<times> unicode) option" where
  "parse_ssh_banner line =
     (if \<not> starts_with_seq line (str ''SSH-'') then None
      else (case split_once 45 line of
          None \<Rightarrow> None
        | Some (ssh, rest) \<Rightarrow>
            (let (v, software) = (case split_once 45 rest of
                 Some (v, software) \<Rightarrow> (v, trim software)
               | None \<Rightarrow> (rest, str ''Unknown''))
             in Some (if v = str ''1.99'' \<or> v = str ''2.0'' then SshV2
                else if starts_with_seq v (str ''1.'') then SshV1 else SshV2, software))))"

text \<open>Only the first banner of a direction counts.\<close>

definition ssh_banner_line :: "bool \<Rightarrow> unicode \<Rightarrow> SshInfo \<Rightarrow> SshInfo" where
  "ssh_banner_line is_outgoing line info = (case parse_ssh_banner line of
     None \<Rightarrow> info
   | Some (version, software) \<Rightarrow>
       if is_outgoing
       then (if ssh_client_software info = None
             then info\<lparr>ssh_client_software := Some software, ssh_version := Some version\<rparr> else info)
       else (if ssh_server_software info = None
             then info\<lparr>ssh_server_software := Some software, ssh_version := Some version\<rparr> else info))"

definition ssh_message_state :: "u8 \<Rightarrow> SshConnectionState option" where
  "ssh_message_state msg_type =
     (if msg_type = 20 \<or> msg_type = 21 then Some KeyExchange
      else if msg_type = 50 \<or> msg_type = 51 then Some Authentication
      else if msg_type = 52 then Some SshEstablished
      else if 90 \<le> msg_type \<and> msg_type \<le> 127 then Some SshEstablished
      else None)"

text \<open>The first offset from \<open>i\<close> on with a packet that tells the state: \<open>n\<close> are left.\<close>

fun ssh_scan :: "bytes \<Rightarrow> nat \<Rightarrow> nat \<Rightarrow> SshConnectionState option option" where
  "ssh_scan payload i 0 = Some None"
| "ssh_scan payload i (Suc n) =
     (if length payload \<ge> i + 6
      then do {
        valid \<leftarrow> is_valid_ssh_packet_at_offset payload i;
        if valid
        then do {
          msg_type \<leftarrow> byte_at payload (i + 5);
          (case ssh_message_state msg_type of Some s \<Rightarrow> Some (Some s) | None \<Rightarrow> ssh_scan payload (i + 1) n) }
        else ssh_scan payload (i + 1) n }
      else ssh_scan payload (i + 1) n)"

definition common_algos :: "unicode list" where
  "common_algos = map str [''diffie-hellman-group14-sha256'', ''ecdh-sha2-nistp256'', ''aes128-ctr'', ''aes256-ctr'',
     ''aes128-gcm'', ''aes256-gcm'', ''ssh-rsa'', ''ssh-ed25519'', ''ecdsa-sha2-nistp256'', ''hmac-sha2-256'', ''hmac-sha2-512'']"

definition parse_kexinit_algorithms :: "bytes \<Rightarrow> unicode list option" where
  "parse_kexinit_algorithms payload =
     (let algorithms = filter (contains_seq (from_utf8_lossy payload)) common_algos in
      if algorithms = [] then None else Some algorithms)"

definition analyze_ssh :: "bytes \<Rightarrow> bool \<Rightarrow> SshInfo option option" where
  "analyze_ssh payload is_outgoing = do {
     likely \<leftarrow> is_likely_ssh payload;
     if \<not> likely then Some None
     else do {
       let info = \<lparr>ssh_version = None, ssh_client_software = None, ssh_server_software = None,
         ssh_connection_state = Banner, ssh_algorithms = [], ssh_auth_method = None\<rparr>;
       let info = fold (ssh_banner_line is_outgoing) (text_lines (from_utf8_lossy payload)) info;
       packet_state \<leftarrow> ssh_scan payload 0 (length payload - 5);
       let info = (case packet_state of
           Some s \<Rightarrow> info\<lparr>ssh_connection_state := s\<rparr>
         | None \<Rightarrow> if ssh_server_software info \<noteq> None \<or> ssh_client_software info \<noteq> None
             then info\<lparr>ssh_connection_state := Banner\<rparr> else info);
       let info = (case parse_kexinit_algorithms payload of
           Some algorithms \<Rightarrow> info\<lparr>ssh_algorithms := algorithms\<rparr> | None \<Rightarrow> info);
       Some (Some info) } }"

end
