(* ===== verification/Quic_Packet.thy ===== *)
theory Quic_Packet
  imports Quic_Tls
begin

text \<open>
  QUIC packets: their headers, the removal of the protection of a client's Initial packets, the
  frames in them and the packets coalesced in one datagram, from \<^verbatim>\<open>dpi/quic.rs\<close>. The cryptography
  of the crates \<^verbatim>\<open>ring\<close> and \<^verbatim>\<open>aes\<close> is an argument, \<open>K\<close>. A \<^verbatim>\<open>usize\<close> has 64 bits.
\<close>

section \<open>The cryptography\<close>

text \<open>
  \<open>hkdf_expand\<close> gives the output keying material, the bytes by position, of a pseudorandom key, an
  info string and a length, or fails; \<open>aes_block\<close> encrypts a block of 16 bytes under a key of 16
  bytes; \<open>aead_open\<close> takes key, nonce, associated data and the ciphertext with its tag.
\<close>

record quic_crypto =
  hkdf_extract :: "bytes \<Rightarrow> bytes \<Rightarrow> bytes"
  hkdf_expand :: "bytes \<Rightarrow> bytes \<Rightarrow> nat \<Rightarrow> (nat \<Rightarrow> byte) option"
  aes_block :: "bytes \<Rightarrow> bytes \<Rightarrow> 128 word"
  aead_open :: "bytes \<Rightarrow> bytes \<Rightarrow> bytes \<Rightarrow> bytes \<Rightarrow> bytes option"

definition INITIAL_SALT_V1 :: bytes where
  "INITIAL_SALT_V1 = [0x38, 0x76, 0x2c, 0xf7, 0xf5, 0x59, 0x34, 0xb3, 0x4d, 0x17, 0x9a, 0xe6, 0xa4, 0xc8, 0x0c, 0xad,
     0xcc, 0xbb, 0x7f, 0x0a]"

definition INITIAL_SALT_V2 :: bytes where
  "INITIAL_SALT_V2 = [0x0d, 0xed, 0xe3, 0xde, 0xf7, 0x00, 0xa6, 0xdb, 0x81, 0x93, 0x81, 0xbe, 0x6e, 0x26, 0x9d, 0xcb,
     0xf9, 0xbd, 0x2e, 0xd9]"

definition INITIAL_SALT_DRAFT_29 :: bytes where
  "INITIAL_SALT_DRAFT_29 = [0xaf, 0xbf, 0xec, 0x28, 0x99, 0x93, 0xd2, 0x4c, 0x9e, 0x97, 0x86, 0xf1, 0x9c, 0x61, 0x11,
     0xe0, 0x43, 0x90, 0xa8, 0x99]"

definition INITIAL_SALT_DRAFT_23 :: bytes where
  "INITIAL_SALT_DRAFT_23 = [0xc3, 0xee, 0xf7, 0x12, 0xc7, 0x2e, 0xbb, 0x5a, 0x11, 0xa7, 0xd2, 0x43, 0x2b, 0xb4, 0x63,
     0x65, 0xbe, 0xf9, 0xf5, 0x02]"

definition is_quic_v2 :: "u32 \<Rightarrow> bool" where
  "is_quic_v2 version \<longleftrightarrow> version = 0x6b3343cf"

definition initial_salt_for_version :: "u32 \<Rightarrow> bytes" where
  "initial_salt_for_version version =
     (if is_quic_v2 version then INITIAL_SALT_V2
      else if 0xff00001d \<le> version \<and> version \<le> 0xff000020 then INITIAL_SALT_DRAFT_29
      else if 0xff000017 \<le> version \<and> version \<le> 0xff00001c \<or> version = 0xfaceb002 then INITIAL_SALT_DRAFT_23
      else INITIAL_SALT_V1)"

definition build_hkdf_label :: "bytes \<Rightarrow> bytes \<Rightarrow> nat \<Rightarrow> bytes" where
  "build_hkdf_label label context' length' =
     (let full_label = bstr ''tls13 '' @ label in
      [word_of_nat (length' div 256), word_of_nat length'] @ [word_of_nat (length full_label)] @ full_label @
      [word_of_nat (length context')] @ context')"

text \<open>The array \<^verbatim>\<open>out\<close> of \<open>n\<close> bytes, filled; \<open>None\<close> where the code returns false.\<close>

definition derive_secret :: "quic_crypto \<Rightarrow> bytes \<Rightarrow> bytes \<Rightarrow> nat \<Rightarrow> bytes option" where
  "derive_secret K prk label n =
     map_option (\<lambda>okm. map okm [0 ..< n]) (hkdf_expand K prk (build_hkdf_label label [] n) n)"

definition derive_packet_protection_key :: "quic_crypto \<Rightarrow> bytes \<Rightarrow> u32 \<Rightarrow> bytes option" where
  "derive_packet_protection_key K secret version =
     derive_secret K secret (if is_quic_v2 version then bstr ''quicv2 key'' else bstr ''quic key'') 16"

definition derive_packet_protection_iv :: "quic_crypto \<Rightarrow> bytes \<Rightarrow> u32 \<Rightarrow> bytes option" where
  "derive_packet_protection_iv K secret version =
     derive_secret K secret (if is_quic_v2 version then bstr ''quicv2 iv'' else bstr ''quic iv'') 12"

definition derive_header_protection_key :: "quic_crypto \<Rightarrow> bytes \<Rightarrow> u32 \<Rightarrow> bytes option" where
  "derive_header_protection_key K secret version =
     derive_secret K secret (if is_quic_v2 version then bstr ''quicv2 hp'' else bstr ''quic hp'') 16"

definition aes_ecb_encrypt :: "quic_crypto \<Rightarrow> bytes \<Rightarrow> bytes \<Rightarrow> bytes option" where
  "aes_ecb_encrypt K key block =
     (if length key \<noteq> 16 then None else if length block \<noteq> 16 then None else Some (octets6 (aes_block K key block)))"

section \<open>Headers\<close>

text \<open>\<^verbatim>\<open>checked_add\<close> of \<^verbatim>\<open>usize\<close>\<close>

definition usize_checked_add :: "nat \<Rightarrow> nat \<Rightarrow> nat option" where
  "usize_checked_add a b = (if a + b < 2 ^ 64 then Some (a + b) else None)"

definition parse_variable_length_int :: "bytes \<Rightarrow> (u64 \<times> nat) option option" where
  "parse_variable_length_int data =
     (if data = [] then Some None
      else do {
        first_byte \<leftarrow> byte_at data 0;
        let len = (if drop_bit 6 first_byte = 0 then 1 else if drop_bit 6 first_byte = 1 then 2
          else if drop_bit 6 first_byte = 2 then 4 else 8);
        let masked = first_byte AND 0x3f;
        if length data < len then Some None
        else do {
          value \<leftarrow> (if len = 1 then Some (ucast masked)
            else if len = 2
            then do { b1 \<leftarrow> byte_at data 1; Some (ucast (rd16 Big [masked, b1])) }
            else if len = 4
            then do {
              b1 \<leftarrow> byte_at data 1; b2 \<leftarrow> byte_at data 2; b3 \<leftarrow> byte_at data 3;
              Some (ucast (rd32 Big [masked, b1, b2, b3])) }
            else do {
              b1 \<leftarrow> byte_at data 1; b2 \<leftarrow> byte_at data 2; b3 \<leftarrow> byte_at data 3; b4 \<leftarrow> byte_at data 4;
              b5 \<leftarrow> byte_at data 5; b6 \<leftarrow> byte_at data 6; b7 \<leftarrow> byte_at data 7;
              Some (rd64 Big [masked, b1, b2, b3, b4, b5, b6, b7]) });
          Some (Some (value, len)) } })"

text \<open>An integer at an offset: its value and the offset after it.\<close>

definition int_at :: "bytes \<Rightarrow> nat \<Rightarrow> (u64 \<times> nat) option option" where
  "int_at payload offset = do {
     rest \<leftarrow> slice_from payload offset;
     r \<leftarrow> parse_variable_length_int rest;
     Some (map_option (\<lambda>(value, bytes_read). (value, offset + bytes_read)) r) }"

definition get_long_packet_type :: "u8 \<Rightarrow> u32 \<Rightarrow> quic_packet_type" where
  "get_long_packet_type first_byte version =
     (let type_bits = drop_bit 4 (first_byte AND 0x30) in
      if is_quic_v2 version
      then if type_bits = 0 then Retry else if type_bits = 1 then Initial else if type_bits = 2 then ZeroRtt
        else if type_bits = 3 then Handshake else UnknownPacket
      else if type_bits = 0 then Initial else if type_bits = 1 then ZeroRtt else if type_bits = 2 then Handshake
        else if type_bits = 3 then Retry else UnknownPacket)"

text \<open>\<^verbatim>\<open>QuicInfo::new\<close> and the names of versions, from \<^verbatim>\<open>types.rs\<close>.\<close>

definition decimal_u8 :: "nat \<Rightarrow> unicode" where
  "decimal_u8 n = (if n < 10 then [48 + n] else if n < 100 then [48 + n div 10, 48 + n mod 10]
     else [48 + n div 100, 48 + n div 10 mod 10, 48 + n mod 10])"

definition quic_version_to_string :: "u32 \<Rightarrow> unicode option" where
  "quic_version_to_string version = (case map_of [(0x00000001, ''v1''), (0x6b3343cf, ''v2''), (0xff00001d, ''draft-29''),
       (0xff00001c, ''draft-28''), (0xff00001b, ''draft-27''), (0x51303530, ''Q050''), (0x54303530, ''T050''),
       (0xfaceb001, ''mvfst-22''), (0xfaceb002, ''mvfst-27'')] version of
     Some s \<Rightarrow> Some (str s)
   | None \<Rightarrow> if drop_bit 8 version = 0xff0000 then Some (str ''draft-'' @ decimal_u8 (unat (version AND 0xff)))
       else None)"

definition new_quic_info :: "u32 \<Rightarrow> QuicInfo" where
  "new_quic_info version = \<lparr>qi_version_string = quic_version_to_string version, qi_packet_type = UnknownPacket,
     qi_connection_id = [], qi_connection_id_hex = None, qi_connection_state = QuicUnknown, qi_tls_info = None,
     qi_has_crypto_frame = False, qi_crypto_reassembler = None, qi_connection_close = None, qi_idle_timeout = None\<rparr>"

definition ensure_reassembler :: "QuicInfo \<Rightarrow> QuicInfo" where
  "ensure_reassembler info = (if qi_crypto_reassembler info = None
     then info\<lparr>qi_crypto_reassembler := Some new_reassembler\<rparr> else info)"

text \<open>\<^verbatim>\<open>{:02x}\<close> of each byte, joined by colons.\<close>

fun connection_id_to_hex :: "bytes \<Rightarrow> unicode" where
  "connection_id_to_hex [] = []"
| "connection_id_to_hex [b] = hex2 b"
| "connection_id_to_hex (b # bs) = hex2 b @ 58 # connection_id_to_hex bs"

section \<open>Frames\<close>

text \<open>
  The frames of a decrypted packet and the CRYPTO data in them, from \<^verbatim>\<open>dpi/quic.rs\<close>. A frame ends
  the walk where it is malformed (\<^verbatim>\<open>?\<close>, the function returns \<^verbatim>\<open>None\<close>) or where the loop breaks;
  what earlier frames left in the state is kept.
\<close>

datatype frame_end = Next nat | Break | Malformed

text \<open>\<open>n\<close> integers in a row are skipped.\<close>

primrec skip_ints :: "nat \<Rightarrow> bytes \<Rightarrow> nat \<Rightarrow> nat option option" where
  "skip_ints 0 payload offset = Some (Some offset)"
| "skip_ints (Suc n) payload offset = do {
     r \<leftarrow> int_at payload offset;
     (case r of None \<Rightarrow> Some None | Some (_, offset) \<Rightarrow> skip_ints n payload offset) }"

text \<open>What follows a value read with \<^verbatim>\<open>?\<close>.\<close>

definition or_malformed :: "'a option option \<Rightarrow> ('a \<Rightarrow> frame_end option) \<Rightarrow> frame_end option" where
  "or_malformed m f = do { r \<leftarrow> m; (case r of None \<Rightarrow> Some Malformed | Some x \<Rightarrow> f x) }"

definition ack_frame :: "bytes \<Rightarrow> byte \<Rightarrow> nat \<Rightarrow> frame_end option" where
  "ack_frame payload frame_type offset =
     or_malformed (skip_ints 2 payload offset) (\<lambda>offset.
     or_malformed (int_at payload offset) (\<lambda>(ack_range_count, offset).
     or_malformed (skip_ints 1 payload offset) (\<lambda>offset.
     or_malformed (skip_ints (2 * unat ack_range_count) payload offset) (\<lambda>offset.
       if frame_type = 0x03
       then or_malformed (skip_ints 3 payload offset) (\<lambda>offset. Some (Next offset))
       else Some (Next offset)))))"

definition new_token_frame :: "bytes \<Rightarrow> nat \<Rightarrow> frame_end option" where
  "new_token_frame payload offset =
     or_malformed (int_at payload offset) (\<lambda>(token_length, offset).
     or_malformed (Some (usize_checked_add offset (unat token_length))) (\<lambda>offset.
       Some (if offset > length payload then Break else Next offset)))"

definition stream_frame :: "bytes \<Rightarrow> byte \<Rightarrow> nat \<Rightarrow> frame_end option" where
  "stream_frame payload frame_type offset =
     or_malformed (skip_ints (if frame_type AND 0x04 \<noteq> 0 then 2 else 1) payload offset) (\<lambda>offset.
     or_malformed
       (if frame_type AND 0x02 \<noteq> 0
        then map_option (map_option (\<lambda>(len, offset). (unat len, offset))) (int_at payload offset)
        else Some (Some (length payload - offset, offset))) (\<lambda>(stream_data_len, offset).
     or_malformed (Some (usize_checked_add offset stream_data_len)) (\<lambda>offset.
       Some (if offset > length payload then Break else Next offset))))"

definition new_connection_id_frame :: "bytes \<Rightarrow> nat \<Rightarrow> frame_end option" where
  "new_connection_id_frame payload offset =
     or_malformed (skip_ints 2 payload offset) (\<lambda>offset.
       if offset \<ge> length payload then Some Break
       else do {
         cid_length \<leftarrow> byte_at payload offset;
         or_malformed (Some (usize_checked_add offset (1 + unat cid_length + 16))) (\<lambda>offset.
           Some (if offset > length payload then Break else Next offset)) })"

text \<open>The frames that say nothing to the analysis are skipped.\<close>

definition skip_frame :: "bytes \<Rightarrow> byte \<Rightarrow> nat \<Rightarrow> frame_end option" where
  "skip_frame payload t offset =
     (let ints = (\<lambda>n. or_malformed (skip_ints n payload offset) (\<lambda>offset. Some (Next offset))) in
      if t = 0x00 then Some (Next (offset + length (takeWhile (\<lambda>b. b = 0) (drop offset payload))))
      else if t = 0x01 then Some (Next offset)
      else if t = 0x02 \<or> t = 0x03 then ack_frame payload t offset
      else if t = 0x04 then ints 3
      else if t = 0x05 then ints 2
      else if t = 0x07 then new_token_frame payload offset
      else if 0x08 \<le> t \<and> t \<le> 0x0f then stream_frame payload t offset
      else if 0x10 \<le> t \<and> t \<le> 0x17 then ints (if t = 0x11 \<or> t = 0x15 then 2 else 1)
      else if t = 0x18 then new_connection_id_frame payload offset
      else if t = 0x19 then ints 1
      else if t = 0x1a \<or> t = 0x1b then Some (Next (offset + 8))
      else if t = 0x1e then Some (Next offset)
      else Some Break)"

text \<open>The state of the walk is the packet's information; a CRYPTO frame also sets \<^verbatim>\<open>found_crypto_frames\<close>.\<close>

definition add_crypto :: "u64 \<Rightarrow> bytes \<Rightarrow> QuicInfo \<Rightarrow> QuicInfo" where
  "add_crypto offset data info = info\<lparr>qi_crypto_reassembler :=
     map_option (\<lambda>r. snd (add_fragment r offset data)) (qi_crypto_reassembler info)\<rparr>"

definition crypto_frame :: "bytes \<Rightarrow> nat \<Rightarrow> QuicInfo \<Rightarrow> (frame_end \<times> QuicInfo) option" where
  "crypto_frame payload offset info =
     (let info = info\<lparr>qi_has_crypto_frame := True\<rparr> in do {
      r \<leftarrow> int_at payload offset;
      (case r of
         None \<Rightarrow> Some (Malformed, info)
       | Some (crypto_offset, offset) \<Rightarrow> do {
           r \<leftarrow> int_at payload offset;
           (case r of
              None \<Rightarrow> Some (Malformed, info)
            | Some (crypto_length, offset) \<Rightarrow>
                (let available = min (length payload - offset) (unat crypto_length) in
                 if available > 0
                 then do {
                   crypto_data \<leftarrow> subslice payload offset (offset + available);
                   Some (Next (offset + available), add_crypto crypto_offset crypto_data info) }
                 else Some (Next (offset + available), info))) }) })"

definition connection_close_frame :: "bytes \<Rightarrow> byte \<Rightarrow> nat \<Rightarrow> QuicInfo \<Rightarrow> (frame_end \<times> QuicInfo) option" where
  "connection_close_frame payload frame_type offset info = do {
     r \<leftarrow> int_at payload offset;
     (case r of
        None \<Rightarrow> Some (Malformed, info)
      | Some (error_code, offset) \<Rightarrow> do {
          r \<leftarrow> (if frame_type = 0x1c then skip_ints 1 payload offset else Some (Some offset));
          (case r of
             None \<Rightarrow> Some (Malformed, info)
           | Some offset \<Rightarrow> do {
               r \<leftarrow> int_at payload offset;
               (case r of
                  None \<Rightarrow> Some (Malformed, info)
                | Some (reason_length, offset) \<Rightarrow> (case usize_checked_add offset (unat reason_length) of
                     None \<Rightarrow> Some (Malformed, info)
                   | Some reason_end \<Rightarrow>
                       Some (if reason_end > length payload then Break else Next reason_end,
                         info\<lparr>qi_connection_close := Some \<lparr>close_frame_type = frame_type, close_error_code = error_code\<rparr>,
                              qi_connection_state := (if error_code = 0 then QuicDraining else QuicClosed)\<rparr>))) }) }) }"

definition packet_frame :: "bytes \<Rightarrow> byte \<Rightarrow> nat \<Rightarrow> QuicInfo \<Rightarrow> (frame_end \<times> QuicInfo) option" where
  "packet_frame payload frame_type offset info =
     (if frame_type = 0x06 then crypto_frame payload offset info
      else if frame_type = 0x1c \<or> frame_type = 0x1d then connection_close_frame payload frame_type offset info
      else map_option (\<lambda>e. (e, info)) (skip_frame payload frame_type offset))"

text \<open>No access of a frame is out of bounds, and the walk only moves forward.\<close>

lemma and_3f: "unat ((b :: byte) AND 0x3f) = unat b mod 64"
proof -
  have "b AND 0x3f = take_bit 6 b" by (simp add: take_bit_eq_mask mask_eq_exp_minus_1)
  then show ?thesis by (simp only: unsigned_take_bit_eq) (simp add: take_bit_eq_mod)
qed

lemma dec_Cons: "dec Big (b # bs) = unat b * 256 ^ length bs + dec Big bs"
proof -
  have "le_val (cs @ [b]) = le_val cs + unat b * 256 ^ length cs" for cs by (induction cs) simp_all
  then show ?thesis by (simp add: dec_def)
qed

lemma int_bound:
  "unat (ucast (b AND 0x3f :: byte) :: u64) < 2 ^ 62" "unat (ucast (h :: u16) :: u64) < 2 ^ 62"
  "unat (ucast (w :: u32) :: u64) < 2 ^ 62" "length bs = 7 \<Longrightarrow> unat (rd64 Big ((b AND 0x3f) # bs)) < 2 ^ 62"
proof -
  have small: "unat (ucast x :: u64) \<le> unat x" for x :: "'a :: len word"
    by (metis of_nat_unat unat_of_nat mod_less_eq_dividend)
  show "unat (ucast (b AND 0x3f :: byte) :: u64) < 2 ^ 62" using small [of "b AND 0x3f"] unat_bound [of "b AND 0x3f"] by simp
  show "unat (ucast h :: u64) < 2 ^ 62" using small [of h] unat_bound [of h] by simp
  show "unat (ucast w :: u64) < 2 ^ 62" using small [of w] unat_bound [of w] by simp
  assume "length bs = 7"
  then have "dec Big ((b AND 0x3f) # bs) < 2 ^ 62"
    using dec_bound [of Big bs] by (simp add: dec_Cons and_3f)
  then show "unat (rd64 Big ((b AND 0x3f) # bs)) < 2 ^ 62"
    by (simp add: rd64_def unat_of_nat)
qed

lemma parse_variable_length_int_yields [wp]:
  "yields (parse_variable_length_int d) (\<lambda>r. \<forall>v n. r = Some (v, n) \<longrightarrow> 0 < n \<and> n \<le> length d \<and> unat v < 2 ^ 62)"
  unfolding parse_variable_length_int_def Let_def wp
  by (auto simp: wp simp del: power_numeral intro: int_bound)

lemma int_at_yields:
  "i \<le> length d \<Longrightarrow> yields (int_at d i) (\<lambda>r. \<forall>v j. r = Some (v, j) \<longrightarrow> i < j \<and> j \<le> length d \<and> unat v < 2 ^ 62)"
  unfolding int_at_def wp
  by (rule conjI, assumption, rule yields_mono [OF parse_variable_length_int_yields]) auto

lemma skip_ints_yields:
  "i \<le> length d \<Longrightarrow> yields (skip_ints n d i) (\<lambda>r. \<forall>j. r = Some j \<longrightarrow> i \<le> j \<and> j \<le> length d)"
proof (induction n arbitrary: i)
  case (Suc n)
  show ?case
    using int_at_yields [OF Suc.prems]
    by (rule yieldsE) (auto simp: wp split: option.split intro!: yields_mono [OF Suc.IH])
qed simp

text \<open>Where a frame that starts at \<open>i\<close> lets the walk go on.\<close>

definition onward :: "nat \<Rightarrow> frame_end \<Rightarrow> bool" where
  "onward i e \<longleftrightarrow> (case e of Next j \<Rightarrow> i \<le> j | _ \<Rightarrow> True)"

lemma onward_simps [simp]: "onward i (Next j) \<longleftrightarrow> i \<le> j" "onward i Break" "onward i Malformed"
  by (simp_all add: onward_def)

lemma or_malformed_yields:
  "yields m (\<lambda>r. \<forall>x. r = Some x \<longrightarrow> yields (f x) (onward i)) \<Longrightarrow> yields (or_malformed m f) (onward i)"
  by (erule yieldsE) (simp add: or_malformed_def wp split: option.split)

lemma or_skip_ints:
  "k \<le> length p \<Longrightarrow> (\<And>j. k \<le> j \<Longrightarrow> j \<le> length p \<Longrightarrow> yields (f j) (onward i)) \<Longrightarrow>
    yields (or_malformed (skip_ints n p k) f) (onward i)"
  by (rule or_malformed_yields, rule yields_mono [OF skip_ints_yields]) auto

lemma or_int_at:
  "k \<le> length p \<Longrightarrow> (\<And>v j. k \<le> j \<Longrightarrow> j \<le> length p \<Longrightarrow> yields (f (v, j)) (onward i)) \<Longrightarrow>
    yields (or_malformed (int_at p k) f) (onward i)"
  by (rule or_malformed_yields, rule yields_mono [OF int_at_yields]) auto

lemma or_usize_checked_add:
  "yields (f (a + b)) (onward i) \<Longrightarrow> yields (or_malformed (Some (usize_checked_add a b)) f) (onward i)"
  by (auto simp: usize_checked_add_def or_malformed_def)

lemma or_stream_length:
  assumes "k \<le> length p" "\<And>v j. k \<le> j \<Longrightarrow> j \<le> length p \<Longrightarrow> yields (f (v, j)) (onward i)"
  shows "yields (or_malformed (if b then map_option (map_option (\<lambda>(len, offset). (unat len, offset))) (int_at p k)
      else Some (Some (length p - k, k))) f) (onward i)"
proof (rule or_malformed_yields)
  show "yields (if b then map_option (map_option (\<lambda>(len, offset). (unat len, offset))) (int_at p k)
      else Some (Some (length p - k, k))) (\<lambda>r. \<forall>x. r = Some x \<longrightarrow> yields (f x) (onward i))"
    using int_at_yields [OF assms(1)] by (rule yieldsE) (auto intro: assms)
qed

lemmas or_rules = or_skip_ints or_int_at or_usize_checked_add or_stream_length

lemma skip_frame_parts_yield:
  assumes "i \<le> length p"
  shows "yields (ack_frame p t i) (onward i)" "yields (new_token_frame p i) (onward i)"
    "yields (stream_frame p t i) (onward i)" "yields (new_connection_id_frame p i) (onward i)"
  unfolding ack_frame_def new_token_frame_def stream_frame_def new_connection_id_frame_def
  using assms by (auto simp: wp intro!: or_rules simp del: skip_ints.simps)

lemma skip_frame_yields: "i \<le> length p \<Longrightarrow> yields (skip_frame p t i) (onward i)"
  by (auto simp: skip_frame_def Let_def skip_frame_parts_yield intro!: or_rules simp del: skip_ints.simps)

lemmas ints = skip_ints_yields [THEN yields_mono] int_at_yields [THEN yields_mono]

lemma yields_map_option [wp]: "yields (map_option g m) P \<longleftrightarrow> yields m (\<lambda>x. P (g x))"
  by (cases m) simp_all

lemma crypto_frame_yields: "i \<le> length p \<Longrightarrow> yields (crypto_frame p i info) (\<lambda>r. onward i (fst r))"
  by (auto simp: crypto_frame_def Let_def wp intro!: ints)

lemma connection_close_frame_yields:
  "i \<le> length p \<Longrightarrow> yields (connection_close_frame p t i info) (\<lambda>r. onward i (fst r))"
  by (auto simp: connection_close_frame_def wp usize_checked_add_def intro!: ints simp del: skip_ints.simps split: option.split)

lemma packet_frame_yields: "i \<le> length p \<Longrightarrow> yields (packet_frame p t i info) (\<lambda>r. onward i (fst r))"
  by (auto simp: packet_frame_def crypto_frame_yields connection_close_frame_yields skip_frame_yields wp)

text \<open>The walk: whether it ended without a malformed frame, and what it leaves.\<close>

function scan_packet_frames :: "bytes \<Rightarrow> nat \<Rightarrow> QuicInfo \<times> bool \<Rightarrow> (bool \<times> QuicInfo \<times> bool) option" where
  "scan_packet_frames payload offset walk =
     (if offset < length payload
      then do {
        frame_type \<leftarrow> byte_at payload offset;
        (e, info) \<leftarrow> packet_frame payload frame_type (offset + 1) (fst walk);
        let walk = (info, snd walk \<or> frame_type = 0x06);
        (case e of
           Next offset \<Rightarrow> if offset > length payload then Some (True, walk) else scan_packet_frames payload offset walk
         | Break \<Rightarrow> Some (True, walk)
         | Malformed \<Rightarrow> Some (False, walk)) }
      else Some (True, walk))"
  by pat_completeness auto
termination
proof (relation "measure (\<lambda>(p, i, w). length p - i)", goal_cases)
  case (2 payload offset walk t r e info w j)
  then have "yields (packet_frame payload t (offset + 1) (fst walk)) (\<lambda>r. onward (offset + 1) (fst r))"
    by (intro packet_frame_yields) simp
  with 2 show ?case by auto
qed simp

declare scan_packet_frames.simps [simp del]

definition process_crypto_frames_in_packet :: "bytes \<Rightarrow> QuicInfo \<Rightarrow> (TlsInfo option \<times> QuicInfo) option" where
  "process_crypto_frames_in_packet payload info = do {
     (complete, info, found_crypto_frames) \<leftarrow> scan_packet_frames payload 0 (ensure_reassembler info, False);
     (case qi_crypto_reassembler info of
        Some reassembler \<Rightarrow>
          if found_crypto_frames
          then do {
            (tls_info, reassembler) \<leftarrow> try_extract_tls_from_reassembler reassembler False;
            let info = info\<lparr>qi_crypto_reassembler := Some reassembler\<rparr>;
            (case tls_info of
               Some t \<Rightarrow> Some (Some t, info\<lparr>qi_tls_info := Some t\<rparr>)
             | None \<Rightarrow> Some (None, info)) }
          else Some (None, info)
      | None \<Rightarrow> Some (None, info)) }"

section \<open>Datagrams\<close>

text \<open>
  The decryption of a client's Initial packet, the parsers of long and short headers, and
  \<^verbatim>\<open>parse_quic_packet\<close>, which takes the packets coalesced in one datagram, from \<^verbatim>\<open>dpi/quic.rs\<close>.
\<close>

section \<open>Packet protection\<close>

text \<open>The header of an Initial packet: the offset of its packet number and the value of its length field.\<close>

definition initial_layout :: "bytes \<Rightarrow> (u64 \<times> nat) option option" where
  "initial_layout packet =
     (if 5 \<ge> length packet then Some None
      else do {
        dcid_len \<leftarrow> byte_at packet 5;
        let offset = 5 + (1 + unat dcid_len);
        if offset \<ge> length packet then Some None
        else do {
          scid_len \<leftarrow> byte_at packet offset;
          let offset = offset + (1 + unat scid_len);
          if offset \<ge> length packet then Some None
          else do {
            token \<leftarrow> int_at packet offset;
            (case token of
               None \<Rightarrow> Some None
             | Some (token_len, offset) \<Rightarrow> (case usize_checked_add offset (unat token_len) of
                  None \<Rightarrow> Some None
                | Some offset \<Rightarrow> if offset > length packet then Some None else int_at packet offset)) } } })"

text \<open>\<^verbatim>\<open>packet[pn_offset + i] ^ mask[1 + i]\<close> for the bytes of the packet number.\<close>

primrec unmask :: "bytes \<Rightarrow> bytes \<Rightarrow> nat \<Rightarrow> nat \<Rightarrow> bytes option" where
  "unmask packet hp_mask pn_offset 0 = Some []"
| "unmask packet hp_mask pn_offset (Suc i) = do {
     before \<leftarrow> unmask packet hp_mask pn_offset i;
     b \<leftarrow> byte_at packet (pn_offset + i);
     m \<leftarrow> byte_at hp_mask (1 + i);
     Some (before @ [b XOR m]) }"

definition packet_number_of :: "bytes \<Rightarrow> u64" where
  "packet_number_of bs = foldl (\<lambda>n b. push_bit 8 n OR ucast b) 0 bs"

text \<open>The exclusive or of the initialisation vector, twelve bytes, and the packet number.\<close>

definition packet_nonce :: "bytes \<Rightarrow> u64 \<Rightarrow> bytes" where
  "packet_nonce iv packet_number =
     fold (\<lambda>i n. n[11 - i := n ! (11 - i) XOR ucast (drop_bit (i * 8) packet_number AND 0xff)]) [0 ..< 8] iv"

definition open_initial :: "quic_crypto \<Rightarrow> bytes \<Rightarrow> bytes \<Rightarrow> bytes \<Rightarrow> bytes \<Rightarrow> u64 \<Rightarrow> nat \<Rightarrow> bytes option option" where
  "open_initial K packet key iv hp_mask packet_payload_length pn_offset = do {
     b0 \<leftarrow> byte_at packet 0;
     m0 \<leftarrow> byte_at hp_mask 0;
     let first_byte = b0 XOR (m0 AND 0x0f);
     let pn_length = unat ((first_byte AND 0x03) + 1);
     pn \<leftarrow> unmask packet hp_mask pn_offset pn_length;
     header \<leftarrow> subslice packet 1 pn_offset;
     let aad = first_byte # header @ pn;
     let ciphertext_offset = pn_offset + pn_length;
     if unat packet_payload_length < pn_length then Some None
     else do {
       let ciphertext_len = unat packet_payload_length - pn_length;
       if ciphertext_offset + ciphertext_len > length packet then Some None
       else if ciphertext_len < 16 then Some None
       else do {
         ciphertext \<leftarrow> subslice packet ciphertext_offset (ciphertext_offset + ciphertext_len);
         Some (aead_open K key (packet_nonce iv (packet_number_of pn)) aad ciphertext) } } }"

definition try_decrypt_initial_with_secret :: "quic_crypto \<Rightarrow> bytes \<Rightarrow> bytes \<Rightarrow> u32 \<Rightarrow> bytes option option" where
  "try_decrypt_initial_with_secret K packet secret version =
     (case (derive_packet_protection_key K secret version, derive_packet_protection_iv K secret version,
        derive_header_protection_key K secret version) of
        (Some key, Some iv, Some hp_key) \<Rightarrow> do {
          layout \<leftarrow> initial_layout packet;
          (case layout of
             None \<Rightarrow> Some None
           | Some (packet_payload_length, pn_offset) \<Rightarrow>
               (let sample_offset = pn_offset + 4 in
                if sample_offset + 16 > length packet then Some None
                else do {
                  sample \<leftarrow> subslice packet sample_offset (sample_offset + 16);
                  (case aes_ecb_encrypt K hp_key sample of
                     None \<Rightarrow> Some None
                   | Some hp_mask \<Rightarrow> open_initial K packet key iv hp_mask packet_payload_length pn_offset) })) }
      | _ \<Rightarrow> Some None)"

definition decrypt_client_initial_packet :: "quic_crypto \<Rightarrow> bytes \<Rightarrow> bytes \<Rightarrow> u32 \<Rightarrow> bytes option option" where
  "decrypt_client_initial_packet K packet dcid version =
     (case derive_secret K (hkdf_extract K (initial_salt_for_version version) dcid) (bstr ''client in'') 32 of
        None \<Rightarrow> Some None
      | Some client_secret \<Rightarrow> try_decrypt_initial_with_secret K packet client_secret version)"

section \<open>Long headers\<close>

definition state_of_type :: "quic_packet_type \<Rightarrow> quic_connection_state" where
  "state_of_type t = (case t of Initial \<Rightarrow> QuicInitial | Handshake \<Rightarrow> QuicHandshaking | Retry \<Rightarrow> QuicInitial
     | VersionNegotiation \<Rightarrow> QuicInitial | ZeroRtt \<Rightarrow> QuicHandshaking | _ \<Rightarrow> QuicUnknown)"

definition extract_tls_from_long_header_packet ::
  "quic_crypto \<Rightarrow> bytes \<Rightarrow> QuicInfo \<Rightarrow> bytes \<Rightarrow> u32 \<Rightarrow> quic_packet_type \<Rightarrow> QuicInfo option" where
  "extract_tls_from_long_header_packet K payload info dcid version packet_type =
     (let info = info\<lparr>qi_connection_state := state_of_type packet_type\<rparr> in
      if packet_type = Initial \<and> length dcid > 0
      then do {
        decrypted \<leftarrow> decrypt_client_initial_packet K payload dcid version;
        (case decrypted of
           None \<Rightarrow> Some info
         | Some decrypted_payload \<Rightarrow> do {
             (tls_info, info) \<leftarrow> process_crypto_frames_in_packet decrypted_payload info;
             Some (case tls_info of
                 Some t \<Rightarrow> info\<lparr>qi_tls_info := Some t, qi_connection_id_hex := Some (connection_id_to_hex dcid)\<rparr>
               | None \<Rightarrow> info) }) }
      else Some info)"

text \<open>
  The end of a long header, from the length field of a packet on. \<open>offset.checked_add(packet_length)\<close>
  gives the size of the payload where it overflows.
\<close>

definition sized_packet ::
  "quic_crypto \<Rightarrow> bytes \<Rightarrow> QuicInfo \<Rightarrow> bytes \<Rightarrow> u32 \<Rightarrow> quic_packet_type \<Rightarrow> nat \<Rightarrow> (QuicInfo option \<times> nat) option" where
  "sized_packet K payload info dcid version packet_type offset =
     (if offset \<ge> length payload then Some (Some info, length payload)
      else do {
        r \<leftarrow> int_at payload offset;
        (case r of
           None \<Rightarrow> Some (Some info, length payload)
         | Some (packet_length, offset) \<Rightarrow>
             (let total_packet_size = (case usize_checked_add offset (unat packet_length) of
                  Some t \<Rightarrow> t | None \<Rightarrow> length payload) in do {
              packet_data \<leftarrow> (if total_packet_size \<le> length payload then slice_to payload total_packet_size
                else Some payload);
              info \<leftarrow> extract_tls_from_long_header_packet K packet_data info dcid version packet_type;
              Some (Some info, min total_packet_size (length payload)) })) })"

text \<open>From the end of the connection identifiers on.\<close>

definition long_header_rest ::
  "quic_crypto \<Rightarrow> bytes \<Rightarrow> QuicInfo \<Rightarrow> bytes \<Rightarrow> u32 \<Rightarrow> quic_packet_type \<Rightarrow> nat \<Rightarrow> (QuicInfo option \<times> nat) option" where
  "long_header_rest K payload info dcid version packet_type offset =
     (if packet_type = Retry \<or> packet_type = VersionNegotiation
      then do {
        info \<leftarrow> extract_tls_from_long_header_packet K payload info dcid version packet_type;
        Some (Some info, length payload) }
      else if packet_type = Initial
      then do {
        r \<leftarrow> int_at payload offset;
        (case r of
           None \<Rightarrow> Some (Some info, length payload)
         | Some (token_len, offset) \<Rightarrow> (case usize_checked_add (unat token_len) offset of
              Some new_offset \<Rightarrow>
                if new_offset \<le> length payload
                then sized_packet K payload info dcid version packet_type new_offset
                else Some (Some info, length payload)
            | None \<Rightarrow> Some (Some info, length payload))) }
      else sized_packet K payload info dcid version packet_type offset)"

definition parse_long_header_packet_with_length :: "quic_crypto \<Rightarrow> bytes \<Rightarrow> (QuicInfo option \<times> nat) option" where
  "parse_long_header_packet_with_length K payload =
     (if length payload < 6 then Some (None, 0)
      else do {
        first_byte \<leftarrow> byte_at payload 0;
        version \<leftarrow> be32_at payload 1;
        let packet_type = (if version = 0 then VersionNegotiation else get_long_packet_type first_byte version);
        let info = (new_quic_info version)\<lparr>qi_packet_type := packet_type\<rparr>;
        if 5 \<ge> length payload then Some (None, 0)
        else do {
          dcid_len \<leftarrow> byte_at payload 5;
          let offset = 6 + unat dcid_len;
          if offset > length payload then Some (None, 0)
          else do {
            dcid \<leftarrow> subslice payload 6 offset;
            let info = info\<lparr>qi_connection_id := dcid, qi_connection_id_hex := None\<rparr>;
            if offset \<ge> length payload then Some (None, 0)
            else do {
              scid_len \<leftarrow> byte_at payload offset;
              let offset = offset + 1 + unat scid_len;
              if offset > length payload then Some (None, 0)
              else long_header_rest K payload info dcid version packet_type offset } } } })"

section \<open>Short headers\<close>

definition parse_short_header_packet :: "bytes \<Rightarrow> QuicInfo option option" where
  "parse_short_header_packet payload =
     (if payload = [] then Some None
      else do {
        b0 \<leftarrow> byte_at payload 0;
        if b0 AND 0xc0 \<noteq> 0x40 then Some None
        else do {
          connection_id \<leftarrow> (if length payload \<ge> 9 then subslice payload 1 9 else slice_from payload 1);
          Some (Some ((new_quic_info 0)\<lparr>qi_packet_type := OneRtt, qi_connection_state := QuicConnected,
            qi_connection_id := connection_id, qi_connection_id_hex := None\<rparr>)) } })"

section \<open>Coalesced packets\<close>

text \<open>The TLS data of two packets of a datagram: a complete name wins over a partial or missing one.\<close>

definition partial_or_missing :: "TlsInfo \<Rightarrow> bool" where
  "partial_or_missing t = (case tls_sni t of Some s \<Rightarrow> is_partial_sni s | None \<Rightarrow> True)"

definition prefer_tls :: "TlsInfo option \<Rightarrow> TlsInfo option \<Rightarrow> TlsInfo option" where
  "prefer_tls old new = (case (old, new) of
     (None, Some new_tls) \<Rightarrow> Some new_tls
   | (Some old_tls, Some new_tls) \<Rightarrow>
       if partial_or_missing old_tls \<and> \<not> partial_or_missing new_tls \<or> tls_sni old_tls = None \<and> tls_sni new_tls \<noteq> None
       then Some new_tls else old
   | _ \<Rightarrow> old)"

text \<open>The fragments of both, and the name looked for again if it is missing or partial.\<close>

definition merge_reassemblers :: "QuicInfo \<Rightarrow> reassembler option \<Rightarrow> QuicInfo option" where
  "merge_reassemblers existing new = (case (qi_crypto_reassembler existing, new) of
     (None, Some new_r) \<Rightarrow> Some (existing\<lparr>qi_crypto_reassembler := Some new_r\<rparr>)
   | (Some old_r, Some new_r) \<Rightarrow>
       (let merged = add_fragments (fragments new_r) old_r;
            existing = existing\<lparr>qi_crypto_reassembler := Some merged\<rparr> in
        if (case qi_tls_info existing of Some t \<Rightarrow> partial_or_missing t | None \<Rightarrow> True)
        then do {
          (tls_info, merged) \<leftarrow> try_extract_tls_from_reassembler merged False;
          let existing = existing\<lparr>qi_crypto_reassembler := Some merged\<rparr>;
          Some (case tls_info of Some t \<Rightarrow> existing\<lparr>qi_tls_info := Some t\<rparr> | None \<Rightarrow> existing) }
        else Some existing)
   | _ \<Rightarrow> Some existing)"

definition merge_quic_packet_info :: "QuicInfo option \<Rightarrow> QuicInfo \<Rightarrow> QuicInfo option" where
  "merge_quic_packet_info existing new = (case existing of
     None \<Rightarrow> Some new
   | Some existing \<Rightarrow> merge_reassemblers
       (existing\<lparr>
          qi_connection_state := (if quic_priority (qi_connection_state new) > quic_priority (qi_connection_state existing)
            then qi_connection_state new else qi_connection_state existing),
          qi_tls_info := prefer_tls (qi_tls_info existing) (qi_tls_info new),
          qi_connection_id := (if qi_connection_id existing = [] \<and> qi_connection_id new \<noteq> []
            then qi_connection_id new else qi_connection_id existing),
          qi_connection_id_hex := (if qi_connection_id existing = [] \<and> qi_connection_id new \<noteq> []
            then qi_connection_id_hex new else qi_connection_id_hex existing),
          qi_version_string := (if qi_version_string existing = None \<and> qi_version_string new \<noteq> None
            then qi_version_string new else qi_version_string existing)\<rparr>)
       (qi_crypto_reassembler new))"

definition coalesced_packet :: "quic_crypto \<Rightarrow> bytes \<Rightarrow> (QuicInfo option \<times> nat) option" where
  "coalesced_packet K remaining = do {
     first_byte \<leftarrow> byte_at remaining 0;
     if first_byte AND 0x80 \<noteq> 0 then parse_long_header_packet_with_length K remaining
     else do { info \<leftarrow> parse_short_header_packet remaining; Some (info, length remaining) } }"

function coalesced_packets :: "quic_crypto \<Rightarrow> bytes \<Rightarrow> nat \<Rightarrow> nat \<Rightarrow> QuicInfo option \<Rightarrow> QuicInfo option option" where
  "coalesced_packets K payload offset packet_count combined_info =
     (if offset < length payload
      then do {
        remaining \<leftarrow> slice_from payload offset;
        (packet_info, packet_len) \<leftarrow> coalesced_packet K remaining;
        combined_info \<leftarrow> (case packet_info of
            Some info \<Rightarrow> map_option Some (merge_quic_packet_info combined_info info)
          | None \<Rightarrow> Some combined_info);
        if packet_len = 0 then Some combined_info
        else if packet_count + 1 \<ge> 10 then Some combined_info
        else coalesced_packets K payload (offset + packet_len) (packet_count + 1) combined_info }
      else Some combined_info)"
  by pat_completeness auto
termination by (relation "measure (\<lambda>(K, p, i, n, c). length p - i)") auto

declare coalesced_packets.simps [simp del]

definition parse_quic_packet :: "quic_crypto \<Rightarrow> bytes \<Rightarrow> QuicInfo option option" where
  "parse_quic_packet K payload =
     (if payload = [] then Some None else coalesced_packets K payload 0 0 None)"

end
