(* ===== verification/Dpi.thy ===== *)
theory Dpi
  imports Dpi_Dns Dpi_Binary Dpi_Text Dpi_Tls Quic_Packet Packet_Parser
begin

text \<open>
  Which protocol a payload is inspected as: \<^verbatim>\<open>dpi/mod.rs\<close>. The protocols are tried in the order
  the code tries them, and the first that recognizes the payload gives the result. The
  cryptography the parser of QUIC packets calls is an argument, \<open>K\<close>.
\<close>

definition known_quic_versions :: "u32 list" where
  "known_quic_versions = [0x00000001, 0x6b3343cf, 0xff00001d, 0xff00001c, 0xff00001b, 0x51303530, 0x51303433,
     0x54303530, 0xfaceb001, 0xfaceb002, 0]"

definition is_quic_packet :: "bytes \<Rightarrow> bool option" where
  "is_quic_packet payload =
     (if length payload < 5 then Some False
      else do {
        first_byte \<leftarrow> byte_at payload 0;
        let short_header = (if first_byte AND 0xC0 = 0x40 then length payload \<ge> 20 else False);
        if first_byte AND 0x80 \<noteq> 0
        then do {
          version \<leftarrow> be32_at payload 1;
          Some (if version \<in> set known_quic_versions then True
            else if drop_bit 8 version = 0xff0000 then True
            else if version AND 0x0F0F0F0F = 0x0a0a0a0a then True
            else short_header) }
        else Some short_header })"

text \<open>One attempt: \<open>gate && let Some(result) = analysis\<close>, and otherwise the attempts that follow.\<close>

definition attempt ::
  "bool option \<Rightarrow> 'a option option \<Rightarrow> ('a \<Rightarrow> application_protocol) \<Rightarrow>
     application_protocol option option \<Rightarrow> application_protocol option option" where
  "attempt gate analysis app others = do {
     open_gate \<leftarrow> gate;
     if open_gate
     then do { result \<leftarrow> analysis; (case result of Some info \<Rightarrow> Some (Some (app info)) | None \<Rightarrow> others) }
     else others }"

lemma yields_attempt [wp]:
  "yields (attempt gate analysis app others) P \<longleftrightarrow>
     yields gate (\<lambda>g. if g then yields analysis (\<lambda>r. case r of Some i \<Rightarrow> P (Some (app i)) | None \<Rightarrow> yields others P)
       else yields others P)"
  by (auto simp: attempt_def wp intro!: arg_cong2 [where f = yields] split: option.splits)

text \<open>\<^verbatim>\<open>port == a || port == b || signature(payload)\<close>: the signature is not looked at if a port matches.\<close>

definition on_port :: "u16 \<Rightarrow> u16 \<Rightarrow> u16 list \<Rightarrow> bool" where
  "on_port local_port remote_port ports \<longleftrightarrow> local_port \<in> set ports \<or> remote_port \<in> set ports"

definition port_or :: "bool \<Rightarrow> bool option \<Rightarrow> bool option" where
  "port_or on_a_port signature = (if on_a_port then Some True else signature)"

lemma yields_port_or [wp]: "yields (port_or b m) P \<longleftrightarrow> (b \<longrightarrow> P True) \<and> (\<not> b \<longrightarrow> yields m P)"
  by (simp add: port_or_def)

definition analyze_tcp_packet :: "bytes \<Rightarrow> u16 \<Rightarrow> u16 \<Rightarrow> bool \<Rightarrow> application_protocol option option" where
  "analyze_tcp_packet payload local_port remote_port is_outgoing =
     (if payload = [] then Some None
      else
        attempt (Some True) (Some (analyze_http payload)) AppHttp (
        attempt (port_or (on_port local_port remote_port [443]) (is_tls_handshake payload))
          (analyze_https payload) AppHttps (
        attempt (Some (is_bittorrent_handshake payload)) (analyze_bittorrent payload) AppBitTorrent (
        attempt (port_or (on_port local_port remote_port [1883]) (is_mqtt_packet payload))
          (analyze_mqtt payload) AppMqtt (
        attempt (port_or (on_port local_port remote_port [22]) (is_likely_ssh payload))
          (analyze_ssh payload is_outgoing) AppSsh (
        attempt (port_or (on_port local_port remote_port [21]) (is_ftp payload))
          (analyze_ftp payload) AppFtp
          (Some None)))))))"

definition analyze_quic :: "quic_crypto \<Rightarrow> bytes \<Rightarrow> QuicInfo option option" where
  "analyze_quic K payload = do {
     quic_info \<leftarrow> parse_quic_packet K payload;
     Some (Some (case quic_info of Some quic_info \<Rightarrow> quic_info | None \<Rightarrow> new_quic_info 0)) }"

text \<open>\<open>w\<close> is the width of a \<^verbatim>\<open>usize\<close>.\<close>

definition analyze_udp_packet ::
  "nat \<Rightarrow> quic_crypto \<Rightarrow> bytes \<Rightarrow> u16 \<Rightarrow> u16 \<Rightarrow> bool \<Rightarrow> application_protocol option option" where
  "analyze_udp_packet w K payload local_port remote_port is_outgoing =
     (let ports = on_port local_port remote_port in
      if payload = [] then Some None
      else
        attempt (Some (ports [53])) (analyze_dns payload) AppDns (
        attempt (if ports [443] then is_quic_packet payload else Some False) (analyze_quic K payload) AppQuic (
        attempt (Some (ports [5353])) (analyze_mdns payload) AppMdns (
        attempt (Some (ports [67, 68])) (analyze_dhcp payload) AppDhcp (
        attempt (Some (ports [123])) (analyze_ntp payload) AppNtp (
        attempt (Some (ports [5355])) (analyze_llmnr payload) AppLlmnr (
        attempt (Some (ports [1900])) (Some (analyze_ssdp payload)) AppSsdp (
        attempt (Some (ports [137])) (analyze_netbios_ns payload) AppNetBios (
        attempt (Some (ports [138])) (analyze_netbios_dgm payload) AppNetBios (
        attempt (Some (ports [161, 162])) (analyze_snmp w payload) AppSnmp (
        attempt (port_or (ports [3478, 5349]) (is_likely_stun payload)) (analyze_stun payload) AppStun (
        attempt (Some True) (analyze_udp_bittorrent w payload) AppBitTorrent
          (Some None)))))))))))))"

text \<open>The inspection the packet parser calls.\<close>

definition dpi_inspector :: "nat \<Rightarrow> quic_crypto \<Rightarrow> inspector" where
  "dpi_inspector w K = \<lparr>inspect_tcp = analyze_tcp_packet, inspect_udp = analyze_udp_packet w K\<rparr>"

end
