(* ===== verification/Quic_Safety.thy ===== *)
theory Quic_Safety
  imports Quic_Packet
begin

text \<open>
  The QUIC parser does not panic, whatever the datagram and whatever the cryptography gives: no index
  or slice goes out of bounds, in headers, frames, TLS messages or the search through fragments. And
  what it returns is bounded: \<open>info_ok\<close>, which every step keeps, says that the CRYPTO data of a
  packet is a well-formed reassembler of at most 64 KiB.
\<close>

text \<open>A computation without a condition on the result.\<close>

abbreviation total :: "'a option \<Rightarrow> bool" where
  "total m \<equiv> yields m (\<lambda>r. True)"

lemma totalI: "yields m P \<Longrightarrow> total m"
  by (erule yields_mono) simp

lemma first_hit_total: "(\<And>i. i \<in> set is \<Longrightarrow> total (f i)) \<Longrightarrow> total (first_hit f is)"
  by (rule totalI [OF yields_first_hit [where P = "\<lambda>x. True"]]) simp

section \<open>TLS data\<close>

lemma parse_sni_header_yields: "yields (parse_sni_header d) (\<lambda>r. r \<noteq> None \<longrightarrow> 5 \<le> length d)"
  by (auto simp: parse_sni_header_def wp)

lemma parse_sni_extension_total: "total (parse_sni_extension d b)"
  unfolding parse_sni_extension_def wp
  by (rule yields_mono [OF parse_sni_header_yields]) (auto simp: wp split: option.split)

lemma alpn_protocols_total: "total (alpn_protocols d e i ps)"
proof (induction "length d - i" arbitrary: i ps rule: less_induct)
  case less
  show ?case by (subst alpn_protocols.simps) (auto simp: wp intro!: less)
qed

lemma parse_alpn_extension_total: "total (parse_alpn_extension d)"
  by (auto simp: parse_alpn_extension_def wp intro!: alpn_protocols_total [THEN yields_mono])

lemma offered_versions_total: "total (offered_versions d l i)"
proof (induction "length d - i" arbitrary: i rule: less_induct)
  case less
  show ?case by (subst offered_versions.simps) (auto simp: wp intro!: less)
qed

lemma parse_supported_versions_total: "total (parse_supported_versions d c)"
  by (auto simp: parse_supported_versions_def wp intro!: offered_versions_total)

lemmas extension_totals = parse_sni_extension_total [THEN yields_mono] parse_alpn_extension_total [THEN yields_mono]
  parse_supported_versions_total [THEN yields_mono]

lemma quic_tls_extension_total: "total (quic_tls_extension c b t d info)"
  by (auto simp: quic_tls_extension_def wp intro!: extension_totals)

lemma parse_tls_extensions_total: "total (parse_tls_extensions d i info c b)"
proof (induction "length d - i" arbitrary: i info rule: less_induct)
  case less
  show ?case
    by (subst parse_tls_extensions.simps)
      (auto simp: wp intro!: less quic_tls_extension_total [THEN yields_mono] extension_totals)
qed

lemma available_extensions_total: "i + 2 \<le> length d \<Longrightarrow> total (available_extensions d i info c b)"
  by (auto simp: available_extensions_def Let_def wp intro!: parse_tls_extensions_total)

lemma quic_hello_totals: "total (parse_partial_client_hello d info b)" "total (parse_partial_server_hello d info)"
  by (auto simp: parse_partial_client_hello_def parse_partial_server_hello_def Let_def wp
      intro!: available_extensions_total)

lemmas quic_hellos = quic_hello_totals [THEN yields_mono]

lemma parse_partial_tls_handshake_total: "total (parse_partial_tls_handshake d b)"
  by (auto simp: parse_partial_tls_handshake_def Let_def wp intro!: quic_hellos)

lemma sni_greedy_at_total: "i + 9 < length d \<Longrightarrow> total (sni_greedy_at d b i)"
  unfolding sni_greedy_at_def wp
  by (auto simp: wp Let_def intro!: yields_mono [OF parse_sni_header_yields] split: option.split)

lemma try_extract_sni_greedy_total: "total (try_extract_sni_greedy d b)"
  by (auto simp: try_extract_sni_greedy_def wp intro!: first_hit_total sni_greedy_at_total)

section \<open>The search through fragments\<close>

lemmas handshakes = parse_partial_tls_handshake_total [THEN yields_mono]

lemma unencrypted_at_totals:
  assumes "i + 10 < length d"
  shows "total (tls_record_at d i)" "total (direct_handshake_at d i)" "total (sni_pattern_at d i)"
    "total (alpn_pattern_at d i)"
  unfolding tls_record_at_def direct_handshake_at_def sni_pattern_at_def alpn_pattern_at_def wp Let_def
  using assms by (auto simp: wp intro!: handshakes extension_totals)

lemma try_parse_unencrypted_total: "total (try_parse_unencrypted_crypto_frames d)"
  unfolding try_parse_unencrypted_crypto_frames_def unencrypted_at_def
  by (intro first_hit_total) (auto simp: unencrypted_at_totals)

lemma run_bounds:
  assumes "i < length d"
  shows "i + length (takeWhile P (drop i d)) \<le> length d"
  using length_takeWhile_le [of P "drop i d"] assms by simp

lemma hostname_runs_total: "total (hostname_runs d i cs)"
proof (induction "length d - i" arbitrary: i cs rule: less_induct)
  case less
  show ?case
  proof (cases "i < length d \<and> is_ascii_alphanumeric (unat (d ! i))")
    case True
    let ?n = "length (takeWhile (\<lambda>b. host_char (unat b)) (drop i d))"
    from True have "0 < ?n" by (simp add: Cons_nth_drop_Suc [symmetric] host_char_def)
    then have "length d - (i + ?n) < length d - i" using True by linarith
    then have "total (hostname_runs d (i + ?n) cs')" for cs' by (rule less)
    with True run_bounds [of i d "\<lambda>b. host_char (unat b)"] show ?thesis
      by (subst hostname_runs.simps) (simp add: wp Let_def)
  next
    case False
    then show ?thesis
      by (subst hostname_runs.simps) (auto simp: wp less)
  qed
qed

lemma find_hostname_candidates_total: "total (find_hostname_candidates d)"
  by (simp add: find_hostname_candidates_def wp hostname_runs_total)

lemma fragment_sni_at_total: "i + 10 < length d \<Longrightarrow> total (fragment_sni_at d i)"
  unfolding fragment_sni_at_def wp
  by (auto simp: wp intro!: yields_mono [OF parse_sni_header_yields] parse_sni_extension_total split: option.split)

lemma fragment_sni_total: "total (fragment_sni fs i)"
  by (auto simp: fragment_sni_def intro!: first_hit_total fragment_sni_at_total split: option.split)

lemma try_reconstruct_total: "total (try_reconstruct_sni_from_fragments r)"
  unfolding try_reconstruct_sni_from_fragments_def Let_def wp
  by (rule yields_mono [OF first_hit_total [OF fragment_sni_total]])
    (auto simp: wp intro!: find_hostname_candidates_total [THEN yields_mono] split: option.split)

lemma try_extract_from_contiguous_total: "total (try_extract_from_contiguous r b)"
  by (auto simp: try_extract_from_contiguous_def wp intro!: handshakes split: option.split)

lemma tls_in_fragment_total: "total (tls_in_fragment b d)"
  by (auto simp: tls_in_fragment_def tls_record_in_fragment_def wp
      intro!: handshakes try_parse_unencrypted_total [THEN yields_mono] split: option.split)

lemma greedy_total: "total (try_extract_greedy_from_reassembler r)"
  unfolding try_extract_greedy_from_reassembler_def wp
  by (rule yields_mono [OF first_hit_total [OF try_extract_sni_greedy_total]])
    (auto simp: wp intro!: try_extract_sni_greedy_total [THEN yields_mono] split: option.split)

lemma reconstructed_tls_total: "total (reconstructed_tls r)"
  by (auto simp: reconstructed_tls_def wp intro!: try_reconstruct_total [THEN yields_mono])

text \<open>Extraction leaves the reassembler as it was, or with something in its cache.\<close>

definition extraction_leaves :: "reassembler \<Rightarrow> TlsInfo option \<times> reassembler \<Rightarrow> bool" where
  "extraction_leaves r e \<longleftrightarrow> snd e = r \<or> (\<exists>t. snd e = set_complete_tls_info t r)"

lemma extraction_strategies_yields: "yields (extraction_strategies r b) (extraction_leaves r)"
proof -
  have "total (try_extract_from_fragments r b)"
    by (simp add: try_extract_from_fragments_def first_hit_total tls_in_fragment_total)
  then have "total (first_hit (\<lambda>s. s)
      [try_extract_from_contiguous r b, try_extract_from_fragments r b, reconstructed_tls r])"
    by (intro first_hit_total) (auto simp: try_extract_from_contiguous_total reconstructed_tls_total)
  then show ?thesis
    unfolding extraction_strategies_def wp
    by (rule yields_mono)
      (auto simp: wp extraction_leaves_def keep_complete_def intro!: greedy_total [THEN yields_mono] split: option.split)
qed

lemma extraction_yields: "yields (try_extract_tls_from_reassembler r b) (extraction_leaves r)"
  by (auto simp: try_extract_tls_from_reassembler_def extraction_strategies_yields extraction_leaves_def split: option.split)

lemma extract_tls_Some: "try_extract_tls_from_reassembler r b = Some (extract_tls r b)"
  using extraction_yields [of r b] by (auto simp: extract_tls_def elim: yieldsE)

section \<open>What a packet may hold\<close>

definition reassembly_ok :: "reassembler \<Rightarrow> bool" where
  "reassembly_ok r \<longleftrightarrow> reassembler_ok r \<and> (\<forall>f \<in> set (fragments r). unat (fst f) < 2 ^ 62)"

definition info_ok :: "QuicInfo \<Rightarrow> bool" where
  "info_ok info \<longleftrightarrow> length (qi_connection_id info) \<le> 255 \<and>
     (\<forall>r. qi_crypto_reassembler info = Some r \<longrightarrow> reassembly_ok r)"

lemma reassembly_ok_add:
  assumes "reassembly_ok r" "data \<noteq> []" "unat k < 2 ^ 62"
  shows "reassembly_ok (snd (add_fragment r k data))"
proof -
  have "set (fragments (snd (add_fragment r k data))) \<subseteq> insert (k, data) (set (fragments r))"
    using set_btree_insert [of k data "fragments r"] by (auto simp: add_fragment_def update_contiguous_offset_def)
  then show ?thesis
    using assms add_fragment_ok [of r data k] by (auto simp: reassembly_ok_def)
qed

lemma reassembly_ok_add_fragments:
  "reassembly_ok r \<Longrightarrow> \<forall>f \<in> set fs. snd f \<noteq> [] \<and> unat (fst f) < 2 ^ 62 \<Longrightarrow> reassembly_ok (add_fragments fs r)"
  by (induction fs arbitrary: r) (simp_all add: add_fragments_def split_def reassembly_ok_add)

lemma reassembly_ok_merge:
  assumes "reassembly_ok r" "reassembly_ok r'"
  shows "reassembly_ok (add_fragments (fragments r') r)"
  using assms
  by (intro reassembly_ok_add_fragments)
    (auto simp: reassembly_ok_def reassembler_ok_def frags_ok_def frag_ok_def list_all_iff)

lemma reassembly_ok_new: "reassembly_ok new_reassembler"
  by (simp add: reassembly_ok_def) (simp add: new_reassembler_def)

lemma reassembly_ok_extraction: "extraction_leaves r (t, r') \<Longrightarrow> reassembly_ok r \<Longrightarrow> reassembly_ok r'"
  by (auto simp: extraction_leaves_def reassembly_ok_def reassembler_ok_def set_complete_tls_info_def)

lemma new_quic_info_ok: "info_ok (new_quic_info version)"
  by (simp add: info_ok_def new_quic_info_def)

lemma ensure_reassembler_ok: "info_ok info \<Longrightarrow> info_ok (ensure_reassembler info)"
  by (auto simp: info_ok_def ensure_reassembler_def reassembly_ok_new)

section \<open>Packets\<close>

lemma crypto_frame_ok:
  assumes "i \<le> length p" "info_ok info"
  shows "yields (crypto_frame p i info) (\<lambda>r. info_ok (snd r))"
proof -
  have "info_ok (add_crypto k (take n (drop j p)) (info\<lparr>qi_has_crypto_frame := True\<rparr>))"
    if "unat k < 2 ^ 62" "0 < n" "j < length p" for k n j
    using assms(2) that by (auto simp: info_ok_def add_crypto_def intro!: reassembly_ok_add)
  moreover have "info_ok (info\<lparr>qi_has_crypto_frame := True\<rparr>)" using assms(2) by (simp add: info_ok_def)
  ultimately show ?thesis
    using assms(1) by (auto simp: crypto_frame_def Let_def wp intro!: ints)
qed

lemma connection_close_frame_ok:
  "i \<le> length p \<Longrightarrow> info_ok info \<Longrightarrow> yields (connection_close_frame p t i info) (\<lambda>r. info_ok (snd r))"
  by (auto simp: connection_close_frame_def wp info_ok_def intro!: ints simp del: skip_ints.simps split: option.split)

lemma packet_frame_ok:
  "i \<le> length p \<Longrightarrow> info_ok info \<Longrightarrow> yields (packet_frame p t i info) (\<lambda>r. onward i (fst r) \<and> info_ok (snd r))"
  unfolding yields_conj
  by (auto simp: packet_frame_yields) (auto simp: packet_frame_def crypto_frame_ok connection_close_frame_ok wp
      intro!: skip_frame_yields [THEN yields_mono])

lemma scan_packet_frames_yields:
  "info_ok (fst w) \<Longrightarrow> yields (scan_packet_frames p i w) (\<lambda>r. info_ok (fst (snd r)))"
proof (induction "length p - i" arbitrary: i w rule: less_induct)
  case less
  show ?case
  proof (cases "i < length p")
    case True
    then have f: "yields (packet_frame p (p ! i) (i + 1) (fst w)) (\<lambda>r. onward (i + 1) (fst r) \<and> info_ok (snd r))"
      using less.prems by (intro packet_frame_ok) simp_all
    show ?thesis
      by (subst scan_packet_frames.simps, use True in \<open>simp add: wp Let_def\<close>)
        (rule yields_mono [OF f [simplified]], auto simp: less.hyps split: frame_end.split)
  qed (use less.prems in \<open>simp add: scan_packet_frames.simps\<close>)
qed

lemma process_crypto_frames_yields:
  assumes "info_ok info"
  shows "yields (process_crypto_frames_in_packet p info) (\<lambda>r. info_ok (snd r))"
proof -
  have e: "info_ok (fst (ensure_reassembler info, False))" using assms by (simp add: ensure_reassembler_ok)
  show ?thesis
    unfolding process_crypto_frames_in_packet_def wp
    by (rule yields_mono [OF scan_packet_frames_yields [OF e]])
      (auto simp: wp Let_def info_ok_def dest: reassembly_ok_extraction
        intro!: extraction_yields [THEN yields_mono] split: option.split)
qed

text \<open>The header layout ends within the packet, after at least eight bytes.\<close>

lemma initial_layout_yields:
  "yields (initial_layout p) (\<lambda>r. \<forall>v i. r = Some (v, i) \<longrightarrow> 1 \<le> i \<and> i \<le> length p)"
  unfolding initial_layout_def wp Let_def
  by (auto simp: wp usize_checked_add_def intro!: int_at_yields [THEN yields_mono] split: option.split if_splits)

lemma unmask_yields:
  "i + n \<le> length p \<Longrightarrow> n < length m \<Longrightarrow> yields (unmask p m i n) (\<lambda>r. length r = n)"
  by (induction n) (auto simp: wp intro!: yields_mono)

text \<open>One to four bytes of packet number.\<close>

lemma pn_length: "unat ((b AND 3) + 1 :: byte) = unat (b AND 3) + 1" "unat (b AND 3 :: byte) \<le> 3"
proof -
  have "b AND 3 \<le> 3" by (rule word_and_le1)
  then show "unat (b AND 3) \<le> 3" by (simp add: word_le_nat_alt)
  then show "unat ((b AND 3) + 1) = unat (b AND 3) + 1" by (simp add: unat_word_ariths)
qed

lemma open_initial_total:
  assumes "length m = 16" "1 \<le> i" "i + 4 \<le> length p"
  shows "total (open_initial K p key iv m l i)"
proof -
  let ?n = "unat (((p ! 0 XOR (m ! 0 AND 0x0f)) AND 0x03) + 1)"
  have n: "?n \<le> 4" using pn_length [of "p ! 0 XOR (m ! 0 AND 0x0f)"] by linarith
  then have u: "yields (unmask p m i ?n) (\<lambda>r. length r = ?n)"
    using assms by (intro unmask_yields) linarith+
  have s: "0 < length p" "0 < length m" "1 \<le> i" "i \<le> length p" using assms by linarith+
  show ?thesis
    unfolding open_initial_def wp Let_def
    by (intro conjI s, rule yields_mono [OF u]) (use s in \<open>auto simp: wp\<close>)
qed

lemma length_octets6 [simp]: "length (octets6 a) = 16"
  by (simp add: octets6_def)

lemma aes_ecb_length: "aes_ecb_encrypt K key block = Some m \<Longrightarrow> length m = 16"
  by (auto simp: aes_ecb_encrypt_def split: if_splits)

lemma try_decrypt_total: "total (try_decrypt_initial_with_secret K p secret version)"
  unfolding try_decrypt_initial_with_secret_def Let_def
  by (auto simp: wp aes_ecb_length split: option.split
      intro!: initial_layout_yields [THEN yields_mono] open_initial_total)

lemma decrypt_client_initial_packet_total: "total (decrypt_client_initial_packet K p d version)"
  by (auto simp: decrypt_client_initial_packet_def try_decrypt_total split: option.split)

lemma extract_tls_yields:
  assumes "info_ok info"
  shows "yields (extract_tls_from_long_header_packet K p info d version t) info_ok"
proof -
  have "info_ok (info\<lparr>qi_connection_state := state_of_type t\<rparr>)" using assms by (simp add: info_ok_def)
  then show ?thesis
    unfolding extract_tls_from_long_header_packet_def Let_def
    by (auto simp: wp info_ok_def split: option.split intro!: decrypt_client_initial_packet_total [THEN yields_mono]
        process_crypto_frames_yields [THEN yields_mono])
qed

text \<open>What the parser of a packet gives.\<close>

definition some_ok :: "QuicInfo option \<Rightarrow> bool" where
  "some_ok r \<longleftrightarrow> (\<forall>info. r = Some info \<longrightarrow> info_ok info)"

lemma some_ok_simps [simp]: "some_ok None" "some_ok (Some info) \<longleftrightarrow> info_ok info"
  by (simp_all add: some_ok_def)

lemmas extracted = extract_tls_yields [THEN yields_mono]

lemma sized_packet_yields:
  "info_ok info \<Longrightarrow> yields (sized_packet K p info d version t i) (\<lambda>r. some_ok (fst r))"
  by (auto simp: sized_packet_def Let_def wp intro!: int_at_yields [THEN yields_mono] extracted split: option.split)

lemma long_header_rest_yields:
  "i \<le> length p \<Longrightarrow> info_ok info \<Longrightarrow> yields (long_header_rest K p info d version t i) (\<lambda>r. some_ok (fst r))"
  unfolding long_header_rest_def
  by (auto simp: wp sized_packet_yields split: option.split intro!: int_at_yields [THEN yields_mono] extracted)

lemma parse_long_header_yields: "yields (parse_long_header_packet_with_length K p) (\<lambda>r. some_ok (fst r))"
proof -
  have "info_ok ((new_quic_info version)\<lparr>qi_packet_type := t, qi_connection_id := take (unat (b :: byte)) d,
      qi_connection_id_hex := None\<rparr>)" for version t b d
    using unat_bound [of b] by (simp add: info_ok_def new_quic_info_def)
  then show ?thesis
    unfolding parse_long_header_packet_with_length_def Let_def
    by (auto simp: wp long_header_rest_yields)
qed

lemma parse_short_header_yields: "yields (parse_short_header_packet p) some_ok"
  by (auto simp: parse_short_header_packet_def wp Suc_le_eq info_ok_def new_quic_info_def)

lemma merge_quic_packet_info_yields:
  "some_ok e \<Longrightarrow> info_ok n \<Longrightarrow> yields (merge_quic_packet_info e n) info_ok"
  by (auto simp: merge_quic_packet_info_def merge_reassemblers_def Let_def wp info_ok_def reassembly_ok_merge
      dest: reassembly_ok_extraction intro!: extraction_yields [THEN yields_mono] split: option.split)

lemma coalesced_packet_yields: "p \<noteq> [] \<Longrightarrow> yields (coalesced_packet K p) (\<lambda>r. some_ok (fst r))"
  by (auto simp: coalesced_packet_def wp parse_long_header_yields
      intro!: parse_short_header_yields [THEN yields_mono])

lemma coalesced_packets_yields: "some_ok c \<Longrightarrow> yields (coalesced_packets K p i n c) some_ok"
proof (induction "length p - i" arbitrary: i n c rule: less_induct)
  case less
  show ?case
  proof (cases "i < length p")
    case True
    have "yields (coalesced_packet K (drop i p)) (\<lambda>r. some_ok (fst r))"
      using True by (intro coalesced_packet_yields) simp
    then show ?thesis
      by (subst coalesced_packets.simps, use True in \<open>simp add: wp\<close>)
        (erule yields_mono, auto simp: wp less split: option.split
          intro!: merge_quic_packet_info_yields [THEN yields_mono])
  qed (use less.prems in \<open>simp add: coalesced_packets.simps\<close>)
qed

lemma parse_quic_packet_yields: "yields (parse_quic_packet K p) some_ok"
  by (simp add: parse_quic_packet_def coalesced_packets_yields)

section \<open>A sample\<close>

text \<open>Cryptography that hides nothing, for samples: all keys and masks are zero, and the tag is ignored.\<close>

definition clear_crypto :: quic_crypto where
  "clear_crypto = \<lparr>hkdf_extract = (\<lambda>salt ikm. []), hkdf_expand = (\<lambda>prk info n. if n \<le> 8160 then Some (\<lambda>i. 0) else None),
     aes_block = (\<lambda>key block. 0), aead_open = (\<lambda>key nonce aad c. Some (take (length c - 16) c))\<rparr>"

end
