(* ===== verification/Dpi_Safety.thy ===== *)
theory Dpi_Safety
  imports Dpi Quic_Safety Parser_Safety
begin

text \<open>
  Packet inspection does not panic: no index, slice or addition goes out of bounds, whatever the
  payload. For SNMP that takes a \<^verbatim>\<open>usize\<close> of 64 bits.
\<close>

section \<open>DNS\<close>

lemma skip_name_loop_total: "yields (skip_name_loop p i h) (\<lambda>r. \<forall>j. r = Some j \<longrightarrow> i < j \<and> j \<le> length p)"
proof (induction "length p - i" arbitrary: i rule: less_induct)
  case less
  show ?case
    by (subst skip_name_loop.simps) (auto simp: wp intro!: yields_mono [OF less])
qed

lemma skip_dns_name_total [wp]:
  "yields (skip_dns_name p i) (\<lambda>r. \<forall>j. r = Some j \<longrightarrow> i < j \<and> j \<le> length p)"
  by (simp add: skip_dns_name_def skip_name_loop_total)

lemma question_name_total: "total (question_name p i n ov)"
proof (induction "length p - i" arbitrary: i n ov rule: less_induct)
  case less
  show ?case
    by (subst question_name.simps) (auto simp: wp intro!: less)
qed

lemma parse_question_total: "total (parse_question p i)"
  by (auto simp: parse_question_def wp intro!: yields_mono [OF question_name_total])

lemma collect_ip_total: "i + n \<le> length p \<Longrightarrow> total (collect_ip p t i n ips)"
  by (auto simp: collect_ip_def wp)

lemma walk_records_total: "total (walk_records p i n ips)"
proof (induction n arbitrary: i ips)
  case (Suc n)
  show ?case
    by (auto simp: wp intro!: yields_mono [OF skip_dns_name_total] yields_mono [OF collect_ip_total] Suc)
qed simp

lemma skip_record_loop_total: "total (skip_record_loop p i n)"
proof (induction n arbitrary: i)
  case (Suc n)
  show ?case by (auto simp: wp intro!: yields_mono [OF skip_dns_name_total] Suc)
qed simp

lemma skip_questions_total: "total (skip_questions p i n)"
  by (induction n arbitrary: i) (auto simp: wp intro!: yields_mono [OF parse_question_total])

lemma dns_totals: "total (parse_questions_starting_at_header p q)" "total (walk_a_aaaa_records p i n ips)"
    "total (skip_records p i c)" "total (dns_header_counts p)" "total (header_nscount p)"
  by (auto simp: parse_questions_starting_at_header_def walk_a_aaaa_records_def walk_records_total skip_records_def
      skip_record_loop_total dns_header_counts_def header_nscount_def wp
      intro!: yields_mono [OF parse_question_total] yields_mono [OF skip_questions_total])

lemma analyze_dns_total: "total (analyze_dns p)" "total (analyze_llmnr p)"
proof -
  show "total (analyze_dns p)"
    by (auto simp: analyze_dns_def wp intro!: dns_totals [THEN yields_mono])
  then show "total (analyze_llmnr p)" by (simp add: analyze_llmnr_def wp)
qed

lemma analyze_mdns_total: "total (analyze_mdns p)"
  by (auto simp: analyze_mdns_def analyze_dns_for_mdns_def wp intro!: dns_totals [THEN yields_mono])

section \<open>The binary protocols\<close>

lemma analyze_ntp_total: "total (analyze_ntp p)"
  by (auto simp: analyze_ntp_def wp)

lemma dhcp_option_total: "total (dhcp_option c d f)"
  by (auto simp: dhcp_option_def wp split: prod.split)

lemma dhcp_options_total: "total (dhcp_options_loop os i f)"
proof (induction "length os - i" arbitrary: i f rule: less_induct)
  case less
  show ?case
    by (subst dhcp_options_loop.simps) (auto simp: wp intro!: yields_mono [OF dhcp_option_total] less)
qed

lemma analyze_dhcp_total: "total (analyze_dhcp p)"
  by (auto simp: analyze_dhcp_def MIN_DHCP_SIZE_def parse_dhcp_options_def wp
      intro!: yields_mono [OF dhcp_options_total])

lemma software_loop_total: "e \<le> length p \<Longrightarrow> total (software_loop p e i)"
proof (induction "e - i" arbitrary: i rule: less_induct)
  case less
  show ?case
    by (subst software_loop.simps) (use less(2) in \<open>auto simp: wp intro!: less(1)\<close>)
qed

lemma analyze_stun_total: "total (analyze_stun p)" "total (is_likely_stun p)"
  by (auto simp: analyze_stun_def is_likely_stun_def parse_software_attribute_def STUN_HEADER_SIZE_def wp
      intro!: yields_mono [OF software_loop_total])

lemma netbios_chars_total: "total (netbios_chars d i n s)"
  by (induction n arbitrary: i s) (auto simp: wp)

lemma decode_netbios_name_total: "total (decode_netbios_name d)"
  by (auto simp: decode_netbios_name_def wp intro!: yields_mono [OF netbios_chars_total])

lemma analyze_netbios_total: "total (analyze_netbios_ns p)" "total (analyze_netbios_dgm p)"
  by (auto simp: analyze_netbios_ns_def analyze_netbios_dgm_def dgm_layout_def wp
      intro!: yields_mono [OF decode_netbios_name_total] split: list.split)

section \<open>SNMP\<close>

lemma ber_length_loop_total:
  "i + n < length d \<Longrightarrow> len < 256 ^ k \<Longrightarrow> yields (ber_length_loop w d i n len) (\<lambda>l. l < 256 ^ (k + n))"
proof (induction n arbitrary: i len k)
  case (Suc n)
  have b: "unat (d ! Suc i) < 256" using unat_bound [of "d ! Suc i"] by simp
  have m: "len * 256 mod 2 ^ w \<le> len * 256" by simp
  have "len * 256 + 255 < 256 ^ Suc k" using Suc.prems(2) by simp
  with b m have "len * 256 mod 2 ^ w + unat (d ! Suc i) < 256 ^ Suc k" by linarith
  from Suc.IH [OF _ this, of "Suc i"] Suc.prems(1) show ?case by (simp add: wp)
qed simp

lemma parse_ber_length_total:
  "yields (parse_ber_length w d) (\<lambda>r. \<forall>l n. r = Some (l, n) \<longrightarrow> 0 < n \<and> n \<le> length d \<and> l < 2 ^ 32)"
proof -
  have small: "l < 256 ^ m \<Longrightarrow> m \<le> 4 \<Longrightarrow> l < 4294967296" for l m :: nat
    using power_increasing [of m 4 "256 :: nat"] by simp
  have byte: "unat (x :: byte) < 4294967296" for x using unat_bound [of x] by simp
  show ?thesis
    by (auto simp: parse_ber_length_def wp byte Suc_le_eq
        intro!: yields_mono [OF ber_length_loop_total [of _ _ _ _ 0]] dest: small)
qed

lemmas ber = parse_ber_length_total [THEN yields_mono]

lemma skip_tlv_total: "total (skip_tlv w p i t)"
  by (auto simp: skip_tlv_def wp intro!: ber)

lemma pdu_type_total: "total (pdu_type_at p i)"
  by (simp add: pdu_type_at_def wp)

lemma v3_pdu_type_total: "total (v3_pdu_type w p i)"
  by (auto simp: v3_pdu_type_def wp intro!: skip_tlv_total [THEN yields_mono] ber pdu_type_total [THEN yields_mono])

lemma unchecked_tlv_total:
  assumes "length p < 2 ^ 32"
  shows "yields (unchecked_tlv 64 p i t) (\<lambda>r. \<forall>v j. r = Some (v, j) \<longrightarrow> j \<le> length p)"
proof -
  have add: "usize_add 64 a b = a + b" if "a \<le> length p" "b < 4294967296" for a b
    using that assms by (intro usize_add_small) simp
  show ?thesis
    by (auto simp: unchecked_tlv_def wp add intro!: ber)
qed

lemma analyze_snmp_total: "length p < 2 ^ 32 \<Longrightarrow> total (analyze_snmp 64 p)"
  by (auto simp: analyze_snmp_def MIN_SNMP_SIZE_def parse_version_def wp
      intro!: ber unchecked_tlv_total [THEN yields_mono] v3_pdu_type_total [THEN yields_mono]
        pdu_type_total [THEN yields_mono])

section \<open>MQTT\<close>

lemma remaining_length_total: "total (remaining_length_loop p off i n m v)"
  by (induction n arbitrary: i m v) (auto simp: wp)

lemma decode_remaining_length_total: "total (decode_remaining_length p i)"
  by (simp add: decode_remaining_length_def remaining_length_total)

lemmas decoded = decode_remaining_length_total [THEN yields_mono]

lemma is_mqtt_packet_total: "total (is_mqtt_packet p)"
  by (auto simp: is_mqtt_packet_def has_mqtt_protocol_name_def wp intro!: decoded split: option.split)

lemma mqtt_string_total: "total (mqtt_string p i)"
  by (auto simp: mqtt_string_def wp)

lemma mqtt_parsers_total: "total (parse_connect p i info)" "total (parse_publish_topic p i info)"
  by (auto simp: parse_connect_def parse_publish_topic_def skip_mqtt5_properties_def wp
      intro!: mqtt_string_total [THEN yields_mono] decoded)

lemma analyze_mqtt_total: "total (analyze_mqtt p)"
  by (auto simp: analyze_mqtt_def wp intro!: decoded mqtt_parsers_total [THEN yields_mono] split: MqttPacketType.split)

section \<open>BitTorrent\<close>

lemma decode_client_name_total: "length d = 20 \<Longrightarrow> total (decode_client_name d)"
  by (auto simp: decode_client_name_def wp)

lemma analyze_bittorrent_total: "total (analyze_bittorrent p)"
  by (auto simp: analyze_bittorrent_def wp intro!: decode_client_name_total [THEN yields_mono])

lemma skip_digits_bound [simp]: "i \<le> skip_digits p i"
  by (simp add: skip_digits_def)

lemma extract_dht_method_total: "total (extract_dht_method w p)"
  by (auto simp: extract_dht_method_def Let_def wp split: option.split)

lemma analyze_udp_bittorrent_total: "total (analyze_udp_bittorrent w p)"
  by (auto simp: analyze_udp_bittorrent_def analyze_dht_def analyze_utp_def UTP_HEADER_LEN_def wp
      intro!: extract_dht_method_total [THEN yields_mono] split: option.split)

section \<open>The text protocols\<close>

lemma ftp_first_line_total: "total (ftp_first_line p)"
  by (auto simp: ftp_first_line_def wp dest!: position_bound)

lemma first_token_total: "total (first_token_upper l)"
  by (auto simp: first_token_upper_def wp dest: position_bound split: option.split intro: less_imp_le)

lemmas ftp_totals = ftp_first_line_total [THEN yields_mono] first_token_total [THEN yields_mono]

lemma analyze_ftp_total: "total (analyze_ftp p)" "total (is_ftp p)"
  by (auto simp: analyze_ftp_def is_ftp_def ftp_reply_def ftp_request_def wp intro!: ftp_totals)

lemma valid_ssh_packet_total: "total (is_valid_ssh_packet_at_offset p i)"
  by (auto simp: is_valid_ssh_packet_at_offset_def wp)

lemma ssh_scan_total: "total (ssh_scan p i n)"
  by (induction n arbitrary: i) (auto simp: wp intro!: valid_ssh_packet_total [THEN yields_mono])

lemma analyze_ssh_total: "total (analyze_ssh p out)" "total (is_likely_ssh p)"
  by (auto simp: analyze_ssh_def is_likely_ssh_def is_ssh_packet_structure_def wp
      intro!: valid_ssh_packet_total [THEN yields_mono] ssh_scan_total [THEN yields_mono])

section \<open>TLS\<close>

lemma sni_total: "total (parse_sni_extension_resilient d)"
  by (auto simp: parse_sni_extension_resilient_def wp)

lemma alpn_loop_total: "total (alpn_loop d e i ps)"
proof (induction "length d - i" arbitrary: i ps rule: less_induct)
  case less
  show ?case
    by (subst alpn_loop.simps) (auto simp: wp intro!: less)
qed

lemma client_versions_total: "total (client_versions d l i b)"
proof (induction "length d - i" arbitrary: i b rule: less_induct)
  case less
  show ?case
    by (subst client_versions.simps) (auto simp: wp intro!: less)
qed

lemma tls_extension_total: "total (tls_extension c t d info)"
  by (auto simp: tls_extension_def parse_alpn_extension_resilient_def parse_supported_versions_resilient_def wp
      intro!: sni_total [THEN yields_mono] alpn_loop_total [THEN yields_mono] client_versions_total [THEN yields_mono])

lemma extensions_loop_total: "total (extensions_loop d c i n info)"
proof (induction "length d - i" arbitrary: i n info rule: less_induct)
  case less
  show ?case
    by (subst extensions_loop.simps) (auto simp: wp intro!: less tls_extension_total [THEN yields_mono])
qed

lemma hello_extensions_total: "total (hello_extensions d i c info)"
  by (auto simp: hello_extensions_def parse_extensions_def wp intro!: extensions_loop_total)

lemma hello_totals: "total (parse_client_hello d v info)" "total (parse_server_hello d info)"
  by (auto simp: parse_client_hello_def parse_server_hello_def wp intro!: hello_extensions_total)

lemma parse_handshake_total: "4 \<le> length d \<Longrightarrow> total (parse_handshake d v info)"
  unfolding parse_handshake_def by (simp only: wp) (auto intro!: hello_totals)

lemma analyze_https_total: "total (analyze_https p)" "total (is_tls_handshake p)"
  unfolding analyze_https_def is_tls_handshake_def
  by (simp_all only: wp) (auto intro!: parse_handshake_total)

section \<open>Dispatch\<close>

text \<open>What an attempt yields when nothing in it panics.\<close>

lemma attemptI:
  "total gate \<Longrightarrow> total analysis \<Longrightarrow> (\<And>i. P (Some (app i))) \<Longrightarrow> yields others P \<Longrightarrow>
    yields (attempt gate analysis app others) P"
  by (cases gate; cases analysis) (auto simp: attempt_def split: option.split)

lemma total_port_or: "total m \<Longrightarrow> total (port_or b m)"
  by (simp add: port_or_def)

lemma is_quic_packet_total: "total (is_quic_packet p)"
  by (auto simp: is_quic_packet_def Let_def wp)

lemmas tcp_totals = analyze_https_total analyze_bittorrent_total analyze_mqtt_total is_mqtt_packet_total
  analyze_ssh_total analyze_ftp_total

lemma analyze_quic_total: "total (analyze_quic K p)"
  by (simp add: analyze_quic_def wp) (rule totalI [OF parse_quic_packet_yields])

lemmas udp_totals = analyze_quic_total analyze_dns_total analyze_mdns_total analyze_dhcp_total analyze_ntp_total analyze_netbios_total
  analyze_snmp_total analyze_stun_total analyze_udp_bittorrent_total is_quic_packet_total

lemma analyze_tcp_packet_yields:
  "yields (analyze_tcp_packet p lp rp out) (\<lambda>r. \<forall>q. r \<noteq> Some (AppQuic q))"
  by (auto simp: analyze_tcp_packet_def tcp_totals total_port_or intro!: attemptI)

lemma analyze_udp_packet_total:
  "length p < 2 ^ 32 \<Longrightarrow> total (analyze_udp_packet 64 K p lp rp out)"
  by (auto simp: analyze_udp_packet_def Let_def udp_totals total_port_or intro!: attemptI)

interpretation dpi: inspection "dpi_inspector 64 K" for K
  by unfold_locales
    (simp_all add: dpi_inspector_def analyze_tcp_packet_yields analyze_udp_packet_total small_def)

end
