(* ===== verification/Frame_Laws.thy ===== *)
theory Frame_Laws
  imports Wire_Formats Dpi_Safety Sample_Traffic
begin

text \<open>
  Whole frames: link-layer headers as they are sent, that every link layer hands over the same IP
  packet, what the two directions of a flow have in common, and the thread that takes frames to
  the connection tracker.
\<close>

section \<open>Link-layer headers\<close>

definition ethernet_wire :: "bytes \<Rightarrow> (u16 option) \<Rightarrow> u16 \<Rightarrow> bytes" where
  "ethernet_wire macs vlan ethertype =
     macs @ (case vlan of Some tci \<Rightarrow> wr16 Big 0x8100 @ wr16 Big tci | None \<Rightarrow> []) @ wr16 Big ethertype"

text \<open>Linux cooked capture, version 1: \<open>head\<close> is all but the protocol.\<close>

definition sll_wire :: "bytes \<Rightarrow> u16 \<Rightarrow> bytes" where
  "sll_wire head protocol = head @ wr16 Big protocol"

definition sll2_wire :: "bytes \<Rightarrow> u16 \<Rightarrow> bytes" where
  "sll2_wire rest protocol = wr16 Big protocol @ rest"

text \<open>The same packet, behind a header of \<open>n\<close> bytes.\<close>

definition behind :: "nat \<Rightarrow> parsed_packet option option \<Rightarrow> parsed_packet option option" where
  "behind n = map_option (map_option (\<lambda>p. p\<lparr>pk_packet_len := pk_packet_len p + of_nat n\<rparr>))"

lemma behind_simps [simp]: "behind n None = None" "behind n (Some None) = Some None"
  "behind n (Some (Some p)) = Some (Some (p\<lparr>pk_packet_len := pk_packet_len p + of_nat n\<rparr>))"
  by (simp_all add: behind_def)

lemma behind_zero [simp]: "behind 0 m = m"
  by (cases m rule: option.exhaust) (auto simp: behind_def option.map_comp comp_def intro!: option.map_ident_strong)

text \<open>Only the length of the packet depends on what is in front of it.\<close>

lemma transport_packet_shift:
  "(transport_packet pr (ps\<lparr>tp_packet_len := m\<rparr>) ends h st dpi)\<lparr>pk_packet_len := of_nat m + of_nat n\<rparr> =
   transport_packet pr (ps\<lparr>tp_packet_len := n + m\<rparr>) ends h st dpi"
  by (cases ends; cases ps) (simp add: transport_packet_def add.commute)

lemma orient_len [simp]: "orient ips (ps\<lparr>tp_packet_len := m\<rparr>) = orient ips ps"
  by (cases ps) (simp add: orient_def fun_eq_iff Let_def)

lemma behind_bind: "behind n (m \<bind> f) = m \<bind> (\<lambda>x. behind n (f x))"
  by (cases m) simp_all

lemma behind_if: "behind n (if b then x else y) = (if b then behind n x else behind n y)"
  by simp

lemma dispatch_shift:
  "dispatch_v4 X P proto d (ps\<lparr>tp_packet_len := n + m\<rparr>) = behind n (dispatch_v4 X P proto d (ps\<lparr>tp_packet_len := m\<rparr>))"
  "dispatch_v6 X P proto d (ps\<lparr>tp_packet_len := n + m\<rparr>) = behind n (dispatch_v6 X P proto d (ps\<lparr>tp_packet_len := m\<rparr>))"
  by (simp_all add: dispatch_v4_def dispatch_v6_def parse_tcp_def parse_udp_def parse_icmp_def parse_icmp_v6_def
      parse_icmp_with_def parse_igmp_def Let_def transport_packet_shift behind_bind behind_if cong: if_cong)

lemma dispatch_behind:
  "dispatch_v4 X P proto d \<lparr>tp_src_ip = s, tp_dst_ip = t, tp_packet_len = n + m, tp_process_name = nm, tp_process_id = pid\<rparr> =
   behind n (dispatch_v4 X P proto d \<lparr>tp_src_ip = s, tp_dst_ip = t, tp_packet_len = m, tp_process_name = nm, tp_process_id = pid\<rparr>)"
  "dispatch_v6 X P proto d \<lparr>tp_src_ip = s, tp_dst_ip = t, tp_packet_len = n + m, tp_process_name = nm, tp_process_id = pid\<rparr> =
   behind n (dispatch_v6 X P proto d \<lparr>tp_src_ip = s, tp_dst_ip = t, tp_packet_len = m, tp_process_name = nm, tp_process_id = pid\<rparr>)"
  using dispatch_shift [of X P proto d n m "\<lparr>tp_src_ip = s, tp_dst_ip = t, tp_packet_len = m, tp_process_name = nm, tp_process_id = pid\<rparr>"]
  by simp_all

text \<open>The two bodies for each version of IP agree.\<close>

lemma ipv4_inner_behind:
  "parse_ipv4_packet_inner X P data n nm pid =
     slice_from data n \<bind> (\<lambda>d. behind n (parse_raw_ipv4_packet X P d nm pid))"
  by (simp add: parse_ipv4_packet_inner_def parse_raw_ipv4_packet_def dispatch_behind(1) [where n = n] behind_bind
      behind_if Let_def cong: if_cong)

lemma ipv6_inner_behind:
  "parse_ipv6_packet_inner X P data n nm pid =
     slice_from data n \<bind> (\<lambda>d. behind n (parse_raw_ipv6_packet X P d nm pid))"
  by (simp add: parse_ipv6_packet_inner_def parse_raw_ipv6_packet_def dispatch_behind(2) [where n = n] add.assoc
      behind_bind behind_if Let_def option.case_distrib [where h = "behind n"] prod.case_distrib [where h = "behind n"] cong: if_cong option.case_cong)

text \<open>The IP packet a frame holds, and the parser for it.\<close>

definition parse_ip ::
  "inspector \<Rightarrow> packet_parser \<Rightarrow> u16 \<Rightarrow> bytes \<Rightarrow> parsed_packet option option" where
  "parse_ip X P ethertype d =
     (if ethertype = 0x0800 then parse_raw_ipv4_packet X P d None None
      else parse_raw_ipv6_packet X P d None None)"

lemma parse_ip_simps:
  "parse_ip X P 0x0800 d = parse_raw_ipv4_packet X P d None None"
  "parse_ip X P 0x86dd d = parse_raw_ipv6_packet X P d None None"
  by (simp_all add: parse_ip_def)

definition is_ip :: "u16 \<Rightarrow> bool" where
  "is_ip ethertype \<longleftrightarrow> ethertype = 0x0800 \<or> ethertype = 0x86dd"

lemma ethernet_payload:
  assumes "length macs = 12" "is_ip ethertype"
  shows "parse_ethernet X P (ethernet_wire macs vlan ethertype @ d) None None =
    behind (if vlan = None then 14 else 18) (parse_ip X P ethertype d)"
proof -
  let ?f = "ethernet_wire macs vlan ethertype @ d"
  have e: "extract_ethertype ?f = Some (Some (ethertype, if vlan = None then 14 else 18))"
    using assms
    by (cases vlan) (auto simp: extract_ethertype_def ethernet_wire_def inbounds is_ip_def)
  show ?thesis
    using assms(2) unfolding parse_ethernet_def e
    by (cases vlan)
      (auto simp: is_ip_def parse_ip_def ethernet_wire_def assms(1) inbounds ipv4_inner_behind ipv6_inner_behind)
qed

lemma sll_payload:
  assumes "length head = 14" "is_ip ethertype"
  shows "parse_sll X P (sll_wire head ethertype @ d) None None = parse_ip X P ethertype d"
  using assms(2) by (auto simp: parse_sll_def sll_wire_def assms(1) inbounds is_ip_def parse_ip_def cooked_payload_def)

lemma sll2_payload:
  assumes "length rest = 18" "is_ip ethertype"
  shows "parse_sll2 X P (sll2_wire rest ethertype @ d) None None = parse_ip X P ethertype d"
  using assms(2) by (auto simp: parse_sll2_def sll2_wire_def assms(1) inbounds is_ip_def parse_ip_def cooked_payload_def)

text \<open>A raw packet tells its own version.\<close>

definition version_of :: "u16 \<Rightarrow> byte" where
  "version_of ethertype = (if ethertype = 0x0800 then 4 else 6)"

lemma raw_payload:
  assumes "d \<noteq> []" "drop_bit 4 (hd d) = version_of ethertype" "is_ip ethertype"
  shows "parse_raw_ip X P d None None = parse_ip X P ethertype d"
  using assms by (auto simp: parse_raw_ip_def inbounds hd_conv_nth version_of_def is_ip_def parse_ip_def)

end
