(* ===== verification/Capture_Thread.thy ===== *)
theory Capture_Thread
  imports Dpi_Safety Tracker_Accounts
begin

text \<open>
  The packet processor threads of \<^verbatim>\<open>src/app.rs\<close>: batches of captured frames are parsed and
  ingested, and the statistics follow the outcomes. Logging, the export of captures and the
  lookups of names are not part of it. What a parse reads outside its arguments, the addresses of
  the interfaces and the clock, comes with every frame.
\<close>

record captured_packet =
  cp_data :: bytes
  cp_timestamp :: system_time

record host_reading =
  hr_local_ips :: "ip_addr set"
  hr_now :: instant
  hr_later :: instant

record app_stats =
  st_packets_processed :: u64
  st_connections_created :: u64
  st_connections_archived :: u64
  st_tcp_retransmits :: u64
  st_tcp_out_of_order :: u64
  st_tcp_fast_retransmits :: u64

record processor =
  pr_parser :: packet_parser
  pr_tracker :: conn_tracker
  pr_stats :: app_stats

definition new_stats :: app_stats where
  "new_stats = \<lparr>st_packets_processed = 0, st_connections_created = 0, st_connections_archived = 0,
     st_tcp_retransmits = 0, st_tcp_out_of_order = 0, st_tcp_fast_retransmits = 0\<rparr>"

definition count_outcome :: "ingest_outcome \<Rightarrow> app_stats \<Rightarrow> app_stats" where
  "count_outcome outcome s =
     (let s = s\<lparr>st_tcp_retransmits := st_tcp_retransmits s + io_retransmits outcome,
                st_tcp_out_of_order := st_tcp_out_of_order s + io_out_of_order outcome,
                st_tcp_fast_retransmits := st_tcp_fast_retransmits s + io_fast_retransmits outcome\<rparr>
      in if io_dropped outcome \<or> io_ignored_late outcome then s
         else let s = (if io_archived outcome \<noteq> None
                       then s\<lparr>st_connections_archived := st_connections_archived s + 1\<rparr> else s)
              in if io_created outcome then s\<lparr>st_connections_created := st_connections_created s + 1\<rparr> else s)"

definition update_connection ::
  "track_env \<Rightarrow> parsed_packet \<Rightarrow> system_time \<Rightarrow> conn_tracker \<times> app_stats \<Rightarrow> conn_tracker \<times> app_stats" where
  "update_connection E parsed now st = (case st of (t, s) \<Rightarrow>
     (let (outcome, t) = ingest_at E parsed now t in (t, count_outcome outcome s)))"

text \<open>
  One frame. A panic is caught around the parser, and the frame skipped.
\<close>

definition process_packet ::
  "inspector \<Rightarrow> track_env \<times> host_reading \<times> captured_packet \<Rightarrow> processor \<Rightarrow> processor" where
  "process_packet X frame p = (case frame of (E, h, packet) \<Rightarrow>
     (case parse_packet_with_local_ip_collector X (hr_local_ips h) (hr_now h) (hr_later h) (cp_data packet) (pr_parser p) of
        None \<Rightarrow> p
      | Some (None, parser) \<Rightarrow> p\<lparr>pr_parser := parser\<rparr>
      | Some (Some parsed, parser) \<Rightarrow>
          (let (t, s) = update_connection E parsed (cp_timestamp packet) (pr_tracker p, pr_stats p)
           in p\<lparr>pr_parser := parser, pr_tracker := t, pr_stats := s\<rparr>)))"

definition LOCAL_ADDRESS_REFRESH_INTERVAL :: duration where
  "LOCAL_ADDRESS_REFRESH_INTERVAL = from_secs 30"

definition process_batch ::
  "inspector \<Rightarrow> host_reading \<Rightarrow> (track_env \<times> host_reading \<times> captured_packet) list \<Rightarrow> processor \<Rightarrow> processor" where
  "process_batch X h batch p =
     (let p = p\<lparr>pr_parser := snd (refresh_local_ips_if_due (hr_local_ips h) (hr_now h) (hr_later h)
                LOCAL_ADDRESS_REFRESH_INTERVAL (pr_parser p))\<rparr>;
          p = fold (process_packet X) batch p
      in p\<lparr>pr_stats := (pr_stats p)\<lparr>st_packets_processed := st_packets_processed (pr_stats p) + of_nat (length batch)\<rparr>\<rparr>)"

definition process_batches ::
  "inspector \<Rightarrow> (host_reading \<times> (track_env \<times> host_reading \<times> captured_packet) list) list \<Rightarrow> processor \<Rightarrow> processor" where
  "process_batches X bs p = fold (\<lambda>(h, batch). process_batch X h batch) bs p"

section \<open>What a thread does to the tracker\<close>

text \<open>
  From one state to the next: the tracker is fed packets, all well formed, and the statistics
  are those of the packets fed.
\<close>

definition feeds :: "processor \<Rightarrow> processor \<Rightarrow> bool" where
  "feeds p q \<longleftrightarrow> (\<exists>ps. list_all (\<lambda>(E, x, t). packet_ok x) ps \<and>
     pr_tracker q = tracker_run (map (\<lambda>(E, x, t). Ingest E x t) ps) (pr_tracker p))"

lemma feeds_refl: "pr_tracker p = pr_tracker q \<Longrightarrow> feeds p q"
  unfolding feeds_def by (rule exI [of _ "[]"]) simp

lemma feeds_trans:
  assumes "feeds p q" "feeds q r"
  shows "feeds p r"
proof -
  obtain ps qs where
    ps: "list_all (\<lambda>(E, x, t). packet_ok x) ps"
        "pr_tracker q = tracker_run (map (\<lambda>(E, x, t). Ingest E x t) ps) (pr_tracker p)" and
    qs: "list_all (\<lambda>(E, x, t). packet_ok x) qs"
        "pr_tracker r = tracker_run (map (\<lambda>(E, x, t). Ingest E x t) qs) (pr_tracker q)"
    using assms by (auto simp: feeds_def)
  show ?thesis
    unfolding feeds_def by (rule exI [of _ "ps @ qs"]) (simp add: ps qs)
qed

lemma process_packet_cases:
  obtains "pr_tracker (process_packet X (E, h, f) p) = pr_tracker p" "pr_stats (process_packet X (E, h, f) p) = pr_stats p"
  | x parser where
      "parse_packet_with_local_ip_collector X (hr_local_ips h) (hr_now h) (hr_later h) (cp_data f) (pr_parser p) =
         Some (Some x, parser)"
      "pr_tracker (process_packet X (E, h, f) p) = snd (ingest_at E x (cp_timestamp f) (pr_tracker p))"
      "pr_stats (process_packet X (E, h, f) p) =
         count_outcome (fst (ingest_at E x (cp_timestamp f) (pr_tracker p))) (pr_stats p)"
proof (cases "parse_packet_with_local_ip_collector X (hr_local_ips h) (hr_now h) (hr_later h) (cp_data f) (pr_parser p)")
  case None
  then show ?thesis by (intro that(1)) (simp_all add: process_packet_def)
next
  case (Some r)
  show ?thesis
  proof (cases "fst r")
    case None
    with Some show ?thesis by (intro that(1)) (cases r; simp add: process_packet_def)+
  next
    case x: (Some x)
    with Some have "parse_packet_with_local_ip_collector X (hr_local_ips h) (hr_now h) (hr_later h) (cp_data f) (pr_parser p) =
        Some (Some x, snd r)" by (cases r) simp
    then show ?thesis
      by (intro that(2)) (simp_all add: process_packet_def update_connection_def case_prod_beta)
  qed
qed

context inspection
begin

lemma parsed_ok:
  assumes "small d" "parse_packet_with_local_ip_collector X ips now later d P = Some (Some x, P')"
  shows "packet_ok x"
  using refresh_sound [OF assms(1), of ips now later P] assms(2) by simp

lemma process_packet_feeds:
  assumes "small (cp_data f)"
  shows "feeds p (process_packet X (E, h, f) p)"
proof (cases rule: process_packet_cases [of X E h f p])
  case 1
  then show ?thesis by (simp add: feeds_refl)
next
  case (2 x parser)
  from parsed_ok [OF assms 2(1)] 2(2) show ?thesis
    unfolding feeds_def by (intro exI [of _ "[(E, x, cp_timestamp f)]"]) simp
qed

lemma process_batch_feeds:
  assumes "list_all (\<lambda>(E, h, f). small (cp_data f)) batch"
  shows "feeds p (process_batch X h batch p)"
proof -
  have "feeds q (fold (process_packet X) batch q)" for q
    using assms
  proof (induction batch arbitrary: q)
    case (Cons x batch)
    obtain E h f where x: "x = (E, h, f)" by (cases x)
    with Cons.prems show ?case
      using feeds_trans [OF process_packet_feeds Cons.IH] by simp
  qed (simp add: feeds_refl)
  from this [of "p\<lparr>pr_parser := snd (refresh_local_ips_if_due (hr_local_ips h) (hr_now h) (hr_later h)
      LOCAL_ADDRESS_REFRESH_INTERVAL (pr_parser p))\<rparr>"]
  show ?thesis by (simp add: process_batch_def Let_def feeds_def)
qed

lemma process_batches_feed:
  "list_all (\<lambda>(h, batch). list_all (\<lambda>(E, h, f). small (cp_data f)) batch) bs \<Longrightarrow> feeds p (process_batches X bs p)"
proof (induction bs arbitrary: p)
  case (Cons b bs)
  obtain h batch where b: "b = (h, batch)" by (cases b)
  with Cons.prems have "feeds p (process_batch X h batch p)" by (intro process_batch_feeds) simp
  with Cons b show ?case
    using feeds_trans by (fastforce simp: process_batches_def)
qed (simp add: process_batches_def feeds_refl)

end

section \<open>The statistics\<close>

text \<open>Connections created less connections archived by new ones are the active ones.\<close>

definition counters_balanced :: "conn_tracker \<Rightarrow> app_stats \<Rightarrow> bool" where
  "counters_balanced t s \<longleftrightarrow> st_connections_created s - st_connections_archived s = tr_active_count t"

lemma into_active_count:
  "tr_active_count (snd (ingest_into_active E p now k m t)) =
     tr_active_count t + (if io_created (fst (ingest_into_active E p now k m t)) then 1 else 0)"
  "io_dropped (fst (ingest_into_active E p now k m t)) \<longleftrightarrow> at_capacity k t"
  "at_capacity k t \<Longrightarrow> \<not> io_created (fst (ingest_into_active E p now k m t))"
  "\<not> io_ignored_late (fst (ingest_into_active E p now k m t))"
  by (simp_all add: ingest_into_active_def plain_outcome_def Let_def case_prod_beta split: option.split)

lemma retired_not_full:
  assumes "tracker_ok t" "map_of (tr_connections t) k = Some c"
  shows "\<not> at_capacity k (associate_quic_id p k (retire_generation now k c t))"
proof -
  have n: "unat (tr_active_count t) = length (tr_connections t)" "length (tr_connections t) \<le> max_connections (tr_config t)"
    using assms(1) by (auto simp: tracker_ok_def core_ok_def)
  have "0 < length (tr_connections t)" using assms(2) by (cases "tr_connections t") auto
  with n have "tr_active_count t \<noteq> 0" by auto
  then have "unat (tr_active_count t - 1) = unat (tr_active_count t) - 1" by (rule unat_minus_one)
  with n \<open>0 < length (tr_connections t)\<close> have "unat (tr_active_count t - 1) < max_connections (tr_config t)"
    by linarith
  then show ?thesis by (simp add: at_capacity_def)
qed

lemma balanced_ingest:
  assumes "tracker_ok t" "packet_ok p" "counters_balanced t s"
  shows "counters_balanced (snd (ingest_at E p now t)) (count_outcome (fst (ingest_at E p now t)) s)"
proof -
  let ?k = "target E p now t" and ?u = "prepared E p now t" and ?m = "fst (observe_rtt E p now t)"
  consider (late) "ingest_at E p now t = ((plain_outcome ?k ?m)\<lparr>io_ignored_late := True\<rparr>, ?u)"
    | (split) "needs_split p ?k ?u" "ingest_at E p now t = ingest_new_generation E p now ?k ?m ?u"
    | (active) "ingest_at E p now t = ingest_into_active E p now ?k ?m ?u"
    by (cases "needs_split p ?k ?u"; cases "map_of (tr_connections t) ?k = None \<and> is_recent_late_packet ?k p now ?u")
      (auto simp: ingest_at_late ingest_at_split ingest_at_active)
  then show ?thesis
  proof cases
    case late
    with assms(3) show ?thesis by (simp add: counters_balanced_def count_outcome_def plain_outcome_def Let_def)
  next
    case active
    with assms(3) show ?thesis
      by (auto simp: into_active_count counters_balanced_def count_outcome_def Let_def)
  next
    case split
    obtain c where c: "map_of (tr_connections ?u) ?k = Some c"
      using split(1) by (auto simp: needs_split_def split: option.splits)
    have "tracker_ok ?u"
      using assms(1,2) by (simp add: tracker_ok_def core_ok_prepared)
    let ?v = "associate_quic_id p ?k (retire_generation now ?k c ?u)"
    let ?n = "replacement_time now c"
    have f: "\<not> at_capacity ?k ?v" by (rule retired_not_full [OF \<open>tracker_ok ?u\<close> c])
    have "ingest_at E p now t = (let (r, w) = ingest_into_active E p ?n ?k ?m ?v in
        (r\<lparr>io_archived := Some c\<rparr>, prune_recently_closed E now (enforce_historic_limit E w)))"
      using split c by (simp add: ingest_new_generation_def Let_def)
    with assms(3) f show ?thesis
      by (auto simp: into_active_count counters_balanced_def count_outcome_def Let_def case_prod_beta)
  qed
qed

definition processor_ok :: "processor \<Rightarrow> bool" where
  "processor_ok p \<longleftrightarrow> tracker_ok (pr_tracker p) \<and> counters_balanced (pr_tracker p) (pr_stats p)"

definition new_processor :: "packet_parser \<Rightarrow> tracker_config \<Rightarrow> processor" where
  "new_processor P config = \<lparr>pr_parser = P, pr_tracker = with_config config, pr_stats = new_stats\<rparr>"

lemma thread_ok_new: "max_connections config < 2 ^ 64 \<Longrightarrow> processor_ok (new_processor P config)"
  by (simp add: processor_ok_def new_processor_def tracker_ok_new counters_balanced_def new_stats_def)
    (simp add: with_config_def)

context inspection
begin

lemma thread_ok_packet:
  assumes "small (cp_data f)" "processor_ok p"
  shows "processor_ok (process_packet X (E, h, f) p)"
proof (cases rule: process_packet_cases [of X E h f p])
  case 1
  with assms(2) show ?thesis by (simp add: processor_ok_def)
next
  case (2 x parser)
  from parsed_ok [OF assms(1) 2(1)] assms(2) show ?thesis
    by (simp add: processor_ok_def 2 tracker_ok_ingest balanced_ingest)
qed

lemma thread_ok_batch:
  assumes "list_all (\<lambda>(E, h, f). small (cp_data f)) batch" "processor_ok p"
  shows "processor_ok (process_batch X h batch p)"
proof -
  have "processor_ok (fold (process_packet X) batch q)" if "processor_ok q" for q
    using assms(1) that by (induction batch arbitrary: q) (auto simp: thread_ok_packet)
  from this [of "p\<lparr>pr_parser := snd (refresh_local_ips_if_due (hr_local_ips h) (hr_now h) (hr_later h)
      LOCAL_ADDRESS_REFRESH_INTERVAL (pr_parser p))\<rparr>"] assms(2)
  show ?thesis by (simp add: process_batch_def Let_def processor_ok_def counters_balanced_def)
qed

lemma thread_ok_batches:
  "list_all (\<lambda>(h, batch). list_all (\<lambda>(E, h, f). small (cp_data f)) batch) bs \<Longrightarrow> processor_ok p \<Longrightarrow>
    processor_ok (process_batches X bs p)"
  by (induction bs arbitrary: p) (auto simp: process_batches_def thread_ok_batch)

end

end
