(* ===== verification/Parser_Properties.thy ===== *)
theory Parser_Properties
  imports Frame_Laws Capture_Thread
begin

text \<open>
  What the parser of packets guarantees: no captured frame stops the processor threads or reaches
  the tracker malformed, frames of TCP over IPv4 and of UDP over IPv6 are read field by field,
  the link layers agree, the two directions of a flow meet in one connection, and fragments
  without a transport header are never read as one.
\<close>

section \<open>Sample frames\<close>

definition sample_inspector :: inspector where
  "sample_inspector = dpi_inspector 64 clear_crypto"

definition sample_parser :: packet_parser where
  "sample_parser = \<lparr>pp_local_ips = {V4 0x0A000001}, pp_last_local_ip_refresh = 0,
     pp_last_ambiguous_endpoint_refresh = None, pp_unchanged_ambiguous_refreshes = 0,
     pp_config = default_parser_config, pp_linktype = None, pp_oui_lookup = None\<rparr>"

text \<open>The opening of a connection from 10.0.0.1, with a timestamp option, padded as Ethernet does.\<close>

definition sample_syn :: bytes where
  "sample_syn = tcp_wire 40000 443 1000 0 2 64240 [0, 0, 0, 0] [8, 10, 0, 0, 0, 1, 0, 0, 0, 0, 1, 1] []"

definition sample_frame :: bytes where
  "sample_frame = ethernet_wire (replicate 12 2) None 0x0800 @
     ipv4_wire 0 7 2 64 6 0 0x0A000001 0x0A000002 [] sample_syn @ [0, 0]"

definition sample_reading :: host_reading where
  "sample_reading = \<lparr>hr_local_ips = {V4 0x0A000001}, hr_now = 0, hr_later = 0\<rparr>"

definition frames_small :: "(host_reading \<times> (track_env \<times> host_reading \<times> captured_packet) list) list \<Rightarrow> bool" where
  "frames_small bs = list_all (\<lambda>(h, batch). list_all (\<lambda>(E, h, f). small (cp_data f)) batch) bs"

section \<open>The processor threads\<close>

text \<open>
  C7. Whatever frames a processor thread takes from the capture, of less than 4 GiB each, no one
  stops it: the tracker is fed a sequence of packets, every one well formed, so that its
  invariant holds; and the statistics balance: connections created less connections archived
  are the active ones. That holds with any cryptography behind the QUIC parser.
\<close>

theorem frames_feed_tracker:
  assumes "max_connections config < 2 ^ 64" "frames_small bs"
    and "p = process_batches (dpi_inspector 64 K) bs (new_processor P config)"
  shows "(\<exists>ops. list_all op_ok ops \<and> list_all (\<lambda>op. \<exists>E x t. op = Ingest E x t) ops \<and>
      pr_tracker p = tracker_run ops (with_config config)) \<and>
    tracker_ok (pr_tracker p) \<and>
    st_connections_created (pr_stats p) - st_connections_archived (pr_stats p) = of_nat (length (tr_connections (pr_tracker p)))"
proof -
  have small: "list_all (\<lambda>(h, batch). list_all (\<lambda>(E, h, f). small (cp_data f)) batch) bs"
    using assms(2) by (simp add: frames_small_def)
  have "feeds (new_processor P config) p"
    unfolding assms(3) by (rule dpi.process_batches_feed [OF small])
  then obtain ps where ps: "list_all (\<lambda>(E, x, t). packet_ok x) ps"
      "pr_tracker p = tracker_run (map (\<lambda>(E, x, t). Ingest E x t) ps) (with_config config)"
    by (auto simp: feeds_def new_processor_def)
  have "processor_ok p"
    unfolding assms(3) by (rule dpi.thread_ok_batches [OF small thread_ok_new [OF assms(1)]])
  then have "tracker_ok (pr_tracker p)" "counters_balanced (pr_tracker p) (pr_stats p)" by (simp_all add: processor_ok_def)
  moreover from this(1) have "tr_active_count (pr_tracker p) = of_nat (length (tr_connections (pr_tracker p)))"
    by (auto simp: tracker_ok_def core_ok_def dest!: arg_cong [where f = "of_nat :: nat \<Rightarrow> u64"])
  moreover have "list_all op_ok (map (\<lambda>(E, x, t). Ingest E x t) ps)"
    using ps(1) by (auto simp: list_all_iff op_ok_def)
  moreover have "list_all (\<lambda>op. \<exists>E x t. op = Ingest E x t) (map (\<lambda>(E, x, t). Ingest E x t) ps)"
    by (auto simp: list_all_iff)
  ultimately show ?thesis using ps(2) by (auto simp: counters_balanced_def)
qed

lemma frames_feed_tracker_witness:
  "\<exists>p. p = process_batches sample_inspector
       [(sample_reading, [(sample_track, sample_reading, \<lparr>cp_data = sample_frame, cp_timestamp = 1000\<rparr>)])]
       (new_processor sample_parser default_config) \<and> tracker_ok (pr_tracker p)"
proof -
  have "frames_small [(sample_reading, [(sample_track, sample_reading, \<lparr>cp_data = sample_frame, cp_timestamp = 1000\<rparr>)])]"
    by (simp add: frames_small_def small_def sample_frame_def sample_syn_def ethernet_wire_def)
  moreover have "max_connections default_config < 2 ^ 64" by (simp add: default_config_def)
  ultimately show ?thesis
    using frames_feed_tracker [of default_config _ _ clear_crypto sample_parser] by (auto simp: sample_inspector_def)
qed

section \<open>Frames of TCP and UDP\<close>

text \<open>What Ethernet, with or without a VLAN tag, makes of the packet it conveys.\<close>

lemma parse_ethernet_frame:
  assumes "pp_linktype P = None \<or> pp_linktype P = Some 1" "length macs = 12" "is_ip ethertype"
  shows "parse_packet X P (ethernet_wire macs vlan ethertype @ d) =
    behind (if vlan = None then 14 else 18) (parse_ip X P ethertype d)"
  using assms(1) ethernet_payload [OF assms(2,3)] by (auto simp: parse_packet_def parse_by_dlt_def)

text \<open>The packet a transport header stands for, whose ends are told apart by the host's addresses.\<close>

definition flow_packet ::
  "ip_addr set \<Rightarrow> protocol \<Rightarrow> ip_addr \<Rightarrow> u16 \<Rightarrow> ip_addr \<Rightarrow> u16 \<Rightarrow> tcp_header option \<Rightarrow> protocol_state \<Rightarrow> nat \<Rightarrow>
     application_protocol option \<Rightarrow> parsed_packet" where
  "flow_packet ips proto src sp dst dp header state len dpi =
     \<lparr>pk_protocol = proto,
      pk_local_addr = (if src \<in> ips then new_socket_addr src sp else new_socket_addr dst dp),
      pk_remote_addr = (if src \<in> ips then new_socket_addr dst dp else new_socket_addr src sp),
      pk_tcp_header = header, pk_protocol_state = state, pk_is_outgoing = src \<in> ips,
      pk_packet_len = of_nat len, pk_dpi_result = dpi, pk_process_name = None, pk_process_id = None\<rparr>"

text \<open>The inspection of a payload, local port first.\<close>

definition inspected ::
  "(bytes \<Rightarrow> u16 \<Rightarrow> u16 \<Rightarrow> bool \<Rightarrow> application_protocol option option) \<Rightarrow> packet_parser \<Rightarrow> bytes \<Rightarrow>
     ip_addr \<Rightarrow> u16 \<Rightarrow> u16 \<Rightarrow> application_protocol option option" where
  "inspected f P payload src sp dp =
     (if pc_enable_dpi (pp_config P) \<and> payload \<noteq> []
      then if src \<in> pp_local_ips P then f payload sp dp True else f payload dp sp False
      else Some None)"

text \<open>
  C11. A TCP segment in an IPv4 packet in an Ethernet frame is read as it was sent: whatever the
  options of both headers, a VLAN tag, and the padding that follows in the frame, the parser
  reports its addresses, ports, sequence and acknowledgement numbers, window and flags, the
  length of its payload and of the packet; the local end is the source if the host has that
  address; and inspection gets exactly the payload, with the ports in the order of the ends.
\<close>

theorem ethernet_tcp_read:
  assumes "pp_linktype P = None \<or> pp_linktype P = Some 1" "length macs = 12"
    and "opts_ok ip_opts" "fl < 8" "opts_ok opts" "length sum_urg = 4"
    and "length ip_opts + length (tcp_wire sp dp seq ack bits window sum_urg opts payload) < 65516"
  shows "parse_packet X P (ethernet_wire macs vlan 0x0800 @
      ipv4_wire tos ident fl ttl 6 csum src dst ip_opts (tcp_wire sp dp seq ack bits window sum_urg opts payload) @ padding) =
    inspected (inspect_tcp X) P payload (V4 src) sp dp \<bind> (\<lambda>dpi.
      Some (Some (flow_packet (pp_local_ips P) Tcp (V4 src) sp (V4 dst) dp
        (Some \<lparr>th_seq = seq, th_ack = ack, th_window = window, th_flags = parse_tcp_flags bits,
               th_payload_len = of_nat (length payload)\<rparr>)
        (PS_Tcp Unknown)
        ((if vlan = None then 14 else 18) + 20 + length ip_opts +
           length (tcp_wire sp dp seq ack bits window sum_urg opts payload)) dpi)))"
proof -
  let ?seg = "tcp_wire sp dp seq ack bits window sum_urg opts payload"
  have e: "is_ip 0x0800" by (simp add: is_ip_def)
  have "parse_raw_ipv4_packet X P (ipv4_wire tos ident fl ttl 6 csum src dst ip_opts ?seg @ padding) None None =
      parse_tcp X ?seg \<lparr>tp_src_ip = V4 src, tp_dst_ip = V4 dst, tp_packet_len = 20 + length ip_opts + length ?seg,
        tp_process_name = None, tp_process_id = None\<rparr> (pp_config P) (pp_local_ips P)"
    using parse_ipv4_wire [OF assms(3,7,4), of X P tos ident ttl 6 csum src dst padding None None]
    by (simp add: dispatch_v4_def)
  then show ?thesis
    unfolding parse_ethernet_frame [OF assms(1,2) e] parse_tcp_wire [OF assms(6,5)]
    by (simp add: parse_ip_simps parse_tcp_wire [OF assms(6,5)] inspected_def orient_def flow_packet_def
        transport_packet_def behind_bind Let_def algebra_simps)
qed

lemma ethernet_tcp_read_witness:
  "parse_packet sample_inspector sample_parser sample_frame = Some (Some
     \<lparr>pk_protocol = Tcp, pk_local_addr = new_socket_addr (V4 0x0A000001) 40000,
      pk_remote_addr = new_socket_addr (V4 0x0A000002) 443,
      pk_tcp_header = Some \<lparr>th_seq = 1000, th_ack = 0, th_window = 64240,
        th_flags = parse_tcp_flags 2, th_payload_len = 0\<rparr>,
      pk_protocol_state = PS_Tcp Unknown, pk_is_outgoing = True, pk_packet_len = 66, pk_dpi_result = None,
      pk_process_name = None, pk_process_id = None\<rparr>)"
  unfolding sample_frame_def sample_syn_def
  by (subst ethernet_tcp_read) (simp_all add: sample_parser_def opts_ok_def inspected_def flow_packet_def)

text \<open>
  C20. A UDP datagram in an IPv6 packet is read as it was sent behind any chain of extension
  headers: hop-by-hop and destination options, routing headers, authentication headers, and a
  fragment header of a first or only fragment; and inspection gets exactly its payload.
\<close>

theorem ipv6_udp_read:
  assumes "pp_linktype P = None \<or> pp_linktype P = Some 1" "length macs = 12"
    and "length flow = 3" "class_bits < 16" "\<forall>h \<in> set headers. extension_ok h" "length len_sum = 4"
    and "length (chain_wire headers 17 @ udp_wire sp dp len_sum payload) < 65536"
  shows "parse_packet X P (ethernet_wire macs vlan 0x86dd @
      ipv6_wire class_bits flow (chain_next headers 17) hops src dst
        (chain_wire headers 17 @ udp_wire sp dp len_sum payload) @ padding) =
    inspected (inspect_udp X) P payload (V6 src) sp dp \<bind> (\<lambda>dpi.
      Some (Some (flow_packet (pp_local_ips P) Udp (V6 src) sp (V6 dst) dp None PS_Udp
        ((if vlan = None then 14 else 18) + 40 + length (chain_wire headers 17 @ udp_wire sp dp len_sum payload)) dpi)))"
proof -
  let ?seg = "udp_wire sp dp len_sum payload"
  have e: "is_ip 0x86dd" by (simp add: is_ip_def)
  have t: "\<not> is_extension 17" by (simp add: is_extension_def)
  have ne: "chain_wire headers 17 @ ?seg \<noteq> [] \<or> padding = []"
    using assms(6) by (auto simp: udp_wire_def dest: arg_cong [where f = length])
  have "parse_raw_ipv6_packet X P (ipv6_wire class_bits flow (chain_next headers 17) hops src dst
        (chain_wire headers 17 @ ?seg) @ padding) None None =
      parse_udp X ?seg \<lparr>tp_src_ip = V6 src, tp_dst_ip = V6 dst,
        tp_packet_len = 40 + length (chain_wire headers 17 @ ?seg),
        tp_process_name = None, tp_process_id = None\<rparr> (pp_config P) (pp_local_ips P)"
    using parse_ipv6_wire [OF assms(3,4,5) t assms(7) ne, of X P hops src dst None None]
    by (simp add: dispatch_v6_def)
  then show ?thesis
    unfolding parse_ethernet_frame [OF assms(1,2) e]
    by (cases "V6 src \<in> pp_local_ips P")
      (simp_all add: parse_ip_simps parse_udp_wire [OF assms(6)] inspected_def orient_def flow_packet_def
        transport_packet_def behind_bind Let_def algebra_simps)
qed

lemma ipv6_udp_read_witness:
  "parse_packet sample_inspector sample_parser (ethernet_wire (replicate 12 2) None 0x86dd @
      ipv6_wire 0 [0, 0, 0] 0 64 1 2 (chain_wire [(0, [0, 1, 4, 0, 0, 0, 0])] 17 @ udp_wire 1234 53 [0, 8, 0, 0] []) @ []) =
   Some (Some \<lparr>pk_protocol = Udp, pk_local_addr = new_socket_addr (V6 2) 53,
      pk_remote_addr = new_socket_addr (V6 1) 1234, pk_tcp_header = None, pk_protocol_state = PS_Udp,
      pk_is_outgoing = False, pk_packet_len = 70, pk_dpi_result = None, pk_process_name = None, pk_process_id = None\<rparr>)"
proof -
  have "chain_next [(0, [0, 1, 4, 0, 0, 0, 0])] 17 = 0" by simp
  with ipv6_udp_read [of sample_parser "replicate 12 2" "[0, 0, 0]" 0 "[(0, [0, 1, 4, 0, 0, 0, 0])]" "[0, 8, 0, 0]"
      1234 53 "[]" sample_inspector None 64 1 2 "[]"]
  show ?thesis by (simp add: sample_parser_def extension_ok_def inspected_def flow_packet_def udp_wire_def)
qed

section \<open>Link layers\<close>

lemma dispatch_linktype [simp]:
  "dispatch_v4 X (P\<lparr>pp_linktype := l\<rparr>) = dispatch_v4 X P" "dispatch_v6 X (P\<lparr>pp_linktype := l\<rparr>) = dispatch_v6 X P"
  by (simp_all add: fun_eq_iff dispatch_v4_def dispatch_v6_def)

lemma parse_raw_linktype [simp]:
  "parse_raw_ipv4_packet X (P\<lparr>pp_linktype := l\<rparr>) = parse_raw_ipv4_packet X P"
  "parse_raw_ipv6_packet X (P\<lparr>pp_linktype := l\<rparr>) = parse_raw_ipv6_packet X P"
  by (simp_all add: fun_eq_iff parse_raw_ipv4_packet_def parse_raw_ipv6_packet_def cong: if_cong option.case_cong)

lemma parse_ip_linktype [simp]: "parse_ip X (P\<lparr>pp_linktype := l\<rparr>) = parse_ip X P"
  by (simp add: fun_eq_iff parse_ip_def)

text \<open>
  C18. The link layers agree. Whatever bytes an IP packet consists of, a capture on Ethernet
  (tagged or not), on the Linux cooked devices of both versions, on a tunnel and on the loopback
  of BSD gives the same result for it; only the number of bytes counted includes the header of
  Ethernet.
\<close>

theorem link_layers_agree:
  assumes "is_ip ethertype" "d \<noteq> []" "drop_bit 4 (hd d) = version_of ethertype"
    and "length macs = 12" "length head = 14" "length rest = 18" "length family = 4"
  shows "parse_packet X (P\<lparr>pp_linktype := Some 1\<rparr>) (ethernet_wire macs vlan ethertype @ d) =
      behind (if vlan = None then 14 else 18) (parse_packet X (P\<lparr>pp_linktype := Some 12\<rparr>) d) \<and>
    parse_packet X (P\<lparr>pp_linktype := Some 113\<rparr>) (sll_wire head ethertype @ d) = parse_packet X (P\<lparr>pp_linktype := Some 12\<rparr>) d \<and>
    parse_packet X (P\<lparr>pp_linktype := Some 276\<rparr>) (sll2_wire rest ethertype @ d) = parse_packet X (P\<lparr>pp_linktype := Some 12\<rparr>) d \<and>
    parse_packet X (P\<lparr>pp_linktype := Some 101\<rparr>) d = parse_packet X (P\<lparr>pp_linktype := Some 12\<rparr>) d \<and>
    parse_packet X (P\<lparr>pp_linktype := Some 0\<rparr>) (family @ d) = parse_packet X (P\<lparr>pp_linktype := Some 12\<rparr>) d"
proof -
  have "parse_packet X (P\<lparr>pp_linktype := Some 12\<rparr>) d = parse_ip X P ethertype d"
    using raw_payload [OF assms(2,3,1), of X "P\<lparr>pp_linktype := Some 12\<rparr>"] by (simp add: parse_packet_def parse_by_dlt_def)
  moreover have "parse_packet X (P\<lparr>pp_linktype := Some 1\<rparr>) (ethernet_wire macs vlan ethertype @ d) =
      behind (if vlan = None then 14 else 18) (parse_ip X P ethertype d)"
    using parse_ethernet_frame [of "P\<lparr>pp_linktype := Some 1\<rparr>"] assms(1,4) by simp
  moreover have "parse_packet X (P\<lparr>pp_linktype := Some 113\<rparr>) (sll_wire head ethertype @ d) = parse_ip X P ethertype d"
    using sll_payload [OF assms(5,1)] by (simp add: parse_packet_def)
  moreover have "parse_packet X (P\<lparr>pp_linktype := Some 276\<rparr>) (sll2_wire rest ethertype @ d) = parse_ip X P ethertype d"
    using sll2_payload [OF assms(6,1)] by (simp add: parse_packet_def)
  moreover have "parse_packet X (P\<lparr>pp_linktype := Some 101\<rparr>) d = parse_ip X P ethertype d"
    using raw_payload [OF assms(2,3,1), of X "P\<lparr>pp_linktype := Some 101\<rparr>"] by (simp add: parse_packet_def parse_by_dlt_def)
  moreover have "parse_packet X (P\<lparr>pp_linktype := Some 0\<rparr>) (family @ d) = parse_ip X P ethertype d"
    using raw_payload [OF assms(2,3,1), of X "P\<lparr>pp_linktype := Some 0\<rparr>"] assms(7)
    by (simp add: parse_packet_def parse_by_dlt_def slice_from_append)
  ultimately show ?thesis by simp
qed

lemma link_layers_agree_witness:
  "parse_packet sample_inspector (sample_parser\<lparr>pp_linktype := Some 113\<rparr>) (sll_wire (replicate 14 0) 0x0800 @ [0x45]) =
   parse_packet sample_inspector (sample_parser\<lparr>pp_linktype := Some 12\<rparr>) [0x45]"
  using link_layers_agree [where ethertype = "0x0800" and d = "[0x45]" and macs = "replicate 12 0" and
      head = "replicate 14 0" and rest = "replicate 18 0" and family = "replicate 4 0" and
      X = sample_inspector and P = sample_parser]
  by (simp add: is_ip_def version_of_def)

section \<open>Directions\<close>

text \<open>
  What a frame of Ethernet conveys: a segment of TCP or a datagram of UDP from one end to another, in
  IPv4 or IPv6, whatever else is in the headers, with a VLAN tag or without.
\<close>

inductive transports :: "protocol \<Rightarrow> u8 \<Rightarrow> u16 \<Rightarrow> u16 \<Rightarrow> bytes \<Rightarrow> bool" where
  segment_tcp: "length sum_urg = 4 \<Longrightarrow> opts_ok opts \<Longrightarrow>
    transports Tcp 6 sp dp (tcp_wire sp dp seq ack bits window sum_urg opts payload)"
| segment_udp: "length len_sum = 4 \<Longrightarrow> transports Udp 17 sp dp (udp_wire sp dp len_sum payload)"

inductive conveys :: "bytes \<Rightarrow> protocol \<Rightarrow> ip_addr \<Rightarrow> u16 \<Rightarrow> ip_addr \<Rightarrow> u16 \<Rightarrow> bool" where
  carries_v4: "length macs = 12 \<Longrightarrow> opts_ok ip_opts \<Longrightarrow> fl < 8 \<Longrightarrow> length ip_opts + length segment < 65516 \<Longrightarrow>
    transports pr n sp dp segment \<Longrightarrow>
    conveys (ethernet_wire macs vlan 0x0800 @ ipv4_wire tos ident fl ttl n csum src dst ip_opts segment @ padding)
      pr (V4 src) sp (V4 dst) dp"
| carries_v6: "length macs = 12 \<Longrightarrow> length flow = 3 \<Longrightarrow> class_bits < 16 \<Longrightarrow> \<forall>h \<in> set headers. extension_ok h \<Longrightarrow>
    length (chain_wire headers n @ segment) < 65536 \<Longrightarrow> transports pr n sp dp segment \<Longrightarrow>
    conveys (ethernet_wire macs vlan 0x86dd @ ipv6_wire class_bits flow (chain_next headers n) hops src dst
        (chain_wire headers n @ segment) @ padding)
      pr (V6 src) sp (V6 dst) dp"

definition direction_key :: "ip_addr set \<Rightarrow> protocol \<Rightarrow> ip_addr \<Rightarrow> u16 \<Rightarrow> ip_addr \<Rightarrow> u16 \<Rightarrow> connection_key" where
  "direction_key ips pr src sp dst dp =
     (if src \<in> ips then \<lparr>cn_protocol = pr, cn_local = new_socket_addr src sp, cn_remote = new_socket_addr dst dp\<rparr>
      else \<lparr>cn_protocol = pr, cn_local = new_socket_addr dst dp, cn_remote = new_socket_addr src sp\<rparr>)"

lemma segment_key:
  assumes "transports pr n sp dp d"
    and "dispatch_v4 X P n d ps = Some (Some p) \<or> dispatch_v6 X P n d ps = Some (Some p)"
  shows "packet_key p = direction_key (pp_local_ips P) pr (tp_src_ip ps) sp (tp_dst_ip ps) dp"
    and "pk_is_outgoing p \<longleftrightarrow> tp_src_ip ps \<in> pp_local_ips P"
  using assms
  by (auto simp: dispatch_v4_def dispatch_v6_def parse_tcp_wire parse_udp_wire orient_def packet_key_def direction_key_def
      Option.bind_eq_Some_conv Let_def elim!: transports.cases split: if_splits)

lemma behind_key:
  "behind n m = Some (Some p) \<Longrightarrow>
    \<exists>q. m = Some (Some q) \<and> packet_key p = packet_key q \<and> pk_is_outgoing p = pk_is_outgoing q"
  by (cases m rule: option.exhaust) (auto simp: behind_def packet_key_def)

lemma carried_key:
  assumes "pp_linktype P = None \<or> pp_linktype P = Some 1" "conveys f pr src sp dst dp"
    and "parse_packet X P f = Some (Some p)"
  shows "packet_key p = direction_key (pp_local_ips P) pr src sp dst dp \<and> (pk_is_outgoing p \<longleftrightarrow> src \<in> pp_local_ips P)"
  using assms(2)
proof cases
  case (carries_v4 macs ip_opts fl segment n vlan tos ident ttl csum src4 dst4 padding)
  have e: "is_ip 0x0800" by (simp add: is_ip_def)
  obtain q where q: "parse_raw_ipv4_packet X P (ipv4_wire tos ident fl ttl n csum src4 dst4 ip_opts segment @ padding)
      None None = Some (Some q)" "packet_key p = packet_key q" "pk_is_outgoing p = pk_is_outgoing q"
    using assms(3) behind_key unfolding carries_v4(1) parse_ethernet_frame [OF assms(1) carries_v4(4) e] parse_ip_simps
    by blast
  from q(1) segment_key [OF carries_v4(8)] show ?thesis
    unfolding parse_ipv4_wire [OF carries_v4(5,7,6)] q(2,3) carries_v4(2,3) by fastforce
next
  case (carries_v6 macs flow class_bits headers n segment vlan hops src6 dst6 padding)
  have e: "is_ip 0x86dd" by (simp add: is_ip_def)
  have n: "\<not> is_extension n" "chain_wire headers n @ segment \<noteq> [] \<or> padding = []"
    using carries_v6(9) by (auto simp: is_extension_def tcp_wire_def udp_wire_def elim!: transports.cases
        dest: arg_cong [where f = length])
  obtain q where q: "parse_raw_ipv6_packet X P (ipv6_wire class_bits flow (chain_next headers n) hops src6 dst6
        (chain_wire headers n @ segment) @ padding) None None = Some (Some q)"
      "packet_key p = packet_key q" "pk_is_outgoing p = pk_is_outgoing q"
    using assms(3) behind_key unfolding carries_v6(1) parse_ethernet_frame [OF assms(1) carries_v6(4) e] parse_ip_simps
    by blast
  from q(1) segment_key [OF carries_v6(9)] show ?thesis
    unfolding parse_ipv6_wire [OF carries_v6(5,6,7) n(1) carries_v6(8) n(2)] q(2,3) carries_v6(2,3) by fastforce
qed

text \<open>
  C14. The two directions of a flow are one connection. If exactly one end has an address of the
  host, a TCP segment or UDP datagram from one end to the other and one back, over IPv4 or IPv6 on
  Ethernet and whatever else they carry, have the same connection key, one is outgoing and the other
  not, and the local end of the key is the host's. If both ends are the host's or neither is, each
  direction has its own key, the other's mirror image, and both count as outgoing in the first
  case and as incoming in the second.
\<close>

theorem directions_meet:
  assumes "pp_linktype P = None \<or> pp_linktype P = Some 1"
    and "conveys f pr a sp b dp" "conveys g pr b dp a sp"
    and "parse_packet X P f = Some (Some p)" "parse_packet X P g = Some (Some q)"
  shows "((a \<in> pp_local_ips P) \<noteq> (b \<in> pp_local_ips P) \<longrightarrow>
      packet_key p = packet_key q \<and> pk_is_outgoing p \<noteq> pk_is_outgoing q \<and>
      (a \<in> pp_local_ips P \<longrightarrow> cn_local (packet_key p) = new_socket_addr a sp) \<and>
      (b \<in> pp_local_ips P \<longrightarrow> cn_local (packet_key p) = new_socket_addr b dp)) \<and>
    ((a \<in> pp_local_ips P) = (b \<in> pp_local_ips P) \<longrightarrow>
      cn_local (packet_key p) = cn_remote (packet_key q) \<and> cn_remote (packet_key p) = cn_local (packet_key q) \<and>
      (pk_is_outgoing p \<longleftrightarrow> a \<in> pp_local_ips P) \<and> (pk_is_outgoing q \<longleftrightarrow> a \<in> pp_local_ips P))"
  using carried_key [OF assms(1,2,4)] carried_key [OF assms(1,3,5)] by (auto simp: direction_key_def)

definition sample_datagram :: "ipv4 \<Rightarrow> u16 \<Rightarrow> ipv4 \<Rightarrow> u16 \<Rightarrow> bytes" where
  "sample_datagram src sp dst dp = ethernet_wire (replicate 12 0) None 0x0800 @
     ipv4_wire 0 0 2 64 17 0 src dst [] (udp_wire sp dp [0, 8, 0, 0] []) @ replicate 18 0"

lemma sample_datagram_carries: "conveys (sample_datagram src sp dst dp) Udp (V4 src) sp (V4 dst) dp"
  unfolding sample_datagram_def
  by (rule carries_v4 [OF _ _ _ _ segment_udp]) (simp_all add: opts_ok_def udp_wire_def)

lemma sample_datagram_read: "\<exists>p. parse_packet X sample_parser (sample_datagram src sp dst dp) = Some (Some p)"
proof -
  have e: "is_ip 0x0800" and s: "length (udp_wire sp dp [0, 8, 0, 0] []) = 8" by (simp_all add: is_ip_def udp_wire_def)
  have "parse_raw_ipv4_packet X sample_parser (ipv4_wire 0 0 2 64 17 0 src dst [] (udp_wire sp dp [0, 8, 0, 0] []) @
      replicate 18 0) None None = dispatch_v4 X sample_parser 17 (udp_wire sp dp [0, 8, 0, 0] [])
        \<lparr>tp_src_ip = V4 src, tp_dst_ip = V4 dst, tp_packet_len = 28, tp_process_name = None, tp_process_id = None\<rparr>"
    by (subst parse_ipv4_wire) (simp_all add: opts_ok_def s)
  then show ?thesis
    unfolding sample_datagram_def
    by (subst parse_ethernet_frame)
      (simp_all add: sample_parser_def e parse_ip_simps dispatch_v4_def parse_udp_wire Let_def)
qed

lemma directions_meet_witness:
  "(case (parse_packet sample_inspector sample_parser (sample_datagram 0x0A000001 40000 0x0A000002 443),
      parse_packet sample_inspector sample_parser (sample_datagram 0x0A000002 443 0x0A000001 40000)) of
     (Some (Some p), Some (Some q)) \<Rightarrow> packet_key p = packet_key q | _ \<Rightarrow> False)"
proof -
  obtain p q where r: "parse_packet sample_inspector sample_parser (sample_datagram 0x0A000001 40000 0x0A000002 443) = Some (Some p)"
    "parse_packet sample_inspector sample_parser (sample_datagram 0x0A000002 443 0x0A000001 40000) = Some (Some q)"
    using sample_datagram_read by blast
  have "pp_linktype sample_parser = None \<or> pp_linktype sample_parser = Some 1" by (simp add: sample_parser_def)
  from directions_meet [OF this sample_datagram_carries sample_datagram_carries r] r show ?thesis
    by (simp add: sample_parser_def)
qed

section \<open>Fragments\<close>

text \<open>
  C25. A fragment that is not the first of its packet has no transport header, and is not read as
  if it had one: the parser ignores it, whatever its bytes, in IPv4 by the offset in the header,
  in IPv6 wherever the fragment header is in a chain of extension headers.
\<close>

theorem fragments_not_read:
  assumes "pp_linktype P = None \<or> pp_linktype P = Some 1" "length macs = 12"
  shows "(20 \<le> length d \<and> rd16 Big [d ! 6, d ! 7] AND 0x1FFF \<noteq> 0 \<longrightarrow>
      parse_packet X P (ethernet_wire macs vlan 0x0800 @ d) = Some None) \<and>
    (length flow = 3 \<and> class_bits < 16 \<and> (\<forall>h \<in> set headers. extension_ok h) \<and>
      length body = 7 \<and> drop_bit 3 (rd16 Big [body ! 1, body ! 2]) \<noteq> 0 \<and>
      length (chain_wire headers 44 @ n # body @ payload) < 65536 \<longrightarrow>
      parse_packet X P (ethernet_wire macs vlan 0x86dd @ ipv6_wire class_bits flow (chain_next headers 44) hops src dst
        (chain_wire headers 44 @ n # body @ payload) @ padding) = Some None)"
proof (intro conjI impI)
  have e: "is_ip 0x0800" "is_ip 0x86dd" by (simp_all add: is_ip_def)
  assume "20 \<le> length d \<and> rd16 Big [d ! 6, d ! 7] AND 0x1FFF \<noteq> 0"
  moreover from this have "byte_at d 0 = Some (d ! 0)" "be16_at d 2 = Some (rd16 Big [d ! 2, d ! 3])"
      "be16_at d 6 = Some (rd16 Big [d ! 6, d ! 7])"
    using take_nths(1) [of 2 d] take_nths(1) [of 6 d] by (auto simp: be16_at_in byte_at_def)
  ultimately have "parse_raw_ipv4_packet X P d None None = Some None"
    by (simp add: parse_raw_ipv4_packet_def Let_def)
  then show "parse_packet X P (ethernet_wire macs vlan 0x0800 @ d) = Some None"
    by (simp add: parse_ethernet_frame [OF assms e(1)] parse_ip_simps)
next
  have e: "is_ip 0x86dd" by (simp_all add: is_ip_def)
  let ?p = "chain_wire headers 44 @ n # body @ payload"
  assume a: "length flow = 3 \<and> class_bits < 16 \<and> (\<forall>h \<in> set headers. extension_ok h) \<and>
      length body = 7 \<and> drop_bit 3 (rd16 Big [body ! 1, body ! 2]) \<noteq> 0 \<and> length ?p < 65536"
  have "parse_ipv6_extension_headers (chain_next headers 44) ?p = Some None"
    using walk_fragment [of headers body "[]" n payload] a by (simp add: parse_ipv6_extension_headers_def)
  moreover have "(if (of_nat (length ?p) :: u16) = 0 then Some (?p @ padding)
     else slice_to (?p @ padding) (min (unat (of_nat (length ?p) :: u16)) (length (?p @ padding)))) = Some ?p"
    using a by (intro ipv6_payload_length) simp_all
  ultimately have "parse_raw_ipv6_packet X P
      (ipv6_wire class_bits flow (chain_next headers 44) hops src dst ?p @ padding) None None = Some None"
    using ipv6_fields [OF _ _ refl, of flow class_bits "chain_next headers 44" hops src dst ?p padding] a
    unfolding parse_raw_ipv6_packet_def
    by (simp only: version6 Let_def bind.bind_lunit option.case if_False if_True simp_thms not_less [symmetric])
  then show "parse_packet X P (ethernet_wire macs vlan 0x86dd @ ipv6_wire class_bits flow (chain_next headers 44) hops src dst
        ?p @ padding) = Some None"
    by (simp add: parse_ethernet_frame [OF assms e] parse_ip_simps)
qed

lemma fragments_not_read_witness:
  "parse_packet sample_inspector sample_parser (ethernet_wire (replicate 12 0) None 0x0800 @
      [0x45, 0, 0, 20, 0, 7, 0, 1, 64, 6, 0, 0, 0, 0, 0, 1, 0, 0, 0, 2]) = Some None"
  using conjunct1 [OF fragments_not_read [where P = sample_parser and X = sample_inspector and macs = "replicate 12 0" and
      vlan = None and d = "[0x45, 0, 0, 20, 0, 7, 0, 1, 64, 6, 0, 0, 0, 0, 0, 1, 0, 0, 0, 2]"]]
  by (simp add: sample_parser_def rd16_def dec_def)

end
