(* ===== verification/Dns_Wire.thy ===== *)
theory Dns_Wire
  imports Dpi_Safety Wire_Formats
begin

text \<open>
  DNS messages as they are sent (RFC 1035): names with or without compression, one question, and
  resource records; and that inspection reads them back. Also the bounds on what it reports for
  arbitrary bytes.
\<close>

section \<open>Messages\<close>

definition label_ok :: "bytes \<Rightarrow> bool" where
  "label_ok l \<longleftrightarrow> l \<noteq> [] \<and> length l < 64 \<and> (\<forall>b \<in> set l. unat b < 0x80)"

definition labels_wire :: "bytes list \<Rightarrow> bytes" where
  "labels_wire ls = concat (map (\<lambda>l. of_nat (length l) # l) ls)"

definition dns_text :: "bytes list \<Rightarrow> unicode" where
  "dns_text ls = join [46] (map (map unat) ls)"

text \<open>A name of a record: labels, then the root or a pointer to the rest.\<close>

type_synonym dns_owner = "bytes list \<times> (byte \<times> byte) option"

definition owner_wire :: "dns_owner \<Rightarrow> bytes" where
  "owner_wire n = labels_wire (fst n) @ (case snd n of None \<Rightarrow> [0] | Some (hi, lo) \<Rightarrow> [hi, lo])"

definition owner_ok :: "dns_owner \<Rightarrow> bool" where
  "owner_ok n \<longleftrightarrow> list_all label_ok (fst n) \<and> (case snd n of None \<Rightarrow> True | Some (hi, lo) \<Rightarrow> hi AND 0xC0 = 0xC0)"

record dns_record =
  rr_owner :: dns_owner
  rr_type :: u16
  rr_class_ttl :: bytes
  rr_data :: bytes

definition record_wire :: "dns_record \<Rightarrow> bytes" where
  "record_wire r = owner_wire (rr_owner r) @ wr16 Big (rr_type r) @ rr_class_ttl r @
     wr16 Big (of_nat (length (rr_data r))) @ rr_data r"

definition record_ok :: "dns_record \<Rightarrow> bool" where
  "record_ok r \<longleftrightarrow> owner_ok (rr_owner r) \<and> length (rr_class_ttl r) = 6 \<and> length (rr_data r) < 65536"

definition record_address :: "dns_record \<Rightarrow> ip_addr option" where
  "record_address r =
     (if rr_type r = 1 \<and> length (rr_data r) = 4 then Some (V4 (rd32 Big (rr_data r)))
      else if rr_type r = 28 \<and> length (rr_data r) = 16 then Some (V6 (word_of_nat (dec Big (rr_data r))))
      else None)"

definition addresses :: "dns_record list \<Rightarrow> ip_addr list" where
  "addresses rs = List.map_filter record_address rs"

definition records_wire :: "dns_record list \<Rightarrow> bytes" where
  "records_wire rs = concat (map record_wire rs)"

definition dns_wire ::
  "bytes \<Rightarrow> u16 \<Rightarrow> bytes list \<Rightarrow> u16 \<Rightarrow> bytes \<Rightarrow> dns_record list \<Rightarrow> u16 \<Rightarrow> u16 \<Rightarrow> bytes \<Rightarrow> bytes" where
  "dns_wire ident flags name qtype qclass answers nscount arcount others =
     ident @ wr16 Big flags @ wr16 Big 1 @ wr16 Big (of_nat (length answers)) @ wr16 Big nscount @ wr16 Big arcount @
     labels_wire name @ [0] @ wr16 Big qtype @ qclass @ records_wire answers @ others"

section \<open>Names\<close>

lemma and_C0_small: "unat (b :: byte) < 64 \<Longrightarrow> b AND 0xC0 = 0"
proof -
  assume "unat b < 64"
  then have "b = take_bit 6 b"
    by (simp add: word_unat_eq_iff unsigned_take_bit_eq take_bit_nat_eq_self)
  then have "b AND 0xC0 = b AND (mask 6 AND 0xC0)"
    by (metis and.assoc take_bit_eq_mask)
  also have "mask 6 AND (0xC0 :: byte) = 0" by (simp add: mask_eq_exp_minus_1)
  finally show ?thesis by simp
qed

lemma label_len:
  assumes "label_ok l"
  shows "unat (of_nat (length l) :: byte) = length l" "(of_nat (length l) :: byte) \<noteq> 0"
    "(of_nat (length l) :: byte) AND 0xC0 = 0"
proof -
  show u: "unat (of_nat (length l) :: byte) = length l" using assms by (simp add: label_ok_def)
  then have "unat (of_nat (length l) :: byte) \<noteq> 0" using assms by (simp add: label_ok_def)
  then show "(of_nat (length l) :: byte) \<noteq> 0" by auto
  show "(of_nat (length l) :: byte) AND 0xC0 = 0"
    using u assms by (intro and_C0_small) (simp add: label_ok_def)
qed

lemma labels_wire_simps [simp]:
  "labels_wire [] = []" "labels_wire (l # ls) = of_nat (length l) # l @ labels_wire ls"
  by (simp_all add: labels_wire_def)

lemma byte_at_mid [simp]: "byte_at (pre @ b # rest) (length pre) = Some b"
  by (simp add: byte_at_def)

lemma skip_labels:
  "list_all label_ok ls \<Longrightarrow>
    skip_name_loop (pre @ labels_wire ls @ rest) (length pre) h =
    skip_name_loop (pre @ labels_wire ls @ rest) (length pre + length (labels_wire ls)) h"
proof (induction ls arbitrary: pre)
  case (Cons l ls)
  then have l: "label_ok l" by simp
  let ?p = "pre @ of_nat (length l) # l @ labels_wire ls @ rest"
  have "skip_name_loop ?p (length pre) h = skip_name_loop ?p (length (pre @ of_nat (length l) # l)) h"
    by (subst skip_name_loop.simps) (simp add: label_len [OF l])
  also have "\<dots> = skip_name_loop ?p (length (pre @ of_nat (length l) # l) + length (labels_wire ls)) h"
    using Cons.IH [of "pre @ of_nat (length l) # l"] Cons.prems by simp
  finally show ?case by (simp add: add.assoc)
qed simp

lemma skip_owner:
  assumes "owner_ok n"
  shows "skip_dns_name (pre @ owner_wire n @ rest) (length pre) = Some (Some (length pre + length (owner_wire n)))"
proof -
  obtain ls ptr where n: "n = (ls, ptr)" by (cases n)
  let ?q = "pre @ labels_wire ls"
  have ls: "list_all label_ok ls" using assms by (simp add: owner_ok_def n)
  have "skip_name_loop (?q @ tl) (length ?q) 0 = Some (Some (length ?q + length root))"
    if "tl = root @ rest" "root = (case ptr of None \<Rightarrow> [0] | Some (hi, lo) \<Rightarrow> [hi, lo])" for tl root
    using that assms
    by (subst skip_name_loop.simps)
      (auto simp: owner_ok_def n MAX_NAME_POINTER_HOPS_def byte_at_def nth_append split: option.splits prod.splits)
  then show ?thesis
    using skip_labels [OF ls, of pre "(case ptr of None \<Rightarrow> [0] | Some (hi, lo) \<Rightarrow> [hi, lo]) @ rest" 0]
    by (simp add: skip_dns_name_def owner_wire_def n)
qed

section \<open>Questions\<close>

lemma from_utf8_label: "label_ok l \<Longrightarrow> from_utf8 l = Some (map unat l)"
  by (simp add: label_ok_def from_utf8_ascii)

lemma push_label_text: "label_ok l \<Longrightarrow> push_label name l = (if name = [] then [] else name @ [46]) @ map unat l"
  by (simp add: push_label_def from_utf8_label)

text \<open>A name so far, extended by more labels.\<close>

definition extend_name :: "unicode \<Rightarrow> bytes list \<Rightarrow> unicode" where
  "extend_name name ls = fold (\<lambda>l n. push_label n l) ls name"

lemma str_len_push: "label_ok l \<Longrightarrow> str_len name < str_len (push_label name l)"
  by (auto simp: push_label_text label_ok_def str_len_ascii)

lemma str_len_extend: "list_all label_ok ls \<Longrightarrow> str_len name \<le> str_len (extend_name name ls)"
proof (induction ls arbitrary: name)
  case (Cons l ls)
  with str_len_push [of l name] Cons.IH [of "push_label name l"] show ?case
    by (simp add: extend_name_def) (meson less_imp_le order_trans)
qed (simp add: extend_name_def)

lemma question_name_wire:
  "list_all label_ok ls \<Longrightarrow> str_len (extend_name name ls) \<le> MAX_DNS_NAME_LEN \<Longrightarrow>
    question_name (pre @ labels_wire ls @ 0 # rest) (length pre) name False =
    Some (extend_name name ls, length pre + length (labels_wire ls) + 1)"
proof (induction ls arbitrary: pre name)
  case Nil
  then show ?case by (subst question_name.simps) (simp add: extend_name_def)
next
  case (Cons l ls)
  then have l: "label_ok l" by simp
  let ?p = "pre @ of_nat (length l) # l @ labels_wire ls @ 0 # rest"
  have e: "extend_name name (l # ls) = extend_name (push_label name l) ls" by (simp add: extend_name_def)
  have short: "\<not> str_len (push_label name l) > MAX_DNS_NAME_LEN"
    using str_len_extend [of ls "push_label name l"] Cons.prems e by simp
  have "subslice ?p (length pre + 1) (length pre + 1 + length l) = Some l"
    by (simp add: subslice_def)
  then have "question_name ?p (length pre) name False =
      question_name ?p (length (pre @ of_nat (length l) # l)) (push_label name l) False"
    using short by (subst question_name.simps) (simp add: label_len [OF l])
  also have "\<dots> = Some (extend_name (push_label name l) ls,
      length (pre @ of_nat (length l) # l) + length (labels_wire ls) + 1)"
    using Cons.IH [of "push_label name l" "pre @ of_nat (length l) # l"] Cons.prems e by simp
  finally show ?case by (simp add: e)
qed

lemma join_snoc: "ls \<noteq> [] \<Longrightarrow> join sep (ls @ [l]) = join sep ls @ sep @ l"
  by (induction sep ls rule: join.induct) auto

lemma join_empty: "join sep ls = [] \<Longrightarrow> list_all (\<lambda>l. l \<noteq> []) ls \<Longrightarrow> ls = []"
  by (induction sep ls rule: join.induct) auto

lemma extend_name_text: "list_all label_ok ls \<Longrightarrow> extend_name [] ls = dns_text ls"
proof (induction ls rule: rev_induct)
  case (snoc l ls)
  then have l: "label_ok l" and ls: "list_all label_ok ls" by simp_all
  have "dns_text ls = [] \<longleftrightarrow> ls = []"
    using join_empty [of "[46]" "map (map unat) ls"] ls
    by (auto simp: dns_text_def list_all_iff label_ok_def)
  with snoc.IH [OF ls] l show ?case
    by (auto simp: extend_name_def push_label_text dns_text_def join_snoc)
qed (simp add: extend_name_def dns_text_def)

section \<open>Records\<close>

lemma length_record_wire:
  "record_ok r \<Longrightarrow> length (record_wire r) = length (owner_wire (rr_owner r)) + 10 + length (rr_data r)"
  by (simp add: record_wire_def record_ok_def)

lemma records_wire_simps [simp]:
  "records_wire [] = []" "records_wire (r # rs) = record_wire r @ records_wire rs"
  "records_wire (rs @ ss) = records_wire rs @ records_wire ss"
  by (simp_all add: records_wire_def)

lemma addresses_simps [simp]:
  "addresses [] = []"
  "addresses (r # rs) = (case record_address r of Some a \<Rightarrow> a # addresses rs | None \<Rightarrow> addresses rs)"
  "addresses (rs @ ss) = addresses rs @ addresses ss"
  by (simp_all add: addresses_def List.map_filter_simps split: option.split)
    (induction rs; simp add: List.map_filter_simps split: option.split)

text \<open>One record, at the offset where it begins.\<close>

lemma record_fields:
  fixes pre :: bytes
  assumes "record_ok r"
  defines "after \<equiv> length pre + length (owner_wire (rr_owner r))"
  shows "skip_dns_name (pre @ record_wire r @ rest) (length pre) = Some (Some after)"
    and "be16_at (pre @ record_wire r @ rest) after = Some (rr_type r)"
    and "be16_at (pre @ record_wire r @ rest) (after + 8) = Some (of_nat (length (rr_data r)))"
    and "length (pre @ record_wire r @ rest) = after + 10 + length (rr_data r) + length rest"
    and "drop (after + 10) (pre @ record_wire r @ rest) = rr_data r @ rest"
proof -
  have ct: "length (rr_class_ttl r) = 6" and ow: "owner_ok (rr_owner r)"
    using assms(1) by (simp_all add: record_ok_def)
  show "skip_dns_name (pre @ record_wire r @ rest) (length pre) = Some (Some after)"
    using skip_owner [OF ow, of pre] by (simp add: record_wire_def after_def)
  have drop: "drop (after + k) (pre @ record_wire r @ rest) =
      drop k (wr16 Big (rr_type r) @ rr_class_ttl r @ wr16 Big (of_nat (length (rr_data r))) @ rr_data r @ rest)" for k
    by (simp add: record_wire_def after_def)
  show l: "length (pre @ record_wire r @ rest) = after + 10 + length (rr_data r) + length rest"
    using length_record_wire [OF assms(1)] by (simp add: after_def)
  show "drop (after + 10) (pre @ record_wire r @ rest) = rr_data r @ rest"
    by (simp only: drop) (simp add: ct)
  have at: "after + 0 + 1 < length (pre @ record_wire r @ rest)" "after + 8 + 1 < length (pre @ record_wire r @ rest)"
    using l by simp_all
  show "be16_at (pre @ record_wire r @ rest) after = Some (rr_type r)"
    using be16_at_in [OF at(1), unfolded drop] by simp
  show "be16_at (pre @ record_wire r @ rest) (after + 8) = Some (of_nat (length (rr_data r)))"
    using be16_at_in [OF at(2), unfolded drop] by (simp add: ct)
qed

lemma data_len: "record_ok r \<Longrightarrow> unat (of_nat (length (rr_data r)) :: u16) = length (rr_data r)"
  by (simp add: record_ok_def unat_of_nat)

lemma collect_ip_wire:
  assumes "drop i d = rr_data r @ rest" "i + length (rr_data r) \<le> length d" "length ips \<le> MAX_RESPONSE_IPS_PER_PACKET"
  shows "collect_ip d (rr_type r) i (length (rr_data r)) ips =
    Some (take MAX_RESPONSE_IPS_PER_PACKET (ips @ (case record_address r of Some a \<Rightarrow> [a] | None \<Rightarrow> [])))"
  using assms by (auto simp: collect_ip_def record_address_def ipv4_at_in ipv6_at_in)

lemma take_take_append: "take n (take n xs @ ys) = take n (xs @ ys)"
  by (cases "n \<le> length xs") auto

lemma walk_records_wire:
  assumes "list_all record_ok rs" "length ips \<le> MAX_RESPONSE_IPS_PER_PACKET"
  shows "walk_records (pre @ records_wire rs @ rest) (length pre) (length rs) ips =
    Some (length pre + length (records_wire rs), take MAX_RESPONSE_IPS_PER_PACKET (ips @ addresses rs))"
  using assms
proof (induction rs arbitrary: pre ips)
  case (Cons r rs)
  let ?d = "pre @ record_wire r @ records_wire rs @ rest"
  let ?ips = "take MAX_RESPONSE_IPS_PER_PACKET (ips @ (case record_address r of Some a \<Rightarrow> [a] | None \<Rightarrow> []))"
  have ok: "record_ok r" using Cons.prems by simp
  note f = record_fields [OF ok, of pre "records_wire rs @ rest"]
  have c: "collect_ip ?d (rr_type r) (length pre + length (owner_wire (rr_owner r)) + 10) (length (rr_data r)) ips = Some ?ips"
    by (rule collect_ip_wire [OF f(5)]) (use f(4) Cons.prems in simp_all)
  have addr: "addresses (r # rs) = (case record_address r of Some a \<Rightarrow> [a] | None \<Rightarrow> []) @ addresses rs"
    by (simp split: option.split)
  have e: "length pre + length (owner_wire (rr_owner r)) + 10 + length (rr_data r) = length (pre @ record_wire r)"
    using length_record_wire [OF ok] by simp
  have "walk_records ?d (length pre) (length (r # rs)) ips = walk_records ?d (length (pre @ record_wire r)) (length rs) ?ips"
    using f c e data_len [OF ok] by (simp add: add.assoc)
  also have "\<dots> = Some (length (pre @ record_wire r) + length (records_wire rs),
      take MAX_RESPONSE_IPS_PER_PACKET (?ips @ addresses rs))"
    using Cons.IH [of ?ips "pre @ record_wire r"] Cons.prems by simp
  also have "\<dots> = Some (length (pre @ record_wire r) + length (records_wire rs),
      take MAX_RESPONSE_IPS_PER_PACKET (ips @ addresses (r # rs)))"
    by (simp only: take_take_append addr append.assoc)
  finally show ?case by (simp add: add.assoc)
qed simp

section \<open>Messages\<close>

lemma dns_header_wire:
  assumes "length ident = 2" "length answers < 65536"
  shows "dns_header_counts (dns_wire ident flags name qtype qclass answers nscount arcount others) =
    Some (Some \<lparr>dh_is_response = flags AND 0x8000 \<noteq> 0, dh_qdcount = 1, dh_ancount = of_nat (length answers),
      dh_arcount = arcount\<rparr>)"
    and "header_nscount (dns_wire ident flags name qtype qclass answers nscount arcount others) = Some nscount"
proof -
  let ?d = "dns_wire ident flags name qtype qclass answers nscount arcount others"
  have l: "\<not> length ?d < 12" by (simp add: dns_wire_def assms)
  have f: "be16_at ?d 2 = Some flags" "be16_at ?d 4 = Some 1" "be16_at ?d 6 = Some (of_nat (length answers))"
    "be16_at ?d 8 = Some nscount" "be16_at ?d 10 = Some arcount"
    using l by (simp_all add: inbounds) (simp_all add: dns_wire_def assms)
  show "dns_header_counts ?d = Some (Some \<lparr>dh_is_response = flags AND 0x8000 \<noteq> 0, dh_qdcount = 1,
      dh_ancount = of_nat (length answers), dh_arcount = arcount\<rparr>)" "header_nscount ?d = Some nscount"
    using l by (simp_all add: dns_header_counts_def header_nscount_def f)
qed

text \<open>What precedes the answers.\<close>

definition dns_front :: "bytes \<Rightarrow> u16 \<Rightarrow> bytes list \<Rightarrow> u16 \<Rightarrow> bytes \<Rightarrow> nat \<Rightarrow> u16 \<Rightarrow> u16 \<Rightarrow> bytes" where
  "dns_front ident flags name qtype qclass ancount nscount arcount =
     ident @ wr16 Big flags @ wr16 Big 1 @ wr16 Big (of_nat ancount) @ wr16 Big nscount @ wr16 Big arcount @
     labels_wire name @ [0] @ wr16 Big qtype @ qclass"

lemma dns_wire_front:
  "dns_wire ident flags name qtype qclass answers nscount arcount others =
     dns_front ident flags name qtype qclass (length answers) nscount arcount @ records_wire answers @ others"
  by (simp add: dns_wire_def dns_front_def)

lemma dns_question_wire:
  assumes "length ident = 2" "length qclass = 2" "list_all label_ok name" "str_len (dns_text name) \<le> MAX_DNS_NAME_LEN"
  shows "parse_questions_starting_at_header (dns_wire ident flags name qtype qclass answers nscount arcount others) 1 =
    Some (if name = [] then None else Some (dns_text name), Some (dns_query_type_of qtype),
      length (dns_front ident flags name qtype qclass (length answers) nscount arcount))"
proof -
  let ?d = "dns_wire ident flags name qtype qclass answers nscount arcount others"
  let ?h = "ident @ wr16 Big flags @ wr16 Big 1 @ wr16 Big (of_nat (length answers)) @ wr16 Big nscount @ wr16 Big arcount"
  let ?r = "wr16 Big qtype @ qclass @ records_wire answers @ others"
  have d: "?d = ?h @ labels_wire name @ 0 # ?r" and h: "length ?h = 12" by (simp_all add: dns_wire_def assms)
  define found where "found = (if name = [] then None else Some (dns_text name))"
  have n: "question_name ?d 12 [] False = Some (dns_text name, length (labels_wire name) + 13)"
    using question_name_wire [OF assms(3), of "[]" ?h ?r] assms(4) extend_name_text [OF assms(3)] h d by simp
  have e: "(if dns_text name = [] then None else Some (dns_text name)) = found"
    using join_empty [of "[46]" "map (map unat) name"] assms(3)
    by (auto simp: dns_text_def list_all_iff label_ok_def found_def)
  have l: "length (labels_wire name) + 15 \<le> length ?d" using h by (simp add: d)
  have "length (labels_wire name) + 13 = length (?h @ labels_wire name @ [0])" using h by simp
  then have "drop (length (labels_wire name) + 13) ?d = ?r" by (simp add: d)
  then have q: "be16_at ?d (length (labels_wire name) + 13) = Some qtype"
    using l by (simp add: be16_at_in)
  have f: "length (dns_front ident flags name qtype qclass (length answers) nscount arcount) = length (labels_wire name) + 17"
    using assms(1,2) by (simp add: dns_front_def)
  show ?thesis
    unfolding found_def [symmetric] f using l
    by (simp add: parse_questions_starting_at_header_def parse_question_def n q e)
qed

lemma take_front: "records_wire rs @ others = records_wire (take n rs) @ records_wire (drop n rs) @ others"
  by (metis append.assoc append_take_drop_id records_wire_simps(3))

lemma dns_answers_wire:
  assumes "list_all record_ok rs" "length ips \<le> MAX_RESPONSE_IPS_PER_PACKET"
  shows "walk_a_aaaa_records (pre @ records_wire rs @ others) (length pre) (length rs) ips =
    Some (length pre + length (records_wire (take MAX_ANSWERS_TO_PARSE rs)),
      take MAX_RESPONSE_IPS_PER_PACKET (ips @ addresses (take MAX_ANSWERS_TO_PARSE rs)))"
proof -
  have ok: "list_all record_ok (take MAX_ANSWERS_TO_PARSE rs)"
    using assms(1) by (auto simp: list_all_iff dest: in_set_takeD)
  show ?thesis
    using walk_records_wire [OF ok assms(2), of pre "records_wire (drop MAX_ANSWERS_TO_PARSE rs) @ others"]
    by (simp add: walk_a_aaaa_records_def take_front [of rs others MAX_ANSWERS_TO_PARSE] min.commute)
qed

text \<open>\<open>analyze_dns\<close> of a message with one question.\<close>

lemma analyze_dns_wire:
  assumes "length ident = 2" "length qclass = 2" "list_all label_ok name" "str_len (dns_text name) \<le> MAX_DNS_NAME_LEN"
    and "list_all record_ok answers" "length answers < 65536"
  shows "analyze_dns (dns_wire ident flags name qtype qclass answers nscount arcount others) =
    Some (Some \<lparr>dns_query_name = (if name = [] then None else Some (dns_text name)),
      dns_query_type = Some (dns_query_type_of qtype),
      dns_response_ips = (if flags AND 0x8000 \<noteq> 0
        then take MAX_RESPONSE_IPS_PER_PACKET (addresses (take MAX_ANSWERS_TO_PARSE answers)) else []),
      dns_is_response = flags AND 0x8000 \<noteq> 0\<rparr>)"
proof -
  let ?d = "dns_wire ident flags name qtype qclass answers nscount arcount others"
  let ?pre = "dns_front ident flags name qtype qclass (length answers) nscount arcount"
  have n: "unat (of_nat (length answers) :: u16) = length answers" using assms(6) by (simp add: unat_of_nat)
  have w: "walk_a_aaaa_records ?d (length ?pre) (length answers) [] =
      Some (length ?pre + length (records_wire (take MAX_ANSWERS_TO_PARSE answers)),
        take MAX_RESPONSE_IPS_PER_PACKET (addresses (take MAX_ANSWERS_TO_PARSE answers)))"
    using dns_answers_wire [OF assms(5), of "[]" ?pre others] by (simp add: dns_wire_front)
  show ?thesis
    by (simp add: analyze_dns_def dns_header_wire [OF assms(1,6)] dns_question_wire [OF assms(1-4)] n w)
qed

section \<open>Bounds\<close>

lemma collect_ip_bound:
  "collect_ip p t i n ips = Some ips' \<Longrightarrow> length ips \<le> MAX_RESPONSE_IPS_PER_PACKET \<Longrightarrow>
    length ips' \<le> MAX_RESPONSE_IPS_PER_PACKET"
  by (auto simp: collect_ip_def Option.bind_eq_Some_conv split: if_splits)

lemma walk_records_bound:
  "walk_records p i n ips = Some (j, ips') \<Longrightarrow> length ips \<le> MAX_RESPONSE_IPS_PER_PACKET \<Longrightarrow>
    length ips' \<le> MAX_RESPONSE_IPS_PER_PACKET"
proof (induction n arbitrary: i ips)
  case (Suc n)
  from Suc.prems show ?case
    by (auto simp: Option.bind_eq_Some_conv Let_def split: option.splits if_splits dest: collect_ip_bound intro: Suc.IH)
qed simp

lemma and_C0_bound: "(b :: byte) AND 0xC0 = 0 \<Longrightarrow> unat b < 64"
proof -
  assume b: "b AND 0xC0 = 0"
  have "(0x3F OR 0xC0 :: byte) = - 1" by (simp only: word_unat_eq_iff) (simp add: unsigned_minus_1_eq_mask mask_eq_exp_minus_1)
  then have "b = b AND (0x3F OR 0xC0)" by (metis and.right_neutral)
  also have "\<dots> = b AND 0x3F" using b by (simp only: bit.conj_disj_distrib or.right_neutral)
  also have "\<dots> = take_bit 6 b" by (simp add: take_bit_eq_mask mask_eq_exp_minus_1)
  finally have "unat b = take_bit 6 (unat b)" by (metis unsigned_take_bit_eq)
  then show ?thesis using take_bit_nat_less_exp [of 6 "unat b"] by simp
qed

lemma str_len_push_bound: "str_len (push_label name l) \<le> str_len name + 1 + length l"
  by (auto simp: push_label_def dest: from_utf8_len split: option.split)

lemma question_name_bound:
  "question_name p i name ov = Some (name', j) \<Longrightarrow> (\<not> ov \<Longrightarrow> str_len name \<le> MAX_DNS_NAME_LEN) \<Longrightarrow>
    str_len name \<le> MAX_DNS_NAME_LEN + 64 \<Longrightarrow> str_len name' \<le> MAX_DNS_NAME_LEN + 64"
proof (induction "length p - i" arbitrary: i name ov rule: less_induct)
  case less
  show ?case
  proof (cases "i < length p \<and> p ! i \<noteq> 0 \<and> p ! i AND 0xC0 = 0 \<and> i + 1 + unat (p ! i) \<le> length p")
    case False
    with less.prems(1) [unfolded question_name.simps [of p i name ov]] less.prems(3) show ?thesis
      by (auto simp: byte_at_def split: if_splits)
  next
    case True
    let ?l = "take (unat (p ! i)) (drop (Suc i) p)"
    let ?n = "if ov then name else push_label name ?l"
    have q: "question_name p (Suc (i + unat (p ! i))) ?n (ov \<or> str_len ?n > MAX_DNS_NAME_LEN) = Some (name', j)"
      using less.prems(1) [unfolded question_name.simps [of p i name ov]] True
      by (simp add: byte_at_def subslice_def Let_def split: if_splits)
    have "str_len ?n \<le> MAX_DNS_NAME_LEN + 64"
      using str_len_push_bound [of name ?l] and_C0_bound [of "p ! i"] True less.prems(2,3) by (auto split: if_splits)
    with True show ?thesis by (intro less.hyps [OF _ q]) auto
  qed
qed

lemma parse_question_bound:
  "parse_question p i = Some (Some name, t, j) \<Longrightarrow> str_len name \<le> MAX_DNS_NAME_LEN + 64"
  by (auto simp: parse_question_def Option.bind_eq_Some_conv split: if_splits dest!: question_name_bound)

lemma questions_bound:
  "parse_questions_starting_at_header p q = Some (Some name, t, j) \<Longrightarrow> str_len name \<le> MAX_DNS_NAME_LEN + 64"
  by (auto simp: parse_questions_starting_at_header_def Option.bind_eq_Some_conv split: if_splits dest: parse_question_bound)

lemma analyze_dns_bound:
  assumes "analyze_dns p = Some (Some i) \<or> analyze_dns_for_mdns p = Some (Some i)"
  shows "length (dns_response_ips i) \<le> MAX_RESPONSE_IPS_PER_PACKET"
    and "dns_query_name i = Some name \<Longrightarrow> str_len name \<le> MAX_DNS_NAME_LEN + 64"
  using assms
  by (auto simp: analyze_dns_def analyze_dns_for_mdns_def walk_a_aaaa_records_def Option.bind_eq_Some_conv
      dest!: walk_records_bound dest: questions_bound split: if_splits option.splits)

end
