(* ===== verification/Dpi_Wire.thy ===== *)
theory Dpi_Wire
  imports Dns_Wire
begin

text \<open>
  What MQTT, STUN and NetBIOS senders encode, and that inspection decodes it: remaining
  lengths, message types and names.
\<close>

section \<open>Bits of a byte\<close>

lemma and_7F: "unat ((b :: byte) AND 0x7F) = unat b mod 128"
proof -
  have "b AND 0x7F = take_bit 7 b" by (simp add: take_bit_eq_mask mask_eq_exp_minus_1)
  then show ?thesis by (simp only: unsigned_take_bit_eq) (simp add: take_bit_eq_mod)
qed

lemma and_80: "(b :: byte) AND 0x80 = 0 \<longleftrightarrow> unat b < 128"
proof -
  have "b AND 2 ^ 7 = 0 \<longleftrightarrow> \<not> bit b 7" by (rule and_exp_eq_0_iff_not_bit)
  also have "bit b 7 \<longleftrightarrow> odd (unat b div 128)"
    using bit_iff_odd [of "unat b" 7] by (simp add: bit_unsigned_iff)
  also have "unat b div 128 = (if unat b < 128 then 0 else 1)"
    using unat_bound [of b] by (auto simp: div_nat_eqI)
  finally show ?thesis by simp
qed

text \<open>The cases below a literal.\<close>

lemma below_numeral: "(\<forall>n < numeral k. P n) \<longleftrightarrow> P (pred_numeral k) \<and> (\<forall>n < pred_numeral k. P n)"
  by (simp only: numeral_eq_Suc All_less_Suc)

section \<open>MQTT remaining lengths\<close>

fun remaining_wire :: "nat \<Rightarrow> bytes" where
  "remaining_wire n = (if n < 128 then [of_nat n] else of_nat (n mod 128 + 128) # remaining_wire (n div 128))"

declare remaining_wire.simps [simp del]

lemma remaining_length_loop_wire:
  "n < 128 ^ Suc k \<Longrightarrow> length pre = offset + i \<Longrightarrow>
    remaining_length_loop (pre @ remaining_wire n @ rest) offset i (Suc k) m v =
      Some (Some (v + n * m, i + length (remaining_wire n)))"
proof (induction k arbitrary: n pre i m v)
  case (0 n)
  then have r: "remaining_wire n = [of_nat n]" by (subst remaining_wire.simps) simp
  from 0 have "unat (of_nat n :: byte) = n" by simp
  with 0 show ?case by (simp add: r byte_at_def nth_append and_7F and_80)
next
  case (Suc k)
  show ?case
  proof (cases "n < 128")
    case True
    then have r: "remaining_wire n = [of_nat n]" by (subst remaining_wire.simps) simp
    have u: "unat (of_nat n :: byte) = n" using True by simp
    show ?thesis
      using True Suc.prems(2) by (simp add: r byte_at_def nth_append and_7F and_80 u)
  next
    case False
    let ?b = "of_nat (n mod 128 + 128) :: byte"
    have r: "remaining_wire n = ?b # remaining_wire (n div 128)" using False by (subst remaining_wire.simps) simp
    have u: "unat ?b = n mod 128 + 128" by (rule unat_small) simp
    have n: "n mod 128 * m + n div 128 * (m * 128) = n * m"
      by (metis (no_types, lifting) add.commute div_mult_mod_eq distrib_right mult.assoc mult.commute)
    have "remaining_length_loop (pre @ ?b # remaining_wire (n div 128) @ rest) offset (Suc i) (Suc k) (m * 128) (v + n mod 128 * m) =
        Some (Some (v + n mod 128 * m + n div 128 * (m * 128), Suc i + length (remaining_wire (n div 128))))"
      using Suc.IH [of "n div 128" "pre @ [?b]" "Suc i" "m * 128" "v + n mod 128 * m"] Suc.prems
      by (simp add: less_mult_imp_div_less mult.commute)
    then show ?thesis
      using Suc.prems(2) n by (simp add: r byte_at_def nth_append and_7F and_80 u add.assoc del: of_nat_add)
  qed
qed

lemma decode_remaining_length_wire:
  "n < 268435456 \<Longrightarrow> decode_remaining_length (pre @ remaining_wire n @ rest) (length pre) =
    Some (Some (n, length (remaining_wire n)))"
  using remaining_length_loop_wire [of n 3 pre "length pre" 0 rest 1 0] by (simp add: decode_remaining_length_def)

section \<open>STUN message types\<close>

text \<open>RFC 8489: the two bits of the class lie between the bits of the method.\<close>

definition stun_type_wire :: "u16 \<Rightarrow> u16 \<Rightarrow> u16" where
  "stun_type_wire method class_bits =
     push_bit 2 (method AND 0x0F80) OR push_bit 8 (drop_bit 1 class_bits) OR push_bit 1 (method AND 0x0070) OR
     push_bit 4 (class_bits AND 1) OR (method AND 0x000F)"

definition stun_class_of_bits :: "u16 \<Rightarrow> StunMessageClass" where
  "stun_class_of_bits c = (if c = 0 then StunRequest else if c = 1 then Indication
     else if c = 2 then SuccessResponse else ErrorResponse)"

lemma stun_type_method:
  assumes "m < 4096" "c < 4"
  shows "stun_method_value (stun_type_wire m c) = m"
proof (rule bit_word_eqI)
  have "m = take_bit 12 m" using assms(1)
    by (simp add: word_unat_eq_iff unsigned_take_bit_eq take_bit_nat_eq_self word_less_nat_alt)
  then have m: "bit m k \<Longrightarrow> k < 12" for k by (metis bit_take_bit_iff)
  have "c = take_bit 2 c" using assms(2)
    by (simp add: word_unat_eq_iff unsigned_take_bit_eq take_bit_nat_eq_self word_less_nat_alt)
  then have c: "bit c k \<Longrightarrow> k < 2" for k by (metis bit_take_bit_iff)
  have "\<forall>n < 16. bit (stun_method_value (stun_type_wire m c)) n = bit m n"
    by (simp add: below_numeral, intro conjI)
      (auto simp: stun_method_value_def stun_type_wire_def bit_simps mult.commute [of m 2] dest: m c)
  then show "bit (stun_method_value (stun_type_wire m c)) n = bit m n" if "n < LENGTH(16)" for n
    using that by simp
qed

lemma stun_type_class:
  assumes "m < 4096" "c < 4"
  shows "stun_class (stun_type_wire m c) = stun_class_of_bits c"
proof -
  let ?t = "stun_type_wire m c"
  have "drop_bit 4 ?t AND 1 = c AND 1"
    by (rule bit_word_eqI) (auto simp: stun_type_wire_def bit_simps bit_1_iff)
  moreover have "drop_bit 8 ?t AND 1 = drop_bit 1 c AND 1"
    by (rule bit_word_eqI) (auto simp: stun_type_wire_def bit_simps bit_1_iff)
  moreover have "c \<in> {0, 1, 2, 3}"
    using assms(2) unat_cong by (auto simp: word_less_nat_alt word_unat_eq_iff)
  ultimately show ?thesis by (auto simp: stun_class_def stun_class_of_bits_def)
qed

text \<open>Attributes are padded to four bytes.\<close>

definition stun_attributes :: "(u16 \<times> bytes) list \<Rightarrow> bytes" where
  "stun_attributes attrs = concat (map (\<lambda>(t, v). wr16 Big t @ wr16 Big (of_nat (length v)) @ v @
     replicate (padded_length (length v) - length v) 0) attrs)"

definition stun_wire :: "u16 \<Rightarrow> u16 \<Rightarrow> bytes \<Rightarrow> (u16 \<times> bytes) list \<Rightarrow> bytes" where
  "stun_wire method class_bits tid attrs =
     wr16 Big (stun_type_wire method class_bits) @ wr16 Big (of_nat (length (stun_attributes attrs))) @
     wr32 Big STUN_MAGIC_COOKIE @ tid @ stun_attributes attrs"

definition stun_software_of :: "(u16 \<times> bytes) list \<Rightarrow> unicode option" where
  "stun_software_of attrs = (case find (\<lambda>a. fst a = 0x8022) attrs of
     None \<Rightarrow> None
   | Some a \<Rightarrow> map_option (trim_end_matches (\<lambda>ch. ch = 0)) (from_utf8 (take MAX_SOFTWARE_LEN (snd a))))"

lemma stun_attributes_simps [simp]:
  "stun_attributes [] = []"
  "stun_attributes ((t, v) # as) = wr16 Big t @ wr16 Big (of_nat (length v)) @ v @
     replicate (padded_length (length v) - length v) 0 @ stun_attributes as"
  by (simp_all add: stun_attributes_def)

lemma padded_length_le: "n \<le> padded_length n"
  by (simp add: padded_length_def)

lemma padded_attributes: "length (stun_attributes as) mod 4 = 0"
proof (induction as)
  case (Cons a as)
  obtain t v where a: "a = (t, v)" by (cases a)
  have "length (stun_attributes (a # as)) = 4 + padded_length (length v) + length (stun_attributes as)"
    using padded_length_le [of "length v"] by (simp add: a)
  with Cons show ?case by (simp add: padded_length_def mod_add_eq [symmetric])
qed simp

lemma software_loop_wire:
  assumes "list_all (\<lambda>a. length (snd a) < 65536) as"
  shows "software_loop (pre @ stun_attributes as @ rest) (length pre + length (stun_attributes as)) (length pre) =
    Some (stun_software_of as)"
  using assms
proof (induction as arbitrary: pre)
  case Nil
  then show ?case by (subst software_loop.simps) (simp add: stun_software_of_def)
next
  case (Cons a as)
  obtain t v where a: "a = (t, v)" by (cases a)
  let ?pad = "replicate (padded_length (length v) - length v) 0 :: bytes"
  let ?p = "pre @ stun_attributes (a # as) @ rest"
  have u: "unat (of_nat (length v) :: u16) = length v" using Cons.prems by (simp add: a unat_of_nat)
  have d: "drop (length pre) ?p = (wr16 Big t @ wr16 Big (of_nat (length v))) @ v @ ?pad @ stun_attributes as @ rest"
    by (simp add: a)
  have f: "be16_at ?p (length pre) = Some t" "be16_at ?p (length pre + 2) = Some (of_nat (length v))"
    by (simp_all add: a inbounds)
  have s: "subslice ?p (length pre + 4) (length pre + 4 + min (length v) MAX_SOFTWARE_LEN) = Some (take MAX_SOFTWARE_LEN v)"
    by (simp add: subslice_def a min.commute [of "length v"] trans_le_add1) (simp add: min_def)
  have l: "length (stun_attributes (a # as)) = 4 + padded_length (length v) + length (stun_attributes as)"
    using padded_length_le [of "length v"] by (simp add: a)
  let ?q = "pre @ wr16 Big t @ wr16 Big (of_nat (length v)) @ v @ ?pad"
  have q: "length ?q = length pre + 4 + padded_length (length v)"
    using padded_length_le [of "length v"] by simp
  have "software_loop (?q @ stun_attributes as @ rest) (length ?q + length (stun_attributes as)) (length ?q) =
      Some (stun_software_of as)"
    using Cons.prems by (intro Cons.IH) simp
  then have r: "software_loop ?p (length pre + length (stun_attributes (a # as))) (length pre + 4 + padded_length (length v)) =
      Some (stun_software_of as)"
    unfolding l q by (simp add: a add.assoc)
  define p where "p = ?p"
  define e where "e = length pre + length (stun_attributes (a # as))"
  have e: "length pre + 4 + length v \<le> e" unfolding e_def l using padded_length_le [of "length v"] by simp
  note facts = f [folded p_def] s [folded p_def] r [folded p_def e_def]
  show ?case
    unfolding p_def [symmetric] e_def [symmetric]
    by (subst software_loop.simps) (use e in \<open>simp add: facts u stun_software_of_def a del: add_2_eq_Suc add_2_eq_Suc'\<close>)
qed

lemma stun_type_small:
  assumes "m < 4096" "c < 4"
  shows "unat (stun_type_wire m c) < 16384"
proof -
  have "m = take_bit 12 m" "c = take_bit 2 c" using assms
    by (simp_all add: word_unat_eq_iff unsigned_take_bit_eq take_bit_nat_eq_self word_less_nat_alt)
  then have m: "bit m k \<Longrightarrow> k < 12" and c: "bit c k \<Longrightarrow> k < 2" for k by (metis bit_take_bit_iff)+
  have none: "\<not> bit (stun_type_wire m c) 14" "\<not> bit (stun_type_wire m c) 15"
    by (auto simp: stun_type_wire_def bit_simps dest: m c)
  have "take_bit 14 (stun_type_wire m c) = stun_type_wire m c"
  proof (rule bit_word_eqI)
    fix n
    assume "n < LENGTH(16)"
    then have "n < 14 \<or> n = 14 \<or> n = 15" by auto
    with none show "bit (take_bit 14 (stun_type_wire m c)) n = bit (stun_type_wire m c) n"
      by (auto simp: bit_take_bit_iff)
  qed
  from arg_cong [OF this, of unat] have "take_bit 14 (unat (stun_type_wire m c)) = unat (stun_type_wire m c)"
    by (simp only: unsigned_take_bit_eq)
  then show ?thesis using take_bit_nat_less_exp [of 14 "unat (stun_type_wire m c)"] by simp
qed

lemma stun_wire_read:
  assumes "m < 4096" "c < 4" "length tid = 12" "list_all (\<lambda>a. length (snd a) < 65536) attrs"
    and "length (stun_attributes attrs) < 65536"
  shows "is_likely_stun (stun_wire m c tid attrs @ rest) = Some True \<and>
    analyze_stun (stun_wire m c tid attrs @ rest) = Some (Some
      \<lparr>stun_message_class = stun_class_of_bits c, stun_method = stun_method_of m,
       stun_transaction_id = tid, stun_software = stun_software_of attrs\<rparr>)"
proof -
  let ?t = "stun_type_wire m c" and ?p = "stun_wire m c tid attrs @ rest"
  obtain h l where t: "wr16 Big ?t = [h, l]"
    using length_wr(1) [of Big ?t] by (auto simp: length_Suc_conv numeral_eq_Suc simp del: length_wr)
  have "rd16 Big [h, l] = ?t" using rd_wr(1) [of Big ?t] by (simp add: t)
  then have "dec Big [h, l] = unat ?t"
    using dec_bound [of Big "[h, l]"] by (simp add: rd16_def unat_of_nat flip: \<open>rd16 Big [h, l] = ?t\<close>)
  then have h: "unat h < 64" using stun_type_small [OF assms(1,2)] by (simp add: dec_def)
  then have "h = take_bit 6 h" by (simp add: word_unat_eq_iff unsigned_take_bit_eq take_bit_nat_eq_self)
  then have h3: "h AND 0x3F = h" by (simp add: take_bit_eq_mask mask_eq_exp_minus_1)
  have n: "unat (of_nat (length (stun_attributes attrs)) :: u16) = length (stun_attributes attrs)"
    using assms(5) by (simp add: unat_of_nat)
  have len: "length ?p = 20 + length (stun_attributes attrs) + length rest" using assms(3) by (simp add: stun_wire_def)
  have f: "byte_at ?p 0 = Some h" "byte_at ?p 1 = Some l" "be16_at ?p 2 = Some (of_nat (length (stun_attributes attrs)))"
    "be32_at ?p 4 = Some STUN_MAGIC_COOKIE" "subslice ?p 8 20 = Some tid"
    using len by (simp_all add: inbounds) (simp_all add: stun_wire_def t assms(3))
  have s: "parse_software_attribute ?p (length (stun_attributes attrs)) = Some (stun_software_of attrs)"
    using software_loop_wire [OF assms(4), of "wr16 Big ?t @ wr16 Big (of_nat (length (stun_attributes attrs))) @
        wr32 Big STUN_MAGIC_COOKIE @ tid" rest] assms(3)
    by (simp add: parse_software_attribute_def stun_wire_def STUN_HEADER_SIZE_def)
  show ?thesis
    using len padded_attributes [of attrs]
    by (simp add: is_likely_stun_def analyze_stun_def STUN_HEADER_SIZE_def f f(2) [unfolded One_nat_def] n s h3 and_C0_small [OF h]
        \<open>rd16 Big [h, l] = ?t\<close> stun_type_method [OF assms(1,2)] stun_type_class [OF assms(1,2)])
qed

section \<open>MQTT publications\<close>

definition publish_wire :: "nat \<Rightarrow> bytes \<Rightarrow> bytes \<Rightarrow> bytes" where
  "publish_wire fl topic message = of_nat (48 + fl) # remaining_wire (2 + length topic + length message) @
     wr16 Big (of_nat (length topic)) @ topic @ message"

lemma publish_bits:
  assumes "fl < 16"
  shows "drop_bit 4 (of_nat (48 + fl) :: byte) = 3"
    and "drop_bit 1 ((of_nat (48 + fl) :: byte) AND 0x0F) AND 3 = of_nat (fl div 2 mod 4)"
proof -
  have "\<forall>fl < 16. drop_bit 4 (of_nat (48 + fl) :: byte) = 3 \<and>
      drop_bit 1 ((of_nat (48 + fl) :: byte) AND 0x0F) AND 3 = of_nat (fl div 2 mod 4)"
    by (simp add: below_numeral)
  with assms show "drop_bit 4 (of_nat (48 + fl) :: byte) = 3"
    and "drop_bit 1 ((of_nat (48 + fl) :: byte) AND 0x0F) AND 3 = of_nat (fl div 2 mod 4)" by blast+
qed

lemma publish_wire_read:
  assumes "fl < 16" "topic \<noteq> []" "length topic < 65536" "list_all (\<lambda>b. unat b < 0x80) topic"
    and "2 + length topic + length message < 268435456"
  shows "analyze_mqtt (publish_wire fl topic message @ rest) = Some (Some
    \<lparr>mq_version = None, mq_packet_type = MqPublish, mq_client_id = None, mq_topic = Some (map unat topic),
     mq_qos = Some (of_nat (fl div 2 mod 4))\<rparr>)"
proof -
  define n where "n = 2 + length topic + length message"
  define b :: byte where "b = of_nat (48 + fl)"
  note bits = publish_bits [OF assms(1), folded b_def]
  let ?p = "publish_wire fl topic message @ rest" and ?q = "publish_wire fl topic message"
  let ?v = "1 + length (remaining_wire n)"
  have q: "?q = b # remaining_wire n @ wr16 Big (of_nat (length topic)) @ topic @ message"
    by (simp add: publish_wire_def n_def b_def)
  have u: "unat (of_nat (length topic) :: u16) = length topic" using assms(3) by (simp add: unat_of_nat)
  have b: "byte_at ?p 0 = Some b" by (simp add: q byte_at_def)
  have d: "decode_remaining_length ?p 1 = Some (Some (n, length (remaining_wire n)))"
    using decode_remaining_length_wire [of n "[b]" "wr16 Big (of_nat (length topic)) @ topic @ message @ rest"] assms(5)
    by (simp add: q n_def)
  have l: "length ?q = ?v + n" by (simp add: q n_def)
  have a: "slice_to ?p (min (length ?p) (?v + n)) = Some ?q"
    using l by (simp add: slice_to_def)
  have t: "mqtt_string ?q ?v = Some (Some (map unat topic))"
  proof -
    have "be16_at ?q ?v = Some (of_nat (length topic))"
      by (rule be16_at_drop [of _ _ _ "topic @ message"]) (simp add: q)
    moreover have "subslice ?q (?v + 2) (?v + 2 + length topic) = Some topic"
      by (rule subslice_drop [of _ _ _ message]) (simp_all add: q)
    moreover have "from_utf8 topic = Some (map unat topic)"
      using assms(4) by (simp add: from_utf8_ascii list_all_iff)
    ultimately show ?thesis using l assms(2) u by (simp add: mqtt_string_def n_def)
  qed
  have p: "\<not> length ?p < 2" using l by (simp add: n_def)
  have three: "map_of mqtt_packet_types 3 = Some MqPublish" by (simp add: mqtt_packet_types_def)
  show ?thesis
    unfolding analyze_mqtt_def if_not_P [OF p]
    by (simp only: bind.bind_lunit option.case prod.case Let_def bits a b d three MqttPacketType.case
        parse_publish_topic_def t MqttInfo.update_convs)
qed

section \<open>NetBIOS names\<close>

text \<open>RFC 1001: each half of a character becomes a letter from A to P.\<close>

definition netbios_wire :: "byte list \<Rightarrow> bytes" where
  "netbios_wire cs = 32 # concat (map (\<lambda>c. [0x41 + drop_bit 4 c, 0x41 + (c AND 0x0F)]) cs)"

definition graphic_text :: "byte list \<Rightarrow> unicode" where
  "graphic_text cs = filter is_ascii_graphic (map unat cs)"

lemma nibble_letter:
  assumes "unat (x :: byte) < 16"
  shows "0x41 \<le> 0x41 + x" "0x41 + x \<le> 0x50" "0x41 + x - 0x41 = x"
proof -
  have u: "unat (0x41 + x) = 65 + unat x" using assms by (simp add: unat_add_lem [THEN iffD1])
  show "0x41 \<le> 0x41 + x" "0x41 + x \<le> 0x50" using assms by (simp_all add: word_le_nat_alt u)
qed simp

lemma nibbles: "unat (drop_bit 4 (c :: byte)) < 16" "unat (c AND 0x0F) < 16"
    "push_bit 4 (drop_bit 4 c) OR (c AND 0x0F) = c"
proof -
  show "unat (drop_bit 4 c) < 16"
    using unat_bound [of c] by (simp only: unsigned_drop_bit_eq) (simp add: drop_bit_eq_div take_bit_nat_eq_self less_mult_imp_div_less)
  show "unat (c AND 0x0F) < 16" unfolding low_nibble by (simp only: unsigned_take_bit_eq) (simp add: take_bit_eq_mod)
  show "push_bit 4 (drop_bit 4 c) OR (c AND 0x0F) = c"
    unfolding low_nibble by (rule bit_word_eqI) (auto simp: bit_simps)
qed

lemma netbios_chars_wire:
  "length pre = i \<Longrightarrow>
    netbios_chars (pre @ concat (map (\<lambda>c. [0x41 + drop_bit 4 c, 0x41 + (c AND 0x0F)]) cs) @ rest) i (length cs) name =
      Some (Some (name @ graphic_text cs))"
proof (induction cs arbitrary: pre i name)
  case Nil
  then show ?case by (simp add: graphic_text_def)
next
  case (Cons c cs)
  note n = nibble_letter [OF nibbles(1), of c] nibble_letter [OF nibbles(2), of c]
  let ?w = "concat (map (\<lambda>c. [0x41 + drop_bit 4 c, 0x41 + (c AND 0x0F)]) cs) @ rest"
  from Cons.IH [of "pre @ [0x41 + drop_bit 4 c, 0x41 + (c AND 0x0F)]" "i + 2"] Cons.prems
  show ?case
    by (simp add: byte_at_def nth_append n nibbles(3) graphic_text_def)
qed

lemma decode_netbios_wire:
  assumes "length cs = 16"
  shows "decode_netbios_name (netbios_wire cs @ rest) =
    Some (if graphic_text cs = [] then None else Some (graphic_text cs))"
proof -
  have "length (concat (map (\<lambda>c. [0x41 + drop_bit 4 c, 0x41 + (c AND 0x0F)]) cs)) = 32"
    using assms by (simp add: length_concat comp_def sum_list_triv)
  moreover have "netbios_chars (netbios_wire cs @ rest) 1 16 [] = Some (Some (graphic_text cs))"
    using netbios_chars_wire [of "[32]" 1 cs rest "[]"] assms by (simp add: netbios_wire_def)
  ultimately show ?thesis
    by (simp add: decode_netbios_name_def netbios_wire_def byte_at_def)
qed

end
