(* ===== verification/Tls_Wire.thy ===== *)
theory Tls_Wire
  imports Dpi_Wire
begin

text \<open>
  The ClientHello of TLS as it is sent (RFC 8446), with its extensions in any order, and that
  inspection reads the server name, the application protocols and the best version from it.
\<close>

section \<open>Messages\<close>

definition extension_wire :: "u16 \<times> bytes \<Rightarrow> bytes" where
  "extension_wire e = wr16 Big (fst e) @ wr16 Big (of_nat (length (snd e))) @ snd e"

definition extensions_wire :: "(u16 \<times> bytes) list \<Rightarrow> bytes" where
  "extensions_wire es = concat (map extension_wire es)"

text \<open>The data of the three extensions that are read.\<close>

definition sni_wire :: "bytes \<Rightarrow> bytes" where
  "sni_wire host = wr16 Big (of_nat (length host + 3)) @ [0] @ wr16 Big (of_nat (length host)) @ host"

definition alpn_wire :: "bytes list \<Rightarrow> bytes" where
  "alpn_wire ps = wr16 Big (of_nat (length (labels_wire ps))) @ labels_wire ps"

definition versions_wire :: "(byte \<times> byte) list \<Rightarrow> bytes" where
  "versions_wire vs = of_nat (2 * length vs) # concat (map (\<lambda>(a, b). [a, b]) vs)"

definition best_version :: "(byte \<times> byte) list \<Rightarrow> TlsVersion option \<Rightarrow> TlsVersion option" where
  "best_version vs best = fold (\<lambda>(a, b) best. case version_from_bytes a b of
     Some v \<Rightarrow> Some (better_version best v) | None \<Rightarrow> best) vs best"

definition hello_wire ::
  "byte \<times> byte \<Rightarrow> bytes \<Rightarrow> bytes \<Rightarrow> bytes \<Rightarrow> bytes \<Rightarrow> (u16 \<times> bytes) list \<Rightarrow> bytes" where
  "hello_wire ver random sid suites compression es =
     [fst ver, snd ver] @ random @ of_nat (length sid) # sid @ wr16 Big (of_nat (length suites)) @ suites @
     of_nat (length compression) # compression @ wr16 Big (of_nat (length (extensions_wire es))) @ extensions_wire es"

definition client_hello_wire :: "byte \<Rightarrow> bytes \<Rightarrow> bytes" where
  "client_hello_wire minor body =
     [0x16, 3, minor] @ wr16 Big (of_nat (length body + 4)) @ 1 # enc Big 3 (length body) @ body"

section \<open>Extensions\<close>

lemma wr16_len: "n < 65536 \<Longrightarrow> unat (of_nat n :: u16) = n"
  by (simp add: unat_of_nat)

lemma from_utf8_host: "list_all (\<lambda>b. unat b < 0x80) host \<Longrightarrow> from_utf8 host = Some (map unat host)"
  by (simp add: from_utf8_ascii list_all_iff)

definition host_ok :: "bytes \<Rightarrow> bool" where
  "host_ok host \<longleftrightarrow> host \<noteq> [] \<and> length host < 65533 \<and> list_all (\<lambda>b. is_ascii_graphic (unat b)) host"

lemma parse_sni_wire:
  assumes "host_ok host"
  shows "parse_sni_extension_resilient (sni_wire host) = Some (Some (map unat host))"
proof -
  let ?d = "sni_wire host"
  have l: "length ?d = length host + 5" by (simp add: sni_wire_def)
  have "be16_at ?d 3 = Some (of_nat (length host))" "byte_at ?d 2 = Some 0" "subslice ?d 5 (5 + length host) = Some host"
    using l by (simp_all add: inbounds) (simp_all add: sni_wire_def nth_append)
  moreover have "from_utf8 host = Some (map unat host)"
    using assms by (intro from_utf8_host) (auto simp: host_ok_def list_all_iff is_ascii_graphic_def)
  ultimately show ?thesis
    using assms l
    by (auto simp: parse_sni_extension_resilient_def host_ok_def wr16_len list_all_iff)
qed

lemma alpn_loop_wire:
  assumes "list_all (\<lambda>p. p \<noteq> [] \<and> length p < 256 \<and> (\<forall>b \<in> set p. unat b < 0x80)) ps"
  shows "alpn_loop (pre @ labels_wire ps) (length pre + length (labels_wire ps)) (length pre) acc =
    Some (acc @ map (map unat) ps)"
  using assms
proof (induction ps arbitrary: pre acc)
  case Nil
  then show ?case by (subst alpn_loop.simps) simp
next
  case (Cons p ps)
  let ?d = "pre @ of_nat (length p) # p @ labels_wire ps"
  have u: "unat (of_nat (length p) :: byte) = length p" using Cons.prems by simp
  have s: "subslice ?d (Suc (length pre)) (Suc (length pre + length p)) = Some p" by (simp add: subslice_def)
  have t: "from_utf8 p = Some (map unat p)" using Cons.prems by (simp add: from_utf8_ascii)
  have ih: "alpn_loop ?d (length pre + length (labels_wire (p # ps))) (Suc (length pre + length p)) (acc @ [map unat p]) =
      Some (acc @ map unat p # map (map unat) ps)"
    using Cons.IH [of "pre @ of_nat (length p) # p" "acc @ [map unat p]"] Cons.prems by (simp add: add.assoc)
  show ?case
  proof (cases "ps = []")
    case True
    then show ?thesis
      using Cons.prems s t u by (subst alpn_loop.simps) (simp add: Let_def)
  next
    case False
    then have "labels_wire ps \<noteq> []" by (cases ps) simp_all
    then show ?thesis
      using Cons.prems s t u ih by (subst alpn_loop.simps) (simp add: Let_def)
  qed
qed

definition protocols_ok :: "bytes list \<Rightarrow> bool" where
  "protocols_ok ps \<longleftrightarrow> ps \<noteq> [] \<and> length (labels_wire ps) < 65534 \<and>
     list_all (\<lambda>p. p \<noteq> [] \<and> length p < 256 \<and> (\<forall>b \<in> set p. unat b < 0x80)) ps"

lemma parse_alpn_wire:
  assumes "protocols_ok ps"
  shows "parse_alpn_extension_resilient (alpn_wire ps) = Some (Some (map (map unat) ps))"
proof -
  have "be16_at (alpn_wire ps) 0 = Some (of_nat (length (labels_wire ps)))" by (simp add: alpn_wire_def)
  moreover have "unat (of_nat (length (labels_wire ps)) :: u16) = length (labels_wire ps)"
    using assms by (intro wr16_len) (simp add: protocols_ok_def)
  moreover have "alpn_loop (alpn_wire ps) (2 + length (labels_wire ps)) 2 [] = Some (map (map unat) ps)"
    using alpn_loop_wire [of ps "wr16 Big (of_nat (length (labels_wire ps)))" "[]"] assms
    by (simp add: alpn_wire_def protocols_ok_def)
  ultimately show ?thesis
    using assms by (simp add: parse_alpn_extension_resilient_def alpn_wire_def protocols_ok_def)
qed

lemma client_versions_wire:
  "client_versions (x # q @ concat (map (\<lambda>(a, b). [a, b]) vs)) (length q + 2 * length vs) (Suc (length q)) best =
    Some (best_version vs best)"
proof (induction vs arbitrary: q best)
  case Nil
  then show ?case by (subst client_versions.simps) (simp add: best_version_def)
next
  case (Cons v vs)
  obtain a b where v: "v = (a, b)" by (cases v)
  have bytes: "byte_at (x # q @ a # b # r) (Suc (length q)) = Some a"
    "byte_at (x # q @ a # b # r) (Suc (Suc (length q))) = Some b" for r
    by (simp_all add: byte_at_def nth_append)
  show ?case
    using Cons.IH [of "q @ [a, b]"]
    by (subst client_versions.simps) (simp add: v bytes best_version_def)
qed

lemma parse_versions_wire:
  assumes "length vs < 128"
  shows "parse_supported_versions_resilient (versions_wire vs) True = Some (best_version vs None)"
proof -
  have "unat (of_nat (2 * length vs) :: byte) = 2 * length vs" using assms by (intro unat_small) simp
  with client_versions_wire [of "of_nat (2 * length vs)" "[]" vs None] show ?thesis
    by (simp add: parse_supported_versions_resilient_def versions_wire_def byte_at_def del: of_nat_mult)
qed

text \<open>The extensions one after another.\<close>

definition apply_extension :: "bool \<Rightarrow> u16 \<times> bytes \<Rightarrow> TlsInfo \<Rightarrow> TlsInfo" where
  "apply_extension c e info = (if snd e = [] then info else the (tls_extension c (fst e) (snd e) info))"

lemma extensions_wire_simps [simp]:
  "extensions_wire [] = []" "extensions_wire (e # es) = extension_wire e @ extensions_wire es"
  by (simp_all add: extensions_wire_def)

lemma length_extension_wire [simp]: "length (extension_wire e) = 4 + length (snd e)"
  by (simp add: extension_wire_def)

lemma extensions_loop_wire:
  assumes "list_all (\<lambda>e. length (snd e) < 65536) es" "n + length es \<le> MAX_TLS_EXTENSIONS"
  shows "extensions_loop (pre @ extensions_wire es) c (length pre) n info = Some (fold (apply_extension c) es info)"
  using assms
proof (induction es arbitrary: pre n info)
  case Nil
  then show ?case by (subst extensions_loop.simps) simp
next
  case (Cons e es)
  obtain t d where e: "e = (t, d)" by (cases e)
  let ?b = "pre @ extension_wire e @ extensions_wire es"
  have u: "unat (of_nat (length d) :: u16) = length d" using Cons.prems by (intro wr16_len) (simp add: e)
  have f: "be16_at ?b (length pre) = Some t" "be16_at ?b (length pre + 2) = Some (of_nat (length d))"
    "subslice ?b (length pre + 4) (length pre + 4 + length d) = Some d"
    by (simp_all add: inbounds e) (simp_all add: extension_wire_def)
  have a: "(if d = [] then Some info else tls_extension c t d info) = Some (apply_extension c e info)"
    using yields_not_None [OF tls_extension_total, of c t d info] by (auto simp: apply_extension_def e)
  have "extensions_loop ?b c (length (pre @ extension_wire e)) (n + 1) (apply_extension c e info) =
      Some (fold (apply_extension c) es (apply_extension c e info))"
    using Cons.IH [of "n + 1" "pre @ extension_wire e"] Cons.prems by simp
  then show ?case
    using Cons.prems(2) f u a
    by (subst extensions_loop.simps) (cases "d = []"; simp add: e add.assoc)
qed

text \<open>What the hello says, whatever the order of its extensions and whatever others it has.\<close>

definition hello_extension_ok :: "bytes \<Rightarrow> bytes list \<Rightarrow> (byte \<times> byte) list \<Rightarrow> u16 \<times> bytes \<Rightarrow> bool" where
  "hello_extension_ok host ps vs e \<longleftrightarrow> length (snd e) < 65536 \<and> (fst e = 0 \<longrightarrow> snd e = sni_wire host) \<and>
     (fst e = 0x10 \<longrightarrow> snd e = alpn_wire ps) \<and> (fst e = 0x2b \<longrightarrow> snd e = versions_wire vs)"

definition hello_info :: "bytes \<Rightarrow> bytes list \<Rightarrow> (byte \<times> byte) list \<Rightarrow> (u16 \<times> bytes) list \<Rightarrow> TlsInfo \<Rightarrow> TlsInfo" where
  "hello_info host ps vs es info = info
     \<lparr>tls_version := (if 0x2b \<in> fst ` set es \<and> best_version vs None \<noteq> None then best_version vs None else tls_version info),
      tls_sni := (if 0 \<in> fst ` set es then Some (map unat host) else tls_sni info),
      tls_alpn := (if 0x10 \<in> fst ` set es then map (map unat) ps else tls_alpn info)\<rparr>"

lemma fold_extensions:
  assumes "host_ok host" "protocols_ok ps" "length vs < 128" "list_all (hello_extension_ok host ps vs) es"
  shows "fold (apply_extension True) es info = hello_info host ps vs es info"
  using assms(4)
proof (induction es rule: rev_induct)
  case Nil
  then show ?case by (simp add: hello_info_def)
next
  case (snoc e es)
  have ok: "hello_extension_ok host ps vs e" using snoc.prems by simp
  have ne: "sni_wire host \<noteq> []" "alpn_wire ps \<noteq> []" "versions_wire vs \<noteq> []"
    by (auto simp: sni_wire_def alpn_wire_def versions_wire_def dest: arg_cong [where f = length])
  have ps: "ps \<noteq> []" using assms(2) by (simp add: protocols_ok_def)
  have "apply_extension True e i = hello_info host ps vs [e] i" for i
    using ok ne ps
    by (cases "best_version vs None")
      (auto simp: apply_extension_def hello_extension_ok_def tls_extension_def hello_info_def
        parse_sni_wire [OF assms(1)] parse_alpn_wire [OF assms(2)] parse_versions_wire [OF assms(3)])
  with snoc show ?case by (auto simp: hello_info_def)
qed

section \<open>The message\<close>

lemma le_val_snoc_zero: "le_val (bs @ [0]) = le_val bs"
  by (induction bs) simp_all

lemma rd32_wr24: "n < 16777216 \<Longrightarrow> unat (rd32 Big (0 # enc Big 3 n)) = n"
proof -
  assume "n < 16777216"
  moreover have "dec Big (0 # enc Big 3 n) = dec Big (enc Big 3 n)" by (simp add: dec_def le_val_snoc_zero)
  ultimately show ?thesis by (simp add: rd32_def dec_enc unat_of_nat)
qed

definition hello_ok :: "bytes \<Rightarrow> bytes \<Rightarrow> bytes \<Rightarrow> bytes \<Rightarrow> (u16 \<times> bytes) list \<Rightarrow> bool" where
  "hello_ok random sid suites compression es \<longleftrightarrow> length random = 32 \<and> length sid < 256 \<and> length compression < 256 \<and>
     length suites < 65536 \<and> es \<noteq> [] \<and> length es \<le> MAX_TLS_EXTENSIONS \<and> length (extensions_wire es) < 65536"

text \<open>Where the parts of a hello lie.\<close>

lemma hello_layout:
  fixes sid suites compression es
  defines "n \<equiv> 38 + length sid + length suites + length compression"
  assumes "length random = 32"
  shows "length (hello_wire ver random sid suites compression es) = n + 2 + length (extensions_wire es)"
    and "byte_at (hello_wire ver random sid suites compression es) 34 = Some (of_nat (length sid))"
    and "be16_at (hello_wire ver random sid suites compression es) (35 + length sid) = Some (of_nat (length suites))"
    and "byte_at (hello_wire ver random sid suites compression es) (37 + length sid + length suites) =
      Some (of_nat (length compression))"
    and "be16_at (hello_wire ver random sid suites compression es) n = Some (of_nat (length (extensions_wire es)))"
    and "subslice (hello_wire ver random sid suites compression es) (n + 2) (n + 2 + length (extensions_wire es)) =
      Some (extensions_wire es)"
proof -
  let ?ext = "extensions_wire es"
  let ?d = "hello_wire ver random sid suites compression es"
  let ?r3 = "wr16 Big (of_nat (length ?ext)) @ ?ext"
  let ?r2 = "of_nat (length compression) # compression @ ?r3"
  have k: "length random = 32" by fact
  have l: "length ?d = n + 2 + length ?ext" using k by (simp add: hello_wire_def n_def)
  then show "length ?d = n + 2 + length ?ext" .
  show "byte_at ?d 34 = Some (of_nat (length sid))"
    using l k by (simp add: inbounds n_def) (simp add: hello_wire_def nth_append)
  have d0: "drop 35 ?d = sid @ wr16 Big (of_nat (length suites)) @ suites @ ?r2"
    using k by (simp add: hello_wire_def)
  have d1: "drop (35 + length sid) ?d = wr16 Big (of_nat (length suites)) @ suites @ ?r2"
    by (rule drop_further [OF d0]) simp
  have d2: "drop (37 + length sid + length suites) ?d = ?r2"
    by (rule drop_further [of "35 + length sid" _ "wr16 Big (of_nat (length suites)) @ suites"]) (simp_all add: d1)
  have d3: "drop n ?d = ?r3"
    by (rule drop_further [of "37 + length sid + length suites" _ "of_nat (length compression) # compression"])
      (simp_all add: d2 n_def)
  have d4: "drop (n + 2) ?d = ?ext @ []"
    by (rule drop_further [of n _ "wr16 Big (of_nat (length ?ext))"]) (simp_all add: d3)
  show "be16_at ?d (35 + length sid) = Some (of_nat (length suites))" by (rule be16_at_drop [OF d1])
  show "byte_at ?d (37 + length sid + length suites) = Some (of_nat (length compression))"
    by (rule byte_at_drop [OF d2])
  show "be16_at ?d n = Some (of_nat (length ?ext))" by (rule be16_at_drop [OF d3])
  show "subslice ?d (n + 2) (n + 2 + length ?ext) = Some ?ext"
    by (rule subslice_drop [OF d4]) (simp_all add: l)
qed

lemma parse_client_hello_wire:
  assumes "hello_ok random sid suites compression es" "list_all (\<lambda>e. length (snd e) < 65536) es"
  shows "parse_client_hello (hello_wire ver random sid suites compression es) record_version info =
    Some (fold (apply_extension True) es (info\<lparr>tls_version :=
      (case version_from_bytes (fst ver) (snd ver) of Some v \<Rightarrow> Some v | None \<Rightarrow> record_version)\<rparr>))"
proof -
  let ?ext = "extensions_wire es"
  let ?d = "hello_wire ver random sid suites compression es"
  have k: "length random = 32" using assms(1) by (simp add: hello_ok_def)
  have u: "unat (of_nat (length sid) :: byte) = length sid"
    "unat (of_nat (length compression) :: byte) = length compression"
    "unat (of_nat (length suites) :: u16) = length suites" "unat (of_nat (length ?ext) :: u16) = length ?ext"
    using assms(1) by (simp_all add: hello_ok_def wr16_len)
  note at = hello_layout [OF k, of ver sid suites compression es]
  have v: "byte_at ?d 0 = Some (fst ver)" "byte_at ?d 1 = Some (snd ver)"
    by (simp_all add: byte_at_def hello_wire_def)
  have ne: "?ext \<noteq> []" using assms(1) by (cases es) (auto simp: hello_ok_def extension_wire_def dest: arg_cong [where f = length])
  have h: "hello_extensions ?d (38 + length sid + length suites + length compression) True i =
      Some (fold (apply_extension True) es i)" for i
    using ne at(1,5,6) u(4) extensions_loop_wire [OF assms(2), of 0 "[]" True i] assms(1)
    by (simp add: hello_extensions_def parse_extensions_def hello_ok_def add.assoc)
  show ?thesis
    using h v at(1-4) u by (simp add: parse_client_hello_def Let_def add.assoc)
qed

lemma analyze_client_hello:
  assumes "body \<noteq> []" "length body \<le> 16384"
  shows "analyze_https (client_hello_wire minor body @ trailer) =
    map_option (\<lambda>info. Some \<lparr>hs_tls_info = Some info\<rparr>)
      (parse_client_hello body (version_from_bytes 3 minor) (new_tls_info\<lparr>tls_version := version_from_bytes 3 minor\<rparr>))"
proof -
  let ?d = "client_hello_wire minor body @ trailer" and ?h = "1 # enc Big 3 (length body) @ body"
  obtain h1 h2 h3 where e: "enc Big 3 (length body) = [h1, h2, h3]"
    using length_enc [of Big 3 "length body"] by (auto simp: length_Suc_conv numeral_eq_Suc simp del: length_enc)
  have r: "unat (rd32 Big [0, h1, h2, h3]) = length body"
    using rd32_wr24 [of "length body"] assms(2) by (simp add: e)
  have u: "unat (of_nat (length body + 4) :: u16) = length body + 4" using assms(2) by (intro wr16_len) simp
  have f: "byte_at ?d 0 = Some 0x16" "byte_at ?d 1 = Some 3" "byte_at ?d 2 = Some minor"
    "be16_at ?d 3 = Some (of_nat (length body + 4))"
    by (simp_all add: client_hello_wire_def byte_at_def nth_append)
      (rule be16_at_drop, simp)
  have "drop 5 ?d = ?h @ trailer" by (simp add: client_hello_wire_def e)
  then have s: "subslice ?d 5 (9 + length body) = Some ?h"
    by (rule subslice_drop) (simp_all add: client_hello_wire_def e)
  have g: "byte_at ?h 0 = Some 1" "byte_at ?h 1 = Some h1" "byte_at ?h 2 = Some h2" "byte_at ?h 3 = Some h3"
    "subslice ?h 4 (4 + length body) = Some body"
    by (simp_all add: e byte_at_def subslice_def nth_Cons')
  have "parse_handshake ?h v i = parse_client_hello body v i" for v i
    using assms r g by (simp add: parse_handshake_def e)
  then show ?thesis
    using assms f u s
    by (cases "parse_client_hello body (version_from_bytes 3 minor) (new_tls_info\<lparr>tls_version := version_from_bytes 3 minor\<rparr>)")
      (simp_all add: analyze_https_def client_hello_wire_def e Let_def)
qed

end
