(* ===== verification/Dpi_Signatures.thy ===== *)
theory Dpi_Signatures
  imports Dpi_Wire "HOL-Library.Multiset"
begin

text \<open>
  The signatures by which TCP payloads are recognized off the well-known ports exclude each other,
  so that the order in which inspection tries the protocols does not matter there.
\<close>

section \<open>Trying protocols in an order\<close>

text \<open>A protocol's gate, and what its analysis reports.\<close>

type_synonym tcp_attempt = "bool option \<times> application_protocol option option"

definition tcp_attempts :: "bytes \<Rightarrow> bool \<Rightarrow> tcp_attempt list" where
  "tcp_attempts p is_outgoing =
     [(Some (is_likely_http p), Some (map_option AppHttp (analyze_http p))),
      (is_tls_handshake p, map_option (map_option AppHttps) (analyze_https p)),
      (Some (is_bittorrent_handshake p), map_option (map_option AppBitTorrent) (analyze_bittorrent p)),
      (is_mqtt_packet p, map_option (map_option AppMqtt) (analyze_mqtt p)),
      (is_likely_ssh p, map_option (map_option AppSsh) (analyze_ssh p is_outgoing)),
      (is_ftp p, map_option (map_option AppFtp) (analyze_ftp p))]"

fun try_all :: "tcp_attempt list \<Rightarrow> application_protocol option option" where
  "try_all [] = Some None"
| "try_all ((gate, analysis) # others) = do {
     open_gate \<leftarrow> gate;
     if open_gate
     then do { result \<leftarrow> analysis; (case result of Some app \<Rightarrow> Some (Some app) | None \<Rightarrow> try_all others) }
     else try_all others }"

abbreviation is_open :: "tcp_attempt \<Rightarrow> bool" where
  "is_open a \<equiv> fst a = Some True"

lemma try_all_closed: "\<forall>a \<in> set as. fst a = Some False \<Longrightarrow> try_all as = Some None"
  by (induction as rule: try_all.induct) auto

lemma try_all_exclusive:
  assumes "\<forall>a \<in> set as. fst a \<noteq> None" "length (filter is_open as) \<le> 1"
  shows "try_all as = (case filter is_open as of [] \<Rightarrow> Some None | a # _ \<Rightarrow> snd a)"
  using assms
proof (induction as rule: try_all.induct)
  case (2 gate analysis others)
  obtain g where g: "gate = Some g" using 2(3) by auto
  show ?case
  proof (cases g)
    case True
    then have "filter is_open others = []" using 2(4) g by simp
    then have "\<forall>a \<in> set others. fst a \<noteq> Some True" by (simp add: filter_empty_conv)
    then have "\<forall>a \<in> set others. fst a = Some False" using 2(3) by (metis list.set_intros(2) not_None_eq)
    then have "try_all others = Some None" by (rule try_all_closed)
    with True g show ?thesis by (cases analysis) (auto split: option.split)
  qed (use 2 g in auto)
qed simp

lemma filter_permuted:
  assumes "mset as = mset bs" "length (filter P bs) \<le> 1"
  shows "filter P as = filter P bs"
proof -
  have "mset (filter P as) = mset (filter P bs)" using assms(1) by simp
  with assms(2) show ?thesis
    by (cases "filter P bs"; cases "filter P as")
      (auto simp: size_mset [symmetric] simp del: size_mset dest: arg_cong [where f = size])
qed

lemma try_all_permuted:
  assumes "mset as = mset bs" "\<forall>a \<in> set bs. fst a \<noteq> None" "length (filter is_open bs) \<le> 1"
  shows "try_all as = try_all bs"
  using assms try_all_exclusive [of as] try_all_exclusive [of bs] filter_permuted [OF assms(1,3)] mset_eq_setD [OF assms(1)]
  by simp

section \<open>The first bytes\<close>

definition http_starts :: "bytes list" where
  "http_starts = map bstr [''GET '', ''POST '', ''PUT '', ''DELETE '', ''HEAD '', ''OPTIONS '', ''CONNECT '', ''TRACE '',
     ''PATCH '', ''HTTP/1.0 '', ''HTTP/1.1 '', ''HTTP/2 '']"

lemma likely_http_starts: "is_likely_http p \<Longrightarrow> \<exists>w \<in> set http_starts. starts_with_seq p w"
  unfolding is_likely_http_def http_starts_def list_ex_iff by blast

lemma starts_hd: "starts_with_seq p w \<Longrightarrow> w \<noteq> [] \<Longrightarrow> hd p = hd w \<and> p \<noteq> []"
  by (cases p; cases w) (auto simp: starts_with_seq_def)

lemma starts_prefix: "starts_with_seq p (u @ v) \<Longrightarrow> starts_with_seq p u"
  by (drule starts_withD) (metis append.assoc starts_with_append)

lemma byte_hd: "byte_at p 0 = Some b \<Longrightarrow> hd p = b \<and> p \<noteq> []"
  by (auto simp: byte_at_def hd_conv_nth split: if_splits)

lemma http_first: "is_likely_http p \<Longrightarrow> hd p \<in> set (bstr ''GPDHOCT'') \<and> p \<noteq> []"
  by (drule likely_http_starts) (auto simp: http_starts_def bstr_def dest!: starts_hd)

lemma tls_first: "is_tls_handshake p = Some True \<Longrightarrow> hd p = 0x16 \<and> p \<noteq> []"
  by (auto simp: is_tls_handshake_def Option.bind_eq_Some_conv dest: byte_hd split: if_splits)

lemma bittorrent_first: "is_bittorrent_handshake p \<Longrightarrow> hd p = 0x13 \<and> p \<noteq> []"
  by (auto simp: is_bittorrent_handshake_def BT_HANDSHAKE_PREFIX_def dest: starts_hd)

lemma mqtt_first: "is_mqtt_packet p = Some True \<Longrightarrow> hd p = 0x10 \<and> p \<noteq> []"
proof -
  assume m: "is_mqtt_packet p = Some True"
  then obtain b where b: "byte_at p 0 = Some b" "drop_bit 4 b = 1 \<and> b AND 0x0F = 0"
    by (auto simp: is_mqtt_packet_def Let_def Option.bind_eq_Some_conv split: if_splits option.splits)
  with nibbles(3) [of b] byte_hd [OF b(1)] show ?thesis by simp
qed

lemma ssh_first:
  assumes "is_likely_ssh p = Some True"
  shows "starts_with_seq p (bstr ''SSH-'') \<or> hd p = 0 \<and> p \<noteq> []"
proof (cases "starts_with_seq p (bstr ''SSH-1.'') \<or> starts_with_seq p (bstr ''SSH-2.'')")
  case True
  then have "starts_with_seq p (bstr ''SSH-'' @ bstr ''1.'') \<or> starts_with_seq p (bstr ''SSH-'' @ bstr ''2.'')"
    by (simp add: bstr_def)
  then show ?thesis using starts_prefix by blast
next
  case False
  then have v: "is_valid_ssh_packet_at_offset p 0 = Some True" "6 \<le> length p"
    using assms by (auto simp: is_likely_ssh_def is_ssh_packet_structure_def split: if_splits)
  obtain a b c d r where p: "p = a # b # c # d # r" using v(2)
    by (metis Suc_le_length_iff numeral_eq_Suc pred_numeral_simps(3) BitM.simps eval_nat_numeral(2,3))
  have "rd32 Big [a, b, c, d] \<le> 35000"
    using v by (auto simp: is_valid_ssh_packet_at_offset_def Let_def p be32_at_def inbounds Option.bind_eq_Some_conv split: if_splits)
  then have "dec Big [a, b, c, d] \<le> 35000"
    using dec_bound [of Big "[a, b, c, d]"] by (simp add: rd32_def word_le_nat_alt unat_of_nat)
  then have "unat a * 16777216 \<le> 35000" by (simp add: dec_def)
  then have "unat a = 0" by linarith
  then have "a = 0" by (simp add: unat_eq_0)
  then show ?thesis by (simp add: p)
qed


text \<open>The command FTP is recognized by begins the payload, in letters of either case.\<close>

lemma ftp_first_line_prefix: "ftp_first_line p = Some line \<Longrightarrow> \<exists>rest. p = line @ rest"
  by (auto simp: ftp_first_line_def slice_to_def Option.bind_eq_Some_conv split: option.splits if_splits)
    (metis append_take_drop_id)+

lemma ftp_first:
  assumes "is_ftp p = Some True"
  shows "\<exists>t \<in> set FTP_DISTINCTIVE_COMMANDS. map byte_upper (take (length t) p) = t"
    and "is_ascii_alphabetic (unat (hd p))" "p \<noteq> []"
proof -
  obtain line upper where l: "ftp_first_line p = Some line" and f: "first_token_upper line = Some upper"
      "upper \<noteq> []" "upper \<in> set FTP_DISTINCTIVE_COMMANDS"
    using assms by (auto simp: is_ftp_def Option.bind_eq_Some_conv split: if_splits)
  obtain rest where p: "p = line @ rest" using ftp_first_line_prefix [OF l] by blast
  obtain n where n: "upper = map byte_upper (take n line)" "n \<le> length line"
      "list_all (\<lambda>b. is_ascii_alphabetic (unat b)) (take n line)"
    using f(1,2) by (auto simp: first_token_upper_def slice_to_def Option.bind_eq_Some_conv split: if_splits)
  then have "map byte_upper (take (length upper) p) = upper" by (simp add: p)
  with f(3) show "\<exists>t \<in> set FTP_DISTINCTIVE_COMMANDS. map byte_upper (take (length t) p) = t" by blast
  show "is_ascii_alphabetic (unat (hd p))" "p \<noteq> []"
    using n f(2) by (cases line; cases n; simp add: p)+
qed

lemma ftp_starts:
  assumes "is_ftp p = Some True" "starts_with_seq p w" "4 \<le> length w"
  shows "\<exists>t \<in> set FTP_DISTINCTIVE_COMMANDS. map byte_upper (take (length t) w) = t"
proof -
  obtain t where t: "t \<in> set FTP_DISTINCTIVE_COMMANDS" "map byte_upper (take (length t) p) = t"
    using ftp_first(1) [OF assms(1)] by blast
  have "list_all (\<lambda>t. length t \<le> 4) FTP_DISTINCTIVE_COMMANDS"
    by (simp add: FTP_DISTINCTIVE_COMMANDS_def bstr_def)
  with t(1) have "length t \<le> length w" using assms(3) by (auto simp: list_all_iff)
  then have "take (length t) p = take (length t) w"
    using assms(2) by (metis min.absorb1 starts_with_seq_def take_take)
  with t show ?thesis by auto
qed

lemma no_command:
  "list_all (\<lambda>w. list_all (\<lambda>t. map byte_upper (take (length t) w) \<noteq> t) FTP_DISTINCTIVE_COMMANDS) (bstr ''SSH-'' # http_starts)"
  by code_simp

lemma ftp_alone:
  assumes "is_ftp p = Some True"
  shows "\<not> is_likely_http p" "is_tls_handshake p \<noteq> Some True" "\<not> is_bittorrent_handshake p"
    "is_mqtt_packet p \<noteq> Some True" "is_likely_ssh p \<noteq> Some True"
proof -
  have no: "\<not> starts_with_seq p w" if "w \<in> set (bstr ''SSH-'' # http_starts)" for w
  proof
    assume "starts_with_seq p w"
    moreover have "4 \<le> length w" using that by (auto simp: http_starts_def bstr_def)
    ultimately show False using ftp_starts [OF assms] no_command that by (auto simp: list_all_iff)
  qed
  note a = ftp_first(2,3) [OF assms]
  show "\<not> is_likely_http p" using no likely_http_starts by auto
  show "is_tls_handshake p \<noteq> Some True" "\<not> is_bittorrent_handshake p" "is_mqtt_packet p \<noteq> Some True"
    "is_likely_ssh p \<noteq> Some True"
    using a no tls_first [of p] bittorrent_first [of p] mqtt_first [of p] ssh_first [of p]
    by (auto simp: is_ascii_alphabetic_def)
qed

lemma signatures_exclusive: "length (filter is_open (tcp_attempts p out)) \<le> 1"
proof -
  have "\<not> is_likely_ssh p = Some True" if "is_likely_http p"
    using http_first [OF that] ssh_first [of p] starts_hd [of p "bstr ''SSH-''"] by (auto simp: bstr_def)
  moreover have "is_tls_handshake p \<noteq> Some True \<and> \<not> is_bittorrent_handshake p \<and> is_mqtt_packet p \<noteq> Some True" if "is_likely_http p"
    using http_first [OF that] tls_first [of p] bittorrent_first [of p] mqtt_first [of p] by (auto simp: bstr_def)
  moreover have "\<not> is_likely_ssh p = Some True" if "is_tls_handshake p = Some True \<or> is_bittorrent_handshake p \<or> is_mqtt_packet p = Some True"
    using that ssh_first [of p] starts_hd [of p "bstr ''SSH-''"] tls_first [of p] bittorrent_first [of p] mqtt_first [of p]
    by (auto simp: bstr_def)
  moreover have "is_tls_handshake p = Some True \<Longrightarrow> \<not> is_bittorrent_handshake p \<and> is_mqtt_packet p \<noteq> Some True"
    "is_bittorrent_handshake p \<Longrightarrow> is_mqtt_packet p \<noteq> Some True"
    using tls_first [of p] bittorrent_first [of p] mqtt_first [of p] by auto
  ultimately show ?thesis using ftp_alone [of p] by (auto simp: tcp_attempts_def)
qed

lemma gates_total: "\<forall>a \<in> set (tcp_attempts p out). fst a \<noteq> None"
  using yields_not_None [OF analyze_https_total(2)] yields_not_None [OF is_mqtt_packet_total]
    yields_not_None [OF analyze_ssh_total(2)] yields_not_None [OF analyze_ftp_total(2)]
  by (simp add: tcp_attempts_def)

lemma attempt_tries:
  fixes analysis :: "'a option option"
  assumes "others = try_all as"
  shows "attempt gate analysis app others = try_all ((gate, map_option (map_option app) analysis) # as)"
  by (cases gate; cases analysis) (auto simp: attempt_def assms split: option.split)

lemma http_tries:
  assumes "others = try_all as"
  shows "attempt (Some True) (Some (analyze_http p)) AppHttp others =
    try_all ((Some (is_likely_http p), Some (map_option AppHttp (analyze_http p))) # as)"
  by (auto simp: attempt_def assms analyze_http_def split: option.split)

lemma analyze_tcp_tries:
  assumes "\<not> on_port lp rp [443, 1883, 22, 21]" "p \<noteq> []"
  shows "analyze_tcp_packet p lp rp out = try_all (tcp_attempts p out)"
proof -
  have off: "port_or (on_port lp rp [443]) g = g" "port_or (on_port lp rp [1883]) g = g"
    "port_or (on_port lp rp [22]) g = g" "port_or (on_port lp rp [21]) g = g" for g
    using assms(1) by (simp_all add: port_or_def on_port_def)
  show ?thesis
    unfolding analyze_tcp_packet_def off tcp_attempts_def if_not_P [OF assms(2)]
    by (rule http_tries, (rule attempt_tries)+, rule try_all.simps(1) [symmetric])
qed

end
