(* ===== verification/Quic_Wire.thy ===== *)
theory Quic_Wire
  imports Quic_Safety Tls_Wire
begin

text \<open>
  What a QUIC client sends first (RFC 9000): integers of variable length, the
  frames of an Initial packet and the ClientHello in them; and that the parser takes them
  apart again.
\<close>

section \<open>Integers\<close>

text \<open>An integer in one of the four sizes, not always the smallest.\<close>

definition int_wire :: "nat \<Rightarrow> nat \<Rightarrow> bytes" where
  "int_wire w n = enc Big (2 ^ w) (n + w * 2 ^ (8 * 2 ^ w - 2))"

definition int_fits :: "nat \<Rightarrow> nat \<Rightarrow> bool" where
  "int_fits w n \<longleftrightarrow> w < 4 \<and> n < 2 ^ (8 * 2 ^ w - 2)"

lemma length_int_wire [simp]: "length (int_wire w n) = 2 ^ w"
  by (simp add: int_wire_def)

lemma enc_Suc: "enc Big (Suc k) v = of_nat (v div 256 ^ k) # enc Big k v"
proof (induction k arbitrary: v)
  case (Suc k)
  have "enc Big (Suc (Suc k)) v = enc Big (Suc k) (v div 256) @ [of_nat v]" by (simp add: enc_def)
  also have "\<dots> = of_nat (v div 256 ^ Suc k) # enc Big k (v div 256) @ [of_nat v]"
    by (simp add: Suc div_mult2_eq)
  also have "enc Big k (v div 256) @ [of_nat v] = enc Big (Suc k) v" by (simp add: enc_def)
  finally show ?case .
qed (simp add: enc_def)

lemma enc_mod: "enc Big k (n + c * 256 ^ k) = enc Big k n"
proof (induction k arbitrary: n)
  case (Suc k)
  have "(n + c * 256 ^ Suc k) div 256 = n div 256 + c * 256 ^ k" by simp
  moreover have "(of_nat (n + 256 * (c * 256 ^ k)) :: byte) = of_nat n"
    by (simp only: word_unat_eq_iff unat_of_nat) simp
  then have "(of_nat (n + c * 256 ^ Suc k) :: byte) = of_nat n" by (simp only: power_Suc mult.left_commute)
  ultimately show ?case using Suc [of "n div 256"] by (simp add: enc_def)
qed (simp add: enc_def)

text \<open>The first byte carries the size; without it the bytes are the number.\<close>

lemma int_wire_bytes:
  assumes "int_fits w n"
  obtains b bs where "int_wire w n = b # bs" "length bs = 2 ^ w - 1" "drop_bit 6 b = of_nat w"
    "dec Big ((b AND 0x3f) # bs) = n"
proof -
  define k where "k = (2 :: nat) ^ w - 1"
  have k: "2 ^ w = Suc k" by (simp add: k_def)
  have e: "(2 :: nat) ^ (8 * 2 ^ w - 2) = 64 * 256 ^ k"
  proof -
    have "8 * 2 ^ w - 2 = 6 + 8 * k" using k by simp
    then show ?thesis by (simp only: power_add) (simp add: power_mult)
  qed
  have n: "n < 64 * 256 ^ k" "w < 4" using assms e by (simp_all add: int_fits_def)
  define q where "q = n div 256 ^ k"
  have q: "q < 64" using n by (simp add: q_def less_mult_imp_div_less)
  define b :: byte where "b = of_nat (q + 64 * w)"
  have u: "unat b = q + 64 * w" unfolding b_def using q n(2) by (intro unat_small) simp
  have "(n + w * (64 * 256 ^ k)) div 256 ^ k = q + 64 * w"
    by (simp add: q_def mult.assoc [symmetric] mult.commute)
  then have "enc Big (Suc k) (n + w * (64 * 256 ^ k)) = b # enc Big k n"
    using enc_mod [of k n "w * 64"] by (simp add: enc_Suc b_def mult.assoc del: of_nat_add)
  then have "int_wire w n = b # enc Big k n" by (simp only: int_wire_def e [unfolded k] k)
  moreover have "drop_bit 6 b = of_nat w"
  proof -
    have "unat (drop_bit 6 b) = w"
      using q n(2) by (simp only: unsigned_drop_bit_eq u) (simp add: drop_bit_eq_div take_bit_nat_eq_self)
    then show ?thesis by (metis of_nat_unat ucast_id)
  qed
  moreover have "dec Big ((b AND 0x3f) # enc Big k n) = n"
  proof -
    have "b AND 0x3f = of_nat q" using q by (simp add: word_unat_eq_iff and_3f u unat_of_nat)
    then have "(b AND 0x3f) # enc Big k n = enc Big (Suc k) n" by (simp add: enc_Suc q_def)
    moreover have "n < 256 ^ Suc k" using n(1) by simp
    ultimately show ?thesis by (simp add: dec_enc)
  qed
  ultimately show ?thesis by (intro that) (simp_all add: k_def)
qed

lemma byte_at_append [simp]:
  "byte_at (b # d) 0 = Some b"
  "byte_at (b # d) (numeral k) = byte_at d (pred_numeral k)"
  "byte_at (b # d) (Suc i) = byte_at d i"
  by (simp_all add: byte_at_def numeral_eq_Suc)

lemma parse_int_wire:
  assumes "int_fits w n"
  shows "parse_variable_length_int (int_wire w n @ rest) = Some (Some (of_nat n, 2 ^ w))"
proof -
  obtain b bs where b: "int_wire w n = b # bs" "length bs = 2 ^ w - 1" "drop_bit 6 b = of_nat w"
    "dec Big ((b AND 0x3f) # bs) = n"
    by (rule int_wire_bytes [OF assms])
  have "w = 0 \<or> w = 1 \<or> w = 2 \<or> w = 3" using assms by (auto simp: int_fits_def)
  then show ?thesis
  proof (elim disjE)
    assume w: "w = 0"
    then have "unat (b AND 0x3f) = n" using b(2,4) by (simp add: dec_def)
    then have "(of_nat n :: u64) = ucast (b AND 0x3f)" by (metis of_nat_unat)
    with w b show ?thesis by (simp add: parse_variable_length_int_def)
  next
    assume w: "w = 1"
    with b(2) obtain x where x: "bs = [x]" by (auto simp: length_Suc_conv)
    have "n < 65536" using assms w by (simp add: int_fits_def)
    moreover have "(of_nat (unat (of_nat n :: u16)) :: u64) = ucast (of_nat n :: u16)" by (rule of_nat_unat)
    ultimately have "ucast (rd16 Big [b AND 0x3f, x]) = (of_nat n :: u64)"
      using b(4) x wr16_len [of n] by (simp add: rd16_def)
    with w b x show ?thesis by (simp add: parse_variable_length_int_def)
  next
    assume w: "w = 2"
    with b(2) obtain x y z where x: "bs = [x, y, z]" by (auto simp: length_Suc_conv numeral_eq_Suc)
    have "n < 4294967296" using assms w by (simp add: int_fits_def)
    then have "unat (of_nat n :: u32) = n" by (simp add: unat_of_nat)
    moreover have "(of_nat (unat (of_nat n :: u32)) :: u64) = ucast (of_nat n :: u32)" by (rule of_nat_unat)
    ultimately have "ucast (rd32 Big [b AND 0x3f, x, y, z]) = (of_nat n :: u64)"
      using b(4) x by (simp add: rd32_def)
    with w b x show ?thesis by (simp add: parse_variable_length_int_def)
  next
    assume w: "w = 3"
    with b(2) obtain x1 x2 x3 x4 x5 x6 x7 where x: "bs = [x1, x2, x3, x4, x5, x6, x7]"
      by (auto simp: length_Suc_conv numeral_eq_Suc)
    have "rd64 Big [b AND 0x3f, x1, x2, x3, x4, x5, x6, x7] = (of_nat n :: u64)"
      using b(4) x w by (simp add: rd64_def)
    with w b x show ?thesis by (simp add: parse_variable_length_int_def)
  qed
qed

lemma int_at_wire:
  assumes "drop i p = int_wire w n @ rest" "int_fits w n" "i \<le> length p"
  shows "int_at p i = Some (Some (of_nat n, i + 2 ^ w))"
  using assms by (simp add: int_at_def inbounds parse_int_wire)

section \<open>Frames\<close>

text \<open>
  What a client puts around its ClientHello: padding, PING, and CRYPTO frames, which give their
  offset and length in integers of any size.
\<close>

datatype hello_frame = Padding | Ping | Crypto nat nat fragment

fun frame_wire :: "hello_frame \<Rightarrow> bytes" where
  "frame_wire Padding = [0]"
| "frame_wire Ping = [1]"
| "frame_wire (Crypto v w f) = 6 # int_wire v (unat (fst f)) @ int_wire w (length (snd f)) @ snd f"

fun frame_fits :: "hello_frame \<Rightarrow> bool" where
  "frame_fits (Crypto v w f) \<longleftrightarrow> int_fits v (unat (fst f)) \<and> int_fits w (length (snd f)) \<and> snd f \<noteq> []"
| "frame_fits _ \<longleftrightarrow> True"

definition frames_wire :: "hello_frame list \<Rightarrow> bytes" where
  "frames_wire fs = concat (map frame_wire fs)"

fun crypto_data :: "hello_frame list \<Rightarrow> fragment list" where
  "crypto_data [] = []"
| "crypto_data (Crypto v w f # fs) = f # crypto_data fs"
| "crypto_data (_ # fs) = crypto_data fs"

fun see_frame :: "hello_frame \<Rightarrow> QuicInfo \<times> bool \<Rightarrow> QuicInfo \<times> bool" where
  "see_frame (Crypto v w f) walk = (add_crypto (fst f) (snd f) ((fst walk)\<lparr>qi_has_crypto_frame := True\<rparr>), True)"
| "see_frame _ walk = walk"

lemma scan_at_end: "length p \<le> i \<Longrightarrow> scan_packet_frames p i walk = Some (True, walk)"
  by (subst scan_packet_frames.simps) simp

text \<open>A byte of padding takes those that follow it along.\<close>

lemma scan_padding:
  assumes "drop i p = 0 # rest"
  shows "scan_packet_frames p i walk = scan_packet_frames p (i + 1) walk"
proof -
  have i: "i < length p" "byte_at p i = Some 0"
    using assms byte_at_drop [OF assms] by (auto simp: byte_at_def split: if_splits)
  have rest: "drop (i + 1) p = rest" by (rule drop_further [of i _ "[0]"]) (simp_all add: assms)
  let ?n = "length (takeWhile (\<lambda>b. b = 0) rest)"
  have at: "scan_packet_frames p i walk = (if i + 1 + ?n > length p then Some (True, walk)
      else scan_packet_frames p (i + 1 + ?n) walk)"
    using i rest by (subst scan_packet_frames.simps) (simp add: packet_frame_def skip_frame_def)
  have le: "i + 1 + ?n \<le> length p"
    using length_takeWhile_le [of "\<lambda>b. b = 0" rest] rest i(1) by (auto simp flip: rest)
  show ?thesis
  proof (cases rest)
    case Nil
    with at le show ?thesis by simp
  next
    case (Cons b bs)
    show ?thesis
    proof (cases "b = 0")
      case True
      have i': "i + 1 < length p" "byte_at p (i + 1) = Some 0"
        using rest Cons True byte_at_drop [of "i + 1" p b bs] by (auto simp: byte_at_def split: if_splits)
      have "drop (Suc (Suc i)) p = bs" using drop_further [of "i + 1" p "[b]" bs] rest Cons by simp
      with i' have "scan_packet_frames p (i + 1) walk = scan_packet_frames p (i + 1 + ?n) walk"
        using le Cons True by (subst scan_packet_frames.simps) (simp add: packet_frame_def skip_frame_def)
      with at le show ?thesis by simp
    next
      case False
      with at le Cons show ?thesis by simp
    qed
  qed
qed

lemma scan_ping:
  assumes "drop i p = 1 # rest"
  shows "scan_packet_frames p i walk = scan_packet_frames p (i + 1) walk"
proof -
  have "i < length p" "byte_at p i = Some 1"
    using assms byte_at_drop [OF assms] by (auto simp: byte_at_def split: if_splits)
  then show ?thesis by (subst scan_packet_frames.simps) (simp add: packet_frame_def skip_frame_def)
qed

lemma scan_crypto:
  assumes "drop i p = frame_wire (Crypto v w f) @ rest" "frame_fits (Crypto v w f)" "length p < 2 ^ 32"
  shows "scan_packet_frames p i walk =
    scan_packet_frames p (i + length (frame_wire (Crypto v w f))) (see_frame (Crypto v w f) walk)"
proof -
  obtain k d where f: "f = (k, d)" by (cases f)
  let ?a = "i + 1" and ?b = "i + 1 + 2 ^ v" and ?c = "i + 1 + 2 ^ v + 2 ^ w"
  have d0: "drop i p = 6 # int_wire v (unat k) @ int_wire w (length d) @ d @ rest" using assms(1) by (simp add: f)
  then have i: "i < length p" "byte_at p i = Some 6"
    using byte_at_drop [OF d0] by (auto simp: byte_at_def split: if_splits)
  have d1: "drop ?a p = int_wire v (unat k) @ int_wire w (length d) @ d @ rest"
    by (rule drop_further [of i _ "[6]"]) (simp_all add: d0)
  have d2: "drop ?b p = int_wire w (length d) @ d @ rest" by (rule drop_further [OF d1]) simp
  have d3: "drop ?c p = d @ rest" by (rule drop_further [OF d2]) simp
  have le: "?a \<le> length p" "?b \<le> length p" "?c + length d \<le> length p"
    using arg_cong [OF d1, of length] arg_cong [OF d2, of length] arg_cong [OF d3, of length] i(1) assms(2)
    by (auto simp: f)
  have u: "unat (of_nat (length d) :: u64) = length d" using le(3) assms(3) by (simp add: unat_of_nat)
  have data: "subslice p ?c (?c + length d) = Some d" by (rule subslice_drop [OF d3]) (use le in simp_all)
  have ne: "d \<noteq> []" "int_fits v (unat k)" "int_fits w (length d)" using assms(2) by (simp_all add: f)
  have "?c < length p" "min (length p - ?c) (length d) = length d" using le(3) ne(1) by (cases d; simp)+
  then have "crypto_frame p ?a info =
      Some (Next (?c + length d), add_crypto k d (info\<lparr>qi_has_crypto_frame := True\<rparr>))" for info
    using int_at_wire [OF d1 ne(2) le(1)] int_at_wire [OF d2 ne(3) le(2)] le(3) data ne(1) u
    by (simp add: crypto_frame_def Let_def add.assoc)
  then show ?thesis
    using i le(3) by (subst scan_packet_frames.simps) (simp add: packet_frame_def f add.assoc)
qed

lemma scan_frames_wire:
  assumes "drop i p = frames_wire fs" "list_all frame_fits fs" "length p < 2 ^ 32"
  shows "scan_packet_frames p i walk = Some (True, fold see_frame fs walk)"
  using assms(1,2)
proof (induction fs arbitrary: i walk)
  case Nil
  then show ?case by (simp add: frames_wire_def scan_at_end)
next
  case (Cons f fs)
  have d: "drop i p = frame_wire f @ frames_wire fs" using Cons.prems(1) by (simp add: frames_wire_def)
  have "drop (i + length (frame_wire f)) p = frames_wire fs" by (rule drop_further [OF d]) simp
  then have IH: "scan_packet_frames p (i + length (frame_wire f)) w = Some (True, fold see_frame fs w)" for w
    using Cons by simp
  show ?case
  proof (cases f)
    case (Crypto v w g)
    then show ?thesis using scan_crypto [of i p v w g] d Cons.prems(2) assms(3) IH by simp
  qed (use d IH scan_padding scan_ping in simp_all)
qed

lemma see_frames:
  "qi_crypto_reassembler info = Some r \<Longrightarrow>
    fold see_frame fs (info, found) =
      (info\<lparr>qi_has_crypto_frame := qi_has_crypto_frame info \<or> crypto_data fs \<noteq> [],
            qi_crypto_reassembler := Some (add_fragments (crypto_data fs) r)\<rparr>, found \<or> crypto_data fs \<noteq> [])"
proof (induction fs arbitrary: info found r)
  case (Cons f fs)
  then show ?case by (cases f) (simp_all add: add_crypto_def add_fragments_def split_def)
qed (simp add: add_fragments_def)

lemma add_fragments_cache:
  "get_cached_tls_info (add_fragments fs r) = get_cached_tls_info r"
proof (induction fs arbitrary: r)
  case (Cons f fs)
  have "get_cached_tls_info (snd (add_fragment r k d)) = get_cached_tls_info r" for k d
    by (simp add: add_fragment_def get_cached_tls_info_def update_contiguous_offset_def)
  with Cons show ?case by (simp add: add_fragments_def split_def)
qed (simp add: add_fragments_def)

section \<open>The ClientHello\<close>

definition host_valid :: "bytes \<Rightarrow> bool" where
  "host_valid host \<longleftrightarrow> is_valid_hostname (map unat host)"

lemma valid_host_chars: "is_valid_hostname s \<Longrightarrow> list_all host_char s \<and> 4 \<le> str_len s \<and> str_len s \<le> 253"
  by (auto simp: is_valid_hostname_def split: if_splits)

lemma host_char_ascii: "host_char c \<Longrightarrow> c < 0x80 \<and> c \<noteq> 93"
  by (auto simp: host_char_def is_ascii_alphanumeric_def is_ascii_digit_def is_ascii_alphabetic_def)

lemma valid_host_bytes:
  assumes "host_valid host"
  shows "from_utf8 host = Some (map unat host)" "length host \<le> 253" "host \<noteq> []"
proof -
  have "list_all host_char (map unat host)" using assms valid_host_chars by (simp add: host_valid_def)
  then have a: "\<forall>b \<in> set host. unat b < 0x80" using host_char_ascii by (auto simp: list_all_iff)
  then show "from_utf8 host = Some (map unat host)" by (rule from_utf8_ascii)
  have "str_len (map unat host) = length host" using str_len_ascii [of "map unat host"] a by simp
  with assms valid_host_chars [of "map unat host"] show "length host \<le> 253" "host \<noteq> []"
    by (auto simp: host_valid_def)
qed

text \<open>A valid name does not end in the mark of a partial one.\<close>

lemma valid_not_partial: "is_valid_hostname s \<Longrightarrow> \<not> is_partial_sni s"
proof
  assume v: "is_valid_hostname s" and p: "is_partial_sni s"
  from p have "93 \<in> set s" by (auto simp: is_partial_sni_def PARTIAL_SNI_MARKER_def suffix_def)
  with v show False using valid_host_chars [OF v] host_char_ascii by (auto simp: list_all_iff)
qed

lemma quic_sni_wire:
  assumes "host_valid host"
  shows "parse_sni_extension (sni_wire host) False = Some (Some (map unat host))"
proof -
  note h = valid_host_bytes [OF assms]
  let ?d = "sni_wire host"
  have l: "length ?d = length host + 5" by (simp add: sni_wire_def)
  have at: "be16_at ?d 3 = Some (of_nat (length host))" "byte_at ?d 2 = Some 0" "subslice ?d 5 (5 + length host) = Some host"
    "be16_at ?d 0 = Some (of_nat (length host + 3))"
    using l by (simp_all add: inbounds) (simp_all add: sni_wire_def nth_append)
  have u: "unat (of_nat (length host) :: u16) = length host" using h(2) by (intro wr16_len) simp
  have "(of_nat (length host) :: u16) \<noteq> 0" "\<not> (of_nat (length host) :: u16) > 253"
    using h(2,3) u by (auto simp: word_less_nat_alt unat_eq_0 [symmetric])
  with at l have "parse_sni_header ?d =
      Some (Some \<lparr>sni_list_len = of_nat (length host + 3), sni_name_len = of_nat (length host)\<rparr>)"
    by (simp add: parse_sni_header_def)
  with at l h(1) u assms show ?thesis by (simp add: parse_sni_extension_def host_valid_def)
qed

lemma alpn_protocols_wire:
  assumes "list_all (\<lambda>p. p \<noteq> [] \<and> length p < 256 \<and> (\<forall>b \<in> set p. unat b < 0x80)) ps"
  shows "alpn_protocols (pre @ labels_wire ps) (length pre + length (labels_wire ps)) (length pre) acc =
    Some (acc @ map (map unat) ps)"
  using assms
proof (induction ps arbitrary: pre acc)
  case Nil
  then show ?case by (subst alpn_protocols.simps) simp
next
  case (Cons p ps)
  let ?d = "pre @ of_nat (length p) # p @ labels_wire ps"
  have u: "unat (of_nat (length p) :: byte) = length p" using Cons.prems by simp
  have s: "subslice ?d (Suc (length pre)) (Suc (length pre + length p)) = Some p" by (simp add: subslice_def)
  have t: "from_utf8 p = Some (map unat p)" using Cons.prems by (simp add: from_utf8_ascii)
  have "alpn_protocols ?d (length pre + length (labels_wire (p # ps))) (Suc (length pre + length p)) (acc @ [map unat p]) =
      Some (acc @ map unat p # map (map unat) ps)"
    using Cons.IH [of "pre @ of_nat (length p) # p" "acc @ [map unat p]"] Cons.prems by (simp add: add.assoc)
  with s t u show ?case by (subst alpn_protocols.simps) (simp add: Let_def byte_at_def)
qed

lemma quic_alpn_wire:
  assumes "protocols_ok ps"
  shows "parse_alpn_extension (alpn_wire ps) = Some (Some (map (map unat) ps))"
proof -
  have "be16_at (alpn_wire ps) 0 = Some (of_nat (length (labels_wire ps)))" by (simp add: alpn_wire_def)
  moreover have "unat (of_nat (length (labels_wire ps)) :: u16) = length (labels_wire ps)"
    using assms by (intro wr16_len) (simp add: protocols_ok_def)
  moreover have "alpn_protocols (alpn_wire ps) (2 + length (labels_wire ps)) 2 [] = Some (map (map unat) ps)"
    using alpn_protocols_wire [of ps "wr16 Big (of_nat (length (labels_wire ps)))" "[]"] assms
    by (simp add: alpn_wire_def protocols_ok_def)
  ultimately show ?thesis
    using assms by (simp add: parse_alpn_extension_def alpn_wire_def protocols_ok_def)
qed

lemma offered_versions_13: "yields (offered_versions d l i) (\<lambda>r. r = Some Tls13)"
proof (induction "length d - i" arbitrary: i rule: less_induct)
  case less
  show ?case by (subst offered_versions.simps) (auto simp: wp intro!: less)
qed

lemma quic_versions: "d \<noteq> [] \<Longrightarrow> parse_supported_versions d True = Some (Some Tls13)"
  using offered_versions_13 by (auto simp: parse_supported_versions_def byte_at_def elim: yieldsE)

text \<open>The extensions of a hello, in any order, with others among them.\<close>

definition quic_extension_ok :: "bytes \<Rightarrow> bytes list \<Rightarrow> u16 \<times> bytes \<Rightarrow> bool" where
  "quic_extension_ok host ps e \<longleftrightarrow> length (snd e) < 65536 \<and> (fst e = 0 \<longrightarrow> snd e = sni_wire host) \<and>
     (fst e = 0x10 \<longrightarrow> snd e = alpn_wire ps) \<and> (fst e = 0x2b \<longrightarrow> snd e \<noteq> [])"

definition quic_hello_info :: "bytes \<Rightarrow> bytes list \<Rightarrow> (u16 \<times> bytes) list \<Rightarrow> TlsInfo \<Rightarrow> TlsInfo" where
  "quic_hello_info host ps es info = info
     \<lparr>tls_version := (if 0x2b \<in> fst ` set es then Some Tls13 else tls_version info),
      tls_sni := (if 0 \<in> fst ` set es then Some (map unat host) else tls_sni info),
      tls_alpn := (if 0x10 \<in> fst ` set es then map (map unat) ps else tls_alpn info)\<rparr>"

lemma quic_extension_wire:
  assumes "host_valid host" "protocols_ok ps" "quic_extension_ok host ps e"
  shows "quic_tls_extension True False (fst e) (snd e) info = Some (quic_hello_info host ps [e] info)"
proof -
  have "ps \<noteq> []" using assms(2) by (simp add: protocols_ok_def)
  with assms(3) show ?thesis
    by (auto simp: quic_tls_extension_def quic_extension_ok_def quic_hello_info_def quic_sni_wire [OF assms(1)]
        quic_alpn_wire [OF assms(2)] quic_versions)
qed

lemma quic_hello_info_Cons:
  "quic_hello_info host ps es (quic_hello_info host ps [e] info) = quic_hello_info host ps (e # es) info"
  by (auto simp: quic_hello_info_def)

lemma parse_tls_extensions_wire:
  assumes "host_valid host" "protocols_ok ps" "list_all (quic_extension_ok host ps) es"
  shows "parse_tls_extensions (pre @ extensions_wire es) (length pre) info True False =
    Some (quic_hello_info host ps es info)"
  using assms(3)
proof (induction es arbitrary: pre info)
  case Nil
  then show ?case by (subst parse_tls_extensions.simps) (simp add: quic_hello_info_def)
next
  case (Cons e es)
  obtain t d where e: "e = (t, d)" by (cases e)
  let ?b = "pre @ extension_wire e @ extensions_wire es"
  have u: "unat (of_nat (length d) :: u16) = length d"
    using Cons.prems by (intro wr16_len) (simp add: e quic_extension_ok_def)
  have f: "be16_at ?b (length pre) = Some t" "be16_at ?b (length pre + 2) = Some (of_nat (length d))"
    "subslice ?b (length pre + 4) (length pre + 4 + length d) = Some d"
    by (simp_all add: inbounds e) (simp_all add: extension_wire_def)
  have a: "quic_tls_extension True False t d info = Some (quic_hello_info host ps [e] info)"
    using quic_extension_wire [OF assms(1,2), of e info] Cons.prems by (simp add: e)
  have "parse_tls_extensions ?b (length (pre @ extension_wire e)) (quic_hello_info host ps [e] info) True False =
      Some (quic_hello_info host ps (e # es) info)"
    using Cons.IH [of "pre @ extension_wire e"] Cons.prems by (simp add: quic_hello_info_Cons)
  then show ?case
    using f u a by (subst parse_tls_extensions.simps) (simp add: e add.assoc)
qed

definition quic_hello_ok :: "bytes \<Rightarrow> bytes \<Rightarrow> bytes \<Rightarrow> bytes \<Rightarrow> (u16 \<times> bytes) list \<Rightarrow> bool" where
  "quic_hello_ok random sid suites compression es \<longleftrightarrow> length random = 32 \<and> length sid < 256 \<and>
     length compression < 256 \<and> length suites < 65536 \<and> es \<noteq> [] \<and> length (extensions_wire es) < 65536"

lemma quic_client_hello_wire:
  assumes "host_valid host" "protocols_ok ps" "list_all (quic_extension_ok host ps) es"
    "quic_hello_ok random sid suites compression es"
  shows "parse_partial_client_hello (hello_wire ver random sid suites compression es) info False =
    Some (quic_hello_info host ps es info)"
proof -
  let ?ext = "extensions_wire es"
  let ?d = "hello_wire ver random sid suites compression es"
  have k: "length random = 32" using assms(4) by (simp add: quic_hello_ok_def)
  have u: "unat (of_nat (length sid) :: byte) = length sid"
    "unat (of_nat (length compression) :: byte) = length compression"
    "unat (of_nat (length suites) :: u16) = length suites" "unat (of_nat (length ?ext) :: u16) = length ?ext"
    using assms(4) by (simp_all add: quic_hello_ok_def wr16_len)
  note at = hello_layout [OF k, of ver sid suites compression es]
  have ne: "?ext \<noteq> []"
    using assms(4) by (cases es) (auto simp: quic_hello_ok_def extension_wire_def dest: arg_cong [where f = length])
  have h: "available_extensions ?d (38 + length sid + length suites + length compression) i True False =
      Some (quic_hello_info host ps es i)" for i
    using ne at(1,5,6) u(4) parse_tls_extensions_wire [OF assms(1-3), of "[]" i]
    by (simp add: available_extensions_def add.assoc)
  show ?thesis
    using h at(1-4) u by (simp add: parse_partial_client_hello_def Let_def add.assoc)
qed

text \<open>The handshake message.\<close>

definition quic_hello_wire :: "bytes \<Rightarrow> bytes" where
  "quic_hello_wire body = 1 # enc Big 3 (length body) @ body"

lemma quic_handshake_wire:
  assumes "host_valid host" "protocols_ok ps" "list_all (quic_extension_ok host ps) es"
    "quic_hello_ok random sid suites compression es" "0 \<in> fst ` set es"
    and "length (hello_wire ver random sid suites compression es) \<le> 65536"
  shows "parse_partial_tls_handshake (quic_hello_wire (hello_wire ver random sid suites compression es)) False =
    Some (Some (quic_hello_info host ps es new_tls_info))"
proof -
  let ?body = "hello_wire ver random sid suites compression es"
  obtain h1 h2 h3 where e: "enc Big 3 (length ?body) = [h1, h2, h3]"
    using length_enc [of Big 3 "length ?body"] by (auto simp: length_Suc_conv numeral_eq_Suc simp del: length_enc)
  have r: "unat (rd32 Big [0, h1, h2, h3]) = length ?body"
    using rd32_wr24 [of "length ?body"] assms(6) by (simp add: e)
  have sni: "tls_sni (quic_hello_info host ps es new_tls_info) \<noteq> None"
    using assms(5) by (simp add: quic_hello_info_def)
  show ?thesis
    using r sni assms(6) quic_client_hello_wire [OF assms(1-4), of ver new_tls_info]
    by (simp add: parse_partial_tls_handshake_def quic_hello_wire_def e slice_from_def slice_to_def)
qed

end
