(* ===== verification/Quic_Protection.thy ===== *)
theory Quic_Protection
  imports Quic_Wire
begin

text \<open>
  The protection of a client's Initial packet as RFC 9001 has the sender apply it, and its removal by
  \<^verbatim>\<open>decrypt_client_initial_packet\<close>.
\<close>

section \<open>The sender\<close>

record initial_packet =
  ip_version :: u32
  ip_dcid :: bytes
  ip_scid :: bytes
  ip_token :: bytes
  ip_token_width :: nat
  ip_length_width :: nat
  ip_pn_length :: nat
  ip_packet_number :: nat
  ip_payload :: bytes

definition initial_first :: "initial_packet \<Rightarrow> byte" where
  "initial_first p = (if is_quic_v2 (ip_version p) then 0xD0 else 0xC0) OR of_nat (ip_pn_length p - 1)"

definition initial_length :: "initial_packet \<Rightarrow> nat" where
  "initial_length p = ip_pn_length p + (length (ip_payload p) + 16)"

text \<open>The header after its first byte, up to the packet number.\<close>

definition initial_header :: "initial_packet \<Rightarrow> bytes" where
  "initial_header p = wr32 Big (ip_version p) @ of_nat (length (ip_dcid p)) # ip_dcid p @
     of_nat (length (ip_scid p)) # ip_scid p @ int_wire (ip_token_width p) (length (ip_token p)) @ ip_token p @
     int_wire (ip_length_width p) (initial_length p)"

definition initial_pn :: "initial_packet \<Rightarrow> bytes" where
  "initial_pn p = enc Big (ip_pn_length p) (ip_packet_number p)"

definition nonce_of :: "bytes \<Rightarrow> nat \<Rightarrow> bytes" where
  "nonce_of iv pn = map2 (XOR) iv (replicate 4 0 @ enc Big 8 pn)"

text \<open>The keys both sides derive from the identifier the client chose.\<close>

definition initial_keys :: "quic_crypto \<Rightarrow> initial_packet \<Rightarrow> (bytes \<times> bytes \<times> bytes) option" where
  "initial_keys K p = do {
     secret \<leftarrow> derive_secret K (hkdf_extract K (initial_salt_for_version (ip_version p)) (ip_dcid p))
       (bstr ''client in'') 32;
     key \<leftarrow> derive_packet_protection_key K secret (ip_version p);
     iv \<leftarrow> derive_packet_protection_iv K secret (ip_version p);
     hp \<leftarrow> derive_header_protection_key K secret (ip_version p);
     Some (key, iv, hp) }"

type_synonym sealing = "bytes \<Rightarrow> bytes \<Rightarrow> bytes \<Rightarrow> bytes \<Rightarrow> bytes"

definition initial_ciphertext :: "sealing \<Rightarrow> bytes \<Rightarrow> bytes \<Rightarrow> initial_packet \<Rightarrow> bytes" where
  "initial_ciphertext seal key iv p =
     seal key (nonce_of iv (ip_packet_number p)) (initial_first p # initial_header p @ initial_pn p) (ip_payload p)"

text \<open>Four bytes after the start of the packet number the sample for the header's mask begins.\<close>

definition header_mask :: "quic_crypto \<Rightarrow> bytes \<Rightarrow> initial_packet \<Rightarrow> bytes \<Rightarrow> bytes" where
  "header_mask K hp p ciphertext = octets6 (aes_block K hp (take 16 (drop (4 - ip_pn_length p) ciphertext)))"

definition protected_with :: "bytes \<Rightarrow> bytes \<Rightarrow> initial_packet \<Rightarrow> bytes" where
  "protected_with m ciphertext p =
     (initial_first p XOR (m ! 0 AND 0x0f)) # initial_header p @
       map2 (XOR) (initial_pn p) (take (ip_pn_length p) (drop 1 m)) @ ciphertext"

definition protect_initial :: "quic_crypto \<Rightarrow> sealing \<Rightarrow> initial_packet \<Rightarrow> bytes" where
  "protect_initial K seal p = (case initial_keys K p of
     Some (key, iv, hp) \<Rightarrow> (let ciphertext = initial_ciphertext seal key iv p in
       protected_with (header_mask K hp p ciphertext) ciphertext p)
   | None \<Rightarrow> [])"

definition initial_ok :: "initial_packet \<Rightarrow> bool" where
  "initial_ok p \<longleftrightarrow> ip_version p \<noteq> 0 \<and> ip_dcid p \<noteq> [] \<and> length (ip_dcid p) < 256 \<and> length (ip_scid p) < 256 \<and>
     int_fits (ip_token_width p) (length (ip_token p)) \<and> length (ip_token p) < 2 ^ 32 \<and>
     int_fits (ip_length_width p) (initial_length p) \<and> initial_length p < 2 ^ 32 \<and>
     1 \<le> ip_pn_length p \<and> ip_pn_length p \<le> 4 \<and> ip_packet_number p < 256 ^ ip_pn_length p \<and>
     4 \<le> ip_pn_length p + length (ip_payload p)"

text \<open>
  What is used of the cryptography, as \<^verbatim>\<open>ring\<close> documents it: an expansion of at most 255 blocks does
  not fail, and opening with AES-128-GCM inverts sealing, which adds a tag of 16 bytes, for keys of
  16 bytes and nonces of 12.
\<close>

definition sealed_by :: "quic_crypto \<Rightarrow> sealing \<Rightarrow> bool" where
  "sealed_by K seal \<longleftrightarrow> (\<forall>prk info n. n \<le> 255 * 32 \<longrightarrow> hkdf_expand K prk info n \<noteq> None) \<and>
     (\<forall>key nonce aad p. length key = 16 \<and> length nonce = 12 \<and> length p < 2 ^ 32 \<longrightarrow>
       aead_open K key nonce aad (seal key nonce aad p) = Some p \<and> length (seal key nonce aad p) = length p + 16)"

lemma length_nonce_of [simp]: "length iv = 12 \<Longrightarrow> length (nonce_of iv n) = 12"
  by (simp add: nonce_of_def)

lemma length_initial_ciphertext:
  assumes "sealed_by K seal" "initial_ok p" "length key = 16" "length iv = 12"
  shows "length (initial_ciphertext seal key iv p) = length (ip_payload p) + 16"
  using assms by (simp add: sealed_by_def initial_ok_def initial_length_def initial_ciphertext_def)

section \<open>Packet numbers and nonces\<close>

lemma dec_snoc: "dec Big (bs @ [b]) = dec Big bs * 256 + unat b"
  by (simp add: dec_def)

lemma packet_number_dec: "packet_number_of bs = of_nat (dec Big bs)"
proof (induction bs rule: rev_induct)
  case (snoc b bs)
  let ?n = "packet_number_of bs"
  have "push_bit 8 ?n AND (ucast b :: u64) = 0"
    by (rule bit_word_eqI) (auto simp: bit_simps dest: bit_imp_le_length)
  then have "push_bit 8 ?n OR ucast b = push_bit 8 ?n + (ucast b :: u64)"
    by (rule disjunctive_add_eq_or [symmetric])
  also have "\<dots> = of_nat (dec Big bs * 256 + unat b)"
    by (simp add: snoc push_bit_eq_mult)
  finally show ?case by (simp add: packet_number_of_def dec_snoc del: of_nat_add)
qed (simp add: packet_number_of_def dec_def)

lemma packet_number_wire:
  "n < 256 ^ k \<Longrightarrow> packet_number_of (enc Big k n) = of_nat n"
  by (simp add: packet_number_dec dec_enc)

lemma byte_of_word: "(ucast (drop_bit k (w :: u64) AND 0xff) :: byte) = of_nat (unat w div 2 ^ k)"
proof -
  have "(ucast (drop_bit k w AND 0xff) :: byte) = ucast (drop_bit k w)"
  proof (rule bit_word_eqI)
    fix n assume "n < LENGTH(8)"
    moreover from this have "bit (0xff :: u64) n"
      using bit_mask_iff [of 8 n, where ?'a = u64] by (simp add: mask_eq_exp_minus_1)
    ultimately show "bit (ucast (drop_bit k w AND 0xff) :: byte) n = bit (ucast (drop_bit k w) :: byte) n"
      by (simp add: bit_simps)
  qed
  also have "\<dots> = of_nat (unat (drop_bit k w))" by simp
  also have "unat (drop_bit k w) = unat w div 2 ^ k"
    using unat_bound [of w] by (simp only: unsigned_drop_bit_eq) (simp add: drop_bit_eq_div take_bit_nat_eq_self)
  finally show ?thesis .
qed

lemma enc_map: "enc Big k n = map (\<lambda>i. of_nat (n div 256 ^ i)) (rev [0 ..< k])"
  by (induction k) (simp_all add: enc_Suc, simp add: enc_def)

lemma packet_nonce_wire:
  assumes "length iv = 12" "n < 2 ^ 64"
  shows "packet_nonce iv (of_nat n) = nonce_of iv n"
proof -
  obtain a0 a1 a2 a3 a4 a5 a6 a7 a8 a9 a10 a11 where iv: "iv = [a0, a1, a2, a3, a4, a5, a6, a7, a8, a9, a10, a11]"
    using assms(1) by (auto simp: length_Suc_conv numeral_eq_Suc)
  have u: "unat (of_nat n :: u64) = n" using assms(2) by (simp add: unat_of_nat)
  have i: "[0 ..< 8] = [0, 1, 2, 3, 4, 5, 6, 7 :: nat]" by (simp add: upt_rec)
  have "enc Big 8 n = map (\<lambda>i. of_nat (n div 256 ^ i)) [7, 6, 5, 4, 3, 2, 1, 0]"
    by (simp only: enc_map i) simp
  then have e: "enc Big 8 n = map (\<lambda>i. of_nat (n div 2 ^ (i * 8))) [7, 6, 5, 4, 3, 2, 1, 0]" by simp
  have r: "replicate 4 (0 :: byte) = [0, 0, 0, 0]" by (simp add: numeral_eq_Suc)
  show ?thesis
    unfolding packet_nonce_def nonce_of_def iv i e r by (simp add: byte_of_word u)
qed

section \<open>The receiver\<close>

lemma length_initial_header:
  "length (initial_header p) = 6 + length (ip_dcid p) + length (ip_scid p) + 2 ^ ip_token_width p +
     length (ip_token p) + 2 ^ ip_length_width p"
  by (simp add: initial_header_def)

text \<open>Where the fields lie in any bytes that begin with the header.\<close>

lemma initial_parts:
  fixes p rest b
  defines "D \<equiv> b # initial_header p @ rest" and "i \<equiv> 7 + length (ip_dcid p) + length (ip_scid p)"
    and "w \<equiv> (2 :: nat) ^ ip_token_width p" and "v \<equiv> (2 :: nat) ^ ip_length_width p"
  assumes "initial_ok p"
  shows "length D = i + w + length (ip_token p) + v + length rest"
    and "byte_at D 0 = Some b" and "be32_at D 1 = Some (ip_version p)"
    and "byte_at D 5 = Some (of_nat (length (ip_dcid p)))"
    and "subslice D 6 (6 + length (ip_dcid p)) = Some (ip_dcid p)"
    and "byte_at D (6 + length (ip_dcid p)) = Some (of_nat (length (ip_scid p)))"
    and "int_at D i = Some (Some (of_nat (length (ip_token p)), i + w))"
    and "int_at D (i + w + length (ip_token p)) =
      Some (Some (of_nat (initial_length p), i + w + length (ip_token p) + v))"
    and "0 < w" "0 < v" "w \<le> 8" "v \<le> 8"
proof -
  let ?L = "int_wire (ip_length_width p) (initial_length p)"
  let ?d = "length (ip_dcid p)" and ?s = "length (ip_scid p)" and ?t = "length (ip_token p)"
  have ok: "int_fits (ip_token_width p) ?t" "int_fits (ip_length_width p) (initial_length p)"
    using \<open>initial_ok p\<close> by (simp_all add: initial_ok_def)
  show l: "length D = i + w + ?t + v + length rest"
    by (simp add: D_def i_def w_def v_def length_initial_header)
  let ?r2 = "int_wire (ip_token_width p) ?t @ ip_token p @ ?L @ rest"
  let ?r1 = "(of_nat ?s # ip_scid p) @ ?r2"
  have d: "drop 1 D = wr32 Big (ip_version p) @ (of_nat ?d # ip_dcid p) @ ?r1"
    by (simp add: D_def initial_header_def)
  have d0: "drop 5 D = (of_nat ?d # ip_dcid p) @ ?r1" by (rule drop_further [OF d]) simp
  have "drop 6 D = drop 1 (drop 5 D)" by simp
  then have d0': "drop 6 D = ip_dcid p @ ?r1" by (simp only: d0) simp
  have d1: "drop (6 + ?d) D = ?r1" by (rule drop_further [OF d0]) simp
  have d2: "drop i D = ?r2" by (rule drop_further [OF d1]) (simp add: i_def)
  have d2': "drop (i + w) D = ip_token p @ ?L @ rest" by (rule drop_further [OF d2]) (simp add: w_def)
  have d3: "drop (i + w + ?t) D = ?L @ rest" by (rule drop_further [OF d2']) simp
  show "byte_at D 0 = Some b" by (simp add: D_def)
  show "be32_at D 1 = Some (ip_version p)"
  proof -
    have "drop 1 D = wr32 Big (ip_version p) @ drop 5 D" by (simp only: d d0)
    then have "take 4 (drop 1 D) = wr32 Big (ip_version p)" by simp
    then show ?thesis using l by (simp add: be32_at_in i_def)
  qed
  show "byte_at D 5 = Some (of_nat ?d)" by (rule byte_at_drop [OF d0 [unfolded append_Cons]])
  show "byte_at D (6 + ?d) = Some (of_nat ?s)" by (rule byte_at_drop [OF d1 [unfolded append_Cons]])
  show "subslice D 6 (6 + ?d) = Some (ip_dcid p)" by (rule subslice_drop [OF d0']) (use l i_def in linarith)+
  show "int_at D i = Some (Some (of_nat ?t, i + w))"
    unfolding w_def by (rule int_at_wire [OF d2 ok(1)]) (use l in linarith)
  show "int_at D (i + w + ?t) = Some (Some (of_nat (initial_length p), i + w + ?t + v))"
    unfolding v_def by (rule int_at_wire [OF d3 ok(2)]) (use l in linarith)
  show "0 < w" "0 < v" by (simp_all add: w_def v_def)
  show "w \<le> 8" "v \<le> 8"
    using ok power_increasing [of "ip_token_width p" 3 "2 :: nat"] power_increasing [of "ip_length_width p" 3 "2 :: nat"]
    by (simp_all add: int_fits_def w_def v_def)
qed

text \<open>The header is found again in any packet that begins with it, whatever the first byte.\<close>

lemma initial_layout_wire:
  assumes "initial_ok p"
  shows "initial_layout (b # initial_header p @ rest) =
    Some (Some (of_nat (initial_length p), 1 + length (initial_header p)))"
proof -
  define D where "D = b # initial_header p @ rest"
  define i where "i = 7 + length (ip_dcid p) + length (ip_scid p)"
  define w where "w = (2 :: nat) ^ ip_token_width p"
  define v where "v = (2 :: nat) ^ ip_length_width p"
  note at = initial_parts(1-8) [OF assms, where b = b and rest = rest, folded D_def i_def w_def v_def]
    initial_parts(9-12) [OF assms, folded w_def v_def]
  let ?t = "length (ip_token p)"
  have ok: "length (ip_dcid p) < 256" "length (ip_scid p) < 256" "?t < 2 ^ 32"
    using assms by (simp_all add: initial_ok_def)
  have u: "unat (of_nat (length (ip_dcid p)) :: byte) = length (ip_dcid p)"
    "unat (of_nat (length (ip_scid p)) :: byte) = length (ip_scid p)" "unat (of_nat ?t :: u64) = ?t"
    using ok by (simp_all add: unat_of_nat)
  have c: "usize_checked_add (i + w) ?t = Some (i + w + ?t)"
    using ok at(11) by (simp add: usize_checked_add_def i_def)
  have l: "\<not> 5 \<ge> length D" "\<not> 5 + (1 + length (ip_dcid p)) \<ge> length D" "\<not> i \<ge> length D" "i + w + ?t \<le> length D"
    "5 + (1 + length (ip_dcid p)) = 6 + length (ip_dcid p)" "6 + length (ip_dcid p) + (1 + length (ip_scid p)) = i"
    "1 + length (initial_header p) = i + w + ?t + v" "7 + (length (ip_dcid p) + length (ip_scid p)) = i"
    using at(1,9,10) by (simp_all add: i_def length_initial_header w_def v_def)
  have "initial_layout D = Some (Some (of_nat (initial_length p), i + w + ?t + v))"
    using l(1-4) by (simp add: initial_layout_def at(4,6-8) u c Let_def l(5,6,8) del: One_nat_def)
  then show ?thesis by (simp only: D_def l(7))
qed

lemma unmask_wire:
  assumes "drop i P = map2 (XOR) pn ms @ rest" "length ms = length pn" "m = b # ms @ bs" "n \<le> length pn"
  shows "unmask P m i n = Some (take n pn)"
  using assms(4)
proof (induction n)
  case (Suc n)
  have "drop (i + n) P = drop n (map2 (XOR) pn ms @ rest)" by (simp only: assms(1) [symmetric] drop_drop add.commute)
  also have "\<dots> = (pn ! n XOR ms ! n) # drop (Suc n) (map2 (XOR) pn ms @ rest)"
    using Suc.prems assms(2) by (simp add: Cons_nth_drop_Suc [symmetric] nth_append)
  finally have "byte_at P (i + n) = Some (pn ! n XOR ms ! n)" by (rule byte_at_drop)
  moreover have "byte_at m (Suc n) = Some (ms ! n)" using Suc.prems assms(2,3) by (simp add: byte_at_def nth_append)
  ultimately show ?case
    using Suc by (simp add: take_Suc_conv_app_nth xor.assoc)
qed simp

lemma mask_shape:
  assumes "length m = 16" "n \<le> 4"
  obtains b ms bs where "m = b # ms @ bs" "length ms = n" "b = m ! 0" "ms = take n (drop 1 m)"
proof -
  obtain b t where m: "m = b # t" using assms(1) by (cases m) simp_all
  show ?thesis
    by (rule that [of b "take n t" "drop n t"]) (use m assms in simp_all)
qed

text \<open>The first byte, its four low bits masked.\<close>

lemma and_below: "(b XOR (m AND 0x0f)) AND 0x30 = (b AND 0x30 :: byte)" "(b XOR (m AND 0x0f)) AND 0x80 = (b AND 0x80 :: byte)"
proof -
  have "(m AND 0x0f) AND 0x30 = m AND (0x0f AND 0x30)" "(m AND 0x0f) AND 0x80 = m AND (0x0f AND 0x80)"
    by (simp_all only: and.assoc)
  then show "(b XOR (m AND 0x0f)) AND 0x30 = b AND 0x30" "(b XOR (m AND 0x0f)) AND 0x80 = b AND 0x80"
    by (simp_all add: bit.conj_xor_distrib2)
qed

lemma initial_first_bits:
  assumes "1 \<le> ip_pn_length p" "ip_pn_length p \<le> 4"
  shows "initial_first p AND 0x80 \<noteq> 0" "drop_bit 4 (initial_first p AND 0x30) = (if is_quic_v2 (ip_version p) then 1 else 0)"
    "unat ((initial_first p AND 0x03) + 1) = ip_pn_length p"
proof -
  have "ip_pn_length p = 1 \<or> ip_pn_length p = 2 \<or> ip_pn_length p = 3 \<or> ip_pn_length p = 4" using assms by auto
  then show "initial_first p AND 0x80 \<noteq> 0"
      "drop_bit 4 (initial_first p AND 0x30) = (if is_quic_v2 (ip_version p) then 1 else 0)"
      "unat ((initial_first p AND 0x03) + 1) = ip_pn_length p"
    by (auto simp: initial_first_def)
qed

lemma open_initial_wire:
  assumes "initial_ok p" "length iv = 12" "length m = 16" "length c = length (ip_payload p) + 16"
  shows "open_initial K (protected_with m c p @ rest) key iv m (of_nat (initial_length p)) (1 + length (initial_header p)) =
    Some (aead_open K key (nonce_of iv (ip_packet_number p)) (initial_first p # initial_header p @ initial_pn p) c)"
proof -
  let ?n = "ip_pn_length p" and ?h = "initial_header p" and ?P = "protected_with m c p @ rest"
  have n: "1 \<le> ?n" "?n \<le> 4" "initial_length p < 2 ^ 32" "ip_packet_number p < 256 ^ ?n"
    using assms(1) by (simp_all add: initial_ok_def)
  obtain b ms bs where m: "m = b # ms @ bs" "length ms = ?n" "b = m ! 0" "ms = take ?n (drop 1 m)"
    by (rule mask_shape [OF assms(3) n(2)])
  have pn: "length (initial_pn p) = ?n" by (simp add: initial_pn_def)
  have P: "?P = (initial_first p XOR (b AND 0x0f)) # ?h @ map2 (XOR) (initial_pn p) ms @ c @ rest"
    by (simp add: protected_with_def m(3,4))
  have first: "byte_at ?P 0 = Some (initial_first p XOR (b AND 0x0f))" "byte_at m 0 = Some b"
    by (simp only: P byte_at_append) (simp add: m(1))
  have unmasked: "(initial_first p XOR (b AND 0x0f)) XOR (b AND 0x0f) = initial_first p"
    by (simp only: xor.assoc) simp
  have d1: "drop 1 ?P = ?h @ map2 (XOR) (initial_pn p) ms @ c @ rest" by (simp add: P)
  have d2: "drop (1 + length ?h) ?P = map2 (XOR) (initial_pn p) ms @ c @ rest" by (rule drop_further [OF d1]) simp
  have d3: "drop (1 + length ?h + ?n) ?P = c @ rest" by (rule drop_further [OF d2]) (simp add: pn m(2))
  have l: "length ?P = 1 + length ?h + ?n + length c + length rest" by (simp add: P pn m(2))
  have u: "unmask ?P m (1 + length ?h) ?n = Some (initial_pn p)"
    using unmask_wire [OF d2 _ m(1), of ?n] pn m(2) by simp
  have h: "subslice ?P 1 (1 + length ?h) = Some ?h" by (rule subslice_drop [OF d1]) (use l in linarith)+
  have c: "subslice ?P (1 + length ?h + ?n) (1 + length ?h + ?n + length c) = Some c"
    by (rule subslice_drop [OF d3]) (use l in linarith)+
  have len: "unat (of_nat (initial_length p) :: u64) = initial_length p" using n(3) by (simp add: unat_of_nat)
  have "ip_packet_number p < 2 ^ 64"
  proof -
    have "(256 :: nat) ^ ?n \<le> 256 ^ 4" using n(2) by (intro power_increasing) simp_all
    with n(4) show ?thesis by simp
  qed
  then have nonce: "packet_nonce iv (packet_number_of (initial_pn p)) = nonce_of iv (ip_packet_number p)"
    unfolding initial_pn_def packet_number_wire [OF n(4)] by (rule packet_nonce_wire [OF assms(2)])
  show ?thesis
    using initial_first_bits(3) [OF n(1,2)] first u h c l len nonce
    by (simp add: open_initial_def unmasked initial_length_def assms(4) add.assoc)
qed

lemma derive_secret_length: "derive_secret K prk label n = Some s \<Longrightarrow> length s = n"
  by (auto simp: derive_secret_def)

lemma keys_derived:
  assumes "sealed_by K seal"
  obtains secret key iv hp where "initial_keys K p = Some (key, iv, hp)"
    "derive_secret K (hkdf_extract K (initial_salt_for_version (ip_version p)) (ip_dcid p)) (bstr ''client in'') 32 = Some secret"
    "derive_packet_protection_key K secret (ip_version p) = Some key"
    "derive_packet_protection_iv K secret (ip_version p) = Some iv"
    "derive_header_protection_key K secret (ip_version p) = Some hp" "length iv = 12" "length hp = 16" "length key = 16"
proof -
  have e: "\<exists>s. derive_secret K prk label n = Some s" if "n \<le> 8160" for prk label n
    using assms that by (auto simp: sealed_by_def derive_secret_def)
  obtain secret where s: "derive_secret K (hkdf_extract K (initial_salt_for_version (ip_version p)) (ip_dcid p))
      (bstr ''client in'') 32 = Some secret" using e [of 32] by auto
  obtain key where k: "derive_packet_protection_key K secret (ip_version p) = Some key"
    using e [of 16] by (auto simp: derive_packet_protection_key_def)
  obtain iv where i: "derive_packet_protection_iv K secret (ip_version p) = Some iv"
    using e [of 12] by (auto simp: derive_packet_protection_iv_def)
  obtain hp where h: "derive_header_protection_key K secret (ip_version p) = Some hp"
    using e [of 16] by (auto simp: derive_header_protection_key_def)
  have "initial_keys K p = Some (key, iv, hp)" by (simp add: initial_keys_def s k i h)
  moreover have "length iv = 12" "length hp = 16" "length key = 16"
    using k i h by (auto simp: derive_packet_protection_key_def derive_packet_protection_iv_def
        derive_header_protection_key_def dest!: derive_secret_length)
  ultimately show ?thesis using that s k i h by blast
qed

text \<open>What the client sealed is what the parser decrypts.\<close>

lemma decrypt_protected:
  assumes "sealed_by K seal" "initial_ok p"
  shows "decrypt_client_initial_packet K (protect_initial K seal p) (ip_dcid p) (ip_version p) = Some (Some (ip_payload p))"
proof -
  obtain secret key iv hp where keys: "initial_keys K p = Some (key, iv, hp)"
    "derive_secret K (hkdf_extract K (initial_salt_for_version (ip_version p)) (ip_dcid p)) (bstr ''client in'') 32 = Some secret"
    "derive_packet_protection_key K secret (ip_version p) = Some key"
    "derive_packet_protection_iv K secret (ip_version p) = Some iv"
    "derive_header_protection_key K secret (ip_version p) = Some hp" "length iv = 12" "length hp = 16" "length key = 16"
    by (rule keys_derived [OF assms(1)])
  let ?n = "ip_pn_length p" and ?h = "initial_header p"
  define c where "c = initial_ciphertext seal key iv p"
  define m where "m = header_mask K hp p c"
  have P: "protect_initial K seal p = protected_with m c p"
    by (simp add: protect_initial_def keys(1) c_def m_def Let_def)
  have ok: "1 \<le> ?n" "?n \<le> 4" "4 \<le> ?n + length (ip_payload p)" using assms(2) by (simp_all add: initial_ok_def)
  have lc: "length c = length (ip_payload p) + 16"
    unfolding c_def by (rule length_initial_ciphertext [OF assms keys(8,6)])
  have lm: "length m = 16" by (simp add: m_def header_mask_def)
  let ?x = "map2 (XOR) (initial_pn p) (take ?n (drop 1 m))"
  have lx: "length ?x = ?n" using ok lm by (simp add: initial_pn_def)
  have shape: "protected_with m c p = (initial_first p XOR (m ! 0 AND 0x0f)) # ?h @ ?x @ c"
    by (simp add: protected_with_def)
  have layout: "initial_layout (protected_with m c p) = Some (Some (of_nat (initial_length p), 1 + length ?h))"
    by (simp only: shape initial_layout_wire [OF assms(2)])
  have d: "drop (1 + length ?h) (protected_with m c p) = ?x @ c"
    by (rule drop_further [of 1 _ ?h]) (simp_all add: shape)
  have len: "length (protected_with m c p) = 1 + length ?h + ?n + length c" using lx by (simp add: shape)
  have "drop (1 + length ?h + 4) (protected_with m c p) = drop 4 (?x @ c)"
    by (simp only: d [symmetric] drop_drop add.commute)
  also have "\<dots> = drop (4 - ?n) c" using ok(2) lx by simp
  finally have "subslice (protected_with m c p) (1 + length ?h + 4) (1 + length ?h + 4 + 16) = Some (take 16 (drop (4 - ?n) c))"
    using ok len lc by (simp add: subslice_def)
  moreover have "aes_ecb_encrypt K hp (take 16 (drop (4 - ?n) c)) = Some m"
    using ok lc keys(7) by (simp add: aes_ecb_encrypt_def m_def header_mask_def)
  moreover have "\<not> 1 + length ?h + 4 + 16 > length (protected_with m c p)" using ok len lc by linarith
  ultimately have "try_decrypt_initial_with_secret K (protected_with m c p) secret (ip_version p) =
      open_initial K (protected_with m c p) key iv m (of_nat (initial_length p)) (1 + length ?h)"
    by (simp add: try_decrypt_initial_with_secret_def keys(3-5) layout Let_def)
  also have "\<dots> = Some (Some (ip_payload p))"
    using open_initial_wire [OF assms(2) keys(6) lm lc, where rest = "[]" and K = K and key = key] assms keys(6,8)
    by (simp add: sealed_by_def initial_ok_def initial_length_def c_def initial_ciphertext_def)
  finally show ?thesis by (simp add: decrypt_client_initial_packet_def keys(2) P)
qed

section \<open>The hello in the packet\<close>

text \<open>Fragments cut from a stream, in any order, equal or disjoint, that cover it.\<close>

definition cuts :: "bytes \<Rightarrow> fragment list \<Rightarrow> bool" where
  "cuts S fs \<longleftrightarrow> (\<forall>f \<in> set fs. from_stream S f) \<and>
     (\<forall>(k, d) \<in> set fs. \<forall>(k', d') \<in> set fs. dom (piece k d) = dom (piece k' d') \<or> dom (piece k d) \<inter> dom (piece k' d') = {}) \<and>
     (\<Union>(k, d) \<in> set fs. dom (piece k d)) = {..< length S}"

lemma cuts_reassembled:
  assumes "cuts S fs" "S \<noteq> []" "length S \<le> 64 * 1024"
  shows "get_contiguous_data (add_fragments fs new_reassembler) = Some S"
proof (rule reassembly_complete [OF assms(2,3)])
  show "\<forall>f \<in> set fs. from_stream S f" "(\<Union>(k, d) \<in> set fs. dom (piece k d)) = {..< length S}"
    using assms(1) by (simp_all add: cuts_def)
  show "dom (piece k d) = dom (piece k' d') \<or> dom (piece k d) \<inter> dom (piece k' d') = {}"
    if "(k, d) \<in> set fs" "(k', d') \<in> set fs" for k d k' d'
    using assms(1) that unfolding cuts_def by blast
qed

lemma hello_extracted:
  assumes "cuts S fs" "100 \<le> length S" "length S \<le> 64 * 1024"
    and "parse_partial_tls_handshake S False = Some (Some t)" "is_complete_sni (tls_sni t)"
  shows "try_extract_tls_from_reassembler (add_fragments fs new_reassembler) False =
    Some (Some t, set_complete_tls_info t (add_fragments fs new_reassembler))"
proof -
  let ?r = "add_fragments fs new_reassembler"
  have "S \<noteq> []" using assms(2) by auto
  then have "get_contiguous_data ?r = Some S" by (rule cuts_reassembled [OF assms(1) _ assms(3)])
  moreover have "tls_sni t \<noteq> None" using assms(5) by (auto simp: is_complete_sni_def split: option.splits)
  ultimately have "try_extract_from_contiguous ?r False = Some (Some t)"
    using assms(2,4) by (simp add: try_extract_from_contiguous_def)
  moreover have "get_cached_tls_info ?r = None"
    by (simp add: add_fragments_cache) (simp add: get_cached_tls_info_def new_reassembler_def)
  ultimately show ?thesis
    using assms(5) by (simp add: try_extract_tls_from_reassembler_def extraction_strategies_def keep_complete_def)
qed

text \<open>What the packet leaves of its frames.\<close>

definition hello_seen :: "TlsInfo \<Rightarrow> fragment list \<Rightarrow> QuicInfo \<Rightarrow> QuicInfo" where
  "hello_seen t fs info = info\<lparr>qi_has_crypto_frame := True, qi_tls_info := Some t,
     qi_crypto_reassembler := Some (set_complete_tls_info t (add_fragments fs new_reassembler))\<rparr>"

lemma hello_processed:
  assumes "cuts S (crypto_data fs)" "100 \<le> length S" "length S \<le> 64 * 1024"
    and "parse_partial_tls_handshake S False = Some (Some t)" "is_complete_sni (tls_sni t)"
    and "list_all frame_fits fs" "length (frames_wire fs) < 2 ^ 32" "qi_crypto_reassembler info = None"
  shows "process_crypto_frames_in_packet (frames_wire fs) info = Some (Some t, hello_seen t (crypto_data fs) info)"
proof -
  have "crypto_data fs \<noteq> []"
  proof
    assume "crypto_data fs = []"
    then have "{..< length S} = {}" using assms(1) by (simp add: cuts_def)
    with assms(2) show False by (simp add: lessThan_empty_iff)
  qed
  moreover have "scan_packet_frames (frames_wire fs) 0 w = Some (True, fold see_frame fs w)" for w
    by (rule scan_frames_wire) (use assms in simp_all)
  ultimately show ?thesis
    using see_frames [of "ensure_reassembler info" new_reassembler fs False] hello_extracted [OF assms(1-5)] assms(8)
    by (simp add: process_crypto_frames_in_packet_def ensure_reassembler_def hello_seen_def Let_def)
qed

text \<open>A long header with an Initial packet of a client, and whatever follows it in the datagram.\<close>

definition client_seen :: "initial_packet \<Rightarrow> TlsInfo \<Rightarrow> fragment list \<Rightarrow> QuicInfo" where
  "client_seen p t fs = hello_seen t fs ((new_quic_info (ip_version p))
     \<lparr>qi_packet_type := Initial, qi_connection_state := QuicInitial, qi_connection_id := ip_dcid p,
      qi_connection_id_hex := Some (connection_id_to_hex (ip_dcid p))\<rparr>)"

lemma length_protected:
  assumes "sealed_by K seal" "initial_ok p"
  obtains b x where "protect_initial K seal p = b # initial_header p @ x" "length x = initial_length p"
    "b AND 0x80 \<noteq> 0" "get_long_packet_type b (ip_version p) = Initial"
proof -
  obtain secret key iv hp where keys: "initial_keys K p = Some (key, iv, hp)"
    "length iv = 12" "length key = 16"
    by (rule keys_derived [OF assms(1)])
  let ?c = "initial_ciphertext seal key iv p"
  let ?m = "header_mask K hp p ?c"
  let ?b = "initial_first p XOR (?m ! 0 AND 0x0f)"
  let ?x = "map2 (XOR) (initial_pn p) (take (ip_pn_length p) (drop 1 ?m)) @ ?c"
  have ok: "1 \<le> ip_pn_length p" "ip_pn_length p \<le> 4" using assms(2) by (simp_all add: initial_ok_def)
  have x: "length ?x = initial_length p"
    using ok length_initial_ciphertext [OF assms keys(3,2)]
    by (simp add: initial_length_def initial_pn_def header_mask_def)
  have P: "protect_initial K seal p = ?b # initial_header p @ ?x"
    by (simp add: protect_initial_def keys protected_with_def Let_def)
  have b: "?b AND 0x80 \<noteq> 0" "get_long_packet_type ?b (ip_version p) = Initial"
    using initial_first_bits [OF ok] by (simp_all add: and_below get_long_packet_type_def)
  show ?thesis by (rule that [OF P x b])
qed

lemma extract_protected:
  assumes "sealed_by K seal" "initial_ok p" "ip_payload p = frames_wire fs"
    and "cuts S (crypto_data fs)" "100 \<le> length S" "length S \<le> 64 * 1024"
    and "parse_partial_tls_handshake S False = Some (Some t)" "is_complete_sni (tls_sni t)" "list_all frame_fits fs"
  shows "extract_tls_from_long_header_packet K (protect_initial K seal p)
      ((new_quic_info (ip_version p))\<lparr>qi_packet_type := Initial, qi_connection_id := ip_dcid p, qi_connection_id_hex := None\<rparr>)
      (ip_dcid p) (ip_version p) Initial = Some (client_seen p t (crypto_data fs))"
proof -
  have "length (frames_wire fs) < 2 ^ 32" "0 < length (ip_dcid p)"
    using assms(2,3) by (auto simp: initial_ok_def initial_length_def)
  moreover have "decrypt_client_initial_packet K (protect_initial K seal p) (ip_dcid p) (ip_version p) =
      Some (Some (frames_wire fs))"
    using decrypt_protected [OF assms(1,2)] assms(3) by simp
  ultimately show ?thesis
    using hello_processed [OF assms(4-9)]
    by (simp add: extract_tls_from_long_header_packet_def state_of_type_def new_quic_info_def client_seen_def
        hello_seen_def Let_def)
qed

lemma parse_protected:
  assumes "sealed_by K seal" "initial_ok p" "ip_payload p = frames_wire fs"
    and "cuts S (crypto_data fs)" "100 \<le> length S" "length S \<le> 64 * 1024"
    and "parse_partial_tls_handshake S False = Some (Some t)" "is_complete_sni (tls_sni t)" "list_all frame_fits fs"
  shows "coalesced_packet K (protect_initial K seal p @ rest) =
    Some (Some (client_seen p t (crypto_data fs)), length (protect_initial K seal p))"
proof -
  obtain b x where P: "protect_initial K seal p = b # initial_header p @ x" "length x = initial_length p"
    "b AND 0x80 \<noteq> 0" "get_long_packet_type b (ip_version p) = Initial"
    by (rule length_protected [OF assms(1,2)])
  let ?P = "protect_initial K seal p"
  define D where "D = ?P @ rest"
  define i where "i = 7 + length (ip_dcid p) + length (ip_scid p)"
  define w where "w = (2 :: nat) ^ ip_token_width p"
  define v where "v = (2 :: nat) ^ ip_length_width p"
  let ?t = "length (ip_token p)" and ?d = "length (ip_dcid p)" and ?s = "length (ip_scid p)"
  have D: "D = b # initial_header p @ (x @ rest)" by (simp add: D_def P(1))
  note at = initial_parts(1-8) [OF assms(2), where b = b and rest = "x @ rest", folded D, folded i_def w_def v_def]
    initial_parts(9-12) [OF assms(2), folded w_def v_def]
  have ok: "ip_version p \<noteq> 0" "?d < 256" "?s < 256" "?t < 2 ^ 32" "initial_length p < 2 ^ 32"
    using assms(2) by (auto simp: initial_ok_def initial_length_def)
  have u: "unat (of_nat ?d :: byte) = ?d" "unat (of_nat ?s :: byte) = ?s" "unat (of_nat ?t :: u64) = ?t"
    "unat (of_nat (initial_length p) :: u64) = initial_length p"
    using ok by (simp_all add: unat_of_nat)
  have lP: "length ?P = i + w + ?t + v + initial_length p"
    by (simp add: P(1,2) length_initial_header i_def w_def v_def)
  have lD: "length D = length ?P + length rest" by (simp add: D_def)
  have i: "i < 520" using ok by (simp add: i_def)
  have c: "usize_checked_add ?t (i + w) = Some (i + w + ?t)"
    "usize_checked_add (i + w + ?t + v) (initial_length p) = Some (length ?P)"
    using ok i at(11,12) by (simp_all add: usize_checked_add_def lP)
  have sized: "sized_packet K D info (ip_dcid p) (ip_version p) Initial (i + w + ?t) =
      do { info \<leftarrow> extract_tls_from_long_header_packet K ?P info (ip_dcid p) (ip_version p) Initial;
           Some (Some info, length ?P) }" for info
  proof -
    have "slice_to D (length ?P) = Some ?P" by (simp add: slice_to_def D_def)
    moreover have "\<not> i + w + ?t \<ge> length D" "length ?P \<le> length D" "min (length ?P) (length D) = length ?P"
      using lP lD at(10) by linarith+
    ultimately show ?thesis by (simp add: sized_packet_def at(8) u(4) c(2) Let_def)
  qed
  have "parse_long_header_packet_with_length K D =
      sized_packet K D ((new_quic_info (ip_version p))\<lparr>qi_packet_type := Initial, qi_connection_id := ip_dcid p,
        qi_connection_id_hex := None\<rparr>) (ip_dcid p) (ip_version p) Initial (i + w + ?t)"
  proof -
    have b: "\<not> length D < 6" "\<not> 5 \<ge> length D" "\<not> 6 + ?d > length D" "\<not> 6 + ?d \<ge> length D"
      "\<not> 6 + ?d + 1 + ?s > length D" "i + w + ?t \<le> length D" "6 + ?d + 1 + ?s = i"
      using lP lD at(9,10) by (simp_all add: i_def)
    show ?thesis
      using b c(1) ok(1)
      by (simp add: parse_long_header_packet_with_length_def long_header_rest_def at(2-7) at(3) [unfolded One_nat_def] u P(4) Let_def)
  qed
  then show ?thesis
    using P(3) at(2) sized extract_protected [OF assms]
    by (simp add: coalesced_packet_def D_def)
qed

section \<open>The rest of the datagram\<close>

text \<open>Once a complete name is known, no later packet of a datagram changes it or the identifier.\<close>

definition settled :: "TlsInfo \<Rightarrow> bytes \<Rightarrow> unicode option \<Rightarrow> QuicInfo \<Rightarrow> bool" where
  "settled t cid hex info \<longleftrightarrow> qi_tls_info info = Some t \<and> \<not> partial_or_missing t \<and> cid \<noteq> [] \<and>
     qi_connection_id info = cid \<and> qi_connection_id_hex info = hex"

lemma merge_settled:
  assumes "settled t cid hex existing"
  shows "yields (merge_quic_packet_info (Some existing) new) (settled t cid hex)"
  using assms
  by (auto simp: merge_quic_packet_info_def merge_reassemblers_def settled_def prefer_tls_def Let_def
      partial_or_missing_def split: option.splits)

lemma coalesced_settled:
  "settled t cid hex info \<Longrightarrow>
    yields (coalesced_packets K p i n (Some info)) (\<lambda>r. \<exists>info'. r = Some info' \<and> settled t cid hex info')"
proof (induction "length p - i" arbitrary: i n info rule: less_induct)
  case less
  show ?case
  proof (cases "i < length p")
    case True
    have "yields (coalesced_packet K (drop i p)) (\<lambda>r. some_ok (fst r))"
      using True by (intro coalesced_packet_yields) simp
    then obtain packet_info len where c: "coalesced_packet K (drop i p) = Some (packet_info, len)"
      by (auto elim: yieldsE)
    obtain info' where m: "(case packet_info of Some new \<Rightarrow> map_option Some (merge_quic_packet_info (Some info) new)
        | None \<Rightarrow> Some (Some info)) = Some (Some info')" "settled t cid hex info'"
      using merge_settled [OF less.prems] less.prems by (cases packet_info) (auto elim: yieldsE)
    have "yields (coalesced_packets K p (i + len) (n + 1) (Some info')) (\<lambda>r. \<exists>info'. r = Some info' \<and> settled t cid hex info')"
      if "len \<noteq> 0" by (rule less.hyps) (use that True m(2) in auto)
    with True c m show ?thesis
      by (subst coalesced_packets.simps) (simp add: inbounds)
  qed (use less.prems in \<open>simp add: coalesced_packets.simps\<close>)
qed

lemma parse_client_datagram:
  assumes "sealed_by K seal" "initial_ok p" "ip_payload p = frames_wire fs"
    and "cuts S (crypto_data fs)" "100 \<le> length S" "length S \<le> 64 * 1024"
    and "parse_partial_tls_handshake S False = Some (Some t)" "is_complete_sni (tls_sni t)" "list_all frame_fits fs"
  shows "yields (parse_quic_packet K (protect_initial K seal p @ rest))
    (\<lambda>r. \<exists>info. r = Some info \<and> settled t (ip_dcid p) (Some (connection_id_to_hex (ip_dcid p))) info)"
proof -
  let ?P = "protect_initial K seal p" and ?info = "client_seen p t (crypto_data fs)"
  obtain b x where P: "?P = b # initial_header p @ x" by (rule length_protected [OF assms(1,2)])
  have "ip_dcid p \<noteq> []" using assms(2) by (simp add: initial_ok_def)
  then have "settled t (ip_dcid p) (Some (connection_id_to_hex (ip_dcid p))) ?info"
    using assms(8) by (auto simp: settled_def client_seen_def hello_seen_def partial_or_missing_def is_complete_sni_def
        split: option.splits)
  note rest = coalesced_settled [OF this, of K "?P @ rest" "length ?P" 1]
  have "coalesced_packets K (?P @ rest) 0 0 None = coalesced_packets K (?P @ rest) (length ?P) 1 (Some ?info)"
    using parse_protected [OF assms, of rest] P
    by (subst coalesced_packets.simps) (simp add: inbounds merge_quic_packet_info_def)
  with rest P show ?thesis by (simp add: parse_quic_packet_def)
qed

text \<open>A datagram that begins with a client's Initial packet in which the ClientHello \<open>S\<close> is.\<close>

definition client_sends :: "bytes \<Rightarrow> initial_packet \<Rightarrow> hello_frame list \<Rightarrow> bool" where
  "client_sends S p fs \<longleftrightarrow> initial_ok p \<and> ip_payload p = frames_wire fs \<and> list_all frame_fits fs \<and>
     cuts S (crypto_data fs) \<and> 100 \<le> length S \<and> length S \<le> 64 * 1024"

lemma quic_hello_read:
  assumes "host_valid host" "protocols_ok ps" "list_all (quic_extension_ok host ps) es"
    and "quic_hello_ok random sid suites compression es" "0 \<in> fst ` set es"
    and "S = quic_hello_wire (hello_wire ver random sid suites compression es)" "length S \<le> 64 * 1024"
  shows "parse_partial_tls_handshake S False = Some (Some (quic_hello_info host ps es new_tls_info))"
    and "is_complete_sni (tls_sni (quic_hello_info host ps es new_tls_info))"
proof -
  have "length (hello_wire ver random sid suites compression es) \<le> 65536"
    using assms(6,7) by (simp add: quic_hello_wire_def)
  then show "parse_partial_tls_handshake S False = Some (Some (quic_hello_info host ps es new_tls_info))"
    using quic_handshake_wire [OF assms(1-5)] by (simp add: assms(6))
  show "is_complete_sni (tls_sni (quic_hello_info host ps es new_tls_info))"
    using assms(1,5) valid_not_partial by (simp add: quic_hello_info_def is_complete_sni_def host_valid_def)
qed

section \<open>The labels of RFC 9001, appendix A.1\<close>

lemma hkdf_labels_of_rfc:
  "build_hkdf_label (bstr ''client in'') [] 32 = [0x00, 0x20, 0x0f, 0x74, 0x6c, 0x73, 0x31, 0x33, 0x20, 0x63, 0x6c,
     0x69, 0x65, 0x6e, 0x74, 0x20, 0x69, 0x6e, 0x00]"
  "build_hkdf_label (bstr ''quic key'') [] 16 = [0x00, 0x10, 0x0e, 0x74, 0x6c, 0x73, 0x31, 0x33, 0x20, 0x71, 0x75,
     0x69, 0x63, 0x20, 0x6b, 0x65, 0x79, 0x00]"
  "build_hkdf_label (bstr ''quic iv'') [] 12 = [0x00, 0x0c, 0x0d, 0x74, 0x6c, 0x73, 0x31, 0x33, 0x20, 0x71, 0x75,
     0x69, 0x63, 0x20, 0x69, 0x76, 0x00]"
  "build_hkdf_label (bstr ''quic hp'') [] 16 = [0x00, 0x10, 0x0d, 0x74, 0x6c, 0x73, 0x31, 0x33, 0x20, 0x71, 0x75,
     0x69, 0x63, 0x20, 0x68, 0x70, 0x00]"
  by (simp_all add: build_hkdf_label_def bstr_def)

section \<open>What gets lost\<close>

text \<open>
  A name cut short is returned although the caller does not allow partial names, and is cached as if
  it were complete: the last strategy does not look at \<^verbatim>\<open>allow_partial\<close>.
\<close>

definition cut_name :: bytes where
  "cut_name = [0, 0, 0, 20, 0, 18, 0, 0, 15, 0x65, 0x78, 0x61]"

lemma cut_name_greedy: "try_extract_sni_greedy cut_name True = Some (Some (str ''exa[PARTIAL]''))"
proof -
  have "parse_sni_header (drop 4 cut_name) = Some (Some \<lparr>sni_list_len = 18, sni_name_len = 15\<rparr>)"
    by (simp add: parse_sni_header_def cut_name_def be16_at_def byte_at_def rd16_def dec_def)
  moreover have "from_utf8 (drop 9 cut_name) = Some [0x65, 0x78, 0x61]"
    by (simp add: cut_name_def from_utf8_ascii)
  moreover have "is_valid_partial_hostname [0x65, 0x78, 0x61]"
    by (simp add: is_valid_partial_hostname_def PARTIAL_SNI_MIN_LENGTH_def str_len_def host_char_def
        is_ascii_alphanumeric_def is_ascii_alphabetic_def is_ascii_digit_def starts_with_seq_def)
  moreover have "byte_at cut_name 0 = Some 0" "byte_at cut_name 1 = Some 0" "length cut_name = 12"
    by (simp_all add: cut_name_def)
  moreover have "be16_at cut_name 2 = Some 20" by (simp add: cut_name_def be16_at_def rd16_def dec_def)
  then have "be16_at cut_name (Suc (Suc 0)) = Some 20" by (simp only: numeral_2_eq_2)
  ultimately have "sni_greedy_at cut_name True 0 = Some (Some (str ''exa[PARTIAL]''))"
    by (simp add: sni_greedy_at_def slice_from_def mark_partial_sni_def PARTIAL_SNI_MARKER_def str_def Let_def)
  moreover have "length cut_name = 12" by (simp add: cut_name_def)
  ultimately show ?thesis by (simp add: try_extract_sni_greedy_def upt_conv_Cons)
qed

lemma partial_despite_refusal:
  "try_extract_tls_from_reassembler (snd (add_fragment new_reassembler 0 cut_name)) False =
    Some (Some (named_tls (str ''exa[PARTIAL]'')),
      set_complete_tls_info (named_tls (str ''exa[PARTIAL]'')) (snd (add_fragment new_reassembler 0 cut_name)))"
proof -
  let ?r = "snd (add_fragment new_reassembler 0 cut_name)"
  have l: "length cut_name = 12" "byte_at cut_name 0 = Some 0" "cut_name \<noteq> []" by (simp_all add: cut_name_def)
  have f: "fragments ?r = [(0, cut_name)]" "get_cached_tls_info ?r = None"
    by (simp_all add: add_fragment_def new_reassembler_def update_contiguous_offset_def get_cached_tls_info_def l)
  have "length d \<le> 12" if "get_contiguous_data ?r = Some d" for d
    using reassembly_sound [of cut_name "[(0, cut_name)]" d] that l
    by (auto simp: from_stream_def add_fragments_def dest: arg_cong [where f = length])
  then have "try_extract_from_contiguous ?r False = Some None"
    by (force simp: try_extract_from_contiguous_def split: option.split)
  moreover have "try_extract_from_fragments ?r False = Some None"
    by (simp add: try_extract_from_fragments_def f tls_in_fragment_def tls_record_in_fragment_def l)
  moreover have "reconstructed_tls ?r = Some None" by (simp add: reconstructed_tls_def f l)
  ultimately show ?thesis
    by (simp add: try_extract_tls_from_reassembler_def extraction_strategies_def f
        try_extract_greedy_from_reassembler_def cut_name_greedy)
qed

text \<open>What closes a connection, and that there were CRYPTO frames, is kept of the first packet only.\<close>

lemma coalesced_close_lost:
  "yields (merge_quic_packet_info (Some existing) new) (\<lambda>info.
     qi_connection_close info = qi_connection_close existing \<and> qi_has_crypto_frame info = qi_has_crypto_frame existing)"
  by (auto simp: merge_quic_packet_info_def merge_reassemblers_def Let_def wp split: option.split
      intro!: extraction_yields [THEN yields_mono])

section \<open>A sample\<close>

definition clear_seal :: sealing where
  "clear_seal key nonce aad p = p @ replicate 16 0"

lemma clear_sealed: "sealed_by clear_crypto clear_seal"
  by (simp add: sealed_by_def clear_crypto_def clear_seal_def)

lemma cuts_two:
  assumes "0 < n" "n < length S" "length S < 2 ^ 62"
  shows "cuts S [(of_nat n, drop n S), (0, take n S)]"
proof -
  have u: "unat (of_nat n :: u64) = n" using assms by (simp add: unat_of_nat)
  show ?thesis
    using assms by (auto simp: cuts_def from_stream_def piece_dom u)
qed

definition sample_host :: bytes where
  "sample_host = bstr ''example.org''"

lemma sample_host_valid: "host_valid sample_host"
  by code_simp

definition sample_extensions :: "(u16 \<times> bytes) list" where
  "sample_extensions = [(0x2b, [2, 3, 4]), (0x10, alpn_wire [bstr ''h3'']), (0, sni_wire sample_host), (0x15, replicate 40 0)]"

definition sample_hello :: bytes where
  "sample_hello = quic_hello_wire (hello_wire (3, 3) (replicate 32 7) [] [0x13, 1] [0] sample_extensions)"

definition sample_frames :: "hello_frame list" where
  "sample_frames = [Ping, Crypto 0 1 (60, drop 60 sample_hello), Padding, Crypto 0 0 (0, take 60 sample_hello), Padding]"

definition sample_initial :: initial_packet where
  "sample_initial = \<lparr>ip_version = 1, ip_dcid = [1, 2, 3, 4, 5, 6, 7, 8], ip_scid = [], ip_token = [],
     ip_token_width = 0, ip_length_width = 1, ip_pn_length = 1, ip_packet_number = 0,
     ip_payload = frames_wire sample_frames\<rparr>"

lemma length_sample_hello: "length sample_hello = 127"
  by (simp add: sample_hello_def quic_hello_wire_def hello_wire_def sample_extensions_def extensions_wire_def
      extension_wire_def sni_wire_def alpn_wire_def sample_host_def bstr_def)

lemma sample_sends: "client_sends sample_hello sample_initial sample_frames"
proof -
  have "cuts sample_hello [(60, drop 60 sample_hello), (0, take 60 sample_hello)]"
    using cuts_two [of 60 sample_hello] by (simp add: length_sample_hello)
  moreover have "length (frames_wire sample_frames) = 137"
    by (simp add: frames_wire_def sample_frames_def length_sample_hello)
  moreover have "sample_hello \<noteq> []" using length_sample_hello by auto
  ultimately show ?thesis
    by (simp add: client_sends_def initial_ok_def initial_length_def int_fits_def sample_initial_def sample_frames_def
        length_sample_hello)
qed

end
