(* ===== verification/Dpi_Properties.thy ===== *)
theory Dpi_Properties
  imports Tls_Wire Dpi_Signatures Quic_Protection
begin

text \<open>
  What packet inspection guarantees: messages of DNS, TLS, QUIC, STUN and MQTT are read as they were
  sent, what DNS and QUIC report is bounded, the order in which TCP protocols are tried does not matter
  off their ports, and SNMP needs a \<^verbatim>\<open>usize\<close> of 64 bits.
\<close>

section \<open>DNS\<close>

definition sample_answers :: "dns_record list" where
  "sample_answers =
     [\<lparr>rr_owner = ([], Some (0xC0, 12)), rr_type = 1, rr_class_ttl = [0, 1, 0, 0, 1, 0], rr_data = [10, 0, 0, 2]\<rparr>]"

text \<open>
  C21. A DNS message is read as it was sent, on port 53 at either end: the name asked for, the
  type of the question, and, in a response, the addresses of the A and AAAA records among the
  first 64 answers, in order and at most 16 of them. Other records, compressed owner names, and
  whatever follows the answers make no difference.
\<close>

theorem dns_message_read:
  assumes "lp = 53 \<or> rp = 53" "length ident = 2" "length qclass = 2"
    and "list_all label_ok name" "str_len (dns_text name) \<le> 253"
    and "list_all record_ok answers" "length answers < 65536"
  shows "analyze_udp_packet w K (dns_wire ident flags name qtype qclass answers nscount arcount others) lp rp out =
    Some (Some (AppDns \<lparr>dns_query_name = (if name = [] then None else Some (dns_text name)),
      dns_query_type = Some (dns_query_type_of qtype),
      dns_response_ips = (if flags AND 0x8000 \<noteq> 0 then take 16 (addresses (take 64 answers)) else []),
      dns_is_response = flags AND 0x8000 \<noteq> 0\<rparr>))"
proof -
  let ?d = "dns_wire ident flags name qtype qclass answers nscount arcount others"
  have s: "str_len (dns_text name) \<le> MAX_DNS_NAME_LEN" using assms(5) by (simp add: MAX_DNS_NAME_LEN_def)
  have "?d \<noteq> []" using assms(2) by (auto simp: dns_wire_def)
  moreover have "on_port lp rp [53]" using assms(1) by (auto simp: on_port_def)
  ultimately show ?thesis
    using analyze_dns_wire [OF assms(2,3,4) s assms(6,7), of flags qtype nscount arcount others]
    by (simp add: analyze_udp_packet_def attempt_def MAX_RESPONSE_IPS_PER_PACKET_def MAX_ANSWERS_TO_PARSE_def)
qed

lemma dns_message_read_witness:
  "analyze_udp_packet 64 clear_crypto (dns_wire [0, 1] 0x8180 [[0x61], [0x62, 0x63]] 1 [0, 1] sample_answers 0 0 []) 40000 53 True =
    Some (Some (AppDns \<lparr>dns_query_name = Some [0x61, 46, 0x62, 0x63], dns_query_type = Some (dns_query_type_of 1),
      dns_response_ips = [V4 (rd32 Big [10, 0, 0, 2])], dns_is_response = True\<rparr>))"
  by (subst dns_message_read)
    (simp_all add: label_ok_def dns_text_def sample_answers_def record_ok_def owner_ok_def record_address_def)

text \<open>A question with four labels of 63 bytes.\<close>

definition long_query :: bytes where
  "long_query = [0, 1, 1, 0, 0, 1, 0, 0, 0, 0, 0, 0] @ labels_wire (replicate 4 (replicate 63 97)) @ [0, 0, 1, 0, 1]"

lemma long_name_reported:
  "\<exists>i name. analyze_dns long_query = Some (Some i) \<and> dns_query_name i = Some name \<and> MAX_DNS_NAME_LEN < str_len name"
proof -
  have "(case analyze_dns long_query of Some (Some i) \<Rightarrow> (case dns_query_name i of Some n \<Rightarrow> str_len n = 255 | _ \<Rightarrow> False) | _ \<Rightarrow> False)"
    by code_simp
  then show ?thesis by (auto simp: MAX_DNS_NAME_LEN_def split: option.splits)
qed

text \<open>
  What DNS, mDNS and LLMNR report is bounded, whatever the message: at most 16 addresses, and a name of at
  most 253 bytes and one label. The last label is appended before the name's length is checked,
  so that a name can be longer than the 253 bytes the source calls its maximum.
\<close>

theorem dns_report_bounded:
  "(\<forall>p i. analyze_dns p = Some (Some i) \<or> analyze_dns_for_mdns p = Some (Some i) \<longrightarrow>
     length (dns_response_ips i) \<le> 16 \<and> (\<forall>name. dns_query_name i = Some name \<longrightarrow> str_len name \<le> MAX_DNS_NAME_LEN + 64)) \<and>
   (\<exists>p i name. analyze_dns p = Some (Some i) \<and> dns_query_name i = Some name \<and> MAX_DNS_NAME_LEN < str_len name)"
proof (intro conjI allI impI)
  fix p i
  assume a: "analyze_dns p = Some (Some i) \<or> analyze_dns_for_mdns p = Some (Some i)"
  show "length (dns_response_ips i) \<le> 16"
    using analyze_dns_bound(1) [OF a] by (simp add: MAX_RESPONSE_IPS_PER_PACKET_def)
  show "\<And>name. dns_query_name i = Some name \<Longrightarrow> str_len name \<le> MAX_DNS_NAME_LEN + 64"
    using analyze_dns_bound(2) [OF a] .
next
  show "\<exists>p i name. analyze_dns p = Some (Some i) \<and> dns_query_name i = Some name \<and> MAX_DNS_NAME_LEN < str_len name"
    using long_name_reported by blast
qed

lemma dns_report_bounded_witness:
  "(case analyze_dns long_query of Some (Some i) \<Rightarrow> length (dns_response_ips i) \<le> 16 | _ \<Rightarrow> False)"
proof -
  obtain i where i: "analyze_dns long_query = Some (Some i)" using long_name_reported by blast
  then have "length (dns_response_ips i) \<le> 16" using dns_report_bounded by blast
  with i show ?thesis by simp
qed

section \<open>TLS\<close>

text \<open>
  C22. The opening message of a TLS connection is recognized on any port and read as it was sent:
  the server's name, the application protocols offered, in order, and the best version offered, or
  without that extension the version of the message. The order of the extensions, others among
  them, the session, the cipher suites, and whatever follows the record make no difference.
\<close>

theorem client_hello_read:
  assumes "host_ok host" "protocols_ok ps" "length vs < 128" "list_all (hello_extension_ok host ps vs) es"
    and "hello_ok random sid suites compression es" "1 \<le> minor" "minor \<le> 4"
    and "length (hello_wire ver random sid suites compression es) \<le> 16384"
  shows "analyze_tcp_packet (client_hello_wire minor (hello_wire ver random sid suites compression es) @ trailer) lp rp out =
    Some (Some (AppHttps \<lparr>hs_tls_info = Some
      \<lparr>tls_version = (if 0x2b \<in> fst ` set es \<and> best_version vs None \<noteq> None then best_version vs None
         else case version_from_bytes (fst ver) (snd ver) of Some v \<Rightarrow> Some v | None \<Rightarrow> version_from_bytes 3 minor),
       tls_sni = (if 0 \<in> fst ` set es then Some (map unat host) else None),
       tls_alpn = (if 0x10 \<in> fst ` set es then map (map unat) ps else []),
       tls_cipher_suite = None\<rparr>\<rparr>))"
proof -
  let ?body = "hello_wire ver random sid suites compression es"
  let ?d = "client_hello_wire minor ?body @ trailer"
  have ne: "?body \<noteq> []" by (simp add: hello_wire_def)
  have es: "list_all (\<lambda>e. length (snd e) < 65536) es"
    using assms(4) by (auto simp: list_all_iff hello_extension_ok_def)
  have first: "hd ?d = 0x16" "?d \<noteq> []" by (simp_all add: client_hello_wire_def)
  have handshake: "is_tls_handshake ?d = Some True"
    using assms(6,7) by (simp add: is_tls_handshake_def client_hello_wire_def byte_at_def nth_append)
  then have "\<not> is_likely_http ?d"
    using http_first [of ?d] first by (auto simp: bstr_def)
  then have "analyze_http ?d = None" by (simp add: analyze_http_def)
  moreover have "analyze_https ?d = Some (Some \<lparr>hs_tls_info = Some (hello_info host ps vs es
      (new_tls_info\<lparr>tls_version := (case version_from_bytes (fst ver) (snd ver) of
         Some v \<Rightarrow> Some v | None \<Rightarrow> version_from_bytes 3 minor)\<rparr>))\<rparr>)"
    by (simp add: analyze_client_hello [OF ne assms(8)] parse_client_hello_wire [OF assms(5) es]
        fold_extensions [OF assms(1-4)])
  ultimately show ?thesis
    using first(2) handshake
    by (auto simp: analyze_tcp_packet_def attempt_def port_or_def hello_info_def new_tls_info_def)
qed

lemma client_hello_read_witness:
  "analyze_tcp_packet (client_hello_wire 1 (hello_wire (3, 3) (replicate 32 7) [] [0x13, 1] [0]
      [(0x2b, versions_wire [(3, 3), (3, 4)]), (0, sni_wire [0x61, 0x2e, 0x62])])) 8443 40000 False =
    Some (Some (AppHttps \<lparr>hs_tls_info = Some \<lparr>tls_version = Some Tls13, tls_sni = Some [0x61, 0x2e, 0x62],
      tls_alpn = [], tls_cipher_suite = None\<rparr>\<rparr>))"
  using client_hello_read [where host = "[0x61, 0x2e, 0x62]" and ps = "[[0x68]]" and vs = "[(3, 3), (3, 4)]" and
      es = "[(0x2b, versions_wire [(3, 3), (3, 4)]), (0, sni_wire [0x61, 0x2e, 0x62])]" and minor = 1 and ver = "(3, 3)" and
      random = "replicate 32 7" and sid = "[]" and suites = "[0x13, 1]" and compression = "[0]" and trailer = "[]" and
      lp = 8443 and rp = 40000 and out = False]
  by (simp add: host_ok_def is_ascii_graphic_def protocols_ok_def hello_extension_ok_def versions_wire_def sni_wire_def
      hello_ok_def MAX_TLS_EXTENSIONS_def hello_wire_def best_version_def version_from_bytes_def better_version_def)

section \<open>QUIC\<close>

lemma announced_quic:
  assumes "sealed_by K seal" "initial_ok p"
    and "ip_version p \<in> set known_quic_versions \<or> drop_bit 8 (ip_version p) = 0xff0000 \<or>
      ip_version p AND 0x0F0F0F0F = 0x0a0a0a0a"
  shows "is_quic_packet (protect_initial K seal p @ rest) = Some True" "protect_initial K seal p \<noteq> []"
proof -
  obtain b x where P: "protect_initial K seal p = b # initial_header p @ x" "b AND 0x80 \<noteq> 0"
    by (rule length_protected [OF assms(1,2)])
  note at = initial_parts(1-3) [OF assms(2), where b = b and rest = "x @ rest"]
  have "\<not> length (b # initial_header p @ x @ rest) < 5" by (simp add: length_initial_header)
  with assms(3) at(2,3) P show "is_quic_packet (protect_initial K seal p @ rest) = Some True"
    by (auto simp: is_quic_packet_def)
  show "protect_initial K seal p \<noteq> []" by (simp add: P(1))
qed

text \<open>
  C23. The hello a client opens a QUIC connection with is read from its protected Initial packet:
  the server's name, the protocols offered, and the connection identifier the client chose. Its
  CRYPTO frames may come in any order and more than once, with padding and pings between them, the extensions in
  any order, and whatever follows the packet in the datagram changes nothing. The cryptography
  is any that inverts what the client applies.
\<close>

theorem client_initial_read:
  assumes "sealed_by K seal" "client_sends S p fs"
    and "S = quic_hello_wire (hello_wire ver random sid suites compression es)" "0 \<in> fst ` set es"
    and "host_valid host" "protocols_ok ps" "list_all (quic_extension_ok host ps) es"
    and "quic_hello_ok random sid suites compression es"
    and "ip_version p \<in> set known_quic_versions \<or> drop_bit 8 (ip_version p) = 0xff0000 \<or>
      ip_version p AND 0x0F0F0F0F = 0x0a0a0a0a"
    and "on_port lp rp [443]" "\<not> on_port lp rp [53]"
  shows "\<exists>info. analyze_udp_packet w K (protect_initial K seal p @ rest) lp rp out = Some (Some (AppQuic info)) \<and>
    qi_tls_info info = Some
      \<lparr>tls_version = (if 0x2b \<in> fst ` set es then Some Tls13 else None),
       tls_sni = Some (map unat host),
       tls_alpn = (if 0x10 \<in> fst ` set es then map (map unat) ps else []),
       tls_cipher_suite = None\<rparr> \<and>
    qi_connection_id info = ip_dcid p \<and> qi_connection_id_hex info = Some (connection_id_to_hex (ip_dcid p))"
proof -
  let ?t = "quic_hello_info host ps es new_tls_info" and ?D = "protect_initial K seal p @ rest"
  have p: "initial_ok p" "ip_payload p = frames_wire fs" "list_all frame_fits fs" "cuts S (crypto_data fs)"
    "100 \<le> length S" "length S \<le> 64 * 1024"
    using assms(2) by (simp_all add: client_sends_def)
  note hello = quic_hello_read [OF assms(5-8,4,3) p(6)]
  obtain info where info: "parse_quic_packet K ?D = Some (Some info)"
    "settled ?t (ip_dcid p) (Some (connection_id_to_hex (ip_dcid p))) info"
    using parse_client_datagram [OF assms(1) p(1,2,4-6) hello p(3), of rest] by (auto elim: yieldsE)
  moreover have "is_quic_packet ?D = Some True" "?D \<noteq> []"
    by (use announced_quic [OF assms(1) p(1) assms(9)] in auto)
  ultimately have "analyze_udp_packet w K ?D lp rp out = Some (Some (AppQuic info))"
    using assms(10,11) by (simp add: analyze_udp_packet_def Let_def attempt_def analyze_quic_def)
  moreover have "?t = \<lparr>tls_version = (if 0x2b \<in> fst ` set es then Some Tls13 else None), tls_sni = Some (map unat host),
      tls_alpn = (if 0x10 \<in> fst ` set es then map (map unat) ps else []), tls_cipher_suite = None\<rparr>"
    using assms(4) by (simp add: quic_hello_info_def new_tls_info_def)
  ultimately show ?thesis using info(2) by (simp only: settled_def) blast
qed

lemma client_initial_read_witness:
  "\<exists>info. analyze_udp_packet 64 clear_crypto (protect_initial clear_crypto clear_seal sample_initial @ [0, 1]) 40000 443 True =
     Some (Some (AppQuic info)) \<and>
     qi_tls_info info = Some \<lparr>tls_version = Some Tls13, tls_sni = Some (map unat sample_host), tls_alpn = [str ''h3''],
       tls_cipher_suite = None\<rparr>"
proof -
  have "host_valid sample_host" "protocols_ok [bstr ''h3'']"
    by (rule sample_host_valid) (simp add: protocols_ok_def bstr_def)
  moreover have "list_all (quic_extension_ok sample_host [bstr ''h3'']) sample_extensions"
    by (simp add: sample_extensions_def quic_extension_ok_def alpn_wire_def sni_wire_def sample_host_def bstr_def)
  moreover have "quic_hello_ok (replicate 32 7) [] [0x13, 1] [0] sample_extensions"
    by (simp add: quic_hello_ok_def sample_extensions_def extensions_wire_def extension_wire_def sni_wire_def
        alpn_wire_def sample_host_def bstr_def)
  ultimately show ?thesis
    using client_initial_read [OF clear_sealed sample_sends sample_hello_def, of sample_host "[bstr ''h3'']" 40000 443
        64 "[0, 1]" True]
    by (auto simp: sample_extensions_def sample_initial_def on_port_def known_quic_versions_def str_def bstr_def)
qed

text \<open>
  C31. The QUIC parser returns for every datagram, with any cryptography: no slice of it is out of
  range, and the loops over coalesced packets and frames end. The identifier it reports has at most 255 bytes, and
  the CRYPTO data it keeps are disjoint fragments of at most 64 KiB together, all below the
  offset 2^62.
\<close>

theorem quic_parser_bounded:
  "case parse_quic_packet K payload of
     None \<Rightarrow> False
   | Some None \<Rightarrow> True
   | Some (Some info) \<Rightarrow> length (qi_connection_id info) \<le> 255 \<and>
       (case qi_crypto_reassembler info of
          None \<Rightarrow> True
        | Some R \<Rightarrow> reassembler_ok R \<and> (\<Sum>f \<leftarrow> fragments R. length (snd f)) \<le> 64 * 1024 \<and>
            list_all (\<lambda>f. unat (fst f) < 2 ^ 62) (fragments R))"
proof -
  have "(\<Sum>f \<leftarrow> fragments R. length (snd f)) \<le> 64 * 1024" if "reassembler_ok R" for R
    using that by (simp add: reassembler_ok_def buffered_def comp_def)
  then show ?thesis
    using parse_quic_packet_yields [of K payload]
    by (auto simp: some_ok_def info_ok_def reassembly_ok_def list_all_iff elim!: yieldsE split: option.split) force
qed

section \<open>The order of the protocols\<close>

text \<open>
  C24. Off the ports of the protocols, the order in which the protocols of TCP are tried does not
  matter: a payload has at most one of their signatures, so that trying them in any other order
  gives the result \<^verbatim>\<open>analyze_tcp_packet\<close> gives.
\<close>

theorem tcp_order_irrelevant:
  assumes "\<not> on_port lp rp [443, 1883, 22, 21]" "payload \<noteq> []"
    and "mset attempts = mset (tcp_attempts payload out)"
  shows "analyze_tcp_packet payload lp rp out = try_all attempts \<and>
    length (filter is_open attempts) \<le> 1"
proof
  show "analyze_tcp_packet payload lp rp out = try_all attempts"
    using analyze_tcp_tries [OF assms(1,2)] try_all_permuted [OF assms(3) gates_total signatures_exclusive] by simp
  show "length (filter is_open attempts) \<le> 1"
    using filter_permuted [OF assms(3) signatures_exclusive] signatures_exclusive [of payload out] by simp
qed

lemma tcp_order_irrelevant_witness:
  "analyze_tcp_packet (bstr ''SSH-2.0-x'') 2222 40000 True = try_all (rev (tcp_attempts (bstr ''SSH-2.0-x'') True))"
  using tcp_order_irrelevant [of 2222 40000 "bstr ''SSH-2.0-x''" "rev (tcp_attempts (bstr ''SSH-2.0-x'') True)" True]
  by (simp add: on_port_def bstr_def)

section \<open>SNMP\<close>

text \<open>
  With a \<^verbatim>\<open>usize\<close> of 64 bits the inspection of SNMP returns for every payload of less than
  4 GiB. With one of 32 bits, that of the release targets for ARMv7 and x86, it does not: the
  unchecked addition of a length from the packet wraps around, and a message of ten bytes makes
  the slice that follows panic.
\<close>

theorem snmp_needs_64_bits:
  "(length payload < 2 ^ 32 \<longrightarrow> analyze_snmp 64 payload \<noteq> None) \<and>
   (\<exists>crafted. length crafted = 10 \<and> analyze_snmp 32 crafted = None)"
  using yields_not_None [OF analyze_snmp_total, of payload] crafted_snmp_panics
  by (auto intro: exI [of _ crafted_snmp] simp: crafted_snmp_def [THEN arg_cong [where f = length]])

lemma snmp_needs_64_bits_witness:
  "analyze_snmp 64 crafted_snmp \<noteq> None \<and> analyze_snmp 32 crafted_snmp = None"
  using snmp_needs_64_bits [of crafted_snmp] crafted_snmp_panics
  by (simp add: crafted_snmp_def [THEN arg_cong [where f = length]])

section \<open>STUN\<close>

text \<open>
  A STUN message is recognized and read as it was sent: its class and method, whose bits are
  interleaved, its transaction, and the software that its first attribute of that kind names, of
  which 128 bytes are read; other attributes are stepped over.
\<close>

theorem stun_message_read:
  assumes "m < 4096" "c < 4" "length tid = 12" "list_all (\<lambda>a. length (snd a) < 65536) attrs"
    and "length (stun_attributes attrs) < 65536"
  shows "is_likely_stun (stun_wire m c tid attrs @ rest) = Some True \<and>
    analyze_stun (stun_wire m c tid attrs @ rest) = Some (Some
      \<lparr>stun_message_class = (if c = 0 then StunRequest else if c = 1 then Indication
         else if c = 2 then SuccessResponse else ErrorResponse),
       stun_method = (if m = 1 then Binding else StunUnknown m),
       stun_transaction_id = tid,
       stun_software = (case find (\<lambda>a. fst a = 0x8022) attrs of
          None \<Rightarrow> None
        | Some a \<Rightarrow> map_option (trim_end_matches (\<lambda>ch. ch = 0)) (from_utf8 (take 128 (snd a))))\<rparr>)"
  using stun_wire_read [OF assms, of rest]
  unfolding stun_class_of_bits_def stun_method_of_def stun_software_of_def MAX_SOFTWARE_LEN_def .

lemma stun_message_read_witness:
  "analyze_stun (stun_wire 1 2 (replicate 12 5) [(0x20, [1, 2, 3]), (0x8022, [0x61, 0])] @ []) = Some (Some
     \<lparr>stun_message_class = SuccessResponse, stun_method = Binding, stun_transaction_id = replicate 12 5,
      stun_software = Some [0x61]\<rparr>)"
  using stun_message_read [of 1 2 "replicate 12 5" "[(0x20, [1, 2, 3]), (0x8022, [0x61, 0])]" "[]"]
  by (simp add: stun_attributes_def padded_length_def from_utf8_ascii trim_end_matches_def)

section \<open>MQTT\<close>

text \<open>
  A PUBLISH packet of MQTT is read as it was sent, whatever the length of its message and the
  bytes that length takes: its topic and its quality of service.
\<close>

theorem mqtt_publish_read:
  assumes "fl < 16" "topic \<noteq> []" "length topic < 65536" "list_all (\<lambda>b. unat b < 0x80) topic"
    and "2 + length topic + length message < 268435456"
  shows "analyze_mqtt (publish_wire fl topic message @ rest) = Some (Some
    \<lparr>mq_version = None, mq_packet_type = MqPublish, mq_client_id = None, mq_topic = Some (map unat topic),
     mq_qos = Some (of_nat (fl div 2 mod 4))\<rparr>)"
  by (rule publish_wire_read [OF assms])

lemma mqtt_publish_read_witness:
  "analyze_mqtt (publish_wire 2 [0x61, 0x2f, 0x62] (replicate 200 0) @ []) = Some (Some
    \<lparr>mq_version = None, mq_packet_type = MqPublish, mq_client_id = None, mq_topic = Some [0x61, 0x2f, 0x62],
     mq_qos = Some 1\<rparr>)"
  using mqtt_publish_read [of 2 "[0x61, 0x2f, 0x62]" "replicate 200 0" "[]"] by simp

end
