(* ===== verification/Process_Scan.thy ===== *)
theory Process_Scan
  imports Rust_Strings Attribution Backend_Loading Core_Types
begin

text \<open>
  \<^verbatim>\<open>linux/process.rs\<close>: the processes behind sockets as \<^verbatim>\<open>/proc\<close> shows them. A scan reads who holds
  which socket from the descriptors of every process and which socket carries which addresses
  from the four tables under \<^verbatim>\<open>/proc/net\<close>; a lookup asks the result.

  What the files, links and directories answer is the record \<open>procfs\<close>, one per operation: an
  operation reads no path twice, so that whatever changes under \<^verbatim>\<open>/proc\<close> while it runs is
  covered. Paths are byte strings, kept as characters. A panic is \<open>None\<close>.
\<close>

section \<open>Reading /proc\<close>

type_synonym io_error = utf8_string

text \<open>An entry of a directory may fail on its own.\<close>

record procfs =
  pf_read :: "path \<Rightarrow> bytes option"
  pf_read_link :: "path \<Rightarrow> path option"
  pf_read_dir :: "path \<Rightarrow> io_error + (io_error + path) list"
  pf_owner :: "path \<Rightarrow> (u32 \<times> u32) option"

definition to_str :: "path \<Rightarrow> unicode option" where
  "to_str p = from_utf8 (map of_char p)"

text \<open>\<^verbatim>\<open>fs::read_to_string\<close> also fails on a content that is not UTF-8.\<close>

definition read_to_string :: "procfs \<Rightarrow> path \<Rightarrow> unicode option" where
  "read_to_string P p = Option.bind (pf_read P p) from_utf8"

text \<open>\<^verbatim>\<open>/proc/<tgid>\<close> and what is below it.\<close>

definition proc_entry :: "u32 \<Rightarrow> string \<Rightarrow> path" where
  "proc_entry pid below = ''/proc/'' @ map char_of (decimal (unat pid)) @ below"

definition resolve_executable :: "procfs \<Rightarrow> u32 \<Rightarrow> path option" where
  "resolve_executable P pid = pf_read_link P (proc_entry pid ''/exe'')"

definition resolve_credentials :: "procfs \<Rightarrow> u32 \<Rightarrow> (u32 \<times> u32) option" where
  "resolve_credentials P pid = pf_owner P (proc_entry pid '''')"

text \<open>\<^verbatim>\<open>Path::file_name\<close>: the last component, unless it is no name.\<close>

definition file_name :: "path \<Rightarrow> path option" where
  "file_name p = (case rev (components p) of Normal s # _ \<Rightarrow> Some s | _ \<Rightarrow> None)"

definition COMM_MAX :: nat where "COMM_MAX = 15"

definition refine_truncated_name :: "name \<Rightarrow> path option \<Rightarrow> name" where
  "refine_truncated_name name exe =
     (if str_len name \<noteq> COMM_MAX then name
      else (case Option.bind (Option.bind exe file_name) to_str of
         Some basename \<Rightarrow>
           if str_len basename > COMM_MAX \<and> starts_with_seq basename name then basename else name
       | None \<Rightarrow> name))"

definition strip_prefix :: "unicode \<Rightarrow> unicode \<Rightarrow> unicode option" where
  "strip_prefix s p = (if starts_with_seq s p then Some (drop (length p) s) else None)"

fun find_map :: "('a \<Rightarrow> 'b option) \<Rightarrow> 'a list \<Rightarrow> 'b option" where
  "find_map f [] = None"
| "find_map f (x # xs) = (case f x of Some y \<Rightarrow> Some y | None \<Rightarrow> find_map f xs)"

definition parse_u32 :: "unicode \<Rightarrow> u32 option" where
  "parse_u32 s = map_option word_of_nat (from_str_radix 10 (2 ^ 32) s)"

definition parse_u64 :: "unicode \<Rightarrow> u64 option" where
  "parse_u64 s = map_option word_of_nat (from_str_radix 10 (2 ^ 64) s)"

definition resolve_parent_pid :: "procfs \<Rightarrow> u32 \<Rightarrow> u32 option" where
  "resolve_parent_pid P pid =
     Option.bind (read_to_string P (proc_entry pid ''/status'')) (\<lambda>status.
     Option.bind (find_map (\<lambda>line. strip_prefix line (str ''PPid:'')) (text_lines status)) (\<lambda>value.
     parse_u32 (trim value)))"

section \<open>The tables of sockets\<close>

type_synonym inode_process_map = "u64 \<rightharpoonup> u32 \<times> name"
type_synonym pid_name_map = "u32 \<rightharpoonup> name"
type_synonym connection_process_map = "connection_key \<rightharpoonup> u32 \<times> name"

definition u32_from_hex :: "unicode \<Rightarrow> u32 option" where
  "u32_from_hex s = map_option word_of_nat (from_str_radix 16 (2 ^ 32) s)"

text \<open>The loop over the four groups of an IPv6 address, from the group \<open>i\<close> on.\<close>

fun hex_groups :: "unicode \<Rightarrow> nat list \<Rightarrow> bytes \<Rightarrow> bytes option option" where
  "hex_groups ip_hex [] bs = Some (Some bs)"
| "hex_groups ip_hex (i # is) bs = do {
     chunk \<leftarrow> str_slice ip_hex (i * 8) ((i + 1) * 8);
     (case u32_from_hex chunk of
        None \<Rightarrow> Some None
      | Some v \<Rightarrow> hex_groups ip_hex is (bs @ wr32 Little v)) }"

definition parse_hex_address :: "unicode \<Rightarrow> socket_addr option option" where
  "parse_hex_address hex_addr = (case split_char 58 hex_addr of
     [ip_hex, port_hex] \<Rightarrow>
       (case from_str_radix 16 65536 port_hex of
          None \<Rightarrow> Some None
        | Some port \<Rightarrow>
            if str_len ip_hex = 8
            then Some (map_option (\<lambda>v. new_socket_addr (V4 (rd32 Big (wr32 Little v))) (word_of_nat port))
                         (u32_from_hex ip_hex))
            else if str_len ip_hex = 32
            then do {
              r \<leftarrow> hex_groups ip_hex [0, 1, 2, 3] [];
              Some (map_option (\<lambda>bs. new_socket_addr (V6 (word_of_nat (dec Big bs))) (word_of_nat port)) r) }
            else Some None)
   | _ \<Rightarrow> Some None)"

definition extract_socket_inode :: "unicode \<Rightarrow> u64 option option" where
  "extract_socket_inode link =
     (if starts_with_seq link (str ''socket:['') \<and> link \<noteq> [] \<and> last link = 93
      then do { inode_str \<leftarrow> str_slice link 8 (str_len link - 1); Some (parse_u64 inode_str) }
      else Some None)"

text \<open>One line of a table, and the lines after the header.\<close>

definition map_line ::
  "protocol \<Rightarrow> inode_process_map \<Rightarrow> unicode \<Rightarrow> connection_process_map \<Rightarrow> connection_process_map option" where
  "map_line protocol inodes line result =
     (let parts = split_words line in
      if length parts < 10 then Some result
      else do {
        l \<leftarrow> parse_hex_address (parts ! 1);
        (case l of
           None \<Rightarrow> Some result
         | Some local_addr \<Rightarrow> do {
             r \<leftarrow> parse_hex_address (parts ! 2);
             (case r of
                None \<Rightarrow> Some result
              | Some remote_addr \<Rightarrow>
                  (case Option.bind (parse_u64 (parts ! 9)) inodes of
                     None \<Rightarrow> Some result
                   | Some own \<Rightarrow> Some (result(\<lparr>cn_protocol = protocol, cn_local = local_addr,
                                                cn_remote = remote_addr\<rparr> \<mapsto> own)))) }) })"

fun map_lines ::
  "protocol \<Rightarrow> inode_process_map \<Rightarrow> unicode list \<Rightarrow> connection_process_map \<Rightarrow> connection_process_map option" where
  "map_lines protocol inodes [] result = Some result"
| "map_lines protocol inodes (line # ls) result = do {
     result \<leftarrow> map_line protocol inodes line result;
     map_lines protocol inodes ls result }"

definition parse_and_map ::
  "procfs \<Rightarrow> path \<Rightarrow> protocol \<Rightarrow> inode_process_map \<Rightarrow> connection_process_map \<Rightarrow> connection_process_map option" where
  "parse_and_map P file protocol inodes result = (case read_to_string P file of
     None \<Rightarrow> Some result
   | Some content \<Rightarrow> map_lines protocol inodes (drop 1 (text_lines content)) result)"

section \<open>The processes\<close>

text \<open>The descriptors of a process, whose links name the sockets among them.\<close>

fun scan_fds ::
  "procfs \<Rightarrow> path \<Rightarrow> (io_error + path) list \<Rightarrow> u32 \<times> name \<Rightarrow> inode_process_map \<Rightarrow> inode_process_map option" where
  "scan_fds P fd_dir [] own inodes = Some inodes"
| "scan_fds P fd_dir (Inl _ # es) own inodes = scan_fds P fd_dir es own inodes"
| "scan_fds P fd_dir (Inr fd # es) own inodes =
     (case Option.bind (pf_read_link P (fd_dir @ ''/'' @ fd)) to_str of
        None \<Rightarrow> scan_fds P fd_dir es own inodes
      | Some link \<Rightarrow> do {
          i \<leftarrow> extract_socket_inode link;
          scan_fds P fd_dir es own (case i of None \<Rightarrow> inodes | Some inode \<Rightarrow> inodes(inode \<mapsto> own)) })"

definition process_name :: "procfs \<Rightarrow> path \<Rightarrow> name" where
  "process_name P dir = trim (case read_to_string P (dir @ ''/comm'') of Some s \<Rightarrow> s | None \<Rightarrow> str ''unknown'')"

text \<open>One entry of \<^verbatim>\<open>/proc\<close>, which is a process if its name is a number other than zero.\<close>

definition scan_process ::
  "procfs \<Rightarrow> path \<Rightarrow> inode_process_map \<times> pid_name_map \<Rightarrow> (inode_process_map \<times> pid_name_map) option" where
  "scan_process P entry maps = (case maps of (inodes, names) \<Rightarrow>
     (case Option.bind (to_str entry) parse_u32 of
        None \<Rightarrow> Some (inodes, names)
      | Some pid \<Rightarrow>
          if pid = 0 then Some (inodes, names)
          else (let dir = ''/proc/'' @ entry;
                    name = process_name P dir;
                    names = names(pid \<mapsto> name);
                    fd_dir = dir @ ''/fd''
                in (case pf_read_dir P fd_dir of
                      Inl _ \<Rightarrow> Some (inodes, names)
                    | Inr fd_entries \<Rightarrow> do {
                        inodes \<leftarrow> scan_fds P fd_dir fd_entries (pid, name) inodes;
                        Some (inodes, names) }))))"

fun scan_processes ::
  "procfs \<Rightarrow> (io_error + path) list \<Rightarrow> inode_process_map \<times> pid_name_map \<Rightarrow>
     (io_error + inode_process_map \<times> pid_name_map) option" where
  "scan_processes P [] maps = Some (Inr maps)"
| "scan_processes P (Inl e # es) maps = Some (Inl e)"
| "scan_processes P (Inr entry # es) maps = do {
     maps \<leftarrow> scan_process P entry maps;
     scan_processes P es maps }"

definition build_inode_map :: "procfs \<Rightarrow> (io_error + inode_process_map \<times> pid_name_map) option" where
  "build_inode_map P = (case pf_read_dir P ''/proc'' of
     Inl e \<Rightarrow> Some (Inl e)
   | Inr entries \<Rightarrow> scan_processes P entries (Map.empty, Map.empty))"

definition build_process_map :: "procfs \<Rightarrow> (io_error + connection_process_map \<times> pid_name_map) option" where
  "build_process_map P = do {
     r \<leftarrow> build_inode_map P;
     (case r of
        Inl e \<Rightarrow> Some (Inl e)
      | Inr (inodes, names) \<Rightarrow> do {
          m \<leftarrow> parse_and_map P ''/proc/net/tcp'' Tcp inodes Map.empty;
          m \<leftarrow> parse_and_map P ''/proc/net/tcp6'' Tcp inodes m;
          m \<leftarrow> parse_and_map P ''/proc/net/udp'' Udp inodes m;
          m \<leftarrow> parse_and_map P ''/proc/net/udp6'' Udp inodes m;
          Some (Inr (m, names)) }) }"

section \<open>The lookup\<close>

record linux_lookup =
  ll_lookup :: connection_process_map
  ll_last_refresh :: instant
  ll_pid_names :: pid_name_map

definition new_linux_lookup :: "procfs \<Rightarrow> instant \<Rightarrow> (io_error + linux_lookup) option" where
  "new_linux_lookup P now = do {
     r \<leftarrow> build_process_map P;
     Some (case r of
        Inl e \<Rightarrow> Inl e
      | Inr (m, names) \<Rightarrow> Inr \<lparr>ll_lookup = m, ll_last_refresh = now, ll_pid_names = names\<rparr>) }"

definition refresh_linux_lookup ::
  "procfs \<Rightarrow> instant \<Rightarrow> linux_lookup \<Rightarrow> ((io_error + unit) \<times> linux_lookup) option" where
  "refresh_linux_lookup P now L = do {
     r \<leftarrow> build_process_map P;
     Some (case r of
        Inl e \<Rightarrow> (Inl e, L)
      | Inr (m, names) \<Rightarrow>
          (Inr (), L\<lparr>ll_lookup := m, ll_last_refresh := now, ll_pid_names := names\<rparr>)) }"

definition get_process_name_by_pid :: "procfs \<Rightarrow> u32 \<Rightarrow> linux_lookup \<Rightarrow> name option \<times> linux_lookup" where
  "get_process_name_by_pid P pid L = (case ll_pid_names L pid of
     Some name \<Rightarrow> (Some name, L)
   | None \<Rightarrow> (case read_to_string P (proc_entry pid ''/comm'') of
       None \<Rightarrow> (None, L)
     | Some text \<Rightarrow>
         (let name = trim text in
          if name = [] then (None, L)
          else (Some name, L\<lparr>ll_pid_names := (ll_pid_names L)(pid \<mapsto> name)\<rparr>))))"

definition from_connection :: "connection \<Rightarrow> connection_key" where
  "from_connection c = \<lparr>cn_protocol = co_protocol c, cn_local = co_local_addr c, cn_remote = co_remote_addr c\<rparr>"

definition lookup_match :: "linux_lookup \<Rightarrow> connection \<Rightarrow> (u32 \<times> name \<times> match_quality) option" where
  "lookup_match L c =
     (let key = from_connection c in
      case ll_lookup L key of
        Some (pid, name) \<Rightarrow> Some (pid, name, ProcfsExact)
      | None \<Rightarrow> map_option (\<lambda>((pid, name), _). (pid, name, ProcfsRelaxed)) (relaxed_lookup (ll_lookup L) key))"

definition build_attribution :: "procfs \<Rightarrow> u32 \<Rightarrow> name \<Rightarrow> match_quality \<Rightarrow> process_attribution" where
  "build_attribution P pid name quality =
     (let executable = resolve_executable P pid;
          name = refine_truncated_name name executable;
          a = with_executable executable (new_attribution pid name Procfs quality);
          a = (case resolve_parent_pid P pid of Some ppid \<Rightarrow> with_parent_pid ppid a | None \<Rightarrow> a)
      in (case resolve_credentials P pid of
            Some (u, g) \<Rightarrow> with_credentials u g a
          | None \<Rightarrow> a))"

definition linux_process_for_connection :: "linux_lookup \<Rightarrow> connection \<Rightarrow> (u32 \<times> name) option" where
  "linux_process_for_connection L c = map_option (\<lambda>(pid, name, _). (pid, name)) (lookup_match L c)"

definition linux_attribution :: "procfs \<Rightarrow> linux_lookup \<Rightarrow> connection \<Rightarrow> process_attribution option" where
  "linux_attribution P L c =
     map_option (\<lambda>(pid, name, quality). build_attribution P pid name quality) (lookup_match L c)"

end
