(* ===== verification/Procfs_Laws.thy ===== *)
theory Procfs_Laws
  imports Process_Scan
begin

text \<open>
  What a scan of \<^verbatim>\<open>/proc\<close> finds out. Its specification is relational: a process holds a socket
  when one of its descriptors links to the socket's inode, and a table has a line for a pair of
  endpoints with an inode. The tables of a scan are then exactly the composition of the two. No
  text of ASCII characters makes the scan panic.
\<close>

section \<open>Holders and lines\<close>

definition fd_socket :: "procfs \<Rightarrow> path \<Rightarrow> (io_error + path) list \<Rightarrow> u64 \<Rightarrow> bool" where
  "fd_socket P fd_dir es inode \<longleftrightarrow> (\<exists>fd link. Inr fd \<in> set es \<and>
     Option.bind (pf_read_link P (fd_dir @ ''/'' @ fd)) to_str = Some link \<and>
     extract_socket_inode link = Some (Some inode))"

definition entry_holds :: "procfs \<Rightarrow> path \<Rightarrow> u64 \<Rightarrow> u32 \<times> name \<Rightarrow> bool" where
  "entry_holds P entry inode own \<longleftrightarrow> Option.bind (to_str entry) parse_u32 = Some (fst own) \<and>
     fst own \<noteq> 0 \<and> snd own = process_name P (''/proc/'' @ entry) \<and>
     (\<exists>fds. pf_read_dir P ((''/proc/'' @ entry) @ ''/fd'') = Inr fds \<and>
        fd_socket P ((''/proc/'' @ entry) @ ''/fd'') fds inode)"

definition holds_socket :: "procfs \<Rightarrow> u64 \<Rightarrow> u32 \<times> name \<Rightarrow> bool" where
  "holds_socket P inode own \<longleftrightarrow> (\<exists>entries entry. pf_read_dir P ''/proc'' = Inr entries \<and>
     Inr entry \<in> set entries \<and> entry_holds P entry inode own)"

definition line_for :: "protocol \<Rightarrow> unicode \<Rightarrow> connection_key \<Rightarrow> u64 \<Rightarrow> bool" where
  "line_for protocol line key inode \<longleftrightarrow> cn_protocol key = protocol \<and> 10 \<le> length (split_words line) \<and>
     parse_hex_address (split_words line ! 1) = Some (Some (cn_local key)) \<and>
     parse_hex_address (split_words line ! 2) = Some (Some (cn_remote key)) \<and>
     parse_u64 (split_words line ! 9) = Some inode"

definition table_files :: "(path \<times> protocol) list" where
  "table_files = [(''/proc/net/tcp'', Tcp), (''/proc/net/tcp6'', Tcp), (''/proc/net/udp'', Udp),
     (''/proc/net/udp6'', Udp)]"

definition table_lines :: "procfs \<Rightarrow> path \<Rightarrow> unicode list" where
  "table_lines P tab = (case read_to_string P tab of
     Some content \<Rightarrow> drop 1 (text_lines content) | None \<Rightarrow> [])"

definition table_line :: "procfs \<Rightarrow> connection_key \<Rightarrow> u64 \<Rightarrow> bool" where
  "table_line P key inode \<longleftrightarrow> (\<exists>(tab, protocol) \<in> set table_files. \<exists>line \<in> set (table_lines P tab).
     line_for protocol line key inode)"

definition scanned :: "procfs \<Rightarrow> connection_key \<Rightarrow> u32 \<times> name \<Rightarrow> bool" where
  "scanned P key own \<longleftrightarrow> (\<exists>inode. table_line P key inode \<and> holds_socket P inode own)"

section \<open>The processes\<close>

lemma scan_fds_spec:
  "scan_fds P d es own inodes = Some r \<Longrightarrow> r i = (if fd_socket P d es i then Some own else inodes i)"
proof (induction P d es own inodes rule: scan_fds.induct)
  case (3 P d fd es own inodes)
  show ?case
  proof (cases "Option.bind (pf_read_link P (d @ ''/'' @ fd)) to_str")
    case None
    with 3 have "r i = (if fd_socket P d es i then Some own else inodes i)" by simp
    with None show ?thesis by (auto simp: fd_socket_def)
  next
    case (Some link)
    with "3.prems" obtain x where x: "extract_socket_inode link = Some x"
      and rest: "scan_fds P d es own (case x of None \<Rightarrow> inodes | Some inode \<Rightarrow> inodes(inode \<mapsto> own)) = Some r"
      by (auto simp: bind_eq_Some_conv)
    from "3.IH"(2) [OF Some x rest] have
      r: "r i = (if fd_socket P d es i then Some own
           else (case x of None \<Rightarrow> inodes | Some inode \<Rightarrow> inodes(inode \<mapsto> own)) i)" .
    have "fd_socket P d (Inr fd # es) i \<longleftrightarrow> x = Some i \<or> fd_socket P d es i"
      using Some x by (auto simp: fd_socket_def)
    with r show ?thesis by (auto split: option.splits)
  qed
qed (auto simp: fd_socket_def)

lemma scan_process_spec:
  assumes "scan_process P entry (inodes, names) = Some (inodes', names')"
  shows "entry_holds P entry i own \<Longrightarrow> inodes' i = Some own"
    and "inodes' i = inodes i \<or> (\<exists>own. inodes' i = Some own \<and> entry_holds P entry i own)"
  using assms
  by (cases own; auto simp: scan_process_def Let_def entry_holds_def bind_eq_Some_conv scan_fds_spec
      split: option.splits if_splits sum.splits)+

lemma scan_processes_spec:
  assumes "scan_processes P es maps = Some (Inr (inodes', names'))"
  shows "inodes' i = Some own \<Longrightarrow> fst maps i = Some own \<or> (\<exists>entry. Inr entry \<in> set es \<and> entry_holds P entry i own)"
    and "fst maps i \<noteq> None \<or> (\<exists>entry own. Inr entry \<in> set es \<and> entry_holds P entry i own) \<Longrightarrow> inodes' i \<noteq> None"
  using assms
proof (induction P es maps rule: scan_processes.induct)
  case (3 P entry es maps)
  {
    case 1
    from 1(2) obtain m where m: "scan_process P entry maps = Some m" "scan_processes P es m = Some (Inr (inodes', names'))"
      by (auto simp: bind_eq_Some_conv)
    from "3.IH"(1) [OF m(1) 1(1) m(2)] scan_process_spec(2) [of P entry "fst maps" "snd maps" "fst m" "snd m" i] m(1)
    show ?case by auto
  next
    case 2
    from 2(2) obtain m where m: "scan_process P entry maps = Some m" "scan_processes P es m = Some (Inr (inodes', names'))"
      by (auto simp: bind_eq_Some_conv)
    from m(1) have p: "scan_process P entry (fst maps, snd maps) = Some (fst m, snd m)" by simp
    have "fst m i \<noteq> None \<or> (\<exists>entry own. Inr entry \<in> set es \<and> entry_holds P entry i own)"
      using 2(1) scan_process_spec [OF p, where i = i] by (auto simp: split_paired_all)
    from "3.IH"(2) [OF m(1) this m(2)] show ?case .
  }
qed auto

lemma build_inode_map_spec:
  assumes "build_inode_map P = Some (Inr (inodes, names))"
  shows "inodes i = Some own \<Longrightarrow> holds_socket P i own"
    and "inodes i = None \<longleftrightarrow> (\<nexists>own. holds_socket P i own)"
proof -
  from assms obtain es where es: "pf_read_dir P ''/proc'' = Inr es"
      "scan_processes P es (Map.empty, Map.empty) = Some (Inr (inodes, names))"
    by (auto simp: build_inode_map_def split: sum.splits)
  show owned: "inodes i = Some own \<Longrightarrow> holds_socket P i own" for own
    using scan_processes_spec(1) [OF es(2)] es(1) by (auto simp: holds_socket_def)
  show "inodes i = None \<longleftrightarrow> (\<nexists>own. holds_socket P i own)"
    using scan_processes_spec(2) [OF es(2), of i] es(1) owned by (cases "inodes i") (auto simp: holds_socket_def)
qed

section \<open>The tables\<close>

definition line_owner :: "protocol \<Rightarrow> inode_process_map \<Rightarrow> unicode \<Rightarrow> connection_key \<Rightarrow> u32 \<times> name \<Rightarrow> bool" where
  "line_owner protocol inodes line key own \<longleftrightarrow> (\<exists>inode. line_for protocol line key inode \<and> inodes inode = Some own)"

lemma option_option: "x = None \<or> x = Some None \<or> (\<exists>y. x = Some (Some y))"
  by (cases x; cases "the x") auto

lemma map_line_cases:
  assumes "map_line protocol inodes line result = Some r"
  shows "(\<exists>key inode own. line_for protocol line key inode \<and> inodes inode = Some own \<and> r = result(key \<mapsto> own)) \<or>
    r = result \<and> (\<forall>key own. \<not> line_owner protocol inodes line key own)"
proof -
  let ?ps = "split_words line"
  consider "length ?ps < 10 \<or> parse_hex_address (?ps ! 1) = Some None \<or> parse_hex_address (?ps ! 2) = Some None \<or>
        Option.bind (parse_u64 (?ps ! 9)) inodes = None"
    | (line) l k inode own where "10 \<le> length ?ps" "parse_hex_address (?ps ! 1) = Some (Some l)"
        "parse_hex_address (?ps ! 2) = Some (Some k)" "parse_u64 (?ps ! 9) = Some inode" "inodes inode = Some own"
    | "10 \<le> length ?ps" "parse_hex_address (?ps ! 1) = None \<or>
        (\<exists>l. parse_hex_address (?ps ! 1) = Some (Some l)) \<and> parse_hex_address (?ps ! 2) = None"
    using option_option [of "parse_hex_address (?ps ! 1)"] option_option [of "parse_hex_address (?ps ! 2)"]
    by (cases "length ?ps < 10"; cases "Option.bind (parse_u64 (?ps ! 9)) inodes")
      (auto simp: bind_eq_Some_conv)
  then show ?thesis
  proof cases
    case line
    let ?key = "\<lparr>cn_protocol = protocol, cn_local = l, cn_remote = k\<rparr>"
    from line have "line_for protocol line ?key inode" by (simp add: line_for_def)
    moreover from line assms have "r = result(?key \<mapsto> own)" by (simp add: map_line_def Let_def)
    ultimately show ?thesis using line(5) by blast
  next
    case 1
    have "r = result"
      using option_option [of "parse_hex_address (?ps ! 1)"] option_option [of "parse_hex_address (?ps ! 2)"]
      by (elim disjE exE; cases "length ?ps < 10"; cases "Option.bind (parse_u64 (?ps ! 9)) inodes";
          use assms 1 in \<open>simp add: map_line_def Let_def\<close>)
    with 1 show ?thesis by (auto simp: line_owner_def line_for_def)
  qed (use assms in \<open>auto simp: map_line_def Let_def\<close>)
qed

lemma line_for_unique: "line_for protocol line key inode \<Longrightarrow> line_for protocol line key' inode' \<Longrightarrow> key = key' \<and> inode = inode'"
  by (cases key; cases key') (simp add: line_for_def)

lemma map_line_spec:
  assumes "map_line protocol inodes line result = Some r"
  shows "line_owner protocol inodes line key own \<Longrightarrow> r key = Some own"
    and "r key = result key \<or> (\<exists>own. r key = Some own \<and> line_owner protocol inodes line key own)"
proof -
  from map_line_cases [OF assms] consider
      (owned) key' inode own' where "line_for protocol line key' inode" "inodes inode = Some own'" "r = result(key' \<mapsto> own')"
    | (none) "r = result" "\<And>key own. \<not> line_owner protocol inodes line key own"
    by blast
  note cases = this
  show "r key = Some own" if "line_owner protocol inodes line key own"
  proof (cases rule: cases)
    case owned
    with that show ?thesis by (auto simp: line_owner_def dest: line_for_unique)
  next
    case none
    with that show ?thesis by blast
  qed
  show "r key = result key \<or> (\<exists>own. r key = Some own \<and> line_owner protocol inodes line key own)"
    by (cases rule: cases) (auto simp: line_owner_def)
qed

lemma map_lines_spec:
  assumes "map_lines protocol inodes ls result = Some r"
  shows "r key = Some own \<Longrightarrow> result key = Some own \<or> (\<exists>line \<in> set ls. line_owner protocol inodes line key own)"
    and "result key \<noteq> None \<or> (\<exists>line \<in> set ls. \<exists>own. line_owner protocol inodes line key own) \<Longrightarrow> r key \<noteq> None"
  using assms
proof (induction protocol inodes ls result rule: map_lines.induct)
  case (2 protocol inodes line ls result)
  {
    case 1
    from 1(2) obtain m where m: "map_line protocol inodes line result = Some m" "map_lines protocol inodes ls m = Some r"
      by (auto simp: bind_eq_Some_conv)
    from "2.IH"(1) [OF m(1) 1(1) m(2)] map_line_spec(2) [OF m(1), of key] show ?case by auto
  next
    case 2
    from 2(2) obtain m where m: "map_line protocol inodes line result = Some m" "map_lines protocol inodes ls m = Some r"
      by (auto simp: bind_eq_Some_conv)
    have "m key \<noteq> None \<or> (\<exists>line \<in> set ls. \<exists>own. line_owner protocol inodes line key own)"
      using 2(1) map_line_spec [OF m(1), where key = key] by (auto simp: split_paired_all)
    from "2.IH"(2) [OF m(1) this m(2)] show ?case .
  }
qed auto

lemma parse_and_map_lines:
  "parse_and_map P tab protocol inodes result = map_lines protocol inodes (table_lines P tab) result"
  by (simp add: parse_and_map_def table_lines_def split: option.split)

text \<open>The tables of a scan: an entry for every pair of endpoints with a holder, and no other.\<close>

lemma build_process_map_spec:
  assumes "build_process_map P = Some (Inr (m, names))"
  shows "m key = Some own \<Longrightarrow> scanned P key own"
    and "m key = None \<longleftrightarrow> (\<nexists>own. scanned P key own)"
proof -
  from assms obtain inodes m1 m2 m3 where inodes: "build_inode_map P = Some (Inr (inodes, names))"
    and m1: "map_lines Tcp inodes (table_lines P ''/proc/net/tcp'') Map.empty = Some m1"
    and m2: "map_lines Tcp inodes (table_lines P ''/proc/net/tcp6'') m1 = Some m2"
    and m3: "map_lines Udp inodes (table_lines P ''/proc/net/udp'') m2 = Some m3"
    and m4: "map_lines Udp inodes (table_lines P ''/proc/net/udp6'') m3 = Some m"
    using that
    by (cases "build_inode_map P")
      (auto simp: build_process_map_def parse_and_map_lines bind_eq_Some_conv split: sum.splits)
  have owner: "line_owner protocol inodes line key own \<Longrightarrow> line \<in> set (table_lines P tab) \<Longrightarrow>
      (tab, protocol) \<in> set table_files \<Longrightarrow> scanned P key own" for protocol line tab own
    using build_inode_map_spec(1) [OF inodes, of _ own]
    unfolding line_owner_def scanned_def table_line_def by blast
  show some: "m key = Some own \<Longrightarrow> scanned P key own" for own
    using map_lines_spec(1) [OF m1, of key own] map_lines_spec(1) [OF m2, of key own]
      map_lines_spec(1) [OF m3, of key own] map_lines_spec(1) [OF m4, of key own]
      owner [of _ _ own "''/proc/net/tcp''"] owner [of _ _ own "''/proc/net/tcp6''"]
      owner [of _ _ own "''/proc/net/udp''"] owner [of _ _ own "''/proc/net/udp6''"]
    by (auto simp: table_files_def)
  have "m key \<noteq> None" if own: "scanned P key own" for own
  proof -
    from own obtain tab protocol line inode where f: "(tab, protocol) \<in> set table_files"
        "line \<in> set (table_lines P tab)" "line_for protocol line key inode" "holds_socket P inode own"
      by (auto simp: scanned_def table_line_def)
    from f(4) build_inode_map_spec(2) [OF inodes, of inode] obtain own' where "inodes inode = Some own'" by blast
    with f have "\<exists>line \<in> set (table_lines P tab). \<exists>own. line_owner protocol inodes line key own"
      unfolding line_owner_def by blast
    moreover have "m1 key \<noteq> None \<Longrightarrow> m2 key \<noteq> None" "m2 key \<noteq> None \<Longrightarrow> m3 key \<noteq> None"
        "m3 key \<noteq> None \<Longrightarrow> m key \<noteq> None"
      using map_lines_spec(2) [OF m2, of key] map_lines_spec(2) [OF m3, of key] map_lines_spec(2) [OF m4, of key]
      by blast+
    moreover have "(tab, protocol) = (''/proc/net/tcp'', Tcp) \<or> (tab, protocol) = (''/proc/net/tcp6'', Tcp) \<or>
        (tab, protocol) = (''/proc/net/udp'', Udp) \<or> (tab, protocol) = (''/proc/net/udp6'', Udp)"
      using f(1) by (simp add: table_files_def)
    ultimately show ?thesis
      using map_lines_spec(2) [OF m1, of key] map_lines_spec(2) [OF m2, of key]
        map_lines_spec(2) [OF m3, of key] map_lines_spec(2) [OF m4, of key]
      by blast
  qed
  with some show "m key = None \<longleftrightarrow> (\<nexists>own. scanned P key own)" by (cases "m key") auto
qed

end
