(* ===== verification/Procfs_Tables.thy ===== *)
theory Procfs_Tables
  imports Procfs_Laws
begin

text \<open>
  The text the kernel presents under \<^verbatim>\<open>/proc/net\<close>, as \<^verbatim>\<open>proc(5)\<close> describes it: a header, then one row
  per socket, with the two endpoints in hexadecimal and the inode in decimal among its columns.
  An address is printed word by word in the host's byte order. The lemmas say that a scan reads
  such tables back.
\<close>

section \<open>Printing\<close>

definition hex_upper :: "nat \<Rightarrow> nat" where
  "hex_upper n = (if n < 10 then 48 + n else 55 + n)"

text \<open>\<^verbatim>\<open>%0kX\<close> of a number of at most \<open>k\<close> digits.\<close>

fun hexn :: "nat \<Rightarrow> nat \<Rightarrow> unicode" where
  "hexn 0 v = []"
| "hexn (Suc k) v = hexn k (v div 16) @ [hex_upper (v mod 16)]"

fun print_ip :: "endian \<Rightarrow> ip_addr \<Rightarrow> unicode" where
  "print_ip e (V4 a) = hexn 8 (unat (rd32 e (octets4 a)))"
| "print_ip e (V6 a) = concat (map (\<lambda>w. hexn 8 (unat w)) (rd32x4 e (octets6 a)))"

definition print_endpoint :: "endian \<Rightarrow> ip_addr \<times> u16 \<Rightarrow> unicode" where
  "print_endpoint e x = print_ip e (fst x) @ 58 # hexn 4 (unat (snd x))"

text \<open>Columns, each behind at least one blank.\<close>

fun columns :: "(nat \<times> unicode) list \<Rightarrow> unicode" where
  "columns [] = []"
| "columns ((n, w) # ws) = replicate (Suc n) 32 @ w @ columns ws"

record socket_row =
  sr_pad :: nat
  sr_slot :: unicode
  sr_gap1 :: nat
  sr_local :: "ip_addr \<times> u16"
  sr_gap2 :: nat
  sr_remote :: "ip_addr \<times> u16"
  sr_middle :: "(nat \<times> unicode) list"
  sr_gap3 :: nat
  sr_inode :: u64
  sr_rest :: "(nat \<times> unicode) list"

definition row_text :: "endian \<Rightarrow> socket_row \<Rightarrow> unicode" where
  "row_text e r = replicate (sr_pad r) 32 @ sr_slot r @
     columns ((sr_gap1 r, print_endpoint e (sr_local r)) # (sr_gap2 r, print_endpoint e (sr_remote r)) #
       sr_middle r @ (sr_gap3 r, decimal (unat (sr_inode r))) # sr_rest r)"

text \<open>Between the endpoints and the inode stand six columns: state, queues, timer, retransmits, user, timeout.\<close>

definition plain_word :: "unicode \<Rightarrow> bool" where
  "plain_word w \<longleftrightarrow> w \<noteq> [] \<and> list_all (\<lambda>c. 0x21 \<le> c \<and> c \<le> 0x7E) w"

definition row_ok :: "socket_row \<Rightarrow> bool" where
  "row_ok r \<longleftrightarrow> plain_word (sr_slot r) \<and> list_all (plain_word \<circ> snd) (sr_middle r) \<and>
     length (sr_middle r) = 6 \<and> list_all (plain_word \<circ> snd) (sr_rest r)"

definition row_key :: "protocol \<Rightarrow> socket_row \<Rightarrow> connection_key" where
  "row_key protocol r = \<lparr>cn_protocol = protocol,
     cn_local = new_socket_addr (fst (sr_local r)) (snd (sr_local r)),
     cn_remote = new_socket_addr (fst (sr_remote r)) (snd (sr_remote r))\<rparr>"

definition table_text :: "endian \<Rightarrow> unicode \<Rightarrow> socket_row list \<Rightarrow> unicode" where
  "table_text e header rows = concat (map (\<lambda>l. l @ [10]) (header # map (row_text e) rows))"

section \<open>Numbers\<close>

lemma length_hexn [simp]: "length (hexn k v) = k"
  by (induction k arbitrary: v) auto

lemma digits_value_append:
  "digits_value r b (xs @ ys) acc = Option.bind (digits_value r b xs acc) (digits_value r b ys)"
  by (induction r b xs acc rule: digits_value.induct) (auto split: option.splits)

lemma hex_upper_value: "n < 16 \<Longrightarrow> digit_value (hex_upper n) = Some n"
  by (auto simp: hex_upper_def digit_value_def)

lemma hex_upper_range: "n < 16 \<Longrightarrow> 48 \<le> hex_upper n \<and> hex_upper n \<le> 70 \<and> hex_upper n \<noteq> 58"
  by (auto simp: hex_upper_def)

lemma hexn_chars: "c \<in> set (hexn k v) \<Longrightarrow> 48 \<le> c \<and> c \<le> 70 \<and> c \<noteq> 58"
  by (induction k arbitrary: v) (use hex_upper_range in auto)

lemma digits_value_hexn:
  "v < 16 ^ k \<Longrightarrow> v < b \<Longrightarrow> digits_value 16 b (hexn k v) 0 = Some v"
proof (induction k arbitrary: v)
  case (Suc k)
  from Suc.prems(1) have "v div 16 < 16 ^ k" by (simp add: less_mult_imp_div_less mult.commute)
  moreover have "v div 16 < b" using Suc.prems(2) by (meson div_le_dividend le_less_trans)
  ultimately have "digits_value 16 b (hexn k (v div 16)) 0 = Some (v div 16)" by (rule Suc.IH)
  with Suc.prems(2) show ?case
    by (simp add: digits_value_append hex_upper_value)
qed simp

lemma from_hexn:
  assumes "v < 16 ^ k" "v < b" "0 < k"
  shows "from_str_radix 16 b (hexn k v) = Some v"
proof -
  from assms(3) have "hexn k v \<noteq> []" by (metis length_0_conv length_hexn less_numeral_extra(3))
  then obtain c cs where c: "hexn k v = c # cs" by (cases "hexn k v") auto
  then have "c \<noteq> 43" using hexn_chars [of c k v] by auto
  with c digits_value_hexn [OF assms(1,2)] show ?thesis
    by (simp add: from_str_radix_def Let_def del: digits_value.simps)
qed

declare decimal.simps [simp del]

lemma digits_value_decimal: "n < b \<Longrightarrow> digits_value 10 b (decimal n) 0 = Some n"
proof (induction n rule: decimal.induct)
  case (1 n)
  show ?case
  proof (cases "n < 10")
    case True
    with 1 show ?thesis by (simp add: decimal.simps [of n] digit_value_def)
  next
    case False
    have "n div 10 < b" using 1(2) by (meson div_le_dividend le_less_trans)
    with 1(1) False have "digits_value 10 b (decimal (n div 10)) 0 = Some (n div 10)" by simp
    with False 1(2) show ?thesis
      by (simp add: decimal.simps [of n] digits_value_append digit_value_def)
  qed
qed

lemma decimal_chars: "c \<in> set (decimal n) \<Longrightarrow> 48 \<le> c \<and> c \<le> 57"
proof (induction n rule: decimal.induct)
  case (1 n)
  then show ?case by (cases "n < 10") (auto simp: decimal.simps [of n])
qed

lemma decimal_nonempty [simp]: "decimal n \<noteq> []"
  by (simp add: decimal.simps [of n])

lemma from_decimal: "n < b \<Longrightarrow> from_str_radix 10 b (decimal n) = Some n"
proof -
  assume n: "n < b"
  obtain c cs where c: "decimal n = c # cs" by (cases "decimal n") auto
  then have "c \<noteq> 43" using decimal_chars [of c n] by auto
  with c digits_value_decimal [OF n] show ?thesis
    by (simp add: from_str_radix_def Let_def del: digits_value.simps)
qed

lemma parse_decimal [simp]:
  "parse_u64 (decimal (unat (i :: u64))) = Some i" "parse_u32 (decimal (unat (p :: u32))) = Some p"
  using unat_bound [of i] unat_bound [of p] by (simp_all add: parse_u64_def parse_u32_def from_decimal)

lemma u32_from_hexn [simp]: "u32_from_hex (hexn 8 (unat (w :: u32))) = Some w"
  using unat_bound [of w] by (simp add: u32_from_hex_def from_hexn)

section \<open>Endpoints\<close>

lemma split_char_none: "c \<notin> set s \<Longrightarrow> split_char c s = [s]"
  by (induction s) auto

lemma split_char_one: "c \<notin> set s \<Longrightarrow> c \<notin> set t \<Longrightarrow> split_char c (s @ c # t) = [s, t]"
  by (induction s) (auto simp: split_char_none)

lemma hexn_ascii: "c \<in> set (hexn k v) \<Longrightarrow> c < 0x80"
  using hexn_chars [of c k v] by simp


lemma four_groups:
  "hex_groups (concat (map (\<lambda>w. hexn 8 (unat (w :: u32))) [a, b, c, d])) [0, 1, 2, 3] [] =
     Some (Some (wr32s Little [a, b, c, d]))"
proof -
  let ?s = "concat (map (\<lambda>w. hexn 8 (unat (w :: u32))) [a, b, c, d])"
  have ascii: "\<forall>x \<in> set ?s. x < 0x80" using hexn_ascii by auto
  have "str_slice ?s (i * 8) ((i + 1) * 8) = Some (take 8 (drop (i * 8) ?s))" if "i < 4" for i
    using that by (subst str_slice_ascii [OF ascii]) auto
  from this [of 0] this [of 1] this [of 2] this [of 3] show ?thesis
    by (simp add: wr32s_def)
qed

lemma print_ip_chars: "c \<in> set (print_ip e a) \<Longrightarrow> 48 \<le> c \<and> c \<le> 70 \<and> c \<noteq> 58"
  by (cases a) (auto dest: hexn_chars simp: rd32x4_def)

lemma print_ip_len: "str_len (print_ip e a) = (case a of V4 _ \<Rightarrow> 8 | V6 _ \<Rightarrow> 32)"
proof -
  have "\<forall>c \<in> set (print_ip e a). c < 0x80" using print_ip_chars by fastforce
  then have "str_len (print_ip e a) = length (print_ip e a)" by (rule str_len_ascii)
  then show ?thesis by (cases a) (simp_all add: rd32x4_def)
qed

text \<open>
  A printed endpoint is read back on a little-endian host. On a big-endian one the address comes
  out with its bytes in the reverse order.
\<close>

lemma parse_printed:
  "parse_hex_address (print_endpoint e (ip, port)) = Some (Some (new_socket_addr
     (case ip of V4 a \<Rightarrow> V4 (rd32 Big (wr32 Little (rd32 e (octets4 a))))
      | V6 a \<Rightarrow> V6 (word_of_nat (dec Big (wr32s Little (rd32x4 e (octets6 a)))))) port))"
proof -
  have "58 \<notin> set (print_ip e ip)" "58 \<notin> set (hexn 4 (unat port))"
    using print_ip_chars hexn_chars by blast+
  then have "split_char 58 (print_endpoint e (ip, port)) = [print_ip e ip, hexn 4 (unat port)]"
    by (simp add: print_endpoint_def split_char_one)
  moreover have "from_str_radix 16 65536 (hexn 4 (unat port)) = Some (unat port)"
    using unat_bound [of port] by (intro from_hexn) simp_all
  moreover have "hex_groups (print_ip e (V6 a)) [0, 1, 2, 3] [] = Some (Some (wr32s Little (rd32x4 e (octets6 a))))" for a
    using four_groups by (simp add: rd32x4_def)
  ultimately show ?thesis
    using print_ip_len [of e ip] by (cases ip) (simp_all add: parse_hex_address_def)
qed

lemma parse_printed_little:
  "parse_hex_address (print_endpoint Little x) = Some (Some (new_socket_addr (fst x) (snd x)))"
proof -
  have "rd32 Big (wr32 Little (rd32 Little (octets4 a))) = a" for a
    by (simp add: wr32_rd32) (simp add: octets4_def)
  moreover have "(word_of_nat (dec Big (wr32s Little (rd32x4 Little (octets6 a)))) :: ipv6) = a" for a
    by (simp add: wr32s_rd32x4)
  ultimately show ?thesis using parse_printed [of Little "fst x" "snd x"] by (simp split: ip_addr.split)
qed

lemma parse_printed_big:
  "parse_hex_address (print_endpoint Big (V4 a, port)) = Some (Some (new_socket_addr (V4 (bswap32 a)) port))"
  by (simp add: parse_printed bswap32_def) (simp add: octets4_def)

section \<open>Rows and tables\<close>

lemma plain_word_white: "plain_word w \<Longrightarrow> c \<in> set w \<Longrightarrow> \<not> is_whitespace c"
  by (auto simp: plain_word_def list_all_iff is_whitespace_def)

lemma dropWhile_word: "plain_word w \<Longrightarrow> dropWhile is_whitespace (w @ s) = w @ s"
  using plain_word_white [of w "hd w"] by (cases w) (auto simp: plain_word_def)

lemma split_words_blank: "split_words (replicate n 32 @ s) = split_words s"
proof -
  have "dropWhile is_whitespace (replicate n 32 @ s) = dropWhile is_whitespace s"
    by (induction n) (simp_all add: is_whitespace_def)
  then show ?thesis by (subst (1 2) split_words.simps) simp
qed

lemma split_words_word:
  assumes "plain_word w" "s = [] \<or> is_whitespace (hd s)"
  shows "split_words (w @ s) = w # split_words s"
proof -
  obtain c t where w: "w = c # t" using assms(1) by (cases w) (auto simp: plain_word_def)
  have word: "\<forall>x \<in> set w. \<not> is_whitespace x" using plain_word_white [OF assms(1)] by blast
  from assms(2) have rest: "takeWhile (\<lambda>c. \<not> is_whitespace c) s = []" "dropWhile (\<lambda>c. \<not> is_whitespace c) s = s"
    by (cases s; simp)+
  have "takeWhile (\<lambda>c. \<not> is_whitespace c) (w @ s) = w" "dropWhile (\<lambda>c. \<not> is_whitespace c) (w @ s) = s"
    using word rest by (simp_all add: takeWhile_append2 dropWhile_append2)
  with dropWhile_word [OF assms(1), of s] show ?thesis
    by (subst split_words.simps) (simp add: w)
qed

lemma columns_head: "columns ws = [] \<or> is_whitespace (hd (columns ws))"
  by (cases ws rule: columns.cases) (simp_all add: is_whitespace_def)

lemma split_columns:
  "list_all (plain_word \<circ> snd) ws \<Longrightarrow> split_words (columns ws) = map snd ws"
proof (induction ws rule: columns.induct)
  case 1
  show ?case by (subst split_words.simps) simp
next
  case (2 n w ws)
  then show ?case
    using split_words_blank [of "Suc n" "w @ columns ws"] split_words_word [OF _ columns_head, of w ws] by simp
qed

lemma plain_endpoint: "plain_word (print_endpoint e x)"
  using print_ip_chars [of _ e "fst x"] hexn_chars [of _ 4 "unat (snd x)"]
  by (force simp: plain_word_def print_endpoint_def list_all_iff)

lemma plain_decimal: "plain_word (decimal n)"
  using decimal_chars by (force simp: plain_word_def list_all_iff)

lemma split_row:
  assumes "row_ok r"
  shows "split_words (row_text e r) = sr_slot r # print_endpoint e (sr_local r) # print_endpoint e (sr_remote r) #
     map snd (sr_middle r) @ decimal (unat (sr_inode r)) # map snd (sr_rest r)"
  using assms split_words_word [OF _ columns_head, of "sr_slot r"]
  by (simp add: row_text_def split_words_blank row_ok_def split_columns plain_endpoint plain_decimal
      del: columns.simps)

lemma nth_inode: "length m = 6 \<Longrightarrow> (a # b # c # m @ x # rest) ! 9 = x"
  by (simp add: nth_append numeral_eq_Suc)

text \<open>A row stands for its key and its inode, and for nothing else.\<close>

lemma line_for_row:
  assumes "row_ok r"
  shows "line_for protocol (row_text Little r) key inode \<longleftrightarrow> key = row_key protocol r \<and> inode = sr_inode r"
proof -
  have len: "length (sr_middle r) = 6" using assms by (simp add: row_ok_def)
  have "line_for protocol (row_text Little r) key inode \<longleftrightarrow> cn_protocol key = protocol \<and>
      new_socket_addr (fst (sr_local r)) (snd (sr_local r)) = cn_local key \<and>
      new_socket_addr (fst (sr_remote r)) (snd (sr_remote r)) = cn_remote key \<and> sr_inode r = inode"
    unfolding line_for_def split_row [OF assms] using len
    by (subst nth_inode) (simp_all add: parse_printed_little)
  then show ?thesis by (cases key) (auto simp: row_key_def)
qed

lemma text_lines_Cons:
  assumes "10 \<notin> set l" "l = [] \<or> last l \<noteq> 13"
  shows "text_lines (l @ 10 # s) = l # text_lines s"
proof -
  have "takeWhile (\<lambda>c. c \<noteq> 10) (l @ 10 # s) = l" "dropWhile (\<lambda>c. c \<noteq> 10) (l @ 10 # s) = 10 # s"
    using assms(1) by (induction l) auto
  with assms(2) show ?thesis by (subst text_lines.simps) (auto simp: strip_cr_char_def)
qed

lemma text_lines_table:
  "\<forall>l \<in> set ls. 10 \<notin> set l \<and> (l = [] \<or> last l \<noteq> 13) \<Longrightarrow> text_lines (concat (map (\<lambda>l. l @ [10]) ls)) = ls"
proof (induction ls)
  case Nil
  show ?case by (simp add: text_lines.simps)
qed (simp add: text_lines_Cons)

section \<open>No panic\<close>

lemma str_skip_append: "str_skip (str_len a) (a @ b) = Some b"
proof (induction a)
  case Nil
  show ?case by (cases b) simp_all
next
  case (Cons c a)
  have "0 < char_len c" by simp
  with Cons show ?case by (simp del: char_len.simps)
qed

text \<open>Total computations, in the terms of \<open>wp\<close>.\<close>

abbreviation returns :: "'a option \<Rightarrow> bool" where
  "returns m \<equiv> yields m (\<lambda>_. True)"

lemma yields_sum [wp]:
  "yields (case r of Inl e \<Rightarrow> m e | Inr x \<Rightarrow> f x) P \<longleftrightarrow>
     (\<forall>e. r = Inl e \<longrightarrow> yields (m e) P) \<and> (\<forall>x. r = Inr x \<longrightarrow> yields (f x) P)"
  by (cases r) simp_all

lemma extract_socket_inode_total: "returns (extract_socket_inode link)"
proof (cases "starts_with_seq link (str ''socket:['') \<and> link \<noteq> [] \<and> last link = 93")
  case True
  then have link: "link = str ''socket:['' @ drop 8 link" "link = butlast link @ [93]"
    using starts_withD [of link "str ''socket:[''"] append_butlast_last_id [of link]
    by (simp_all add: str_def del: drop_Suc_Cons) (simp_all add: numeral_eq_Suc)
  have skip8: "str_skip 8 link = Some (drop 8 link)"
    using str_skip_append [of "str ''socket:[''" "drop 8 link", folded link(1)]
    by (simp add: str_def) (simp add: numeral_eq_Suc)
  have "str_len link = str_len (butlast link) + 1" by (subst link(2)) simp
  then have "str_skip (str_len link - 1) link = Some [93]"
    using str_skip_append [of "butlast link" "[93]"] link(2) by simp
  moreover have "8 \<le> str_len link - 1"
  proof -
    have "drop 8 link \<noteq> []"
    proof
      assume "drop 8 link = []"
      with link(1) have "link = str ''socket:[''" by simp
      with True show False by (simp add: str_def)
    qed
    then have "0 < str_len (drop 8 link)" using length_le_str_len [of "drop 8 link"] by (cases "drop 8 link") auto
    moreover have "str_len link = str_len (str ''socket:['') + str_len (drop 8 link)"
      by (subst link(1)) simp
    ultimately show ?thesis by (simp add: str_def)
  qed
  ultimately show ?thesis using True skip8 by (simp add: extract_socket_inode_def str_slice_def)
next
  case False
  then show ?thesis by (simp only: extract_socket_inode_def if_False yields_simps)
qed

lemma hex_groups_total:
  "\<forall>c \<in> set s. c < 0x80 \<Longrightarrow> \<forall>i \<in> set is. (i + 1) * 8 \<le> length s \<Longrightarrow> returns (hex_groups s is bs)"
  by (induction s "is" bs rule: hex_groups.induct) (auto simp: str_slice_ascii wp)

definition ascii_seq :: "unicode \<Rightarrow> bool" where
  "ascii_seq s \<longleftrightarrow> (\<forall>c \<in> set s. c < 0x80)"

lemma split_char_set: "p \<in> set (split_char c s) \<Longrightarrow> set p \<subseteq> set s"
  by (induction c s arbitrary: p rule: split_char.induct) (force split: list.splits if_splits)+

lemma parse_hex_address_total:
  assumes "ascii_seq s"
  shows "returns (parse_hex_address s)"
proof -
  have "returns (hex_groups p [0, 1, 2, 3] [])" if p: "p \<in> set (split_char 58 s)" "str_len p = 32" for p
  proof -
    have ascii: "\<forall>c \<in> set p. c < 0x80" using assms split_char_set [OF p(1)] by (auto simp: ascii_seq_def)
    with p(2) have "length p = 32" by (simp add: str_len_ascii)
    with ascii show ?thesis by (intro hex_groups_total) auto
  qed
  then show ?thesis
    by (auto simp: parse_hex_address_def wp simp del: hex_groups.simps split: list.split)
qed

lemma split_words_set: "w \<in> set (split_words s) \<Longrightarrow> set w \<subseteq> set s"
proof (induction s rule: split_words.induct)
  case (1 s)
  show ?case
  proof (cases "dropWhile is_whitespace s")
    case Nil
    with "1.prems" show ?thesis by (simp add: split_words.simps [of s])
  next
    case (Cons c t)
    then have sub: "set (c # t) \<subseteq> set s" by (metis set_dropWhileD subsetI)
    from "1.prems" Cons have "w = takeWhile (\<lambda>c. \<not> is_whitespace c) (c # t) \<or>
        w \<in> set (split_words (dropWhile (\<lambda>c. \<not> is_whitespace c) (c # t)))"
      by (subst (asm) split_words.simps) (auto split: if_splits)
    then show ?thesis
    proof
      assume "w = takeWhile (\<lambda>c. \<not> is_whitespace c) (c # t)"
      with sub show ?thesis by (metis set_takeWhileD subset_iff)
    next
      assume "w \<in> set (split_words (dropWhile (\<lambda>c. \<not> is_whitespace c) (c # t)))"
      with "1.IH" [OF Cons] sub show ?thesis by (meson set_dropWhileD subset_iff)
    qed
  qed
qed

lemma map_line_total:
  assumes "ascii_seq line"
  shows "returns (map_line protocol inodes line result)"
proof -
  have "returns (parse_hex_address (split_words line ! i))" if "i < length (split_words line)" for i
    using that assms split_words_set [OF nth_mem] by (intro parse_hex_address_total) (force simp: ascii_seq_def)
  then have "10 \<le> length (split_words line) \<Longrightarrow> returns (parse_hex_address (split_words line ! 1)) \<and>
      returns (parse_hex_address (split_words line ! 2))" by simp
  then show ?thesis
    by (auto simp: map_line_def wp elim!: yields_mono)
qed

lemma map_lines_total: "list_all ascii_seq ls \<Longrightarrow> returns (map_lines protocol inodes ls result)"
  by (induction ls arbitrary: result) (auto simp: wp intro: yields_mono [OF map_line_total])

lemma scan_fds_total: "returns (scan_fds P d es own inodes)"
proof (induction es arbitrary: inodes)
  case (Cons entry es)
  then show ?case by (cases entry) (auto simp: wp intro!: yields_mono [OF extract_socket_inode_total])
qed simp

lemma scan_process_total: "returns (scan_process P entry maps)"
  by (simp add: scan_process_def wp scan_fds_total)

lemma build_inode_map_total: "returns (build_inode_map P)"
proof -
  have "returns (scan_processes P es maps)" for es maps
  proof (induction es arbitrary: maps)
    case (Cons entry es)
    then show ?case by (cases entry) (auto simp: wp intro!: yields_mono [OF scan_process_total])
  qed simp
  then show ?thesis by (simp add: build_inode_map_def wp)
qed

lemma build_process_map_total:
  assumes "\<forall>(tab, protocol) \<in> set table_files. list_all ascii_seq (table_lines P tab)"
  shows "returns (build_process_map P)"
proof -
  have "returns (map_lines protocol inodes (table_lines P tab) result)"
    if "(tab, protocol) \<in> set table_files" for tab protocol inodes result
    using that assms by (auto intro: map_lines_total)
  then show ?thesis
    by (auto simp: build_process_map_def parse_and_map_lines wp table_files_def
        intro!: yields_mono [OF build_inode_map_total])
qed

end
