(* ===== verification/Procfs_View.thy ===== *)
theory Procfs_View
  imports Procfs_Tables
begin

text \<open>
  A scan of the \<^verbatim>\<open>/proc\<close> a kernel presents: the tables are printed rows, a socket's link names its
  inode, and a process's directory carries its number. The scan then finds exactly the processes
  that own the sockets of the rows.
\<close>

section \<open>What the kernel presents\<close>

definition presents :: "procfs \<Rightarrow> (path \<Rightarrow> socket_row list) \<Rightarrow> bool" where
  "presents P rows \<longleftrightarrow> (\<forall>(tab, protocol) \<in> set table_files.
     pf_read P tab = None \<and> rows tab = [] \<or>
     list_all row_ok (rows tab) \<and> (\<exists>header. list_all (\<lambda>c. 0x20 \<le> c \<and> c \<le> 0x7E) header \<and>
       pf_read P tab = Some (map word_of_nat (table_text Little header (rows tab)))))"

definition pid_entry :: "u32 \<Rightarrow> path" where
  "pid_entry pid = map char_of (decimal (unat pid))"

definition socket_link :: "u64 \<Rightarrow> path" where
  "socket_link inode = ''socket:['' @ map char_of (decimal (unat inode)) @ '']''"

definition owns :: "procfs \<Rightarrow> u64 \<Rightarrow> u32 \<times> name \<Rightarrow> bool" where
  "owns P inode own \<longleftrightarrow> fst own \<noteq> 0 \<and> snd own = process_name P (proc_entry (fst own) '''') \<and>
     (\<exists>entries fds fd. pf_read_dir P ''/proc'' = Inr entries \<and> Inr (pid_entry (fst own)) \<in> set entries \<and>
        pf_read_dir P (proc_entry (fst own) ''/fd'') = Inr fds \<and> Inr fd \<in> set fds \<and>
        pf_read_link P (proc_entry (fst own) (''/fd/'' @ fd)) = Some (socket_link inode))"

text \<open>No other name passes for a process, and no other link for a socket.\<close>

definition canonical :: "procfs \<Rightarrow> bool" where
  "canonical P \<longleftrightarrow>
     (\<forall>entries entry pid. pf_read_dir P ''/proc'' = Inr entries \<longrightarrow> Inr entry \<in> set entries \<longrightarrow>
        Option.bind (to_str entry) parse_u32 = Some pid \<longrightarrow> entry = pid_entry pid) \<and>
     (\<forall>p link t inode. pf_read_link P p = Some link \<longrightarrow> to_str link = Some t \<longrightarrow>
        extract_socket_inode t = Some (Some inode) \<longrightarrow> link = socket_link inode)"

section \<open>Owners\<close>

lemma of_char_ascii: "n < 128 \<Longrightarrow> (of_char (char_of n) :: byte) = word_of_nat n"
proof -
  assume "n < 128"
  then have "(of_char (char_of n) :: nat) = n" by simp
  then have "of_nat (of_char (char_of n) :: nat) = (word_of_nat n :: byte)" by simp
  then show ?thesis by (simp only: of_nat_of_char)
qed

lemma from_utf8_text:
  assumes "\<forall>c \<in> set s. c < 0x80"
  shows "from_utf8 (map word_of_nat s) = Some s"
proof -
  have unats: "map unat (map word_of_nat s :: byte list) = s"
    using assms by (auto simp: unat_of_nat intro!: map_idI)
  have "\<forall>b \<in> set (map word_of_nat s :: byte list). unat b < 0x80"
    using assms by (auto simp: unat_of_nat)
  from from_utf8_ascii [OF this] show ?thesis by (simp only: unats)
qed

lemma to_str_text:
  assumes "\<forall>c \<in> set s. c < 0x80"
  shows "to_str (map char_of s) = Some s"
proof -
  have "map of_char (map char_of s) = (map word_of_nat s :: byte list)"
    using assms by (simp add: of_char_ascii)
  with from_utf8_text [OF assms] show ?thesis by (simp only: to_str_def)
qed

lemma decimal_ascii: "c \<in> set (decimal n) \<Longrightarrow> c < 0x80"
  using decimal_chars [of c n] by simp

lemma to_str_pid: "to_str (pid_entry pid) = Some (decimal (unat pid))"
  unfolding pid_entry_def by (rule to_str_text) (use decimal_ascii in blast)

lemma char_of_str: "map char_of (str s) = s"
  by (simp add: str_def comp_def)

definition link_text :: "u64 \<Rightarrow> unicode" where
  "link_text inode = str ''socket:['' @ decimal (unat inode) @ str '']''"

lemma link_text_ascii: "\<forall>c \<in> set (link_text inode). c < 0x80"
  by (auto simp: link_text_def str_def dest: decimal_ascii)

lemma to_str_link: "to_str (socket_link inode) = Some (link_text inode)"
proof -
  have "socket_link inode = map char_of (link_text inode)"
    by (simp only: socket_link_def link_text_def map_append char_of_str)
  then show ?thesis using to_str_text [OF link_text_ascii] by simp
qed

lemma extract_link_text: "extract_socket_inode (link_text inode) = Some (Some inode)"
proof -
  have len: "str_len (link_text inode) = length (decimal (unat inode)) + 9"
    by (subst str_len_ascii [OF link_text_ascii]) (simp add: link_text_def str_def)
  have "str_slice (link_text inode) 8 (str_len (link_text inode) - 1) = Some (decimal (unat inode))"
    unfolding len by (subst str_slice_ascii [OF link_text_ascii]) (simp_all add: link_text_def str_def)
  moreover have "starts_with_seq (link_text inode) (str ''socket:['')"
    unfolding link_text_def by (rule starts_with_append)
  ultimately show ?thesis by (simp add: extract_socket_inode_def) (simp add: link_text_def str_def)
qed

lemma proc_paths:
  "''/proc/'' @ pid_entry pid = proc_entry pid ''''" "proc_entry pid '''' @ below = proc_entry pid below"
  by (simp_all add: proc_entry_def pid_entry_def)

lemma entry_holds_pid:
  "entry_holds P (pid_entry pid) inode own \<longleftrightarrow> fst own = pid \<and> pid \<noteq> 0 \<and>
     snd own = process_name P (proc_entry pid '''') \<and>
     (\<exists>fds. pf_read_dir P (proc_entry pid ''/fd'') = Inr fds \<and> fd_socket P (proc_entry pid ''/fd'') fds inode)"
  unfolding entry_holds_def to_str_pid proc_paths by auto

lemma holds_socket_owns:
  assumes "canonical P"
  shows "holds_socket P inode own \<longleftrightarrow> owns P inode own"
proof -
  have path: "proc_entry pid ''/fd'' @ ''/'' @ fd = proc_entry pid (''/fd/'' @ fd)" for pid fd
    by (simp add: proc_entry_def)
  have fd: "fd_socket P (proc_entry pid ''/fd'') fds inode \<longleftrightarrow> (\<exists>fd. Inr fd \<in> set fds \<and>
      pf_read_link P (proc_entry pid (''/fd/'' @ fd)) = Some (socket_link inode))" for pid fds
  proof
    assume "fd_socket P (proc_entry pid ''/fd'') fds inode"
    then obtain fd link t where "Inr fd \<in> set fds" "pf_read_link P (proc_entry pid (''/fd/'' @ fd)) = Some link"
        "to_str link = Some t" "extract_socket_inode t = Some (Some inode)"
      unfolding fd_socket_def bind_eq_Some_conv path by blast
    with assms show "\<exists>fd. Inr fd \<in> set fds \<and>
        pf_read_link P (proc_entry pid (''/fd/'' @ fd)) = Some (socket_link inode)"
      unfolding canonical_def by blast
  next
    assume "\<exists>fd. Inr fd \<in> set fds \<and> pf_read_link P (proc_entry pid (''/fd/'' @ fd)) = Some (socket_link inode)"
    then show "fd_socket P (proc_entry pid ''/fd'') fds inode"
      unfolding fd_socket_def bind_eq_Some_conv path using to_str_link extract_link_text by blast
  qed
  have entry: "entry = pid_entry (fst own)"
    if "pf_read_dir P ''/proc'' = Inr entries" "Inr entry \<in> set entries" "entry_holds P entry inode own" for entries entry
    using assms that unfolding canonical_def entry_holds_def by blast
  show ?thesis
  proof
    assume "holds_socket P inode own"
    then obtain entries entry where *: "pf_read_dir P ''/proc'' = Inr entries" "Inr entry \<in> set entries"
        "entry_holds P entry inode own" by (auto simp: holds_socket_def)
    with entry [OF *] show "owns P inode own" by (auto simp: entry_holds_pid fd owns_def)
  next
    assume "owns P inode own"
    then show "holds_socket P inode own"
      unfolding owns_def holds_socket_def using entry_holds_pid [of P "fst own" inode own] fd by blast
  qed
qed

section \<open>Rows\<close>

lemma columns_chars: "c \<in> set (columns ws) \<Longrightarrow> c = 32 \<or> (\<exists>w \<in> snd ` set ws. c \<in> set w)"
  by (induction ws rule: columns.induct) (auto split: if_splits)

lemma plain_word_chars: "plain_word w \<Longrightarrow> c \<in> set w \<Longrightarrow> 0x20 \<le> c \<and> c \<le> 0x7E"
  by (auto simp: plain_word_def list_all_iff)

lemma row_chars:
  assumes "row_ok r" "c \<in> set (row_text e r)"
  shows "0x20 \<le> c \<and> c \<le> 0x7E"
proof -
  let ?ws = "(sr_gap1 r, print_endpoint e (sr_local r)) # (sr_gap2 r, print_endpoint e (sr_remote r)) #
       sr_middle r @ (sr_gap3 r, decimal (unat (sr_inode r))) # sr_rest r"
  have plain: "\<forall>w \<in> snd ` set ?ws. plain_word w"
    using assms(1) by (auto simp: row_ok_def list_all_iff plain_endpoint plain_decimal)
  have "c = 32 \<or> c \<in> set (sr_slot r) \<or> c \<in> set (columns ?ws)"
    using assms(2) by (auto simp: row_text_def simp del: columns.simps split: if_splits)
  then show ?thesis
  proof (elim disjE)
    assume "c \<in> set (columns ?ws)"
    then consider "c = 32" | w where "w \<in> snd ` set ?ws" "c \<in> set w" using columns_chars by blast
    then show ?thesis
    proof cases
      case (2 w)
      with plain have "plain_word w" by blast
      from plain_word_chars [OF this 2(2)] show ?thesis .
    qed simp
  qed (use assms(1) plain_word_chars in \<open>auto simp: row_ok_def\<close>)
qed

lemma presented_lines:
  assumes "presents P rows" "(tab, protocol) \<in> set table_files"
  shows "table_lines P tab = map (row_text Little) (rows tab)" "list_all row_ok (rows tab)"
proof -
  from assms consider "pf_read P tab = None" "rows tab = []"
    | header where "list_all row_ok (rows tab)" "list_all (\<lambda>c. 0x20 \<le> c \<and> c \<le> 0x7E) header"
        "pf_read P tab = Some (map word_of_nat (table_text Little header (rows tab)))"
    unfolding presents_def by fastforce
  then have "table_lines P tab = map (row_text Little) (rows tab) \<and> list_all row_ok (rows tab)"
  proof cases
    case 1
    then show ?thesis by (simp add: table_lines_def read_to_string_def)
  next
    case (2 header)
    let ?ls = "header # map (row_text Little) (rows tab)"
    have chars: "\<forall>l \<in> set ?ls. \<forall>c \<in> set l. 0x20 \<le> c \<and> c \<le> 0x7E"
      using 2 row_chars by (auto simp: list_all_iff)
    have lines: "text_lines (table_text Little header (rows tab)) = ?ls"
      unfolding table_text_def
    proof (rule text_lines_table, rule ballI)
      fix l assume "l \<in> set ?ls"
      with chars have "\<forall>c \<in> set l. 0x20 \<le> c" by blast
      moreover then have "l \<noteq> [] \<Longrightarrow> 0x20 \<le> last l" by simp
      ultimately show "10 \<notin> set l \<and> (l = [] \<or> last l \<noteq> 13)" by fastforce
    qed
    have "\<forall>c \<in> set (table_text Little header (rows tab)). c < 0x80"
    proof
      fix c assume "c \<in> set (table_text Little header (rows tab))"
      then have "\<exists>l \<in> set ?ls. c \<in> set (l @ [10])"
        unfolding table_text_def set_concat set_map by blast
      with chars have "c \<le> 0x7E \<or> c = 10" by auto
      then show "c < 0x80" by auto
    qed
    then have "from_utf8 (map word_of_nat (table_text Little header (rows tab))) =
        Some (table_text Little header (rows tab))"
      by (rule from_utf8_text)
    with 2 lines show ?thesis by (simp add: table_lines_def read_to_string_def)
  qed
  then show "table_lines P tab = map (row_text Little) (rows tab)" "list_all row_ok (rows tab)" by simp_all
qed

definition row_of :: "(path \<Rightarrow> socket_row list) \<Rightarrow> connection_key \<Rightarrow> u64 \<Rightarrow> bool" where
  "row_of rows key inode \<longleftrightarrow> (\<exists>(tab, protocol) \<in> set table_files. \<exists>r \<in> set (rows tab).
     key = row_key protocol r \<and> inode = sr_inode r)"

lemma presented_line:
  assumes "presents P rows"
  shows "table_line P key inode \<longleftrightarrow> row_of rows key inode"
proof -
  have "(\<exists>line \<in> set (table_lines P tab). line_for protocol line key inode) \<longleftrightarrow>
      (\<exists>r \<in> set (rows tab). key = row_key protocol r \<and> inode = sr_inode r)"
    if "(tab, protocol) \<in> set table_files" for tab protocol
    using presented_lines [OF assms that] line_for_row by (auto simp: list_all_iff)
  then show ?thesis unfolding table_line_def row_of_def by (intro bex_cong [OF refl]) auto
qed

section \<open>The scan\<close>

lemma scan_processes_listed:
  "list_all (\<lambda>x. \<not> isl x) es \<Longrightarrow> scan_processes P es maps = Some r \<Longrightarrow> \<exists>x. r = Inr x"
  by (induction P es maps rule: scan_processes.induct) (auto simp: bind_eq_Some_conv)

lemma build_process_map_listed:
  assumes "pf_read_dir P ''/proc'' = Inr es" "list_all (\<lambda>x. \<not> isl x) es" "build_process_map P = Some r"
  shows "\<exists>m names. r = Inr (m, names)"
proof -
  from assms(3) obtain q where q: "build_inode_map P = Some q"
    by (cases "build_inode_map P") (auto simp: build_process_map_def)
  with scan_processes_listed [OF assms(2), of P "(Map.empty, Map.empty)" q] assms(1) obtain x where "q = Inr x"
    by (auto simp: build_inode_map_def simp del: split_paired_Ex)
  with assms(3) q show ?thesis
    by (cases x) (auto simp: build_process_map_def bind_eq_Some_conv)
qed

lemma presented_scan:
  assumes "presents P rows" "pf_read_dir P ''/proc'' = Inr es" "list_all (\<lambda>x. \<not> isl x) es"
  obtains m names where "build_process_map P = Some (Inr (m, names))"
proof -
  have "list_all ascii_seq (table_lines P tab)" if "(tab, protocol) \<in> set table_files" for tab protocol
    using presented_lines [OF assms(1) that] row_chars [of _ _ Little]
    by (fastforce simp: list_all_iff ascii_seq_def)
  then have "returns (build_process_map P)" by (intro build_process_map_total) blast
  then obtain r where "build_process_map P = Some r" by (cases "build_process_map P") auto
  with build_process_map_listed [OF assms(2,3)] that show ?thesis by blast
qed

end
