(* ===== verification/Enhanced_Lookup.thy ===== *)
theory Enhanced_Lookup
  imports Process_Scan Tables
begin

text \<open>
  \<^verbatim>\<open>linux/enhanced.rs\<close>: the lookup the application uses on Linux. It asks the socket map first and
  falls back to the procfs tables, keeps answers in a cache that is good for two seconds after a
  refresh, counts what it does, and now and then sweeps the map. Built without eBPF, and when it
  cannot be made, the application uses the procfs lookup as it is.

  The state behind the locks is one record; an operation returns the new one. The socket map is
  the kernel's: an operation takes it and returns it. What an operation reads beside is the record
  \<open>lookup_env\<close>: \<^verbatim>\<open>/proc\<close>, the clock at each place it is read, and what the programs in the kernel
  make of the map meanwhile (\<open>en_between\<close> during a sweep, \<open>en_programs\<close> before the map is asked).
\<close>

section \<open>State\<close>

record ebpf_tracker =
  et_backend :: attribution_backend
  et_tracker :: socket_tracker

text \<open>\<^verbatim>\<open>EbpfSocketTracker::new\<close>, for the byte order and the map calls of the host.\<close>

definition tracker_of :: "endian \<Rightarrow> map_api \<Rightarrow> loader \<Rightarrow> ebpf_tracker" where
  "tracker_of e api ld = \<lparr>et_backend = ld_backend ld,
     et_tracker = \<lparr>st_host = e, st_caps = ld_caps ld, st_api = api\<rparr>\<rparr>"

definition new_ebpf_tracker ::
  "host_system \<Rightarrow> endian \<Rightarrow> map_api \<Rightarrow> (utf8_string + ebpf_tracker option \<times> degradation_reason) option" where
  "new_ebpf_tracker S e api =
     map_option (\<lambda>(ld, reason). Inr (map_option (tracker_of e api) ld, reason)) (try_load S)"

definition is_healthy :: "ebpf_tracker \<Rightarrow> bool" where
  "is_healthy t = True"

record cleanup_config =
  cc_interval_secs :: u64
  cc_stale_threshold_secs :: u64

definition default_cleanup_config :: cleanup_config where
  "default_cleanup_config = \<lparr>cc_interval_secs = 30, cc_stale_threshold_secs = 60\<rparr>"

record lookup_stats =
  ls_ebpf_hits :: u64
  ls_procfs_hits :: u64
  ls_cache_hits :: u64
  ls_total_lookups :: u64
  ls_ipv4_lookups :: u64
  ls_ipv6_lookups :: u64
  ls_tcp_lookups :: u64
  ls_udp_lookups :: u64
  ls_cache_entries :: u64
  ls_failed_lookups :: u64
  ls_ebpf_available :: bool

definition default_lookup_stats :: lookup_stats where
  "default_lookup_stats = \<lparr>ls_ebpf_hits = 0, ls_procfs_hits = 0, ls_cache_hits = 0,
     ls_total_lookups = 0, ls_ipv4_lookups = 0, ls_ipv6_lookups = 0, ls_tcp_lookups = 0,
     ls_udp_lookups = 0, ls_cache_entries = 0, ls_failed_lookups = 0, ls_ebpf_available = False\<rparr>"

record enhanced_lookup =
  el_tracker :: "ebpf_tracker option"
  el_procfs :: linux_lookup
  el_cache :: "(connection_key \<times> process_attribution) list"
  el_last_refresh :: instant
  el_stats :: lookup_stats
  el_cleanup :: cleanup_config
  el_last_cleanup :: instant
  el_degradation :: degradation_reason

record lookup_env =
  en_procfs :: procfs
  en_now :: instant
  en_cache_now :: instant
  en_clock :: clock
  en_between :: "socket_map \<Rightarrow> socket_map"
  en_programs :: "socket_map \<Rightarrow> socket_map"

text \<open>
  The three readings of the clock, and what the creation of the tracker came to. An error there
  leaves the lookup without a tracker, with the error's text for a reason.
\<close>

definition new_with_config ::
  "procfs \<Rightarrow> instant \<Rightarrow> instant \<Rightarrow> instant \<Rightarrow> utf8_string + ebpf_tracker option \<times> degradation_reason \<Rightarrow>
     cleanup_config \<Rightarrow> (io_error + enhanced_lookup) option" where
  "new_with_config P scan_time now now' created config = do {
     r \<leftarrow> new_linux_lookup P scan_time;
     Some (case r of
        Inl e \<Rightarrow> Inl e
      | Inr procfs_lookup \<Rightarrow>
          (let (tracker, reason) = (case created of
                 Inr (t, reason) \<Rightarrow> (t, reason)
               | Inl e \<Rightarrow> (None, EbpfLoadFailed e))
           in Inr \<lparr>el_tracker = tracker, el_procfs = procfs_lookup, el_cache = [],
                   el_last_refresh = now - 3600 * 1000000000, el_stats = default_lookup_stats,
                   el_cleanup = config, el_last_cleanup = now' - 3600 * 1000000000,
                   el_degradation = reason\<rparr>)) }"

definition elapsed :: "instant \<Rightarrow> instant \<Rightarrow> duration" where
  "elapsed since now = nat (now - since)"

definition CACHE_TTL :: duration where "CACHE_TTL = from_secs 2"

section \<open>Asking the socket map\<close>

definition attribution_from_ebpf ::
  "procfs \<Rightarrow> socket_match \<Rightarrow> attribution_backend \<Rightarrow> enhanced_lookup \<Rightarrow> process_attribution \<times> enhanced_lookup" where
  "attribution_from_ebpf P matched backend L =
     (let info = sm_info matched;
          (known, procfs_lookup) = get_process_name_by_pid P (pi_pid info) (el_procfs L);
          name = (case known of Some n \<Rightarrow> n | None \<Rightarrow> pi_comm info);
          executable = resolve_executable P (pi_pid info);
          name = refine_truncated_name name executable;
          a = with_observed_at_ns (pi_timestamp info)
                (with_executable executable
                (with_credentials (pi_uid info) (pi_gid info)
                (with_tid (pi_tid info)
                (new_attribution (pi_pid info) name backend (sm_quality matched)))));
          a = (case resolve_parent_pid P (pi_pid info) of Some ppid \<Rightarrow> with_parent_pid ppid a | None \<Rightarrow> a)
      in (a, L\<lparr>el_procfs := procfs_lookup\<rparr>))"

definition try_ebpf_lookup ::
  "procfs \<Rightarrow> socket_map \<Rightarrow> connection \<Rightarrow> enhanced_lookup \<Rightarrow> process_attribution option \<times> enhanced_lookup" where
  "try_ebpf_lookup P m c L = (case el_tracker L of
     None \<Rightarrow> (None, L)
   | Some t \<Rightarrow>
       (case lookup (et_tracker t) m (ip_of (co_local_addr c)) (ip_of (co_remote_addr c))
               (port_of (co_local_addr c)) (port_of (co_remote_addr c)) (co_protocol c = Tcp) of
          None \<Rightarrow> (None, L)
        | Some matched \<Rightarrow>
            (let (a, L) = attribution_from_ebpf P matched (et_backend t) L in (Some a, L))))"

definition try_ebpf_icmp_lookup ::
  "procfs \<Rightarrow> socket_map \<Rightarrow> connection \<Rightarrow> u16 \<Rightarrow> enhanced_lookup \<Rightarrow>
     process_attribution option \<times> enhanced_lookup" where
  "try_ebpf_icmp_lookup P m c icmp_id L = (case el_tracker L of
     None \<Rightarrow> (None, L)
   | Some t \<Rightarrow>
       (case lookup_icmp (et_tracker t) m (ip_of (co_local_addr c)) (ip_of (co_remote_addr c)) icmp_id of
          None \<Rightarrow> (None, L)
        | Some matched \<Rightarrow>
            (let (a, L) = attribution_from_ebpf P matched (et_backend t) L in (Some a, L))))"

definition count_ebpf_hit :: "enhanced_lookup \<Rightarrow> enhanced_lookup" where
  "count_ebpf_hit L = L\<lparr>el_stats := (el_stats L)\<lparr>ls_ebpf_hits := ls_ebpf_hits (el_stats L) + 1\<rparr>\<rparr>"

definition count_procfs_hit :: "enhanced_lookup \<Rightarrow> enhanced_lookup" where
  "count_procfs_hit L = L\<lparr>el_stats := (el_stats L)\<lparr>ls_procfs_hits := ls_procfs_hits (el_stats L) + 1\<rparr>\<rparr>"

text \<open>The socket map is asked about the protocols it records, about ICMP by the echo identifier.\<close>

definition ask_socket_map ::
  "procfs \<Rightarrow> socket_map \<Rightarrow> connection \<Rightarrow> enhanced_lookup \<Rightarrow> process_attribution option \<times> enhanced_lookup" where
  "ask_socket_map P m c L = (case co_protocol c of
     Tcp \<Rightarrow> try_ebpf_lookup P m c L
   | Udp \<Rightarrow> try_ebpf_lookup P m c L
   | Icmp \<Rightarrow> (case co_protocol_state c of
       PS_Icmp _ (Some i) \<Rightarrow> try_ebpf_icmp_lookup P m c i L
     | _ \<Rightarrow> (None, L))
   | _ \<Rightarrow> (None, L))"

definition lookup_process_enhanced ::
  "procfs \<Rightarrow> socket_map \<Rightarrow> connection \<Rightarrow> enhanced_lookup \<Rightarrow> process_attribution option \<times> enhanced_lookup" where
  "lookup_process_enhanced P m c L = (case ask_socket_map P m c L of
     (Some result, L) \<Rightarrow> (Some result, count_ebpf_hit L)
   | (None, L) \<Rightarrow> (case linux_attribution P (el_procfs L) c of
       Some result \<Rightarrow> (Some result, count_procfs_hit L)
     | None \<Rightarrow> (None, L)))"

section \<open>The operations\<close>

definition is_ebpf_available :: "enhanced_lookup \<Rightarrow> bool" where
  "is_ebpf_available L = (case el_tracker L of Some t \<Rightarrow> is_healthy t | None \<Rightarrow> False)"

definition maybe_cleanup_ebpf_map ::
  "lookup_env \<Rightarrow> enhanced_lookup \<Rightarrow> socket_map \<Rightarrow> enhanced_lookup \<times> socket_map" where
  "maybe_cleanup_ebpf_map V L m =
     (if elapsed (el_last_cleanup L) (en_now V) div 1000000000 \<ge> unat (cc_interval_secs (el_cleanup L))
      then (let L = L\<lparr>el_last_cleanup := en_now V\<rparr>
            in case el_tracker L of
                 None \<Rightarrow> (L, m)
               | Some t \<Rightarrow> (L, snd (tracker_cleanup (et_tracker t) (en_clock V) (en_between V)
                                     (cc_stale_threshold_secs (el_cleanup L)) m)))
      else (L, m))"

definition count_lookup :: "connection \<Rightarrow> bool \<Rightarrow> lookup_stats \<Rightarrow> lookup_stats" where
  "count_lookup c available s =
     (let s = s\<lparr>ls_total_lookups := ls_total_lookups s + 1\<rparr>;
          s = (case ip_of (co_local_addr c) of
                 V4 _ \<Rightarrow> s\<lparr>ls_ipv4_lookups := ls_ipv4_lookups s + 1\<rparr>
               | V6 _ \<Rightarrow> s\<lparr>ls_ipv6_lookups := ls_ipv6_lookups s + 1\<rparr>);
          s = (case co_protocol c of
                 Tcp \<Rightarrow> s\<lparr>ls_tcp_lookups := ls_tcp_lookups s + 1\<rparr>
               | Udp \<Rightarrow> s\<lparr>ls_udp_lookups := ls_udp_lookups s + 1\<rparr>
               | _ \<Rightarrow> s)
      in s\<lparr>ls_ebpf_available := available\<rparr>)"

text \<open>What the cache answers at a time.\<close>

definition cached :: "enhanced_lookup \<Rightarrow> instant \<Rightarrow> connection_key \<Rightarrow> process_attribution option" where
  "cached L now key =
     (if elapsed (el_last_refresh L) now < CACHE_TTL then map_of (el_cache L) key else None)"

definition get_process_attribution ::
  "lookup_env \<Rightarrow> connection \<Rightarrow> enhanced_lookup \<Rightarrow> socket_map \<Rightarrow>
     process_attribution option \<times> enhanced_lookup \<times> socket_map" where
  "get_process_attribution V c L m =
     (let (L, m) = maybe_cleanup_ebpf_map V L m;
          m = en_programs V m;
          key = from_connection c;
          L = L\<lparr>el_stats := count_lookup c (is_ebpf_available L) (el_stats L)\<rparr>
      in (case cached L (en_cache_now V) key of
            Some a \<Rightarrow>
              (Some a, L\<lparr>el_stats := (el_stats L)\<lparr>ls_cache_hits := ls_cache_hits (el_stats L) + 1\<rparr>\<rparr>, m)
          | None \<Rightarrow> (case lookup_process_enhanced (en_procfs V) m c L of
              (Some result, L) \<Rightarrow>
                (let L = L\<lparr>el_cache := AList.update key result (el_cache L)\<rparr>
                 in (Some result,
                     L\<lparr>el_stats := (el_stats L)\<lparr>ls_cache_entries := of_nat (length (el_cache L))\<rparr>\<rparr>, m))
            | (None, L) \<Rightarrow>
                (None, L\<lparr>el_stats := (el_stats L)\<lparr>ls_failed_lookups := ls_failed_lookups (el_stats L) + 1\<rparr>\<rparr>, m))))"

definition get_process_for_connection ::
  "lookup_env \<Rightarrow> connection \<Rightarrow> enhanced_lookup \<Rightarrow> socket_map \<Rightarrow>
     (u32 \<times> name) option \<times> enhanced_lookup \<times> socket_map" where
  "get_process_for_connection V c L m =
     (let (a, L, m) = get_process_attribution V c L m in (map_option into_pid_name a, L, m))"

definition refresh_enhanced ::
  "procfs \<Rightarrow> instant \<Rightarrow> instant \<Rightarrow> enhanced_lookup \<Rightarrow> ((io_error + unit) \<times> enhanced_lookup) option" where
  "refresh_enhanced P scan_time now L = do {
     (r, procfs_lookup) \<leftarrow> refresh_linux_lookup P scan_time (el_procfs L);
     let L = L\<lparr>el_procfs := procfs_lookup\<rparr>;
     Some (case r of
        Inl e \<Rightarrow> (Inl e, L)
      | Inr _ \<Rightarrow> (Inr (), L\<lparr>el_last_refresh := now, el_cache := []\<rparr>)) }"

definition get_attribution_backend :: "enhanced_lookup \<Rightarrow> attribution_backend" where
  "get_attribution_backend L = (case el_tracker L of Some t \<Rightarrow> et_backend t | None \<Rightarrow> Procfs)"

definition get_attribution_capabilities :: "enhanced_lookup \<Rightarrow> capabilities" where
  "get_attribution_capabilities L = (case el_tracker L of Some t \<Rightarrow> st_caps (et_tracker t) | None \<Rightarrow> 0)"

definition get_detection_method :: "enhanced_lookup \<Rightarrow> string" where
  "get_detection_method L = (case get_attribution_backend L of
     EbpfFentry \<Rightarrow> ''eBPF fentry/fexit + procfs''
   | EbpfKprobe \<Rightarrow> ''eBPF kprobe + procfs''
   | _ \<Rightarrow> ''procfs'')"

definition get_degradation_reason :: "enhanced_lookup \<Rightarrow> degradation_reason" where
  "get_degradation_reason L = el_degradation L"

section \<open>The choice of the application\<close>

datatype process_lookup =
    Enhanced enhanced_lookup
  | Basic linux_lookup

text \<open>
  \<open>created\<close> as for \<open>new_with_config\<close>; the procfs is read again when the first attempt has failed.
\<close>

definition create_process_lookup ::
  "bool \<Rightarrow> procfs \<Rightarrow> procfs \<Rightarrow> instant \<Rightarrow> instant \<Rightarrow> instant \<Rightarrow>
     utf8_string + ebpf_tracker option \<times> degradation_reason \<Rightarrow> (io_error + process_lookup) option" where
  "create_process_lookup with_ebpf P Q scan_time now now' created = do {
     r \<leftarrow> (if with_ebpf
           then map_option (\<lambda>r. case r of Inl _ \<Rightarrow> None | Inr L \<Rightarrow> Some L)
                  (new_with_config P scan_time now now' created default_cleanup_config)
           else Some None);
     (case r of
        Some L \<Rightarrow> Some (Inr (Enhanced L))
      | None \<Rightarrow> do {
          b \<leftarrow> new_linux_lookup Q scan_time;
          Some (case b of Inl e \<Rightarrow> Inl e | Inr L \<Rightarrow> Inr (Basic L)) }) }"

end
