(* ===== verification/Process_Enrichment.thy ===== *)
theory Process_Enrichment
  imports Enhanced_Lookup Conn_Tracker
begin

text \<open>
  The thread of \<^verbatim>\<open>app.rs\<close> that attributes connections to processes: every quarter of a second it
  goes through the table of live connections, asks the lookup about those whose attribution is
  not complete, and fills in what is missing. Older connections are asked about on the full
  passes only, and the lookup is refreshed every five seconds.

  The table hands out one entry at a time, so a visit to an entry is one step, between packets
  of other threads; an iteration visits keys in some order, in which a key may be gone when its
  turn comes. Executables are interned for sharing, which does not change their value. The
  Kubernetes tables are a feature that is not built by default.
\<close>

section \<open>One connection\<close>

definition UNKNOWN_PROCESS_NAME :: unicode where
  "UNKNOWN_PROCESS_NAME = str ''Unknown''"

definition process_enrichment_complete :: "connection \<Rightarrow> unicode \<Rightarrow> bool" where
  "process_enrichment_complete c unknown \<longleftrightarrow> co_pid c \<noteq> None \<and>
     (case co_process_name c of Some n \<Rightarrow> n \<noteq> unknown | None \<Rightarrow> False) \<and>
     co_attribution_quality c \<noteq> None"

text \<open>The attribution fills in what the connection lacks; the flag says whether it did.\<close>

definition enrich_connection :: "process_attribution \<Rightarrow> connection \<Rightarrow> connection \<times> bool" where
  "enrich_connection a c =
     (let upgrades_placeholder = (pa_name a \<noteq> UNKNOWN_PROCESS_NAME \<and>
            co_process_name c = Some UNKNOWN_PROCESS_NAME);
          (c, did) = (if co_process_name c = None \<or> upgrades_placeholder
                      then (c\<lparr>co_process_name := Some (pa_name a)\<rparr>, True) else (c, False));
          (c, did) = (if co_pid c = None then (c\<lparr>co_pid := Some (pa_tgid a)\<rparr>, True) else (c, did));
          (c, did) = (if co_process_ppid c = None \<and> pa_ppid a \<noteq> None
                      then (c\<lparr>co_process_ppid := pa_ppid a\<rparr>, True) else (c, did));
          (c, did) = (if co_executable c = None \<and> pa_executable a \<noteq> None
                      then (c\<lparr>co_executable := pa_executable a\<rparr>, True) else (c, did));
          (c, did) = (if co_process_uid c = None \<and> pa_uid a \<noteq> None
                      then (c\<lparr>co_process_uid := pa_uid a\<rparr>, True) else (c, did));
          (c, did) = (if co_process_gid c = None \<and> pa_gid a \<noteq> None
                      then (c\<lparr>co_process_gid := pa_gid a\<rparr>, True) else (c, did));
          (c, did) = (if co_attribution_quality c = None
                      then (c\<lparr>co_attribution_quality := Some (pa_quality a)\<rparr>, True) else (c, did))
      in (c, did))"

definition YOUNG_CONNECTION_SECS :: nat where "YOUNG_CONNECTION_SECS = 10"

definition is_young :: "system_time \<Rightarrow> connection \<Rightarrow> bool" where
  "is_young now c = (case duration_since now (co_created_at c) of
     Some age \<Rightarrow> age div 1000000000 < YOUNG_CONNECTION_SECS
   | None \<Rightarrow> True)"

definition wants_enrichment :: "bool \<Rightarrow> system_time \<Rightarrow> connection \<Rightarrow> bool" where
  "wants_enrichment full_pass now c \<longleftrightarrow>
     \<not> process_enrichment_complete c UNKNOWN_PROCESS_NAME \<and> (full_pass \<or> is_young now c)"

section \<open>The application\<close>

text \<open>What the threads share, the socket map included.\<close>

record app_state =
  ap_tracker :: conn_tracker
  ap_lookup :: enhanced_lookup
  ap_map :: socket_map

text \<open>
  A visit to an entry: the answer it got, if it asked and got one, and the entry updated.
\<close>

definition enrich_entry ::
  "bool \<Rightarrow> lookup_env \<Rightarrow> system_time \<Rightarrow> connection_key \<Rightarrow> app_state \<Rightarrow>
     (connection \<times> process_attribution) option \<times> app_state" where
  "enrich_entry full_pass V now key s = (case map_of (tr_connections (ap_tracker s)) key of
     None \<Rightarrow> (None, s)
   | Some c \<Rightarrow>
       if \<not> wants_enrichment full_pass now c then (None, s)
       else (case get_process_attribution V c (ap_lookup s) (ap_map s) of
         (None, L, m) \<Rightarrow> (None, s\<lparr>ap_lookup := L, ap_map := m\<rparr>)
       | (Some a, L, m) \<Rightarrow>
           (Some (c, a),
            s\<lparr>ap_tracker := (ap_tracker s)\<lparr>tr_connections :=
                AList.update key (fst (enrich_connection a c)) (tr_connections (ap_tracker s))\<rparr>,
              ap_lookup := L, ap_map := m\<rparr>)))"

text \<open>The refresh of the lookup; an error is logged. It ends the thread if it panics.\<close>

definition refresh_lookup :: "procfs \<Rightarrow> instant \<Rightarrow> instant \<Rightarrow> app_state \<Rightarrow> app_state option" where
  "refresh_lookup P scan_time now s = do {
     (_, L) \<leftarrow> refresh_enhanced P scan_time now (ap_lookup s);
     Some (s\<lparr>ap_lookup := L\<rparr>) }"

section \<open>The loop\<close>

record enrichment_thread =
  th_last_refresh :: instant
  th_last_full_pass :: instant

definition FULL_PASS_INTERVAL :: duration where "FULL_PASS_INTERVAL = from_secs 2"
definition REFRESH_INTERVAL :: duration where "REFRESH_INTERVAL = from_secs 5"

definition new_enrichment_thread :: "instant \<Rightarrow> instant \<Rightarrow> enrichment_thread" where
  "new_enrichment_thread now now' =
     \<lparr>th_last_refresh = now', th_last_full_pass = now - int FULL_PASS_INTERVAL\<rparr>"

text \<open>The steps the threads of the application take, and those of the kernel's programs.\<close>

datatype app_op =
    Track tracker_op
  | Programs "socket_map \<Rightarrow> socket_map"
  | Refresh procfs instant instant
  | Visit bool lookup_env system_time connection_key

text \<open>
  What one turn of the loop reads: the clock wherever it is read, \<^verbatim>\<open>/proc\<close> for the refresh, and for
  every key the iteration comes to, the environment of its lookup and the time of day.
\<close>

record tick_env =
  tk_refresh_check :: instant
  tk_refresh_procfs :: procfs
  tk_scanned :: instant
  tk_cached :: instant
  tk_refreshed :: instant
  tk_pass_check :: instant
  tk_pass :: instant
  tk_visits :: "(connection_key \<times> lookup_env \<times> system_time) list"

definition enrichment_tick :: "tick_env \<Rightarrow> enrichment_thread \<Rightarrow> app_op list \<times> enrichment_thread" where
  "enrichment_tick K th =
     (let (refresh, th) =
            (if elapsed (th_last_refresh th) (tk_refresh_check K) > REFRESH_INTERVAL
             then ([Refresh (tk_refresh_procfs K) (tk_scanned K) (tk_cached K)],
                   th\<lparr>th_last_refresh := tk_refreshed K\<rparr>)
             else ([], th));
          full_pass = (elapsed (th_last_full_pass th) (tk_pass_check K) \<ge> FULL_PASS_INTERVAL);
          th = (if full_pass then th\<lparr>th_last_full_pass := tk_pass K\<rparr> else th)
      in (refresh @ map (\<lambda>(key, V, now). Visit full_pass V now key) (tk_visits K), th))"

fun app_step :: "app_op \<Rightarrow> app_state \<Rightarrow> app_state option" where
  "app_step (Track op) s = Some (s\<lparr>ap_tracker := tracker_step op (ap_tracker s)\<rparr>)"
| "app_step (Programs f) s = Some (s\<lparr>ap_map := f (ap_map s)\<rparr>)"
| "app_step (Refresh P scan_time now) s = refresh_lookup P scan_time now s"
| "app_step (Visit full_pass V now key) s = Some (snd (enrich_entry full_pass V now key s))"

text \<open>The answers a step gets from the lookup.\<close>

fun step_answers :: "app_op \<Rightarrow> app_state \<Rightarrow> (connection \<times> process_attribution) list" where
  "step_answers (Visit full_pass V now key) s = (case fst (enrich_entry full_pass V now key s) of
     Some x \<Rightarrow> [x] | None \<Rightarrow> [])"
| "step_answers _ s = []"

fun app_run :: "app_op list \<Rightarrow> app_state \<Rightarrow> app_state option" where
  "app_run [] s = Some s"
| "app_run (op # ops) s = do { s \<leftarrow> app_step op s; app_run ops s }"

fun app_answers :: "app_op list \<Rightarrow> app_state \<Rightarrow> (connection \<times> process_attribution) list" where
  "app_answers [] s = []"
| "app_answers (op # ops) s = step_answers op s @
     (case app_step op s of Some s' \<Rightarrow> app_answers ops s' | None \<Rightarrow> [])"

end
