(* ===== verification/Enhanced_Laws.thy ===== *)
theory Enhanced_Laws
  imports Enhanced_Lookup Procfs_Laws
begin

text \<open>
  What a lookup answers. An answer is the cached one, or else what the socket map says, or else
  what the procfs tables say; the statistics account for every lookup; and every answer has a
  source, a hit of a program in the kernel or a line of a scanned table.
\<close>

section \<open>Answers\<close>

text \<open>The socket map when it is asked: perhaps swept, and with what the programs did meanwhile.\<close>

definition map_seen :: "lookup_env \<Rightarrow> enhanced_lookup \<Rightarrow> socket_map \<Rightarrow> socket_map" where
  "map_seen V L m = en_programs V (snd (maybe_cleanup_ebpf_map V L m))"

definition fresh_answer ::
  "procfs \<Rightarrow> socket_map \<Rightarrow> connection \<Rightarrow> enhanced_lookup \<Rightarrow> process_attribution option" where
  "fresh_answer P m c L = (case fst (ask_socket_map P m c L) of
     Some a \<Rightarrow> Some a
   | None \<Rightarrow> linux_attribution P (el_procfs L) c)"

definition answer :: "lookup_env \<Rightarrow> connection \<Rightarrow> enhanced_lookup \<Rightarrow> socket_map \<Rightarrow> process_attribution option" where
  "answer V c L m = (case cached L (en_cache_now V) (from_connection c) of
     Some a \<Rightarrow> Some a
   | None \<Rightarrow> fresh_answer (en_procfs V) (map_seen V L m) c L)"

text \<open>The parts of the lookup the answers depend on; an answer changes nothing else of them but the cache.\<close>

definition same_sources :: "enhanced_lookup \<Rightarrow> enhanced_lookup \<Rightarrow> bool" where
  "same_sources L K \<longleftrightarrow> el_tracker K = el_tracker L \<and> ll_lookup (el_procfs K) = ll_lookup (el_procfs L) \<and>
     el_last_refresh K = el_last_refresh L \<and> el_cleanup K = el_cleanup L \<and>
     el_degradation K = el_degradation L"

lemma same_sources_refl [simp]: "same_sources L L"
  by (simp add: same_sources_def)

lemma name_by_pid_tables [simp]: "ll_lookup (snd (get_process_name_by_pid P pid L)) = ll_lookup L"
  by (simp add: get_process_name_by_pid_def Let_def split: option.split)

lemma from_ebpf_frame:
  "same_sources L (snd (attribution_from_ebpf P r b L))"
  "el_cache (snd (attribution_from_ebpf P r b L)) = el_cache L"
  "el_stats (snd (attribution_from_ebpf P r b L)) = el_stats L"
  "el_last_cleanup (snd (attribution_from_ebpf P r b L)) = el_last_cleanup L"
  by (simp_all add: attribution_from_ebpf_def Let_def case_prod_beta same_sources_def)

lemma ask_frame:
  "same_sources L (snd (ask_socket_map P m c L))"
  "el_cache (snd (ask_socket_map P m c L)) = el_cache L"
  "el_stats (snd (ask_socket_map P m c L)) = el_stats L"
  "el_last_cleanup (snd (ask_socket_map P m c L)) = el_last_cleanup L"
  by (auto simp: ask_socket_map_def try_ebpf_lookup_def try_ebpf_icmp_lookup_def case_prod_beta
      from_ebpf_frame split: protocol.split option.split protocol_state.split)

lemma linux_attribution_tables: "ll_lookup K = ll_lookup L \<Longrightarrow> linux_attribution P K c = linux_attribution P L c"
  by (simp add: linux_attribution_def lookup_match_def Let_def cong: option.case_cong)

text \<open>What an answer does to the counters.\<close>

definition count_answer ::
  "process_attribution option \<Rightarrow> process_attribution option \<Rightarrow> lookup_stats \<Rightarrow> lookup_stats" where
  "count_answer asked result s = (case asked of
     Some _ \<Rightarrow> s\<lparr>ls_ebpf_hits := ls_ebpf_hits s + 1\<rparr>
   | None \<Rightarrow> if result = None then s else s\<lparr>ls_procfs_hits := ls_procfs_hits s + 1\<rparr>)"

lemma lookup_process_enhanced_eq:
  "fst (lookup_process_enhanced P m c L) = fresh_answer P m c L"
  "same_sources L (snd (lookup_process_enhanced P m c L))"
  "el_cache (snd (lookup_process_enhanced P m c L)) = el_cache L"
  "el_stats (snd (lookup_process_enhanced P m c L)) =
     count_answer (fst (ask_socket_map P m c L)) (fresh_answer P m c L) (el_stats L)"
proof -
  obtain r K where ask: "ask_socket_map P m c L = (r, K)" by (cases "ask_socket_map P m c L")
  then have K: "same_sources L K" "el_cache K = el_cache L" "el_stats K = el_stats L"
    using ask_frame [where L = L and P = P and m = m and c = c] by simp_all
  from K(1) have tables: "linux_attribution P (el_procfs K) c = linux_attribution P (el_procfs L) c"
    by (intro linux_attribution_tables) (simp add: same_sources_def)
  note defs = lookup_process_enhanced_def fresh_answer_def count_answer_def count_ebpf_hit_def
    count_procfs_hit_def ask tables
  show "fst (lookup_process_enhanced P m c L) = fresh_answer P m c L"
    and "el_cache (snd (lookup_process_enhanced P m c L)) = el_cache L"
    and "el_stats (snd (lookup_process_enhanced P m c L)) =
      count_answer (fst (ask_socket_map P m c L)) (fresh_answer P m c L) (el_stats L)"
    by (simp_all add: defs K split: option.split)
  show "same_sources L (snd (lookup_process_enhanced P m c L))"
    using K(1) by (auto simp: defs same_sources_def split: option.split)
qed

lemma maybe_cleanup_frame:
  "same_sources L (fst (maybe_cleanup_ebpf_map V L m))"
  "el_cache (fst (maybe_cleanup_ebpf_map V L m)) = el_cache L"
  "el_stats (fst (maybe_cleanup_ebpf_map V L m)) = el_stats L"
  "el_procfs (fst (maybe_cleanup_ebpf_map V L m)) = el_procfs L"
  by (auto simp: maybe_cleanup_ebpf_map_def Let_def same_sources_def split: option.split)

lemma same_sources_cached: "same_sources L K \<Longrightarrow> el_cache K = el_cache L \<Longrightarrow> cached K = cached L"
  by (simp add: same_sources_def cached_def fun_eq_iff)

lemma ask_tables:
  "el_tracker K = el_tracker L \<Longrightarrow> el_procfs K = el_procfs L \<Longrightarrow>
     fst (ask_socket_map P m c K) = fst (ask_socket_map P m c L)"
  by (auto simp: ask_socket_map_def try_ebpf_lookup_def try_ebpf_icmp_lookup_def case_prod_beta
      attribution_from_ebpf_def Let_def split: protocol.split option.split protocol_state.split)

text \<open>A lookup in full: the answer, the sources, the cache, the counters and the map.\<close>

lemma get_process_attribution_eq:
  fixes V c L m
  defines "r \<equiv> get_process_attribution V c L m" and "key \<equiv> from_connection c"
    and "old \<equiv> cached L (en_cache_now V) (from_connection c)"
  shows "fst r = answer V c L m"
    and "same_sources L (fst (snd r))"
    and "snd (snd r) = map_seen V L m"
    and "el_cache (fst (snd r)) = (case old of Some _ \<Rightarrow> el_cache L
       | None \<Rightarrow> (case answer V c L m of Some a \<Rightarrow> AList.update key a (el_cache L) | None \<Rightarrow> el_cache L))"
    and "\<exists>n. el_stats (fst (snd r)) = (let s = count_lookup c (is_ebpf_available L) (el_stats L) in case old of
         Some _ \<Rightarrow> s\<lparr>ls_cache_hits := ls_cache_hits s + 1\<rparr>
       | None \<Rightarrow>
           (let s = count_answer (fst (ask_socket_map (en_procfs V) (map_seen V L m) c L)) (answer V c L m) s
            in if answer V c L m = None then s\<lparr>ls_failed_lookups := ls_failed_lookups s + 1\<rparr>
               else s\<lparr>ls_cache_entries := n\<rparr>))"
proof -
  obtain K m1 where K: "maybe_cleanup_ebpf_map V L m = (K, m1)" by (cases "maybe_cleanup_ebpf_map V L m")
  with maybe_cleanup_frame [where L = L and V = V and m = m] have frame: "same_sources L K" "el_cache K = el_cache L"
      "el_stats K = el_stats L" "el_procfs K = el_procfs L" by simp_all
  have avail: "is_ebpf_available K = is_ebpf_available L"
    using frame(1) by (simp add: is_ebpf_available_def same_sources_def)
  let ?s = "count_lookup c (is_ebpf_available L) (el_stats L)"
  let ?J = "K\<lparr>el_stats := ?s\<rparr>"
  have seen: "map_seen V L m = en_programs V m1" by (simp add: map_seen_def K)
  have J: "same_sources L ?J" using frame(1) by (simp add: same_sources_def)
  have old: "cached ?J (en_cache_now V) key = old"
    using same_sources_cached [OF J] frame(2) by (simp add: old_def key_def)
  let ?P = "en_procfs V" and ?m = "en_programs V m1"
  have ask: "fst (ask_socket_map ?P ?m c ?J) = fst (ask_socket_map ?P ?m c L)"
    using frame by (intro ask_tables) (simp_all add: same_sources_def)
  then have fresh: "fresh_answer ?P ?m c ?J = fresh_answer ?P ?m c L"
    using frame by (simp add: fresh_answer_def cong: option.case_cong)
  obtain a F where F: "lookup_process_enhanced ?P ?m c ?J = (a, F)" by (cases "lookup_process_enhanced ?P ?m c ?J")
  with lookup_process_enhanced_eq [where P = ?P and m = ?m and c = c and L = ?J] fresh ask frame have F':
      "a = fresh_answer ?P ?m c L" "same_sources ?J F" "el_cache F = el_cache L"
      "el_stats F = count_answer (fst (ask_socket_map ?P ?m c L)) (fresh_answer ?P ?m c L) ?s"
    by simp_all
  from F'(2) J have src: "same_sources L F" by (simp add: same_sources_def)
  have r: "r = (case old of
      Some a \<Rightarrow> (Some a, ?J\<lparr>el_stats := ?s\<lparr>ls_cache_hits := ls_cache_hits ?s + 1\<rparr>\<rparr>, ?m)
    | None \<Rightarrow> (case a of
        Some result \<Rightarrow> (let L = F\<lparr>el_cache := AList.update key result (el_cache F)\<rparr> in (Some result,
          L\<lparr>el_stats := (el_stats L)\<lparr>ls_cache_entries := of_nat (length (el_cache L))\<rparr>\<rparr>, ?m))
      | None \<Rightarrow> (None, F\<lparr>el_stats := (el_stats F)\<lparr>ls_failed_lookups := ls_failed_lookups (el_stats F) + 1\<rparr>\<rparr>, ?m)))"
    unfolding r_def get_process_attribution_def K Let_def prod.case avail frame(3) key_def [symmetric]
    using old F by (simp add: key_def split: option.split)
  have ans: "answer V c L m = (case old of Some a \<Rightarrow> Some a | None \<Rightarrow> a)"
    using F'(1) by (simp only: answer_def old_def seen)
  show "fst r = answer V c L m" "snd (snd r) = map_seen V L m"
    unfolding r ans seen by (simp_all add: Let_def split: option.split)
  show "same_sources L (fst (snd r))"
    unfolding r using J src by (simp add: Let_def same_sources_def split: option.split)
  show "el_cache (fst (snd r)) = (case old of Some _ \<Rightarrow> el_cache L
       | None \<Rightarrow> (case answer V c L m of Some a \<Rightarrow> AList.update key a (el_cache L) | None \<Rightarrow> el_cache L))"
    unfolding r ans using frame(2) F'(3) by (simp add: Let_def split: option.split)
  show "\<exists>n. el_stats (fst (snd r)) = (let s = count_lookup c (is_ebpf_available L) (el_stats L) in case old of
         Some _ \<Rightarrow> s\<lparr>ls_cache_hits := ls_cache_hits s + 1\<rparr>
       | None \<Rightarrow>
           (let s = count_answer (fst (ask_socket_map (en_procfs V) (map_seen V L m) c L)) (answer V c L m) s
            in if answer V c L m = None then s\<lparr>ls_failed_lookups := ls_failed_lookups s + 1\<rparr>
               else s\<lparr>ls_cache_entries := n\<rparr>))"
    unfolding r ans seen using F'(1,4) by (auto simp: Let_def split: option.split)
qed

end
