(* ===== verification/Answer_Sources.thy ===== *)
theory Answer_Sources
  imports Enhanced_Laws
begin

text \<open>
  Where the answers of the lookup come from. An answer about a pair of endpoints is sourced when a
  hit of a program stored the process under that very flow, or a scan of \<^verbatim>\<open>/proc\<close> saw the process
  hold a socket of these endpoints, in the shape the quality of the match admits to. The context of
  the locale \<open>tracker_backend\<close> carries the argument for both program files.
\<close>

section \<open>Sources\<close>

text \<open>The key in the socket map an answer of some quality was found under.\<close>

definition asked_key :: "endian \<Rightarrow> connection_key \<Rightarrow> match_quality \<Rightarrow> conn_key \<Rightarrow> bool" where
  "asked_key e key q k \<longleftrightarrow>
     (if cn_protocol key = Icmp
      then (\<exists>i. ping_key e (matched_source q (ip_of (cn_local key))) (ip_of (cn_remote key)) i = Some k)
      else cn_protocol key \<in> {Tcp, Udp} \<and>
        flow_key e (matched_source q (ip_of (cn_local key))) (ip_of (cn_remote key))
          (port_of (cn_local key)) (port_of (cn_remote key)) (cn_protocol key = Tcp) = Some k)"

definition names_process :: "process_attribution \<Rightarrow> ProcessInfo \<Rightarrow> bool" where
  "names_process a p \<longleftrightarrow> pa_tgid a = pi_pid p \<and> pa_tid a = Some (pi_tid p) \<and> pa_uid a = Some (pi_uid p) \<and>
     pa_gid a = Some (pi_gid p) \<and> pa_observed_at_ns a = Some (pi_timestamp p)"

definition from_hit ::
  "(bpf_env \<Rightarrow> 'h \<Rightarrow> socket_map \<Rightarrow> int \<times> socket_map) \<Rightarrow> (bpf_env \<times> 'h) list \<Rightarrow> endian \<Rightarrow>
     connection_key \<Rightarrow> process_attribution \<Rightarrow> bool" where
  "from_hit step hs e key a \<longleftrightarrow> (\<exists>k p. recorded_by step hs k p \<and> asked_key e key (pa_quality a) k \<and> names_process a p)"

definition from_scan :: "procfs set \<Rightarrow> connection_key \<Rightarrow> process_attribution \<Rightarrow> bool" where
  "from_scan Ps key a \<longleftrightarrow> (\<exists>P \<in> Ps. \<exists>key' own. scanned P key' own \<and> pa_tgid a = fst own \<and> pa_backend a = Procfs \<and>
     (pa_quality a = ProcfsExact \<and> key' = key \<or>
      pa_quality a = ProcfsRelaxed \<and> key' \<in> fst ` set (candidates key)))"

definition sourced ::
  "(bpf_env \<Rightarrow> 'h \<Rightarrow> socket_map \<Rightarrow> int \<times> socket_map) \<Rightarrow> (bpf_env \<times> 'h) list \<Rightarrow> endian \<Rightarrow> procfs set \<Rightarrow>
     connection_key \<Rightarrow> process_attribution \<Rightarrow> bool" where
  "sourced step hs e Ps key a \<longleftrightarrow> from_hit step hs e key a \<or> from_scan Ps key a"

section \<open>Scanned tables\<close>

definition tables_scanned :: "procfs set \<Rightarrow> linux_lookup \<Rightarrow> bool" where
  "tables_scanned Ps L \<longleftrightarrow> (\<forall>key own. ll_lookup L key = Some own \<longrightarrow> (\<exists>P \<in> Ps. scanned P key own))"

lemma new_linux_lookupE:
  assumes "new_linux_lookup P now = Some (Inr L)"
  obtains m names where "build_process_map P = Some (Inr (m, names))" "ll_lookup L = m"
  using assms by (cases "build_process_map P"; cases "the (build_process_map P)")
    (auto simp: new_linux_lookup_def)

lemma refresh_linux_lookupE:
  assumes "refresh_linux_lookup P now L = Some (r, L')"
  obtains (kept) "L' = L"
    | (scanned) m names where "build_process_map P = Some (Inr (m, names))" "ll_lookup L' = m" "r = Inr ()"
  using assms by (cases "build_process_map P"; cases "the (build_process_map P)")
    (auto simp: refresh_linux_lookup_def)

lemma tables_scanned_new:
  assumes "new_linux_lookup P now = Some (Inr L)" "P \<in> Ps"
  shows "tables_scanned Ps L"
  using assms(1)
proof (rule new_linux_lookupE)
  fix m names
  assume "build_process_map P = Some (Inr (m, names))" "ll_lookup L = m"
  with assms(2) build_process_map_spec(1) show ?thesis unfolding tables_scanned_def by blast
qed

lemma tables_scanned_refresh:
  assumes "refresh_linux_lookup P now L = Some (r, L')" "P \<in> Ps" "tables_scanned Ps L"
  shows "tables_scanned Ps L'"
  using assms(1)
proof (cases rule: refresh_linux_lookupE)
  case (scanned m names)
  with assms(2) build_process_map_spec(1) show ?thesis unfolding tables_scanned_def by blast
qed (use assms in simp)

lemma build_attribution_fields [simp]:
  "pa_tgid (build_attribution P pid name q) = pid"
  "pa_backend (build_attribution P pid name q) = Procfs"
  "pa_quality (build_attribution P pid name q) = q"
  "pa_name (build_attribution P pid name q) = refine_truncated_name name (resolve_executable P pid)"
  by (simp_all add: build_attribution_def Let_def new_attribution_def with_executable_def
      with_parent_pid_def with_credentials_def split: option.split)

lemma linux_attribution_sourced:
  assumes "tables_scanned Ps L" "linux_attribution P L c = Some a"
  shows "from_scan Ps (from_connection c) a"
proof -
  let ?key = "from_connection c"
  from assms(2) obtain pid name q where m: "lookup_match L c = Some (pid, name, q)"
    and a: "a = build_attribution P pid name q"
    by (auto simp: linux_attribution_def)
  consider "ll_lookup L ?key = Some (pid, name)" "q = ProcfsExact"
    | (relaxed) shape where "relaxed_lookup (ll_lookup L) ?key = Some ((pid, name), shape)" "q = ProcfsRelaxed"
    using m by (auto simp: lookup_match_def Let_def split: option.splits)
  then show ?thesis
  proof cases
    case 1
    with assms(1) show ?thesis by (force simp: from_scan_def a tables_scanned_def)
  next
    case relaxed
    from relaxed_lookup_sound(1) [OF relaxed(1)] obtain key' where
      "(key', shape) \<in> set (candidates ?key)" "ll_lookup L key' = Some (pid, name)" by blast
    with assms(1) relaxed(2) show ?thesis by (force simp: from_scan_def a tables_scanned_def)
  qed
qed

section \<open>The socket map\<close>

lemma from_ebpf_names:
  "names_process (fst (attribution_from_ebpf P r b L)) (sm_info r)"
  "pa_quality (fst (attribution_from_ebpf P r b L)) = sm_quality r"
  "pa_backend (fst (attribution_from_ebpf P r b L)) = b"
  by (simp_all add: attribution_from_ebpf_def names_process_def Let_def case_prod_beta new_attribution_def
      with_executable_def with_parent_pid_def with_credentials_def with_tid_def with_observed_at_ns_def
      split: option.split)

definition tracker_fits :: "endian \<Rightarrow> enhanced_lookup \<Rightarrow> bool" where
  "tracker_fits e L \<longleftrightarrow> (\<forall>t. el_tracker L = Some t \<longrightarrow> st_host (et_tracker t) = e \<and> map_handle (st_api (et_tracker t)))"

lemma ask_socket_map_sourced:
  assumes "tracker_fits e L" "envs_ok e hs" "\<And>kb v. m kb = Some v \<Longrightarrow> stored_in step hs kb v"
    and "fst (ask_socket_map P m c L) = Some a"
  shows "from_hit step hs e (from_connection c) a"
proof -
  let ?l = "ip_of (co_local_addr c)" and ?r = "ip_of (co_remote_addr c)"
  from assms(4) obtain t where t: "el_tracker L = Some t"
    by (cases "el_tracker L") (auto simp: ask_socket_map_def try_ebpf_lookup_def try_ebpf_icmp_lookup_def
        split: protocol.splits protocol_state.splits option.splits)
  with assms(1) have T: "st_host (et_tracker t) = e" "map_handle (st_api (et_tracker t))"
    by (simp_all add: tracker_fits_def)
  consider (flow) r where "co_protocol c \<in> {Tcp, Udp}"
      "lookup (et_tracker t) m ?l ?r (port_of (co_local_addr c)) (port_of (co_remote_addr c)) (co_protocol c = Tcp) = Some r"
      "a = fst (attribution_from_ebpf P r (et_backend t) L)"
    | (ping) i r where "co_protocol c = Icmp" "lookup_icmp (et_tracker t) m ?l ?r i = Some r"
      "a = fst (attribution_from_ebpf P r (et_backend t) L)"
    using assms(4) t
    by (auto simp: ask_socket_map_def try_ebpf_lookup_def try_ebpf_icmp_lookup_def case_prod_beta
        split: protocol.splits protocol_state.splits option.splits)
  then show ?thesis
  proof cases
    case flow
    from lookup_recorded [OF T(2) _ assms(3) flow(2)] assms(2) T(1) obtain k where
      "flow_key e (matched_source (sm_quality r) ?l) ?r (port_of (co_local_addr c)) (port_of (co_remote_addr c))
         (co_protocol c = Tcp) = Some k" "recorded_by step hs k (sm_info r)" by blast
    with flow(1) from_ebpf_names [of P r "et_backend t" L] show ?thesis
      unfolding from_hit_def flow(3) by (intro exI [of _ k] exI [of _ "sm_info r"])
        (auto simp: asked_key_def from_connection_def)
  next
    case ping
    from lookup_icmp_recorded [OF T(2) _ assms(3) ping(2)] assms(2) T(1) obtain k where
      "ping_key e (matched_source (sm_quality r) ?l) ?r i = Some k" "recorded_by step hs k (sm_info r)" by blast
    with ping(1) from_ebpf_names [of P r "et_backend t" L] show ?thesis
      unfolding from_hit_def ping(3) by (intro exI [of _ k] exI [of _ "sm_info r"])
        (auto simp: asked_key_def from_connection_def)
  qed
qed

text \<open>A sweep only removes.\<close>

lemma tracker_cleanup_only_removes:
  assumes "map_handle (st_api T)" "snd (tracker_cleanup T c between secs m) kb = Some v"
  shows "between m kb = Some v"
proof (cases "monotonic_time_ns c")
  case (Inl err)
  with assms(2) show ?thesis by (simp add: tracker_cleanup_def cleanup_stale_entries_def)
next
  case (Inr now)
  obtain n m' where s: "tracker_cleanup T c between secs m = (n, m')" by (cases "tracker_cleanup T c between secs m")
  with tracker_cleanup_removes_stale [OF assms(1) Inr s, of kb] assms(2) show ?thesis
    by (cases "m' kb = between m kb") auto
qed

text \<open>What the programs do to the map, as a run of some of the hits.\<close>

definition run_of ::
  "(bpf_env \<Rightarrow> 'h \<Rightarrow> socket_map \<Rightarrow> int \<times> socket_map) \<Rightarrow> (bpf_env \<times> 'h) list \<Rightarrow> (socket_map \<Rightarrow> socket_map) \<Rightarrow> bool" where
  "run_of step hs f \<longleftrightarrow> (\<exists>gs. set gs \<subseteq> set hs \<and> f = run_hits step gs)"

definition map_sourced ::
  "(bpf_env \<Rightarrow> 'h \<Rightarrow> socket_map \<Rightarrow> int \<times> socket_map) \<Rightarrow> (bpf_env \<times> 'h) list \<Rightarrow> socket_map \<Rightarrow> bool" where
  "map_sourced step hs m \<longleftrightarrow> (\<forall>kb v. m kb = Some v \<longrightarrow> stored_in step hs kb v)"

lemma map_sourced_empty [simp]: "map_sourced step hs Map.empty"
  by (simp add: map_sourced_def)

context tracker_backend
begin

lemma run_of_sourced:
  assumes "envs_ok e hs" "run_of step hs f" "map_sourced step hs m"
  shows "map_sourced step hs (f m)"
proof -
  from assms(2) obtain gs where gs: "set gs \<subseteq> set hs" "f = run_hits step gs" by (auto simp: run_of_def)
  with assms(1) have "envs_ok e gs" by (auto simp: envs_ok_def)
  from run_provenance [OF this] gs assms(3) show ?thesis
    by (fastforce simp: map_sourced_def stored_in_def)
qed

lemma map_seen_sourced:
  assumes "envs_ok e hs" "tracker_fits e L" "run_of step hs (en_between V)" "run_of step hs (en_programs V)"
    and "map_sourced step hs m"
  shows "map_sourced step hs (map_seen V L m)"
proof -
  have "map_sourced step hs (snd (maybe_cleanup_ebpf_map V L m))"
  proof (cases "el_tracker L")
    case (Some t)
    let ?swept = "snd (tracker_cleanup (et_tracker t) (en_clock V) (en_between V)
      (cc_stale_threshold_secs (el_cleanup L)) m)"
    have "map_sourced step hs ?swept"
      using tracker_cleanup_only_removes [of "et_tracker t"] run_of_sourced [OF assms(1,3,5)] assms(2) Some
      unfolding map_sourced_def tracker_fits_def by blast
    with assms(5) Some show ?thesis by (simp add: maybe_cleanup_ebpf_map_def Let_def)
  qed (use assms(5) in \<open>simp add: maybe_cleanup_ebpf_map_def\<close>)
  then show ?thesis unfolding map_seen_def by (rule run_of_sourced [OF assms(1,4)])
qed

end

section \<open>The lookup\<close>

text \<open>Every answer is sourced, and so the cache holds sourced answers only.\<close>

definition lookup_sourced ::
  "(bpf_env \<Rightarrow> 'h \<Rightarrow> socket_map \<Rightarrow> int \<times> socket_map) \<Rightarrow> (bpf_env \<times> 'h) list \<Rightarrow> endian \<Rightarrow> procfs set \<Rightarrow>
     enhanced_lookup \<Rightarrow> bool" where
  "lookup_sourced step hs e Ps L \<longleftrightarrow> tracker_fits e L \<and> tables_scanned Ps (el_procfs L) \<and>
     (\<forall>key a. (key, a) \<in> set (el_cache L) \<longrightarrow> sourced step hs e Ps key a)"

definition env_runs ::
  "(bpf_env \<Rightarrow> 'h \<Rightarrow> socket_map \<Rightarrow> int \<times> socket_map) \<Rightarrow> (bpf_env \<times> 'h) list \<Rightarrow> lookup_env \<Rightarrow> bool" where
  "env_runs step hs V \<longleftrightarrow> run_of step hs (en_between V) \<and> run_of step hs (en_programs V)"

lemma set_update_subset: "set (AList.update k v al) \<subseteq> insert (k, v) (set al)"
  by (induction al) auto

context tracker_backend
begin

lemma answer_sourced:
  assumes "envs_ok e hs" "lookup_sourced step hs e Ps L" "map_sourced step hs m" "env_runs step hs V"
    and "answer V c L m = Some a"
  shows "sourced step hs e Ps (from_connection c) a"
proof (cases "cached L (en_cache_now V) (from_connection c)")
  case (Some b)
  with assms(5) have "(from_connection c, a) \<in> set (el_cache L)"
    by (auto simp: answer_def cached_def dest: map_of_SomeD split: if_splits)
  with assms(2) show ?thesis by (simp add: lookup_sourced_def)
next
  case None
  let ?m = "map_seen V L m"
  have m: "map_sourced step hs ?m"
    using assms by (intro map_seen_sourced [OF assms(1)]) (simp_all add: lookup_sourced_def env_runs_def)
  from None assms(5) have "fresh_answer (en_procfs V) ?m c L = Some a" by (simp add: answer_def)
  then consider "fst (ask_socket_map (en_procfs V) ?m c L) = Some a"
    | "linux_attribution (en_procfs V) (el_procfs L) c = Some a"
    by (auto simp: fresh_answer_def split: option.splits)
  then show ?thesis
  proof cases
    case 1
    from ask_socket_map_sourced [OF _ assms(1) _ 1, where step = step] assms(2) m
    show ?thesis by (simp add: sourced_def lookup_sourced_def map_sourced_def)
  next
    case 2
    with linux_attribution_sourced [OF _ 2] assms(2) show ?thesis by (simp add: sourced_def lookup_sourced_def)
  qed
qed

lemma get_process_attribution_sourced:
  assumes "envs_ok e hs" "lookup_sourced step hs e Ps L" "map_sourced step hs m" "env_runs step hs V"
    and "get_process_attribution V c L m = (r, L', m')"
  shows "lookup_sourced step hs e Ps L'" "map_sourced step hs m'"
    and "r = Some a \<Longrightarrow> sourced step hs e Ps (from_connection c) a"
proof -
  note eq = get_process_attribution_eq [where V = V and c = c and L = L and m = m, unfolded assms(5) fst_conv snd_conv]
  show r: "r = Some a \<Longrightarrow> sourced step hs e Ps (from_connection c) a" for a
    using answer_sourced [OF assms(1-4)] eq(1) by simp
  show "map_sourced step hs m'"
    using assms(2,4) map_seen_sourced [OF assms(1) _ _ _ assms(3)]
    by (simp add: eq(3) lookup_sourced_def env_runs_def)
  have "set (el_cache L') \<subseteq> set (el_cache L) \<or>
      (\<exists>a. answer V c L m = Some a \<and> set (el_cache L') \<subseteq> insert (from_connection c, a) (set (el_cache L)))"
  proof (cases "cached L (en_cache_now V) (from_connection c)")
    case None
    then show ?thesis
      using set_update_subset [of "from_connection c" _ "el_cache L"] unfolding eq(4)
      by (cases "answer V c L m") simp_all
  qed (simp add: eq(4))
  moreover have "answer V c L m = Some a \<Longrightarrow> sourced step hs e Ps (from_connection c) a" for a
    by (rule answer_sourced [OF assms(1-4)])
  ultimately have "(key, a) \<in> set (el_cache L') \<Longrightarrow> sourced step hs e Ps key a" for key a
    using assms(2) by (auto simp: lookup_sourced_def)
  with assms(2) eq(2) show "lookup_sourced step hs e Ps L'"
    by (simp add: lookup_sourced_def same_sources_def tracker_fits_def tables_scanned_def)
qed

lemma refresh_sourced:
  assumes "lookup_sourced step hs e Ps L" "P \<in> Ps" "refresh_enhanced P scan_time now L = Some (r, L')"
  shows "lookup_sourced step hs e Ps L'"
proof -
  obtain q K where K: "refresh_linux_lookup P scan_time (el_procfs L) = Some (q, K)"
    using assms(3) by (auto simp: refresh_enhanced_def bind_eq_Some_conv)
  with assms(3) have L': "L' = (case q of Inl e \<Rightarrow> L\<lparr>el_procfs := K\<rparr>
      | Inr _ \<Rightarrow> L\<lparr>el_procfs := K, el_last_refresh := now, el_cache := []\<rparr>)"
    by (cases q) (auto simp: refresh_enhanced_def)
  from tables_scanned_refresh [OF K assms(2)] assms(1) show ?thesis
    by (auto simp: L' lookup_sourced_def tracker_fits_def split: sum.split)
qed

lemma new_sourced:
  assumes "new_with_config P scan_time now now' created config = Some (Inr L)" "P \<in> Ps"
    and "\<And>t reason. created = Inr (Some t, reason) \<Longrightarrow> st_host (et_tracker t) = e \<and> map_handle (st_api (et_tracker t))"
  shows "lookup_sourced step hs e Ps L"
proof -
  from assms(1) obtain K where K: "new_linux_lookup P scan_time = Some (Inr K)"
    by (cases "new_linux_lookup P scan_time"; cases "the (new_linux_lookup P scan_time)")
      (auto simp: new_with_config_def)
  with assms(1) have L: "el_procfs L = K" "el_cache L = []"
      "el_tracker L = (case created of Inl _ \<Rightarrow> None | Inr (t, _) \<Rightarrow> t)"
    by (cases created; auto simp: new_with_config_def)+
  from tables_scanned_new [OF K assms(2)] assms(3) show ?thesis
    by (auto simp: L lookup_sourced_def tracker_fits_def split: sum.splits)
qed

end

end
