(* ===== verification/Enrichment_Laws.thy ===== *)
theory Enrichment_Laws
  imports Process_Enrichment Answer_Sources Tracker_Invariant
begin

text \<open>
  What attribution makes of the table of connections. It touches seven fields of a connection and
  writes each once; packets, cleanup and the archive leave them alone, which is an instance of
  the locale \<open>lasting\<close>: a property of connections that every operation of the tracker keeps. So a
  connection is unattributed, or it carries one answer of the lookup and no mixture.
\<close>

section \<open>The fields of an attribution\<close>

definition identity ::
  "connection \<Rightarrow> u32 option \<times> u32 option \<times> unicode option \<times> path option \<times> u32 option \<times> u32 option \<times> match_quality option" where
  "identity c = (co_pid c, co_process_ppid c, co_process_name c, co_executable c, co_process_uid c,
     co_process_gid c, co_attribution_quality c)"

definition no_identity ::
  "u32 option \<times> u32 option \<times> unicode option \<times> path option \<times> u32 option \<times> u32 option \<times> match_quality option" where
  "no_identity = (None, None, None, None, None, None, None)"

definition identity_of ::
  "process_attribution \<Rightarrow> u32 option \<times> u32 option \<times> unicode option \<times> path option \<times> u32 option \<times> u32 option \<times> match_quality option" where
  "identity_of a = (Some (pa_tgid a), pa_ppid a, Some (pa_name a), pa_executable a, pa_uid a, pa_gid a,
     Some (pa_quality a))"

lemma set_once_fills [simp]: "set_once (Some x) y = Some x" "set_once None y = y" "set_once x None = x"
  by (simp_all add: set_once_def split: option.split)

lemma set_once_if: "set_once x y = (if x = None then y else x)"
  by (simp add: set_once_def split: option.split)

definition enriched_name :: "process_attribution \<Rightarrow> unicode option \<Rightarrow> unicode option" where
  "enriched_name a n = (if n = None \<or> pa_name a \<noteq> UNKNOWN_PROCESS_NAME \<and> n = Some UNKNOWN_PROCESS_NAME
     then Some (pa_name a) else n)"

lemma fill:
  "fst (if co_process_name c = None \<or> pa_name a \<noteq> UNKNOWN_PROCESS_NAME \<and> co_process_name c = Some UNKNOWN_PROCESS_NAME
        then (c\<lparr>co_process_name := Some (pa_name a)\<rparr>, True) else (c, d)) =
     c\<lparr>co_process_name := enriched_name a (co_process_name c)\<rparr>"
  "fst (if co_pid c = None then (c\<lparr>co_pid := Some x\<rparr>, True) else (c, d)) =
     c\<lparr>co_pid := set_once (co_pid c) (Some x)\<rparr>"
  "fst (if co_process_ppid c = None \<and> y \<noteq> None then (c\<lparr>co_process_ppid := y\<rparr>, True) else (c, d)) =
     c\<lparr>co_process_ppid := set_once (co_process_ppid c) y\<rparr>"
  "fst (if co_executable c = None \<and> z \<noteq> None then (c\<lparr>co_executable := z\<rparr>, True) else (c, d)) =
     c\<lparr>co_executable := set_once (co_executable c) z\<rparr>"
  "fst (if co_process_uid c = None \<and> y \<noteq> None then (c\<lparr>co_process_uid := y\<rparr>, True) else (c, d)) =
     c\<lparr>co_process_uid := set_once (co_process_uid c) y\<rparr>"
  "fst (if co_process_gid c = None \<and> y \<noteq> None then (c\<lparr>co_process_gid := y\<rparr>, True) else (c, d)) =
     c\<lparr>co_process_gid := set_once (co_process_gid c) y\<rparr>"
  "fst (if co_attribution_quality c = None then (c\<lparr>co_attribution_quality := Some q\<rparr>, True) else (c, d)) =
     c\<lparr>co_attribution_quality := set_once (co_attribution_quality c) (Some q)\<rparr>"
       apply (simp add: enriched_name_def)
      apply (simp add: set_once_if)
     apply (cases y; simp add: set_once_if)
    apply (cases z; simp add: set_once_if)
   apply (cases y; simp add: set_once_if)
  apply (cases y; simp add: set_once_if)
  apply (simp add: set_once_if)
  done

lemma fst_let: "fst (K b) = w \<Longrightarrow> fst (Let b K) = w"
  by simp

lemma fst_step: "fst p = z \<Longrightarrow> (\<And>d. fst (K z d) = w) \<Longrightarrow> fst (Let p (\<lambda>(c, d). K c d)) = w"
  by (cases p) simp

lemma enrich_eq:
  "fst (enrich_connection a c) = c\<lparr>
     co_process_name := enriched_name a (co_process_name c),
     co_pid := set_once (co_pid c) (Some (pa_tgid a)),
     co_process_ppid := set_once (co_process_ppid c) (pa_ppid a),
     co_executable := set_once (co_executable c) (pa_executable a),
     co_process_uid := set_once (co_process_uid c) (pa_uid a),
     co_process_gid := set_once (co_process_gid c) (pa_gid a),
     co_attribution_quality := set_once (co_attribution_quality c) (Some (pa_quality a))\<rparr>"
  unfolding enrich_connection_def
  by (rule fst_let, rule fst_step, rule fill, rule fst_step, rule fill, rule fst_step, rule fill, rule fst_step,
      rule fill, rule fst_step, rule fill, rule fst_step, rule fill, rule fst_step, rule fill) simp

lemma enrich_identity:
  "identity (fst (enrich_connection a c)) =
     (set_once (co_pid c) (Some (pa_tgid a)), set_once (co_process_ppid c) (pa_ppid a),
      enriched_name a (co_process_name c), set_once (co_executable c) (pa_executable a),
      set_once (co_process_uid c) (pa_uid a), set_once (co_process_gid c) (pa_gid a),
      set_once (co_attribution_quality c) (Some (pa_quality a)))"
  by (simp add: identity_def enrich_eq)

lemma enrich_blank: "identity c = no_identity \<Longrightarrow> identity (fst (enrich_connection a c)) = identity_of a"
  by (simp add: enrich_identity) (simp add: identity_def no_identity_def identity_of_def enriched_name_def)

lemma enrich_from_connection [simp]: "from_connection (fst (enrich_connection a c)) = from_connection c"
  by (simp add: enrich_eq from_connection_def)

lemma complete_identity:
  "identity c = identity_of a \<Longrightarrow> pa_name a \<noteq> UNKNOWN_PROCESS_NAME \<Longrightarrow>
     process_enrichment_complete c UNKNOWN_PROCESS_NAME"
  by (simp add: identity_def identity_of_def process_enrichment_complete_def)

section \<open>Properties that last\<close>

definition everywhere :: "(connection \<Rightarrow> bool) \<Rightarrow> conn_tracker \<Rightarrow> bool" where
  "everywhere Q t \<longleftrightarrow> (\<forall>x \<in> set (tr_connections t). Q (snd x)) \<and> (\<forall>x \<in> set (tr_historic t). Q (snd x))"

lemma everywhere_found: "everywhere Q t \<Longrightarrow> map_of (tr_connections t) k = Some c \<Longrightarrow> Q c"
  by (force simp: everywhere_def dest!: map_of_SomeD)

definition op_fits :: "(parsed_packet \<Rightarrow> bool) \<Rightarrow> tracker_op \<Rightarrow> bool" where
  "op_fits fits op = (case op of Ingest E p now \<Rightarrow> fits p | _ \<Rightarrow> True)"

locale lasting =
  fixes Q :: "connection \<Rightarrow> bool" and fits :: "parsed_packet \<Rightarrow> bool"
  assumes created: "fits p \<Longrightarrow> Q (create_connection_from_packet E p now)"
    and kept: "Q c \<Longrightarrow> fits p \<Longrightarrow> Q (merged E p now c)"
    and timed: "Q c \<Longrightarrow> Q (c\<lparr>co_initial_rtt := r\<rparr>)"
    and archived: "Q c \<Longrightarrow> Q ((snapshot_clone c)\<lparr>co_is_historic := True, co_closed_at := t\<rparr>)"
    and settled: "Q c \<Longrightarrow> Q ((snapshot_clone c)\<lparr>co_is_historic := True, co_closed_at := t,
      co_current_incoming_rate_bps := 0, co_current_outgoing_rate_bps := 0\<rparr>)"
begin

lemma upserted_lasts: "fits p \<Longrightarrow> (\<And>c. old = Some c \<Longrightarrow> Q c) \<Longrightarrow> Q (upserted E p now m old)"
  by (cases old) (simp_all add: upserted_def Let_def created kept timed)

lemma into_active_lasts:
  assumes "everywhere Q t" "fits p"
  shows "everywhere Q (snd (ingest_into_active E p now k m t))"
proof -
  have "Q (upserted E p now m (map_of (tr_connections t) k))"
    using assms everywhere_found by (intro upserted_lasts) blast+
  with assms(1) set_update_subset [of k "upserted E p now m (map_of (tr_connections t) k)" "tr_connections t"]
  show ?thesis by (auto simp: everywhere_def into_active_connections)
qed

lemma retire_lasts: "everywhere Q t \<Longrightarrow> Q c \<Longrightarrow> everywhere Q (retire_generation now k c t)"
  using set_update_subset [of "historic_key_of k c" _ "tr_historic t"] archived [of c "Some now"]
  by (fastforce simp: everywhere_def archive_snapshot_def Let_def)

lemma enforce_lasts: "everywhere Q t \<Longrightarrow> everywhere Q (enforce_historic_limit E t)"
  using aged.only_old by (fastforce simp: everywhere_def enforce_historic_limit_def)

lemma everywhere_cong:
  "tr_connections u = tr_connections t \<Longrightarrow> tr_historic u = tr_historic t \<Longrightarrow> everywhere Q u = everywhere Q t"
  by (simp add: everywhere_def)

lemma new_generation_lasts:
  assumes "everywhere Q t" "fits p"
  shows "everywhere Q (snd (ingest_new_generation E p now k m t))"
proof -
  let ?a = "if needs_split p k t then map_of (tr_connections t) k else None"
  let ?t = "case ?a of Some c \<Rightarrow> retire_generation now k c t | None \<Rightarrow> t"
  have "everywhere Q ?t"
    using assms(1) retire_lasts [OF assms(1), of _ now k] by (cases ?a) (auto simp: everywhere_found split: if_splits)
  then have "everywhere Q (associate_quic_id p k ?t)" by (simp add: everywhere_def)
  from enforce_lasts [OF into_active_lasts [OF this assms(2)]]
  show ?thesis
    by (simp add: ingest_new_generation_def Let_def case_prod_beta everywhere_def)
qed

lemma ingest_lasts: "everywhere Q t \<Longrightarrow> fits p \<Longrightarrow> everywhere Q (snd (ingest_at E p now t))"
  using new_generation_lasts [of "prepared E p now t" p] into_active_lasts [of "prepared E p now t" p]
  by (simp add: ingest_at_eq Let_def) (simp add: everywhere_def)

lemma archive_lasts:
  "everywhere Q u \<Longrightarrow> \<forall>x \<in> set xs. Q (snd x) \<Longrightarrow> everywhere Q (fold (archive_closed now) xs u)"
proof (induction xs arbitrary: u)
  case (Cons x xs)
  obtain k c where x: "x = (k, c)" by (cases x)
  have "everywhere Q (archive_closed now x u)"
    using Cons.prems settled [of c "Some now"] set_update_subset [of "historic_key_of k c" _ "tr_historic u"]
    by (fastforce simp: everywhere_def archive_closed_def Let_def x)
  with Cons show ?case by simp
qed simp

lemma cleanup_lasts:
  assumes "everywhere Q t"
  shows "everywhere Q (snd (cleanup E now t))"
proof -
  have gone: "\<forall>x \<in> set (expired now t). Q (snd x)" using assms by (auto simp: everywhere_def expired_def)
  define u where "u = fold (\<lambda>(key, c). record_recently_closed key c now) (expired now t)
    (t\<lparr>tr_connections := filter (\<lambda>(_, c). \<not> should_cleanup c now) (tr_connections t),
       tr_active_count := tr_active_count t - of_nat (length (expired now t))\<rparr>)"
  have "everywhere Q u" using assms by (auto simp: everywhere_def u_def)
  with gone have "everywhere Q (if keep_historic (tr_config u)
      then enforce_historic_limit E (fold (archive_closed now) (expired now t) u) else u)"
    by (simp add: enforce_lasts archive_lasts)
  then show ?thesis
    unfolding cleanup_eq cleaned_def Let_def u_def by (simp add: everywhere_def)
qed

lemma step_lasts: "everywhere Q t \<Longrightarrow> op_fits fits op \<Longrightarrow> everywhere Q (tracker_step op t)"
  by (cases op) (simp_all add: op_fits_def ingest_lasts cleanup_lasts, simp add: everywhere_def clear_tracker_def)

end

section \<open>Attributed connections\<close>

text \<open>
  Unattributed, or carrying one answer about its endpoints. An answer that names no process may
  be completed by a later one, but the process it gives is final.
\<close>

definition attributed :: "(connection_key \<Rightarrow> process_attribution \<Rightarrow> bool) \<Rightarrow> connection \<Rightarrow> bool" where
  "attributed Src c \<longleftrightarrow> identity c = no_identity \<or>
     (\<exists>a. Src (from_connection c) a \<and> (identity c = identity_of a \<or>
        pa_name a = UNKNOWN_PROCESS_NAME \<and> co_pid c = Some (pa_tgid a) \<and> co_process_name c \<noteq> None))"

text \<open>On Linux a packet carries no process.\<close>

definition no_process :: "parsed_packet \<Rightarrow> bool" where
  "no_process p \<longleftrightarrow> pk_process_id p = None \<and> pk_process_name p = None"

lemma create_identity: "no_process p \<Longrightarrow> identity (create_connection_from_packet E p now) = no_identity"
  by (simp add: identity_def no_identity_def no_process_def)
    (simp add: create_connection_from_packet_def new_connection_def no_process_def Let_def split: option.split)

lemma merged_identity: "no_process p \<Longrightarrow> identity (merged E p now c) = identity c"
  by (simp add: identity_def no_process_def set_once_def split: option.split)
    (auto simp: merge_fields merge_process_def merge_protocol_def count_packet_def no_process_def Let_def
      case_prod_beta split: option.split protocol_state.split)

lemma merged_from_connection: "from_connection (merged E p now c) = from_connection c"
  by (simp add: from_connection_def)

interpretation attributed: lasting "attributed Src" no_process for Src
proof
  fix p E now
  assume "no_process p"
  then show "attributed Src (create_connection_from_packet E p now)" by (simp add: attributed_def create_identity)
next
  fix c p E now
  assume c: "attributed Src c" "no_process p"
  then have "co_pid (merged E p now c) = co_pid c" "co_process_name (merged E p now c) = co_process_name c"
    by (simp_all add: no_process_def set_once_def split: option.split)
  with c show "attributed Src (merged E p now c)"
    by (simp add: attributed_def merged_identity merged_from_connection)
qed (simp_all add: attributed_def identity_def from_connection_def snapshot_clone_def)

text \<open>A visit attributes, and never mixes two answers.\<close>

lemma enrich_attributed:
  assumes "attributed Src c" "Src (from_connection c) a" "\<not> process_enrichment_complete c UNKNOWN_PROCESS_NAME"
  shows "attributed Src (fst (enrich_connection a c))"
proof (cases "identity c = no_identity")
  case True
  with assms(2) enrich_blank [OF True] show ?thesis by (auto simp: attributed_def)
next
  case False
  with assms(1) obtain b where b: "Src (from_connection c) b"
    and c: "identity c = identity_of b \<or>
      pa_name b = UNKNOWN_PROCESS_NAME \<and> co_pid c = Some (pa_tgid b) \<and> co_process_name c \<noteq> None"
    by (auto simp: attributed_def)
  from c complete_identity [of c b] assms(3) have "pa_name b = UNKNOWN_PROCESS_NAME" by blast
  moreover from c have "co_pid c = Some (pa_tgid b)" "co_process_name c \<noteq> None"
    by (auto simp: identity_def identity_of_def)
  ultimately show ?thesis using b
    by (auto simp: attributed_def enrich_eq from_connection_def enriched_name_def)
qed

end
