(* ===== verification/Application_Laws.thy ===== *)
theory Application_Laws
  imports Enrichment_Laws
begin

text \<open>
  Runs of the application: packets, the programs in the kernel, refreshes and visits in any
  order. They keep the tables of the tracker well formed and its packet counters as the packets left
  them, every attribution sourced, and the statistics of the lookup balanced.
\<close>

section \<open>The tracker\<close>

text \<open>A visit replaces a connection by one that differs in its attribution alone.\<close>

lemma conn_ok_enrich [simp]: "conn_ok (fst (enrich_connection a c)) = conn_ok c"
  by (simp add: enrich_eq conn_ok_def is_terminal_def)

lemma enrich_keeps [simp]:
  "co_protocol (fst (enrich_connection a c)) = co_protocol c"
  "co_is_historic (fst (enrich_connection a c)) = co_is_historic c"
  "co_packets_sent (fst (enrich_connection a c)) = co_packets_sent c"
  "co_packets_received (fst (enrich_connection a c)) = co_packets_received c"
  "co_created_at (fst (enrich_connection a c)) = co_created_at c"
  by (simp_all add: enrich_eq)

lemma enrich_entryE:
  assumes "enrich_entry full_pass V now key s = (r, s')"
  obtains (left) "ap_tracker s' = ap_tracker s" "r = None" "ap_lookup s' = ap_lookup s" "ap_map s' = ap_map s"
    | (asked) c L m where "map_of (tr_connections (ap_tracker s)) key = Some c" "wants_enrichment full_pass now c"
        "get_process_attribution V c (ap_lookup s) (ap_map s) = (None, L, m)"
        "ap_tracker s' = ap_tracker s" "r = None" "ap_lookup s' = L" "ap_map s' = m"
    | (enriched) c a L m where "map_of (tr_connections (ap_tracker s)) key = Some c" "wants_enrichment full_pass now c"
        "get_process_attribution V c (ap_lookup s) (ap_map s) = (Some a, L, m)"
        "ap_tracker s' = (ap_tracker s)\<lparr>tr_connections :=
           AList.update key (fst (enrich_connection a c)) (tr_connections (ap_tracker s))\<rparr>"
        "r = Some (c, a)" "ap_lookup s' = L" "ap_map s' = m"
proof (cases "map_of (tr_connections (ap_tracker s)) key")
  case None
  with assms left show ?thesis by (auto simp: enrich_entry_def)
next
  case (Some c)
  obtain x L m where ask: "get_process_attribution V c (ap_lookup s) (ap_map s) = (x, L, m)"
    by (cases "get_process_attribution V c (ap_lookup s) (ap_map s)")
  show ?thesis
  proof (cases "wants_enrichment full_pass now c")
    case False
    with assms Some left show ?thesis by (auto simp: enrich_entry_def)
  next
    case True
    show ?thesis
    proof (cases x)
      case None
      with assms Some True ask asked show ?thesis by (auto simp: enrich_entry_def)
    next
      case (Some a)
      with assms \<open>map_of (tr_connections (ap_tracker s)) key = Some c\<close> True ask enriched
      show ?thesis by (auto simp: enrich_entry_def)
    qed
  qed
qed

lemma refresh_lookupE:
  assumes "refresh_lookup P scan_time now s = Some s'"
  obtains r L where "refresh_enhanced P scan_time now (ap_lookup s) = Some (r, L)" "s' = s\<lparr>ap_lookup := L\<rparr>"
  using assms by (auto simp: refresh_lookup_def bind_eq_Some_conv)

lemma tracker_ok_replace:
  assumes "tracker_ok t" "map_of (tr_connections t) key = Some c" "conn_ok d"
    and "co_protocol d = co_protocol c" "co_is_historic d = co_is_historic c"
  shows "tracker_ok (t\<lparr>tr_connections := AList.update key d (tr_connections t)\<rparr>)"
proof -
  have ok: "table_ok (tr_connections t)" using assms(1) by (simp add: tracker_ok_def core_ok_def tables_ok_def)
  have "(key, c) \<in> set (tr_connections t)" by (rule map_of_SomeD [OF assms(2)])
  with assms have "entry_ok (key, d)" by (force simp: tracker_ok_def core_ok_def entry_ok_def)
  with assms(1) ok have "\<forall>x \<in> set (AList.update key d (tr_connections t)). entry_ok x"
    using set_update_subset [of key d "tr_connections t"] by (auto simp: tracker_ok_def core_ok_def)
  with assms(1,2) ok show ?thesis
    by (simp add: tracker_ok_def core_ok_def tables_ok_def archive_bounded_def max_tombstones_def
        length_update_old del: table_lookup)
qed

definition app_op_ok :: "app_op \<Rightarrow> bool" where
  "app_op_ok op = (case op of Track op \<Rightarrow> op_ok op | _ \<Rightarrow> True)"

lemma app_step_tracker_ok:
  assumes "tracker_ok (ap_tracker s)" "app_op_ok op" "app_step op s = Some s'"
  shows "tracker_ok (ap_tracker s')"
proof (cases op)
  case (Track op)
  with assms show ?thesis by (auto simp: app_op_ok_def tracker_ok_step)
next
  case (Programs f)
  with assms show ?thesis by auto
next
  case (Refresh P scan_time now)
  with assms show ?thesis by (auto elim!: refresh_lookupE)
next
  case (Visit full_pass V now key)
  obtain r u where e: "enrich_entry full_pass V now key s = (r, u)" by (cases "enrich_entry full_pass V now key s")
  with Visit assms(3) have "s' = u" by simp
  with e assms(1) show ?thesis
  proof (cases rule: enrich_entryE)
    case (enriched c a L m)
    have "conn_ok c" using assms(1) map_of_SomeD [OF enriched(1)]
      by (force simp: tracker_ok_def core_ok_def entry_ok_def)
    with tracker_ok_replace [OF assms(1) enriched(1)] enriched(4) \<open>s' = u\<close> show ?thesis by simp
  qed simp_all
qed

lemma app_run_induct:
  assumes "I s" "app_run ops s = Some s'"
    and "\<And>op s s'. I s \<Longrightarrow> op \<in> set ops \<Longrightarrow> app_step op s = Some s' \<Longrightarrow> I s'"
  shows "I s'"
  using assms
proof (induction ops arbitrary: s)
  case (Cons op ops)
  from Cons.prems(2) obtain u where u: "app_step op s = Some u" "app_run ops u = Some s'"
    by (auto simp: bind_eq_Some_conv)
  have "I u" by (rule Cons.prems(3) [OF Cons.prems(1) _ u(1)]) simp
  then show ?case
  proof (rule Cons.IH [OF _ u(2)])
    fix op' v w
    assume v: "I v" "op' \<in> set ops" "app_step op' v = Some w"
    show "I w" by (rule Cons.prems(3) [OF v(1) _ v(3)]) (simp add: v(2))
  qed
qed simp

section \<open>Sources\<close>

definition fed_by ::
  "(bpf_env \<Rightarrow> 'h \<Rightarrow> socket_map \<Rightarrow> int \<times> socket_map) \<Rightarrow> (bpf_env \<times> 'h) list \<Rightarrow> procfs set \<Rightarrow> app_op \<Rightarrow> bool" where
  "fed_by step hs Ps op = (case op of
     Track op \<Rightarrow> op_fits no_process op
   | Programs f \<Rightarrow> run_of step hs f
   | Refresh P _ _ \<Rightarrow> P \<in> Ps
   | Visit _ V _ _ \<Rightarrow> env_runs step hs V)"

definition app_sourced ::
  "(bpf_env \<Rightarrow> 'h \<Rightarrow> socket_map \<Rightarrow> int \<times> socket_map) \<Rightarrow> (bpf_env \<times> 'h) list \<Rightarrow> endian \<Rightarrow> procfs set \<Rightarrow>
     app_state \<Rightarrow> bool" where
  "app_sourced step hs e Ps s \<longleftrightarrow> everywhere (attributed (sourced step hs e Ps)) (ap_tracker s) \<and>
     lookup_sourced step hs e Ps (ap_lookup s) \<and> map_sourced step hs (ap_map s)"

text \<open>The application as it starts, with the lookup it has made for itself and an empty map.\<close>

definition app_start :: "tracker_config \<Rightarrow> enhanced_lookup \<Rightarrow> app_state" where
  "app_start config L = \<lparr>ap_tracker = with_config config, ap_lookup = L, ap_map = Map.empty\<rparr>"

lemma everywhere_new [simp]: "everywhere Q (with_config config)"
  by (simp add: everywhere_def with_config_def)

context tracker_backend
begin

lemma app_step_sourced:
  assumes "envs_ok e hs" "app_sourced step hs e Ps s" "fed_by step hs Ps op" "app_step op s = Some s'"
  shows "app_sourced step hs e Ps s'"
proof (cases op)
  case (Track op)
  with assms(2-4) attributed.step_lasts [of "sourced step hs e Ps" "ap_tracker s" op] show ?thesis
    by (auto simp: app_sourced_def fed_by_def)
next
  case (Programs f)
  with assms(2-4) run_of_sourced [OF assms(1)] show ?thesis by (auto simp: app_sourced_def fed_by_def)
next
  case (Refresh P scan_time now)
  with assms(4) have "refresh_lookup P scan_time now s = Some s'" by simp
  then show ?thesis
  proof (rule refresh_lookupE)
    fix r L
    assume "refresh_enhanced P scan_time now (ap_lookup s) = Some (r, L)" "s' = s\<lparr>ap_lookup := L\<rparr>"
    with assms(2,3) Refresh refresh_sourced [of hs e Ps "ap_lookup s" P] show ?thesis
      by (auto simp: app_sourced_def fed_by_def)
  qed
next
  case (Visit full_pass V now key)
  obtain r u where e: "enrich_entry full_pass V now key s = (r, u)" by (cases "enrich_entry full_pass V now key s")
  with Visit assms(4) have u: "s' = u" by simp
  from assms(3) Visit have env: "env_runs step hs V" by (simp add: fed_by_def)
  note prem = assms(2) [unfolded app_sourced_def]
  note ask = get_process_attribution_sourced [OF assms(1) _ _ env, where Ps = Ps]
  from e show ?thesis
  proof (cases rule: enrich_entryE)
    case left
    with assms(2) u show ?thesis by (simp add: app_sourced_def)
  next
    case (asked c L m)
    with prem ask(1,2) [OF _ _ asked(3)] u show ?thesis by (simp add: app_sourced_def)
  next
    case (enriched c a L m)
    have "attributed (sourced step hs e Ps) (fst (enrich_connection a c))"
      using prem enriched(2) everywhere_found [OF _ enriched(1)] ask(3) [OF _ _ enriched(3)]
      by (intro enrich_attributed) (auto simp: wants_enrichment_def)
    with prem ask(1,2) [OF _ _ enriched(3)] enriched(4,6,7) u
      set_update_subset [of key "fst (enrich_connection a c)" "tr_connections (ap_tracker s)"]
    show ?thesis by (auto simp: app_sourced_def everywhere_def)
  qed
qed

lemma app_run_sourced:
  assumes "envs_ok e hs" "new_with_config P scan_time now now' created config = Some (Inr L)" "P \<in> Ps"
    and "\<And>t reason. created = Inr (Some t, reason) \<Longrightarrow> st_host (et_tracker t) = e \<and> map_handle (st_api (et_tracker t))"
    and "list_all (fed_by step hs Ps) ops" "app_run ops (app_start limits L) = Some s"
  shows "app_sourced step hs e Ps s"
proof (rule app_run_induct [OF _ assms(6)])
  show "app_sourced step hs e Ps (app_start limits L)"
    using new_sourced [OF assms(2,3), of e hs] assms(4) by (simp add: app_sourced_def app_start_def)
next
  fix op s s'
  assume "app_sourced step hs e Ps s" "op \<in> set ops" "app_step op s = Some s'"
  with app_step_sourced [OF assms(1)] assms(5) show "app_sourced step hs e Ps s'" by (auto simp: list_all_iff)
qed

end

section \<open>The statistics\<close>

text \<open>
  Every lookup is a hit of the cache, of the map or of the tables, or it failed; and it is about
  addresses of one family. The counters wrap, and so the balance is one of words.
\<close>

definition stats_balanced :: "lookup_stats \<Rightarrow> bool" where
  "stats_balanced s \<longleftrightarrow>
     ls_total_lookups s = ls_cache_hits s + ls_ebpf_hits s + ls_procfs_hits s + ls_failed_lookups s \<and>
     ls_total_lookups s = ls_ipv4_lookups s + ls_ipv6_lookups s"

lemma count_lookup_fields [simp]:
  "ls_total_lookups (count_lookup c b s) = ls_total_lookups s + 1"
  "ls_ipv4_lookups (count_lookup c b s) + ls_ipv6_lookups (count_lookup c b s) =
     ls_ipv4_lookups s + ls_ipv6_lookups s + 1"
  "ls_cache_hits (count_lookup c b s) = ls_cache_hits s"
  "ls_ebpf_hits (count_lookup c b s) = ls_ebpf_hits s"
  "ls_procfs_hits (count_lookup c b s) = ls_procfs_hits s"
  "ls_failed_lookups (count_lookup c b s) = ls_failed_lookups s"
  by (simp_all add: count_lookup_def Let_def split: ip_addr.split protocol.split)

lemma ask_answers: "fst (ask_socket_map P m c L) \<noteq> None \<Longrightarrow> fresh_answer P m c L \<noteq> None"
  by (auto simp: fresh_answer_def)

lemma balanced_lookup:
  assumes "stats_balanced (el_stats L)"
  shows "stats_balanced (el_stats (fst (snd (get_process_attribution V c L m))))"
proof -
  let ?s = "count_lookup c (is_ebpf_available L) (el_stats L)"
  let ?old = "cached L (en_cache_now V) (from_connection c)"
  let ?ask = "fst (ask_socket_map (en_procfs V) (map_seen V L m) c L)"
  from get_process_attribution_eq(5) [of V c L m] obtain n where
    n: "el_stats (fst (snd (get_process_attribution V c L m))) = (case ?old of
         Some _ \<Rightarrow> ?s\<lparr>ls_cache_hits := ls_cache_hits ?s + 1\<rparr>
       | None \<Rightarrow>
           (let s = count_answer ?ask (answer V c L m) ?s
            in if answer V c L m = None then s\<lparr>ls_failed_lookups := ls_failed_lookups s + 1\<rparr>
               else s\<lparr>ls_cache_entries := n\<rparr>))"
    by (auto simp: Let_def)
  let ?r = "el_stats (fst (snd (get_process_attribution V c L m)))"
  have "ls_total_lookups ?r = ls_total_lookups (el_stats L) + 1 \<and>
      ls_ipv4_lookups ?r = ls_ipv4_lookups ?s \<and> ls_ipv6_lookups ?r = ls_ipv6_lookups ?s \<and>
      ls_cache_hits ?r + ls_ebpf_hits ?r + ls_procfs_hits ?r + ls_failed_lookups ?r =
      ls_cache_hits (el_stats L) + ls_ebpf_hits (el_stats L) + ls_procfs_hits (el_stats L) +
      ls_failed_lookups (el_stats L) + 1"
  proof (cases ?old)
    case (Some a)
    with n show ?thesis by (simp add: algebra_simps)
  next
    case None
    then have fresh: "answer V c L m = fresh_answer (en_procfs V) (map_seen V L m) c L" by (simp add: answer_def)
    show ?thesis
    proof (cases ?ask)
      case (Some a)
      with ask_answers [of "en_procfs V" "map_seen V L m" c L] fresh obtain b where "answer V c L m = Some b" by auto
      with None Some n show ?thesis by (simp add: count_answer_def algebra_simps)
    next
      case ask: None
      then show ?thesis
        by (cases "answer V c L m") (use None n in \<open>simp_all add: count_answer_def algebra_simps\<close>)
    qed
  qed
  with assms count_lookup_fields(2) [of c "is_ebpf_available L" "el_stats L"] show ?thesis
    unfolding stats_balanced_def by metis
qed

lemma refresh_enhanced_stats:
  "refresh_enhanced P scan_time now L = Some (r, L') \<Longrightarrow> el_stats L' = el_stats L"
  by (cases "refresh_linux_lookup P scan_time (el_procfs L)";
      cases "fst (the (refresh_linux_lookup P scan_time (el_procfs L)))") (auto simp: refresh_enhanced_def)

lemma new_with_config_stats:
  "new_with_config P scan_time now now' created config = Some (Inr L) \<Longrightarrow> el_stats L = default_lookup_stats"
  by (cases "new_linux_lookup P scan_time"; cases "the (new_linux_lookup P scan_time)"; cases created)
    (auto simp: new_with_config_def)

lemma app_step_balanced:
  assumes "stats_balanced (el_stats (ap_lookup s))" "app_step op s = Some s'"
  shows "stats_balanced (el_stats (ap_lookup s'))"
proof (cases op)
  case (Refresh P scan_time now)
  with assms show ?thesis by (auto elim!: refresh_lookupE dest: refresh_enhanced_stats)
next
  case (Visit full_pass V now key)
  obtain r u where e: "enrich_entry full_pass V now key s = (r, u)" by (cases "enrich_entry full_pass V now key s")
  from e Visit assms(2) have u: "s' = u" by simp
  from e show ?thesis
    by (cases rule: enrich_entryE) (use u assms(1) balanced_lookup [OF assms(1)] in \<open>metis fst_conv snd_conv\<close>)+
qed (use assms in auto)

lemma create_enhanced:
  assumes "create_process_lookup with_ebpf P Q scan_time now now' created = Some (Inr (Enhanced L))"
  shows "new_with_config P scan_time now now' created default_cleanup_config = Some (Inr L)"
proof -
  have basic: "(case b of Inl e \<Rightarrow> Inl e | Inr K \<Rightarrow> Inr (Basic K)) \<noteq> (Inr (Enhanced L) :: io_error + process_lookup)" for b
    by (cases b) simp_all
  with assms show ?thesis
    by (cases "new_with_config P scan_time now now' created default_cleanup_config";
        cases "the (new_with_config P scan_time now now' created default_cleanup_config)")
      (auto simp: create_process_lookup_def bind_eq_Some_conv split: if_splits)
qed

section \<open>A visit\<close>

lemma visit_answered:
  assumes "map_of (tr_connections (ap_tracker s)) key = Some c" "wants_enrichment full_pass now c"
    and "answer V c (ap_lookup s) (ap_map s) = Some a"
  shows "map_of (tr_connections (ap_tracker (snd (enrich_entry full_pass V now key s)))) key =
    Some (fst (enrich_connection a c))"
proof -
  obtain r L m where ask: "get_process_attribution V c (ap_lookup s) (ap_map s) = (r, L, m)"
    by (cases "get_process_attribution V c (ap_lookup s) (ap_map s)")
  with get_process_attribution_eq(1) [of V c "ap_lookup s" "ap_map s"] assms(3) have "r = Some a" by simp
  with ask assms(1,2) show ?thesis by (simp add: enrich_entry_def update_conv' del: table_lookup)
qed

lemma ask_flow:
  assumes "el_tracker L = Some t" "co_protocol c \<in> {Tcp, Udp}"
    and "lookup (et_tracker t) m (ip_of (co_local_addr c)) (ip_of (co_remote_addr c))
      (port_of (co_local_addr c)) (port_of (co_remote_addr c)) (co_protocol c = Tcp) = Some r"
  shows "fst (ask_socket_map P m c L) = Some (fst (attribution_from_ebpf P r (et_backend t) L))"
  using assms by (auto simp: ask_socket_map_def try_ebpf_lookup_def case_prod_beta)

text \<open>
  The connection of a flow whose entry in the map is the one of a task: the task becomes its
  process, with an exact match, if nothing was known about it.
\<close>

lemma visit_connected:
  assumes "helper_laws E" "el_tracker (ap_lookup s) = Some t" "reads_host (et_tracker t) (host E)"
    and "contains (st_caps (et_tracker t)) TCP_V4_CONNECT"
    and "map_of (tr_connections (ap_tracker s)) key = Some c" "wants_enrichment full_pass now c"
    and "co_protocol c = Tcp" "co_local_addr c = SockV4 src sp" "co_remote_addr c = SockV4 dst dp"
    and "identity c = no_identity" "cached (ap_lookup s) (en_cache_now V) (from_connection c) = None"
    and "map_seen V (ap_lookup s) (ap_map s) (conn_key_bytes (host E) (key_v4 (host E) src dst sp dp IPPROTO_TCP)) =
      Some (current_value E)"
  obtains c' a where "map_of (tr_connections (ap_tracker (snd (enrich_entry full_pass V now key s)))) key = Some c'"
    "identity c' = identity_of a" "names_process a (current_process E)" "pa_quality a = ExactTuple"
proof -
  let ?L = "ap_lookup s" and ?m = "map_seen V (ap_lookup s) (ap_map s)"
  let ?r = "\<lparr>sm_info = current_process E, sm_quality = ExactTuple\<rparr>"
  let ?a = "fst (attribution_from_ebpf (en_procfs V) ?r (et_backend t) ?L)"
  have "lookup (et_tracker t) ?m (V4 src) (V4 dst) sp dp True = Some ?r"
    using lookup_v4_stored [OF assms(1,3), of src True ?m src] assms(4,12) by (simp add: lookup_needs_def transport_def)
  then have "fst (ask_socket_map (en_procfs V) ?m c ?L) = Some ?a"
    using assms(7-9) by (intro ask_flow [OF assms(2)]) simp_all
  with assms(11) have "answer V c ?L (ap_map s) = Some ?a" by (simp add: answer_def fresh_answer_def)
  from visit_answered [OF assms(5,6) this] enrich_blank [OF assms(10)] from_ebpf_names [of "en_procfs V" ?r "et_backend t" ?L]
  show ?thesis by (intro that) simp_all
qed

text \<open>Between the sweeps of the map, a lookup sees it as the programs leave it.\<close>

lemma map_seen_between:
  "elapsed (el_last_cleanup L) (en_now V) div 1000000000 < unat (cc_interval_secs (el_cleanup L)) \<Longrightarrow>
     map_seen V L m = en_programs V m"
  by (simp add: map_seen_def maybe_cleanup_ebpf_map_def)

section \<open>The cache\<close>

lemma lookup_cached:
  assumes "get_process_attribution V c L m = (Some a, L', m')"
  shows "map_of (el_cache L') (from_connection c) = Some a" "el_last_refresh L' = el_last_refresh L"
proof -
  note eq = get_process_attribution_eq [where V = V and c = c and L = L and m = m, unfolded assms fst_conv snd_conv]
  show "el_last_refresh L' = el_last_refresh L" using eq(2) by (simp add: same_sources_def)
  show "map_of (el_cache L') (from_connection c) = Some a"
  proof (cases "cached L (en_cache_now V) (from_connection c)")
    case None
    from eq(1) have "answer V c L m = Some a" by simp
    with None eq(4) show ?thesis by (simp add: update_conv')
  next
    case (Some b)
    with eq(1) have "b = a" by (simp add: answer_def)
    with Some eq(4) show ?thesis by (simp add: cached_def split: if_splits)
  qed
qed

lemma refresh_forgets:
  assumes "refresh_enhanced P scan_time now L = Some (Inr u, L')"
  shows "cached L' t key = None"
  using assms by (cases "refresh_linux_lookup P scan_time (el_procfs L)";
      cases "fst (the (refresh_linux_lookup P scan_time (el_procfs L)))")
    (auto simp: refresh_enhanced_def cached_def)

end
