(* ===== verification/Sample_Procfs.thy ===== *)
theory Sample_Procfs
  imports Procfs_View Application_Laws Sample_Host Sample_Traffic
begin

text \<open>
  A concrete \<^verbatim>\<open>/proc\<close> for the witnesses: one process, \<^verbatim>\<open>curl\<close>, with one socket, and tables
  of one row; and an application that has just seen the first packet of its connection.
\<close>

section \<open>The tables\<close>

definition sample_row :: "ip_addr \<times> u16 \<Rightarrow> ip_addr \<times> u16 \<Rightarrow> socket_row" where
  "sample_row l r = \<lparr>sr_pad = 3, sr_slot = str ''0:'', sr_gap1 = 0, sr_local = l, sr_gap2 = 0, sr_remote = r,
     sr_middle = [(0, str ''01''), (0, str ''00000000:00000000''), (0, str ''00:00000000''),
       (0, str ''00000000''), (2, str ''1000''), (8, str ''0'')],
     sr_gap3 = 0, sr_inode = 4242, sr_rest = [(0, str ''1'')]\<rparr>"

lemma sample_row_ok [simp]: "row_ok (sample_row l r)"
  by (simp add: row_ok_def sample_row_def plain_word_def str_def)

definition row4 :: socket_row where
  "row4 = sample_row (V4 0x0A000001, 40000) (V4 0x5DB8D822, 443)"

text \<open>The same connection over a dual-stack socket.\<close>

definition row6 :: socket_row where
  "row6 = sample_row (V6 0xFFFF0A000001, 40000) (V6 0xFFFF5DB8D822, 443)"

definition rows4 :: "path \<Rightarrow> socket_row list" where
  "rows4 tab = (if tab = ''/proc/net/tcp'' then [row4] else [])"

definition rows6 :: "path \<Rightarrow> socket_row list" where
  "rows6 tab = (if tab = ''/proc/net/tcp6'' then [row6] else [])"

section \<open>The file system\<close>

definition sample_procfs :: "(path \<Rightarrow> socket_row list) \<Rightarrow> procfs" where
  "sample_procfs rows = \<lparr>
     pf_read = (\<lambda>p. if p = ''/proc/77/comm'' then Some (bstr ''curl'' @ [10])
       else if p \<in> fst ` set table_files then Some (map word_of_nat (table_text Little (str ''  sl'') (rows p)))
       else None),
     pf_read_link = (\<lambda>p. if p = ''/proc/77/fd/3'' then Some (socket_link 4242) else None),
     pf_read_dir = (\<lambda>p. if p = ''/proc'' then Inr [Inr ''self'', Inr ''77'']
       else if p = ''/proc/77/fd'' then Inr [Inr ''3''] else Inl []),
     pf_owner = (\<lambda>p. if p = ''/proc/77'' then Some (1000, 100) else None)\<rparr>"

lemma pid_77: "pid_entry 77 = ''77''"
proof -
  have "decimal (unat (77 :: u32)) = str ''77''" by (simp add: decimal.simps str_def)
  then show ?thesis by (simp only: pid_entry_def char_of_str)
qed

lemma proc_77: "proc_entry 77 below = ''/proc/77'' @ below"
proof -
  have "proc_entry 77 below = ''/proc/'' @ pid_entry 77 @ below" by (simp add: proc_entry_def pid_entry_def)
  then show ?thesis by (simp add: pid_77)
qed

lemma sample_presents:
  assumes "rows \<in> {rows4, rows6}"
  shows "presents (sample_procfs rows) rows"
proof -
  have "list_all row_ok (rows tab)" for tab using assms by (auto simp: rows4_def rows6_def row4_def row6_def)
  moreover have "list_all (\<lambda>c. 0x20 \<le> c \<and> c \<le> 0x7E) (str ''  sl'')" by (simp add: str_def)
  moreover have "pf_read (sample_procfs rows) tab = Some (map word_of_nat (table_text Little (str ''  sl'') (rows tab)))"
    if "(tab, protocol) \<in> set table_files" for tab protocol
    using that by (force simp: sample_procfs_def table_files_def)
  ultimately show ?thesis unfolding presents_def by fastforce
qed

lemma sample_listed:
  "pf_read_dir (sample_procfs rows) ''/proc'' = Inr [Inr ''self'', Inr ''77'']"
  "pf_read_dir (sample_procfs rows) ''/proc/77/fd'' = Inr [Inr ''3'']"
  by (simp_all add: sample_procfs_def)

lemma sample_canonical: "canonical (sample_procfs rows)"
proof -
  have "Option.bind (to_str ''self'') parse_u32 = None"
    using to_str_text [of "str ''self''"] unfolding char_of_str
    by (simp add: str_def) (simp add: parse_u32_def from_str_radix_def digit_value_def Let_def)
  moreover have "Option.bind (to_str ''77'') parse_u32 = Some 77"
    using to_str_pid [of 77] by (simp add: pid_77 parse_decimal(2) [of 77, simplified])
  ultimately show ?thesis
    by (auto simp: canonical_def sample_listed pid_77 sample_procfs_def to_str_link extract_link_text split: if_splits)
qed

lemma sample_name: "process_name (sample_procfs rows) ''/proc/77'' = str ''curl''"
proof -
  have "from_utf8 (map word_of_nat (str ''curl'' @ [10])) = Some (str ''curl'' @ [10])"
    by (rule from_utf8_text) (simp add: str_def)
  moreover have "bstr ''curl'' @ [10] = map word_of_nat (str ''curl'' @ [10])"
    by (simp add: bstr_def str_def)
  ultimately have "read_to_string (sample_procfs rows) ''/proc/77/comm'' = Some (str ''curl'' @ [10])"
    by (simp add: read_to_string_def sample_procfs_def)
  then show ?thesis
    by (simp add: process_name_def) (simp add: str_def trim_def trim_start_def trim_end_def is_whitespace_def)
qed

lemma sample_owner: "owns (sample_procfs rows) 4242 own \<longleftrightarrow> own = (77, str ''curl'')"
proof
  assume o: "owns (sample_procfs rows) 4242 own"
  then have "pid_entry (fst own) \<in> {''self'', pid_entry 77}" by (auto simp: owns_def sample_listed pid_77)
  moreover have "pid_entry (fst own) \<noteq> ''self''"
  proof
    assume "pid_entry (fst own) = ''self''"
    with to_str_pid [of "fst own"] to_str_text [of "str ''self''"] have "decimal (unat (fst own)) = str ''self''"
      unfolding char_of_str by (simp add: str_def)
    with decimal_chars [of 115 "unat (fst own)"] show False by (simp add: str_def)
  qed
  ultimately have "pid_entry (fst own) = pid_entry 77" by blast
  with to_str_pid [of "fst own"] to_str_pid [of 77] have "decimal (unat (fst own)) = decimal (unat (77 :: u32))" by simp
  from arg_cong [OF this, of parse_u32] have "fst own = 77" by (simp only: parse_decimal option.inject)
  with o show "own = (77, str ''curl'')" by (cases own) (simp add: owns_def proc_77 sample_name)
next
  assume "own = (77, str ''curl'')"
  then show "owns (sample_procfs rows) 4242 own"
    by (simp add: owns_def proc_77 pid_77 sample_listed sample_name) (simp add: sample_procfs_def)
qed

lemma sample_scan:
  assumes "rows \<in> {rows4, rows6}"
  obtains m names where "build_process_map (sample_procfs rows) = Some (Inr (m, names))"
  by (rule presented_scan [OF sample_presents [OF assms] sample_listed(1)]) simp_all

end
