(* ===== verification/Attribution_Properties.thy ===== *)
theory Attribution_Properties
  imports Sample_Procfs
begin

text \<open>
  The properties of attribution as a whole, from the programs in the kernel and the tables under
  \<^verbatim>\<open>/proc\<close> through the lookup to the table of connections.
\<close>

section \<open>The sample application\<close>

definition sample_created :: "utf8_string + ebpf_tracker option \<times> degradation_reason" where
  "sample_created = Inr (Some \<lparr>et_backend = EbpfFentry, et_tracker = sample_tracker []\<rparr>, NoDegradation)"

definition sample_enhanced :: "(path \<Rightarrow> socket_row list) \<Rightarrow> enhanced_lookup" where
  "sample_enhanced rows =
     (case new_with_config (sample_procfs rows) 0 0 0 sample_created default_cleanup_config of
        Some (Inr L) \<Rightarrow> L)"

lemma sample_new:
  assumes "rows \<in> {rows4, rows6}"
  shows "new_with_config (sample_procfs rows) 0 0 0 sample_created default_cleanup_config =
    Some (Inr (sample_enhanced rows))"
proof (rule sample_scan [OF assms])
  fix m names
  assume "build_process_map (sample_procfs rows) = Some (Inr (m, names))"
  then show ?thesis by (simp add: sample_enhanced_def new_with_config_def new_linux_lookup_def sample_created_def)
qed

lemma sample_create:
  "create_process_lookup True (sample_procfs rows4) (sample_procfs rows4) 0 0 0 sample_created =
    Some (Inr (Enhanced (sample_enhanced rows4)))"
  using sample_new [of rows4] by (simp add: create_process_lookup_def)

lemma sample_enhanced_fields:
  assumes "rows \<in> {rows4, rows6}"
  shows "el_tracker (sample_enhanced rows) = Some \<lparr>et_backend = EbpfFentry, et_tracker = sample_tracker []\<rparr>"
    and "el_cache (sample_enhanced rows) = []" "el_cleanup (sample_enhanced rows) = default_cleanup_config"
    and "el_last_refresh (sample_enhanced rows) = - 3600000000000"
    and "el_last_cleanup (sample_enhanced rows) = - 3600000000000"
proof -
  show "el_tracker (sample_enhanced rows) = Some \<lparr>et_backend = EbpfFentry, et_tracker = sample_tracker []\<rparr>"
    "el_cache (sample_enhanced rows) = []" "el_cleanup (sample_enhanced rows) = default_cleanup_config"
    "el_last_refresh (sample_enhanced rows) = - 3600000000000"
    "el_last_cleanup (sample_enhanced rows) = - 3600000000000"
    by (rule sample_scan [OF assms],
        simp add: sample_enhanced_def new_with_config_def new_linux_lookup_def sample_created_def)+
qed

text \<open>A visit an hour of the monotonic clock before the time the lookup was made for, so that no sweep is due.\<close>

definition sample_visit :: lookup_env where
  "sample_visit = \<lparr>en_procfs = sample_procfs rows4, en_now = - 3600000000000, en_cache_now = 0, en_clock = sweep_clock,
     en_between = id, en_programs = id\<rparr>"

definition sample_app_ops :: "app_op list" where
  "sample_app_ops = [Track (Ingest sample_track syn_packet 1000000000),
     Programs (run_hits fentry_run sample_connect), Visit True sample_visit 1000000000 sample_flow]"

definition sample_app :: app_state where
  "sample_app = the (app_run sample_app_ops (app_start default_config (sample_enhanced rows4)))"

lemma sample_app_run:
  "app_run sample_app_ops (app_start default_config (sample_enhanced rows4)) = Some sample_app"
  by (simp add: sample_app_def sample_app_ops_def)

lemma run_of_all: "run_of step hs id" "run_of step hs (run_hits step hs)"
proof -
  show "run_of step hs id" unfolding run_of_def by (rule exI [of _ "[]"]) (simp add: fun_eq_iff)
  show "run_of step hs (run_hits step hs)" unfolding run_of_def by blast
qed

lemma sample_fed: "list_all (fed_by fentry_run sample_connect {sample_procfs rows4}) sample_app_ops"
  by (simp add: sample_app_ops_def fed_by_def op_fits_def no_process_def env_runs_def sample_visit_def run_of_all)

text \<open>The connection the run has seen opened is attributed to the task that opened it.\<close>

lemma opened_fields:
  "co_protocol opened = Tcp" "co_local_addr opened = SockV4 0x0A000001 40000"
  "co_remote_addr opened = SockV4 0x5DB8D822 443" "identity opened = no_identity"
  "wants_enrichment True now opened"
proof -
  show i: "identity opened = no_identity" unfolding opened_def by (rule create_identity) (simp add: no_process_def)
  show "co_protocol opened = Tcp" "co_local_addr opened = SockV4 0x0A000001 40000"
    "co_remote_addr opened = SockV4 0x5DB8D822 443"
    by (simp_all add: opened_def) (simp_all add: sample_packet_def)
  show "wants_enrichment True now opened"
    using i by (simp add: wants_enrichment_def process_enrichment_complete_def identity_def no_identity_def)
qed

definition sample_before :: app_state where
  "sample_before = (app_start default_config (sample_enhanced rows4))\<lparr>
     ap_tracker := snd (ingest_at sample_track syn_packet 1000000000 sample_start), ap_map := sample_map\<rparr>"

lemma sample_app_visit: "sample_app = snd (enrich_entry True sample_visit 1000000000 sample_flow sample_before)"
  by (simp add: sample_app_def sample_app_ops_def sample_before_def app_start_def sample_start_def sample_runs)

lemma sample_visit_seen: "map_seen sample_visit (sample_enhanced rows4) m = m"
  by (subst map_seen_between)
    (simp_all add: sample_visit_def sample_enhanced_fields default_cleanup_config_def elapsed_def)

lemma sample_before_fields:
  "ap_lookup sample_before = sample_enhanced rows4" "ap_map sample_before = sample_map"
  "tr_connections (ap_tracker sample_before) = [(sample_flow, opened)]"
  by (simp_all add: sample_before_def app_start_def sample_first)

lemma sample_attributed:
  obtains c where "(sample_flow, c) \<in> set (tr_connections (ap_tracker sample_app))" "co_pid c = Some 1200"
    "co_attribution_quality c = Some ExactTuple"
proof (rule visit_connected [where E = "env4 sock4 None" and s = sample_before and
      t = "\<lparr>et_backend = EbpfFentry, et_tracker = sample_tracker []\<rparr>" and key = sample_flow and c = opened and
      full_pass = True and now = 1000000000 and src = "0x0A000001" and sp = 40000 and dst = "0x5DB8D822" and dp = 443 and
      V = sample_visit])
  fix c' a
  assume "map_of (tr_connections (ap_tracker (snd (enrich_entry True sample_visit 1000000000 sample_flow sample_before)))) sample_flow = Some c'"
    "identity c' = identity_of a" "names_process a (current_process (env4 sock4 None))" "pa_quality a = ExactTuple"
  moreover have "pi_pid (current_process (env4 sock4 None)) = 1200"
    by (rule current_process_ids(1)) (simp_all add: env4_def sample_env_def)
  ultimately show thesis
    by (intro that [of c']) (auto simp: sample_app_visit identity_def identity_of_def names_process_def dest: map_of_SomeD)
qed (use sample_tracker_reads sample_caps in \<open>simp_all add: sample_before_fields sample_enhanced_fields opened_fields
  cached_def sample_visit_seen sample_map_def\<close>)

section \<open>The properties\<close>

text \<open>
  C3. Whatever the packets, the hits of the programs, the refreshes, the sweeps and the visits, in any order: a
  connection of the table or of the archive is unattributed, or it carries one answer about its own
  endpoints, and the process of that answer hit a probe with that flow, or held a socket of those
  endpoints when \<^verbatim>\<open>/proc\<close> was scanned, in the shape its quality admits to. No connection mixes
  two answers, unless the first had no name for the process or only the placeholder \<^verbatim>\<open>Unknown\<close>: then
  a later answer may complete the name.
\<close>
theorem attributions_sourced:
  assumes "envs_ok e hs" "create_process_lookup True P Q scan_time now now' created = Some (Inr (Enhanced L))" "P \<in> Ps"
    and "\<forall>t reason. created = Inr (Some t, reason) \<longrightarrow>
      st_host (et_tracker t) = e \<and> map_handle (st_api (et_tracker t))"
    and "list_all (fed_by fentry_run hs Ps) ops" "app_run ops (app_start limits L) = Some s"
    and "(key, c) \<in> set (tr_connections (ap_tracker s)) \<or> (old_key, c) \<in> set (tr_historic (ap_tracker s))"
  shows "attributed (sourced fentry_run hs e Ps) c"
proof -
  have "app_sourced fentry_run hs e Ps s"
    using assms(4) by (intro fentry.app_run_sourced [OF assms(1) create_enhanced [OF assms(2)] assms(3) _ assms(5,6)]) blast
  with assms(7) show ?thesis by (auto simp: app_sourced_def everywhere_def)
qed

lemma attributions_sourced_witness:
  "\<exists>c. (sample_flow, c) \<in> set (tr_connections (ap_tracker sample_app)) \<and> co_pid c = Some 1200 \<and>
     attributed (sourced fentry_run sample_connect Little {sample_procfs rows4}) c"
proof (rule sample_attributed)
  fix c
  assume c: "(sample_flow, c) \<in> set (tr_connections (ap_tracker sample_app))" "co_pid c = Some 1200"
  have "attributed (sourced fentry_run sample_connect Little {sample_procfs rows4}) c"
    by (rule attributions_sourced [OF sample_envs_ok(1) sample_create _ _ sample_fed sample_app_run disjI1, OF _ _ c(1)])
      (simp_all add: sample_created_def hash.map_handle_axioms)
  with c show ?thesis by blast
qed

text \<open>
  C4. A task that opens a TCP connection over IPv4 becomes the process of the connection the packets
  made, at the next visit that asks about it: with its identifiers as they were at the hit, and an exact match.
\<close>
theorem connected_gets_process:
  assumes "helper_laws E" "map_law E" "sk \<noteq> 0" "sock_at E sk k"
    and "sv_family k = 2 \<or> sv_family k = 10 \<and> v4_mapped (sv_v6_daddr k)"
    and "fst (track_tcp_socket E sk (ap_map s)) = 0"
    and "el_tracker (ap_lookup s) = Some t" "reads_host (et_tracker t) (host E)"
      "contains (st_caps (et_tracker t)) TCP_V4_CONNECT"
    and "map_of (tr_connections (ap_tracker s)) key = Some c" "wants_enrichment full_pass now c"
      "identity c = no_identity" "co_protocol c = Tcp" "co_local_addr c = SockV4 (sv_rcv_saddr k) (sv_num k)"
      "co_remote_addr c = SockV4 (sv_daddr k) (sv_dport k)"
    and "en_programs V = id"
      "elapsed (el_last_cleanup (ap_lookup s)) (en_now V) div 1000000000 < unat (cc_interval_secs (el_cleanup (ap_lookup s)))"
    and "cached (ap_lookup s) (en_cache_now V) (from_connection c) = None"
  shows "\<exists>s' c' a. app_run [Programs (\<lambda>m. snd (fentry_run E (F_tcp_connect sk 0) m)), Visit full_pass V now key] s = Some s' \<and>
    map_of (tr_connections (ap_tracker s')) key = Some c' \<and> identity c' = identity_of a \<and>
    names_process a (current_process E) \<and> pa_quality a = ExactTuple"
proof -
  let ?k = "key_v4 (host E) (sv_rcv_saddr k) (sv_daddr k) (sv_num k) (sv_dport k) IPPROTO_TCP"
  obtain m where track: "track_tcp_socket E sk (ap_map s) = (0, m)"
    using assms(6) by (cases "track_tcp_socket E sk (ap_map s)") simp
  have "tcp_key (host E) k = Some ?k" using assms(5) by (auto simp: tcp_key_def)
  with track have "store_connection E ?k (ap_map s) = (0, m)"
    by (simp add: track_tcp_socket_at [OF assms(3,4)] store_opt_def)
  then have m: "m (conn_key_bytes (host E) ?k) = Some (current_value E)" using store_ok [OF assms(2)] by fastforce
  let ?s = "s\<lparr>ap_map := m\<rparr>"
  have "snd (fentry_run E (F_tcp_connect sk 0) (ap_map s)) = m" by (simp add: fentry_tcp_connect_def track)
  then have run: "app_run [Programs (\<lambda>m. snd (fentry_run E (F_tcp_connect sk 0) m)), Visit full_pass V now key] s =
      Some (snd (enrich_entry full_pass V now key ?s))" by simp
  have seen: "map_seen V (ap_lookup ?s) (ap_map ?s) = m" using assms(16,17) by (simp add: map_seen_between)
  show ?thesis unfolding run
  proof (rule visit_connected [where E = E and s = ?s and t = t and key = key and full_pass = full_pass and now = now
        and V = V, OF assms(1) _ assms(8,9) _ assms(11,13,14,15,12)])
    show "map_seen V (ap_lookup ?s) (ap_map ?s) (conn_key_bytes (host E) ?k) = Some (current_value E)"
      unfolding seen by (rule m)
  qed (use assms(7,10,18) in auto)
qed

lemma connected_gets_process_witness:
  "\<exists>s' c'. app_run [Programs (\<lambda>m. snd (fentry_run (env4 sock4 None) (F_tcp_connect SK 0) m)),
      Visit True sample_visit 1000000000 sample_flow] (sample_before\<lparr>ap_map := Map.empty\<rparr>) = Some s' \<and>
    map_of (tr_connections (ap_tracker s')) sample_flow = Some c' \<and> co_pid c' = Some 1200"
proof -
  have pid: "pi_pid (current_process (env4 sock4 None)) = 1200"
    by (rule current_process_ids(1)) (simp_all add: env4_def sample_env_def)
  let ?t = "\<lparr>et_backend = EbpfFentry, et_tracker = sample_tracker []\<rparr>"
  have *: "\<exists>s' c' a. app_run [Programs (\<lambda>m. snd (fentry_run (env4 sock4 None) (F_tcp_connect SK 0) m)),
      Visit True sample_visit 1000000000 sample_flow] (sample_before\<lparr>ap_map := Map.empty\<rparr>) = Some s' \<and>
    map_of (tr_connections (ap_tracker s')) sample_flow = Some c' \<and> identity c' = identity_of a \<and>
    names_process a (current_process (env4 sock4 None)) \<and> pa_quality a = ExactTuple"
  proof (rule connected_gets_process [where k = sock4 and t = ?t and c = opened])
    show "sock_at (env4 sock4 None) SK sock4" by (rule env_sock_at)
    show "reads_host (et_tracker ?t) (host (env4 sock4 None))" using sample_tracker_reads by simp
    show "contains (st_caps (et_tracker ?t)) TCP_V4_CONNECT" using sample_caps by simp
    show "fst (track_tcp_socket (env4 sock4 None) SK (ap_map (sample_before\<lparr>ap_map := Map.empty\<rparr>))) = 0"
      by (simp add: track_sock4)
  qed (simp_all add: sample_before_fields sample_enhanced_fields opened_fields cached_def sock4_def
      default_cleanup_config_def sample_visit_def elapsed_def)
  with pid show ?thesis by (auto simp: identity_def identity_of_def names_process_def simp del: app_run.simps)
qed

text \<open>
  C8. A scan of the \<^verbatim>\<open>/proc\<close> of a little-endian kernel reads the tables back, whatever the columns
  between: every endpoint pair of a row whose socket a process owns is known with an owner of that
  socket, and nothing else is. No table makes it panic.
\<close>
theorem procfs_scan_reads:
  assumes "presents P rows" "canonical P" "pf_read_dir P ''/proc'' = Inr es" "list_all (\<lambda>x. \<not> isl x) es"
  shows "\<exists>m names. build_process_map P = Some (Inr (m, names)) \<and>
    (\<forall>key own. m key = Some own \<longrightarrow> (\<exists>inode. row_of rows key inode \<and> owns P inode own)) \<and>
    (\<forall>key inode own. row_of rows key inode \<longrightarrow> owns P inode own \<longrightarrow> m key \<noteq> None)"
proof (rule presented_scan [OF assms(1,3,4)])
  fix m names
  assume m: "build_process_map P = Some (Inr (m, names))"
  have "scanned P key own \<longleftrightarrow> (\<exists>inode. row_of rows key inode \<and> owns P inode own)" for key own
    by (simp add: scanned_def presented_line [OF assms(1)] holds_socket_owns [OF assms(2)])
  with m build_process_map_spec [OF m] show ?thesis by blast
qed

lemma procfs_scan_reads_witness:
  "\<exists>m names. build_process_map (sample_procfs rows4) = Some (Inr (m, names)) \<and>
     m \<lparr>cn_protocol = Tcp, cn_local = SockV4 0x0A000001 40000, cn_remote = SockV4 0x5DB8D822 443\<rparr> =
       Some (77, str ''curl'')"
proof -
  let ?key = "\<lparr>cn_protocol = Tcp, cn_local = SockV4 0x0A000001 40000, cn_remote = SockV4 0x5DB8D822 443\<rparr>"
  have row: "row_of rows4 ?key inode \<longleftrightarrow> inode = 4242" for inode
    by (auto simp: row_of_def table_files_def rows4_def row4_def sample_row_def row_key_def)
  from procfs_scan_reads [OF sample_presents sample_canonical sample_listed(1), of rows4] obtain m names where
    m: "build_process_map (sample_procfs rows4) = Some (Inr (m, names))"
      "\<forall>key own. m key = Some own \<longrightarrow> (\<exists>inode. row_of rows4 key inode \<and> owns (sample_procfs rows4) inode own)"
      "\<forall>key inode own. row_of rows4 key inode \<longrightarrow> owns (sample_procfs rows4) inode own \<longrightarrow> m key \<noteq> None"
    by auto
  have "owns (sample_procfs rows4) 4242 (77, str ''curl'')" by (simp add: sample_owner)
  with m(3) row have "m ?key \<noteq> None" by blast
  then obtain own where own: "m ?key = Some own" by (cases "m ?key") simp
  with m(2) obtain inode where "row_of rows4 ?key inode" "owns (sample_procfs rows4) inode own" by blast
  with row have "owns (sample_procfs rows4) 4242 own" by simp
  then have "own = (77, str ''curl'')" by (simp add: sample_owner)
  with m(1) own show ?thesis by blast
qed

text \<open>
  C9. However long the application runs: its tables are well formed and within their limits, and the
  statistics of the lookup account for every lookup, once as a hit of the cache, of the socket map or
  of the tables, or as a failure, and once by family.
\<close>
theorem application_invariant:
  assumes "create_process_lookup True P Q scan_time now now' created = Some (Inr (Enhanced L))"
    and "max_connections limits < 2 ^ 64" "list_all app_op_ok ops" "app_run ops (app_start limits L) = Some s"
  shows "tracker_ok (ap_tracker s) \<and> stats_balanced (el_stats (ap_lookup s))"
proof (rule app_run_induct [OF _ assms(4), where I = "\<lambda>s. tracker_ok (ap_tracker s) \<and> stats_balanced (el_stats (ap_lookup s))"])
  show "tracker_ok (ap_tracker (app_start limits L)) \<and> stats_balanced (el_stats (ap_lookup (app_start limits L)))"
    using assms(2) new_with_config_stats [OF create_enhanced [OF assms(1)]] tracker_ok_new [of limits]
    by (simp add: app_start_def stats_balanced_def default_lookup_stats_def)
next
  fix op s s'
  assume "tracker_ok (ap_tracker s) \<and> stats_balanced (el_stats (ap_lookup s))" "op \<in> set ops" "app_step op s = Some s'"
  with assms(3) app_step_tracker_ok app_step_balanced
  show "tracker_ok (ap_tracker s') \<and> stats_balanced (el_stats (ap_lookup s'))" by (auto simp: list_all_iff)
qed

lemma application_invariant_witness:
  "tracker_ok (ap_tracker sample_app) \<and> stats_balanced (el_stats (ap_lookup sample_app))"
proof -
  have "list_all app_op_ok sample_app_ops" by (simp add: sample_app_ops_def app_op_ok_def op_ok_def)
  from application_invariant [OF sample_create _ this sample_app_run] show ?thesis by (simp add: default_config_def)
qed

text \<open>
  C19. The cache is coherent: an answer stands for its endpoints until two seconds after the last refresh,
  whatever happens to the socket map and to \<^verbatim>\<open>/proc\<close>; then, and right after a refresh, the lookup
  asks again, the socket map first and the tables after it.
\<close>
theorem cache_coherent:
  assumes "get_process_attribution V c L m = (Some a, L', m')" "from_connection c' = from_connection c"
    and "refresh_enhanced P scan_time t L' = Some (Inr u, L'')"
  shows "fst (get_process_attribution V' c' L' m'') =
      (if elapsed (el_last_refresh L) (en_cache_now V') < CACHE_TTL then Some a
       else fresh_answer (en_procfs V') (map_seen V' L' m'') c' L') \<and>
    fst (get_process_attribution V' c' L'' m'') = fresh_answer (en_procfs V') (map_seen V' L'' m'') c' L''"
  using lookup_cached [OF assms(1)] refresh_forgets [OF assms(3)] assms(2)
  by (simp add: get_process_attribution_eq(1) answer_def) (simp add: cached_def)

lemma cache_coherent_witness:
  "\<exists>a L' m'. get_process_attribution sample_visit opened (sample_enhanced rows4) sample_map = (Some a, L', m') \<and>
     fst (get_process_attribution (sample_visit\<lparr>en_cache_now := - 3599999999999\<rparr>) opened L' Map.empty) = Some a"
proof -
  let ?L = "sample_enhanced rows4"
  have "lookup (sample_tracker []) sample_map (V4 0x0A000001) (V4 0x5DB8D822) 40000 443 True = Some sample_match"
    by (rule sample_lookup)
  then have "fst (ask_socket_map (en_procfs sample_visit) sample_map opened ?L) \<noteq> None"
    using ask_flow [of ?L "\<lparr>et_backend = EbpfFentry, et_tracker = sample_tracker []\<rparr>" opened sample_map sample_match]
    by (simp add: sample_enhanced_fields opened_fields)
  then obtain b where "answer sample_visit opened ?L sample_map = Some b"
    by (auto simp: answer_def fresh_answer_def sample_visit_seen cached_def sample_enhanced_fields)
  then obtain a L' m' where a: "get_process_attribution sample_visit opened ?L sample_map = (Some a, L', m')"
    using get_process_attribution_eq(1) [of sample_visit opened ?L sample_map]
    by (cases "get_process_attribution sample_visit opened ?L sample_map") auto
  obtain L'' where L'': "refresh_enhanced (sample_procfs rows4) 0 0 L' = Some (Inr (), L'')"
    by (rule sample_scan [of rows4]) (simp_all add: refresh_enhanced_def refresh_linux_lookup_def)
  have "fst (get_process_attribution (sample_visit\<lparr>en_cache_now := - 3599999999999\<rparr>) opened L' Map.empty) = Some a"
    using cache_coherent [THEN conjunct1, OF a refl L'', of "sample_visit\<lparr>en_cache_now := - 3599999999999\<rparr>" Map.empty]
    by (simp add: sample_enhanced_fields elapsed_def CACHE_TTL_def from_secs_def)
  with a show ?thesis by blast
qed

section \<open>Where the code falls short\<close>

lemma new_socket_parts: "ip_of (new_socket_addr a p) = a" "port_of (new_socket_addr a p) = p"
  by (cases a; simp)+

text \<open>
  C39. The tables list the sockets of both families in one form, the socket's own: a dual-stack socket
  connected over IPv4 stands in \<^verbatim>\<open>/proc/net/tcp6\<close> with IPv4-mapped addresses. The scan keeps that
  form, and so its row never answers for the connection seen over IPv4, though the row and its owner
  are known: the connection stays unattributed, unless \<^verbatim>\<open>/proc/net/tcp\<close> has an IPv4 socket with
  the same local port, and then the answer is the owner of that socket. (The table of the Kubernetes lookup
  and the keys of the socket map are normalised.)
\<close>
theorem dual_stack_unattributed:
  assumes "presents P rows" "canonical P" "new_linux_lookup P now = Some (Inr L)"
    and "\<forall>r \<in> set (rows ''/proc/net/tcp6''). \<exists>a. fst (sr_local r) = V6 a"
    and "r \<in> set (rows ''/proc/net/tcp6'')" "owns P (sr_inode r) own"
    and "sr_local r = (V6 (0xFFFF00000000 OR ucast a), sp)" "sr_remote r = (V6 (0xFFFF00000000 OR ucast b), dp)"
    and "co_protocol c = Tcp" "co_local_addr c = SockV4 a sp" "co_remote_addr c = SockV4 b dp"
  shows "ll_lookup L (row_key Tcp r) \<noteq> None \<and>
    (case linux_attribution P L c of
       None \<Rightarrow> True
     | Some found \<Rightarrow> \<exists>r' \<in> set (rows ''/proc/net/tcp''). \<exists>own'. snd (sr_local r') = sp \<and>
         owns P (sr_inode r') own' \<and> pa_tgid found = fst own') \<and>
    ((\<forall>r' \<in> set (rows ''/proc/net/tcp''). snd (sr_local r') \<noteq> sp) \<longrightarrow> linux_attribution P L c = None)"
proof -
  obtain m names where m: "build_process_map P = Some (Inr (m, names))" "ll_lookup L = m"
    using assms(3) by (rule new_linux_lookupE)
  have scan: "scanned P key own \<longleftrightarrow> (\<exists>inode. row_of rows key inode \<and> owns P inode own)" for key own
    by (simp add: scanned_def presented_line [OF assms(1)] holds_socket_owns [OF assms(2)])
  have "row_of rows (row_key Tcp r) (sr_inode r)"
    using assms(5) unfolding row_of_def table_files_def by auto
  with assms(6) scan build_process_map_spec(2) [OF m(1)] m(2) have known: "ll_lookup L (row_key Tcp r) \<noteq> None" by blast
  define ipv4 where "ipv4 own \<longleftrightarrow> (\<exists>r' \<in> set (rows ''/proc/net/tcp''). snd (sr_local r') = sp \<and> owns P (sr_inode r') own)"
    for own
  have source: "ipv4 own" if "ll_lookup L key = Some own"
      "key = from_connection c \<or> (\<exists>q. (key, q) \<in> set (candidates (from_connection c)))" for key own
  proof -
    have key: "cn_protocol key = Tcp" "port_of (cn_local key) = sp" "\<exists>a. ip_of (cn_local key) = V4 a"
      using that(2) assms(9,10) by (auto simp: candidates_def Let_def from_connection_def)
    from that(1) m build_process_map_spec(1) scan obtain inode where i: "row_of rows key inode" "owns P inode own" by blast
    from i(1) obtain tab protocol r' where r: "(tab, protocol) \<in> set table_files" "r' \<in> set (rows tab)"
        "key = row_key protocol r'" "inode = sr_inode r'"
      unfolding row_of_def by blast
    with key have "tab = ''/proc/net/tcp'' \<or> tab = ''/proc/net/tcp6''" "snd (sr_local r') = sp"
        "\<exists>a. fst (sr_local r') = V4 a" by (auto simp: table_files_def row_key_def new_socket_parts)
    with r assms(4) i(2) show ?thesis by (fastforce simp: ipv4_def)
  qed
  have "ipv4 (fst found, fst (snd found))" if "lookup_match L c = Some found" for found
  proof (cases "ll_lookup L (from_connection c)")
    case None
    with that obtain own q where "relaxed_lookup (ll_lookup L) (from_connection c) = Some (own, q)"
        "found = (fst own, snd own, ProcfsRelaxed)"
      by (auto simp: lookup_match_def Let_def)
    with relaxed_lookup_sound(1) source show ?thesis by fastforce
  next
    case (Some own)
    with that source [OF Some] show ?thesis by (auto simp: lookup_match_def Let_def split: prod.splits)
  qed
  then have "\<exists>own'. ipv4 own' \<and> pa_tgid found = fst own'" if "linux_attribution P L c = Some found" for found
    using that by (fastforce simp: linux_attribution_def)
  with known show ?thesis by (fastforce simp: ipv4_def split: option.split)
qed

lemma dual_stack_unattributed_witness:
  "\<exists>L. new_linux_lookup (sample_procfs rows6) 0 = Some (Inr L) \<and> linux_attribution (sample_procfs rows6) L opened = None \<and>
     ll_lookup L (row_key Tcp row6) \<noteq> None"
proof (rule sample_scan [of rows6])
  fix m names
  assume "build_process_map (sample_procfs rows6) = Some (Inr (m, names))"
  then obtain L where L: "new_linux_lookup (sample_procfs rows6) 0 = Some (Inr L)"
    by (simp add: new_linux_lookup_def)
  have row: "sr_local row6 = (V6 0xFFFF0A000001, 40000)" "sr_remote row6 = (V6 0xFFFF5DB8D822, 443)"
      "sr_inode row6 = 4242" by (simp_all add: row6_def sample_row_def)
  have six: "\<forall>r \<in> set (rows6 ''/proc/net/tcp6''). \<exists>a. fst (sr_local r) = V6 a" "row6 \<in> set (rows6 ''/proc/net/tcp6'')"
    "rows6 ''/proc/net/tcp'' = []" using row by (simp_all add: rows6_def)
  have own: "owns (sample_procfs rows6) (sr_inode row6) (77, str ''curl'')" by (simp add: row sample_owner)
  have "linux_attribution (sample_procfs rows6) L opened = None \<and> ll_lookup L (row_key Tcp row6) \<noteq> None"
    using dual_stack_unattributed [OF sample_presents sample_canonical L six(1,2) own, of "0x0A000001" 40000 "0x5DB8D822" 443 opened]
    by (simp add: row opened_fields six(3))
  with L show ?thesis by blast
qed simp

text \<open>
  A process whose name cannot be read goes into the table of names as \<^verbatim>\<open>unknown\<close>, while the
  placeholder the enrichment would replace later is \<^verbatim>\<open>Unknown\<close>. So the placeholder hides the name the kernel has
  recorded, and the connection counts as complete: no pass will ask about it again.
\<close>
theorem unknown_name_stays:
  assumes "read_to_string P (proc_entry pid ''/comm'') = None" "pi_pid (sm_info r) = pid"
    and "ll_pid_names (el_procfs L) pid = Some (process_name P (proc_entry pid ''''))"
    and "a = fst (attribution_from_ebpf Q r b L)" "co_process_name c = None \<or> co_process_name c = Some UNKNOWN_PROCESS_NAME"
  shows "pa_name a = str ''unknown'' \<and> co_process_name (fst (enrich_connection a c)) = Some (str ''unknown'') \<and>
    \<not> wants_enrichment full_pass now (fst (enrich_connection a c))"
proof -
  have "process_name P (proc_entry pid '''') = str ''unknown''"
    using assms(1) unfolding process_name_def
    by (simp add: proc_entry_def) (simp add: str_def trim_def trim_start_def trim_end_def is_whitespace_def)
  with assms(2,3) have "fst (get_process_name_by_pid Q (pi_pid (sm_info r)) (el_procfs L)) = Some (str ''unknown'')"
    by (simp add: get_process_name_by_pid_def)
  then have name: "pa_name a = str ''unknown''"
    unfolding assms(4)
    by (simp add: attribution_from_ebpf_def Let_def case_prod_beta new_attribution_def with_executable_def
        with_parent_pid_def with_credentials_def with_tid_def with_observed_at_ns_def refine_truncated_name_def
        COMM_MAX_def str_def split: option.split)
  have "str ''unknown'' \<noteq> UNKNOWN_PROCESS_NAME" by (simp add: UNKNOWN_PROCESS_NAME_def str_def)
  with name assms(5) show ?thesis
    by (auto simp: enrich_eq enriched_name_def wants_enrichment_def process_enrichment_complete_def set_once_if)
qed

lemma unknown_name_stays_witness:
  "\<not> wants_enrichment True 0 (fst (enrich_connection (fst (attribution_from_ebpf (sample_procfs rows4) sample_match EbpfFentry
     ((sample_enhanced rows4)\<lparr>el_procfs := \<lparr>ll_lookup = Map.empty, ll_last_refresh = 0,
        ll_pid_names = [1200 \<mapsto> str ''unknown'']\<rparr>\<rparr>))) opened))"
proof -
  let ?P = "(sample_procfs rows4)\<lparr>pf_read := \<lambda>_. None\<rparr>"
  have none: "read_to_string ?P p = None" for p by (simp add: read_to_string_def)
  then have "process_name ?P (proc_entry 1200 '''') = str ''unknown''"
    unfolding process_name_def by (simp add: str_def trim_def trim_start_def trim_end_def is_whitespace_def)
  moreover have "pi_pid (sm_info sample_match) = 1200"
    by (simp add: sample_match_def) (rule current_process_ids(1), simp_all add: env4_def sample_env_def)
  moreover have "co_process_name opened = None" using opened_fields(4) by (simp add: identity_def no_identity_def)
  ultimately show ?thesis
    using unknown_name_stays [OF none _ _ refl, of sample_match 1200] by simp
qed

text \<open>
  The executable of a process whose file has been removed is presented with \<^verbatim>\<open>(deleted)\<close> at its end,
  and that text becomes part of a name as long as the kernel keeps it, truncated or not.
\<close>

lemma deleted_executable_name:
  "refine_truncated_name (str ''systemd-resolve'') (Some ''/usr/lib/systemd-resolve (deleted)'') =
     str ''systemd-resolve (deleted)''"
  by code_simp

end
