(* ===== verification/Spec2Isabelle.thy ===== *)
theory Spec2Isabelle
  imports Sample_Host Tracker_Properties Flow_Properties Parser_Properties Dpi_Properties Attribution_Properties
begin

text \<open>
  RustNet shows the network connections of a host and the processes behind them. Three subsystems
  carry its logic, and this development models them.

  Attribution, in C and Rust: eBPF programs that run inside the kernel when a socket connects,
  accepts or sends record the process in a hash map, \<^verbatim>\<open>socket_map\<close>, and a tracker in user space
  asks that map for the owner of a connection seen on the wire; the two share the map as raw
  bytes (\<^verbatim>\<open>src/crates/rustnet-host/src/linux/ebpf\<close>, the bundled kernel headers under
  \<^verbatim>\<open>resources/ebpf/vmlinux\<close>, and the vocabulary of \<^verbatim>\<open>rustnet-host/src/lib.rs\<close>). Where the map has no
  answer, a scan of \<^verbatim>\<open>/proc\<close> may have (\<^verbatim>\<open>process.rs\<close>); the lookup of \<^verbatim>\<open>enhanced.rs\<close> puts the two behind a
  cache, and a thread of \<^verbatim>\<open>src/app.rs\<close> writes its answers into the table of connections.

  Connection tracking, in Rust (\<^verbatim>\<open>src/crates/rustnet-core/src/network\<close>): parsed packets are folded
  into a table of live connections with their TCP state, loss, round trips, rates and the
  findings of packet inspection; connections expire into an archive (\<^verbatim>\<open>tracker.rs\<close>,
  \<^verbatim>\<open>merge.rs\<close>, \<^verbatim>\<open>types.rs\<close>).

  Parsing and inspection, in Rust: processor threads (\<^verbatim>\<open>src/app.rs\<close>) take captured frames through
  the link, network and transport layers (\<^verbatim>\<open>parser.rs\<close>, \<^verbatim>\<open>link_layer\<close>, \<^verbatim>\<open>protocol\<close>), recognize what a
  payload speaks (\<^verbatim>\<open>dpi\<close>), and hand the packet to the tracker.

  A frame thus becomes a \<open>parsed_packet\<close>, that packet an update of a \<open>connection\<close> under its
  \<open>connection_key\<close>, and that key the question attribution answers.

  The theories of attribution, bottom up.

  \<^item> \<open>Prelude\<close>: bytes and machine words, their encodings in either byte order, the byte
    swaps of \<^verbatim>\<open>bpf_endian.h\<close>, and the simplifier collections \<open>layout\<close> and \<open>codec\<close>.
  \<^item> \<open>C_Layout\<close>: C types under a data model (pointer and long sizes, alignments): sizes,
    alignments, member offsets through anonymous members, unions and bit-fields, with the proof
    that a member found lies inside its object and that members of a structure do not overlap.
  \<^item> \<open>Vmlinux_x86\<close>, \<open>Vmlinux_aarch64\<close>, \<open>Vmlinux_arm\<close>: the structures of the three
    \<^verbatim>\<open>vmlinux.h\<close> files that the programs reach (the protocol sockets, \<^verbatim>\<open>msghdr\<close>, the socket
    addresses, \<^verbatim>\<open>task_struct\<close>) with everything they embed by value, one definition per type.
  \<^item> \<open>Net_Addr\<close>: addresses, their octets, IPv4-mapped addresses. \<open>Utf8\<close>: lossy decoding.
  \<^item> \<open>Tracker_Types\<close>: \<^verbatim>\<open>socket_tracker_types.h\<close>, with the locale \<open>abi_codec\<close> (a fixed-size image
    and its inverse), interpreted by keys and values.
  \<^item> \<open>Bpf_Core\<close>: CO-RE relocation of the field accesses, and the helpers as the record \<open>bpf_env\<close>.
  \<^item> \<open>Tracker_Helpers\<close>: \<^verbatim>\<open>socket_tracker_helpers.h\<close>, one definition per C function.
    \<open>Tracker_Spec\<close>: what each of them promises about the socket in memory (\<open>sock_view\<close>), as the
    key of a flow, and the proof that it stores exactly that.
  \<^item> \<open>Tracker_Programs\<close>: \<^verbatim>\<open>socket_tracker_fentry.bpf.c\<close> and \<^verbatim>\<open>socket_tracker_kprobe.bpf.c\<close>, runs of
    probe hits, and the locale \<open>tracker_backend\<close> with its invariants, interpreted by both.
    \<open>Backends\<close>: the two program files leave the same map.
  \<^item> \<open>Kernels\<close>: relocation on the bundled kernels, bounds of the reads, embedding of sockets.
  \<^item> \<open>Map_Abi\<close>: \<^verbatim>\<open>maps_libbpf.rs\<close>, with the locales \<open>map_handle\<close> (calls may fail, the kernel may
    interfere) and \<open>quiet_map\<close> (neither), interpreted by a hash map.
  \<^item> \<open>Attribution\<close>: \<^verbatim>\<open>lib.rs\<close>. \<open>Socket_Tracker\<close>: \<^verbatim>\<open>tracker_libbpf.rs\<close>.
  \<^item> \<open>Loader\<close> and \<open>Backend_Loading\<close>: \<^verbatim>\<open>loader.rs\<close>.
  \<^item> \<open>Sample_Host\<close>: a concrete host on which every hypothesis used below holds.

  The theories of connection tracking, bottom up.

  \<^item> \<open>App_Protocols\<close>, \<open>Crypto_Reassembler\<close>, \<open>Core_Types\<close>: \<^verbatim>\<open>types.rs\<close>, that is the findings of the
    inspection per protocol, the reassembly of QUIC CRYPTO frames (abstraction: the partial map
    \<open>known\<close> from stream positions to bytes), states, packets, the connection, its timeouts.
  \<^item> \<open>Tcp_Machine\<close>: \<^verbatim>\<open>update_tcp_state\<close> of \<^verbatim>\<open>merge.rs\<close> and the diagram it stays within.
    \<open>Tcp_Analysis\<close>: \<^verbatim>\<open>analyze_tcp_segment\<close>, against a reference with unbounded sequence numbers.
  \<^item> \<open>Rate_Tracking\<close> and \<open>Rtt_Tracking\<close>: \<^verbatim>\<open>RateTracker\<close> and \<^verbatim>\<open>RttTracker\<close> of \<^verbatim>\<open>types.rs\<close>.
  \<^item> \<open>App_Merge\<close>: merging the findings of a packet, per protocol. \<open>Packet_Merge\<close>: creating a
    connection from a packet and merging one into it, and the effect on each field.
    \<open>Connection_Life\<close>: the invariant \<open>conn_ok\<close> and sequences of packets.
  \<^item> \<open>Tables\<close>: hash tables that are counted and iterated, the loop that evicts the oldest
    entries, and the locale \<open>retention\<close>, interpreted by that loop for any notion of age.
  \<^item> \<open>Conn_Tracker\<close>: \<^verbatim>\<open>ConnectionTracker\<close> of \<^verbatim>\<open>tracker.rs\<close>, one definition per method, and histories of
    operations. \<open>Tracker_Invariant\<close>: its invariant. \<open>Tracker_Accounts\<close>: conservation of counters,
    in the locale \<open>flow_counter\<close>, interpreted by packets and by bytes. \<open>Tracker_Lifecycle\<close> and
    \<open>Tracker_Generations\<close>: cleanup, tombstones, the archive, generations of one tuple in time.
    \<open>Tracker_Threads\<close>: the accesses of several threads interleaved, the limit and the accounts of the
    table under every interleaving, and that the steps of a thread are \<open>ingest_at\<close>.
  \<^item> \<open>Sample_Traffic\<close>: concrete traffic. \<open>Flow_Properties\<close> and \<open>Tracker_Properties\<close>: properties.

  The theories that attribute connections, bottom up.

  \<^item> \<open>Process_Scan\<close>: \<^verbatim>\<open>process.rs\<close>, over a record of what \<^verbatim>\<open>/proc\<close> answers. \<open>Procfs_Laws\<close>: the tables of a
    scan as the composition of two relations, lines of endpoints and holders of sockets.
    \<open>Procfs_Tables\<close>: the tables as the kernel prints them, read back. \<open>Procfs_View\<close>: the whole scan
    of the \<^verbatim>\<open>/proc\<close> a kernel presents.
  \<^item> \<open>Enhanced_Lookup\<close>: \<^verbatim>\<open>enhanced.rs\<close> and \<^verbatim>\<open>linux/mod.rs\<close>. \<open>Enhanced_Laws\<close>: an answer, the cache and the
    statistics of one lookup. \<open>Answer_Sources\<close>: where every answer comes from, in the context of
    \<open>tracker_backend\<close>.
  \<^item> \<open>Process_Enrichment\<close>: the enrichment thread of \<^verbatim>\<open>app.rs\<close>, its loop and its steps between those of the
    others. \<open>Enrichment_Laws\<close>: the fields of an attribution, and the locale \<open>lasting\<close> (a property of
    connections that every operation of the tracker keeps), interpreted by attributed
    connections. \<open>Application_Laws\<close>: runs of the whole application.
  \<^item> \<open>Sample_Procfs\<close>: a concrete \<^verbatim>\<open>/proc\<close>. \<open>Attribution_Properties\<close>: properties.

  The theories of parsing and inspection, bottom up.

  \<^item> \<open>Slices\<close>: indexing and slicing as Rust does it, where an access out of bounds is \<open>None\<close>, with the
    collections \<open>inbounds\<close> (accesses that are in bounds) and \<open>wp\<close> (computations that do not
    panic, \<open>yields\<close>). \<open>Rust_Strings\<close>: the operations of \<^verbatim>\<open>str\<close> the code uses.
  \<^item> \<open>Oui\<close>: \<^verbatim>\<open>oui.rs\<close>. \<open>Packet_Parser\<close>: transport and network headers of \<^verbatim>\<open>protocol\<close> and
    \<^verbatim>\<open>parser.rs\<close>. \<open>Link_Layer\<close>: \<^verbatim>\<open>link_layer\<close> and \<^verbatim>\<open>parse_packet\<close>. \<open>Endpoint_Refresh\<close>: the refresh of local
    addresses.
  \<^item> \<open>Dpi_Dns\<close>, \<open>Dpi_Binary\<close> (NTP, DHCP, STUN, NetBIOS, SNMP, MQTT, BitTorrent), \<open>Dpi_Text\<close> (HTTP, SSDP,
    FTP, SSH) and \<open>Dpi_Tls\<close>: the recognizers of \<^verbatim>\<open>dpi\<close>, one definition per function and loop. \<open>Dpi\<close>: the
    dispatch of \<^verbatim>\<open>dpi/mod.rs\<close>.
  \<^item> \<open>Quic_Tls\<close>: the half of \<^verbatim>\<open>dpi/quic.rs\<close> that finds TLS data in the CRYPTO data of a connection: host
    names, hello messages, and the strategies of \<^verbatim>\<open>try_extract_tls_from_reassembler\<close>, which the merge of
    packets calls too. \<open>Quic_Packet\<close>: the other half, datagrams, headers, packet protection and frames,
    over the record \<open>quic_crypto\<close> of what \<^verbatim>\<open>ring\<close> and \<^verbatim>\<open>aes\<close> provide.
  \<^item> \<open>Parser_Safety\<close>: no frame makes the parser panic and what it returns is well formed, in the
    locale \<open>inspection\<close>, the contract of packet inspection. \<open>Quic_Safety\<close> and \<open>Dpi_Safety\<close>: no payload
    makes a recognizer panic, and so the dispatch interprets the locale.
  \<^item> \<open>Wire_Formats\<close>, \<open>Frame_Laws\<close>, \<open>Dns_Wire\<close>, \<open>Dpi_Wire\<close>, \<open>Tls_Wire\<close>: encoders of headers, frames and
    messages as the standards define them, with the lemmas that the parsers read them back.
    \<open>Quic_Wire\<close> and \<open>Quic_Protection\<close>: the same for the first flight of a QUIC client, frames, hello and the
    protection of the packet (\<open>protect_initial\<close>, RFC 9001). \<open>Dpi_Signatures\<close>: the signatures of the TCP protocols exclude each other.
  \<^item> \<open>Capture_Thread\<close>: the processor threads of \<^verbatim>\<open>app.rs\<close>, which feed the tracker.
    \<open>Parser_Properties\<close> and \<open>Dpi_Properties\<close>: properties.

  How the model corresponds to the code. A C or Rust structure is a record, an enumeration a
  datatype, an integer a word of its width; arithmetic wraps where the code's does. A C
  function that fills a structure returns it; one that stores into the map returns its result
  and the map; a method on \<^verbatim>\<open>&mut self\<close> or on a table behind a lock returns the new state. An
  error is the left of a sum, an absent value is \<open>None\<close>, a panic is \<open>None\<close> of an outer option.
  The host's byte order is a parameter everywhere in attribution. Sizes of type \<^verbatim>\<open>usize\<close> are natural
  numbers; the counter of active connections is a 64-bit word. Times are integers in
  nanoseconds and durations natural numbers; the additions of durations in the code do not
  overflow for any duration between two representable times, and where an addition to a
  time is checked in the code (\<^verbatim>\<open>checked_add\<close>, \<^verbatim>\<open>checked_sub\<close>) so it is here. Loops are structural
  recursions or folds over the lists the code iterates; the general recursions (UTF-8
  decoding, decimal printing, the loops over the rate window) have termination proofs, and
  for the last the \<^verbatim>\<open>while\<close> loops themselves are shown to end (C32); so have the
  walks over labels, options, extensions and attributes in a packet. Nothing needs fuel.

  What the code calls but does not contain is a parameter, with its documentation as named
  hypothesis: BPF helpers (\<open>helper_laws\<close>, \<open>map_law\<close>), saved registers (\<open>regs_law\<close>), map calls of
  libbpf (\<open>map_handle\<close>, \<open>quiet_map\<close>, \<open>reads_host\<close>), the clock, the kernel's BTF, the results of
  opening, loading and attaching, files under \<^verbatim>\<open>/proc\<close>, and Unicode lower casing (\<open>lower_law\<close>).
  Kernel memory is what the read helper returns: \<open>sock_at\<close> and \<open>dest4_at\<close>, \<open>dest6_at\<close> relate it to
  the socket and message there. Each program run has its own environment, so between two hits
  memory, task and time may have changed in any way; the map is changed by whole
  operations in sequence, and \<open>between\<close> lets it change in the middle of a sweep. The connection
  tracker takes, with each packet, the readings of the monotonic clock and the iteration orders
  of its hash tables (any). That a packet is what the parsers produce is \<open>packet_ok\<close>, which they
  are shown to establish for frames of less than 4 GiB. The parser takes the addresses of the
  interfaces and the readings of the clock. The parser of QUIC packets takes HKDF, AES and AES-GCM (any
  functions; for C23 the law \<open>sealed_by\<close>, that opening inverts sealing and expanding a key does not fail). Its
  sums of \<^verbatim>\<open>usize\<close> are those of 64-bit targets.

  The properties. Attribution: a stored connection is found (C1, C10) and nothing else is (C5); each
  hook against its specification (C33, C34); invariants of runs and agreement of the two backends
  (C35, C36); the byte format shared by both sides (C37); the sweep (C38); loading (C40). Into the
  table of connections: every attribution has its source (C3), a task that connects becomes the
  process (C4), the scan of \<^verbatim>\<open>/proc\<close> (C8), tables and statistics over whole runs (C9), the cache (C19),
  and sockets the fallback never finds by their own row (C39). Tracking: the invariant and the
  accounts of the table (C2, C6), how connections leave and what they leave behind (C12, C13, C17),
  the limit and the accounts under threads (C15, C16), the flow of one connection (C26 to C29, C32) and reassembly (C30). Parsing: frames
  to the tracker (C7), headers read as sent (C11, C20), link layers (C18), directions (C14), fragments
  (C25). Inspection: messages read as sent (C21, C22), the protected first packet of a QUIC client (C23),
  the bounds of the QUIC parser (C31), the order of the protocols (C24).
  Beside them stand theorems on echo requests, the recorded process, kernel types, images of keys and
  values, keys built in user space, relaxed lookup, capabilities and mounts, handshake round trips,
  merges, archive keys, the bounds of the reassembler and of DNS, names that cannot be read, and the messages of
  SNMP, STUN and MQTT. C27, C39, C40, some of those, the lemmas of the last section and those of the last
  sections of \<open>Quic_Protection\<close> contain cases in which the code falls short of its intent.

  Not modelled: of the modelled parts, the floating-point arithmetic of displayed
  rates and averages is left out (a cached rate is kept as its bits), and of the processor
  threads the export of captures and the event logs. Left aside: other platforms' lookups and
  the PKTAP header of macOS, the capture library, the server, the user interface, telemetry and
  packaging, which are glue around system interfaces; debug logging; and the types of
  \<^verbatim>\<open>vmlinux.h\<close> the programs do not touch.
\<close>

section \<open>From a probe to a lookup\<close>

text \<open>
  C1. A TCP connection seen on the wire as IPv4, whether its socket is an IPv4 one or a dual-stack
  one with an IPv4-mapped peer: once the hook has stored it, looking up the address pair and
  ports on the wire returns the process that ran the hook, as an exact match.
\<close>

theorem tcp_v4_attribution:
  assumes "helper_laws E" "map_law E" "reads_host T (host E)"
    and "contains (st_caps T) TCP_V4_CONNECT"
    and "sk \<noteq> 0" "sock_at E sk s"
    and "sv_family s = 2 \<or> sv_family s = 10 \<and> v4_mapped (sv_v6_daddr s)"
    and "track_tcp_socket E sk m = (0, m')"
  shows "lookup T m' (V4 (sv_rcv_saddr s)) (V4 (sv_daddr s)) (sv_num s) (sv_dport s) True =
     Some \<lparr>sm_info = current_process E, sm_quality = ExactTuple\<rparr>"
proof -
  let ?k = "key_v4 (host E) (sv_rcv_saddr s) (sv_daddr s) (sv_num s) (sv_dport s) IPPROTO_TCP"
  have "tcp_key (host E) s = Some ?k" using assms(7) by (auto simp: tcp_key_def)
  with assms(8) have "store_connection E ?k m = (0, m')"
    by (simp add: track_tcp_socket_at [OF assms(5,6)] store_opt_def)
  then have "m' = m(conn_key_bytes (host E) ?k \<mapsto> current_value E)"
    by (rule store_ok [OF assms(2)])
  then have "m' (conn_key_bytes (host E) ?k) = Some (current_value E)" by simp
  with lookup_v4_stored [OF assms(1,3), of "sv_rcv_saddr s" True m' "sv_rcv_saddr s"] assms(4)
  show ?thesis by (simp add: lookup_needs_def transport_def)
qed

lemma tcp_v4_attribution_witness:
  "lookup (sample_tracker []) (snd (track_tcp_socket (env4 sock_mapped None) SK Map.empty))
     (V4 0x0A000001) (V4 0x5DB8D822) 40002 80 True =
   Some \<lparr>sm_info = current_process (env4 sock_mapped None), sm_quality = ExactTuple\<rparr>"
proof -
  have mapped: "v4_mapped (sv_v6_daddr sock_mapped)"
    by (simp add: v4_mapped_nat sock_mapped_def)
  have "track_tcp_socket (env4 sock_mapped None) SK Map.empty =
      (0, snd (track_tcp_socket (env4 sock_mapped None) SK Map.empty))"
    by (simp only: track_tcp_socket_at [OF addrs_nonzero(1) env_sock_at(1)])
      (rule env_store_opt)
  from tcp_v4_attribution [of "env4 sock_mapped None" "sample_tracker []" SK sock_mapped Map.empty, OF _ _ _ _ _ _ _ this]
    mapped env_sock_at(1) [of sock_mapped None]
  show ?thesis
    by (simp add: sample_tracker_reads sample_caps) (simp add: sock_mapped_def)
qed

text \<open>
  The same for a TCP connection over IPv6 proper.
\<close>

theorem tcp_v6_attribution:
  assumes "helper_laws E" "map_law E" "reads_host T (host E)"
    and "contains (st_caps T) TCP_V6_CONNECT"
    and "sk \<noteq> 0" "sock_at E sk s" "sv_family s = 10" "\<not> v4_mapped (sv_v6_daddr s)"
    and "track_tcp_socket E sk m = (0, m')"
  shows "lookup T m' (V6 (sv_v6_rcv_saddr s)) (V6 (sv_v6_daddr s)) (sv_num s) (sv_dport s) True =
     Some \<lparr>sm_info = current_process E, sm_quality = ExactTuple\<rparr>"
proof -
  let ?k = "key_v6 (host E) (sv_v6_rcv_saddr s) (sv_v6_daddr s) (sv_num s) (sv_dport s) IPPROTO_TCP"
  have "tcp_key (host E) s = Some ?k" using assms(7,8) by (simp add: tcp_key_def)
  with assms(9) have "store_connection E ?k m = (0, m')"
    by (simp add: track_tcp_socket_at [OF assms(5,6)] store_opt_def)
  then have "m' = m(conn_key_bytes (host E) ?k \<mapsto> current_value E)"
    by (rule store_ok [OF assms(2)])
  then have "m' (conn_key_bytes (host E) ?k) = Some (current_value E)" by simp
  with lookup_v6_stored [OF assms(1,3), of "sv_v6_rcv_saddr s" True m' "sv_v6_rcv_saddr s"] assms(4)
  show ?thesis by (simp add: lookup_needs_def transport_def)
qed

lemma tcp_v6_attribution_witness:
  "lookup (sample_tracker []) (snd (track_tcp_socket (env6 sock6 None) SK Map.empty))
     (V6 0x20010DB8000000000000000000000001) (V6 0x20010DB8000000000000000000000002) 40001 443 True =
   Some \<lparr>sm_info = current_process (env6 sock6 None), sm_quality = ExactTuple\<rparr>"
proof -
  have plain: "\<not> v4_mapped (sv_v6_daddr sock6)"
    by (simp add: v4_mapped_nat sock6_def)
  have "track_tcp_socket (env6 sock6 None) SK Map.empty =
      (0, snd (track_tcp_socket (env6 sock6 None) SK Map.empty))"
    by (simp only: track_tcp_socket_at [OF addrs_nonzero(1) env_sock_at(2)])
      (rule env_store_opt)
  from tcp_v6_attribution [of "env6 sock6 None" "sample_tracker []" SK sock6 Map.empty, OF _ _ _ _ _ _ _ plain this]
    env_sock_at(2) [of sock6 None]
  show ?thesis
    by (simp add: sample_tracker_reads sample_caps) (simp add: sock6_def)
qed

text \<open>
  C10. A datagram over IPv4, to the destination its message names or else to the connected peer:
  after a successful hook, a lookup of the packet's tuple returns the sending process. It is an
  exact match when the socket is bound to the packet's source address and, when the socket is
  bound to the wildcard address and nothing is recorded for the exact tuple, a match of
  quality \<open>WildcardLocalAddress\<close>.
\<close>

theorem udp_v4_attribution:
  assumes "helper_laws E" "map_law E" "reads_host T (host E)"
    and "contains (st_caps T) UDP_V4_SEND"
    and "sk \<noteq> 0" "msg \<noteq> 0" "sock_at E sk s" "dest4_at E msg d"
    and "(dst, port) = (case d of Some ap \<Rightarrow> ap | None \<Rightarrow> (sv_daddr s, sv_dport s))" "dst \<noteq> 0"
    and "src = sv_rcv_saddr s \<or> sv_rcv_saddr s = 0 \<and>
      m (conn_key_bytes (host E) (key_v4 (host E) src dst (sv_num s) port IPPROTO_UDP)) = None"
    and "track_udp_v4 E sk msg m = (0, m')"
  shows "lookup T m' (V4 src) (V4 dst) (sv_num s) port False =
     Some \<lparr>sm_info = current_process E,
           sm_quality = (if sv_rcv_saddr s = src then ExactTuple else WildcardLocalAddress)\<rparr>"
proof -
  let ?k = "key_v4 (host E) (sv_rcv_saddr s) dst (sv_num s) port IPPROTO_UDP"
  have "udp4_key (host E) s d = Some ?k"
    using assms(10) by (simp add: udp4_key_def flip: assms(9))
  with assms(12) have "store_connection E ?k m = (0, m')"
    by (simp add: track_udp_v4_at [OF assms(5-8)] store_opt_def)
  then have m': "m' = m(conn_key_bytes (host E) ?k \<mapsto> current_value E)"
    by (rule store_ok [OF assms(2)])
  show ?thesis
    by (rule lookup_v4_stored [OF assms(1,3)])
      (use assms(4,11) in \<open>auto simp: m' lookup_needs_def transport_def key_v4_inject\<close>)
qed

lemma udp_v4_attribution_witness:
  "lookup (sample_tracker []) (snd (track_udp_v4 (env4 sock_unbound (Some (0x08080808, 53))) SK MSG Map.empty))
     (V4 0xC0A80105) (V4 0x08080808) 40003 53 False =
   Some \<lparr>sm_info = current_process (env4 sock_unbound (Some (0x08080808, 53))),
         sm_quality = WildcardLocalAddress\<rparr>"
proof -
  let ?d = "Some (0x08080808, 53) :: (ipv4 \<times> u16) option"
  have run: "track_udp_v4 (env4 sock_unbound ?d) SK MSG Map.empty =
      (0, snd (track_udp_v4 (env4 sock_unbound ?d) SK MSG Map.empty))"
    by (simp add: track_udp_v4_at [OF addrs_nonzero env_sock_at(1) env_dest4_at] udp4_key_def
        store_opt_def env_store_empty)
  have "lookup (sample_tracker []) (snd (track_udp_v4 (env4 sock_unbound ?d) SK MSG Map.empty))
      (V4 0xC0A80105) (V4 0x08080808) (sv_num sock_unbound) 53 False =
      Some \<lparr>sm_info = current_process (env4 sock_unbound ?d),
        sm_quality = (if sv_rcv_saddr sock_unbound = 0xC0A80105 then ExactTuple else WildcardLocalAddress)\<rparr>"
    by (rule udp_v4_attribution [OF _ _ _ _ addrs_nonzero env_sock_at(1) env_dest4_at _ _ _ run])
      (simp_all add: sample_tracker_reads sample_caps, simp add: sock_unbound_def)
  then show ?thesis by (simp add: sock_unbound_def)
qed

text \<open>
  Datagrams over IPv6, likewise.
\<close>

theorem udp_v6_attribution:
  assumes "helper_laws E" "map_law E" "reads_host T (host E)"
    and "contains (st_caps T) UDP_V6_SEND"
    and "sk \<noteq> 0" "msg \<noteq> 0" "sock_at E sk s" "dest6_at E msg d"
    and "(dst, port) = (case d of Some ap \<Rightarrow> ap | None \<Rightarrow> (sv_v6_daddr s, sv_dport s))"
    and "src = sv_v6_rcv_saddr s \<or> sv_v6_rcv_saddr s = 0 \<and>
      m (conn_key_bytes (host E) (key_v6 (host E) src dst (sv_num s) port IPPROTO_UDP)) = None"
    and "track_udp_v6 E sk msg m = (0, m')"
  shows "lookup T m' (V6 src) (V6 dst) (sv_num s) port False =
     Some \<lparr>sm_info = current_process E,
           sm_quality = (if sv_v6_rcv_saddr s = src then ExactTuple else WildcardLocalAddress)\<rparr>"
proof -
  let ?k = "key_v6 (host E) (sv_v6_rcv_saddr s) dst (sv_num s) port IPPROTO_UDP"
  have "udp6_key (host E) s d = ?k"
    by (simp add: udp6_key_def flip: assms(9))
  with assms(11) have "store_connection E ?k m = (0, m')"
    by (simp add: track_udp_v6_at [OF assms(5-8)])
  then have m': "m' = m(conn_key_bytes (host E) ?k \<mapsto> current_value E)"
    by (rule store_ok [OF assms(2)])
  show ?thesis
    by (rule lookup_v6_stored [OF assms(1,3)])
      (use assms(4,10) in \<open>auto simp: m' lookup_needs_def transport_def key_v6_inject\<close>)
qed

lemma udp_v6_attribution_witness:
  "lookup (sample_tracker []) (snd (track_udp_v6 (env6 sock6 (Some (0xFE800000000000000000000000000009, 5353))) SK MSG Map.empty))
     (V6 0x20010DB8000000000000000000000001) (V6 0xFE800000000000000000000000000009) 40001 5353 False =
   Some \<lparr>sm_info = current_process (env6 sock6 (Some (0xFE800000000000000000000000000009, 5353))),
         sm_quality = ExactTuple\<rparr>"
proof -
  let ?d = "Some (0xFE800000000000000000000000000009, 5353) :: (ipv6 \<times> u16) option"
  have run: "track_udp_v6 (env6 sock6 ?d) SK MSG Map.empty =
      (0, snd (track_udp_v6 (env6 sock6 ?d) SK MSG Map.empty))"
    by (simp add: track_udp_v6_at [OF addrs_nonzero env_sock_at(2) env_dest6_at] env_store_empty)
  have "lookup (sample_tracker []) (snd (track_udp_v6 (env6 sock6 ?d) SK MSG Map.empty))
      (V6 (sv_v6_rcv_saddr sock6)) (V6 0xFE800000000000000000000000000009) (sv_num sock6) 5353 False =
      Some \<lparr>sm_info = current_process (env6 sock6 ?d),
        sm_quality = (if sv_v6_rcv_saddr sock6 = sv_v6_rcv_saddr sock6 then ExactTuple else WildcardLocalAddress)\<rparr>"
    by (rule udp_v6_attribution [OF _ _ _ _ addrs_nonzero env_sock_at(2) env_dest6_at _ _ run])
      (simp_all add: sample_tracker_reads sample_caps)
  then show ?thesis by (simp add: sock6_def)
qed

text \<open>
  A ping over IPv4: after a successful hook, the ICMP lookup of its identifier returns the
  process, under the same two qualities.
\<close>

theorem icmp_v4_attribution:
  assumes "helper_laws E" "map_law E" "reads_host T (host E)"
    and "contains (st_caps T) ICMP_V4_SEND"
    and "sk \<noteq> 0" "msg \<noteq> 0" "sock_at E sk s" "dest4_at E msg d"
    and "dst = (case d of Some (a, _) \<Rightarrow> a | None \<Rightarrow> sv_daddr s)" "dst \<noteq> 0"
    and "src = sv_rcv_saddr s \<or> sv_rcv_saddr s = 0 \<and>
      m (conn_key_bytes (host E) (key_v4 (host E) src dst (sv_num s) 0 IPPROTO_ICMP)) = None"
    and "track_ping_v4 E sk msg m = (0, m')"
  shows "lookup_icmp T m' (V4 src) (V4 dst) (sv_num s) =
     Some \<lparr>sm_info = current_process E,
           sm_quality = (if sv_rcv_saddr s = src then ExactTuple else WildcardLocalAddress)\<rparr>"
proof -
  let ?k = "key_v4 (host E) (sv_rcv_saddr s) dst (sv_num s) 0 IPPROTO_ICMP"
  have "ping4_key (host E) s d = Some ?k"
    using assms(10) by (simp add: ping4_key_def flip: assms(9))
  with assms(12) have "store_connection E ?k m = (0, m')"
    by (simp add: track_ping_v4_at [OF assms(5-8)] store_opt_def)
  then have m': "m' = m(conn_key_bytes (host E) ?k \<mapsto> current_value E)"
    by (rule store_ok [OF assms(2)])
  show ?thesis
    by (rule lookup_icmp_v4_stored [OF assms(1,3,4)])
      (use assms(11) in \<open>auto simp: m' key_v4_inject\<close>)
qed

lemma icmp_v4_attribution_witness:
  "lookup_icmp (sample_tracker []) (snd (track_ping_v4 (env4 sock_unbound (Some (0x08080808, 0))) SK MSG Map.empty))
     (V4 0xC0A80105) (V4 0x08080808) 40003 =
   Some \<lparr>sm_info = current_process (env4 sock_unbound (Some (0x08080808, 0))),
         sm_quality = WildcardLocalAddress\<rparr>"
proof -
  let ?d = "Some (0x08080808, 0) :: (ipv4 \<times> u16) option"
  have run: "track_ping_v4 (env4 sock_unbound ?d) SK MSG Map.empty =
      (0, snd (track_ping_v4 (env4 sock_unbound ?d) SK MSG Map.empty))"
    by (simp add: track_ping_v4_at [OF addrs_nonzero env_sock_at(1) env_dest4_at] ping4_key_def
        store_opt_def env_store_empty)
  have "lookup_icmp (sample_tracker []) (snd (track_ping_v4 (env4 sock_unbound ?d) SK MSG Map.empty))
      (V4 0xC0A80105) (V4 0x08080808) (sv_num sock_unbound) =
      Some \<lparr>sm_info = current_process (env4 sock_unbound ?d),
        sm_quality = (if sv_rcv_saddr sock_unbound = 0xC0A80105 then ExactTuple else WildcardLocalAddress)\<rparr>"
    by (rule icmp_v4_attribution [OF _ _ _ _ addrs_nonzero env_sock_at(1) env_dest4_at _ _ _ run])
      (simp_all add: sample_tracker_reads sample_caps, simp add: sock_unbound_def)
  then show ?thesis by (simp add: sock_unbound_def)
qed

text \<open>
  Nothing is invented, trampoline backend: on a map that started empty, after any sequence of
  probe hits of any programs, every answer of a lookup is the process that ran in one of those
  hits, and that hit stores under the very flow that was asked about, its source being the one
  asked for (an exact answer) or the unspecified address (a wildcard answer).
\<close>

theorem attribution_sound_fentry:
  assumes "map_handle (st_api T)" "st_host T = e" "envs_ok e hs"
    and "m = run_hits fentry_run hs Map.empty"
  shows "(\<forall>r. lookup T m src dst sp dp is_tcp = Some r \<longrightarrow>
      (\<exists>k. flow_key e (matched_source (sm_quality r) src) dst sp dp is_tcp = Some k \<and>
        recorded_by fentry_run hs k (sm_info r))) \<and>
    (\<forall>r. lookup_icmp T m src dst icmp_id = Some r \<longrightarrow>
      (\<exists>k. ping_key e (matched_source (sm_quality r) src) dst icmp_id = Some k \<and>
        recorded_by fentry_run hs k (sm_info r)))"
proof -
  have stored: "stored_in fentry_run hs kb v" if "m kb = Some v" for kb v
    using fentry.run_provenance [OF assms(3)] that assms(4) by auto
  from lookup_recorded [OF assms(1) _ stored] lookup_icmp_recorded [OF assms(1) _ stored] assms(2,3)
  show ?thesis by blast
qed

lemma attribution_sound_fentry_witness:
  "recorded_by fentry_run sample_connect (key_v4 Little 0x0A000001 0x5DB8D822 40000 443 IPPROTO_TCP)
     (sm_info sample_match)"
  using attribution_sound_fentry [THEN conjunct1, OF sample_handle _ sample_envs_ok(1) refl, THEN spec,
      THEN mp, OF _ sample_answer(1)]
  by (simp add: sample_match_def transport_def)

text \<open>
  The same for the kprobe backend, for any way of reading arguments out of registers.
\<close>

theorem attribution_sound_kprobe:
  assumes "map_handle (st_api T)" "st_host T = e" "envs_ok e hs"
    and "m = run_hits (kprobe_run R) hs Map.empty"
  shows "(\<forall>r. lookup T m src dst sp dp is_tcp = Some r \<longrightarrow>
      (\<exists>k. flow_key e (matched_source (sm_quality r) src) dst sp dp is_tcp = Some k \<and>
        recorded_by (kprobe_run R) hs k (sm_info r))) \<and>
    (\<forall>r. lookup_icmp T m src dst icmp_id = Some r \<longrightarrow>
      (\<exists>k. ping_key e (matched_source (sm_quality r) src) dst icmp_id = Some k \<and>
        recorded_by (kprobe_run R) hs k (sm_info r)))"
proof -
  have stored: "stored_in (kprobe_run R) hs kb v" if "m kb = Some v" for kb v
    using kprobe.run_provenance [OF assms(3), of R] that assms(4) by auto
  from lookup_recorded [OF assms(1) _ stored] lookup_icmp_recorded [OF assms(1) _ stored] assms(2,3)
  show ?thesis by blast
qed

lemma attribution_sound_kprobe_witness:
  "recorded_by (kprobe_run sample_regs) sample_kconnect
     (key_v4 Little 0x0A000001 0x5DB8D822 40000 443 IPPROTO_TCP) (sm_info sample_match)"
  using attribution_sound_kprobe [THEN conjunct1, OF sample_handle _ sample_envs_ok(2) refl, THEN spec,
      THEN mp, OF _ sample_answer(2)]
  by (simp add: sample_match_def transport_def)

text \<open>
  C5. Nothing is invented: on a map that started empty, after any sequence of probe hits of either
  backend, every answer of a lookup is the process that ran in one of those hits, and that hit
  stores under the very flow that was asked about, its source being the one asked for (an exact
  answer) or the unspecified address (a wildcard answer).
\<close>

theorem attribution_sound:
  assumes "map_handle (st_api T)" "st_host T = e" "envs_ok e hs" "envs_ok e hs'"
  shows "(\<forall>r. lookup T (run_hits fentry_run hs Map.empty) src dst sp dp is_tcp = Some r \<longrightarrow>
      (\<exists>k. flow_key e (matched_source (sm_quality r) src) dst sp dp is_tcp = Some k \<and>
        recorded_by fentry_run hs k (sm_info r))) \<and>
    (\<forall>r. lookup_icmp T (run_hits fentry_run hs Map.empty) src dst icmp_id = Some r \<longrightarrow>
      (\<exists>k. ping_key e (matched_source (sm_quality r) src) dst icmp_id = Some k \<and>
        recorded_by fentry_run hs k (sm_info r))) \<and>
    (\<forall>r. lookup T (run_hits (kprobe_run R) hs' Map.empty) src dst sp dp is_tcp = Some r \<longrightarrow>
      (\<exists>k. flow_key e (matched_source (sm_quality r) src) dst sp dp is_tcp = Some k \<and>
        recorded_by (kprobe_run R) hs' k (sm_info r))) \<and>
    (\<forall>r. lookup_icmp T (run_hits (kprobe_run R) hs' Map.empty) src dst icmp_id = Some r \<longrightarrow>
      (\<exists>k. ping_key e (matched_source (sm_quality r) src) dst icmp_id = Some k \<and>
        recorded_by (kprobe_run R) hs' k (sm_info r)))"
  using attribution_sound_fentry [OF assms(1-3) refl, of src dst sp dp is_tcp icmp_id]
    attribution_sound_kprobe [OF assms(1,2,4) refl, of R src dst sp dp is_tcp icmp_id]
  by (elim conjE) (intro conjI; assumption)

lemma attribution_sound_witness:
  "recorded_by fentry_run sample_connect (key_v4 Little 0x0A000001 0x5DB8D822 40000 443 IPPROTO_TCP)
     (sm_info sample_match)"
  using attribution_sound [THEN conjunct1, OF sample_handle _ sample_envs_ok, THEN spec, THEN mp,
      OF _ sample_answer(1)]
  by (simp add: sample_match_def transport_def)

section \<open>Who is recorded\<close>

text \<open>
  The identity of an answer is the one the kernel reported: the helper packs the thread group
  above the thread and the group above the user, and each lands in its own field.
\<close>

theorem recorded_identity:
  assumes "get_current_pid_tgid E = pair64 g t" "get_current_uid_gid E = pair64 gd ud"
  shows "pi_pid (current_process E) = g \<and> pi_tid (current_process E) = t \<and>
     pi_uid (current_process E) = ud \<and> pi_gid (current_process E) = gd \<and>
     pi_timestamp (current_process E) = ktime_get_ns E"
  using current_process_ids [OF assms] by simp

lemma recorded_identity_witness:
  "pi_pid (current_process (env4 sock4 None)) = 1200 \<and> pi_tid (current_process (env4 sock4 None)) = 1201 \<and>
   pi_uid (current_process (env4 sock4 None)) = 1000 \<and> pi_gid (current_process (env4 sock4 None)) = 100 \<and>
   pi_timestamp (current_process (env4 sock4 None)) = 5000000000"
  using recorded_identity [of "env4 sock4 None" 1200 1201 100 1000] by (simp add: env4_def)

text \<open>
  The name is the thread group leader's: if the helper reads a non-empty NUL-terminated ASCII
  name there, the answer carries exactly that name, without the terminator and what follows it.
\<close>

theorem recorded_name:
  assumes "mem_has E (field_addr (get_current_task E) (off_group_leader (offs E))) (wr64 (host E) leader)"
    and "probe_read_kernel_str E (replicate TASK_COMM_LEN 0) (field_addr leader (off_comm (offs E)))
           = (r, nm @ 0 # junk)"
    and "0 < r" "nm \<noteq> []" "\<forall>b \<in> set nm. b \<noteq> 0 \<and> unat b < 0x80"
  shows "pi_comm (current_process E) = map unat nm"
proof -
  have "(nm @ 0 # junk) ! 0 \<noteq> 0" using assms(4,5) by (cases nm) auto
  with get_process_info_comm [OF assms(1,2)] assms(3)
  have name: "comm (get_process_info E zero_info) = nm @ 0 # junk" by simp
  show ?thesis
    unfolding current_process_def
    by (rule process_info_ascii [OF assms(5), where rest = "0 # junk"])
      (simp_all add: info_mirror_def name)
qed

lemma recorded_name_witness:
  "pi_comm (current_process (env4 sock4 None)) = [99, 117, 114, 108]"
proof -
  have "pi_comm (current_process (env4 sock4 None)) = map unat [99, 117, 114, 108 :: byte]"
    by (rule recorded_name [where leader = LEADER and junk = "replicate 11 0" and r = 5])
      (simp_all add: env4_def sample_env_def mem_has_def sample_offsets sample_regions_def
        region_read_def curl_name_def TASK_COMM_LEN_def)
  then show ?thesis by simp
qed

text \<open>
  The answer says who the kernel said it was: thread group, thread, user and group, packed in
  pairs by the helpers, each land in their own field, with the time of the hook; and the name is
  the thread group leader's, exactly, if it is non-empty NUL-terminated ASCII.
\<close>

theorem recorded_process:
  assumes "get_current_pid_tgid E = pair64 g t" "get_current_uid_gid E = pair64 gd ud"
    and "mem_has E (field_addr (get_current_task E) (off_group_leader (offs E))) (wr64 (host E) leader)"
    and "probe_read_kernel_str E (replicate TASK_COMM_LEN 0) (field_addr leader (off_comm (offs E)))
           = (r, nm @ 0 # junk)"
    and "0 < r" "nm \<noteq> []" "\<forall>b \<in> set nm. b \<noteq> 0 \<and> unat b < 0x80"
  shows "pi_pid (current_process E) = g \<and> pi_tid (current_process E) = t \<and>
     pi_uid (current_process E) = ud \<and> pi_gid (current_process E) = gd \<and>
     pi_timestamp (current_process E) = ktime_get_ns E \<and> pi_comm (current_process E) = map unat nm"
  using recorded_identity [OF assms(1,2)] recorded_name [OF assms(3-7)] by simp

lemma recorded_process_witness:
  "pi_pid (current_process (env4 sock4 None)) = 1200 \<and> pi_tid (current_process (env4 sock4 None)) = 1201 \<and>
   pi_uid (current_process (env4 sock4 None)) = 1000 \<and> pi_gid (current_process (env4 sock4 None)) = 100 \<and>
   pi_timestamp (current_process (env4 sock4 None)) = ktime_get_ns (env4 sock4 None) \<and>
   pi_comm (current_process (env4 sock4 None)) = map unat [99, 117, 114, 108 :: byte]"
  by (rule recorded_process [where leader = LEADER and junk = "replicate 11 0" and r = 5])
    (simp_all add: env4_def sample_env_def mem_has_def sample_offsets sample_regions_def
      region_read_def curl_name_def TASK_COMM_LEN_def)

section \<open>What each hook stores\<close>

text \<open>
  C33. The TCP hooks store the current process under the key of the flow as it is on the wire: by
  the family of the socket, IPv4 for an IPv4-mapped peer, and nothing for other families.
\<close>

theorem tcp_hook_stores:
  assumes "sk \<noteq> 0" "sock_at E sk s"
  shows "(track_tcp_socket E sk m = store_opt E (tcp_key (host E) s) m) \<and>
    (track_accepted_socket E sk m = store_opt E (tcp_key (host E) s) m)"
  by (simp_all add: track_accepted_socket_def track_tcp_socket_at [OF assms])

lemma tcp_hook_stores_witness:
  "track_accepted_socket (env4 sock_mapped None) SK Map.empty =
     store_opt (env4 sock_mapped None) (tcp_key Little sock_mapped) Map.empty"
  using tcp_hook_stores [THEN conjunct2, OF addrs_nonzero(1) env_sock_at(1), of sock_mapped None Map.empty] by simp

text \<open>
  The IPv4 datagram hook stores under the destination of the message if it has one and
  under the connected peer's otherwise, and stores nothing when that destination is the
  zero address.
\<close>

theorem udp_v4_hook_stores:
  assumes "sk \<noteq> 0" "msg \<noteq> 0" "sock_at E sk s" "dest4_at E msg d"
  shows "track_udp_v4 E sk msg m = store_opt E (udp4_key (host E) s d) m"
  by (rule track_udp_v4_at [OF assms])

lemma udp_v4_hook_stores_witness:
  "track_udp_v4 (env4 sock_unbound None) SK MSG Map.empty = (0, Map.empty)"
  using udp_v4_hook_stores [OF addrs_nonzero env_sock_at(1) env_dest4_at, of sock_unbound None Map.empty]
  by (simp add: udp4_key_def sock_unbound_def store_opt_def)

text \<open>
  The IPv6 datagram hook chooses the destination in the same way but stores always.
\<close>

theorem udp_v6_hook_stores:
  assumes "sk \<noteq> 0" "msg \<noteq> 0" "sock_at E sk s" "dest6_at E msg d"
  shows "track_udp_v6 E sk msg m = store_connection E (udp6_key (host E) s d) m"
  by (rule track_udp_v6_at [OF assms])

lemma udp_v6_hook_stores_witness:
  "track_udp_v6 (env6 sock_unbound None) SK MSG Map.empty =
     store_connection (env6 sock_unbound None) (key_v6 Little 0 0 40003 0 IPPROTO_UDP) Map.empty"
  using udp_v6_hook_stores [OF addrs_nonzero env_sock_at(2) env_dest6_at, of sock_unbound None Map.empty]
  by (simp add: udp6_key_def sock_unbound_def)

text \<open>
  The ping hooks store the identifier as the source port and no destination port.
\<close>

theorem ping_hooks_store:
  assumes "sk \<noteq> 0" "msg \<noteq> 0" "sock_at E sk s" "sock_at E' sk s"
    and "dest4_at E msg d" "dest6_at E' msg d'"
  shows "(track_ping_v4 E sk msg m = store_opt E (ping4_key (host E) s d) m) \<and>
    (track_ping_v6 E' sk msg m = store_connection E' (ping6_key (host E') s d') m)"
  using track_ping_v4_at [OF assms(1-3,5)] track_ping_v6_at [OF assms(1,2,4,6)] by blast

lemma ping_hooks_store_witness:
  "track_ping_v4 (env4 sock_unbound (Some (0x08080808, 0))) SK MSG Map.empty =
     store_connection (env4 sock_unbound (Some (0x08080808, 0)))
       (key_v4 Little 0 0x08080808 40003 0 IPPROTO_ICMP) Map.empty"
  using ping_hooks_store [OF addrs_nonzero env_sock_at env_dest4_at env_dest6_at,
      where s = sock_unbound and d = "Some (0x08080808, 0)" and d' = None and m = Map.empty]
  by (simp add: ping4_key_def store_opt_def) (simp add: sock_unbound_def)

text \<open>
  C34. The datagram and ping hooks store the current process under the key of the flow: the
  destination is the message's if it names one and the connected peer's otherwise; an IPv4
  hook stores nothing when that is the zero address, an IPv6 hook stores always; and a ping is
  stored under its identifier as source port.
\<close>

theorem datagram_hooks_store:
  assumes "sk \<noteq> 0" "msg \<noteq> 0" "sock_at E sk s" "sock_at E' sk s" "dest4_at E msg d" "dest6_at E' msg d'"
  shows "track_udp_v4 E sk msg m = store_opt E (udp4_key (host E) s d) m \<and>
    track_udp_v6 E' sk msg m = store_connection E' (udp6_key (host E') s d') m \<and>
    track_ping_v4 E sk msg m = store_opt E (ping4_key (host E) s d) m \<and>
    track_ping_v6 E' sk msg m = store_connection E' (ping6_key (host E') s d') m"
  using udp_v4_hook_stores [OF assms(1-3,5)] udp_v6_hook_stores [OF assms(1,2,4,6)]
    ping_hooks_store [OF assms] by blast

lemma datagram_hooks_store_witness:
  "track_udp_v4 (env4 sock_unbound None) SK MSG Map.empty = (0, Map.empty)"
  using datagram_hooks_store [OF addrs_nonzero env_sock_at env_dest4_at env_dest6_at,
      where s = sock_unbound and d = None and d' = None and m = Map.empty]
  by (simp add: udp4_key_def sock_unbound_def store_opt_def)

text \<open>
  A hook without a socket or without a message does nothing.
\<close>

theorem null_pointers_ignored:
  shows "(track_tcp_socket E 0 m = (0, m)) \<and>
    (track_accepted_socket E 0 m = (0, m)) \<and>
    (sk = 0 \<or> msg = 0 \<longrightarrow> track_udp_v4 E sk msg m = (0, m) \<and> track_udp_v6 E sk msg m = (0, m) \<and>
      track_ping_v4 E sk msg m = (0, m) \<and> track_ping_v6 E sk msg m = (0, m))"
  by (simp_all add: track_tcp_socket_def track_accepted_socket_def track_udp_v4_def track_udp_v6_def
      track_ping_v4_def track_ping_v6_def)

lemma null_pointers_ignored_witness:
  "track_udp_v6 (env6 sock6 None) SK 0 Map.empty = (0, Map.empty)"
  using null_pointers_ignored [THEN conjunct2, THEN conjunct2, of SK 0 "env6 sock6 None" Map.empty] by simp

text \<open>
  A trampoline TCP hook ignores a connect that failed, whatever the socket holds; on success
  it stores what the socket says. Either way the program returns 0.
\<close>

theorem failed_connect_ignored:
  shows "(result \<noteq> 0 \<longrightarrow> fentry_tcp_connect E sk result m = (0, m) \<and>
      fentry_tcp_v6_connect E sk a n result m = (0, m)) \<and>
    (sk \<noteq> 0 \<and> sock_at E sk s \<longrightarrow>
      fentry_tcp_connect E sk 0 m = (0, snd (store_opt E (tcp_key (host E) s) m)) \<and>
      fentry_tcp_v6_connect E sk a n 0 m = (0, snd (store_opt E (tcp_key (host E) s) m)))"
  by (auto simp: fentry_tcp_connect_def fentry_tcp_v6_connect_def track_tcp_socket_at)

lemma failed_connect_ignored_witness:
  "fentry_tcp_connect (env4 sock4 None) SK (- 111) Map.empty = (0, Map.empty) \<and>
   fentry_tcp_connect (env4 sock4 None) SK 0 Map.empty =
     (0, snd (store_opt (env4 sock4 None) (tcp_key Little sock4) Map.empty))"
  using failed_connect_ignored [THEN conjunct1, of "- 111" "env4 sock4 None" SK Map.empty 0 0]
    failed_connect_ignored [THEN conjunct2, of SK "env4 sock4 None" sock4 Map.empty 0 0] env_sock_at(1) [of sock4 None]
  by simp

section \<open>Runs of probes\<close>

text \<open>
  Whatever sequence of trampoline programs runs, in whatever environments, every entry of the
  map keeps the declared shape: a 40-byte key that is a flow the programs track (zero padding,
  a known family and protocol, no zero destination for IPv4 datagrams and pings) and a
  40-byte value.
\<close>

theorem fentry_keeps_map_ok:
  assumes "envs_ok e hs" "map_ok e m"
  shows "map_ok e (run_hits fentry_run hs m)"
  by (rule fentry.run_map_ok [OF assms])

lemma fentry_keeps_map_ok_witness: "map_ok Little sample_map"
  using fentry_keeps_map_ok [OF sample_envs_ok(1) map_ok_empty] by (simp only: sample_runs)

text \<open>
  So does the kprobe backend.
\<close>

theorem kprobe_keeps_map_ok:
  assumes "envs_ok e hs" "map_ok e m"
  shows "map_ok e (run_hits (kprobe_run R) hs m)"
  by (rule kprobe.run_map_ok [OF assms])

lemma kprobe_keeps_map_ok_witness: "map_ok Little (run_hits (kprobe_run sample_regs) sample_kconnect Map.empty)"
  by (rule kprobe_keeps_map_ok [OF sample_envs_ok(2) map_ok_empty])

text \<open>
  The programs never remove an entry, so only the sweep in user space does.
\<close>

theorem probes_never_remove:
  shows "(envs_ok e hs \<longrightarrow> dom m \<subseteq> dom (run_hits fentry_run hs m)) \<and>
    (envs_ok e hs' \<longrightarrow> dom m \<subseteq> dom (run_hits (kprobe_run R) hs' m))"
  using fentry.run_dom_mono kprobe.run_dom_mono by blast+

lemma probes_never_remove_witness: "dom Map.empty \<subseteq> dom (run_hits fentry_run sample_connect Map.empty)"
  using probes_never_remove [THEN conjunct1, of Little sample_connect Map.empty] sample_envs_ok(1) by simp

text \<open>
  C35. Whatever sequence of programs of either backend runs, in whatever environments, every entry
  of the map keeps the declared shape, a 40-byte key that is a flow the programs track (zero
  padding, a known family and protocol, no zero destination for IPv4 datagrams and pings)
  and a 40-byte value, and no entry is removed: only the sweep in user space does that.
\<close>

theorem programs_keep_map:
  assumes "envs_ok e hs" "envs_ok e hs'" "map_ok e m"
  shows "map_ok e (run_hits fentry_run hs m) \<and> map_ok e (run_hits (kprobe_run R) hs' m) \<and>
    dom m \<subseteq> dom (run_hits fentry_run hs m) \<and> dom m \<subseteq> dom (run_hits (kprobe_run R) hs' m)"
  using fentry_keeps_map_ok [OF assms(1,3)] kprobe_keeps_map_ok [OF assms(2,3)]
    probes_never_remove [where e = e and hs = hs and hs' = hs' and m = m and R = R] assms(1,2) by blast

lemma programs_keep_map_witness: "map_ok Little sample_map"
  using programs_keep_map [THEN conjunct1, OF sample_envs_ok map_ok_empty] by (simp only: sample_runs)

text \<open>
  C36. The two backends are interchangeable: for any sequence of successful socket operations, the
  probes each backend attaches to leave the same map, although a TCP connect over IPv6 runs two
  trampoline programs and one kprobe. The probes of one operation run in one environment: the same
  task, clock and memory.
\<close>

theorem backends_leave_same_map:
  assumes "regs_law R mk" "\<forall>(E, op) \<in> set ops. map_law E"
  shows "run_hits fentry_run (spread (fentry_hits legacy) ops) m =
     run_hits (kprobe_run R) (spread (kprobe_hits mk) ops) m"
  by (rule backends_agree [OF assms])

lemma backends_leave_same_map_witness:
  "run_hits fentry_run (spread (fentry_hits True) [(env6 sock6 None, Op_tcp_v6_connect SK 0 0)]) Map.empty =
   run_hits (kprobe_run sample_regs)
     (spread (kprobe_hits (\<lambda>a b r. (a, b, r))) [(env6 sock6 None, Op_tcp_v6_connect SK 0 0)]) Map.empty"
  by (rule backends_leave_same_map [OF sample_regs_law]) simp

section \<open>The kernels the programs run on\<close>

text \<open>
  On the three bundled kernel descriptions every field access of the programs relocates, to
  the offsets listed.
\<close>

theorem bundled_kernels_relocate:
  shows "(relocate kernel_x86 = Some \<lparr>off_num = 14, off_dport = 12, off_rcv_saddr = 4,
      off_daddr = 0, off_v6_rcv_saddr = 64, off_v6_daddr = 48, off_family = 16, off_msg_name = 0,
      off_sin_addr = 4, off_sin_port = 2, off_sin6_addr = 8, off_sin6_port = 2,
      off_group_leader = 888, off_comm = 1160\<rparr>) \<and>
    (relocate kernel_aarch64 = Some \<lparr>off_num = 14, off_dport = 12, off_rcv_saddr = 4,
      off_daddr = 0, off_v6_rcv_saddr = 64, off_v6_daddr = 48, off_family = 16, off_msg_name = 0,
      off_sin_addr = 4, off_sin_port = 2, off_sin6_addr = 8, off_sin6_port = 2,
      off_group_leader = 1136, off_comm = 1416\<rparr>) \<and>
    (relocate kernel_arm = Some \<lparr>off_num = 14, off_dport = 12, off_rcv_saddr = 4,
      off_daddr = 0, off_v6_rcv_saddr = 52, off_v6_daddr = 36, off_family = 16, off_msg_name = 0,
      off_sin_addr = 4, off_sin_port = 2, off_sin6_addr = 8, off_sin6_port = 2,
      off_group_leader = 960, off_comm = 1124\<rparr>)"
  by (simp_all add: relocate_bundled offsets_x86_def offsets_aarch64_def offsets_arm_def offsets_64_def)

text \<open>
  On each of them the reads of a socket are whole fields of the size asked for, lie inside
  the socket, and no two of them share a byte.
\<close>

theorem socket_reads_sound:
  assumes "K \<in> {kernel_x86, kernel_aarch64, kernel_arm}"
  shows "(list_all (reads_whole_field K) sock_reads) \<and>
    (list_all (\<lambda>(k, n). k + n \<le> size_of (kt_abi K) (kt_sock K)) (map (sock_read_range K) sock_reads)) \<and>
    (sorted_wrt apart (map (sock_read_range K) sock_reads))"
proof -
  have "K \<in> set bundled" using assms by (simp add: bundled_def)
  then have "reads_sound K" by (rule reads_sound_bundled)
  then show ?thesis by (simp add: reads_sound_def)
qed

lemma socket_reads_sound_witness: "sorted_wrt apart (map (sock_read_range kernel_arm) sock_reads)"
  using socket_reads_sound [THEN conjunct2, THEN conjunct2, of kernel_arm] by simp

text \<open>
  The pointer a probe is handed points to a TCP, UDP or raw socket; each of them starts with
  the \<open>struct sock\<close> the programs read, so a path inside the socket is the same path inside
  the larger object.
\<close>

theorem sockets_embed_at_zero:
  assumes "(A, t, p, sk) \<in> {
      (abi_x86, x86_struct_tcp6_sock, tcp6_path, x86_struct_sock),
      (abi_x86, x86_struct_udp6_sock, udp6_path, x86_struct_sock),
      (abi_x86, x86_struct_raw6_sock, raw6_path, x86_struct_sock),
      (abi_aarch64, aarch64_struct_tcp6_sock, tcp6_path, aarch64_struct_sock),
      (abi_aarch64, aarch64_struct_udp6_sock, udp6_path, aarch64_struct_sock),
      (abi_aarch64, aarch64_struct_raw6_sock, raw6_path, aarch64_struct_sock),
      (abi_arm, arm_struct_tcp6_sock, tcp6_path, arm_struct_sock),
      (abi_arm, arm_struct_udp6_sock, udp6_path, arm_struct_sock),
      (abi_arm, arm_struct_raw6_sock, raw6_path, arm_struct_sock)}"
    and "resolve A sk q = Some (k, u)"
  shows "resolve A t (p @ q) = Some (k, u)"
proof -
  have "resolve A t p = Some (0, sk)"
    using assms(1) x86_embeds aarch64_embeds arm_embeds by auto
  from resolve_append [OF this assms(2)] show ?thesis by simp
qed

lemma sockets_embed_at_zero_witness:
  "resolve abi_x86 x86_struct_udp6_sock (udp6_path @ [''__sk_common'', ''skc_num'']) =
     resolve abi_x86 x86_struct_sock [''__sk_common'', ''skc_num'']"
proof -
  obtain k u where k: "resolve abi_x86 x86_struct_sock [''__sk_common'', ''skc_num''] = Some (k, u)"
    by (simp add: x86_sock_fields del: resolve.simps)
  show ?thesis
    unfolding k by (rule sockets_embed_at_zero [OF _ k]) simp
qed

text \<open>
  On the 32-bit kernel a pointer field is read together with the four bytes behind it: the
  program's \<open>msg_name\<close> has \<open>msg_namelen\<close> in its upper half, so its null test also sees the
  length. With a length of zero the value is the pointer.
\<close>

theorem arm_pointer_read:
  assumes "host E = Little" "offset_of abi_arm arm_struct_msghdr [''msg_name''] = Some k"
    and "mem_has E (field_addr msg k) (wr32 Little name @ wr32 Little len)"
  shows "(offset_of abi_arm arm_struct_msghdr [''msg_namelen''] = Some (k + size_of abi_arm Pointer)) \<and>
    (core_read_ptr E msg k = pair64 len name) \<and>
    (core_read_ptr E msg k = 0 \<longleftrightarrow> name = 0 \<and> len = 0)"
proof -
  have "resolve abi_arm arm_struct_msghdr [''msg_name''] = Some (0, Pointer)"
    by (rule arm_other_fields)
  with assms(2) have k: "k = 0" by (simp add: offset_of_def del: resolve.simps)
  have next_field: "offset_of abi_arm arm_struct_msghdr [''msg_namelen''] = Some (k + size_of abi_arm Pointer)"
    by (simp only: k offset_of_def arm_msg_namelen option.simps fst_conv add_0)
  have "mem_read E (field_addr msg k) = wr32 Little name @ wr32 Little len"
    using assms(3) by (simp add: mem_has_def mem_read_def)
  with assms(1) have ptr: "core_read_ptr E msg k = pair64 len name"
    by (rule pointer_read_takes_next_word)
  show ?thesis
    unfolding ptr pair64_zero by (intro conjI next_field refl)
qed

lemma arm_pointer_read_witness:
  "core_read_ptr (sample_env Little [(MSG, wr32 Little 0 @ wr32 Little 16)] []) MSG 0 = pair64 16 0"
  by (rule arm_pointer_read [THEN conjunct2, THEN conjunct1])
    (simp_all add: offset_of_def arm_other_fields mem_has_def region_read_def field_addr_def
      del: resolve.simps)

section \<open>The byte format of the map\<close>

text \<open>
  C37. In every data model the kernels use, a key is 40 bytes with alignment 4, a value is 40
  bytes, neither has holes, and each member stands in the byte image where the C layout has it.
\<close>

theorem map_types_layout:
  assumes "lp_abi A" "wf_key k" "wf_info i"
  shows "(size_of A conn_key_type = 40 \<and> align_of A conn_key_type = 4 \<and> size_of A conn_info_type = 40) \<and>
    (\<exists>ms ms'. conn_key_type = Struct ms \<and> packed_exactly A ms \<and>
      conn_info_type = Struct ms' \<and> packed_exactly A ms') \<and>
    (list_all (\<lambda>(f, bs). member_at A conn_key_type f bs (conn_key_bytes e k)) (conn_key_fields e k)) \<and>
    (list_all (\<lambda>(f, bs). member_at A conn_info_type f bs (conn_info_bytes e i)) (conn_info_fields e i))"
  using conn_key_layout [OF assms(1)] conn_info_layout [OF assms(1)] conn_types_packed [OF assms(1)]
    assms(2,3)
  by (auto simp: CONN_KEY_SIZE_def CONN_INFO_SIZE_def)

lemma map_types_layout_witness:
  "size_of abi_arm conn_key_type = 40 \<and> align_of abi_arm conn_key_type = 4 \<and>
   size_of abi_arm conn_info_type = 40"
  by (rule map_types_layout [THEN conjunct1, OF _ wf_zero]) (simp add: lp_abi_def abi_arm_def)

text \<open>
  The images are a bijection between well-formed keys and 40-byte strings, and between
  well-formed values and 40-byte strings: what is written is read back, and no two keys share
  an image.
\<close>

theorem map_images_bijective:
  shows "(bij_betw (conn_key_bytes e) {k. wf_key k} {bs. length bs = 40}) \<and>
    (bij_betw (conn_info_bytes e) {i. wf_info i} {bs. length bs = 40}) \<and>
    (wf_key k \<longrightarrow> conn_key_of_bytes e (conn_key_bytes e k) = k) \<and>
    (wf_info i \<longrightarrow> conn_info_of_bytes e (conn_info_bytes e i) = i)"
  using key.image_bij [of e] info.image_bij [of e] key.value_image [of k e] info.value_image [of i e]
  by (simp_all add: CONN_KEY_SIZE_def CONN_INFO_SIZE_def)

lemma map_images_bijective_witness:
  "conn_key_of_bytes Big (conn_key_bytes Big zero_key) = zero_key"
  using map_images_bijective [THEN conjunct2, THEN conjunct2, THEN conjunct1, of zero_key Big] by simp

text \<open>
  The mirror structures of user space have the sizes and alignments its compile-time
  assertions demand and agree with the C declarations member by member.
\<close>

theorem mirror_types_agree:
  assumes "lp_abi A"
  shows "(size_of A ConnKey_type = 40 \<and> align_of A ConnKey_type = 4 \<and> size_of A ConnInfo_type = 40) \<and>
    (llong_align A = 8 \<longrightarrow> align_of A ConnInfo_type = 8) \<and>
    (map_option fst (find_field A ConnKey_type f) = map_option fst (find_field A conn_key_type f)) \<and>
    (map_option fst (find_field A ConnInfo_type f) = map_option fst (find_field A conn_info_type f))"
  using mirror_layout [OF assms] by simp_all

lemma mirror_types_agree_witness:
  "size_of abi_x86 ConnKey_type = 40 \<and> align_of abi_x86 ConnKey_type = 4 \<and>
   size_of abi_x86 ConnInfo_type = 40"
  by (rule mirror_types_agree [THEN conjunct1]) (simp add: lp_abi_def abi_x86_def)

text \<open>
  User space builds, byte for byte, the keys the programs store: \<open>new_v4\<close>, \<open>new_v6\<close> and their
  ICMP variants on an address pair give the image of the kernel's key for that pair, with the
  addresses as octets whatever the byte order.
\<close>

theorem user_keys_are_kernel_keys:
  shows "(as_bytes e (new_v4 e src dst sp dp is_tcp) =
      conn_key_bytes e (key_v4 e src dst sp dp (if is_tcp then IPPROTO_TCP else IPPROTO_UDP))) \<and>
    (as_bytes e (new_v4 e src dst sp dp is_tcp) = octets4 src @ replicate 12 0 @ octets4 dst @
      replicate 12 0 @ wr16 e sp @ wr16 e dp @ [if is_tcp then 6 else 17, 2, 0, 0]) \<and>
    (as_bytes e (new_v6 e src6 dst6 sp dp is_tcp) =
      conn_key_bytes e (key_v6 e src6 dst6 sp dp (if is_tcp then IPPROTO_TCP else IPPROTO_UDP))) \<and>
    (as_bytes e (new_v6 e src6 dst6 sp dp is_tcp) = octets6 src6 @ octets6 dst6 @
      wr16 e sp @ wr16 e dp @ [if is_tcp then 6 else 17, 10, 0, 0]) \<and>
    (as_bytes e (new_icmp_v4 e src dst icmp_id) =
      conn_key_bytes e (key_v4 e src dst icmp_id 0 IPPROTO_ICMP)) \<and>
    (as_bytes e (new_icmp_v6 e src6 dst6 icmp_id) =
      conn_key_bytes e (key_v6 e src6 dst6 icmp_id 0 IPPROTO_ICMPV6))"
  by (simp_all add: transport_def key_v4_image key_v6_image IPPROTO_TCP_def IPPROTO_UDP_def)

text \<open>
  Different flows have different keys: addresses, ports, transport and address family can all
  be told apart from the bytes.
\<close>

theorem flow_keys_distinct:
  shows "(as_bytes e (new_v4 e s d sp dp t) = as_bytes e (new_v4 e s' d' sp' dp' t') \<longleftrightarrow>
      (s, d, sp, dp, t) = (s', d', sp', dp', t')) \<and>
    (as_bytes e (new_v6 e s6 d6 sp dp t) = as_bytes e (new_v6 e s6' d6' sp' dp' t') \<longleftrightarrow>
      (s6, d6, sp, dp, t) = (s6', d6', sp', dp', t')) \<and>
    (as_bytes e (new_v4 e s d sp dp t) \<noteq> as_bytes e (new_v6 e s6 d6 sp' dp' t')) \<and>
    (as_bytes e (new_v4 e s d sp dp t) \<noteq> as_bytes e (new_icmp_v4 e s' d' icmp_id)) \<and>
    (as_bytes e (new_v6 e s6 d6 sp dp t) \<noteq> as_bytes e (new_icmp_v6 e s6' d6' icmp_id))"
  using key_v4_v6_distinct [of e s d sp dp "transport t" s6 d6 sp' dp' "transport t'"]
  by (auto simp: key_v4_inject key_v6_inject transport_def tracker_consts split: if_splits)

text \<open>
  A value of the right size is read back as it was written, and one of any other size is an
  error that names its size.
\<close>

theorem value_reading:
  shows "(wf_info i \<longrightarrow> from_bytes e (conn_info_bytes e i) =
      Inr \<lparr>ci_tgid = tgid i, ci_tid = tid i, ci_uid = uid i, ci_gid = gid i, ci_comm = comm i,
           ci_timestamp = timestamp i\<rparr>) \<and>
    (length bs \<noteq> 40 \<longrightarrow> from_bytes e bs = Inl (Invalid_value_size (length bs))) \<and>
    (length bs = 40 \<longrightarrow> (\<exists>i. wf_info i \<and> from_bytes e bs = Inr (info_mirror i)))"
  using info.wf_value [of bs e]
  by (auto simp: from_bytes_image info_mirror_def from_bytes_wrong_size from_bytes_of_bytes
      CONN_INFO_SIZE_def intro!: exI [of _ "conn_info_of_bytes e bs"])

lemma value_reading_witness: "from_bytes Little [1, 2, 3] = Inl (Invalid_value_size 3)"
  using value_reading [THEN conjunct2, THEN conjunct1, of "[1, 2, 3]" Little] by simp

section \<open>The sweep\<close>

text \<open>
  C38. Whatever the programs store between the first loop of the sweep, which collects the keys of
  stale entries, and the second, which deletes them, an entry the sweep changes is gone, and when the
  sweep looked at it, it held a readable value older than the threshold.
\<close>

theorem sweep_removes_only_stale:
  assumes "map_handle (st_api T)" "monotonic_time_ns c = Inr now"
    and "tracker_cleanup T c between secs m = (n, m')" "m' k \<noteq> between m k"
  shows "m' k = None \<and> (\<exists>v. m k = Some v \<and> length v = 40 \<and>
     unat now - unat (timestamp (conn_info_of_bytes (st_host T) v)) > unat (secs * 1000000000))"
  using tracker_cleanup_removes_stale [OF assms]
  by (auto simp: stale_value_def CONN_INFO_SIZE_def word_less_nat_alt saturating_sub_nat)

lemma sweep_removes_only_stale_witness:
  "(Map.empty :: socket_map) sample_key = None \<and> (\<exists>v. sample_map sample_key = Some v \<and> length v = 40 \<and>
     unat (70000000001 :: u64) - unat (timestamp (conn_info_of_bytes Little v)) > unat (60 * 1000000000 :: u64))"
  using sweep_removes_only_stale [OF sample_handle sweep_time sample_sweep, of sample_key]
  by (simp add: sample_map_key)

text \<open>
  When nothing else touches the map and its calls do not fail, the sweep leaves exactly the
  entries that are not stale; when the clock cannot be read it leaves everything.
\<close>

theorem sweep_complete:
  assumes "quiet_map (st_api T) fits" "fits m"
  shows "(monotonic_time_ns c = Inr now \<longrightarrow> snd (tracker_cleanup T c id secs m) =
      m |` {k. \<forall>v. m k = Some v \<longrightarrow> \<not> stale_value (st_host T) now (secs * 1000000000) v}) \<and>
    (monotonic_time_ns c = Inl err \<longrightarrow> tracker_cleanup T c id secs m = (0, m))"
  using quiet_map.cleanup_complete [OF assms(1) _ assms(2), of c now "st_host T" "secs * 1000000000"]
  by (auto simp: tracker_cleanup_def Let_def cleanup_stale_entries_def)

lemma sweep_complete_witness:
  "tracker_cleanup (sample_tracker [sample_key]) (1, 0, 0) id 60 sample_map = (0, sample_map)"
proof -
  have "dom sample_map \<subseteq> set [sample_key]" by (simp add: sample_map_def sample_key_def)
  from sweep_complete [THEN conjunct2, of "sample_tracker [sample_key]" "\<lambda>m. dom m \<subseteq> set [sample_key]" sample_map,
      OF _ this, of "(1, 0, 0)" Clock_failed 60] hash.quiet_map_axioms [of "[sample_key]"]
  show ?thesis by (simp add: monotonic_time_ns_def)
qed

text \<open>
  The number the sweep reports is the number of entries that are gone.
\<close>

theorem sweep_count:
  assumes "map_handle (st_api T)" "monotonic_time_ns c = Inr now"
    and "tracker_cleanup T c between secs m = (n, m')"
    and "finite (dom (between m))" "card (dom (between m)) \<le> MAX_ENTRIES"
  shows "unat n = card (dom (between m)) - card (dom m')"
proof -
  from assms(2,3) have "cleanup_stale_entries (st_host T) (st_api T) c between (secs * 1000000000) m
      = Inr (n, m')"
    by (simp add: tracker_cleanup_def Let_def cleanup_stale_entries_def)
  from map_handle.cleanup_count [OF assms(1) this assms(4)] assms(5) show ?thesis
    by (simp add: MAX_ENTRIES_def)
qed

lemma sweep_count_witness: "unat (1 :: u32) = card (dom sample_map) - card (dom (Map.empty :: socket_map))"
proof -
  have "finite (dom (id sample_map))" "card (dom (id sample_map)) \<le> MAX_ENTRIES"
    by (simp_all add: sample_map_def MAX_ENTRIES_def)
  from sweep_count [OF sample_handle sweep_time sample_sweep this] show ?thesis by simp
qed

text \<open>
  A recent attribution survives the sweep: an entry recorded at a time less than the
  threshold before the sweep's clock (or after it) is still there, with the same value. The
  threshold is the number of seconds times \<open>10 ^ 9\<close>, which does not wrap below \<open>2 ^ 34\<close> seconds.
\<close>

theorem recent_survives_sweep:
  assumes "map_handle (st_api T)" "st_host T = host E" "helper_laws E"
    and "monotonic_time_ns c = Inr now" "unat secs < 2 ^ 34"
    and "m k = Some (current_value E)"
    and "unat now \<le> unat (ktime_get_ns E) + unat secs * 1000000000"
    and "tracker_cleanup T c id secs m = (n, m')"
  shows "m' k = Some (current_value E)"
proof (rule ccontr)
  assume "m' k \<noteq> Some (current_value E)"
  with assms(6) have "m' k \<noteq> id m k" by simp
  from tracker_cleanup_removes_stale [OF assms(1,4,8) this] assms(6)
  have "stale_value (host E) now (secs * 1000000000) (current_value E)"
    by (simp add: assms(2))
  with current_value_stale [OF assms(3)] assms(7) threshold_exact [OF assms(5)] show False
    by (simp add: word_less_nat_alt saturating_sub_nat)
qed

lemma recent_survives_sweep_witness:
  "snd (tracker_cleanup (sample_tracker [sample_key]) sweep_clock id 66 sample_map) sample_key =
     Some (current_value (env4 sock4 None))"
proof -
  obtain n m' where run:
    "tracker_cleanup (sample_tracker [sample_key]) sweep_clock id 66 sample_map = (n, m')"
    by (rule prod.exhaust)
  have "m' sample_key = Some (current_value (env4 sock4 None))"
    by (rule recent_survives_sweep [OF sample_handle _ _ sweep_time _ sample_map_key _ run])
      (simp_all, simp add: env4_def)
  then show ?thesis by (simp add: run)
qed

section \<open>Which lookups are answered\<close>

text \<open>
  A backend that does not cover an operation answers no lookup that depends on it, and no
  lookup mixes address families.
\<close>

theorem lookup_respects_capabilities:
  shows "(\<not> contains (st_caps T) (if is_tcp then TCP_V4_CONNECT else UDP_V4_SEND) \<longrightarrow>
      lookup T m (V4 a) (V4 b) sp dp is_tcp = None) \<and>
    (\<not> contains (st_caps T) (if is_tcp then TCP_V6_CONNECT else UDP_V6_SEND) \<longrightarrow>
      lookup T m (V6 a6) (V6 b6) sp dp is_tcp = None) \<and>
    (\<not> contains (st_caps T) ICMP_V4_SEND \<longrightarrow> lookup_icmp T m (V4 a) (V4 b) icmp_id = None) \<and>
    (\<not> contains (st_caps T) ICMP_V6_SEND \<longrightarrow> lookup_icmp T m (V6 a6) (V6 b6) icmp_id = None) \<and>
    (lookup T m (V4 a) (V6 b6) sp dp is_tcp = None \<and> lookup T m (V6 a6) (V4 b) sp dp is_tcp = None \<and>
      lookup_icmp T m (V4 a) (V6 b6) icmp_id = None \<and> lookup_icmp T m (V6 a6) (V4 b) icmp_id = None)"
  by (auto simp: lookup_v4_def lookup_v6_def)

lemma lookup_respects_capabilities_witness:
  "lookup \<lparr>st_host = Little, st_caps = 1, st_api = hash_map_api []\<rparr> Map.empty (V4 1) (V4 2) 3 4 False = None"
  using lookup_respects_capabilities [THEN conjunct1, of "\<lparr>st_host = Little, st_caps = 1, st_api = hash_map_api []\<rparr>" False Map.empty 1 2 3 4]
  by (simp add: contains_def UDP_V4_SEND_def push_bit_of_1)

text \<open>
  Relaxed lookup in a socket table: an answer is the owner of one of the three wildcard shapes
  of the key, no present shape has another owner, and the quality is never an exact one; a miss
  on a key of which some shape is present means two shapes with different owners.
\<close>

theorem relaxed_lookup_unambiguous:
  assumes "cn_protocol k = Tcp \<or> cn_protocol k = Udp"
  shows "(relaxed_lookup tbl k = Some (v, q) \<longrightarrow>
      (\<exists>c. (c, q) \<in> set (candidates k) \<and> tbl c = Some v) \<and> \<not> is_exact q \<and>
      (\<forall>(c, _) \<in> set (candidates k). tbl c = None \<or> tbl c = Some v)) \<and>
    (relaxed_lookup tbl k = None \<longrightarrow> (c, q) \<in> set (candidates k) \<longrightarrow> tbl c = Some v \<longrightarrow>
      (\<exists>c' q' w. (c', q') \<in> set (candidates k) \<and> tbl c' = Some w \<and> w \<noteq> v))"
  using relaxed_lookup_sound [of tbl k v q] relaxed_never_exact [of tbl k v q]
    relaxed_lookup_none [of tbl k c q v] assms
  by blast+

lemma relaxed_lookup_unambiguous_witness:
  "\<not> is_exact ListenerSocket"
proof -
  let ?k = "\<lparr>cn_protocol = Tcp, cn_local = SockV4 5 22, cn_remote = SockV4 7 51000\<rparr>"
  let ?t = "[\<lparr>cn_protocol = Tcp, cn_local = SockV4 0 22, cn_remote = SockV4 0 0\<rparr> \<mapsto> (12 :: nat)]"
  have "relaxed_lookup ?t ?k = Some (12, ListenerSocket)"
    by (simp add: relaxed_lookup_def candidates_def Let_def)
  with relaxed_lookup_unambiguous [THEN conjunct1, of ?k ?t 12 ListenerSocket] show ?thesis by simp
qed

section \<open>Loading a backend\<close>

text \<open>
  A process may use eBPF exactly when it is root or its effective set has CAP_SYS_ADMIN, or
  CAP_BPF and CAP_PERFMON together; one that may not is told which of the two it lacks, and
  both when the set cannot be read.
\<close>

theorem capability_check:
  shows "(check_capabilities_detailed euid status = NoDegradation \<longleftrightarrow>
      euid = 0 \<or> (\<exists>v. cap_eff status = Some v \<and> (bit v 21 \<or> bit v 39 \<and> bit v 38))) \<and>
    (check_capabilities_detailed euid status = MissingCapBpf \<longleftrightarrow>
      euid \<noteq> 0 \<and> (\<exists>v. cap_eff status = Some v \<and> \<not> bit v 21 \<and> \<not> bit v 39 \<and> bit v 38)) \<and>
    (check_capabilities_detailed euid status = MissingCapPerfmon \<longleftrightarrow>
      euid \<noteq> 0 \<and> (\<exists>v. cap_eff status = Some v \<and> \<not> bit v 21 \<and> bit v 39 \<and> \<not> bit v 38)) \<and>
    (check_capabilities_detailed euid status = MissingBpfCapabilities \<longleftrightarrow>
      euid \<noteq> 0 \<and> (cap_eff status = None \<or>
        (\<exists>v. cap_eff status = Some v \<and> \<not> bit v 21 \<and> \<not> bit v 39 \<and> \<not> bit v 38)))"
  by (auto simp: check_capabilities_detailed_def has_cap_bit CAP_SYS_ADMIN_def CAP_PERFMON_def
      CAP_BPF_def Let_def split: option.splits)

text \<open>The set as the kernel prints it: CAP_BPF and CAP_PERFMON and nothing else.\<close>

lemma capability_line:
  "cap_eff (Some (''Name:'' @ [CHR 0x09] @ ''rustnet'' @ [CHR 0x0A] @
     ''CapEff:'' @ [CHR 0x09] @ ''000000c000000000'' @ [CHR 0x0A])) = Some 0xC000000000"
  by (simp add: cap_eff_def lines_of_def strip_cr_def split_whitespace_def white_def nth_opt_def
      u64_from_hex_def hex_digit_def)

text \<open>
  Two file systems mounted on the same point: the later line is the one on top.
\<close>

lemma overmount_first_wins:
  "executable_on_nosuid_mount (Some ''/opt/rustnet'')
     (Some (''30 1 0:26 / /opt rw,nosuid - tmpfs a rw'' @ [CHR 0x0A] @
            ''31 30 0:27 / /opt rw - ext4 b rw'' @ [CHR 0x0A]))"
  by code_simp

text \<open>
  The check for a nosuid mount looks at the mounts the executable is below, of these at the
  one with the longest mount point, and of several with the same mount point at the first in
  the file; the answer is whether its options contain \<open>nosuid\<close>. When the executable or the
  mount table cannot be read the answer is no. Looking at the first of several is not what is
  meant: a file system mounted over another on the same point comes later in the file, and
  in the example the executable is on the second, which is not mounted with \<open>nosuid\<close>.
\<close>

theorem nosuid_check:
  shows "(executable_on_nosuid_mount (Some exe) (Some mounts) \<longleftrightarrow>
      (\<exists>b. longest_first (mounts_above exe (lines_of mounts)) b \<and>
        ''nosuid'' \<in> set (split_on CHR '','' (snd b)))) \<and>
    (\<not> executable_on_nosuid_mount None mounts') \<and>
    (\<not> executable_on_nosuid_mount exe' None) \<and>
    (executable_on_nosuid_mount (Some ''/opt/rustnet'')
      (Some (''30 1 0:26 / /opt rw,nosuid - tmpfs a rw'' @ [CHR 0x0A] @
             ''31 30 0:27 / /opt rw - ext4 b rw'' @ [CHR 0x0A])))"
  by (intro conjI nosuid_iff overmount_first_wins)
    (simp_all add: executable_on_nosuid_mount_def split: option.split)

text \<open>
  C40. When the kprobe backend fails, the reason shown is missing BTF, an unsupported kernel,
  denied permission or a failed kprobe. The generic reason with a shortened text is never
  given, even when it is opening or loading the object that failed, and naming the
  failure does not panic.
\<close>

theorem kprobe_failures_named:
  assumes "lower_law to_lower" "load_kprobe Ob = Inl err"
  shows "\<exists>r. classify_libbpf_error to_lower alnum err = Some r \<and>
     (r \<in> {BtfUnavailable, KernelUnsupported, BpfPermissionDenied} \<or> (\<exists>sym. r = KprobeAttachFailed sym))"
  by (rule classify_kprobe_error [OF assms])

definition broken_object :: bpf_object where
  "broken_object = \<lparr>bo_open = Inr (), bo_load = \<lambda>_. Inl [ascii ''Invalid argument (os error 22)''],
     bo_attach = \<lambda>_. Inr ()\<rparr>"

lemma broken_load:
  "load_kprobe broken_object =
     Inl [ascii ''load kprobe BPF object'', ascii ''Invalid argument (os error 22)'']"
  by (simp add: load_kprobe_def broken_object_def with_context_def)

lemma kprobe_failures_named_witness:
  "\<exists>r. classify_libbpf_error (map ascii_lower) (\<lambda>c. 97 \<le> c \<and> c \<le> 122)
       [ascii ''load kprobe BPF object'', ascii ''Invalid argument (os error 22)''] = Some r \<and>
     (r \<in> {BtfUnavailable, KernelUnsupported, BpfPermissionDenied} \<or> (\<exists>sym. r = KprobeAttachFailed sym))"
  by (rule kprobe_failures_named [OF lower_law_ascii broken_load])

text \<open>
  Choosing a backend always ends, with a working backend and no reason, or with a reason and
  no backend. A backend is only ever there for a process with the capabilities, it is one of
  the two eBPF ones, and it covers all five core operations.
\<close>

theorem try_load_outcome:
  assumes "lower_law (hs_to_lower S)"
  shows "(\<exists>L. try_load S = Some (Some L, NoDegradation) \<and> ld_backend L \<in> {EbpfFentry, EbpfKprobe} \<and>
      contains (ld_caps L) CORE_CAPABILITIES \<and>
      check_capabilities_detailed (hs_euid S) (hs_status S) = NoDegradation) \<or>
    (\<exists>r. try_load S = Some (None, r) \<and> r \<noteq> NoDegradation)"
  by (rule try_load_cases [OF assms]) blast+

definition sample_system :: host_system where
  "sample_system = \<lparr>hs_euid = 0, hs_status = None, hs_exe = None, hs_mountinfo = None,
     hs_btf = Inr \<lparr>bt_func = \<lambda>_. None, bt_ptr_size = Some 8, bt_type = \<lambda>_. None\<rparr>,
     hs_fentry = broken_object, hs_kprobe = \<lparr>bo_open = Inr (), bo_load = \<lambda>_. Inr (), bo_attach = \<lambda>_. Inr ()\<rparr>,
     hs_to_lower = map ascii_lower, hs_alnum = \<lambda>c. 97 \<le> c \<and> c \<le> 122\<rparr>"

lemma try_load_outcome_witness:
  "(\<exists>L. try_load sample_system = Some (Some L, NoDegradation) \<and> ld_backend L \<in> {EbpfFentry, EbpfKprobe} \<and>
      contains (ld_caps L) CORE_CAPABILITIES \<and>
      check_capabilities_detailed (hs_euid sample_system) (hs_status sample_system) = NoDegradation) \<or>
    (\<exists>r. try_load sample_system = Some (None, r) \<and> r \<noteq> NoDegradation)"
  by (rule try_load_outcome) (simp add: sample_system_def lower_law_ascii)

text \<open>
  A tracker on a loaded backend, of either kind, has the capability every TCP and UDP lookup
  asks for; ICMP lookups are covered exactly when the ping hook is attached, for the
  trampoline backend also only when the kernel's function has the expected prototype.
\<close>

theorem loaded_backend_covers:
  assumes "st_caps T = ld_caps L"
  shows "(load_kprobe Ob = Inr L \<longrightarrow> contains (st_caps T) (lookup_needs src is_tcp) \<and>
      (contains (st_caps T) ICMP_V4_SEND \<longleftrightarrow> \<not> isl (bo_attach Ob ''trace_ping_v4_sendmsg'')) \<and>
      (contains (st_caps T) ICMP_V6_SEND \<longleftrightarrow> \<not> isl (bo_attach Ob ''trace_ping_v6_sendmsg''))) \<and>
    (load_fentry B Ob = Inr L \<longrightarrow> contains (st_caps T) (lookup_needs src is_tcp) \<and>
      (contains (st_caps T) ICMP_V4_SEND \<longleftrightarrow> \<not> isl (bo_attach Ob ''trace_ping_v4_sendmsg'') \<and>
        optional_sendmsg_compatibility B ''ping_v4_sendmsg'' = Compatible) \<and>
      (contains (st_caps T) ICMP_V6_SEND \<longleftrightarrow> \<not> isl (bo_attach Ob ''trace_ping_v6_sendmsg'') \<and>
        optional_sendmsg_compatibility B ''ping_v6_sendmsg'' = Compatible))"
  using load_kprobe_caps [of Ob L] load_fentry_caps [of B Ob L] assms core_covers by auto

lemma loaded_backend_covers_witness:
  "\<exists>L. load_kprobe (hs_kprobe sample_system) = Inr L \<and>
     contains (st_caps \<lparr>st_host = Big, st_caps = ld_caps L, st_api = hash_map_api []\<rparr>) ICMP_V4_SEND"
proof -
  obtain L where L: "load_kprobe (hs_kprobe sample_system) = Inr L"
    by (simp add: load_kprobe_def sample_system_def with_context_def kprobe_required_def Let_def)
  from loaded_backend_covers [THEN conjunct1, of "\<lparr>st_host = Big, st_caps = ld_caps L, st_api = hash_map_api []\<rparr>" L
      "hs_kprobe sample_system" "V4 0" True] L
  show ?thesis by (simp add: sample_system_def)
qed

section \<open>Where the code falls short\<close>

text \<open>
  A failing kprobe is named in the reason, the failing return probe on \<open>inet_csk_accept\<close> is not:
  its section prefix \<open>kretprobe/\<close> is not among the prefixes looked for.
\<close>

lemma return_probe_not_named:
  "classify_libbpf_error (map ascii_lower) (\<lambda>c. 97 \<le> c \<and> c \<le> 122)
     [ascii ''attach legacy probe kprobe/udp_sendmsg'', ascii ''No such file or directory (os error 2)'']
       = Some (KprobeAttachFailed (ascii ''udp_sendmsg''))"
  "classify_libbpf_error (map ascii_lower) (\<lambda>c. 97 \<le> c \<and> c \<le> 122)
     [ascii ''attach legacy probe kretprobe/inet_csk_accept'', ascii ''No such file or directory (os error 2)'']
       = Some (KprobeAttachFailed [])"
  by code_simp+

text \<open>
  A connection archived because a new session replaces it keeps the transfer rates it had, while a
  cleanup clears them in the record it archives.
\<close>

lemma replaced_record_keeps_rates:
  assumes "keep_historic (tr_config t)"
  shows "map_of (tr_historic (archive_snapshot k c now t)) (historic_key_of k c) =
      Some ((snapshot_clone c)\<lparr>co_is_historic := True, co_closed_at := Some now\<rparr>)"
    and "co_current_outgoing_rate_bps ((snapshot_clone c)\<lparr>co_is_historic := True, co_closed_at := Some now\<rparr>) =
      co_current_outgoing_rate_bps c"
    and "co_current_outgoing_rate_bps (closed_record now c) = 0"
  using assms
  by (simp_all add: archive_snapshot_def Let_def update_conv' closed_record_def snapshot_clone_def
      del: table_lookup)

text \<open>
  Reading the average round trip is documented to consume the samples; it leaves the tracker as it
  is.
\<close>

lemma average_consumes_nothing: "snd (take_average_rtt inst secs r) = r"
  by (simp add: take_average_rtt_def Let_def)

text \<open>
  A CRYPTO fragment that overlaps what is known by one byte is dropped whole, with the new bytes in
  it.
\<close>

lemma overlap_drops_new_bytes:
  "get_contiguous_data (add_fragments [(0, [1, 2, 3]), (2, [3, 4, 5])] new_reassembler) = Some [1, 2, 3]"
  by (rule overlapping_tail_lost)

end
